(* ===== verification/Prelude.thy ===== *)
theory Prelude
  imports Complex_Main "HOL-Library.Word" "HOL-Library.List_Lexorder"
    "HOL-Library.Char_ord" "HOL-Library.AList"
begin

text \<open>
  What every component of the model shares: the pieces of the JavaScript standard library
  the sources use (string searching and splitting, decimal printing, \<open>Math.round\<close>,
  \<open>Number.prototype.toFixed\<close>), the insertion-ordered object as an association list, and the
  lemmas on sums over a list of keys that the balance invariants rest on.

  Strings are \<^typ>\<open>string\<close>, one character per code unit below 256; the texts of the
  program are ASCII.  A JavaScript number is an \<^typ>\<open>int\<close> where the program keeps an integer
  (amounts, counters, unix time) and an exact \<^typ>\<open>rat\<close> where it computes with fractions
  (gas prices, shilling equivalents); the rounding of binary64 is not modelled.
\<close>

named_theorems body_simps \<open>characterisations of when a transaction body commits\<close>
named_theorems frame_simps \<open>fields an operation leaves unchanged\<close>
named_theorems fn_simps \<open>evaluation of small program functions\<close>

section \<open>Numbers\<close>

definition js_round :: "rat \<Rightarrow> int" where
  \<comment> \<open>\<open>Math.round\<close>: nearest integer, ties towards plus infinity\<close>
  "js_round x = \<lfloor>x + 1 / 2\<rfloor>"

lemma js_round_of_int [simp]: "js_round (of_int n) = n"
  unfolding js_round_def by (rule floor_unique) simp_all

lemma js_round_mono: "x \<le> y \<Longrightarrow> js_round x \<le> js_round y"
  unfolding js_round_def by (rule floor_mono) simp

lemma js_round_error: "\<bar>of_int (js_round x) - x\<bar> \<le> 1 / 2"
proof -
  have "of_int \<lfloor>x + 1 / 2\<rfloor> \<le> x + 1 / 2" and "x + 1 / 2 < of_int \<lfloor>x + 1 / 2\<rfloor> + 1"
    by (rule of_int_floor_le) (use floor_correct [of "x + 1 / 2"] in simp)
  then show ?thesis unfolding js_round_def by linarith
qed

section \<open>Decimal printing\<close>

definition digit_char :: "nat \<Rightarrow> char" where
  "digit_char d = char_of (48 + d)"

fun nat_str :: "nat \<Rightarrow> string" where
  "nat_str n = (if n < 10 then [digit_char n] else nat_str (n div 10) @ [digit_char (n mod 10)])"

declare nat_str.simps [simp del]

definition int_str :: "int \<Rightarrow> string" where
  "int_str i = (if i < 0 then CHR ''-'' # nat_str (nat (- i)) else nat_str (nat i))"

definition pad_start :: "nat \<Rightarrow> char \<Rightarrow> string \<Rightarrow> string" where
  \<comment> \<open>\<open>String.prototype.padStart\<close>\<close>
  "pad_start n c s = replicate (n - length s) c @ s"

lemma length_pad_start: "length s \<le> n \<Longrightarrow> length (pad_start n c s) = n"
  by (simp add: pad_start_def)

definition to_fixed :: "nat \<Rightarrow> rat \<Rightarrow> string" where
  \<comment> \<open>\<open>Number.prototype.toFixed\<close>: the nearest multiple of \<open>10^-f\<close>, the larger magnitude on a tie\<close>
  "to_fixed f x =
     (let n = nat \<lfloor>\<bar>x\<bar> * 10 ^ f + 1 / 2\<rfloor>;
          body = (if f = 0 then nat_str n
                  else nat_str (n div 10 ^ f) @ ''.'' @ pad_start f (CHR ''0'') (nat_str (n mod 10 ^ f)))
      in if x < 0 then CHR ''-'' # body else body)"

lemma digit_char_inj: "d < 10 \<Longrightarrow> e < 10 \<Longrightarrow> digit_char d = digit_char e \<Longrightarrow> d = e"
proof -
  assume d: "d < 10" and e: "e < 10" and eq: "digit_char d = digit_char e"
  have "of_char (digit_char d) = (of_char (digit_char e) :: nat)" using eq by simp
  then show "d = e" using d e by (simp add: digit_char_def of_char_of)
qed

lemma nat_str_nonempty [simp]: "nat_str n \<noteq> []"
  by (subst nat_str.simps) simp

lemma nat_str_digits: "set (nat_str n) \<subseteq> digit_char ` {..<10}"
proof (induction n rule: nat_str.induct)
  case (1 n)
  then show ?case by (subst nat_str.simps) auto
qed

lemma nat_str_inject: "nat_str m = nat_str n \<longleftrightarrow> m = n"
proof (induction m arbitrary: n rule: nat_str.induct)
  case (1 m)
  show ?case
  proof (cases "m < 10"; cases "n < 10")
    assume "m < 10" "n < 10"
    then show ?thesis
      by (auto simp: nat_str.simps [of m] nat_str.simps [of n] dest: digit_char_inj)
  next
    assume a: "\<not> m < 10" "n < 10"
    then have "nat_str m \<noteq> nat_str n"
      by (auto simp: nat_str.simps [of m] nat_str.simps [of n])
    with a show ?thesis by auto
  next
    assume a: "m < 10" "\<not> n < 10"
    then have "nat_str m \<noteq> nat_str n"
      by (auto simp: nat_str.simps [of m] nat_str.simps [of n] dest: sym)
    with a show ?thesis by auto
  next
    assume a: "\<not> m < 10" "\<not> n < 10"
    then have "nat_str m = nat_str n \<longleftrightarrow> m div 10 = n div 10 \<and> m mod 10 = n mod 10"
      using "1" a digit_char_inj [of "m mod 10" "n mod 10"]
      by (auto simp: nat_str.simps [of m] nat_str.simps [of n])
    also have "\<dots> \<longleftrightarrow> m = n" by (metis div_mult_mod_eq)
    finally show ?thesis .
  qed
qed

section \<open>Strings\<close>

definition starts_with :: "'a list \<Rightarrow> 'a list \<Rightarrow> bool" where
  "starts_with p s \<longleftrightarrow> take (length p) s = p"

definition ends_with :: "'a list \<Rightarrow> 'a list \<Rightarrow> bool" where
  "ends_with p s \<longleftrightarrow> length p \<le> length s \<and> drop (length s - length p) s = p"

fun index_of :: "'a list \<Rightarrow> 'a list \<Rightarrow> nat option" where
  "index_of p [] = (if p = [] then Some 0 else None)"
| "index_of p (c # s) = (if starts_with p (c # s) then Some 0 else map_option Suc (index_of p s))"

definition index_of_from :: "'a list \<Rightarrow> 'a list \<Rightarrow> nat \<Rightarrow> nat option" where
  "index_of_from p s i = map_option (\<lambda>k. k + i) (index_of p (drop i s))"

definition str_includes :: "'a list \<Rightarrow> 'a list \<Rightarrow> bool" where
  "str_includes p s \<longleftrightarrow> index_of p s \<noteq> None"

definition slice :: "nat \<Rightarrow> nat \<Rightarrow> 'a list \<Rightarrow> 'a list" where
  "slice i j s = take (j - i) (drop i s)"

fun split_on :: "'a \<Rightarrow> 'a list \<Rightarrow> 'a list list" where
  "split_on d [] = [[]]"
| "split_on d (c # s) =
     (if c = d then [] # split_on d s
      else (case split_on d s of [] \<Rightarrow> [[c]] | p # ps \<Rightarrow> (c # p) # ps))"

fun join_with :: "'a list \<Rightarrow> 'a list list \<Rightarrow> 'a list" where
  "join_with sep [] = []"
| "join_with sep [p] = p"
| "join_with sep (p # q # ps) = p @ sep @ join_with sep (q # ps)"

definition replace_char :: "'a \<Rightarrow> 'a list \<Rightarrow> 'a list \<Rightarrow> 'a list" where
  \<comment> \<open>\<open>replaceAll\<close> of a one-character pattern\<close>
  "replace_char c r s = concat (map (\<lambda>x. if x = c then r else [x]) s)"

definition is_ws :: "char \<Rightarrow> bool" where
  \<comment> \<open>the white space and line terminators that \<open>trim\<close> removes, below code 256\<close>
  "is_ws c \<longleftrightarrow> (let n = (of_char c :: nat) in (9 \<le> n \<and> n \<le> 13) \<or> n = 32 \<or> n = 160)"

definition trim :: "string \<Rightarrow> string" where
  "trim s = rev (dropWhile is_ws (rev (dropWhile is_ws s)))"

definition is_upper :: "char \<Rightarrow> bool" where
  "is_upper c \<longleftrightarrow> (let n = (of_char c :: nat) in 65 \<le> n \<and> n \<le> 90)"

definition is_lower :: "char \<Rightarrow> bool" where
  "is_lower c \<longleftrightarrow> (let n = (of_char c :: nat) in 97 \<le> n \<and> n \<le> 122)"

definition is_digit :: "char \<Rightarrow> bool" where
  "is_digit c \<longleftrightarrow> (let n = (of_char c :: nat) in 48 \<le> n \<and> n \<le> 57)"

definition lower_char :: "char \<Rightarrow> char" where
  "lower_char c = (if is_upper c then char_of ((of_char c :: nat) + 32) else c)"

definition upper_char :: "char \<Rightarrow> char" where
  "upper_char c = (if is_lower c then char_of ((of_char c :: nat) - 32) else c)"

lemma split_on_nonempty [simp]: "split_on d s \<noteq> []"
  by (induction s) (auto split: list.splits)

lemma join_split: "join_with [d] (split_on d s) = s"
proof (induction s)
  case Nil
  then show ?case by simp
next
  case (Cons c s)
  obtain p ps where p: "split_on d s = p # ps" by (metis split_on_nonempty neq_Nil_conv)
  then have "join_with [d] ((c # p) # ps) = c # join_with [d] (p # ps)"
    by (cases ps) simp_all
  with Cons.IH p show ?case by simp
qed

lemma length_split_on: "p \<in> set (split_on d s) \<Longrightarrow> length p \<le> length s"
proof (induction s arbitrary: p)
  case (Cons c s)
  obtain q qs where q: "split_on d s = q # qs" by (metis split_on_nonempty neq_Nil_conv)
  show ?case
    using Cons.prems Cons.IH [of p] Cons.IH [of q] by (auto simp: q split: if_splits)
qed simp

lemma index_of_Some_bound: "index_of p s = Some i \<Longrightarrow> i + length p \<le> length s"
proof (induction s arbitrary: i)
  case (Cons c s)
  show ?case
  proof (cases "starts_with p (c # s)")
    case True
    then have "length (take (length p) (c # s)) = length p" by (simp add: starts_with_def)
    with True Cons.prems show ?thesis by simp
  next
    case False
    with Cons show ?thesis by auto
  qed
qed (simp split: if_splits)

lemma index_of_Some_match: "index_of p s = Some i \<Longrightarrow> take (length p) (drop i s) = p"
proof (induction s arbitrary: i)
  case (Cons c s)
  then show ?case by (auto simp: starts_with_def split: if_splits)
qed (simp split: if_splits)

lemma starts_with_append [simp]: "starts_with p (p @ s)"
  by (simp add: starts_with_def)

section \<open>Objects as insertion-ordered association lists\<close>

text \<open>
  \<open>obj[k] = v\<close> keeps the position of an existing key and appends a new one, which is what
  \<^const>\<open>AList.update\<close> does; \<open>obj[k] ?? d\<close> is a lookup with a default.
\<close>

definition get_or :: "'v \<Rightarrow> ('k \<times> 'v) list \<Rightarrow> 'k \<Rightarrow> 'v" where
  "get_or d m k = (case map_of m k of None \<Rightarrow> d | Some v \<Rightarrow> v)"

lemma get_or_update [simp]: "get_or d (AList.update k v m) k' = (if k' = k then v else get_or d m k')"
  by (simp add: get_or_def update_conv)

lemma set_update_subset: "set (AList.update k v m) \<subseteq> insert (k, v) (set m)"
  by (induction m) auto

section \<open>Sums of a balance map over the list of its keys\<close>

definition sum_over :: "'k list \<Rightarrow> ('k \<Rightarrow> int) \<Rightarrow> int" where
  \<comment> \<open>\<open>Object.values(m).reduce((a, b) => a + b, 0)\<close>\<close>
  "sum_over ks f = sum_list (map f ks)"

lemma sum_over_upd:
  assumes "distinct ks" and "k \<in> set ks"
  shows "sum_over ks (f(k := v)) = sum_over ks f - f k + v"
  using assms
proof (induction ks)
  case (Cons a ks)
  show ?case
  proof (cases "a = k")
    case True
    with Cons.prems have "map (f(k := v)) ks = map f ks" by auto
    then have "sum_list (map (f(k := v)) ks) = sum_list (map f ks)" by (rule arg_cong)
    with True show ?thesis by (simp add: sum_over_def fun_upd_same del: fun_upd_apply)
  next
    case False
    with Cons show ?thesis by (simp add: sum_over_def)
  qed
qed simp

lemma sum_over_nonneg: "(\<And>k. k \<in> set ks \<Longrightarrow> 0 \<le> f k) \<Longrightarrow> 0 \<le> sum_over ks f"
  unfolding sum_over_def by (rule sum_list_nonneg) auto

lemma sum_over_member_le:
  assumes "\<And>k. k \<in> set ks \<Longrightarrow> 0 \<le> f k" and "k \<in> set ks"
  shows "f k \<le> sum_over ks f"
  unfolding sum_over_def using assms by (intro member_le_sum_list) auto

end
