(* ===== verification/Crypto.thy ===== *)
theory Crypto
  imports Prelude
begin

text \<open>
  \<open>web/src/demo/crypto.js\<close>: hexadecimal and byte strings, the 32-byte ABI word, the EIP-712
  digests of tickets, permits and authorisations, addresses, ECDSA recovery and the Ed25519
  voucher.  The curve and hash functions come from the @noble packages, which are not part of
  the repository: they are the fields of the record \<open>host\<close>, an argument of every definition
  that uses them.

  The lemmas show that the byte encodings are faithful: hexadecimal round trips, an ABI word is
  32 bytes long and determines the number it encodes, and the encoded structs bind their fields.
\<close>

type_synonym byte = "8 word"
type_synonym bytes = "8 word list"

section \<open>The functions of the @noble packages and of the host\<close>

text \<open>
  A field of type \<^typ>\<open>'a option\<close> answers \<^term>\<open>None\<close> where the JavaScript function throws.
  \<open>h_num\<close> is \<open>Number.prototype.toString\<close> on non-integers, which prints the shortest decimal
  that reads back as the same binary64 value.
\<close>

record host =
  h_keccak :: "bytes \<Rightarrow> bytes"
  h_pub :: "bytes \<Rightarrow> bytes"
  h_sign :: "bytes \<Rightarrow> bytes \<Rightarrow> bytes"
  h_recover :: "bytes \<Rightarrow> bytes \<Rightarrow> bytes option"
  h_uncompress :: "bytes \<Rightarrow> bytes option"
  h_edpub :: "bytes \<Rightarrow> bytes"
  h_edsign :: "bytes \<Rightarrow> bytes \<Rightarrow> bytes"
  h_edverify :: "bytes \<Rightarrow> bytes \<Rightarrow> bytes \<Rightarrow> bool option"
  h_num :: "rat \<Rightarrow> string"

section \<open>Hexadecimal\<close>

definition hex_char :: "nat \<Rightarrow> char" where
  "hex_char d = (if d < 10 then char_of (48 + d) else char_of (87 + d))"

definition hex_val :: "char \<Rightarrow> nat option" where
  "hex_val c =
     (let n = (of_char c :: nat) in
      if 48 \<le> n \<and> n \<le> 57 then Some (n - 48)
      else if 97 \<le> n \<and> n \<le> 102 then Some (n - 87)
      else if 65 \<le> n \<and> n \<le> 70 then Some (n - 55)
      else None)"

fun nat_hex :: "nat \<Rightarrow> string" where
  \<comment> \<open>\<open>toString(16)\<close>\<close>
  "nat_hex n = (if n < 16 then [hex_char n] else nat_hex (n div 16) @ [hex_char (n mod 16)])"

declare nat_hex.simps [simp del]

fun hex_digits :: "nat \<Rightarrow> string \<Rightarrow> nat option \<Rightarrow> nat option" where
  "hex_digits acc [] r = r"
| "hex_digits acc (c # s) r =
     (case hex_val c of None \<Rightarrow> r | Some d \<Rightarrow> hex_digits (16 * acc + d) s (Some (16 * acc + d)))"

definition parse_hex :: "string \<Rightarrow> int option" where
  \<comment> \<open>\<open>parseInt(s, 16)\<close>, \<^term>\<open>None\<close> for NaN: leading white space, a sign and \<open>0x\<close> are skipped\<close>
  "parse_hex s =
     (let a = dropWhile is_ws s;
          neg = (take 1 a = ''-'');
          b = (if take 1 a = ''-'' \<or> take 1 a = ''+'' then drop 1 a else a);
          c = (if take 2 b = ''0x'' \<or> take 2 b = ''0X'' then drop 2 b else b)
      in map_option (\<lambda>n. if neg then - int n else int n) (hex_digits 0 c None))"

definition byte_hex :: "byte \<Rightarrow> string" where
  "byte_hex b = pad_start 2 (CHR ''0'') (nat_hex (unat b))"

definition bytesToHex :: "bytes \<Rightarrow> string" where
  "bytesToHex bs = ''0x'' @ concat (map byte_hex bs)"

definition byte_of_pair :: "char \<Rightarrow> char \<Rightarrow> byte" where
  \<comment> \<open>storing into a \<open>Uint8Array\<close>: modulo 256, and 0 for NaN\<close>
  "byte_of_pair a b = (case parse_hex [a, b] of None \<Rightarrow> 0 | Some n \<Rightarrow> word_of_int n)"

fun hex_pairs :: "string \<Rightarrow> bytes" where
  "hex_pairs (a # b # s) = byte_of_pair a b # hex_pairs s"
| "hex_pairs s = []"

definition hexToBytes :: "string \<Rightarrow> bytes" where
  "hexToBytes hex = hex_pairs (if starts_with ''0x'' hex then drop 2 hex else hex)"

definition concat_bytes :: "bytes list \<Rightarrow> bytes" where
  "concat_bytes parts = concat parts"

definition utf8_char :: "char \<Rightarrow> bytes" where
  "utf8_char c =
     (let n = (of_char c :: nat) in
      if n < 128 then [of_nat n] else [of_nat (192 + n div 64), of_nat (128 + n mod 64)])"

definition utf8 :: "string \<Rightarrow> bytes" where
  \<comment> \<open>\<open>new TextEncoder().encode\<close> on code units below 256\<close>
  "utf8 s = concat (map utf8_char s)"

definition keccakText :: "host \<Rightarrow> string \<Rightarrow> bytes" where
  "keccakText H text = h_keccak H (utf8 text)"

lemma of_char_hex_char:
  "d < 16 \<Longrightarrow> (of_char (hex_char d) :: nat) = (if d < 10 then 48 + d else 87 + d)"
  by (simp add: hex_char_def of_char_of)

lemma hex_val_hex_char: "d < 16 \<Longrightarrow> hex_val (hex_char d) = Some d"
  by (simp add: hex_val_def of_char_hex_char)

lemma hex_char_plain:
  assumes "d < 16"
  shows "\<not> is_ws (hex_char d)" and "hex_char d \<noteq> CHR ''-''" and "hex_char d \<noteq> CHR ''+''"
    and "hex_char d \<noteq> CHR ''x''" and "hex_char d \<noteq> CHR ''X''"
proof -
  have n: "(of_char (hex_char d) :: nat) \<in> {48..57} \<union> {97..102}"
    using assms by (auto simp: of_char_hex_char)
  show "\<not> is_ws (hex_char d)" using n by (auto simp: is_ws_def Let_def)
  show "hex_char d \<noteq> CHR ''-''" and "hex_char d \<noteq> CHR ''+''"
    and "hex_char d \<noteq> CHR ''x''" and "hex_char d \<noteq> CHR ''X''"
    using n by (auto simp del: of_char_mod_256)
qed

lemma byte_of_hex_chars:
  assumes "h < 16" "l < 16"
  shows "byte_of_pair (hex_char h) (hex_char l) = word_of_nat (16 * h + l)"
  using assms by (simp add: byte_of_pair_def parse_hex_def hex_char_plain hex_val_hex_char)

lemma nat_hex_byte:
  assumes "n < 256"
  shows "pad_start 2 (CHR ''0'') (nat_hex n) = [hex_char (n div 16), hex_char (n mod 16)]"
proof (cases "n < 16")
  case True
  have "char_of (48 :: nat) = CHR ''0''" by code_simp
  with True show ?thesis by (simp add: nat_hex.simps [of n] pad_start_def hex_char_def)
next
  case False
  have "n div 16 < 16" using assms by simp
  with False show ?thesis
    by (simp add: nat_hex.simps [of n] nat_hex.simps [of "n div 16"] pad_start_def)
qed

lemma byte_hex_props: "length (byte_hex b) = 2 \<and> hex_pairs (byte_hex b) = [b]"
proof -
  have lt: "unat b < 256" using unsigned_less [of b] by simp
  then have "unat b div 16 < 16" by simp
  then show ?thesis
    by (simp add: byte_hex_def nat_hex_byte lt byte_of_hex_chars)
qed

lemma hex_pairs_append2: "length s = 2 \<Longrightarrow> hex_pairs (s @ t) = hex_pairs s @ hex_pairs t"
  by (auto simp: numeral_2_eq_2 length_Suc_conv)

lemma hex_pairs_concat: "hex_pairs (concat (map byte_hex bs)) = bs"
  by (induction bs) (simp_all add: hex_pairs_append2 byte_hex_props)

lemma hexToBytes_bytesToHex [simp]: "hexToBytes (bytesToHex bs) = bs"
  by (simp add: hexToBytes_def bytesToHex_def starts_with_def hex_pairs_concat)

lemma bytesToHex_inject [simp]: "bytesToHex as = bytesToHex bs \<longleftrightarrow> as = bs"
  by (metis hexToBytes_bytesToHex)

lemma length_bytesToHex: "length (bytesToHex bs) = 2 + 2 * length bs"
  by (induction bs) (auto simp: bytesToHex_def byte_hex_props)

section \<open>ABI words\<close>

fun uint_bytes :: "nat \<Rightarrow> int \<Rightarrow> bytes \<Rightarrow> bytes" where
  \<comment> \<open>the loop \<open>for (i = 31; i >= 0; i -= 1)\<close>, filling from the last byte\<close>
  "uint_bytes 0 v acc = acc"
| "uint_bytes (Suc i) v acc = uint_bytes i (v div 256) (word_of_int (v mod 256) # acc)"

definition uintWord :: "int \<Rightarrow> bytes" where
  "uintWord value = uint_bytes 32 value []"

definition addressWord :: "string \<Rightarrow> bytes" where
  "addressWord address = concat_bytes [replicate 12 0, hexToBytes address]"

fun bytes_value :: "bytes \<Rightarrow> int" where
  "bytes_value [] = 0"
| "bytes_value (b # bs) = uint b * 256 ^ length bs + bytes_value bs"

lemma length_uint_bytes: "length (uint_bytes n v acc) = n + length acc"
  by (induction n v acc rule: uint_bytes.induct) auto

lemma length_uintWord [simp]: "length (uintWord v) = 32"
  by (simp add: uintWord_def length_uint_bytes)

lemma bytes_value_append: "bytes_value (as @ bs) = bytes_value as * 256 ^ length bs + bytes_value bs"
  by (induction as) (auto simp: algebra_simps power_add)

lemma uint_byte [simp]: "uint (word_of_int (v mod 256) :: byte) = v mod 256"
  by (simp add: uint_word_of_int)

lemma bytes_value_uint_bytes:
  "bytes_value (uint_bytes n v acc) = (v mod 256 ^ n) * 256 ^ length acc + bytes_value acc"
proof (induction n v acc rule: uint_bytes.induct)
  case (2 i v acc)
  have split: "v mod (256 * 256 ^ i) = 256 * (v div 256 mod 256 ^ i) + v mod 256"
    using zmod_zmult2_eq [of "256 ^ i" v 256] by simp
  show ?case using 2 by (simp add: split distrib_left distrib_right mult.assoc mult.left_commute mult.commute)
qed simp

lemma bytes_value_uintWord: "bytes_value (uintWord v) = v mod 2 ^ 256"
  by (simp add: uintWord_def bytes_value_uint_bytes)

lemma uintWord_inject:
  assumes "uintWord v = uintWord v'" and "0 \<le> v" "v < 2 ^ 256" "0 \<le> v'" "v' < 2 ^ 256"
  shows "v = v'"
proof -
  have "v mod 2 ^ 256 = v' mod 2 ^ 256"
    using assms(1) bytes_value_uintWord by metis
  with assms(2-5) show ?thesis by simp
qed

lemma length_addressWord: "length (addressWord a) = 12 + length (hexToBytes a)"
  by (simp add: addressWord_def concat_bytes_def)

lemma addressWord_inject: "addressWord a = addressWord b \<longleftrightarrow> hexToBytes a = hexToBytes b"
  by (simp add: addressWord_def concat_bytes_def)

section \<open>Addresses\<close>

definition checksum :: "host \<Rightarrow> string \<Rightarrow> string" where
  \<comment> \<open>EIP-55: a letter is upper case where the hash of the lower-case address has a nibble of 8 or more\<close>
  "checksum H address =
     (let lower0 = map lower_char address;
          lower = (if starts_with ''0x'' lower0 then drop 2 lower0 else lower0);
          hash = drop 2 (bytesToHex (keccakText H lower))
      in ''0x'' @ map (\<lambda>(h, c). if (case hex_val h of None \<Rightarrow> False | Some d \<Rightarrow> 8 \<le> d) then upper_char c else c)
                    (zip (take 40 hash) (take 40 lower)))"

definition address_of_point :: "host \<Rightarrow> bytes \<Rightarrow> string" where
  "address_of_point H pub = checksum H (bytesToHex (drop 12 (h_keccak H (drop 1 pub))))"

definition addressOf :: "host \<Rightarrow> bytes \<Rightarrow> string" where
  "addressOf H privateKey = address_of_point H (h_pub H privateKey)"

record demo_key =
  dk_label :: string
  dk_secret :: bytes
  dk_address :: string
  dk_edPublic :: string

definition demoKey :: "host \<Rightarrow> string \<Rightarrow> demo_key" where
  "demoKey H label =
     (let secret = keccakText H (''xkoin-demo:'' @ label);
          ed = h_edpub H secret
      in \<lparr>dk_label = label, dk_secret = secret, dk_address = addressOf H secret,
          dk_edPublic = bytesToHex ed\<rparr>)"

section \<open>EIP-712\<close>

definition DOMAIN_TYPE :: string where
  "DOMAIN_TYPE = ''EIP712Domain(string name,string version,uint256 chainId,address verifyingContract)''"

definition TICKET_TYPE :: string where
  "TICKET_TYPE =
     ''Ticket(address client,address nodeAdmin,uint64 sequenceNumber,uint128 cumulativeUnits,uint256 epochExpiry)''"

definition PERMIT_TYPE :: string where
  "PERMIT_TYPE = ''Permit(address owner,address spender,uint256 value,uint256 nonce,uint256 deadline)''"

definition WITHDRAW_TYPE :: string where
  "WITHDRAW_TYPE = ''Withdraw(address client,address to,uint256 amount,uint256 nonce,uint256 deadline)''"

definition TRANSFER_TYPE :: string where
  "TRANSFER_TYPE = ''TransferDeposit(address from,address to,uint256 amount,uint256 nonce,uint256 deadline)''"

record domain =
  dom_name :: string
  dom_version :: string
  dom_chainId :: int
  dom_verifyingContract :: string

record domain_parts =
  dp_typeHash :: bytes
  dp_nameHash :: bytes
  dp_versionHash :: bytes
  dp_encoded :: bytes
  dp_separator :: bytes

definition domainSeparator :: "host \<Rightarrow> domain \<Rightarrow> domain_parts" where
  "domainSeparator H d =
     (let typeHash = keccakText H DOMAIN_TYPE;
          nameHash = keccakText H (dom_name d);
          versionHash = keccakText H (dom_version d);
          encoded = concat_bytes [typeHash, nameHash, versionHash, uintWord (dom_chainId d),
                                  addressWord (dom_verifyingContract d)]
      in \<lparr>dp_typeHash = typeHash, dp_nameHash = nameHash, dp_versionHash = versionHash,
          dp_encoded = encoded, dp_separator = h_keccak H encoded\<rparr>)"

definition finalDigest :: "host \<Rightarrow> bytes \<Rightarrow> bytes \<Rightarrow> bytes \<times> bytes" where
  \<comment> \<open>the pair of the preimage and its digest\<close>
  "finalDigest H separator structHash =
     (let preimage = concat_bytes [[0x19, 0x01], separator, structHash]
      in (preimage, h_keccak H preimage))"

record digest_parts =
  dg_typeHash :: bytes
  dg_encoded :: bytes
  dg_structHash :: bytes
  dg_domain :: domain_parts
  dg_preimage :: bytes
  dg_digest :: bytes

definition struct_digest :: "host \<Rightarrow> bytes \<Rightarrow> bytes \<Rightarrow> domain \<Rightarrow> digest_parts" where
  \<comment> \<open>the common tail of \<open>ticketDigest\<close>, \<open>permitDigest\<close> and \<open>authDigest\<close>\<close>
  "struct_digest H typeHash encoded domain =
     (let structHash = h_keccak H encoded;
          dom = domainSeparator H domain;
          (preimage, digest) = finalDigest H (dp_separator dom) structHash
      in \<lparr>dg_typeHash = typeHash, dg_encoded = encoded, dg_structHash = structHash,
          dg_domain = dom, dg_preimage = preimage, dg_digest = digest\<rparr>)"

definition ticketDigest :: "host \<Rightarrow> string \<Rightarrow> string \<Rightarrow> int \<Rightarrow> int \<Rightarrow> int \<Rightarrow> domain \<Rightarrow> digest_parts" where
  "ticketDigest H client nodeAdmin sequenceNumber cumulativeUnits epochExpiry domain =
     (let typeHash = keccakText H TICKET_TYPE;
          encoded = concat_bytes [typeHash, addressWord client, addressWord nodeAdmin,
                                  uintWord sequenceNumber, uintWord cumulativeUnits, uintWord epochExpiry]
      in struct_digest H typeHash encoded domain)"

definition permitDigest :: "host \<Rightarrow> string \<Rightarrow> string \<Rightarrow> int \<Rightarrow> int \<Rightarrow> int \<Rightarrow> domain \<Rightarrow> digest_parts" where
  "permitDigest H owner spender value nonce deadline domain =
     (let typeHash = keccakText H PERMIT_TYPE;
          encoded = concat_bytes [typeHash, addressWord owner, addressWord spender,
                                  uintWord value, uintWord nonce, uintWord deadline]
      in struct_digest H typeHash encoded domain)"

datatype auth_kind = KWithdraw | KTransfer

definition authDigest :: "host \<Rightarrow> auth_kind \<Rightarrow> string \<Rightarrow> string \<Rightarrow> int \<Rightarrow> int \<Rightarrow> int \<Rightarrow> domain \<Rightarrow> digest_parts" where
  "authDigest H kind from to amount nonce deadline domain =
     (let typeHash = keccakText H (if kind = KWithdraw then WITHDRAW_TYPE else TRANSFER_TYPE);
          encoded = concat_bytes [typeHash, addressWord from, addressWord to,
                                  uintWord amount, uintWord nonce, uintWord deadline]
      in struct_digest H typeHash encoded domain)"

definition channelId :: "host \<Rightarrow> string \<Rightarrow> string \<Rightarrow> string" where
  "channelId H client nodeAdmin =
     bytesToHex (h_keccak H (concat_bytes [hexToBytes client, hexToBytes nodeAdmin]))"

section \<open>secp256k1 signatures\<close>

record ecdsa_sig =
  sig_r :: string
  sig_s :: string
  sig_v :: byte
  sig_signature :: string

definition signDigest :: "host \<Rightarrow> bytes \<Rightarrow> bytes \<Rightarrow> ecdsa_sig" where
  \<comment> \<open>@noble answers recovery byte, r, s; the result is r, s, v with v = 27 + recovery\<close>
  "signDigest H digest secret =
     (let rec = h_sign H digest secret;
          r = slice 1 33 rec;
          s = slice 33 65 rec;
          v = 27 + rec ! 0
      in \<lparr>sig_r = bytesToHex r, sig_s = bytesToHex s, sig_v = v,
          sig_signature = bytesToHex (concat_bytes [r, s, [v]])\<rparr>)"

definition recoverAddress :: "host \<Rightarrow> bytes \<Rightarrow> string \<Rightarrow> string option" where
  "recoverAddress H digest signatureHex =
     (let sig = hexToBytes signatureHex in
      if length sig \<noteq> 65 then None
      else let v = sig ! 64 in
        if v \<noteq> 27 \<and> v \<noteq> 28 then None
        else case h_recover H (concat_bytes [[v - 27], slice 0 64 sig]) digest of
               None \<Rightarrow> None
             | Some pub \<Rightarrow>
                 (case h_uncompress H pub of
                    None \<Rightarrow> None
                  | Some point \<Rightarrow> Some (address_of_point H point)))"

section \<open>The Ed25519 voucher\<close>

datatype js_value = JStr string | JNum int

definition json_char :: "char \<Rightarrow> string" where
  "json_char c =
     (let n = (of_char c :: nat) in
      if n = 34 then [char_of (92::nat), char_of (34::nat)]
      else if n = 92 then [char_of (92::nat), char_of (92::nat)]
      else if n = 8 then [char_of (92::nat), CHR ''b'']
      else if n = 9 then [char_of (92::nat), CHR ''t'']
      else if n = 10 then [char_of (92::nat), CHR ''n'']
      else if n = 12 then [char_of (92::nat), CHR ''f'']
      else if n = 13 then [char_of (92::nat), CHR ''r'']
      else if n < 32 then char_of (92::nat) # ''u'' @ pad_start 4 (CHR ''0'') (nat_hex n)
      else [c])"

definition json_string :: "string \<Rightarrow> string" where
  "json_string s = [char_of (34::nat)] @ concat (map json_char s) @ [char_of (34::nat)]"

fun json_value :: "js_value \<Rightarrow> string" where
  "json_value (JStr s) = json_string s"
| "json_value (JNum i) = int_str i"

definition json_object :: "(string \<times> js_value) list \<Rightarrow> string" where
  "json_object kvs =
     ''{'' @ join_with '','' (map (\<lambda>(k, v). json_string k @ '':'' @ json_value v) kvs) @ ''}''"

type_synonym voucher_obj = "(string \<times> js_value) list"

definition voucherBytes :: "voucher_obj \<Rightarrow> bytes" where
  \<comment> \<open>keys sorted, no white space\<close>
  "voucherBytes voucher = utf8 (json_object (sort_key fst voucher))"

definition signVoucher :: "host \<Rightarrow> voucher_obj \<Rightarrow> bytes \<Rightarrow> bytes \<times> string" where
  "signVoucher H voucher secret =
     (let message = voucherBytes voucher in (message, bytesToHex (h_edsign H message secret)))"

definition verifyVoucher :: "host \<Rightarrow> voucher_obj \<Rightarrow> string \<Rightarrow> string \<Rightarrow> bool" where
  "verifyVoucher H voucher signatureHex publicHex =
     (case h_edverify H (hexToBytes signatureHex) (voucherBytes voucher) (hexToBytes publicHex) of
        None \<Rightarrow> False | Some ok \<Rightarrow> ok)"

definition short_hex :: "string \<Rightarrow> nat \<Rightarrow> nat \<Rightarrow> string" where
  \<comment> \<open>\<open>slice(-0)\<close> is the whole string\<close>
  "short_hex hex head tail =
     (if head + tail + 2 < length hex
      then take head hex @ ''..'' @ (if tail = 0 then hex else drop (length hex - tail) hex)
      else hex)"

lemma length_short_hex:
  "0 < tail \<Longrightarrow>
   length (short_hex hex head tail) = (if head + tail + 2 < length hex then head + tail + 2 else length hex)"
  by (simp add: short_hex_def)

section \<open>The encodings bind their fields\<close>

lemma ticket_encoded_length:
  assumes "length (keccakText H TICKET_TYPE) = 32"
    and "length (hexToBytes client) = 20" and "length (hexToBytes nodeAdmin) = 20"
  shows "length (dg_encoded (ticketDigest H client nodeAdmin sn cu ee d)) = 192"
  using assms
  by (simp add: ticketDigest_def struct_digest_def finalDigest_def Let_def concat_bytes_def length_addressWord)

lemma five_words_inject:
  assumes "addressWord a @ addressWord b @ uintWord x @ uintWord y @ uintWord z =
           addressWord a' @ addressWord b' @ uintWord x' @ uintWord y' @ uintWord z'"
    and "length (hexToBytes a) = 20" "length (hexToBytes b) = 20"
    and "length (hexToBytes a') = 20" "length (hexToBytes b') = 20"
  shows "hexToBytes a = hexToBytes a' \<and> hexToBytes b = hexToBytes b' \<and>
         uintWord x = uintWord x' \<and> uintWord y = uintWord y' \<and> uintWord z = uintWord z'"
  using assms by (simp add: length_addressWord addressWord_inject)

lemma ticket_encoded_inject:
  assumes "dg_encoded (ticketDigest H c n sn cu ee d) = dg_encoded (ticketDigest H c' n' sn' cu' ee' d)"
    and "length (hexToBytes c) = 20" "length (hexToBytes n) = 20"
    and "length (hexToBytes c') = 20" "length (hexToBytes n') = 20"
    and "\<forall>v \<in> {sn, cu, ee, sn', cu', ee'}. 0 \<le> v \<and> v < 2 ^ 256"
  shows "hexToBytes c = hexToBytes c' \<and> hexToBytes n = hexToBytes n' \<and> sn = sn' \<and> cu = cu' \<and> ee = ee'"
proof -
  have w: "hexToBytes c = hexToBytes c' \<and> hexToBytes n = hexToBytes n' \<and>
           uintWord sn = uintWord sn' \<and> uintWord cu = uintWord cu' \<and> uintWord ee = uintWord ee'"
    by (rule five_words_inject)
       (use assms in \<open>simp_all add: ticketDigest_def struct_digest_def finalDigest_def Let_def concat_bytes_def\<close>)
  then show ?thesis using assms(6) by (auto dest!: uintWord_inject)
qed

lemma auth_encoded_inject:
  assumes "dg_encoded (authDigest H k f t am no de d) = dg_encoded (authDigest H k f' t' am' no' de' d)"
    and "length (hexToBytes f) = 20" "length (hexToBytes t) = 20"
    and "length (hexToBytes f') = 20" "length (hexToBytes t') = 20"
    and "\<forall>v \<in> {am, no, de, am', no', de'}. 0 \<le> v \<and> v < 2 ^ 256"
  shows "hexToBytes f = hexToBytes f' \<and> hexToBytes t = hexToBytes t' \<and> am = am' \<and> no = no' \<and> de = de'"
proof -
  have w: "hexToBytes f = hexToBytes f' \<and> hexToBytes t = hexToBytes t' \<and>
           uintWord am = uintWord am' \<and> uintWord no = uintWord no' \<and> uintWord de = uintWord de'"
    by (rule five_words_inject)
       (use assms in \<open>simp_all add: authDigest_def struct_digest_def finalDigest_def Let_def concat_bytes_def\<close>)
  then show ?thesis using assms(6) by (auto dest!: uintWord_inject)
qed

end
