(* ===== verification/Gas.thy ===== *)
theory Gas
  imports Prelude
begin

text \<open>
  \<open>web/src/demo/gas.js\<close>: gas per call with its provenance, the gas a revert burns, the fitted cost
  of a settlement batch, and the conversion of gas to gwei, shillings and dollars.  The decimal
  literals of the source are exact rationals here.  \<open>DEFAULT_PARAMS\<close> of \<open>engine.js\<close> spreads
  \<open>PRICES\<close>, so the record of all parameters is declared here.
\<close>

record gas_info =
  gi_gas :: int
  gi_src :: string
  gi_note :: string

definition gas_entry :: "int \<Rightarrow> string \<Rightarrow> string \<Rightarrow> gas_info" where
  "gas_entry g src note = \<lparr>gi_gas = g, gi_src = src, gi_note = note\<rparr>"

definition FRESH_SLOT_DELTA :: int where
  "FRESH_SLOT_DELTA = 17100"

definition GAS :: "(string \<times> gas_info) list" where
  "GAS =
    [(''setBridge'', gas_entry 48407 ''measured'' ''forge median, 30 calls''),
     (''bridgeMint'', gas_entry 95816 ''measured'' ''forge median, 33 calls''),
     (''bridgeBurn'', gas_entry 33503 ''measured'' ''forge, 1 call''),
     (''approve'', gas_entry 46365 ''measured'' ''forge median, 269 calls''),
     (''permit'', gas_entry 74707 ''measured'' ''forge, 1 call''),
     (''transfer'', gas_entry 51567 ''measured'' ''forge, 1 call''),
     (''transferFrom'', gas_entry 57594 ''probe'' ''approve then relayed transferFrom''),
     (''deposit'', gas_entry 81557 ''measured'' ''forge median, 268 calls, first deposit''),
     (''depositRepeat'', gas_entry 43966 ''probe'' ''second deposit, slots already non-zero''),
     (''depositWithPermit'', gas_entry 110693 ''measured'' ''forge, first deposit with permit''),
     (''withdrawDeposit'', gas_entry 63584 ''measured'' ''forge, 1 call''),
     (''withdrawWithSig'', gas_entry 93358 ''measured'' ''forge max: first use, fresh nonce and recipient slot''),
     (''transferDeposit'', gas_entry 83050 ''measured'' ''forge max: first use, fresh nonce and recipient deposit''),
     (''claimEarnings'', gas_entry 59631 ''measured'' ''forge max, full claim''),
     (''setPricePerUnit'', gas_entry 34861 ''measured'' ''forge max of successful calls''),
     (''claim'', gas_entry 54990 ''measured'' ''forge and chain proof agree''),
     (''setFeeBps'', gas_entry 29788 ''measured'' ''forge max''),
     (''queueBeneficiary'', gas_entry 69752 ''measured'' ''forge''),
     (''activateBeneficiary'', gas_entry 30110 ''measured'' ''forge max''),
     (''cancelBeneficiaryChange'', gas_entry 29501 ''measured'' ''forge max''),
     (''transferOwnership'', gas_entry 47000 ''estimate'' ''one fresh slot plus base, not measured''),
     (''acceptOwnership'', gas_entry 30000 ''estimate'' ''two slot writes, not measured''),
     (''ethTransfer'', gas_entry 21000 ''measured'' ''protocol constant, chain proof'')]"

definition REVERT_GAS :: "(string \<times> int) list" where
  "REVERT_GAS =
    [(''settleTicketBatch'', 27400), (''bridgeMint'', 24353), (''setBridge'', 24428),
     (''claimEarnings'', 29267), (''setPricePerUnit'', 23697), (''setFeeBps'', 23723),
     (''claim'', 27298), (''activateBeneficiary'', 25546), (''cancelBeneficiaryChange'', 25605),
     (''default'', 25000)]"

definition REVERT_GAS_default :: int where
  "REVERT_GAS_default = get_or 0 REVERT_GAS ''default''"

record ticket_shape =
  sh_channelWarm :: bool
  sh_earningsWarm :: bool

fun settle_tickets_gas :: "ticket_shape list \<Rightarrow> int \<Rightarrow> int" where
  \<comment> \<open>the \<open>for\<close> loop of \<open>settleGas\<close>\<close>
  "settle_tickets_gas [] gas = gas"
| "settle_tickets_gas (t # ts) gas =
     settle_tickets_gas ts
       (gas + 59924 - (if sh_channelWarm t then FRESH_SLOT_DELTA else 0)
                    - (if sh_earningsWarm t then FRESH_SLOT_DELTA else 0))"

definition settleGas :: "ticket_shape list \<Rightarrow> bool \<Rightarrow> int" where
  "settleGas tickets treasuryWarm =
     settle_tickets_gas tickets (71467 - (if treasuryWarm then FRESH_SLOT_DELTA else 0))"

record params =
  p_gasPriceGwei :: rat
  p_ethUsd :: rat
  p_usdKes :: rat
  p_l1FeePct :: rat
  p_pricePerUnit :: int
  p_unitBytes :: int
  p_feeBps :: int
  p_mintCapKes :: rat
  p_receiptBytes :: int
  p_onlineCapKes :: rat
  p_offlineCapKes :: rat
  p_epochSeconds :: int
  p_voucherSeconds :: int

definition DEFAULT_PARAMS :: params where
  "DEFAULT_PARAMS =
     \<lparr>p_gasPriceGwei = 6 / 1000, p_ethUsd = 246858 / 100, p_usdKes = 12329 / 100, p_l1FeePct = 0,
      p_pricePerUnit = 500, p_unitBytes = 10000, p_feeBps = 500, p_mintCapKes = 50000,
      p_receiptBytes = 1000000, p_onlineCapKes = 20, p_offlineCapKes = 5,
      p_epochSeconds = 86400, p_voucherSeconds = 86400\<rparr>"

definition gasToKes :: "int \<Rightarrow> params \<Rightarrow> rat" where
  "gasToKes gas p =
     of_int gas * p_gasPriceGwei p * (1 / 10 ^ 9) * p_ethUsd p * p_usdKes p * (1 + p_l1FeePct p / 100)"

definition gasToUsd :: "int \<Rightarrow> params \<Rightarrow> rat" where
  "gasToUsd gas p = of_int gas * p_gasPriceGwei p * (1 / 10 ^ 9) * p_ethUsd p * (1 + p_l1FeePct p / 100)"

definition gasToGwei :: "int \<Rightarrow> params \<Rightarrow> rat" where
  "gasToGwei gas p = of_int gas * p_gasPriceGwei p * (1 + p_l1FeePct p / 100)"

section \<open>The batch cost is linear in the tickets and the warm slots\<close>

definition warm_slots :: "ticket_shape list \<Rightarrow> nat" where
  "warm_slots ts = length (filter sh_channelWarm ts) + length (filter sh_earningsWarm ts)"

lemma settle_tickets_gas_eq:
  "settle_tickets_gas ts g = g + 59924 * int (length ts) - FRESH_SLOT_DELTA * int (warm_slots ts)"
  by (induction ts arbitrary: g) (auto simp: warm_slots_def FRESH_SLOT_DELTA_def)

lemma settleGas_closed:
  "settleGas ts warm = 71467 + 59924 * int (length ts)
     - FRESH_SLOT_DELTA * (int (warm_slots ts) + (if warm then 1 else 0))"
  by (simp add: settleGas_def settle_tickets_gas_eq algebra_simps)

lemma warm_slots_le: "warm_slots ts \<le> 2 * length ts"
proof -
  have "length (filter sh_channelWarm ts) \<le> length ts" and "length (filter sh_earningsWarm ts) \<le> length ts"
    by (rule length_filter_le)+
  then show ?thesis unfolding warm_slots_def by linarith
qed

lemma settleGas_bounds:
  "54367 + 25724 * int (length ts) \<le> settleGas ts warm \<and>
   settleGas ts warm \<le> 71467 + 59924 * int (length ts)"
  using warm_slots_le [of ts] by (auto simp: settleGas_closed FRESH_SLOT_DELTA_def)

lemma gasToKes_gwei: "gasToKes gas p = gasToGwei gas p * (1 / 10 ^ 9) * p_ethUsd p * p_usdKes p"
  by (simp add: gasToKes_def gasToGwei_def)

lemma gasToKes_usd: "gasToKes gas p = gasToUsd gas p * p_usdKes p"
  by (simp add: gasToKes_def gasToUsd_def)

lemma gasToGwei_mono:
  "g \<le> g' \<Longrightarrow> 0 \<le> p_gasPriceGwei p \<Longrightarrow> 0 \<le> p_l1FeePct p \<Longrightarrow> gasToGwei g p \<le> gasToGwei g' p"
  unfolding gasToGwei_def by (intro mult_right_mono) simp_all

end
