(* ===== verification/World.thy ===== *)
theory World
  imports Crypto Gas
begin

text \<open>
  The data of \<open>web/src/demo/engine.js\<close>: the actors, the world record (the three contracts, the
  off-chain parties, the append-only ledger and chain), the ledger entries, and the two views every
  call takes of a world: \<open>metrics\<close> and \<open>invariants\<close>.

  The keys a JavaScript object is indexed with are datatypes: an \<open>actor\<close> for the objects built from
  \<open>ACTORS\<close>, a \<open>holder\<close> for token balances (an actor's wallet, or a contract's), so a read of a
  missing balance cannot be written.  An object used as a dictionary (channels, tickets, gas spent)
  is an association list in insertion order.
\<close>

section \<open>Constants and names\<close>

definition UKES :: int where
  "UKES = 1000000"

definition kes :: "rat \<Rightarrow> int" where
  "kes n = js_round (n * of_int UKES)"

datatype actor = Owner | Kiosk | Relayer | Node | Amina | Baraka | Founder | Mallory

datatype contract = TokenC | EscrowC | TreasuryC

datatype holder = Wallet actor | EscrowAcc | TreasuryAcc

definition ACTORS :: "actor list" where
  "ACTORS = [Owner, Kiosk, Relayer, Node, Amina, Baraka, Founder, Mallory]"

definition HOLDERS :: "holder list" where
  \<comment> \<open>the keys of \<open>token.bal\<close>, in order\<close>
  "HOLDERS = map Wallet ACTORS @ [EscrowAcc, TreasuryAcc]"

fun actor_key :: "actor \<Rightarrow> string" where
  "actor_key Owner = ''owner''"
| "actor_key Kiosk = ''kiosk''"
| "actor_key Relayer = ''relayer''"
| "actor_key Node = ''node''"
| "actor_key Amina = ''amina''"
| "actor_key Baraka = ''baraka''"
| "actor_key Founder = ''founder''"
| "actor_key Mallory = ''mallory''"

fun actor_name :: "actor \<Rightarrow> string" where
  "actor_name Owner = ''Owner multisig''"
| "actor_name Kiosk = ''Kiosk (bridge)''"
| "actor_name Relayer = ''Relayer''"
| "actor_name Node = ''Node admin''"
| "actor_name Amina = ''Amina''"
| "actor_name Baraka = ''Baraka''"
| "actor_name Founder = ''Founder cold key''"
| "actor_name Mallory = ''Mallory''"

fun contract_key :: "contract \<Rightarrow> string" where
  "contract_key TokenC = ''token''"
| "contract_key EscrowC = ''escrow''"
| "contract_key TreasuryC = ''treasury''"

definition nameOf :: "string \<Rightarrow> string" where
  \<comment> \<open>the display name of a key, the key itself when it is unknown\<close>
  "nameOf who =
     get_or who (map (\<lambda>a. (actor_key a, actor_name a)) ACTORS @
                 [(''token'', ''xKoinToken''), (''escrow'', ''xKoinEscrow''), (''treasury'', ''xKoinTreasury'')]) who"

fun holder_key :: "holder \<Rightarrow> string" where
  "holder_key (Wallet a) = actor_key a"
| "holder_key EscrowAcc = ''escrow''"
| "holder_key TreasuryAcc = ''treasury''"

definition chainId :: int where
  "chainId = 31337"

fun contract_addr :: "contract \<Rightarrow> string" where
  "contract_addr TokenC = ''0x5FbDB2315678afecb367f032d93F642f64180aa3''"
| "contract_addr TreasuryC = ''0xe7f1725E7734CE288F8367e1Bb143E90bb3F0512''"
| "contract_addr EscrowC = ''0x9fE46736679d2D9a65F0992F2272dE9f3c7fa6e0''"

definition ESCROW_DOMAIN :: domain where
  "ESCROW_DOMAIN = \<lparr>dom_name = ''xKoinEscrow'', dom_version = ''1'', dom_chainId = chainId,
                    dom_verifyingContract = contract_addr EscrowC\<rparr>"

definition TOKEN_DOMAIN :: domain where
  "TOKEN_DOMAIN = \<lparr>dom_name = ''xKoin'', dom_version = ''1'', dom_chainId = chainId,
                   dom_verifyingContract = contract_addr TokenC\<rparr>"

definition KEYS :: "host \<Rightarrow> actor \<Rightarrow> demo_key" where
  "KEYS H a = demoKey H (actor_key a)"

definition addr :: "host \<Rightarrow> actor \<Rightarrow> string" where
  "addr H a = dk_address (KEYS H a)"

fun holder_addr :: "host \<Rightarrow> holder \<Rightarrow> string" where
  "holder_addr H (Wallet a) = addr H a"
| "holder_addr H EscrowAcc = contract_addr EscrowC"
| "holder_addr H TreasuryAcc = contract_addr TreasuryC"

lemma set_ACTORS: "set ACTORS = UNIV"
  by (auto simp: ACTORS_def intro: actor.exhaust)

lemma actor_in_ACTORS [simp]: "a \<in> set ACTORS"
  by (simp add: set_ACTORS)

lemma distinct_ACTORS [simp]: "distinct ACTORS"
  by (simp add: ACTORS_def)

lemma holder_in_HOLDERS [simp]: "h \<in> set HOLDERS"
  by (cases h) (auto simp: HOLDERS_def)

lemma distinct_HOLDERS [simp]: "distinct HOLDERS"
  by (simp add: HOLDERS_def ACTORS_def)

section \<open>Formatting\<close>

fun group3 :: "string \<Rightarrow> string" where
  \<comment> \<open>the reversed digits of an integer part, with a comma after every third\<close>
  "group3 (a # b # c # d # s) = a # b # c # CHR '','' # group3 (d # s)"
| "group3 s = s"

definition grouped :: "nat \<Rightarrow> string" where
  "grouped n = rev (group3 (rev (nat_str n)))"

fun strip_zeros :: "nat \<Rightarrow> string \<Rightarrow> string" where
  \<comment> \<open>drops zeros from the front of a reversed fraction, keeping \<open>least\<close> digits\<close>
  "strip_zeros least (CHR ''0'' # s) = (if least < length (CHR ''0'' # s) then strip_zeros least s else CHR ''0'' # s)"
| "strip_zeros least s = s"

definition fmt :: "int \<Rightarrow> nat \<Rightarrow> string" where
  \<comment> \<open>micro-KES as shillings: \<open>toLocaleString('en-KE')\<close> with 2 to \<open>digits\<close> decimals, \<open>digits \<le> 6\<close>\<close>
  "fmt ukes digits =
     (let unit = 10 ^ (6 - digits) :: nat;
          n = (nat \<bar>ukes\<bar> + unit div 2) div unit;
          whole = n div 10 ^ digits;
          frac = pad_start digits (CHR ''0'') (nat_str (n mod 10 ^ digits))
      in (if ukes < 0 then ''-'' else '''') @ grouped whole @ ''.'' @ rev (strip_zeros 2 (rev frac)))"

definition locale_num :: "nat \<Rightarrow> nat \<Rightarrow> rat \<Rightarrow> string" where
  \<comment> \<open>\<open>toLocaleString('en-US')\<close> with between \<open>lo\<close> and \<open>hi\<close> fraction digits\<close>
  "locale_num lo hi x =
     (let n = nat \<lfloor>\<bar>x\<bar> * 10 ^ hi + 1 / 2\<rfloor>;
          frac = (if hi = 0 then [] else pad_start hi (CHR ''0'') (nat_str (n mod 10 ^ hi)));
          kept = rev (strip_zeros lo (rev frac))
      in (if x < 0 then ''-'' else []) @ grouped (n div 10 ^ hi) @ (if kept = [] then [] else ''.'' @ kept))"

definition fmtDur :: "int \<Rightarrow> string" where
  \<comment> \<open>\<open>seconds\<close> is an integer at every call\<close>
  "fmtDur seconds =
     (let s = max 0 seconds in
      if 86400 \<le> s then to_fixed (if s mod 86400 \<noteq> 0 then 1 else 0) (of_int s / 86400) @ '' d''
      else if 3600 \<le> s then to_fixed 1 (of_int s / 3600) @ '' h''
      else if 60 \<le> s then int_str (js_round (of_int s / 60)) @ '' min''
      else int_str s @ '' s'')"

definition fmtGwei :: "rat \<Rightarrow> string" where
  "fmtGwei gwei = to_fixed 9 (gwei / 10 ^ 9)"

section \<open>Contract state\<close>

record bridge =
  br_allowed :: bool
  br_cap :: int
  br_minted :: int
  br_windowStart :: int

record token_state =
  tk_owner :: "actor option"
  tk_pendingOwner :: "actor option"
  tk_supply :: int
  tk_bal :: "holder \<Rightarrow> int"
  tk_allow :: "actor \<Rightarrow> holder \<Rightarrow> int option"
  tk_nonces :: "actor \<Rightarrow> int"
  tk_bridges :: "actor \<Rightarrow> bridge option"

record channel =
  ch_lastSequence :: int
  ch_settledUnits :: int
  ch_client :: actor
  ch_nodeAdmin :: actor

record escrow_state =
  es_owner :: "actor option"
  es_pendingOwner :: "actor option"
  es_deposits :: "actor \<Rightarrow> int"
  es_earnings :: "actor \<Rightarrow> int"
  es_channels :: "(string \<times> channel) list"
  es_authNonces :: "actor \<Rightarrow> int"
  es_pricePerUnit :: int
  es_lastPriceChange :: int

record treasury_state =
  tr_owner :: "actor option"
  tr_pendingOwner :: "actor option"
  tr_feeBps :: int
  tr_beneficiary :: "actor option"
  tr_pending :: "actor option"
  tr_activation :: int

section \<open>Off-chain state\<close>

record fiat_state =
  fi_mpesa :: "actor \<Rightarrow> int"
  fi_float :: int

record ticket =
  tt_client :: actor
  tt_nodeAdmin :: actor
  tt_sequenceNumber :: int
  tt_cumulativeUnits :: int
  tt_epochExpiry :: int
  tt_signature :: string
  tt_digest :: string
  tt_signedBy :: actor
  tt_at :: int

record permit =
  pm_owner :: actor
  pm_spender :: holder
  pm_value :: int
  pm_nonce :: int
  pm_deadline :: int
  pm_signature :: string

record auth =
  au_kind :: auth_kind
  au_from :: actor
  au_to :: actor
  au_amount :: int
  au_nonce :: int
  au_deadline :: int
  au_signature :: string

record voucher_rec =
  vo_who :: actor
  vo_address :: string
  vo_amount_ukes :: int
  vo_fiat_ref :: string
  vo_rail :: string
  vo_issued :: int
  vo_expires :: int
  vo_signature :: string

record session =
  se_flow :: string
  se_client :: actor
  se_nodeAdmin :: actor
  se_offline :: bool
  se_targetBytes :: int
  se_bytes :: int
  se_baseUnits :: int
  se_unsettledAtStart :: int
  se_limit :: int
  se_limitReason :: string
  se_lastReceiptBytes :: int
  se_receipts :: nat
  se_throttled :: "string option"
  se_done :: bool
  se_startedAt :: int

record spent =
  sp_gas :: int
  sp_kes :: rat
  sp_txs :: int

section \<open>Ledger entries and blocks\<close>

datatype layer = LChain | LWallet | LKiosk | LNode | LFiat | LTime

fun layer_home :: "layer \<Rightarrow> string" where
  "layer_home LChain = ''chain (EVM)''"
| "layer_home LWallet = ''phone: client wallet''"
| "layer_home LKiosk = ''kiosk server''"
| "layer_home LNode = ''node firmware''"
| "layer_home LFiat = ''M-Pesa''"
| "layer_home LTime = ''clock''"

text \<open>
  The arguments of a call: what \<open>spec.args\<close> and \<open>spec.raw\<close> hold, one constructor per function.
  A destination of \<open>withdrawWithSig\<close> and \<open>transferDeposit\<close> may be missing, which their
  \<open>ZeroAddress\<close> guard checks.
\<close>

datatype args =
    ANone
  | ASetBridge actor bool int
  | ABridgeMint actor int string
  | ABridgeBurn int string
  | AApprove holder int
  | ATransfer actor int
  | ATransferFrom actor actor int
  | APermit actor holder int int string
  | ADeposit int
  | ADepositWithPermit actor int int string
  | AWithdrawDeposit int
  | AWithdrawWithSig actor "actor option" int int string
  | ATransferDeposit actor "actor option" int int string
  | ASettle "ticket list"
  | AClaimEarnings actor int
  | ASetPrice int
  | AClaim
  | ASetFeeBps int
  | AQueueBeneficiary actor
  | AActivateBeneficiary
  | ACancelBeneficiary
  | ATransferOwnership actor
  | AAcceptOwnership
  | ASignTicket actor int
  | ASignPermit holder int
  | ASignAuth auth_kind actor int
  | AStkPush int
  | AB2c actor int
  | AIssueVoucher actor int
  | AVerifyVoucher actor
  | AWarp int
  | AFundGas actor rat

datatype event =
    BridgeSet string bool int
  | Transfer string string int
  | BridgeMint string int string
  | BridgeBurn string int string
  | Approval string string int
  | Deposited string int
  | DepositWithdrawn string int
  | DepositTransferred string string int
  | TicketSettled string string int int int
  | BatchSettled string int int int
  | EarningsClaimed string string int
  | PricePerUnitSet int
  | Claimed string string int
  | FeeBpsSet int
  | BeneficiaryChangeQueued string int
  | BeneficiaryChanged string
  | BeneficiaryChangeCancelled string
  | OwnershipTransferStarted string string
  | OwnershipTransferred "string option" string

datatype result =
    RNone
  | RTicket ticket
  | RPermit permit
  | RAuth auth
  | RString string
  | RVoucher voucher_rec
  | RSettled int int int

record crypto_line =
  cl_label :: string
  cl_value :: string
  cl_input :: "string option"

record diff_line =
  df_key :: string
  df_where :: string
  df_before :: rat
  df_after :: rat
  df_delta :: rat

record invariant_line =
  iv_id :: string
  iv_label :: string
  iv_rule :: string
  iv_ok :: bool
  iv_lhs :: int
  iv_rhs :: int

record tx =
  tx_hash :: string
  tx_from :: string
  tx_to :: string
  tx_nonce :: int
  tx_input :: string
  tx_selector :: "string option"
  tx_signature :: "string option"
  tx_status :: int
  tx_gasUsed :: int
  tx_preimage :: string

record block =
  bk_number :: int
  bk_timestamp :: int
  bk_parentHash :: string
  bk_txHash :: string
  bk_stateRoot :: string
  bk_hash :: string
  bk_headerPreimage :: string
  bk_stateJson :: string
  bk_tx :: tx
  bk_entryId :: int

record entry =
  en_id :: int
  en_t :: int
  en_block :: "int option"
  en_flow :: "string option"
  en_title :: string
  en_fn :: string
  en_contract :: "contract option"
  en_layer :: layer
  en_where :: string
  en_from :: actor
  en_payer :: "actor option"
  en_args :: args
  en_ok :: bool
  en_rejected :: bool
  en_error :: "string option"
  en_gas :: int
  en_gasSrc :: "gas_info option"
  en_kes :: rat
  en_usd :: rat
  en_tx :: "tx option"
  en_blockHash :: "string option"
  en_events :: "event list"
  en_crypto :: "crypto_line list"
  en_notes :: "string list"
  en_diffs :: "diff_line list"
  en_invariants :: "invariant_line list"
  en_say :: string

section \<open>The world\<close>

record world =
  w_params :: params
  w_t :: int
  w_block :: int
  w_deployed :: bool
  w_token :: token_state
  w_escrow :: escrow_state
  w_treasury :: treasury_state
  w_fiat :: fiat_state
  w_eth :: "actor \<Rightarrow> rat"
  w_gasSpent :: "actor \<Rightarrow> spent option"
  w_tickets :: "((actor \<times> actor) \<times> ticket list) list"
  w_permits :: "permit list"
  w_vouchers :: "voucher_rec list"
  w_devices :: "actor \<Rightarrow> bool option"
  w_session :: "session option"
  w_ledger :: "entry list"
  w_blocks :: "block list"
  w_txNonces :: "actor \<Rightarrow> int option"
  w_seq :: int

definition START_TIME :: int where
  "START_TIME = 1790000000"

definition zeroes :: "actor \<Rightarrow> int" where
  "zeroes = (\<lambda>_. 0)"

definition createWorld :: "params \<Rightarrow> world" where
  "createWorld params =
     \<lparr>w_params = params, w_t = START_TIME, w_block = 0, w_deployed = False,
      w_token = \<lparr>tk_owner = None, tk_pendingOwner = None, tk_supply = 0, tk_bal = (\<lambda>_. 0),
                 tk_allow = (\<lambda>_ _. None), tk_nonces = zeroes, tk_bridges = (\<lambda>_. None)\<rparr>,
      w_escrow = \<lparr>es_owner = None, es_pendingOwner = None, es_deposits = zeroes, es_earnings = zeroes,
                  es_channels = [], es_authNonces = zeroes, es_pricePerUnit = 0, es_lastPriceChange = 0\<rparr>,
      w_treasury = \<lparr>tr_owner = None, tr_pendingOwner = None, tr_feeBps = 0, tr_beneficiary = None,
                    tr_pending = None, tr_activation = 0\<rparr>,
      w_fiat = \<lparr>fi_mpesa = zeroes(Amina := kes 2000, Baraka := kes 500), fi_float = 0\<rparr>,
      w_eth = (\<lambda>_. 0)(Owner := 10000000, Kiosk := 10000000, Relayer := 10000000, Node := 5000000,
                       Founder := 1000000, Mallory := 5000000),
      w_gasSpent = (\<lambda>_. None), w_tickets = [], w_permits = [], w_vouchers = [],
      w_devices = [Amina \<mapsto> True, Baraka \<mapsto> True], w_session = None,
      w_ledger = [], w_blocks = [], w_txNonces = (\<lambda>_. None), w_seq = 0\<rparr>"

section \<open>The two views of a world\<close>

definition actor_metrics :: "world \<Rightarrow> actor \<Rightarrow> (string \<times> rat) list" where
  "actor_metrics w k =
     [(actor_key k @ ''.wallet'', of_int (tk_bal (w_token w) (Wallet k))),
      (actor_key k @ ''.escrow'', of_int (es_deposits (w_escrow w) k)),
      (actor_key k @ ''.earnings'', of_int (es_earnings (w_escrow w) k)),
      (actor_key k @ ''.mpesa'', of_int (fi_mpesa (w_fiat w) k)),
      (actor_key k @ ''.eth'', w_eth w k)]"

definition metrics :: "world \<Rightarrow> (string \<times> rat) list" where
  "metrics w =
     concat (map (actor_metrics w) ACTORS) @
     [(''token.supply'', of_int (tk_supply (w_token w))),
      (''escrow.balance'', of_int (tk_bal (w_token w) EscrowAcc)),
      (''treasury.balance'', of_int (tk_bal (w_token w) TreasuryAcc)),
      (''kiosk.float'', of_int (fi_float (w_fiat w)))]"

definition deposits_total :: "world \<Rightarrow> int" where
  "deposits_total w = sum_over ACTORS (es_deposits (w_escrow w))"

definition earnings_total :: "world \<Rightarrow> int" where
  "earnings_total w = sum_over ACTORS (es_earnings (w_escrow w))"

definition held_total :: "world \<Rightarrow> int" where
  "held_total w = sum_over HOLDERS (tk_bal (w_token w))"

definition invariant_row :: "string \<Rightarrow> string \<Rightarrow> string \<Rightarrow> int \<Rightarrow> int \<Rightarrow> invariant_line" where
  "invariant_row i l r a b = \<lparr>iv_id = i, iv_label = l, iv_rule = r, iv_ok = (a = b), iv_lhs = a, iv_rhs = b\<rparr>"

definition invariants :: "world \<Rightarrow> invariant_line list" where
  "invariants w =
     [invariant_row ''solvency'' ''Escrow solvency''
        ''token.balanceOf(escrow) == sum(deposits) + sum(earnings)''
        (tk_bal (w_token w) EscrowAcc) (deposits_total w + earnings_total w),
      invariant_row ''conservation'' ''Supply conservation'' ''sum(balanceOf) == totalSupply''
        (held_total w) (tk_supply (w_token w)),
      invariant_row ''peg'' ''Fiat peg'' ''totalSupply == KES float held by the kiosk''
        (tk_supply (w_token w)) (fi_float (w_fiat w))]"

definition domicile :: "string \<Rightarrow> string" where
  \<comment> \<open>where a balance lives, for the trace; the argument is a key of \<open>metrics\<close>\<close>
  "domicile key =
     (if key = ''token.supply'' then ''chain: xKoinToken.totalSupply()''
      else if key = ''escrow.balance'' then ''chain: xKoinToken.balanceOf(xKoinEscrow)''
      else if key = ''treasury.balance'' then ''chain: xKoinToken.balanceOf(xKoinTreasury)''
      else if key = ''kiosk.float'' then ''M-Pesa: kiosk paybill float (bank)''
      else
        let parts = split_on (CHR ''.'') key;
            who = hd parts;
            what = (if 1 < length parts then parts ! 1 else '''')
        in if what = ''wallet'' then ''chain: xKoinToken.balanceOf('' @ nameOf who @ '')''
           else if what = ''escrow'' then ''chain: xKoinEscrow.deposits('' @ nameOf who @ '')''
           else if what = ''earnings'' then ''chain: xKoinEscrow.earnings('' @ nameOf who @ '')''
           else if what = ''mpesa'' then ''M-Pesa: '' @ nameOf who @ [char_of (39::nat)] @ ''s mobile money account''
           else if what = ''eth'' then ''chain: native ETH balance of '' @ nameOf who
           else key)"

definition diffs_of :: "(string \<times> rat) list \<Rightarrow> (string \<times> rat) list \<Rightarrow> diff_line list" where
  \<comment> \<open>one line per balance that moved; \<open>before\<close> and \<open>after\<close> list the same keys in the same order\<close>
  "diffs_of before after =
     map (\<lambda>((k, b), (_, a)). \<lparr>df_key = k, df_where = domicile k, df_before = b, df_after = a, df_delta = a - b\<rparr>)
       (filter (\<lambda>((_, b), (_, a)). a \<noteq> b) (zip before after))"

section \<open>Invariants as predicates\<close>

definition conserved :: "world \<Rightarrow> bool" where
  "conserved w \<longleftrightarrow> held_total w = tk_supply (w_token w)"

definition solvent :: "world \<Rightarrow> bool" where
  "solvent w \<longleftrightarrow> tk_bal (w_token w) EscrowAcc = deposits_total w + earnings_total w"

definition pegged :: "world \<Rightarrow> bool" where
  "pegged w \<longleftrightarrow> tk_supply (w_token w) = fi_float (w_fiat w)"

definition nonneg :: "world \<Rightarrow> bool" where
  "nonneg w \<longleftrightarrow>
     (\<forall>h. 0 \<le> tk_bal (w_token w) h) \<and> (\<forall>a. 0 \<le> es_deposits (w_escrow w) a) \<and>
     (\<forall>a. 0 \<le> es_earnings (w_escrow w) a)"

lemma invariants_ok:
  "map iv_ok (invariants w) = [solvent w, conserved w, pegged w]"
  by (simp add: invariants_def invariant_row_def solvent_def conserved_def pegged_def)

lemma held_total_split:
  "held_total w = sum_over ACTORS (\<lambda>a. tk_bal (w_token w) (Wallet a)) +
     tk_bal (w_token w) EscrowAcc + tk_bal (w_token w) TreasuryAcc"
  by (simp add: held_total_def HOLDERS_def sum_over_def comp_def)

lemma nonneg_balance_le_supply:
  assumes "conserved w" and "nonneg w"
  shows "tk_bal (w_token w) h \<le> tk_supply (w_token w)"
proof -
  have "tk_bal (w_token w) h \<le> sum_over HOLDERS (tk_bal (w_token w))"
    by (rule sum_over_member_le) (use assms(2) in \<open>auto simp: nonneg_def\<close>)
  with assms(1) show ?thesis by (simp add: conserved_def held_total_def)
qed

lemma createWorld_facts [simp]:
  "w_token (createWorld p) = \<lparr>tk_owner = None, tk_pendingOwner = None, tk_supply = 0, tk_bal = (\<lambda>_. 0),
                 tk_allow = (\<lambda>_ _. None), tk_nonces = zeroes, tk_bridges = (\<lambda>_. None)\<rparr>"
  "w_params (createWorld p) = p" "w_t (createWorld p) = START_TIME" "w_block (createWorld p) = 0"
  "w_ledger (createWorld p) = []" "w_blocks (createWorld p) = []" "w_seq (createWorld p) = 0"
  "w_treasury (createWorld p) = \<lparr>tr_owner = None, tr_pendingOwner = None, tr_feeBps = 0,
      tr_beneficiary = None, tr_pending = None, tr_activation = 0\<rparr>"
  by (simp_all add: createWorld_def)

lemma sum_over_zero [simp]: "sum_over ks (\<lambda>_. 0) = 0"
  by (simp add: sum_over_def sum_list_0)

lemma createWorld_invariants: "conserved (createWorld p) \<and> solvent (createWorld p) \<and> pegged (createWorld p) \<and> nonneg (createWorld p)"
  by (simp add: conserved_def solvent_def pegged_def nonneg_def held_total_def deposits_total_def
      earnings_total_def createWorld_def zeroes_def)

end
