(* ===== verification/Abi.thy ===== *)
theory Abi
  imports Crypto
begin

text \<open>
  \<open>web/src/demo/abi.js\<close>: the Solidity ABI encoder for the types the three contracts use.  Types are
  strings, as in the code, and are split at their top-level commas on demand; \<^term>\<open>None\<close> is a
  thrown error.  The main lemma is the head/tail layout: the head word of a dynamic argument is the
  offset at which its encoding starts.
\<close>

datatype abi_val = AStr string | ANum int | ABool bool | AList "abi_val list" | AUndef

definition abi_nth :: "abi_val \<Rightarrow> nat \<Rightarrow> abi_val" where
  "abi_nth v i = (case v of AList vs \<Rightarrow> (if i < length vs then vs ! i else AUndef) | _ \<Rightarrow> AUndef)"

definition truthy :: "abi_val \<Rightarrow> bool" where
  "truthy v = (case v of AStr s \<Rightarrow> s \<noteq> [] | ANum n \<Rightarrow> n \<noteq> 0 | ABool b \<Rightarrow> b | AList _ \<Rightarrow> True | AUndef \<Rightarrow> False)"

section \<open>Types\<close>

fun split_loop :: "string \<Rightarrow> int \<Rightarrow> string \<Rightarrow> string list \<Rightarrow> string list" where
  "split_loop [] depth cur out = (if cur \<noteq> [] then out @ [cur] else out)"
| "split_loop (ch # s) depth cur out =
     (if ch = CHR '','' \<and> depth = 0 then split_loop s depth [] (out @ [cur])
      else split_loop s (depth + (if ch = CHR ''('' then 1 else 0) - (if ch = CHR '')'' then 1 else 0))
             (cur @ [ch]) out)"

definition splitTuple :: "string \<Rightarrow> string list" where
  "splitTuple ty = split_loop (slice 1 (length ty - 1) ty) 0 [] []"

lemma split_loop_length:
  "t \<in> set (split_loop s d cur out) \<Longrightarrow> t \<in> set out \<or> length t \<le> length cur + length s"
  by (induction s d cur out rule: split_loop.induct) (fastforce split: if_splits)+

lemma splitTuple_length: "t \<in> set (splitTuple ty) \<Longrightarrow> ty \<noteq> [] \<Longrightarrow> length t < length ty"
  unfolding splitTuple_def by (drule split_loop_length) (cases ty, auto simp: slice_def)

lemma starts_paren_nonempty: "starts_with ''('' ty \<Longrightarrow> ty \<noteq> []"
  by (auto simp: starts_with_def)

function isDynamic :: "string \<Rightarrow> bool" where
  "isDynamic ty \<longleftrightarrow>
     (if ty = ''bytes'' \<or> ty = ''string'' \<or> ends_with ''[]'' ty then True
      else if starts_with ''('' ty then \<exists>t \<in> set (splitTuple ty). isDynamic t
      else False)"
  by pat_completeness auto
termination
  by (relation "measure length") (auto intro: splitTuple_length dest: starts_paren_nonempty)

declare isDynamic.simps [simp del]

function zeroOf :: "string \<Rightarrow> abi_val" where
  "zeroOf ty =
     (if starts_with ''('' ty then AList (map zeroOf (splitTuple ty))
      else if ty = ''address'' then AStr ''0x0000000000000000000000000000000000000000''
      else if ty = ''bytes32'' then AStr (''0x'' @ concat (replicate 32 ''00''))
      else ANum 0)"
  by pat_completeness auto
termination
  by (relation "measure length") (auto intro: splitTuple_length dest: starts_paren_nonempty)

declare zeroOf.simps [simp del]

fun all_some :: "'a option list \<Rightarrow> 'a list option" where
  "all_some [] = Some []"
| "all_some (None # xs) = None"
| "all_some (Some x # xs) = map_option (\<lambda>ys. x # ys) (all_some xs)"

section \<open>Encoding\<close>

function encodeStatic :: "string \<Rightarrow> abi_val \<Rightarrow> bytes option" where
  "encodeStatic ty value =
     (if ty = ''address'' then (case value of AStr s \<Rightarrow> Some (addressWord s) | _ \<Rightarrow> None)
      else if ty = ''bool'' then Some (uintWord (if truthy value then 1 else 0))
      else if starts_with ''uint'' ty
        then (case value of ANum n \<Rightarrow> Some (uintWord n) | ABool b \<Rightarrow> Some (uintWord (if b then 1 else 0)) | _ \<Rightarrow> None)
      else if ty = ''bytes32''
        then (case value of
                AStr s \<Rightarrow> (let b = hexToBytes s in
                           if length b = 32 then Some b
                           else if length b \<le> 32 then Some (concat_bytes [b, replicate (32 - length b) 0])
                           else None)
              | _ \<Rightarrow> None)
      else if starts_with ''('' ty
        then map_option concat_bytes
               (all_some (map (\<lambda>(i, t). encodeStatic t (abi_nth value i)) (enumerate 0 (splitTuple ty))))
      else None)"
  by pat_completeness auto
termination
  by (relation "measure (\<lambda>(ty, v). length ty)")
     (auto simp: in_set_enumerate_eq intro!: splitTuple_length dest: starts_paren_nonempty)

declare encodeStatic.simps [simp del]

definition head_size :: "string \<Rightarrow> nat option" where
  \<comment> \<open>what a type occupies in the head: one offset word, or its static encoding\<close>
  "head_size t = (if isDynamic t then Some 32 else map_option length (encodeStatic t (zeroOf t)))"

definition head_sizes :: "string list \<Rightarrow> nat option" where
  "head_sizes types = map_option sum_list (all_some (map head_size types))"

fun max_len :: "string list \<Rightarrow> nat" where
  "max_len [] = 0"
| "max_len (t # ts) = max (length t) (max_len ts)"

lemma max_len_less: "0 < n \<Longrightarrow> (\<And>t. t \<in> set ts \<Longrightarrow> length t < n) \<Longrightarrow> max_len ts < n"
  by (induction ts) auto

lemma max_len_splitTuple: "starts_with ''('' ty \<Longrightarrow> max_len (splitTuple ty) < length ty"
  by (rule max_len_less) (auto dest: starts_paren_nonempty intro: splitTuple_length)

lemma max_len_array: "ends_with ''[]'' ty \<Longrightarrow> max_len (replicate n (take (length ty - 2) ty)) < length ty"
  by (rule max_len_less) (auto simp: ends_with_def)

lemma encode_measures:
  "starts_with ''('' ty \<Longrightarrow> Suc (2 * max_len (splitTuple ty)) < 2 * length ty"
  "ends_with ''[]'' ty \<Longrightarrow> Suc (2 * max_len (replicate n (take (length ty - 2) ty))) < 2 * length ty"
  using max_len_splitTuple [of ty] max_len_array [of ty n] by linarith+

function encodeDynamic :: "string \<Rightarrow> abi_val \<Rightarrow> bytes option"
  and encodeArgs :: "string list \<Rightarrow> abi_val \<Rightarrow> bytes option"
  and encode_loop :: "string list \<Rightarrow> abi_val \<Rightarrow> nat \<Rightarrow> nat \<Rightarrow> bytes list \<Rightarrow> bytes list \<Rightarrow> bytes option"
where
  "encodeDynamic ty value =
     (if ty = ''bytes''
        then (case value of
                AStr s \<Rightarrow> (let data = hexToBytes s; pad = (32 - length data mod 32) mod 32
                           in Some (concat_bytes [uintWord (int (length data)), data, replicate pad 0]))
              | _ \<Rightarrow> None)
      else if ends_with ''[]'' ty
        then (case value of
                AList vs \<Rightarrow> map_option (\<lambda>e. concat_bytes [uintWord (int (length vs)), e])
                             (encodeArgs (replicate (length vs) (take (length ty - 2) ty)) value)
              | _ \<Rightarrow> None)
      else if starts_with ''('' ty then encodeArgs (splitTuple ty) value
      else None)"
| "encodeArgs types values =
     (case head_sizes types of None \<Rightarrow> None | Some headSize \<Rightarrow> encode_loop types values 0 headSize [] [])"
| "encode_loop [] values i headSize heads tails = Some (concat_bytes (heads @ tails))"
| "encode_loop (t # ts) values i headSize heads tails =
     (if isDynamic t
      then (case encodeDynamic t (abi_nth values i) of
              None \<Rightarrow> None
            | Some tail \<Rightarrow> encode_loop ts values (Suc i) (headSize + length tail)
                            (heads @ [uintWord (int headSize)]) (tails @ [tail]))
      else (case encodeStatic t (abi_nth values i) of
              None \<Rightarrow> None
            | Some h \<Rightarrow> encode_loop ts values (Suc i) headSize (heads @ [h]) tails))"
  by pat_completeness auto
termination
  by (relation "measures [\<lambda>x. case x of Inl (ty, v) \<Rightarrow> 2 * length ty
                                 | Inr (Inl (ts, v)) \<Rightarrow> 2 * max_len ts + 1
                                 | Inr (Inr (ts, v, i, n, hs, tls)) \<Rightarrow> 2 * max_len ts + 1,
                          \<lambda>x. case x of Inl (ty, v) \<Rightarrow> 0
                                 | Inr (Inl (ts, v)) \<Rightarrow> Suc (length ts)
                                 | Inr (Inr (ts, v, i, n, hs, tls)) \<Rightarrow> length ts]")
     (auto simp: encode_measures)

declare encodeDynamic.simps [simp del] encodeArgs.simps [simp del]

definition calldata :: "host \<Rightarrow> string \<Rightarrow> abi_val \<Rightarrow> (string \<times> string) option" where
  \<comment> \<open>the selector and the full data, in hexadecimal\<close>
  "calldata H signature values =
     (let start = (case index_of ''('' signature of None \<Rightarrow> length signature - 1 | Some i \<Rightarrow> i);
          types = splitTuple (drop start signature);
          selector = take 4 (keccakText H signature)
      in map_option (\<lambda>e. (bytesToHex selector, bytesToHex (concat_bytes [selector, e])))
           (encodeArgs types values))"

section \<open>The head/tail layout\<close>

lemma encode_loop_parts:
  "encode_loop ts vs i hs heads tails = Some out \<Longrightarrow>
   \<exists>hd tl. out = concat heads @ concat hd @ concat tails @ concat tl \<and>
     length hd = length ts \<and> length tl = length ts \<and>
     (\<forall>k < length ts.
        (isDynamic (ts ! k) \<longrightarrow>
           encodeDynamic (ts ! k) (abi_nth vs (i + k)) = Some (tl ! k) \<and>
           hd ! k = uintWord (int (hs + length (concat (take k tl))))) \<and>
        (\<not> isDynamic (ts ! k) \<longrightarrow>
           tl ! k = [] \<and> encodeStatic (ts ! k) (abi_nth vs (i + k)) = Some (hd ! k)))"
proof (induction ts arbitrary: i hs heads tails)
  case Nil
  then show ?case by (simp add: concat_bytes_def)
next
  case (Cons t ts)
  show ?case
  proof (cases "isDynamic t")
    case True
    with Cons.prems obtain tl0 where e: "encodeDynamic t (abi_nth vs i) = Some tl0"
      and rec: "encode_loop ts vs (Suc i) (hs + length tl0) (heads @ [uintWord (int hs)]) (tails @ [tl0]) = Some out"
      by (auto split: option.splits)
    obtain hd tl where ih: "out = concat (heads @ [uintWord (int hs)]) @ concat hd @ concat (tails @ [tl0]) @ concat tl"
      "length hd = length ts" "length tl = length ts"
      "\<forall>k < length ts. (isDynamic (ts ! k) \<longrightarrow> encodeDynamic (ts ! k) (abi_nth vs (Suc i + k)) = Some (tl ! k) \<and>
           hd ! k = uintWord (int (hs + length tl0 + length (concat (take k tl))))) \<and>
        (\<not> isDynamic (ts ! k) \<longrightarrow> tl ! k = [] \<and> encodeStatic (ts ! k) (abi_nth vs (Suc i + k)) = Some (hd ! k))"
      using Cons.IH [OF rec] by auto
    show ?thesis
      by (rule exI [of _ "uintWord (int hs) # hd"], rule exI [of _ "tl0 # tl"])
         (use ih e True in \<open>auto simp: less_Suc_eq_0_disj add.assoc\<close>)
  next
    case False
    with Cons.prems obtain h where e: "encodeStatic t (abi_nth vs i) = Some h"
      and rec: "encode_loop ts vs (Suc i) hs (heads @ [h]) tails = Some out"
      by (auto split: option.splits)
    obtain hd tl where ih: "out = concat (heads @ [h]) @ concat hd @ concat tails @ concat tl"
      "length hd = length ts" "length tl = length ts"
      "\<forall>k < length ts. (isDynamic (ts ! k) \<longrightarrow> encodeDynamic (ts ! k) (abi_nth vs (Suc i + k)) = Some (tl ! k) \<and>
           hd ! k = uintWord (int (hs + length (concat (take k tl))))) \<and>
        (\<not> isDynamic (ts ! k) \<longrightarrow> tl ! k = [] \<and> encodeStatic (ts ! k) (abi_nth vs (Suc i + k)) = Some (hd ! k))"
      using Cons.IH [OF rec] by auto
    show ?thesis
      by (rule exI [of _ "h # hd"], rule exI [of _ "[] # tl"])
         (use ih e False in \<open>auto simp: less_Suc_eq_0_disj\<close>)
  qed
qed

lemma all_some_eq: "all_some xs = Some ys \<longleftrightarrow> xs = map Some ys"
proof (induction xs arbitrary: ys rule: all_some.induct)
  case (3 x xs)
  then show ?case by (cases ys) auto
qed auto

lemma all_some_map_Some: "all_some (map (Some \<circ> f) xs) = Some (map f xs)"
  by (simp add: all_some_eq)

lemma concat_take_nth:
  "k < length xs \<Longrightarrow> concat xs = concat (take k xs) @ xs ! k @ concat (drop (Suc k) xs)"
  by (metis Cons_nth_drop_Suc append_take_drop_id concat.simps(2) concat_append)

definition static_sized :: "string list \<Rightarrow> abi_val \<Rightarrow> bool" where
  \<comment> \<open>every static argument has the length of its type's zero, as a 20-byte address has\<close>
  "static_sized types values \<longleftrightarrow>
     (\<forall>k < length types. \<not> isDynamic (types ! k) \<longrightarrow>
        map_option length (encodeStatic (types ! k) (abi_nth values k)) = head_size (types ! k))"

lemma head_tail_layout:
  assumes "encodeArgs types values = Some out" and "static_sized types values"
    and "k < length types" and "isDynamic (types ! k)"
  shows "\<exists>tail pos off. encodeDynamic (types ! k) (abi_nth values k) = Some tail \<and>
           head_sizes (take k types) = Some pos \<and>
           take 32 (drop pos out) = uintWord (int off) \<and>
           take (length tail) (drop off out) = tail"
proof -
  from assms(1) obtain hs where hs: "head_sizes types = Some hs"
    and loop: "encode_loop types values 0 hs [] [] = Some out"
    by (auto simp: encodeArgs.simps split: option.splits)
  from encode_loop_parts [OF loop] obtain hd tl where out: "out = concat hd @ concat tl"
    and len: "length hd = length types" "length tl = length types"
    and parts: "\<forall>k < length types.
        (isDynamic (types ! k) \<longrightarrow> encodeDynamic (types ! k) (abi_nth values k) = Some (tl ! k) \<and>
           hd ! k = uintWord (int (hs + length (concat (take k tl))))) \<and>
        (\<not> isDynamic (types ! k) \<longrightarrow> tl ! k = [] \<and> encodeStatic (types ! k) (abi_nth values k) = Some (hd ! k))"
    by auto
  have size: "head_size (types ! j) = Some (length (hd ! j))" if "j < length types" for j
    using parts that assms(2) by (cases "isDynamic (types ! j)") (auto simp: head_size_def static_sized_def)
  have sizes: "map head_size types = map Some (map length hd)"
    by (rule nth_equalityI) (use len size in auto)
  then have "hs = length (concat hd)"
    using hs by (simp add: head_sizes_def length_concat all_some_map_Some)
  have tk: "map head_size (take k types) = map Some (map length (take k hd))"
    by (metis sizes take_map)
  then have pos: "head_sizes (take k types) = Some (length (concat (take k hd)))"
    by (simp add: head_sizes_def length_concat all_some_map_Some)
  have split_hd: "concat hd = concat (take k hd) @ hd ! k @ concat (drop (Suc k) hd)"
    and split_tl: "concat tl = concat (take k tl) @ tl ! k @ concat (drop (Suc k) tl)"
    using assms(3) len by (auto intro: concat_take_nth)
  let ?off = "hs + length (concat (take k tl))"
  have hk: "hd ! k = uintWord (int ?off)" and tlk: "encodeDynamic (types ! k) (abi_nth values k) = Some (tl ! k)"
    using parts assms(3,4) by auto
  have "take 32 (drop (length (concat (take k hd))) out) = uintWord (int ?off)"
    by (simp add: out split_hd hk)
  moreover have "take (length (tl ! k)) (drop ?off out) = tl ! k"
    by (simp add: out \<open>hs = length (concat hd)\<close> split_tl)
  ultimately show ?thesis using pos tlk by blast
qed

lemma encodeDynamic_bytes:
  "encodeDynamic ''bytes'' (AStr s) = Some e \<Longrightarrow>
   length e mod 32 = 0 \<and> take 32 e = uintWord (int (length (hexToBytes s))) \<and>
   take (length (hexToBytes s)) (drop 32 e) = hexToBytes s"
proof -
  assume "encodeDynamic ''bytes'' (AStr s) = Some e"
  then have e: "e = uintWord (int (length (hexToBytes s))) @ hexToBytes s @
                    replicate ((32 - length (hexToBytes s) mod 32) mod 32) 0"
    by (subst (asm) encodeDynamic.simps) (simp only: simp_thms if_True Let_def abi_val.case concat_bytes_def
          option.inject concat.simps append_Nil2 eq_commute [of _ e])
  have pad: "(32 + (n + (32 - n mod 32) mod 32)) mod 32 = 0" for n :: nat
  proof (cases "n mod 32 = 0")
    case False
    define q r where "q = n div 32" and "r = n mod 32"
    have n: "n = 32 * q + r" and r: "r < 32" "r \<noteq> 0"
      using False by (simp_all add: q_def r_def)
    have "(32 - r) mod 32 = 32 - r" using r by simp
    moreover have "32 + (n + (32 - r)) = 32 * (q + 2)" using n r by arith
    ultimately have "32 + (n + (32 - r) mod 32) = 32 * (q + 2)" by (simp only:)
    then show ?thesis by (simp add: r_def [symmetric])
  qed simp
  have "length e = 32 + (length (hexToBytes s) + (32 - length (hexToBytes s) mod 32) mod 32)"
    unfolding e by (simp only: length_append length_uintWord length_replicate)
  with pad have "length e mod 32 = 0" by (simp only:)
  moreover have "take 32 e = uintWord (int (length (hexToBytes s)))"
    and "take (length (hexToBytes s)) (drop 32 e) = hexToBytes s"
    unfolding e by simp_all
  ultimately show ?thesis by blast
qed

end
