(* ===== verification/Narrative.thy ===== *)
theory Narrative
  imports World
begin

text \<open>
  \<open>web/src/demo/narrative.js\<close>: the sentence shown for a ledger entry, built from the values of the
  call, and the plain words for a failure.
\<close>

definition PLAIN_ERRORS :: "(string \<times> string) list" where
  "PLAIN_ERRORS =
    [(''InsufficientDeposit'', ''not enough in the meter''),
     (''InsufficientEarnings'', ''nothing earned to take''),
     (''ERC20InsufficientBalance'', ''not enough in the wallet''),
     (''ERC20InsufficientAllowance'', ''not allowed to move those coins''),
     (''BadAuthorization'', ''signature does not match''),
     (''BadSignature'', ''receipt signature is fake''),
     (''StaleSequence'', ''receipt already paid''),
     (''NoNewUnits'', ''nothing new to pay''),
     (''ExpiredTicket'', ''receipt expired''),
     (''AuthorizationExpired'', ''signature expired''),
     (''ERC2612InvalidSigner'', ''permission signature does not match''),
     (''ERC2612ExpiredSignature'', ''permission expired''),
     (''MintCapExceeded'', ''kiosk hit its daily limit''),
     (''NotBridge'', ''kiosk is not approved''),
     (''NothingToClaim'', ''fee box is empty''),
     (''FeeTooHigh'', ''fee above the 10% cap''),
     (''PriceOutOfBand'', ''price outside the allowed range''),
     (''PriceCooldownActive'', ''price changed less than a day ago''),
     (''TimelockActive'', ''must wait 7 days''),
     (''NotAuthorized'', ''not allowed''),
     (''NoPendingChange'', ''nothing to cancel''),
     (''OwnableUnauthorizedAccount'', ''only the owner may do this''),
     (''STKCancelled'', ''M-Pesa payment cancelled, nothing created''),
     (''B2CFailed'', ''M-Pesa payout failed, coins kept safe''),
     (''MpesaInsufficientFunds'', ''not enough M-Pesa''),
     (''DeviceUnavailable'', ''phone is lost''),
     (''ZeroAmount'', ''amount is zero''),
     (''ZeroAddress'', ''no destination''),
     (''EmptyBatch'', ''no receipts to send''),
     (''VoucherExpired'', ''voucher expired''),
     (''VoucherInvalid'', ''voucher signature is fake''),
     (''NoVoucher'', ''no voucher, top up first'')]"

definition plain_error_of :: "string \<Rightarrow> bool \<Rightarrow> string" where
  "plain_error_of error rejected =
     (if rejected
      then (if str_includes ''holds 0.000000000'' error then ''has no gas money'' else ''cannot pay gas'')
      else let name = hd (split_on (CHR '':'') error) in get_or name PLAIN_ERRORS name)"

definition plainError :: "entry \<Rightarrow> string" where
  "plainError e =
     (case en_error e of None \<Rightarrow> ''''
      | Some err \<Rightarrow> (if err = '''' then '''' else plain_error_of err (en_rejected e)))"

definition replace_first :: "string \<Rightarrow> string \<Rightarrow> string" where
  \<comment> \<open>\<open>s.replace(p, '')\<close>: the first occurrence is removed\<close>
  "replace_first p s =
     (case index_of p s of None \<Rightarrow> s | Some i \<Rightarrow> take i s @ drop (i + length p) s)"

definition say_name :: "string \<Rightarrow> string" where
  "say_name who =
     replace_first '' multisig'' (replace_first '' cold key''
       (replace_first '' admin'' (replace_first '' (bridge)'' (nameOf who))))"

definition say_actor :: "actor \<Rightarrow> string" where
  "say_actor a = say_name (actor_key a)"

definition say_dest :: "actor option \<Rightarrow> string" where
  "say_dest a = (case a of None \<Rightarrow> '''' | Some b \<Rightarrow> say_actor b)"

definition say_kes :: "int \<Rightarrow> string" where
  "say_kes ukes = fmt ukes 4 @ '' KES''"

definition apos :: string where
  "apos = [char_of (39 :: nat)]"

definition quot :: string where
  "quot = [char_of (34 :: nat)]"

definition say_plain :: "string \<Rightarrow> actor \<Rightarrow> string option" where
  \<comment> \<open>the functions called without arguments\<close>
  "say_plain fn from =
     (if fn = ''create:xKoinToken''
        then Some ''The xKoin rulebook goes on the chain: who may create coins, and how coins move.''
      else if fn = ''create:xKoinTreasury''
        then Some ''The fee box goes on the chain. It can only ever pay the founder.''
      else if fn = ''create:xKoinEscrow''
        then Some ''The meter rulebook goes on the chain: deposits, receipts and payouts.''
      else if fn = ''loseDevice''
        then Some (say_actor from @ '' loses their phone. Their money is on the chain, not on the phone.'')
      else if fn = ''restoreFromSeed''
        then Some (say_actor from @ '' types their seed words into a new phone. Same key, same address, same money.'')
      else None)"

definition say_sentence :: "string \<Rightarrow> actor \<Rightarrow> args \<Rightarrow> string option" where
  \<comment> \<open>the table \<open>SAY\<close>; the constructor of the arguments is the function's name\<close>
  "say_sentence fn from a =
     (case a of
        ANone \<Rightarrow> say_plain fn from
      | ASetBridge _ allowed cap \<Rightarrow>
          Some (if allowed then ''The owner lets the kiosk create up to '' @ say_kes cap @ '' a day.''
                else ''The owner switches the kiosk off.'')
      | AStkPush amount \<Rightarrow>
          Some (say_actor from @ '' pays '' @ say_kes amount @ '' by M-Pesa. The shillings now sit with the kiosk.'')
      | ABridgeMint to amount _ \<Rightarrow>
          Some (''The kiosk creates '' @ say_kes amount @ '' for '' @ say_actor to
                @ '', only because M-Pesa confirmed the payment.'')
      | AIssueVoucher to _ \<Rightarrow>
          Some (''The kiosk signs a paper-like note: '' @ say_actor to @ '' paid. A node can check it with no internet.'')
      | AVerifyVoucher who \<Rightarrow>
          Some (''The node checks '' @ say_actor who @ apos @ ''s note against the kiosk'' @ apos @ ''s public key, offline.'')
      | ASignPermit spender value \<Rightarrow>
          Some (say_actor from @ apos @ ''s phone signs: '' @ quot @ say_name (holder_key spender) @ '' may move ''
                @ say_kes value @ '' of mine'' @ quot @ ''. No gas, no chain yet.'')
      | APermit _ _ _ _ _ \<Rightarrow> Some ''The kiosk hands that signed permission to the chain.''
      | ADepositWithPermit client amount _ _ \<Rightarrow>
          Some (say_kes amount @ '' moves from '' @ say_actor client @ apos
                @ ''s wallet into the meter. The kiosk pays the fee.'')
      | ADeposit amount \<Rightarrow> Some (say_actor from @ '' moves '' @ say_kes amount @ '' into the meter.'')
      | ASignTicket _ units \<Rightarrow>
          Some (say_actor from @ apos @ ''s phone signs a receipt: '' @ quot @ int_str units @ '' units used so far''
                @ quot @ ''. It stays with the node.'')
      | ASettle _ \<Rightarrow> Some ''The newest receipt goes to the chain. It pays the node for everything up to that point.''
      | AClaimEarnings to amount \<Rightarrow>
          Some (''The node moves '' @ say_kes amount @ '' of earnings to '' @ say_actor to @ apos @ ''s wallet.'')
      | AClaim \<Rightarrow> Some (say_actor from @ '' presses the fee button. The fee can only go to the founder.'')
      | ASignAuth _ to amount \<Rightarrow>
          Some (say_actor from @ apos @ ''s phone signs: '' @ quot @ ''move '' @ say_kes amount @ '' of my meter to ''
                @ say_actor to @ quot @ ''. The destination is locked in.'')
      | AWithdrawWithSig _ to amount _ _ \<Rightarrow>
          Some (''The kiosk submits the signed unlock. '' @ say_kes amount @ '' leaves the meter for ''
                @ say_dest to @ apos @ ''s wallet.'')
      | ATransferDeposit _ to amount _ _ \<Rightarrow>
          Some (''The kiosk submits the signed transfer. '' @ say_kes amount @ '' of meter credit moves to ''
                @ say_dest to @ ''. No coins move.'')
      | AWithdrawDeposit amount \<Rightarrow>
          Some (say_actor from @ '' unlocks '' @ say_kes amount @ '' and pays the fee from their own gas money.'')
      | ATransfer to amount \<Rightarrow> Some (say_actor from @ '' sends '' @ say_kes amount @ '' to '' @ say_actor to @ ''.'')
      | ATransferFrom owner to amount \<Rightarrow>
          Some (''The kiosk moves '' @ say_kes amount @ '' from '' @ say_actor owner @ '' to '' @ say_actor to
                @ '', as the signed permission allows.'')
      | AApprove spender amount \<Rightarrow>
          Some (say_actor from @ '' allows '' @ say_name (holder_key spender) @ '' to move up to '' @ say_kes amount @ ''.'')
      | AB2c to amount \<Rightarrow>
          Some (''The kiosk pays '' @ say_kes amount @ '' to '' @ say_actor to @ apos @ ''s M-Pesa.'')
      | ABridgeBurn amount _ \<Rightarrow>
          Some (''M-Pesa confirmed the payout, so the kiosk destroys '' @ say_kes amount
                @ ''. Every coin left still has a shilling behind it.'')
      | ASetPrice newPrice \<Rightarrow> Some (''The owner sets the price to '' @ int_str newPrice @ '' micro-KES per 10 KB.'')
      | ASetFeeBps feeBps \<Rightarrow> Some (''The owner sets the fee to '' @ to_fixed 2 (of_int feeBps / 100) @ ''%.'')
      | AQueueBeneficiary new \<Rightarrow>
          Some (''The owner asks to pay fees to '' @ say_actor new @ ''. Nothing changes for 7 days.'')
      | AActivateBeneficiary \<Rightarrow> Some ''Someone tries to finish the fee-receiver change.''
      | ACancelBeneficiary \<Rightarrow> Some (say_actor from @ '' cancels the fee-receiver change.'')
      | ATransferOwnership new \<Rightarrow> Some (''The owner offers ownership to '' @ say_actor new @ ''.'')
      | AAcceptOwnership \<Rightarrow> Some (say_actor from @ '' accepts ownership.'')
      | AFundGas to _ \<Rightarrow> Some (''The kiosk gives '' @ say_actor to @ '' a little gas money.'')
      | AWarp seconds \<Rightarrow> Some (''Time passes: '' @ int_str (js_round (of_int seconds / 3600)) @ '' hours.''))"

definition say :: "entry \<Rightarrow> string" where
  "say e =
     (let base = (case say_sentence (en_fn e) (en_from e) (en_args e) of None \<Rightarrow> en_title e | Some s \<Rightarrow> s)
      in if en_ok e then base else base @ '' Blocked: '' @ plainError e @ ''.'')"

lemma say_failure_suffix: "\<not> en_ok e \<Longrightarrow> \<exists>base. say e = base @ '' Blocked: '' @ plainError e @ ''.''"
  by (simp add: say_def Let_def)

lemma split_on_hd_append:
  "d \<notin> set p \<Longrightarrow> hd (split_on d (p @ d # s)) = p"
proof (induction p)
  case (Cons a p)
  obtain x xs where x: "split_on d (p @ d # s) = x # xs" by (metis split_on_nonempty neq_Nil_conv)
  with Cons show ?case by auto
qed simp

lemma split_on_absent: "d \<notin> set p \<Longrightarrow> split_on d p = [p]"
  by (induction p) auto

lemma plain_error_of_revert:
  assumes "CHR '':'' \<notin> set name"
  shows "plain_error_of (if detail = '''' then name else name @ '': '' @ detail) False = get_or name PLAIN_ERRORS name"
  using assms by (auto simp: plain_error_of_def Let_def split_on_absent split_on_hd_append)

end
