(* ===== verification/Engine.thy ===== *)
theory Engine
  imports World Abi Narrative
begin

text \<open>
  The call wrapper of \<open>web/src/demo/engine.js\<close>: \<open>call\<close> runs a body on a copy of the world, rolls the
  copy back when the body reverts, charges gas, seals on-chain calls into a block (\<open>seal\<close>) and
  appends the ledger entry (\<open>finish\<close>).

  A body is a function from a world and a context (events, notes, cryptographic steps, gas override
  and result collected so far) to either a revert or the new world, with the context it leaves.  The
  context survives a revert, as the mutated \<open>ctx\<close> object does.  An outcome without an entry is a
  thrown \<open>TypeError\<close>: calldata that cannot be encoded; the caller then still holds its old world.
  The wall-clock fields \<open>ms\<close> and \<open>at\<close> of an entry are not modelled.
\<close>

section \<open>Bodies\<close>

record revert =
  rv_name :: string
  rv_detail :: string

definition Revert :: "string \<Rightarrow> string \<Rightarrow> revert" where
  "Revert name detail = \<lparr>rv_name = name, rv_detail = detail\<rparr>"

definition revert_message :: "revert \<Rightarrow> string" where
  "revert_message r = (if rv_detail r \<noteq> '''' then rv_name r @ '': '' @ rv_detail r else rv_name r)"

record ctx =
  cx_events :: "event list"
  cx_crypto :: "crypto_line list"
  cx_notes :: "string list"
  cx_gasOverride :: "gas_info option"
  cx_result :: result

definition ctx0 :: ctx where
  "ctx0 = \<lparr>cx_events = [], cx_crypto = [], cx_notes = [], cx_gasOverride = None, cx_result = RNone\<rparr>"

definition emit :: "event \<Rightarrow> ctx \<Rightarrow> ctx" where
  "emit e c = c\<lparr>cx_events := cx_events c @ [e]\<rparr>"

definition note_line :: "string \<Rightarrow> ctx \<Rightarrow> ctx" where
  "note_line s c = c\<lparr>cx_notes := cx_notes c @ [s]\<rparr>"

definition crypto :: "string \<Rightarrow> string \<Rightarrow> ctx \<Rightarrow> ctx" where
  "crypto l v c = c\<lparr>cx_crypto := cx_crypto c @ [\<lparr>cl_label = l, cl_value = v, cl_input = None\<rparr>]\<rparr>"

definition crypto_in :: "string \<Rightarrow> string \<Rightarrow> string \<Rightarrow> ctx \<Rightarrow> ctx" where
  "crypto_in l v i c = c\<lparr>cx_crypto := cx_crypto c @ [\<lparr>cl_label = l, cl_value = v, cl_input = Some i\<rparr>]\<rparr>"

definition set_result :: "result \<Rightarrow> ctx \<Rightarrow> ctx" where
  "set_result r c = c\<lparr>cx_result := r\<rparr>"

definition override_gas :: "gas_info \<Rightarrow> ctx \<Rightarrow> ctx" where
  "override_gas g c = c\<lparr>cx_gasOverride := Some g\<rparr>"

type_synonym body = "world \<Rightarrow> ctx \<Rightarrow> (revert + world) \<times> ctx"

record spec =
  sc_fn :: string
  sc_contract :: "contract option"
  sc_from :: actor
  sc_layer :: layer
  sc_gasKey :: "string option"
  sc_payer :: "actor option"
  sc_args :: args
  sc_flow :: "string option"
  sc_title :: "string option"
  sc_note :: "string option"

definition chain_spec :: "string \<Rightarrow> contract option \<Rightarrow> actor \<Rightarrow> args \<Rightarrow> string option \<Rightarrow> string option \<Rightarrow> spec" where
  "chain_spec fn contract from args flow title =
     \<lparr>sc_fn = fn, sc_contract = contract, sc_from = from, sc_layer = LChain, sc_gasKey = None, sc_payer = None,
      sc_args = args, sc_flow = flow, sc_title = title, sc_note = None\<rparr>"

definition off_spec :: "string \<Rightarrow> layer \<Rightarrow> actor \<Rightarrow> args \<Rightarrow> string option \<Rightarrow> string option \<Rightarrow> spec" where
  "off_spec fn layer from args flow title =
     \<lparr>sc_fn = fn, sc_contract = None, sc_from = from, sc_layer = layer, sc_gasKey = None, sc_payer = None,
      sc_args = args, sc_flow = flow, sc_title = title, sc_note = None\<rparr>"

definition spec_payer :: "spec \<Rightarrow> actor" where
  "spec_payer sp = (case sc_payer sp of None \<Rightarrow> sc_from sp | Some a \<Rightarrow> a)"

section \<open>Calldata of a call\<close>

definition vrs :: "string \<Rightarrow> abi_val list" where
  "vrs sig =
     (let b = hexToBytes sig in
      [if 64 < length b then ANum (uint (b ! 64)) else AUndef,
       AStr (bytesToHex (slice 0 32 b)), AStr (bytesToHex (slice 32 64 b))])"

definition refHash :: "host \<Rightarrow> string \<Rightarrow> string" where
  "refHash H ref = bytesToHex (keccakText H ref)"

definition dest_val :: "host \<Rightarrow> actor option \<Rightarrow> abi_val" where
  "dest_val H a = (case a of None \<Rightarrow> AUndef | Some b \<Rightarrow> AStr (addr H b))"

definition ticket_val :: "host \<Rightarrow> ticket \<Rightarrow> abi_val" where
  "ticket_val H t = AList [AStr (addr H (tt_client t)), AStr (addr H (tt_nodeAdmin t)),
     ANum (tt_sequenceNumber t), ANum (tt_cumulativeUnits t), ANum (tt_epochExpiry t)]"

definition ABI :: "host \<Rightarrow> args \<Rightarrow> (string \<times> abi_val list) option" where
  \<comment> \<open>the function signature and the argument values; \<^term>\<open>None\<close> for a function that is not in the table\<close>
  "ABI H a =
     (case a of
        ASetBridge b allowed cap \<Rightarrow> Some (''setBridge(address,bool,uint128)'', [AStr (addr H b), ABool allowed, ANum cap])
      | ABridgeMint to amount ref \<Rightarrow> Some (''bridgeMint(address,uint256,bytes32)'', [AStr (addr H to), ANum amount, AStr (refHash H ref)])
      | ABridgeBurn amount ref \<Rightarrow> Some (''bridgeBurn(uint256,bytes32)'', [ANum amount, AStr (refHash H ref)])
      | AApprove spender amount \<Rightarrow> Some (''approve(address,uint256)'', [AStr (holder_addr H spender), ANum amount])
      | ATransfer to amount \<Rightarrow> Some (''transfer(address,uint256)'', [AStr (addr H to), ANum amount])
      | ATransferFrom ow to amount \<Rightarrow> Some (''transferFrom(address,address,uint256)'', [AStr (addr H ow), AStr (addr H to), ANum amount])
      | APermit ow spender val deadline sig \<Rightarrow>
          Some (''permit(address,address,uint256,uint256,uint8,bytes32,bytes32)'',
                [AStr (addr H ow), AStr (holder_addr H spender), ANum val, ANum deadline] @ vrs sig)
      | ADeposit amount \<Rightarrow> Some (''deposit(uint256)'', [ANum amount])
      | ADepositWithPermit client amount deadline sig \<Rightarrow>
          Some (''depositWithPermit(address,uint256,uint256,uint8,bytes32,bytes32)'',
                [AStr (addr H client), ANum amount, ANum deadline] @ vrs sig)
      | AWithdrawDeposit amount \<Rightarrow> Some (''withdrawDeposit(uint256)'', [ANum amount])
      | AWithdrawWithSig client to amount deadline sig \<Rightarrow>
          Some (''withdrawWithSig(address,address,uint256,uint256,bytes)'',
                [AStr (addr H client), dest_val H to, ANum amount, ANum deadline, AStr sig])
      | ATransferDeposit from to amount deadline sig \<Rightarrow>
          Some (''transferDeposit(address,address,uint256,uint256,bytes)'',
                [AStr (addr H from), dest_val H to, ANum amount, ANum deadline, AStr sig])
      | ASettle ts \<Rightarrow>
          Some (''settleTicketBatch((address,address,uint64,uint128,uint256)[],bytes[])'',
                [AList (map (ticket_val H) ts), AList (map (\<lambda>t. AStr (tt_signature t)) ts)])
      | AClaimEarnings to amount \<Rightarrow> Some (''claimEarnings(address,uint256)'', [AStr (addr H to), ANum amount])
      | ASetPrice newPrice \<Rightarrow> Some (''setPricePerUnit(uint256)'', [ANum newPrice])
      | AClaim \<Rightarrow> Some (''claim(address)'', [AStr (contract_addr TokenC)])
      | ASetFeeBps feeBps \<Rightarrow> Some (''setFeeBps(uint16)'', [ANum feeBps])
      | AQueueBeneficiary new \<Rightarrow> Some (''queueBeneficiary(address)'', [AStr (addr H new)])
      | AActivateBeneficiary \<Rightarrow> Some (''activateBeneficiary()'', [])
      | ACancelBeneficiary \<Rightarrow> Some (''cancelBeneficiaryChange()'', [])
      | ATransferOwnership new \<Rightarrow> Some (''transferOwnership(address)'', [AStr (addr H new)])
      | AAcceptOwnership \<Rightarrow> Some (''acceptOwnership()'', [])
      | _ \<Rightarrow> None)"

section \<open>Sealing a block\<close>

definition ZERO32 :: string where
  "ZERO32 = ''0x'' @ concat (replicate 32 ''00'')"

definition ZERO20 :: string where
  "ZERO20 = ''0x'' @ concat (replicate 20 ''00'')"

definition js_num :: "host \<Rightarrow> rat \<Rightarrow> string" where
  "js_num H q = (if of_int \<lfloor>q\<rfloor> = q then int_str \<lfloor>q\<rfloor> else h_num H q)"

definition state_json :: "host \<Rightarrow> (string \<times> rat) list \<Rightarrow> string" where
  "state_json H m =
     ''['' @ join_with '','' (map (\<lambda>(k, v). ''['' @ json_string k @ '','' @ js_num H v @ '']'') (sort_key fst m)) @ '']''"

definition last_hash :: "block list \<Rightarrow> string" where
  "last_hash bs = (if bs = [] then ZERO32 else bk_hash (last bs))"

definition tx_target :: "host \<Rightarrow> spec \<Rightarrow> string option" where
  "tx_target H sp =
     (case sc_contract sp of
        Some c \<Rightarrow> Some (contract_addr c)
      | None \<Rightarrow> (case sc_args sp of AFundGas to _ \<Rightarrow> Some (addr H to) | _ \<Rightarrow> None))"

definition tx_input_of :: "host \<Rightarrow> spec \<Rightarrow> (string option \<times> string option \<times> string) option" where
  \<comment> \<open>signature, selector and input; \<^term>\<open>None\<close> when the encoder throws\<close>
  "tx_input_of H sp =
     (case ABI H (sc_args sp) of
        None \<Rightarrow> Some (None, None, ''0x'')
      | Some (signature, values) \<Rightarrow>
          map_option (\<lambda>(selector, data). (Some signature, Some selector, data)) (calldata H signature (AList values)))"

definition tx_preimage_bytes :: "string \<Rightarrow> string option \<Rightarrow> int \<Rightarrow> string \<Rightarrow> bytes" where
  "tx_preimage_bytes from to nonce input =
     concat_bytes [hexToBytes from, hexToBytes (case to of None \<Rightarrow> ZERO20 | Some a \<Rightarrow> a), uintWord nonce, hexToBytes input]"

definition header_bytes :: "string \<Rightarrow> int \<Rightarrow> int \<Rightarrow> string \<Rightarrow> string \<Rightarrow> bytes" where
  "header_bytes parentHash number timestamp txHash stateRoot =
     concat_bytes [hexToBytes parentHash, uintWord number, uintWord timestamp, hexToBytes txHash, hexToBytes stateRoot]"

definition seal_block :: "host \<Rightarrow> world \<Rightarrow> spec \<Rightarrow> bool \<Rightarrow> int \<Rightarrow> string option \<times> string option \<times> string \<Rightarrow> block" where
  "seal_block H w sp ok gas inp =
     (let (signature, selector, input) = inp;
          from = addr H (spec_payer sp);
          to = tx_target H sp;
          nonce = (case w_txNonces w (spec_payer sp) of None \<Rightarrow> 0 | Some n \<Rightarrow> n);
          txPre = tx_preimage_bytes from to nonce input;
          txHash = bytesToHex (h_keccak H txPre);
          stateJson = state_json H (metrics w);
          stateRoot = bytesToHex (keccakText H stateJson);
          parentHash = last_hash (w_blocks w);
          headerPre = header_bytes parentHash (w_block w) (w_t w) txHash stateRoot;
          hash = bytesToHex (h_keccak H headerPre);
          tx = \<lparr>tx_hash = txHash, tx_from = from, tx_to = (case to of None \<Rightarrow> ''contract creation'' | Some a \<Rightarrow> a),
                tx_nonce = nonce, tx_input = input, tx_selector = selector, tx_signature = signature,
                tx_status = (if ok then 1 else 0), tx_gasUsed = gas, tx_preimage = bytesToHex txPre\<rparr>
      in \<lparr>bk_number = w_block w, bk_timestamp = w_t w, bk_parentHash = parentHash, bk_txHash = txHash,
          bk_stateRoot = stateRoot, bk_hash = hash, bk_headerPreimage = bytesToHex headerPre,
          bk_stateJson = stateJson, bk_tx = tx, bk_entryId = w_seq w\<rparr>)"

definition seal :: "host \<Rightarrow> world \<Rightarrow> spec \<Rightarrow> bool \<Rightarrow> int \<Rightarrow> (world \<times> block) option" where
  "seal H w sp ok gas =
     map_option (\<lambda>inp.
       let block = seal_block H w sp ok gas inp;
           payer = spec_payer sp;
           nonce = (case w_txNonces w payer of None \<Rightarrow> 0 | Some n \<Rightarrow> n)
       in (w\<lparr>w_txNonces := (w_txNonces w)(payer \<mapsto> nonce + 1), w_blocks := w_blocks w @ [block]\<rparr>, block))
       (tx_input_of H sp)"

section \<open>The ledger entry\<close>

record outcome =
  o_world :: world
  o_entry :: "entry option"
  o_result :: result

definition o_ok :: "outcome \<Rightarrow> bool" where
  "o_ok r = (case o_entry r of None \<Rightarrow> False | Some e \<Rightarrow> en_ok e)"

definition make_entry :: "world \<Rightarrow> spec \<Rightarrow> bool \<Rightarrow> bool \<Rightarrow> string option \<Rightarrow> int \<Rightarrow> gas_info option \<Rightarrow>
    (string \<times> rat) list \<Rightarrow> ctx \<Rightarrow> block option \<Rightarrow> entry" where
  "make_entry w sp ok rejected error gas gasSrc before c block =
     (let e = \<lparr>en_id = w_seq w, en_t = w_t w, en_block = map_option bk_number block,
               en_flow = sc_flow sp, en_title = (case sc_title sp of None \<Rightarrow> sc_fn sp | Some t \<Rightarrow> t),
               en_fn = sc_fn sp, en_contract = sc_contract sp, en_layer = sc_layer sp,
               en_where = layer_home (sc_layer sp), en_from = sc_from sp,
               en_payer = (if sc_layer sp = LChain then Some (spec_payer sp) else None),
               en_args = sc_args sp, en_ok = ok, en_rejected = rejected, en_error = error, en_gas = gas,
               en_gasSrc = gasSrc, en_kes = gasToKes gas (w_params w), en_usd = gasToUsd gas (w_params w),
               en_tx = map_option bk_tx block, en_blockHash = map_option bk_hash block,
               en_events = cx_events c, en_crypto = cx_crypto c,
               en_notes = (case sc_note sp of None \<Rightarrow> [] | Some n \<Rightarrow> [n]) @ cx_notes c,
               en_diffs = diffs_of before (metrics w), en_invariants = invariants w, en_say = ''''\<rparr>
      in e\<lparr>en_say := say e\<rparr>)"

definition finish :: "host \<Rightarrow> world \<Rightarrow> spec \<Rightarrow> bool \<Rightarrow> bool \<Rightarrow> string option \<Rightarrow> int \<Rightarrow> gas_info option \<Rightarrow>
    (string \<times> rat) list \<Rightarrow> ctx \<Rightarrow> outcome option" where
  "finish H w0 sp ok rejected error gas gasSrc before c =
     (let w = w0\<lparr>w_seq := w_seq w0 + 1\<rparr> in
      map_option (\<lambda>(w1, block).
          let e = make_entry w1 sp ok rejected error gas gasSrc before c block
          in \<lparr>o_world = w1\<lparr>w_ledger := w_ledger w1 @ [e]\<rparr>, o_entry = Some e, o_result = cx_result c\<rparr>)
        (if sc_layer sp = LChain \<and> \<not> rejected
         then map_option (\<lambda>(w1, b). (w1, Some b)) (seal H w sp ok gas)
         else Some (w, None)))"

section \<open>The call wrapper\<close>

definition start_world :: "spec \<Rightarrow> world \<Rightarrow> world" where
  "start_world sp w =
     (if sc_layer sp = LChain then w\<lparr>w_t := w_t w + 2, w_block := w_block w + 1\<rparr> else w)"

definition gas_of :: "spec \<Rightarrow> bool \<Rightarrow> ctx \<Rightarrow> int \<times> gas_info" where
  \<comment> \<open>the default and revert sources carry no gas field of their own\<close>
  "gas_of sp ok c =
     (let key = (case sc_gasKey sp of None \<Rightarrow> sc_fn sp | Some k \<Rightarrow> k) in
      if ok
      then (case cx_gasOverride c of
              Some g \<Rightarrow> (gi_gas g, g)
            | None \<Rightarrow> (case map_of GAS key of
                         Some g \<Rightarrow> (gi_gas g, g)
                       | None \<Rightarrow> (REVERT_GAS_default, gas_entry 0 ''estimate'' ''no measurement'')))
      else (case map_of REVERT_GAS (sc_fn sp) of
              Some g \<Rightarrow> (g, gas_entry 0 ''measured'' ''gas burned by a revert'')
            | None \<Rightarrow> (REVERT_GAS_default, gas_entry 0 ''estimate'' ''gas burned by a revert'')))"

definition charge :: "world \<Rightarrow> actor \<Rightarrow> int \<Rightarrow> world" where
  "charge w payer gas =
     (let gwei = gasToGwei gas (w_params w);
          s = (case w_gasSpent w payer of None \<Rightarrow> \<lparr>sp_gas = 0, sp_kes = 0, sp_txs = 0\<rparr> | Some s \<Rightarrow> s)
      in w\<lparr>w_eth := (w_eth w)(payer := w_eth w payer - gwei),
           w_gasSpent := (w_gasSpent w)(payer \<mapsto> \<lparr>sp_gas = sp_gas s + gas,
              sp_kes = sp_kes s + gasToKes gas (w_params w), sp_txs = sp_txs s + 1\<rparr>)\<rparr>)"

definition reject_error :: "world \<Rightarrow> actor \<Rightarrow> rat \<Rightarrow> string" where
  "reject_error w payer gwei =
     ''insufficient funds for gas: '' @ nameOf (actor_key payer) @ '' holds '' @ fmtGwei (w_eth w payer)
     @ '' ETH, needs '' @ fmtGwei gwei"

definition thrown :: "world \<Rightarrow> outcome" where
  "thrown w = \<lparr>o_world = w, o_entry = None, o_result = RNone\<rparr>"

definition call :: "host \<Rightarrow> world \<Rightarrow> spec \<Rightarrow> body \<Rightarrow> outcome" where
  "call H world sp body =
     (let w0 = start_world sp world;
          before = metrics world;
          (res, c) = body w0 ctx0;
          ok = (case res of Inl _ \<Rightarrow> False | Inr _ \<Rightarrow> True);
          error = (case res of Inl r \<Rightarrow> Some (revert_message r) | Inr _ \<Rightarrow> None);
          out = (case res of Inl _ \<Rightarrow> world\<lparr>w_t := w_t w0, w_block := w_block w0\<rparr> | Inr w \<Rightarrow> w)
      in case (if sc_layer sp = LChain
               then let (gas, gasSrc) = gas_of sp ok c;
                        payer = spec_payer sp;
                        gwei = gasToGwei gas (w_params out)
                    in if w_eth out payer < gwei
                       then finish H world sp False True (Some (reject_error out payer gwei)) 0 None before c
                       else finish H (charge out payer gas) sp ok False error gas (Some gasSrc) before c
               else finish H out sp ok False error 0 None before c) of
           None \<Rightarrow> thrown world
         | Some r \<Rightarrow> r)"

section \<open>What a call does to a world\<close>

text \<open>
  \<open>core\<close> is the part of a world that only bodies write: everything but the clock, the block
  number, the gas accounts, the nonces, the ledger, the chain and the sequence number.
\<close>

definition core :: "world \<Rightarrow> world" where
  "core w = w\<lparr>w_t := 0, w_block := 0, w_eth := (\<lambda>_. 0), w_gasSpent := (\<lambda>_. None), w_ledger := [],
              w_blocks := [], w_txNonces := (\<lambda>_. None), w_seq := 0\<rparr>"

lemma core_eq_iff:
  "core w = core w' \<longleftrightarrow>
     w_params w = w_params w' \<and> w_deployed w = w_deployed w' \<and> w_token w = w_token w' \<and>
     w_escrow w = w_escrow w' \<and> w_treasury w = w_treasury w' \<and> w_fiat w = w_fiat w' \<and>
     w_tickets w = w_tickets w' \<and> w_permits w = w_permits w' \<and> w_vouchers w = w_vouchers w' \<and>
     w_devices w = w_devices w' \<and> w_session w = w_session w'"
  by (cases w, cases w') (auto simp: core_def)

lemma start_world_fields [simp]:
  "core (start_world sp w) = core w"
  "w_params (start_world sp w) = w_params w" "w_token (start_world sp w) = w_token w"
  "w_escrow (start_world sp w) = w_escrow w" "w_treasury (start_world sp w) = w_treasury w"
  "w_fiat (start_world sp w) = w_fiat w" "w_eth (start_world sp w) = w_eth w"
  "w_tickets (start_world sp w) = w_tickets w" "w_devices (start_world sp w) = w_devices w"
  "w_vouchers (start_world sp w) = w_vouchers w" "w_permits (start_world sp w) = w_permits w"
  "w_blocks (start_world sp w) = w_blocks w" "w_ledger (start_world sp w) = w_ledger w"
  "w_txNonces (start_world sp w) = w_txNonces w" "w_seq (start_world sp w) = w_seq w"
  "w_deployed (start_world sp w) = w_deployed w" "w_session (start_world sp w) = w_session w"
  "w_t (start_world sp w) = (if sc_layer sp = LChain then w_t w + 2 else w_t w)"
  "w_block (start_world sp w) = (if sc_layer sp = LChain then w_block w + 1 else w_block w)"
  by (simp_all add: start_world_def core_def)

lemma charge_fields [simp]:
  "core (charge w a g) = core w" "w_t (charge w a g) = w_t w" "w_block (charge w a g) = w_block w"
  "w_blocks (charge w a g) = w_blocks w" "w_ledger (charge w a g) = w_ledger w"
  "w_seq (charge w a g) = w_seq w" "w_txNonces (charge w a g) = w_txNonces w"
  "w_params (charge w a g) = w_params w"
  "w_eth (charge w a g) = (w_eth w)(a := w_eth w a - gasToGwei g (w_params w))"
  by (simp_all add: charge_def core_def Let_def)

lemma finish_Some:
  assumes "finish H w sp ok rejected error gas gasSrc before c = Some r"
  shows "core (o_world r) = core w" and "w_t (o_world r) = w_t w" and "w_block (o_world r) = w_block w"
    and "w_eth (o_world r) = w_eth w" and "w_seq (o_world r) = w_seq w + 1"
    and "o_ok r = ok" and "o_result r = cx_result c"
    and "\<exists>e. o_entry r = Some e \<and> w_ledger (o_world r) = w_ledger w @ [e] \<and> en_ok e = ok \<and>
             en_rejected e = rejected \<and> en_error e = error \<and> en_id e = w_seq w + 1 \<and> en_events e = cx_events c \<and>
             en_fn e = sc_fn sp \<and> en_gas e = gas"
    and "w_blocks (o_world r) = w_blocks w @
           (if sc_layer sp = LChain \<and> \<not> rejected
            then [seal_block H (w\<lparr>w_seq := w_seq w + 1\<rparr>) sp ok gas (the (tx_input_of H sp))] else [])"
  using assms
  by (auto simp: finish_def Let_def seal_def core_def o_ok_def make_entry_def split: if_splits)

lemma finish_None_iff:
  "finish H w sp ok rejected error gas gasSrc before c = None \<longleftrightarrow>
     sc_layer sp = LChain \<and> \<not> rejected \<and> tx_input_of H sp = None"
  by (auto simp: finish_def Let_def seal_def)

lemma thrown_simps [simp]: "o_world (thrown w) = w" "o_ok (thrown w) = False" "o_entry (thrown w) = None"
  by (simp_all add: thrown_def o_ok_def)

definition payable :: "spec \<Rightarrow> world \<Rightarrow> ctx \<Rightarrow> bool" where
  \<comment> \<open>the payer of a committed call can pay its gas\<close>
  "payable sp w c \<longleftrightarrow> gasToGwei (fst (gas_of sp True c)) (w_params w) \<le> w_eth w (spec_payer sp)"

lemma finish_input:
  "finish H w sp ok rejected error gas gasSrc before c = Some r \<Longrightarrow> sc_layer sp = LChain \<Longrightarrow> \<not> rejected \<Longrightarrow>
   tx_input_of H sp \<noteq> None"
  using finish_None_iff [of H w sp ok rejected error gas gasSrc before c] by auto

lemma call_reverted:
  assumes "body (start_world sp w) ctx0 = (Inl r, c)"
  shows "\<not> o_ok (call H w sp body)"
  using assms
  by (auto simp: call_def Let_def split: option.splits prod.splits dest: finish_Some(6))

lemma call_ok_iff:
  "o_ok (call H w sp body) \<longleftrightarrow>
     (\<exists>w' c. body (start_world sp w) ctx0 = (Inr w', c) \<and>
             (sc_layer sp = LChain \<longrightarrow> payable sp w' c \<and> tx_input_of H sp \<noteq> None))"
proof -
  obtain res c where b: "body (start_world sp w) ctx0 = (res, c)" by (cases "body (start_world sp w) ctx0")
  show ?thesis
  proof (cases res)
    case (Inl r)
    with b call_reverted show ?thesis by fastforce
  next
    case (Inr w')
    show ?thesis
    proof (cases "sc_layer sp = LChain")
      case True
      with b Inr show ?thesis
        by (auto simp: call_def Let_def payable_def not_less finish_None_iff
              split: option.splits prod.splits if_splits dest: finish_Some(6) finish_input)
    next
      case False
      with b Inr show ?thesis
        by (auto simp: call_def Let_def finish_None_iff split: option.splits dest: finish_Some(6))
    qed
  qed
qed

lemma call_commit:
  assumes "o_ok (call H w sp body)"
  obtains w' c where "body (start_world sp w) ctx0 = (Inr w', c)"
    and "core (o_world (call H w sp body)) = core w'" and "w_t (o_world (call H w sp body)) = w_t w'"
    and "o_result (call H w sp body) = cx_result c"
    and "w_eth (o_world (call H w sp body)) =
           (if sc_layer sp = LChain
            then (w_eth w')(spec_payer sp := w_eth w' (spec_payer sp)
                              - gasToGwei (fst (gas_of sp True c)) (w_params w'))
            else w_eth w')"
proof -
  obtain w' c where b: "body (start_world sp w) ctx0 = (Inr w', c)"
    and pay: "sc_layer sp = LChain \<longrightarrow> payable sp w' c \<and> tx_input_of H sp \<noteq> None"
    using assms call_ok_iff by blast
  have e: "\<exists>r. call H w sp body = r \<and>
     (if sc_layer sp = LChain
      then finish H (charge w' (spec_payer sp) (fst (gas_of sp True c))) sp True False None
             (fst (gas_of sp True c)) (Some (snd (gas_of sp True c))) (metrics w) c = Some r
      else finish H w' sp True False None 0 None (metrics w) c = Some r)"
    using pay
    by (auto simp: call_def b Let_def payable_def not_less finish_None_iff split: option.splits prod.splits)
  show ?thesis
    by (rule that [OF b]) (use e in \<open>auto split: if_splits dest: finish_Some(1,2,4,7)\<close>)
qed

lemma call_fail_core:
  assumes "\<not> o_ok (call H w sp body)"
  shows "core (o_world (call H w sp body)) = core w"
proof -
  obtain res c where b: "body (start_world sp w) ctx0 = (res, c)" by (cases "body (start_world sp w) ctx0")
  have core_tb: "core (v\<lparr>w_t := a, w_block := d\<rparr>) = core v" for v a d by (simp add: core_def)
  show ?thesis
    using assms
    by (cases res)
       (auto simp: call_def b Let_def core_tb split: option.splits prod.splits if_splits
             dest: finish_Some(1,6))
qed

text \<open>A call rolls back everything a reverted or rejected body may have touched.\<close>

lemma call_core_cases:
  "(\<exists>w' c. body (start_world sp w) ctx0 = (Inr w', c) \<and> core (o_world (call H w sp body)) = core w') \<or>
   core (o_world (call H w sp body)) = core w"
  by (cases "o_ok (call H w sp body)") (blast elim: call_commit, blast dest: call_fail_core)

end
