(* ===== verification/Token.thy ===== *)
theory Token
  imports Engine
begin

text \<open>
  \<open>xKoinToken\<close> of \<open>web/src/demo/engine.js\<close>: the bridge mint and burn, the ERC-20 moves, allowances and
  the EIP-2612 permit.  One body per function, the call that wraps it, and for each body the lemma
  that says when it commits and what it leaves (collected in \<open>body_simps\<close>).
\<close>

section \<open>Committing and reverting\<close>

definition reverts :: "string \<Rightarrow> string \<Rightarrow> ctx \<Rightarrow> (revert + world) \<times> ctx" where
  "reverts name detail c = (Inl (Revert name detail), c)"

definition commits :: "world \<Rightarrow> ctx \<Rightarrow> (revert + world) \<times> ctx" where
  "commits w c = (Inr w, c)"

lemma fst_reverts [simp]: "fst (reverts n d c) = Inl (Revert n d)"
  by (simp add: reverts_def)

lemma fst_commits [simp]: "fst (commits w c) = Inr w"
  by (simp add: commits_def)

text \<open>
  A predicate that only reads the part of a world the bodies write survives every call whose body
  keeps it: a revert or a rejection rolls back, a commit leaves what the body left.
\<close>

locale core_predicate =
  fixes P :: "world \<Rightarrow> bool"
  assumes core_eq: "core w = core w' \<Longrightarrow> P w \<longleftrightarrow> P w'"
begin

lemma call_preserves:
  assumes "P w"
    and keep: "\<And>w0 c w'. P w0 \<Longrightarrow> core w0 = core w \<Longrightarrow> fst (body w0 c) = Inr w' \<Longrightarrow> P w'"
  shows "P (o_world (call H w sp body))"
  using call_core_cases [of body sp w H]
proof (elim disjE exE conjE)
  fix w' c
  assume b: "body (start_world sp w) ctx0 = (Inr w', c)" and e: "core (o_world (call H w sp body)) = core w'"
  have "P (start_world sp w)" using assms(1) core_eq [of "start_world sp w" w] by simp
  then have "P w'" by (rule keep [of _ ctx0]) (simp_all add: b)
  then show ?thesis using core_eq [OF e] by simp
next
  assume "core (o_world (call H w sp body)) = core w"
  from core_eq [OF this] assms(1) show ?thesis by simp
qed

end

text \<open>
  A family of operations whose well-formed members keep a predicate keeps it along every run.
\<close>

locale invariant_ops =
  fixes exec :: "world \<Rightarrow> 'op \<Rightarrow> world"
    and wf :: "'op \<Rightarrow> bool"
    and P :: "world \<Rightarrow> bool"
  assumes keeps: "P w \<Longrightarrow> wf op \<Longrightarrow> P (exec w op)"
begin

lemma run_keeps: "P w \<Longrightarrow> list_all wf ops \<Longrightarrow> P (foldl exec w ops)"
  by (induction ops arbitrary: w) (auto intro: keeps)

end

section \<open>Shared steps\<close>

definition bal_upd :: "(( holder \<Rightarrow> int) \<Rightarrow> holder \<Rightarrow> int) \<Rightarrow> world \<Rightarrow> world" where
  "bal_upd f w = w\<lparr>w_token := (w_token w)\<lparr>tk_bal := f (tk_bal (w_token w))\<rparr>\<rparr>"

definition moved :: "holder \<Rightarrow> holder \<Rightarrow> int \<Rightarrow> (holder \<Rightarrow> int) \<Rightarrow> holder \<Rightarrow> int" where
  \<comment> \<open>\<open>bal[from] -= amount; bal[to] += amount\<close>\<close>
  "moved from to amount b = (let b1 = b(from := b from - amount) in b1(to := b1 to + amount))"

definition move :: "world \<Rightarrow> holder \<Rightarrow> holder \<Rightarrow> int \<Rightarrow> revert + world" where
  "move x from to amount =
     (if tk_bal (w_token x) from \<ge> amount
      then Inr (bal_upd (moved from to amount) x)
      else Inl (Revert ''ERC20InsufficientBalance''
        (nameOf (holder_key from) @ '' holds '' @ fmt (tk_bal (w_token x) from) 6 @ '' KES, needs '' @ fmt amount 6)))"

definition allowance :: "world \<Rightarrow> actor \<Rightarrow> holder \<Rightarrow> int" where
  "allowance x owner spender = (case tk_allow (w_token x) owner spender of None \<Rightarrow> 0 | Some v \<Rightarrow> v)"

definition set_allow :: "actor \<Rightarrow> holder \<Rightarrow> int \<Rightarrow> world \<Rightarrow> world" where
  "set_allow ow spender v x =
     x\<lparr>w_token := (w_token x)\<lparr>tk_allow := (tk_allow (w_token x))(ow := (tk_allow (w_token x) ow)(spender \<mapsto> v))\<rparr>\<rparr>"

definition spendAllowance :: "world \<Rightarrow> actor \<Rightarrow> holder \<Rightarrow> int \<Rightarrow> revert + world" where
  "spendAllowance x owner spender amount =
     (let current = allowance x owner spender in
      if current \<ge> amount
      then Inr (set_allow owner spender (current - amount) x)
      else Inl (Revert ''ERC20InsufficientAllowance''
        (nameOf (holder_key spender) @ '' may spend '' @ fmt current 6 @ '' KES of '' @ nameOf (actor_key owner)
         @ [char_of (39::nat)] @ ''s'')))"

definition signer_text :: "string option \<Rightarrow> string" where
  "signer_text signer = (case signer of None \<Rightarrow> ''invalid signature'' | Some a \<Rightarrow> a)"

definition permit_digest :: "host \<Rightarrow> world \<Rightarrow> permit \<Rightarrow> bytes" where
  \<comment> \<open>the digest of a permit at the owner's current nonce\<close>
  "permit_digest H x p =
     dg_digest (permitDigest H (addr H (pm_owner p)) (holder_addr H (pm_spender p)) (pm_value p)
                  (tk_nonces (w_token x) (pm_owner p)) (pm_deadline p) TOKEN_DOMAIN)"

definition applyPermit :: "host \<Rightarrow> permit \<Rightarrow> body" where
  "applyPermit H permit x c =
     (if \<not> w_t x \<le> pm_deadline permit then reverts ''ERC2612ExpiredSignature'' '''' c
      else
        let owner = pm_owner permit;
            nonce = tk_nonces (w_token x) owner;
            digest = permit_digest H x permit;
            signer = recoverAddress H digest (pm_signature permit);
            c1 = crypto (''permit digest, nonce '' @ int_str nonce) (bytesToHex digest) c;
            c2 = crypto ''ecrecover(digest, sig)'' (signer_text signer) c1
        in if signer \<noteq> Some (addr H owner)
           then reverts ''ERC2612InvalidSigner'' ''signature does not recover to the owner (nonce already used, or forged)'' c2
           else commits
             (set_allow owner (pm_spender permit) (pm_value permit)
                (x\<lparr>w_token := (w_token x)\<lparr>tk_nonces := (tk_nonces (w_token x))(owner := nonce + 1)\<rparr>\<rparr>))
             (emit (Approval (addr H owner) (holder_addr H (pm_spender permit)) (pm_value permit)) c2))"

definition lift_step :: "(revert + world) \<Rightarrow> (world \<Rightarrow> (revert + world) \<times> ctx) \<Rightarrow> ctx \<Rightarrow> (revert + world) \<times> ctx" where
  \<comment> \<open>go on with the world a step without a context leaves, or pass its revert on\<close>
  "lift_step r k c = (case r of Inl e \<Rightarrow> (Inl e, c) | Inr x \<Rightarrow> k x)"

definition token_owner_guard :: "world \<Rightarrow> actor \<Rightarrow> bool" where
  "token_owner_guard x from \<longleftrightarrow> tk_owner (w_token x) = Some from"

definition not_owner_detail :: "contract \<Rightarrow> actor \<Rightarrow> string" where
  "not_owner_detail c from = nameOf (actor_key from) @ '' is not the '' @ contract_key c @ '' owner''"

section \<open>Bodies and calls\<close>

definition setBridge_body :: "host \<Rightarrow> actor \<Rightarrow> actor \<Rightarrow> bool \<Rightarrow> int \<Rightarrow> body" where
  "setBridge_body H from bridge allowed cap x c =
     (if \<not> token_owner_guard x from then reverts ''OwnableUnauthorizedAccount'' (not_owner_detail TokenC from) c
      else
        let info = (case tk_bridges (w_token x) bridge of
                      None \<Rightarrow> \<lparr>br_allowed = False, br_cap = 0, br_minted = 0, br_windowStart = 0\<rparr>
                    | Some i \<Rightarrow> i)
        in commits
             (x\<lparr>w_token := (w_token x)\<lparr>tk_bridges := (tk_bridges (w_token x))
                  (bridge \<mapsto> info\<lparr>br_allowed := allowed, br_cap := cap\<rparr>)\<rparr>\<rparr>)
             (emit (BridgeSet (addr H bridge) allowed cap) c))"

definition setBridge :: "host \<Rightarrow> world \<Rightarrow> actor \<Rightarrow> actor \<Rightarrow> bool \<Rightarrow> int \<Rightarrow> string option \<Rightarrow> outcome" where
  "setBridge H w from bridge allowed dailyMintCap flow =
     call H w (chain_spec ''setBridge'' (Some TokenC) from (ASetBridge bridge allowed dailyMintCap) flow None)
       (setBridge_body H from bridge allowed dailyMintCap)"

definition open_window :: "int \<Rightarrow> bridge \<Rightarrow> bridge" where
  \<comment> \<open>a mint a day or more after the window opened starts a new one\<close>
  "open_window t info =
     (if t \<ge> br_windowStart info + 86400 then info\<lparr>br_windowStart := t, br_minted := 0\<rparr> else info)"

definition bridgeMint_body :: "host \<Rightarrow> actor \<Rightarrow> actor \<Rightarrow> int \<Rightarrow> string \<Rightarrow> body" where
  "bridgeMint_body H from to amount fiatRef x c =
     (let listed = (case tk_bridges (w_token x) from of None \<Rightarrow> None | Some i \<Rightarrow> if br_allowed i then Some i else None)
      in case listed of
           None \<Rightarrow> reverts ''NotBridge'' (nameOf (actor_key from) @ '' is not a listed bridge'') c
         | Some info0 \<Rightarrow>
             let info = open_window (w_t x) info0 in
             if \<not> br_minted info + amount \<le> br_cap info
             then reverts ''MintCapExceeded''
                    (''window has '' @ fmt (br_cap info - br_minted info) 6 @ '' KES left of '' @ fmt (br_cap info) 6) c
             else
               let tk = w_token x;
                   ref = bytesToHex (keccakText H fiatRef)
               in commits
                    (x\<lparr>w_token := tk\<lparr>
                         tk_bridges := (tk_bridges tk)(from \<mapsto> info\<lparr>br_minted := br_minted info + amount\<rparr>),
                         tk_supply := tk_supply tk + amount,
                         tk_bal := (tk_bal tk)(Wallet to := tk_bal tk (Wallet to) + amount)\<rparr>\<rparr>)
                    (emit (BridgeMint (addr H to) amount ref)
                      (emit (Transfer ''0x0'' (addr H to) amount)
                        (crypto_in ''fiatRef = keccak256(M-Pesa receipt id)'' ref fiatRef c))))"

definition bridgeMint :: "host \<Rightarrow> world \<Rightarrow> actor \<Rightarrow> actor \<Rightarrow> int \<Rightarrow> string \<Rightarrow> string option \<Rightarrow> string option \<Rightarrow> outcome" where
  "bridgeMint H w from to amount fiatRef flow title =
     call H w (chain_spec ''bridgeMint'' (Some TokenC) from (ABridgeMint to amount fiatRef) flow title)
       (bridgeMint_body H from to amount fiatRef)"

definition burn_note :: string where
  "burn_note = ''Burns only the bridge'' @ [char_of (39::nat)] @ ''s own balance. The function takes no account parameter, so no key can burn a user balance.''"

definition bridgeBurn_body :: "host \<Rightarrow> actor \<Rightarrow> int \<Rightarrow> string \<Rightarrow> body" where
  "bridgeBurn_body H from amount fiatRef x c =
     (let tk = w_token x in
      if \<not> (case tk_bridges tk from of None \<Rightarrow> False | Some i \<Rightarrow> br_allowed i) then reverts ''NotBridge'' '''' c
      else if \<not> tk_bal tk (Wallet from) \<ge> amount
      then reverts ''ERC20InsufficientBalance'' (''bridge holds '' @ fmt (tk_bal tk (Wallet from)) 6 @ '' KES'') c
      else commits
             (x\<lparr>w_token := tk\<lparr>tk_bal := (tk_bal tk)(Wallet from := tk_bal tk (Wallet from) - amount),
                              tk_supply := tk_supply tk - amount\<rparr>\<rparr>)
             (note_line burn_note (emit (BridgeBurn (addr H from) amount (bytesToHex (keccakText H fiatRef))) c)))"

definition bridgeBurn :: "host \<Rightarrow> world \<Rightarrow> actor \<Rightarrow> int \<Rightarrow> string \<Rightarrow> string option \<Rightarrow> string option \<Rightarrow> outcome" where
  "bridgeBurn H w from amount fiatRef flow title =
     call H w (chain_spec ''bridgeBurn'' (Some TokenC) from (ABridgeBurn amount fiatRef) flow title)
       (bridgeBurn_body H from amount fiatRef)"

definition approve_body :: "host \<Rightarrow> actor \<Rightarrow> holder \<Rightarrow> int \<Rightarrow> body" where
  "approve_body H from spender amount x c =
     commits (set_allow from spender amount x)
       (emit (Approval (addr H from) (holder_addr H spender) amount) c)"

definition approve :: "host \<Rightarrow> world \<Rightarrow> actor \<Rightarrow> holder \<Rightarrow> int \<Rightarrow> string option \<Rightarrow> outcome" where
  "approve H w from spender amount flow =
     call H w (chain_spec ''approve'' (Some TokenC) from (AApprove spender amount) flow None)
       (approve_body H from spender amount)"

definition transfer_body :: "host \<Rightarrow> actor \<Rightarrow> actor \<Rightarrow> int \<Rightarrow> body" where
  "transfer_body H from to amount x c =
     lift_step (move x (Wallet from) (Wallet to) amount)
       (\<lambda>x1. commits x1 (emit (Transfer (addr H from) (addr H to) amount) c)) c"

definition transfer :: "host \<Rightarrow> world \<Rightarrow> actor \<Rightarrow> actor \<Rightarrow> int \<Rightarrow> string option \<Rightarrow> string option \<Rightarrow> outcome" where
  "transfer H w from to amount flow title =
     call H w (chain_spec ''transfer'' (Some TokenC) from (ATransfer to amount) flow title)
       (transfer_body H from to amount)"

definition transferFrom_body :: "host \<Rightarrow> actor \<Rightarrow> actor \<Rightarrow> actor \<Rightarrow> int \<Rightarrow> body" where
  "transferFrom_body H from owner to amount x c =
     lift_step (spendAllowance x owner (Wallet from) amount)
       (\<lambda>x1. lift_step (move x1 (Wallet owner) (Wallet to) amount)
          (\<lambda>x2. commits x2 (emit (Transfer (addr H owner) (addr H to) amount) c)) c) c"

definition transferFrom :: "host \<Rightarrow> world \<Rightarrow> actor \<Rightarrow> actor \<Rightarrow> actor \<Rightarrow> int \<Rightarrow> string option \<Rightarrow> string option \<Rightarrow> outcome" where
  "transferFrom H w from owner to amount flow title =
     call H w (chain_spec ''transferFrom'' (Some TokenC) from (ATransferFrom owner to amount) flow title)
       (transferFrom_body H from owner to amount)"

definition permit :: "host \<Rightarrow> world \<Rightarrow> actor \<Rightarrow> permit \<Rightarrow> string option \<Rightarrow> string option \<Rightarrow> outcome" where
  "permit H w from p flow title =
     call H w (chain_spec ''permit'' (Some TokenC) from
                 (APermit (pm_owner p) (pm_spender p) (pm_value p) (pm_deadline p) (pm_signature p)) flow title)
       (applyPermit H p)"

section \<open>When a body commits\<close>

lemma fst_lift_step [simp]:
  "fst (lift_step r k c) = Inr w' \<longleftrightarrow> (\<exists>x. r = Inr x \<and> fst (k x) = Inr w')"
  by (simp add: lift_step_def split: sum.splits)

lemma move_Inr [simp]:
  "move x from to amount = Inr x' \<longleftrightarrow> amount \<le> tk_bal (w_token x) from \<and> x' = bal_upd (moved from to amount) x"
  by (auto simp: move_def)

lemma spendAllowance_Inr [simp]:
  "spendAllowance x ow sp amount = Inr x' \<longleftrightarrow>
     amount \<le> allowance x ow sp \<and> x' = set_allow ow sp (allowance x ow sp - amount) x"
  by (auto simp: spendAllowance_def Let_def)

lemma bal_upd_fields [simp]:
  "tk_bal (w_token (bal_upd f w)) = f (tk_bal (w_token w))"
  "tk_supply (w_token (bal_upd f w)) = tk_supply (w_token w)"
  "tk_nonces (w_token (bal_upd f w)) = tk_nonces (w_token w)"
  "tk_bridges (w_token (bal_upd f w)) = tk_bridges (w_token w)"
  "tk_allow (w_token (bal_upd f w)) = tk_allow (w_token w)"
  "tk_owner (w_token (bal_upd f w)) = tk_owner (w_token w)"
  "w_escrow (bal_upd f w) = w_escrow w" "w_treasury (bal_upd f w) = w_treasury w"
  "w_fiat (bal_upd f w) = w_fiat w" "w_t (bal_upd f w) = w_t w" "w_params (bal_upd f w) = w_params w"
  "w_eth (bal_upd f w) = w_eth w" "w_devices (bal_upd f w) = w_devices w" "w_tickets (bal_upd f w) = w_tickets w"
  by (simp_all add: bal_upd_def)

lemma set_allow_fields [simp]:
  "tk_bal (w_token (set_allow ow s v w)) = tk_bal (w_token w)"
  "tk_supply (w_token (set_allow ow s v w)) = tk_supply (w_token w)"
  "tk_nonces (w_token (set_allow ow s v w)) = tk_nonces (w_token w)"
  "tk_bridges (w_token (set_allow ow s v w)) = tk_bridges (w_token w)"
  "tk_owner (w_token (set_allow ow s v w)) = tk_owner (w_token w)"
  "w_escrow (set_allow ow s v w) = w_escrow w" "w_treasury (set_allow ow s v w) = w_treasury w"
  "w_fiat (set_allow ow s v w) = w_fiat w" "w_t (set_allow ow s v w) = w_t w"
  "w_params (set_allow ow s v w) = w_params w" "w_eth (set_allow ow s v w) = w_eth w"
  "w_devices (set_allow ow s v w) = w_devices w" "w_tickets (set_allow ow s v w) = w_tickets w"
  "allowance (set_allow ow s v w) ow' s' = (if ow' = ow \<and> s' = s then v else allowance w ow' s')"
  by (simp_all add: set_allow_def allowance_def)

lemma allowance_bal_upd [simp]: "allowance (bal_upd f w) ow s = allowance w ow s"
  by (simp add: allowance_def)

definition listed_bridge :: "world \<Rightarrow> actor \<Rightarrow> bridge \<Rightarrow> bool" where
  "listed_bridge x b info \<longleftrightarrow> tk_bridges (w_token x) b = Some info \<and> br_allowed info"

lemma setBridge_commits [body_simps]:
  "fst (setBridge_body H from b allowed cap x c) = Inr x' \<longleftrightarrow>
     tk_owner (w_token x) = Some from \<and>
     x' = x\<lparr>w_token := (w_token x)\<lparr>tk_bridges := (tk_bridges (w_token x))(b \<mapsto>
            (case tk_bridges (w_token x) b of
               None \<Rightarrow> \<lparr>br_allowed = allowed, br_cap = cap, br_minted = 0, br_windowStart = 0\<rparr>
             | Some i \<Rightarrow> i\<lparr>br_allowed := allowed, br_cap := cap\<rparr>))\<rparr>\<rparr>"
  by (auto simp: setBridge_body_def Let_def token_owner_guard_def split: option.splits)

lemma bridgeMint_commits [body_simps]:
  "fst (bridgeMint_body H from to amount ref x c) = Inr x' \<longleftrightarrow>
     (\<exists>info. listed_bridge x from info \<and>
        br_minted (open_window (w_t x) info) + amount \<le> br_cap info \<and>
        x' = x\<lparr>w_token := (w_token x)\<lparr>
               tk_bridges := (tk_bridges (w_token x))(from \<mapsto> (open_window (w_t x) info)
                  \<lparr>br_minted := br_minted (open_window (w_t x) info) + amount\<rparr>),
               tk_supply := tk_supply (w_token x) + amount,
               tk_bal := (tk_bal (w_token x))(Wallet to := tk_bal (w_token x) (Wallet to) + amount)\<rparr>\<rparr>)"
proof -
  have cap: "br_cap (open_window t i) = br_cap i" for t i by (simp add: open_window_def)
  show ?thesis
    by (auto simp: bridgeMint_body_def Let_def listed_bridge_def cap split: option.splits if_splits)
qed

lemma bridgeBurn_commits [body_simps]:
  "fst (bridgeBurn_body H from amount ref x c) = Inr x' \<longleftrightarrow>
     (\<exists>info. listed_bridge x from info) \<and> amount \<le> tk_bal (w_token x) (Wallet from) \<and>
     x' = x\<lparr>w_token := (w_token x)\<lparr>
            tk_bal := (tk_bal (w_token x))(Wallet from := tk_bal (w_token x) (Wallet from) - amount),
            tk_supply := tk_supply (w_token x) - amount\<rparr>\<rparr>"
  by (auto simp: bridgeBurn_body_def Let_def listed_bridge_def split: option.splits if_splits)

lemma approve_commits [body_simps]:
  "fst (approve_body H from s amount x c) = Inr x' \<longleftrightarrow> x' = set_allow from s amount x"
  by (auto simp: approve_body_def)

lemma transfer_commits [body_simps]:
  "fst (transfer_body H from to amount x c) = Inr x' \<longleftrightarrow>
     amount \<le> tk_bal (w_token x) (Wallet from) \<and> x' = bal_upd (moved (Wallet from) (Wallet to) amount) x"
  by (auto simp: transfer_body_def)

lemma transferFrom_commits [body_simps]:
  "fst (transferFrom_body H from ow to amount x c) = Inr x' \<longleftrightarrow>
     amount \<le> allowance x ow (Wallet from) \<and> amount \<le> tk_bal (w_token x) (Wallet ow) \<and>
     x' = bal_upd (moved (Wallet ow) (Wallet to) amount)
            (set_allow ow (Wallet from) (allowance x ow (Wallet from) - amount) x)"
  by (auto simp: transferFrom_body_def)

lemma applyPermit_commits [body_simps]:
  "fst (applyPermit H p x c) = Inr x' \<longleftrightarrow>
     w_t x \<le> pm_deadline p \<and>
     recoverAddress H (permit_digest H x p) (pm_signature p) = Some (addr H (pm_owner p)) \<and>
     x' = set_allow (pm_owner p) (pm_spender p) (pm_value p)
            (x\<lparr>w_token := (w_token x)\<lparr>tk_nonces := (tk_nonces (w_token x))
                 (pm_owner p := tk_nonces (w_token x) (pm_owner p) + 1)\<rparr>\<rparr>)"
  by (auto simp: applyPermit_def Let_def)

section \<open>Moves keep the sum\<close>

lemma sum_moved [simp]:
  "sum_over HOLDERS (moved from to amount b) = sum_over HOLDERS b"
  by (simp add: moved_def Let_def sum_over_upd)

lemma moved_nonneg:
  "(\<And>h. 0 \<le> b h) \<Longrightarrow> 0 \<le> amount \<Longrightarrow> amount \<le> b from \<Longrightarrow> 0 \<le> moved from to amount b h"
  by (auto simp: moved_def Let_def)

lemma moved_apply:
  "moved from to amount b h = b h - (if h = from then amount else 0) + (if h = to then amount else 0)"
  by (auto simp: moved_def Let_def)

end
