(* ===== verification/Escrow.thy ===== *)
theory Escrow
  imports Token
begin

text \<open>
  \<open>xKoinEscrow\<close> of \<open>web/src/demo/engine.js\<close>: deposits, the gasless exits authorised by signature,
  the batched settlement of cumulative tickets, the claim of earnings and the unit price.
\<close>

section \<open>Shared steps\<close>

definition esc_upd :: "(escrow_state \<Rightarrow> escrow_state) \<Rightarrow> world \<Rightarrow> world" where
  "esc_upd f w = w\<lparr>w_escrow := f (w_escrow w)\<rparr>"

definition set_deposit :: "actor \<Rightarrow> int \<Rightarrow> world \<Rightarrow> world" where
  "set_deposit a v = esc_upd (\<lambda>e. e\<lparr>es_deposits := (es_deposits e)(a := v)\<rparr>)"

definition set_earning :: "actor \<Rightarrow> int \<Rightarrow> world \<Rightarrow> world" where
  "set_earning a v = esc_upd (\<lambda>e. e\<lparr>es_earnings := (es_earnings e)(a := v)\<rparr>)"

definition deposit_of :: "world \<Rightarrow> actor \<Rightarrow> int" where
  "deposit_of w a = es_deposits (w_escrow w) a"

definition earning_of :: "world \<Rightarrow> actor \<Rightarrow> int" where
  "earning_of w a = es_earnings (w_escrow w) a"

definition gas_figure :: "string \<Rightarrow> int" where
  "gas_figure key = (case map_of GAS key of None \<Rightarrow> REVERT_GAS_default | Some g \<Rightarrow> gi_gas g)"

definition deposit_is :: "string \<Rightarrow> int \<Rightarrow> string" where
  "deposit_is what v = what @ fmt v 6 @ '' KES''"

definition doDeposit :: "host \<Rightarrow> actor \<Rightarrow> int \<Rightarrow> body" where
  "doDeposit H client amount x c =
     (if \<not> amount > 0 then reverts ''ZeroAmount'' '''' c
      else lift_step (spendAllowance x client EscrowAcc amount)
        (\<lambda>x1. lift_step (move x1 (Wallet client) EscrowAcc amount)
           (\<lambda>x2. commits (set_deposit client (deposit_of x2 client + amount) x2)
                    (emit (Deposited (addr H client) amount) c)) c) c)"

definition auth_digest :: "host \<Rightarrow> world \<Rightarrow> auth_kind \<Rightarrow> auth \<Rightarrow> actor \<Rightarrow> bytes" where
  \<comment> \<open>the digest of an authorisation at the client's current nonce, for the destination relayed\<close>
  "auth_digest H x kind a to =
     dg_digest (authDigest H kind (addr H (au_from a)) (addr H to) (au_amount a)
                  (es_authNonces (w_escrow x) (au_from a)) (au_deadline a) ESCROW_DOMAIN)"

definition useAuth :: "host \<Rightarrow> auth_kind \<Rightarrow> auth \<Rightarrow> actor \<Rightarrow> body" where
  "useAuth H kind a to x c =
     (if \<not> w_t x \<le> au_deadline a then reverts ''AuthorizationExpired'' '''' c
      else
        let nonce = es_authNonces (w_escrow x) (au_from a);
            digest = auth_digest H x kind a to;
            signer = recoverAddress H digest (au_signature a);
            c1 = crypto ((if kind = KWithdraw then ''Withdraw'' else ''TransferDeposit'') @ '' digest at nonce ''
                   @ int_str nonce @ '' (to '' @ nameOf (actor_key to) @ '')'') (bytesToHex digest) c;
            c2 = crypto ''ECDSA.tryRecover'' (signer_text signer) c1
        in if signer \<noteq> Some (addr H (au_from a))
           then reverts ''BadAuthorization''
             ''signature does not recover to the client for this destination, amount and nonce'' c2
           else commits (esc_upd (\<lambda>e. e\<lparr>es_authNonces := (es_authNonces e)(au_from a := nonce + 1)\<rparr>) x) c2)"

definition lift_body :: "(revert + world) \<times> ctx \<Rightarrow> body \<Rightarrow> (revert + world) \<times> ctx" where
  "lift_body r k = (case r of (Inl e, c) \<Rightarrow> (Inl e, c) | (Inr x, c) \<Rightarrow> k x c)"

definition less_warm :: "string \<Rightarrow> string \<Rightarrow> int \<Rightarrow> ctx \<Rightarrow> ctx" where
  \<comment> \<open>the gas override of a call some of whose slots are already non-zero\<close>
  "less_warm key measured warm c =
     (if warm \<noteq> 0
      then override_gas (gas_entry (gas_figure key - warm * 17100) ''model''
             (''measured '' @ measured @ '' less '' @ int_str warm @ '' warm slot(s) (EIP-2200)'')) c
      else c)"

section \<open>Deposits\<close>

definition deposit :: "host \<Rightarrow> world \<Rightarrow> actor \<Rightarrow> int \<Rightarrow> string option \<Rightarrow> string option \<Rightarrow> outcome" where
  "deposit H w from amount flow title =
     call H w ((chain_spec ''deposit'' (Some EscrowC) from (ADeposit amount) flow title)
                 \<lparr>sc_gasKey := Some (if deposit_of w from > 0 then ''depositRepeat'' else ''deposit'')\<rparr>)
       (doDeposit H from amount)"

definition depositWithPermit_body :: "host \<Rightarrow> actor \<Rightarrow> int \<Rightarrow> permit \<Rightarrow> body" where
  "depositWithPermit_body H client amount p x c =
     (let warm = deposit_of x client > 0;
          (x1, c1) = (case applyPermit H p x c of
               (Inr x1, c1) \<Rightarrow> (x1, c1)
             | (Inl e, c1) \<Rightarrow> (x, note_line (''permit() failed ('' @ rv_name e
                 @ '') and was caught: a front-run permit only griefs the relayer. The deposit proceeds on the allowance already set.'') c1))
      in case doDeposit H client amount x1 c1 of
           (Inl e, c2) \<Rightarrow> (Inl e, c2)
         | (Inr x2, c2) \<Rightarrow>
             commits x2 (if warm
               then override_gas (gas_entry (gas_figure ''depositWithPermit'' - 17100) ''model''
                      ''measured 110,693 less one warm deposit slot (EIP-2200)'') c2
               else c2))"

definition depositWithPermit :: "host \<Rightarrow> world \<Rightarrow> actor \<Rightarrow> actor \<Rightarrow> int \<Rightarrow> permit \<Rightarrow> string option \<Rightarrow> string option \<Rightarrow> outcome" where
  "depositWithPermit H w from client amount p flow title =
     call H w (chain_spec ''depositWithPermit'' (Some EscrowC) from
                 (ADepositWithPermit client amount (pm_deadline p) (pm_signature p)) flow title)
       (depositWithPermit_body H client amount p)"

definition withdrawDeposit_body :: "host \<Rightarrow> actor \<Rightarrow> int \<Rightarrow> body" where
  "withdrawDeposit_body H from amount x c =
     (if \<not> amount > 0 then reverts ''ZeroAmount'' '''' c
      else if \<not> deposit_of x from \<ge> amount
      then reverts ''InsufficientDeposit'' (deposit_is ''deposit is '' (deposit_of x from)) c
      else commits
             (bal_upd (moved EscrowAcc (Wallet from) amount) (set_deposit from (deposit_of x from - amount) x))
             (emit (DepositWithdrawn (addr H from) amount) c))"

definition withdrawDeposit :: "host \<Rightarrow> world \<Rightarrow> actor \<Rightarrow> int \<Rightarrow> string option \<Rightarrow> string option \<Rightarrow> outcome" where
  "withdrawDeposit H w from amount flow title =
     call H w (chain_spec ''withdrawDeposit'' (Some EscrowC) from (AWithdrawDeposit amount) flow title)
       (withdrawDeposit_body H from amount)"

definition withdrawWithSig_body :: "host \<Rightarrow> auth \<Rightarrow> actor option \<Rightarrow> body" where
  "withdrawWithSig_body H a dest x c =
     (if \<not> au_amount a > 0 then reverts ''ZeroAmount'' '''' c
      else case dest of
        None \<Rightarrow> reverts ''ZeroAddress'' '''' c
      | Some to \<Rightarrow>
          let client = au_from a;
              warm = (if tk_bal (w_token x) (Wallet to) > 0 then 1 else 0)
                   + (if es_authNonces (w_escrow x) client > 0 then 1 else 0)
          in lift_body (useAuth H KWithdraw a to x c) (\<lambda>x1 c1.
               if \<not> deposit_of x1 client \<ge> au_amount a
               then reverts ''InsufficientDeposit'' (deposit_is ''deposit is '' (deposit_of x1 client)) c1
               else commits
                 (bal_upd (moved EscrowAcc (Wallet to) (au_amount a))
                    (set_deposit client (deposit_of x1 client - au_amount a) x1))
                 (less_warm ''withdrawWithSig'' ''93,358'' warm
                    (emit (DepositWithdrawn (addr H client) (au_amount a)) c1))))"

definition withdrawWithSig :: "host \<Rightarrow> world \<Rightarrow> actor \<Rightarrow> auth \<Rightarrow> actor option \<Rightarrow> string option \<Rightarrow> string option \<Rightarrow> outcome" where
  "withdrawWithSig H w from a dest flow title =
     call H w (chain_spec ''withdrawWithSig'' (Some EscrowC) from
                 (AWithdrawWithSig (au_from a) dest (au_amount a) (au_deadline a) (au_signature a)) flow title)
       (withdrawWithSig_body H a dest)"

definition transferDeposit_note :: string where
  "transferDeposit_note = ''Only two deposit entries change. The escrow token balance is untouched, so solvency holds by construction.''"

definition transferDeposit_body :: "host \<Rightarrow> auth \<Rightarrow> actor option \<Rightarrow> body" where
  "transferDeposit_body H a dest x c =
     (if \<not> au_amount a > 0 then reverts ''ZeroAmount'' '''' c
      else case dest of
        None \<Rightarrow> reverts ''ZeroAddress'' '''' c
      | Some to \<Rightarrow>
          let client = au_from a;
              warm = (if deposit_of x to > 0 then 1 else 0)
                   + (if es_authNonces (w_escrow x) client > 0 then 1 else 0)
          in lift_body (useAuth H KTransfer a to x c) (\<lambda>x1 c1.
               if \<not> deposit_of x1 client \<ge> au_amount a
               then reverts ''InsufficientDeposit'' (deposit_is ''deposit is '' (deposit_of x1 client)) c1
               else
                 let x2 = set_deposit client (deposit_of x1 client - au_amount a) x1
                 in commits (set_deposit to (deposit_of x2 to + au_amount a) x2)
                      (less_warm ''transferDeposit'' ''83,050'' warm
                        (note_line transferDeposit_note
                          (emit (DepositTransferred (addr H client) (addr H to) (au_amount a)) c1)))))"

definition transferDeposit :: "host \<Rightarrow> world \<Rightarrow> actor \<Rightarrow> auth \<Rightarrow> actor option \<Rightarrow> string option \<Rightarrow> string option \<Rightarrow> outcome" where
  "transferDeposit H w from a dest flow title =
     call H w (chain_spec ''transferDeposit'' (Some EscrowC) from
                 (ATransferDeposit (au_from a) dest (au_amount a) (au_deadline a) (au_signature a)) flow title)
       (transferDeposit_body H a dest)"

section \<open>Settlement\<close>

definition channel_key :: "host \<Rightarrow> actor \<Rightarrow> actor \<Rightarrow> string" where
  "channel_key H client node = channelId H (addr H client) (addr H node)"

definition last_seq :: "world \<Rightarrow> string \<Rightarrow> int" where
  "last_seq x i = (case map_of (es_channels (w_escrow x)) i of None \<Rightarrow> 0 | Some ch \<Rightarrow> ch_lastSequence ch)"

definition settled_units :: "world \<Rightarrow> string \<Rightarrow> int" where
  "settled_units x i = (case map_of (es_channels (w_escrow x)) i of None \<Rightarrow> 0 | Some ch \<Rightarrow> ch_settledUnits ch)"

record settle_acc =
  sa_world :: world
  sa_shape :: "ticket_shape list"
  sa_gross :: int
  sa_fee :: int

definition ticket_digest :: "host \<Rightarrow> ticket \<Rightarrow> bytes" where
  "ticket_digest H t =
     dg_digest (ticketDigest H (addr H (tt_client t)) (addr H (tt_nodeAdmin t)) (tt_sequenceNumber t)
                  (tt_cumulativeUnits t) (tt_epochExpiry t) ESCROW_DOMAIN)"

definition owed_of :: "host \<Rightarrow> world \<Rightarrow> ticket \<Rightarrow> int" where
  "owed_of H x t =
     (tt_cumulativeUnits t - settled_units x (channel_key H (tt_client t) (tt_nodeAdmin t)))
     * es_pricePerUnit (w_escrow x)"

definition paid_of :: "host \<Rightarrow> world \<Rightarrow> ticket \<Rightarrow> int" where
  "paid_of H x t = min (owed_of H x t) (deposit_of x (tt_client t))"

definition fee_of :: "world \<Rightarrow> int \<Rightarrow> int" where
  "fee_of x paid = paid * tr_feeBps (w_treasury x) div 10000"

definition record_channel :: "string \<Rightarrow> ticket \<Rightarrow> world \<Rightarrow> world" where
  "record_channel i t = esc_upd (\<lambda>e. e\<lparr>es_channels := AList.update i
     \<lparr>ch_lastSequence = tt_sequenceNumber t, ch_settledUnits = tt_cumulativeUnits t,
      ch_client = tt_client t, ch_nodeAdmin = tt_nodeAdmin t\<rparr> (es_channels e)\<rparr>)"

definition pay_ticket :: "actor \<Rightarrow> actor \<Rightarrow> int \<Rightarrow> world \<Rightarrow> world \<times> int" where
  \<comment> \<open>debits the client, credits the node net of the fee, and answers the fee\<close>
  "pay_ticket client node paid x =
     (if paid > 0
      then let x1 = set_deposit client (deposit_of x client - paid) x;
               fee = fee_of x1 paid
           in (set_earning node (earning_of x1 node + (paid - fee)) x1, fee)
      else (x, 0))"

definition gap_note :: "nat \<Rightarrow> int \<Rightarrow> int \<Rightarrow> int \<Rightarrow> string" where
  "gap_note i owed available paid =
     ''ticket '' @ nat_str i @ '': owed '' @ fmt owed 6 @ '' KES, deposit held '' @ fmt available 6 @ '' KES, paid ''
     @ fmt paid 6 @ ''. The node carries the '' @ fmt (owed - paid) 6 @ '' KES gap.''"

definition settle_one :: "host \<Rightarrow> nat \<Rightarrow> ticket \<Rightarrow> settle_acc \<Rightarrow> ctx \<Rightarrow> (revert + settle_acc) \<times> ctx" where
  \<comment> \<open>the body of the \<open>forEach\<close> of \<open>settleTicketBatch\<close>\<close>
  "settle_one H i t acc c =
     (let x = sa_world acc;
          bad = (\<lambda>name detail c. (Inl (Revert name (''index '' @ nat_str i @ '': '' @ detail)), c));
          ident = channel_key H (tt_client t) (tt_nodeAdmin t);
          lastSequence = last_seq x ident;
          settledUnits = settled_units x ident
      in if \<not> tt_epochExpiry t \<ge> w_t x
         then bad ''ExpiredTicket'' (''expired '' @ int_str (w_t x - tt_epochExpiry t) @ '' s ago'') c
         else if \<not> tt_sequenceNumber t > lastSequence
         then bad ''StaleSequence'' (''sequence '' @ int_str (tt_sequenceNumber t) @ '' <= last settled '' @ int_str lastSequence) c
         else if \<not> tt_cumulativeUnits t > settledUnits
         then bad ''NoNewUnits'' (int_str (tt_cumulativeUnits t) @ '' units <= '' @ int_str settledUnits @ '' settled'') c
         else
           let digest = ticket_digest H t;
               signer = recoverAddress H digest (tt_signature t);
               label = ''ticket '' @ nat_str i;
               c1 = crypto (label @ '' ECDSA.recover'') (signer_text signer)
                      (crypto (label @ '' EIP-712 digest'') (bytesToHex digest)
                        (crypto (label @ '' channelId = keccak256(client || nodeAdmin)'') ident c))
           in if signer \<noteq> Some (addr H (tt_client t))
              then bad ''BadSignature'' (''recovered '' @ (case signer of None \<Rightarrow> ''nothing'' | Some a \<Rightarrow> a)
                     @ '', expected '' @ addr H (tt_client t)) c1
              else
                let delta = tt_cumulativeUnits t - settledUnits;
                    owed = owed_of H x t;
                    available = deposit_of x (tt_client t);
                    paid = paid_of H x t;
                    shape = \<lparr>sh_channelWarm = lastSequence > 0, sh_earningsWarm = earning_of x (tt_nodeAdmin t) > 0\<rparr>;
                    (x1, fee) = pay_ticket (tt_client t) (tt_nodeAdmin t) paid (record_channel ident t x);
                    c2 = (if paid < owed then note_line (gap_note i owed available paid) c1 else c1)
                in (Inr \<lparr>sa_world = x1, sa_shape = sa_shape acc @ [shape], sa_gross = sa_gross acc + paid,
                         sa_fee = sa_fee acc + fee\<rparr>,
                    emit (TicketSettled (addr H (tt_client t)) (addr H (tt_nodeAdmin t)) (tt_sequenceNumber t) delta paid) c2))"

fun settle_loop :: "host \<Rightarrow> nat \<Rightarrow> ticket list \<Rightarrow> settle_acc \<Rightarrow> ctx \<Rightarrow> (revert + settle_acc) \<times> ctx" where
  "settle_loop H i [] acc c = (Inr acc, c)"
| "settle_loop H i (t # ts) acc c =
     (case settle_one H i t acc c of
        (Inl e, c1) \<Rightarrow> (Inl e, c1)
      | (Inr acc1, c1) \<Rightarrow> settle_loop H (Suc i) ts acc1 c1)"

definition settle_start :: "world \<Rightarrow> settle_acc" where
  "settle_start x = \<lparr>sa_world = x, sa_shape = [], sa_gross = 0, sa_fee = 0\<rparr>"

definition settleTicketBatch_body :: "host \<Rightarrow> actor \<Rightarrow> ticket list \<Rightarrow> body" where
  "settleTicketBatch_body H from tickets x c =
     (if tickets = [] then reverts ''EmptyBatch'' '''' c
      else
        let treasuryWarm = tk_bal (w_token x) TreasuryAcc > 0
        in case settle_loop H 0 tickets (settle_start x) c of
             (Inl e, c1) \<Rightarrow> (Inl e, c1)
           | (Inr a, c1) \<Rightarrow>
               if \<not> sa_gross a > 0 then reverts ''ZeroAmount'' ''no ticket paid anything'' c1
               else
                 let fee = sa_fee a;
                     x1 = (if fee > 0 then bal_upd (moved EscrowAcc TreasuryAcc fee) (sa_world a) else sa_world a);
                     c2 = emit (BatchSettled (addr H from) (sa_gross a) fee (sa_gross a - fee)) c1;
                     c3 = set_result (RSettled (sa_gross a) fee (sa_gross a - fee)) c2
                 in commits x1 (override_gas (gas_entry (settleGas (sa_shape a) treasuryWarm) ''model''
                      (nat_str (length tickets) @ '' ticket(s): 71,467 + 59,924 each, less 17,100 per warm slot'')) c3))"

definition settleTicketBatch :: "host \<Rightarrow> world \<Rightarrow> actor \<Rightarrow> ticket list \<Rightarrow> string option \<Rightarrow> string option \<Rightarrow> outcome" where
  "settleTicketBatch H w from tickets flow title =
     call H w (chain_spec ''settleTicketBatch'' (Some EscrowC) from (ASettle tickets) flow title)
       (settleTicketBatch_body H from tickets)"

section \<open>Earnings and price\<close>

definition claimEarnings_body :: "host \<Rightarrow> actor \<Rightarrow> actor \<Rightarrow> int \<Rightarrow> body" where
  "claimEarnings_body H from to amount x c =
     (if \<not> amount > 0 then reverts ''ZeroAmount'' '''' c
      else if \<not> earning_of x from \<ge> amount
      then reverts ''InsufficientEarnings'' (deposit_is ''earnings are '' (earning_of x from)) c
      else commits
             (bal_upd (moved EscrowAcc (Wallet to) amount) (set_earning from (earning_of x from - amount) x))
             (emit (EarningsClaimed (addr H from) (addr H to) amount) c))"

definition claimEarnings :: "host \<Rightarrow> world \<Rightarrow> actor \<Rightarrow> actor \<Rightarrow> int \<Rightarrow> string option \<Rightarrow> string option \<Rightarrow> outcome" where
  "claimEarnings H w from to amount flow title =
     call H w (chain_spec ''claimEarnings'' (Some EscrowC) from (AClaimEarnings to amount) flow title)
       (claimEarnings_body H from to amount)"

definition setPricePerUnit_body :: "host \<Rightarrow> actor \<Rightarrow> int \<Rightarrow> body" where
  "setPricePerUnit_body H from newPrice x c =
     (let e = w_escrow x in
      if es_owner e \<noteq> Some from then reverts ''OwnableUnauthorizedAccount'' (not_owner_detail EscrowC from) c
      else if \<not> (newPrice \<ge> 1 \<and> newPrice \<le> 50000)
      then reverts ''PriceOutOfBand'' ''band is 1 to 50,000 micro-KES per unit'' c
      else if \<not> w_t x \<ge> es_lastPriceChange e + 86400
      then reverts ''PriceCooldownActive'' (''next change allowed in '' @ fmtDur (es_lastPriceChange e + 86400 - w_t x)) c
      else commits (esc_upd (\<lambda>e. e\<lparr>es_pricePerUnit := newPrice, es_lastPriceChange := w_t x\<rparr>) x)
             (emit (PricePerUnitSet newPrice) c))"

definition setPricePerUnit :: "host \<Rightarrow> world \<Rightarrow> actor \<Rightarrow> int \<Rightarrow> string option \<Rightarrow> outcome" where
  "setPricePerUnit H w from newPrice flow =
     call H w (chain_spec ''setPricePerUnit'' (Some EscrowC) from (ASetPrice newPrice) flow None)
       (setPricePerUnit_body H from newPrice)"

section \<open>When a body commits\<close>

lemma fst_lift_body [simp]:
  "fst (lift_body r k) = Inr w' \<longleftrightarrow> (\<exists>x. fst r = Inr x \<and> fst (k x (snd r)) = Inr w')"
  by (auto simp: lift_body_def split: sum.splits prod.splits)

lemma esc_upd_fields [simp]:
  "w_token (esc_upd f w) = w_token w" "w_treasury (esc_upd f w) = w_treasury w"
  "w_fiat (esc_upd f w) = w_fiat w" "w_t (esc_upd f w) = w_t w" "w_params (esc_upd f w) = w_params w"
  "w_eth (esc_upd f w) = w_eth w" "w_devices (esc_upd f w) = w_devices w" "w_tickets (esc_upd f w) = w_tickets w"
  "w_escrow (esc_upd f w) = f (w_escrow w)"
  by (simp_all add: esc_upd_def)

lemma set_deposit_fields [simp]:
  "w_token (set_deposit a v w) = w_token w" "w_treasury (set_deposit a v w) = w_treasury w"
  "w_fiat (set_deposit a v w) = w_fiat w" "w_t (set_deposit a v w) = w_t w" "w_params (set_deposit a v w) = w_params w"
  "w_tickets (set_deposit a v w) = w_tickets w"
  "es_deposits (w_escrow (set_deposit a v w)) = (es_deposits (w_escrow w))(a := v)"
  "es_earnings (w_escrow (set_deposit a v w)) = es_earnings (w_escrow w)"
  "es_channels (w_escrow (set_deposit a v w)) = es_channels (w_escrow w)"
  "es_authNonces (w_escrow (set_deposit a v w)) = es_authNonces (w_escrow w)"
  "es_pricePerUnit (w_escrow (set_deposit a v w)) = es_pricePerUnit (w_escrow w)"
  by (simp_all add: set_deposit_def)

lemma set_earning_fields [simp]:
  "w_token (set_earning a v w) = w_token w" "w_treasury (set_earning a v w) = w_treasury w"
  "w_fiat (set_earning a v w) = w_fiat w" "w_t (set_earning a v w) = w_t w" "w_params (set_earning a v w) = w_params w"
  "w_tickets (set_earning a v w) = w_tickets w"
  "es_earnings (w_escrow (set_earning a v w)) = (es_earnings (w_escrow w))(a := v)"
  "es_deposits (w_escrow (set_earning a v w)) = es_deposits (w_escrow w)"
  "es_channels (w_escrow (set_earning a v w)) = es_channels (w_escrow w)"
  "es_authNonces (w_escrow (set_earning a v w)) = es_authNonces (w_escrow w)"
  "es_pricePerUnit (w_escrow (set_earning a v w)) = es_pricePerUnit (w_escrow w)"
  by (simp_all add: set_earning_def)

lemma record_channel_fields [simp]:
  "w_token (record_channel i t w) = w_token w" "w_treasury (record_channel i t w) = w_treasury w"
  "w_fiat (record_channel i t w) = w_fiat w" "w_t (record_channel i t w) = w_t w" "w_params (record_channel i t w) = w_params w"
  "es_earnings (w_escrow (record_channel i t w)) = es_earnings (w_escrow w)"
  "es_deposits (w_escrow (record_channel i t w)) = es_deposits (w_escrow w)"
  "es_authNonces (w_escrow (record_channel i t w)) = es_authNonces (w_escrow w)"
  "es_pricePerUnit (w_escrow (record_channel i t w)) = es_pricePerUnit (w_escrow w)"
  "last_seq (record_channel i t w) j = (if j = i then tt_sequenceNumber t else last_seq w j)"
  "settled_units (record_channel i t w) j = (if j = i then tt_cumulativeUnits t else settled_units w j)"
  by (simp_all add: record_channel_def last_seq_def settled_units_def update_conv)

lemma balances_read [simp]:
  "deposit_of (set_deposit a v w) b = (if b = a then v else deposit_of w b)"
  "earning_of (set_deposit a v w) b = earning_of w b"
  "deposit_of (set_earning a v w) b = deposit_of w b"
  "earning_of (set_earning a v w) b = (if b = a then v else earning_of w b)"
  "deposit_of (record_channel i t w) b = deposit_of w b" "earning_of (record_channel i t w) b = earning_of w b"
  "deposit_of (bal_upd f w) b = deposit_of w b" "earning_of (bal_upd f w) b = earning_of w b"
  "deposit_of (set_allow ow s v w) b = deposit_of w b" "earning_of (set_allow ow s v w) b = earning_of w b"
  "last_seq (set_deposit a v w) i = last_seq w i" "settled_units (set_deposit a v w) i = settled_units w i"
  "last_seq (set_earning a v w) i = last_seq w i" "settled_units (set_earning a v w) i = settled_units w i"
  "last_seq (bal_upd f w) i = last_seq w i" "settled_units (bal_upd f w) i = settled_units w i"
  "fee_of (set_deposit a v w) p = fee_of w p" "fee_of (record_channel i t w) p = fee_of w p"
  by (simp_all add: deposit_of_def earning_of_def last_seq_def settled_units_def fee_of_def)

lemma doDeposit_commits [body_simps]:
  "fst (doDeposit H client amount x c) = Inr x' \<longleftrightarrow>
     0 < amount \<and> amount \<le> allowance x client EscrowAcc \<and> amount \<le> tk_bal (w_token x) (Wallet client) \<and>
     x' = set_deposit client (deposit_of x client + amount)
            (bal_upd (moved (Wallet client) EscrowAcc amount)
              (set_allow client EscrowAcc (allowance x client EscrowAcc - amount) x))"
  by (auto simp: doDeposit_def)

definition permitted :: "host \<Rightarrow> permit \<Rightarrow> world \<Rightarrow> world" where
  \<comment> \<open>the world after a permit whose failure is caught\<close>
  "permitted H p x = (case fst (applyPermit H p x ctx0) of Inl e \<Rightarrow> x | Inr x1 \<Rightarrow> x1)"

lemma applyPermit_fst_ctx: "fst (applyPermit H p x c) = fst (applyPermit H p x ctx0)"
  by (simp add: applyPermit_def Let_def reverts_def commits_def)

lemma depositWithPermit_commits [body_simps]:
  "fst (depositWithPermit_body H client amount p x c) = Inr x' \<longleftrightarrow>
     fst (doDeposit H client amount (permitted H p x) ctx0) = Inr x'"
proof -
  have free: "fst (doDeposit H client amount y d) = Inr x' \<longleftrightarrow> fst (doDeposit H client amount y ctx0) = Inr x'" for y d
    by (simp add: doDeposit_commits)
  have tail: "fst (case r of (Inl e, c2) \<Rightarrow> (Inl e, c2) | (Inr x2, c2) \<Rightarrow> commits x2 (f c2)) = Inr x' \<longleftrightarrow> fst r = Inr x'"
    for r :: "(revert + world) \<times> ctx" and f
    by (cases r; cases "fst r") auto
  obtain r c1 where r: "applyPermit H p x c = (r, c1)" by (cases "applyPermit H p x c")
  have p: "permitted H p x = (case r of Inl e \<Rightarrow> x | Inr x1 \<Rightarrow> x1)"
    using applyPermit_fst_ctx [of H p x c] by (simp add: permitted_def r)
  show ?thesis
    by (cases r) (simp_all add: depositWithPermit_body_def Let_def r p tail, (rule free)+)
qed

lemma useAuth_commits [body_simps]:
  "fst (useAuth H kind a to x c) = Inr x' \<longleftrightarrow>
     w_t x \<le> au_deadline a \<and>
     recoverAddress H (auth_digest H x kind a to) (au_signature a) = Some (addr H (au_from a)) \<and>
     x' = esc_upd (\<lambda>e. e\<lparr>es_authNonces := (es_authNonces e)(au_from a := es_authNonces (w_escrow x) (au_from a) + 1)\<rparr>) x"
  by (auto simp: useAuth_def Let_def)

lemma withdrawDeposit_commits [body_simps]:
  "fst (withdrawDeposit_body H from amount x c) = Inr x' \<longleftrightarrow>
     0 < amount \<and> amount \<le> deposit_of x from \<and>
     x' = bal_upd (moved EscrowAcc (Wallet from) amount) (set_deposit from (deposit_of x from - amount) x)"
  by (auto simp: withdrawDeposit_body_def)

definition auth_accepted :: "host \<Rightarrow> auth_kind \<Rightarrow> auth \<Rightarrow> actor \<Rightarrow> world \<Rightarrow> bool" where
  \<comment> \<open>what \<open>useAuth\<close> and the guards around it check\<close>
  "auth_accepted H kind a to x \<longleftrightarrow>
     0 < au_amount a \<and> au_amount a \<le> deposit_of x (au_from a) \<and> w_t x \<le> au_deadline a \<and>
     recoverAddress H (auth_digest H x kind a to) (au_signature a) = Some (addr H (au_from a))"

definition nonce_used :: "actor \<Rightarrow> world \<Rightarrow> world" where
  "nonce_used a x = esc_upd (\<lambda>e. e\<lparr>es_authNonces := (es_authNonces e)(a := es_authNonces e a + 1)\<rparr>) x"

lemma nonce_used_fields [simp]:
  "w_token (nonce_used a w) = w_token w" "w_treasury (nonce_used a w) = w_treasury w"
  "w_fiat (nonce_used a w) = w_fiat w" "w_t (nonce_used a w) = w_t w" "w_params (nonce_used a w) = w_params w"
  "deposit_of (nonce_used a w) b = deposit_of w b" "earning_of (nonce_used a w) b = earning_of w b"
  "es_deposits (w_escrow (nonce_used a w)) = es_deposits (w_escrow w)"
  "es_earnings (w_escrow (nonce_used a w)) = es_earnings (w_escrow w)"
  "es_channels (w_escrow (nonce_used a w)) = es_channels (w_escrow w)"
  "es_pricePerUnit (w_escrow (nonce_used a w)) = es_pricePerUnit (w_escrow w)"
  "es_authNonces (w_escrow (nonce_used a w)) = (es_authNonces (w_escrow w))(a := es_authNonces (w_escrow w) a + 1)"
  by (simp_all add: nonce_used_def deposit_of_def earning_of_def)

lemma useAuth_nonce_used:
  "fst (useAuth H kind a to x c) = Inr x' \<longleftrightarrow>
     w_t x \<le> au_deadline a \<and>
     recoverAddress H (auth_digest H x kind a to) (au_signature a) = Some (addr H (au_from a)) \<and>
     x' = nonce_used (au_from a) x"
  unfolding useAuth_commits nonce_used_def esc_upd_def by auto

lemma withdrawWithSig_commits [body_simps]:
  "fst (withdrawWithSig_body H a dest x c) = Inr x' \<longleftrightarrow>
     (\<exists>to. dest = Some to \<and> auth_accepted H KWithdraw a to x \<and>
        x' = bal_upd (moved EscrowAcc (Wallet to) (au_amount a))
               (set_deposit (au_from a) (deposit_of x (au_from a) - au_amount a) (nonce_used (au_from a) x)))"
  by (auto simp: withdrawWithSig_body_def Let_def useAuth_nonce_used auth_accepted_def split: option.splits)

lemma transferDeposit_commits [body_simps]:
  "fst (transferDeposit_body H a dest x c) = Inr x' \<longleftrightarrow>
     (\<exists>to x2. dest = Some to \<and> auth_accepted H KTransfer a to x \<and>
        x2 = set_deposit (au_from a) (deposit_of x (au_from a) - au_amount a) (nonce_used (au_from a) x) \<and>
        x' = set_deposit to (deposit_of x2 to + au_amount a) x2)"
  by (auto simp: transferDeposit_body_def Let_def useAuth_nonce_used auth_accepted_def split: option.splits)

definition ticket_accepted :: "host \<Rightarrow> ticket \<Rightarrow> world \<Rightarrow> bool" where
  \<comment> \<open>the four guards of one ticket\<close>
  "ticket_accepted H t x \<longleftrightarrow>
     (let i = channel_key H (tt_client t) (tt_nodeAdmin t) in
      w_t x \<le> tt_epochExpiry t \<and> last_seq x i < tt_sequenceNumber t \<and> settled_units x i < tt_cumulativeUnits t \<and>
      recoverAddress H (ticket_digest H t) (tt_signature t) = Some (addr H (tt_client t)))"

definition ticket_settled :: "host \<Rightarrow> ticket \<Rightarrow> world \<Rightarrow> world \<times> int" where
  "ticket_settled H t x =
     pay_ticket (tt_client t) (tt_nodeAdmin t) (paid_of H x t)
       (record_channel (channel_key H (tt_client t) (tt_nodeAdmin t)) t x)"

lemma settle_one_Inr:
  "fst (settle_one H i t acc c) = Inr acc' \<longleftrightarrow>
     ticket_accepted H t (sa_world acc) \<and>
     acc' = \<lparr>sa_world = fst (ticket_settled H t (sa_world acc)),
             sa_shape = sa_shape acc @ [\<lparr>sh_channelWarm = last_seq (sa_world acc) (channel_key H (tt_client t) (tt_nodeAdmin t)) > 0,
                sh_earningsWarm = earning_of (sa_world acc) (tt_nodeAdmin t) > 0\<rparr>],
             sa_gross = sa_gross acc + paid_of H (sa_world acc) t,
             sa_fee = sa_fee acc + snd (ticket_settled H t (sa_world acc))\<rparr>"
  by (auto simp: settle_one_def Let_def ticket_accepted_def ticket_settled_def not_less not_le split: prod.splits)

lemma settle_loop_Cons:
  "fst (settle_loop H i (t # ts) acc c) = Inr acc' \<longleftrightarrow>
     (\<exists>acc1. fst (settle_one H i t acc c) = Inr acc1 \<and>
             fst (settle_loop H (Suc i) ts acc1 (snd (settle_one H i t acc c))) = Inr acc')"
  by (auto split: sum.splits prod.splits)

lemma settle_loop_rule:
  \<comment> \<open>a relation between accumulators that every ticket steps along holds over the loop\<close>
  assumes "fst (settle_loop H i ts acc c) = Inr acc'" and "Q acc"
    and step: "\<And>t i c a a'. t \<in> set ts \<Longrightarrow> Q a \<Longrightarrow> fst (settle_one H i t a c) = Inr a' \<Longrightarrow> Q a'"
  shows "Q acc'"
  using assms
proof (induction ts arbitrary: i acc c)
  case (Cons t ts)
  from Cons.prems(1) obtain acc1 where one: "fst (settle_one H i t acc c) = Inr acc1"
    and rest: "fst (settle_loop H (Suc i) ts acc1 (snd (settle_one H i t acc c))) = Inr acc'"
    unfolding settle_loop_Cons by blast
  have "Q acc1" using Cons.prems(3) [OF _ Cons.prems(2) one] by simp
  then show ?case by (rule Cons.IH [OF rest]) (rule Cons.prems(3), simp_all)
qed simp

definition settle_finish :: "settle_acc \<Rightarrow> world" where
  "settle_finish a = (if sa_fee a > 0 then bal_upd (moved EscrowAcc TreasuryAcc (sa_fee a)) (sa_world a) else sa_world a)"

lemma settle_commits [body_simps]:
  "fst (settleTicketBatch_body H from ts x c) = Inr x' \<longleftrightarrow>
     ts \<noteq> [] \<and> (\<exists>a. fst (settle_loop H 0 ts (settle_start x) c) = Inr a \<and> 0 < sa_gross a \<and> x' = settle_finish a)"
  by (auto simp: settleTicketBatch_body_def Let_def settle_finish_def split: sum.splits prod.splits)

lemma claimEarnings_commits [body_simps]:
  "fst (claimEarnings_body H from to amount x c) = Inr x' \<longleftrightarrow>
     0 < amount \<and> amount \<le> earning_of x from \<and>
     x' = bal_upd (moved EscrowAcc (Wallet to) amount) (set_earning from (earning_of x from - amount) x)"
  by (auto simp: claimEarnings_body_def)

lemma setPricePerUnit_commits [body_simps]:
  "fst (setPricePerUnit_body H from p x c) = Inr x' \<longleftrightarrow>
     es_owner (w_escrow x) = Some from \<and> 1 \<le> p \<and> p \<le> 50000 \<and> es_lastPriceChange (w_escrow x) + 86400 \<le> w_t x \<and>
     x' = esc_upd (\<lambda>e. e\<lparr>es_pricePerUnit := p, es_lastPriceChange := w_t x\<rparr>) x"
  by (auto simp: setPricePerUnit_body_def Let_def)

end
