(* ===== verification/Treasury.thy ===== *)
theory Treasury
  imports Escrow
begin

text \<open>
  \<open>xKoinTreasury\<close> of \<open>web/src/demo/engine.js\<close>: the claim to a fixed beneficiary, the fee, the timelocked
  change of beneficiary with its veto; the two-step ownership the three contracts share; and the three
  deployment calls.
\<close>

section \<open>xKoinTreasury\<close>

definition tre_upd :: "(treasury_state \<Rightarrow> treasury_state) \<Rightarrow> world \<Rightarrow> world" where
  "tre_upd f w = w\<lparr>w_treasury := f (w_treasury w)\<rparr>"

definition claim_note :: "actor \<Rightarrow> actor \<Rightarrow> string" where
  "claim_note from b = nameOf (actor_key from) @ '' paid the gas; the funds went to '' @ nameOf (actor_key b)
     @ ''. The destination is not a parameter.''"

definition claim_body :: "host \<Rightarrow> actor \<Rightarrow> body" where
  \<comment> \<open>the beneficiary is set before any fee can accrue, see \<open>Invariants\<close>; without one nothing is credited\<close>
  "claim_body H from x c =
     (let amount = tk_bal (w_token x) TreasuryAcc in
      if \<not> amount > 0 then reverts ''NothingToClaim'' '''' c
      else case tr_beneficiary (w_treasury x) of
        None \<Rightarrow> commits (bal_upd (\<lambda>b. b(TreasuryAcc := 0)) x) c
      | Some b \<Rightarrow>
          commits (bal_upd (\<lambda>m. let m1 = m(TreasuryAcc := 0) in m1(Wallet b := m1 (Wallet b) + amount)) x)
            (let c1 = emit (Claimed (contract_addr TokenC) (addr H b) amount) c
             in if from \<noteq> b then note_line (claim_note from b) c1 else c1))"

definition claim :: "host \<Rightarrow> world \<Rightarrow> actor \<Rightarrow> string option \<Rightarrow> string option \<Rightarrow> outcome" where
  "claim H w from flow title =
     call H w (chain_spec ''claim'' (Some TreasuryC) from AClaim flow title) (claim_body H from)"

definition setFeeBps_body :: "actor \<Rightarrow> int \<Rightarrow> body" where
  "setFeeBps_body from feeBps x c =
     (if tr_owner (w_treasury x) \<noteq> Some from then reverts ''OwnableUnauthorizedAccount'' (not_owner_detail TreasuryC from) c
      else if \<not> feeBps \<le> 1000 then reverts ''FeeTooHigh'' ''MAX_FEE_BPS is 1000 (10 percent)'' c
      else commits (tre_upd (\<lambda>t. t\<lparr>tr_feeBps := feeBps\<rparr>) x) (emit (FeeBpsSet feeBps) c))"

definition setFeeBps :: "host \<Rightarrow> world \<Rightarrow> actor \<Rightarrow> int \<Rightarrow> string option \<Rightarrow> outcome" where
  "setFeeBps H w from feeBps flow =
     call H w (chain_spec ''setFeeBps'' (Some TreasuryC) from (ASetFeeBps feeBps) flow None) (setFeeBps_body from feeBps)"

definition queueBeneficiary_body :: "host \<Rightarrow> actor \<Rightarrow> actor \<Rightarrow> body" where
  "queueBeneficiary_body H from next x c =
     (if tr_owner (w_treasury x) \<noteq> Some from then reverts ''OwnableUnauthorizedAccount'' (not_owner_detail TreasuryC from) c
      else commits (tre_upd (\<lambda>t. t\<lparr>tr_pending := Some next, tr_activation := w_t x + 7 * 86400\<rparr>) x)
             (emit (BeneficiaryChangeQueued (addr H next) (w_t x + 7 * 86400)) c))"

definition queueBeneficiary :: "host \<Rightarrow> world \<Rightarrow> actor \<Rightarrow> actor \<Rightarrow> string option \<Rightarrow> outcome" where
  "queueBeneficiary H w from next flow =
     call H w (chain_spec ''queueBeneficiary'' (Some TreasuryC) from (AQueueBeneficiary next) flow None)
       (queueBeneficiary_body H from next)"

definition activateBeneficiary_body :: "host \<Rightarrow> body" where
  "activateBeneficiary_body H x c =
     (case tr_pending (w_treasury x) of
        None \<Rightarrow> reverts ''NoPendingChange'' '''' c
      | Some p \<Rightarrow>
          if \<not> w_t x \<ge> tr_activation (w_treasury x)
          then reverts ''TimelockActive'' (fmtDur (tr_activation (w_treasury x) - w_t x) @ '' left'') c
          else commits (tre_upd (\<lambda>t. t\<lparr>tr_beneficiary := Some p, tr_pending := None, tr_activation := 0\<rparr>) x)
                 (emit (BeneficiaryChanged (addr H p)) c))"

definition activateBeneficiary :: "host \<Rightarrow> world \<Rightarrow> actor \<Rightarrow> string option \<Rightarrow> outcome" where
  "activateBeneficiary H w from flow =
     call H w (chain_spec ''activateBeneficiary'' (Some TreasuryC) from AActivateBeneficiary flow None)
       (activateBeneficiary_body H)"

definition cancelBeneficiaryChange_body :: "host \<Rightarrow> actor \<Rightarrow> body" where
  "cancelBeneficiaryChange_body H from x c =
     (let t = w_treasury x in
      if \<not> (tr_owner t = Some from \<or> tr_beneficiary t = Some from) then reverts ''NotAuthorized'' '''' c
      else if tr_pending t = None then reverts ''NoPendingChange'' '''' c
      else commits (tre_upd (\<lambda>t. t\<lparr>tr_pending := None, tr_activation := 0\<rparr>) x)
             (emit (BeneficiaryChangeCancelled (addr H from)) c))"

definition cancelBeneficiaryChange :: "host \<Rightarrow> world \<Rightarrow> actor \<Rightarrow> string option \<Rightarrow> outcome" where
  "cancelBeneficiaryChange H w from flow =
     call H w (chain_spec ''cancelBeneficiaryChange'' (Some TreasuryC) from ACancelBeneficiary flow None)
       (cancelBeneficiaryChange_body H from)"

section \<open>Two-step ownership\<close>

definition owner_of :: "world \<Rightarrow> contract \<Rightarrow> actor option" where
  "owner_of w k = (case k of TokenC \<Rightarrow> tk_owner (w_token w) | EscrowC \<Rightarrow> es_owner (w_escrow w)
                           | TreasuryC \<Rightarrow> tr_owner (w_treasury w))"

definition pending_of :: "world \<Rightarrow> contract \<Rightarrow> actor option" where
  "pending_of w k = (case k of TokenC \<Rightarrow> tk_pendingOwner (w_token w) | EscrowC \<Rightarrow> es_pendingOwner (w_escrow w)
                             | TreasuryC \<Rightarrow> tr_pendingOwner (w_treasury w))"

definition set_pending :: "contract \<Rightarrow> actor option \<Rightarrow> world \<Rightarrow> world" where
  "set_pending k a w = (case k of
      TokenC \<Rightarrow> w\<lparr>w_token := (w_token w)\<lparr>tk_pendingOwner := a\<rparr>\<rparr>
    | EscrowC \<Rightarrow> esc_upd (\<lambda>e. e\<lparr>es_pendingOwner := a\<rparr>) w
    | TreasuryC \<Rightarrow> tre_upd (\<lambda>t. t\<lparr>tr_pendingOwner := a\<rparr>) w)"

definition set_owner :: "contract \<Rightarrow> actor option \<Rightarrow> world \<Rightarrow> world" where
  "set_owner k a w = (case k of
      TokenC \<Rightarrow> w\<lparr>w_token := (w_token w)\<lparr>tk_owner := a\<rparr>\<rparr>
    | EscrowC \<Rightarrow> esc_upd (\<lambda>e. e\<lparr>es_owner := a\<rparr>) w
    | TreasuryC \<Rightarrow> tre_upd (\<lambda>t. t\<lparr>tr_owner := a\<rparr>) w)"

definition transferOwnership_body :: "host \<Rightarrow> actor \<Rightarrow> contract \<Rightarrow> actor \<Rightarrow> body" where
  "transferOwnership_body H from k next x c =
     (if owner_of x k \<noteq> Some from then reverts ''OwnableUnauthorizedAccount'' (not_owner_detail k from) c
      else commits (set_pending k (Some next) x) (emit (OwnershipTransferStarted (addr H from) (addr H next)) c))"

definition transferOwnership :: "host \<Rightarrow> world \<Rightarrow> actor \<Rightarrow> contract \<Rightarrow> actor \<Rightarrow> string option \<Rightarrow> outcome" where
  "transferOwnership H w from k next flow =
     call H w (chain_spec ''transferOwnership'' (Some k) from (ATransferOwnership next) flow None)
       (transferOwnership_body H from k next)"

definition acceptOwnership_body :: "host \<Rightarrow> actor \<Rightarrow> contract \<Rightarrow> body" where
  "acceptOwnership_body H from k x c =
     (if pending_of x k \<noteq> Some from then reverts ''OwnableUnauthorizedAccount'' ''caller is not the pending owner'' c
      else commits (set_pending k None (set_owner k (Some from) x))
             (emit (OwnershipTransferred (map_option (addr H) (owner_of x k)) (addr H from)) c))"

definition acceptOwnership :: "host \<Rightarrow> world \<Rightarrow> actor \<Rightarrow> contract \<Rightarrow> string option \<Rightarrow> outcome" where
  "acceptOwnership H w from k flow =
     call H w (chain_spec ''acceptOwnership'' (Some k) from AAcceptOwnership flow None)
       (acceptOwnership_body H from k)"

section \<open>Deployment\<close>

definition deploy_gas :: "int \<Rightarrow> ctx \<Rightarrow> ctx" where
  "deploy_gas g = override_gas (gas_entry g ''measured'' ''forge deployment cost, chain proof agrees'')"

definition create_token_body :: body where
  "create_token_body x c = commits (set_owner TokenC (Some Owner) x) (deploy_gas 1512737 c)"

definition create_treasury_body :: "params \<Rightarrow> body" where
  "create_treasury_body p x c =
     commits (tre_upd (\<lambda>t. t\<lparr>tr_owner := Some Owner, tr_feeBps := p_feeBps p, tr_beneficiary := Some Founder\<rparr>) x)
       (deploy_gas 746884 c)"

definition create_escrow_body :: "params \<Rightarrow> body" where
  "create_escrow_body p x c =
     (if \<not> (p_pricePerUnit p \<ge> 1 \<and> p_pricePerUnit p \<le> 50000) then reverts ''PriceOutOfBand'' '''' c
      else commits
        ((esc_upd (\<lambda>e. e\<lparr>es_owner := Some Owner, es_pricePerUnit := p_pricePerUnit p, es_lastPriceChange := w_t x\<rparr>) x)
           \<lparr>w_deployed := True\<rparr>)
        (deploy_gas 2210501 (emit (PricePerUnitSet (p_pricePerUnit p)) c)))"

definition create_call :: "host \<Rightarrow> world \<Rightarrow> string \<Rightarrow> string \<Rightarrow> string option \<Rightarrow> body \<Rightarrow> outcome" where
  "create_call H w fn title flow body =
     call H w (chain_spec fn None Owner ANone flow (Some title)) body"

definition deploy :: "host \<Rightarrow> world \<Rightarrow> string option \<Rightarrow> world" where
  "deploy H w0 flow =
     (let p = w_params w0;
          w1 = o_world (create_call H w0 ''create:xKoinToken'' ''Deploy xKoinToken'' flow create_token_body);
          w2 = o_world (create_call H w1 ''create:xKoinTreasury'' ''Deploy xKoinTreasury'' flow (create_treasury_body p))
      in o_world (create_call H w2 ''create:xKoinEscrow'' ''Deploy xKoinEscrow'' flow (create_escrow_body p)))"

section \<open>When a body commits\<close>

lemma tre_upd_fields [simp]:
  "w_token (tre_upd f w) = w_token w" "w_escrow (tre_upd f w) = w_escrow w"
  "w_fiat (tre_upd f w) = w_fiat w" "w_t (tre_upd f w) = w_t w" "w_params (tre_upd f w) = w_params w"
  "w_tickets (tre_upd f w) = w_tickets w" "w_devices (tre_upd f w) = w_devices w"
  "w_treasury (tre_upd f w) = f (w_treasury w)"
  by (simp_all add: tre_upd_def)

lemma claim_commits [body_simps]:
  "fst (claim_body H from x c) = Inr x' \<longleftrightarrow>
     0 < tk_bal (w_token x) TreasuryAcc \<and>
     x' = (case tr_beneficiary (w_treasury x) of
             None \<Rightarrow> bal_upd (\<lambda>b. b(TreasuryAcc := 0)) x
           | Some b \<Rightarrow> bal_upd (moved TreasuryAcc (Wallet b) (tk_bal (w_token x) TreasuryAcc)) x)"
  by (auto simp: claim_body_def Let_def bal_upd_def moved_def split: option.splits)

lemma setFeeBps_commits [body_simps]:
  "fst (setFeeBps_body from f x c) = Inr x' \<longleftrightarrow>
     tr_owner (w_treasury x) = Some from \<and> f \<le> 1000 \<and> x' = tre_upd (\<lambda>t. t\<lparr>tr_feeBps := f\<rparr>) x"
  by (auto simp: setFeeBps_body_def)

lemma queueBeneficiary_commits [body_simps]:
  "fst (queueBeneficiary_body H from n x c) = Inr x' \<longleftrightarrow>
     tr_owner (w_treasury x) = Some from \<and>
     x' = tre_upd (\<lambda>t. t\<lparr>tr_pending := Some n, tr_activation := w_t x + 7 * 86400\<rparr>) x"
  by (auto simp: queueBeneficiary_body_def)

lemma activateBeneficiary_commits [body_simps]:
  "fst (activateBeneficiary_body H x c) = Inr x' \<longleftrightarrow>
     (\<exists>p. tr_pending (w_treasury x) = Some p \<and> tr_activation (w_treasury x) \<le> w_t x \<and>
        x' = tre_upd (\<lambda>t. t\<lparr>tr_beneficiary := Some p, tr_pending := None, tr_activation := 0\<rparr>) x)"
  by (auto simp: activateBeneficiary_body_def split: option.splits)

lemma cancelBeneficiaryChange_commits [body_simps]:
  "fst (cancelBeneficiaryChange_body H from x c) = Inr x' \<longleftrightarrow>
     (tr_owner (w_treasury x) = Some from \<or> tr_beneficiary (w_treasury x) = Some from) \<and>
     tr_pending (w_treasury x) \<noteq> None \<and>
     x' = tre_upd (\<lambda>t. t\<lparr>tr_pending := None, tr_activation := 0\<rparr>) x"
  by (auto simp: cancelBeneficiaryChange_body_def Let_def)

lemma transferOwnership_commits [body_simps]:
  "fst (transferOwnership_body H from k n x c) = Inr x' \<longleftrightarrow>
     owner_of x k = Some from \<and> x' = set_pending k (Some n) x"
  by (auto simp: transferOwnership_body_def)

lemma acceptOwnership_commits [body_simps]:
  "fst (acceptOwnership_body H from k x c) = Inr x' \<longleftrightarrow>
     pending_of x k = Some from \<and> x' = set_pending k None (set_owner k (Some from) x)"
  by (auto simp: acceptOwnership_body_def)

lemma create_token_commits [body_simps]:
  "fst (create_token_body x c) = Inr x' \<longleftrightarrow> x' = set_owner TokenC (Some Owner) x"
  by (auto simp: create_token_body_def)

lemma create_treasury_commits [body_simps]:
  "fst (create_treasury_body p x c) = Inr x' \<longleftrightarrow>
     x' = tre_upd (\<lambda>t. t\<lparr>tr_owner := Some Owner, tr_feeBps := p_feeBps p, tr_beneficiary := Some Founder\<rparr>) x"
  by (auto simp: create_treasury_body_def)

lemma create_escrow_commits [body_simps]:
  "fst (create_escrow_body p x c) = Inr x' \<longleftrightarrow>
     1 \<le> p_pricePerUnit p \<and> p_pricePerUnit p \<le> 50000 \<and>
     x' = (esc_upd (\<lambda>e. e\<lparr>es_owner := Some Owner, es_pricePerUnit := p_pricePerUnit p, es_lastPriceChange := w_t x\<rparr>) x)
            \<lparr>w_deployed := True\<rparr>"
  by (auto simp: create_escrow_body_def)

lemma ownership_fields [simp]:
  "tk_bal (w_token (set_owner k a w)) = tk_bal (w_token w)" "tk_bal (w_token (set_pending k a w)) = tk_bal (w_token w)"
  "tk_supply (w_token (set_owner k a w)) = tk_supply (w_token w)" "tk_supply (w_token (set_pending k a w)) = tk_supply (w_token w)"
  "tk_bridges (w_token (set_owner k a w)) = tk_bridges (w_token w)" "tk_bridges (w_token (set_pending k a w)) = tk_bridges (w_token w)"
  "es_deposits (w_escrow (set_owner k a w)) = es_deposits (w_escrow w)" "es_deposits (w_escrow (set_pending k a w)) = es_deposits (w_escrow w)"
  "es_earnings (w_escrow (set_owner k a w)) = es_earnings (w_escrow w)" "es_earnings (w_escrow (set_pending k a w)) = es_earnings (w_escrow w)"
  "es_pricePerUnit (w_escrow (set_owner k a w)) = es_pricePerUnit (w_escrow w)" "es_pricePerUnit (w_escrow (set_pending k a w)) = es_pricePerUnit (w_escrow w)"
  "tr_feeBps (w_treasury (set_owner k a w)) = tr_feeBps (w_treasury w)" "tr_feeBps (w_treasury (set_pending k a w)) = tr_feeBps (w_treasury w)"
  "tr_beneficiary (w_treasury (set_owner k a w)) = tr_beneficiary (w_treasury w)" "tr_beneficiary (w_treasury (set_pending k a w)) = tr_beneficiary (w_treasury w)"
  "w_fiat (set_owner k a w) = w_fiat w" "w_fiat (set_pending k a w) = w_fiat w"
  "w_params (set_owner k a w) = w_params w" "w_params (set_pending k a w) = w_params w"
  by (cases k; simp add: set_owner_def set_pending_def)+

lemma owner_reads [simp]:
  "owner_of (set_pending k a w) j = owner_of w j"
  "pending_of (set_pending k a w) j = (if j = k then a else pending_of w j)"
  "owner_of (set_owner k a w) j = (if j = k then a else owner_of w j)"
  "pending_of (set_owner k a w) j = pending_of w j"
  by (cases k; cases j; simp add: set_owner_def set_pending_def owner_of_def pending_of_def)+

end
