(* ===== verification/Offchain.thy ===== *)
theory Offchain
  imports Treasury
begin

text \<open>
  The off-chain parties of \<open>web/src/demo/engine.js\<close>: the wallets that sign tickets, permits and
  authorisations, the M-Pesa rails, the kiosk's vouchers and the node that verifies them, time, lost
  phones, the gas top-up; and the two helpers shared with the screen, \<open>pendingTickets\<close> and \<open>batchQuote\<close>.
\<close>

section \<open>Wallets\<close>

definition device_ok :: "world \<Rightarrow> actor \<Rightarrow> bool" where
  "device_ok x who \<longleftrightarrow> w_devices x who \<noteq> Some False"

definition device_lost_detail :: "actor \<Rightarrow> string" where
  "device_lost_detail who = nameOf (actor_key who) @ [char_of (39::nat)]
     @ ''s phone is lost; restore the wallet from its seed first''"

definition or_title :: "string option \<Rightarrow> string \<Rightarrow> string option" where
  "or_title title d = Some (case title of None \<Rightarrow> d | Some t \<Rightarrow> t)"

definition tickets_of :: "world \<Rightarrow> actor \<Rightarrow> actor \<Rightarrow> ticket list" where
  "tickets_of x client node = get_or [] (w_tickets x) (client, node)"

definition held_sequence :: "world \<Rightarrow> actor \<Rightarrow> actor \<Rightarrow> int" where
  "held_sequence x client node =
     (let ts = tickets_of x client node in if ts = [] then 0 else tt_sequenceNumber (last ts))"

definition next_ticket :: "host \<Rightarrow> world \<Rightarrow> actor \<Rightarrow> actor \<Rightarrow> int \<Rightarrow> actor \<Rightarrow> ticket" where
  \<comment> \<open>the signed ticket\<close>
  "next_ticket H x client node units signer =
     (let t = \<lparr>tt_client = client, tt_nodeAdmin = node,
               tt_sequenceNumber = max (last_seq x (channel_key H client node)) (held_sequence x client node) + 1,
               tt_cumulativeUnits = units, tt_epochExpiry = w_t x + p_epochSeconds (w_params x),
               tt_signature = '''', tt_digest = '''', tt_signedBy = signer, tt_at = w_t x\<rparr>;
          digest = ticket_digest H t
      in t\<lparr>tt_signature := sig_signature (signDigest H digest (dk_secret (KEYS H signer))),
           tt_digest := bytesToHex digest\<rparr>)"

definition ticket_parts :: "host \<Rightarrow> ticket \<Rightarrow> digest_parts" where
  "ticket_parts H t =
     ticketDigest H (addr H (tt_client t)) (addr H (tt_nodeAdmin t)) (tt_sequenceNumber t)
       (tt_cumulativeUnits t) (tt_epochExpiry t) ESCROW_DOMAIN"

definition signTicket_body :: "host \<Rightarrow> actor \<Rightarrow> actor \<Rightarrow> int \<Rightarrow> actor \<Rightarrow> body" where
  "signTicket_body H client node units signer x c =
     (if \<not> device_ok x signer then reverts ''DeviceUnavailable'' (device_lost_detail signer) c
      else
        let t = next_ticket H x client node units signer;
            d = ticket_parts H t;
            c1 = crypto ''TICKET_TYPEHASH'' (bytesToHex (dg_typeHash d)) c;
            c2 = crypto ''abi.encode(typehash, client, nodeAdmin, seq, units, expiry): 192 bytes hashed''
                   (bytesToHex (dg_encoded d)) c1;
            c3 = crypto ''structHash = keccak256(typehash, client, nodeAdmin, seq, units, expiry)''
                   (bytesToHex (dg_structHash d)) c2;
            c4 = crypto (''domainSeparator (xKoinEscrow, 1, chain '' @ int_str chainId @ '')'')
                   (bytesToHex (dp_separator (dg_domain d))) c3;
            c5 = crypto ''preimage 0x1901 || domainSeparator || structHash: 66 bytes hashed'' (bytesToHex (dg_preimage d)) c4;
            c6 = crypto ''digest = keccak256(0x1901 || domain || structHash)'' (bytesToHex (dg_digest d)) c5;
            c7 = crypto ''secp256k1 signature r || s || v'' (tt_signature t) c6
        in commits
             (x\<lparr>w_tickets := AList.update (client, node) (tickets_of x client node @ [t]) (w_tickets x)\<rparr>)
             (set_result (RTicket t) c7))"

definition signTicket :: "host \<Rightarrow> world \<Rightarrow> actor \<Rightarrow> actor \<Rightarrow> int \<Rightarrow> string option \<Rightarrow> string option \<Rightarrow> actor option \<Rightarrow> outcome" where
  "signTicket H w client node units flow title signer =
     (let s = (case signer of None \<Rightarrow> client | Some a \<Rightarrow> a) in
      call H w (off_spec ''signTicket'' LWallet s (ASignTicket node units) flow (or_title title ''Sign ticket''))
        (signTicket_body H client node units s))"

definition next_permit :: "host \<Rightarrow> world \<Rightarrow> actor \<Rightarrow> holder \<Rightarrow> int \<Rightarrow> permit" where
  \<comment> \<open>the signed permit\<close>
  "next_permit H x owner spender v =
     (let p = \<lparr>pm_owner = owner, pm_spender = spender, pm_value = v, pm_nonce = tk_nonces (w_token x) owner,
               pm_deadline = w_t x + 3600, pm_signature = ''''\<rparr>
      in p\<lparr>pm_signature := sig_signature (signDigest H (permit_digest H x p) (dk_secret (KEYS H owner)))\<rparr>)"

definition signPermit_body :: "host \<Rightarrow> actor \<Rightarrow> holder \<Rightarrow> int \<Rightarrow> body" where
  "signPermit_body H owner spender v x c =
     (if \<not> device_ok x owner then reverts ''DeviceUnavailable'' (device_lost_detail owner) c
      else
        let p = next_permit H x owner spender v;
            d = permitDigest H (addr H owner) (holder_addr H spender) v (pm_nonce p) (pm_deadline p) TOKEN_DOMAIN;
            c1 = crypto (''Permit struct hash (owner, spender, value, nonce '' @ int_str (pm_nonce p) @ '', deadline)'')
                   (bytesToHex (dg_structHash d)) c;
            c2 = crypto ''digest (domain xKoin, 1)'' (bytesToHex (dg_digest d)) c1;
            c3 = crypto ''secp256k1 signature'' (pm_signature p) c2
        in commits (x\<lparr>w_permits := w_permits x @ [p]\<rparr>) (set_result (RPermit p) c3))"

definition signPermit :: "host \<Rightarrow> world \<Rightarrow> actor \<Rightarrow> holder \<Rightarrow> int \<Rightarrow> string option \<Rightarrow> string option \<Rightarrow> outcome" where
  "signPermit H w owner spender v flow title =
     call H w (off_spec ''signPermit'' LWallet owner (ASignPermit spender v) flow (or_title title ''Sign permit''))
       (signPermit_body H owner spender v)"

fun kind_name :: "auth_kind \<Rightarrow> string" where
  "kind_name KWithdraw = ''withdraw''"
| "kind_name KTransfer = ''transfer''"

definition signAuth_body :: "host \<Rightarrow> auth_kind \<Rightarrow> actor \<Rightarrow> actor \<Rightarrow> int \<Rightarrow> body" where
  "signAuth_body H kind owner to amount x c =
     (if \<not> device_ok x owner then reverts ''DeviceUnavailable'' (device_lost_detail owner) c
      else
        let deadline = w_t x + 3600;
            nonce = es_authNonces (w_escrow x) owner;
            d = authDigest H kind (addr H owner) (addr H to) amount nonce deadline ESCROW_DOMAIN;
            sig = sig_signature (signDigest H (dg_digest d) (dk_secret (KEYS H owner)));
            c1 = crypto ((if kind = KWithdraw then ''WITHDRAW'' else ''TRANSFER'') @ ''_TYPEHASH'') (bytesToHex (dg_typeHash d)) c;
            c2 = crypto (''structHash (from, to '' @ nameOf (actor_key to) @ '', amount, nonce '' @ int_str nonce @ '', deadline)'')
                   (bytesToHex (dg_structHash d)) c1;
            c3 = crypto ''abi.encode(typehash, from, to, amount, nonce, deadline): 192 bytes hashed'' (bytesToHex (dg_encoded d)) c2;
            c4 = crypto ''preimage 0x1901 || domainSeparator || structHash'' (bytesToHex (dg_preimage d)) c3;
            c5 = crypto ''digest (domain xKoinEscrow, 1)'' (bytesToHex (dg_digest d)) c4;
            c6 = crypto ''secp256k1 signature'' sig c5
        in commits x (set_result (RAuth \<lparr>au_kind = kind, au_from = owner, au_to = to, au_amount = amount,
                        au_nonce = nonce, au_deadline = deadline, au_signature = sig\<rparr>) c6))"

definition signAuth :: "host \<Rightarrow> world \<Rightarrow> auth_kind \<Rightarrow> actor \<Rightarrow> actor \<Rightarrow> int \<Rightarrow> string option \<Rightarrow> string option \<Rightarrow> outcome" where
  "signAuth H w kind owner to amount flow title =
     call H w (off_spec ''signAuth'' LWallet owner (ASignAuth kind to amount) flow
                 (or_title title (''Sign '' @ kind_name kind @ '' authorisation'')))
       (signAuth_body H kind owner to amount)"

section \<open>The M-Pesa rails\<close>

definition stk_receipt :: "world \<Rightarrow> int \<Rightarrow> string" where
  "stk_receipt x amount = ''ws_CO_'' @ int_str (w_seq x + 1) @ ''_'' @ int_str (js_round (of_int amount / of_int UKES))"

definition stkPush_body :: "actor \<Rightarrow> int \<Rightarrow> bool \<Rightarrow> body" where
  "stkPush_body client amount fail x c =
     (let f = w_fiat x in
      if fail then reverts ''STKCancelled'' ''customer cancelled the prompt; nothing minted'' c
      else if \<not> fi_mpesa f client \<ge> amount
      then reverts ''MpesaInsufficientFunds'' (''M-Pesa balance '' @ fmt (fi_mpesa f client) 6 @ '' KES'') c
      else
        let receipt = stk_receipt x amount
        in commits
             (x\<lparr>w_fiat := f\<lparr>fi_mpesa := (fi_mpesa f)(client := fi_mpesa f client - amount), fi_float := fi_float f + amount\<rparr>\<rparr>)
             (note_line (''Daraja callback ResultCode 0, receipt '' @ receipt @ ''. The mint waits for this callback.'')
               (set_result (RString receipt) c)))"

definition stkPush :: "host \<Rightarrow> world \<Rightarrow> actor \<Rightarrow> int \<Rightarrow> string option \<Rightarrow> bool \<Rightarrow> outcome" where
  "stkPush H w client amount flow fail =
     call H w (off_spec ''M-Pesa STK push'' LFiat client (AStkPush amount) flow (Some ''M-Pesa pays kiosk''))
       (stkPush_body client amount fail)"

definition b2cPayout_body :: "actor \<Rightarrow> int \<Rightarrow> bool \<Rightarrow> body" where
  "b2cPayout_body to amount fail x c =
     (let f = w_fiat x in
      if fail then reverts ''B2CFailed'' ''bank result callback failed; the XKN stays on the bridge and nothing is burned'' c
      else if \<not> fi_float f \<ge> amount then reverts ''FloatShort'' ''kiosk float below payout'' c
      else commits
             (x\<lparr>w_fiat := f\<lparr>fi_mpesa := (fi_mpesa f)(to := fi_mpesa f to + amount), fi_float := fi_float f - amount\<rparr>\<rparr>)
             (set_result (RString (''B2C_'' @ int_str (w_seq x + 1))) c))"

definition b2cPayout :: "host \<Rightarrow> world \<Rightarrow> actor \<Rightarrow> int \<Rightarrow> string option \<Rightarrow> bool \<Rightarrow> outcome" where
  "b2cPayout H w to amount flow fail =
     call H w (off_spec ''M-Pesa B2C payout'' LFiat Kiosk (AB2c to amount) flow (Some ''Kiosk pays M-Pesa''))
       (b2cPayout_body to amount fail)"

section \<open>Vouchers\<close>

definition voucher_fields :: "string \<Rightarrow> int \<Rightarrow> string \<Rightarrow> string \<Rightarrow> int \<Rightarrow> int \<Rightarrow> voucher_obj" where
  "voucher_fields address amount ref rail issued expires =
     [(''address'', JStr address), (''amount_ukes'', JNum amount), (''fiat_ref'', JStr ref),
      (''rail'', JStr rail), (''issued'', JNum issued), (''expires'', JNum expires)]"

definition voucher_of :: "voucher_rec \<Rightarrow> voucher_obj" where
  "voucher_of v = voucher_fields (vo_address v) (vo_amount_ukes v) (vo_fiat_ref v) (vo_rail v) (vo_issued v) (vo_expires v)"

definition next_voucher :: "host \<Rightarrow> world \<Rightarrow> actor \<Rightarrow> int \<Rightarrow> string \<Rightarrow> voucher_rec" where
  "next_voucher H x to amount ref =
     (let v = \<lparr>vo_who = to, vo_address = addr H to, vo_amount_ukes = amount, vo_fiat_ref = ref, vo_rail = ''daraja'',
               vo_issued = w_t x, vo_expires = w_t x + p_voucherSeconds (w_params x), vo_signature = ''''\<rparr>
      in v\<lparr>vo_signature := snd (signVoucher H (voucher_of v) (dk_secret (KEYS H Kiosk)))\<rparr>)"

definition issueVoucher_body :: "host \<Rightarrow> actor \<Rightarrow> int \<Rightarrow> string \<Rightarrow> body" where
  "issueVoucher_body H to amount ref x c =
     (let v = next_voucher H x to amount ref
      in commits (x\<lparr>w_vouchers := w_vouchers x @ [v]\<rparr>)
           (crypto ''kiosk root public key (the 32 bytes in node firmware)'' (dk_edPublic (KEYS H Kiosk))
             (crypto ''Ed25519 signature by kiosk root key'' (vo_signature v)
               (crypto ''canonical voucher JSON'' (json_object (sort_key fst (voucher_of v))) c))))"

definition issueVoucher :: "host \<Rightarrow> world \<Rightarrow> actor \<Rightarrow> int \<Rightarrow> string \<Rightarrow> string option \<Rightarrow> outcome" where
  "issueVoucher H w to amount ref flow =
     call H w (off_spec ''issueVoucher'' LKiosk Kiosk (AIssueVoucher to amount) flow (Some ''Kiosk signs voucher''))
       (issueVoucher_body H to amount ref)"

definition latest_voucher :: "world \<Rightarrow> actor \<Rightarrow> voucher_rec option" where
  "latest_voucher x who = find (\<lambda>v. vo_who v = who) (rev (w_vouchers x))"

definition nodeVerify_body :: "host \<Rightarrow> actor \<Rightarrow> body" where
  "nodeVerify_body H who x c =
     (case latest_voucher x who of
        None \<Rightarrow> reverts ''NoVoucher'' (nameOf (actor_key who) @ '' has no voucher'') c
      | Some v \<Rightarrow>
          let ok = verifyVoucher H (voucher_of v) (vo_signature v) (dk_edPublic (KEYS H Kiosk));
              c1 = crypto ''Ed25519 verify against kiosk public key'' (if ok then ''valid'' else ''INVALID'') c
          in if \<not> ok then reverts ''VoucherInvalid'' '''' c1
             else if \<not> w_t x \<le> vo_expires v
             then reverts ''VoucherExpired'' (''expired '' @ fmtDur (w_t x - vo_expires v) @ '' ago'') c1
             else commits x (set_result (RVoucher v) c1))"

definition nodeVerify :: "host \<Rightarrow> world \<Rightarrow> actor \<Rightarrow> string option \<Rightarrow> outcome" where
  \<comment> \<open>\<open>offchain.verifyVoucher\<close>\<close>
  "nodeVerify H w who flow =
     call H w (off_spec ''verifyVoucher'' LNode Node (AVerifyVoucher who) flow (Some ''Node verifies voucher offline''))
       (nodeVerify_body H who)"

section \<open>Time, phones and gas\<close>

definition warp :: "host \<Rightarrow> world \<Rightarrow> int \<Rightarrow> string option \<Rightarrow> outcome" where
  "warp H w seconds flow =
     call H w (off_spec ''warp'' LTime Owner (AWarp seconds) flow (Some (''Time passes: '' @ fmtDur seconds)))
       (\<lambda>x c. commits (x\<lparr>w_t := w_t x + seconds\<rparr>) c)"

definition loseDevice :: "host \<Rightarrow> world \<Rightarrow> actor \<Rightarrow> string option \<Rightarrow> outcome" where
  "loseDevice H w who flow =
     call H w (off_spec ''loseDevice'' LWallet who ANone flow (Some (nameOf (actor_key who) @ '' loses their phone'')))
       (\<lambda>x c. commits (x\<lparr>w_devices := (w_devices x)(who \<mapsto> False)\<rparr>)
          (note_line ''Nothing on chain changes. The key is gone from this device; the funds are not.'' c))"

definition restoreFromSeed :: "host \<Rightarrow> world \<Rightarrow> actor \<Rightarrow> string option \<Rightarrow> outcome" where
  "restoreFromSeed H w who flow =
     call H w (off_spec ''restoreFromSeed'' LWallet who ANone flow (Some ''Restore wallet from seed phrase''))
       (\<lambda>x c. commits (x\<lparr>w_devices := (w_devices x)(who \<mapsto> True)\<rparr>)
          (note_line ''Same seed, same key, same address. Wallet balance and escrow deposit are both keyed by address, so both return intact.''
            (crypto ''seed -> private key -> secp256k1 public key -> keccak256 -> address'' (addr H who) c)))"

definition fundGas_body :: "actor \<Rightarrow> rat \<Rightarrow> body" where
  "fundGas_body to gwei x c =
     (if \<not> w_eth x Kiosk \<ge> gwei then reverts ''InsufficientEth'' '''' c
      else
        let e = (w_eth x)(Kiosk := w_eth x Kiosk - gwei)
        in commits (x\<lparr>w_eth := e(to := e to + gwei)\<rparr>) c)"

definition fundGas :: "host \<Rightarrow> world \<Rightarrow> actor \<Rightarrow> rat \<Rightarrow> string option \<Rightarrow> outcome" where
  "fundGas H w to gwei flow =
     call H w (chain_spec ''ethTransfer'' None Kiosk (AFundGas to gwei) flow
                 (Some (''Kiosk sends gas to '' @ nameOf (actor_key to))))
       (fundGas_body to gwei)"

section \<open>Helpers shared with the screen\<close>

record pending_ticket =
  pt_key :: "actor \<times> actor"
  pt_ticket :: ticket
  pt_settledUnits :: int
  pt_deltaUnits :: int
  pt_heldCount :: nat

definition pending_of_channel :: "host \<Rightarrow> world \<Rightarrow> (actor \<times> actor) \<times> ticket list \<Rightarrow> pending_ticket option" where
  "pending_of_channel H w kl =
     (let (key, ts) = kl in
      if ts = [] then None
      else
        let latest = last ts;
            i = channel_key H (tt_client latest) (tt_nodeAdmin latest)
        in if tt_sequenceNumber latest > last_seq w i \<and> tt_cumulativeUnits latest > settled_units w i
           then Some \<lparr>pt_key = key, pt_ticket = latest, pt_settledUnits = settled_units w i,
                      pt_deltaUnits = tt_cumulativeUnits latest - settled_units w i, pt_heldCount = length ts\<rparr>
           else None)"

definition pendingTickets :: "host \<Rightarrow> world \<Rightarrow> actor option \<Rightarrow> pending_ticket list" where
  "pendingTickets H w node =
     List.map_filter (pending_of_channel H w)
       (filter (\<lambda>(key, ts). ts \<noteq> [] \<and> (case node of None \<Rightarrow> True | Some n \<Rightarrow> tt_nodeAdmin (last ts) = n)) (w_tickets w))"

record quote =
  qu_gross :: int
  qu_fee :: int
  qu_net :: int
  qu_gas :: int
  qu_gasKes :: rat
  qu_feeKes :: rat
  qu_go :: bool

definition quote_paid :: "world \<Rightarrow> pending_ticket \<Rightarrow> int" where
  "quote_paid w p = min (pt_deltaUnits p * es_pricePerUnit (w_escrow w)) (deposit_of w (tt_client (pt_ticket p)))"

definition quote_shape :: "host \<Rightarrow> world \<Rightarrow> pending_ticket \<Rightarrow> ticket_shape" where
  "quote_shape H w p =
     \<lparr>sh_channelWarm = last_seq w (channel_key H (tt_client (pt_ticket p)) (tt_nodeAdmin (pt_ticket p))) \<noteq> 0,
      sh_earningsWarm = earning_of w (tt_nodeAdmin (pt_ticket p)) > 0\<rparr>"

definition batchQuote :: "host \<Rightarrow> world \<Rightarrow> pending_ticket list \<Rightarrow> quote" where
  "batchQuote H w pending =
     (let gross = sum_list (map (quote_paid w) pending);
          fee = sum_list (map (\<lambda>p. fee_of w (quote_paid w p)) pending);
          gas = (if pending \<noteq> [] then settleGas (map (quote_shape H w) pending) (tk_bal (w_token w) TreasuryAcc > 0) else 0);
          gasKes = gasToKes gas (w_params w);
          feeKes = of_int fee / of_int UKES
      in \<lparr>qu_gross = gross, qu_fee = fee, qu_net = gross - fee, qu_gas = gas, qu_gasKes = gasKes, qu_feeKes = feeKes,
          qu_go = (feeKes \<ge> 2 * gasKes)\<rparr>)"

section \<open>When a body commits\<close>

lemma signTicket_commits [body_simps]:
  "fst (signTicket_body H client node units s x c) = Inr x' \<longleftrightarrow>
     device_ok x s \<and>
     x' = x\<lparr>w_tickets := AList.update (client, node)
              (tickets_of x client node @ [next_ticket H x client node units s]) (w_tickets x)\<rparr>"
  by (auto simp: signTicket_body_def Let_def)

lemma signPermit_commits [body_simps]:
  "fst (signPermit_body H ow sp v x c) = Inr x' \<longleftrightarrow>
     device_ok x ow \<and> x' = x\<lparr>w_permits := w_permits x @ [next_permit H x ow sp v]\<rparr>"
  by (auto simp: signPermit_body_def Let_def)

lemma signAuth_commits [body_simps]:
  "fst (signAuth_body H kind ow to amount x c) = Inr x' \<longleftrightarrow> device_ok x ow \<and> x' = x"
  by (auto simp: signAuth_body_def Let_def)

lemma stkPush_commits [body_simps]:
  "fst (stkPush_body client amount fail x c) = Inr x' \<longleftrightarrow>
     \<not> fail \<and> amount \<le> fi_mpesa (w_fiat x) client \<and>
     x' = x\<lparr>w_fiat := (w_fiat x)\<lparr>fi_mpesa := (fi_mpesa (w_fiat x))(client := fi_mpesa (w_fiat x) client - amount),
                                 fi_float := fi_float (w_fiat x) + amount\<rparr>\<rparr>"
  by (auto simp: stkPush_body_def Let_def)

lemma b2cPayout_commits [body_simps]:
  "fst (b2cPayout_body to amount fail x c) = Inr x' \<longleftrightarrow>
     \<not> fail \<and> amount \<le> fi_float (w_fiat x) \<and>
     x' = x\<lparr>w_fiat := (w_fiat x)\<lparr>fi_mpesa := (fi_mpesa (w_fiat x))(to := fi_mpesa (w_fiat x) to + amount),
                                 fi_float := fi_float (w_fiat x) - amount\<rparr>\<rparr>"
  by (auto simp: b2cPayout_body_def Let_def)

lemma nodeVerify_commits [body_simps]:
  "fst (nodeVerify_body H who x c) = Inr x' \<longleftrightarrow>
     (\<exists>v. latest_voucher x who = Some v \<and>
        verifyVoucher H (voucher_of v) (vo_signature v) (dk_edPublic (KEYS H Kiosk)) \<and> w_t x \<le> vo_expires v) \<and> x' = x"
  by (auto simp: nodeVerify_body_def Let_def split: option.splits)

lemma fundGas_commits [body_simps]:
  "fst (fundGas_body to gwei x c) = Inr x' \<longleftrightarrow>
     gwei \<le> w_eth x Kiosk \<and>
     x' = x\<lparr>w_eth := (let e = (w_eth x)(Kiosk := w_eth x Kiosk - gwei) in e(to := e to + gwei))\<rparr>"
  by (auto simp: fundGas_body_def Let_def)

lemma issueVoucher_commits [body_simps]:
  "fst (issueVoucher_body H to amount ref x c) = Inr x' \<longleftrightarrow>
     x' = x\<lparr>w_vouchers := w_vouchers x @ [next_voucher H x to amount ref]\<rparr>"
  by (auto simp: issueVoucher_body_def Let_def)

end
