(* ===== verification/Invariants.thy ===== *)
theory Invariants
  imports Offchain
begin

text \<open>
  Every call on one world: the operations of \<open>token\<close>, \<open>escrow\<close>, \<open>treasury\<close>, \<open>ownable\<close>,
  \<open>offchain\<close> and the three deployment calls as data, the worlds reachable from \<open>createWorld\<close> by them,
  and the invariant of those worlds: supply conservation, escrow solvency, no negative balance, the
  fee and price bands.  Amounts are uint values, as the contracts' ABI makes them.
\<close>

named_theorems call_inv \<open>calls keep the invariant\<close>

section \<open>The invariant\<close>

definition unowned :: "world \<Rightarrow> bool" where
  \<comment> \<open>the treasury is not deployed yet\<close>
  "unowned w \<longleftrightarrow> tr_owner (w_treasury w) = None \<and> tr_pendingOwner (w_treasury w) = None"

definition inv :: "world \<Rightarrow> bool" where
  "inv w \<longleftrightarrow>
     conserved w \<and> solvent w \<and> nonneg w \<and>
     (0 \<le> tr_feeBps (w_treasury w) \<and> tr_feeBps (w_treasury w) \<le> 1000) \<and>
     (tr_beneficiary (w_treasury w) = None \<longrightarrow>
        tr_feeBps (w_treasury w) = 0 \<and> tk_bal (w_token w) TreasuryAcc = 0 \<and> unowned w) \<and>
     (0 \<le> es_pricePerUnit (w_escrow w) \<and> es_pricePerUnit (w_escrow w) \<le> 50000) \<and>
     (0 \<le> p_feeBps (w_params w) \<and> p_feeBps (w_params w) \<le> 1000) \<and>
     ((\<forall>a. 0 \<le> fi_mpesa (w_fiat w) a) \<and> 0 \<le> fi_float (w_fiat w))"

lemma inv_core: "core w = core w' \<Longrightarrow> inv w \<longleftrightarrow> inv w'"
  by (simp add: core_eq_iff inv_def unowned_def conserved_def solvent_def nonneg_def held_total_def deposits_total_def earnings_total_def)

interpretation invp: core_predicate inv
  by unfold_locales (rule inv_core)

lemma createWorld_inv: "0 \<le> p_feeBps p \<and> p_feeBps p \<le> 1000 \<Longrightarrow> inv (createWorld p)"
  using createWorld_invariants [of p] by (simp add: inv_def unowned_def createWorld_def zeroes_def kes_def UKES_def js_round_def)

section \<open>Totals\<close>

lemma totals [simp]:
  "held_total (bal_upd f w) = sum_over HOLDERS (f (tk_bal (w_token w)))"
  "held_total (set_deposit a v w) = held_total w" "held_total (set_earning a v w) = held_total w"
  "held_total (set_allow ow s v w) = held_total w" "held_total (nonce_used a w) = held_total w"
  "held_total (record_channel i t w) = held_total w" "held_total (tre_upd g w) = held_total w"
  "held_total (set_owner k b w) = held_total w" "held_total (set_pending k b w) = held_total w"
  "deposits_total (bal_upd f w) = deposits_total w" "earnings_total (bal_upd f w) = earnings_total w"
  "deposits_total (set_allow ow s v w) = deposits_total w" "earnings_total (set_allow ow s v w) = earnings_total w"
  "deposits_total (nonce_used a w) = deposits_total w" "earnings_total (nonce_used a w) = earnings_total w"
  "deposits_total (record_channel i t w) = deposits_total w" "earnings_total (record_channel i t w) = earnings_total w"
  "deposits_total (tre_upd g w) = deposits_total w" "earnings_total (tre_upd g w) = earnings_total w"
  "deposits_total (set_owner k b w) = deposits_total w" "earnings_total (set_owner k b w) = earnings_total w"
  "deposits_total (set_pending k b w) = deposits_total w" "earnings_total (set_pending k b w) = earnings_total w"
  "deposits_total (set_deposit a v w) = deposits_total w - deposit_of w a + v"
  "earnings_total (set_deposit a v w) = earnings_total w"
  "deposits_total (set_earning a v w) = deposits_total w"
  "earnings_total (set_earning a v w) = earnings_total w - earning_of w a + v"
  by (simp_all add: held_total_def deposits_total_def earnings_total_def sum_over_upd deposit_of_def earning_of_def)

lemma held_sum: "sum_over HOLDERS (tk_bal (w_token w)) = held_total w"
  by (simp add: held_total_def)

lemmas inv_unfold = inv_def unowned_def conserved_def solvent_def nonneg_def

section \<open>Token\<close>

lemma inv_move:
  assumes "inv x" and "0 \<le> v" and "v \<le> tk_bal (w_token x) (Wallet a)"
  shows "inv (bal_upd (moved (Wallet a) (Wallet b) v) x)"
  using assms moved_nonneg [of "tk_bal (w_token x)" v "Wallet a" "Wallet b"]
  by (simp add: inv_unfold held_sum moved_apply)

lemma inv_set_allow [simp]: "inv (set_allow ow s v x) = inv x"
  by (simp add: inv_unfold)

lemma inv_token_fields:
  assumes "inv x" and "tk_bal (w_token x') = tk_bal (w_token x)" and "tk_supply (w_token x') = tk_supply (w_token x)"
    and "w_escrow x' = w_escrow x" and "w_treasury x' = w_treasury x" and "w_fiat x' = w_fiat x" and "w_params x' = w_params x"
  shows "inv x'"
  using assms by (simp add: inv_unfold held_total_def deposits_total_def earnings_total_def)

lemma setBridge_inv: "inv x \<Longrightarrow> fst (setBridge_body H f b al cap x c) = Inr x' \<Longrightarrow> inv x'"
  by (auto simp: body_simps intro: inv_token_fields)

lemma bridgeMint_inv: "inv x \<Longrightarrow> 0 \<le> amount \<Longrightarrow> fst (bridgeMint_body H f to amount r x c) = Inr x' \<Longrightarrow> inv x'"
  by (auto simp: body_simps inv_unfold held_total_def deposits_total_def earnings_total_def sum_over_upd)

lemma bridgeBurn_inv: "inv x \<Longrightarrow> 0 \<le> amount \<Longrightarrow> fst (bridgeBurn_body H f amount r x c) = Inr x' \<Longrightarrow> inv x'"
  by (auto simp: body_simps inv_unfold held_total_def deposits_total_def earnings_total_def sum_over_upd)

lemma approve_inv: "inv x \<Longrightarrow> fst (approve_body H f s amount x c) = Inr x' \<Longrightarrow> inv x'"
  by (simp add: body_simps)

lemma transfer_inv: "inv x \<Longrightarrow> 0 \<le> amount \<Longrightarrow> fst (transfer_body H f to amount x c) = Inr x' \<Longrightarrow> inv x'"
  by (simp add: body_simps inv_move)

lemma transferFrom_inv: "inv x \<Longrightarrow> 0 \<le> amount \<Longrightarrow> fst (transferFrom_body H f ow to amount x c) = Inr x' \<Longrightarrow> inv x'"
  by (simp add: body_simps inv_move)

lemma permit_inv: "inv x \<Longrightarrow> fst (applyPermit H p x c) = Inr x' \<Longrightarrow> inv x'"
  by (auto simp: body_simps intro: inv_token_fields)

section \<open>Escrow\<close>

lemma inv_nonce_used [simp]: "inv (nonce_used a x) = inv x"
  by (simp add: inv_unfold)

lemma inv_deposit_in:
  assumes "inv x" and "0 < v" and "v \<le> tk_bal (w_token x) (Wallet a)"
  shows "inv (set_deposit a (deposit_of x a + v) (bal_upd (moved (Wallet a) EscrowAcc v) x))"
  using assms moved_nonneg [of "tk_bal (w_token x)" v "Wallet a" EscrowAcc]
  by (simp add: inv_unfold held_sum moved_apply deposit_of_def)

lemma escrow_covers:
  assumes "solvent x" and "nonneg x"
  shows "deposit_of x a \<le> tk_bal (w_token x) EscrowAcc" and "earning_of x a \<le> tk_bal (w_token x) EscrowAcc"
proof -
  have d: "deposit_of x a \<le> deposits_total x" "0 \<le> deposits_total x"
    and e: "earning_of x a \<le> earnings_total x" "0 \<le> earnings_total x"
    unfolding deposits_total_def earnings_total_def deposit_of_def earning_of_def
    by (rule sum_over_member_le sum_over_nonneg; use assms(2) in \<open>simp add: nonneg_def\<close>)+
  show "deposit_of x a \<le> tk_bal (w_token x) EscrowAcc" "earning_of x a \<le> tk_bal (w_token x) EscrowAcc"
    using assms(1) d e by (simp_all add: solvent_def)
qed

lemma inv_covers:
  assumes "inv x"
  shows "deposit_of x a \<le> tk_bal (w_token x) EscrowAcc" and "earning_of x a \<le> tk_bal (w_token x) EscrowAcc"
  using assms escrow_covers by (simp_all add: inv_def)

lemma inv_pay_out:
  assumes "inv x" and "0 < v"
  shows "v \<le> deposit_of x a \<Longrightarrow> inv (bal_upd (moved EscrowAcc (Wallet b) v) (set_deposit a (deposit_of x a - v) x))"
    and "v \<le> earning_of x a \<Longrightarrow> inv (bal_upd (moved EscrowAcc (Wallet b) v) (set_earning a (earning_of x a - v) x))"
  using assms inv_covers [OF assms(1), of a] moved_nonneg [of "tk_bal (w_token x)" v EscrowAcc "Wallet b"]
  by (simp_all add: inv_unfold held_sum moved_apply deposit_of_def earning_of_def)

lemma inv_deposit_move:
  assumes "inv x" and "0 < v" and "v \<le> deposit_of x a" and "y = set_deposit a (deposit_of x a - v) x"
  shows "inv (set_deposit b (deposit_of y b + v) y)"
  using assms by (auto simp: inv_unfold deposit_of_def)

lemma doDeposit_inv: "inv x \<Longrightarrow> fst (doDeposit H cl amount x c) = Inr x' \<Longrightarrow> inv x'"
  using inv_deposit_in [of "set_allow cl EscrowAcc (allowance x cl EscrowAcc - amount) x" amount cl]
  by (simp add: body_simps)

lemma permitted_inv: "inv x \<Longrightarrow> inv (permitted H p x)"
  by (auto simp: permitted_def intro: permit_inv split: sum.splits)

lemma depositWithPermit_inv: "inv x \<Longrightarrow> fst (depositWithPermit_body H cl amount p x c) = Inr x' \<Longrightarrow> inv x'"
  unfolding depositWithPermit_commits by (blast intro: doDeposit_inv permitted_inv)

lemma withdrawDeposit_inv: "inv x \<Longrightarrow> fst (withdrawDeposit_body H f amount x c) = Inr x' \<Longrightarrow> inv x'"
  by (auto simp: body_simps intro: inv_pay_out)

lemma withdrawWithSig_inv: "inv x \<Longrightarrow> fst (withdrawWithSig_body H a dest x c) = Inr x' \<Longrightarrow> inv x'"
  using inv_pay_out(1) [of "nonce_used (au_from a) x" "au_amount a" "au_from a"]
  by (auto simp: body_simps auth_accepted_def)

lemma transferDeposit_inv: "inv x \<Longrightarrow> fst (transferDeposit_body H a dest x c) = Inr x' \<Longrightarrow> inv x'"
  using inv_deposit_move [of "nonce_used (au_from a) x" "au_amount a" "au_from a", OF _ _ _ refl]
  by (auto simp: body_simps auth_accepted_def)

lemma claimEarnings_inv: "inv x \<Longrightarrow> fst (claimEarnings_body H f to amount x c) = Inr x' \<Longrightarrow> inv x'"
  by (auto simp: body_simps intro: inv_pay_out)

lemma setPricePerUnit_inv: "inv x \<Longrightarrow> fst (setPricePerUnit_body H f p x c) = Inr x' \<Longrightarrow> inv x'"
  by (auto simp: body_simps inv_unfold held_total_def deposits_total_def earnings_total_def)

text \<open>
  During a batch the fees already charged are still in the escrow's balance: the invariant holds
  with solvency off by the fees collected so far.
\<close>

definition settling :: "settle_acc \<Rightarrow> bool" where
  "settling a \<longleftrightarrow>
     (let w = sa_world a in
      conserved w \<and> nonneg w \<and> tk_bal (w_token w) EscrowAcc = deposits_total w + earnings_total w + sa_fee a \<and>
      0 \<le> sa_fee a \<and> 0 \<le> sa_gross a \<and> sa_fee a \<le> sa_gross a \<and>
      (0 \<le> tr_feeBps (w_treasury w) \<and> tr_feeBps (w_treasury w) \<le> 1000) \<and>
      (tr_beneficiary (w_treasury w) = None \<longrightarrow>
         tr_feeBps (w_treasury w) = 0 \<and> tk_bal (w_token w) TreasuryAcc = 0 \<and> unowned w \<and> sa_fee a = 0) \<and>
      (0 \<le> es_pricePerUnit (w_escrow w) \<and> es_pricePerUnit (w_escrow w) \<le> 50000) \<and>
      (0 \<le> p_feeBps (w_params w) \<and> p_feeBps (w_params w) \<le> 1000) \<and>
      ((\<forall>a. 0 \<le> fi_mpesa (w_fiat w) a) \<and> 0 \<le> fi_float (w_fiat w)))"

lemma fee_bounds:
  assumes "0 \<le> p" and "0 \<le> tr_feeBps (w_treasury x)" and "tr_feeBps (w_treasury x) \<le> 1000"
  shows "0 \<le> fee_of x p" and "fee_of x p \<le> p" and "10 * fee_of x p \<le> p"
proof -
  have le: "p * tr_feeBps (w_treasury x) \<le> p * 1000" using assms by (intro mult_left_mono) auto
  show "0 \<le> fee_of x p" using assms by (simp add: fee_of_def pos_imp_zdiv_nonneg_iff)
  have "fee_of x p \<le> p * 1000 div 10000" unfolding fee_of_def by (rule zdiv_mono1 [OF le]) simp
  also have "\<dots> = p div 10" by simp
  finally show "fee_of x p \<le> p" "10 * fee_of x p \<le> p" using assms(1) by linarith+
qed

lemma pay_ticket_eq:
  "pay_ticket cl nd p x =
     (if 0 < p then (set_earning nd (earning_of x nd + (p - fee_of x p)) (set_deposit cl (deposit_of x cl - p) x), fee_of x p)
      else (x, 0))"
  by (simp add: pay_ticket_def Let_def)

lemma paid_of_nonneg:
  assumes "ticket_accepted H t x" and "0 \<le> es_pricePerUnit (w_escrow x)" and "0 \<le> deposit_of x (tt_client t)"
  shows "0 \<le> paid_of H x t"
  using assms by (auto simp: paid_of_def owed_of_def ticket_accepted_def Let_def intro!: mult_nonneg_nonneg)

lemma settle_one_settling:
  assumes "settling a" and "fst (settle_one H i t a c) = Inr a'"
  shows "settling a'"
proof -
  let ?x = "sa_world a" and ?p = "paid_of H (sa_world a) t"
  have acc: "ticket_accepted H t ?x"
    and a': "sa_world a' = fst (ticket_settled H t ?x)" "sa_gross a' = sa_gross a + ?p"
      "sa_fee a' = sa_fee a + snd (ticket_settled H t ?x)"
    using assms(2) by (simp_all add: settle_one_Inr)
  have nn: "0 \<le> ?p"
    by (rule paid_of_nonneg [OF acc]) (use assms(1) in \<open>simp_all add: settling_def Let_def nonneg_def deposit_of_def\<close>)
  have fees: "0 \<le> fee_of ?x ?p" "fee_of ?x ?p \<le> ?p"
    by (rule fee_bounds [OF nn]; use assms(1) in \<open>simp add: settling_def Let_def\<close>)+
  have nofee: "tr_feeBps (w_treasury ?x) = 0 \<Longrightarrow> fee_of ?x ?p = 0" by (simp add: fee_of_def)
  have le: "?p \<le> deposit_of ?x (tt_client t)" by (simp add: paid_of_def)
  show ?thesis
    using assms(1) nn fees nofee le
    unfolding settling_def Let_def a' ticket_settled_def pay_ticket_eq
    by (auto simp: conserved_def nonneg_def unowned_def deposit_of_def earning_of_def)
qed

lemma settle_loop_settling:
  "fst (settle_loop H i ts a c) = Inr a' \<Longrightarrow> settling a \<Longrightarrow> settling a'"
  by (erule settle_loop_rule) (auto intro: settle_one_settling)

lemma settling_start: "inv x \<Longrightarrow> settling (settle_start x)"
  by (simp add: settling_def settle_start_def inv_unfold)

lemma settling_finish: "settling a \<Longrightarrow> inv (settle_finish a)"
proof -
  assume s: "settling a"
  have le: "sa_fee a \<le> tk_bal (w_token (sa_world a)) EscrowAcc"
  proof -
    have "0 \<le> deposits_total (sa_world a)" "0 \<le> earnings_total (sa_world a)"
      unfolding deposits_total_def earnings_total_def
      by (rule sum_over_nonneg; use s in \<open>simp add: settling_def Let_def nonneg_def\<close>)+
    with s show ?thesis by (simp add: settling_def Let_def)
  qed
  show ?thesis
    using s le moved_nonneg [of "tk_bal (w_token (sa_world a))" "sa_fee a" EscrowAcc TreasuryAcc]
    by (auto simp: settling_def Let_def settle_finish_def inv_unfold held_sum moved_apply)
qed

lemma settle_inv: "inv x \<Longrightarrow> fst (settleTicketBatch_body H f ts x c) = Inr x' \<Longrightarrow> inv x'"
  unfolding settle_commits using settling_start settle_loop_settling settling_finish by blast

section \<open>Treasury, ownership and deployment\<close>

lemma inv_treasury_claim:
  assumes "inv x" and "tr_beneficiary (w_treasury x) = Some b"
  shows "inv (bal_upd (moved TreasuryAcc (Wallet b) (tk_bal (w_token x) TreasuryAcc)) x)"
  using assms moved_nonneg [of "tk_bal (w_token x)" "tk_bal (w_token x) TreasuryAcc" TreasuryAcc "Wallet b"]
  by (simp add: inv_unfold held_sum moved_apply)

lemma claim_inv: "inv x \<Longrightarrow> fst (claim_body H f x c) = Inr x' \<Longrightarrow> inv x'"
  using inv_treasury_claim [of x] by (auto simp: claim_commits inv_def split: option.splits)

lemma setFeeBps_inv: "inv x \<Longrightarrow> 0 \<le> fee \<Longrightarrow> fst (setFeeBps_body f fee x c) = Inr x' \<Longrightarrow> inv x'"
  by (auto simp: body_simps inv_unfold)

lemma queueBeneficiary_inv: "inv x \<Longrightarrow> fst (queueBeneficiary_body H f n x c) = Inr x' \<Longrightarrow> inv x'"
  by (auto simp: body_simps inv_unfold)

lemma activateBeneficiary_inv: "inv x \<Longrightarrow> fst (activateBeneficiary_body H x c) = Inr x' \<Longrightarrow> inv x'"
  by (auto simp: body_simps inv_unfold)

lemma cancelBeneficiaryChange_inv: "inv x \<Longrightarrow> fst (cancelBeneficiaryChange_body H f x c) = Inr x' \<Longrightarrow> inv x'"
  by (auto simp: body_simps inv_unfold)

lemma unowned_owner [simp]:
  "unowned (set_pending k a w) \<longleftrightarrow> owner_of w TreasuryC = None \<and> (if k = TreasuryC then a else pending_of w TreasuryC) = None"
  "unowned (set_owner k a w) \<longleftrightarrow> (if k = TreasuryC then a else owner_of w TreasuryC) = None \<and> pending_of w TreasuryC = None"
  by (cases k; simp add: unowned_def owner_of_def pending_of_def set_pending_def set_owner_def)+

lemma unowned_reads: "unowned w \<longleftrightarrow> owner_of w TreasuryC = None \<and> pending_of w TreasuryC = None"
  by (simp add: unowned_def owner_of_def pending_of_def)

lemmas inv_ownership = inv_def conserved_def solvent_def nonneg_def unowned_reads

lemma transferOwnership_inv: "inv x \<Longrightarrow> fst (transferOwnership_body H f k n x c) = Inr x' \<Longrightarrow> inv x'"
  by (auto simp: body_simps inv_ownership)

lemma acceptOwnership_inv: "inv x \<Longrightarrow> fst (acceptOwnership_body H f k x c) = Inr x' \<Longrightarrow> inv x'"
  by (auto simp: body_simps inv_ownership)

lemma create_token_inv: "inv x \<Longrightarrow> fst (create_token_body x c) = Inr x' \<Longrightarrow> inv x'"
  by (auto simp: body_simps inv_ownership)

lemma create_treasury_inv:
  "inv x \<Longrightarrow> 0 \<le> p_feeBps p \<Longrightarrow> p_feeBps p \<le> 1000 \<Longrightarrow> fst (create_treasury_body p x c) = Inr x' \<Longrightarrow> inv x'"
  by (auto simp: body_simps inv_unfold)

lemma create_escrow_inv: "inv x \<Longrightarrow> fst (create_escrow_body p x c) = Inr x' \<Longrightarrow> inv x'"
  by (auto simp: body_simps inv_unfold held_total_def deposits_total_def earnings_total_def)

section \<open>Off chain\<close>

lemma inv_other_fields [simp]:
  "inv (x\<lparr>w_t := t\<rparr>) = inv x" "inv (x\<lparr>w_devices := d\<rparr>) = inv x" "inv (x\<lparr>w_eth := e\<rparr>) = inv x"
  "inv (x\<lparr>w_tickets := ts\<rparr>) = inv x" "inv (x\<lparr>w_permits := ps\<rparr>) = inv x" "inv (x\<lparr>w_vouchers := vs\<rparr>) = inv x"
  "inv (x\<lparr>w_session := s\<rparr>) = inv x"
  by (simp_all add: inv_unfold held_total_def deposits_total_def earnings_total_def)

lemma signTicket_inv: "inv x \<Longrightarrow> fst (signTicket_body H cl nd u s x c) = Inr x' \<Longrightarrow> inv x'"
  by (auto simp: body_simps)

lemma signPermit_inv: "inv x \<Longrightarrow> fst (signPermit_body H ow sp v x c) = Inr x' \<Longrightarrow> inv x'"
  by (auto simp: body_simps)

lemma signAuth_inv: "inv x \<Longrightarrow> fst (signAuth_body H k ow to v x c) = Inr x' \<Longrightarrow> inv x'"
  by (auto simp: body_simps)

lemma issueVoucher_inv: "inv x \<Longrightarrow> fst (issueVoucher_body H to v r x c) = Inr x' \<Longrightarrow> inv x'"
  by (auto simp: body_simps)

lemma nodeVerify_inv: "inv x \<Longrightarrow> fst (nodeVerify_body H who x c) = Inr x' \<Longrightarrow> inv x'"
  by (auto simp: body_simps)

lemma fundGas_inv: "inv x \<Longrightarrow> fst (fundGas_body to g x c) = Inr x' \<Longrightarrow> inv x'"
  by (auto simp: body_simps)

lemma stkPush_inv: "inv x \<Longrightarrow> 0 \<le> v \<Longrightarrow> fst (stkPush_body cl v fail x c) = Inr x' \<Longrightarrow> inv x'"
  by (auto simp: body_simps inv_unfold held_total_def deposits_total_def earnings_total_def)

lemma b2cPayout_inv: "inv x \<Longrightarrow> 0 \<le> v \<Longrightarrow> fst (b2cPayout_body to v fail x c) = Inr x' \<Longrightarrow> inv x'"
  by (auto simp: body_simps inv_unfold held_total_def deposits_total_def earnings_total_def)

section \<open>Operations and reachable worlds\<close>

datatype token_op =
    SetBridge actor actor bool int
  | Mint actor actor int string
  | Burn actor int string
  | Approve actor holder int
  | Send actor actor int
  | SendFrom actor actor actor int
  | Permit actor permit

datatype escrow_op =
    Deposit actor int
  | DepositPermit actor actor int permit
  | Withdraw actor int
  | WithdrawSig actor auth "actor option"
  | MoveDeposit actor auth "actor option"
  | Settle actor "ticket list"
  | ClaimEarnings actor actor int
  | SetPrice actor int

datatype treasury_op =
    TreasuryClaim actor
  | SetFee actor int
  | Queue actor actor
  | Activate actor
  | CancelChange actor
  | StartOwnership actor contract actor
  | AcceptOwner actor contract
  | Deploy

datatype off_op =
    SignTicket actor actor int "actor option"
  | SignPermit actor holder int
  | SignAuth auth_kind actor actor int
  | StkPush actor int bool
  | B2c actor int bool
  | IssueVoucher actor int string
  | VerifyVoucher actor
  | Warp int
  | LoseDevice actor
  | Restore actor
  | FundGas actor rat

fun token_exec :: "host \<Rightarrow> world \<Rightarrow> token_op \<Rightarrow> world" where
  "token_exec H w (SetBridge f b al cap) = o_world (setBridge H w f b al cap None)"
| "token_exec H w (Mint f to v r) = o_world (bridgeMint H w f to v r None None)"
| "token_exec H w (Burn f v r) = o_world (bridgeBurn H w f v r None None)"
| "token_exec H w (Approve f s v) = o_world (approve H w f s v None)"
| "token_exec H w (Send f to v) = o_world (transfer H w f to v None None)"
| "token_exec H w (SendFrom f ow to v) = o_world (transferFrom H w f ow to v None None)"
| "token_exec H w (Permit f p) = o_world (permit H w f p None None)"

fun escrow_exec :: "host \<Rightarrow> world \<Rightarrow> escrow_op \<Rightarrow> world" where
  "escrow_exec H w (Deposit f v) = o_world (deposit H w f v None None)"
| "escrow_exec H w (DepositPermit f cl v p) = o_world (depositWithPermit H w f cl v p None None)"
| "escrow_exec H w (Withdraw f v) = o_world (withdrawDeposit H w f v None None)"
| "escrow_exec H w (WithdrawSig f a d) = o_world (withdrawWithSig H w f a d None None)"
| "escrow_exec H w (MoveDeposit f a d) = o_world (transferDeposit H w f a d None None)"
| "escrow_exec H w (Settle f ts) = o_world (settleTicketBatch H w f ts None None)"
| "escrow_exec H w (ClaimEarnings f to v) = o_world (claimEarnings H w f to v None None)"
| "escrow_exec H w (SetPrice f p) = o_world (setPricePerUnit H w f p None)"

fun treasury_exec :: "host \<Rightarrow> world \<Rightarrow> treasury_op \<Rightarrow> world" where
  "treasury_exec H w (TreasuryClaim f) = o_world (claim H w f None None)"
| "treasury_exec H w (SetFee f v) = o_world (setFeeBps H w f v None)"
| "treasury_exec H w (Queue f n) = o_world (queueBeneficiary H w f n None)"
| "treasury_exec H w (Activate f) = o_world (activateBeneficiary H w f None)"
| "treasury_exec H w (CancelChange f) = o_world (cancelBeneficiaryChange H w f None)"
| "treasury_exec H w (StartOwnership f k n) = o_world (transferOwnership H w f k n None)"
| "treasury_exec H w (AcceptOwner f k) = o_world (acceptOwnership H w f k None)"
| "treasury_exec H w Deploy = deploy H w None"

fun off_exec :: "host \<Rightarrow> world \<Rightarrow> off_op \<Rightarrow> world" where
  "off_exec H w (SignTicket cl nd u s) = o_world (signTicket H w cl nd u None None s)"
| "off_exec H w (SignPermit ow s v) = o_world (signPermit H w ow s v None None)"
| "off_exec H w (SignAuth k ow to v) = o_world (signAuth H w k ow to v None None)"
| "off_exec H w (StkPush cl v fail) = o_world (stkPush H w cl v None fail)"
| "off_exec H w (B2c to v fail) = o_world (b2cPayout H w to v None fail)"
| "off_exec H w (IssueVoucher to v r) = o_world (issueVoucher H w to v r None)"
| "off_exec H w (VerifyVoucher who) = o_world (nodeVerify H w who None)"
| "off_exec H w (Warp s) = o_world (warp H w s None)"
| "off_exec H w (LoseDevice who) = o_world (loseDevice H w who None)"
| "off_exec H w (Restore who) = o_world (restoreFromSeed H w who None)"
| "off_exec H w (FundGas to g) = o_world (fundGas H w to g None)"

fun token_wf :: "token_op \<Rightarrow> bool" where
  "token_wf (SetBridge f b al cap) \<longleftrightarrow> 0 \<le> cap"
| "token_wf (Mint f to v r) \<longleftrightarrow> 0 \<le> v"
| "token_wf (Burn f v r) \<longleftrightarrow> 0 \<le> v"
| "token_wf (Approve f s v) \<longleftrightarrow> 0 \<le> v"
| "token_wf (Send f to v) \<longleftrightarrow> 0 \<le> v"
| "token_wf (SendFrom f ow to v) \<longleftrightarrow> 0 \<le> v"
| "token_wf (Permit f p) \<longleftrightarrow> 0 \<le> pm_value p"

fun escrow_wf :: "escrow_op \<Rightarrow> bool" where
  "escrow_wf op \<longleftrightarrow> True"

fun treasury_wf :: "treasury_op \<Rightarrow> bool" where
  "treasury_wf (SetFee f v) \<longleftrightarrow> 0 \<le> v"
| "treasury_wf _ \<longleftrightarrow> True"

fun off_wf :: "off_op \<Rightarrow> bool" where
  "off_wf (StkPush cl v fail) \<longleftrightarrow> 0 \<le> v"
| "off_wf (B2c to v fail) \<longleftrightarrow> 0 \<le> v"
| "off_wf (Warp s) \<longleftrightarrow> 0 \<le> s"
| "off_wf (FundGas to g) \<longleftrightarrow> 0 \<le> g"
| "off_wf _ \<longleftrightarrow> True"

datatype op = TokenOp token_op | EscrowOp escrow_op | TreasuryOp treasury_op | OffOp off_op

fun exec :: "host \<Rightarrow> world \<Rightarrow> op \<Rightarrow> world" where
  "exec H w (TokenOp o1) = token_exec H w o1"
| "exec H w (EscrowOp o1) = escrow_exec H w o1"
| "exec H w (TreasuryOp o1) = treasury_exec H w o1"
| "exec H w (OffOp o1) = off_exec H w o1"

fun wf_op :: "op \<Rightarrow> bool" where
  "wf_op (TokenOp o1) = token_wf o1"
| "wf_op (EscrowOp o1) = escrow_wf o1"
| "wf_op (TreasuryOp o1) = treasury_wf o1"
| "wf_op (OffOp o1) = off_wf o1"

inductive reachable :: "host \<Rightarrow> params \<Rightarrow> world \<Rightarrow> bool" for H p where
  start: "reachable H p (createWorld p)"
| step: "reachable H p w \<Longrightarrow> wf_op op \<Longrightarrow> reachable H p (exec H w op)"

text \<open>Every call keeps the invariant, whether it commits, reverts or is rejected.\<close>

lemma setBridge_call_inv [call_inv]: "inv w \<Longrightarrow> inv (o_world (setBridge H w f b al cap fl))"
  unfolding setBridge_def Let_def by (rule invp.call_preserves, assumption, erule setBridge_inv)

lemma bridgeMint_call_inv [call_inv]: "inv w \<Longrightarrow> 0 \<le> v \<Longrightarrow> inv (o_world (bridgeMint H w f to v r fl ti))"
  unfolding bridgeMint_def Let_def by (rule invp.call_preserves, assumption, erule bridgeMint_inv, assumption)

lemma bridgeBurn_call_inv [call_inv]: "inv w \<Longrightarrow> 0 \<le> v \<Longrightarrow> inv (o_world (bridgeBurn H w f v r fl ti))"
  unfolding bridgeBurn_def Let_def by (rule invp.call_preserves, assumption, erule bridgeBurn_inv, assumption)

lemma approve_call_inv [call_inv]: "inv w \<Longrightarrow> inv (o_world (approve H w f s v fl))"
  unfolding approve_def Let_def by (rule invp.call_preserves, assumption, erule approve_inv)

lemma transfer_call_inv [call_inv]: "inv w \<Longrightarrow> 0 \<le> v \<Longrightarrow> inv (o_world (transfer H w f to v fl ti))"
  unfolding transfer_def Let_def by (rule invp.call_preserves, assumption, erule transfer_inv, assumption)

lemma transferFrom_call_inv [call_inv]: "inv w \<Longrightarrow> 0 \<le> v \<Longrightarrow> inv (o_world (transferFrom H w f ow to v fl ti))"
  unfolding transferFrom_def Let_def by (rule invp.call_preserves, assumption, erule transferFrom_inv, assumption)

lemma permit_call_inv [call_inv]: "inv w \<Longrightarrow> inv (o_world (permit H w f p fl ti))"
  unfolding permit_def Let_def by (rule invp.call_preserves, assumption, erule permit_inv)

lemma deposit_call_inv [call_inv]: "inv w \<Longrightarrow> inv (o_world (deposit H w f v fl ti))"
  unfolding deposit_def Let_def by (rule invp.call_preserves, assumption, erule doDeposit_inv)

lemma depositWithPermit_call_inv [call_inv]: "inv w \<Longrightarrow> inv (o_world (depositWithPermit H w f cl v p fl ti))"
  unfolding depositWithPermit_def Let_def by (rule invp.call_preserves, assumption, erule depositWithPermit_inv)

lemma withdrawDeposit_call_inv [call_inv]: "inv w \<Longrightarrow> inv (o_world (withdrawDeposit H w f v fl ti))"
  unfolding withdrawDeposit_def Let_def by (rule invp.call_preserves, assumption, erule withdrawDeposit_inv)

lemma withdrawWithSig_call_inv [call_inv]: "inv w \<Longrightarrow> inv (o_world (withdrawWithSig H w f a d fl ti))"
  unfolding withdrawWithSig_def Let_def by (rule invp.call_preserves, assumption, erule withdrawWithSig_inv)

lemma transferDeposit_call_inv [call_inv]: "inv w \<Longrightarrow> inv (o_world (transferDeposit H w f a d fl ti))"
  unfolding transferDeposit_def Let_def by (rule invp.call_preserves, assumption, erule transferDeposit_inv)

lemma settleTicketBatch_call_inv [call_inv]: "inv w \<Longrightarrow> inv (o_world (settleTicketBatch H w f ts fl ti))"
  unfolding settleTicketBatch_def Let_def by (rule invp.call_preserves, assumption, erule settle_inv)

lemma claimEarnings_call_inv [call_inv]: "inv w \<Longrightarrow> inv (o_world (claimEarnings H w f to v fl ti))"
  unfolding claimEarnings_def Let_def by (rule invp.call_preserves, assumption, erule claimEarnings_inv)

lemma setPricePerUnit_call_inv [call_inv]: "inv w \<Longrightarrow> inv (o_world (setPricePerUnit H w f p fl))"
  unfolding setPricePerUnit_def Let_def by (rule invp.call_preserves, assumption, erule setPricePerUnit_inv)

lemma claim_call_inv [call_inv]: "inv w \<Longrightarrow> inv (o_world (claim H w f fl ti))"
  unfolding claim_def Let_def by (rule invp.call_preserves, assumption, erule claim_inv)

lemma setFeeBps_call_inv [call_inv]: "inv w \<Longrightarrow> 0 \<le> v \<Longrightarrow> inv (o_world (setFeeBps H w f v fl))"
  unfolding setFeeBps_def Let_def by (rule invp.call_preserves, assumption, erule setFeeBps_inv, assumption)

lemma queueBeneficiary_call_inv [call_inv]: "inv w \<Longrightarrow> inv (o_world (queueBeneficiary H w f n fl))"
  unfolding queueBeneficiary_def Let_def by (rule invp.call_preserves, assumption, erule queueBeneficiary_inv)

lemma activateBeneficiary_call_inv [call_inv]: "inv w \<Longrightarrow> inv (o_world (activateBeneficiary H w f fl))"
  unfolding activateBeneficiary_def Let_def by (rule invp.call_preserves, assumption, erule activateBeneficiary_inv)

lemma cancelBeneficiaryChange_call_inv [call_inv]: "inv w \<Longrightarrow> inv (o_world (cancelBeneficiaryChange H w f fl))"
  unfolding cancelBeneficiaryChange_def Let_def by (rule invp.call_preserves, assumption, erule cancelBeneficiaryChange_inv)

lemma transferOwnership_call_inv [call_inv]: "inv w \<Longrightarrow> inv (o_world (transferOwnership H w f k n fl))"
  unfolding transferOwnership_def Let_def by (rule invp.call_preserves, assumption, erule transferOwnership_inv)

lemma acceptOwnership_call_inv [call_inv]: "inv w \<Longrightarrow> inv (o_world (acceptOwnership H w f k fl))"
  unfolding acceptOwnership_def Let_def by (rule invp.call_preserves, assumption, erule acceptOwnership_inv)

lemma signTicket_call_inv [call_inv]: "inv w \<Longrightarrow> inv (o_world (signTicket H w cl nd u fl ti s))"
  unfolding signTicket_def Let_def by (rule invp.call_preserves, assumption, erule signTicket_inv)

lemma signPermit_call_inv [call_inv]: "inv w \<Longrightarrow> inv (o_world (signPermit H w ow s v fl ti))"
  unfolding signPermit_def Let_def by (rule invp.call_preserves, assumption, erule signPermit_inv)

lemma signAuth_call_inv [call_inv]: "inv w \<Longrightarrow> inv (o_world (signAuth H w k ow to v fl ti))"
  unfolding signAuth_def Let_def by (rule invp.call_preserves, assumption, erule signAuth_inv)

lemma stkPush_call_inv [call_inv]: "inv w \<Longrightarrow> 0 \<le> v \<Longrightarrow> inv (o_world (stkPush H w cl v fl fail))"
  unfolding stkPush_def Let_def by (rule invp.call_preserves, assumption, erule stkPush_inv, assumption)

lemma b2cPayout_call_inv [call_inv]: "inv w \<Longrightarrow> 0 \<le> v \<Longrightarrow> inv (o_world (b2cPayout H w to v fl fail))"
  unfolding b2cPayout_def Let_def by (rule invp.call_preserves, assumption, erule b2cPayout_inv, assumption)

lemma issueVoucher_call_inv [call_inv]: "inv w \<Longrightarrow> inv (o_world (issueVoucher H w to v r fl))"
  unfolding issueVoucher_def Let_def by (rule invp.call_preserves, assumption, erule issueVoucher_inv)

lemma nodeVerify_call_inv [call_inv]: "inv w \<Longrightarrow> inv (o_world (nodeVerify H w who fl))"
  unfolding nodeVerify_def Let_def by (rule invp.call_preserves, assumption, erule nodeVerify_inv)

lemma fundGas_call_inv [call_inv]: "inv w \<Longrightarrow> inv (o_world (fundGas H w to g fl))"
  unfolding fundGas_def Let_def by (rule invp.call_preserves, assumption, erule fundGas_inv)

lemma warp_call_inv [call_inv]: "inv w \<Longrightarrow> inv (o_world (warp H w sec fl))"
  unfolding warp_def by (rule invp.call_preserves) auto

lemma loseDevice_call_inv [call_inv]: "inv w \<Longrightarrow> inv (o_world (loseDevice H w who fl))"
  unfolding loseDevice_def by (rule invp.call_preserves) auto

lemma restoreFromSeed_call_inv [call_inv]: "inv w \<Longrightarrow> inv (o_world (restoreFromSeed H w who fl))"
  unfolding restoreFromSeed_def by (rule invp.call_preserves) auto

lemma deploy_inv [call_inv]: "inv w \<Longrightarrow> inv (deploy H w flow)"
proof -
  assume i: "inv w"
  then have p: "0 \<le> p_feeBps (w_params w)" "p_feeBps (w_params w) \<le> 1000" by (simp_all add: inv_def)
  show ?thesis
    unfolding deploy_def Let_def create_call_def
    by (intro invp.call_preserves)
       (use i p in \<open>auto intro: create_token_inv create_treasury_inv create_escrow_inv\<close>)
qed

lemma token_exec_inv: "inv w \<Longrightarrow> token_wf op \<Longrightarrow> inv (token_exec H w op)"
  by (cases op) (simp_all add: call_inv)

lemma escrow_exec_inv: "inv w \<Longrightarrow> escrow_wf op \<Longrightarrow> inv (escrow_exec H w op)"
  by (cases op) (simp_all add: call_inv)

lemma treasury_exec_inv: "inv w \<Longrightarrow> treasury_wf op \<Longrightarrow> inv (treasury_exec H w op)"
  by (cases op) (simp_all add: call_inv)

lemma off_exec_inv: "inv w \<Longrightarrow> off_wf op \<Longrightarrow> inv (off_exec H w op)"
  by (cases op) (simp_all add: call_inv)

interpretation tokenI: invariant_ops "token_exec H" token_wf inv for H
  by unfold_locales (rule token_exec_inv)

interpretation escrowI: invariant_ops "escrow_exec H" escrow_wf inv for H
  by unfold_locales (rule escrow_exec_inv)

interpretation treasuryI: invariant_ops "treasury_exec H" treasury_wf inv for H
  by unfold_locales (rule treasury_exec_inv)

interpretation offI: invariant_ops "off_exec H" off_wf inv for H
  by unfold_locales (rule off_exec_inv)

interpretation worldI: invariant_ops "exec H" wf_op inv for H
proof unfold_locales
  fix w op
  assume "inv w" and "wf_op op"
  then show "inv (exec H w op)"
    by (cases op) (simp_all add: tokenI.keeps escrowI.keeps treasuryI.keeps offI.keeps)
qed

lemma reachable_inv: "reachable H p w \<Longrightarrow> 0 \<le> p_feeBps p \<and> p_feeBps p \<le> 1000 \<Longrightarrow> inv w"
  by (induction rule: reachable.induct) (simp_all add: createWorld_inv worldI.keeps)

lemma reachable_run: "list_all wf_op ops \<Longrightarrow> reachable H p (foldl (exec H) (createWorld p) ops)"
proof (induction ops rule: rev_induct)
  case Nil
  then show ?case by (simp add: reachable.start)
next
  case (snoc op ops)
  then show ?case by (simp add: reachable.step)
qed

end
