(* ===== verification/Frames.thy ===== *)
theory Frames
  imports Invariants
begin

text \<open>
  What each operation cannot touch: views of a world that calls leave alone (the locale
  \<open>core_view\<close>), the separation of the components along \<open>exec\<close>, and the ETH accounts, which the call
  wrapper never overdraws.
\<close>

section \<open>Views\<close>

locale core_view =
  fixes g :: "world \<Rightarrow> 'v"
  assumes view_eq: "core w = core w' \<Longrightarrow> g w = g w'"
begin

lemma call_view:
  assumes "\<And>x c x'. fst (body x c) = Inr x' \<Longrightarrow> g x' = g x"
  shows "g (o_world (call H w sp body)) = g w"
  using call_core_cases [of body sp w H]
proof (elim disjE exE conjE)
  fix w' c
  assume b: "body (start_world sp w) ctx0 = (Inr w', c)" and e: "core (o_world (call H w sp body)) = core w'"
  have "g (o_world (call H w sp body)) = g w'" by (rule view_eq [OF e])
  also have "\<dots> = g (start_world sp w)" by (rule assms [of _ ctx0]) (simp add: b)
  also have "\<dots> = g w" by (rule view_eq) simp
  finally show ?thesis .
next
  assume "core (o_world (call H w sp body)) = core w"
  then show ?thesis by (rule view_eq)
qed

lemma call_view_change:
  assumes "g (o_world (call H w sp body)) \<noteq> g w"
  obtains x' c where "body (start_world sp w) ctx0 = (Inr x', c)" and "g (o_world (call H w sp body)) = g x'"
  using call_core_cases [of body sp w H] assms view_eq that by blast

end

sublocale core_view \<subseteq> view_pred: core_predicate "\<lambda>w. g w = v" for v
proof unfold_locales
  fix w w'
  assume "core w = core w'"
  then have "g w = g w'" by (rule view_eq)
  then show "g w = v \<longleftrightarrow> g w' = v" by simp
qed

definition off_view :: "world \<Rightarrow> fiat_state \<times> params \<times> ((actor \<times> actor) \<times> ticket list) list \<times> permit list \<times> voucher_rec list \<times> (actor \<Rightarrow> bool option)" where
  "off_view w = (w_fiat w, w_params w, w_tickets w, w_permits w, w_vouchers w, w_devices w)"

definition contract_view :: "world \<Rightarrow> token_state \<times> escrow_state \<times> treasury_state" where
  "contract_view w = (w_token w, w_escrow w, w_treasury w)"

definition rules_view :: "world \<Rightarrow> escrow_state \<times> treasury_state" where
  "rules_view w = (w_escrow w, w_treasury w)"

definition mint_view :: "world \<Rightarrow> int \<times> (actor \<Rightarrow> bridge option) \<times> actor option \<times> actor option" where
  "mint_view w = (tk_supply (w_token w), tk_bridges (w_token w), tk_owner (w_token w), tk_pendingOwner (w_token w))"

definition bank_view :: "world \<Rightarrow> (actor \<Rightarrow> int) \<times> (actor \<Rightarrow> int) \<times> (string \<times> channel) list \<times> (actor \<Rightarrow> int)" where
  "bank_view w = (es_deposits (w_escrow w), es_earnings (w_escrow w), es_channels (w_escrow w), es_authNonces (w_escrow w))"

interpretation offv: core_view off_view
  by unfold_locales (simp add: core_eq_iff off_view_def)

interpretation conv: core_view contract_view
  by unfold_locales (simp add: core_eq_iff contract_view_def)

interpretation rulv: core_view rules_view
  by unfold_locales (simp add: core_eq_iff rules_view_def)

interpretation minv: core_view mint_view
  by unfold_locales (simp add: core_eq_iff mint_view_def)

interpretation trev: core_view w_treasury
  by unfold_locales (simp add: core_eq_iff)

interpretation ownv: core_view "\<lambda>w. owner_of w k" for k
  by unfold_locales (simp add: core_eq_iff owner_of_def split: contract.split)

interpretation escv: core_view w_escrow
  by unfold_locales (simp add: core_eq_iff)

interpretation tokv: core_view w_token
  by unfold_locales (simp add: core_eq_iff)

interpretation bankv: core_view bank_view
  by unfold_locales (simp add: core_eq_iff bank_view_def)

section \<open>Frames of the bodies\<close>

definition token_part :: "world \<Rightarrow> world" where
  \<comment> \<open>everything but the token\<close>
  "token_part w = w\<lparr>w_token := w_token (createWorld DEFAULT_PARAMS)\<rparr>"

lemma lib_frames [simp]:
  "off_view (bal_upd f w) = off_view w" "off_view (set_allow ow s v w) = off_view w"
  "off_view (esc_upd h w) = off_view w" "off_view (set_deposit a v w) = off_view w"
  "off_view (set_earning a v w) = off_view w" "off_view (record_channel i t w) = off_view w"
  "off_view (nonce_used a w) = off_view w" "off_view (tre_upd k w) = off_view w"
  "rules_view (bal_upd f w) = rules_view w" "rules_view (set_allow ow s v w) = rules_view w"
  "mint_view (bal_upd f w) = mint_view w" "mint_view (set_allow ow s v w) = mint_view w"
  "mint_view (esc_upd h w) = mint_view w" "mint_view (set_deposit a v w) = mint_view w"
  "mint_view (set_earning a v w) = mint_view w" "mint_view (record_channel i t w) = mint_view w"
  "mint_view (nonce_used a w) = mint_view w" "mint_view (tre_upd k w) = mint_view w"
  "bank_view (bal_upd f w) = bank_view w" "bank_view (set_allow ow s v w) = bank_view w" "bank_view (tre_upd k w) = bank_view w"
  by (simp_all add: off_view_def rules_view_def mint_view_def bank_view_def bal_upd_def set_allow_def esc_upd_def
      set_deposit_def set_earning_def record_channel_def nonce_used_def tre_upd_def)

lemma eth_frames [simp]:
  "w_eth (set_allow ow s v w) = w_eth w" "w_eth (set_deposit a v w) = w_eth w" "w_eth (set_earning a v w) = w_eth w"
  "w_eth (record_channel i t w) = w_eth w" "w_eth (nonce_used a w) = w_eth w" "w_eth (tre_upd k w) = w_eth w"
  "w_eth (set_owner kk ow2 w) = w_eth w" "w_eth (set_pending kk ow2 w) = w_eth w"
  by (simp_all add: set_allow_def set_deposit_def set_earning_def record_channel_def nonce_used_def tre_upd_def
      set_owner_def set_pending_def esc_upd_def split: contract.split)

lemma ownership_off [simp]: "off_view (set_owner k a w) = off_view w" "off_view (set_pending k a w) = off_view w"
  by (cases k; simp add: off_view_def set_owner_def set_pending_def esc_upd_def tre_upd_def)+

lemma ticket_settled_frames [simp]:
  "off_view (fst (ticket_settled H t x)) = off_view x" "w_token (fst (ticket_settled H t x)) = w_token x"
  "w_treasury (fst (ticket_settled H t x)) = w_treasury x" "w_eth (fst (ticket_settled H t x)) = w_eth x"
  "w_t (fst (ticket_settled H t x)) = w_t x"
  "es_authNonces (w_escrow (fst (ticket_settled H t x))) = es_authNonces (w_escrow x)"
  "es_pricePerUnit (w_escrow (fst (ticket_settled H t x))) = es_pricePerUnit (w_escrow x)"
  by (simp_all add: ticket_settled_def pay_ticket_eq)

lemma mint_view_token: "w_token x = w_token y \<Longrightarrow> mint_view x = mint_view y"
  by (simp add: mint_view_def)

lemma settle_loop_frames:
  assumes "fst (settle_loop H i ts a c) = Inr a'"
  shows "off_view (sa_world a') = off_view (sa_world a) \<and> w_token (sa_world a') = w_token (sa_world a) \<and>
         w_treasury (sa_world a') = w_treasury (sa_world a) \<and> w_eth (sa_world a') = w_eth (sa_world a) \<and>
         es_authNonces (w_escrow (sa_world a')) = es_authNonces (w_escrow (sa_world a)) \<and>
         es_pricePerUnit (w_escrow (sa_world a')) = es_pricePerUnit (w_escrow (sa_world a))"
  by (rule settle_loop_rule [OF assms]) (auto simp: settle_one_Inr)

lemma settle_body_frames:
  assumes "fst (settleTicketBatch_body H f ts x c) = Inr x'"
  shows "off_view x' = off_view x" and "w_treasury x' = w_treasury x" and "mint_view x' = mint_view x"
    and "w_eth x' = w_eth x" and "es_pricePerUnit (w_escrow x') = es_pricePerUnit (w_escrow x)"
    and "es_authNonces (w_escrow x') = es_authNonces (w_escrow x)"
proof -
  obtain a where a: "fst (settle_loop H 0 ts (settle_start x) c) = Inr a" and x': "x' = settle_finish a"
    using assms by (auto simp: settle_commits)
  note f = settle_loop_frames [OF a]
  show "off_view x' = off_view x" "w_treasury x' = w_treasury x" "mint_view x' = mint_view x" "w_eth x' = w_eth x"
    "es_pricePerUnit (w_escrow x') = es_pricePerUnit (w_escrow x)"
    "es_authNonces (w_escrow x') = es_authNonces (w_escrow x)"
    using f mint_view_token [of "sa_world a" x] by (simp_all add: x' settle_finish_def settle_start_def)
qed

lemma permitted_frames [simp]:
  "off_view (permitted H p x) = off_view x" "rules_view (permitted H p x) = rules_view x"
  "mint_view (permitted H p x) = mint_view x" "w_eth (permitted H p x) = w_eth x"
  "tk_bal (w_token (permitted H p x)) = tk_bal (w_token x)" "w_escrow (permitted H p x) = w_escrow x"
  "w_treasury (permitted H p x) = w_treasury x" "w_t (permitted H p x) = w_t x"
  by (auto simp: permitted_def off_view_def rules_view_def mint_view_def applyPermit_commits set_allow_def split: sum.split)

section \<open>Separation of the components\<close>

lemmas token_call_defs = setBridge_def bridgeMint_def bridgeBurn_def approve_def transfer_def transferFrom_def permit_def

lemma token_exec_rules: "rules_view (token_exec H w op) = rules_view w"
  by (cases op; simp add: token_call_defs; rule rulv.call_view) (auto simp: body_simps, auto simp: rules_view_def)

lemma token_exec_off: "off_view (token_exec H w op) = off_view w"
  by (cases op; simp add: token_call_defs; rule offv.call_view) (auto simp: body_simps, auto simp: off_view_def)

lemmas escrow_call_defs = deposit_def depositWithPermit_def withdrawDeposit_def withdrawWithSig_def transferDeposit_def
  settleTicketBatch_def claimEarnings_def setPricePerUnit_def

lemma escrow_exec_treasury: "w_treasury (escrow_exec H w op) = w_treasury w"
  by (cases op; simp only: escrow_exec.simps escrow_call_defs; rule trev.call_view)
     (auto simp: doDeposit_commits depositWithPermit_commits withdrawDeposit_commits withdrawWithSig_commits
        transferDeposit_commits claimEarnings_commits setPricePerUnit_commits settle_body_frames)

lemma escrow_exec_mint: "mint_view (escrow_exec H w op) = mint_view w"
  by (cases op; simp only: escrow_exec.simps escrow_call_defs; rule minv.call_view)
     (auto simp: doDeposit_commits depositWithPermit_commits withdrawDeposit_commits withdrawWithSig_commits
        transferDeposit_commits claimEarnings_commits setPricePerUnit_commits settle_body_frames)

lemma escrow_exec_off: "off_view (escrow_exec H w op) = off_view w"
  by (cases op; simp only: escrow_exec.simps escrow_call_defs; rule offv.call_view)
     (auto simp: doDeposit_commits depositWithPermit_commits withdrawDeposit_commits withdrawWithSig_commits
        transferDeposit_commits claimEarnings_commits setPricePerUnit_commits settle_body_frames)

lemmas treasury_call_defs = claim_def setFeeBps_def queueBeneficiary_def activateBeneficiary_def
  cancelBeneficiaryChange_def transferOwnership_def acceptOwnership_def

lemma ownership_bank [simp]: "bank_view (set_owner k a w) = bank_view w" "bank_view (set_pending k a w) = bank_view w"
  by (cases k; simp add: bank_view_def set_owner_def set_pending_def esc_upd_def tre_upd_def)+

lemma create_bank:
  "bank_view (o_world (create_call H w fn ti flow create_token_body)) = bank_view w"
  "bank_view (o_world (create_call H w fn ti flow (create_treasury_body p))) = bank_view w"
  "bank_view (o_world (create_call H w fn ti flow (create_escrow_body p))) = bank_view w"
  unfolding create_call_def
  by (rule bankv.call_view; auto simp: body_simps; auto simp: bank_view_def)+

lemma deploy_bank: "bank_view (deploy H w flow) = bank_view w"
  by (simp only: deploy_def Let_def create_bank)

lemma treasury_exec_bank: "bank_view (treasury_exec H w op) = bank_view w"
  by (cases op; simp add: treasury_call_defs deploy_bank; rule bankv.call_view)
     (auto simp: body_simps split: option.splits)

lemmas off_call_defs = signTicket_def signPermit_def signAuth_def stkPush_def b2cPayout_def issueVoucher_def nodeVerify_def
  warp_def loseDevice_def restoreFromSeed_def fundGas_def Let_def

lemma off_exec_contracts: "contract_view (off_exec H w op) = contract_view w"
  by (cases op; simp add: off_call_defs; rule conv.call_view) (auto simp: body_simps contract_view_def)

end
