(* ===== verification/Chain.thy ===== *)
theory Chain
  imports Engine
begin

text \<open>
  \<open>web/src/demo/chain.js\<close>: the check of a chain of blocks by recomputing every hash and link, the
  tampering of one block's calldata, and the forger's recomputation of the hashes.
\<close>

unbundle bit_operations_syntax

definition txHashOf :: "host \<Rightarrow> tx \<Rightarrow> string" where
  "txHashOf H t =
     (let to = (if starts_with ''0x'' (tx_to t) then tx_to t else ZERO20)
      in bytesToHex (h_keccak H (concat_bytes
           [hexToBytes (tx_from t), hexToBytes to, uintWord (tx_nonce t), hexToBytes (tx_input t)])))"

definition headerPreimage :: "block \<Rightarrow> bytes" where
  "headerPreimage b =
     concat_bytes [hexToBytes (bk_parentHash b), uintWord (bk_number b), uintWord (bk_timestamp b),
                   hexToBytes (bk_txHash b), hexToBytes (bk_stateRoot b)]"

definition blockHashOf :: "host \<Rightarrow> block \<Rightarrow> string" where
  "blockHashOf H b = bytesToHex (h_keccak H (headerPreimage b))"

record check_row =
  ck_number :: int
  ck_tx :: bool
  ck_header :: bool
  ck_link :: bool
  ck_ok :: bool

definition check_block :: "host \<Rightarrow> string \<Rightarrow> block \<Rightarrow> check_row" where
  "check_block H parent b =
     (let t = (txHashOf H (bk_tx b) = bk_txHash b);
          h = (blockHashOf H b = bk_hash b);
          l = (bk_parentHash b = parent)
      in \<lparr>ck_number = bk_number b, ck_tx = t, ck_header = h, ck_link = l, ck_ok = (t \<and> h \<and> l)\<rparr>)"

definition verify :: "host \<Rightarrow> block list \<Rightarrow> check_row list" where
  "verify H blocks =
     map (\<lambda>i. check_block H (if i = 0 then ZERO32 else bk_hash (blocks ! (i - 1))) (blocks ! i)) [0..<length blocks]"

definition last_byte :: "string \<Rightarrow> nat" where
  \<comment> \<open>\<open>parseInt(input.slice(-2) || '00', 16)\<close> on calldata\<close>
  "last_byte input =
     (let t = drop (length input - 2) input
      in case hex_digits 0 (if t = '''' then ''00'' else t) None of None \<Rightarrow> 0 | Some n \<Rightarrow> n)"

definition flip_last :: "string \<Rightarrow> string" where
  "flip_last input =
     (if 2 < length input
      then take (length input - 2) input @ pad_start 2 (CHR ''0'') (nat_hex (unat (word_of_nat (last_byte input) XOR (0xff :: byte))))
      else ''0xff'')"

definition tampered_input :: "string \<Rightarrow> int \<Rightarrow> int \<Rightarrow> string" where
  "tampered_input input fromAmount toAmount =
     (let oldWord = drop 2 (bytesToHex (uintWord fromAmount));
          newWord = drop 2 (bytesToHex (uintWord toAmount));
          body = drop 10 input
      in case index_of oldWord body of
           None \<Rightarrow> flip_last input
         | Some pos \<Rightarrow>
             if pos mod 64 = 0 then take 10 input @ take pos body @ newWord @ drop (pos + 64) body else flip_last input)"

definition tamper :: "block list \<Rightarrow> nat \<Rightarrow> int \<Rightarrow> int \<Rightarrow> block list option" where
  \<comment> \<open>a block that is not there throws\<close>
  "tamper blocks i fromAmount toAmount =
     (if i < length blocks
      then let b = blocks ! i
           in Some (blocks[i := b\<lparr>bk_tx := (bk_tx b)\<lparr>tx_input := tampered_input (tx_input (bk_tx b)) fromAmount toAmount\<rparr>\<rparr>])
      else None)"

definition rehash_block :: "host \<Rightarrow> string option \<Rightarrow> block \<Rightarrow> block" where
  \<comment> \<open>one turn of the loop; a parent hash is only rewritten after the first block\<close>
  "rehash_block H parent b0 =
     (let txHash = txHashOf H (bk_tx b0);
          b1 = b0\<lparr>bk_txHash := txHash, bk_tx := (bk_tx b0)\<lparr>tx_hash := txHash\<rparr>\<rparr>;
          b2 = (case parent of None \<Rightarrow> b1 | Some p \<Rightarrow> b1\<lparr>bk_parentHash := p\<rparr>)
      in b2\<lparr>bk_hash := blockHashOf H b2\<rparr>)"

fun rehash_from :: "host \<Rightarrow> string \<Rightarrow> block list \<Rightarrow> block list" where
  \<comment> \<open>the turns \<open>k > i\<close>\<close>
  "rehash_from H p [] = []"
| "rehash_from H p (b # bs) = (let b' = rehash_block H (Some p) b in b' # rehash_from H (bk_hash b') bs)"

definition rehash :: "host \<Rightarrow> block list \<Rightarrow> nat \<Rightarrow> bool \<Rightarrow> block list option" where
  "rehash H blocks i onlyThis =
     (if i < length blocks
      then let b = rehash_block H None (blocks ! i)
           in Some (take i blocks @ b #
                    (if onlyThis then drop (Suc i) blocks else rehash_from H (bk_hash b) (drop (Suc i) blocks)))
      else if onlyThis then None else Some blocks)"

definition howToCheck :: "block \<Rightarrow> string \<times> string \<times> string" where
  "howToCheck b =
     (let pre = bytesToHex (headerPreimage b); q = [char_of (39::nat)]
      in (pre, ''cast keccak '' @ pre, ''crypto.keccak(hexToBytes('' @ q @ pre @ q @ ''))''))"

end
