(* ===== verification/Books.thy ===== *)
theory Books
  imports Frames Chain
begin

text \<open>
  The books every call keeps: the chain of sealed blocks, the append-only ledger, the sequence
  numbers, the clock and the gas accounts.  Bodies do not touch them (\<open>quiet\<close>), so what the call
  wrapper keeps holds in every reachable world.
\<close>

section \<open>Quiet bodies\<close>

definition quiet :: "body \<Rightarrow> bool" where
  "quiet body \<longleftrightarrow>
     (\<forall>x c x'. fst (body x c) = Inr x' \<longrightarrow>
        w_blocks x' = w_blocks x \<and> w_ledger x' = w_ledger x \<and> w_seq x' = w_seq x \<and> w_block x' = w_block x \<and>
        w_txNonces x' = w_txNonces x \<and> w_gasSpent x' = w_gasSpent x \<and> w_t x \<le> w_t x' \<and> ((\<forall>a. 0 \<le> w_eth x a) \<longrightarrow> (\<forall>a. 0 \<le> w_eth x' a)))"

definition books :: "world \<Rightarrow> block list \<times> entry list \<times> int \<times> int \<times> (actor \<Rightarrow> int option) \<times> (actor \<Rightarrow> rat) \<times>
    (actor \<Rightarrow> spent option) \<times> int" where
  "books w = (w_blocks w, w_ledger w, w_seq w, w_block w, w_txNonces w, w_eth w, w_gasSpent w, w_t w)"

lemma books_upd [simp]:
  "books (bal_upd f w) = books w" "books (set_allow ow s v w) = books w" "books (esc_upd h w) = books w"
  "books (set_deposit a v w) = books w" "books (set_earning a v w) = books w" "books (record_channel i t w) = books w"
  "books (nonce_used a w) = books w" "books (tre_upd k w) = books w"
  by (simp_all add: books_def bal_upd_def set_allow_def esc_upd_def set_deposit_def set_earning_def
      record_channel_def nonce_used_def tre_upd_def)

lemma books_ownership [simp]: "books (set_owner k a w) = books w" "books (set_pending k a w) = books w"
  by (cases k; simp add: set_owner_def set_pending_def; simp add: books_def)+

lemma books_world [simp]:
  "books (w\<lparr>w_token := x1\<rparr>) = books w" "books (w\<lparr>w_fiat := x2\<rparr>) = books w" "books (w\<lparr>w_tickets := x3\<rparr>) = books w"
  "books (w\<lparr>w_permits := x4\<rparr>) = books w" "books (w\<lparr>w_vouchers := x5\<rparr>) = books w" "books (w\<lparr>w_devices := x6\<rparr>) = books w"
  "books (w\<lparr>w_deployed := x7\<rparr>) = books w"
  by (simp_all add: books_def)

lemma quiet_books: "(\<And>x c x'. fst (body x c) = Inr x' \<Longrightarrow> books x' = books x) \<Longrightarrow> quiet body"
  by (fastforce simp: quiet_def books_def)

lemma books_permitted [simp]: "books (permitted H p x) = books x"
  by (auto simp: permitted_def applyPermit_commits split: sum.split)

lemma books_settled [simp]: "books (fst (ticket_settled H t x)) = books x"
  by (simp add: ticket_settled_def pay_ticket_eq)

lemma settle_books: "fst (settleTicketBatch_body H f ts x c) = Inr x' \<Longrightarrow> books x' = books x"
proof -
  assume "fst (settleTicketBatch_body H f ts x c) = Inr x'"
  then obtain a where a: "fst (settle_loop H 0 ts (settle_start x) c) = Inr a" and x': "x' = settle_finish a"
    by (auto simp: settle_commits)
  have "books (sa_world a) = books x"
    by (rule settle_loop_rule [OF a]) (auto simp: settle_one_Inr settle_start_def)
  then show ?thesis by (simp add: x' settle_finish_def)
qed

named_theorems quiet_bodies \<open>bodies that leave the books alone\<close>

lemma quiet_token [quiet_bodies]:
  "quiet (setBridge_body H f b al cap)" "quiet (bridgeMint_body H f to v r)" "quiet (bridgeBurn_body H f v r)"
  "quiet (approve_body H f s v)" "quiet (transfer_body H f to v)" "quiet (transferFrom_body H f ow to v)"
  "quiet (applyPermit H p)"
  by (rule quiet_books; auto simp: body_simps)+

lemma quiet_escrow [quiet_bodies]:
  "quiet (doDeposit H cl v)" "quiet (depositWithPermit_body H cl v p)" "quiet (withdrawDeposit_body H f v)"
  "quiet (withdrawWithSig_body H a d)" "quiet (transferDeposit_body H a d)" "quiet (settleTicketBatch_body H f ts)"
  "quiet (claimEarnings_body H f to v)" "quiet (setPricePerUnit_body H f pr)"
  by (rule quiet_books; auto simp: doDeposit_commits depositWithPermit_commits withdrawDeposit_commits
      withdrawWithSig_commits transferDeposit_commits claimEarnings_commits setPricePerUnit_commits settle_books)+

lemma quiet_treasury [quiet_bodies]:
  "quiet (claim_body H f)" "quiet (setFeeBps_body f v)" "quiet (queueBeneficiary_body H f n)"
  "quiet (activateBeneficiary_body H)" "quiet (cancelBeneficiaryChange_body H f)"
  "quiet (transferOwnership_body H f k n)" "quiet (acceptOwnership_body H f k)"
  "quiet create_token_body" "quiet (create_treasury_body p)" "quiet (create_escrow_body p)"
  by (rule quiet_books; auto simp: body_simps split: option.splits)+

lemma quiet_off [quiet_bodies]:
  "quiet (signTicket_body H cl nd u s)" "quiet (signPermit_body H ow sp v)" "quiet (signAuth_body H k ow to v)"
  "quiet (stkPush_body cl v fail)" "quiet (b2cPayout_body to v fail)" "quiet (issueVoucher_body H to v r)"
  "quiet (nodeVerify_body H who)"
  by (rule quiet_books; auto simp: body_simps)+

lemma quiet_warp: "0 \<le> s \<Longrightarrow> quiet (\<lambda>x c. commits (x\<lparr>w_t := w_t x + s\<rparr>) c)"
  by (auto simp: quiet_def)

lemma quiet_device [quiet_bodies]:
  "quiet (\<lambda>x c. commits (x\<lparr>w_devices := (w_devices x)(who \<mapsto> b)\<rparr>) (h x c))"
  by (auto simp: quiet_def)

lemma quiet_fundGas: "0 \<le> g \<Longrightarrow> quiet (fundGas_body to g)"
  by (auto simp: quiet_def fundGas_commits Let_def)

section \<open>What calls keep, reachable worlds have\<close>

locale call_invariant =
  fixes H :: host and P :: "world \<Rightarrow> bool"
  assumes call_keeps: "P w \<Longrightarrow> quiet body \<Longrightarrow> P (o_world (call H w sp body))"
begin

lemma token_keeps: "P w \<Longrightarrow> P (token_exec H w op)"
  by (cases op) (simp_all add: token_call_defs call_keeps quiet_bodies)

lemma escrow_keeps: "P w \<Longrightarrow> P (escrow_exec H w op)"
  by (cases op) (simp_all only: escrow_exec.simps escrow_call_defs call_keeps quiet_bodies)

lemma treasury_keeps: "P w \<Longrightarrow> P (treasury_exec H w op)"
  by (cases op) (simp_all add: treasury_call_defs deploy_def create_call_def Let_def call_keeps quiet_bodies)

lemma off_keeps: "P w \<Longrightarrow> off_wf op \<Longrightarrow> P (off_exec H w op)"
  by (cases op) (simp_all add: off_call_defs call_keeps quiet_bodies quiet_warp quiet_fundGas)

lemma exec_keeps: "P w \<Longrightarrow> wf_op op \<Longrightarrow> P (exec H w op)"
  by (cases op) (simp_all add: token_keeps escrow_keeps treasury_keeps off_keeps)

lemma reachable_keeps: "reachable H p w \<Longrightarrow> P (createWorld p) \<Longrightarrow> P w"
  by (induction rule: reachable.induct) (auto intro: exec_keeps)

lemma run_keeps: "P w \<Longrightarrow> list_all wf_op ops \<Longrightarrow> P (foldl (exec H) w ops)"
  by (induction ops arbitrary: w) (auto intro: exec_keeps)

end

section \<open>The chain\<close>

lemma verify_snoc: "verify H (bs @ [b]) = verify H bs @ [check_block H (last_hash bs) b]"
proof -
  have "verify H (bs @ [b]) ! i = (verify H bs @ [check_block H (last_hash bs) b]) ! i" if "i < Suc (length bs)" for i
    using that by (auto simp: verify_def nth_append last_hash_def last_conv_nth less_Suc_eq)
  then show ?thesis by (intro nth_equalityI) (simp_all add: verify_def)
qed

definition chain_ok :: "host \<Rightarrow> block list \<Rightarrow> bool" where
  "chain_ok H bs \<longleftrightarrow> list_all ck_ok (verify H bs)"

lemma addr_0x: "starts_with ''0x'' (addr H a)"
  by (simp add: addr_def KEYS_def demoKey_def addressOf_def address_of_point_def checksum_def Let_def starts_with_def)

lemma contract_addr_0x: "starts_with ''0x'' (contract_addr k)"
  by (cases k) (simp_all add: starts_with_def)

lemma tx_target_0x: "tx_target H sp = Some a \<Longrightarrow> starts_with ''0x'' a"
  by (auto simp: tx_target_def addr_0x contract_addr_0x split: option.splits args.splits)

lemma creation_text: "\<not> starts_with ''0x'' ''contract creation''"
  by (simp add: starts_with_def)

lemma sealed_block_ok: "ck_ok (check_block H (last_hash (w_blocks w)) (seal_block H w sp ok gas inp))"
proof -
  obtain sig sel input where inp: "inp = (sig, sel, input)" by (cases inp) auto
  show ?thesis
    by (cases "tx_target H sp")
       (auto simp: inp check_block_def seal_block_def Let_def txHashOf_def blockHashOf_def headerPreimage_def
          header_bytes_def tx_preimage_bytes_def creation_text dest: tx_target_0x)
qed

lemma last_hash_append: "last_hash (bs @ [b]) = bk_hash b"
  by (simp add: last_hash_def)

lemma chain_ok_snoc: "chain_ok H (bs @ [b]) \<longleftrightarrow> chain_ok H bs \<and> ck_ok (check_block H (last_hash bs) b)"
  by (simp add: chain_ok_def verify_snoc)

lemma finish_chain:
  assumes "finish H w sp ok rej err g gs b c = Some r" and "chain_ok H (w_blocks w)"
  shows "chain_ok H (w_blocks (o_world r))"
  using finish_Some(9) [OF assms(1)] assms(2) sealed_block_ok [of H "w\<lparr>w_seq := w_seq w + 1\<rparr>"]
  by (simp add: chain_ok_snoc)

text \<open>Every call is one of three: thrown away, or finished on one of the worlds the wrapper builds.\<close>

lemma call_finish_cases:
  obtains (thrown) "call H w sp body = thrown w" and "tx_input_of H sp = None"
  | (commit) w' c g where "fst (body (start_world sp w) ctx0) = Inr w'"
      and "sc_layer sp = LChain" and "gasToGwei g (w_params w') \<le> w_eth w' (spec_payer sp)"
      and "finish H (charge w' (spec_payer sp) g) sp True False None g (Some (snd (gas_of sp True c))) (metrics w) c
             = Some (call H w sp body)"
  | (free) w' c where "fst (body (start_world sp w) ctx0) = Inr w'" and "sc_layer sp \<noteq> LChain"
      and "finish H w' sp True False None 0 None (metrics w) c = Some (call H w sp body)"
  | (revert) e c g where "fst (body (start_world sp w) ctx0) = Inl e" and "sc_layer sp = LChain"
      and "gasToGwei g (w_params w) \<le> w_eth w (spec_payer sp)"
      and "finish H (charge (w\<lparr>w_t := w_t w + 2, w_block := w_block w + 1\<rparr>) (spec_payer sp) g) sp False False
             (Some (revert_message e)) g (Some (snd (gas_of sp False c))) (metrics w) c = Some (call H w sp body)"
  | (free_revert) e c where "fst (body (start_world sp w) ctx0) = Inl e" and "sc_layer sp \<noteq> LChain"
      and "finish H w sp False False (Some (revert_message e)) 0 None (metrics w) c = Some (call H w sp body)"
  | (rejected) c err where "sc_layer sp = LChain" and "finish H w sp False True (Some err) 0 None (metrics w) c = Some (call H w sp body)"
proof -
  obtain res c where b: "body (start_world sp w) ctx0 = (res, c)" by (cases "body (start_world sp w) ctx0")
  show ?thesis
  proof (cases res)
    case (Inl e)
    show ?thesis
    proof (cases "sc_layer sp = LChain")
      case True
      obtain g gs where g: "gas_of sp False c = (g, gs)" by (cases "gas_of sp False c")
      let ?o = "w\<lparr>w_t := w_t w + 2, w_block := w_block w + 1\<rparr>"
      show ?thesis
      proof (cases "w_eth w (spec_payer sp) < gasToGwei g (w_params w)")
        case rej: True
        show ?thesis
          by (rule rejected [OF True, of "reject_error ?o (spec_payer sp) (gasToGwei g (w_params w))" c])
             (use rej True in \<open>simp add: call_def b Inl Let_def g finish_def\<close>)
      next
        case pay: False
        show ?thesis
        proof (cases "finish H (charge ?o (spec_payer sp) g) sp False False (Some (revert_message e)) g (Some gs) (metrics w) c")
          case None
          from None have "tx_input_of H sp = None" by (simp add: finish_None_iff)
          moreover have "call H w sp body = thrown w"
            using None pay True by (simp add: call_def b Inl Let_def g)
          ultimately show ?thesis by (rule thrown [rotated])
        next
          case (Some r)
          show ?thesis
            by (rule revert [of e g c]) (use Some pay True in \<open>simp_all add: call_def b Inl Let_def g\<close>)
        qed
      qed
    next
      case False
      then have b': "body w ctx0 = (Inl e, c)" using b Inl by (simp add: start_world_def)
      show ?thesis
        by (rule free_revert [of e c]) (use False in \<open>simp_all add: call_def b' Let_def start_world_def finish_def\<close>)
    qed
  next
    case (Inr w')
    show ?thesis
    proof (cases "sc_layer sp = LChain")
      case True
      obtain g gs where g: "gas_of sp True c = (g, gs)" by (cases "gas_of sp True c")
      show ?thesis
      proof (cases "w_eth w' (spec_payer sp) < gasToGwei g (w_params w')")
        case rej: True
        show ?thesis
          by (rule rejected [OF True, of "reject_error w' (spec_payer sp) (gasToGwei g (w_params w'))" c])
             (use rej True in \<open>simp add: call_def b Inr Let_def g finish_def\<close>)
      next
        case pay: False
        show ?thesis
        proof (cases "finish H (charge w' (spec_payer sp) g) sp True False None g (Some gs) (metrics w) c")
          case None
          from None have "tx_input_of H sp = None" by (simp add: finish_None_iff)
          moreover have "call H w sp body = thrown w"
            using None pay True by (simp add: call_def b Inr Let_def g)
          ultimately show ?thesis by (rule thrown [rotated])
        next
          case (Some r)
          show ?thesis
            by (rule commit [of w' g c]) (use Some pay True in \<open>simp_all add: call_def b Inr Let_def g\<close>)
        qed
      qed
    next
      case False
      show ?thesis
        by (rule free [of w' c]) (use False in \<open>simp_all add: call_def b Inr Let_def finish_def\<close>)
    qed
  qed
qed

lemma chain_call: "chain_ok H (w_blocks w) \<Longrightarrow> quiet body \<Longrightarrow> chain_ok H (w_blocks (o_world (call H w sp body)))"
  by (rule call_finish_cases [of H w sp body])
     (auto dest!: finish_chain simp: quiet_def)

interpretation chainI: call_invariant H "\<lambda>w. chain_ok H (w_blocks w)" for H
  by unfold_locales (rule chain_call)

definition eth_ok :: "world \<Rightarrow> bool" where
  "eth_ok w \<longleftrightarrow> (\<forall>a. 0 \<le> w_eth w a)"

lemma eth_call: "eth_ok w \<Longrightarrow> quiet body \<Longrightarrow> eth_ok (o_world (call H w sp body))"
  by (rule call_finish_cases [of H w sp body])
     (auto dest!: finish_Some(4) simp: quiet_def eth_ok_def)

interpretation ethI: call_invariant H eth_ok for H
  by unfold_locales (rule eth_call)

end
