(* ===== verification/Settlement.thy ===== *)
theory Settlement
  imports Books
begin

text \<open>
  What the settlement of tickets rests on: channels only move forward (\<open>chan_le\<close>, kept by every call), a batch
  that settles has advanced the channel of each of its tickets and a stale ticket stops it, the running totals
  of the loop are what the accounts change by, and only a client who signed pays.
\<close>

section \<open>Channels move forward\<close>

definition chan_le :: "world \<Rightarrow> world \<Rightarrow> bool" where
  "chan_le w0 w \<longleftrightarrow> (\<forall>i. last_seq w0 i \<le> last_seq w i \<and> settled_units w0 i \<le> settled_units w i)"

lemma chan_le_refl [simp]: "chan_le w w"
  by (simp add: chan_le_def)

lemma chan_le_trans: "chan_le a b \<Longrightarrow> chan_le b c \<Longrightarrow> chan_le a c"
  unfolding chan_le_def using order_trans by blast

lemma chan_le_channels: "es_channels (w_escrow w) = es_channels (w_escrow w') \<Longrightarrow> chan_le w0 w \<longleftrightarrow> chan_le w0 w'"
  by (simp add: chan_le_def last_seq_def settled_units_def)

interpretation chanP: core_predicate "chan_le w0" for w0
  by unfold_locales (rule chan_le_channels, simp add: core_eq_iff)

definition key_of :: "host \<Rightarrow> ticket \<Rightarrow> string" where
  "key_of H t = channel_key H (tt_client t) (tt_nodeAdmin t)"

lemma ticket_settled_channels [simp]:
  "last_seq (fst (ticket_settled H t x)) i = (if i = key_of H t then tt_sequenceNumber t else last_seq x i)"
  "settled_units (fst (ticket_settled H t x)) i = (if i = key_of H t then tt_cumulativeUnits t else settled_units x i)"
  by (simp_all add: ticket_settled_def pay_ticket_eq key_of_def)

lemma accepted_key:
  "ticket_accepted H t x \<longleftrightarrow>
     w_t x \<le> tt_epochExpiry t \<and> last_seq x (key_of H t) < tt_sequenceNumber t \<and>
     settled_units x (key_of H t) < tt_cumulativeUnits t \<and>
     recoverAddress H (ticket_digest H t) (tt_signature t) = Some (addr H (tt_client t))"
  by (simp add: ticket_accepted_def key_of_def Let_def)

lemma settle_one_chan: "fst (settle_one H i t a c) = Inr a' \<Longrightarrow> chan_le (sa_world a) (sa_world a')"
  by (auto simp: settle_one_Inr chan_le_def accepted_key)

lemma settle_loop_chan: "fst (settle_loop H i ts a c) = Inr a' \<Longrightarrow> chan_le (sa_world a) (sa_world a')"
  by (erule settle_loop_rule) (auto intro: chan_le_trans settle_one_chan)

lemma settle_loop_seq:
  assumes "fst (settle_loop H i ts a c) = Inr a'" and "t \<in> set ts"
  shows "last_seq (sa_world a) (key_of H t) < tt_sequenceNumber t \<and>
         tt_sequenceNumber t \<le> last_seq (sa_world a') (key_of H t)"
  using assms
proof (induction ts arbitrary: i a c)
  case (Cons u ts)
  obtain a1 where one: "fst (settle_one H i u a c) = Inr a1"
    and rest: "fst (settle_loop H (Suc i) ts a1 (snd (settle_one H i u a c))) = Inr a'"
    using Cons.prems(1) unfolding settle_loop_Cons by blast
  show ?case
  proof (cases "t = u")
    case True
    have "last_seq (sa_world a1) (key_of H u) = tt_sequenceNumber u"
      "last_seq (sa_world a) (key_of H u) < tt_sequenceNumber u"
      using one by (auto simp: settle_one_Inr accepted_key)
    with settle_loop_chan [OF rest] True show ?thesis by (metis chan_le_def)
  next
    case False
    with Cons.prems(2) Cons.IH [OF rest] settle_one_chan [OF one] show ?thesis
      by (auto simp: chan_le_def intro: order.strict_trans1)
  qed
qed simp

lemma settle_finish_channels [simp]:
  "last_seq (settle_finish a) i = last_seq (sa_world a) i" "settled_units (settle_finish a) i = settled_units (sa_world a) i"
  by (simp_all add: settle_finish_def)

lemma settle_body_chan: "fst (settleTicketBatch_body H f ts x c) = Inr x' \<Longrightarrow> chan_le x x'"
  using settle_loop_chan by (fastforce simp: settle_commits chan_le_def settle_start_def)

lemma bank_channels: "bank_view w = bank_view w' \<Longrightarrow> es_channels (w_escrow w) = es_channels (w_escrow w')"
  by (simp add: bank_view_def)

lemma chan_le_same: "es_channels (w_escrow w) = es_channels (w_escrow w0) \<Longrightarrow> chan_le w0 w"
  using chan_le_channels [of w w0 w0] by simp

lemma permitted_escrow_channels [simp]: "es_channels (w_escrow (permitted H p x)) = es_channels (w_escrow x)"
  by simp

lemma escrow_exec_chan: "chan_le w (escrow_exec H w op)"
proof (cases op)
  case (Settle f ts)
  show ?thesis
    unfolding Settle escrow_exec.simps settleTicketBatch_def
    by (rule chanP.call_preserves) (auto intro: chan_le_trans settle_body_chan)
qed (simp only: escrow_exec.simps escrow_call_defs, rule chanP.call_preserves, simp,
     erule chan_le_trans, rule chan_le_same,
     auto simp: doDeposit_commits depositWithPermit_commits withdrawDeposit_commits withdrawWithSig_commits
       transferDeposit_commits claimEarnings_commits setPricePerUnit_commits)+

lemma rules_channels: "rules_view w = rules_view w' \<Longrightarrow> es_channels (w_escrow w) = es_channels (w_escrow w')"
  by (simp add: rules_view_def)

lemma exec_chan: "chan_le w (exec H w op)"
proof (cases op)
  case (TokenOp o1)
  show ?thesis using rules_channels [OF token_exec_rules [of H w o1]] by (simp add: TokenOp chan_le_same)
next
  case (EscrowOp o1)
  then show ?thesis by (simp add: escrow_exec_chan)
next
  case (TreasuryOp o1)
  show ?thesis using bank_channels [OF treasury_exec_bank [of H w o1]] by (simp add: TreasuryOp chan_le_same)
next
  case (OffOp o1)
  show ?thesis using off_exec_contracts [of H w o1] by (simp add: OffOp contract_view_def chan_le_same)
qed

lemma run_chan: "chan_le w (foldl (exec H) w ops)"
  by (induction ops rule: rev_induct) (auto intro: chan_le_trans exec_chan)

section \<open>A ticket pays once\<close>

lemma settle_ok_seq:
  assumes "o_ok (settleTicketBatch H w f ts flow title)" and "t \<in> set ts"
  shows "tt_sequenceNumber t \<le> last_seq (o_world (settleTicketBatch H w f ts flow title)) (key_of H t)"
proof -
  obtain w' c where b: "settleTicketBatch_body H f ts (start_world
      (chain_spec ''settleTicketBatch'' (Some EscrowC) f (ASettle ts) flow title) w) ctx0 = (Inr w', c)"
    and core: "core (o_world (settleTicketBatch H w f ts flow title)) = core w'"
    using assms(1) unfolding settleTicketBatch_def by (rule call_commit)
  from b have "fst (settleTicketBatch_body H f ts (start_world
      (chain_spec ''settleTicketBatch'' (Some EscrowC) f (ASettle ts) flow title) w) ctx0) = Inr w'" by simp
  then obtain a where a: "fst (settle_loop H 0 ts (settle_start (start_world
      (chain_spec ''settleTicketBatch'' (Some EscrowC) f (ASettle ts) flow title) w)) ctx0) = Inr a" and w': "w' = settle_finish a"
    unfolding settle_commits by blast
  have "tt_sequenceNumber t \<le> last_seq w' (key_of H t)" using settle_loop_seq [OF a assms(2)] by (simp add: w')
  moreover have "last_seq (o_world (settleTicketBatch H w f ts flow title)) i = last_seq w' i" for i
    using core by (simp add: core_eq_iff last_seq_def)
  ultimately show ?thesis by simp
qed

lemma stale_fails:
  assumes "tt_sequenceNumber t \<le> last_seq w (key_of H t)" and "t \<in> set ts"
  shows "\<not> o_ok (settleTicketBatch H w f ts flow title)"
proof
  assume "o_ok (settleTicketBatch H w f ts flow title)"
  then obtain w' c where "settleTicketBatch_body H f ts (start_world
      (chain_spec ''settleTicketBatch'' (Some EscrowC) f (ASettle ts) flow title) w) ctx0 = (Inr w', c)"
    unfolding settleTicketBatch_def by (auto simp: call_ok_iff)
  then have "fst (settleTicketBatch_body H f ts (start_world
      (chain_spec ''settleTicketBatch'' (Some EscrowC) f (ASettle ts) flow title) w) ctx0) = Inr w'" by simp
  then obtain a where "fst (settle_loop H 0 ts (settle_start (start_world
      (chain_spec ''settleTicketBatch'' (Some EscrowC) f (ASettle ts) flow title) w)) ctx0) = Inr a"
    unfolding settle_commits by blast
  from settle_loop_seq [OF this assms(2)] assms(1) show False by (simp add: settle_start_def last_seq_def)
qed

section \<open>The amounts\<close>

definition settled_sums :: "world \<Rightarrow> settle_acc \<Rightarrow> bool" where
  "settled_sums x a \<longleftrightarrow>
     deposits_total (sa_world a) = deposits_total x - sa_gross a \<and>
     earnings_total (sa_world a) = earnings_total x + (sa_gross a - sa_fee a) \<and>
     10 * sa_fee a \<le> sa_gross a \<and>
     (\<forall>cl. deposit_of (sa_world a) cl \<le> deposit_of x cl) \<and>
     (\<forall>nd. earning_of x nd \<le> earning_of (sa_world a) nd)"

lemma settle_one_sums:
  assumes "settling a" and "settled_sums x a" and "fst (settle_one H i t a c) = Inr a'"
  shows "settled_sums x a'"
proof -
  let ?x = "sa_world a" and ?p = "paid_of H (sa_world a) t"
  have acc: "ticket_accepted H t ?x"
    and a': "sa_world a' = fst (ticket_settled H t ?x)" "sa_gross a' = sa_gross a + ?p"
      "sa_fee a' = sa_fee a + snd (ticket_settled H t ?x)"
    using assms(3) by (simp_all add: settle_one_Inr)
  have nn: "0 \<le> ?p"
    by (rule paid_of_nonneg [OF acc]) (use assms(1) in \<open>simp_all add: settling_def Let_def nonneg_def deposit_of_def\<close>)
  have fees: "0 \<le> fee_of ?x ?p" "fee_of ?x ?p \<le> ?p" "10 * fee_of ?x ?p \<le> ?p"
    by (rule fee_bounds [OF nn]; use assms(1) in \<open>simp add: settling_def Let_def\<close>)+
  have dep: "deposit_of ?x cl \<le> deposit_of x cl" "earning_of x cl \<le> earning_of ?x cl" for cl
    using assms(2) by (simp_all add: settled_sums_def)
  have dep1: "deposit_of ?x cl - ?p \<le> deposit_of x cl" "earning_of x cl \<le> earning_of ?x cl + (?p - fee_of ?x ?p)" for cl
    using dep [of cl] nn fees(2) by linarith+
  show ?thesis
    using assms(2) nn fees dep dep1
    unfolding settled_sums_def a' ticket_settled_def pay_ticket_eq
    by (auto simp: not_less)
qed

lemma settle_loop_sums:
  assumes "fst (settle_loop H i ts (settle_start x) c) = Inr a" and "inv x"
  shows "settled_sums x a \<and> settling a"
proof (rule settle_loop_rule [OF assms(1)])
  show "settled_sums x (settle_start x) \<and> settling (settle_start x)"
    using settling_start [OF assms(2)] by (simp add: settled_sums_def settle_start_def)
qed (auto intro: settle_one_sums settle_one_settling)

lemma settle_ctx_result:
  assumes "settleTicketBatch_body H f ts x c = (Inr x', c')"
  obtains a where "fst (settle_loop H 0 ts (settle_start x) c) = Inr a" and "x' = settle_finish a" and "0 < sa_gross a"
    and "cx_result c' = RSettled (sa_gross a) (sa_fee a) (sa_gross a - sa_fee a)"
    and "cx_gasOverride c' = Some (gas_entry (settleGas (sa_shape a) (tk_bal (w_token x) TreasuryAcc > 0)) ''model''
           (nat_str (length ts) @ '' ticket(s): 71,467 + 59,924 each, less 17,100 per warm slot''))"
  using assms
  by (auto simp: settleTicketBatch_body_def Let_def settle_finish_def override_gas_def set_result_def reverts_def commits_def
      split: sum.splits prod.splits if_splits)

text \<open>What a committed batch leaves, in terms of the loop it ran.\<close>

lemma settle_ok_loop:
  assumes "o_ok (settleTicketBatch H w f ts flow title)"
  obtains x a c where "core x = core w" and "fst (settle_loop H 0 ts (settle_start x) ctx0) = Inr a" and "0 < sa_gross a"
    and "core (o_world (settleTicketBatch H w f ts flow title)) = core (settle_finish a)"
    and "o_result (settleTicketBatch H w f ts flow title) = RSettled (sa_gross a) (sa_fee a) (sa_gross a - sa_fee a)"
    and "w_t x = w_t w + 2"
proof -
  let ?sp = "chain_spec ''settleTicketBatch'' (Some EscrowC) f (ASettle ts) flow title"
  obtain w' c where b: "settleTicketBatch_body H f ts (start_world ?sp w) ctx0 = (Inr w', c)"
    and core: "core (o_world (settleTicketBatch H w f ts flow title)) = core w'"
    and res: "o_result (settleTicketBatch H w f ts flow title) = cx_result c"
    using assms unfolding settleTicketBatch_def by (rule call_commit)
  have t: "w_t (start_world ?sp w) = w_t w + 2" by (simp add: chain_spec_def)
  from b show ?thesis
    by (rule settle_ctx_result) (use that [of "start_world ?sp w"] core res t in simp)
qed

lemma core_totals:
  assumes "core w = core w'"
  shows "deposits_total w = deposits_total w'" and "earnings_total w = earnings_total w'"
    and "deposit_of w = deposit_of w'" and "earning_of w = earning_of w'" and "tk_bal (w_token w) = tk_bal (w_token w')"
    and "tk_supply (w_token w) = tk_supply (w_token w')" and "inv w = inv w'"
    and "last_seq w = last_seq w'" and "settled_units w = settled_units w'"
  using assms inv_core [OF assms]
  by (auto simp: core_eq_iff deposits_total_def earnings_total_def deposit_of_def earning_of_def last_seq_def settled_units_def
      fun_eq_iff)

lemma settle_finish_reads [simp]:
  "deposits_total (settle_finish a) = deposits_total (sa_world a)" "earnings_total (settle_finish a) = earnings_total (sa_world a)"
  "deposit_of (settle_finish a) cl = deposit_of (sa_world a) cl" "earning_of (settle_finish a) cl = earning_of (sa_world a) cl"
  "tk_supply (w_token (settle_finish a)) = tk_supply (w_token (sa_world a))"
  by (simp_all add: settle_finish_def)

section \<open>Who pays\<close>

definition signed_ticket :: "host \<Rightarrow> actor \<Rightarrow> ticket \<Rightarrow> bool" where
  "signed_ticket H cl t \<longleftrightarrow>
     tt_client t = cl \<and> recoverAddress H (ticket_digest H t) (tt_signature t) = Some (addr H cl)"

lemma settle_loop_payers:
  assumes "fst (settle_loop H i ts a c) = Inr a'" and "deposit_of (sa_world a') cl \<noteq> deposit_of (sa_world a) cl"
  shows "\<exists>t \<in> set ts. signed_ticket H cl t \<and> w_t (sa_world a) \<le> tt_epochExpiry t"
  using assms
proof (induction ts arbitrary: i a c)
  case (Cons t ts)
  obtain a1 where one: "fst (settle_one H i t a c) = Inr a1"
    and rest: "fst (settle_loop H (Suc i) ts a1 (snd (settle_one H i t a c))) = Inr a'"
    using Cons.prems(1) unfolding settle_loop_Cons by blast
  have tm: "w_t (sa_world a1) = w_t (sa_world a)" using one by (simp add: settle_one_Inr)
  show ?case
  proof (cases "deposit_of (sa_world a1) cl = deposit_of (sa_world a) cl")
    case True
    with Cons.IH [OF rest] Cons.prems(2) tm show ?thesis by auto
  next
    case False
    have "tt_client t = cl" "ticket_accepted H t (sa_world a)"
      using one False by (auto simp: settle_one_Inr ticket_settled_def pay_ticket_eq split: if_splits)
    then show ?thesis by (auto simp: signed_ticket_def accepted_key)
  qed
qed simp

end
