(* ===== verification/Authority.thy ===== *)
theory Authority
  imports Settlement
begin

text \<open>
  What a wallet's signature opens, and how the off-chain calls that make one answer: a ticket, permit or
  authorisation that a wallet has just signed recovers to that wallet's address under the digest the escrow
  recomputes.  Also the lemmas by which a call whose body succeeds commits.  (The timelocks of the owner and of
  the beneficiary are in \<open>Timelocks\<close>.)

  \<open>ecdsa_ok\<close> states what the program relies on of the secp256k1 package: a signature has 65 bytes with a
  recovery bit of 0 or 1, and recovers to the public key of the secret that made it.
\<close>

section \<open>What the signature package promises\<close>

definition ecdsa_ok :: "host \<Rightarrow> bool" where
  "ecdsa_ok H \<longleftrightarrow>
     (\<forall>digest secret. length (h_sign H digest secret) = 65 \<and> h_sign H digest secret ! 0 \<in> {0, 1} \<and>
        (\<exists>p. h_recover H (h_sign H digest secret) digest = Some p \<and> h_uncompress H p = Some (h_pub H secret)))"

definition wallet_sig :: "host \<Rightarrow> bytes \<Rightarrow> actor \<Rightarrow> string" where
  "wallet_sig H digest a = sig_signature (signDigest H digest (dk_secret (KEYS H a)))"

lemma slice_parts: "length r = 65 \<Longrightarrow> r = r ! 0 # slice 1 33 r @ slice 33 65 r"
proof -
  assume len: "length r = 65"
  then obtain x xs where x: "r = x # xs" "length xs = 64" by (cases r) auto
  have "slice 1 33 r @ slice 33 65 r = xs"
    using x(2) append_take_drop_id [of 32 xs] by (simp add: x(1) slice_def)
  then show ?thesis by (simp add: x(1))
qed

lemma signDigest_bytes:
  assumes "length (h_sign H d s) = 65"
  shows "hexToBytes (sig_signature (signDigest H d s)) = drop 1 (h_sign H d s) @ [27 + h_sign H d s ! 0]"
proof -
  have "drop 1 (h_sign H d s) = slice 1 33 (h_sign H d s) @ slice 33 65 (h_sign H d s)"
    using slice_parts [OF assms] by (metis One_nat_def drop0 drop_Suc_Cons)
  then show ?thesis by (simp add: signDigest_def Let_def concat_bytes_def)
qed

lemma recover_signed:
  assumes "ecdsa_ok H"
  shows "recoverAddress H d (sig_signature (signDigest H d s)) = Some (addressOf H s)"
proof -
  let ?r = "h_sign H d s"
  have len: "length ?r = 65" and v: "?r ! 0 = 0 \<or> ?r ! 0 = 1"
    using assms by (auto simp: ecdsa_ok_def)
  obtain p where p: "h_recover H ?r d = Some p" "h_uncompress H p = Some (h_pub H s)"
    using assms unfolding ecdsa_ok_def by blast
  have sig: "hexToBytes (sig_signature (signDigest H d s)) = drop 1 ?r @ [27 + ?r ! 0]"
    by (rule signDigest_bytes [OF len])
  have "?r = ?r ! 0 # drop 1 ?r" using len by (cases ?r) auto
  then have whole: "?r ! 0 # slice 0 64 (drop 1 ?r @ [27 + ?r ! 0]) = ?r"
    using len by (simp add: slice_def)
  have last: "(drop 1 ?r @ [27 + ?r ! 0]) ! 64 = 27 + ?r ! 0"
    using len by (simp add: nth_append)
  have vv: "(27 + ?r ! 0 :: byte) = 27 \<or> (27 + ?r ! 0 :: byte) = 28" using v by auto
  show ?thesis
    unfolding recoverAddress_def Let_def sig last
    using len vv p whole by (auto simp: concat_bytes_def addressOf_def)
qed

lemma wallet_sig_ok: "ecdsa_ok H \<Longrightarrow> recoverAddress H d (wallet_sig H d a) = Some (addr H a)"
  by (simp add: wallet_sig_def recover_signed addr_def KEYS_def demoKey_def Let_def)

lemma next_ticket_sig: "tt_signature (next_ticket H x cl nd u s) = wallet_sig H (ticket_digest H (next_ticket H x cl nd u s)) s"
  by (simp add: next_ticket_def Let_def wallet_sig_def ticket_digest_def)

lemma next_ticket_fields [simp]:
  "tt_client (next_ticket H x cl nd u s) = cl" "tt_nodeAdmin (next_ticket H x cl nd u s) = nd"
  "tt_cumulativeUnits (next_ticket H x cl nd u s) = u"
  "tt_epochExpiry (next_ticket H x cl nd u s) = w_t x + p_epochSeconds (w_params x)"
  "tt_sequenceNumber (next_ticket H x cl nd u s) =
     max (last_seq x (channel_key H cl nd)) (held_sequence x cl nd) + 1"
  "tt_signedBy (next_ticket H x cl nd u s) = s"
  by (simp_all add: next_ticket_def Let_def)

lemma next_ticket_recovers:
  "ecdsa_ok H \<Longrightarrow> recoverAddress H (ticket_digest H (next_ticket H x cl nd u s)) (tt_signature (next_ticket H x cl nd u s))
     = Some (addr H s)"
  by (simp only: next_ticket_sig wallet_sig_ok)

lemma next_permit_fields [simp]:
  "pm_owner (next_permit H x ow s v) = ow" "pm_spender (next_permit H x ow s v) = s" "pm_value (next_permit H x ow s v) = v"
  "pm_deadline (next_permit H x ow s v) = w_t x + 3600" "pm_nonce (next_permit H x ow s v) = tk_nonces (w_token x) ow"
  by (simp_all add: next_permit_def Let_def)

lemma permit_digest_sig: "permit_digest H x (p\<lparr>pm_signature := s\<rparr>) = permit_digest H x p"
  by (simp add: permit_digest_def)

lemma next_permit_recovers:
  "ecdsa_ok H \<Longrightarrow> tk_nonces (w_token y) ow = tk_nonces (w_token x) ow \<Longrightarrow>
   recoverAddress H (permit_digest H y (next_permit H x ow s v)) (pm_signature (next_permit H x ow s v)) = Some (addr H ow)"
  using wallet_sig_ok [of H "permit_digest H x (next_permit H x ow s v)" ow]
  by (simp add: next_permit_def Let_def permit_digest_sig wallet_sig_def permit_digest_def)

definition next_auth :: "host \<Rightarrow> world \<Rightarrow> auth_kind \<Rightarrow> actor \<Rightarrow> actor \<Rightarrow> int \<Rightarrow> auth" where
  \<comment> \<open>the authorisation \<open>signAuth\<close> answers\<close>
  "next_auth H x kind ow to v =
     (let a = \<lparr>au_kind = kind, au_from = ow, au_to = to, au_amount = v, au_nonce = es_authNonces (w_escrow x) ow,
               au_deadline = w_t x + 3600, au_signature = ''''\<rparr>
      in a\<lparr>au_signature := wallet_sig H (auth_digest H x kind a to) ow\<rparr>)"

lemma next_auth_fields [simp]:
  "au_from (next_auth H x k ow to v) = ow" "au_to (next_auth H x k ow to v) = to" "au_amount (next_auth H x k ow to v) = v"
  "au_deadline (next_auth H x k ow to v) = w_t x + 3600"
  by (simp_all add: next_auth_def Let_def)

lemma auth_digest_sig: "auth_digest H x k (a\<lparr>au_signature := s\<rparr>) to = auth_digest H x k a to"
  by (simp add: auth_digest_def)

lemma next_auth_sig: "au_signature (next_auth H x k ow to v) = wallet_sig H (auth_digest H x k (next_auth H x k ow to v) to) ow"
  by (simp add: next_auth_def Let_def auth_digest_def)

lemma signAuth_result:
  "device_ok x ow \<Longrightarrow> cx_result (snd (signAuth_body H k ow to v x c)) = RAuth (next_auth H x k ow to v)"
  by (simp add: signAuth_body_def Let_def commits_def set_result_def next_auth_def auth_digest_def wallet_sig_def)

lemma signTicket_result:
  "device_ok x s \<Longrightarrow> cx_result (snd (signTicket_body H cl nd u s x c)) = RTicket (next_ticket H x cl nd u s)"
  by (simp add: signTicket_body_def Let_def commits_def set_result_def)

lemma signPermit_result:
  "device_ok x ow \<Longrightarrow> cx_result (snd (signPermit_body H ow s v x c)) = RPermit (next_permit H x ow s v)"
  by (simp add: signPermit_body_def Let_def commits_def set_result_def)

section \<open>Off-chain calls commit and answer\<close>

lemma off_start [simp]: "start_world (off_spec fn l f a fl ti) w = (if l = LChain then w\<lparr>w_t := w_t w + 2, w_block := w_block w + 1\<rparr> else w)"
  by (simp add: start_world_def off_spec_def)

lemma off_layer [simp]: "sc_layer (off_spec fn l f a fl ti) = l" "sc_layer (chain_spec fn k f a fl ti) = LChain"
  by (simp_all add: off_spec_def chain_spec_def)

lemma call_off:
  assumes "sc_layer sp \<noteq> LChain" and "body w ctx0 = (Inr w', c)"
  shows "o_ok (call H w sp body)" and "core (o_world (call H w sp body)) = core w'" and "o_result (call H w sp body) = cx_result c"
    and "w_eth (o_world (call H w sp body)) = w_eth w'" and "w_t (o_world (call H w sp body)) = w_t w'"
proof -
  have s: "start_world sp w = w" using assms(1) by (simp add: start_world_def)
  show ok: "o_ok (call H w sp body)" using assms by (auto simp: call_ok_iff s)
  obtain w1 c1 where "body (start_world sp w) ctx0 = (Inr w1, c1)"
    and r: "core (o_world (call H w sp body)) = core w1" "w_t (o_world (call H w sp body)) = w_t w1"
      "o_result (call H w sp body) = cx_result c1"
      "w_eth (o_world (call H w sp body)) = (if sc_layer sp = LChain
            then (w_eth w1)(spec_payer sp := w_eth w1 (spec_payer sp) - gasToGwei (fst (gas_of sp True c1)) (w_params w1))
            else w_eth w1)"
    using ok by (rule call_commit)
  with assms s show "core (o_world (call H w sp body)) = core w'" "o_result (call H w sp body) = cx_result c"
    "w_eth (o_world (call H w sp body)) = w_eth w'" "w_t (o_world (call H w sp body)) = w_t w'"
    by auto
qed

lemma signAuth_call:
  assumes "device_ok w ow"
  shows "o_ok (signAuth H w k ow to v fl ti)" and "core (o_world (signAuth H w k ow to v fl ti)) = core w"
    and "o_result (signAuth H w k ow to v fl ti) = RAuth (next_auth H w k ow to v)"
    and "w_eth (o_world (signAuth H w k ow to v fl ti)) = w_eth w" and "w_t (o_world (signAuth H w k ow to v fl ti)) = w_t w"
proof -
  obtain c where b: "signAuth_body H k ow to v w ctx0 = (Inr w, c)"
    using assms by (cases "signAuth_body H k ow to v w ctx0") (metis signAuth_commits fst_conv)
  have r: "cx_result c = RAuth (next_auth H w k ow to v)" using signAuth_result [OF assms, of H k to v ctx0] b by simp
  note call_off [of "off_spec ''signAuth'' LWallet ow (ASignAuth k to v) fl (or_title ti (''Sign '' @ kind_name k @ '' authorisation''))"
      "signAuth_body H k ow to v" w w c H, simplified, OF b]
  then show "o_ok (signAuth H w k ow to v fl ti)" "core (o_world (signAuth H w k ow to v fl ti)) = core w"
    "o_result (signAuth H w k ow to v fl ti) = RAuth (next_auth H w k ow to v)"
    "w_eth (o_world (signAuth H w k ow to v fl ti)) = w_eth w" "w_t (o_world (signAuth H w k ow to v fl ti)) = w_t w"
    using r by (simp_all add: signAuth_def)
qed

section \<open>On-chain calls commit\<close>

lemma chain_commit:
  assumes "sc_layer sp = LChain" and "fst (body (start_world sp w) ctx0) = Inr w'" and "tx_input_of H sp \<noteq> None"
    and "payable sp w' (snd (body (start_world sp w) ctx0))"
  shows "o_ok (call H w sp body)" and "core (o_world (call H w sp body)) = core w'"
proof -
  obtain c where b: "body (start_world sp w) ctx0 = (Inr w', c)" using assms(2) by (metis prod.collapse)
  show ok: "o_ok (call H w sp body)" using assms b by (auto simp: call_ok_iff)
  show "core (o_world (call H w sp body)) = core w'"
    using ok by (rule call_commit) (use b in simp)
qed

lemma chain_ok_body:
  assumes "o_ok (call H w sp body)"
  obtains w' where "fst (body (start_world sp w) ctx0) = Inr w'" and "core (o_world (call H w sp body)) = core w'"
  using assms by (rule call_commit) (metis fst_conv that)

lemma start_chain [simp]: "start_world (chain_spec fn k f a fl ti) w = w\<lparr>w_t := w_t w + 2, w_block := w_block w + 1\<rparr>"
  by (simp add: start_world_def)

end
