(* ===== verification/Flows.thy ===== *)
theory Flows
  imports Invariants
begin

text \<open>
  \<open>web/src/demo/flows.js\<close>: the journeys composed from the calls (set up, buy, deposit, withdraw,
  send, cash out, settle, claim, sweep), the data session with its receipts and credit limit, and the
  economics panel.

  The module counter \<open>flowSeq\<close> is the argument \<open>n\<close>: the number the next flow takes.  A flow that
  throws (a call whose calldata cannot be encoded) answers \<^term>\<open>None\<close>.
\<close>

section \<open>Running steps\<close>

definition newFlow :: "string \<Rightarrow> nat \<Rightarrow> string option" where
  "newFlow label n = Some (label @ ''#'' @ nat_str n)"

record flow_result =
  fr_world :: world
  fr_ok :: bool
  fr_entries :: "entry list"
  fr_failed :: "entry option"
  fr_result :: result

type_synonym flow_step = "world \<Rightarrow> result \<Rightarrow> outcome"

fun run_loop :: "world \<Rightarrow> result \<Rightarrow> entry list \<Rightarrow> flow_step list \<Rightarrow> flow_result option" where
  "run_loop w prev es [] = Some \<lparr>fr_world = w, fr_ok = True, fr_entries = es, fr_failed = None, fr_result = prev\<rparr>"
| "run_loop w prev es (step # steps) =
     (let r = step w prev in
      case o_entry r of
        None \<Rightarrow> None
      | Some e \<Rightarrow>
          if \<not> en_ok e
          then Some \<lparr>fr_world = o_world r, fr_ok = False, fr_entries = es @ [e], fr_failed = Some e, fr_result = RNone\<rparr>
          else run_loop (o_world r) (o_result r) (es @ [e]) steps)"

definition runSteps :: "world \<Rightarrow> flow_step list \<Rightarrow> flow_result option" where
  "runSteps w steps = run_loop w RNone [] steps"

fun res_string :: "result \<Rightarrow> string" where
  "res_string (RString s) = s"
| "res_string _ = ''''"

definition no_permit :: permit where
  "no_permit = \<lparr>pm_owner = Owner, pm_spender = EscrowAcc, pm_value = 0, pm_nonce = 0, pm_deadline = 0, pm_signature = ''''\<rparr>"

definition no_auth :: auth where
  "no_auth = \<lparr>au_kind = KWithdraw, au_from = Owner, au_to = Owner, au_amount = 0, au_nonce = 0, au_deadline = 0, au_signature = ''''\<rparr>"

fun res_permit :: "result \<Rightarrow> permit" where
  \<comment> \<open>the result of \<open>signPermit\<close>; the other cases do not occur after it commits\<close>
  "res_permit (RPermit p) = p"
| "res_permit _ = no_permit"

fun res_auth :: "result \<Rightarrow> auth" where
  "res_auth (RAuth a) = a"
| "res_auth _ = no_auth"

section \<open>Lifecycle\<close>

definition setupNetwork :: "host \<Rightarrow> nat \<Rightarrow> world \<Rightarrow> flow_result option" where
  "setupNetwork H n world =
     (let flow = newFlow ''Deploy and configure'' n;
          w = (if w_deployed world then world else deploy H world flow);
          deployed = drop (length (w_ledger world)) (w_ledger w)
      in map_option (\<lambda>r. r\<lparr>fr_entries := deployed @ fr_entries r\<rparr>)
           (runSteps w [\<lambda>x _. setBridge H x Owner Kiosk True (kes (p_mintCapKes (w_params x))) flow]))"

definition buy :: "host \<Rightarrow> nat \<Rightarrow> world \<Rightarrow> actor \<Rightarrow> int \<Rightarrow> bool \<Rightarrow> flow_result option" where
  \<comment> \<open>\<open>receipt\<close> is what the first step answers on \<open>world\<close>\<close>
  "buy H n world client amount failStk =
     (let flow = newFlow (''Buy '' @ fmt amount 2 @ '' KES'') n;
          receipt = res_string (o_result (stkPush H world client amount flow failStk))
      in runSteps world
           [\<lambda>w _. stkPush H w client amount flow failStk,
            \<lambda>w _. bridgeMint H w Kiosk client amount receipt flow (Some ''Kiosk mints XKN''),
            \<lambda>w _. issueVoucher H w client amount receipt flow])"

definition depositGasless :: "host \<Rightarrow> nat \<Rightarrow> world \<Rightarrow> actor \<Rightarrow> int \<Rightarrow> flow_result option" where
  "depositGasless H n world client amount =
     (let flow = newFlow (''Deposit '' @ fmt amount 2 @ '' KES'') n
      in runSteps world
           [\<lambda>w _. signPermit H w client EscrowAcc amount flow (Some ''Wallet signs permit for escrow''),
            \<lambda>w p. depositWithPermit H w Kiosk client amount (res_permit p) flow (Some ''Kiosk relays depositWithPermit'')])"

definition withdraw :: "host \<Rightarrow> nat \<Rightarrow> world \<Rightarrow> actor \<Rightarrow> int \<Rightarrow> flow_result option" where
  "withdraw H n world client amount =
     (let flow = newFlow (''Withdraw '' @ fmt amount 2 @ '' KES'') n
      in runSteps world [\<lambda>w _. withdrawDeposit H w client amount flow (Some ''Client calls withdrawDeposit'')])"

definition withdrawGasless :: "host \<Rightarrow> nat \<Rightarrow> world \<Rightarrow> actor \<Rightarrow> int \<Rightarrow> actor \<Rightarrow> flow_result option" where
  "withdrawGasless H n world client amount to =
     (let flow = newFlow (''Withdraw '' @ fmt amount 2 @ '' KES'') n
      in runSteps world
           [\<lambda>w _. signAuth H w KWithdraw client to amount flow (Some ''Phone signs: unlock to my wallet''),
            \<lambda>w a. withdrawWithSig H w Kiosk (res_auth a) (Some (au_to (res_auth a))) flow (Some ''Kiosk submits withdrawWithSig'')])"

definition sendEscrow :: "host \<Rightarrow> nat \<Rightarrow> world \<Rightarrow> actor \<Rightarrow> actor \<Rightarrow> int \<Rightarrow> flow_result option" where
  "sendEscrow H n world from to amount =
     (let flow = newFlow (''Meter send '' @ fmt amount 2 @ '' KES'') n
      in runSteps world
           [\<lambda>w _. signAuth H w KTransfer from to amount flow (Some ''Phone signs: move meter credit''),
            \<lambda>w a. transferDeposit H w Kiosk (res_auth a) (Some (au_to (res_auth a))) flow
                    (Some (''Kiosk submits transferDeposit to '' @ nameOf (actor_key to)))])"

definition send :: "host \<Rightarrow> nat \<Rightarrow> world \<Rightarrow> actor \<Rightarrow> actor \<Rightarrow> int \<Rightarrow> flow_result option" where
  "send H n world from to amount =
     (let flow = newFlow (''Send '' @ fmt amount 2 @ '' KES'') n
      in runSteps world
           [\<lambda>w _. signPermit H w from (Wallet Kiosk) amount flow (Some ''Sender signs permit for kiosk''),
            \<lambda>w p. permit H w Kiosk (res_permit p) flow (Some ''Kiosk relays permit''),
            \<lambda>w _. transferFrom H w Kiosk from to amount flow (Some (''Kiosk relays transferFrom to '' @ nameOf (actor_key to)))])"

definition cashOut :: "host \<Rightarrow> nat \<Rightarrow> world \<Rightarrow> actor \<Rightarrow> int \<Rightarrow> bool \<Rightarrow> flow_result option" where
  "cashOut H n world client amount failPayout =
     (let flow = newFlow (''Cash out '' @ fmt amount 2 @ '' KES'') n
      in runSteps world
           [\<lambda>w _. signPermit H w client (Wallet Kiosk) amount flow (Some ''Client signs permit for kiosk''),
            \<lambda>w p. permit H w Kiosk (res_permit p) flow (Some ''Kiosk relays permit''),
            \<lambda>w _. transferFrom H w Kiosk client Kiosk amount flow (Some ''XKN moves to the bridge''),
            \<lambda>w _. b2cPayout H w client amount flow failPayout,
            \<lambda>w _. bridgeBurn H w Kiosk amount (''B2C_'' @ actor_key client @ ''_'' @ int_str amount) flow
                    (Some ''Bridge burns its own XKN'')])"

definition retryPayout :: "host \<Rightarrow> nat \<Rightarrow> world \<Rightarrow> actor \<Rightarrow> int \<Rightarrow> flow_result option" where
  "retryPayout H n world client amount =
     (let flow = newFlow ''Retry payout'' n
      in runSteps world
           [\<lambda>w _. b2cPayout H w client amount flow False,
            \<lambda>w _. bridgeBurn H w Kiosk amount (''B2C_retry_'' @ actor_key client @ ''_'' @ int_str amount) flow
                    (Some ''Bridge burns after success'')])"

definition relayBatch :: "host \<Rightarrow> nat \<Rightarrow> world \<Rightarrow> actor option \<Rightarrow> ticket list option \<Rightarrow> flow_result option" where
  "relayBatch H n world node only =
     (let flow = newFlow ''Settle batch'' n;
          pending = (case only of None \<Rightarrow> map pt_ticket (pendingTickets H world node) | Some ts \<Rightarrow> ts)
      in runSteps world [\<lambda>w _. settleTicketBatch H w Relayer pending flow
           (Some (''Relayer settles '' @ nat_str (length pending) @ '' ticket(s)''))])"

definition nodeClaim :: "host \<Rightarrow> nat \<Rightarrow> world \<Rightarrow> flow_result option" where
  "nodeClaim H n world =
     (let flow = newFlow ''Node claims'' n
      in runSteps world [\<lambda>w _. claimEarnings H w Node Node (earning_of world Node) flow (Some ''Node admin claims earnings'')])"

definition nodeCashOut :: "host \<Rightarrow> nat \<Rightarrow> world \<Rightarrow> flow_result option" where
  "nodeCashOut H n world =
     (let flow = newFlow ''Node cashes out'' n;
          amount = tk_bal (w_token world) (Wallet Node)
      in runSteps world
           [\<lambda>w _. transfer H w Node Kiosk amount flow (Some ''Node sends XKN to the bridge''),
            \<lambda>w _. b2cPayout H w Node amount flow False,
            \<lambda>w _. bridgeBurn H w Kiosk amount (''B2C_node_'' @ int_str amount) flow (Some ''Bridge burns its own XKN'')])"

definition sweepFees :: "host \<Rightarrow> nat \<Rightarrow> world \<Rightarrow> actor \<Rightarrow> flow_result option" where
  "sweepFees H n world from =
     (let flow = newFlow ''Fee sweep'' n
      in runSteps world [\<lambda>w _. claim H w from flow (Some (nameOf (actor_key from) @ '' triggers treasury claim''))])"

section \<open>The data session\<close>

definition channel_between :: "world \<Rightarrow> actor \<Rightarrow> actor \<Rightarrow> channel option" where
  "channel_between w client node =
     find (\<lambda>c. ch_client c = client \<and> ch_nodeAdmin c = node) (map snd (es_channels (w_escrow w)))"

definition settled_between :: "world \<Rightarrow> actor \<Rightarrow> actor \<Rightarrow> int" where
  "settled_between w client node =
     (case channel_between w client node of None \<Rightarrow> 0 | Some c \<Rightarrow> ch_settledUnits c)"

fun voucher_amount :: "result \<Rightarrow> int" where
  "voucher_amount (RVoucher v) = vo_amount_ukes v"
| "voucher_amount _ = 0"

definition new_session :: "world \<Rightarrow> string option \<Rightarrow> actor \<Rightarrow> actor \<Rightarrow> int \<Rightarrow> bool \<Rightarrow> result \<Rightarrow> session" where
  "new_session w flow client node targetBytes offline res =
     (let p = w_params w;
          held = tickets_of w client node;
          signed = (if held = [] then 0 else tt_cumulativeUnits (last held));
          settled = settled_between w client node;
          baseUnits = max signed settled;
          source = (if offline then voucher_amount res else deposit_of w client);
          cap = kes (if offline then p_offlineCapKes p else p_onlineCapKes p)
      in \<lparr>se_flow = (case flow of None \<Rightarrow> '''' | Some f \<Rightarrow> f), se_client = client, se_nodeAdmin = node,
          se_offline = offline, se_targetBytes = targetBytes, se_bytes = 0, se_baseUnits = baseUnits,
          se_unsettledAtStart = (baseUnits - settled) * es_pricePerUnit (w_escrow w),
          se_limit = min source cap,
          se_limitReason = ''min('' @ (if offline then ''voucher'' else ''deposit'') @ '' '' @ fmt source 2 @ '' KES, ''
            @ (if offline then ''offline'' else ''online'') @ '' cap '' @ fmt cap 2 @ '' KES)'',
          se_lastReceiptBytes = 0, se_receipts = 0, se_throttled = None, se_done = False, se_startedAt = w_t w\<rparr>)"

definition openSession :: "host \<Rightarrow> nat \<Rightarrow> world \<Rightarrow> actor \<Rightarrow> actor \<Rightarrow> int \<Rightarrow> bool \<Rightarrow> flow_result option" where
  "openSession H n world client node targetBytes offline =
     (let flow = newFlow ((if offline then ''Offline'' else ''Online'') @ '' session'') n;
          steps = (if offline then [\<lambda>w _. nodeVerify H w client flow] else [])
      in map_option (\<lambda>r.
           if \<not> fr_ok r then r
           else r\<lparr>fr_world := (fr_world r)\<lparr>w_session :=
                    Some (new_session (fr_world r) flow client node targetBytes offline (fr_result r))\<rparr>,
                  fr_result := RNone\<rparr>)
         (runSteps world steps))"

definition ceil_div :: "int \<Rightarrow> int \<Rightarrow> int" where
  "ceil_div a b = \<lceil>(of_int a :: rat) / of_int b\<rceil>"

definition sessionUnits :: "session \<Rightarrow> int \<Rightarrow> int \<Rightarrow> int" where
  "sessionUnits s bytes unitBytes = se_baseUnits s + ceil_div bytes unitBytes"

definition sessionCredit :: "world \<Rightarrow> int" where
  "sessionCredit w =
     (case w_session w of
        None \<Rightarrow> 0
      | Some s \<Rightarrow> se_limit s -
          (se_unsettledAtStart s + ceil_div (se_bytes s) (p_unitBytes (w_params w)) * es_pricePerUnit (w_escrow w)))"

definition max_bytes :: "world \<Rightarrow> session \<Rightarrow> int" where
  \<comment> \<open>the bytes the credit allows, in whole units; the price is at least 1 on a deployed network\<close>
  "max_bytes w s =
     max 0 ((se_limit s - se_unsettledAtStart s) div es_pricePerUnit (w_escrow w) * p_unitBytes (w_params w))"

definition next_bytes :: "world \<Rightarrow> session \<Rightarrow> int \<Rightarrow> int" where
  "next_bytes w s chunk = min (min (se_bytes s + chunk) (se_targetBytes s)) (max_bytes w s)"

partial_function (option) bound_loop :: "int \<Rightarrow> int \<Rightarrow> int \<Rightarrow> int list option" where
  \<comment> \<open>\<open>for (b = start; b <= next; b += step)\<close>, which ends when \<open>step\<close> is positive\<close>
  "bound_loop b step next =
     (if b \<le> next then Option.bind (bound_loop (b + step) step next) (\<lambda>bs. Some (b # bs)) else Some [])"

definition receipt_bounds :: "session \<Rightarrow> int \<Rightarrow> int \<Rightarrow> bool \<Rightarrow> int list option" where
  "receipt_bounds s step next finished =
     map_option (\<lambda>bs. if finished \<and> (if bs = [] then se_lastReceiptBytes s else last bs) < next then bs @ [next] else bs)
       (bound_loop (se_lastReceiptBytes s + step) step next)"

definition mb_text :: "int \<Rightarrow> string" where
  "mb_text b = to_fixed 2 (of_int b / 1000000)"

definition with_session :: "(session \<Rightarrow> session) \<Rightarrow> world \<Rightarrow> world" where
  "with_session f w = w\<lparr>w_session := map_option f (w_session w)\<rparr>"

definition receipts_of :: "world \<Rightarrow> nat" where
  "receipts_of w = (case w_session w of None \<Rightarrow> 0 | Some s \<Rightarrow> se_receipts s)"

definition sign_receipt :: "host \<Rightarrow> session \<Rightarrow> int \<Rightarrow> world \<Rightarrow> outcome" where
  "sign_receipt H s0 b w =
     (let units = sessionUnits s0 b (p_unitBytes (w_params w))
      in signTicket H w (se_client s0) (se_nodeAdmin s0) units (Some (se_flow s0))
           (Some (''Receipt '' @ nat_str (receipts_of w + 1) @ '': '' @ mb_text b @ '' MB, '' @ int_str units @ '' units cumulative''))
           None)"

fun sign_loop :: "host \<Rightarrow> session \<Rightarrow> int list \<Rightarrow> world \<Rightarrow> entry list \<Rightarrow> (world \<times> entry list) \<times> bool" where
  \<comment> \<open>the loop over the receipt boundaries; the flag is false when the wallet could not sign\<close>
  "sign_loop H s0 [] w es = ((w, es), True)"
| "sign_loop H s0 (b # bs) w es =
     (let r = sign_receipt H s0 b w;
          es1 = (case o_entry r of None \<Rightarrow> es | Some e \<Rightarrow> es @ [e])
      in if \<not> o_ok r
         then ((with_session (\<lambda>s. s\<lparr>se_throttled := Some ''client wallet cannot sign: the node stops within one receipt interval'',
                                   se_done := True\<rparr>) (o_world r), es1), False)
         else sign_loop H s0 bs
                (with_session (\<lambda>s. s\<lparr>se_lastReceiptBytes := b, se_receipts := se_receipts s + 1\<rparr>) (o_world r)) es1)"

definition serve :: "host \<Rightarrow> world \<Rightarrow> int \<Rightarrow> (world \<times> entry list) option" where
  "serve H world chunk =
     (case w_session world of
        None \<Rightarrow> Some (world, [])
      | Some s0 \<Rightarrow>
          if se_done s0 then Some (world, [])
          else
            let next = next_bytes world s0 chunk;
                wanted = min (se_bytes s0 + chunk) (se_targetBytes s0);
                throttled = next < wanted;
                w1 = (with_session (\<lambda>s. s\<lparr>se_bytes := next\<rparr>) world)
                       \<lparr>w_t := w_t world + max 1 (js_round (of_int (next - se_bytes s0) / 250000))\<rparr>;
                finished = (next \<ge> se_targetBytes s0 \<or> throttled)
            in map_option (\<lambda>bounds.
                 case sign_loop H s0 bounds w1 [] of
                   ((w2, es), False) \<Rightarrow> (w2, es)
                 | ((w2, es), True) \<Rightarrow>
                     if throttled
                     then (with_session (\<lambda>s. s\<lparr>se_throttled := Some (''credit limit reached at '' @ mb_text next @ '' MB: ''
                             @ se_limitReason s), se_done := True\<rparr>) w2, es)
                     else if next \<ge> se_targetBytes s0 then (with_session (\<lambda>s. s\<lparr>se_done := True\<rparr>) w2, es)
                     else (w2, es))
               (receipt_bounds s0 (p_receiptBytes (w_params world)) next finished))"

definition closeSession :: "world \<Rightarrow> world" where
  "closeSession w = w\<lparr>w_session := None\<rparr>"

section \<open>Economics\<close>

record economy =
  ec_units :: int
  ec_gross :: int
  ec_fee :: int
  ec_net :: int
  ec_receipts :: int
  ec_receiptOverheadBytes :: int
  ec_oneTicketGas :: int
  ec_oneTicketKes :: rat
  ec_breakEvenMb :: "rat option"
  ec_quote :: quote

definition economics :: "host \<Rightarrow> world \<Rightarrow> rat \<Rightarrow> economy" where
  \<comment> \<open>\<open>breakEvenMb\<close> is \<^term>\<open>None\<close> where JavaScript answers \<open>Infinity\<close> or \<open>NaN\<close>\<close>
  "economics H w megabytes =
     (let p = w_params w;
          price = es_pricePerUnit (w_escrow w);
          feeBps = tr_feeBps (w_treasury w);
          units = \<lceil>megabytes * 1000000 / of_int (p_unitBytes p)\<rceil>;
          gross = units * price;
          fee = gross * feeBps div 10000;
          oneTicketGas = 131391;
          oneTicketKes = gasToKes oneTicketGas p;
          breakEvenFeeUkes = 2 * oneTicketKes * of_int UKES;
          receipts = \<lceil>megabytes * 1000000 / of_int (p_receiptBytes p)\<rceil>
      in \<lparr>ec_units = units, ec_gross = gross, ec_fee = fee, ec_net = gross - fee, ec_receipts = receipts,
          ec_receiptOverheadBytes = receipts * 108, ec_oneTicketGas = oneTicketGas, ec_oneTicketKes = oneTicketKes,
          ec_breakEvenMb = (if feeBps = 0 \<or> price = 0 then None
            else Some (breakEvenFeeUkes / (of_int feeBps / 10000) / of_int price * of_int (p_unitBytes p) / 1000000)),
          ec_quote = batchQuote H w []\<rparr>)"

section \<open>Loops end\<close>

lemma bound_loop_returns:
  assumes "0 < step"
  shows "\<exists>bs. bound_loop b step next = Some bs"
proof (induction "nat (next + 1 - b)" arbitrary: b rule: less_induct)
  case less
  show ?case
  proof (cases "b \<le> next")
    case True
    then have "nat (next + 1 - (b + step)) < nat (next + 1 - b)" using assms by simp
    then obtain bs where "bound_loop (b + step) step next = Some bs" using less by blast
    then show ?thesis using True by (simp add: bound_loop.simps [of b])
  qed (simp add: bound_loop.simps [of b])
qed

lemma bound_loop_mem:
  assumes "0 < step" and "bound_loop b step next = Some bs" and "x \<in> set bs"
  shows "b \<le> x \<and> x \<le> next"
  using assms(2,3)
proof (induction "nat (next + 1 - b)" arbitrary: b bs rule: less_induct)
  case less
  show ?case
  proof (cases "b \<le> next")
    case True
    then obtain cs where cs: "bound_loop (b + step) step next = Some cs" and bs: "bs = b # cs"
      using less.prems(1) by (auto simp: bound_loop.simps [of b] split: bind_splits)
    have "nat (next + 1 - (b + step)) < nat (next + 1 - b)" using True assms(1) by simp
    from less.hyps [OF this cs] less.prems(2) True assms(1) show ?thesis by (auto simp: bs)
  qed (use less.prems in \<open>simp add: bound_loop.simps [of b]\<close>)
qed

lemma receipt_bounds_returns: "0 < step \<Longrightarrow> receipt_bounds s step next finished \<noteq> None"
  using bound_loop_returns [of step "se_lastReceiptBytes s + step" "next"] by (auto simp: receipt_bounds_def)

lemma serve_total: "0 < p_receiptBytes (w_params w) \<Longrightarrow> serve H w chunk \<noteq> None"
  by (simp add: serve_def Let_def receipt_bounds_returns del: not_None_eq split: option.split)

lemma run_loop_inv:
  assumes "run_loop w prev es steps = Some r" and "inv w"
    and "\<And>s x p. s \<in> set steps \<Longrightarrow> inv x \<Longrightarrow> inv (o_world (s x p))"
  shows "inv (fr_world r)"
  using assms
proof (induction steps arbitrary: w prev es)
  case (Cons s steps)
  have i: "inv (o_world (s w prev))" using Cons.prems(2,3) by simp
  show ?case
    using Cons.prems(1) i Cons.IH [of "o_world (s w prev)"] Cons.prems(3)
    by (auto simp: Let_def split: option.splits if_splits)
qed auto

lemma runSteps_inv:
  "runSteps w steps = Some r \<Longrightarrow> inv w \<Longrightarrow> (\<And>s x p. s \<in> set steps \<Longrightarrow> inv x \<Longrightarrow> inv (o_world (s x p))) \<Longrightarrow>
   inv (fr_world r)"
  unfolding runSteps_def by (rule run_loop_inv)

end
