(* ===== verification/Samples.thy ===== *)
theory Samples
  imports Authority Flows
begin

text \<open>
  Concrete data for the witnesses: a host whose hash and signature functions are small concrete
  functions (so that hypotheses about them can be discharged), and sample worlds.  No property
  rests on them.
\<close>

definition last32 :: "bytes \<Rightarrow> bytes" where
  "last32 bs = drop (length bs) (replicate 32 0 @ bs)"

definition sample_hash :: "bytes \<Rightarrow> bytes" where
  \<comment> \<open>the last five bytes of each word of a 192-byte struct, the last 31 bytes of anything else and its first\<close>
  "sample_hash bs =
     (if length bs = 192 then [0, 0] @ concat (map (\<lambda>i. slice (32 * i + 27) (32 * i + 32) bs) [0..<6]) else last32 (bs @ take 1 bs))"

definition sample_host :: host where
  "sample_host =
     \<lparr>h_keccak = sample_hash, h_pub = (\<lambda>s. 4 # last32 s),
      h_sign = (\<lambda>d s. 0 # last32 d @ last32 s),
      h_recover = (\<lambda>sig d. if slice 1 33 sig = last32 d then Some (2 # slice 33 65 sig) else None),
      h_uncompress = (\<lambda>p. Some (4 # drop 1 p)),
      h_edpub = last32, h_edsign = (\<lambda>m s. last32 m @ last32 s),
      h_edverify = (\<lambda>sig m p. Some (sig = last32 m @ p)), h_num = (\<lambda>_. ''0'')\<rparr>"

lemma length_last32 [simp]: "length (last32 bs) = 32"
  by (simp add: last32_def)

lemma last32_32 [simp]: "length bs = 32 \<Longrightarrow> last32 bs = bs"
  by (simp add: last32_def)

lemma length_sample_hash: "length (sample_hash bs) = 32"
  by (simp add: sample_hash_def length_concat comp_def slice_def upt_rec)

lemma sample_ecdsa_ok: "ecdsa_ok sample_host"
  by (auto simp: ecdsa_ok_def sample_host_def slice_def)

section \<open>A sample network\<close>

definition sample_world :: world where
  \<comment> \<open>100 KES in circulation, half in Amina's wallet, half in her meter\<close>
  "sample_world = (createWorld DEFAULT_PARAMS)
     \<lparr>w_deployed := True,
      w_token := \<lparr>tk_owner = Some Owner, tk_pendingOwner = None, tk_supply = 100000000,
        tk_bal = (\<lambda>_. 0)(Wallet Amina := 50000000, EscrowAcc := 50000000), tk_allow = (\<lambda>_ _. None), tk_nonces = zeroes,
        tk_bridges = [Kiosk \<mapsto> \<lparr>br_allowed = True, br_cap = 50000000000, br_minted = 100000000, br_windowStart = START_TIME\<rparr>]\<rparr>,
      w_escrow := \<lparr>es_owner = Some Owner, es_pendingOwner = None, es_deposits = zeroes(Amina := 50000000),
        es_earnings = zeroes, es_channels = [], es_authNonces = zeroes, es_pricePerUnit = 500, es_lastPriceChange = START_TIME\<rparr>,
      w_treasury := \<lparr>tr_owner = Some Owner, tr_pendingOwner = None, tr_feeBps = 500, tr_beneficiary = Some Founder,
        tr_pending = None, tr_activation = 0\<rparr>,
      w_fiat := \<lparr>fi_mpesa = zeroes(Amina := kes 1900, Baraka := kes 500), fi_float = 100000000\<rparr>\<rparr>"

lemma kes_of_int [simp]: "kes (of_int n) = n * UKES"
  unfolding kes_def by (metis js_round_of_int of_int_mult)

lemma kes_numeral [simp]: "kes (numeral n) = numeral n * UKES"
  using kes_of_int [of "numeral n"] by simp

lemma sample_inv: "inv sample_world"
  by (simp add: inv_def unowned_def conserved_def solvent_def nonneg_def held_total_def deposits_total_def earnings_total_def
      sum_over_def HOLDERS_def ACTORS_def sample_world_def zeroes_def UKES_def DEFAULT_PARAMS_def createWorld_def)

lemma sample_reads [simp]:
  "w_params sample_world = DEFAULT_PARAMS" "w_t sample_world = START_TIME" "w_devices sample_world = [Amina \<mapsto> True, Baraka \<mapsto> True]"
  "deposit_of sample_world Amina = 50000000" "es_pricePerUnit (w_escrow sample_world) = 500"
  "w_eth sample_world = w_eth (createWorld DEFAULT_PARAMS)" "settled_units sample_world i = 0" "last_seq sample_world i = 0"
  "w_tickets sample_world = []" "tk_bal (w_token sample_world) (Wallet Amina) = 50000000"
  by (simp_all add: sample_world_def createWorld_def deposit_of_def settled_units_def last_seq_def)

lemma sample_params [simp]:
  "p_feeBps DEFAULT_PARAMS = 500" "p_epochSeconds DEFAULT_PARAMS = 86400" "p_gasPriceGwei DEFAULT_PARAMS = 6 / 1000"
  "p_l1FeePct DEFAULT_PARAMS = 0" "p_pricePerUnit DEFAULT_PARAMS = 500"
  by (simp_all add: DEFAULT_PARAMS_def)

lemma sample_eth [simp]:
  "w_eth (createWorld DEFAULT_PARAMS) Owner = 10000000" "w_eth (createWorld DEFAULT_PARAMS) Kiosk = 10000000"
  "w_eth (createWorld DEFAULT_PARAMS) Relayer = 10000000" "w_eth (createWorld DEFAULT_PARAMS) Mallory = 5000000"
  by (simp_all add: createWorld_def)

lemma sample_device [simp]: "device_ok sample_world Amina" "device_ok sample_world Baraka"
  by (simp_all add: device_ok_def)

lemma sample_keccak: "length (h_keccak sample_host x) = 32"
  by (simp add: sample_host_def length_sample_hash)

end
