(* ===== verification/Calldata.thy ===== *)
theory Calldata
  imports Engine
begin

text \<open>
  The calldata of every call of \<open>web/src/demo/engine.js\<close> can be encoded: the argument list of each
  \<open>ABI\<close> entry fits its signature, so sealing a block does not throw, the one exception being a
  signature too short to split into \<open>v, r, s\<close> and a missing destination.
\<close>

section \<open>An argument list that fits its types is encoded\<close>

definition arg_ok :: "string \<Rightarrow> abi_val \<Rightarrow> bool" where
  "arg_ok t v \<longleftrightarrow>
     (if isDynamic t then encodeDynamic t v \<noteq> None
      else encodeStatic t v \<noteq> None \<and> encodeStatic t (zeroOf t) \<noteq> None)"

lemma encode_loop_total:
  "(\<And>j. j < length ts \<Longrightarrow> arg_ok (ts ! j) (abi_nth v (i + j))) \<Longrightarrow> encode_loop ts v i hs heads tails \<noteq> None"
proof (induction ts arbitrary: i hs heads tails)
  case (Cons t ts)
  have t: "arg_ok t (abi_nth v i)" using Cons.prems [of 0] by simp
  have rest: "arg_ok (ts ! j) (abi_nth v (Suc i + j))" if "j < length ts" for j
    using Cons.prems [of "Suc j"] that by simp
  show ?case
    using t Cons.IH [of "Suc i", OF rest] by (auto simp: arg_ok_def split: if_splits)
qed simp

lemma all_some_total: "(\<And>x. x \<in> set xs \<Longrightarrow> x \<noteq> None) \<Longrightarrow> all_some xs \<noteq> None"
  by (induction xs rule: all_some.induct) auto

lemma head_sizes_total: "(\<And>t. t \<in> set ts \<Longrightarrow> \<exists>v. arg_ok t v) \<Longrightarrow> head_sizes ts \<noteq> None"
  unfolding head_sizes_def
  using all_some_total [of "map head_size ts"] by (fastforce simp: head_size_def arg_ok_def split: if_splits)

lemma encodeArgs_total:
  assumes "list_all2 arg_ok ts vs"
  shows "encodeArgs ts (AList vs) \<noteq> None"
proof -
  have "head_sizes ts \<noteq> None"
    by (rule head_sizes_total) (use assms in \<open>auto simp: in_set_conv_nth list_all2_conv_all_nth\<close>)
  then obtain hs where hs: "head_sizes ts = Some hs" by auto
  have "encode_loop ts (AList vs) 0 hs [] [] \<noteq> None"
    by (rule encode_loop_total) (use assms in \<open>auto simp: list_all2_conv_all_nth abi_nth_def\<close>)
  then show ?thesis by (simp add: encodeArgs.simps hs)
qed

section \<open>The types the contracts use\<close>

lemma dyn_types [simp]:
  "\<not> isDynamic ''address''" "\<not> isDynamic ''bool''" "\<not> isDynamic ''uint8''" "\<not> isDynamic ''uint16''"
  "\<not> isDynamic ''uint128''" "\<not> isDynamic ''uint256''" "\<not> isDynamic ''bytes32''" "isDynamic ''bytes''"
  "\<not> isDynamic ''uint64''" "isDynamic ''bytes[]''"
  by (simp_all add: isDynamic.simps ends_with_def starts_with_def)

lemma arg_address [simp]: "arg_ok ''address'' (AStr s)"
  by (simp add: arg_ok_def encodeStatic.simps zeroOf.simps starts_with_def)

lemma arg_bool [simp]: "arg_ok ''bool'' v"
  by (simp add: arg_ok_def encodeStatic.simps)

lemma arg_uint [simp]:
  "arg_ok ''uint8'' (ANum n)" "arg_ok ''uint16'' (ANum n)" "arg_ok ''uint128'' (ANum n)" "arg_ok ''uint256'' (ANum n)"
  "arg_ok ''uint64'' (ANum n)"
  by (simp_all add: arg_ok_def encodeStatic.simps zeroOf.simps starts_with_def)

lemma arg_bytes32 [simp]: "length (hexToBytes s) \<le> 32 \<Longrightarrow> arg_ok ''bytes32'' (AStr s)"
  by (simp add: arg_ok_def encodeStatic.simps zeroOf.simps starts_with_def Let_def length_concat)
     (auto simp: hexToBytes_def starts_with_def numeral_eq_Suc)

lemma arg_bytes [simp]: "arg_ok ''bytes'' (AStr s)"
  by (simp add: arg_ok_def encodeDynamic.simps Let_def)

lemma list_all2_replicate: "(\<And>v. v \<in> set vs \<Longrightarrow> arg_ok t v) \<Longrightarrow> list_all2 arg_ok (replicate (length vs) t) vs"
  by (auto simp: list_all2_conv_all_nth)

lemma arg_array:
  assumes "isDynamic ty" and "ends_with ''[]'' ty" and "ty \<noteq> ''bytes''"
    and "\<And>v. v \<in> set vs \<Longrightarrow> arg_ok (take (length ty - 2) ty) v"
  shows "arg_ok ty (AList vs)"
  using assms encodeArgs_total [OF list_all2_replicate [OF assms(4)]]
  by (simp add: arg_ok_def encodeDynamic.simps)

definition TICKET_TUPLE :: string where
  "TICKET_TUPLE = ''(address,address,uint64,uint128,uint256)''"

lemma ticket_tuple_types: "splitTuple TICKET_TUPLE = [''address'', ''address'', ''uint64'', ''uint128'', ''uint256'']"
  by code_simp

lemma arg_ticket [simp]: "arg_ok TICKET_TUPLE (ticket_val H t)"
proof -
  have nd: "\<not> isDynamic TICKET_TUPLE"
    by (subst isDynamic.simps) (simp add: ticket_tuple_types, simp add: TICKET_TUPLE_def ends_with_def)
  have paren: "starts_with ''('' TICKET_TUPLE" "TICKET_TUPLE \<noteq> ''address''" "TICKET_TUPLE \<noteq> ''bool''"
    "\<not> starts_with ''uint'' TICKET_TUPLE" "TICKET_TUPLE \<noteq> ''bytes32''"
    by (simp_all add: TICKET_TUPLE_def starts_with_def)
  have atoms: "encodeStatic ''address'' (AStr a) = Some (addressWord a)" "encodeStatic ''uint64'' (ANum n) = Some (uintWord n)"
    "encodeStatic ''uint128'' (ANum n) = Some (uintWord n)" "encodeStatic ''uint256'' (ANum n) = Some (uintWord n)"
    "zeroOf ''address'' = AStr ''0x0000000000000000000000000000000000000000''" "zeroOf ''uint64'' = ANum 0"
    "zeroOf ''uint128'' = ANum 0" "zeroOf ''uint256'' = ANum 0" for a n
    by (simp_all add: encodeStatic.simps zeroOf.simps starts_with_def)
  have z: "zeroOf TICKET_TUPLE = AList (map zeroOf (splitTuple TICKET_TUPLE))"
    by (subst zeroOf.simps) (simp add: paren)
  have e: "encodeStatic TICKET_TUPLE v = map_option concat_bytes
      (all_some (map (\<lambda>(i, t). encodeStatic t (abi_nth v i)) (enumerate 0 (splitTuple TICKET_TUPLE))))" for v
    by (subst encodeStatic.simps) (simp add: paren)
  show ?thesis
    by (simp add: arg_ok_def nd z e ticket_tuple_types ticket_val_def abi_nth_def atoms)
qed

section \<open>The signatures\<close>

definition types_of :: "string \<Rightarrow> string list" where
  "types_of signature =
     splitTuple (drop (case index_of ''('' signature of None \<Rightarrow> length signature - 1 | Some i \<Rightarrow> i) signature)"

lemma calldata_total: "list_all2 arg_ok (types_of s) vs \<Longrightarrow> calldata H s (AList vs) \<noteq> None"
  using encodeArgs_total [of "types_of s" vs] by (simp add: calldata_def types_of_def Let_def)

lemma types_of_token:
  "types_of ''setBridge(address,bool,uint128)'' = [''address'', ''bool'', ''uint128'']"
  "types_of ''bridgeMint(address,uint256,bytes32)'' = [''address'', ''uint256'', ''bytes32'']"
  "types_of ''bridgeBurn(uint256,bytes32)'' = [''uint256'', ''bytes32'']"
  "types_of ''approve(address,uint256)'' = [''address'', ''uint256'']"
  "types_of ''transfer(address,uint256)'' = [''address'', ''uint256'']"
  "types_of ''transferFrom(address,address,uint256)'' = [''address'', ''address'', ''uint256'']"
  "types_of ''permit(address,address,uint256,uint256,uint8,bytes32,bytes32)'' =
     [''address'', ''address'', ''uint256'', ''uint256'', ''uint8'', ''bytes32'', ''bytes32'']"
  by code_simp+

lemma types_of_escrow:
  "types_of ''deposit(uint256)'' = [''uint256'']"
  "types_of ''depositWithPermit(address,uint256,uint256,uint8,bytes32,bytes32)'' =
     [''address'', ''uint256'', ''uint256'', ''uint8'', ''bytes32'', ''bytes32'']"
  "types_of ''withdrawDeposit(uint256)'' = [''uint256'']"
  "types_of ''withdrawWithSig(address,address,uint256,uint256,bytes)'' = [''address'', ''address'', ''uint256'', ''uint256'', ''bytes'']"
  "types_of ''transferDeposit(address,address,uint256,uint256,bytes)'' = [''address'', ''address'', ''uint256'', ''uint256'', ''bytes'']"
  "types_of ''settleTicketBatch((address,address,uint64,uint128,uint256)[],bytes[])'' = [TICKET_TUPLE @ ''[]'', ''bytes[]'']"
  "types_of ''claimEarnings(address,uint256)'' = [''address'', ''uint256'']"
  "types_of ''setPricePerUnit(uint256)'' = [''uint256'']"
  by code_simp+

lemma types_of_treasury:
  "types_of ''claim(address)'' = [''address'']" "types_of ''setFeeBps(uint16)'' = [''uint16'']"
  "types_of ''queueBeneficiary(address)'' = [''address'']" "types_of ''activateBeneficiary()'' = []"
  "types_of ''cancelBeneficiaryChange()'' = []" "types_of ''transferOwnership(address)'' = [''address'']"
  "types_of ''acceptOwnership()'' = []"
  by code_simp+

definition sig_splits :: "string \<Rightarrow> bool" where
  "sig_splits sig \<longleftrightarrow> 64 < length (hexToBytes sig)"

fun encodable :: "args \<Rightarrow> bool" where
  \<comment> \<open>a signature long enough to split, a destination that is there\<close>
  "encodable (APermit _ _ _ _ sig) = sig_splits sig"
| "encodable (ADepositWithPermit _ _ _ sig) = sig_splits sig"
| "encodable (AWithdrawWithSig _ dest _ _ _) = (dest \<noteq> None)"
| "encodable (ATransferDeposit _ dest _ _ _) = (dest \<noteq> None)"
| "encodable _ = True"

lemma arg_vrs: "sig_splits sig \<Longrightarrow> list_all2 arg_ok [''uint8'', ''bytes32'', ''bytes32''] (vrs sig)"
  by (simp add: vrs_def Let_def sig_splits_def slice_def)

lemma arg_ticket_list [simp]: "arg_ok (TICKET_TUPLE @ ''[]'') (AList (map (ticket_val H) ts))"
proof (rule arg_array)
  show dyn: "ends_with ''[]'' (TICKET_TUPLE @ ''[]'')" by (simp add: ends_with_def)
  show "isDynamic (TICKET_TUPLE @ ''[]'')" by (subst isDynamic.simps) (simp add: dyn)
  show "TICKET_TUPLE @ ''[]'' \<noteq> ''bytes''" by (simp add: TICKET_TUPLE_def)
qed auto

lemma arg_sig_list [simp]: "arg_ok ''bytes[]'' (AList (map (\<lambda>t. AStr (tt_signature t)) ts))"
  by (rule arg_array) (auto simp: ends_with_def)

lemma arg_refHash [simp]: "(\<And>x. length (h_keccak H x) = 32) \<Longrightarrow> arg_ok ''bytes32'' (AStr (refHash H r))"
  by (simp add: refHash_def keccakText_def)

lemma ABI_total:
  assumes "\<And>x. length (h_keccak H x) = 32" and "encodable a" and "ABI H a = Some (s, vs)"
  shows "calldata H s (AList vs) \<noteq> None"
  using assms arg_vrs
  by (intro calldata_total, cases a)
     (auto simp: ABI_def types_of_token types_of_escrow types_of_treasury dest_val_def split: option.splits)

lemma tx_input_total:
  assumes "\<And>x. length (h_keccak H x) = 32" and "encodable (sc_args sp)"
  shows "tx_input_of H sp \<noteq> None"
  using ABI_total [OF assms] by (auto simp: tx_input_of_def split: option.splits prod.splits)

end
