(* ===== verification/Guarantees.thy ===== *)
theory Guarantees
  imports Samples Calldata
begin

text \<open>
  The properties of the contracts and of the call wrapper that carries them, each on the model of the
  code, with a witness where it has hypotheses.
\<close>

section \<open>Money in every reachable world\<close>



text \<open>In every reachable world each wallet holds at most the supply, and the escrow's own token
  balance covers every single deposit and every single earning, so each can be paid out.\<close>

theorem reachable_balances_covered:
  assumes "reachable H p w" and "0 \<le> p_feeBps p" and "p_feeBps p \<le> 1000"
  shows "tk_bal (w_token w) h \<le> tk_supply (w_token w) \<and>
         deposit_of w a \<le> tk_bal (w_token w) EscrowAcc \<and> earning_of w a \<le> tk_bal (w_token w) EscrowAcc"
proof -
  have i: "inv w" using reachable_inv [OF assms(1)] assms(2,3) by blast
  then show ?thesis using nonneg_balance_le_supply [of w h] inv_covers [OF i] by (simp add: inv_def)
qed

lemma reachable_balances_covered_witness:
  "let w = exec sample_host (createWorld DEFAULT_PARAMS) (TreasuryOp Deploy) in
   tk_bal (w_token w) (Wallet Amina) \<le> tk_supply (w_token w) \<and>
   deposit_of w Amina \<le> tk_bal (w_token w) EscrowAcc \<and> earning_of w Node \<le> tk_bal (w_token w) EscrowAcc"
  using reachable_balances_covered [OF reachable.step [OF reachable.start [of sample_host DEFAULT_PARAMS]], of "TreasuryOp Deploy"]
  by (simp add: Let_def)

text \<open>C3. A call that does not commit, because its body reverts, because the payer cannot pay the gas, or because
  its calldata cannot be encoded, leaves every contract, every off-chain balance, every ticket, permit,
  voucher and device as they were.\<close>

theorem failed_call_rolls_back:
  assumes "\<not> o_ok (call H w sp body)"
  shows "core (o_world (call H w sp body)) = core w"
  using assms by (rule call_fail_core)

lemma revert_not_ok: "fst (body (start_world sp w) ctx0) = Inl e \<Longrightarrow> \<not> o_ok (call H w sp body)"
  using call_reverted [of body sp w e "snd (body (start_world sp w) ctx0)" H] by (metis prod.collapse)

lemma failed_call_rolls_back_witness:
  "core (o_world (bridgeBurn sample_host sample_world Mallory 5 ''x'' None None)) = core sample_world"
  unfolding bridgeBurn_def
  by (rule failed_call_rolls_back, rule revert_not_ok)
     (simp add: bridgeBurn_body_def Let_def sample_world_def start_world_def chain_spec_def)

text \<open>C4. No call overdraws a payer: in every reachable world every ETH account is non-negative, whatever gas
  the calls charged.\<close>

theorem reachable_eth_nonneg:
  assumes "reachable H p w"
  shows "0 \<le> w_eth w a"
proof -
  have "eth_ok (createWorld p)" by (simp add: eth_ok_def createWorld_def)
  from ethI.reachable_keeps [OF assms this] show ?thesis by (simp add: eth_ok_def)
qed

lemma reachable_eth_nonneg_witness:
  "0 \<le> w_eth (exec sample_host (createWorld DEFAULT_PARAMS) (OffOp (FundGas Amina 5))) Amina"
  by (rule reachable_eth_nonneg [OF reachable.step [OF reachable.start [of sample_host DEFAULT_PARAMS]]]) simp

text \<open>C5. The chain every reachable world carries passes the hand check: \<open>verify\<close> recomputes each
  transaction hash, each header hash and each link and finds them all right.\<close>

theorem reachable_chain_verifies:
  assumes "reachable H p w"
  shows "list_all ck_ok (verify H (w_blocks w))"
proof -
  have "chain_ok H (w_blocks (createWorld p))" by (simp add: chain_ok_def verify_def)
  from chainI.reachable_keeps [OF assms this] show ?thesis by (simp add: chain_ok_def)
qed

lemma reachable_chain_verifies_witness:
  "list_all ck_ok (verify sample_host (w_blocks (exec sample_host (createWorld DEFAULT_PARAMS) (TreasuryOp Deploy))))"
  by (rule reachable_chain_verifies [OF reachable.step [OF reachable.start [of sample_host DEFAULT_PARAMS]]]) simp

section \<open>Calls do not throw\<close>

text \<open>With a hash of 32 bytes, every call whose arguments are encodable (a signature of at least 65 bytes where
  one is split, a destination that is there) answers a ledger entry: it never throws out of the call
  wrapper, whatever the body does.\<close>

theorem call_answers_entry:
  assumes "\<And>x. length (h_keccak H x) = 32" and "encodable (sc_args sp)"
  shows "\<exists>e. o_entry (call H w sp body) = Some e"
proof -
  have "tx_input_of H sp \<noteq> None" by (rule tx_input_total [OF assms])
  then show ?thesis
    by (cases rule: call_finish_cases [of H w sp body]) (auto dest: finish_Some(8))
qed

lemma call_answers_entry_witness:
  "\<exists>e. o_entry (bridgeBurn sample_host sample_world Mallory 5 ''x'' None None) = Some e"
  unfolding bridgeBurn_def
  by (rule call_answers_entry) (simp_all add: sample_keccak chain_spec_def)

end
