(* ===== verification/SettlementGuarantees.thy ===== *)
theory SettlementGuarantees
  imports Samples Calldata
begin

text \<open>
  The properties of settlement: a fresh ticket pays what it owes, a ticket pays once, the amounts of a batch add
  up, and only a client who signed pays.
\<close>

section \<open>One ticket\<close>

lemma one_ticket_settles:
  fixes flow title
  assumes H: "\<And>x. length (h_keccak H x) = 32" and inv: "inv w"
    and t: "w_t w + 2 \<le> tt_epochExpiry t" "last_seq w (key_of H t) < tt_sequenceNumber t"
      "settled_units w (key_of H t) < tt_cumulativeUnits t"
      "recoverAddress H (ticket_digest H t) (tt_signature t) = Some (addr H (tt_client t))"
    and p: "0 < paid_of H w t"
    and gas: "gasToGwei 131391 (w_params w) \<le> w_eth w f" "0 \<le> p_gasPriceGwei (w_params w)" "0 \<le> p_l1FeePct (w_params w)"
  defines "r \<equiv> settleTicketBatch H w f [t] flow title"
  shows "o_ok r" and "o_result r = RSettled (paid_of H w t) (fee_of w (paid_of H w t)) (paid_of H w t - fee_of w (paid_of H w t))"
    and "deposit_of (o_world r) (tt_client t) = deposit_of w (tt_client t) - paid_of H w t"
    and "earning_of (o_world r) (tt_nodeAdmin t) = earning_of w (tt_nodeAdmin t) + (paid_of H w t - fee_of w (paid_of H w t))"
proof -
  let ?sp = "chain_spec ''settleTicketBatch'' (Some EscrowC) f (ASettle [t]) flow title"
  define x where "x = start_world ?sp w"
  have same: "core x = core w" "w_t x = w_t w + 2" "w_params x = w_params w" "w_eth x = w_eth w" by (simp_all add: x_def chain_spec_def)
  have reads: "last_seq x = last_seq w" "settled_units x = settled_units w" "deposit_of x = deposit_of w" "earning_of x = earning_of w"
    using core_totals [OF same(1)] by simp_all
  have paid: "paid_of H x t = paid_of H w t" "fee_of x q = fee_of w q" for q
    using same(1) reads by (simp_all add: paid_of_def owed_of_def fee_of_def core_eq_iff)
  have acc: "ticket_accepted H t x" unfolding accepted_key using t by (simp add: same reads)
  obtain a where a: "fst (settle_loop H 0 [t] (settle_start x) ctx0) = Inr a"
    and w1: "sa_world a = fst (ticket_settled H t x)" and g: "sa_gross a = paid_of H w t" "sa_fee a = fee_of w (paid_of H w t)"
    and sh: "length (sa_shape a) = 1"
    using acc p by (auto simp del: settle_loop.simps simp: settle_loop_Cons settle_one_Inr settle_start_def paid ticket_settled_def pay_ticket_eq settle_loop.simps(1))
  obtain x' c where b: "settleTicketBatch_body H f [t] x ctx0 = (Inr x', c)"
    using settle_commits [of H f "[t]" x ctx0 "settle_finish a"] a p g(1) by (metis fst_conv list.distinct(1) surj_pair)
  obtain a' where a': "fst (settle_loop H 0 [t] (settle_start x) ctx0) = Inr a'" "x' = settle_finish a'"
    "cx_result c = RSettled (sa_gross a') (sa_fee a') (sa_gross a' - sa_fee a')"
    "gi_gas (the (cx_gasOverride c)) = settleGas (sa_shape a') (tk_bal (w_token x) TreasuryAcc > 0)" "cx_gasOverride c \<noteq> None"
    by (rule settle_ctx_result [OF b]) (rule that, simp_all del: settle_loop.simps add: gas_entry_def)
  have [simp]: "a' = a" using a a'(1) by simp
  have "w_params x' = w_params w \<and> w_eth x' = w_eth w" unfolding a'(2) settle_finish_def
    by (simp add: w1 ticket_settled_def pay_ticket_eq same record_channel_def)
  then have "payable ?sp x' c"
    unfolding payable_def using a'(4,5) settleGas_bounds [of "sa_shape a" "tk_bal (w_token x) TreasuryAcc > 0"] sh gas
      gasToGwei_mono [of "settleGas (sa_shape a) (tk_bal (w_token x) TreasuryAcc > 0)" 131391 "w_params w"]
    by (auto simp: gas_of_def spec_payer_def chain_spec_def)
  moreover have "tx_input_of H ?sp \<noteq> None" by (rule tx_input_total [OF H]) (simp add: chain_spec_def)
  ultimately show ok: "o_ok r" unfolding r_def settleTicketBatch_def call_ok_iff using b x_def by blast
  obtain w' d where bd: "settleTicketBatch_body H f [t] (start_world ?sp w) ctx0 = (Inr w', d)"
    and core: "core (o_world r) = core w'" and res: "o_result r = cx_result d"
    using ok unfolding r_def settleTicketBatch_def by (rule call_commit)
  have [simp]: "w' = settle_finish a" "d = c" using bd b a'(2) by (simp_all add: x_def)
  show "o_result r = RSettled (paid_of H w t) (fee_of w (paid_of H w t)) (paid_of H w t - fee_of w (paid_of H w t))"
    using res a'(3) g by simp
  show "deposit_of (o_world r) (tt_client t) = deposit_of w (tt_client t) - paid_of H w t"
    "earning_of (o_world r) (tt_nodeAdmin t) = earning_of w (tt_nodeAdmin t) + (paid_of H w t - fee_of w (paid_of H w t))"
    using core_totals(3,4) [OF core] p by (simp_all add: w1 ticket_settled_def pay_ticket_eq paid reads)
qed

lemma settle_moves:
  assumes "inv w" and "o_ok (settleTicketBatch H w f ts flow title)"
    and "o_result (settleTicketBatch H w f ts flow title) = RSettled gross fee rest"
  shows "0 \<le> fee" and "w_token (o_world (settleTicketBatch H w f ts flow title)) = (w_token w)\<lparr>tk_bal := (tk_bal (w_token w))
    (EscrowAcc := tk_bal (w_token w) EscrowAcc - fee, TreasuryAcc := tk_bal (w_token w) TreasuryAcc + fee)\<rparr>"
proof -
  obtain x a where x: "core x = core w" and loop: "fst (settle_loop H 0 ts (settle_start x) ctx0) = Inr a"
    and c: "core (o_world (settleTicketBatch H w f ts flow title)) = core (settle_finish a)"
    and r: "o_result (settleTicketBatch H w f ts flow title) = RSettled (sa_gross a) (sa_fee a) (sa_gross a - sa_fee a)"
    using assms(2) by (rule settle_ok_loop)
  have fee: "fee = sa_fee a" "0 \<le> sa_fee a"
    using settle_loop_sums [OF loop] assms(1,3) core_totals(7) [OF x] r by (simp_all add: settling_def Let_def)
  have tok: "w_token (sa_world a) = w_token w" "w_token (o_world (settleTicketBatch H w f ts flow title)) = w_token (settle_finish a)"
    using settle_loop_frames [OF loop] x c by (simp_all add: settle_start_def core_eq_iff)
  show "0 \<le> fee" using fee by simp
  show "w_token (o_world (settleTicketBatch H w f ts flow title)) = (w_token w)\<lparr>tk_bal := (tk_bal (w_token w))
    (EscrowAcc := tk_bal (w_token w) EscrowAcc - fee, TreasuryAcc := tk_bal (w_token w) TreasuryAcc + fee)\<rparr>"
    using fee tok(1) by (auto simp: tok(2) settle_finish_def bal_upd_def moved_def fun_eq_iff intro!: token_state.equality)
qed

text \<open>C6. In a solvent world with a positive unit price and epochs of at least two seconds, a ticket that a client with a
  deposit has just signed for new units settles when anyone who can pay the gas relays it: the client pays the price of
  the new units or, when that is less, the whole deposit, the treasury's fee of it moves from the escrow to the
  treasury, the node earns the rest, and no other balance and no supply changes.\<close>

theorem signed_ticket_settles:
  assumes "\<And>x. length (h_keccak H x) = 32" and "ecdsa_ok H" and "inv w" and "t = next_ticket H w cl nd units cl"
    and "2 \<le> p_epochSeconds (w_params w)" and "settled_units w (channel_key H cl nd) < units"
    and "0 < deposit_of w cl" and "0 < es_pricePerUnit (w_escrow w)"
    and "gasToGwei 131391 (w_params w) \<le> w_eth w f" "0 \<le> p_gasPriceGwei (w_params w)" "0 \<le> p_l1FeePct (w_params w)"
  shows "let r = settleTicketBatch H w f [t] flow title;
             paid = min ((units - settled_units w (channel_key H cl nd)) * es_pricePerUnit (w_escrow w)) (deposit_of w cl);
             fee = paid * tr_feeBps (w_treasury w) div 10000
         in o_ok r \<and> o_result r = RSettled paid fee (paid - fee)
            \<and> deposit_of (o_world r) cl = deposit_of w cl - paid \<and> earning_of (o_world r) nd = earning_of w nd + (paid - fee)
            \<and> tk_bal (w_token (o_world r)) = (tk_bal (w_token w))(EscrowAcc := tk_bal (w_token w) EscrowAcc - fee,
                 TreasuryAcc := tk_bal (w_token w) TreasuryAcc + fee)
            \<and> tk_supply (w_token (o_world r)) = tk_supply (w_token w)"
proof -
  have t: "tt_client t = cl" "tt_nodeAdmin t = nd" "tt_cumulativeUnits t = units"
    "w_t w + 2 \<le> tt_epochExpiry t" "last_seq w (channel_key H cl nd) < tt_sequenceNumber t"
    "recoverAddress H (ticket_digest H t) (tt_signature t) = Some (addr H cl)"
    using assms(4,5) next_ticket_recovers [OF assms(2)] by simp_all
  have paid: "paid_of H w t = min ((units - settled_units w (channel_key H cl nd)) * es_pricePerUnit (w_escrow w)) (deposit_of w cl)"
    by (simp add: paid_of_def owed_of_def t)
  have pos: "0 < paid_of H w t" unfolding paid using assms(6-8) by (simp add: mult_pos_pos)
  note one = one_ticket_settles [OF assms(1,3) _ _ _ _ pos assms(9-11), of flow title, unfolded key_of_def t(1-3), OF t(4,5) assms(6) t(6)]
  note moves = settle_moves [OF assms(3) one(1,2)]
  show ?thesis using one moves(2) unfolding Let_def paid fee_of_def by simp
qed

theorem signed_ticket_settles_witness:
  "let r = settleTicketBatch sample_host sample_world Relayer [next_ticket sample_host sample_world Amina Node 2000 Amina] None None
   in o_result r = RSettled 1000000 50000 950000 \<and> tk_bal (w_token (o_world r)) TreasuryAcc = tk_bal (w_token sample_world) TreasuryAcc + 50000"
proof -
  have g: "gasToGwei 131391 (w_params sample_world) \<le> w_eth sample_world Relayer" "0 \<le> p_gasPriceGwei (w_params sample_world)"
    "0 \<le> p_l1FeePct (w_params sample_world)"
    by (simp_all add: gasToGwei_def)
  have f: "tr_feeBps (w_treasury sample_world) = 500" by (simp add: sample_world_def)
  show ?thesis
    using signed_ticket_settles [OF sample_keccak sample_ecdsa_ok sample_inv refl _ _ _ _ g, where cl = Amina and nd = Node and units = 2000 and flow = None and title = None]
    by (simp add: Let_def f)
qed

section \<open>Tickets pay once\<close>

text \<open>C7. Once a batch with a ticket has settled, no later batch with that ticket, or with any ticket of the same
  channel whose number is not higher, settles, whatever calls anyone makes in between.\<close>

theorem ticket_pays_once:
  assumes "o_ok (settleTicketBatch H w f ts flow title)" and "t \<in> set ts"
    and "u \<in> set us" and "key_of H u = key_of H t" and "tt_sequenceNumber u \<le> tt_sequenceNumber t"
  shows "\<not> o_ok (settleTicketBatch H (foldl (exec H) (o_world (settleTicketBatch H w f ts flow title)) ops) f' us flow' title')"
proof (rule stale_fails [OF _ assms(3)])
  let ?w = "o_world (settleTicketBatch H w f ts flow title)"
  have "tt_sequenceNumber u \<le> last_seq ?w (key_of H t)" using settle_ok_seq [OF assms(1,2)] assms(5) by simp
  also have "\<dots> \<le> last_seq (foldl (exec H) ?w ops) (key_of H t)" using run_chan [of ?w H ops] by (simp add: chan_le_def)
  finally show "tt_sequenceNumber u \<le> last_seq (foldl (exec H) ?w ops) (key_of H u)" by (simp add: assms(4))
qed

definition sample_ticket :: ticket where
  "sample_ticket = next_ticket sample_host sample_world Amina Node 2000 Amina"

lemma sample_ticket_settles: "o_ok (settleTicketBatch sample_host sample_world Relayer [sample_ticket] None None)"
proof -
  have "paid_of sample_host sample_world sample_ticket = 1000000" by (simp add: paid_of_def owed_of_def sample_ticket_def)
  then show ?thesis
    using next_ticket_recovers [OF sample_ecdsa_ok, of sample_world Amina Node 2000 Amina]
    by (intro one_ticket_settles [OF sample_keccak sample_inv])
      (simp_all add: gasToGwei_def sample_ticket_def key_of_def held_sequence_def)
qed

theorem ticket_pays_once_witness:
  "\<not> o_ok (settleTicketBatch sample_host
       (exec sample_host (o_world (settleTicketBatch sample_host sample_world Relayer [sample_ticket] None None))
         (EscrowOp (Deposit Amina 1000000))) Mallory [sample_ticket] None None)"
  using ticket_pays_once [OF sample_ticket_settles, of sample_ticket sample_ticket "[sample_ticket]" "[EscrowOp (Deposit Amina 1000000)]"]
  by simp

section \<open>The amounts of a batch\<close>

text \<open>C8. In a batch that settles, deposits fall by exactly the gross amount, earnings rise by it less the fee, the
  fee, at most a tenth of it, moves from the escrow to the treasury, no deposit rises, no earning falls, no tokens
  are made or burned, and the call answers these amounts.\<close>

theorem settlement_adds_up:
  assumes "inv w" and "o_ok (settleTicketBatch H w f ts flow title)"
  shows "\<exists>gross fee. let w' = o_world (settleTicketBatch H w f ts flow title) in
      o_result (settleTicketBatch H w f ts flow title) = RSettled gross fee (gross - fee)
      \<and> 0 < gross \<and> 0 \<le> fee \<and> 10 * fee \<le> gross
      \<and> deposits_total w' = deposits_total w - gross \<and> earnings_total w' = earnings_total w + (gross - fee)
      \<and> tk_bal (w_token w') = (tk_bal (w_token w))(EscrowAcc := tk_bal (w_token w) EscrowAcc - fee,
            TreasuryAcc := tk_bal (w_token w) TreasuryAcc + fee)
      \<and> tk_supply (w_token w') = tk_supply (w_token w)
      \<and> (\<forall>cl. deposit_of w' cl \<le> deposit_of w cl) \<and> (\<forall>nd. earning_of w nd \<le> earning_of w' nd)"
proof -
  obtain x a where x: "core x = core w" and loop: "fst (settle_loop H 0 ts (settle_start x) ctx0) = Inr a" and g: "0 < sa_gross a"
    and c: "core (o_world (settleTicketBatch H w f ts flow title)) = core (settle_finish a)"
    and r: "o_result (settleTicketBatch H w f ts flow title) = RSettled (sa_gross a) (sa_fee a) (sa_gross a - sa_fee a)"
    using assms(2) by (rule settle_ok_loop)
  have ix: "inv x" using assms(1) core_totals(7) [OF x] by simp
  have s: "settled_sums x a" and fee: "0 \<le> sa_fee a" using settle_loop_sums [OF loop ix] by (simp_all add: settling_def Let_def)
  show ?thesis
    using s g fee r core_totals [OF c] core_totals [OF x] settle_moves(2) [OF assms r]
    by (intro exI [of _ "sa_gross a"] exI [of _ "sa_fee a"]) (simp add: Let_def settled_sums_def)
qed

theorem settlement_adds_up_witness:
  "\<exists>gross fee. 0 < gross \<and> 10 * fee \<le> gross
     \<and> deposits_total (o_world (settleTicketBatch sample_host sample_world Relayer [sample_ticket] None None))
        = deposits_total sample_world - gross"
  using settlement_adds_up [OF sample_inv sample_ticket_settles] by (auto simp: Let_def)

section \<open>Who pays\<close>

text \<open>C9. A client whose deposit a batch changes has signed one of its tickets, as client, not yet expired: nobody
  can be billed without a signature, whoever relays the batch.\<close>

theorem only_signers_pay:
  assumes "deposit_of (o_world (settleTicketBatch H w f ts flow title)) cl \<noteq> deposit_of w cl"
  shows "\<exists>t\<in>set ts. signed_ticket H cl t \<and> w_t w + 2 \<le> tt_epochExpiry t"
proof -
  let ?r = "settleTicketBatch H w f ts flow title"
  have "o_ok ?r"
  proof (rule ccontr)
    assume "\<not> o_ok ?r"
    then have "core (o_world ?r) = core w" unfolding settleTicketBatch_def by (rule call_fail_core)
    with assms core_totals(3) show False by metis
  qed
  then obtain x a where x: "core x = core w" and loop: "fst (settle_loop H 0 ts (settle_start x) ctx0) = Inr a"
    and c: "core (o_world ?r) = core (settle_finish a)" and t: "w_t x = w_t w + 2"
    by (rule settle_ok_loop)
  have "deposit_of (sa_world a) cl \<noteq> deposit_of x cl"
    using assms core_totals(3) [OF c] core_totals(3) [OF x] by simp
  with settle_loop_payers [OF loop] show ?thesis by (simp add: settle_start_def t)
qed

theorem only_signers_pay_witness:
  "\<exists>t\<in>set [sample_ticket]. signed_ticket sample_host Amina t \<and> w_t sample_world + 2 \<le> tt_epochExpiry t"
proof (rule only_signers_pay)
  have "deposit_of (o_world (settleTicketBatch sample_host sample_world Relayer [sample_ticket] None None)) Amina
    = deposit_of sample_world Amina - 1000000"
  proof -
    have "paid_of sample_host sample_world sample_ticket = 1000000" "tt_client sample_ticket = Amina"
      by (simp_all add: paid_of_def owed_of_def sample_ticket_def)
    then show ?thesis
      using next_ticket_recovers [OF sample_ecdsa_ok, of sample_world Amina Node 2000 Amina]
        one_ticket_settles(3) [OF sample_keccak sample_inv, of sample_ticket Relayer None None]
      by (simp add: gasToGwei_def sample_ticket_def key_of_def held_sequence_def)
  qed
  then show "deposit_of (o_world (settleTicketBatch sample_host sample_world Relayer [sample_ticket] None None)) Amina
    \<noteq> deposit_of sample_world Amina" by simp
qed

end
