(* ===== verification/Timelocks.thy ===== *)
theory Timelocks
  imports Samples Calldata
begin

text \<open>
  The delays the contracts promise: a statement about a part of the world and the clock that waiting cannot break
  is kept by every call that keeps it on its body (the locale \<open>timed\<close>).  It is used for the beneficiary of the
  treasury, which changes a week after it was queued, and for the unit price, which changes once a day.  The
  owners of the contracts change only by the call of the new owner.

  What a bridge can mint: a listed bridge may mint its cap in each window, a window opens at the earliest a day after
  the one before it, and nobody else mints.  Along any calls but the owner's \<open>setBridge\<close>, the supply therefore grows
  by at most the cap for each day begun.
\<close>

section \<open>Statements about the clock\<close>

lemma quiet_time: "\<lbrakk>quiet body; fst (body x c) = Inr x'\<rbrakk> \<Longrightarrow> w_t x \<le> w_t x'"
  unfolding quiet_def by blast

lemma start_time: "w_t w \<le> w_t (start_world sp w)"
  by simp

lemma time_call: "\<lbrakk>t \<le> w_t w; quiet body\<rbrakk> \<Longrightarrow> t \<le> w_t (o_world (call H w sp body))"
  by (rule call_finish_cases [of H w sp body])
     (auto dest!: finish_Some(2) dest!: quiet_time simp: charge_def Let_def simp del: start_world_fields
        intro: order_trans start_time order_trans [OF order_trans [OF _ start_time]])

lemma time_call_le:
  assumes "\<And>x c x'. fst (body x c) = Inr x' \<Longrightarrow> w_t x' = w_t x"
  shows "w_t (o_world (call H w sp body)) \<le> w_t w + 2"
  by (rule call_finish_cases [of H w sp body])
     (auto dest!: finish_Some(2) assms simp: charge_def Let_def start_world_def split: if_splits)

interpretation timeI: call_invariant H "\<lambda>w. t \<le> w_t w" for H t
  by unfold_locales (rule time_call)

lemma exec_time: "wf_op op \<Longrightarrow> w_t w \<le> w_t (exec H w op)"
  using timeI.exec_keeps [of "w_t w" w op H] by simp

locale timed = core_view g for g :: "world \<Rightarrow> 'v" +
  fixes Q :: "'v \<Rightarrow> int \<Rightarrow> bool"
  assumes waiting: "Q v t \<Longrightarrow> t \<le> t' \<Longrightarrow> Q v t'"
begin

definition holds :: "world \<Rightarrow> bool" where
  "holds w \<longleftrightarrow> Q (g w) (w_t w)"

lemma holds_wait: "\<lbrakk>holds w; g w' = g w; w_t w \<le> w_t w'\<rbrakk> \<Longrightarrow> holds w'"
  using waiting by (simp add: holds_def)

lemma call_holds:
  assumes "holds w" and "quiet body" and step: "\<And>x c x'. holds x \<Longrightarrow> fst (body x c) = Inr x' \<Longrightarrow> holds x'"
  shows "holds (o_world (call H w sp body))"
proof (cases "o_ok (call H w sp body)")
  case True
  then obtain w' c where b: "body (start_world sp w) ctx0 = (Inr w', c)" "core (o_world (call H w sp body)) = core w'"
    "w_t (o_world (call H w sp body)) = w_t w'"
    by (rule call_commit)
  have "holds (start_world sp w)" by (rule holds_wait [OF assms(1)]) (auto intro: view_eq)
  with b(1) step [of "start_world sp w" ctx0 w'] have "holds w'" by simp
  then show ?thesis using b(3) view_eq [OF b(2)] by (simp add: holds_def)
next
  case False
  have "w_t w \<le> w_t (o_world (call H w sp body))" by (rule time_call) (use assms(2) in simp_all)
  then show ?thesis by (rule holds_wait [OF assms(1) view_eq [OF call_fail_core [OF False]]])
qed

lemma holds_view:
  assumes "holds w" and "quiet body" and "\<And>x c x'. fst (body x c) = Inr x' \<Longrightarrow> g x' = g x"
  shows "holds (o_world (call H w sp body))"
  by (rule call_holds [OF assms(1,2)]) (use assms(2,3) holds_wait quiet_time in blast)

lemma exec_holds: "\<lbrakk>holds w; wf_op op; g (exec H w op) = g w\<rbrakk> \<Longrightarrow> holds (exec H w op)"
  using holds_wait exec_time by blast

lemma run_holds:
  assumes "holds w" and "list_all wf_op ops"
    and "\<And>op w. op \<in> set ops \<Longrightarrow> wf_op op \<Longrightarrow> holds w \<Longrightarrow> holds (exec H w op)"
  shows "holds (foldl (exec H) w ops)"
  using assms by (induction ops arbitrary: w) auto

end

section \<open>The beneficiary\<close>

type_synonym beneficiary_view = "actor option \<times> actor option \<times> int"

definition beneficiary_view :: "world \<Rightarrow> beneficiary_view" where
  "beneficiary_view w = (tr_beneficiary (w_treasury w), tr_pending (w_treasury w), tr_activation (w_treasury w))"

definition locked_until :: "actor option \<Rightarrow> int \<Rightarrow> beneficiary_view \<Rightarrow> int \<Rightarrow> bool" where
  \<comment> \<open>from time \<open>t0\<close> on, the beneficiary \<open>b\<close> can only change a week later\<close>
  "locked_until b t0 v t \<longleftrightarrow> t0 \<le> t \<and> (t0 + 604800 \<le> t \<or>
     (case v of (ben, pending, activation) \<Rightarrow> ben = b \<and> (pending \<noteq> None \<longrightarrow> t0 + 604800 \<le> activation)))"

interpretation benT: timed beneficiary_view "locked_until b t0" for b t0
  by unfold_locales (auto simp: beneficiary_view_def locked_until_def core_eq_iff)

lemma beneficiary_other:
  "w_treasury w = w_treasury w' \<Longrightarrow> beneficiary_view w = beneficiary_view w'"
  by (simp add: beneficiary_view_def)

lemma ownership_beneficiary [simp]:
  "beneficiary_view (set_owner k a w) = beneficiary_view w" "beneficiary_view (set_pending k a w) = beneficiary_view w"
  "w_t (set_owner k a w) = w_t w" "w_t (set_pending k a w) = w_t w"
  by (cases k; simp add: beneficiary_view_def set_owner_def set_pending_def esc_upd_def tre_upd_def)+

lemma ownership_queue [simp]:
  "tr_pending (w_treasury (set_owner k a w)) = tr_pending (w_treasury w)" "tr_pending (w_treasury (set_pending k a w)) = tr_pending (w_treasury w)"
  "tr_activation (w_treasury (set_owner k a w)) = tr_activation (w_treasury w)"
  "tr_activation (w_treasury (set_pending k a w)) = tr_activation (w_treasury w)"
  using ownership_beneficiary(1) [of k a w] ownership_beneficiary(2) [of k a w] by (simp_all add: beneficiary_view_def)

lemma treasury_exec_locked:
  assumes "benT.holds b t0 w" and "op \<noteq> Deploy"
  shows "benT.holds b t0 (treasury_exec H w op)"
  by (insert assms(2), cases op; simp only: treasury_exec.simps treasury_call_defs; (rule benT.call_holds [OF assms(1)])?)
     (auto simp: quiet_treasury body_simps benT.holds_def locked_until_def beneficiary_view_def bal_upd_def
        split: option.splits)

lemma exec_locked:
  assumes "benT.holds b t0 w" and "wf_op op" and "op \<noteq> TreasuryOp Deploy"
  shows "benT.holds b t0 (exec H w op)"
proof (cases op)
  case (TokenOp o1)
  show ?thesis
    by (rule benT.exec_holds [OF assms(1,2)], rule beneficiary_other)
       (use token_exec_rules [of H w o1] in \<open>simp add: TokenOp rules_view_def\<close>)
next
  case (EscrowOp o1)
  show ?thesis
    by (rule benT.exec_holds [OF assms(1,2)], rule beneficiary_other) (simp add: EscrowOp escrow_exec_treasury)
next
  case (TreasuryOp o1)
  then show ?thesis using treasury_exec_locked [OF assms(1)] assms(3) by simp
next
  case (OffOp o1)
  show ?thesis
    by (rule benT.exec_holds [OF assms(1,2)], rule beneficiary_other)
       (use off_exec_contracts [of H w o1] in \<open>simp add: OffOp contract_view_def\<close>)
qed

section \<open>The price\<close>

definition price_view :: "world \<Rightarrow> int \<times> int" where
  "price_view w = (es_pricePerUnit (w_escrow w), es_lastPriceChange (w_escrow w))"

definition cooling :: "int \<Rightarrow> int \<Rightarrow> int \<times> int \<Rightarrow> int \<Rightarrow> bool" where
  \<comment> \<open>until a day after time \<open>t0\<close> the price is \<open>p\<close>, and it is always in its band or \<open>p\<close>\<close>
  "cooling p t0 v t \<longleftrightarrow> (case v of (price, last_change) \<Rightarrow>
     (t0 + 86400 \<le> t \<or> price = p \<and> last_change = t0) \<and> (price = p \<or> 1 \<le> price \<and> price \<le> 50000))"

interpretation priceT: timed price_view "cooling p t0" for p t0
  by unfold_locales (auto simp: price_view_def cooling_def core_eq_iff)

lemma price_upd [simp]:
  "price_view (bal_upd f w) = price_view w" "price_view (set_allow ow s v w) = price_view w"
  "price_view (set_deposit a v w) = price_view w" "price_view (set_earning a v w) = price_view w"
  "price_view (record_channel i t w) = price_view w" "price_view (nonce_used a w) = price_view w"
  "price_view (tre_upd k w) = price_view w"
  by (simp_all add: price_view_def bal_upd_def set_allow_def esc_upd_def set_deposit_def set_earning_def
      record_channel_def nonce_used_def tre_upd_def)

lemma settle_price: "fst (settleTicketBatch_body H f ts x c) = Inr x' \<Longrightarrow> price_view x' = price_view x"
proof -
  assume "fst (settleTicketBatch_body H f ts x c) = Inr x'"
  then obtain a where a: "fst (settle_loop H 0 ts (settle_start x) c) = Inr a" and x': "x' = settle_finish a"
    by (auto simp: settle_commits)
  have "price_view (sa_world a) = price_view x"
    by (rule settle_loop_rule [OF a]) (auto simp: settle_one_Inr settle_start_def ticket_settled_def pay_ticket_eq)
  then show ?thesis by (simp add: x' settle_finish_def)
qed

lemma permitted_price [simp]: "price_view (permitted H p x) = price_view x"
  using permitted_frames(2) [of H p x] by (simp add: price_view_def rules_view_def)

lemma ownership_price [simp]: "price_view (set_owner k a w) = price_view w" "price_view (set_pending k a w) = price_view w"
  by (cases k; simp add: price_view_def set_owner_def set_pending_def esc_upd_def tre_upd_def)+

lemma treasury_exec_price: "op \<noteq> Deploy \<Longrightarrow> price_view (treasury_exec H w op) = price_view w"
  by (cases op; simp add: treasury_call_defs; rule priceT.call_view) (auto simp: body_simps split: option.splits)

lemma escrow_exec_price:
  assumes "priceT.holds p t0 w"
  shows "priceT.holds p t0 (escrow_exec H w op)"
proof (cases op)
  case (SetPrice f pr)
  show ?thesis
    unfolding SetPrice escrow_exec.simps setPricePerUnit_def
    by (rule priceT.call_holds [OF assms quiet_escrow(8)])
       (auto simp: setPricePerUnit_commits priceT.holds_def price_view_def cooling_def)
qed (simp only: escrow_exec.simps escrow_call_defs, rule priceT.holds_view [OF assms], rule quiet_escrow,
     force simp: doDeposit_commits depositWithPermit_commits withdrawDeposit_commits withdrawWithSig_commits
       transferDeposit_commits claimEarnings_commits dest: settle_price)+

lemma exec_price:
  assumes "priceT.holds p t0 w" and "wf_op op" and "op \<noteq> TreasuryOp Deploy"
  shows "priceT.holds p t0 (exec H w op)"
proof (cases op)
  case (TokenOp o1)
  show ?thesis
    by (rule priceT.exec_holds [OF assms(1,2)])
       (use token_exec_rules [of H w o1] in \<open>simp add: TokenOp rules_view_def price_view_def\<close>)
next
  case (EscrowOp o1)
  then show ?thesis using escrow_exec_price [OF assms(1)] by simp
next
  case (TreasuryOp o1)
  show ?thesis
    by (rule priceT.exec_holds [OF assms(1,2)]) (use assms(3) in \<open>simp add: TreasuryOp treasury_exec_price\<close>)
next
  case (OffOp o1)
  show ?thesis
    by (rule priceT.exec_holds [OF assms(1,2)])
       (use off_exec_contracts [of H w o1] in \<open>simp add: OffOp contract_view_def price_view_def\<close>)
qed

section \<open>Owners\<close>

definition office_of :: "world \<Rightarrow> contract \<Rightarrow> actor option \<times> actor option" where
  \<comment> \<open>who owns a contract, and who may accept it\<close>
  "office_of w k = (owner_of w k, pending_of w k)"

lemma office_cases: "office_of w TokenC = (tk_owner (w_token w), tk_pendingOwner (w_token w))"
  "office_of w EscrowC = (es_owner (w_escrow w), es_pendingOwner (w_escrow w))"
  "office_of w TreasuryC = (tr_owner (w_treasury w), tr_pendingOwner (w_treasury w))"
  by (simp_all add: office_of_def owner_of_def pending_of_def)

interpretation offv: core_view "\<lambda>w. office_of w k" for k
  by unfold_locales (simp add: core_eq_iff office_of_def owner_of_def pending_of_def split: contract.split)

lemma office_upd [simp]: "office_of (bal_upd f w) k = office_of w k" "office_of (set_allow ow s v w) k = office_of w k"
  "office_of (tre_upd (\<lambda>t. t\<lparr>tr_feeBps := n\<rparr>) w) k = office_of w k"
  "office_of (tre_upd (\<lambda>t. t\<lparr>tr_pending := b, tr_activation := n\<rparr>) w) k = office_of w k"
  "office_of (tre_upd (\<lambda>t. t\<lparr>tr_beneficiary := d, tr_pending := b, tr_activation := n\<rparr>) w) k = office_of w k"
  "office_of (set_deposit a v w) k = office_of w k" "office_of (set_earning a v w) k = office_of w k"
  "office_of (record_channel i tk w) k = office_of w k" "office_of (nonce_used a w) k = office_of w k"
  "office_of (esc_upd (\<lambda>e. e\<lparr>es_pricePerUnit := p, es_lastPriceChange := n\<rparr>) w) k = office_of w k"
  by (cases k; simp add: office_cases bal_upd_def set_allow_def tre_upd_def set_deposit_def set_earning_def record_channel_def
      nonce_used_def esc_upd_def)+

lemma office_ownership:
  "office_of (set_pending j a w) k = (owner_of w k, if k = j then a else pending_of w k)"
  "office_of (set_pending j b (set_owner j a w)) k = (if k = j then (a, b) else office_of w k)"
  by (auto simp: office_of_def)

lemma token_office: "office_of (token_exec H w op) k = office_of w k"
  by (cases op; simp add: token_call_defs; rule offv.call_view; cases k; auto simp: body_simps office_cases bal_upd_def set_allow_def)

lemma settle_office: "fst (settleTicketBatch_body H f ts x c) = Inr x' \<Longrightarrow> office_of x' k = office_of x k"
proof -
  assume "fst (settleTicketBatch_body H f ts x c) = Inr x'"
  then obtain a where a: "fst (settle_loop H 0 ts (settle_start x) c) = Inr a" and x': "x' = settle_finish a"
    by (auto simp: settle_commits)
  have "office_of (sa_world a) k = office_of x k"
    by (rule settle_loop_rule [OF a]) (auto simp: settle_one_Inr settle_start_def ticket_settled_def pay_ticket_eq)
  then show ?thesis by (simp add: x' settle_finish_def)
qed

lemma permitted_office [simp]: "office_of (permitted H p x) k = office_of x k"
  by (cases k; auto simp: permitted_def applyPermit_commits office_cases set_allow_def split: sum.split)

lemma escrow_office: "office_of (escrow_exec H w op) k = office_of w k"
  by (cases op; simp only: escrow_exec.simps escrow_call_defs; rule offv.call_view)
     (auto simp: doDeposit_commits depositWithPermit_commits withdrawDeposit_commits withdrawWithSig_commits
        transferDeposit_commits claimEarnings_commits setPricePerUnit_commits dest: settle_office)

definition takes_over :: "world \<Rightarrow> op \<Rightarrow> contract \<Rightarrow> actor \<Rightarrow> bool" where
  \<comment> \<open>the call is the acceptance of the contract by the account that is pending\<close>
  "takes_over w op k f \<longleftrightarrow> op = TreasuryOp (AcceptOwner f k) \<and> pending_of w k = Some f"

definition names_heir :: "world \<Rightarrow> op \<Rightarrow> contract \<Rightarrow> actor \<Rightarrow> bool" where
  \<comment> \<open>the call is the nomination of the account by the owner of the contract\<close>
  "names_heir w op k f \<longleftrightarrow> (\<exists>g. op = TreasuryOp (StartOwnership g k f) \<and> owner_of w k = Some g)"

lemma treasury_office:
  assumes "op \<noteq> Deploy"
  shows "office_of (treasury_exec H w op) k = office_of w k
    \<or> (\<exists>n. names_heir w (TreasuryOp op) k n \<and> office_of (treasury_exec H w op) k = (owner_of w k, Some n))
    \<or> (\<exists>f. takes_over w (TreasuryOp op) k f \<and> office_of (treasury_exec H w op) k = (Some f, None))"
proof (cases "office_of (treasury_exec H w op) k = office_of w k")
  case False
  have same: "owner_of (start_world sp w) j = owner_of w j" "pending_of (start_world sp w) j = pending_of w j" for sp j
    using offv.view_eq [OF start_world_fields(1)] by (simp_all add: office_of_def)
  consider (start) g j n where "op = StartOwnership g j n" | (accept) f j where "op = AcceptOwner f j"
  proof (rule ccontr)
    assume other: "\<not> thesis"
    have "office_of (treasury_exec H w op) k = office_of w k"
      by (cases op; (use assms other that in blast | simp add: treasury_call_defs))
         (rule offv.call_view; auto simp: body_simps split: option.splits)+
    with False show False by contradiction
  qed
  then show ?thesis
  proof cases
    case start
    have "\<exists>x' c sp. transferOwnership_body H g j n (start_world sp w) ctx0 = (Inr x', c)
        \<and> office_of (treasury_exec H w op) k = office_of x' k"
      using False unfolding start treasury_exec.simps transferOwnership_def by (elim offv.call_view_change) blast
    then obtain x' sp where "fst (transferOwnership_body H g j n (start_world sp w) ctx0) = Inr x'"
      "office_of (treasury_exec H w op) k = office_of x' k" by (metis fst_conv)
    then show ?thesis
      using False by (auto simp: transferOwnership_commits office_ownership same names_heir_def start) (auto simp: office_of_def same)
  next
    case accept
    have "\<exists>x' c sp. acceptOwnership_body H f j (start_world sp w) ctx0 = (Inr x', c)
        \<and> office_of (treasury_exec H w op) k = office_of x' k"
      using False unfolding accept treasury_exec.simps acceptOwnership_def by (elim offv.call_view_change) blast
    then obtain x' sp where "fst (acceptOwnership_body H f j (start_world sp w) ctx0) = Inr x'"
      "office_of (treasury_exec H w op) k = office_of x' k" by (metis fst_conv)
    then show ?thesis
      using False by (auto simp: acceptOwnership_commits office_ownership same takes_over_def accept split: if_splits)
        (auto simp: office_of_def same)
  qed
qed simp

lemma exec_office:
  assumes "op \<noteq> TreasuryOp Deploy"
  shows "office_of (exec H w op) k = office_of w k
    \<or> (\<exists>n. names_heir w op k n \<and> office_of (exec H w op) k = (owner_of w k, Some n))
    \<or> (\<exists>f. takes_over w op k f \<and> office_of (exec H w op) k = (Some f, None))"
proof (cases op)
  case (TreasuryOp o1)
  then show ?thesis using treasury_office [of o1 H w k] assms by simp
next
  case (OffOp o1)
  show ?thesis using off_exec_contracts [of H w o1] by (cases k; simp add: OffOp contract_view_def office_cases)
qed (simp_all add: token_office escrow_office)

definition nominated :: "host \<Rightarrow> world \<Rightarrow> op list \<Rightarrow> contract \<Rightarrow> actor \<Rightarrow> bool" where
  \<comment> \<open>the account was already pending, or one of the calls is its nomination by the owner at that moment\<close>
  "nominated H w ops k f \<longleftrightarrow> pending_of w k = Some f
     \<or> (\<exists>ops1 op ops2. ops = ops1 @ op # ops2 \<and> names_heir (foldl (exec H) w ops1) op k f)"

lemma nominated_later: "nominated H w ops k f \<Longrightarrow> nominated H w (ops @ ops') k f"
  unfolding nominated_def by (metis append.assoc append_Cons)

lemma run_pending:
  assumes "TreasuryOp Deploy \<notin> set ops" and "pending_of (foldl (exec H) w ops) k = Some f"
  shows "nominated H w ops k f"
  using assms
proof (induction ops rule: rev_induct)
  case Nil
  then show ?case by (simp add: nominated_def)
next
  case (snoc op ops)
  let ?w = "foldl (exec H) w ops"
  have ops: "TreasuryOp Deploy \<notin> set ops" "op \<noteq> TreasuryOp Deploy" using snoc.prems(1) by auto
  have "pending_of ?w k = Some f \<or> names_heir ?w op k f"
    using exec_office [OF ops(2), of H ?w k] snoc.prems(2) by (auto simp: office_of_def)
  then show ?case
  proof
    assume "pending_of ?w k = Some f"
    then show ?thesis by (rule nominated_later [OF snoc.IH [OF ops(1)]])
  next
    assume "names_heir ?w op k f"
    then show ?thesis unfolding nominated_def by blast
  qed
qed

lemma run_owner:
  assumes "TreasuryOp Deploy \<notin> set ops" and "owner_of (foldl (exec H) w ops) k \<noteq> owner_of w k"
  shows "\<exists>ops1 f ops2. ops = ops1 @ TreasuryOp (AcceptOwner f k) # ops2 \<and> owner_of (foldl (exec H) w ops) k = Some f
    \<and> nominated H w ops1 k f"
  using assms
proof (induction ops rule: rev_induct)
  case (snoc op ops)
  let ?w = "foldl (exec H) w ops"
  have ops: "TreasuryOp Deploy \<notin> set ops" "op \<noteq> TreasuryOp Deploy" using snoc.prems(1) by auto
  show ?case
  proof (cases "owner_of (exec H ?w op) k = owner_of ?w k")
    case True
    then obtain ops1 f ops2 where "ops = ops1 @ TreasuryOp (AcceptOwner f k) # ops2" "owner_of ?w k = Some f" "nominated H w ops1 k f"
      using snoc.IH [OF ops(1)] snoc.prems(2) by auto
    then show ?thesis using True by (intro exI [of _ ops1] exI [of _ f] exI [of _ "ops2 @ [op]"]) simp
  next
    case False
    then obtain f where "takes_over ?w op k f" "owner_of (exec H ?w op) k = Some f"
      using exec_office [OF ops(2), of H ?w k] by (auto simp: office_of_def)
    then show ?thesis
      using run_pending [OF ops(1)] by (intro exI [of _ ops] exI [of _ f] exI [of _ "[]"]) (simp add: takes_over_def)
  qed
qed simp

section \<open>The mint window\<close>

type_synonym mint_books = "int \<times> (actor \<Rightarrow> bridge option)"

definition mint_books :: "world \<Rightarrow> mint_books" where
  "mint_books w = (tk_supply (w_token w), tk_bridges (w_token w))"

definition only_bridge :: "(actor \<Rightarrow> bridge option) \<Rightarrow> actor \<Rightarrow> bool" where
  "only_bridge br b \<longleftrightarrow> (\<forall>a i. br a = Some i \<and> br_allowed i \<longrightarrow> a = b)"

definition minted_within :: "actor \<Rightarrow> int \<Rightarrow> int \<Rightarrow> int \<Rightarrow> int \<Rightarrow> mint_books \<Rightarrow> int \<Rightarrow> bool" where
  \<comment> \<open>at time \<open>t0\<close> the supply was \<open>s\<close> and \<open>m\<close> of the cap was used: since then the window of that time is still open and
     only the rest of its cap was minted, or windows have opened since \<open>t0\<close>, no two within a day\<close>
  "minted_within b cap s m t0 v t \<longleftrightarrow> only_bridge (snd v) b \<and> t0 \<le> t \<and>
     (\<exists>j. snd v b = Some j \<and> br_cap j = cap \<and> br_minted j \<le> cap \<and> br_windowStart j \<le> t \<and>
          (fst v \<le> s + br_minted j - m \<or>
           t0 \<le> br_windowStart j \<and> fst v \<le> s + (cap - m) + cap * ((br_windowStart j - t0) div 86400) + br_minted j))"

interpretation mintT: timed mint_books "minted_within b cap s m t0" for b cap s m t0
  by unfold_locales (auto simp: mint_books_def minted_within_def core_eq_iff)

lemma mint_books_view: "mint_view w = mint_view w' \<Longrightarrow> mint_books w = mint_books w'"
  by (simp add: mint_view_def mint_books_def)

lemma ownership_mint [simp]: "mint_books (set_owner k a w) = mint_books w" "mint_books (set_pending k a w) = mint_books w"
  by (cases k; simp add: mint_books_def set_owner_def set_pending_def esc_upd_def tre_upd_def)+

lemma other_mint [simp]:
  "mint_books (bal_upd f w) = mint_books w" "mint_books (set_allow ow s v w) = mint_books w" "mint_books (tre_upd k w) = mint_books w"
  "mint_books (esc_upd h w) = mint_books w"
  by (simp_all add: mint_books_def bal_upd_def set_allow_def tre_upd_def esc_upd_def)

lemma next_window:
  fixes cap :: int
  assumes "0 \<le> cap" and "s + 86400 \<le> t"
  shows "cap * ((s - t0) div 86400) + cap \<le> cap * ((t - t0) div 86400)"
proof -
  have "(s - t0) div 86400 + 1 \<le> (t - t0) div 86400" using assms(2) by simp
  then have "cap * ((s - t0) div 86400 + 1) \<le> cap * ((t - t0) div 86400)" using assms(1) by (rule mult_left_mono)
  then show ?thesis by (simp add: algebra_simps)
qed

lemma mint_within:
  assumes "mintT.holds b cap s m t0 x" and "0 \<le> cap" and "0 \<le> v" and "fst (bridgeMint_body H f to v r x c) = Inr x'"
  shows "mintT.holds b cap s m t0 x'"
proof -
  obtain info where i: "listed_bridge x f info" "br_minted (open_window (w_t x) info) + v \<le> br_cap info"
    "x' = x\<lparr>w_token := (w_token x)\<lparr>
       tk_bridges := (tk_bridges (w_token x))(f \<mapsto> (open_window (w_t x) info)\<lparr>br_minted := br_minted (open_window (w_t x) info) + v\<rparr>),
       tk_supply := tk_supply (w_token x) + v,
       tk_bal := (tk_bal (w_token x))(Wallet to := tk_bal (w_token x) (Wallet to) + v)\<rparr>\<rparr>"
    using assms(4) unfolding bridgeMint_commits by blast
  obtain j where j: "tk_bridges (w_token x) b = Some j" "br_cap j = cap" "br_minted j \<le> cap" "br_windowStart j \<le> w_t x"
    and bound: "tk_supply (w_token x) \<le> s + br_minted j - m \<or> t0 \<le> br_windowStart j \<and>
      tk_supply (w_token x) \<le> s + (cap - m) + cap * ((br_windowStart j - t0) div 86400) + br_minted j"
    and only: "only_bridge (tk_bridges (w_token x)) b" and t0: "t0 \<le> w_t x"
    using assms(1) by (auto simp: mintT.holds_def minted_within_def mint_books_def)
  have f: "f = b" "info = j" using i(1) only j(1) by (auto simp: listed_bridge_def only_bridge_def)
  then have only': "only_bridge ((tk_bridges (w_token x))(f \<mapsto> k)) b" for k
    using only by (auto simp: only_bridge_def)
  have first: "s + j' - m \<le> s + (cap - m) + cap * ((w_t x - t0) div 86400)" if "j' \<le> cap" for j'
  proof -
    have "0 \<le> cap * ((w_t x - t0) div 86400)" using assms(2) t0 by (simp add: pos_imp_zdiv_nonneg_iff)
    then show ?thesis using that by linarith
  qed
  then have opened: "tk_supply (w_token x) \<le> s + (cap - m) + cap * ((w_t x - t0) div 86400)"
    if "br_windowStart j + 86400 \<le> w_t x"
    using bound next_window [OF assms(2) that, of t0] j(3) first [OF j(3)] by linarith
  show ?thesis
    using i(2) j bound only' t0 opened assms(2,3)
    by (auto simp: mintT.holds_def minted_within_def mint_books_def i(3) f open_window_def split: if_splits)
qed

lemma token_exec_minted:
  assumes "mintT.holds b cap s m t0 w" and "0 \<le> cap" and "token_wf op" and "\<And>f c al k. op \<noteq> SetBridge f c al k"
  shows "mintT.holds b cap s m t0 (token_exec H w op)"
proof (cases op)
  case (SetBridge f c al k)
  with assms(4) show ?thesis by blast
next
  case (Mint f to v r)
  show ?thesis
    unfolding Mint token_exec.simps bridgeMint_def
    by (rule mintT.call_holds [OF assms(1)]) (use assms(2,3) in \<open>auto simp: quiet_token Mint intro: mint_within\<close>)
next
  case (Burn f v r)
  show ?thesis
    unfolding Burn token_exec.simps bridgeBurn_def
    by (rule mintT.call_holds [OF assms(1)])
       (use assms(3) in \<open>auto simp: quiet_token Burn body_simps mintT.holds_def minted_within_def mint_books_def\<close>)
qed (simp only: token_exec.simps token_call_defs; rule mintT.holds_view [OF assms(1)];
     auto simp: quiet_token body_simps; auto simp: mint_books_def)+

lemma create_minted:
  "mint_books (o_world (create_call H w fn ti flow create_token_body)) = mint_books w"
  "mint_books (o_world (create_call H w fn ti flow (create_treasury_body p))) = mint_books w"
  "mint_books (o_world (create_call H w fn ti flow (create_escrow_body p))) = mint_books w"
  unfolding create_call_def
  by (rule mintT.call_view; auto simp: body_simps; auto simp: mint_books_def)+

lemma treasury_exec_books: "mint_books (treasury_exec H w op) = mint_books w"
  by (cases op; simp add: treasury_call_defs deploy_def Let_def create_minted; rule mintT.call_view)
     (auto simp: body_simps split: option.splits)

lemma exec_minted:
  assumes "mintT.holds b cap s m t0 w" and "0 \<le> cap" and "wf_op op" and "\<And>f c al k. op \<noteq> TokenOp (SetBridge f c al k)"
  shows "mintT.holds b cap s m t0 (exec H w op)"
proof (cases op)
  case (TokenOp o1)
  show ?thesis using token_exec_minted [OF assms(1,2), of o1] assms(3,4) by (simp add: TokenOp)
next
  case (EscrowOp o1)
  show ?thesis
    by (rule mintT.exec_holds [OF assms(1,3)], rule mint_books_view) (simp add: EscrowOp escrow_exec_mint)
next
  case (TreasuryOp o1)
  show ?thesis by (rule mintT.exec_holds [OF assms(1,3)]) (simp add: TreasuryOp treasury_exec_books)
next
  case (OffOp o1)
  show ?thesis
    by (rule mintT.exec_holds [OF assms(1,3)], rule mint_books_view)
       (use off_exec_contracts [of H w o1] in \<open>simp add: OffOp contract_view_def mint_view_def\<close>)
qed

lemma run_minted:
  assumes "mintT.holds b cap s m t0 w" and "0 \<le> cap" and "list_all wf_op ops"
    and "\<And>f c al k. TokenOp (SetBridge f c al k) \<notin> set ops"
  shows "mintT.holds b cap s m t0 (foldl (exec H) w ops)"
  by (rule mintT.run_holds [OF assms(1,3)]) (rule exec_minted, use assms(2,4) in auto)

lemma minted_bound:
  assumes "mintT.holds b cap s m t0 w" and "0 \<le> cap"
  shows "tk_supply (w_token w) \<le> s + (cap - m) + cap * ((w_t w - t0) div 86400 + 1)"
proof -
  obtain j :: bridge where j: "br_minted j \<le> cap" "br_windowStart j \<le> w_t w" and t0: "t0 \<le> w_t w" and
    bound: "tk_supply (w_token w) \<le> s + br_minted j - m \<or>
      tk_supply (w_token w) \<le> s + (cap - m) + cap * ((br_windowStart j - t0) div 86400) + br_minted j"
    using assms(1) by (simp add: mintT.holds_def minted_within_def mint_books_def) metis
  have "cap * ((br_windowStart j - t0) div 86400) \<le> cap * ((w_t w - t0) div 86400)"
    by (rule mult_left_mono [OF _ assms(2)]) (use j(2) in \<open>simp add: zdiv_mono1\<close>)
  moreover have "0 \<le> cap * ((w_t w - t0) div 86400)" using assms(2) t0 by (simp add: pos_imp_zdiv_nonneg_iff)
  ultimately show ?thesis using j(1) bound assms(2) by (auto simp: algebra_simps)
qed

end
