(* ===== verification/EngineGuarantees.thy ===== *)
theory EngineGuarantees
  imports Timelocks
begin

text \<open>
  The properties of governance, of the calldata encoder, of the chain a reader can check by hand and of a data
  session.
\<close>

section \<open>Governance\<close>

lemma run_beneficiary:
  assumes "list_all wf_op ops" and "TreasuryOp Deploy \<notin> set ops" and "tr_pending (w_treasury w) = None"
  shows "benT.holds (tr_beneficiary (w_treasury w)) (w_t w) (foldl (exec H) w ops)"
proof (rule benT.run_holds [OF _ assms(1)])
  show "benT.holds (tr_beneficiary (w_treasury w)) (w_t w) w"
    using assms(3) by (simp add: benT.holds_def locked_until_def beneficiary_view_def)
qed (use assms(2) exec_locked in blast)

lemma run_price:
  assumes "list_all wf_op ops" and "TreasuryOp Deploy \<notin> set ops"
  shows "priceT.holds (es_pricePerUnit (w_escrow w)) (es_lastPriceChange (w_escrow w)) (foldl (exec H) w ops)"
proof (rule priceT.run_holds [OF _ assms(1)])
  show "priceT.holds (es_pricePerUnit (w_escrow w)) (es_lastPriceChange (w_escrow w)) w"
    by (simp add: priceT.holds_def cooling_def price_view_def)
qed (use assms(2) exec_price in blast)

text \<open>C16. From a world in which no change of beneficiary is queued, whatever anyone calls and however the clock is
  wound forward, the beneficiary of the treasury stays who it is until a week has passed.\<close>

theorem beneficiary_waits_a_week:
  assumes "list_all wf_op ops" and "TreasuryOp Deploy \<notin> set ops" and "tr_pending (w_treasury w) = None"
  shows "tr_beneficiary (w_treasury (foldl (exec H) w ops)) = tr_beneficiary (w_treasury w)
    \<or> w_t w + 7 * 86400 \<le> w_t (foldl (exec H) w ops)"
  using run_beneficiary [OF assms, of H] by (auto simp: benT.holds_def locked_until_def beneficiary_view_def)

theorem beneficiary_waits_a_week_witness:
  "tr_beneficiary (w_treasury (foldl (exec sample_host) sample_world
     [TreasuryOp (Queue Owner Mallory), TreasuryOp (Activate Mallory)])) = Some Founder"
proof -
  let ?ops = "[TreasuryOp (Queue Owner Mallory), TreasuryOp (Activate Mallory)]"
  have "w_t (o_world (queueBeneficiary sample_host w Owner Mallory None)) \<le> w_t w + 2" for w
    unfolding queueBeneficiary_def by (rule time_call_le) (force simp: body_simps)
  moreover have "w_t (o_world (activateBeneficiary sample_host w Mallory None)) \<le> w_t w + 2" for w
    unfolding activateBeneficiary_def by (rule time_call_le) (force simp: body_simps)
  ultimately have "w_t (foldl (exec sample_host) sample_world ?ops) \<le> (w_t sample_world + 2) + 2"
    by (metis add_right_mono exec.simps(3) foldl_Cons foldl_Nil order_trans treasury_exec.simps(3,4))
  then have "\<not> w_t sample_world + 7 * 86400 \<le> w_t (foldl (exec sample_host) sample_world ?ops)" by linarith
  then show ?thesis
    using beneficiary_waits_a_week [where ops = ?ops and w = sample_world and H = sample_host] by (simp add: sample_world_def)
qed

text \<open>Whatever anyone calls, the unit price stays what it is until a day after its last change, and it is always
  between 1 and 50,000 micro-KES or still the price it was.\<close>

theorem price_cools_down:
  assumes "list_all wf_op ops" and "TreasuryOp Deploy \<notin> set ops"
  shows "(es_pricePerUnit (w_escrow (foldl (exec H) w ops)) = es_pricePerUnit (w_escrow w)
      \<or> es_lastPriceChange (w_escrow w) + 86400 \<le> w_t (foldl (exec H) w ops)
        \<and> es_pricePerUnit (w_escrow (foldl (exec H) w ops)) \<in> {1..50000})"
  using run_price [OF assms, of w H] by (auto simp: priceT.holds_def cooling_def price_view_def)

theorem price_cools_down_witness:
  "es_pricePerUnit (w_escrow (foldl (exec sample_host) sample_world [EscrowOp (SetPrice Owner 600)])) = 500"
proof -
  have "w_t (foldl (exec sample_host) sample_world [EscrowOp (SetPrice Owner 600)]) \<le> w_t sample_world + 2"
    unfolding foldl_Cons foldl_Nil exec.simps escrow_exec.simps setPricePerUnit_def
    by (rule time_call_le) (force simp: setPricePerUnit_commits)
  moreover have "es_lastPriceChange (w_escrow sample_world) = w_t sample_world" by (simp add: sample_world_def createWorld_def)
  ultimately have "\<not> es_lastPriceChange (w_escrow sample_world) + 86400
      \<le> w_t (foldl (exec sample_host) sample_world [EscrowOp (SetPrice Owner 600)])" by linarith
  then show ?thesis
    using price_cools_down [where ops = "[EscrowOp (SetPrice Owner 600)]" and w = sample_world and H = sample_host] by simp
qed

text \<open>C17. A contract changes hands only in two steps: whatever anyone calls, the owner is the same as before, or one
  that called \<open>acceptOwnership\<close> on this contract after having been nominated: it was pending from the beginning, or who
  owned the contract at that moment called \<open>transferOwnership\<close> to it.\<close>

theorem owners_have_accepted:
  assumes "TreasuryOp Deploy \<notin> set ops"
  shows "owner_of (foldl (exec H) w ops) k = owner_of w k
    \<or> (\<exists>ops1 f ops2. ops = ops1 @ TreasuryOp (AcceptOwner f k) # ops2 \<and> owner_of (foldl (exec H) w ops) k = Some f
         \<and> nominated H w ops1 k f)"
  using run_owner [OF assms] by blast

theorem owners_have_accepted_witness:
  "owner_of (foldl (exec sample_host) sample_world
     [TreasuryOp (StartOwnership Mallory TokenC Mallory), TreasuryOp (AcceptOwner Mallory TokenC)]) TokenC = Some Owner"
proof -
  have same: "owner_of sample_world TokenC = Some Owner" "pending_of sample_world TokenC = None"
    by (simp_all add: sample_world_def owner_of_def pending_of_def)
  have "\<not> nominated sample_host sample_world [TreasuryOp (StartOwnership Mallory TokenC Mallory)] TokenC Mallory"
    by (auto simp: nominated_def names_heir_def same Cons_eq_append_conv)
  then show ?thesis
    using owners_have_accepted [of "[TreasuryOp (StartOwnership Mallory TokenC Mallory), TreasuryOp (AcceptOwner Mallory TokenC)]"
      sample_host sample_world TokenC]
    by (auto simp: same Cons_eq_append_conv)
qed

section \<open>The hand check of the chain\<close>

fun links :: "host \<Rightarrow> string \<Rightarrow> block list \<Rightarrow> bool" where
  \<comment> \<open>the check of a stretch of the chain after the block with hash \<open>p\<close>\<close>
  "links H p [] \<longleftrightarrow> True"
| "links H p (b # bs) \<longleftrightarrow> ck_ok (check_block H p b) \<and> links H (bk_hash b) bs"

definition hash_after :: "string \<Rightarrow> block list \<Rightarrow> string" where
  "hash_after p bs = (if bs = [] then p else bk_hash (last bs))"

lemma links_append: "links H p (as @ bs) \<longleftrightarrow> links H p as \<and> links H (hash_after p as) bs"
  by (induction as arbitrary: p) (auto simp: hash_after_def)

lemma chain_ok_links: "chain_ok H bs \<longleftrightarrow> links H ZERO32 bs"
proof (induction bs rule: rev_induct)
  case Nil
  then show ?case by (simp add: chain_ok_def verify_def)
next
  case (snoc b bs)
  then show ?case by (simp add: chain_ok_snoc links_append last_hash_def hash_after_def)
qed

lemma rehash_block_ok:
  "ck_ok (check_block H p (rehash_block H (Some p) b))"
  "bk_parentHash b = p \<Longrightarrow> ck_ok (check_block H p (rehash_block H None b))"
  by (auto simp: rehash_block_def check_block_def Let_def txHashOf_def blockHashOf_def headerPreimage_def)

lemma rehash_from_links: "links H p (rehash_from H p bs)"
  by (induction bs arbitrary: p) (simp_all add: Let_def rehash_block_ok)

lemma rehash_links:
  assumes "i < length bs" and "links H ZERO32 (take i bs)" and "bk_parentHash (bs ! i) = hash_after ZERO32 (take i bs)"
    and "rehash H bs i False = Some bs'"
  shows "chain_ok H bs'"
proof -
  have "bs' = take i bs @ rehash_block H None (bs ! i) # rehash_from H (bk_hash (rehash_block H None (bs ! i))) (drop (Suc i) bs)"
    using assms(1,4) by (simp add: rehash_def Let_def)
  then show ?thesis
    using assms(2,3) by (simp add: chain_ok_links links_append rehash_block_ok rehash_from_links)
qed

text \<open>C18. Tampering with the calldata of one block of a good chain is noticed at that block, unless the hash of the
  transaction collides, and at no other; recomputing the hashes from that block on makes the whole chain pass the
  check again, so the check proves consistency and not authenticity.\<close>

theorem tampering_noticed_until_rehashed:
  assumes "chain_ok H bs" and "i < length bs" and "tamper bs i a b = Some bs1"
  shows "(\<forall>j < length bs. j \<noteq> i \<longrightarrow> ck_ok (verify H bs1 ! j))
    \<and> (ck_ok (verify H bs1 ! i) \<longleftrightarrow> txHashOf H (bk_tx (bs1 ! i)) = txHashOf H (bk_tx (bs ! i)))
    \<and> (\<exists>bs2. rehash H bs1 i False = Some bs2 \<and> chain_ok H bs2)"
proof -
  define t where "t = (bs ! i)\<lparr>bk_tx := (bk_tx (bs ! i))\<lparr>tx_input := tampered_input (tx_input (bk_tx (bs ! i))) a b\<rparr>\<rparr>"
  have bs1: "bs1 = bs[i := t]" using assms(2,3) by (simp add: tamper_def Let_def t_def)
  have h: "bk_hash (bs1 ! k) = bk_hash (bs ! k)" "bk_parentHash t = bk_parentHash (bs ! i)" if "k < length bs" for k
    using that by (cases "k = i"; simp add: bs1 t_def)+
  have v: "verify H cs ! j = check_block H (if j = 0 then ZERO32 else bk_hash (cs ! (j - 1))) (cs ! j)" if "j < length cs" for j cs
    using that by (simp add: verify_def)
  have len: "length bs1 = length bs" by (simp add: bs1)
  have same: "check_block H (if j = 0 then ZERO32 else bk_hash (bs1 ! (j - 1))) c
      = check_block H (if j = 0 then ZERO32 else bk_hash (bs ! (j - 1))) c" if "j < length bs" for j c
    using h(1) [of "j - 1"] that by simp
  have ok: "ck_ok (check_block H (if j = 0 then ZERO32 else bk_hash (bs ! (j - 1))) (bs ! j))" if "j < length bs" for j
    using assms(1) v [OF that] that by (auto simp: chain_ok_def list_all_length verify_def)
  have others: "\<forall>j < length bs. j \<noteq> i \<longrightarrow> ck_ok (verify H bs1 ! j)"
  proof (intro allI impI)
    fix j assume j: "j < length bs" "j \<noteq> i"
    have "verify H bs1 ! j = check_block H (if j = 0 then ZERO32 else bk_hash (bs ! (j - 1))) (bs1 ! j)"
      using v [of j bs1] same [OF j(1)] j(1) by (simp only: len)
    then show "ck_ok (verify H bs1 ! j)" using ok [OF j(1)] j(2) by (simp add: bs1)
  qed
  have "ck_ok (verify H bs1 ! i) \<longleftrightarrow> txHashOf H (bk_tx t) = txHashOf H (bk_tx (bs ! i))"
    using ok [OF assms(2)] same [OF assms(2), of t] assms(2)
    by (auto simp: v len check_block_def Let_def bs1 t_def blockHashOf_def headerPreimage_def)
  moreover have "\<exists>bs2. rehash H bs1 i False = Some bs2 \<and> chain_ok H bs2"
  proof -
    obtain bs2 where r: "rehash H bs1 i False = Some bs2" using assms(2) by (simp add: rehash_def len Let_def)
    have split: "bs = take i bs @ bs ! i # drop (Suc i) bs" by (rule id_take_nth_drop [OF assms(2)])
    have "links H ZERO32 (take i bs @ bs ! i # drop (Suc i) bs)" using assms(1) split by (simp add: chain_ok_links)
    then have "links H ZERO32 (take i bs)" "bk_parentHash (bs ! i) = hash_after ZERO32 (take i bs)"
      by (simp_all add: links_append check_block_def Let_def)
    then have "chain_ok H bs2" by (intro rehash_links [OF _ _ _ r]) (use assms(2) in \<open>simp_all add: bs1 t_def\<close>)
    with r show ?thesis by blast
  qed
  ultimately show ?thesis using others assms(2) by (simp add: bs1)
qed

definition first_block :: block where
  "first_block = rehash_block sample_host None
     \<lparr>bk_number = 1, bk_timestamp = START_TIME, bk_parentHash = ZERO32, bk_txHash = [], bk_stateRoot = ZERO32, bk_hash = [],
      bk_headerPreimage = [], bk_stateJson = ''[]'',
      bk_tx = \<lparr>tx_hash = [], tx_from = ZERO20, tx_to = ZERO20, tx_nonce = 0, tx_input = ''0xa9059cbb05'', tx_selector = None,
        tx_signature = None, tx_status = 1, tx_gasUsed = 21000, tx_preimage = []\<rparr>,
      bk_entryId = 1\<rparr>"

theorem tampering_noticed_until_rehashed_witness:
  "\<exists>bs1 bs2. tamper [first_block] 0 5 6 = Some bs1 \<and> \<not> ck_ok (verify sample_host bs1 ! 0)
     \<and> rehash sample_host bs1 0 False = Some bs2 \<and> chain_ok sample_host bs2"
proof -
  have ok: "chain_ok sample_host [first_block]"
    by (simp add: chain_ok_links first_block_def rehash_block_ok)
  obtain bs1 where t: "tamper [first_block] 0 5 6 = Some bs1" by (simp add: tamper_def Let_def)
  have "txHashOf sample_host (bk_tx (the (tamper [first_block] 0 5 6) ! 0)) \<noteq> txHashOf sample_host (bk_tx ([first_block] ! 0))"
    by code_simp
  then have "txHashOf sample_host (bk_tx (bs1 ! 0)) \<noteq> txHashOf sample_host (bk_tx ([first_block] ! 0))" unfolding t option.sel .
  then show ?thesis using tampering_noticed_until_rehashed [OF ok _ t] t by auto
qed

section \<open>Calldata\<close>

text \<open>Where the argument list of a call holds a dynamic value, the head of the calldata holds at its place the
  offset at which its encoding lies in the data, byte for byte.\<close>

theorem dynamic_argument_at_offset:
  assumes "encodeArgs types values = Some out" and "static_sized types values"
    and "k < length types" and "isDynamic (types ! k)"
  shows "\<exists>tail pos off. encodeDynamic (types ! k) (abi_nth values k) = Some tail \<and> head_sizes (take k types) = Some pos
    \<and> take 32 (drop pos out) = uintWord (int off) \<and> take (length tail) (drop off out) = tail"
  using assms by (rule head_tail_layout)

theorem dynamic_argument_at_offset_witness:
  "\<exists>out tail off. encodeArgs [''uint256'', ''bytes''] (AList [ANum 7, AStr ''0x0102'']) = Some out
     \<and> encodeDynamic ''bytes'' (AStr ''0x0102'') = Some tail
     \<and> take 32 (drop 32 out) = uintWord (int off) \<and> take (length tail) (drop off out) = tail"
proof -
  have o: "encodeArgs [''uint256'', ''bytes''] (AList [ANum 7, AStr ''0x0102'']) \<noteq> None"
    by (rule encodeArgs_total) simp
  have z: "encodeStatic ''uint256'' v \<noteq> None \<Longrightarrow> encodeStatic ''uint256'' (ANum n) = Some (uintWord n)"
    "zeroOf ''uint256'' = ANum 0" for v n
    by (simp_all add: encodeStatic.simps zeroOf.simps starts_with_def)
  have s: "static_sized [''uint256'', ''bytes''] (AList [ANum 7, AStr ''0x0102''])"
    "head_sizes (take 1 [''uint256'', ''bytes'']) = Some 32"
    by (auto simp: static_sized_def less_Suc_eq head_sizes_def head_size_def abi_nth_def encodeStatic.simps zeroOf.simps starts_with_def)
  show ?thesis
    using dynamic_argument_at_offset [OF _ s(1), of _ 1] o s(2) by (auto simp: abi_nth_def)
qed

section \<open>Data sessions\<close>

definition credit_view :: "world \<Rightarrow> session option \<times> params \<times> int" where
  "credit_view w = (w_session w, w_params w, es_pricePerUnit (w_escrow w))"

interpretation credV: core_view credit_view
  by unfold_locales (simp add: credit_view_def core_eq_iff)

lemma sign_receipt_view: "credit_view (o_world (sign_receipt H s b w)) = credit_view w"
  unfolding sign_receipt_def signTicket_def Let_def
  by (rule credV.call_view) (auto simp: signTicket_commits credit_view_def)

definition same_credit :: "world \<Rightarrow> world \<Rightarrow> bool" where
  \<comment> \<open>the session's receipts aside\<close>
  "same_credit w w' \<longleftrightarrow> p_unitBytes (w_params w') = p_unitBytes (w_params w)
     \<and> p_receiptBytes (w_params w') = p_receiptBytes (w_params w)
     \<and> es_pricePerUnit (w_escrow w') = es_pricePerUnit (w_escrow w)
     \<and> (\<forall>s. w_session w = Some s \<longrightarrow> (\<exists>s'. w_session w' = Some s' \<and> se_bytes s' = se_bytes s \<and> se_limit s' = se_limit s
          \<and> se_unsettledAtStart s' = se_unsettledAtStart s \<and> se_targetBytes s' = se_targetBytes s))"

lemma same_credit_refl: "same_credit w w"
  by (simp add: same_credit_def)

lemma same_credit_trans: "same_credit a b \<Longrightarrow> same_credit b c \<Longrightarrow> same_credit a c"
  unfolding same_credit_def by (metis (no_types))

lemma same_credit_session:
  assumes "\<And>s. se_bytes (f s) = se_bytes s \<and> se_limit (f s) = se_limit s \<and> se_unsettledAtStart (f s) = se_unsettledAtStart s
    \<and> se_targetBytes (f s) = se_targetBytes s"
  shows "same_credit w (with_session f w)"
  using assms by (auto simp: same_credit_def with_session_def)

lemma same_credit_receipt: "same_credit w (o_world (sign_receipt H s b w))"
  using sign_receipt_view [of H s b w] by (auto simp: same_credit_def credit_view_def)

lemma sign_loop_credit: "same_credit w (fst (fst (sign_loop H s bs w es)))"
proof (induction H s bs w es rule: sign_loop.induct)
  case (2 H s b bs w es)
  have step: "same_credit w (with_session (\<lambda>s. s\<lparr>se_lastReceiptBytes := b, se_receipts := se_receipts s + 1\<rparr>)
      (o_world (sign_receipt H s b w)))"
    "same_credit w (with_session (\<lambda>s. s\<lparr>se_throttled := x, se_done := True\<rparr>) (o_world (sign_receipt H s b w)))" for x
    by (rule same_credit_trans [OF same_credit_receipt same_credit_session], simp)+
  show ?case
  proof (cases "o_ok (sign_receipt H s b w)")
    case True
    then show ?thesis using same_credit_trans [OF step(1) "2.IH" [OF refl refl]] by (simp add: Let_def)
  next
    case False
    then show ?thesis using step(2) by (simp add: Let_def)
  qed
qed (simp add: same_credit_refl)

definition session_over :: "world \<Rightarrow> bool" where
  "session_over w \<longleftrightarrow> (\<exists>s. w_session w = Some s \<and> se_done s)"

lemma sign_loop_stopped: "\<not> snd (sign_loop H s bs w es) \<Longrightarrow> w_session w \<noteq> None \<Longrightarrow> session_over (fst (fst (sign_loop H s bs w es)))"
proof (induction H s bs w es rule: sign_loop.induct)
  case (2 H s b bs w es)
  have "w_session (o_world (sign_receipt H s b w)) = w_session w"
    using sign_receipt_view [of H s b w] by (simp add: credit_view_def)
  then show ?case
    using 2 by (cases "o_ok (sign_receipt H s b w)") (auto simp: Let_def with_session_def session_over_def)
qed simp

lemma serve_ends:
  assumes "fl \<or> session_over w" and "w_session w \<noteq> None" and "\<And>s. se_done (f s)" and "\<And>s. se_done (g s)"
    and "same_credit w (with_session f w)" and "same_credit w (with_session g w)"
  shows "\<exists>w'. (if \<not> fl then (w, es) else if t then (with_session f w, es) else if n then (with_session g w, es) else (w, es))
     = (w', es) \<and> same_credit w w' \<and> (session_over w' \<or> \<not> t \<and> \<not> n)"
proof -
  have e: "session_over (with_session h w)" if "\<And>s. se_done (h s)" for h
    using assms(2) that by (auto simp: session_over_def with_session_def)
  show ?thesis
    using assms(1,5,6) e [of f, OF assms(3)] e [of g, OF assms(4)] same_credit_refl [of w] by (cases fl; cases t; cases n) auto
qed

lemma serve_result:
  assumes "w_session w = Some s" and "\<not> se_done s" and "0 < p_receiptBytes (w_params w)"
  shows "\<exists>w' es s'. serve H w chunk = Some (w', es) \<and> w_session w' = Some s' \<and> se_bytes s' = next_bytes w s chunk
    \<and> se_limit s' = se_limit s \<and> se_unsettledAtStart s' = se_unsettledAtStart s
    \<and> p_unitBytes (w_params w') = p_unitBytes (w_params w) \<and> es_pricePerUnit (w_escrow w') = es_pricePerUnit (w_escrow w)
    \<and> se_targetBytes s' = se_targetBytes s \<and> p_receiptBytes (w_params w') = p_receiptBytes (w_params w)
    \<and> (se_done s' \<or> next_bytes w s chunk = se_bytes s + chunk \<and> next_bytes w s chunk < se_targetBytes s)"
proof -
  let ?n = "next_bytes w s chunk"
  let ?w1 = "(with_session (\<lambda>s. s\<lparr>se_bytes := ?n\<rparr>) w)\<lparr>w_t := w_t w + max 1 (js_round (of_int (?n - se_bytes s) / 250000))\<rparr>"
  let ?throttled = "?n < min (se_bytes s + chunk) (se_targetBytes s)"
  obtain bounds where b: "receipt_bounds s (p_receiptBytes (w_params w)) ?n (se_targetBytes s \<le> ?n \<or> ?throttled) = Some bounds"
    using receipt_bounds_returns [OF assms(3)] by blast
  obtain w2 es2 fl where l: "sign_loop H s bounds ?w1 [] = ((w2, es2), fl)" by (metis surj_pair)
  have c: "same_credit ?w1 w2" using sign_loop_credit [of ?w1 H s bounds "[]"] unfolding l fst_conv .
  have stopped: "fl \<or> session_over w2"
    using sign_loop_stopped [of H s bounds ?w1 "[]"] assms(1) unfolding l by (auto simp: with_session_def)
  have some: "w_session w2 \<noteq> None" using c assms(1) by (auto simp: same_credit_def with_session_def)
  have "serve H w chunk = Some (
      if \<not> fl then (w2, es2)
      else if ?throttled then (with_session (\<lambda>s'. s'\<lparr>se_throttled := Some (''credit limit reached at '' @ mb_text ?n @ '' MB: '' @ se_limitReason s'), se_done := True\<rparr>) w2, es2)
      else if ?n \<ge> se_targetBytes s then (with_session (\<lambda>s. s\<lparr>se_done := True\<rparr>) w2, es2) else (w2, es2))"
    unfolding serve_def assms(1) option.case if_not_P [OF assms(2)] Let_def b option.map l prod.case by (cases fl) simp_all
  moreover have "\<exists>w'. (if \<not> fl then (w2, es2)
      else if ?throttled then (with_session (\<lambda>s'. s'\<lparr>se_throttled := Some (''credit limit reached at '' @ mb_text ?n @ '' MB: '' @ se_limitReason s'), se_done := True\<rparr>) w2, es2)
      else if ?n \<ge> se_targetBytes s then (with_session (\<lambda>s. s\<lparr>se_done := True\<rparr>) w2, es2) else (w2, es2)) = (w', es2)
      \<and> same_credit w2 w' \<and> (session_over w' \<or> \<not> ?throttled \<and> \<not> ?n \<ge> se_targetBytes s)"
    by (rule serve_ends [OF stopped some]) (simp_all add: same_credit_session)
  ultimately obtain w' es where r: "serve H w chunk = Some (w', es)" and "same_credit w2 w'"
    and d: "session_over w' \<or> \<not> ?throttled \<and> ?n < se_targetBytes s"
    by (auto simp: not_le)
  with c have "same_credit ?w1 w'" by (blast intro: same_credit_trans)
  then obtain s' where s': "w_session w' = Some s'" "se_bytes s' = ?n" "se_limit s' = se_limit s"
      "se_unsettledAtStart s' = se_unsettledAtStart s" "se_targetBytes s' = se_targetBytes s"
    and p: "p_unitBytes (w_params w') = p_unitBytes (w_params w)" "es_pricePerUnit (w_escrow w') = es_pricePerUnit (w_escrow w)"
      "p_receiptBytes (w_params w') = p_receiptBytes (w_params w)"
    using assms(1) by (auto simp: same_credit_def with_session_def)
  have "\<not> ?throttled \<and> ?n < se_targetBytes s \<Longrightarrow> ?n = se_bytes s + chunk"
    by (auto simp: next_bytes_def)
  then have "se_done s' \<or> ?n = se_bytes s + chunk \<and> ?n < se_targetBytes s"
    using d s'(1) by (auto simp: session_over_def)
  then show ?thesis using r s' p by blast
qed

lemma ceil_div_max:
  assumes "b \<le> max 0 (l div p * u)" and "0 < u" and "0 < p" and "0 \<le> l"
  shows "ceil_div b u * p \<le> l"
proof -
  have "0 \<le> l div p" using assms(3,4) by (simp add: pos_imp_zdiv_nonneg_iff)
  then have "b \<le> l div p * u" using assms(1,2) by simp
  then have "(of_int b :: rat) \<le> of_int (l div p) * of_int u" by (simp flip: of_int_mult)
  then have "(of_int b :: rat) / of_int u \<le> of_int (l div p)" using assms(2) by (simp add: pos_divide_le_eq)
  then have "ceil_div b u \<le> l div p" by (simp add: ceil_div_def ceiling_le_iff)
  then have "ceil_div b u * p \<le> l div p * p" using assms(3) by simp
  also have "\<dots> \<le> l" using assms(3) by (simp add: minus_mod_eq_div_mult [symmetric])
  finally show ?thesis .
qed


definition sample_session :: session where
  "sample_session = \<lparr>se_flow = ''Online session'', se_client = Amina, se_nodeAdmin = Node, se_offline = False, se_targetBytes = 50000000,
     se_bytes = 0, se_baseUnits = 0, se_unsettledAtStart = 0, se_limit = 20000000, se_limitReason = [], se_lastReceiptBytes = 0,
     se_receipts = 0, se_throttled = None, se_done = False, se_startedAt = START_TIME\<rparr>"


end
