(* ===== verification/Display.thy ===== *)
theory Display
  imports Narrative
begin

text \<open>
  \<open>web/src/demo/ui/format.js\<close>: how the playground prints amounts and names balances, and the two sums it shows
  under a step, the net change of every balance and the gas paid by each payer.  Amounts are exact rationals.
  An object literal used as a table is read at its own keys.
\<close>

section \<open>Amounts\<close>

definition kesStr :: "rat \<Rightarrow> bool \<Rightarrow> string" where
  "kesStr ukes show_sign =
     (let v = ukes / of_int UKES;
          abs_v = \<bar>v\<bar>;
          digits = (if abs_v \<noteq> 0 \<and> abs_v < 1 / 100 then 6 else if abs_v < 100 then 4 else 2);
          s = locale_num 2 digits abs_v;
          pre = (if v < 0 then ''-'' else if show_sign \<and> 0 < v then ''+'' else '''')
      in pre @ s)"

definition kesSmall :: "rat \<Rightarrow> string" where
  "kesSmall v =
     (if v = 0 then ''0''
      else let abs_v = \<bar>v\<bar>;
               digits = (if abs_v < 1 / 1000 then 6 else if abs_v < 1 then 4 else 2)
           in locale_num 2 digits v)"

definition ethStr :: "rat \<Rightarrow> string" where
  "ethStr gwei = to_fixed (if gwei < 100000 then 9 else 6) (gwei / 1000000000)"

definition gasStr :: "rat \<Rightarrow> string" where
  "gasStr g = locale_num 0 3 g"

definition intStr :: "rat \<Rightarrow> string" where
  "intStr n = locale_num 0 3 n"

section \<open>Names of balances\<close>

definition key_parts :: "string \<Rightarrow> string \<times> string" where
  \<comment> \<open>\<open>const [who, what] = key.split('.')\<close>; a missing part prints as undefined\<close>
  "key_parts key =
     (let parts = split_on (CHR ''.'') key
      in (hd parts, if 1 < length parts then parts ! 1 else ''undefined''))"

definition METRIC_NAMES :: "(string \<times> string) list" where
  "METRIC_NAMES =
     [(''wallet'', ''wallet XKN''), (''escrow'', ''escrow deposit''), (''earnings'', ''node earnings''),
      (''mpesa'', ''M-Pesa''), (''eth'', ''ETH (gas)''), (''supply'', ''total supply''),
      (''balance'', ''balance''), (''float'', ''M-Pesa float'')]"

definition OWNER_NAMES :: "(string \<times> string) list" where
  "OWNER_NAMES =
     [(''token'', ''XKN''), (''escrow'', ''Escrow contract''), (''treasury'', ''Treasury''), (''kiosk'', ''Kiosk'')]"

definition metricLabel :: "string \<Rightarrow> string" where
  "metricLabel key =
     (let (who, what) = key_parts key;
          owner = (if who \<in> set (map actor_key ACTORS) then nameOf who else get_or who OWNER_NAMES who)
      in owner @ '' '' @ get_or what METRIC_NAMES what)"

definition isEthKey :: "string \<Rightarrow> bool" where
  "isEthKey key \<longleftrightarrow> ends_with ''.eth'' key"

definition POCKET :: "(string \<times> string) list" where
  "POCKET =
     [(''wallet'', ''wallet''), (''escrow'', ''meter''), (''earnings'', ''earned''), (''mpesa'', ''M-Pesa''),
      (''eth'', ''gas'')]"

definition SYSTEM :: "(string \<times> string) list" where
  "SYSTEM =
     [(''token.supply'', ''xKoin in existence''), (''escrow.balance'', ''Meter pool''),
      (''treasury.balance'', ''Fee box''), (''kiosk.float'', ''Kiosk M-Pesa'')]"

definition plainKey :: "string \<Rightarrow> string" where
  "plainKey key =
     (case map_of SYSTEM key of
        Some s \<Rightarrow> s
      | None \<Rightarrow>
          let (who, what) = key_parts key
          in replace_first '' admin'' (replace_first '' (bridge)'' (nameOf who)) @ '' '' @ get_or what POCKET what)"

section \<open>What a step moved\<close>

definition add_diff :: "(string \<times> rat) list \<Rightarrow> diff_line \<Rightarrow> (string \<times> rat) list" where
  "add_diff out d =
     (if \<not> isEthKey (df_key d)
      then AList.update (df_key d) (get_or 0 out (df_key d) + df_delta d) out else out)"

definition netChanges :: "entry list \<Rightarrow> (string \<times> rat) list" where
  "netChanges entries =
     (let out = foldl (\<lambda>out e. foldl add_diff out (en_diffs e)) [] entries
      in filter (\<lambda>(_, v). v \<noteq> 0) out)"

definition add_gas :: "(actor option \<times> rat) list \<Rightarrow> entry \<Rightarrow> (actor option \<times> rat) list" where
  "add_gas out e =
     (if en_layer e = LChain \<and> \<not> en_rejected e
      then AList.update (en_payer e) (get_or 0 out (en_payer e) + en_kes e) out else out)"

definition gasByPayer :: "entry list \<Rightarrow> (actor option \<times> rat) list" where
  "gasByPayer entries = foldl add_gas [] entries"

section \<open>Both sums, key by key\<close>

definition moved_by :: "string \<Rightarrow> entry \<Rightarrow> rat" where
  \<comment> \<open>what one entry says a balance moved by\<close>
  "moved_by k e = sum_list (map df_delta (filter (\<lambda>d. df_key d = k) (en_diffs e)))"

definition paid_by :: "actor \<Rightarrow> entry \<Rightarrow> bool" where
  "paid_by a e \<longleftrightarrow> en_layer e = LChain \<and> \<not> en_rejected e \<and> en_payer e = Some a"

lemma add_diff_get:
  "get_or 0 (add_diff out d) k = get_or 0 out k + (if df_key d = k \<and> \<not> isEthKey k then df_delta d else 0)"
  by (auto simp: add_diff_def)

lemma add_diffs_get:
  "get_or 0 (foldl add_diff out ds) k =
     get_or 0 out k + (if isEthKey k then 0 else sum_list (map df_delta (filter (\<lambda>d. df_key d = k) ds)))"
  by (induction ds arbitrary: out) (auto simp: add_diff_get)

lemma add_entries_get:
  "get_or 0 (foldl (\<lambda>out e. foldl add_diff out (en_diffs e)) out es) k =
     get_or 0 out k + (if isEthKey k then 0 else sum_list (map (moved_by k) es))"
  by (induction es arbitrary: out) (auto simp: add_diffs_get moved_by_def)

lemma add_diff_distinct: "distinct (map fst out) \<Longrightarrow> distinct (map fst (add_diff out d))"
  by (simp add: add_diff_def distinct_update)

lemma add_diffs_distinct: "distinct (map fst out) \<Longrightarrow> distinct (map fst (foldl add_diff out ds))"
  by (induction ds arbitrary: out) (simp_all add: add_diff_distinct)

lemma add_entries_distinct:
  "distinct (map fst out) \<Longrightarrow> distinct (map fst (foldl (\<lambda>out e. foldl add_diff out (en_diffs e)) out es))"
  by (induction es arbitrary: out) (simp_all add: add_diffs_distinct)

lemma nonzero_lookup:
  "distinct (map fst m) \<Longrightarrow>
   map_of (filter (\<lambda>(_, v). v \<noteq> 0) m) k = (if get_or 0 m k = 0 then None else Some (get_or 0 m k))"
proof (induction m)
  case (Cons p m)
  obtain a v where p: "p = (a, v)" by (cases p)
  have none: "map_of m a = None" using Cons.prems by (auto simp: p map_of_eq_None_iff)
  have f: "map_of (filter (\<lambda>(_, v). v \<noteq> 0) m) a = None"
    using Cons.prems by (auto simp: p map_of_eq_None_iff)
  show ?case using Cons f by (auto simp: p get_or_def)
qed (simp add: get_or_def)

lemma netChanges_lookup:
  "map_of (netChanges es) k =
     (let s = sum_list (map (moved_by k) es) in if isEthKey k \<or> s = 0 then None else Some s)"
  using add_entries_distinct [of "[]" es] add_entries_get [of "[]" es k]
  by (auto simp: netChanges_def nonzero_lookup Let_def get_or_def [of 0 "[]"])

lemma netChanges_distinct: "distinct (map fst (netChanges es))"
  unfolding netChanges_def Let_def by (rule distinct_map_filter, rule add_entries_distinct) simp

lemma add_gas_get:
  "get_or 0 (foldl add_gas out es) (Some a) = get_or 0 out (Some a) + sum_list (map en_kes (filter (paid_by a) es))"
  by (induction es arbitrary: out) (auto simp: add_gas_def paid_by_def)

lemma gasByPayer_get: "get_or 0 (gasByPayer es) (Some a) = sum_list (map en_kes (filter (paid_by a) es))"
  by (simp add: gasByPayer_def add_gas_get get_or_def [of 0 "[]"])

end
