(* ===== verification/Ledger.thy ===== *)
theory Ledger
  imports Display Books Samples
begin

text \<open>
  The ledger as an account of the world: what the entries say every balance moved by is what it moved by, and
  the gas they show is the gas that was charged, for every call there is (the locale \<open>call_invariant\<close>).
\<close>

section \<open>One entry\<close>

definition balance_at :: "world \<Rightarrow> string \<Rightarrow> rat" where
  \<comment> \<open>\<open>metrics(w)[k]\<close>\<close>
  "balance_at w k = get_or 0 (metrics w) k"

lemma metric_keys: "map fst (metrics w) = map fst (metrics w')"
  by (simp add: metrics_def actor_metrics_def ACTORS_def)

lemma metric_keys_distinct: "distinct (map fst (metrics w))"
  by (simp add: metrics_def actor_metrics_def ACTORS_def)

lemma diffs_sum:
  assumes "map fst b = map fst a" and "distinct (map fst a)"
  shows "sum_list (map df_delta (filter (\<lambda>d. df_key d = k) (diffs_of b a))) = get_or 0 a k - get_or 0 b k"
  using assms
proof (induction a arbitrary: b)
  case (Cons p a)
  obtain x v where p: "p = (x, v)" by (cases p)
  with Cons.prems obtain u b' where b: "b = (x, u) # b'" by (cases b) auto
  have IH: "sum_list (map df_delta (filter (\<lambda>d. df_key d = k) (diffs_of b' a))) = get_or 0 a k - get_or 0 b' k"
    using Cons by (simp add: p b)
  have absent: "map_of a x = None" "map_of b' x = None"
    using Cons.prems list.set_map [of fst a] list.set_map [of fst b'] by (auto simp: p b map_of_eq_None_iff)
  show ?case
  proof (cases "x = k")
    case True
    have "get_or 0 a k = 0" "get_or 0 b' k = 0" using absent by (simp_all add: True get_or_def)
    then show ?thesis using IH by (auto simp: p b True diffs_of_def get_or_def)
  next
    case False
    then show ?thesis using IH by (auto simp: p b diffs_of_def get_or_def)
  qed
qed (simp add: diffs_of_def get_or_def)

lemma moved_by_diffs: "en_diffs e = diffs_of (metrics w) (metrics w') \<Longrightarrow> moved_by k e = balance_at w' k - balance_at w k"
  unfolding moved_by_def balance_at_def by (simp add: diffs_sum metric_keys [of w w'] metric_keys_distinct)

definition gas_at :: "world \<Rightarrow> actor \<Rightarrow> spent" where
  \<comment> \<open>\<open>gasSpent[a] ?? { gas: 0, kes: 0, txs: 0 }\<close>\<close>
  "gas_at w a = (case w_gasSpent w a of None \<Rightarrow> \<lparr>sp_gas = 0, sp_kes = 0, sp_txs = 0\<rparr> | Some s \<Rightarrow> s)"

section \<open>Every entry\<close>

definition accounted :: "world \<Rightarrow> world \<Rightarrow> bool" where
  \<comment> \<open>the entries since \<open>w0\<close> account for every balance and all gas\<close>
  "accounted w0 w \<longleftrightarrow>
     (\<exists>es. w_ledger w = w_ledger w0 @ es \<and>
        (\<forall>k. balance_at w k = balance_at w0 k + sum_list (map (moved_by k) es)) \<and>
        (\<forall>a. let paid = filter (paid_by a) es
             in sp_gas (gas_at w a) = sp_gas (gas_at w0 a) + sum_list (map en_gas paid) \<and>
                sp_kes (gas_at w a) = sp_kes (gas_at w0 a) + sum_list (map en_kes paid) \<and>
                sp_txs (gas_at w a) = sp_txs (gas_at w0 a) + int (length paid)))"

lemma accounted_refl: "accounted w w"
  by (auto simp: accounted_def)

lemma metrics_books [simp]:
  "metrics (w\<lparr>w_seq := n\<rparr>) = metrics w" "metrics (w\<lparr>w_ledger := l\<rparr>) = metrics w"
  "metrics (w\<lparr>w_txNonces := t\<rparr>) = metrics w" "metrics (w\<lparr>w_blocks := b\<rparr>) = metrics w"
  by (simp_all add: metrics_def actor_metrics_def cong: map_cong)

lemma finish_entry:
  assumes "finish H w sp ok rejected error gas gasSrc before c = Some r"
  shows "\<exists>e. w_ledger (o_world r) = w_ledger w @ [e] \<and> en_diffs e = diffs_of before (metrics (o_world r)) \<and>
    w_gasSpent (o_world r) = w_gasSpent w \<and> en_gas e = gas \<and> en_kes e = gasToKes gas (w_params w) \<and>
    (\<forall>a. paid_by a e \<longleftrightarrow> sc_layer sp = LChain \<and> \<not> rejected \<and> spec_payer sp = a)"
  using assms by (auto simp: finish_def Let_def seal_def make_entry_def paid_by_def split: if_splits)

lemma accounted_step:
  assumes "accounted w0 w" and "finish H x sp ok rejected error gas gasSrc (metrics w) c = Some r"
    and "w_ledger x = w_ledger w"
    and "sc_layer sp = LChain \<and> \<not> rejected \<Longrightarrow>
      gas_at x (spec_payer sp) = \<lparr>sp_gas = sp_gas (gas_at w (spec_payer sp)) + gas,
         sp_kes = sp_kes (gas_at w (spec_payer sp)) + gasToKes gas (w_params x), sp_txs = sp_txs (gas_at w (spec_payer sp)) + 1\<rparr>"
    and "\<And>a. \<not> (sc_layer sp = LChain \<and> \<not> rejected \<and> spec_payer sp = a) \<Longrightarrow> gas_at x a = gas_at w a"
  shows "accounted w0 (o_world r)"
proof -
  obtain es where es: "w_ledger w = w_ledger w0 @ es"
    "\<And>k. balance_at w k = balance_at w0 k + sum_list (map (moved_by k) es)"
    "\<And>a. sp_gas (gas_at w a) = sp_gas (gas_at w0 a) + sum_list (map en_gas (filter (paid_by a) es))"
    "\<And>a. sp_kes (gas_at w a) = sp_kes (gas_at w0 a) + sum_list (map en_kes (filter (paid_by a) es))"
    "\<And>a. sp_txs (gas_at w a) = sp_txs (gas_at w0 a) + int (length (filter (paid_by a) es))"
    using assms(1) by (auto simp: accounted_def Let_def)
  obtain e where e: "w_ledger (o_world r) = w_ledger x @ [e]" "en_diffs e = diffs_of (metrics w) (metrics (o_world r))"
    "w_gasSpent (o_world r) = w_gasSpent x" "en_gas e = gas" "en_kes e = gasToKes gas (w_params x)"
    "\<And>a. paid_by a e \<longleftrightarrow> sc_layer sp = LChain \<and> \<not> rejected \<and> spec_payer sp = a"
    using finish_entry [OF assms(2)] by blast
  have g: "gas_at (o_world r) a = gas_at x a" for a by (simp add: gas_at_def e(3))
  show ?thesis
    unfolding accounted_def Let_def
  proof (intro exI [of _ "es @ [e]"] conjI allI)
    show "w_ledger (o_world r) = w_ledger w0 @ es @ [e]" by (simp add: e(1) assms(3) es(1))
    show "balance_at (o_world r) k = balance_at w0 k + sum_list (map (moved_by k) (es @ [e]))" for k
      by (simp add: moved_by_diffs [OF e(2)] es(2))
    show "sp_gas (gas_at (o_world r) a) = sp_gas (gas_at w0 a) + sum_list (map en_gas (filter (paid_by a) (es @ [e])))" for a
      using assms(4) assms(5) [of a] by (auto simp: g es(3) e(4,6))
    show "sp_kes (gas_at (o_world r) a) = sp_kes (gas_at w0 a) + sum_list (map en_kes (filter (paid_by a) (es @ [e])))" for a
      using assms(4) assms(5) [of a] by (auto simp: g es(4) e(5,6))
    show "sp_txs (gas_at (o_world r) a) = sp_txs (gas_at w0 a) + int (length (filter (paid_by a) (es @ [e])))" for a
      using assms(4) assms(5) [of a] by (auto simp: g es(5) e(6))
  qed
qed

lemma gas_at_charge:
  "gas_at (charge x p g) a =
     (if a = p then \<lparr>sp_gas = sp_gas (gas_at x p) + g, sp_kes = sp_kes (gas_at x p) + gasToKes g (w_params x),
                     sp_txs = sp_txs (gas_at x p) + 1\<rparr>
      else gas_at x a)"
  by (simp add: charge_def gas_at_def Let_def)

lemma charge_reads [simp]: "w_ledger (charge x p g) = w_ledger x" "w_params (charge x p g) = w_params x"
  by (simp_all add: charge_def Let_def)

lemma gas_at_same: "w_gasSpent x = w_gasSpent w \<Longrightarrow> gas_at x = gas_at w"
  by (simp add: gas_at_def fun_eq_iff)

lemma accounted_call:
  assumes w: "accounted w0 w" and q: "quiet body"
  shows "accounted w0 (o_world (call H w sp body))"
proof (rule call_finish_cases [of H w sp body])
  assume "call H w sp body = thrown w"
  then show ?thesis by (simp add: w)
next
  fix w' c g
  assume b: "fst (body (start_world sp w) ctx0) = Inr w'" and chain: "sc_layer sp = LChain"
    and f: "finish H (charge w' (spec_payer sp) g) sp True False None g (Some (snd (gas_of sp True c))) (metrics w) c
              = Some (call H w sp body)"
  have "w_ledger w' = w_ledger w" "gas_at w' = gas_at w"
    using q b by (auto simp: quiet_def start_world_def intro: gas_at_same)
  then show ?thesis by (intro accounted_step [OF w f]) (auto simp: gas_at_charge chain)
next
  fix w' c
  assume b: "fst (body (start_world sp w) ctx0) = Inr w'" and off: "sc_layer sp \<noteq> LChain"
    and f: "finish H w' sp True False None 0 None (metrics w) c = Some (call H w sp body)"
  have "w_ledger w' = w_ledger w" "gas_at w' = gas_at w"
    using q b by (auto simp: quiet_def start_world_def intro: gas_at_same)
  then show ?thesis using off by (intro accounted_step [OF w f]) auto
next
  fix e c g
  let ?x = "w\<lparr>w_t := w_t w + 2, w_block := w_block w + 1\<rparr>"
  assume chain: "sc_layer sp = LChain"
    and f: "finish H (charge ?x (spec_payer sp) g) sp False False (Some (revert_message e)) g
              (Some (snd (gas_of sp False c))) (metrics w) c = Some (call H w sp body)"
  have "gas_at ?x = gas_at w" by (rule gas_at_same) simp
  then show ?thesis by (intro accounted_step [OF w f]) (auto simp: gas_at_charge chain)
next
  fix e c
  assume "sc_layer sp \<noteq> LChain"
    and f: "finish H w sp False False (Some (revert_message e)) 0 None (metrics w) c = Some (call H w sp body)"
  then show ?thesis by (intro accounted_step [OF w f]) auto
next
  fix c err
  assume "finish H w sp False True (Some err) 0 None (metrics w) c = Some (call H w sp body)"
  then show ?thesis by (intro accounted_step [OF w]) auto
qed

interpretation ledgerI: call_invariant H "accounted w0" for H w0
  by unfold_locales (rule accounted_call)

section \<open>What the ledger and the summaries show\<close>

text \<open>C2. In every reachable world the ledger accounts for everything: each balance the demo tracks (wallets,
  deposits, earnings, mobile money, ETH, supply, escrow, treasury, float) is its value in the fresh world plus
  the changes the entries report for it, and the gas, its cost and the number of transactions charged to an
  account are the sums over the entries that it paid.  Nothing moves without an entry that says so.\<close>

theorem ledger_accounts_for_everything:
  assumes "reachable H p w"
  shows "balance_at w k = balance_at (createWorld p) k + sum_list (map (moved_by k) (w_ledger w)) \<and>
    gas_at w a =
      \<lparr>sp_gas = sum_list (map en_gas (filter (paid_by a) (w_ledger w))),
       sp_kes = sum_list (map en_kes (filter (paid_by a) (w_ledger w))),
       sp_txs = int (length (filter (paid_by a) (w_ledger w)))\<rparr>"
proof -
  have "accounted (createWorld p) w" by (rule ledgerI.reachable_keeps [OF assms accounted_refl])
  moreover have "gas_at (createWorld p) a = \<lparr>sp_gas = 0, sp_kes = 0, sp_txs = 0\<rparr>"
    by (simp add: gas_at_def createWorld_def)
  ultimately show ?thesis by (auto simp: accounted_def Let_def)
qed

lemma ledger_accounts_for_everything_witness:
  "let w = exec sample_host (createWorld DEFAULT_PARAMS) (OffOp (FundGas Amina 1000))
   in balance_at w ''amina.eth'' =
        balance_at (createWorld DEFAULT_PARAMS) ''amina.eth'' + sum_list (map (moved_by ''amina.eth'') (w_ledger w))"
  using ledger_accounts_for_everything [OF reachable.step [OF reachable.start [of sample_host DEFAULT_PARAMS]],
      of "OffOp (FundGas Amina 1000)"]
  by (simp add: Let_def)

text \<open>C15. Whatever calls a step makes, what the playground prints under it is what it changed: the net changes
  list exactly the balances, ETH apart, that differ between the world before and the world after, each once and
  with its difference (changes that cancel out are left out), and the gas of each payer is what its gas account
  grew by.\<close>

theorem step_summary_is_the_difference:
  assumes "list_all wf_op ops" and "w' = foldl (exec H) w ops" and "es = drop (length (w_ledger w)) (w_ledger w')"
  shows "map_of (netChanges es) k =
           (if isEthKey k \<or> balance_at w' k = balance_at w k then None else Some (balance_at w' k - balance_at w k)) \<and>
         distinct (map fst (netChanges es)) \<and>
         get_or 0 (gasByPayer es) (Some a) = sp_kes (gas_at w' a) - sp_kes (gas_at w a)"
proof -
  have "accounted w w'" unfolding assms(2) by (rule ledgerI.run_keeps [OF accounted_refl assms(1)])
  then have "sum_list (map (moved_by k) es) = balance_at w' k - balance_at w k"
    and "sum_list (map en_kes (filter (paid_by a) es)) = sp_kes (gas_at w' a) - sp_kes (gas_at w a)"
    by (auto simp: accounted_def Let_def assms(3))
  then show ?thesis by (simp add: netChanges_lookup netChanges_distinct gasByPayer_get Let_def)
qed

lemma step_summary_is_the_difference_witness:
  "let w' = foldl (exec sample_host) (createWorld DEFAULT_PARAMS) [OffOp (FundGas Amina 1000)]
   in distinct (map fst (netChanges (drop (length (w_ledger (createWorld DEFAULT_PARAMS))) (w_ledger w')))) \<and>
      get_or 0 (gasByPayer (drop (length (w_ledger (createWorld DEFAULT_PARAMS))) (w_ledger w'))) (Some Amina) =
        sp_kes (gas_at w' Amina) - sp_kes (gas_at (createWorld DEFAULT_PARAMS) Amina)"
proof -
  have wf: "list_all wf_op [OffOp (FundGas Amina 1000)]" by simp
  show ?thesis
    unfolding Let_def using step_summary_is_the_difference [OF wf refl refl, of "createWorld DEFAULT_PARAMS" sample_host _ Amina]
    by blast
qed

end
