(* ===== verification/Drills.thy ===== *)
theory Drills
  imports Flows
begin

text \<open>
  The recovery drills of \<open>web/src/demo/flows.js\<close> (\<open>DRILLS\<close>), \<open>ensureReady\<close>, and the playground's steps of
  \<open>web/src/demo/steps.js\<close> (\<open>STEPS\<close>): the guards, the completion tests and what each button runs.

  A drill answers \<^term>\<open>None\<close> where the JavaScript function throws: a wallet that could not sign leaves
  an undefined ticket, permit or authorisation, which the next call dereferences.
\<close>

section \<open>Helpers\<close>

definition entries_of :: "outcome \<Rightarrow> entry list" where
  "entries_of r = (case o_entry r of None \<Rightarrow> [] | Some e \<Rightarrow> [e])"

fun res_ticket :: "result \<Rightarrow> ticket option" where
  "res_ticket (RTicket t) = Some t"
| "res_ticket _ = None"

definition settle_ticket :: "host \<Rightarrow> world \<Rightarrow> actor \<Rightarrow> ticket option \<Rightarrow> string option \<Rightarrow> string \<Rightarrow> outcome" where
  \<comment> \<open>\<open>settleTicketBatch\<close> of a one-ticket list, whose element may be undefined\<close>
  "settle_ticket H w from t flow title =
     (case t of None \<Rightarrow> thrown w | Some t \<Rightarrow> settleTicketBatch H w from [t] flow (Some title))"

definition ready_result :: "world \<Rightarrow> bool \<Rightarrow> entry list \<Rightarrow> flow_result" where
  "ready_result w ok es = \<lparr>fr_world = w, fr_ok = ok, fr_entries = es, fr_failed = None, fr_result = RNone\<rparr>"

definition kiosk_listed :: "world \<Rightarrow> bool" where
  "kiosk_listed w \<longleftrightarrow> (case tk_bridges (w_token w) Kiosk of None \<Rightarrow> False | Some i \<Rightarrow> br_allowed i)"

definition take_flow :: "flow_result option \<Rightarrow> (flow_result \<Rightarrow> flow_result option) \<Rightarrow> flow_result \<Rightarrow> flow_result option" where
  \<comment> \<open>\<open>take(r)\<close> and the early return when it fails; the entries accumulate\<close>
  "take_flow r k acc =
     Option.bind r (\<lambda>r. let acc' = ready_result (fr_world r) (fr_ok r) (fr_entries acc @ fr_entries r)
                       in if fr_ok r then k acc' else Some acc')"

definition ensureReady :: "host \<Rightarrow> nat \<Rightarrow> world \<Rightarrow> flow_result option" where
  "ensureReady H n world =
     (let start = ready_result world True [];
          needs_setup = \<not> w_deployed world \<or> \<not> kiosk_listed world;
          n1 = (if needs_setup then Suc n else n);
          fill = (\<lambda>acc. let w = fr_world acc in
            if deposit_of w Amina < kes 20
            then let needs_buy = tk_bal (w_token w) (Wallet Amina) < kes 50;
                     n2 = (if needs_buy then Suc n1 else n1);
                     last = (\<lambda>a. take_flow (depositGasless H n2 (fr_world a) Amina (kes 50)) Some a)
                 in if needs_buy then take_flow (buy H n1 w Amina (kes 100) False) last acc else last acc
            else Some acc)
      in if needs_setup then take_flow (setupNetwork H n world) fill start else fill start)"

definition sign_base :: "world \<Rightarrow> int" where
  "sign_base w =
     (let held = tickets_of w Amina Node
      in if held \<noteq> [] then tt_cumulativeUnits (last held) else settled_between w Amina Node)"

fun sign_n_loop :: "host \<Rightarrow> nat list \<Rightarrow> int \<Rightarrow> int \<Rightarrow> string option \<Rightarrow> world \<Rightarrow> world \<times> ticket option list \<times> entry list" where
  "sign_n_loop H [] base step flow w = (w, [], [])"
| "sign_n_loop H (i # is) base step flow w =
     (let units = base + int i * step;
          r = signTicket H w Amina Node units flow (Some (''Amina signs ticket at '' @ int_str units @ '' units'')) None;
          (w', ts, es) = sign_n_loop H is base step flow (o_world r)
      in (w', res_ticket (o_result r) # ts, entries_of r @ es))"

definition signN :: "host \<Rightarrow> world \<Rightarrow> nat \<Rightarrow> int \<Rightarrow> string option \<Rightarrow> world \<times> ticket option list \<times> entry list" where
  "signN H world n step flow = sign_n_loop H [1..<Suc n] (sign_base world) step flow world"

section \<open>The drills\<close>

datatype drill = LostTickets | Replay | Forged | Expired | Drain | Redirect | LostPhone | RogueBridge | StolenOwner
  | FrontRunPermit | PayoutFails | Offline

record drill_result =
  dr_world :: world
  dr_ok :: bool
  dr_entries :: "entry list"
  dr_verdict :: string

definition drill_result :: "world \<Rightarrow> bool \<Rightarrow> entry list \<Rightarrow> string \<Rightarrow> drill_result" where
  "drill_result w ok es verdict = \<lparr>dr_world = w, dr_ok = ok, dr_entries = es, dr_verdict = verdict\<rparr>"

definition drill_lost_tickets :: "host \<Rightarrow> nat \<Rightarrow> world \<Rightarrow> drill_result option" where
  "drill_lost_tickets H n world =
     (let flow = newFlow ''Drill: lost tickets'' n;
          (w, tickets, entries) = signN H world 4 100 flow
      in map_option (\<lambda>r. drill_result (fr_world r) (fr_ok r) (entries @ fr_entries r)
             (if fr_ok r then ''All 400 units paid from one ticket; the three lost ones were never needed.''
              else ''Unexpected revert.''))
           (runSteps w [\<lambda>x _. settle_ticket H x Relayer (last tickets) flow ''Settle only the last of four tickets'']))"

definition drill_replay :: "host \<Rightarrow> nat \<Rightarrow> world \<Rightarrow> drill_result option" where
  "drill_replay H n world =
     (let flow = newFlow ''Drill: replay'' n;
          (w, tickets, entries) = signN H world 2 100 flow
      in Option.bind (runSteps w [\<lambda>x _. settle_ticket H x Relayer (tickets ! 1) flow ''Settle ticket 2'']) (\<lambda>r1.
         map_option (\<lambda>r2. drill_result (fr_world r2) (\<not> fr_ok r2) (entries @ fr_entries r1 @ fr_entries r2)
             (if fr_ok r2 then ''Replay was accepted: rule broken.''
              else ''Reverted StaleSequence. Mallory paid the revert gas; nobody lost anything.''))
           (runSteps (fr_world r1) [\<lambda>x _. settle_ticket H x Mallory (tickets ! 0) flow ''Mallory replays ticket 1''])))"

definition filter_tickets :: "(ticket \<Rightarrow> bool) \<Rightarrow> world \<Rightarrow> world" where
  \<comment> \<open>\<open>w.tickets['amina>node'] = (... ?? []).filter(...)\<close>\<close>
  "filter_tickets P w = w\<lparr>w_tickets := AList.update (Amina, Node) (filter P (tickets_of w Amina Node)) (w_tickets w)\<rparr>"

definition drill_forged :: "host \<Rightarrow> nat \<Rightarrow> world \<Rightarrow> drill_result option" where
  "drill_forged H n world =
     (let flow = newFlow ''Drill: forged ticket'' n;
          r0 = signTicket H world Amina Node 1000000 flow (Some ''Node signs 1,000,000 units as if it were Amina'') (Some Node)
      in map_option (\<lambda>r. drill_result (filter_tickets (\<lambda>t. tt_signedBy t = Amina) (fr_world r)) (\<not> fr_ok r)
             (entries_of r0 @ fr_entries r)
             (if fr_ok r then ''Forgery paid: rule broken.''
              else ''Reverted BadSignature: the digest recovers to the node, not Amina. The forged ticket is dropped from the node store.''))
           (runSteps (o_world r0) [\<lambda>x _. settle_ticket H x Relayer (res_ticket (o_result r0)) flow ''Relayer submits the forged ticket'']))"

definition expired_verdict :: string where
  "expired_verdict = ''Reverted ExpiredTicket. The node forfeits those 200 units. Mitigation: the relayer settles before expiry whatever the fee threshold says, and the client re-signs a fresh cumulative ticket next session, which recovers the units if the client agrees.''"

definition drill_expired :: "host \<Rightarrow> nat \<Rightarrow> world \<Rightarrow> drill_result option" where
  "drill_expired H n world =
     (let flow = newFlow ''Drill: expiry'' n;
          (w, tickets, entries) = signN H world 1 200 flow
      in map_option (\<lambda>r. drill_result (filter_tickets (\<lambda>t. tt_epochExpiry t \<ge> w_t (fr_world r)) (fr_world r)) (\<not> fr_ok r)
             (entries @ fr_entries r) expired_verdict)
           (runSteps w
              [\<lambda>x _. warp H x (p_epochSeconds (w_params x) + 3600) flow,
               \<lambda>x _. settle_ticket H x Relayer (tickets ! 0) flow ''Settle a ticket past epochExpiry'']))"

fun res_gross :: "result \<Rightarrow> int" where
  "res_gross (RSettled g f m) = g"
| "res_gross _ = 0"

definition drill_drain :: "host \<Rightarrow> nat \<Rightarrow> world \<Rightarrow> drill_result option" where
  "drill_drain H n world =
     (let flow = newFlow ''Drill: drain'' n;
          (w2, tickets, e2) = signN H world 1 2000 flow
      in case tickets ! 0 of
           None \<Rightarrow> None
         | Some t \<Rightarrow>
             let left = deposit_of w2 Amina;
                 owed = (tt_cumulativeUnits t - settled_between w2 Amina Node) * es_pricePerUnit (w_escrow w2);
                 keep = min (kes (4 / 10)) left
             in Option.bind (withdrawGasless H (Suc n) w2 Amina (left - keep) Amina) (\<lambda>out.
                map_option (\<lambda>r1.
                    let paid = res_gross (fr_result r1)
                    in drill_result (fr_world r1) (fr_ok out \<and> fr_ok r1) (e2 @ fr_entries out @ fr_entries r1)
                         (''Paid '' @ fmt paid 2 @ '' of '' @ fmt owed 2 @ '' KES owed. The node carries '' @ fmt (owed - paid) 2
                          @ '' KES, and the session credit rule (settle at half the cap) keeps that under one cap. Solvency holds throughout.''))
                  (runSteps (fr_world out) [\<lambda>x _. settle_ticket H x Relayer (Some t) flow
                     (''Settle ticket owing '' @ fmt owed 2 @ '' KES'')])))"

fun res_auth_opt :: "result \<Rightarrow> auth option" where
  "res_auth_opt (RAuth a) = Some a"
| "res_auth_opt _ = None"

definition drill_redirect :: "host \<Rightarrow> nat \<Rightarrow> world \<Rightarrow> drill_result option" where
  "drill_redirect H n world =
     (let flow = newFlow ''Drill: redirect'' n;
          s = signAuth H world KWithdraw Amina Amina (kes 5) flow (Some ''Amina signs: unlock 5 KES to me'')
      in case res_auth_opt (o_result s) of
           None \<Rightarrow> None
         | Some a \<Rightarrow>
             map_option (\<lambda>r. drill_result (fr_world r) (\<not> fr_ok r) (entries_of s @ fr_entries r)
                 (if fr_ok r then ''Redirect accepted: rule broken.''
                  else ''Reverted BadAuthorization. The coins stayed in Amina'' @ apos @ ''s meter.''))
               (runSteps (o_world s) [\<lambda>w _. withdrawWithSig H w Mallory a (Some Mallory) flow
                  (Some ''Mallory submits it with herself as destination'')]))"

definition drill_lost_phone :: "host \<Rightarrow> nat \<Rightarrow> world \<Rightarrow> drill_result option" where
  "drill_lost_phone H n world =
     (let flow = newFlow ''Drill: lost phone'' n
      in Option.bind
           (runSteps world
              [\<lambda>w _. loseDevice H w Amina flow,
               \<lambda>w _. signTicket H w Amina Node 999999 flow (Some ''Anyone tries to sign as Amina'') None]) (\<lambda>r.
         map_option (\<lambda>r2. drill_result (fr_world r2) (fr_ok r2) (fr_entries r @ fr_entries r2)
             (''Restored '' @ addr H Amina @ '': wallet '' @ fmt (tk_bal (w_token (fr_world r2)) (Wallet Amina)) 2
              @ '' KES and escrow '' @ fmt (deposit_of (fr_world r2) Amina) 2
              @ '' KES, unchanged. Without the seed there is no recovery path on chain: no admin can move a user balance, by design.''))
           (runSteps (fr_world r) [\<lambda>w _. restoreFromSeed H w Amina flow])))"

definition mint_room :: "world \<Rightarrow> bridge \<Rightarrow> int" where
  "mint_room w i = br_cap i - (if w_t w \<ge> br_windowStart i + 86400 then 0 else br_minted i)"

definition drill_rogue_bridge :: "host \<Rightarrow> nat \<Rightarrow> world \<Rightarrow> drill_result option" where
  "drill_rogue_bridge H n world =
     (let flow = newFlow ''Drill: rogue bridge'' n
      in case tk_bridges (w_token world) Kiosk of
           None \<Rightarrow> None
         | Some i \<Rightarrow>
             let room = mint_room world i
             in Option.bind (runSteps world [\<lambda>w _. bridgeMint H w Kiosk Mallory room ''forged'' flow
                    (Some (''Thief mints the rest of today'' @ apos @ ''s cap to Mallory''))]) (\<lambda>r.
                Option.bind (runSteps (fr_world r) [\<lambda>w _. bridgeMint H w Kiosk Mallory (kes 1) ''forged-2'' flow
                    (Some ''Thief tries 1 KES more'')]) (\<lambda>r2.
                map_option (\<lambda>r3. drill_result (fr_world r3) (\<not> fr_ok r2) (fr_entries r @ fr_entries r2 @ fr_entries r3)
                    (''Loss bounded at '' @ fmt room 2 @ '' KES of unbacked XKN (the peg check shows the gap). MintCapExceeded stopped the next mint; the owner then revoked the bridge. User balances were never reachable. Re-list the kiosk with Setup to continue.''))
                  (runSteps (fr_world r2) [\<lambda>w _. setBridge H w Owner Kiosk False 0 flow]))))"

fun run_all :: "(world \<Rightarrow> outcome) list \<Rightarrow> world \<Rightarrow> entry list \<Rightarrow> world \<times> entry list" where
  \<comment> \<open>the steps of the owner drill run one after the other whatever they answer\<close>
  "run_all [] w es = (w, es)"
| "run_all (s # ss) w es = (let r = s w in run_all ss (o_world r) (es @ entries_of r))"

definition stolen_owner_steps :: "host \<Rightarrow> string option \<Rightarrow> (world \<Rightarrow> outcome) list" where
  "stolen_owner_steps H flow =
     [\<lambda>w. setFeeBps H w Owner 5000 flow,
      \<lambda>w. setPricePerUnit H w Owner 1000000 flow,
      \<lambda>w. queueBeneficiary H w Owner Mallory flow,
      \<lambda>w. activateBeneficiary H w Mallory flow,
      \<lambda>w. cancelBeneficiaryChange H w Founder flow]"

definition drill_stolen_owner :: "host \<Rightarrow> nat \<Rightarrow> world \<Rightarrow> drill_result option" where
  "drill_stolen_owner H n world =
     (let (w, es) = run_all (stolen_owner_steps H (newFlow ''Drill: stolen owner key'' n)) world []
      in Some (drill_result w (tr_beneficiary (w_treasury w) = Some Founder) es
           ''FeeTooHigh, PriceOutOfBand and TimelockActive all fired; the founder vetoed inside the window. Beneficiary is still the founder. The real fix is the Safe multisig owner, HANDOVER item 10.''))"

fun res_permit_opt :: "result \<Rightarrow> permit option" where
  "res_permit_opt (RPermit p) = Some p"
| "res_permit_opt _ = None"

definition drill_front_run_permit :: "host \<Rightarrow> nat \<Rightarrow> world \<Rightarrow> drill_result option" where
  "drill_front_run_permit H n world =
     (let flow = newFlow ''Drill: permit front-run'' n;
          r0 = signPermit H world Amina EscrowAcc (kes 5) flow (Some ''Amina signs a 5 KES permit'')
      in case res_permit_opt (o_result r0) of
           None \<Rightarrow> None
         | Some p \<Rightarrow>
             map_option (\<lambda>r. drill_result (fr_world r) (fr_ok r) (entries_of r0 @ fr_entries r)
                 ''The inner permit() failed on a used nonce and was caught; the allowance Mallory set was used; the deposit landed. Mallory only burned their own gas.'')
               (runSteps (o_world r0)
                  [\<lambda>w _. permit H w Mallory p flow (Some ''Mallory submits the permit first''),
                   \<lambda>w _. depositWithPermit H w Kiosk Amina (kes 5) p flow (Some ''Kiosk relays the same permit'')]))"

definition drill_payout_fails :: "host \<Rightarrow> nat \<Rightarrow> world \<Rightarrow> drill_result option" where
  "drill_payout_fails H n world =
     (let short = tk_bal (w_token world) (Wallet Amina) < kes 10;
          n1 = (if short then Suc n else n)
      in Option.bind (if short then buy H n world Amina (kes 20) False else Some (ready_result world True [])) (\<lambda>b.
         Option.bind (cashOut H n1 (fr_world b) Amina (kes 10) True) (\<lambda>r.
         map_option (\<lambda>r2. drill_result (fr_world r2) (fr_ok r2) (fr_entries b @ fr_entries r @ fr_entries r2)
             ''First payout failed; 10 XKN waited on the bridge with the peg intact (float and supply both still counted it). The retry paid and only then burned.'')
           (retryPayout H (Suc n1) (fr_world r) Amina (kes 10)))))"

definition session_bytes :: "world \<Rightarrow> int" where
  "session_bytes w = (case w_session w of None \<Rightarrow> 0 | Some s \<Rightarrow> se_bytes s)"

definition drill_offline :: "host \<Rightarrow> nat \<Rightarrow> world \<Rightarrow> drill_result option" where
  "drill_offline H n world =
     (let none = \<not> list_ex (\<lambda>v. vo_who v = Amina) (w_vouchers world);
          n1 = (if none then Suc n else n)
      in Option.bind (if none then buy H n world Amina (kes 20) False else Some (ready_result world True [])) (\<lambda>b.
         Option.bind (openSession H n1 (fr_world b) Amina Node 200000000 True) (\<lambda>ses.
           let entries = fr_entries b @ fr_entries ses
           in if \<not> fr_ok ses then Some (drill_result (fr_world ses) False entries ''Voucher rejected.'')
              else map_option (\<lambda>(w, es). drill_result w True (entries @ es)
                     (''Served '' @ mb_text (session_bytes w)
                      @ '' MB against the voucher, then stopped at the offline cap. Tickets are held and settle when the backhaul returns.''))
                   (serve H (fr_world ses) 200000000))))"

fun run_drill :: "host \<Rightarrow> nat \<Rightarrow> drill \<Rightarrow> world \<Rightarrow> drill_result option" where
  "run_drill H n LostTickets w = drill_lost_tickets H n w"
| "run_drill H n Replay w = drill_replay H n w"
| "run_drill H n Forged w = drill_forged H n w"
| "run_drill H n Expired w = drill_expired H n w"
| "run_drill H n Drain w = drill_drain H n w"
| "run_drill H n Redirect w = drill_redirect H n w"
| "run_drill H n LostPhone w = drill_lost_phone H n w"
| "run_drill H n RogueBridge w = drill_rogue_bridge H n w"
| "run_drill H n StolenOwner w = drill_stolen_owner H n w"
| "run_drill H n FrontRunPermit w = drill_front_run_permit H n w"
| "run_drill H n PayoutFails w = drill_payout_fails H n w"
| "run_drill H n Offline w = drill_offline H n w"

section \<open>The playground's steps\<close>

datatype step_id = SSetup | STopup | SFill | SBrowse | SSettle | SNodeOut | SFee | SSend | SUnlock | SCashOut | SWhatIf

record form =
  fo_price :: rat
  fo_fee :: rat
  fo_who :: actor
  fo_amount :: rat
  fo_fail :: bool
  fo_claimOnly :: bool
  fo_by :: actor
  fo_fromMeter :: bool
  fo_old :: bool

definition other :: "actor \<Rightarrow> actor" where
  "other who = (if who = Amina then Baraka else Amina)"

definition some_entry :: "world \<Rightarrow> string list \<Rightarrow> bool" where
  "some_entry w fns \<longleftrightarrow> list_ex (\<lambda>e. en_ok e \<and> en_fn e \<in> set fns) (w_ledger w)"

definition flow_starts :: "string \<Rightarrow> entry \<Rightarrow> bool" where
  "flow_starts p e \<longleftrightarrow> (case en_flow e of None \<Rightarrow> False | Some f \<Rightarrow> starts_with p f)"

fun step_done :: "step_id \<Rightarrow> world \<Rightarrow> bool" where
  "step_done SSetup w \<longleftrightarrow> w_deployed w \<and> kiosk_listed w"
| "step_done STopup w \<longleftrightarrow> some_entry w [''bridgeMint'']"
| "step_done SFill w \<longleftrightarrow> some_entry w [''depositWithPermit'', ''deposit'']"
| "step_done SBrowse w \<longleftrightarrow> some_entry w [''signTicket'']"
| "step_done SSettle w \<longleftrightarrow> some_entry w [''settleTicketBatch'']"
| "step_done SNodeOut w \<longleftrightarrow> some_entry w [''claimEarnings'']"
| "step_done SFee w \<longleftrightarrow> some_entry w [''claim'']"
| "step_done SSend w \<longleftrightarrow>
     list_ex (\<lambda>e. en_ok e \<and> en_fn e \<in> {''transferFrom'', ''transferDeposit''} \<and> \<not> flow_starts ''Cash out'' e) (w_ledger w)"
| "step_done SUnlock w \<longleftrightarrow> some_entry w [''withdrawWithSig'', ''withdrawDeposit'']"
| "step_done SCashOut w \<longleftrightarrow>
     list_ex (\<lambda>e. en_ok e \<and> en_fn e = ''bridgeBurn'' \<and> flow_starts ''Cash out'' e) (w_ledger w)"
| "step_done SWhatIf w \<longleftrightarrow> list_ex (flow_starts ''Drill'') (w_ledger w)"

fun step_ready :: "host \<Rightarrow> step_id \<Rightarrow> world \<Rightarrow> string option" where
  \<comment> \<open>why a step cannot run yet\<close>
  "step_ready H SSettle w = (if pendingTickets H w None \<noteq> [] then None else Some ''No receipts waiting. Browse first.'')"
| "step_ready H SNodeOut w =
     (if earning_of w Node > 0 \<or> tk_bal (w_token w) (Wallet Node) > 0 then None else Some ''Node has earned nothing yet.'')"
| "step_ready H SFee w = (if tk_bal (w_token w) TreasuryAcc > 0 then None else Some ''Fee box is empty. Pay a node first.'')"
| "step_ready H _ w = None"

definition setup_params :: "form \<Rightarrow> params \<Rightarrow> params" where
  "setup_params f p = p\<lparr>p_pricePerUnit := js_round (fo_price f * 1000000 / 100), p_feeBps := js_round (fo_fee f * 100)\<rparr>"

definition run_node_out :: "host \<Rightarrow> nat \<Rightarrow> world \<Rightarrow> bool \<Rightarrow> flow_result option" where
  "run_node_out H n w claimOnly =
     (let earned = earning_of w Node > 0;
          n1 = (if earned then Suc n else n)
      in Option.bind (if earned then nodeClaim H n w else Some (ready_result w True [])) (\<lambda>r1.
           if \<not> fr_ok r1 \<or> claimOnly then Some r1
           else map_option (\<lambda>r2. r2\<lparr>fr_entries := fr_entries r1 @ fr_entries r2\<rparr>) (nodeCashOut H n1 (fr_world r1))))"

fun step_run :: "host \<Rightarrow> nat \<Rightarrow> step_id \<Rightarrow> world \<Rightarrow> form \<Rightarrow> flow_result option" where
  \<comment> \<open>\<open>browse\<close> and \<open>whatif\<close> have no \<open>run\<close>: the screen drives the session and the drills\<close>
  "step_run H n SSetup w f = setupNetwork H n (w\<lparr>w_params := setup_params f (w_params w)\<rparr>)"
| "step_run H n STopup w f = buy H n w (fo_who f) (kes (fo_amount f)) (fo_fail f)"
| "step_run H n SFill w f = depositGasless H n w (fo_who f) (kes (fo_amount f))"
| "step_run H n SSettle w f = relayBatch H n w None None"
| "step_run H n SNodeOut w f = run_node_out H n w (fo_claimOnly f)"
| "step_run H n SFee w f = sweepFees H n w (fo_by f)"
| "step_run H n SSend w f =
     (if fo_fromMeter f then sendEscrow H n w (fo_who f) (other (fo_who f)) (kes (fo_amount f))
      else send H n w (fo_who f) (other (fo_who f)) (kes (fo_amount f)))"
| "step_run H n SUnlock w f =
     (if fo_old f then withdraw H n w (fo_who f) (kes (fo_amount f))
      else withdrawGasless H n w (fo_who f) (kes (fo_amount f)) (fo_who f))"
| "step_run H n SCashOut w f = cashOut H n w (fo_who f) (kes (fo_amount f)) (fo_fail f)"
| "step_run H n SBrowse w f = None"
| "step_run H n SWhatIf w f = None"

definition step_retry :: "host \<Rightarrow> nat \<Rightarrow> world \<Rightarrow> form \<Rightarrow> flow_result option" where
  "step_retry H n w f = retryPayout H n w (fo_who f) (kes (fo_amount f))"

end
