(* ===== verification/Journeys.thy ===== *)
theory Journeys
  imports Drills Frames
begin

text \<open>
  The journeys as wholes: what a flow does to the supply and to the kiosk's float when all its steps commit.  The
  difference of the two, \<open>peg_gap\<close>, is a view that most calls leave alone; the four that move it (a payment to the
  kiosk, a mint, a payout, a burn) do so by their amount.
\<close>

section \<open>The gap between supply and float\<close>

definition peg_gap :: "world \<Rightarrow> int" where
  "peg_gap w = tk_supply (w_token w) - fi_float (w_fiat w)"

lemma pegged_gap: "pegged w \<longleftrightarrow> peg_gap w = 0"
  by (simp add: pegged_def peg_gap_def)

interpretation gapv: core_view peg_gap
  by unfold_locales (simp add: core_eq_iff peg_gap_def)

lemma gap_frames [simp]:
  "peg_gap (bal_upd f w) = peg_gap w" "peg_gap (set_allow ow s v w) = peg_gap w" "peg_gap (esc_upd h w) = peg_gap w"
  "peg_gap (set_deposit a v w) = peg_gap w" "peg_gap (set_earning a v w) = peg_gap w"
  "peg_gap (record_channel i t w) = peg_gap w" "peg_gap (nonce_used a w) = peg_gap w" "peg_gap (tre_upd k w) = peg_gap w"
  by (simp_all add: peg_gap_def bal_upd_def set_allow_def esc_upd_def set_deposit_def set_earning_def record_channel_def
      nonce_used_def tre_upd_def)

lemma gap_ownership [simp]: "peg_gap (set_owner k a w) = peg_gap w" "peg_gap (set_pending k a w) = peg_gap w"
  by (cases k; simp add: peg_gap_def set_owner_def set_pending_def esc_upd_def tre_upd_def)+

lemma gap_of_views: "mint_view x = mint_view y \<Longrightarrow> off_view x = off_view y \<Longrightarrow> peg_gap x = peg_gap y"
  by (simp add: mint_view_def off_view_def peg_gap_def)

lemma gap_permitted [simp]: "peg_gap (permitted H p x) = peg_gap x"
  by (rule gap_of_views) simp_all

named_theorems gap_calls \<open>what a call does to the gap\<close>

lemma gap_token_calls [gap_calls]:
  "peg_gap (o_world (setBridge H w f b al cap fl)) = peg_gap w"
  "peg_gap (o_world (transfer H w f to v fl ti)) = peg_gap w"
  "peg_gap (o_world (transferFrom H w f ow to v fl ti)) = peg_gap w"
  "peg_gap (o_world (permit H w f p fl ti)) = peg_gap w"
  by (simp only: token_call_defs; rule gapv.call_view; auto simp: body_simps; auto simp: peg_gap_def)+

lemma gap_settle: "fst (settleTicketBatch_body H f ts x c) = Inr x' \<Longrightarrow> peg_gap x' = peg_gap x"
  by (rule gap_of_views) (simp_all add: settle_body_frames)

lemma gap_escrow_calls [gap_calls]:
  "peg_gap (o_world (depositWithPermit H w f cl v p fl ti)) = peg_gap w"
  "peg_gap (o_world (withdrawDeposit H w f v fl ti)) = peg_gap w"
  "peg_gap (o_world (withdrawWithSig H w f a d fl ti)) = peg_gap w"
  "peg_gap (o_world (transferDeposit H w f a d fl ti)) = peg_gap w"
  "peg_gap (o_world (settleTicketBatch H w f ts fl ti)) = peg_gap w"
  "peg_gap (o_world (claimEarnings H w f to v fl ti)) = peg_gap w"
  by (simp only: escrow_call_defs; rule gapv.call_view;
      auto simp: depositWithPermit_commits doDeposit_commits withdrawDeposit_commits withdrawWithSig_commits transferDeposit_commits
        claimEarnings_commits gap_settle)+

lemma gap_treasury_calls [gap_calls]: "peg_gap (o_world (claim H w f fl ti)) = peg_gap w"
  by (simp only: treasury_call_defs; rule gapv.call_view; auto simp: body_simps split: option.splits)

lemma gap_create:
  "peg_gap (o_world (create_call H w fn ti flow create_token_body)) = peg_gap w"
  "peg_gap (o_world (create_call H w fn ti flow (create_treasury_body p))) = peg_gap w"
  "peg_gap (o_world (create_call H w fn ti flow (create_escrow_body p))) = peg_gap w"
  unfolding create_call_def
  by (rule gapv.call_view; auto simp: body_simps; auto simp: peg_gap_def)+

lemma gap_deploy [gap_calls]: "peg_gap (deploy H w flow) = peg_gap w"
  by (simp only: deploy_def Let_def gap_create)

lemma gap_off_calls [gap_calls]:
  "peg_gap (o_world (signPermit H w ow s v fl ti)) = peg_gap w"
  "peg_gap (o_world (signAuth H w k ow to v fl ti)) = peg_gap w"
  "peg_gap (o_world (issueVoucher H w to v r fl)) = peg_gap w"
  by (simp only: off_call_defs; rule gapv.call_view; auto simp: body_simps; auto simp: peg_gap_def)+

section \<open>Flows\<close>

locale flow_view = core_view g for g :: "world \<Rightarrow> 'v"
begin

definition does :: "('v \<Rightarrow> 'v) \<Rightarrow> flow_step \<Rightarrow> bool" where
  \<comment> \<open>what a step does to the view when it commits\<close>
  "does F s \<longleftrightarrow> (\<forall>w p. o_ok (s w p) \<longrightarrow> g (o_world (s w p)) = F (g w))"

lemma doesI: "(\<And>w p. o_ok (s w p) \<Longrightarrow> g (o_world (s w p)) = F (g w)) \<Longrightarrow> does F s"
  by (simp add: does_def)

lemma does_nothing: "(\<And>w p. g (o_world (s w p)) = g w) \<Longrightarrow> does id s"
  by (simp add: does_def)

lemma call_does:
  assumes "o_ok (call H w sp body)" and "\<And>x c x'. fst (body x c) = Inr x' \<Longrightarrow> g x' = F (g x)"
  shows "g (o_world (call H w sp body)) = F (g w)"
proof -
  obtain w' c where b: "body (start_world sp w) ctx0 = (Inr w', c)" and k: "core (o_world (call H w sp body)) = core w'"
    using assms(1) by (rule call_commit)
  have "g w' = F (g (start_world sp w))" by (rule assms(2) [of _ ctx0]) (simp add: b)
  then show ?thesis using view_eq [OF k] view_eq [of "start_world sp w" w] by simp
qed

lemma run_does:
  "\<lbrakk>run_loop w prev es steps = Some r; fr_ok r; list_all2 does Fs steps\<rbrakk> \<Longrightarrow>
   g (fr_world r) = fold (\<lambda>F. F) Fs (g w)"
proof (induction steps arbitrary: w prev es Fs)
  case (Cons s steps)
  obtain F Fs' where Fs: "Fs = F # Fs'" "does F s" "list_all2 does Fs' steps"
    using Cons.prems(3) by (auto simp: list_all2_Cons2)
  obtain e where e: "o_entry (s w prev) = Some e" "en_ok e"
    and rest: "run_loop (o_world (s w prev)) (o_result (s w prev)) (es @ [e]) steps = Some r"
    using Cons.prems(1,2) by (auto simp: Let_def split: option.splits if_splits)
  have "g (o_world (s w prev)) = F (g w)" using Fs(2) e by (simp add: does_def o_ok_def)
  then show ?case using Cons.IH [OF rest Cons.prems(2) Fs(3)] by (simp add: Fs(1))
qed auto

lemma steps_do:
  "\<lbrakk>runSteps w steps = Some r; fr_ok r; list_all2 does Fs steps\<rbrakk> \<Longrightarrow> g (fr_world r) = fold (\<lambda>F. F) Fs (g w)"
  unfolding runSteps_def by (rule run_does)

text \<open>A flow that stops keeps what the steps before the failed one did.\<close>

lemma run_stops:
  "\<lbrakk>run_loop w prev es steps = Some r; \<not> fr_ok r; list_all2 does Fs steps;
    \<And>s w p. s \<in> set steps \<Longrightarrow> \<not> o_ok (s w p) \<Longrightarrow> g (o_world (s w p)) = g w\<rbrakk> \<Longrightarrow>
   \<exists>k < length steps. length (fr_entries r) = length es + Suc k \<and> g (fr_world r) = fold (\<lambda>F. F) (take k Fs) (g w)"
proof (induction steps arbitrary: w prev es Fs)
  case (Cons s steps)
  obtain F Fs' where Fs: "Fs = F # Fs'" "does F s" "list_all2 does Fs' steps"
    using Cons.prems(3) by (auto simp: list_all2_Cons2)
  obtain e where e: "o_entry (s w prev) = Some e" using Cons.prems(1) by (auto simp: Let_def split: option.splits)
  show ?case
  proof (cases "en_ok e")
    case True
    then have rest: "run_loop (o_world (s w prev)) (o_result (s w prev)) (es @ [e]) steps = Some r"
      using Cons.prems(1) e by (simp add: Let_def)
    have one: "g (o_world (s w prev)) = F (g w)" using Fs(2) e True by (simp add: does_def o_ok_def)
    obtain k where "k < length steps" "length (fr_entries r) = length (es @ [e]) + Suc k"
      "g (fr_world r) = fold (\<lambda>F. F) (take k Fs') (g (o_world (s w prev)))"
      using Cons.IH [OF rest Cons.prems(2) Fs(3)] Cons.prems(4) by (metis list.set_intros(2))
    then show ?thesis by (intro exI [of _ "Suc k"]) (simp add: Fs(1) one)
  next
    case False
    then have "g (o_world (s w prev)) = g w" using Cons.prems(4) e by (simp add: o_ok_def)
    then show ?thesis using Cons.prems(1) e False by (intro exI [of _ 0]) (auto simp: Let_def)
  qed
qed auto

lemma steps_stop:
  "\<lbrakk>runSteps w steps = Some r; \<not> fr_ok r; list_all2 does Fs steps;
    \<And>s w p. s \<in> set steps \<Longrightarrow> \<not> o_ok (s w p) \<Longrightarrow> g (o_world (s w p)) = g w; length (fr_entries r) = Suc k\<rbrakk> \<Longrightarrow>
   g (fr_world r) = fold (\<lambda>F. F) (take k Fs) (g w)"
  unfolding runSteps_def by (drule (2) run_stops) auto

end

interpretation gapF: flow_view peg_gap ..

definition shifts :: "int \<Rightarrow> flow_step \<Rightarrow> bool" where
  \<comment> \<open>a step that commits adds \<open>d\<close> to the gap\<close>
  "shifts d s \<longleftrightarrow> gapF.does (\<lambda>v. v + d) s"

lemma shifts_none: "(\<And>w p. peg_gap (o_world (s w p)) = peg_gap w) \<Longrightarrow> shifts 0 s"
  by (simp add: shifts_def gapF.does_def)

lemma shifts_money:
  "shifts (- v) (\<lambda>w _. stkPush H w cl v fl fail)" "shifts v (\<lambda>w _. bridgeMint H w f to v r fl ti)"
  "shifts v (\<lambda>w _. b2cPayout H w to v fl fail)" "shifts (- v) (\<lambda>w _. bridgeBurn H w f v r fl ti)"
  unfolding shifts_def by (rule gapF.doesI; simp only: stkPush_def bridgeMint_def b2cPayout_def bridgeBurn_def; erule gapF.call_does;
      auto simp: body_simps peg_gap_def)+

lemma fold_shifts: "fold (\<lambda>F. F) (map (\<lambda>d v. v + d) ds) (x :: int) = x + sum_list ds"
  by (induction ds arbitrary: x) auto

lemma runSteps_shift:
  assumes "runSteps w steps = Some r" and "fr_ok r" and "list_all2 shifts ds steps" and "sum_list ds = 0"
  shows "peg_gap (fr_world r) = peg_gap w"
proof -
  have "list_all2 gapF.does (map (\<lambda>d v. v + d) ds) steps" using assms(3) by (simp add: list_all2_map1 shifts_def [abs_def])
  from gapF.steps_do [OF assms(1,2) this] show ?thesis by (simp add: fold_shifts assms(4))
qed

lemma shifts_signed:
  "shifts 0 (\<lambda>w p. permit H w f (g p) fl ti)" "shifts 0 (\<lambda>w p. depositWithPermit H w f cl v (g p) fl ti)"
  "shifts 0 (\<lambda>w p. withdrawWithSig H w f (ga p) (gd p) fl ti)" "shifts 0 (\<lambda>w p. transferDeposit H w f (ga p) (gd p) fl ti)"
  "shifts 0 (\<lambda>w _. signPermit H w ow s v fl ti)" "shifts 0 (\<lambda>w _. signAuth H w k ow to v fl ti)"
  "shifts 0 (\<lambda>w _. issueVoucher H w to v r fl)" "shifts 0 (\<lambda>w _. transferFrom H w f ow to v fl ti)"
  "shifts 0 (\<lambda>w _. transfer H w f to v fl ti)" "shifts 0 (\<lambda>w _. withdrawDeposit H w f v fl ti)"
  "shifts 0 (\<lambda>w _. settleTicketBatch H w f ts fl ti)" "shifts 0 (\<lambda>w _. claimEarnings H w f to v fl ti)"
  "shifts 0 (\<lambda>w _. claim H w f fl ti)" "shifts 0 (\<lambda>w _. setBridge H w f b al (mc w) fl)"
  by (rule shifts_none; simp only: gap_calls)+

lemmas all_shifts = shifts_money shifts_signed

lemma buy_gap: "\<lbrakk>buy H n w cl v fail = Some r; fr_ok r\<rbrakk> \<Longrightarrow> peg_gap (fr_world r) = peg_gap w"
  unfolding buy_def Let_def
  by (erule runSteps_shift [where ds = "[- v, v, 0]"]) (simp_all add: all_shifts)

lemma cashOut_gap: "\<lbrakk>cashOut H n w cl v fail = Some r; fr_ok r\<rbrakk> \<Longrightarrow> peg_gap (fr_world r) = peg_gap w"
  unfolding cashOut_def Let_def
  by (erule runSteps_shift [where ds = "[0, 0, 0, v, - v]"]) (simp_all add: all_shifts)

lemma retryPayout_gap: "\<lbrakk>retryPayout H n w cl v = Some r; fr_ok r\<rbrakk> \<Longrightarrow> peg_gap (fr_world r) = peg_gap w"
  unfolding retryPayout_def Let_def
  by (erule runSteps_shift [where ds = "[v, - v]"]) (simp_all add: all_shifts)

lemma nodeCashOut_gap: "\<lbrakk>nodeCashOut H n w = Some r; fr_ok r\<rbrakk> \<Longrightarrow> peg_gap (fr_world r) = peg_gap w"
  unfolding nodeCashOut_def Let_def
  by (erule runSteps_shift [where ds = "[0, tk_bal (w_token w) (Wallet Node), - tk_bal (w_token w) (Wallet Node)]"])
     (simp_all add: all_shifts)

lemma setup_gap: "\<lbrakk>setupNetwork H n w = Some r; fr_ok r\<rbrakk> \<Longrightarrow> peg_gap (fr_world r) = peg_gap w"
proof -
  assume s: "setupNetwork H n w = Some r" "fr_ok r"
  let ?w = "if w_deployed w then w else deploy H w (newFlow ''Deploy and configure'' n)"
  obtain r' where r': "runSteps ?w [\<lambda>x _. setBridge H x Owner Kiosk True (kes (p_mintCapKes (w_params x)))
      (newFlow ''Deploy and configure'' n)] = Some r'" and r: "fr_world r = fr_world r'" "fr_ok r = fr_ok r'"
    using s(1) by (auto simp: setupNetwork_def Let_def)
  have "peg_gap (fr_world r') = peg_gap ?w"
    using s(2) by (intro runSteps_shift [where ds = "[0]", OF r']) (simp_all add: r all_shifts)
  then show ?thesis by (simp add: r gap_calls)
qed

lemma quiet_flows_gap:
  "\<lbrakk>depositGasless H n w cl v = Some r; fr_ok r\<rbrakk> \<Longrightarrow> peg_gap (fr_world r) = peg_gap w"
  "\<lbrakk>withdraw H n w cl v = Some r; fr_ok r\<rbrakk> \<Longrightarrow> peg_gap (fr_world r) = peg_gap w"
  "\<lbrakk>withdrawGasless H n w cl v to = Some r; fr_ok r\<rbrakk> \<Longrightarrow> peg_gap (fr_world r) = peg_gap w"
  "\<lbrakk>sendEscrow H n w fr to v = Some r; fr_ok r\<rbrakk> \<Longrightarrow> peg_gap (fr_world r) = peg_gap w"
  "\<lbrakk>relayBatch H n w nd only = Some r; fr_ok r\<rbrakk> \<Longrightarrow> peg_gap (fr_world r) = peg_gap w"
  "\<lbrakk>nodeClaim H n w = Some r; fr_ok r\<rbrakk> \<Longrightarrow> peg_gap (fr_world r) = peg_gap w"
  "\<lbrakk>sweepFees H n w fr = Some r; fr_ok r\<rbrakk> \<Longrightarrow> peg_gap (fr_world r) = peg_gap w"
  "\<lbrakk>send H n w fr to v = Some r; fr_ok r\<rbrakk> \<Longrightarrow> peg_gap (fr_world r) = peg_gap w"
  unfolding depositGasless_def withdraw_def withdrawGasless_def sendEscrow_def relayBatch_def nodeClaim_def sweepFees_def
    send_def Let_def
  by (erule runSteps_shift [where ds = "[0, 0]"] runSteps_shift [where ds = "[0]"] runSteps_shift [where ds = "[0, 0, 0]"];
      simp add: all_shifts)+

lemma nodeOut_gap: "\<lbrakk>run_node_out H n w only = Some r; fr_ok r\<rbrakk> \<Longrightarrow> peg_gap (fr_world r) = peg_gap w"
  by (auto simp: run_node_out_def Let_def ready_result_def split: if_splits bind_splits
      dest!: nodeCashOut_gap quiet_flows_gap(6))

lemma params_gap [simp]: "peg_gap (w\<lparr>w_params := p\<rparr>) = peg_gap w"
  by (simp add: peg_gap_def)

lemma step_gap: "\<lbrakk>step_run H n s w f = Some r; fr_ok r\<rbrakk> \<Longrightarrow> peg_gap (fr_world r) = peg_gap w"
  by (cases s)
     (auto dest!: setup_gap dest: buy_gap quiet_flows_gap nodeOut_gap cashOut_gap split: if_splits)

section \<open>Money\<close>

type_synonym money = "(holder \<Rightarrow> int) \<times> int \<times> (actor \<Rightarrow> int) \<times> int"

definition money :: "world \<Rightarrow> money" where
  \<comment> \<open>token balances and supply, M-Pesa balances and the kiosk's float\<close>
  "money w = (tk_bal (w_token w), tk_supply (w_token w), fi_mpesa (w_fiat w), fi_float (w_fiat w))"

interpretation monF: flow_view money
  by unfold_locales (simp add: core_eq_iff money_def)

definition pay_tokens :: "actor \<Rightarrow> actor \<Rightarrow> int \<Rightarrow> money \<Rightarrow> money" where
  "pay_tokens from to v m = (case m of (b, s, p, f) \<Rightarrow> (moved (Wallet from) (Wallet to) v b, s, p, f))"

definition pay_out :: "actor \<Rightarrow> int \<Rightarrow> money \<Rightarrow> money" where
  "pay_out to v m = (case m of (b, s, p, f) \<Rightarrow> (b, s, p(to := p to + v), f - v))"

definition burn_tokens :: "actor \<Rightarrow> int \<Rightarrow> money \<Rightarrow> money" where
  "burn_tokens from v m = (case m of (b, s, p, f) \<Rightarrow> (b(Wallet from := b (Wallet from) - v), s - v, p, f))"

lemma money_steps:
  "monF.does id (\<lambda>w _. signPermit H w ow sp v fl ti)"
  "monF.does id (\<lambda>w p. permit H w f (pp p) fl ti)"
  "monF.does (pay_tokens ow to v) (\<lambda>w _. transferFrom H w f ow to v fl ti)"
  "monF.does (pay_out to v) (\<lambda>w _. b2cPayout H w to v fl fail)"
  "monF.does (burn_tokens f v) (\<lambda>w _. bridgeBurn H w f v r fl ti)"
  by (rule monF.doesI; simp only: signPermit_def permit_def transferFrom_def b2cPayout_def bridgeBurn_def Let_def;
      erule monF.call_does; auto simp: body_simps; auto simp: money_def pay_tokens_def pay_out_def burn_tokens_def set_allow_def)+

lemma call_failed_money: "\<not> o_ok (call H w sp body) \<Longrightarrow> money (o_world (call H w sp body)) = money w"
  by (rule monF.view_eq) (rule call_fail_core)

lemma failed_money:
  "\<not> o_ok (signPermit H w ow sp v fl ti) \<Longrightarrow> money (o_world (signPermit H w ow sp v fl ti)) = money w"
  "\<not> o_ok (permit H w f p fl ti) \<Longrightarrow> money (o_world (permit H w f p fl ti)) = money w"
  "\<not> o_ok (transferFrom H w f ow to v fl ti) \<Longrightarrow> money (o_world (transferFrom H w f ow to v fl ti)) = money w"
  "\<not> o_ok (b2cPayout H w to v fl fail) \<Longrightarrow> money (o_world (b2cPayout H w to v fl fail)) = money w"
  "\<not> o_ok (bridgeBurn H w f v r fl ti) \<Longrightarrow> money (o_world (bridgeBurn H w f v r fl ti)) = money w"
  by (simp_all only: signPermit_def permit_def transferFrom_def b2cPayout_def bridgeBurn_def Let_def call_failed_money not_False_eq_True)

lemma cash_out_paid:
  assumes "cashOut H n w cl v fail = Some r" and "fr_ok r"
  shows "money (fr_world r) = burn_tokens Kiosk v (pay_out cl v (pay_tokens cl Kiosk v (money w)))"
  using monF.steps_do [of w _ r "[id, id, pay_tokens cl Kiosk v, pay_out cl v, burn_tokens Kiosk v]"] assms
  by (simp add: cashOut_def Let_def money_steps)

lemma cash_out_stopped:
  assumes "cashOut H n w cl v fail = Some r" and "\<not> fr_ok r" and "length (fr_entries r) = 4"
  shows "money (fr_world r) = pay_tokens cl Kiosk v (money w)"
proof -
  have "money (fr_world r) = fold (\<lambda>F. F) (take 3 [id, id, pay_tokens cl Kiosk v, pay_out cl v, burn_tokens Kiosk v]) (money w)"
    by (rule monF.steps_stop [OF assms(1) [unfolded cashOut_def Let_def] assms(2)])
       (use assms(3) in \<open>auto simp: money_steps failed_money\<close>)
  then show ?thesis by simp
qed

lemma retry_paid:
  assumes "retryPayout H n w cl v = Some r" and "fr_ok r"
  shows "money (fr_world r) = burn_tokens Kiosk v (pay_out cl v (money w))"
  using monF.steps_do [of w _ r "[pay_out cl v, burn_tokens Kiosk v]"] assms
  by (simp add: retryPayout_def Let_def money_steps)

end
