(* ===== verification/Exits.thy ===== *)
theory Exits
  imports Authority
begin

text \<open>
  The gasless exits: a relayer submits a client's signed authorisation (\<open>withdrawWithSig\<close>, \<open>transferDeposit\<close>).
  What binds it is that two authorisations have different digests (\<open>keccak_apart\<close>), that a signature opens only
  the digest it was made for (\<open>sig_apart\<close>), and that nonces only grow.

  Both hypotheses are about the finitely many authorisations whose numbers are below \<open>2 ^ 40\<close>: over a million
  shillings, and some 34,000 years.

  Before that: the EIP-55 address text of \<open>web/src/demo/crypto.js\<close> reads back as the twenty bytes it was made of, whatever
  the case its checksum gives each letter.
\<close>

section \<open>Addresses read back as their bytes\<close>

lemma of_char_upper: "d < 16 \<Longrightarrow> (of_char (upper_char (hex_char d)) :: nat) = (if d < 10 then 48 + d else 55 + d)"
  by (auto simp: upper_char_def is_lower_def Let_def of_char_hex_char of_char_of)

lemma hex_char_upper:
  assumes "d < 16"
  shows "hex_val (upper_char (hex_char d)) = Some d" and "\<not> is_ws (upper_char (hex_char d))"
    and "upper_char (hex_char d) \<noteq> CHR ''-''" and "upper_char (hex_char d) \<noteq> CHR ''+''"
    and "upper_char (hex_char d) \<noteq> CHR ''x''" and "upper_char (hex_char d) \<noteq> CHR ''X''"
proof -
  have n: "(of_char (upper_char (hex_char d)) :: nat) \<in> {48..57} \<union> {65..70}"
    using assms by (auto simp: of_char_upper)
  show "hex_val (upper_char (hex_char d)) = Some d" using assms by (simp add: hex_val_def of_char_upper)
  show "\<not> is_ws (upper_char (hex_char d))" using n by (auto simp: is_ws_def Let_def)
  show "upper_char (hex_char d) \<noteq> CHR ''-''" and "upper_char (hex_char d) \<noteq> CHR ''+''"
    and "upper_char (hex_char d) \<noteq> CHR ''x''" and "upper_char (hex_char d) \<noteq> CHR ''X''"
    using n by (auto simp del: of_char_mod_256)
qed

definition either_case :: "bool \<Rightarrow> char \<Rightarrow> char" where
  "either_case up c = (if up then upper_char c else c)"

lemma either_case_plain:
  assumes "d < 16"
  shows "hex_val (either_case up (hex_char d)) = Some d" "\<not> is_ws (either_case up (hex_char d))"
    "either_case up (hex_char d) \<noteq> CHR ''-''" "either_case up (hex_char d) \<noteq> CHR ''+''"
    "either_case up (hex_char d) \<noteq> CHR ''x''" "either_case up (hex_char d) \<noteq> CHR ''X''"
  using hex_char_upper [OF assms] hex_char_plain [OF assms] hex_val_hex_char [OF assms] by (auto simp: either_case_def)

lemma byte_of_either:
  assumes "h < 16" "l < 16"
  shows "byte_of_pair (either_case p (hex_char h)) (either_case q (hex_char l)) = word_of_nat (16 * h + l)"
  using either_case_plain [OF assms(1), of p] either_case_plain [OF assms(2), of q]
  by (simp add: byte_of_pair_def parse_hex_def)

lemma byte_hex_chars: "\<exists>h l. h < 16 \<and> l < 16 \<and> byte_hex b = [hex_char h, hex_char l] \<and> word_of_nat (16 * h + l) = b"
proof -
  have lt: "unat b < 256" using unsigned_less [of b] by simp
  show ?thesis
    by (rule exI [of _ "unat b div 16"], rule exI [of _ "unat b mod 16"]) (use lt in \<open>simp add: byte_hex_def nat_hex_byte\<close>)
qed

lemma hex_pairs_either:
  "length us = 2 * length bs \<Longrightarrow> hex_pairs (map (\<lambda>(u, c). either_case u c) (zip us (concat (map byte_hex bs)))) = bs"
proof (induction bs arbitrary: us)
  case (Cons b bs)
  obtain p q us' where us: "us = p # q # us'" using Cons.prems by (cases us; cases "tl us") auto
  obtain h l where b: "h < 16" "l < 16" "byte_hex b = [hex_char h, hex_char l]" "word_of_nat (16 * h + l) = b"
    using byte_hex_chars by blast
  show ?case using Cons b(4) by (simp add: us b(3) byte_of_either b(1,2))
qed simp

lemma lower_hex: "map lower_char (concat (map byte_hex bs)) = concat (map byte_hex bs)"
proof -
  have l: "lower_char (hex_char d) = hex_char d" if "d < 16" for d
    using that by (simp add: lower_char_def is_upper_def Let_def of_char_hex_char)
  have "map lower_char (byte_hex b) = byte_hex b" for b
  proof -
    obtain h k where "h < 16" "k < 16" "byte_hex b = [hex_char h, hex_char k]" using byte_hex_chars by blast
    then show ?thesis by (simp add: l)
  qed
  then show ?thesis by (induction bs) simp_all
qed

lemma checksum_bytes:
  assumes "\<And>x. length (h_keccak H x) = 32" and "length bs = 20"
  shows "hexToBytes (checksum H (bytesToHex bs)) = bs"
proof -
  let ?s = "concat (map byte_hex bs)"
  have s: "length ?s = 40" using length_bytesToHex [of bs] assms(2) by (simp add: bytesToHex_def)
  have low: "map lower_char (''0x'' @ ?s) = ''0x'' @ ?s" by (simp add: lower_hex lower_char_def is_upper_def)
  define us where "us = map (\<lambda>h. case hex_val h of None \<Rightarrow> False | Some d \<Rightarrow> 8 \<le> d) (take 40 (drop 2 (bytesToHex (keccakText H ?s))))"
  have "checksum H (bytesToHex bs) = ''0x'' @ map (\<lambda>(u, c). either_case u c) (zip us ?s)"
    unfolding checksum_def bytesToHex_def [of bs] low
    by (simp add: Let_def starts_with_def us_def s zip_map1 either_case_def)
      (auto simp: either_case_def split: prod.splits)
  moreover have "length us = 2 * length bs" by (simp add: us_def length_bytesToHex keccakText_def assms)
  ultimately show ?thesis by (simp add: hexToBytes_def starts_with_def hex_pairs_either)
qed

section \<open>Nonces only grow\<close>

definition auth_nonce :: "world \<Rightarrow> actor \<Rightarrow> int" where
  "auth_nonce w a = es_authNonces (w_escrow w) a"

definition nonce_le :: "world \<Rightarrow> world \<Rightarrow> bool" where
  "nonce_le w0 w \<longleftrightarrow> (\<forall>a. auth_nonce w0 a \<le> auth_nonce w a)"

lemma nonce_le_refl [simp]: "nonce_le w w"
  by (simp add: nonce_le_def)

lemma nonce_le_trans: "nonce_le a b \<Longrightarrow> nonce_le b c \<Longrightarrow> nonce_le a c"
  unfolding nonce_le_def using order_trans by blast

lemma nonce_le_same: "es_authNonces (w_escrow w) = es_authNonces (w_escrow w0) \<Longrightarrow> nonce_le w0 w"
  by (simp add: nonce_le_def auth_nonce_def)

interpretation nonceP: core_predicate "nonce_le w0" for w0
  by unfold_locales (simp add: core_eq_iff nonce_le_def auth_nonce_def)

lemma settled_nonces: "fst (settleTicketBatch_body H f ts x c) = Inr x' \<Longrightarrow> es_authNonces (w_escrow x') = es_authNonces (w_escrow x)"
proof -
  assume "fst (settleTicketBatch_body H f ts x c) = Inr x'"
  then obtain a where a: "fst (settle_loop H 0 ts (settle_start x) c) = Inr a" and x': "x' = settle_finish a"
    by (auto simp: settle_commits)
  have "es_authNonces (w_escrow (sa_world a)) = es_authNonces (w_escrow x)"
    by (rule settle_loop_rule [OF a])
      (auto simp: settle_one_Inr settle_start_def ticket_settled_def pay_ticket_eq record_channel_def esc_upd_def
        set_deposit_def set_earning_def)
  then show ?thesis by (simp add: x' settle_finish_def)
qed

lemma escrow_exec_nonce: "nonce_le w (escrow_exec H w op)"
proof (cases op)
  case (Settle f ts)
  show ?thesis
    unfolding Settle escrow_exec.simps settleTicketBatch_def
    by (rule nonceP.call_preserves) (auto intro: nonce_le_trans nonce_le_same settled_nonces)
qed (simp only: escrow_exec.simps escrow_call_defs, rule nonceP.call_preserves, simp, erule nonce_le_trans,
     (auto simp: doDeposit_commits depositWithPermit_commits withdrawDeposit_commits withdrawWithSig_commits
       transferDeposit_commits claimEarnings_commits setPricePerUnit_commits nonce_le_def auth_nonce_def)[1])+

lemma exec_nonce: "nonce_le w (exec H w op)"
proof (cases op)
  case (TokenOp o1)
  show ?thesis using token_exec_rules [of H w o1] by (simp add: TokenOp rules_view_def nonce_le_same)
next
  case (EscrowOp o1)
  then show ?thesis by (simp add: escrow_exec_nonce)
next
  case (TreasuryOp o1)
  show ?thesis using treasury_exec_bank [of H w o1] by (simp add: TreasuryOp bank_view_def nonce_le_same)
next
  case (OffOp o1)
  show ?thesis using off_exec_contracts [of H w o1] by (simp add: OffOp contract_view_def nonce_le_same)
qed

lemma run_nonce: "nonce_le w (foldl (exec H) w ops)"
  by (induction ops rule: rev_induct) (auto intro: nonce_le_trans exec_nonce)

section \<open>Digests of authorisations\<close>

definition auth_parts :: "host \<Rightarrow> auth_kind \<Rightarrow> actor \<Rightarrow> actor \<Rightarrow> int \<Rightarrow> int \<Rightarrow> int \<Rightarrow> digest_parts" where
  "auth_parts H k f t v n d = authDigest H k (addr H f) (addr H t) v n d ESCROW_DOMAIN"

definition small :: "int \<Rightarrow> bool" where
  "small v \<longleftrightarrow> 0 \<le> v \<and> v < 2 ^ 40"

definition auths :: "(auth_kind \<times> actor \<times> actor \<times> int \<times> int \<times> int) set" where
  "auths = {(k, f, t, v, n, d). small v \<and> small n \<and> small d}"

definition auth_fields_of :: "host \<Rightarrow> auth_kind \<times> actor \<times> actor \<times> int \<times> int \<times> int \<Rightarrow> digest_parts" where
  "auth_fields_of H m = (case m of (k, f, t, v, n, d) \<Rightarrow> auth_parts H k f t v n d)"

definition keccak_apart :: "host \<Rightarrow> bool" where
  \<comment> \<open>the hash separates what it is applied to for authorisations, and the demo wallets have different addresses\<close>
  "keccak_apart H \<longleftrightarrow>
     keccakText H WITHDRAW_TYPE \<noteq> keccakText H TRANSFER_TYPE \<and>
     inj (\<lambda>a. hexToBytes (addr H a)) \<and>
     inj_on (h_keccak H) ((\<lambda>m. dg_encoded (auth_fields_of H m)) ` auths) \<and>
     inj_on (h_keccak H) ((\<lambda>m. dg_preimage (auth_fields_of H m)) ` auths)"

definition sig_apart :: "host \<Rightarrow> bool" where
  \<comment> \<open>a signature of one authorisation does not recover to its signer for another\<close>
  "sig_apart H \<longleftrightarrow>
     (\<forall>a. \<forall>m \<in> auths. \<forall>m' \<in> auths.
        recoverAddress H (dg_digest (auth_fields_of H m')) (wallet_sig H (dg_digest (auth_fields_of H m)) a) = Some (addr H a) \<longrightarrow>
        dg_digest (auth_fields_of H m') = dg_digest (auth_fields_of H m))"

lemma address_bytes:
  assumes "\<And>x. length (h_keccak H x) = 32"
  shows "hexToBytes (addr H a) = drop 12 (h_keccak H (drop 1 (h_pub H (dk_secret (KEYS H a)))))"
  by (simp add: addr_def KEYS_def demoKey_def addressOf_def address_of_point_def Let_def checksum_bytes assms)

lemma parts_fields:
  "dg_encoded (auth_parts H k f t v n d) =
     keccakText H (if k = KWithdraw then WITHDRAW_TYPE else TRANSFER_TYPE) @ addressWord (addr H f) @ addressWord (addr H t) @
     uintWord v @ uintWord n @ uintWord d"
  "dg_preimage (auth_parts H k f t v n d) =
     [0x19, 0x01] @ dp_separator (domainSeparator H ESCROW_DOMAIN) @ h_keccak H (dg_encoded (auth_parts H k f t v n d))"
  "dg_digest (auth_parts H k f t v n d) = h_keccak H (dg_preimage (auth_parts H k f t v n d))"
  by (simp_all add: auth_parts_def authDigest_def struct_digest_def finalDigest_def Let_def concat_bytes_def)

lemma small_uintWord: "small v \<Longrightarrow> small v' \<Longrightarrow> uintWord v = uintWord v' \<longleftrightarrow> v = v'"
  using uintWord_inject [of v v'] by (auto simp: small_def)

text \<open>Two authorisations with the same digest are the same authorisation.\<close>

lemma digest_binds:
  assumes len: "\<And>x. length (h_keccak H x) = 32" and apart: "keccak_apart H"
    and "small v" "small n" "small d" "small v'" "small n'" "small d'"
    and "dg_digest (auth_parts H k f t v n d) = dg_digest (auth_parts H k' f' t' v' n' d')"
  shows "k = k' \<and> f = f' \<and> t = t' \<and> v = v' \<and> n = n' \<and> d = d'"
proof -
  let ?m = "(k, f, t, v, n, d)" and ?m' = "(k', f', t', v', n', d')"
  have m: "?m \<in> auths" "?m' \<in> auths" using assms by (simp_all add: auths_def)
  have inj: "inj_on (h_keccak H) ((\<lambda>m. dg_encoded (auth_fields_of H m)) ` auths)"
    "inj_on (h_keccak H) ((\<lambda>m. dg_preimage (auth_fields_of H m)) ` auths)"
    using apart by (simp_all add: keccak_apart_def)
  have eq: "h_keccak H (dg_preimage (auth_fields_of H ?m)) = h_keccak H (dg_preimage (auth_fields_of H ?m'))"
    using assms(9) by (simp add: auth_fields_of_def parts_fields(3))
  have pre: "dg_preimage (auth_fields_of H ?m) = dg_preimage (auth_fields_of H ?m')"
    by (rule inj_onD [OF inj(2) eq]) (rule imageI, rule m)+
  then have "h_keccak H (dg_encoded (auth_fields_of H ?m)) = h_keccak H (dg_encoded (auth_fields_of H ?m'))"
    by (simp add: auth_fields_of_def parts_fields(2))
  then have enc: "dg_encoded (auth_fields_of H ?m) = dg_encoded (auth_fields_of H ?m')"
    by (rule inj_onD [OF inj(1)]) (rule imageI, rule m)+
  have parts: "keccakText H (if k = KWithdraw then WITHDRAW_TYPE else TRANSFER_TYPE)
        = keccakText H (if k' = KWithdraw then WITHDRAW_TYPE else TRANSFER_TYPE)"
    "addressWord (addr H f) @ addressWord (addr H t) @ uintWord v @ uintWord n @ uintWord d =
     addressWord (addr H f') @ addressWord (addr H t') @ uintWord v' @ uintWord n' @ uintWord d'"
    using enc by (simp_all add: auth_fields_of_def parts_fields(1) keccakText_def len)
  have words: "hexToBytes (addr H f) = hexToBytes (addr H f') \<and> hexToBytes (addr H t) = hexToBytes (addr H t') \<and>
      uintWord v = uintWord v' \<and> uintWord n = uintWord n' \<and> uintWord d = uintWord d'"
    by (rule five_words_inject [OF parts(2)]) (simp_all add: address_bytes len)
  have "inj (\<lambda>a. hexToBytes (addr H a))" using apart by (simp add: keccak_apart_def)
  then have "f = f'" "t = t'" using words by (auto dest: injD)
  moreover have "k = k'" using parts(1) apart by (cases k; cases k') (simp_all add: keccak_apart_def)
  ultimately show ?thesis using words assms by (simp add: small_uintWord)
qed

section \<open>What a signature opens\<close>

definition signed_auth :: "host \<Rightarrow> auth_kind \<Rightarrow> actor \<Rightarrow> actor \<Rightarrow> int \<Rightarrow> int \<Rightarrow> int \<Rightarrow> string" where
  \<comment> \<open>\<open>ow\<close>'s signature of the authorisation of \<open>v\<close> to \<open>to\<close> at nonce \<open>n\<close> until \<open>d\<close>\<close>
  "signed_auth H k ow to v n d = wallet_sig H (dg_digest (auth_parts H k ow to v n d)) ow"

lemma accepted_only_signed:
  assumes "\<And>x. length (h_keccak H x) = 32" and "keccak_apart H" and sig: "sig_apart H"
    and "au_signature a = signed_auth H k (au_from a) to v n d"
    and s: "small v" "small n" "small d" "small (au_amount a)" "small (au_deadline a)" "small (auth_nonce x (au_from a))"
    and "auth_accepted H k' a dest x"
  shows "k' = k \<and> dest = to \<and> au_amount a = v \<and> auth_nonce x (au_from a) = n \<and> au_deadline a = d"
proof -
  let ?m = "(k, au_from a, to, v, n, d)" and ?m' = "(k', au_from a, dest, au_amount a, auth_nonce x (au_from a), au_deadline a)"
  have m: "?m \<in> auths" "?m' \<in> auths" using s by (simp_all add: auths_def)
  have "recoverAddress H (dg_digest (auth_fields_of H ?m')) (wallet_sig H (dg_digest (auth_fields_of H ?m)) (au_from a)) = Some (addr H (au_from a))"
    using assms(4,11) by (simp add: auth_accepted_def auth_digest_def auth_nonce_def auth_fields_of_def auth_parts_def signed_auth_def)
  then have "dg_digest (auth_fields_of H ?m') = dg_digest (auth_fields_of H ?m)" using sig m unfolding sig_apart_def by blast
  then show ?thesis
    using digest_binds [OF assms(1,2), of "au_amount a" "auth_nonce x (au_from a)" "au_deadline a" v n d] s
    by (simp add: auth_fields_of_def)
qed

end
