(* ===== verification/ExitGuarantees.thy ===== *)
theory ExitGuarantees
  imports Exits Samples Calldata
begin

text \<open>
  The properties of the gasless exits: a relayer can submit a client's authorisation, and nothing else.

  Before them, for the witnesses: the sample host separates authorisations.  Its hash keeps the last five bytes of every word of
  a struct, which is all there is of a small number and enough to tell the wallets and the two struct types apart.
\<close>

section \<open>What the sample hash keeps\<close>

lemma last32_end: "drop 31 (last32 (xs @ [a])) = [a]"
proof -
  have "drop (32 + length xs) (replicate 32 0 @ xs @ [a]) = [a]" by simp
  then show ?thesis by (simp only: last32_def drop_drop) (simp add: add.commute)
qed

lemma sample_hash_text: "length bs \<noteq> 192 \<Longrightarrow> bs \<noteq> [] \<Longrightarrow> drop 31 (sample_hash bs) = [hd bs]"
  using last32_end [of bs "hd bs"] by (cases bs) (simp_all add: sample_hash_def)

lemma sample_hash_66: "length s = 32 \<Longrightarrow> length p = 34 \<Longrightarrow> sample_hash (p @ s) = drop 1 s @ take 1 p"
  by (cases p) (simp_all add: sample_hash_def last32_def)

lemma sample_hash_struct:
  assumes "length w0 = 32" "length w1 = 32" "length w2 = 32" "length w3 = 32" "length w4 = 32" "length w5 = 32"
  shows "sample_hash (w0 @ w1 @ w2 @ w3 @ w4 @ w5) =
    [0, 0] @ drop 27 w0 @ drop 27 w1 @ drop 27 w2 @ drop 27 w3 @ drop 27 w4 @ drop 27 w5"
  using assms by (simp add: sample_hash_def slice_def upt_rec)

lemma uint_bytes_split: "uint_bytes (i + j) v acc = uint_bytes i (v div 256 ^ j) (uint_bytes j v acc)"
  by (induction j arbitrary: v acc) (simp_all add: zdiv_zmult2_eq)

lemma uint_bytes_acc: "uint_bytes i v acc = uint_bytes i v [] @ acc"
proof (induction i arbitrary: v acc)
  case (Suc i)
  show ?case by (simp, subst (1 2) Suc.IH, simp)
qed simp

lemma low_bytes: "drop 27 (uintWord v) = uint_bytes 5 v []"
  using uint_bytes_split [of 27 5 v "[]"] uint_bytes_acc [of 27 "v div 256 ^ 5" "uint_bytes 5 v []"]
  by (simp add: uintWord_def length_uint_bytes)

lemma low_bytes_small: "small v \<Longrightarrow> small w \<Longrightarrow> drop 27 (uintWord v) = drop 27 (uintWord w) \<longleftrightarrow> v = w"
proof -
  have "bytes_value (uint_bytes 5 u []) = u" if "small u" for u
    using that bytes_value_uint_bytes [of 5 u "[]"] by (simp add: small_def)
  then show "small v \<Longrightarrow> small w \<Longrightarrow> ?thesis" unfolding low_bytes by metis
qed

section \<open>The wallets of the sample host\<close>

definition mark :: "actor \<Rightarrow> bytes" where
  "mark a = drop 15 (hexToBytes (addr sample_host a))"

lemma mark_eq: "mark a = drop 28 (sample_hash (utf8 (''xkoin-demo:'' @ actor_key a))) @ [hd (sample_hash (utf8 (''xkoin-demo:'' @ actor_key a)))]"
proof -
  let ?s = "sample_hash (utf8 (''xkoin-demo:'' @ actor_key a))"
  have len: "length ?s = 32" by (rule length_sample_hash)
  have "hexToBytes (addr sample_host a) = drop 12 (sample_hash ?s)"
    by (simp add: address_bytes sample_keccak) (simp add: sample_host_def KEYS_def demoKey_def keccakText_def Let_def length_sample_hash)
  moreover have "sample_hash ?s = drop 1 ?s @ [hd ?s]"
    using len by (cases ?s) (simp_all add: sample_hash_def last32_def)
  ultimately show ?thesis using len by (simp add: mark_def)
qed

lemma marks_distinct: "distinct (map mark ACTORS)"
  by (simp add: ACTORS_def mark_eq utf8_def utf8_char_def sample_hash_def last32_def Let_def)

lemma mark_inject: "mark a = mark b \<longleftrightarrow> a = b"
  using marks_distinct by (metis actor_in_ACTORS distinct_map inj_onD)

lemma address_mark: "drop 27 (addressWord (addr sample_host a)) = mark a"
  by (simp add: addressWord_def concat_bytes_def mark_def)

lemma length_address: "length (addressWord (addr sample_host a)) = 32"
  by (simp add: length_addressWord address_bytes sample_keccak)

definition type_text :: "auth_kind \<Rightarrow> string" where
  "type_text k = (if k = KWithdraw then WITHDRAW_TYPE else TRANSFER_TYPE)"

lemma type_hash_end: "drop 31 (keccakText sample_host (type_text k)) = [if k = KWithdraw then 87 else 84]"
proof -
  have "length (utf8 (type_text k)) \<noteq> 192 \<and> utf8 (type_text k) \<noteq> [] \<and> hd (utf8 (type_text k)) = (if k = KWithdraw then 87 else 84)"
    by (simp add: type_text_def WITHDRAW_TYPE_def TRANSFER_TYPE_def utf8_def utf8_char_def Let_def)
  then show ?thesis using sample_hash_text [of "utf8 (type_text k)"] by (simp add: keccakText_def sample_host_def)
qed

lemma type_hash_inject: "drop 27 (keccakText sample_host (type_text k)) = drop 27 (keccakText sample_host (type_text k')) \<longleftrightarrow> k = k'"
proof
  assume "drop 27 (keccakText sample_host (type_text k)) = drop 27 (keccakText sample_host (type_text k'))"
  then have "drop 4 (drop 27 (keccakText sample_host (type_text k))) = drop 4 (drop 27 (keccakText sample_host (type_text k')))"
    by simp
  then show "k = k'" using type_hash_end [of k] type_hash_end [of k'] by (cases k; cases k') simp_all
qed simp

section \<open>Both hypotheses hold of it\<close>

lemma sample_hashes: "h_keccak sample_host = sample_hash"
  by (simp add: sample_host_def)

lemma sample_struct_hash:
  "h_keccak sample_host (dg_encoded (auth_parts sample_host k f t v n d)) =
     [0, 0] @ drop 27 (keccakText sample_host (type_text k)) @ mark f @ mark t @
       drop 27 (uintWord v) @ drop 27 (uintWord n) @ drop 27 (uintWord d)"
  unfolding parts_fields(1) type_text_def [symmetric] address_mark [symmetric] sample_hashes
  by (rule sample_hash_struct) (simp_all add: length_address keccakText_def sample_hashes length_sample_hash)

lemma length_mark: "length (mark a) = 5"
  by (simp add: mark_def address_bytes sample_keccak)

lemma sample_struct_inject:
  assumes "small v" "small n" "small d" "small v'" "small n'" "small d'"
    and "h_keccak sample_host (dg_encoded (auth_parts sample_host k f t v n d)) =
         h_keccak sample_host (dg_encoded (auth_parts sample_host k' f' t' v' n' d'))"
  shows "k = k' \<and> f = f' \<and> t = t' \<and> v = v' \<and> n = n' \<and> d = d'"
proof -
  have len: "length (keccakText sample_host x) = 32" for x by (simp add: keccakText_def sample_keccak)
  show ?thesis
    using assms(7) unfolding sample_struct_hash
    by (simp add: len length_mark mark_inject low_bytes_small assms type_hash_inject)
qed

lemma sample_structs_inj: "inj_on (h_keccak sample_host) ((\<lambda>m. dg_encoded (auth_fields_of sample_host m)) ` auths)"
proof (rule inj_onI, elim imageE)
  fix x y m m'
  assume x: "x = dg_encoded (auth_fields_of sample_host m)" "m \<in> auths" and y: "y = dg_encoded (auth_fields_of sample_host m')" "m' \<in> auths"
    and eq: "h_keccak sample_host x = h_keccak sample_host y"
  obtain k f t v n d where m: "m = (k, f, t, v, n, d)" by (cases m)
  obtain k' f' t' v' n' d' where m': "m' = (k', f', t', v', n', d')" by (cases m')
  have "m = m'"
    using sample_struct_inject [of v n d v' n' d' k f t k' f' t'] x y eq by (simp add: m m' auths_def auth_fields_of_def)
  then show "x = y" by (simp add: x y)
qed

lemma sample_preimages_inj: "inj_on (h_keccak sample_host) ((\<lambda>m. dg_preimage (auth_fields_of sample_host m)) ` auths)"
proof (rule inj_onI)
  let ?sep = "[0x19, 0x01] @ dp_separator (domainSeparator sample_host ESCROW_DOMAIN)"
  have sep: "length ?sep = 34" by (simp add: domainSeparator_def Let_def sample_keccak)
  have pre: "dg_preimage (auth_fields_of sample_host m) = ?sep @ h_keccak sample_host (dg_encoded (auth_fields_of sample_host m))" for m
    by (simp add: auth_fields_of_def parts_fields(2) split: prod.splits)
  have head: "\<exists>s. h_keccak sample_host (dg_encoded (auth_fields_of sample_host m)) = 0 # s \<and> length s = 31" for m
    using sample_keccak [of "dg_encoded (auth_fields_of sample_host m)"]
    by (cases m) (simp add: auth_fields_of_def sample_struct_hash)
  fix x y
  assume "x \<in> (\<lambda>m. dg_preimage (auth_fields_of sample_host m)) ` auths" "y \<in> (\<lambda>m. dg_preimage (auth_fields_of sample_host m)) ` auths"
    and eq: "h_keccak sample_host x = h_keccak sample_host y"
  then obtain m m' where x: "x = dg_preimage (auth_fields_of sample_host m)" and y: "y = dg_preimage (auth_fields_of sample_host m')" by blast
  obtain s s' where s: "h_keccak sample_host (dg_encoded (auth_fields_of sample_host m)) = 0 # s" "length s = 31"
    "h_keccak sample_host (dg_encoded (auth_fields_of sample_host m')) = 0 # s'" "length s' = 31"
    using head by blast
  have "s = s'" using eq sample_hash_66 [OF _ sep, of "0 # s"] sample_hash_66 [OF _ sep, of "0 # s'"] s
    by (simp add: x y pre sample_hashes)
  then show "x = y" by (simp add: x y pre s)
qed

lemma sample_keccak_apart: "keccak_apart sample_host"
proof -
  have "keccakText sample_host WITHDRAW_TYPE \<noteq> keccakText sample_host TRANSFER_TYPE"
    using type_hash_inject [of KWithdraw KTransfer] by (auto simp: type_text_def)
  moreover have "inj (\<lambda>a. hexToBytes (addr sample_host a))"
    by (rule injI) (metis mark_def mark_inject)
  ultimately show ?thesis using sample_structs_inj sample_preimages_inj by (simp add: keccak_apart_def)
qed

lemma sample_recover:
  assumes "length d = 32" "length d' = 32" and "recoverAddress sample_host d' (wallet_sig sample_host d a) \<noteq> None"
  shows "d = d'"
proof (rule ccontr)
  assume ne: "d \<noteq> d'"
  let ?s = "dk_secret (KEYS sample_host a)"
  have r: "h_sign sample_host d ?s = 0 # d @ last32 ?s" by (simp add: sample_host_def assms)
  have sig: "hexToBytes (wallet_sig sample_host d a) = d @ last32 ?s @ [27]"
    unfolding wallet_sig_def by (subst signDigest_bytes) (simp_all add: r assms)
  have none: "h_recover sample_host (0 # d @ last32 ?s) d' = None"
    using ne assms by (simp add: sample_host_def slice_def)
  have last: "(d @ last32 ?s @ [27]) ! 64 = 27" using assms by (simp add: nth_append)
  have whole: "slice 0 64 (d @ last32 ?s @ [27]) = d @ last32 ?s" using assms by (simp add: slice_def)
  have "recoverAddress sample_host d' (wallet_sig sample_host d a) = None"
    unfolding recoverAddress_def Let_def sig last whole using assms by (simp add: concat_bytes_def none)
  with assms(3) show False by simp
qed

lemma sample_sig_apart: "sig_apart sample_host"
  unfolding sig_apart_def
proof (intro allI ballI impI)
  fix a m m'
  assume "recoverAddress sample_host (dg_digest (auth_fields_of sample_host m')) (wallet_sig sample_host (dg_digest (auth_fields_of sample_host m)) a)
    = Some (addr sample_host a)"
  then show "dg_digest (auth_fields_of sample_host m') = dg_digest (auth_fields_of sample_host m)"
    by (intro sample_recover [symmetric, of _ _ a]) (simp_all add: auth_fields_of_def parts_fields(3) sample_keccak split: prod.splits)
qed

section \<open>What an accepted call has checked and done\<close>

abbreviation at_call :: "world \<Rightarrow> world" where
  "at_call w \<equiv> w\<lparr>w_t := w_t w + 2, w_block := w_block w + 1\<rparr>"

lemma withdraw_accepted:
  assumes "o_ok (withdrawWithSig H w f a dest flow title)"
  obtains to where "dest = Some to" and "auth_accepted H KWithdraw a to (at_call w)"
    and "deposit_of (o_world (withdrawWithSig H w f a dest flow title)) (au_from a) = deposit_of w (au_from a) - au_amount a"
    and "tk_bal (w_token (o_world (withdrawWithSig H w f a dest flow title))) (Wallet to) = tk_bal (w_token w) (Wallet to) + au_amount a"
    and "auth_nonce (o_world (withdrawWithSig H w f a dest flow title)) (au_from a) = auth_nonce w (au_from a) + 1"
proof -
  obtain w' where b: "fst (withdrawWithSig_body H a dest (at_call w) ctx0) = Inr w'"
    and core: "core (o_world (withdrawWithSig H w f a dest flow title)) = core w'"
    using chain_ok_body [OF assms [unfolded withdrawWithSig_def]] by (metis start_chain withdrawWithSig_def)
  have same: "w_escrow (o_world (withdrawWithSig H w f a dest flow title)) = w_escrow w'"
    "w_token (o_world (withdrawWithSig H w f a dest flow title)) = w_token w'"
    using core by (simp_all add: core_eq_iff)
  obtain to where to: "dest = Some to" "auth_accepted H KWithdraw a to (at_call w)"
    "w' = bal_upd (moved EscrowAcc (Wallet to) (au_amount a))
       (set_deposit (au_from a) (deposit_of (at_call w) (au_from a) - au_amount a) (nonce_used (au_from a) (at_call w)))"
    using b unfolding withdrawWithSig_commits by blast
  show ?thesis
    by (rule that [OF to(1,2)])
      (use same in \<open>simp_all add: deposit_of_def auth_nonce_def moved_def to(3)\<close>)
qed

lemma transfer_accepted:
  assumes "o_ok (transferDeposit H w f a dest flow title)"
  obtains to where "dest = Some to" and "auth_accepted H KTransfer a to (at_call w)"
    and "auth_nonce (o_world (transferDeposit H w f a dest flow title)) (au_from a) = auth_nonce w (au_from a) + 1"
proof -
  obtain w' where b: "fst (transferDeposit_body H a dest (at_call w) ctx0) = Inr w'"
    and core: "core (o_world (transferDeposit H w f a dest flow title)) = core w'"
    using chain_ok_body [OF assms [unfolded transferDeposit_def]] by (metis start_chain transferDeposit_def)
  have same: "w_escrow (o_world (transferDeposit H w f a dest flow title)) = w_escrow w'"
    using core by (simp add: core_eq_iff)
  obtain to x2 where to: "dest = Some to" "auth_accepted H KTransfer a to (at_call w)"
    "x2 = set_deposit (au_from a) (deposit_of (at_call w) (au_from a) - au_amount a) (nonce_used (au_from a) (at_call w))"
    "w' = set_deposit to (deposit_of x2 to + au_amount a) x2"
    using b unfolding transferDeposit_commits by blast
  show ?thesis
    by (rule that [OF to(1,2)]) (use same in \<open>simp add: auth_nonce_def to(3,4)\<close>)
qed

lemma at_call_nonce [simp]: "auth_nonce (at_call w) a = auth_nonce w a"
  by (simp add: auth_nonce_def)

lemma withdraw_gas:
  assumes "auth_accepted H KWithdraw a to x"
  obtains x' c where "withdrawWithSig_body H a (Some to) x ctx0 = (Inr x', c)"
    and "w_params x' = w_params x" and "w_eth x' = w_eth x"
    and "fst (gas_of (chain_spec ''withdrawWithSig'' k f args flow title) True c) \<le> 93358"
proof -
  obtain x' where x': "fst (withdrawWithSig_body H a (Some to) x ctx0) = Inr x'"
    "x' = bal_upd (moved EscrowAcc (Wallet to) (au_amount a))
       (set_deposit (au_from a) (deposit_of x (au_from a) - au_amount a) (nonce_used (au_from a) x))"
    using assms by (auto simp: withdrawWithSig_commits)
  have g: "fst (gas_of (chain_spec ''withdrawWithSig'' k f args flow title) True (snd (withdrawWithSig_body H a (Some to) x ctx0))) \<le> 93358"
    using assms
    by (auto simp: auth_accepted_def withdrawWithSig_body_def useAuth_def lift_body_def less_warm_def gas_of_def Let_def
        chain_spec_def gas_figure_def GAS_def gas_entry_def override_gas_def crypto_def emit_def commits_def ctx0_def esc_upd_def deposit_of_def)
  show ?thesis
    by (rule that [of x' "snd (withdrawWithSig_body H a (Some to) x ctx0)"])
      (use x' g in \<open>simp_all add: prod_eq_iff nonce_used_def bal_upd_def set_deposit_def esc_upd_def\<close>)
qed

text \<open>A withdrawal the escrow accepts commits when its relayer can pay the gas.\<close>

lemma withdraw_succeeds:
  assumes "\<And>x. length (h_keccak H x) = 32" and "auth_accepted H KWithdraw a to (at_call w)"
    and "gasToGwei 93358 (w_params w) \<le> w_eth w f" "0 \<le> p_gasPriceGwei (w_params w)" "0 \<le> p_l1FeePct (w_params w)"
  shows "o_ok (withdrawWithSig H w f a (Some to) flow title)"
proof -
  let ?sp = "chain_spec ''withdrawWithSig'' (Some EscrowC) f
      (AWithdrawWithSig (au_from a) (Some to) (au_amount a) (au_deadline a) (au_signature a)) flow title"
  obtain x' c where b: "withdrawWithSig_body H a (Some to) (at_call w) ctx0 = (Inr x', c)"
    and x': "w_params x' = w_params (at_call w)" "w_eth x' = w_eth (at_call w)" and g: "fst (gas_of ?sp True c) \<le> 93358"
    using assms(2) by (rule withdraw_gas)
  have "payable ?sp x' c"
    unfolding payable_def using gasToGwei_mono [OF g assms(4,5)] assms(3) by (simp add: x' spec_payer_def chain_spec_def)
  moreover have "tx_input_of H ?sp \<noteq> None"
    by (rule tx_input_total [OF assms(1)]) (simp add: chain_spec_def)
  ultimately show ?thesis unfolding withdrawWithSig_def call_ok_iff start_chain using b by blast
qed

text \<open>A fresh authorisation of the client is accepted for the destination it names.\<close>

lemma next_auth_accepted:
  assumes "ecdsa_ok H" and "0 < v" and "v \<le> deposit_of w ow"
  shows "auth_accepted H k (next_auth H w k ow to v) to (at_call w)"
proof -
  have "auth_digest H (at_call w) k (next_auth H w k ow to v) to = auth_digest H w k (next_auth H w k ow to v) to"
    by (simp add: auth_digest_def)
  then show ?thesis
    using assms wallet_sig_ok [OF assms(1)]
    by (simp add: auth_accepted_def next_auth_sig deposit_of_def)
qed

lemma next_auth_signed:
  "au_signature (next_auth H w k ow to v) = signed_auth H k ow to v (auth_nonce w ow) (w_t w + 3600)"
  by (simp add: next_auth_sig signed_auth_def auth_digest_def auth_parts_def auth_nonce_def)

definition sample_auth :: auth where
  "sample_auth = next_auth sample_host sample_world KWithdraw Amina Baraka 10000000"

lemma sample_auth_facts [simp]:
  "au_from sample_auth = Amina" "au_amount sample_auth = 10000000" "au_deadline sample_auth = START_TIME + 3600"
  by (simp_all add: sample_auth_def)

lemma sample_nonce [simp]: "auth_nonce sample_world a = 0"
  by (simp add: auth_nonce_def sample_world_def zeroes_def)

lemma sample_auth_signed: "au_signature sample_auth = signed_auth sample_host KWithdraw Amina Baraka 10000000 0 (START_TIME + 3600)"
  by (simp add: sample_auth_def next_auth_signed)

lemma sample_withdrawal: "o_ok (withdrawWithSig sample_host sample_world Relayer sample_auth (Some Baraka) None None)"
proof (rule withdraw_succeeds [OF sample_keccak])
  show "auth_accepted sample_host KWithdraw sample_auth Baraka (at_call sample_world)"
    unfolding sample_auth_def by (rule next_auth_accepted [OF sample_ecdsa_ok]) simp_all
qed (simp_all add: gasToGwei_def)

section \<open>An authorisation goes where it was signed to go\<close>

text \<open>C10. When a withdrawal that carries a client's signature of some authorisation succeeds, whoever relays it and
  whatever they put into the call, it is the authorisation the client signed: a withdrawal, to the signed
  destination, of the signed amount, before the signed deadline, at the client's current nonce; and exactly that
  amount moves from the client's deposit to that wallet.\<close>

theorem exit_goes_where_signed:
  assumes "\<And>x. length (h_keccak H x) = 32" and "keccak_apart H" and "sig_apart H"
    and "au_signature a = signed_auth H k (au_from a) to v n d"
    and "list_all small [v, n, d, au_amount a, au_deadline a, auth_nonce w (au_from a)]"
    and "o_ok (withdrawWithSig H w f a dest flow title)"
  shows "k = KWithdraw \<and> dest = Some to \<and> au_amount a = v \<and> auth_nonce w (au_from a) = n \<and> w_t w + 2 \<le> d \<and>
    (let w' = o_world (withdrawWithSig H w f a dest flow title)
     in deposit_of w' (au_from a) = deposit_of w (au_from a) - v \<and>
        tk_bal (w_token w') (Wallet to) = tk_bal (w_token w) (Wallet to) + v)"
proof -
  obtain t where t: "dest = Some t" "auth_accepted H KWithdraw a t (at_call w)"
    "deposit_of (o_world (withdrawWithSig H w f a dest flow title)) (au_from a) = deposit_of w (au_from a) - au_amount a"
    "tk_bal (w_token (o_world (withdrawWithSig H w f a dest flow title))) (Wallet t) = tk_bal (w_token w) (Wallet t) + au_amount a"
    using assms(6) by (rule withdraw_accepted)
  have "KWithdraw = k \<and> t = to \<and> au_amount a = v \<and> auth_nonce (at_call w) (au_from a) = n \<and> au_deadline a = d"
    by (rule accepted_only_signed [OF assms(1-4) _ _ _ _ _ _ t(2)]) (use assms(5) in simp_all)
  then show ?thesis using t by (simp add: Let_def auth_accepted_def)
qed

theorem exit_goes_where_signed_witness:
  "deposit_of (o_world (withdrawWithSig sample_host sample_world Relayer sample_auth (Some Baraka) None None)) Amina = 40000000"
  using exit_goes_where_signed [OF sample_keccak sample_keccak_apart sample_sig_apart _ _ sample_withdrawal,
      of KWithdraw Baraka 10000000 0 "START_TIME + 3600"]
  by (simp add: sample_auth_signed small_def START_TIME_def Let_def)

section \<open>An authorisation is used once\<close>

text \<open>C11. Once a client's authorisation has been used, for a withdrawal or for a transfer of the deposit, no call that
  carries its signature ever succeeds again, whatever calls anyone makes in between.\<close>

theorem authorisation_used_once:
  assumes "\<And>x. length (h_keccak H x) = 32" and "keccak_apart H" and "sig_apart H"
    and "au_signature a = signed_auth H k ow to v n d" and "au_from a = ow"
    and "au_signature b = au_signature a" and "au_from b = ow"
    and "r = withdrawWithSig H w f a dest flow title \<or> r = transferDeposit H w f a dest flow title" and "o_ok r"
    and "w' = foldl (exec H) (o_world r) ops"
    and "list_all small [v, n, d, au_amount a, au_deadline a, auth_nonce w ow, au_amount b, au_deadline b, auth_nonce w' ow]"
  shows "\<not> o_ok (withdrawWithSig H w' f' b dest' flow' title') \<and> \<not> o_ok (transferDeposit H w' f' b dest' flow' title')"
proof -
  have sig: "au_signature a = signed_auth H k (au_from a) to v n d" "au_signature b = signed_auth H k (au_from b) to v n d"
    using assms(4-7) by simp_all
  have bound: "auth_nonce x (au_from c) = n"
    if "c = a \<or> c = b" "auth_accepted H k' c t x" "small (auth_nonce x (au_from c))" for k' c t x
  proof -
    have "au_signature c = signed_auth H k (au_from c) to v n d" "small (au_amount c)" "small (au_deadline c)"
      using that(1) sig assms(11) by auto
    then show ?thesis
      using accepted_only_signed [OF assms(1-3) _ _ _ _ _ _ that(3,2)] assms(11) by simp
  qed
  have used: "auth_nonce (o_world r) ow = n + 1"
    using assms(8)
  proof
    assume r: "r = withdrawWithSig H w f a dest flow title"
    obtain t where "auth_accepted H KWithdraw a t (at_call w)" "auth_nonce (o_world r) (au_from a) = auth_nonce w (au_from a) + 1"
      using assms(9) unfolding r by (rule withdraw_accepted)
    with bound [of a KWithdraw t "at_call w"] assms(5,11) show ?thesis by simp
  next
    assume r: "r = transferDeposit H w f a dest flow title"
    obtain t where "auth_accepted H KTransfer a t (at_call w)" "auth_nonce (o_world r) (au_from a) = auth_nonce w (au_from a) + 1"
      using assms(9) unfolding r by (rule transfer_accepted)
    with bound [of a KTransfer t "at_call w"] assms(5,11) show ?thesis by simp
  qed
  have "auth_nonce (o_world r) ow \<le> auth_nonce w' ow"
    using run_nonce [of "o_world r" H ops] unfolding nonce_le_def assms(10) by blast
  then have later: "n + 1 \<le> auth_nonce w' ow" by (simp add: used)
  have "False" if "auth_accepted H k' b t (at_call w')" for k' t
    using bound [of b k' t "at_call w'"] that later assms(7,11) by simp
  then show ?thesis by (blast elim: withdraw_accepted transfer_accepted)
qed

theorem authorisation_used_once_witness:
  "let w' = o_world (withdrawWithSig sample_host sample_world Relayer sample_auth (Some Baraka) None None)
   in \<not> o_ok (withdrawWithSig sample_host w' Mallory (sample_auth\<lparr>au_amount := 20000000\<rparr>) (Some Mallory) None None)"
proof -
  let ?r = "withdrawWithSig sample_host sample_world Relayer sample_auth (Some Baraka) None None"
  obtain t where "auth_nonce (o_world ?r) (au_from sample_auth) = auth_nonce sample_world (au_from sample_auth) + 1"
    using sample_withdrawal by (rule withdraw_accepted)
  then have n: "auth_nonce (o_world ?r) Amina = 1" by simp
  have run: "o_world ?r = foldl (exec sample_host) (o_world ?r) []" by simp
  show ?thesis
    unfolding Let_def
    by (rule authorisation_used_once [OF sample_keccak sample_keccak_apart sample_sig_apart sample_auth_signed
          sample_auth_facts(1) _ _ disjI1 [OF refl] sample_withdrawal run, THEN conjunct1])
      (simp_all add: n small_def START_TIME_def)
qed

end
