(* ===== verification/Attacks.thy ===== *)
theory Attacks
  imports ExitGuarantees Drills
begin

text \<open>
  The drills in which somebody attacks the contracts: a node that signs in the name of its client, a ticket past its
  expiry, an authorisation relayed to another destination.  Each is refused by the escrow, whatever the state of the
  world, and leaves the contracts as they were.
\<close>

section \<open>Off-chain signatures\<close>

lemma off_result:
  assumes "sc_layer sp \<noteq> LChain"
  shows "o_result (call H w sp body) = cx_result (snd (body w ctx0))" and "w_t (o_world (call H w sp body)) =
      (case fst (body w ctx0) of Inl _ \<Rightarrow> w_t w | Inr x \<Rightarrow> w_t x)"
proof -
  obtain res c where b: "body w ctx0 = (res, c)" by (cases "body w ctx0")
  have s: "start_world sp w = w" using assms by (simp add: start_world_def)
  show "o_result (call H w sp body) = cx_result (snd (body w ctx0))"
    "w_t (o_world (call H w sp body)) = (case fst (body w ctx0) of Inl _ \<Rightarrow> w_t w | Inr x \<Rightarrow> w_t x)"
    using assms by (simp_all add: call_def s b Let_def finish_def o_ok_def split: option.splits sum.splits)
qed

lemma signed_ticket:
  assumes "res_ticket (o_result (signTicket H w cl nd u fl ti sg)) = Some t"
  shows "t = next_ticket H w cl nd u (case sg of None \<Rightarrow> cl | Some a \<Rightarrow> a)"
proof -
  let ?s = "case sg of None \<Rightarrow> cl | Some a \<Rightarrow> a"
  have r: "res_ticket (cx_result (snd (signTicket_body H cl nd u ?s w ctx0))) = Some t"
    using assms by (simp add: signTicket_def Let_def off_result)
  have "device_ok w ?s"
    by (rule ccontr) (use r in \<open>simp add: signTicket_body_def reverts_def ctx0_def\<close>)
  then show ?thesis using r by (simp add: signTicket_result)
qed

lemma signed_authorisation:
  assumes "res_auth_opt (o_result (signAuth H w k ow to v fl ti)) = Some a"
  shows "a = next_auth H w k ow to v"
proof -
  have r: "res_auth_opt (cx_result (snd (signAuth_body H k ow to v w ctx0))) = Some a"
    using assms by (simp add: signAuth_def off_result)
  have "device_ok w ow"
    by (rule ccontr) (use r in \<open>simp add: signAuth_body_def reverts_def ctx0_def\<close>)
  then show ?thesis using r by (simp add: signAuth_result)
qed

lemma signing_contracts [simp]:
  "contract_view (o_world (signTicket H w cl nd u fl ti sg)) = contract_view w"
  "contract_view (o_world (signAuth H w k ow to v fl ti)) = contract_view w"
  "contract_view (o_world (warp H w sec fl)) = contract_view w"
  unfolding signTicket_def signAuth_def warp_def Let_def
  by (rule conv.call_view; auto simp: body_simps contract_view_def)+

interpretation parv: core_view w_params
  by unfold_locales (simp add: core_eq_iff)

lemma signing_params [simp]: "w_params (o_world (signTicket H w cl nd u fl ti sg)) = w_params w"
  unfolding signTicket_def Let_def by (rule parv.call_view) (auto simp: body_simps)

lemma signing_time [simp]:
  "w_t (o_world (signTicket H w cl nd u fl ti sg)) = w_t w" "w_t (o_world (signAuth H w k ow to v fl ti)) = w_t w"
  unfolding signTicket_def signAuth_def Let_def
  by (simp_all add: off_result(2) signTicket_body_def signAuth_body_def reverts_def commits_def Let_def)

section \<open>Refused calls\<close>

lemma one_step:
  assumes "runSteps w [s] = Some r"
  obtains e where "o_entry (s w RNone) = Some e" and "fr_entries r = [e]" and "fr_ok r \<longleftrightarrow> o_ok (s w RNone)"
    and "o_ok (s w RNone) \<longleftrightarrow> en_ok e" and "fr_world r = o_world (s w RNone)"
  using assms by (auto simp: runSteps_def Let_def o_ok_def split: option.splits if_splits)

lemma two_steps:
  fixes s1 s2 :: flow_step
  assumes "runSteps w [s1, s2] = Some r"
  defines "w1 \<equiv> o_world (s1 w RNone)" and "r2 \<equiv> s2 (o_world (s1 w RNone)) (o_result (s1 w RNone))"
  obtains (first) "\<not> o_ok (s1 w RNone)" and "\<not> fr_ok r" and "fr_world r = w1"
    | (second) "o_ok (s1 w RNone)" and "o_entry r2 \<noteq> None" and "fr_ok r \<longleftrightarrow> o_ok r2" and "fr_world r = o_world r2"
  using assms by (auto simp: runSteps_def Let_def o_ok_def split: option.splits if_splits)

lemma settle_refused:
  assumes "\<not> ticket_accepted H t (at_call w)"
  shows "\<not> o_ok (settleTicketBatch H w f [t] fl ti)"
proof
  assume "o_ok (settleTicketBatch H w f [t] fl ti)"
  then obtain w' where "fst (settleTicketBatch_body H f [t] (at_call w) ctx0) = Inr w'"
    unfolding settleTicketBatch_def by (elim chain_ok_body) simp
  then obtain a where "fst (settle_loop H 0 [t] (settle_start (at_call w)) ctx0) = Inr a"
    by (auto simp: settle_commits)
  then show False
    using assms unfolding settle_loop_Cons by (auto simp: settle_one_Inr settle_start_def)
qed

lemma refused_contracts:
  "\<not> o_ok (settleTicketBatch H w f ts fl ti) \<Longrightarrow> contract_view (o_world (settleTicketBatch H w f ts fl ti)) = contract_view w"
  "\<not> o_ok (withdrawWithSig H w f a d fl ti) \<Longrightarrow> contract_view (o_world (withdrawWithSig H w f a d fl ti)) = contract_view w"
  unfolding settleTicketBatch_def withdrawWithSig_def by (rule conv.view_eq, erule call_fail_core)+

section \<open>The drills\<close>

lemma forged_refused:
  assumes "ecdsa_ok H" and "addr H Node \<noteq> addr H Amina" and "drill_forged H n w = Some r"
  shows "dr_ok r" and "contract_view (dr_world r) = contract_view w"
proof -
  let ?fl = "newFlow ''Drill: forged ticket'' n"
  let ?r0 = "signTicket H w Amina Node 1000000 ?fl (Some ''Node signs 1,000,000 units as if it were Amina'') (Some Node)"
  obtain r1 where r1: "runSteps (o_world ?r0) [\<lambda>x _. settle_ticket H x Relayer (res_ticket (o_result ?r0)) ?fl
        ''Relayer submits the forged ticket''] = Some r1"
    and r: "dr_ok r \<longleftrightarrow> \<not> fr_ok r1" "contract_view (dr_world r) = contract_view (fr_world r1)"
    using assms(3) by (auto simp: drill_forged_def Let_def drill_result_def contract_view_def filter_tickets_def)
  obtain t where t: "res_ticket (o_result ?r0) = Some t"
    using r1 by (cases "res_ticket (o_result ?r0)") (auto simp: runSteps_def settle_ticket_def)
  have "t = next_ticket H w Amina Node 1000000 Node" using signed_ticket [OF t] by simp
  then have "\<not> ticket_accepted H t (at_call (o_world ?r0))"
    using assms(2) next_ticket_recovers [OF assms(1)] by (simp add: ticket_accepted_def Let_def)
  then have refused: "\<not> o_ok (settleTicketBatch H (o_world ?r0) Relayer [t] ?fl (Some ''Relayer submits the forged ticket''))"
    by (rule settle_refused)
  have "\<not> fr_ok r1" "fr_world r1 = o_world (settleTicketBatch H (o_world ?r0) Relayer [t] ?fl (Some ''Relayer submits the forged ticket''))"
    using one_step [OF r1] refused by (simp_all add: t settle_ticket_def) blast+
  then show "dr_ok r" "contract_view (dr_world r) = contract_view w"
    using r refused_contracts(1) [OF refused] by simp_all
qed

lemma warp_time: "o_ok (warp H w sec fl) \<Longrightarrow> w_t (o_world (warp H w sec fl)) = w_t w + sec"
  unfolding warp_def by (simp add: off_result(2))

lemma expired_refused:
  assumes "drill_expired H n w = Some r"
  shows "dr_ok r" and "contract_view (dr_world r) = contract_view w"
proof -
  let ?fl = "newFlow ''Drill: expiry'' n"
  let ?s = "signTicket H w Amina Node (sign_base w + 200) ?fl (Some (''Amina signs ticket at '' @ int_str (sign_base w + 200) @ '' units'')) None"
  let ?w = "o_world (warp H (o_world ?s) (p_epochSeconds (w_params w) + 3600) ?fl)"
  obtain r1 where r1: "runSteps (o_world ?s)
        [\<lambda>x _. warp H x (p_epochSeconds (w_params x) + 3600) ?fl,
         \<lambda>x _. settle_ticket H x Relayer (res_ticket (o_result ?s)) ?fl ''Settle a ticket past epochExpiry''] = Some r1"
    and r: "dr_ok r \<longleftrightarrow> \<not> fr_ok r1" "contract_view (dr_world r) = contract_view (fr_world r1)"
    using assms by (auto simp: drill_expired_def signN_def Let_def drill_result_def contract_view_def filter_tickets_def)
  let ?settle = "settle_ticket H ?w Relayer (res_ticket (o_result ?s)) ?fl ''Settle a ticket past epochExpiry''"
  have "\<not> fr_ok r1 \<and> contract_view (fr_world r1) = contract_view w"
    using r1
  proof (cases rule: two_steps)
    case first
    then show ?thesis by simp
  next
    case second
    then have t: "w_t ?w = w_t w + p_epochSeconds (w_params w) + 3600" and e: "o_entry ?settle \<noteq> None"
      and r2: "fr_ok r1 \<longleftrightarrow> o_ok ?settle" "fr_world r1 = o_world ?settle"
      by (simp_all add: warp_time)
    obtain tk where tk: "res_ticket (o_result ?s) = Some tk"
      using e by (cases "res_ticket (o_result ?s)") (auto simp: settle_ticket_def)
    have "\<not> ticket_accepted H tk (at_call ?w)"
      using signed_ticket [OF tk] t by (simp add: ticket_accepted_def Let_def)
    then have "\<not> o_ok ?settle \<and> contract_view (o_world ?settle) = contract_view ?w"
      using settle_refused refused_contracts(1) unfolding tk settle_ticket_def option.case by blast
    then show ?thesis using r2 by simp
  qed
  then show "dr_ok r" "contract_view (dr_world r) = contract_view w" using r by simp_all
qed

lemma redirect_refused:
  assumes "\<And>x. length (h_keccak H x) = 32" and "keccak_apart H" and "sig_apart H"
    and "small (auth_nonce w Amina)" and "small (w_t w + 3600)" and "drill_redirect H n w = Some r"
  shows "dr_ok r" and "contract_view (dr_world r) = contract_view w"
proof -
  let ?fl = "newFlow ''Drill: redirect'' n"
  let ?s = "signAuth H w KWithdraw Amina Amina (kes 5) ?fl (Some ''Amina signs: unlock 5 KES to me'')"
  let ?t = "Some ''Mallory submits it with herself as destination''"
  obtain a r1 where a: "res_auth_opt (o_result ?s) = Some a"
    and r1: "runSteps (o_world ?s) [\<lambda>w _. withdrawWithSig H w Mallory a (Some Mallory) ?fl ?t] = Some r1"
    and r: "dr_ok r \<longleftrightarrow> \<not> fr_ok r1" "contract_view (dr_world r) = contract_view (fr_world r1)"
    using assms(6) by (auto simp: drill_redirect_def Let_def drill_result_def split: option.splits)
  have a': "a = next_auth H w KWithdraw Amina Amina (kes 5)" by (rule signed_authorisation [OF a])
  have esc: "w_escrow (o_world ?s) = w_escrow w"
    using signing_contracts(2) [of H w KWithdraw Amina Amina "kes 5" ?fl "Some ''Amina signs: unlock 5 KES to me''"]
    by (simp add: contract_view_def)
  have "small (kes 5)" by (simp add: small_def UKES_def)
  then have "\<not> auth_accepted H KWithdraw a Mallory (at_call (o_world ?s))"
    using accepted_only_signed [OF assms(1-3), of a KWithdraw Amina "kes 5" "auth_nonce w Amina" "w_t w + 3600"
        "at_call (o_world ?s)" KWithdraw Mallory] next_auth_signed [of H w KWithdraw Amina Amina "kes 5"] assms(4,5) esc
    by (auto simp: a' auth_nonce_def)
  then have refused: "\<not> o_ok (withdrawWithSig H (o_world ?s) Mallory a (Some Mallory) ?fl ?t)"
    by (auto elim!: withdraw_accepted)
  then have "\<not> fr_ok r1" "fr_world r1 = o_world (withdrawWithSig H (o_world ?s) Mallory a (Some Mallory) ?fl ?t)"
    using one_step [OF r1] by simp_all blast+
  then show "dr_ok r" "contract_view (dr_world r) = contract_view w"
    using r refused_contracts(2) [OF refused] by simp_all
qed

lemma second_ticket_newer:
  assumes "res_ticket (o_result (signTicket H w cl nd u fl ti None)) = Some t1"
    and "res_ticket (o_result (signTicket H (o_world (signTicket H w cl nd u fl ti None)) cl nd u' fl ti' None)) = Some t2"
  shows "tt_sequenceNumber t1 < tt_sequenceNumber t2 \<and> key_of H t1 = key_of H t2"
proof -
  let ?w1 = "o_world (signTicket H w cl nd u fl ti None)"
  have t: "t1 = next_ticket H w cl nd u cl" "t2 = next_ticket H ?w1 cl nd u' cl"
    using signed_ticket [OF assms(1)] signed_ticket [OF assms(2)] by simp_all
  have "device_ok w cl"
    by (rule ccontr) (use assms(1) in \<open>simp add: signTicket_def Let_def off_result signTicket_body_def reverts_def ctx0_def\<close>)
  then obtain c where b: "signTicket_body H cl nd u cl w ctx0 =
      (Inr (w\<lparr>w_tickets := AList.update (cl, nd) (tickets_of w cl nd @ [t1]) (w_tickets w)\<rparr>), c)"
    by (cases "signTicket_body H cl nd u cl w ctx0") (metis signTicket_commits fst_conv t(1))
  have "core ?w1 = core (w\<lparr>w_tickets := AList.update (cl, nd) (tickets_of w cl nd @ [t1]) (w_tickets w)\<rparr>)"
    unfolding signTicket_def Let_def option.case by (rule call_off(2)) (simp, rule b)
  then have "w_tickets ?w1 = AList.update (cl, nd) (tickets_of w cl nd @ [t1]) (w_tickets w)"
    by (simp add: core_eq_iff)
  then have "tickets_of ?w1 cl nd = tickets_of w cl nd @ [t1]"
    by (simp add: tickets_of_def get_or_def update_conv')
  then have "held_sequence ?w1 cl nd = tt_sequenceNumber t1" by (simp add: held_sequence_def)
  then show ?thesis by (simp add: t(2)) (simp add: t(1) key_of_def)
qed

lemma replay_refused:
  assumes "drill_replay H n w = Some r" and "en_ok (last (butlast (dr_entries r)))"
  shows "dr_ok r \<and> (\<exists>w2 t2 fl ti. contract_view w2 = contract_view w \<and>
    contract_view (dr_world r) = contract_view (o_world (settleTicketBatch H w2 Relayer [t2] fl ti)))"
proof -
  let ?fl = "newFlow ''Drill: replay'' n"
  let ?t = "\<lambda>i. Some (''Amina signs ticket at '' @ int_str (sign_base w + int i * 100) @ '' units'')"
  let ?s1 = "signTicket H w Amina Node (sign_base w + 1 * 100) ?fl (?t 1) None"
  let ?s2 = "signTicket H (o_world ?s1) Amina Node (sign_base w + 2 * 100) ?fl (?t 2) None"
  let ?c1 = "settle_ticket H (o_world ?s2) Relayer (res_ticket (o_result ?s2)) ?fl ''Settle ticket 2''"
  let ?c2 = "settle_ticket H (o_world ?c1) Mallory (res_ticket (o_result ?s1)) ?fl ''Mallory replays ticket 1''"
  have two: "[1..<Suc 2] = [1, 2]" by (simp add: upt_rec)
  obtain r1 r2 where r1: "runSteps (o_world ?s2)
        [\<lambda>x _. settle_ticket H x Relayer (res_ticket (o_result ?s2)) ?fl ''Settle ticket 2''] = Some r1"
    and r2: "runSteps (fr_world r1)
        [\<lambda>x _. settle_ticket H x Mallory (res_ticket (o_result ?s1)) ?fl ''Mallory replays ticket 1''] = Some r2"
    and r: "dr_ok r \<longleftrightarrow> \<not> fr_ok r2" "dr_world r = fr_world r2" "dr_entries r = (entries_of ?s1 @ entries_of ?s2) @ fr_entries r1 @ fr_entries r2"
    using assms(1) unfolding drill_replay_def signN_def two
    by (auto simp: Let_def drill_result_def split: bind_splits)
  obtain e1 where e1: "o_entry ?c1 = Some e1" "fr_entries r1 = [e1]" "o_ok ?c1 \<longleftrightarrow> en_ok e1" "fr_world r1 = o_world ?c1"
    using r1 by (rule one_step)
  obtain e2 where e2: "o_entry ?c2 = Some e2" "fr_entries r2 = [e2]" "fr_ok r2 \<longleftrightarrow> o_ok ?c2" "fr_world r2 = o_world ?c2"
    using r2 unfolding e1(4) by (rule one_step)
  obtain t1 t2 where t: "res_ticket (o_result ?s1) = Some t1" "res_ticket (o_result ?s2) = Some t2"
    using e1(1) e2(1) by (auto simp: settle_ticket_def split: option.splits)
  have "o_ok ?c1" using assms(2) e1 e2(2) by (simp add: r(3) butlast_append)
  then have "tt_sequenceNumber t2 \<le> last_seq (o_world ?c1) (key_of H t2)"
    unfolding t settle_ticket_def option.case by (rule settle_ok_seq) simp
  then have "tt_sequenceNumber t1 \<le> last_seq (o_world ?c1) (key_of H t1)"
    using second_ticket_newer [OF t] by simp
  then have refused: "\<not> o_ok ?c2"
    unfolding t(1) settle_ticket_def option.case by (rule stale_fails) simp
  then have "contract_view (o_world ?c2) = contract_view (o_world ?c1)"
    unfolding t(1) settle_ticket_def option.case by (rule refused_contracts(1))
  moreover have "contract_view (o_world ?s2) = contract_view w" by simp
  ultimately show ?thesis
    using refused e2(3,4) r(1,2) unfolding t(2) settle_ticket_def option.case by metis
qed

end
