(* ===== verification/JourneyGuarantees.thy ===== *)
theory JourneyGuarantees
  imports Guarantees Journeys Timelocks Attacks
begin

text \<open>
  The properties of journeys and drills as wholes: the peg, the mint cap, the attacks.
\<close>

section \<open>The peg\<close>

text \<open>C12. Every step of the playground that runs to its end (set-up, top-up, deposit, settlement, payout of a node,
  sweep of the fees, sending, unlocking, cash-out, and the retry of a failed payout) keeps the peg: if the supply was
  equal to the shillings in the kiosk's float before it, it is afterwards.\<close>

theorem completed_steps_keep_peg:
  assumes "step_run H n s w f = Some r \<or> step_retry H n w f = Some r" and "fr_ok r" and "pegged w"
  shows "pegged (fr_world r)"
  using assms step_gap [of H n s w f r] retryPayout_gap [of H n w "fo_who f" "kes (fo_amount f)" r]
  by (auto simp: pegged_gap step_retry_def)

definition unlock_form :: form where
  "unlock_form = \<lparr>fo_price = 5 / 100, fo_fee = 5, fo_who = Amina, fo_amount = 10, fo_fail = False, fo_claimOnly = False,
     fo_by = Relayer, fo_fromMeter = False, fo_old = False\<rparr>"

lemma sample_pegged: "pegged sample_world"
  by (simp add: pegged_def sample_world_def)

lemma accepted_reads:
  assumes "w_escrow x = w_escrow y" and "w_t x = w_t y"
  shows "auth_accepted H k a to x \<longleftrightarrow> auth_accepted H k a to y"
  using assms by (simp add: auth_accepted_def auth_digest_def deposit_of_def)

lemma sample_unlock:
  "\<exists>r. step_run sample_host n SUnlock sample_world unlock_form = Some r \<and> fr_ok r"
proof -
  let ?fl = "newFlow (''Withdraw '' @ fmt 10000000 2 @ '' KES'') n"
  let ?s = "signAuth sample_host sample_world KWithdraw Amina Amina 10000000 ?fl (Some ''Phone signs: unlock to my wallet'')"
  let ?a = "next_auth sample_host sample_world KWithdraw Amina Amina 10000000"
  let ?c = "withdrawWithSig sample_host (o_world ?s) Kiosk ?a (Some (au_to ?a)) ?fl (Some ''Kiosk submits withdrawWithSig'')"
  note s = signAuth_call [of sample_world Amina sample_host KWithdraw Amina 10000000 ?fl "Some ''Phone signs: unlock to my wallet''", OF sample_device(1)]
  have same: "w_escrow (o_world ?s) = w_escrow sample_world" "w_params (o_world ?s) = DEFAULT_PARAMS"
    using s(2) by (simp_all add: core_eq_iff)
  have "auth_accepted sample_host KWithdraw ?a Amina (at_call sample_world)"
    by (rule next_auth_accepted [OF sample_ecdsa_ok]) simp_all
  then have "auth_accepted sample_host KWithdraw ?a Amina (at_call (o_world ?s))"
    using accepted_reads [of "at_call (o_world ?s)" "at_call sample_world"] same s(5) by simp
  then have "o_ok (withdrawWithSig sample_host (o_world ?s) Kiosk ?a (Some Amina) ?fl (Some ''Kiosk submits withdrawWithSig''))"
    by (rule withdraw_succeeds [OF sample_keccak]) (unfold same s(4), simp_all add: gasToGwei_def)
  then have c: "o_ok ?c" by simp
  obtain e1 e2 where e: "o_entry ?s = Some e1" "en_ok e1" "o_entry ?c = Some e2" "en_ok e2"
    using s(1) c unfolding o_ok_def by (metis option.case_eq_if option.collapse)
  have "withdrawGasless sample_host n sample_world Amina 10000000 Amina =
      Some \<lparr>fr_world = o_world ?c, fr_ok = True, fr_entries = [e1, e2], fr_failed = None, fr_result = o_result ?c\<rparr>"
    unfolding withdrawGasless_def Let_def runSteps_def run_loop.simps s(3) res_auth.simps e option.case using e by simp
  then show ?thesis by (simp add: unlock_form_def UKES_def)
qed

theorem completed_steps_keep_peg_witness:
  "\<exists>r. step_run sample_host 1 SUnlock sample_world unlock_form = Some r \<and> fr_ok r \<and> pegged (fr_world r)"
proof -
  obtain r where r: "step_run sample_host 1 SUnlock sample_world unlock_form = Some r" "fr_ok r" using sample_unlock by blast
  from completed_steps_keep_peg [OF disjI1 [OF r(1)] r(2) sample_pegged] r show ?thesis by blast
qed

text \<open>A payout that failed and is retried ends where the cash-out would have ended without the failure: with the
  same token balances, the same supply, the same M-Pesa balances and the same float.\<close>

lemma retried_payout_pays_the_same:
  assumes "cashOut H n w cl v True = Some r" and "\<not> fr_ok r" and "length (fr_entries r) = 4"
    and "retryPayout H m (fr_world r) cl v = Some r'" and "fr_ok r'"
    and "cashOut H k w cl v False = Some s" and "fr_ok s"
  shows "money (fr_world r') = money (fr_world s)"
  by (simp add: retry_paid [OF assms(4,5)] cash_out_stopped [OF assms(1-3)] cash_out_paid [OF assms(6,7)])

section \<open>The mint cap\<close>

text \<open>C13. In a world where one bridge is listed and has not minted more than its cap, along any calls of anybody, the
  owner's \<open>setBridge\<close> excepted, the supply grows by at most what is left of the cap in the open window and one cap for
  each day begun since: caps that were not used do not add up, and a stolen bridge key cannot mint more.\<close>

theorem minting_bounded:
  assumes "only_bridge (tk_bridges (w_token w)) b" and "tk_bridges (w_token w) b = Some i"
    and "0 \<le> br_minted i" "br_minted i \<le> br_cap i" "br_windowStart i \<le> w_t w"
    and "list_all wf_op ops" and "\<And>f c al k. TokenOp (SetBridge f c al k) \<notin> set ops" and "w' = foldl (exec H) w ops"
  shows "tk_supply (w_token w') \<le> tk_supply (w_token w) + (br_cap i - br_minted i)
    + br_cap i * ((w_t w' - w_t w) div 86400 + 1)"
proof -
  have "mintT.holds b (br_cap i) (tk_supply (w_token w)) (br_minted i) (w_t w) w"
    using assms(1-5) by (simp add: mintT.holds_def minted_within_def mint_books_def)
  then have "mintT.holds b (br_cap i) (tk_supply (w_token w)) (br_minted i) (w_t w) w'"
    unfolding assms(8) by (rule run_minted) (use assms(3,4,6,7) in auto)
  then show ?thesis by (rule minted_bound) (use assms(3,4) in simp)
qed

definition sample_mints :: "op list" where
  "sample_mints = [TokenOp (Mint Kiosk Mallory 1000000 ''x''), OffOp (Warp 86400), TokenOp (Mint Kiosk Mallory 1 ''y'')]"

definition sample_bridge :: bridge where
  "sample_bridge = \<lparr>br_allowed = True, br_cap = 50000000000, br_minted = 100000000, br_windowStart = START_TIME\<rparr>"

lemma sample_bridges: "tk_bridges (w_token sample_world) = [Kiosk \<mapsto> sample_bridge]" "tk_supply (w_token sample_world) = 100000000"
  by (simp_all add: sample_world_def sample_bridge_def)

lemma sample_only_bridge: "only_bridge (tk_bridges (w_token sample_world)) Kiosk"
  by (simp add: sample_bridges only_bridge_def)

theorem minting_bounded_witness:
  "let w' = foldl (exec sample_host) sample_world sample_mints
   in tk_supply (w_token w') \<le> 100000000 + 49900000000 + 50000000000 * ((w_t w' - w_t sample_world) div 86400 + 1)"
proof -
  have "tk_bridges (w_token sample_world) Kiosk = Some sample_bridge" by (simp add: sample_bridges)
  from minting_bounded [OF sample_only_bridge this _ _ _ _ _ refl, of sample_mints sample_host]
  show ?thesis by (simp add: Let_def sample_bridges(2)) (simp add: sample_bridge_def sample_mints_def)
qed

section \<open>The attacks\<close>

text \<open>C14. The drills of a node that forges a ticket and of a ticket past its expiry answer that the rule held, whatever
  the world, and so do the drill of an authorisation sent to another destination, in a world whose nonce and clock fit
  their words, and the drill of a settled ticket replayed, when the newer ticket of the drill has settled; the first
  three leave the three contracts as they were, and the replay leaves them as the one settlement of the newer ticket
  made them.\<close>

theorem attack_drills_refused:
  assumes "\<And>x. length (h_keccak H x) = 32" and "ecdsa_ok H" and "keccak_apart H" and "sig_apart H"
    and "d \<in> {Forged, Expired, Redirect, Replay}" and "run_drill H n d w = Some r"
    and "d = Redirect \<Longrightarrow> small (auth_nonce w Amina) \<and> small (w_t w + 3600)"
    and "d = Replay \<Longrightarrow> en_ok (last (butlast (dr_entries r)))"
  shows "dr_ok r \<and> (d \<noteq> Replay \<longrightarrow> contract_view (dr_world r) = contract_view w)
    \<and> (d = Replay \<longrightarrow> (\<exists>w2 t2 fl ti. contract_view w2 = contract_view w \<and>
          contract_view (dr_world r) = contract_view (o_world (settleTicketBatch H w2 Relayer [t2] fl ti))))"
proof -
  have "addr H Node \<noteq> addr H Amina"
  proof
    assume "addr H Node = addr H Amina"
    then have "hexToBytes (addr H Node) = hexToBytes (addr H Amina)" by simp
    moreover have "inj (\<lambda>a. hexToBytes (addr H a))" using assms(3) by (simp add: keccak_apart_def)
    ultimately show False by (auto dest: injD)
  qed
  then show ?thesis
    using assms(5-8) forged_refused [OF assms(2), of n w r] expired_refused [of H n w r] replay_refused [of H n w r]
      redirect_refused [OF assms(1,3,4), of w n r]
    by auto
qed

lemma sample_redirect: "\<exists>r. run_drill sample_host n Redirect sample_world = Some r"
proof -
  let ?s = "signAuth sample_host sample_world KWithdraw Amina Amina (kes 5) (newFlow ''Drill: redirect'' n)
      (Some ''Amina signs: unlock 5 KES to me'')"
  have s: "o_result ?s = RAuth (next_auth sample_host sample_world KWithdraw Amina Amina (kes 5))"
    by (rule signAuth_call) simp
  have "\<exists>e. o_entry (withdrawWithSig sample_host w Mallory a (Some Mallory) fl ti) = Some e" for w a fl ti
    unfolding withdrawWithSig_def by (rule call_answers_entry) (simp_all add: sample_keccak chain_spec_def)
  then obtain e where "o_entry (withdrawWithSig sample_host (o_world ?s) Mallory
      (next_auth sample_host sample_world KWithdraw Amina Amina (kes 5)) (Some Mallory) (newFlow ''Drill: redirect'' n)
      (Some ''Mallory submits it with herself as destination'')) = Some e" by blast
  then show ?thesis
    unfolding run_drill.simps drill_redirect_def Let_def s res_auth_opt.simps option.case runSteps_def run_loop.simps
    by simp
qed

theorem attack_drills_refused_witness:
  "\<exists>r. run_drill sample_host 1 Redirect sample_world = Some r \<and> dr_ok r \<and> contract_view (dr_world r) = contract_view sample_world"
proof -
  obtain r where r: "run_drill sample_host 1 Redirect sample_world = Some r" using sample_redirect by blast
  have small: "small (auth_nonce sample_world Amina)" "small (w_t sample_world + 3600)"
    by (simp_all add: small_def START_TIME_def)
  have "Redirect \<in> {Forged, Expired, Redirect, Replay}" by simp
  from attack_drills_refused [OF sample_keccak sample_ecdsa_ok sample_keccak_apart sample_sig_apart this r] small
  show ?thesis using r by simp
qed

end
