(* ===== verification/GateText.thy ===== *)
theory GateText
  imports Crypto
begin

text \<open>
  The parts of the JavaScript standard library that \<open>docker/gate/server.mjs\<close> works with: strings as
  UTF-16 code units, UTF-8, base64url, \<open>JSON.stringify\<close> and \<open>JSON.parse\<close>, \<open>decodeURIComponent\<close>.
  Numbers are exact rationals; a number of magnitude \<open>2^1024\<close> or more is the infinity JavaScript reads.
\<close>

type_synonym ustr = "nat list"

definition u :: "string \<Rightarrow> ustr" where
  \<comment> \<open>an ASCII literal as code units\<close>
  "u s = map of_char s"

lemma u_simps [simp]: "u [] = []" "u (c # s) = of_char c # u s" "u (s @ t) = u s @ u t"
  by (simp_all add: u_def)

lemma length_u [simp]: "length (u s) = length s"
  by (simp add: u_def)

definition u_ws :: "nat \<Rightarrow> bool" where
  \<comment> \<open>the white space and line terminators of \<open>trim\<close>\<close>
  "u_ws c \<longleftrightarrow> c \<in> {9, 10, 11, 12, 13, 32, 0xA0, 0x1680, 0x2028, 0x2029, 0x202F, 0x205F, 0x3000, 0xFEFF} \<or> (0x2000 \<le> c \<and> c \<le> 0x200A)"

definition u_trim :: "ustr \<Rightarrow> ustr" where
  "u_trim s = rev (dropWhile u_ws (rev (dropWhile u_ws s)))"

definition dec_digit :: "nat \<Rightarrow> bool" where
  "dec_digit c \<longleftrightarrow> 48 \<le> c \<and> c \<le> 57"

definition hex_unit :: "nat \<Rightarrow> nat option" where
  "hex_unit c =
     (if 48 \<le> c \<and> c \<le> 57 then Some (c - 48)
      else if 65 \<le> c \<and> c \<le> 70 then Some (c - 55)
      else if 97 \<le> c \<and> c \<le> 102 then Some (c - 87)
      else None)"

fun digits_value :: "nat \<Rightarrow> ustr \<Rightarrow> nat" where
  "digits_value acc [] = acc"
| "digits_value acc (c # s) = digits_value (10 * acc + (c - 48)) s"

section \<open>UTF-8\<close>

fun code_points :: "ustr \<Rightarrow> nat list" where
  \<comment> \<open>a lone surrogate reads as U+FFFD\<close>
  "code_points [] = []"
| "code_points [c] = [if 0xD800 \<le> c \<and> c \<le> 0xDFFF then 0xFFFD else c]"
| "code_points (c # d # s) =
     (if 0xD800 \<le> c \<and> c \<le> 0xDBFF \<and> 0xDC00 \<le> d \<and> d \<le> 0xDFFF
      then (0x10000 + (c - 0xD800) * 0x400 + (d - 0xDC00)) # code_points s
      else (if 0xD800 \<le> c \<and> c \<le> 0xDFFF then 0xFFFD else c) # code_points (d # s))"

definition units_of :: "nat \<Rightarrow> ustr" where
  "units_of p = (if p < 0x10000 then [p] else [0xD800 + (p - 0x10000) div 0x400, 0xDC00 + (p - 0x10000) mod 0x400])"

definition utf8_point :: "nat \<Rightarrow> nat list" where
  "utf8_point p =
     (if p < 0x80 then [p]
      else if p < 0x800 then [0xC0 + p div 64, 0x80 + p mod 64]
      else if p < 0x10000 then [0xE0 + p div 4096, 0x80 + p div 64 mod 64, 0x80 + p mod 64]
      else [0xF0 + p div 262144, 0x80 + p div 4096 mod 64, 0x80 + p div 64 mod 64, 0x80 + p mod 64])"

definition utf8_octets :: "ustr \<Rightarrow> nat list" where
  "utf8_octets s = concat (map utf8_point (code_points s))"

definition to_bytes :: "nat list \<Rightarrow> bytes" where
  "to_bytes ns = map word_of_nat ns"

definition utf8_lead :: "nat \<Rightarrow> (nat \<times> nat \<times> nat \<times> nat) option" where
  \<comment> \<open>continuation bytes to come, the range of the first of them, the bits of the lead byte\<close>
  "utf8_lead b =
     (if 0xC2 \<le> b \<and> b \<le> 0xDF then Some (1, 0x80, 0xBF, b - 0xC0)
      else if b = 0xE0 then Some (2, 0xA0, 0xBF, 0)
      else if b = 0xED then Some (2, 0x80, 0x9F, 0xD)
      else if 0xE1 \<le> b \<and> b \<le> 0xEF then Some (2, 0x80, 0xBF, b - 0xE0)
      else if b = 0xF0 then Some (3, 0x90, 0xBF, 0)
      else if b = 0xF4 then Some (3, 0x80, 0x8F, 4)
      else if 0xF1 \<le> b \<and> b \<le> 0xF3 then Some (3, 0x80, 0xBF, b - 0xF0)
      else None)"

fun utf8_cont :: "nat \<Rightarrow> nat \<Rightarrow> nat \<Rightarrow> nat \<Rightarrow> nat list \<Rightarrow> nat option \<times> nat list" where
  "utf8_cont 0 lo hi acc bs = (Some acc, bs)"
| "utf8_cont (Suc k) lo hi acc [] = (None, [])"
| "utf8_cont (Suc k) lo hi acc (b # bs) =
     (if lo \<le> b \<and> b \<le> hi then utf8_cont k 0x80 0xBF (acc * 64 + b mod 64) bs else (None, b # bs))"

lemma utf8_cont_length: "length (snd (utf8_cont k lo hi acc bs)) \<le> length bs"
  by (induction k lo hi acc bs rule: utf8_cont.induct) auto

lemma utf8_cont_rest: "utf8_cont k lo hi acc bs = (p, r) \<Longrightarrow> length r \<le> length bs"
  using utf8_cont_length [of k lo hi acc bs] by simp

function utf8_read :: "nat list \<Rightarrow> ustr" where
  \<comment> \<open>\<open>Buffer.toString('utf8')\<close>: a malformed sequence reads as U+FFFD\<close>
  "utf8_read [] = []"
| "utf8_read (b # bs) =
     (if b < 0x80 then b # utf8_read bs
      else case utf8_lead b of
             None \<Rightarrow> 0xFFFD # utf8_read bs
           | Some (n, lo, hi, acc) \<Rightarrow>
               (case utf8_cont n lo hi acc bs of
                  (Some p, rest) \<Rightarrow> units_of p @ utf8_read rest
                | (None, rest) \<Rightarrow> 0xFFFD # utf8_read rest))"
  by pat_completeness auto
termination
  by (relation "measure length")
    (auto simp: less_Suc_eq_le dest: utf8_cont_rest [OF sym])

section \<open>Base64url\<close>

definition b64_char :: "nat \<Rightarrow> nat" where
  "b64_char v =
     (if v < 26 then 65 + v else if v < 52 then 97 + (v - 26) else if v < 62 then 48 + (v - 52)
      else if v = 62 then 45 else 95)"

definition b64_value :: "nat \<Rightarrow> nat option" where
  \<comment> \<open>both alphabets are read\<close>
  "b64_value c =
     (if 65 \<le> c \<and> c \<le> 90 then Some (c - 65)
      else if 97 \<le> c \<and> c \<le> 122 then Some (c - 71)
      else if 48 \<le> c \<and> c \<le> 57 then Some (c + 4)
      else if c = 45 \<or> c = 43 then Some 62
      else if c = 95 \<or> c = 47 then Some 63
      else None)"

fun b64_encode :: "nat list \<Rightarrow> ustr" where
  "b64_encode (a # b # c # bs) =
     [b64_char (a div 4), b64_char (a mod 4 * 16 + b div 16), b64_char (b mod 16 * 4 + c div 64), b64_char (c mod 64)]
     @ b64_encode bs"
| "b64_encode [a, b] = [b64_char (a div 4), b64_char (a mod 4 * 16 + b div 16), b64_char (b mod 16 * 4)]"
| "b64_encode [a] = [b64_char (a div 4), b64_char (a mod 4 * 16)]"
| "b64_encode [] = []"

fun b64_groups :: "nat list \<Rightarrow> nat list" where
  "b64_groups (a # b # c # d # vs) =
     [a * 4 + b div 16, b mod 16 * 16 + c div 4, c mod 4 * 64 + d] @ b64_groups vs"
| "b64_groups [a, b, c] = [a * 4 + b div 16, b mod 16 * 16 + c div 4]"
| "b64_groups [a, b] = [a * 4 + b div 16]"
| "b64_groups _ = []"

definition b64_decode :: "ustr \<Rightarrow> nat list" where
  \<comment> \<open>\<open>Buffer.from(s, 'base64url')\<close>: characters outside the alphabet are skipped\<close>
  "b64_decode s = b64_groups (List.map_filter b64_value s)"

lemma b64_char_value: "v < 64 \<Longrightarrow> b64_value (b64_char v) = Some v"
  by (auto simp: b64_value_def b64_char_def)

lemma digit_split:
  fixes x y k :: nat
  assumes "y < k"
  shows "(x * k + y) div k = x" "(x * k + y) mod k = y"
  using assms by simp_all

lemma b64_bytes:
  assumes "(a::nat) < 256" "b < 256"
  shows "a div 4 < 64" "a mod 4 * 16 + b div 16 < 64" "b mod 16 * 4 < 64"
    "a div 4 * 4 + (a mod 4 * 16 + b div 16) div 16 = a"
    "(a mod 4 * 16 + b div 16) mod 16 * 16 + b mod 16 * 4 div 4 = b"
proof -
  have q: "b div 16 < 16" "a mod 4 < 4" "b mod 16 < 16" using assms by auto
  show "a div 4 < 64" using assms by auto
  show "a mod 4 * 16 + b div 16 < 64" "b mod 16 * 4 < 64" using q by linarith+
  show "a div 4 * 4 + (a mod 4 * 16 + b div 16) div 16 = a" by (simp only: digit_split(1) [OF q(1)] div_mult_mod_eq)
  show "(a mod 4 * 16 + b div 16) mod 16 * 16 + b mod 16 * 4 div 4 = b"
    by (subst digit_split(2) [OF q(1)]) simp
qed

lemma b64_triple:
  assumes "(a::nat) < 256" "b < 256" "c < 256"
  shows "b mod 16 * 4 + c div 64 < 64" "c mod 64 < 64"
    "(a mod 4 * 16 + b div 16) mod 16 * 16 + (b mod 16 * 4 + c div 64) div 4 = b"
    "(b mod 16 * 4 + c div 64) mod 4 * 64 + c mod 64 = c"
proof -
  have q: "b div 16 < 16" "c div 64 < 4" "b mod 16 < 16" using assms by auto
  show "b mod 16 * 4 + c div 64 < 64" using q by linarith
  show "c mod 64 < 64" by simp
  show "(a mod 4 * 16 + b div 16) mod 16 * 16 + (b mod 16 * 4 + c div 64) div 4 = b"
    by (simp only: digit_split(2) [OF q(1)] digit_split(1) [OF q(2)] div_mult_mod_eq)
  show "(b mod 16 * 4 + c div 64) mod 4 * 64 + c mod 64 = c"
    by (simp only: digit_split(2) [OF q(2)] div_mult_mod_eq)
qed

lemma b64_single:
  assumes "(a::nat) < 256"
  shows "a mod 4 * 16 < 64" "a div 4 * 4 + a mod 4 * 16 div 16 = a"
proof -
  have "a mod 4 < 4" by simp
  then show "a mod 4 * 16 < 64" by linarith
  show "a div 4 * 4 + a mod 4 * 16 div 16 = a" by simp
qed

lemma b64_round_trip: "list_all (\<lambda>b. b < 256) bs \<Longrightarrow> b64_decode (b64_encode bs) = bs"
proof (induction bs rule: b64_encode.induct)
  case (1 a b c bs)
  then have l: "a < 256" "b < 256" "c < 256" and r: "list_all (\<lambda>b. b < 256) bs" by auto
  have v: "b64_value (b64_char (a div 4)) = Some (a div 4)"
    "b64_value (b64_char (a mod 4 * 16 + b div 16)) = Some (a mod 4 * 16 + b div 16)"
    "b64_value (b64_char (b mod 16 * 4 + c div 64)) = Some (b mod 16 * 4 + c div 64)"
    "b64_value (b64_char (c mod 64)) = Some (c mod 64)"
    by (rule b64_char_value, rule b64_bytes(1,2) [OF l(1,2)] b64_triple(1,2) [OF l])+
  show ?case
    using "1.IH" [OF r] b64_bytes(4) [OF l(1,2)] b64_triple(3,4) [OF l] by (simp add: b64_decode_def List.map_filter_simps v)
next
  case (2 a b)
  then have l: "a < 256" "b < 256" by auto
  have v: "b64_value (b64_char (a div 4)) = Some (a div 4)"
    "b64_value (b64_char (a mod 4 * 16 + b div 16)) = Some (a mod 4 * 16 + b div 16)"
    "b64_value (b64_char (b mod 16 * 4)) = Some (b mod 16 * 4)"
    by (rule b64_char_value, rule b64_bytes [OF l])+
  show ?case using b64_bytes(4,5) [OF l] by (simp add: b64_decode_def List.map_filter_simps v)
next
  case (3 a)
  then have l: "a < 256" by auto
  have v: "b64_value (b64_char (a div 4)) = Some (a div 4)" "b64_value (b64_char (a mod 4 * 16)) = Some (a mod 4 * 16)"
    by (rule b64_char_value, rule b64_bytes(1) [OF l l] b64_single [OF l])+
  show ?case using b64_single(2) [OF l] by (simp add: b64_decode_def List.map_filter_simps v)
qed (simp add: b64_decode_def List.map_filter_simps)

section \<open>JSON\<close>

definition hex_low :: "nat \<Rightarrow> nat" where
  "hex_low d = (if d < 10 then 48 + d else 87 + d)"

definition hex4 :: "nat \<Rightarrow> ustr" where
  "hex4 c = [hex_low (c div 4096), hex_low (c div 256 mod 16), hex_low (c div 16 mod 16), hex_low (c mod 16)]"

definition json_unit :: "nat \<Rightarrow> ustr" where
  "json_unit c =
     (if c = 34 then [92, 34] else if c = 92 then [92, 92]
      else if c = 8 then [92, 98] else if c = 12 then [92, 102] else if c = 10 then [92, 110]
      else if c = 13 then [92, 114] else if c = 9 then [92, 116]
      else if c < 32 then [92, 117] @ hex4 c
      else [c])"

fun json_units :: "ustr \<Rightarrow> ustr" where
  \<comment> \<open>a lone surrogate is escaped\<close>
  "json_units [] = []"
| "json_units [c] = (if 0xD800 \<le> c \<and> c \<le> 0xDFFF then [92, 117] @ hex4 c else json_unit c)"
| "json_units (c # d # s) =
     (if 0xD800 \<le> c \<and> c \<le> 0xDBFF \<and> 0xDC00 \<le> d \<and> d \<le> 0xDFFF then c # d # json_units s
      else (if 0xD800 \<le> c \<and> c \<le> 0xDFFF then [92, 117] @ hex4 c else json_unit c) @ json_units (d # s))"

definition json_quote :: "ustr \<Rightarrow> ustr" where
  "json_quote s = [34] @ json_units s @ [34]"

datatype json = JNull | JBool bool | JNumber rat | JString ustr | JArray "json list" | JObject "(ustr \<times> json) list"

definition json_ws :: "ustr \<Rightarrow> ustr" where
  "json_ws s = dropWhile (\<lambda>c. c \<in> {9, 10, 13, 32}) s"

definition hex_quad :: "ustr \<Rightarrow> (nat \<times> ustr) option" where
  "hex_quad s =
     (case s of
        a # b # c # d # r \<Rightarrow>
          (case (hex_unit a, hex_unit b, hex_unit c, hex_unit d) of
             (Some p, Some q, Some x, Some y) \<Rightarrow> Some (((p * 16 + q) * 16 + x) * 16 + y, r)
           | _ \<Rightarrow> None)
      | _ \<Rightarrow> None)"

definition json_escape :: "nat \<Rightarrow> nat option" where
  "json_escape c =
     (if c = 34 \<or> c = 92 \<or> c = 47 then Some c
      else if c = 98 then Some 8 else if c = 102 then Some 12 else if c = 110 then Some 10
      else if c = 114 then Some 13 else if c = 116 then Some 9 else None)"

fun json_chars :: "nat \<Rightarrow> ustr \<Rightarrow> (ustr \<times> ustr) option" where
  \<comment> \<open>the characters of a string literal after its opening quote, and what follows the closing one\<close>
  "json_chars 0 s = None"
| "json_chars (Suc n) [] = None"
| "json_chars (Suc n) (c # s) =
     (if c = 34 then Some ([], s)
      else if c < 32 then None
      else if c = 92 then
        (case s of
           [] \<Rightarrow> None
         | e # s1 \<Rightarrow>
             if e = 117
             then (case hex_quad s1 of
                     None \<Rightarrow> None
                   | Some (v, s2) \<Rightarrow> map_option (\<lambda>(t, r). (v # t, r)) (json_chars n s2))
             else (case json_escape e of
                     None \<Rightarrow> None
                   | Some v \<Rightarrow> map_option (\<lambda>(t, r). (v # t, r)) (json_chars n s1)))
      else map_option (\<lambda>(t, r). (c # t, r)) (json_chars n s))"

definition take_digits :: "ustr \<Rightarrow> ustr \<times> ustr" where
  "take_digits s = (takeWhile dec_digit s, dropWhile dec_digit s)"

definition json_exponent :: "ustr \<Rightarrow> (int \<times> ustr) option" where
  "json_exponent s =
     (case s of
        c # s1 \<Rightarrow>
          (if c = 101 \<or> c = 69 then
             let (neg, s2) = (case s1 of d # r \<Rightarrow> if d = 45 then (True, r) else if d = 43 then (False, r) else (False, s1)
                                       | [] \<Rightarrow> (False, s1));
                 (ds, r) = take_digits s2
             in if ds = [] then None else Some (if neg then - int (digits_value 0 ds) else int (digits_value 0 ds), r)
           else Some (0, s))
      | [] \<Rightarrow> Some (0, s))"

definition pow10 :: "int \<Rightarrow> rat" where
  "pow10 e = (if e \<ge> 0 then 10 ^ nat e else 1 / 10 ^ nat (- e))"

definition json_number :: "ustr \<Rightarrow> (rat \<times> ustr) option" where
  "json_number s =
     (let (neg, s1) = (case s of c # r \<Rightarrow> if c = 45 then (True, r) else (False, s) | [] \<Rightarrow> (False, s));
          (ds, s2) = take_digits s1
      in if ds = [] \<or> (hd ds = 48 \<and> 1 < length ds) then None
         else
           let (fs, s3, fok) = (case s2 of
                 c # r \<Rightarrow> if c = 46 then (let (fd, r2) = take_digits r in (fd, r2, fd \<noteq> [])) else ([], s2, True)
               | [] \<Rightarrow> ([], s2, True))
           in if \<not> fok then None
              else case json_exponent s3 of
                     None \<Rightarrow> None
                   | Some (e, s4) \<Rightarrow>
                       let m = of_nat (digits_value 0 (ds @ fs)) * pow10 (e - int (length fs))
                       in Some (if neg then - m else m, s4))"

fun json_value :: "nat \<Rightarrow> ustr \<Rightarrow> (json \<times> ustr) option"
  and json_elements :: "nat \<Rightarrow> ustr \<Rightarrow> (json list \<times> ustr) option"
  and json_members :: "nat \<Rightarrow> ustr \<Rightarrow> ((ustr \<times> json) list \<times> ustr) option" where
  "json_value 0 s = None"
| "json_value (Suc n) s =
     (case json_ws s of
        [] \<Rightarrow> None
      | c # r \<Rightarrow>
          (if c = 34 then map_option (\<lambda>(t, q). (JString t, q)) (json_chars (Suc (length r)) r)
           else if c = 91 then
             (case json_ws r of
                d # q \<Rightarrow> if d = 93 then Some (JArray [], q)
                         else map_option (\<lambda>(vs, q). (JArray vs, q)) (json_elements n r)
              | [] \<Rightarrow> None)
           else if c = 123 then
             (case json_ws r of
                d # q \<Rightarrow> if d = 125 then Some (JObject [], q)
                         else map_option (\<lambda>(ms, q). (JObject ms, q)) (json_members n r)
              | [] \<Rightarrow> None)
           else if starts_with (u ''true'') (c # r) then Some (JBool True, drop 3 r)
           else if starts_with (u ''false'') (c # r) then Some (JBool False, drop 4 r)
           else if starts_with (u ''null'') (c # r) then Some (JNull, drop 3 r)
           else map_option (\<lambda>(v, q). (JNumber v, q)) (json_number (c # r))))"
| "json_elements 0 s = None"
| "json_elements (Suc n) s =
     (case json_value n s of
        None \<Rightarrow> None
      | Some (v, r) \<Rightarrow>
          (case json_ws r of
             [] \<Rightarrow> None
           | c # q \<Rightarrow> if c = 44 then map_option (\<lambda>(vs, q). (v # vs, q)) (json_elements n q)
                      else if c = 93 then Some ([v], q) else None))"
| "json_members 0 s = None"
| "json_members (Suc n) s =
     (case json_ws s of
        [] \<Rightarrow> None
      | c # r \<Rightarrow>
          if c \<noteq> 34 then None
          else case json_chars (Suc (length r)) r of
                 None \<Rightarrow> None
               | Some (k, r1) \<Rightarrow>
                   (case json_ws r1 of
                      [] \<Rightarrow> None
                    | d # r2 \<Rightarrow>
                        if d \<noteq> 58 then None
                        else case json_value n r2 of
                               None \<Rightarrow> None
                             | Some (v, r3) \<Rightarrow>
                                 (case json_ws r3 of
                                    [] \<Rightarrow> None
                                  | e # q \<Rightarrow> if e = 44 then map_option (\<lambda>(ms, q). ((k, v) # ms, q)) (json_members n q)
                                             else if e = 125 then Some ([(k, v)], q) else None)))"

definition json_parse :: "ustr \<Rightarrow> json option" where
  \<comment> \<open>\<^term>\<open>None\<close> where \<open>JSON.parse\<close> throws; each level consumes a character, so the length bounds the depth\<close>
  "json_parse s =
     (case json_value (Suc (2 * length s)) s of
        Some (v, r) \<Rightarrow> if json_ws r = [] then Some v else None
      | None \<Rightarrow> None)"

section \<open>decodeURIComponent\<close>

definition pct_byte :: "ustr \<Rightarrow> (nat \<times> ustr) option" where
  \<comment> \<open>the two hexadecimal digits after a percent sign\<close>
  "pct_byte s =
     (case s of
        a # b # r \<Rightarrow> (case (hex_unit a, hex_unit b) of (Some p, Some q) \<Rightarrow> Some (p * 16 + q, r) | _ \<Rightarrow> None)
      | _ \<Rightarrow> None)"

fun pct_conts :: "nat \<Rightarrow> nat \<Rightarrow> nat \<Rightarrow> nat \<Rightarrow> ustr \<Rightarrow> (nat \<times> ustr) option" where
  "pct_conts 0 lo hi acc s = Some (acc, s)"
| "pct_conts (Suc k) lo hi acc [] = None"
| "pct_conts (Suc k) lo hi acc (c # s) =
     (if c \<noteq> 37 then None
      else case pct_byte s of
             None \<Rightarrow> None
           | Some (b, r) \<Rightarrow> if lo \<le> b \<and> b \<le> hi then pct_conts k 0x80 0xBF (acc * 64 + b mod 64) r else None)"

lemma pct_byte_length: "pct_byte s = Some (b, r) \<Longrightarrow> length r < length s"
  by (auto simp: pct_byte_def split: list.splits option.splits)

lemma pct_conts_length: "pct_conts k lo hi acc s = Some (p, r) \<Longrightarrow> length r \<le> length s"
proof (induction k lo hi acc s rule: pct_conts.induct)
  case (3 k lo hi acc c s)
  then show ?case by (fastforce split: option.splits prod.splits if_splits dest: pct_byte_length)
qed auto

function decode_uri :: "ustr \<Rightarrow> ustr option" where
  \<comment> \<open>\<^term>\<open>None\<close> where \<open>decodeURIComponent\<close> throws a \<open>URIError\<close>\<close>
  "decode_uri [] = Some []"
| "decode_uri (c # s) =
     (if c \<noteq> 37 then map_option (\<lambda>t. c # t) (decode_uri s)
      else case pct_byte s of
             None \<Rightarrow> None
           | Some (b, r) \<Rightarrow>
               if b < 0x80 then map_option (\<lambda>t. b # t) (decode_uri r)
               else (case utf8_lead b of
                       None \<Rightarrow> None
                     | Some (n, lo, hi, acc) \<Rightarrow>
                         (case pct_conts n lo hi acc r of
                            None \<Rightarrow> None
                          | Some (p, q) \<Rightarrow> map_option (\<lambda>t. units_of p @ t) (decode_uri q))))"
  by pat_completeness auto
termination
  by (relation "measure length") (auto dest!: pct_byte_length pct_conts_length)

end
