(* ===== verification/GateUrl.thy ===== *)
theory GateUrl
  imports GateText
begin

text \<open>
  The redirect target of \<open>docker/gate/server.mjs\<close>: the part of the WHATWG URL parser that
  \<open>new URL(path, 'http://gate.invalid')\<close> reaches for a path that starts with one slash,
  \<open>URLSearchParams\<close>, and \<open>safeNext\<close> and \<open>nextFromTarget\<close> on top of them.  The main lemmas show that what
  \<open>safeNext\<close> answers is printable ASCII, at most 2048 units long, and resolves on the origin of
  the gate: one leading slash, followed neither by a slash nor by a backslash.
\<close>

section \<open>The URL parser on an absolute path\<close>

text \<open>Whether a path percent-encodes the circumflex has changed between releases of the URL standard: it is the
  argument \<open>caret\<close> of the definitions.\<close>

definition c0_encoded :: "nat \<Rightarrow> bool" where
  "c0_encoded c \<longleftrightarrow> c < 0x20 \<or> 0x7E < c"

definition path_encoded :: "bool \<Rightarrow> nat \<Rightarrow> bool" where
  "path_encoded caret c \<longleftrightarrow> c0_encoded c \<or> c \<in> {32, 34, 35, 60, 62, 63, 96, 123, 125} \<or> (caret \<and> c = 94)"

definition query_encoded :: "nat \<Rightarrow> bool" where
  \<comment> \<open>the special-query set: the scheme is http\<close>
  "query_encoded c \<longleftrightarrow> c0_encoded c \<or> c \<in> {32, 34, 35, 39, 60, 62}"

definition hash_encoded :: "nat \<Rightarrow> bool" where
  "hash_encoded c \<longleftrightarrow> c0_encoded c \<or> c \<in> {32, 34, 60, 62, 96}"

definition hex_up :: "nat \<Rightarrow> nat" where
  "hex_up d = (if d < 10 then 48 + d else 55 + d)"

definition pct :: "nat \<Rightarrow> ustr" where
  "pct b = [37, hex_up (b div 16), hex_up (b mod 16)]"

definition encode_point :: "(nat \<Rightarrow> bool) \<Rightarrow> nat \<Rightarrow> ustr" where
  "encode_point enc c = (if enc c then concat (map pct (utf8_point c)) else [c])"

definition lower_unit :: "nat \<Rightarrow> nat" where
  "lower_unit c = (if 65 \<le> c \<and> c \<le> 90 then c + 32 else c)"

definition single_dot :: "ustr \<Rightarrow> bool" where
  "single_dot b \<longleftrightarrow> map lower_unit b \<in> {u ''.'', u ''%2e''}"

definition double_dot :: "ustr \<Rightarrow> bool" where
  "double_dot b \<longleftrightarrow> map lower_unit b \<in> {u ''..'', u ''.%2e'', u ''%2e.'', u ''%2e%2e''}"

definition path_segment :: "bool \<Rightarrow> ustr \<Rightarrow> ustr list \<Rightarrow> ustr list" where
  \<comment> \<open>the end of a segment; \<open>slashed\<close>: a slash ended it\<close>
  "path_segment slashed buf segs =
     (if double_dot buf then (if slashed then butlast segs else butlast segs @ [[]])
      else if single_dot buf then (if slashed then segs else segs @ [[]])
      else segs @ [buf])"

fun path_state :: "bool \<Rightarrow> ustr \<Rightarrow> ustr list \<Rightarrow> nat list \<Rightarrow> ustr list \<times> nat list" where
  \<comment> \<open>the path state: the segments, and the input left from a \<open>?\<close> or a \<open>#\<close> on\<close>
  "path_state caret buf segs [] = (path_segment False buf segs, [])"
| "path_state caret buf segs (c # s) =
     (if c = 47 \<or> c = 92 then path_state caret [] (path_segment True buf segs) s
      else if c = 63 \<or> c = 35 then (path_segment False buf segs, c # s)
      else path_state caret (buf @ encode_point (path_encoded caret) c) segs s)"

record url =
  pathname :: ustr
  search :: ustr
  hash :: ustr

definition url_hash :: "nat list \<Rightarrow> ustr" where
  "url_hash s = (if s = [] then [] else 35 # concat (map (encode_point hash_encoded) s))"

definition url_query :: "nat list \<Rightarrow> ustr \<times> ustr" where
  \<comment> \<open>\<open>search\<close> and \<open>hash\<close> of what follows the path; an empty query or fragment reads as the empty string\<close>
  "url_query s =
     (case s of
        [] \<Rightarrow> ([], [])
      | c # t \<Rightarrow>
          if c = 63 then
            (let q = takeWhile (\<lambda>x. x \<noteq> 35) t
             in (if q = [] then [] else 63 # concat (map (encode_point query_encoded) q),
                 url_hash (drop 1 (dropWhile (\<lambda>x. x \<noteq> 35) t))))
          else ([], url_hash t))"

definition strip_right :: "nat list \<Rightarrow> nat list" where
  "strip_right s = rev (dropWhile (\<lambda>c. c \<le> 32) (rev s))"

definition new_url :: "bool \<Rightarrow> ustr \<Rightarrow> url" where
  \<comment> \<open>\<open>new URL(path, base)\<close> for a path with exactly one leading slash and no control character\<close>
  "new_url caret path =
     (let (segs, rest) = path_state caret [] [] (strip_right (tl (code_points path)));
          (q, f) = url_query rest
      in \<lparr>pathname = concat (map (\<lambda>g. 47 # g) segs), search = q, hash = f\<rparr>)"

section \<open>safeNext\<close>

definition safeNext :: "bool \<Rightarrow> ustr \<Rightarrow> ustr" where
  "safeNext caret value =
     (if value = [] \<or> 2048 < length value then u ''/''
      else
        let path = (if 37 \<in> set value then (case decode_uri value of None \<Rightarrow> value | Some p \<Rightarrow> p) else value)
        in if 2048 < length path then u ''/''
           else if take 1 path \<noteq> [47] then u ''/''
           else if take 1 (drop 1 path) = [47] \<or> take 1 (drop 1 path) = [92] then u ''/''
           else if \<exists>c\<in>set path. c < 0x20 \<or> c = 0x7F then u ''/''
           else
             let url = new_url caret path;
                 out = pathname url @ search url @ hash url
             in if \<not> starts_with (u ''/'') out \<or> starts_with (u ''//'') out then u ''/''
                else if out = u ''/gate'' \<or> starts_with (u ''/gate/'') out \<or> starts_with (u ''/gate?'') out then u ''/''
                else if 2048 < length out then u ''/'' else out)"

definition nextFromTarget :: "bool \<Rightarrow> ustr \<Rightarrow> ustr" where
  "nextFromTarget caret target =
     (case index_of [63] target of
        None \<Rightarrow> u ''/''
      | Some mark \<Rightarrow>
          (let query = drop (mark + 1) target
           in if starts_with (u ''next='') query then safeNext caret (drop 5 query)
              else case index_of (u ''&next='') query of
                     Some joined \<Rightarrow> safeNext caret (drop (joined + 6) query)
                   | None \<Rightarrow> u ''/''))"

section \<open>URLSearchParams\<close>

function percent_decode :: "nat list \<Rightarrow> nat list" where
  \<comment> \<open>a malformed escape stays as it is\<close>
  "percent_decode [] = []"
| "percent_decode (c # s) =
     (if c = 37 then (case pct_byte s of None \<Rightarrow> 37 # percent_decode s | Some (b, r) \<Rightarrow> b # percent_decode r)
      else c # percent_decode s)"
  by pat_completeness auto
termination
  by (relation "measure length") (auto dest!: pct_byte_length)

definition form_text :: "nat list \<Rightarrow> ustr" where
  "form_text bs = utf8_read (percent_decode (map (\<lambda>b. if b = 43 then 32 else b) bs))"

definition form_pair :: "nat list \<Rightarrow> ustr \<times> ustr" where
  "form_pair bs = (form_text (takeWhile (\<lambda>b. b \<noteq> 61) bs), form_text (drop 1 (dropWhile (\<lambda>b. b \<noteq> 61) bs)))"

definition form_parse :: "ustr \<Rightarrow> (ustr \<times> ustr) list" where
  \<comment> \<open>\<open>new URLSearchParams(raw)\<close>: one leading question mark is dropped, empty pieces are skipped\<close>
  "form_parse raw =
     (let body = (if take 1 raw = [63] then drop 1 raw else raw)
      in map form_pair (filter (\<lambda>p. p \<noteq> []) (split_on 38 (utf8_octets body))))"

definition form_all :: "(ustr \<times> ustr) list \<Rightarrow> ustr \<Rightarrow> ustr list" where
  "form_all form k = map snd (filter (\<lambda>p. fst p = k) form)"

definition form_get :: "(ustr \<times> ustr) list \<Rightarrow> ustr \<Rightarrow> ustr option" where
  "form_get form k = map_of form k"

section \<open>Code units stay code units\<close>

definition units :: "ustr \<Rightarrow> bool" where
  "units s \<longleftrightarrow> list_all (\<lambda>c. c < 0x10000) s"

lemma units_simps [simp]:
  "units []" "units (c # s) \<longleftrightarrow> c < 0x10000 \<and> units s" "units (s @ t) \<longleftrightarrow> units s \<and> units t"
  by (simp_all add: units_def)

lemma carry64: "x < 64 \<Longrightarrow> n * 64 + x + 1 \<le> (n + 1) * (64 :: nat)"
  by simp

lemma pct_conts_bound: "pct_conts k lo hi acc s = Some (p, r) \<Longrightarrow> p < (acc + 1) * 64 ^ k"
proof (induction k lo hi acc s rule: pct_conts.induct)
  case (3 k lo hi acc c s)
  then obtain b q where b: "pct_byte s = Some (b, q)" "pct_conts k 0x80 0xBF (acc * 64 + b mod 64) q = Some (p, r)"
    by (auto split: option.splits if_splits)
  then have "p < (acc * 64 + b mod 64 + 1) * 64 ^ k"
    using 3 by (auto split: if_splits)
  also have "\<dots> \<le> ((acc + 1) * 64) * 64 ^ k"
    by (rule mult_le_mono1, rule carry64) simp
  finally show ?case by (simp only: power_Suc mult.assoc)
qed auto

lemma utf8_lead_bound: "utf8_lead b = Some (n, lo, hi, acc) \<Longrightarrow> (acc + 1) * 64 ^ n \<le> 0x200000"
  by (auto simp: utf8_lead_def split: if_splits)

lemma units_of_units: "p < 0x200000 \<Longrightarrow> units (units_of p)"
proof -
  assume "p < 0x200000"
  then have "(p - 0x10000) div 0x400 < 0x7C0" by linarith
  moreover have "(p - 0x10000) mod 0x400 < 0x400" by simp
  ultimately show ?thesis by (auto simp: units_of_def)
qed

lemma pct_byte_units: "pct_byte s = Some (b, r) \<Longrightarrow> units s \<Longrightarrow> b < 256 \<and> units r"
  by (auto simp: pct_byte_def hex_unit_def split: list.splits option.splits if_splits)

lemma pct_conts_units: "pct_conts k lo hi acc s = Some (p, r) \<Longrightarrow> units s \<Longrightarrow> units r"
proof (induction k lo hi acc s rule: pct_conts.induct)
  case (3 k lo hi acc c s)
  then show ?case by (auto split: option.splits if_splits dest!: pct_byte_units)
qed auto

lemma decode_uri_units: "decode_uri s = Some t \<Longrightarrow> units s \<Longrightarrow> units t"
proof (induction s arbitrary: t rule: decode_uri.induct)
  case (2 c s)
  show ?case
  proof (cases "c = 37")
    case False
    then show ?thesis using 2 by auto
  next
    case True
    then obtain b r where b: "pct_byte s = Some (b, r)" using "2.prems" by (auto split: option.splits)
    from pct_byte_units [OF b] "2.prems"(2) have r: "b < 256" "units r" by auto
    show ?thesis
    proof (cases "b < 0x80")
      case True
      then obtain z where z: "decode_uri r = Some z" "t = b # z" using \<open>c = 37\<close> b "2.prems" by auto
      show ?thesis using "2.IH"(2) [OF _ b refl True z(1) r(2)] \<open>c = 37\<close> z(2) r(1) by simp
    next
      case False
      then obtain n lo hi acc where l: "utf8_lead b = Some (n, lo, hi, acc)"
        using \<open>c = 37\<close> b "2.prems" by (auto split: option.splits)
      then obtain p q where q: "pct_conts n lo hi acc r = Some (p, q)"
        using \<open>c = 37\<close> b False "2.prems" by (auto split: option.splits)
      have p: "p < 0x200000" using pct_conts_bound [OF q] utf8_lead_bound [OF l] by linarith
      obtain t' where t: "decode_uri q = Some t'" "t = units_of p @ t'"
        using \<open>c = 37\<close> b False l q "2.prems" by auto
      have "units t'"
        using "2.IH"(3) [OF _ b refl False l refl refl refl q refl t(1) pct_conts_units [OF q r(2)]] \<open>c = 37\<close> by simp
      then show ?thesis using t units_of_units [OF p] by simp
    qed
  qed
qed simp

lemma code_points_bound: "units s \<Longrightarrow> p \<in> set (code_points s) \<Longrightarrow> p < 0x110000"
proof (induction s rule: code_points.induct)
  case (3 c d s)
  have *: "(c - 0xD800) * 0x400 < 0x100000" if "c \<le> 0xDBFF" using that by linarith
  show ?case
    using 3 * by (auto split: if_splits)
qed (auto split: if_splits)

lemma utf8_point_octets: "p < 0x110000 \<Longrightarrow> b \<in> set (utf8_point p) \<Longrightarrow> b < 256"
proof -
  assume p: "p < 0x110000" and b: "b \<in> set (utf8_point p)"
  have m: "p div 4096 mod 64 < 64" "p div 64 mod 64 < 64" "p mod 64 < 64" by simp_all
  have d: "p < 0x800 \<Longrightarrow> p div 64 < 32" "p < 0x10000 \<Longrightarrow> p div 4096 < 16" "p div 262144 < 8" using p by linarith+
  show "b < 256" using b m d by (auto simp: utf8_point_def split: if_splits)
qed

section \<open>What safeNext answers\<close>

definition visible :: "nat \<Rightarrow> bool" where
  "visible c \<longleftrightarrow> 0x21 \<le> c \<and> c \<le> 0x7E"

lemma hex_up_visible: "d < 16 \<Longrightarrow> visible (hex_up d) \<and> hex_up d \<noteq> 92 \<and> hex_up d \<noteq> 47"
  by (auto simp: visible_def hex_up_def)

lemma encode_point_visible:
  assumes "p < 0x110000" and "x \<in> set (encode_point enc p)"
  shows "(enc p \<and> visible x \<and> x \<noteq> 92 \<and> x \<noteq> 47) \<or> (\<not> enc p \<and> x = p)"
proof (cases "enc p")
  case True
  then obtain b where b: "b \<in> set (utf8_point p)" "x \<in> set (pct b)"
    using assms by (auto simp: encode_point_def)
  from utf8_point_octets [OF assms(1) b(1)] have "b div 16 < 16" "b mod 16 < 16" by auto
  with b(2) True show ?thesis
    using hex_up_visible [of "b div 16"] hex_up_visible [of "b mod 16"] by (auto simp: pct_def visible_def)
next
  case False
  with assms show ?thesis by (simp add: encode_point_def)
qed

definition segment_unit :: "nat \<Rightarrow> bool" where
  "segment_unit c \<longleftrightarrow> visible c \<and> c \<noteq> 92 \<and> c \<noteq> 47"

lemma plain_visible: "\<not> c0_encoded c \<Longrightarrow> c \<noteq> 32 \<Longrightarrow> visible c"
  unfolding c0_encoded_def visible_def by linarith

lemma path_plain: "\<not> path_encoded caret c \<Longrightarrow> visible c"
  and query_plain: "\<not> query_encoded c \<Longrightarrow> visible c"
  and hash_plain: "\<not> hash_encoded c \<Longrightarrow> visible c"
  by (auto simp: path_encoded_def query_encoded_def hash_encoded_def intro: plain_visible)

lemma path_point_unit:
  assumes "p < 0x110000" "p \<noteq> 47" "p \<noteq> 92" and x: "x \<in> set (encode_point (path_encoded caret) p)"
  shows "segment_unit x"
  using encode_point_visible [OF assms(1) x] assms(2,3)
  by (auto simp: segment_unit_def dest: path_plain)

lemma path_segment_nonempty: "path_segment False buf segs \<noteq> []"
  by (simp add: path_segment_def)

lemma path_segment_units:
  "\<lbrakk>list_all (list_all segment_unit) segs; list_all segment_unit buf\<rbrakk>
    \<Longrightarrow> list_all (list_all segment_unit) (path_segment slashed buf segs)"
  by (auto simp: path_segment_def list_all_iff dest: in_set_butlastD)

lemma path_state_units:
  "\<lbrakk>path_state caret buf segs s = (out, rest); list_all (list_all segment_unit) segs; list_all segment_unit buf;
     list_all (\<lambda>p. p < 0x110000) s\<rbrakk>
    \<Longrightarrow> list_all (list_all segment_unit) out \<and> out \<noteq> []
       \<and> list_all (\<lambda>p. p < 0x110000) rest \<and> (rest = [] \<or> hd rest = 63 \<or> hd rest = 35)"
proof (induction caret buf segs s rule: path_state.induct)
  case (1 caret buf segs)
  then show ?case using path_segment_units [of segs buf False] path_segment_nonempty [of buf segs] by auto
next
  case (2 caret buf segs c s)
  show ?case
  proof (cases "c = 47 \<or> c = 92")
    case True
    then show ?thesis using 2 path_segment_units [of segs buf True] by auto
  next
    case f: False
    show ?thesis
    proof (cases "c = 63 \<or> c = 35")
      case True
      then show ?thesis using 2 f path_segment_units [of segs buf False] path_segment_nonempty [of buf segs] by auto
    next
      case False
      have "list_all segment_unit (buf @ encode_point (path_encoded caret) c)"
        using "2.prems" f path_point_unit [of c] by (auto simp: list_all_iff)
      then show ?thesis using "2.IH"(2) 2 f False by auto
    qed
  qed
qed

lemma encode_visible:
  assumes "list_all (\<lambda>p. p < 0x110000) s" and "\<And>c. \<not> enc c \<Longrightarrow> visible c"
  shows "list_all visible (concat (map (encode_point enc) s))"
  using assms encode_point_visible [of _ _ enc] by (fastforce simp: list_all_iff)

lemma list_all_drop: "list_all P s \<Longrightarrow> list_all P (drop n s)"
  by (auto simp: list_all_iff dest: in_set_dropD)

lemma list_all_While:
  "list_all P s \<Longrightarrow> list_all P (takeWhile Q s)" "list_all P s \<Longrightarrow> list_all P (dropWhile Q s)"
  by (auto simp: list_all_iff dest: set_takeWhileD set_dropWhileD)

lemma url_query_visible:
  assumes "list_all (\<lambda>p. p < 0x110000) s" and "s = [] \<or> hd s = 63 \<or> hd s = 35" and "url_query s = (q, f)"
  shows "list_all visible q" "list_all visible f" "q = [] \<or> hd q = 63" "f = [] \<or> hd f = 35"
proof -
  have h35: "hd (url_hash t) = 35" if "url_hash t \<noteq> []" for t
    using that by (auto simp: url_hash_def split: if_splits)
  have hs: "list_all visible (url_hash t)" if "list_all (\<lambda>p. p < 0x110000) t" for t
    using encode_visible [OF that hash_plain] by (simp_all add: url_hash_def visible_def)
  have qs: "list_all visible (concat (map (encode_point query_encoded) t))" if "list_all (\<lambda>p. p < 0x110000) t" for t
    using encode_visible [OF that query_plain] .
  show "list_all visible q" "list_all visible f" "q = [] \<or> hd q = 63" "f = [] \<or> hd f = 35"
    using assms h35 hs [OF list_all_drop [OF list_all_While(2)]] qs [OF list_all_While(1)] hs
    by (auto simp: url_query_def Let_def visible_def split: list.splits if_splits)
qed

lemma strip_right_subset: "set (strip_right s) \<subseteq> set s"
  by (auto simp: strip_right_def dest: set_dropWhileD)

lemma new_url_shape:
  assumes "units path"
  shows "\<exists>t. pathname (new_url caret path) @ search (new_url caret path) @ hash (new_url caret path) = 47 # t
    \<and> list_all visible t \<and> (t \<noteq> [] \<longrightarrow> hd t \<noteq> 92)"
proof -
  let ?s = "strip_right (tl (code_points path))"
  obtain segs rest where p: "path_state caret [] [] ?s = (segs, rest)" by fastforce
  obtain q f where q: "url_query rest = (q, f)" by fastforce
  have b: "list_all (\<lambda>p. p < 0x110000) ?s"
  proof -
    have "p < 0x110000" if "p \<in> set ?s" for p
    proof -
      have "p \<in> set (tl (code_points path))" using that strip_right_subset by blast
      then have "p \<in> set (code_points path)" by (cases "code_points path") simp_all
      then show ?thesis by (rule code_points_bound [OF assms])
    qed
    then show ?thesis by (simp add: list_all_iff)
  qed
  have segs: "list_all (list_all segment_unit) segs" "segs \<noteq> []" "list_all (\<lambda>p. p < 0x110000) rest"
    "rest = [] \<or> hd rest = 63 \<or> hd rest = 35"
    using path_state_units [OF p _ _ b] by auto
  note qf = url_query_visible [OF segs(3,4) q]
  obtain g gs where g: "segs = g # gs" using segs(2) by (cases segs) auto
  let ?t = "g @ concat (map (\<lambda>g. 47 # g) gs) @ q @ f"
  have "list_all visible ?t"
    using segs(1) qf(1,2) by (auto simp: g list_all_iff segment_unit_def visible_def)
  moreover have "hd ?t \<noteq> 92" if "?t \<noteq> []"
  proof (cases g)
    case Nil
    then show ?thesis using that qf(3,4) by (cases gs; cases q; cases f) auto
  next
    case (Cons x xs)
    then show ?thesis using segs(1) by (simp add: g segment_unit_def)
  qed
  ultimately show ?thesis
    by (intro exI [of _ ?t]) (simp add: new_url_def p q g)
qed

definition local_target :: "ustr \<Rightarrow> bool" where
  \<comment> \<open>a reference that every browser resolves on the origin it came from\<close>
  "local_target r \<longleftrightarrow>
     take 1 r = [47] \<and> take 1 (drop 1 r) \<noteq> [47] \<and> take 1 (drop 1 r) \<noteq> [92]
     \<and> list_all visible r \<and> length r \<le> 2048"

lemma local_root [simp]: "local_target (u ''/'')"
  by (simp add: local_target_def visible_def)

lemma safeNext_local: "units value \<Longrightarrow> local_target (safeNext caret value)"
proof -
  assume v: "units value"
  define path where "path = (if 37 \<in> set value then (case decode_uri value of None \<Rightarrow> value | Some p \<Rightarrow> p) else value)"
  have p: "units path" using v decode_uri_units by (auto simp: path_def split: option.splits)
  obtain t where t: "pathname (new_url caret path) @ search (new_url caret path) @ hash (new_url caret path) = 47 # t"
    "list_all visible t" "t \<noteq> [] \<Longrightarrow> hd t \<noteq> 92"
    using new_url_shape [OF p, of caret] by auto
  define out where "out = pathname (new_url caret path) @ search (new_url caret path) @ hash (new_url caret path)"
  have "local_target out" if "\<not> starts_with (u ''//'') out" "length out \<le> 2048"
    using that t by (cases t) (auto simp: out_def local_target_def starts_with_def visible_def)
  then show ?thesis
    unfolding safeNext_def Let_def path_def [symmetric] out_def [symmetric]
    using local_root by (simp add: not_less del: u_simps)
qed

lemma safeNext_not_gate:
  "safeNext caret value \<noteq> u ''/gate'' \<and> \<not> starts_with (u ''/gate/'') (safeNext caret value)
     \<and> \<not> starts_with (u ''/gate?'') (safeNext caret value)"
proof -
  define gate where "gate out \<longleftrightarrow> out = u ''/gate'' \<or> starts_with (u ''/gate/'') out \<or> starts_with (u ''/gate?'') out" for out
  define path where "path = (if 37 \<in> set value then (case decode_uri value of None \<Rightarrow> value | Some p \<Rightarrow> p) else value)"
  define out where "out = pathname (new_url caret path) @ search (new_url caret path) @ hash (new_url caret path)"
  have root: "\<not> gate (u ''/'')" by (simp add: gate_def starts_with_def)
  have "\<not> gate (safeNext caret value)"
    unfolding safeNext_def Let_def path_def [symmetric] out_def [symmetric] gate_def [symmetric]
    using root by (simp del: u_simps)
  then show ?thesis unfolding gate_def by blast
qed

section \<open>Ordinary paths pass unchanged\<close>

definition plain_unit :: "nat \<Rightarrow> bool" where
  \<comment> \<open>letters, digits, \<open>-\<close>, \<open>_\<close>\<close>
  "plain_unit c \<longleftrightarrow> dec_digit c \<or> (65 \<le> c \<and> c \<le> 90) \<or> (97 \<le> c \<and> c \<le> 122) \<or> c = 45 \<or> c = 95"

definition path_text :: "ustr list \<Rightarrow> ustr" where
  "path_text segs = concat (map (\<lambda>g. 47 # g) segs)"

lemma plain_unit_range: "plain_unit c \<Longrightarrow> 45 \<le> c \<and> c \<le> 122 \<and> c \<noteq> 46 \<and> c \<noteq> 47 \<and> c \<noteq> 60 \<and> c \<noteq> 62 \<and> c \<noteq> 63 \<and> c \<noteq> 92 \<and> c \<noteq> 94 \<and> c \<noteq> 96"
  by (auto simp: plain_unit_def dec_digit_def)

lemma plain_not_encoded: "plain_unit c \<Longrightarrow> \<not> path_encoded caret c"
  using plain_unit_range [of c] by (auto simp: path_encoded_def c0_encoded_def)

lemma path_state_plain:
  "list_all plain_unit g \<Longrightarrow> path_state caret buf segs (g @ s) = path_state caret (buf @ g) segs s"
proof (induction g arbitrary: buf)
  case (Cons c g)
  then have "c \<noteq> 47" "c \<noteq> 92" "c \<noteq> 63" "c \<noteq> 35" "\<not> path_encoded caret c"
    using plain_unit_range [of c] plain_not_encoded [of c] by auto
  then show ?case using Cons by (simp add: encode_point_def)
qed simp

lemma plain_not_dot: "list_all plain_unit g \<Longrightarrow> \<not> single_dot g \<and> \<not> double_dot g"
proof -
  assume p: "list_all plain_unit g"
  have *: "lower_unit c \<noteq> 46 \<and> lower_unit c \<noteq> 37" if "plain_unit c" for c
    using plain_unit_range [OF that] by (auto simp: lower_unit_def)
  then have "46 \<notin> set (map lower_unit g)" "37 \<notin> set (map lower_unit g)" using p by (auto simp: list_all_iff)
  then show ?thesis by (auto simp: single_dot_def double_dot_def)
qed

lemma path_state_path:
  "\<lbrakk>list_all (list_all plain_unit) gs; list_all plain_unit buf\<rbrakk>
    \<Longrightarrow> path_state caret buf segs (path_text gs) = (segs @ [buf] @ gs, [])"
proof (induction gs arbitrary: buf segs)
  case Nil
  then show ?case using plain_not_dot [of buf] by (simp add: path_text_def path_segment_def)
next
  case (Cons g gs)
  have "path_state caret buf segs (path_text (g # gs)) = path_state caret [] (segs @ [buf]) (g @ path_text gs)"
    using Cons.prems plain_not_dot [of buf] by (simp add: path_text_def path_segment_def)
  then show ?case using Cons path_state_plain [of g caret "[]" "segs @ [buf]"] by simp
qed

end
