(* ===== verification/GateToken.thy ===== *)
theory GateToken
  imports GateUrl
begin

text \<open>
  \<open>docker/gate/server.mjs\<close>, lines 34 to 217: the configuration read from the environment, the
  credentials, the signed token and its verification, the password comparison, and the reading of the
  cookie and of the client address.  The hash functions of \<open>node:crypto\<close> are the record
  \<open>node_crypto\<close>; the clock (\<open>Date.now()\<close>, in milliseconds) and the random secret are arguments.
\<close>

record node_crypto =
  sha256 :: "nat list \<Rightarrow> nat list"
  hmac :: "nat list \<Rightarrow> nat list \<Rightarrow> nat list"

section \<open>Configuration\<close>

definition COOKIE_NAME :: ustr where "COOKIE_NAME = u ''xkgate''"
definition DEFAULT_NAME :: ustr where "DEFAULT_NAME = u ''default''"
definition DEFAULT_PASSWORD :: ustr where "DEFAULT_PASSWORD = u ''xkoin#2030''"

definition name_unit :: "nat \<Rightarrow> bool" where
  "name_unit c \<longleftrightarrow> (65 \<le> c \<and> c \<le> 90) \<or> (97 \<le> c \<and> c \<le> 122) \<or> dec_digit c \<or> c = 95 \<or> c = 45"

definition NAME_PATTERN :: "ustr \<Rightarrow> bool" where
  "NAME_PATTERN s \<longleftrightarrow> 1 \<le> length s \<and> length s \<le> 64 \<and> list_all name_unit s"

definition warn_pair :: string where
  "warn_pair = ''gate: XKOIN_GATE_NAMED entry is not name:password, skipped'' @ [char_of (10 :: nat)]"
definition warn_name :: string where
  "warn_name = ''gate: XKOIN_GATE_NAMED name is not [A-Za-z0-9_-]{1,64}, skipped'' @ [char_of (10 :: nat)]"
definition warn_default :: string where
  "warn_default = ''gate: XKOIN_GATE_NAMED cannot redefine '' @ [char_of (34 :: nat)] @ ''default'' @ [char_of (34 :: nat)]
     @ '', skipped'' @ [char_of (10 :: nat)]"
definition warn_repeat :: string where
  "warn_repeat = ''gate: XKOIN_GATE_NAMED repeats a name, later entry skipped'' @ [char_of (10 :: nat)]"

fun parse_entries :: "ustr list \<Rightarrow> (ustr \<times> ustr) list \<times> string list \<Rightarrow> (ustr \<times> ustr) list \<times> string list" where
  "parse_entries [] acc = acc"
| "parse_entries (entry # es) (pairs, errs) =
     (let item = u_trim entry
      in if item = [] then parse_entries es (pairs, errs)
         else case index_of [58] item of
                None \<Rightarrow> parse_entries es (pairs, errs @ [warn_pair])
              | Some colon \<Rightarrow>
                  if colon < 1 \<or> colon = length item - 1 then parse_entries es (pairs, errs @ [warn_pair])
                  else let name = u_trim (take colon item); password = drop (colon + 1) item
                       in if \<not> NAME_PATTERN name then parse_entries es (pairs, errs @ [warn_name])
                          else if name = DEFAULT_NAME then parse_entries es (pairs, errs @ [warn_default])
                          else if name \<in> set (map fst pairs) then parse_entries es (pairs, errs @ [warn_repeat])
                          else parse_entries es (pairs @ [(name, password)], errs))"

definition parseNamed :: "ustr option \<Rightarrow> (ustr \<times> ustr) list \<times> string list" where
  \<comment> \<open>the pairs, and what is written to stderr\<close>
  "parseNamed raw =
     (case raw of
        None \<Rightarrow> ([], [])
      | Some r \<Rightarrow> if u_trim r = [] then ([], []) else parse_entries (split_on 44 r) ([], []))"

definition sign_split :: "ustr \<Rightarrow> bool \<times> ustr" where
  \<comment> \<open>an optional sign\<close>
  "sign_split s =
     (case s of c # r \<Rightarrow> if c = 45 then (True, r) else if c = 43 then (False, r) else (False, s) | [] \<Rightarrow> (False, s))"

definition parse_int10 :: "ustr \<Rightarrow> int option" where
  \<comment> \<open>\<open>Number.parseInt(s, 10)\<close>, \<^term>\<open>None\<close> for NaN\<close>
  "parse_int10 s =
     (let (neg, r) = sign_split (dropWhile u_ws s); ds = takeWhile dec_digit r
      in if ds = [] then None
         else Some (if neg then - int (digits_value 0 ds) else int (digits_value 0 ds)))"

definition toPort :: "ustr option \<Rightarrow> int \<Rightarrow> int" where
  "toPort raw fallback =
     (case parse_int10 (case raw of None \<Rightarrow> [] | Some r \<Rightarrow> r) of
        Some v \<Rightarrow> if v > 0 \<and> v < 65536 then v else fallback
      | None \<Rightarrow> fallback)"

definition radix_digit :: "nat \<Rightarrow> nat \<Rightarrow> nat option" where
  "radix_digit b c = (case hex_unit c of Some d \<Rightarrow> if d < b then Some d else None | None \<Rightarrow> None)"

fun radix_value :: "nat \<Rightarrow> nat \<Rightarrow> ustr \<Rightarrow> nat option" where
  "radix_value b acc [] = Some acc"
| "radix_value b acc (c # s) = (case radix_digit b c of None \<Rightarrow> None | Some d \<Rightarrow> radix_value b (b * acc + d) s)"

definition radix_literal :: "ustr \<Rightarrow> (nat \<times> ustr) option" where
  "radix_literal t =
     (case t of
        a # c # s \<Rightarrow>
          if a \<noteq> 48 \<or> s = [] then None
          else if c = 120 \<or> c = 88 then Some (16, s)
          else if c = 111 \<or> c = 79 then Some (8, s)
          else if c = 98 \<or> c = 66 then Some (2, s) else None
      | _ \<Rightarrow> None)"

definition decimal_literal :: "ustr \<Rightarrow> rat option" where
  "decimal_literal t =
     (let (neg, s1) = sign_split t;
          (ds, s2) = take_digits s1;
          (fs, s3) = (case s2 of c # r \<Rightarrow> if c = 46 then take_digits r else ([], s2) | [] \<Rightarrow> ([], s2))
      in if ds = [] \<and> fs = [] then None
         else case json_exponent s3 of
                Some (e, []) \<Rightarrow>
                  (let m = of_nat (digits_value 0 (ds @ fs)) * pow10 (e - int (length fs))
                   in Some (if neg then - m else m))
              | _ \<Rightarrow> None)"

definition js_Number :: "ustr \<Rightarrow> rat option" where
  \<comment> \<open>\<open>Number(s)\<close>, \<^term>\<open>None\<close> for NaN and the infinities\<close>
  "js_Number s =
     (let t = u_trim s
      in if t = [] then Some 0
         else case radix_literal t of
                Some (b, ds) \<Rightarrow> map_option of_nat (radix_value b 0 ds)
              | None \<Rightarrow> decimal_literal t)"

definition toHours :: "ustr option \<Rightarrow> rat \<Rightarrow> rat" where
  "toHours raw fallback =
     (case js_Number (case raw of None \<Rightarrow> [] | Some r \<Rightarrow> r) of
        Some v \<Rightarrow> if v > 0 \<and> v \<le> 8760 then v else fallback
      | None \<Rightarrow> fallback)"

record credential =
  cred_name :: ustr
  digest :: "nat list"
  key :: "nat list"

record env =
  env_port :: "ustr option"
  env_ttl :: "ustr option"
  env_secure :: "ustr option"
  env_trust :: "ustr option"
  env_secret :: "ustr option"
  env_password :: "ustr option"
  env_named :: "ustr option"

record config =
  PORT :: int
  TTL_SECONDS :: int
  SECURE :: bool
  TRUST_PROXY :: bool
  CREDENTIALS :: "credential list"

definition env_text :: "ustr option \<Rightarrow> ustr" where
  "env_text e = (case e of None \<Rightarrow> [] | Some s \<Rightarrow> s)"

definition hex_text :: "nat list \<Rightarrow> ustr" where
  "hex_text bs = concat (map (\<lambda>b. [hex_low (b div 16), hex_low (b mod 16)]) bs)"

definition gate_secret :: "env \<Rightarrow> nat list \<Rightarrow> ustr" where
  \<comment> \<open>the second argument is \<open>randomBytes(32)\<close>\<close>
  "gate_secret e random =
     (let s = env_text (env_secret e) in if length (u_trim s) < 16 then hex_text random else s)"

definition credential_of :: "node_crypto \<Rightarrow> ustr \<Rightarrow> ustr \<times> ustr \<Rightarrow> credential" where
  "credential_of N secret pair =
     (let d = sha256 N (utf8_octets (snd pair))
      in \<lparr>cred_name = fst pair, digest = d, key = hmac N (utf8_octets secret) d\<rparr>)"

definition gate_config :: "node_crypto \<Rightarrow> env \<Rightarrow> nat list \<Rightarrow> config" where
  "gate_config N e random =
     \<lparr>PORT = toPort (env_port e) 8081,
      TTL_SECONDS = js_round (toHours (env_ttl e) 72 * 3600),
      SECURE = (env_secure e \<noteq> Some (u ''false'')),
      TRUST_PROXY = (env_trust e = Some (u ''true'')),
      CREDENTIALS =
        map (credential_of N (gate_secret e random))
          ((DEFAULT_NAME, if env_text (env_password e) = [] then DEFAULT_PASSWORD else env_text (env_password e))
           # fst (parseNamed (env_named e)))\<rparr>"

section \<open>The token\<close>

definition token_payload :: "ustr \<Rightarrow> int \<Rightarrow> ustr" where
  \<comment> \<open>\<open>JSON.stringify({ n, exp })\<close>\<close>
  "token_payload n expiry = u ''{'' @ json_quote (u ''n'') @ u '':'' @ json_quote n @ u '','' @ json_quote (u ''exp'') @ u '':''
     @ u (int_str expiry) @ u ''}''"

definition sign :: "node_crypto \<Rightarrow> config \<Rightarrow> int \<Rightarrow> credential \<Rightarrow> ustr" where
  "sign N cfg now c =
     (let payload = token_payload (cred_name c) (now div 1000 + TTL_SECONDS cfg);
          signature = hmac N (key c) (utf8_octets payload)
      in b64_encode (utf8_octets payload) @ u ''.'' @ b64_encode signature)"

fun find_signer :: "node_crypto \<Rightarrow> ustr \<Rightarrow> nat list \<Rightarrow> credential list \<Rightarrow> credential option \<Rightarrow> credential option" where
  \<comment> \<open>the loop does not stop at a match: the last matching credential signs\<close>
  "find_signer N payload given [] signer = signer"
| "find_signer N payload given (c # cs) signer =
     find_signer N payload given cs (if given = hmac N (key c) (utf8_octets payload) then Some c else signer)"

definition json_field :: "json \<Rightarrow> ustr \<Rightarrow> json option" where
  \<comment> \<open>the last of the members with the same key\<close>
  "json_field v k = (case v of JObject ms \<Rightarrow> map_of (rev ms) k | _ \<Rightarrow> None)"

definition claims_ok :: "config \<Rightarrow> int \<Rightarrow> credential \<Rightarrow> json \<Rightarrow> ustr option" where
  "claims_ok cfg now signer claims =
     (case (json_field claims (u ''n''), json_field claims (u ''exp'')) of
        (Some (JString n), Some (JNumber e)) \<Rightarrow>
          if 2 ^ 1024 \<le> \<bar>e\<bar> \<or> e * 1000 \<le> of_int now then None
          else if n \<noteq> cred_name signer then None
          else Some n
      | _ \<Rightarrow> None)"

definition verify_gate :: "node_crypto \<Rightarrow> config \<Rightarrow> int \<Rightarrow> ustr option \<Rightarrow> ustr option" where
  "verify_gate N cfg now tok =
     (case tok of
        None \<Rightarrow> None
      | Some t \<Rightarrow>
          if t = [] \<or> 1024 < length t then None
          else case index_of [46] t of
                 None \<Rightarrow> None
               | Some dot \<Rightarrow>
                   if dot < 1 \<or> dot = length t - 1 then None
                   else if index_of_from [46] t (dot + 1) \<noteq> None then None
                   else
                     let payload = utf8_read (b64_decode (take dot t))
                     in if payload = [] then None
                        else let given = b64_decode (drop (dot + 1) t)
                             in case find_signer N payload given (CREDENTIALS cfg) None of
                                  None \<Rightarrow> None
                                | Some signer \<Rightarrow>
                                    (case json_parse payload of
                                       None \<Rightarrow> None
                                     | Some claims \<Rightarrow> claims_ok cfg now signer claims))"

fun match_loop :: "nat list \<Rightarrow> credential list \<Rightarrow> credential option \<Rightarrow> credential option" where
  "match_loop d [] matched = matched"
| "match_loop d (c # cs) matched = match_loop d cs (if d = digest c then Some c else matched)"

definition matchPassword :: "node_crypto \<Rightarrow> config \<Rightarrow> ustr \<Rightarrow> credential option" where
  "matchPassword N cfg submitted = match_loop (sha256 N (utf8_octets submitted)) (CREDENTIALS cfg) None"

section \<open>Requests\<close>

definition skip_spaces :: "ustr \<Rightarrow> nat \<Rightarrow> nat \<Rightarrow> nat" where
  \<comment> \<open>the first position from \<open>start\<close> on that holds no space, at most \<open>end\<close>\<close>
  "skip_spaces h start e = start + length (takeWhile (\<lambda>c. c = 32) (slice start e h))"

definition piece_end :: "ustr \<Rightarrow> nat \<Rightarrow> nat" where
  "piece_end h i = (case index_of_from [59] h i of None \<Rightarrow> length h | Some e \<Rightarrow> e)"

lemma piece_end_ge: "i < length h \<Longrightarrow> i \<le> piece_end h i"
  by (auto simp: piece_end_def index_of_from_def split: option.splits)

function cookie_loop :: "ustr \<Rightarrow> nat \<Rightarrow> ustr option" where
  "cookie_loop h index =
     (if index < length h then
        (let e = piece_end h index;
             start = skip_spaces h index e
         in case index_of_from [61] h start of
              Some equals \<Rightarrow>
                if equals < e \<and> slice start equals h = COOKIE_NAME then Some (u_trim (slice (equals + 1) e h))
                else cookie_loop h (e + 1)
            | None \<Rightarrow> cookie_loop h (e + 1))
      else None)"
  by pat_completeness auto
termination
  by (relation "measure (\<lambda>(h, i). length h - i)")
    (auto intro!: diff_less_mono2 simp: le_imp_less_Suc piece_end_ge)

declare cookie_loop.simps [simp del]

definition readCookie :: "ustr option \<Rightarrow> ustr option" where
  "readCookie header = (case header of None \<Rightarrow> None | Some h \<Rightarrow> if h = [] then None else cookie_loop h 0)"

record request =
  req_method :: ustr
  req_url :: ustr
  req_cookie :: "ustr option"
  req_type :: "ustr option"
  req_forwarded :: "ustr option"
  req_remote :: "ustr option"

definition remote_ip :: "request \<Rightarrow> ustr" where
  "remote_ip req = (case req_remote req of None \<Rightarrow> u ''unknown'' | Some a \<Rightarrow> a)"

definition clientIp :: "config \<Rightarrow> request \<Rightarrow> ustr" where
  "clientIp cfg req =
     (if TRUST_PROXY cfg then
        (case req_forwarded req of
           None \<Rightarrow> remote_ip req
         | Some forwarded \<Rightarrow>
             if forwarded = [] then remote_ip req
             else let first = u_trim (case index_of [44] forwarded of None \<Rightarrow> forwarded | Some comma \<Rightarrow> take comma forwarded)
                  in if first \<noteq> [] then take 64 first else remote_ip req)
      else remote_ip req)"

section \<open>Reading back a token\<close>

definition ascii :: "ustr \<Rightarrow> bool" where
  "ascii s \<longleftrightarrow> list_all (\<lambda>c. c < 0x80) s"

lemma ascii_simps [simp]:
  "ascii []" "ascii (c # s) \<longleftrightarrow> c < 0x80 \<and> ascii s" "ascii (s @ t) \<longleftrightarrow> ascii s \<and> ascii t"
  by (simp_all add: ascii_def)

lemma code_points_ascii: "ascii s \<Longrightarrow> code_points s = s"
  by (induction s rule: code_points.induct) auto

lemma utf8_octets_ascii: "ascii s \<Longrightarrow> utf8_octets s = s"
  by (simp add: utf8_octets_def code_points_ascii) (induction s, simp_all add: utf8_point_def)

lemma utf8_read_ascii: "ascii s \<Longrightarrow> utf8_read s = s"
  by (induction s rule: utf8_read.induct) auto

lemma ascii_octets: "ascii s \<Longrightarrow> list_all (\<lambda>b. b < 256) s"
  by (auto simp: ascii_def list_all_iff)

lemma b64_encode_units: "46 \<notin> set (b64_encode bs)"
proof -
  have *: "46 \<noteq> b64_char v" for v by (auto simp: b64_char_def)
  show ?thesis by (induction bs rule: b64_encode.induct) (simp_all add: *)
qed

lemma length_b64_encode: "length (b64_encode bs) = (4 * length bs + 2) div 3"
  by (induction bs rule: b64_encode.induct) auto

lemma digit_units: "c \<in> set (nat_str n) \<Longrightarrow> dec_digit (of_char c)"
  using nat_str_digits [of n] by (auto simp: digit_char_def dec_digit_def of_char_of)

lemma u_nat_str_digits: "list_all dec_digit (u (nat_str n))"
  by (auto simp: u_def list_all_iff intro: digit_units)

lemma digits_value_append: "digits_value acc (s @ t) = digits_value (digits_value acc s) t"
  by (induction acc s rule: digits_value.induct) auto

lemma digits_value_nat_str: "digits_value 0 (u (nat_str n)) = n"
proof (induction n rule: nat_str.induct)
  case (1 n)
  then show ?case
    by (subst nat_str.simps) (auto simp: digits_value_append digit_char_def of_char_of)
qed

lemma hd_nat_str: "0 < n \<Longrightarrow> hd (u (nat_str n)) \<noteq> 48"
proof (induction n rule: nat_str.induct)
  case (1 n)
  show ?case
  proof (cases "n < 10")
    case True
    then show ?thesis using 1 by (simp add: nat_str.simps digit_char_def of_char_of)
  next
    case False
    obtain c cs where c: "nat_str (n div 10) = c # cs" using nat_str_nonempty [of "n div 10"] by (cases "nat_str (n div 10)") auto
    have "hd (u (nat_str (n div 10))) \<noteq> 48" using 1 False by simp
    then show ?thesis using False c by (subst nat_str.simps) simp
  qed
qed

lemma json_units_plain: "list_all (\<lambda>c. 32 \<le> c \<and> c < 0x80 \<and> c \<noteq> 34 \<and> c \<noteq> 92) s \<Longrightarrow> json_units s = s"
  by (induction s rule: json_units.induct) (auto simp: json_unit_def)

lemma json_chars_plain:
  "\<lbrakk>list_all (\<lambda>c. 32 \<le> c \<and> c \<noteq> 34 \<and> c \<noteq> 92) s; length s < n\<rbrakk> \<Longrightarrow> json_chars n (s @ 34 # r) = Some (s, r)"
proof (induction s arbitrary: n)
  case Nil
  then show ?case by (cases n) auto
next
  case (Cons c s)
  then obtain m where "n = Suc m" by (cases n) auto
  with Cons show ?case by auto
qed

lemma json_number_nat:
  "json_number (u (nat_str n) @ 125 # r) = Some (of_nat n, 125 # r)"
proof -
  let ?d = "u (nat_str n)"
  have "?d \<noteq> []" by (cases "nat_str n") (use nat_str_nonempty [of n] in auto)
  then obtain d ds where d: "?d = d # ds" by (cases ?d) auto
  have dd: "dec_digit d" using u_nat_str_digits [of n] by (simp add: d)
  then have m: "d \<noteq> 45" by (auto simp: dec_digit_def)
  have t: "takeWhile dec_digit (?d @ 125 # r) = ?d" "dropWhile dec_digit (?d @ 125 # r) = 125 # r"
    using u_nat_str_digits [of n] by (auto simp: list_all_iff dec_digit_def takeWhile_append2 dropWhile_append2)
  have z: "\<not> (hd ?d = 48 \<and> 1 < length ?d)"
  proof (cases "n = 0")
    case True
    then show ?thesis by (simp add: nat_str.simps)
  next
    case False
    then show ?thesis using hd_nat_str [of n] by simp
  qed
  have v: "digits_value 0 ?d = n" by (rule digits_value_nat_str)
  show ?thesis
    using t z m v by (simp add: json_number_def d take_digits_def json_exponent_def pow10_def)
qed

definition payload_units :: "ustr \<Rightarrow> nat \<Rightarrow> ustr" where
  "payload_units n expiry = [123, 34, 110, 34, 58, 34] @ n @ [34, 44, 34, 101, 120, 112, 34, 58] @ u (nat_str expiry) @ [125]"

lemma name_plain: "NAME_PATTERN n \<Longrightarrow> list_all (\<lambda>c. 32 \<le> c \<and> c < 0x80 \<and> c \<noteq> 34 \<and> c \<noteq> 92) n"
  by (auto simp: NAME_PATTERN_def list_all_iff name_unit_def dec_digit_def)

lemma token_payload_units:
  assumes "NAME_PATTERN n" and "0 \<le> e"
  shows "token_payload n e = payload_units n (nat e)"
  using json_units_plain [OF name_plain [OF assms(1)]] assms(2)
  by (simp add: token_payload_def payload_units_def json_quote_def json_unit_def int_str_def u_def [of "[]"])

lemma payload_ascii: "NAME_PATTERN n \<Longrightarrow> ascii (payload_units n e)"
  using name_plain [of n] u_nat_str_digits [of e]
  by (fastforce simp: payload_units_def ascii_def list_all_iff dec_digit_def)

lemma length_nat_str: "n < 10 ^ Suc k \<Longrightarrow> length (nat_str n) \<le> Suc k"
proof (induction k arbitrary: n)
  case 0
  then show ?case by (subst nat_str.simps) simp
next
  case (Suc k)
  show ?case
  proof (cases "n < 10")
    case True
    then show ?thesis by (subst nat_str.simps) simp
  next
    case False
    have "n div 10 < 10 ^ Suc k" using Suc.prems by (simp add: less_mult_imp_div_less mult.commute)
    from Suc.IH [OF this] False show ?thesis by (subst nat_str.simps) simp
  qed
qed

lemma json_members_next:
  assumes "json_chars (Suc (length r)) r = Some (k, 58 # r2)" and "json_value n r2 = Some (v, 44 # q)"
  shows "json_members (Suc n) (34 # r) = map_option (\<lambda>(ms, q). ((k, v) # ms, q)) (json_members n q)"
  using assms by (simp add: json_ws_def)

lemma json_members_last:
  assumes "json_chars (Suc (length r)) r = Some (k, 58 # r2)" and "json_value n r2 = Some (v, 125 # q)"
  shows "json_members (Suc n) (34 # r) = Some ([(k, v)], q)"
  using assms by (simp add: json_ws_def)

lemma payload_parse:
  assumes "NAME_PATTERN n"
  shows "json_parse (payload_units n e) = Some (JObject [(u ''n'', JString n), (u ''exp'', JNumber (of_nat e))])"
proof -
  let ?tail = "u (nat_str e) @ [125]"
  have plain: "list_all (\<lambda>c. 32 \<le> c \<and> c \<noteq> 34 \<and> c \<noteq> 92) n"
    using name_plain [OF assms] by (auto simp: list_all_iff)
  obtain d ds where d: "u (nat_str e) = d # ds" "dec_digit d"
    using u_nat_str_digits [of e] nat_str_nonempty [of e] by (cases "nat_str e") auto
  have dd: "d \<noteq> 34" "d \<noteq> 91" "d \<noteq> 123" "d \<notin> {9, 10, 13, 32}" "d \<noteq> 116" "d \<noteq> 102" "d \<noteq> 110"
    using d(2) by (auto simp: dec_digit_def)
  have num: "json_value (Suc k) ?tail = Some (JNumber (of_nat e), [125])" for k
    using json_number_nat [of e "[]"] d dd by (simp add: json_ws_def starts_with_def)
  define l where "l = length n + length (nat_str e)"
  have len: "Suc (2 * length (payload_units n e)) = Suc (Suc (Suc (Suc (27 + 2 * l))))"
    by (simp add: payload_units_def l_def)
  have strn: "json_value (Suc k) (34 # n @ 34 # r) = Some (JString n, r)" for k r
    using json_chars_plain [OF plain, of "Suc (length (n @ 34 # r))" r] by (simp add: json_ws_def)
  have keyn: "json_chars (Suc (length r)) r = Some ([110], 58 # q)" if "r = 110 # 34 # 58 # q" for r q
    using that by simp
  have keye: "json_chars (Suc (length r)) r = Some ([101, 120, 112], 58 # q)" if "r = 101 # 120 # 112 # 34 # 58 # q" for r q
    using that by simp
  have m2: "json_members (Suc (Suc k)) (34 # 101 # 120 # 112 # 34 # 58 # ?tail)
    = Some ([([101, 120, 112], JNumber (of_nat e))], [])" for k
    by (rule json_members_last [OF keye [OF refl] num])
  have m1: "json_members (Suc (Suc (Suc k))) (34 # 110 # 34 # 58 # 34 # n @ 34 # 44 # 34 # 101 # 120 # 112 # 34 # 58 # ?tail)
    = Some ([([110], JString n), ([101, 120, 112], JNumber (of_nat e))], [])" for k
    by (subst json_members_next [OF keyn [OF refl] strn]) (simp only: m2 option.map prod.case)
  have v: "json_value (Suc (Suc (Suc (Suc k)))) (payload_units n e)
    = Some (JObject [([110], JString n), ([101, 120, 112], JNumber (of_nat e))], [])" for k
    using m1 [of k] by (simp add: payload_units_def json_ws_def del: json_members.simps)
  show ?thesis
    unfolding json_parse_def len v by (simp add: json_ws_def)
qed

end
