(* ===== verification/GateSession.thy ===== *)
theory GateSession
  imports GateToken
begin

text \<open>
  What the token and the cookie of the gate guarantee: which credential the two constant-time loops
  select, what a verified token proves, when a token just signed verifies, and that the index loop of
  \<open>readCookie\<close> reads the first \<open>xkgate\<close> piece of the header.  \<open>hash_ok\<close> is the documented shape of SHA-256
  and HMAC-SHA256 digests: 32 octets.
\<close>

definition octets :: "nat list \<Rightarrow> bool" where
  "octets bs \<longleftrightarrow> list_all (\<lambda>b. b < 256) bs"

definition hash_ok :: "node_crypto \<Rightarrow> bool" where
  "hash_ok N \<longleftrightarrow> (\<forall>k m. length (hmac N k m) = 32 \<and> octets (hmac N k m)) \<and> (\<forall>m. length (sha256 N m) = 32 \<and> octets (sha256 N m))"

lemma hash_okD [simp]:
  assumes "hash_ok N"
  shows "length (hmac N k m) = 32" "octets (hmac N k m)" "length (sha256 N m) = 32" "octets (sha256 N m)"
  using assms by (auto simp: hash_ok_def)

section \<open>The two loops over the credentials\<close>

lemma find_signer_last:
  "find_signer N p g cs s =
     (let m = filter (\<lambda>c. g = hmac N (key c) (utf8_octets p)) cs in if m = [] then s else Some (last m))"
  by (induction N p g cs s rule: find_signer.induct) (auto simp: Let_def)

lemma match_loop_last:
  "match_loop d cs s = (let m = filter (\<lambda>c. d = digest c) cs in if m = [] then s else Some (last m))"
  by (induction d cs s rule: match_loop.induct) (auto simp: Let_def)

lemma find_signer_Some:
  assumes "find_signer N p g cs None = Some c"
  shows "c \<in> set cs" "g = hmac N (key c) (utf8_octets p)"
proof -
  from assms have "filter (\<lambda>c. g = hmac N (key c) (utf8_octets p)) cs \<noteq> []"
    "c = last (filter (\<lambda>c. g = hmac N (key c) (utf8_octets p)) cs)"
    by (auto simp: find_signer_last Let_def split: if_splits)
  then have "c \<in> set (filter (\<lambda>c. g = hmac N (key c) (utf8_octets p)) cs)" by (metis last_in_set)
  then show "c \<in> set cs" "g = hmac N (key c) (utf8_octets p)" by auto
qed

lemma find_signer_None:
  "find_signer N p g cs None = None \<longleftrightarrow> (\<forall>c\<in>set cs. g \<noteq> hmac N (key c) (utf8_octets p))"
  by (auto simp: find_signer_last Let_def filter_empty_conv)

lemma matchPassword_Some:
  assumes "matchPassword N cfg pw = Some c"
  shows "c \<in> set (CREDENTIALS cfg)" "digest c = sha256 N (utf8_octets pw)"
proof -
  let ?m = "filter (\<lambda>c. sha256 N (utf8_octets pw) = digest c) (CREDENTIALS cfg)"
  from assms have "?m \<noteq> []" "c = last ?m"
    by (auto simp: matchPassword_def match_loop_last Let_def split: if_splits)
  then have "c \<in> set ?m" by (metis last_in_set)
  then show "c \<in> set (CREDENTIALS cfg)" "digest c = sha256 N (utf8_octets pw)" by auto
qed

section \<open>What a verified token proves\<close>

lemma claims_ok_Some:
  assumes "claims_ok cfg now signer v = Some n"
  obtains e where "json_field v (u ''n'') = Some (JString n)" "json_field v (u ''exp'') = Some (JNumber e)"
    "of_int now < e * 1000" "n = cred_name signer"
  using assms by (auto simp: claims_ok_def not_le split: option.splits json.splits if_splits)

definition token_parts :: "ustr \<Rightarrow> (ustr \<times> nat list) option" where
  \<comment> \<open>the payload text and the signature of a token of the form \<open>a.b\<close>\<close>
  "token_parts t =
     (case split_on 46 t of
        [a, b] \<Rightarrow> if a = [] \<or> b = [] then None else Some (utf8_read (b64_decode a), b64_decode b)
      | _ \<Rightarrow> None)"

lemma index_of_single: "index_of [d] s = (if d \<in> set s then Some (length (takeWhile (\<lambda>c. c \<noteq> d) s)) else None)"
  by (induction s) (auto simp: starts_with_def)

lemma split_on_step:
  "split_on d s =
     (if d \<in> set s then takeWhile (\<lambda>c. c \<noteq> d) s # split_on d (drop (Suc (length (takeWhile (\<lambda>c. c \<noteq> d) s))) s) else [s])"
  by (induction s) (auto split: list.splits)

lemma split_on_none: "d \<notin> set s \<Longrightarrow> split_on d s = [s]"
  by (subst split_on_step) simp

lemma take_takeWhile: "take (length (takeWhile P s)) s = takeWhile P s"
  by (induction s) auto

lemma takeWhile_absent: "d \<notin> set s \<Longrightarrow> takeWhile (\<lambda>c. c \<noteq> d) s = s"
  by (induction s) auto

lemma token_parts_index:
  assumes "index_of [46] t = Some dot" and "\<not> dot < 1" and "dot \<noteq> length t - 1" and "index_of_from [46] t (dot + 1) = None"
  shows "token_parts t = Some (utf8_read (b64_decode (take dot t)), b64_decode (drop (dot + 1) t))"
proof -
  have m: "46 \<in> set t" "dot = length (takeWhile (\<lambda>c. c \<noteq> 46) t)"
    using assms(1) by (auto simp: index_of_single split: if_splits)
  have n: "46 \<notin> set (drop (Suc dot) t)"
    using assms(4) by (auto simp: index_of_from_def index_of_single split: if_splits)
  have l: "dot < length t"
    using index_of_Some_bound [OF assms(1)] by simp
  have "split_on 46 t = [take dot t, drop (Suc dot) t]"
    using m n by (subst split_on_step) (simp add: take_takeWhile split_on_none)
  then show ?thesis using assms(2,3) l by (auto simp: token_parts_def)
qed

lemma verify_gate_Some:
  assumes "verify_gate N cfg now (Some t) = Some n"
  shows "\<exists>payload sig c v e.
    token_parts t = Some (payload, sig) \<and> c \<in> set (CREDENTIALS cfg) \<and> sig = hmac N (key c) (utf8_octets payload)
    \<and> cred_name c = n \<and> json_parse payload = Some v \<and> json_field v (u ''n'') = Some (JString n)
    \<and> json_field v (u ''exp'') = Some (JNumber e) \<and> of_int now < e * 1000"
proof -
  from assms obtain dot where d: "index_of [46] t = Some dot" "\<not> dot < 1" "dot \<noteq> length t - 1" "index_of_from [46] t (dot + 1) = None"
    by (auto simp: verify_gate_def split: if_splits option.splits)
  let ?p = "utf8_read (b64_decode (take dot t))"
  let ?g = "b64_decode (drop (dot + 1) t)"
  from assms d obtain c v where c: "find_signer N ?p ?g (CREDENTIALS cfg) None = Some c" "json_parse ?p = Some v"
    "claims_ok cfg now c v = Some n"
    by (auto simp: verify_gate_def Let_def split: if_splits option.splits)
  from claims_ok_Some [OF c(3)] obtain e where e: "json_field v (u ''n'') = Some (JString n)" "json_field v (u ''exp'') = Some (JNumber e)"
    "of_int now < e * 1000" "n = cred_name c" by metis
  show ?thesis
    using token_parts_index [OF d] find_signer_Some [OF c(1)] c(2) e by (intro exI [of _ ?p] exI [of _ ?g] exI [of _ c]) auto
qed

section \<open>Verifying a token just signed\<close>

definition expiry :: "config \<Rightarrow> int \<Rightarrow> int" where
  "expiry cfg now = now div 1000 + TTL_SECONDS cfg"

definition signed_payload :: "config \<Rightarrow> int \<Rightarrow> credential \<Rightarrow> nat list" where
  "signed_payload cfg now c = payload_units (cred_name c) (nat (expiry cfg now))"

lemma json_field_payload:
  "json_field (JObject [(u ''n'', JString n), (u ''exp'', JNumber e)]) (u ''n'') = Some (JString n)"
  "json_field (JObject [(u ''n'', JString n), (u ''exp'', JNumber e)]) (u ''exp'') = Some (JNumber e)"
  by (simp_all add: json_field_def)

lemma verify_signed:
  assumes N: "hash_ok N" and n: "NAME_PATTERN (cred_name c)" and e: "0 \<le> expiry cfg now" "expiry cfg now < 10 ^ 20"
  shows "verify_gate N cfg' now' (Some (sign N cfg now c)) =
    (case find_signer N (signed_payload cfg now c) (hmac N (key c) (signed_payload cfg now c)) (CREDENTIALS cfg') None of
       None \<Rightarrow> None
     | Some s \<Rightarrow> if now' < expiry cfg now * 1000 \<and> cred_name c = cred_name s then Some (cred_name c) else None)"
proof -
  define E where "E = nat (expiry cfg now)"
  have E: "expiry cfg now = int E" "E < 10 ^ 20" using e by (auto simp: E_def nat_less_iff)
  let ?p = "payload_units (cred_name c) E"
  have p: "ascii ?p" by (rule payload_ascii [OF n])
  have o: "utf8_octets ?p = ?p" "utf8_read ?p = ?p" by (simp_all add: utf8_octets_ascii utf8_read_ascii p)
  let ?a = "b64_encode ?p" and ?b = "b64_encode (hmac N (key c) ?p)"
  have t: "sign N cfg now c = ?a @ 46 # ?b"
    using token_payload_units [OF n e(1)] o by (simp add: sign_def Let_def E_def expiry_def)
  have dec: "b64_decode ?a = ?p" "b64_decode ?b = hmac N (key c) ?p"
    by (rule b64_round_trip, rule ascii_octets [OF p], rule b64_round_trip, use hash_okD(2) [OF N] in \<open>simp add: octets_def\<close>)
  have "length (nat_str E) \<le> 20" using length_nat_str [of E 19] E(2) by simp
  then have "length ?p \<le> 103" using n by (simp add: payload_units_def NAME_PATTERN_def)
  then have la: "0 < length ?a" "length ?a \<le> 138" by (auto simp: length_b64_encode payload_units_def)
  have lb: "length ?b = 43" using N by (simp add: length_b64_encode)
  have w: "takeWhile (\<lambda>c. c \<noteq> 46) (?a @ 46 # ?b) = ?a"
    using b64_encode_units [of ?p] by (subst takeWhile_append2) (auto simp del: b64_encode.simps)
  have i: "index_of [46] (?a @ 46 # ?b) = Some (length ?a)" by (simp add: index_of_single w)
  have j: "index_of_from [46] (?a @ 46 # ?b) (length ?a + 1) = None"
    using b64_encode_units by (simp add: index_of_from_def index_of_single)
  have k: "?p \<noteq> []" by (simp add: payload_units_def)
  have l: "\<not> (?a @ 46 # ?b = [] \<or> 1024 < length (?a @ 46 # ?b))" "\<not> (length ?a < 1 \<or> length ?a = length (?a @ 46 # ?b) - 1)"
    using la lb by auto
  have "verify_gate N cfg' now' (Some (?a @ 46 # ?b)) =
    (case find_signer N ?p (hmac N (key c) ?p) (CREDENTIALS cfg') None of
       None \<Rightarrow> None
     | Some s \<Rightarrow> claims_ok cfg' now' s (JObject [(u ''n'', JString (cred_name c)), (u ''exp'', JNumber (of_nat E))]))"
    unfolding verify_gate_def option.case(2) if_not_P [OF l(1)] i if_not_P [OF l(2)] j
    by (simp add: dec o k payload_parse [OF n] del: u_simps split: option.split)
  also have "\<dots> = (case find_signer N ?p (hmac N (key c) ?p) (CREDENTIALS cfg') None of
       None \<Rightarrow> None
     | Some s \<Rightarrow> if now' < expiry cfg now * 1000 \<and> cred_name c = cred_name s then Some (cred_name c) else None)"
  proof -
    have cmp: "of_nat E * 1000 \<le> (of_int now' :: rat) \<longleftrightarrow> \<not> now' < int E * 1000"
    proof -
      have "of_nat E * 1000 = (of_int (int E * 1000) :: rat)" by simp
      then show ?thesis by (simp only: of_int_le_iff not_less)
    qed
    have "E < 100000000000000000000" using E(2) by simp
    then show ?thesis
      by (auto simp: claims_ok_def json_field_payload cmp E(1) simp del: u_simps split: option.split)
  qed
  finally show ?thesis by (simp only: t signed_payload_def E_def)
qed

definition keys_apart :: "node_crypto \<Rightarrow> credential list \<Rightarrow> bool" where
  \<comment> \<open>no two configured passwords collide under the hash functions\<close>
  "keys_apart N cs \<longleftrightarrow>
     (\<forall>a\<in>set cs. \<forall>b\<in>set cs. \<forall>m. hmac N (key a) m = hmac N (key b) m \<longrightarrow> digest a = digest b)"

definition same_keys :: "credential list \<Rightarrow> bool" where
  \<comment> \<open>a key depends on the digest alone, as \<open>credential_of\<close> makes it\<close>
  "same_keys cs \<longleftrightarrow> (\<forall>a\<in>set cs. \<forall>b\<in>set cs. digest a = digest b \<longrightarrow> key a = key b)"

lemma same_keys_config: "same_keys (CREDENTIALS (gate_config N e random))"
  by (auto simp: same_keys_def gate_config_def credential_of_def Let_def)

lemma signer_of_match:
  assumes "matchPassword N cfg pw = Some c" and "keys_apart N (CREDENTIALS cfg)" and "same_keys (CREDENTIALS cfg)"
  shows "find_signer N p (hmac N (key c) (utf8_octets p)) (CREDENTIALS cfg) None = Some c"
proof -
  note c = matchPassword_Some [OF assms(1)]
  have "filter (\<lambda>c'. hmac N (key c) (utf8_octets p) = hmac N (key c') (utf8_octets p)) (CREDENTIALS cfg)
    = filter (\<lambda>c'. sha256 N (utf8_octets pw) = digest c') (CREDENTIALS cfg)"
    using assms(2,3) c unfolding keys_apart_def same_keys_def by (intro filter_cong refl) metis
  then show ?thesis
    using assms(1) by (auto simp: find_signer_last matchPassword_def match_loop_last Let_def split: if_splits)
qed

section \<open>The cookie header\<close>

fun cookie_of :: "ustr list \<Rightarrow> ustr option" where
  \<comment> \<open>the reference: the first piece named \<open>xkgate\<close>, its value trimmed\<close>
  "cookie_of [] = None"
| "cookie_of (p # ps) =
     (let b = dropWhile (\<lambda>c. c = 32) p
      in if starts_with (COOKIE_NAME @ [61]) b then Some (u_trim (drop 7 b)) else cookie_of ps)"

lemma cookie_name_units: "COOKIE_NAME = [120, 107, 103, 97, 116, 101]"
  by (simp add: COOKIE_NAME_def)

lemma named_piece:
  "starts_with (COOKIE_NAME @ [61]) b \<longleftrightarrow> 61 \<in> set b \<and> takeWhile (\<lambda>c. c \<noteq> 61) b = COOKIE_NAME"
proof
  assume "starts_with (COOKIE_NAME @ [61]) b"
  then obtain r where r: "b = COOKIE_NAME @ 61 # r"
    by (metis append_take_drop_id append.assoc append_Cons append_Nil starts_with_def)
  show "61 \<in> set b \<and> takeWhile (\<lambda>c. c \<noteq> 61) b = COOKIE_NAME" by (simp add: r cookie_name_units)
next
  assume a: "61 \<in> set b \<and> takeWhile (\<lambda>c. c \<noteq> 61) b = COOKIE_NAME"
  then have "dropWhile (\<lambda>c. c \<noteq> 61) b \<noteq> []" by (auto simp: dropWhile_eq_Nil_conv)
  then obtain r where "dropWhile (\<lambda>c. c \<noteq> 61) b = 61 # r"
    by (metis (mono_tags, lifting) hd_dropWhile list.exhaust_sel)
  with a have "b = COOKIE_NAME @ 61 # r" by (metis takeWhile_dropWhile_id)
  then show "starts_with (COOKIE_NAME @ [61]) b" by (simp add: starts_with_def)
qed

lemma cookie_step:
  assumes "i < length h"
  defines "s \<equiv> drop i h"
  defines "p \<equiv> takeWhile (\<lambda>c. c \<noteq> 59) s"
  defines "b \<equiv> dropWhile (\<lambda>c. c = 32) p"
  shows "piece_end h i = i + length p"
    and "cookie_loop h i =
      (if starts_with (COOKIE_NAME @ [61]) b then Some (u_trim (drop 7 b)) else cookie_loop h (i + length p + 1))"
proof -
  have all: "p = s" if "59 \<notin> set s" using that by (simp add: p_def takeWhile_absent)
  show e: "piece_end h i = i + length p"
    using assms(1) all by (cases "59 \<in> set s") (auto simp: piece_end_def index_of_from_def index_of_single s_def [symmetric] p_def [symmetric], simp add: s_def)
  have lp: "length p \<le> length s" by (simp add: p_def length_takeWhile_le)
  have sl: "slice i (i + length p) h = p" by (simp add: slice_def s_def [symmetric] p_def take_takeWhile)
  define k where "k = length (takeWhile (\<lambda>c. c = 32) p)"
  have st: "skip_spaces h i (i + length p) = i + k" by (simp add: skip_spaces_def sl k_def)
  have bk: "b = drop k p" by (simp add: b_def k_def dropWhile_eq_drop)
  define r where "r = drop (length p) s"
  have s: "s = p @ r" by (simp add: r_def p_def takeWhile_eq_take [symmetric] append_take_drop_id flip: dropWhile_eq_drop)
  have kp: "k \<le> length p" by (simp add: k_def length_takeWhile_le)
  have d: "drop (i + k) h = b @ r"
    using kp by (simp add: bk add.commute [of i] drop_drop [symmetric] s_def [symmetric]) (simp add: s)
  have lb: "length p = k + length b" using kp by (simp add: bk)
  have eq: "(case index_of_from [61] h (i + k) of
       Some q \<Rightarrow> if q < i + length p \<and> slice (i + k) q h = COOKIE_NAME then Some (u_trim (slice (q + 1) (i + length p) h)) else x
     | None \<Rightarrow> x) = (if starts_with (COOKIE_NAME @ [61]) b then Some (u_trim (drop 7 b)) else x)" for x
  proof (cases "61 \<in> set b")
    case True
    then have w: "takeWhile (\<lambda>c. c \<noteq> 61) (b @ r) = takeWhile (\<lambda>c. c \<noteq> 61) b" by (simp add: takeWhile_append1)
    have lw: "length (takeWhile (\<lambda>c. c \<noteq> 61) b) < length b"
      using True by (induction b) auto
    have sw: "slice (i + k) (length (takeWhile (\<lambda>c. c \<noteq> 61) b) + (i + k)) h = takeWhile (\<lambda>c. c \<noteq> 61) b"
      using lw by (simp add: slice_def d take_takeWhile)
    have v: "slice (length (takeWhile (\<lambda>c. c \<noteq> 61) b) + (i + k) + 1) (i + length p) h = drop (Suc (length (takeWhile (\<lambda>c. c \<noteq> 61) b))) b"
    proof -
      have "drop (length (takeWhile (\<lambda>c. c \<noteq> 61) b) + (i + k) + 1) h = drop (Suc (length (takeWhile (\<lambda>c. c \<noteq> 61) b))) (b @ r)"
        by (simp only: d [symmetric] drop_drop) (simp add: ac_simps)
      then show ?thesis using lw by (simp add: slice_def lb)
    qed
    have n7: "Suc (length COOKIE_NAME) = 7" by (simp add: cookie_name_units)
    have v7: "slice (Suc (length COOKIE_NAME + (i + k))) (i + (k + length b)) h = drop 7 b"
      if "takeWhile (\<lambda>c. c \<noteq> 61) b = COOKIE_NAME"
      using v n7 by (simp add: that lb)
    show ?thesis
      using True lw by (auto simp: index_of_from_def d index_of_single w named_piece sw v7 lb)
  next
    case False
    then have "length b \<le> length (takeWhile (\<lambda>c. c \<noteq> 61) (b @ r))" by (induction b) auto
    with False show ?thesis by (auto simp: index_of_from_def d index_of_single named_piece lb)
  qed
  show "cookie_loop h i =
      (if starts_with (COOKIE_NAME @ [61]) b then Some (u_trim (drop 7 b)) else cookie_loop h (i + length p + 1))"
    using assms(1) by (subst cookie_loop.simps) (simp only: e Let_def st if_True eq)
qed

lemma cookie_loop_reference: "cookie_loop h i = cookie_of (split_on 59 (drop i h))"
proof (induction "length h - i" arbitrary: i rule: less_induct)
  case less
  show ?case
  proof (cases "i < length h")
    case False
    then show ?thesis
      by (subst cookie_loop.simps) (simp add: starts_with_def cookie_name_units)
  next
    case True
    let ?s = "drop i h"
    let ?p = "takeWhile (\<lambda>c. c \<noteq> 59) ?s"
    note st = cookie_step(2) [OF True]
    have ih: "cookie_loop h (i + length ?p + 1) = cookie_of (split_on 59 (drop (i + length ?p + 1) h))"
      by (rule less) (use True in linarith)
    show ?thesis
    proof (cases "59 \<in> set ?s")
      case True
      have sp: "split_on 59 ?s = ?p # split_on 59 (drop (Suc (length ?p)) ?s)"
        using True by (subst split_on_step) simp
      have dd: "drop (i + length ?p + 1) h = drop (Suc (length ?p)) ?s"
        by (simp only: drop_drop) (simp add: ac_simps)
      show ?thesis by (simp only: st ih sp cookie_of.simps Let_def dd)
    next
      case f: False
      have sp: "split_on 59 ?s = [?p]"
        using f by (subst split_on_step) (simp add: takeWhile_absent)
      have "length ?p = length ?s" using f by (simp add: takeWhile_absent)
      then have "drop (i + length ?p + 1) h = []" using True by simp
      then have "cookie_loop h (i + length ?p + 1) = None"
        using ih by (simp add: starts_with_def cookie_name_units)
      then show ?thesis by (simp only: st sp cookie_of.simps Let_def)
    qed
  qed
qed

end
