(* ===== verification/Gate.thy ===== *)
theory Gate
  imports GateSession
begin

text \<open>
  \<open>docker/gate/server.mjs\<close>, lines 286 to 615: the body reader, the failure table of the rate limiter, the
  password page, the responses, the handlers and the router.  A handler is a function from the clock
  and the service state to a reply and the next state.  \<open>handlePost\<close> awaits the request body, so it is
  two functions, \<open>post_begin\<close> up to the await and \<open>post_body\<close> after it; other requests may run in
  between.  The failed attempts answer after \<open>FAIL_DELAY_MS\<close>, which no state depends on: the delay is
  part of the reply.
\<close>

definition RATE_LIMIT :: nat where "RATE_LIMIT = 10"
definition RATE_WINDOW_MS :: int where "RATE_WINDOW_MS = 15 * 60 * 1000"
definition FAIL_DELAY_MS :: int where "FAIL_DELAY_MS = 1000"
definition MAX_BODY_BYTES :: nat where "MAX_BODY_BYTES = 4096"
definition MAX_PASSWORD_LENGTH :: nat where "MAX_PASSWORD_LENGTH = 512"

section \<open>The request body\<close>

datatype body_event = Chunk "nat list" | BodyEnd | BodyError

datatype body = Resolved ustr | Rejected

fun readBody :: "nat list \<Rightarrow> body_event list \<Rightarrow> body option" where
  \<comment> \<open>the first settlement of the promise, \<^term>\<open>None\<close> while it is pending; the bytes so far are the accumulator\<close>
  "readBody chunks [] = None"
| "readBody chunks (Chunk c # es) =
     (if length (chunks @ c) > MAX_BODY_BYTES then Some Rejected else readBody (chunks @ c) es)"
| "readBody chunks (BodyEnd # es) = Some (Resolved (utf8_read chunks))"
| "readBody chunks (BodyError # es) = Some Rejected"

section \<open>Rate limiting\<close>

type_synonym failures = "ustr \<Rightarrow> int list option"

definition hits_of :: "failures \<Rightarrow> ustr \<Rightarrow> int list" where
  "hits_of f ip = (case f ip of None \<Rightarrow> [] | Some ts \<Rightarrow> ts)"

definition pruneFailures :: "int \<Rightarrow> ustr \<Rightarrow> failures \<Rightarrow> int list \<times> failures" where
  "pruneFailures now ip f =
     (let hits = filter (\<lambda>t. now - t < RATE_WINDOW_MS) (hits_of f ip)
      in (hits, if hits = [] then f(ip := None) else f(ip := Some hits)))"

definition overLimit :: "int \<Rightarrow> ustr \<Rightarrow> failures \<Rightarrow> bool \<times> failures" where
  "overLimit now ip f = (let (hits, f') = pruneFailures now ip f in (RATE_LIMIT \<le> length hits, f'))"

definition recordFailure :: "int \<Rightarrow> ustr \<Rightarrow> failures \<Rightarrow> failures" where
  "recordFailure now ip f = (let (hits, f') = pruneFailures now ip f in f'(ip := Some (hits @ [now])))"

definition sweep :: "int \<Rightarrow> failures \<Rightarrow> failures" where
  \<comment> \<open>every key is pruned; the prunings do not touch each other's keys\<close>
  "sweep now f = (\<lambda>ip. if f ip = None then None else snd (pruneFailures now ip f) ip)"

section \<open>The page\<close>

definition escapeHtml :: "ustr \<Rightarrow> ustr" where
  "escapeHtml value =
     replace_char 39 (u ''&#39;'')
       (replace_char 34 (u ''&quot;'')
         (replace_char 62 (u ''&gt;'')
           (replace_char 60 (u ''&lt;'')
             (replace_char 38 (u ''&amp;'') value))))"

text \<open>In the lines of the template a tilde stands for the double quote.\<close>

definition page_line :: "string \<Rightarrow> ustr" where
  "page_line l = map (\<lambda>c. if c = 126 then 34 else c) (u l) @ [10]"

definition page_head :: "string list" where
  \<comment> \<open>the lines of the template up to the notice\<close>
  "page_head =
    [''<!doctype html>'',
     ''<html lang=~en~>'',
     ''<head>'',
     ''<meta charset=~utf-8~>'',
     ''<meta name=~viewport~ content=~width=device-width, initial-scale=1~>'',
     ''<meta name=~robots~ content=~noindex, nofollow, noarchive~>'',
     ''<title>xKoin. Private preview.</title>'',
     ''<style>'',
     '':root {'',
     ''  color-scheme: light;'',
     ''  --ground: #f5f4ef;'',
     ''  --ink: #14213d;'',
     ''  --accent: #0b3d91;'',
     ''  --line: rgba(20, 33, 61, 0.28);'',
     ''  --panel: #fffefa;'',
     ''}'',
     ''@media (prefers-color-scheme: dark) {'',
     ''  :root {'',
     ''    color-scheme: dark;'',
     ''    --ground: #0b1424;'',
     ''    --ink: #e8edf6;'',
     ''    --accent: #6ea0ff;'',
     ''    --line: rgba(232, 237, 246, 0.3);'',
     ''    --panel: #0f1a2e;'',
     ''  }'',
     ''}'',
     ''* { box-sizing: border-box; }'',
     ''body {'',
     ''  margin: 0;'',
     ''  min-height: 100vh;'',
     ''  display: flex;'',
     ''  align-items: center;'',
     ''  justify-content: center;'',
     ''  padding: 24px;'',
     ''  background: var(--ground);'',
     ''  color: var(--ink);'',
     ''  font-family: ~IBM Plex Mono~, ui-monospace, SFMono-Regular, Menlo, Consolas, monospace;'',
     ''  font-size: 14px;'',
     ''  line-height: 1.5;'',
     ''}'',
     ''main {'',
     ''  width: 100%;'',
     ''  max-width: 420px;'',
     ''  background: var(--panel);'',
     ''  border: 1px solid var(--line);'',
     ''  border-radius: 0;'',
     ''  padding: 28px 24px;'',
     ''}'',
     ''h1 {'',
     ''  margin: 0 0 4px;'',
     ''  font-size: 17px;'',
     ''  font-weight: 600;'',
     ''  letter-spacing: 0.01em;'',
     ''}'',
     ''.rule {'',
     ''  height: 1px;'',
     ''  background: var(--line);'',
     ''  margin: 18px 0;'',
     ''}'',
     ''label {'',
     ''  display: block;'',
     ''  font-size: 11px;'',
     ''  letter-spacing: 0.14em;'',
     ''  text-transform: uppercase;'',
     ''  opacity: 0.72;'',
     ''  margin-bottom: 6px;'',
     ''}'',
     ''input[type=~password~] {'',
     ''  width: 100%;'',
     ''  padding: 10px 12px;'',
     ''  border: 1px solid var(--line);'',
     ''  border-radius: 0;'',
     ''  background: var(--ground);'',
     ''  color: var(--ink);'',
     ''  font: inherit;'',
     ''}'',
     ''input[type=~password~]:focus {'',
     ''  outline: 2px solid var(--accent);'',
     ''  outline-offset: -1px;'',
     ''}'',
     ''button {'',
     ''  margin-top: 14px;'',
     ''  width: 100%;'',
     ''  padding: 10px 12px;'',
     ''  border: 1px solid var(--accent);'',
     ''  border-radius: 0;'',
     ''  background: var(--accent);'',
     ''  color: var(--panel);'',
     ''  font: inherit;'',
     ''  letter-spacing: 0.1em;'',
     ''  text-transform: uppercase;'',
     ''  cursor: pointer;'',
     ''}'',
     ''button:hover { opacity: 0.9; }'',
     ''.note {'',
     ''  margin: 16px 0 0;'',
     ''  font-size: 12px;'',
     ''  opacity: 0.7;'',
     ''}'',
     ''.notice {'',
     ''  margin: 0 0 14px;'',
     ''  padding: 8px 10px;'',
     ''  border: 1px solid var(--accent);'',
     ''  font-size: 12px;'',
     ''}'',
     ''</style>'',
     ''</head>'',
     ''<body>'',
     ''  <main>'',
     ''    <h1>xKoin. Private preview.</h1>'',
     ''    <div class=~rule~></div>'',
     ''    <form method=~post~ action=~/gate~>'']"

definition renderPage :: "ustr \<Rightarrow> ustr \<Rightarrow> ustr" where
  "renderPage target notice =
     (let message = (if notice = [] then []
                     else map (\<lambda>c. if c = 126 then 34 else c) (u ''      <p class=~notice~>'') @ escapeHtml notice @ page_line ''</p>'')
      in concat (map page_line page_head)
         @ message @ page_line ''      <label for=~password~>Password</label>''
         @ page_line ''      <input id=~password~ name=~password~ type=~password~ autocomplete=~current-password~''
         @ page_line (''        autofocus required maxlength=~'' @ nat_str MAX_PASSWORD_LENGTH @ ''~>'')
         @ map (\<lambda>c. if c = 126 then 34 else c) (u ''      <input type=~hidden~ name=~next~ value=~'') @ escapeHtml target @ page_line ''~>''
         @ page_line ''      <button type=~submit~>Enter</button>''
         @ page_line ''    </form>''
         @ page_line ''    <p class=~note~>Access is by invitation and is logged.</p>''
         @ page_line ''  </main>''
         @ page_line ''</body>''
         @ page_line ''</html>'')"

section \<open>Responses\<close>

record reply =
  status :: nat
  headers :: "(string \<times> ustr) list"
  text_body :: ustr
  delay_ms :: int

definition octet_count :: "ustr \<Rightarrow> ustr" where
  "octet_count text = u (nat_str (length (utf8_octets text)))"

definition sendPage :: "nat \<Rightarrow> ustr \<Rightarrow> ustr \<Rightarrow> reply" where
  "sendPage code target notice =
     (let body = renderPage target notice
      in \<lparr>status = code,
          headers = [(''content-type'', u ''text/html; charset=utf-8''), (''content-length'', octet_count body),
            (''cache-control'', u ''no-store''), (''x-robots-tag'', u ''noindex, nofollow, noarchive''),
            (''x-content-type-options'', u ''nosniff''), (''referrer-policy'', u ''strict-origin-when-cross-origin'')],
          text_body = body, delay_ms = 0\<rparr>)"

definition sendText :: "nat \<Rightarrow> ustr \<Rightarrow> reply" where
  "sendText code text =
     \<lparr>status = code,
      headers = [(''content-type'', u ''text/plain; charset=utf-8''), (''content-length'', octet_count text),
        (''cache-control'', u ''no-store'')],
      text_body = text, delay_ms = 0\<rparr>"

definition cookieHeader :: "config \<Rightarrow> ustr \<Rightarrow> nat option \<Rightarrow> ustr" where
  "cookieHeader cfg value maxAge =
     join_with (u ''; '')
       ([COOKIE_NAME @ u ''='' @ value, u ''Path=/'']
        @ (case maxAge of None \<Rightarrow> [] | Some n \<Rightarrow> [u ''Max-Age='' @ u (nat_str n)])
        @ [u ''HttpOnly'', u ''SameSite=Lax'']
        @ (if SECURE cfg then [u ''Secure''] else []))"

record log_line =
  log_ip :: ustr
  log_outcome :: string
  log_name :: "ustr option"

record service =
  failures :: failures
  log_lines :: "log_line list"

definition log :: "ustr \<Rightarrow> string \<Rightarrow> ustr option \<Rightarrow> service \<Rightarrow> service" where
  "log ip outcome name st = st\<lparr>log_lines := log_lines st @ [\<lparr>log_ip = ip, log_outcome = outcome, log_name = name\<rparr>]\<rparr>"

definition delayed :: "reply \<Rightarrow> reply" where
  "delayed r = r\<lparr>delay_ms := FAIL_DELAY_MS\<rparr>"

section \<open>Handlers\<close>

definition handleAuth :: "node_crypto \<Rightarrow> config \<Rightarrow> int \<Rightarrow> request \<Rightarrow> reply" where
  "handleAuth N cfg now req =
     (case verify_gate N cfg now (readCookie (req_cookie req)) of
        None \<Rightarrow> \<lparr>status = 401, headers = [(''content-length'', u ''0''), (''cache-control'', u ''no-store'')],
                  text_body = [], delay_ms = 0\<rparr>
      | Some name \<Rightarrow> \<lparr>status = 204, headers = [(''x-gate-name'', name), (''cache-control'', u ''no-store'')],
                      text_body = [], delay_ms = 0\<rparr>)"

definition refused :: ustr where
  "refused = u ''That password was not accepted.''"

datatype post = Replied reply | Reading ustr

definition post_begin :: "config \<Rightarrow> int \<Rightarrow> request \<Rightarrow> service \<Rightarrow> post \<times> service" where
  \<comment> \<open>\<open>handlePost\<close> up to \<open>await readBody\<close>\<close>
  "post_begin cfg now req st =
     (let ip = clientIp cfg req;
          type = (case req_type req of None \<Rightarrow> [] | Some t \<Rightarrow> t)
      in if \<not> starts_with (u ''application/x-www-form-urlencoded'') type
         then (Replied (sendPage 415 (u ''/'') refused), log ip ''rejected'' (Some (u ''bad-content-type'')) st)
         else
           let (over, f) = overLimit now ip (failures st); st1 = st\<lparr>failures := f\<rparr>
           in if over
              then (Replied (sendPage 429 (u ''/'') (u ''Too many attempts. Wait fifteen minutes and try again.'')),
                    log ip ''ratelimited'' None st1)
              else (Reading ip, st1))"

definition fail_post :: "int \<Rightarrow> ustr \<Rightarrow> ustr option \<Rightarrow> service \<Rightarrow> service" where
  "fail_post now ip name st = log ip ''rejected'' name (st\<lparr>failures := recordFailure now ip (failures st)\<rparr>)"

definition post_body :: "node_crypto \<Rightarrow> config \<Rightarrow> bool \<Rightarrow> int \<Rightarrow> ustr \<Rightarrow> body \<Rightarrow> service \<Rightarrow> reply \<times> service" where
  \<comment> \<open>\<open>handlePost\<close> from the settled body on\<close>
  "post_body N cfg caret now ip body st =
     (case body of
        Rejected \<Rightarrow> (delayed (sendPage 400 (u ''/'') refused), fail_post now ip (Some (u ''bad-body'')) st)
      | Resolved raw \<Rightarrow>
          let form = form_parse raw;
              passwords = form_all form (u ''password'');
              target = safeNext caret (case form_get form (u ''next'') of None \<Rightarrow> u ''/'' | Some v \<Rightarrow> v)
          in case passwords of
               [password] \<Rightarrow>
                 if password = [] \<or> MAX_PASSWORD_LENGTH < length password
                 then (delayed (sendPage 400 target refused), fail_post now ip None st)
                 else (case matchPassword N cfg password of
                         None \<Rightarrow> (delayed (sendPage 200 target refused), fail_post now ip None st)
                       | Some credential \<Rightarrow>
                           (\<lparr>status = 303,
                             headers = [(''location'', target),
                               (''set-cookie'', cookieHeader cfg (sign N cfg now credential) None),
                               (''cache-control'', u ''no-store''), (''content-length'', u ''0'')],
                             text_body = [], delay_ms = 0\<rparr>,
                            log ip ''ok'' (Some (cred_name credential)) (st\<lparr>failures := (failures st)(ip := None)\<rparr>)))
             | _ \<Rightarrow> (delayed (sendPage 400 target refused), fail_post now ip None st))"

definition handleLogout :: "config \<Rightarrow> reply" where
  "handleLogout cfg =
     \<lparr>status = 302,
      headers = [(''location'', u ''/gate''), (''set-cookie'', cookieHeader cfg [] (Some 0)),
        (''cache-control'', u ''no-store''), (''content-length'', u ''0'')],
      text_body = [], delay_ms = 0\<rparr>"

definition route :: "node_crypto \<Rightarrow> config \<Rightarrow> bool \<Rightarrow> int \<Rightarrow> request \<Rightarrow> service \<Rightarrow> post \<times> service" where
  \<comment> \<open>the request listener\<close>
  "route N cfg caret now req st =
     (let target = req_url req;
          path = (case index_of [63] target of None \<Rightarrow> target | Some e \<Rightarrow> take e target)
      in if path = u ''/healthz'' then (Replied (sendText 200 (u ''ok'' @ [10])), st)
         else if path = u ''/auth'' then (Replied (handleAuth N cfg now req), st)
         else if path = u ''/gate/logout'' then (Replied (handleLogout cfg), st)
         else if path = u ''/gate'' \<or> path = u ''/gate/'' then
           (if req_method req = u ''GET'' \<or> req_method req = u ''HEAD''
            then (Replied (sendPage 200 (nextFromTarget caret target) []), st)
            else if req_method req = u ''POST'' then post_begin cfg now req st
            else (Replied \<lparr>status = 405, headers = [(''allow'', u ''GET, HEAD, POST''), (''content-length'', u ''0'')],
                           text_body = [], delay_ms = 0\<rparr>, st))
         else (Replied (sendText 404 (u ''not found'' @ [10])), st))"

section \<open>The service as a step relation\<close>

record server =
  clock :: int
  service :: service
  reading :: "ustr list"
  sent :: "reply list"

datatype server_event = Tick int | Request request | Body ustr "body_event list" | Sweep

definition server_step :: "node_crypto \<Rightarrow> config \<Rightarrow> bool \<Rightarrow> server_event \<Rightarrow> server \<Rightarrow> server option" where
  \<comment> \<open>one turn of the event loop; a body event settles one of the posts being read from its address\<close>
  "server_step N cfg caret ev sv =
     (case ev of
        Tick d \<Rightarrow> if d < 0 then None else Some (sv\<lparr>clock := clock sv + d\<rparr>)
      | Request req \<Rightarrow>
          (case route N cfg caret (clock sv) req (service sv) of
             (Replied r, st) \<Rightarrow> Some (sv\<lparr>service := st, sent := sent sv @ [r]\<rparr>)
           | (Reading ip, st) \<Rightarrow> Some (sv\<lparr>service := st, reading := reading sv @ [ip]\<rparr>))
      | Body ip events \<Rightarrow>
          if ip \<notin> set (reading sv) then None
          else (case readBody [] events of
                  None \<Rightarrow> None
                | Some body \<Rightarrow>
                    (let (r, st) = post_body N cfg caret (clock sv) ip body (service sv)
                     in Some (sv\<lparr>service := st, reading := remove1 ip (reading sv), sent := sent sv @ [r]\<rparr>)))
      | Sweep \<Rightarrow> Some (sv\<lparr>service := (service sv)\<lparr>failures := sweep (clock sv) (failures (service sv))\<rparr>\<rparr>))"

definition start_server :: "int \<Rightarrow> server" where
  "start_server now = \<lparr>clock = now, service = \<lparr>failures = (\<lambda>_. None), log_lines = []\<rparr>, reading = [], sent = []\<rparr>"

inductive served :: "node_crypto \<Rightarrow> config \<Rightarrow> bool \<Rightarrow> server \<Rightarrow> bool" for N cfg caret where
  start: "served N cfg caret (start_server now)"
| step: "served N cfg caret sv \<Longrightarrow> server_step N cfg caret ev sv = Some sv' \<Longrightarrow> served N cfg caret sv'"

end
