(* ===== verification/GateLaws.thy ===== *)
theory GateLaws
  imports Gate
begin

text \<open>
  The library behind the guarantees of the gate: the failure table as an implementation of a log of failures
  (a locale of its laws, interpreted on the code's operations), the round trip of HTML escaping, the
  replies of a served request, and the reading of a cookie the gate has set.
\<close>

declare u_simps(2) [simp del]

section \<open>The failure table against a log of failures\<close>

definition recent :: "int \<Rightarrow> ustr \<Rightarrow> (ustr \<times> int) list \<Rightarrow> int list" where
  \<comment> \<open>the failures of an address within the window\<close>
  "recent now ip l = filter (\<lambda>t. now - t < RATE_WINDOW_MS) (map snd (filter (\<lambda>x. fst x = ip) l))"

datatype limit_op = CheckOp ustr | FailOp ustr | ClearOp ustr | SweepOp

fun limit_step :: "int \<times> limit_op \<Rightarrow> failures \<Rightarrow> failures" where
  "limit_step (now, CheckOp ip) f = snd (overLimit now ip f)"
| "limit_step (now, FailOp ip) f = recordFailure now ip f"
| "limit_step (now, ClearOp ip) f = f(ip := None)"
| "limit_step (now, SweepOp) f = sweep now f"

fun log_step :: "int \<times> limit_op \<Rightarrow> (ustr \<times> int) list \<Rightarrow> (ustr \<times> int) list" where
  "log_step (now, FailOp ip) l = l @ [(ip, now)]"
| "log_step (now, ClearOp ip) l = filter (\<lambda>x. fst x \<noteq> ip) l"
| "log_step (now, CheckOp ip) l = l"
| "log_step (now, SweepOp) l = l"

definition window :: "int \<Rightarrow> int list \<Rightarrow> int list" where
  "window now ts = filter (\<lambda>t. now - t < RATE_WINDOW_MS) ts"

lemma window_window: "now \<le> now' \<Longrightarrow> window now' (window now ts) = window now' ts"
  by (auto simp: window_def intro!: filter_cong)

lemma prune_hits: "hits_of (snd (pruneFailures now ip f)) ip' = (if ip' = ip then window now (hits_of f ip) else hits_of f ip')"
  by (auto simp: pruneFailures_def hits_of_def window_def Let_def)

lemma prune_window: "fst (pruneFailures now ip f) = window now (hits_of f ip)"
  by (simp add: pruneFailures_def window_def Let_def)

lemma over_window: "fst (overLimit now ip f) \<longleftrightarrow> RATE_LIMIT \<le> length (window now (hits_of f ip))"
  by (simp add: overLimit_def split_beta prune_window)

lemma over_hits: "hits_of (snd (overLimit now ip f)) ip' = (if ip' = ip then window now (hits_of f ip) else hits_of f ip')"
  by (simp add: overLimit_def split_beta prune_hits)

lemma record_hits: "hits_of (recordFailure now ip f) ip' = (if ip' = ip then window now (hits_of f ip) @ [now] else hits_of f ip')"
  using prune_hits [of now ip f ip'] by (simp add: recordFailure_def split_beta prune_window hits_of_def)

lemma clear_hits: "hits_of (f(ip := None)) ip' = (if ip' = ip then [] else hits_of f ip')"
  by (simp add: hits_of_def)

lemma sweep_hits: "hits_of (sweep now f) ip = window now (hits_of f ip)"
  using prune_hits [of now ip f ip] by (simp add: hits_of_def sweep_def window_def)

lemmas table_hits = over_hits record_hits clear_hits sweep_hits

definition table_for :: "int \<Rightarrow> failures \<Rightarrow> (ustr \<times> int) list \<Rightarrow> bool" where
  \<comment> \<open>from \<open>now\<close> on, the table and the log agree on every window\<close>
  "table_for now f l \<longleftrightarrow> (\<forall>now' ip. now \<le> now' \<longrightarrow> window now' (hits_of f ip) = recent now' ip l)"

locale failure_table =
  fixes agrees :: "int \<Rightarrow> 's \<Rightarrow> (ustr \<times> int) list \<Rightarrow> bool"
    and start :: 's
    and op_step :: "int \<times> limit_op \<Rightarrow> 's \<Rightarrow> 's"
    and over :: "int \<Rightarrow> ustr \<Rightarrow> 's \<Rightarrow> bool"
  assumes agrees_start: "agrees now start []"
    and agrees_later: "agrees now s l \<Longrightarrow> now \<le> now' \<Longrightarrow> agrees now' s l"
    and agrees_step: "agrees now s l \<Longrightarrow> agrees now (op_step (now, op) s) (log_step (now, op) l)"
    and over_agrees: "agrees now s l \<Longrightarrow> over now ip s \<longleftrightarrow> RATE_LIMIT \<le> length (recent now ip l)"
begin

lemma agrees_run:
  "\<lbrakk>agrees t s l; sorted (t # map fst ops); \<forall>x\<in>set ops. fst x \<le> now; t \<le> now\<rbrakk>
    \<Longrightarrow> agrees now (fold op_step ops s) (fold log_step ops l)"
proof (induction ops arbitrary: t s l)
  case Nil
  then show ?case by (simp add: agrees_later [of t])
next
  case (Cons x ops)
  obtain t' op where x: "x = (t', op)" by fastforce
  then have "t \<le> t'" using Cons.prems(2) by simp
  then have "agrees t' (op_step (t', op) s) (log_step (t', op) l)"
    using Cons.prems(1) agrees_later agrees_step by blast
  then show ?case using Cons.IH [of t'] Cons.prems by (simp add: x)
qed

lemma over_run:
  assumes "sorted (map fst ops)" and "\<forall>x\<in>set ops. fst x \<le> now"
  shows "over now ip (fold op_step ops start) \<longleftrightarrow> RATE_LIMIT \<le> length (recent now ip (fold log_step ops []))"
proof (cases ops)
  case Nil
  then show ?thesis by (simp add: over_agrees [OF agrees_start])
next
  case (Cons x xs)
  have "agrees now (fold op_step ops start) (fold log_step ops [])"
    by (rule agrees_run [of "fst x"]) (use assms in \<open>auto simp: agrees_start Cons\<close>)
  then show ?thesis by (rule over_agrees)
qed

end

lemma recent_append: "recent now ip (l @ [(ip', t)]) = recent now ip l @ (if ip' = ip \<and> now - t < RATE_WINDOW_MS then [t] else [])"
  by (simp add: recent_def)

lemma recent_clear: "recent now ip (filter (\<lambda>x. fst x \<noteq> ip') l) = (if ip = ip' then [] else recent now ip l)"
proof -
  have "filter (\<lambda>x. fst x = ip) (filter (\<lambda>x. fst x \<noteq> ip') l) = (if ip = ip' then [] else filter (\<lambda>x. fst x = ip) l)"
    by (induction l) auto
  then show ?thesis by (simp add: recent_def)
qed

lemma window_recent: "now \<le> now' \<Longrightarrow> window now' (recent now ip l) = recent now' ip l"
  using window_window unfolding recent_def window_def by blast

lemma window_append: "window now (xs @ ys) = window now xs @ window now ys"
  by (simp add: window_def)

lemma window_single: "window now [t] = (if now - t < RATE_WINDOW_MS then [t] else [])"
  by (simp add: window_def)

interpretation table: failure_table table_for "\<lambda>_. None" limit_step "\<lambda>now ip f. fst (overLimit now ip f)"
proof unfold_locales
  fix now :: int
  show "table_for now (\<lambda>_. None) []" by (simp add: table_for_def hits_of_def window_def recent_def)
next
  fix now now' f l
  assume "table_for now f l" "now \<le> now'"
  then show "table_for now' f l" by (simp add: table_for_def)
next
  fix now f l op
  assume "table_for now f l"
  then have a: "now \<le> now' \<Longrightarrow> window now' (hits_of f ip) = recent now' ip l" for now' ip
    by (simp add: table_for_def)
  have n: "window t [] = []" for t by (simp add: window_def)
  show "table_for now (limit_step (now, op) f) (log_step (now, op) l)"
    by (cases op)
      (simp_all add: table_for_def table_hits window_window window_append window_single recent_append recent_clear window_recent a n)
next
  fix now f l ip
  assume "table_for now f l"
  then show "fst (overLimit now ip f) = (RATE_LIMIT \<le> length (recent now ip l))"
    by (simp add: over_window table_for_def)
qed

section \<open>Attempts one after the other\<close>

definition whole_post :: "node_crypto \<Rightarrow> config \<Rightarrow> bool \<Rightarrow> int \<times> request \<times> body \<Rightarrow> service \<Rightarrow> service" where
  \<comment> \<open>a post whose body settles before anything else happens\<close>
  "whole_post N cfg caret post st =
     (case post of (now, req, body) \<Rightarrow>
        (case post_begin cfg now req st of
           (Replied r, st') \<Rightarrow> st'
         | (Reading ip, st') \<Rightarrow> snd (post_body N cfg caret now ip body st')))"

lemma log_failures [simp]: "failures (log ip outcome name st) = failures st"
  by (simp add: log_def)

lemma fail_post_failures [simp]: "failures (fail_post now ip name st) = recordFailure now ip (failures st)"
  by (simp add: fail_post_def)

lemma post_body_failures:
  "failures (snd (post_body N cfg caret now ip body st)) = recordFailure now ip (failures st)
    \<or> failures (snd (post_body N cfg caret now ip body st)) = (failures st)(ip := None)"
  by (auto simp: post_body_def Let_def split: body.splits list.splits option.splits)

lemma post_begin_cases:
  obtains r st' where "post_begin cfg now req st = (Replied r, st')" "failures st' = failures st \<or> failures st' = snd (overLimit now (clientIp cfg req) (failures st))"
  | st' where "post_begin cfg now req st = (Reading (clientIp cfg req), st')" "failures st' = snd (overLimit now (clientIp cfg req) (failures st))"
      "\<not> fst (overLimit now (clientIp cfg req) (failures st))"
proof -
  let ?ip = "clientIp cfg req"
  let ?t = "starts_with (u ''application/x-www-form-urlencoded'') (case req_type req of None \<Rightarrow> [] | Some t \<Rightarrow> t)"
  obtain over f where o: "overLimit now ?ip (failures st) = (over, f)" by fastforce
  show thesis
  proof (cases "?t \<and> \<not> over")
    case True
    then show thesis using that(2) o by (simp add: post_begin_def Let_def)
  next
    case False
    then show thesis using that(1) o by (cases "?t") (simp_all add: post_begin_def Let_def)
  qed
qed

definition within_limit :: "service \<Rightarrow> bool" where
  "within_limit st \<longleftrightarrow> (\<forall>ip. length (hits_of (failures st) ip) \<le> RATE_LIMIT)"

lemma length_window: "length (window now ts) \<le> length ts"
  by (simp add: window_def)

lemma whole_post_within: "within_limit st \<Longrightarrow> within_limit (whole_post N cfg caret post st)"
proof -
  assume l: "within_limit st"
  obtain now req body where p: "post = (now, req, body)" by (cases post) auto
  have w: "length (window now (hits_of (failures st) ip)) \<le> RATE_LIMIT" for ip
    using l length_window [of now "hits_of (failures st) ip"] unfolding within_limit_def by (meson le_trans)
  show ?thesis
  proof (rule post_begin_cases [of cfg now req st])
    fix r st'
    assume "post_begin cfg now req st = (Replied r, st')"
      "failures st' = failures st \<or> failures st' = snd (overLimit now (clientIp cfg req) (failures st))"
    then show ?thesis using l w by (auto simp: p whole_post_def within_limit_def over_hits)
  next
    fix st'
    assume b: "post_begin cfg now req st = (Reading (clientIp cfg req), st')"
      "failures st' = snd (overLimit now (clientIp cfg req) (failures st))"
      "\<not> fst (overLimit now (clientIp cfg req) (failures st))"
    have "Suc (length (window now (hits_of (failures st) (clientIp cfg req)))) \<le> RATE_LIMIT"
      using b(3) by (simp add: over_window)
    then show ?thesis
      using l post_body_failures [of N cfg caret now "clientIp cfg req" body st'] b
      by (auto simp: p whole_post_def within_limit_def table_hits window_window)
  qed
qed

lemma whole_posts_within: "within_limit st \<Longrightarrow> within_limit (fold (whole_post N cfg caret) posts st)"
  by (induction posts arbitrary: st) (simp_all add: whole_post_within)

section \<open>HTML escaping\<close>

fun unescape :: "ustr \<Rightarrow> ustr" where
  \<comment> \<open>what a browser makes of the five character references\<close>
  "unescape [] = []"
| "unescape (c # s) =
     (if c = 38 then
        (if starts_with (u ''amp;'') s then 38 # unescape (drop 4 s)
         else if starts_with (u ''lt;'') s then 60 # unescape (drop 3 s)
         else if starts_with (u ''gt;'') s then 62 # unescape (drop 3 s)
         else if starts_with (u ''quot;'') s then 34 # unescape (drop 5 s)
         else if starts_with (u ''#39;'') s then 39 # unescape (drop 4 s)
         else 38 # unescape s)
      else c # unescape s)"

definition escape_unit :: "nat \<Rightarrow> ustr" where
  "escape_unit c =
     (if c = 38 then u ''&amp;'' else if c = 60 then u ''&lt;'' else if c = 62 then u ''&gt;''
      else if c = 34 then u ''&quot;'' else if c = 39 then u ''&#39;'' else [c])"

lemma replace_char_simps [simp]:
  "replace_char d r [] = []" "replace_char d r (c # s) = (if c = d then r else [c]) @ replace_char d r s"
  by (simp_all add: replace_char_def)

lemma replace_char_append [simp]: "replace_char d r (s @ t) = replace_char d r s @ replace_char d r t"
  by (simp add: replace_char_def)

lemma escapeHtml_units: "escapeHtml s = concat (map escape_unit s)"
  by (induction s) (auto simp: escapeHtml_def escape_unit_def u_simps)

lemma unescape_unit: "unescape (escape_unit c @ s) = c # unescape s"
  by (auto simp: escape_unit_def starts_with_def u_simps)

lemma unescape_escape: "unescape (escapeHtml s) = s"
  by (induction s) (simp_all add: escapeHtml_units unescape_unit)

lemma escapeHtml_safe: "c \<in> set (escapeHtml s) \<Longrightarrow> c \<noteq> 60 \<and> c \<noteq> 62 \<and> c \<noteq> 34 \<and> c \<noteq> 39"
  by (auto simp: escapeHtml_units escape_unit_def u_simps split: if_splits)

section \<open>What replies carry\<close>

lemma utf8_cont_bound: "utf8_cont k lo hi acc bs = (Some p, r) \<Longrightarrow> p < (acc + 1) * 64 ^ k"
proof (induction k lo hi acc bs rule: utf8_cont.induct)
  case (3 k lo hi acc b bs)
  then have "p < (acc * 64 + b mod 64 + 1) * 64 ^ k" by (auto split: if_splits)
  also have "\<dots> \<le> ((acc + 1) * 64) * 64 ^ k" by (rule mult_le_mono1, rule carry64) simp
  finally show ?case by (simp only: power_Suc mult.assoc)
qed auto

lemma units_utf8_read: "units (utf8_read bs)"
proof (induction bs rule: utf8_read.induct)
  case (2 b bs)
  show ?case
  proof (cases "b < 0x80")
    case True
    then show ?thesis using 2 by simp
  next
    case False
    show ?thesis
    proof (cases "utf8_lead b")
      case None
      then show ?thesis using 2 False by simp
    next
      case (Some l)
      obtain n lo hi acc where l: "l = (n, lo, hi, acc)" by (cases l) auto
      obtain p r where r: "utf8_cont n lo hi acc bs = (p, r)" by fastforce
      show ?thesis
      proof (cases p)
        case None
        then show ?thesis using 2 False Some l r by simp
      next
        case p: (Some q)
        have "q < 0x200000" using utf8_cont_bound [OF r [unfolded p]] utf8_lead_bound [OF Some [unfolded l]] by linarith
        then show ?thesis using 2 False Some l r p units_of_units by simp
      qed
    qed
  qed
qed simp

lemma units_u: "units (u s)"
proof (induction s)
  case (Cons c s)
  have "(of_char c :: nat) < 256" by simp
  then have "(of_char c :: nat) < 0x10000" by linarith
  with Cons show ?case by (simp add: u_simps)
qed simp

lemma form_get_units: "form_get (form_parse raw) k = Some v \<Longrightarrow> units v"
  by (auto simp: form_get_def form_parse_def Let_def form_pair_def form_text_def units_utf8_read dest!: map_of_SomeD)

definition header_of :: "string \<Rightarrow> reply \<Rightarrow> ustr option" where
  "header_of k r = map_of (headers r) k"

definition path_of_target :: "ustr \<Rightarrow> ustr" where
  \<comment> \<open>the target of a request up to its first question mark\<close>
  "path_of_target t = takeWhile (\<lambda>c. c \<noteq> 63) t"

definition location_ok :: "reply \<Rightarrow> bool" where
  "location_ok r \<longleftrightarrow> (\<forall>v. header_of ''location'' r = Some v \<longrightarrow> local_target v)"

definition no_cookie :: "reply \<Rightarrow> bool" where
  "no_cookie r \<longleftrightarrow> header_of ''set-cookie'' r = None \<and> location_ok r"

lemma no_cookie_plain:
  "header_of ''set-cookie'' r = None \<Longrightarrow> header_of ''location'' r = None \<Longrightarrow> no_cookie r"
  by (simp add: no_cookie_def location_ok_def)

lemma sendPage_ok [simp]: "no_cookie (sendPage code target notice)"
  and delayed_ok [simp]: "no_cookie (delayed (sendPage code target notice))"
  and sendText_ok [simp]: "no_cookie (sendText code text)"
  by (simp_all add: no_cookie_plain sendPage_def sendText_def delayed_def header_of_def Let_def)

lemma handleAuth_ok [simp]: "no_cookie (handleAuth N cfg now req)"
  by (simp add: no_cookie_plain handleAuth_def header_of_def split: option.splits)

lemma handleLogout_ok [simp]: "location_ok (handleLogout cfg)"
  by (simp add: location_ok_def handleLogout_def header_of_def local_target_def visible_def u_simps)

lemma post_begin_ok: "post_begin cfg now req st = (Replied r, st') \<Longrightarrow> no_cookie r"
  by (auto simp: post_begin_def Let_def split_beta split: if_splits)

definition granted :: "node_crypto \<Rightarrow> config \<Rightarrow> int \<Rightarrow> credential \<Rightarrow> ustr \<Rightarrow> reply" where
  "granted N cfg now c target =
     \<lparr>status = 303,
      headers = [(''location'', target), (''set-cookie'', cookieHeader cfg (sign N cfg now c) None),
        (''cache-control'', u ''no-store''), (''content-length'', u ''0'')],
      text_body = [], delay_ms = 0\<rparr>"

lemma post_target_local:
  "local_target (safeNext caret (case form_get (form_parse raw) (u ''next'') of None \<Rightarrow> u ''/'' | Some v \<Rightarrow> v))"
  by (rule safeNext_local) (auto dest: form_get_units simp: units_u split: option.splits)

definition login_reply :: "node_crypto \<Rightarrow> config \<Rightarrow> int \<Rightarrow> body \<Rightarrow> reply \<Rightarrow> bool" where
  \<comment> \<open>the answer to a post with one acceptable password, for the credential it matches\<close>
  "login_reply N cfg now body r \<longleftrightarrow>
     (\<exists>raw pw c target. body = Resolved raw \<and> form_all (form_parse raw) (u ''password'') = [pw] \<and> pw \<noteq> []
        \<and> length pw \<le> MAX_PASSWORD_LENGTH \<and> matchPassword N cfg pw = Some c \<and> local_target target \<and> r = granted N cfg now c target)"

lemma post_body_ok: "no_cookie (fst (post_body N cfg caret now ip body st)) \<or> login_reply N cfg now body (fst (post_body N cfg caret now ip body st))"
proof (cases body)
  case (Resolved raw)
  define target where "target = safeNext caret (case form_get (form_parse raw) (u ''next'') of None \<Rightarrow> u ''/'' | Some v \<Rightarrow> v)"
  have "local_target target" unfolding target_def by (rule post_target_local)
  then show ?thesis
    unfolding Resolved post_body_def Let_def body.case target_def [symmetric] granted_def [symmetric]
    by (auto simp: login_reply_def not_less split: list.split option.split)
qed (simp add: post_body_def)

lemma path_of_target_index:
  "(case index_of [63] t of None \<Rightarrow> t | Some e \<Rightarrow> take e t) = path_of_target t"
  by (induction t) (auto simp: path_of_target_def starts_with_def split: option.splits)

lemma route_ok: "route N cfg caret now req st = (Replied r, st')
   \<Longrightarrow> no_cookie r \<or> path_of_target (req_url req) = u ''/gate/logout'' \<and> r = handleLogout cfg"
  unfolding route_def path_of_target_index
  by (auto simp: Let_def no_cookie_plain header_of_def post_begin_ok split: if_splits)

definition answer_ok :: "node_crypto \<Rightarrow> config \<Rightarrow> server_event \<Rightarrow> server \<Rightarrow> reply \<Rightarrow> bool" where
  \<comment> \<open>what a turn answers: no cookie, the logout of a request for it, or the login of the posted password\<close>
  "answer_ok N cfg ev sv r \<longleftrightarrow> location_ok r \<and> (\<forall>v. header_of ''set-cookie'' r = Some v \<longrightarrow>
     (\<exists>req. ev = Request req \<and> path_of_target (req_url req) = u ''/gate/logout'' \<and> v = cookieHeader cfg [] (Some 0)) \<or>
     (\<exists>ip events raw pw c. ev = Body ip events \<and> readBody [] events = Some (Resolved raw)
        \<and> form_all (form_parse raw) (u ''password'') = [pw] \<and> pw \<noteq> [] \<and> length pw \<le> MAX_PASSWORD_LENGTH
        \<and> matchPassword N cfg pw = Some c \<and> v = cookieHeader cfg (sign N cfg (clock sv) c) None))"

lemma answer_plain: "no_cookie r \<Longrightarrow> answer_ok N cfg ev sv r"
  by (simp add: answer_ok_def no_cookie_def)

lemma answer_logout: "path_of_target (req_url req) = u ''/gate/logout'' \<Longrightarrow> answer_ok N cfg (Request req) sv (handleLogout cfg)"
  by (simp add: answer_ok_def) (simp add: handleLogout_def header_of_def)

lemma answer_login:
  "\<lbrakk>readBody [] events = Some body; login_reply N cfg (clock sv) body r\<rbrakk> \<Longrightarrow> answer_ok N cfg (Body ip events) sv r"
  by (auto simp: answer_ok_def login_reply_def location_ok_def granted_def header_of_def)

lemma step_answer:
  assumes "server_step N cfg caret ev sv = Some sv'" and "r \<in> set (drop (length (sent sv)) (sent sv'))"
  shows "take (length (sent sv)) (sent sv') = sent sv \<and> answer_ok N cfg ev sv r"
proof (cases ev)
  case (Request req)
  then show ?thesis
    using assms route_ok [of N cfg caret "clock sv" req "service sv"]
    by (auto simp: server_step_def answer_plain answer_logout split: prod.splits post.splits)
next
  case (Body ip events)
  then obtain body where b: "readBody [] events = Some body" using assms(1) by (auto simp: server_step_def split: if_splits option.splits)
  obtain r' st where p: "post_body N cfg caret (clock sv) ip body (service sv) = (r', st)" by (cases "post_body N cfg caret (clock sv) ip body (service sv)")
  have "r = r'" "take (length (sent sv)) (sent sv') = sent sv"
    using assms by (auto simp: Body server_step_def b p split: if_splits)
  then show ?thesis
    using post_body_ok [of N cfg caret "clock sv" ip body "service sv"] p answer_plain answer_login [OF b] by (auto simp: Body)
qed (use assms in \<open>auto simp: server_step_def split: if_splits\<close>)

end
