(* ===== verification/GateGuarantees.thy ===== *)
theory GateGuarantees
  imports GateLaws
begin

text \<open>
  The guarantees of the gate (\<open>docker/gate/server.mjs\<close>): who is let in, for how long and under which password, the
  rate limiter with and without concurrent posts, and the redirect.  The witnesses run the configuration
  of \<open>sample_env\<close> with the stand-in hash functions \<open>sample_node\<close>, which have the digest length of SHA-256.
\<close>

section \<open>A session from login to authorisation\<close>

lemma b64_name_units: "list_all name_unit (b64_encode bs)"
proof -
  have *: "name_unit (b64_char v)" for v by (auto simp: name_unit_def b64_char_def dec_digit_def)
  show ?thesis by (induction bs rule: b64_encode.induct) (simp_all add: *)
qed

lemma sign_units: "c \<in> set (sign N cfg now cr) \<Longrightarrow> name_unit c \<or> c = 46"
  using b64_name_units by (auto simp: sign_def Let_def u_simps list_all_iff)

lemma trim_plain: "list_all (\<lambda>c. \<not> u_ws c) s \<Longrightarrow> u_trim s = s"
proof -
  have d: "dropWhile u_ws t = t" if "list_all (\<lambda>c. \<not> u_ws c) t" for t using that by (cases t) auto
  assume "list_all (\<lambda>c. \<not> u_ws c) s"
  moreover from this have "list_all (\<lambda>c. \<not> u_ws c) (rev s)" by (simp add: list_all_iff)
  ultimately show ?thesis by (simp add: u_trim_def d)
qed

lemma sign_trim: "u_trim (sign N cfg now cr) = sign N cfg now cr"
proof (rule trim_plain)
  have "\<not> u_ws c" if "name_unit c \<or> c = 46" for c
    using that by (auto simp: name_unit_def u_ws_def dec_digit_def)
  then show "list_all (\<lambda>c. \<not> u_ws c) (sign N cfg now cr)" using sign_units by (auto simp: list_all_iff)
qed

definition session_header :: "ustr \<Rightarrow> ustr \<Rightarrow> ustr" where
  \<comment> \<open>the cookie header of a browser that holds the token, and maybe more cookies after it\<close>
  "session_header token rest = COOKIE_NAME @ [61] @ token @ (if rest = [] then [] else 59 # rest)"

lemma readCookie_session: "readCookie (Some (session_header (sign N cfg now cr) rest)) = Some (sign N cfg now cr)"
proof -
  let ?b = "COOKIE_NAME @ [61] @ sign N cfg now cr"
  have n59: "59 \<notin> set ?b" using sign_units [of 59] by (auto simp: cookie_name_units name_unit_def dec_digit_def)
  have h: "session_header (sign N cfg now cr) rest = ?b @ (if rest = [] then [] else 59 # rest)"
    by (simp add: session_header_def)
  have sp: "\<exists>ps. split_on 59 (session_header (sign N cfg now cr) rest) = ?b # ps"
  proof (cases "rest = []")
    case True
    then have "session_header (sign N cfg now cr) rest = ?b" using h by simp
    then show ?thesis by (simp only: split_on_none [OF n59]) blast
  next
    case False
    have w: "takeWhile (\<lambda>c. c \<noteq> 59) (?b @ 59 # rest) = ?b"
      using n59 by (subst takeWhile_append2) auto
    show ?thesis using False by (subst split_on_step) (simp only: h w if_False, simp)
  qed
  have "dropWhile (\<lambda>c. c = 32) ?b = ?b" by (simp add: cookie_name_units)
  moreover have "starts_with (COOKIE_NAME @ [61]) ?b" by (simp add: starts_with_def)
  moreover have "drop 7 ?b = sign N cfg now cr" by (simp add: cookie_name_units)
  moreover have "session_header (sign N cfg now cr) rest \<noteq> []" by (simp add: session_header_def)
  ultimately show ?thesis
    using sp by (auto simp: readCookie_def cookie_loop_reference sign_trim)
qed

definition auth_name :: "reply \<Rightarrow> ustr option" where
  "auth_name r = (if status r = 204 then header_of ''x-gate-name'' r else None)"

lemma auth_name_verify: "auth_name (handleAuth N cfg now req) = verify_gate N cfg now (readCookie (req_cookie req))"
  by (simp add: auth_name_def handleAuth_def header_of_def split: option.splits)

lemma readCookie_None: "verify_gate N cfg now None = None"
  by (simp add: verify_gate_def)

definition sample_sum :: "nat list \<Rightarrow> nat" where
  "sample_sum m = sum_list m mod 256"

definition sample_node :: node_crypto where
  "sample_node = \<lparr>sha256 = (\<lambda>m. sample_sum m # replicate 31 0),
     hmac = (\<lambda>k m. sample_sum m # sample_sum (take 1 k) # replicate 30 0)\<rparr>"

definition sample_env :: env where
  "sample_env = \<lparr>env_port = None, env_ttl = None, env_secure = None, env_trust = None,
     env_secret = Some (u ''0123456789abcdef''), env_password = None,
     env_named = Some (u ''legal:abc123,investor-a:def456'')\<rparr>"

definition sample_config :: config where
  "sample_config = gate_config sample_node sample_env []"

lemma sample_hash_ok: "hash_ok sample_node"
  by (simp add: hash_ok_def sample_node_def octets_def sample_sum_def list_all_iff)

lemmas gate_eval = u_simps u_trim_def u_ws_def dec_digit_def starts_with_def

lemma sample_named:
  "parseNamed (Some (u ''legal:abc123,investor-a:def456'')) = ([(u ''legal'', u ''abc123''), (u ''investor-a'', u ''def456'')], [])"
  by (simp add: parseNamed_def gate_eval NAME_PATTERN_def name_unit_def DEFAULT_NAME_def)

lemma sample_ttl: "TTL_SECONDS sample_config = 259200"
proof -
  have "js_Number [] = Some 0" by (simp add: js_Number_def u_trim_def)
  then show ?thesis
    using js_round_of_int [of 259200]
    by (simp add: sample_config_def gate_config_def sample_env_def toHours_def)
qed

lemma utf8_octets_u: "list_all (\<lambda>c. (of_char c :: nat) < 0x80) s \<Longrightarrow> utf8_octets (u s) = u s"
  by (rule utf8_octets_ascii) (induction s, simp_all add: u_simps)

lemma sample_credentials:
  "CREDENTIALS sample_config =
     [\<lparr>cred_name = u ''default'', digest = 17 # replicate 31 0, key = 17 # 48 # replicate 30 0\<rparr>,
      \<lparr>cred_name = u ''legal'', digest = 188 # replicate 31 0, key = 188 # 48 # replicate 30 0\<rparr>,
      \<lparr>cred_name = u ''investor-a'', digest = 206 # replicate 31 0, key = 206 # 48 # replicate 30 0\<rparr>]"
proof -
  have pw: "utf8_octets (u ''xkoin#2030'') = u ''xkoin#2030''" "utf8_octets (u ''abc123'') = u ''abc123''"
    "utf8_octets (u ''def456'') = u ''def456''" "utf8_octets (u ''0123456789abcdef'') = u ''0123456789abcdef''"
    by (simp_all add: utf8_octets_u)
  have secret: "gate_secret sample_env [] = u ''0123456789abcdef''"
    by (simp add: gate_secret_def sample_env_def env_text_def gate_eval Let_def)
  have sum: "sample_sum (n # replicate k 0) = n mod 256" for n k by (simp add: sample_sum_def sum_list_replicate)
  have shape: "credential_of sample_node (u ''0123456789abcdef'') (n, p)
    = \<lparr>cred_name = n, digest = sample_sum (utf8_octets p) # replicate 31 0,
       key = sample_sum (utf8_octets p) # 48 # replicate 30 0\<rparr>" for n p
    by (simp add: credential_of_def sample_node_def Let_def pw sum) (simp add: sample_sum_def u_simps)
  show ?thesis
    unfolding sample_config_def gate_config_def secret
    by (simp add: sample_env_def env_text_def sample_named DEFAULT_NAME_def DEFAULT_PASSWORD_def shape pw)
      (simp add: sample_sum_def u_simps)
qed

lemma sample_match: "\<exists>c. matchPassword sample_node sample_config (u ''abc123'') = Some c \<and> cred_name c = u ''legal''"
proof -
  have "utf8_octets (u ''abc123'') = u ''abc123''" by (simp add: utf8_octets_u)
  then have "sha256 sample_node (utf8_octets (u ''abc123'')) = 188 # replicate 31 0"
    by (simp add: sample_node_def sample_sum_def u_simps)
  then show ?thesis by (simp add: matchPassword_def sample_credentials)
qed

lemma sample_no_match: "matchPassword sample_node sample_config (u ''x'') = None"
proof -
  have "utf8_octets (u ''x'') = u ''x''" by (simp add: utf8_octets_u)
  then have "sha256 sample_node (utf8_octets (u ''x'')) = 120 # replicate 31 0"
    by (simp add: sample_node_def sample_sum_def u_simps)
  then show ?thesis by (simp add: matchPassword_def sample_credentials)
qed

lemma sample_apart: "keys_apart sample_node (CREDENTIALS sample_config)"
  by (auto simp: keys_apart_def sample_node_def sample_credentials sample_sum_def)

text \<open>C23. A session opened with a configured password authorises under the name of that password, in every
  request that carries its cookie first, exactly until the expiry written in the token: the token, the cookie
  header and the two constant-time loops fit together, also when two names share a password.\<close>

theorem session_authorises:
  assumes "hash_ok N" and "matchPassword N cfg pw = Some c"
    and "keys_apart N (CREDENTIALS cfg)" and "same_keys (CREDENTIALS cfg)"
    and "NAME_PATTERN (cred_name c)" and "0 \<le> expiry cfg now" and "expiry cfg now < 10 ^ 20"
    and "req_cookie req = Some (session_header (sign N cfg now c) rest)"
  shows "auth_name (handleAuth N cfg now' req) =
    (if now' < (now div 1000 + TTL_SECONDS cfg) * 1000 then Some (cred_name c) else None)"
proof -
  have p: "utf8_octets (signed_payload cfg now c) = signed_payload cfg now c"
    by (simp add: signed_payload_def utf8_octets_ascii payload_ascii assms(5))
  have "find_signer N (signed_payload cfg now c) (hmac N (key c) (signed_payload cfg now c)) (CREDENTIALS cfg) None = Some c"
    using signer_of_match [OF assms(2,3,4), of "signed_payload cfg now c"] by (simp only: p)
  then show ?thesis
    unfolding auth_name_verify assms(8) readCookie_session verify_signed [OF assms(1,5,6,7)]
    by (simp add: expiry_def)
qed

theorem session_authorises_witness:
  "\<exists>c. matchPassword sample_node sample_config (u ''abc123'') = Some c
     \<and> auth_name (handleAuth sample_node sample_config 259199999
         \<lparr>req_method = u ''GET'', req_url = u ''/auth'', req_cookie = Some (session_header (sign sample_node sample_config 0 c) []),
          req_type = None, req_forwarded = None, req_remote = None\<rparr>) = Some (u ''legal'')"
proof -
  obtain c where c: "matchPassword sample_node sample_config (u ''abc123'') = Some c" "cred_name c = u ''legal''"
    using sample_match by blast
  have s: "same_keys (CREDENTIALS sample_config)" unfolding sample_config_def by (rule same_keys_config)
  have n: "NAME_PATTERN (cred_name c)" unfolding c(2) by (simp add: NAME_PATTERN_def name_unit_def u_simps)
  show ?thesis
    by (intro exI conjI, rule c(1), subst session_authorises [OF sample_hash_ok c(1) sample_apart s n, where now = 0 and rest = "[]"])
      (simp_all add: expiry_def sample_ttl c(2))
qed

text \<open>C24. Whoever is let in holds a token whose payload is signed with the key of a configured credential, names
  that credential and is not expired: a 204 of \<open>/auth\<close> is never the result of an unsigned, foreign or stale payload.\<close>

theorem authorised_is_signed:
  assumes "auth_name (handleAuth N cfg now req) = Some n"
  shows "\<exists>t payload sig c v e.
    readCookie (req_cookie req) = Some t \<and> token_parts t = Some (payload, sig)
    \<and> c \<in> set (CREDENTIALS cfg) \<and> cred_name c = n \<and> sig = hmac N (key c) (utf8_octets payload)
    \<and> json_parse payload = Some v \<and> json_field v (u ''n'') = Some (JString n)
    \<and> json_field v (u ''exp'') = Some (JNumber e) \<and> of_int now < e * 1000"
proof (cases "readCookie (req_cookie req)")
  case None
  then show ?thesis using assms by (simp add: auth_name_verify readCookie_None)
next
  case (Some t)
  with assms have "verify_gate N cfg now (Some t) = Some n" by (simp add: auth_name_verify)
  from verify_gate_Some [OF this] Some show ?thesis by blast
qed

theorem authorised_is_signed_witness:
  "\<exists>req. auth_name (handleAuth sample_node sample_config 1 req) = Some (u ''legal'')
     \<and> (\<exists>t payload sig c v e. readCookie (req_cookie req) = Some t \<and> token_parts t = Some (payload, sig)
       \<and> c \<in> set (CREDENTIALS sample_config) \<and> cred_name c = u ''legal'' \<and> sig = hmac sample_node (key c) (utf8_octets payload)
       \<and> json_parse payload = Some v \<and> json_field v (u ''n'') = Some (JString (u ''legal''))
       \<and> json_field v (u ''exp'') = Some (JNumber e) \<and> of_int 1 < e * 1000)"
proof -
  obtain c where c: "matchPassword sample_node sample_config (u ''abc123'') = Some c" "cred_name c = u ''legal''"
    using sample_match by blast
  let ?req = "\<lparr>req_method = u ''GET'', req_url = u ''/auth'', req_cookie = Some (session_header (sign sample_node sample_config 0 c) []),
    req_type = None, req_forwarded = None, req_remote = None\<rparr>"
  have n: "NAME_PATTERN (cred_name c)" unfolding c(2) by (simp add: NAME_PATTERN_def name_unit_def u_simps)
  have f: "find_signer sample_node p (hmac sample_node (key c) (utf8_octets p)) (CREDENTIALS sample_config) None = Some c" for p
    by (rule signer_of_match [OF c(1) sample_apart]) (unfold sample_config_def, rule same_keys_config)
  have p: "utf8_octets (signed_payload sample_config 0 c) = signed_payload sample_config 0 c"
    by (simp add: signed_payload_def utf8_octets_ascii payload_ascii n)
  have "auth_name (handleAuth sample_node sample_config 1 ?req) = Some (u ''legal'')"
    unfolding auth_name_verify request.simps readCookie_session
    by (subst verify_signed [OF sample_hash_ok n])
      (use f [of "signed_payload sample_config 0 c"] in \<open>simp_all add: p expiry_def sample_ttl c(2)\<close>)
  with authorised_is_signed [OF this] show ?thesis by blast
qed

text \<open>Rotation: once no configured key produces the signature of a token, that token lets nobody in.  Changing or
  deleting a password, or the secret, ends the sessions opened with it.\<close>

theorem rotated_password_refused:
  assumes "hash_ok N" and "NAME_PATTERN (cred_name c)" and "0 \<le> expiry cfg now" and "expiry cfg now < 10 ^ 20"
    and "\<And>c'. c' \<in> set (CREDENTIALS cfg') \<Longrightarrow> hmac N (key c') (signed_payload cfg now c) \<noteq> hmac N (key c) (signed_payload cfg now c)"
    and "req_cookie req = Some (session_header (sign N cfg now c) rest)"
  shows "status (handleAuth N cfg' now' req) = 401"
proof -
  have p: "utf8_octets (signed_payload cfg now c) = signed_payload cfg now c"
    by (simp add: signed_payload_def utf8_octets_ascii payload_ascii assms(2))
  have "find_signer N (signed_payload cfg now c) (hmac N (key c) (signed_payload cfg now c)) (CREDENTIALS cfg') None = None"
    using assms(5) by (auto simp: find_signer_None p dest: sym)
  then have "verify_gate N cfg' now' (Some (sign N cfg now c)) = None"
    unfolding verify_signed [OF assms(1,2,3,4)] by simp
  then show ?thesis by (simp add: handleAuth_def assms(6) readCookie_session)
qed

theorem rotated_password_refused_witness:
  "\<exists>c\<in>set (CREDENTIALS sample_config). cred_name c = u ''legal'' \<and>
     status (handleAuth sample_node (sample_config\<lparr>CREDENTIALS := [hd (CREDENTIALS sample_config)]\<rparr>) 1
       \<lparr>req_method = u ''GET'', req_url = u ''/auth'',
        req_cookie = Some (session_header (sign sample_node sample_config 0 c) []),
        req_type = None, req_forwarded = None, req_remote = None\<rparr>) = 401"
proof -
  let ?c = "\<lparr>cred_name = u ''legal'', digest = 188 # replicate 31 0, key = 188 # 48 # replicate 30 0\<rparr>"
  have n: "NAME_PATTERN (cred_name ?c)" by (simp add: NAME_PATTERN_def name_unit_def u_simps)
  have "status (handleAuth sample_node (sample_config\<lparr>CREDENTIALS := [hd (CREDENTIALS sample_config)]\<rparr>) 1
       \<lparr>req_method = u ''GET'', req_url = u ''/auth'',
        req_cookie = Some (session_header (sign sample_node sample_config 0 ?c) []),
        req_type = None, req_forwarded = None, req_remote = None\<rparr>) = 401"
    by (rule rotated_password_refused [OF sample_hash_ok n, where rest = "[]"])
      (simp_all add: expiry_def sample_ttl sample_credentials sample_node_def sample_sum_def)
  then show ?thesis by (intro bexI [of _ ?c]) (simp_all add: sample_credentials)
qed

section \<open>The rate limiter\<close>

text \<open>C25. Whatever checks, failures, successes and sweeps happen, in the order of the clock, the limiter refuses an
  address exactly when ten failures of it since its last success lie within the last fifteen minutes: pruning
  never forgets a failure that still counts and never keeps one that does not.\<close>

theorem limiter_counts_recent_failures:
  assumes "sorted (map fst ops)" and "\<forall>x\<in>set ops. fst x \<le> now"
  shows "fst (overLimit now ip (fold limit_step ops (\<lambda>_. None)))
    \<longleftrightarrow> RATE_LIMIT \<le> length (recent now ip (fold log_step ops []))"
  using assms by (rule table.over_run)

theorem limiter_counts_recent_failures_witness:
  "fst (overLimit 900000 (u ''10.0.0.1'') (fold limit_step ((0, FailOp (u ''10.0.0.1'')) # replicate 10 (1, FailOp (u ''10.0.0.1''))) (\<lambda>_. None)))"
proof -
  have *: "fold log_step (replicate n (1, FailOp ip)) l = l @ replicate n (ip, 1)" for n ip l
    by (induction n arbitrary: l) (simp_all add: replicate_append_same)
  have "RATE_LIMIT \<le> length (recent 900000 (u ''10.0.0.1'')
    (fold log_step ((0, FailOp (u ''10.0.0.1'')) # replicate 10 (1, FailOp (u ''10.0.0.1''))) []))"
    unfolding fold_Cons o_apply * by (simp add: recent_def RATE_LIMIT_def RATE_WINDOW_MS_def filter_replicate)
  then show ?thesis
    by (subst limiter_counts_recent_failures) (auto simp: sorted_replicate)
qed

text \<open>When every post settles before the next begins, no address ever has more than ten failures on record, whatever
  the bodies and however many posts there are: the eleventh guess within the window is not evaluated.\<close>

theorem sequential_posts_limited:
  "length (hits_of (failures (fold (whole_post N cfg caret) posts (service (start_server t)))) ip) \<le> RATE_LIMIT"
proof -
  have "within_limit (service (start_server t))" by (simp add: within_limit_def start_server_def hits_of_def)
  then show ?thesis using whole_posts_within unfolding within_limit_def by blast
qed

fun run_server :: "node_crypto \<Rightarrow> config \<Rightarrow> bool \<Rightarrow> server_event list \<Rightarrow> server \<Rightarrow> server option" where
  "run_server N cfg caret [] sv = Some sv"
| "run_server N cfg caret (ev # evs) sv =
     (case server_step N cfg caret ev sv of None \<Rightarrow> None | Some sv' \<Rightarrow> run_server N cfg caret evs sv')"

lemma run_server_append:
  "run_server N cfg caret (xs @ ys) sv =
    (case run_server N cfg caret xs sv of None \<Rightarrow> None | Some sv' \<Rightarrow> run_server N cfg caret ys sv')"
  by (induction xs arbitrary: sv) (auto split: option.splits)

definition login_request :: "request \<Rightarrow> bool" where
  "login_request req \<longleftrightarrow> req_url req = u ''/gate'' \<and> req_method req = u ''POST''
     \<and> req_type req = Some (u ''application/x-www-form-urlencoded'')"

lemma route_login:
  assumes "login_request req" and "failures st = (\<lambda>_. None)"
  shows "route N cfg caret now req st = (Reading (clientIp cfg req), st)"
proof -
  have "overLimit now (clientIp cfg req) (failures st) = (False, failures st)"
    by (simp add: assms(2) overLimit_def pruneFailures_def hits_of_def RATE_LIMIT_def fun_upd_idem)
  moreover have "index_of [63] (u ''/gate'') = None" by (simp add: u_simps starts_with_def)
  ultimately show ?thesis
    using assms(1) by (simp add: route_def login_request_def post_begin_def Let_def starts_with_def)
      (simp add: u_simps)
qed

lemma begin_posts:
  assumes "login_request req"
  shows "\<lbrakk>failures (service sv) = (\<lambda>_. None)\<rbrakk>
    \<Longrightarrow> run_server N cfg caret (replicate n (Request req)) sv
      = Some (sv\<lparr>reading := reading sv @ replicate n (clientIp cfg req)\<rparr>)"
proof (induction n arbitrary: sv)
  case (Suc n)
  have "server_step N cfg caret (Request req) sv = Some (sv\<lparr>reading := reading sv @ [clientIp cfg req]\<rparr>)"
    using route_login [OF assms Suc.prems] by (simp add: server_step_def)
  then show ?case using Suc by simp
qed simp

definition wrong_guess :: "node_crypto \<Rightarrow> config \<Rightarrow> body_event list \<Rightarrow> ustr \<Rightarrow> bool" where
  "wrong_guess N cfg es pw \<longleftrightarrow>
     (\<exists>raw. readBody [] es = Some (Resolved raw) \<and> form_all (form_parse raw) (u ''password'') = [pw])
     \<and> pw \<noteq> [] \<and> length pw \<le> MAX_PASSWORD_LENGTH \<and> matchPassword N cfg pw = None"

lemma end_posts:
  assumes "wrong_guess N cfg es pw"
  shows "reading sv = replicate n ip \<Longrightarrow> \<exists>sv'. run_server N cfg caret (replicate n (Body ip es)) sv = Some sv'
    \<and> clock sv' = clock sv \<and> (n \<noteq> 0 \<longrightarrow> hits_of (failures (service sv')) ip = window (clock sv) (hits_of (failures (service sv)) ip) @ replicate n (clock sv))"
proof (induction n arbitrary: sv)
  case (Suc n)
  from assms obtain raw where raw: "readBody [] es = Some (Resolved raw)" "form_all (form_parse raw) (u ''password'') = [pw]"
    "pw \<noteq> []" "\<not> MAX_PASSWORD_LENGTH < length pw" "matchPassword N cfg pw = None"
    by (auto simp: wrong_guess_def)
  obtain r st where b: "post_body N cfg caret (clock sv) ip (Resolved raw) (service sv) = (r, st)"
    "failures st = recordFailure (clock sv) ip (failures (service sv))"
    using raw by (simp add: post_body_def Let_def)
  let ?sv = "sv\<lparr>service := st, reading := replicate n ip, sent := sent sv @ [r]\<rparr>"
  have st: "server_step N cfg caret (Body ip es) sv = Some ?sv"
    using Suc.prems raw(1) b(1) by (simp add: server_step_def)
  obtain sv' where s: "run_server N cfg caret (replicate n (Body ip es)) ?sv = Some sv'" "clock sv' = clock sv"
    "n \<noteq> 0 \<longrightarrow> hits_of (failures (service sv')) ip = window (clock sv) (hits_of (failures st) ip) @ replicate n (clock sv)"
    using Suc.IH [of ?sv] by auto
  have h: "hits_of (failures st) ip = window (clock sv) (hits_of (failures (service sv)) ip) @ [clock sv]"
    by (simp add: b(2) record_hits)
  have w: "window (clock sv) (hits_of (failures st) ip) = hits_of (failures st) ip"
    by (simp add: h window_append window_window window_single RATE_WINDOW_MS_def)
  show ?case
  proof (cases "n = 0")
    case True
    then have "sv' = ?sv" using s(1) by simp
    then show ?thesis using True st h by simp
  next
    case False
    then show ?thesis using st s h w by simp
  qed
qed simp

text \<open>C26. The limiter checks before the body is read and counts after it, so guesses in flight are not counted: for every
  number n there is a run in which one address has n guesses evaluated within one millisecond.  Ten failures per window is not a
  bound on concurrent posts.\<close>

theorem concurrent_posts_unlimited:
  assumes "login_request req" and "wrong_guess N cfg es pw" and "0 < n"
  shows "\<exists>sv. run_server N cfg caret (replicate n (Request req) @ replicate n (Body (clientIp cfg req) es)) (start_server t) = Some sv
    \<and> hits_of (failures (service sv)) (clientIp cfg req) = replicate n t"
proof -
  let ?ip = "clientIp cfg req"
  let ?sv = "(start_server t)\<lparr>reading := replicate n ?ip\<rparr>"
  have b: "run_server N cfg caret (replicate n (Request req)) (start_server t) = Some ?sv"
    using begin_posts [OF assms(1), of "start_server t"] by (simp add: start_server_def)
  obtain sv' where e: "run_server N cfg caret (replicate n (Body ?ip es)) ?sv = Some sv'"
    "hits_of (failures (service sv')) ?ip = window t (hits_of (failures (service ?sv)) ?ip) @ replicate n t"
    using end_posts [OF assms(2), of ?sv n ?ip] assms(3) by (auto simp: start_server_def)
  have "hits_of (failures (service ?sv)) ?ip = []" by (simp add: start_server_def hits_of_def)
  then show ?thesis using b e by (simp add: run_server_append window_def)
qed

lemma sample_guess:
  "wrong_guess sample_node sample_config [Chunk [112, 97, 115, 115, 119, 111, 114, 100, 61, 120], BodyEnd] (u ''x'')"
  unfolding wrong_guess_def
proof (intro conjI exI)
  let ?raw = "u ''password=x''"
  show "readBody [] [Chunk [112, 97, 115, 115, 119, 111, 114, 100, 61, 120], BodyEnd] = Some (Resolved ?raw)"
    by (simp add: MAX_BODY_BYTES_def u_simps)
  have "utf8_octets ?raw = ?raw" by (simp add: utf8_octets_u)
  then show "form_all (form_parse ?raw) (u ''password'') = [u ''x'']"
    by (simp add: form_parse_def form_all_def form_pair_def form_text_def u_simps)
  show "u ''x'' \<noteq> []" "length (u ''x'') \<le> MAX_PASSWORD_LENGTH" "matchPassword sample_node sample_config (u ''x'') = None"
    by (simp_all add: MAX_PASSWORD_LENGTH_def sample_no_match) (simp add: u_simps)
qed

definition sample_login :: request where
  "sample_login = \<lparr>req_method = u ''POST'', req_url = u ''/gate'', req_cookie = None,
     req_type = Some (u ''application/x-www-form-urlencoded''), req_forwarded = None, req_remote = Some (u ''10.0.0.1'')\<rparr>"

theorem concurrent_posts_unlimited_witness:
  "\<exists>sv. run_server sample_node sample_config True
       (replicate 11 (Request sample_login)
        @ replicate 11 (Body (clientIp sample_config sample_login) [Chunk [112, 97, 115, 115, 119, 111, 114, 100, 61, 120], BodyEnd]))
       (start_server 0) = Some sv
     \<and> hits_of (failures (service sv)) (clientIp sample_config sample_login) = replicate 11 0"
  by (rule concurrent_posts_unlimited [OF _ sample_guess]) (simp_all add: login_request_def sample_login_def)

end
