(* ===== verification/GateSafety.thy ===== *)
theory GateSafety
  imports GateGuarantees
begin

text \<open>
  The gate against hostile input: where a visitor can be redirected, what the password page shows of the
  request, which cookie of a header counts, and what the list of named passwords can contain.
\<close>

section \<open>Redirects\<close>

text \<open>C27. In whatever state the gate is, a turn of its event loop keeps the replies already sent and what it answers is
  safe: a redirect goes to a path of its own origin, printable, at most 2048 units long; and a cookie is either cleared,
  in answer to a request for \<open>/gate/logout\<close>, or signed, in answer to a post whose body was read to its end and
  carries exactly one password, neither empty nor too long, for the credential which that password matches.\<close>

theorem served_replies_safe:
  assumes "server_step N cfg caret ev sv = Some sv'" and "r \<in> set (drop (length (sent sv)) (sent sv'))"
  shows "take (length (sent sv)) (sent sv') = sent sv
    \<and> (\<forall>v. header_of ''location'' r = Some v \<longrightarrow> local_target v)
    \<and> (\<forall>v. header_of ''set-cookie'' r = Some v \<longrightarrow>
        (\<exists>req. ev = Request req \<and> path_of_target (req_url req) = u ''/gate/logout'' \<and> v = cookieHeader cfg [] (Some 0)) \<or>
        (\<exists>ip events raw pw c. ev = Body ip events \<and> readBody [] events = Some (Resolved raw)
           \<and> form_all (form_parse raw) (u ''password'') = [pw] \<and> pw \<noteq> [] \<and> length pw \<le> MAX_PASSWORD_LENGTH
           \<and> matchPassword N cfg pw = Some c \<and> v = cookieHeader cfg (sign N cfg (clock sv) c) None))"
  using step_answer [OF assms] unfolding answer_ok_def location_ok_def by blast

lemma sample_login_reply:
  fixes c ip
  defines "es \<equiv> [Chunk (u ''password=abc123''), BodyEnd]"
  assumes "matchPassword sample_node sample_config (u ''abc123'') = Some c"
  shows "readBody [] es = Some (Resolved (u ''password=abc123''))"
    and "form_all (form_parse (u ''password=abc123'')) (u ''password'') = [u ''abc123'']"
    and "form_get (form_parse (u ''password=abc123'')) (u ''next'') = None"
proof -
  show "readBody [] es = Some (Resolved (u ''password=abc123''))"
    by (simp add: es_def MAX_BODY_BYTES_def u_simps)
  have "utf8_octets (u ''password=abc123'') = u ''password=abc123''" by (simp add: utf8_octets_u)
  then show "form_all (form_parse (u ''password=abc123'')) (u ''password'') = [u ''abc123'']"
    "form_get (form_parse (u ''password=abc123'')) (u ''next'') = None"
    by (simp_all add: form_parse_def form_all_def form_get_def form_pair_def form_text_def u_simps)
qed

theorem served_replies_safe_witness:
  "\<exists>sv r c. server_step sample_node sample_config True (Body (u ''10.0.0.1'') [Chunk (u ''password=abc123''), BodyEnd])
       ((start_server 0)\<lparr>reading := [u ''10.0.0.1'']\<rparr>) = Some sv \<and> sent sv = [r]
     \<and> matchPassword sample_node sample_config (u ''abc123'') = Some c
     \<and> header_of ''set-cookie'' r = Some (cookieHeader sample_config (sign sample_node sample_config 0 c) None)
     \<and> (\<forall>v. header_of ''location'' r = Some v \<longrightarrow> local_target v)"
proof -
  let ?sv = "(start_server 0)\<lparr>reading := [u ''10.0.0.1'']\<rparr>"
  let ?ev = "Body (u ''10.0.0.1'') [Chunk (u ''password=abc123''), BodyEnd]"
  obtain c where c: "matchPassword sample_node sample_config (u ''abc123'') = Some c" using sample_match by blast
  note l = sample_login_reply [OF c]
  have len: "u ''abc123'' \<noteq> []" "\<not> MAX_PASSWORD_LENGTH < length (u ''abc123'')"
    by (simp_all add: u_simps MAX_PASSWORD_LENGTH_def)
  obtain r st where b: "post_body sample_node sample_config True 0 (u ''10.0.0.1'') (Resolved (u ''password=abc123'')) (service ?sv) = (r, st)"
    "header_of ''set-cookie'' r = Some (cookieHeader sample_config (sign sample_node sample_config 0 c) None)"
    unfolding post_body_def Let_def body.case l(2,3) using len by (simp add: c header_of_def)
  let ?sv' = "?sv\<lparr>service := st, reading := [], sent := [r]\<rparr>"
  have s: "server_step sample_node sample_config True ?ev ?sv = Some ?sv'"
    using l(1) b(1) by (simp add: server_step_def start_server_def)
  have "r \<in> set (drop (length (sent ?sv)) (sent ?sv'))" by (simp add: start_server_def)
  from served_replies_safe [OF s this] have "\<forall>v. header_of ''location'' r = Some v \<longrightarrow> local_target v" by blast
  with s b(2) c show ?thesis by (intro exI [of _ ?sv'] exI [of _ r] exI [of _ c]) simp
qed

text \<open>\<open>safeNext\<close> turns any string into a target on the same origin that is none of the three forms of the gate's address
  that it looks for.  An address of the gate with a fragment is not among them: a visitor who has logged in with it is
  sent back to the password page.\<close>

theorem safeNext_same_origin:
  assumes "units value"
  shows "local_target (safeNext caret value) \<and> safeNext caret value \<noteq> u ''/gate''
    \<and> \<not> starts_with (u ''/gate/'') (safeNext caret value) \<and> \<not> starts_with (u ''/gate?'') (safeNext caret value)"
  using safeNext_local [OF assms] safeNext_not_gate by blast

lemma gate_fragment_passes: "safeNext True (u ''/gate#x'') = u ''/gate#x''"
proof -
  have v: "u ''/gate#x'' = [47, 103, 97, 116, 101, 35, 120]" by (simp add: u_simps)
  have "ascii [47, 103, 97, 116, 101, 35, 120]" by (simp add: ascii_def)
  then have c: "code_points [47, 103, 97, 116, 101, 35, 120] = [47, 103, 97, 116, 101, 35, 120]" by (rule code_points_ascii)
  have e: "encode_point (path_encoded True) x = [x]" if "x \<in> {103, 97, 116, 101}" for x
    using that by (auto simp: encode_point_def path_encoded_def c0_encoded_def)
  have h: "encode_point hash_encoded 120 = [120]" by (simp add: encode_point_def hash_encoded_def c0_encoded_def)
  have s: "path_segment False [103, 97, 116, 101] [] = [[103, 97, 116, 101]]"
    by (simp add: path_segment_def single_dot_def double_dot_def lower_unit_def u_simps)
  have n: "new_url True [47, 103, 97, 116, 101, 35, 120] = \<lparr>pathname = [47, 103, 97, 116, 101], search = [], hash = [35, 120]\<rparr>"
    by (simp add: new_url_def c strip_right_def e s url_query_def url_hash_def h)
  show ?thesis unfolding v by (simp add: safeNext_def n Let_def starts_with_def u_simps)
qed

lemma takeWhile_segment:
  assumes "list_all plain_unit g" and "s = [] \<or> hd s = 47"
  shows "takeWhile (\<lambda>c. c \<noteq> 47) (g @ s) = g"
proof -
  have "c \<noteq> 47" if "c \<in> set g" for c using assms(1) plain_unit_range that by (auto simp: list_all_iff)
  then show ?thesis using assms(2) by (subst takeWhile_append2) (auto, cases s, auto)
qed

lemma path_text_head: "path_text gs = [] \<or> hd (path_text gs) = 47"
  by (cases gs) (simp_all add: path_text_def)

lemma starts_withE:
  assumes "starts_with p s"
  obtains r where "s = p @ r"
  using assms unfolding starts_with_def by (metis append_take_drop_id)

lemma gate_prefix:
  assumes "list_all (list_all plain_unit) (g # gs)" and "g \<noteq> u ''gate''"
  shows "path_text (g # gs) \<noteq> u ''/gate''" "\<not> starts_with (u ''/gate/'') (path_text (g # gs))"
    "\<not> starts_with (u ''/gate?'') (path_text (g # gs))"
proof -
  have w: "takeWhile (\<lambda>c. c \<noteq> 47) (g @ path_text gs) = g"
    using assms(1) path_text_head by (intro takeWhile_segment) auto
  have p: "path_text (g # gs) = 47 # g @ path_text gs" by (simp add: path_text_def)
  show "path_text (g # gs) \<noteq> u ''/gate''"
  proof
    assume "path_text (g # gs) = u ''/gate''"
    then have e: "g @ path_text gs = u ''gate''" by (simp add: p u_simps)
    have "takeWhile (\<lambda>c. c \<noteq> 47) (u ''gate'') = u ''gate''" by (simp add: u_simps)
    then show False using w assms(2) by (simp only: e)
  qed
  show "\<not> starts_with (u ''/gate/'') (path_text (g # gs))"
  proof
    assume "starts_with (u ''/gate/'') (path_text (g # gs))"
    then obtain r where "path_text (g # gs) = u ''/gate/'' @ r" by (rule starts_withE)
    then have e: "g @ path_text gs = u ''gate/'' @ r" by (simp add: p u_simps)
    have "takeWhile (\<lambda>c. c \<noteq> 47) (u ''gate/'' @ r) = u ''gate''" by (simp add: u_simps)
    then show False using w assms(2) by (simp only: e)
  qed
  show "\<not> starts_with (u ''/gate?'') (path_text (g # gs))"
  proof
    assume "starts_with (u ''/gate?'') (path_text (g # gs))"
    then obtain r where "path_text (g # gs) = u ''/gate?'' @ r" by (rule starts_withE)
    then have "63 \<in> set (path_text (g # gs))" by (simp add: u_simps)
    then obtain g' where "g' \<in> set (g # gs)" "63 \<in> set g'" by (auto simp: path_text_def split: if_splits)
    then have "plain_unit 63" using assms(1) by (auto simp: list_all_iff)
    then show False using plain_unit_range by blast
  qed
qed

lemma path_text_units:
  assumes "list_all (list_all plain_unit) gs" and "c \<in> set (path_text gs)"
  shows "45 \<le> c" "c \<le> 122"
proof -
  have "c = 47 \<or> plain_unit c" using assms by (auto simp: path_text_def list_all_iff split: if_splits)
  then show "45 \<le> c" "c \<le> 122" using plain_unit_range [of c] by auto
qed

lemma new_url_plain:
  assumes "list_all (list_all plain_unit) (g # gs)"
  shows "new_url caret (path_text (g # gs)) = \<lparr>pathname = path_text (g # gs), search = [], hash = []\<rparr>"
proof -
  let ?p = "path_text (g # gs)"
  note r = path_text_units [OF assms]
  have "ascii ?p" using r(2) by (force simp: ascii_def list_all_iff)
  then have c: "code_points ?p = ?p" by (rule code_points_ascii)
  have "dropWhile (\<lambda>c. c \<le> 32) (rev (tl ?p)) = rev (tl ?p)"
  proof (cases "rev (tl ?p)")
    case (Cons x xs)
    then have "x \<in> set ?p" by (metis list.set_intros(1) list.set_sel(2) rev.simps(1) set_rev list.sel(2))
    with r(1) Cons show ?thesis by fastforce
  qed simp
  then have st: "strip_right (tl ?p) = tl ?p" by (simp add: strip_right_def)
  have t: "tl ?p = g @ path_text gs" by (simp add: path_text_def)
  have "path_state caret [] [] (g @ path_text gs) = ([g] @ gs, [])"
    using assms path_state_plain [of g caret "[]" "[]"] path_state_path [of gs g caret "[]"] by simp
  then have "path_state caret [] [] (strip_right (tl (code_points ?p))) = (g # gs, [])"
    by (simp only: c st) (simp add: t)
  then show ?thesis by (simp add: new_url_def url_query_def) (simp add: path_text_def)
qed

text \<open>An ordinary path comes back unchanged: letters, digits, dashes and underscores between slashes, not below
  \<open>/gate\<close>, not starting with two slashes.\<close>

theorem safeNext_ordinary:
  assumes "list_all (list_all plain_unit) (g # gs)" and "g \<noteq> []" and "g \<noteq> u ''gate''"
    and "length (path_text (g # gs)) \<le> 2048"
  shows "safeNext caret (path_text (g # gs)) = path_text (g # gs)"
proof -
  let ?p = "path_text (g # gs)"
  obtain c g' where g: "g = c # g'" using assms(2) by (cases g) auto
  have p: "?p = 47 # c # g' @ path_text gs" by (simp add: path_text_def g)
  have c: "c \<noteq> 47" "c \<noteq> 92" using assms(1) plain_unit_range [of c] by (auto simp: g)
  note r = path_text_units [OF assms(1)]
  have n: "37 \<notin> set ?p" using r(1) by force
  have ctl: "\<not> (\<exists>c\<in>set ?p. c < 0x20 \<or> c = 0x7F)" using r by (force simp: not_less)
  have guards: "\<not> (?p = [] \<or> 2048 < length ?p)" "\<not> take 1 ?p \<noteq> [47]" "\<not> (take 1 (drop 1 ?p) = [47] \<or> take 1 (drop 1 ?p) = [92])"
    "\<not> 2048 < length ?p"
    using assms(4) c by (auto simp: p)
  have out: "\<not> (\<not> starts_with (u ''/'') ?p \<or> starts_with (u ''//'') ?p)"
    using c by (auto simp: p starts_with_def u_simps)
  have gate: "\<not> (?p = u ''/gate'' \<or> starts_with (u ''/gate/'') ?p \<or> starts_with (u ''/gate?'') ?p)"
    using gate_prefix [OF assms(1,3)] by blast
  show ?thesis
    unfolding safeNext_def Let_def if_not_P [OF n] if_not_P [OF guards(1)] if_not_P [OF guards(4)] if_not_P [OF guards(2)]
      if_not_P [OF guards(3)] if_not_P [OF ctl] new_url_plain [OF assms(1)]
    using out gate guards(4) by simp
qed

theorem safeNext_ordinary_witness:
  "safeNext True (u ''/docs/token-economy'') = u ''/docs/token-economy''"
proof -
  have p: "path_text [u ''docs'', u ''token-economy''] = u ''/docs/token-economy''" by (simp add: path_text_def u_simps)
  have a: "list_all (list_all plain_unit) [u ''docs'', u ''token-economy'']"
    by (simp add: u_simps plain_unit_def dec_digit_def)
  have b: "u ''docs'' \<noteq> []" "u ''docs'' \<noteq> u ''gate''" "length (path_text [u ''docs'', u ''token-economy'']) \<le> 2048"
    by (simp_all add: u_simps path_text_def)
  show ?thesis using safeNext_ordinary [OF a b] unfolding p .
qed

section \<open>The page and the cookie\<close>

text \<open>What the page shows of the request is inert: the escaped text holds no angle bracket and no quote, and a browser
  reads back exactly the text that was escaped.\<close>

theorem escapeHtml_inert:
  "unescape (escapeHtml s) = s \<and> 60 \<notin> set (escapeHtml s) \<and> 62 \<notin> set (escapeHtml s)
   \<and> 34 \<notin> set (escapeHtml s) \<and> 39 \<notin> set (escapeHtml s)"
  using unescape_escape escapeHtml_safe by blast

text \<open>C28. The index arithmetic of \<open>readCookie\<close> computes the reference: split the header at semicolons, drop the spaces in
  front of each piece, take the first piece that starts with \<open>xkgate=\<close>, trim its value.\<close>

theorem readCookie_reference:
  "readCookie (Some h) = cookie_of (split_on 59 h)"
proof (cases "h = []")
  case True
  then show ?thesis by (simp add: readCookie_def starts_with_def cookie_name_units)
next
  case False
  then show ?thesis by (simp add: readCookie_def cookie_loop_reference)
qed

section \<open>The named passwords\<close>

definition names_ok :: "(ustr \<times> ustr) list \<Rightarrow> bool" where
  "names_ok pairs \<longleftrightarrow> distinct (map fst pairs) \<and> list_all (\<lambda>p. NAME_PATTERN (fst p) \<and> fst p \<noteq> DEFAULT_NAME \<and> snd p \<noteq> []) pairs"

lemma parse_entries_ok: "names_ok pairs \<Longrightarrow> names_ok (fst (parse_entries es (pairs, errs)))"
proof (induction es arbitrary: pairs errs)
  case (Cons entry es)
  show ?case
  proof (cases "index_of [58] (u_trim entry)")
    case None
    then show ?thesis using Cons by (simp add: Let_def)
  next
    case (Some colon)
    let ?item = "u_trim entry"
    have b: "colon + 1 \<le> length ?item" using index_of_Some_bound [OF Some] by simp
    have pw: "drop (colon + 1) ?item \<noteq> []" if "colon \<noteq> length ?item - 1" using b that by simp
    have add: "names_ok (pairs @ [(n, pw)])"
      if "NAME_PATTERN n" "n \<noteq> DEFAULT_NAME" "n \<notin> set (map fst pairs)" "pw \<noteq> []" for n pw
      using Cons.prems that by (auto simp: names_ok_def)
    show ?thesis
      using Cons.IH [OF Cons.prems] Cons.IH [OF add] pw by (simp add: Some Let_def)
  qed
qed simp

text \<open>C29. Whatever the environment variable holds, the named credentials have distinct names that fit in a header, none of
  them is \<open>default\<close>, and none has an empty password.\<close>

theorem parseNamed_well_formed: "names_ok (fst (parseNamed raw))"
  by (auto simp: parseNamed_def names_ok_def [of "[]"] parse_entries_ok split: option.split)

end
