(* ===== verification/Player.thy ===== *)
theory Player
  imports Prelude
begin

text \<open>
  \<open>web/src/player/stage.js\<close> and \<open>web/src/player/useClock.js\<close>: the timing helpers a scene computes its picture
  from, and the controlled clock that drives it.  Time is an exact rational number of milliseconds.  The
  easings with a transcendental function (\<open>outExpo\<close>, \<open>inOutSine\<close>), \<open>pulse\<close> and the locale formatting of
  \<open>countUp\<close> are not modelled.

  The lemmas show that a stage runs monotonically from 0 to 1 and that the clock never leaves the interval
  between 0 and its duration.
\<close>

section \<open>Easing and stages\<close>

definition linear :: "rat \<Rightarrow> rat" where "linear x = x"
definition inCubic :: "rat \<Rightarrow> rat" where "inCubic x = x * x * x"
definition outCubic :: "rat \<Rightarrow> rat" where "outCubic x = 1 - (1 - x) ^ 3"
definition inOutCubic :: "rat \<Rightarrow> rat" where
  "inOutCubic x = (if x < 1 / 2 then 4 * x * x * x else 1 - (- 2 * x + 2) ^ 3 / 2)"
definition outQuart :: "rat \<Rightarrow> rat" where "outQuart x = 1 - (1 - x) ^ 4"
definition outBack :: "rat \<Rightarrow> rat" where
  "outBack x = (let c1 = 170158 / 100000; c3 = c1 + 1 in 1 + c3 * (x - 1) ^ 3 + c1 * (x - 1) ^ 2)"

definition clamp01 :: "rat \<Rightarrow> rat" where
  "clamp01 x = (if x < 0 then 0 else if x > 1 then 1 else x)"

definition stage :: "rat \<Rightarrow> rat \<Rightarrow> rat \<Rightarrow> (rat \<Rightarrow> rat) \<Rightarrow> rat" where
  "stage t start duration easing =
     (if duration \<le> 0 then (if t \<ge> start then 1 else 0) else easing (clamp01 ((t - start) / duration)))"

definition lerp :: "rat \<Rightarrow> rat \<Rightarrow> rat \<Rightarrow> rat" where
  "lerp a b p = a + (b - a) * p"

definition frem :: "rat \<Rightarrow> rat \<Rightarrow> rat" where
  \<comment> \<open>\<open>%\<close> for a dividend that is not negative\<close>
  "frem x m = x - m * of_int \<lfloor>x / m\<rfloor>"

definition loop :: "rat \<Rightarrow> rat \<Rightarrow> rat \<Rightarrow> rat" where
  "loop t start period = (if t < start then 0 else frem (t - start) period / period)"

definition shown :: "rat \<Rightarrow> rat \<Rightarrow> rat \<Rightarrow> int \<Rightarrow> int" where
  "shown t start gap count = (if t < start then 0 else min count (\<lfloor>(t - start) / gap\<rfloor> + 1))"

definition item :: "rat \<Rightarrow> rat \<Rightarrow> nat \<Rightarrow> rat \<Rightarrow> rat \<Rightarrow> (rat \<Rightarrow> rat) \<Rightarrow> rat" where
  "item t start i gap duration easing = stage t (start + of_nat i * gap) duration easing"

definition draw :: "rat \<Rightarrow> rat \<Rightarrow> rat \<times> rat" where
  \<comment> \<open>\<open>strokeDasharray\<close> and \<open>strokeDashoffset\<close>\<close>
  "draw p len = (len, len * (1 - clamp01 p))"

definition ms :: "rat \<Rightarrow> int" where
  "ms seconds = js_round (seconds * 1000)"

lemma clamp01_range [simp]: "0 \<le> clamp01 x" "clamp01 x \<le> 1"
  by (simp_all add: clamp01_def)

lemma clamp01_mono: "x \<le> y \<Longrightarrow> clamp01 x \<le> clamp01 y"
  by (auto simp: clamp01_def)

definition easing_ok :: "(rat \<Rightarrow> rat) \<Rightarrow> bool" where
  \<comment> \<open>an easing from 0 to 1 without overshoot\<close>
  "easing_ok f \<longleftrightarrow> f 0 = 0 \<and> f 1 = 1 \<and> (\<forall>x y. 0 \<le> x \<longrightarrow> x \<le> y \<longrightarrow> y \<le> 1 \<longrightarrow> f x \<le> f y)"

lemma easing_okD:
  assumes "easing_ok f"
  shows "f 0 = 0" "f 1 = 1" "0 \<le> x \<Longrightarrow> x \<le> y \<Longrightarrow> y \<le> 1 \<Longrightarrow> f x \<le> f y"
  using assms by (auto simp: easing_ok_def)

lemma easing_range:
  assumes "easing_ok f" "0 \<le> x" "x \<le> 1"
  shows "0 \<le> f x" "f x \<le> 1"
  using easing_okD(3) [OF assms(1), of 0 x] easing_okD(3) [OF assms(1), of x 1] assms(2,3) easing_okD(1,2) [OF assms(1)]
  by auto

lemma easing_linear: "easing_ok linear"
  by (simp add: easing_ok_def linear_def)

lemma easing_outCubic: "easing_ok outCubic"
  by (auto simp: easing_ok_def outCubic_def intro!: power_mono)

lemma easing_outQuart: "easing_ok outQuart"
  by (auto simp: easing_ok_def outQuart_def intro!: power_mono)

lemma easing_inCubic: "easing_ok inCubic"
  by (auto simp: easing_ok_def inCubic_def intro!: mult_mono)

lemma easing_inOutCubic: "easing_ok inOutCubic"
proof -
  have a: "4 * x * x * x \<le> 4 * y * y * (y::rat)" if "0 \<le> x" "x \<le> y" for x y
    using that by (auto intro!: mult_mono)
  have b: "1 - (- 2 * x + 2) ^ 3 / 2 \<le> 1 - (- 2 * y + 2) ^ 3 / (2::rat)" if "x \<le> y" "y \<le> 1" for x y
    using that power_mono [of "- 2 * y + 2" "- 2 * x + 2" 3] by simp
  have c: "4 * x * x * x \<le> 1 / 2" if "0 \<le> x" "x \<le> 1 / 2" for x :: rat
    using a [OF that] by simp
  have d: "1 / 2 \<le> 1 - (- 2 * y + 2) ^ 3 / (2::rat)" if "1 / 2 \<le> y" "y \<le> 1" for y
    using b [OF that] by (simp add: power3_eq_cube)
  have m: "inOutCubic x \<le> inOutCubic y" if "0 \<le> x" "x \<le> y" "y \<le> 1" for x y
  proof (cases "y < 1 / 2")
    case True
    then show ?thesis using a [OF that(1,2)] that(2) by (simp add: inOutCubic_def)
  next
    case y: False
    then have dy: "1 / 2 \<le> inOutCubic y" using d [of y] that(3) by (simp add: inOutCubic_def)
    show ?thesis
    proof (cases "x < 1 / 2")
      case True
      then have "inOutCubic x \<le> 1 / 2" using c [of x] that(1) by (simp add: inOutCubic_def)
      then show ?thesis using dy by (rule order_trans)
    next
      case False
      then show ?thesis using b [OF that(2,3)] y by (simp add: inOutCubic_def)
    qed
  qed
  show ?thesis using m by (simp add: easing_ok_def) (simp add: inOutCubic_def)
qed

lemma stage_range:
  assumes "easing_ok f"
  shows "0 \<le> stage t start d f" "stage t start d f \<le> 1"
  using easing_range [OF assms] by (simp_all add: stage_def)

lemma stage_before: "easing_ok f \<Longrightarrow> t < start \<Longrightarrow> stage t start d f = 0"
  by (auto simp: stage_def clamp01_def easing_okD divide_less_0_iff)

lemma stage_after: "easing_ok f \<Longrightarrow> start + d \<le> t \<Longrightarrow> 0 \<le> d \<Longrightarrow> stage t start d f = 1"
proof -
  assume f: "easing_ok f" and t: "start + d \<le> t" "0 \<le> d"
  have "clamp01 ((t - start) / d) = 1" if "0 < d"
  proof -
    have "1 \<le> (t - start) / d" using that t by (simp add: le_divide_eq)
    then show ?thesis by (simp add: clamp01_def)
  qed
  then show ?thesis using t easing_okD(2) [OF f] by (cases "d = 0") (simp_all add: stage_def)
qed

lemma stage_mono: "easing_ok f \<Longrightarrow> t \<le> t' \<Longrightarrow> stage t start d f \<le> stage t' start d f"
proof -
  assume f: "easing_ok f" and t: "t \<le> t'"
  have "(t - start) / d \<le> (t' - start) / d" if "0 < d" using that t by (simp add: divide_right_mono)
  then show ?thesis using t by (auto simp: stage_def not_le intro!: easing_okD(3) [OF f] clamp01_mono)
qed

section \<open>The clock\<close>

text \<open>The duration is \<^term>\<open>None\<close> when it is not finite.  \<open>ck_last\<close> is the time of the last animation frame.\<close>

record clock =
  ck_t :: rat
  ck_playing :: bool
  ck_generation :: nat
  ck_last :: rat

definition at_end :: "rat option \<Rightarrow> rat \<Rightarrow> bool" where
  "at_end duration t = (case duration of None \<Rightarrow> False | Some d \<Rightarrow> t \<ge> d)"

definition init_clock :: "bool \<Rightarrow> clock" where
  "init_clock autoplay = \<lparr>ck_t = 0, ck_playing = autoplay, ck_generation = 0, ck_last = 0\<rparr>"

definition clock_effect :: "rat \<Rightarrow> clock \<Rightarrow> clock" where
  \<comment> \<open>the effect that starts the frames: it runs when \<open>playing\<close>, the duration or the generation changes\<close>
  "clock_effect now c = (if ck_playing c then c\<lparr>ck_last := now\<rparr> else c)"

definition clock_frame :: "rat option \<Rightarrow> rat \<Rightarrow> rat \<Rightarrow> clock \<Rightarrow> clock" where
  \<comment> \<open>the callback \<open>step\<close> of \<open>requestAnimationFrame\<close>\<close>
  "clock_frame duration speed now c =
     (let dt = (now - ck_last c) * speed;
          next_t = ck_t c + dt
      in if at_end duration next_t
         then c\<lparr>ck_t := the duration, ck_last := now, ck_playing := False\<rparr>
         else c\<lparr>ck_t := next_t, ck_last := now\<rparr>)"

definition seek :: "rat option \<Rightarrow> rat \<Rightarrow> clock \<Rightarrow> clock" where
  "seek duration m c = c\<lparr>ck_t := max 0 (case duration of Some d \<Rightarrow> min m d | None \<Rightarrow> m)\<rparr>"

definition rewind :: "rat option \<Rightarrow> clock \<Rightarrow> clock" where
  "rewind duration c = (if at_end duration (ck_t c) then c\<lparr>ck_t := 0\<rparr> else c)"

definition play :: "rat option \<Rightarrow> clock \<Rightarrow> clock" where
  "play duration c = (rewind duration c)\<lparr>ck_playing := True\<rparr>"

definition pause :: "clock \<Rightarrow> clock" where
  "pause c = c\<lparr>ck_playing := False\<rparr>"

definition toggle :: "rat option \<Rightarrow> clock \<Rightarrow> clock" where
  "toggle duration c = (if ck_playing c then c\<lparr>ck_playing := False\<rparr> else (rewind duration c)\<lparr>ck_playing := True\<rparr>)"

definition replay :: "clock \<Rightarrow> clock" where
  "replay c = c\<lparr>ck_t := 0, ck_generation := ck_generation c + 1, ck_playing := True\<rparr>"

definition ended :: "rat option \<Rightarrow> clock \<Rightarrow> bool" where
  "ended duration c = at_end duration (ck_t c)"

datatype clock_event = Effect rat | Frame rat | Seek rat | Play | Pause | Toggle | Replay

definition clock_step :: "rat option \<Rightarrow> rat \<Rightarrow> clock_event \<Rightarrow> clock \<Rightarrow> clock" where
  "clock_step duration speed ev c =
     (case ev of
        Effect now \<Rightarrow> clock_effect now c
      | Frame now \<Rightarrow> if ck_playing c then clock_frame duration speed now c else c
      | Seek m \<Rightarrow> seek duration m c
      | Play \<Rightarrow> play duration c
      | Pause \<Rightarrow> pause c
      | Toggle \<Rightarrow> toggle duration c
      | Replay \<Rightarrow> replay c)"

fun event_time :: "clock_event \<Rightarrow> rat option" where
  "event_time (Effect now) = Some now"
| "event_time (Frame now) = Some now"
| "event_time _ = None"

definition clock_ok :: "rat option \<Rightarrow> clock \<Rightarrow> bool" where
  "clock_ok duration c \<longleftrightarrow> 0 \<le> ck_t c \<and> (\<forall>d. duration = Some d \<longrightarrow> ck_t c \<le> d)"

inductive clock_run :: "rat option \<Rightarrow> rat \<Rightarrow> clock \<Rightarrow> bool" for duration speed where
  start: "clock_run duration speed (init_clock autoplay)"
| step: "clock_run duration speed c \<Longrightarrow> (\<And>now. event_time ev = Some now \<Longrightarrow> ck_last c \<le> now)
    \<Longrightarrow> clock_run duration speed (clock_step duration speed ev c)"

lemmas clock_defs = clock_step_def clock_effect_def clock_frame_def seek_def rewind_def play_def pause_def
  toggle_def replay_def at_end_def

lemma clock_step_ok:
  assumes "clock_ok duration c" and "0 \<le> speed" and "\<And>d. duration = Some d \<Longrightarrow> 0 \<le> d"
    and "\<And>now. event_time ev = Some now \<Longrightarrow> ck_last c \<le> now"
  shows "clock_ok duration (clock_step duration speed ev c)"
  using assms by (cases ev) (auto simp: clock_ok_def clock_defs Let_def split: option.splits)

lemma clock_run_ok:
  assumes "clock_run duration speed c" and "0 \<le> speed" and "\<And>d. duration = Some d \<Longrightarrow> 0 \<le> d"
  shows "clock_ok duration c"
  using assms(1)
proof (induction rule: clock_run.induct)
  case (start autoplay)
  then show ?case using assms(3) by (auto simp: clock_ok_def init_clock_def)
next
  case (step c ev)
  then show ?case using assms(2,3) by (intro clock_step_ok) auto
qed

lemma frame_progress:
  assumes "ck_playing c" and "ck_last c \<le> now" and "0 \<le> speed"
  shows "clock_step (Some d) speed (Frame now) c =
    (if ck_t c + (now - ck_last c) * speed \<ge> d
     then c\<lparr>ck_t := d, ck_last := now, ck_playing := False\<rparr>
     else c\<lparr>ck_t := ck_t c + (now - ck_last c) * speed, ck_last := now\<rparr>)"
  using assms by (simp add: clock_defs Let_def)

lemma frames_elapse:
  \<comment> \<open>frames at any pace: the clock shows the time passed, until it reaches the duration and stops\<close>
  "\<lbrakk>ck_playing c; sorted (ck_last c # nows); 0 \<le> speed; ck_t c < d\<rbrakk>
    \<Longrightarrow> (let c' = fold (\<lambda>now. clock_step (Some d) speed (Frame now)) nows c;
             reach = ck_t c + (last (ck_last c # nows) - ck_last c) * speed
         in if reach \<ge> d then ck_t c' = d \<and> \<not> ck_playing c'
            else ck_t c' = reach \<and> ck_playing c' \<and> ck_last c' = last (ck_last c # nows))"
proof (induction nows arbitrary: c)
  case Nil
  then show ?case by simp
next
  case (Cons now nows)
  have le: "ck_last c \<le> now" "now \<le> last (now # nows)"
    using Cons.prems(2) by (auto simp: last_in_set)
  let ?r = "ck_t c + (now - ck_last c) * speed"
  note st = frame_progress [OF Cons.prems(1) le(1) Cons.prems(3), of d]
  show ?case
  proof (cases "?r \<ge> d")
    case True
    let ?c = "c\<lparr>ck_t := d, ck_last := now, ck_playing := False\<rparr>"
    have "fold (\<lambda>now. clock_step (Some d) speed (Frame now)) ns ?c = ?c" for ns
      by (induction ns) (simp_all add: clock_step_def)
    moreover have "?r \<le> ck_t c + (last (now # nows) - ck_last c) * speed"
      using le(2) Cons.prems(3) by (simp add: mult_right_mono)
    ultimately show ?thesis using True st by (auto simp: Let_def)
  next
    case False
    let ?c = "c\<lparr>ck_t := ?r, ck_last := now\<rparr>"
    have e: "?r + (last (now # nows) - now) * speed = ck_t c + (last (now # nows) - ck_last c) * speed"
      by (simp only: left_diff_distrib)
    have ih: "let c' = fold (\<lambda>now. clock_step (Some d) speed (Frame now)) nows ?c;
             reach = ?r + (last (now # nows) - now) * speed
         in if reach \<ge> d then ck_t c' = d \<and> \<not> ck_playing c'
            else ck_t c' = reach \<and> ck_playing c' \<and> ck_last c' = last (now # nows)"
      using Cons.IH [of ?c] Cons.prems False by (cases "nows = []") (simp_all add: Let_def)
    have l: "last (ck_last c # now # nows) = last (now # nows)" by simp
    show ?thesis
      using ih unfolding e l fold_Cons o_apply st if_not_P [OF False] .
  qed
qed

end
