(* ===== verification/Blueprint.thy ===== *)
theory Blueprint
  imports Player
begin

text \<open>
  \<open>web/src/blueprints/layout.js\<close>: the geometry of the blueprint sheets.  A device is a list of boxes and nets in
  grid units; \<open>buildSheet\<close> turns it into boxes and orthogonal traces in pixels, \<open>timing\<close> and \<open>frameAt\<close> compute
  the picture at a time.  Coordinates are exact rationals; \<open>num\<close>, an argument of \<open>pathOf\<close>, prints a number as
  \<open>String(x)\<close> does.  The styles of \<open>NET_KINDS\<close> are the record \<open>net_style\<close>.

  The lemmas show that every trace is orthogonal and runs from its one port to the other, that a point a
  fraction of the way along lies on the trace, and that the picture at any time is drawn between nothing and
  everything.
\<close>

section \<open>The sheet\<close>

definition G :: rat where "G = 24"

record rectangle = rx :: rat  ry :: rat  rw :: rat  rh :: rat

definition FRAME :: rectangle where "FRAME = \<lparr>rx = 1, ry = 1, rw = 46, rh = 28\<rparr>"
definition TITLE_BLOCK :: rectangle where "TITLE_BLOCK = \<lparr>rx = 61 / 2, ry = 47 / 2, rw = 16, rh = 11 / 2\<rparr>"

definition px :: "rat \<Rightarrow> rat" where "px n = n * G"

definition SHEET_SIZE :: "rat \<times> rat" where "SHEET_SIZE = (48 * G, 30 * G)"

record net_style = stroke :: string  width :: rat  dash :: "string option"  tag :: string

definition NET_KINDS :: "(string \<times> net_style) list" where
  "NET_KINDS =
    [(''spi'', \<lparr>stroke = ''var(--xk-accent)'', width = 8 / 5, dash = None, tag = ''SPI bus''\<rparr>),
     (''uart'', \<lparr>stroke = ''var(--xk-accent)'', width = 8 / 5, dash = None, tag = ''UART''\<rparr>),
     (''i2c'', \<lparr>stroke = ''var(--xk-accent)'', width = 8 / 5, dash = None, tag = ''I2C bus''\<rparr>),
     (''ctrl'', \<lparr>stroke = ''var(--xk-accent)'', width = 6 / 5, dash = Some ''5 4'', tag = ''control line''\<rparr>),
     (''analog'', \<lparr>stroke = ''var(--xk-accent)'', width = 6 / 5, dash = Some ''2 4'', tag = ''analog in''\<rparr>),
     (''onewire'', \<lparr>stroke = ''var(--xk-accent)'', width = 6 / 5, dash = Some ''8 4'', tag = ''one-wire''\<rparr>),
     (''usb'', \<lparr>stroke = ''var(--xk-accent)'', width = 11 / 5, dash = None, tag = ''USB''\<rparr>),
     (''eth'', \<lparr>stroke = ''var(--xk-accent)'', width = 11 / 5, dash = None, tag = ''Ethernet''\<rparr>),
     (''plc'', \<lparr>stroke = ''var(--xk-plc)'', width = 16 / 5, dash = None, tag = ''broadband PLC''\<rparr>),
     (''nbplc'', \<lparr>stroke = ''var(--xk-nbplc)'', width = 11 / 5, dash = None, tag = ''narrowband PLC''\<rparr>),
     (''rf'', \<lparr>stroke = ''var(--xk-lora)'', width = 11 / 5, dash = None, tag = ''LoRa 868 MHz''\<rparr>),
     (''wifi'', \<lparr>stroke = ''var(--xk-lora)'', width = 8 / 5, dash = Some ''3 5'', tag = ''Wi-Fi''\<rparr>),
     (''power'', \<lparr>stroke = ''var(--xk-money)'', width = 11 / 5, dash = None, tag = ''DC power''\<rparr>),
     (''mains'', \<lparr>stroke = ''var(--xk-critical)'', width = 13 / 5, dash = None, tag = ''230 V mains''\<rparr>)]"

definition ctrl_style :: net_style where
  "ctrl_style = \<lparr>stroke = ''var(--xk-accent)'', width = 6 / 5, dash = Some ''5 4'', tag = ''control line''\<rparr>"

section \<open>Devices\<close>

type_synonym pt = "rat \<times> rat"

record box = box_id :: string  bx :: rat  by_y :: rat  bw :: rat  bh :: rat

record label_at = la_x :: rat  la_y :: rat  la_anchor :: "string option"

record net =
  net_id :: string
  net_from :: string
  net_to :: string
  net_kind :: string
  fromSide :: "string option"
  toSide :: "string option"
  fromT :: "rat option"
  toT :: "rat option"
  via :: "rat option"
  labelAt :: "label_at option"

record pin_row = pin :: string  pin_net :: string  provenance :: "string option"

record boundary = b_axis :: string  b_at :: rat  b_from :: rat  b_to :: rat  b_label :: pt

record device =
  d_boxes :: "box list"
  d_nets :: "net list"
  d_pins :: "pin_row list"
  d_boundaries :: "boundary list"
  d_flow :: "string list"
  d_flow_label :: "string option"
  d_boot :: "string list option"

section \<open>Traces\<close>

definition HORIZONTAL :: "string \<Rightarrow> bool" where
  "HORIZONTAL side \<longleftrightarrow> side = ''left'' \<or> side = ''right''"

definition centre :: "box \<Rightarrow> pt" where
  "centre b = (bx b + bw b / 2, by_y b + bh b / 2)"

definition port :: "box \<Rightarrow> string \<Rightarrow> rat option \<Rightarrow> pt" where
  "port b side t =
     (let f = (case t of Some v \<Rightarrow> v | None \<Rightarrow> 1 / 2)
      in if side = ''left'' then (bx b, by_y b + bh b * f)
         else if side = ''right'' then (bx b + bw b, by_y b + bh b * f)
         else if side = ''top'' then (bx b + bw b * f, by_y b)
         else (bx b + bw b * f, by_y b + bh b))"

definition autoSides :: "box \<Rightarrow> box \<Rightarrow> string \<times> string" where
  "autoSides a b =
     (let (ax, ay) = centre a; (cx, cy) = centre b; dx = cx - ax; dy = cy - ay
      in if \<bar>dx\<bar> \<ge> \<bar>dy\<bar> then (if dx \<ge> 0 then (''right'', ''left'') else (''left'', ''right''))
         else if dy \<ge> 0 then (''bottom'', ''top'') else (''top'', ''bottom''))"

definition from_side :: "box \<Rightarrow> box \<Rightarrow> net \<Rightarrow> string" where
  "from_side a b n = (case fromSide n of Some s \<Rightarrow> s | None \<Rightarrow> fst (autoSides a b))"

definition to_side :: "box \<Rightarrow> box \<Rightarrow> net \<Rightarrow> string" where
  "to_side a b n = (case toSide n of Some s \<Rightarrow> s | None \<Rightarrow> snd (autoSides a b))"

definition routePoints :: "box \<Rightarrow> box \<Rightarrow> net \<Rightarrow> pt list" where
  "routePoints a b n =
     (let fs = from_side a b n; ts = to_side a b n;
          (p1, p2) = port a fs (fromT n); (q1, q2) = port b ts (toT n)
      in if HORIZONTAL fs \<and> HORIZONTAL ts then
           (if \<bar>p2 - q2\<bar> < 2 / 100 then [(p1, p2), (q1, p2)]
            else let mx = (case via n of Some v \<Rightarrow> v | None \<Rightarrow> (p1 + q1) / 2)
                 in [(p1, p2), (mx, p2), (mx, q2), (q1, q2)])
         else if \<not> HORIZONTAL fs \<and> \<not> HORIZONTAL ts then
           (if \<bar>p1 - q1\<bar> < 2 / 100 then [(p1, p2), (p1, q2)]
            else let my = (case via n of Some v \<Rightarrow> v | None \<Rightarrow> (p2 + q2) / 2)
                 in [(p1, p2), (p1, my), (q1, my), (q1, q2)])
         else if HORIZONTAL fs then [(p1, p2), (q1, p2), (q1, q2)]
         else [(p1, p2), (p1, q2), (q1, q2)])"

definition toPixels :: "pt list \<Rightarrow> pt list" where
  "toPixels ps = map (\<lambda>(x, y). (px x, px y)) ps"

definition round2 :: "rat \<Rightarrow> rat" where
  "round2 v = of_int (js_round (v * 100)) / 100"

definition pathOf :: "(rat \<Rightarrow> string) \<Rightarrow> pt list \<Rightarrow> string" where
  "pathOf num ps =
     join_with '' ''
       (map (\<lambda>(i, x, y). (if i = 0 then ''M'' else ''L'') @ '' '' @ num (round2 x) @ '' '' @ num (round2 y))
         (zip [0..<length ps] ps))"

definition seg_len :: "pt \<Rightarrow> pt \<Rightarrow> rat" where
  "seg_len a b = \<bar>fst b - fst a\<bar> + \<bar>snd b - snd a\<bar>"

fun lengthOf :: "pt list \<Rightarrow> rat" where
  "lengthOf (a # b # ps) = seg_len a b + lengthOf (b # ps)"
| "lengthOf _ = 0"

definition between :: "pt \<Rightarrow> pt \<Rightarrow> rat \<Rightarrow> pt" where
  "between a b f = (fst a + (fst b - fst a) * f, snd a + (snd b - snd a) * f)"

fun walk_to :: "rat \<Rightarrow> pt list \<Rightarrow> pt \<times> pt \<times> rat" where
  \<comment> \<open>the segment that holds the point at arc length \<open>walked\<close>, and the fraction of it\<close>
  "walk_to walked (a # b # ps) =
     (let seg = seg_len a b
      in if walked \<le> seg \<or> ps = [] then (a, b, if seg = 0 then 0 else walked / seg)
         else walk_to (walked - seg) (b # ps))"
| "walk_to walked [a] = (a, a, 0)"
| "walk_to walked [] = ((0, 0), (0, 0), 0)"

definition pointAt :: "pt list \<Rightarrow> rat \<Rightarrow> pt" where
  "pointAt ps s =
     (let total = lengthOf ps
      in if total \<le> 0 then hd ps
         else let (a, b, f) = walk_to (clamp01 s * total) ps in between a b f)"

record anchor = an_x :: rat  an_y :: rat  an_anchor :: string

definition labelAnchor :: "pt list \<Rightarrow> net \<Rightarrow> anchor" where
  "labelAnchor ps n =
     (case labelAt n of
        Some l \<Rightarrow> \<lparr>an_x = px (la_x l), an_y = px (la_y l), an_anchor = (case la_anchor l of Some a \<Rightarrow> a | None \<Rightarrow> ''start'')\<rparr>
      | None \<Rightarrow>
          (case ps of
             _ # _ # _ \<Rightarrow>
               (let (a, b, f) = walk_to (lengthOf ps / 2) ps; (x, y) = between a b f
                in if \<bar>snd b - snd a\<bar> < 1 / 2 then \<lparr>an_x = x, an_y = y - 7, an_anchor = ''middle''\<rparr>
                   else \<lparr>an_x = x, an_y = y + 3, an_anchor = ''middle''\<rparr>)
           | _ \<Rightarrow> \<lparr>an_x = fst (hd ps), an_y = snd (hd ps), an_anchor = ''start''\<rparr>))"

section \<open>Sheets\<close>

definition gpio_pin :: "string \<Rightarrow> bool" where
  \<comment> \<open>\<open>/^GPIO\d+$/\<close>\<close>
  "gpio_pin p \<longleftrightarrow> starts_with ''GPIO'' p \<and> drop 4 p \<noteq> [] \<and> list_all is_digit (drop 4 p)"

definition pinsOn :: "device \<Rightarrow> string \<Rightarrow> string list \<times> bool" where
  "pinsOn dev nid =
     (let rows = filter (\<lambda>r. pin_net r = nid) (d_pins dev)
      in (map (drop 4) (filter gpio_pin (map pin rows)),
          list_ex (\<lambda>r. str_includes ''proposed'' (map lower_char (case provenance r of None \<Rightarrow> [] | Some p \<Rightarrow> p))) rows))"

record trace =
  tr_net :: net
  tr_points :: "pt list"
  tr_d :: string
  tr_length :: rat
  tr_label :: anchor
  tr_pins :: "string list"
  tr_proposed :: bool
  tr_style :: net_style

definition box_named :: "box list \<Rightarrow> string \<Rightarrow> box option" where
  \<comment> \<open>the map \<open>byId\<close>: the last of the boxes with the same id\<close>
  "box_named bs i = map_of (rev (map (\<lambda>b. (box_id b, b)) bs)) i"

definition trace_of :: "(rat \<Rightarrow> string) \<Rightarrow> device \<Rightarrow> net \<Rightarrow> trace option" where
  \<comment> \<open>\<^term>\<open>None\<close> where a net names a box that does not exist and the source throws\<close>
  "trace_of num dev n =
     (case (box_named (d_boxes dev) (net_from n), box_named (d_boxes dev) (net_to n)) of
        (Some a, Some b) \<Rightarrow>
          (let points = toPixels (routePoints a b n); (numbers, proposed) = pinsOn dev (net_id n)
           in Some \<lparr>tr_net = n, tr_points = points, tr_d = pathOf num points, tr_length = lengthOf points,
                tr_label = labelAnchor points n, tr_pins = numbers, tr_proposed = proposed,
                tr_style = (case map_of NET_KINDS (net_kind n) of Some s \<Rightarrow> s | None \<Rightarrow> ctrl_style)\<rparr>)
      | _ \<Rightarrow> None)"

fun traces :: "(rat \<Rightarrow> string) \<Rightarrow> device \<Rightarrow> net list \<Rightarrow> trace list option" where
  "traces num dev [] = Some []"
| "traces num dev (n # ns) =
     (case trace_of num dev n of
        None \<Rightarrow> None
      | Some t \<Rightarrow> map_option (\<lambda>ts. t # ts) (traces num dev ns))"

definition trace_named :: "trace list \<Rightarrow> string \<Rightarrow> trace option" where
  "trace_named ts i = map_of (rev (map (\<lambda>t. (net_id (tr_net t), t)) ts)) i"

definition flow_step :: "trace list \<Rightarrow> string \<Rightarrow> pt list \<Rightarrow> pt list" where
  "flow_step ts step acc =
     (let reverse = starts_with ''~'' step
      in case trace_named ts (if reverse then drop 1 step else step) of
           None \<Rightarrow> acc
         | Some t \<Rightarrow>
             (let points = (if reverse then rev (tr_points t) else tr_points t)
              in if acc = [] then points else acc @ drop 1 points))"

definition flow_points :: "trace list \<Rightarrow> string list \<Rightarrow> pt list" where
  "flow_points ts path = fold (flow_step ts) path []"

definition kinds_of :: "trace list \<Rightarrow> string list" where
  "kinds_of ts = fold (\<lambda>t ks. if net_kind (tr_net t) \<in> set ks then ks else ks @ [net_kind (tr_net t)]) ts []"

definition boundary_px :: "boundary \<Rightarrow> (rat \<times> rat \<times> rat \<times> rat) \<times> pt" where
  "boundary_px l =
     ((if b_axis l = ''x'' then (px (b_at l), px (b_from l), px (b_at l), px (b_to l))
       else (px (b_from l), px (b_at l), px (b_to l), px (b_at l))),
      (px (fst (b_label l)), px (snd (b_label l))))"

record sheet =
  s_boxes :: "(box \<times> rectangle) list"
  s_nets :: "trace list"
  s_boundaries :: "(boundary \<times> (rat \<times> rat \<times> rat \<times> rat) \<times> pt) list"
  s_kinds :: "string list"
  s_flow :: "pt list"

definition buildSheet :: "(rat \<Rightarrow> string) \<Rightarrow> device \<Rightarrow> sheet option" where
  "buildSheet num dev =
     (case traces num dev (d_nets dev) of
        None \<Rightarrow> None
      | Some ts \<Rightarrow>
          Some \<lparr>s_boxes = map (\<lambda>b. (b, \<lparr>rx = px (bx b), ry = px (by_y b), rw = px (bw b), rh = px (bh b)\<rparr>)) (d_boxes dev),
             s_nets = ts, s_boundaries = map (\<lambda>l. (l, boundary_px l)) (d_boundaries dev),
             s_kinds = kinds_of ts, s_flow = flow_points ts (d_flow dev)\<rparr>)"

section \<open>Animation\<close>

record timeline =
  tl_boot :: "string list"
  bootStart :: rat
  bootGap :: rat
  bootDur :: rat
  netStart :: rat
  netGap :: rat
  netDur :: rat
  flowStart :: rat
  flowDur :: rat
  tl_duration :: rat

definition timing :: "sheet \<Rightarrow> device \<Rightarrow> timeline" where
  "timing sh dev =
     (let boot = (case d_boot dev of Some b \<Rightarrow> b | None \<Rightarrow> map (\<lambda>(b, r). box_id b) (s_boxes sh));
          nstart = 400 + of_nat (length boot) * 240 + 200;
          fstart = nstart + of_nat (length (s_nets sh)) * 170 + 520 + 350
      in \<lparr>tl_boot = boot, bootStart = 400, bootGap = 240, bootDur = 420, netStart = nstart, netGap = 170,
          netDur = 520, flowStart = fstart, flowDur = 2400, tl_duration = fstart + 2400 + 900\<rparr>)"

definition lit_at :: "sheet \<Rightarrow> device \<Rightarrow> rat \<Rightarrow> (string \<times> rat) list" where
  "lit_at sh dev t =
     (let c = timing sh dev;
          booted = fold (\<lambda>(i, k) m. AList.update k (item t (bootStart c) i (bootGap c) (bootDur c) outCubic) m)
                     (zip [0..<length (tl_boot c)] (tl_boot c)) []
      in fold (\<lambda>(b, r) m. if box_id b \<in> fst ` set m then m
                          else AList.update (box_id b) (stage t (bootStart c) (bootDur c) outCubic) m)
           (s_boxes sh) booted)"

definition drawn_at :: "sheet \<Rightarrow> device \<Rightarrow> rat \<Rightarrow> (string \<times> rat) list" where
  "drawn_at sh dev t =
     (let c = timing sh dev
      in fold (\<lambda>(i, n) m. AList.update (net_id (tr_net n)) (item t (netStart c) i (netGap c) (netDur c) outCubic) m)
           (zip [0..<length (s_nets sh)] (s_nets sh)) [])"

definition packet_at :: "sheet \<Rightarrow> device \<Rightarrow> rat \<Rightarrow> (pt \<times> string) option" where
  "packet_at sh dev t =
     (let c = timing sh dev; s = stage t (flowStart c) (flowDur c) linear
      in if 1 < length (s_flow sh) \<and> s > 0 \<and> s < 1
         then Some (pointAt (s_flow sh) s, case d_flow_label dev of Some l \<Rightarrow> l | None \<Rightarrow> ''frame'')
         else None)"

record picture =
  pic_lit :: "(string \<times> rat) list"
  pic_drawn :: "(string \<times> rat) list"
  pic_packet :: "(pt \<times> string) option"
  pic_clock :: timeline

definition frameAt :: "sheet \<Rightarrow> device \<Rightarrow> rat \<Rightarrow> picture" where
  "frameAt sh dev t =
     \<lparr>pic_lit = lit_at sh dev t, pic_drawn = drawn_at sh dev t, pic_packet = packet_at sh dev t,
      pic_clock = timing sh dev\<rparr>"

section \<open>Traces are orthogonal\<close>

fun orthogonal :: "pt list \<Rightarrow> bool" where
  "orthogonal (a # b # ps) \<longleftrightarrow> (fst a = fst b \<or> snd a = snd b) \<and> orthogonal (b # ps)"
| "orthogonal _ \<longleftrightarrow> True"

lemma route_shape:
  defines "p \<equiv> \<lambda>a b n. port a (from_side a b n) (fromT n)"
    and "q \<equiv> \<lambda>a b n. port b (to_side a b n) (toT n)"
  shows "orthogonal (routePoints a b n)"
    and "2 \<le> length (routePoints a b n)" "length (routePoints a b n) \<le> 4"
    and "hd (routePoints a b n) = p a b n"
    and "seg_len (last (routePoints a b n)) (q a b n) < 2 / 100"
  unfolding p_def q_def
  by (auto simp: routePoints_def Let_def seg_len_def abs_minus_commute split: prod.splits)

lemma orthogonal_pixels: "orthogonal ps \<Longrightarrow> orthogonal (toPixels ps)"
  by (induction ps rule: orthogonal.induct) (auto simp: toPixels_def)

lemma seg_len_nonneg [simp]: "0 \<le> seg_len a b"
  by (simp add: seg_len_def)

lemma lengthOf_nonneg: "0 \<le> lengthOf ps"
  by (induction ps rule: lengthOf.induct) auto

fun segments :: "pt list \<Rightarrow> (pt \<times> pt) list" where
  "segments (a # b # ps) = (a, b) # segments (b # ps)"
| "segments _ = []"

lemma walk_to_segment:
  "\<lbrakk>0 \<le> w; w \<le> lengthOf ps; walk_to w ps = (a, b, f); 2 \<le> length ps\<rbrakk>
    \<Longrightarrow> (a, b) \<in> set (segments ps) \<and> 0 \<le> f \<and> f \<le> 1"
proof (induction w ps rule: walk_to.induct)
  case (1 w c d ps)
  show ?case
  proof (cases "w \<le> seg_len c d \<or> ps = []")
    case True
    have "w \<le> seg_len c d" using True "1.prems"(2) by auto
    then show ?thesis
      using True "1.prems" by (auto simp: Let_def divide_le_eq_1 order_less_le split: if_splits)
  next
    case False
    then have "w - seg_len c d \<le> lengthOf (d # ps)" "0 \<le> w - seg_len c d" "2 \<le> length (d # ps)"
      using "1.prems" by (auto simp: not_le Suc_le_eq)
    then show ?thesis using "1.IH" False "1.prems"(3) by (auto simp: Let_def)
  qed
qed auto

lemma pointAt_on_trace:
  assumes "2 \<le> length ps"
  shows "\<exists>a b f. (a, b) \<in> set (segments ps) \<and> 0 \<le> f \<and> f \<le> 1 \<and> pointAt ps s = between a b f"
proof (cases "lengthOf ps \<le> 0")
  case True
  obtain a b qs where ps: "ps = a # b # qs" using assms by (cases ps; cases "tl ps") auto
  have "pointAt ps s = between a b 0" using True by (simp add: pointAt_def ps between_def)
  then show ?thesis by (intro exI [of _ a] exI [of _ b] exI [of _ 0]) (simp add: ps)
next
  case False
  obtain a b f where w: "walk_to (clamp01 s * lengthOf ps) ps = (a, b, f)" by (cases "walk_to (clamp01 s * lengthOf ps) ps") auto
  have "0 \<le> clamp01 s * lengthOf ps" "clamp01 s * lengthOf ps \<le> lengthOf ps"
    using lengthOf_nonneg [of ps] mult_right_mono [of "clamp01 s" 1 "lengthOf ps"] by auto
  from walk_to_segment [OF this w assms] False w show ?thesis
    by (intro exI [of _ a] exI [of _ b] exI [of _ f]) (simp add: pointAt_def)
qed

section \<open>The picture at a time\<close>

definition all_values :: "('v \<Rightarrow> bool) \<Rightarrow> ('k \<times> 'v) list \<Rightarrow> bool" where
  "all_values P m \<longleftrightarrow> (\<forall>x\<in>set m. P (snd x))"

lemma all_values_update: "\<lbrakk>P v; all_values P m\<rbrakk> \<Longrightarrow> all_values P (AList.update k v m)"
  using set_update_subset [of k v m] by (auto simp: all_values_def)

lemma all_values_Nil [simp]: "all_values P []"
  by (simp add: all_values_def)

lemma fold_keeps: "\<lbrakk>I m; \<And>x m. x \<in> set xs \<Longrightarrow> I m \<Longrightarrow> I (f x m)\<rbrakk> \<Longrightarrow> I (fold f xs m)"
  by (induction xs arbitrary: m) auto

lemma timing_constants [simp]:
  "bootStart (timing sh dev) = 400" "bootGap (timing sh dev) = 240" "bootDur (timing sh dev) = 420"
  "netGap (timing sh dev) = 170" "netDur (timing sh dev) = 520" "flowDur (timing sh dev) = 2400"
  by (simp_all add: timing_def Let_def)

lemma lit_values:
  assumes "\<And>i. i < length (tl_boot (timing sh dev)) \<Longrightarrow> P (item t 400 i 240 420 outCubic)"
    and "P (stage t 400 420 outCubic)"
  shows "all_values P (lit_at sh dev t)"
  unfolding lit_at_def Let_def
  by (rule fold_keeps [where I = "all_values P"], rule fold_keeps [where I = "all_values P"])
    (use assms in \<open>auto intro!: all_values_update split: prod.splits dest!: set_zip_leftD\<close>)

lemma drawn_values:
  assumes "\<And>i. i < length (s_nets sh) \<Longrightarrow> P (item t (netStart (timing sh dev)) i 170 520 outCubic)"
  shows "all_values P (drawn_at sh dev t)"
  unfolding drawn_at_def Let_def
  by (rule fold_keeps [where I = "all_values P"])
    (use assms in \<open>auto intro!: all_values_update split: prod.splits dest!: set_zip_leftD\<close>)

lemma item_range: "easing_ok f \<Longrightarrow> 0 \<le> item t s i g d f \<and> item t s i g d f \<le> 1"
  using stage_range by (simp add: item_def)

lemma picture_range:
  "all_values (\<lambda>v. 0 \<le> v \<and> v \<le> 1) (lit_at sh dev t)" "all_values (\<lambda>v. 0 \<le> v \<and> v \<le> 1) (drawn_at sh dev t)"
  by (rule lit_values drawn_values, simp_all add: item_range stage_range easing_outCubic)+

lemma picture_start:
  assumes "t < 400"
  shows "all_values (\<lambda>v. v = 0) (lit_at sh dev t)" "all_values (\<lambda>v. v = 0) (drawn_at sh dev t)"
proof -
  have i: "item t s i g d outCubic = 0" if "400 \<le> s" "0 \<le> g" for s i g d
  proof -
    have "0 \<le> of_nat i * g" using that(2) by simp
    then show ?thesis
      unfolding item_def using assms that(1) by (intro stage_before easing_outCubic) linarith
  qed
  have "400 \<le> netStart (timing sh dev)" by (simp add: timing_def Let_def)
  then show "all_values (\<lambda>v. v = 0) (lit_at sh dev t)" "all_values (\<lambda>v. v = 0) (drawn_at sh dev t)"
    by (auto intro!: lit_values drawn_values i stage_before [OF easing_outCubic assms])
qed

lemma picture_end:
  assumes "flowStart (timing sh dev) + 2400 \<le> t"
  shows "all_values (\<lambda>v. v = 1) (lit_at sh dev t)" "all_values (\<lambda>v. v = 1) (drawn_at sh dev t)"
proof -
  let ?c = "timing sh dev"
  have fs: "flowStart ?c = netStart ?c + of_nat (length (s_nets sh)) * 170 + 870"
    "netStart ?c = 600 + of_nat (length (tl_boot ?c)) * 240"
    by (simp_all add: timing_def Let_def)
  have mono: "(of_nat i :: rat) * g \<le> of_nat n * g" if "i < n" "0 \<le> g" for i n g
    using that by (intro mult_right_mono) auto
  have n0: "0 \<le> (of_nat (length (s_nets sh)) :: rat) * 170" "0 \<le> (of_nat (length (tl_boot ?c)) :: rat) * 240" by simp_all
  have b: "item t 400 i 240 420 outCubic = 1" if "i < length (tl_boot ?c)" for i
    unfolding item_def using mono [OF that, of 240] assms fs n0 by (intro stage_after easing_outCubic) linarith+
  have n: "item t (netStart ?c) i 170 520 outCubic = 1" if "i < length (s_nets sh)" for i
    unfolding item_def using mono [OF that, of 170] assms fs n0 by (intro stage_after easing_outCubic) linarith+
  have s: "stage t 400 420 outCubic = 1" using assms fs n0 by (intro stage_after easing_outCubic) linarith+
  show "all_values (\<lambda>v. v = 1) (lit_at sh dev t)" "all_values (\<lambda>v. v = 1) (drawn_at sh dev t)"
    by (auto intro!: lit_values drawn_values b n s)
qed

lemma update_keys: "fst ` set (AList.update k v m) = insert k (fst ` set m)"
  using dom_update [of k v m] by (simp add: dom_map_of_conv_image_fst)

lemma fold_update_keys:
  "fst ` set (fold (\<lambda>x m. AList.update (f x) (g x) m) xs m) = fst ` set m \<union> f ` set xs"
  by (induction xs arbitrary: m) (auto simp: update_keys)

lemma drawn_keys: "fst ` set (drawn_at sh dev t) = (\<lambda>n. net_id (tr_net n)) ` set (s_nets sh)"
proof -
  have "fst ` set (drawn_at sh dev t) = (\<lambda>x. net_id (tr_net (snd x))) ` set (zip [0..<length (s_nets sh)] (s_nets sh))"
    unfolding drawn_at_def Let_def split_beta by (subst fold_update_keys) simp
  also have "\<dots> = (\<lambda>n. net_id (tr_net n)) ` set (map snd (zip [0..<length (s_nets sh)] (s_nets sh)))"
    by (simp only: set_map image_image)
  finally show ?thesis by simp
qed

lemma lit_keys: "b \<in> fst ` set (s_boxes sh) \<Longrightarrow> box_id b \<in> fst ` set (lit_at sh dev t)"
proof -
  have "x \<in> set xs \<Longrightarrow> box_id (fst x) \<in> fst ` set (fold (\<lambda>(b, r) m. if box_id b \<in> fst ` set m then m
      else AList.update (box_id b) v m) xs m)" for x :: "box \<times> rectangle" and xs v m
  proof (induction xs arbitrary: m)
    case (Cons y ys)
    have keep: "k \<in> fst ` set m \<Longrightarrow> k \<in> fst ` set (fold (\<lambda>(b, r) m. if box_id b \<in> fst ` set m then m
      else AList.update (box_id b) v m) zs m)" for k zs m
      by (induction zs arbitrary: m) (auto simp: update_keys split: prod.splits)
    show ?case
    proof (cases "x = y")
      case True
      then show ?thesis by (cases y) (auto intro!: keep simp: update_keys)
    next
      case False
      then show ?thesis using Cons by auto
    qed
  qed simp
  then show "b \<in> fst ` set (s_boxes sh) \<Longrightarrow> box_id b \<in> fst ` set (lit_at sh dev t)"
    by (auto simp: lit_at_def Let_def) fastforce
qed

lemma packet_gone: "flowStart (timing sh dev) + 2400 \<le> t \<Longrightarrow> packet_at sh dev t = None"
  using stage_after [OF easing_linear, of "flowStart (timing sh dev)" 2400 t] by (simp add: packet_at_def Let_def)

section \<open>The traces of a sheet\<close>

lemma traces_origin: "\<lbrakk>traces num dev ns = Some ts; tr \<in> set ts\<rbrakk> \<Longrightarrow> \<exists>n\<in>set ns. trace_of num dev n = Some tr"
  by (induction ns arbitrary: ts) (auto split: option.splits)

lemma built_traces:
  "\<lbrakk>buildSheet num dev = Some sh; tr \<in> set (s_nets sh)\<rbrakk> \<Longrightarrow> \<exists>n\<in>set (d_nets dev). trace_of num dev n = Some tr"
  by (auto simp: buildSheet_def split: option.splits dest: traces_origin)

lemma trace_of_Some:
  assumes "trace_of num dev n = Some tr"
  shows "\<exists>a b. box_named (d_boxes dev) (net_from n) = Some a \<and> box_named (d_boxes dev) (net_to n) = Some b
    \<and> tr_net tr = n \<and> tr_points tr = toPixels (routePoints a b n)"
proof -
  obtain a b where ab: "box_named (d_boxes dev) (net_from n) = Some a" "box_named (d_boxes dev) (net_to n) = Some b"
    using assms by (cases "box_named (d_boxes dev) (net_from n)"; cases "box_named (d_boxes dev) (net_to n)") (auto simp: trace_of_def)
  obtain numbers proposed where "pinsOn dev (net_id n) = (numbers, proposed)" by (cases "pinsOn dev (net_id n)")
  with assms ab show ?thesis by (auto simp: trace_of_def Let_def)
qed

lemma trace_of_shape:
  assumes "\<exists>n\<in>set (d_nets dev). trace_of num dev n = Some tr"
  shows "orthogonal (tr_points tr) \<and> (\<exists>a b n. box_named (d_boxes dev) (net_from n) = Some a
     \<and> box_named (d_boxes dev) (net_to n) = Some b \<and> n \<in> set (d_nets dev) \<and> tr_net tr = n
     \<and> hd (tr_points tr) = (px (fst (port a (from_side a b n) (fromT n))), px (snd (port a (from_side a b n) (fromT n))))
     \<and> seg_len (last (tr_points tr)) (px (fst (port b (to_side a b n) (toT n))), px (snd (port b (to_side a b n) (toT n)))) < 1 / 2)"
proof -
  obtain n a b where n: "n \<in> set (d_nets dev)" "box_named (d_boxes dev) (net_from n) = Some a"
    "box_named (d_boxes dev) (net_to n) = Some b" "tr_net tr = n" "tr_points tr = toPixels (routePoints a b n)"
    using assms trace_of_Some by blast
  have ne: "routePoints a b n \<noteq> []" using route_shape(2) [of a b n] by auto
  have h: "hd (toPixels (routePoints a b n)) = (px (fst (hd (routePoints a b n))), px (snd (hd (routePoints a b n))))"
    using ne by (simp add: toPixels_def hd_map split_beta)
  have l: "last (toPixels (routePoints a b n)) = (px (fst (last (routePoints a b n))), px (snd (last (routePoints a b n))))"
    using ne by (simp add: toPixels_def last_map split_beta)
  have s: "seg_len (px (fst p), px (snd p)) (px (fst q), px (snd q)) = 24 * seg_len p q" for p q
  proof -
    have "\<bar>x * 24 - y * 24\<bar> = 24 * \<bar>x - (y::rat)\<bar>" for x y
      using abs_mult [of "x - y" 24] by (simp only: left_diff_distrib)
    then show ?thesis by (simp add: seg_len_def px_def G_def)
  qed
  show ?thesis
    using n orthogonal_pixels [OF route_shape(1)] route_shape(4,5) [of a b n]
    by (intro conjI exI [of _ a] exI [of _ b] exI [of _ n]) (auto simp: h l s)
qed

end
