(* ===== verification/PlayerGuarantees.thy ===== *)
theory PlayerGuarantees
  imports Blueprint
begin

text \<open>
  What the animations of the site guarantee: the clock every player runs on stays within the animation and plays
  it to its end, and the blueprint sheets are drawn with orthogonal traces, between nothing and everything.
\<close>

section \<open>The clock\<close>

text \<open>Whatever sequence of frames, seeks, plays, pauses, toggles and replays a player sends to its clock, as long
  as time does not run backwards, the shown time stays between 0 and the duration.\<close>

theorem clock_within_animation:
  assumes "clock_run duration speed c" and "0 \<le> speed" and "\<And>d. duration = Some d \<Longrightarrow> 0 \<le> d"
  shows "0 \<le> ck_t c \<and> (\<forall>d. duration = Some d \<longrightarrow> ck_t c \<le> d)"
  using clock_run_ok [OF assms] by (simp add: clock_ok_def)

definition sample_run :: "clock_event list" where
  "sample_run = [Effect 5, Frame 20, Seek 900, Frame 40, Seek (- 3), Toggle, Toggle, Effect 50, Frame 5000]"

theorem clock_within_animation_witness:
  "\<exists>c. clock_run (Some 1000) 1 c \<and> ck_t c = 1000 \<and> \<not> ck_playing c \<and> 0 \<le> ck_t c"
proof -
  let ?c = "fold (clock_step (Some 1000) 1) sample_run (init_clock True)"
  have v: "?c = \<lparr>ck_t = 1000, ck_playing = False, ck_generation = 0, ck_last = 5000\<rparr>"
    by (simp add: sample_run_def clock_defs init_clock_def Let_def)
  have "clock_run (Some 1000) 1 ?c"
    unfolding sample_run_def fold.simps o_apply id_apply
    by (intro clock_run.intros) (simp_all add: clock_defs init_clock_def Let_def)
  then show ?thesis using clock_within_animation [of "Some 1000" 1 ?c] v by (intro exI [of _ ?c]) simp
qed

text \<open>A playing clock that receives animation frames at any pace, however dropped or late, shows exactly the time
  that has passed times the speed until that reaches the duration; then it stops at exactly the duration.\<close>

theorem clock_plays_to_end:
  assumes "ck_playing c" and "sorted (ck_last c # nows)" and "0 \<le> speed" and "ck_t c < d"
  shows "let c' = fold (\<lambda>now. clock_step (Some d) speed (Frame now)) nows c;
             reach = ck_t c + (last (ck_last c # nows) - ck_last c) * speed
         in if reach \<ge> d then ck_t c' = d \<and> \<not> ck_playing c' \<and> ended (Some d) c'
            else ck_t c' = reach \<and> ck_playing c'"
  using frames_elapse [OF assms] by (auto simp: Let_def ended_def at_end_def split: if_splits)

theorem clock_plays_to_end_witness:
  "ended (Some 100) (fold (\<lambda>now. clock_step (Some 100) 2 (Frame now)) [16, 33, 70] (init_clock True))"
  using clock_plays_to_end [of "init_clock True" "[16, 33, 70]" 2 100] by (simp add: init_clock_def Let_def)

section \<open>Blueprint sheets\<close>

text \<open>C36. Every trace of a sheet that \<open>buildSheet\<close> builds consists of horizontal and vertical segments only, starts
  at the port of its first box and ends within half a pixel of the port of its second box.\<close>

theorem traces_orthogonal:
  assumes "buildSheet num dev = Some sh" and "tr \<in> set (s_nets sh)"
  shows "orthogonal (tr_points tr) \<and> (\<exists>a b n. box_named (d_boxes dev) (net_from n) = Some a
     \<and> box_named (d_boxes dev) (net_to n) = Some b \<and> n \<in> set (d_nets dev) \<and> tr_net tr = n
     \<and> hd (tr_points tr) = (px (fst (port a (from_side a b n) (fromT n))), px (snd (port a (from_side a b n) (fromT n))))
     \<and> seg_len (last (tr_points tr)) (px (fst (port b (to_side a b n) (toT n))), px (snd (port b (to_side a b n) (toT n)))) < 1 / 2)"
  using built_traces [OF assms] by (rule trace_of_shape)

definition chip :: box where
  "chip = \<lparr>box_id = ''mcu'', bx = 4, by_y = 4, bw = 6, bh = 8\<rparr>"

definition radio :: box where
  "radio = \<lparr>box_id = ''radio'', bx = 20, by_y = 6, bw = 6, bh = 8\<rparr>"

definition spi :: net where
  "spi = \<lparr>net_id = ''bus'', net_from = ''mcu'', net_to = ''radio'', net_kind = ''spi'', fromSide = None, toSide = None,
     fromT = None, toT = None, via = None, labelAt = None\<rparr>"

definition board :: device where
  "board = \<lparr>d_boxes = [chip, radio], d_nets = [spi], d_pins = [\<lparr>pin = ''GPIO13'', pin_net = ''bus'', provenance = Some ''proposed''\<rparr>],
     d_boundaries = [], d_flow = [''bus''], d_flow_label = None, d_boot = None\<rparr>"

theorem traces_orthogonal_witness:
  "\<exists>sh. buildSheet (\<lambda>_. []) board = Some sh \<and> list_all (\<lambda>tr. orthogonal (tr_points tr)) (s_nets sh)
     \<and> map tr_points (s_nets sh) = [[(240, 192), (360, 192), (360, 240), (480, 240)]]"
proof -
  obtain sh where sh: "buildSheet (\<lambda>_. []) board = Some sh"
    "map tr_points (s_nets sh) = [[(240, 192), (360, 192), (360, 240), (480, 240)]]"
    by (simp add: buildSheet_def board_def trace_of_def box_named_def chip_def radio_def spi_def pinsOn_def Let_def
        routePoints_def from_side_def to_side_def autoSides_def centre_def port_def HORIZONTAL_def toPixels_def px_def G_def)
  then show ?thesis using traces_orthogonal [OF sh(1)] by (auto simp: list_all_iff)
qed

text \<open>The point a fraction of the way along a trace, for any fraction, lies on one of the segments of the trace,
  so the animated frame never leaves its wire.\<close>

theorem packet_on_wire:
  assumes "packet_at sh dev t = Some (p, label)"
  shows "\<exists>a b f. (a, b) \<in> set (segments (s_flow sh)) \<and> 0 \<le> f \<and> f \<le> 1 \<and> p = between a b f"
proof -
  have "2 \<le> length (s_flow sh)" "p = pointAt (s_flow sh) (stage t (flowStart (timing sh dev)) 2400 linear)"
    using assms by (auto simp: packet_at_def Let_def split: if_splits)
  then show ?thesis using pointAt_on_trace by blast
qed

theorem packet_on_wire_witness:
  "\<exists>sh p. buildSheet (\<lambda>_. []) board = Some sh \<and> packet_at sh board 3320 = Some (p, ''frame'')
     \<and> (\<exists>a b f. (a, b) \<in> set (segments (s_flow sh)) \<and> 0 \<le> f \<and> f \<le> 1 \<and> p = between a b f)"
proof -
  obtain sh where sh: "buildSheet (\<lambda>_. []) board = Some sh" "length (s_nets sh) = 1" "length (s_boxes sh) = 2"
    "s_flow sh = [(240, 192), (360, 192), (360, 240), (480, 240)]"
    by (simp add: buildSheet_def board_def trace_of_def box_named_def chip_def radio_def spi_def pinsOn_def Let_def
        flow_points_def flow_step_def trace_named_def starts_with_def
        routePoints_def from_side_def to_side_def autoSides_def centre_def port_def HORIZONTAL_def toPixels_def px_def G_def)
  then have "flowStart (timing sh board) = 2120" by (simp add: timing_def Let_def board_def)
  then have "packet_at sh board 3320 = Some (pointAt (s_flow sh) (1 / 2), ''frame'')"
    using sh(4) by (simp add: packet_at_def Let_def board_def stage_def clamp01_def linear_def)
  then show ?thesis using packet_on_wire sh(1) by blast
qed

text \<open>The picture of a sheet at any time is between dark and lit: every box and every trace has a brightness
  between 0 and 1, 0 before the animation starts and 1 from the moment the data frame has arrived.\<close>

theorem picture_complete:
  "all_values (\<lambda>v. 0 \<le> v \<and> v \<le> 1) (pic_lit (frameAt sh dev t)) \<and> all_values (\<lambda>v. 0 \<le> v \<and> v \<le> 1) (pic_drawn (frameAt sh dev t))
   \<and> (t < 400 \<longrightarrow> all_values (\<lambda>v. v = 0) (pic_lit (frameAt sh dev t)) \<and> all_values (\<lambda>v. v = 0) (pic_drawn (frameAt sh dev t)))
   \<and> (flowStart (timing sh dev) + 2400 \<le> t \<longrightarrow>
        all_values (\<lambda>v. v = 1) (pic_lit (frameAt sh dev t)) \<and> all_values (\<lambda>v. v = 1) (pic_drawn (frameAt sh dev t))
        \<and> pic_packet (frameAt sh dev t) = None)
   \<and> fst ` set (pic_drawn (frameAt sh dev t)) = (\<lambda>n. net_id (tr_net n)) ` set (s_nets sh)
   \<and> box_id ` fst ` set (s_boxes sh) \<subseteq> fst ` set (pic_lit (frameAt sh dev t))"
  using picture_range [of sh dev t] picture_start [of t sh dev] picture_end [of sh dev t] drawn_keys [of sh dev t]
    packet_gone [of sh dev t]
  by (auto simp: frameAt_def intro: lit_keys)

theorem picture_complete_witness:
  "\<exists>sh. buildSheet (\<lambda>_. []) board = Some sh \<and> all_values (\<lambda>v. v = 1) (pic_drawn (frameAt sh board 10000))"
proof -
  obtain sh where sh: "buildSheet (\<lambda>_. []) board = Some sh" "length (s_nets sh) = 1" "length (s_boxes sh) = 2"
    by (simp add: buildSheet_def board_def trace_of_def box_named_def chip_def radio_def spi_def pinsOn_def Let_def)
  then have "flowStart (timing sh board) + 2400 \<le> 10000" by (simp add: timing_def Let_def board_def)
  then show ?thesis using picture_complete [of sh board 10000] sh(1) by auto
qed

end
