(* ===== verification/TextLines.thy ===== *)
theory TextLines
  imports Prelude
begin

text \<open>
  String operations that the documentation renderers share: lines, splitting at a separator of several characters,
  white-space runs, HTML escaping of four characters.  In an HTML literal a tilde stands for the double quote.
\<close>

definition LF :: char where "LF = CHR 0x0A"
definition CR :: char where "CR = CHR 0x0D"
definition QUOT :: char where "QUOT = CHR 0x22"

definition html :: "string \<Rightarrow> string" where
  "html s = map (\<lambda>c. if c = CHR ''~'' then QUOT else c) s"

fun strip_cr :: "string list \<Rightarrow> string list" where
  \<comment> \<open>a carriage return at the end of a piece belongs to the line break, but for the last piece\<close>
  "strip_cr [] = []"
| "strip_cr [p] = [p]"
| "strip_cr (p # q # ps) = (if p \<noteq> [] \<and> last p = CR then butlast p else p) # strip_cr (q # ps)"

definition split_lines :: "string \<Rightarrow> string list" where
  \<comment> \<open>\<open>split(/\r?\n/)\<close>\<close>
  "split_lines s = strip_cr (split_on LF s)"

lemma length_strip_cr [simp]: "length (strip_cr ps) = length ps"
  by (induction ps rule: strip_cr.induct) auto

lemma split_lines_nonempty [simp]: "split_lines s \<noteq> []"
  using length_strip_cr [of "split_on LF s"] unfolding split_lines_def by (metis length_0_conv split_on_nonempty)

function split_str :: "string \<Rightarrow> string \<Rightarrow> string list" where
  \<comment> \<open>\<open>split\<close> at a separator that is not empty\<close>
  "split_str sep s =
     (case index_of sep s of
        Some i \<Rightarrow> if sep = [] then [s] else take i s # split_str sep (drop (i + length sep) s)
      | None \<Rightarrow> [s])"
  by pat_completeness auto
termination
  by (relation "measure (\<lambda>(sep, s). length s)") (auto dest!: index_of_Some_bound intro!: diff_less)

declare split_str.simps [simp del]

fun ws_words_acc :: "string \<Rightarrow> string \<Rightarrow> string list" where
  "ws_words_acc acc [] = (if acc = [] then [] else [rev acc])"
| "ws_words_acc acc (c # s) =
     (if is_ws c then (if acc = [] then [] else [rev acc]) @ ws_words_acc [] s else ws_words_acc (c # acc) s)"

definition ws_words :: "string \<Rightarrow> string list" where
  \<comment> \<open>\<open>split(/\s+/).filter(Boolean)\<close>\<close>
  "ws_words s = ws_words_acc [] s"

definition lower :: "string \<Rightarrow> string" where
  "lower s = map lower_char s"

definition escape4 :: "string \<Rightarrow> string" where
  "escape4 s =
     replace_char QUOT ''&quot;''
       (replace_char (CHR ''>'') ''&gt;''
         (replace_char (CHR ''<'') ''&lt;'' (replace_char (CHR ''&'') ''&amp;'' s)))"

definition word_unit :: "char \<Rightarrow> bool" where
  \<comment> \<open>\<open>\w\<close>\<close>
  "word_unit c \<longleftrightarrow> is_upper c \<or> is_lower c \<or> is_digit c \<or> c = CHR ''_''"

lemma count_replace:
  "count_list (replace_char d r s) c = (if c = d then 0 else count_list s c) + count_list s d * count_list r c"
  by (induction s) (auto simp: replace_char_def count_list_append)

lemma escape4_count:
  "count_list (escape4 s) (CHR ''<'') = 0" "count_list (escape4 s) (CHR ''>'') = 0" "count_list (escape4 s) QUOT = 0"
  by (simp_all add: escape4_def count_replace QUOT_def)

end
