(* ===== verification/Blocks.thy ===== *)
theory Blocks
  imports TextLines
begin

text \<open>
  \<open>web/src/docs/blocks.js\<close>: the four static diagrams (\<open>xk-flow\<close>, \<open>xk-timeline\<close>, \<open>xk-stack\<close>, \<open>xk-compare\<close>), from the
  body of a fenced block to HTML.  \<open>RENDERERS\<close> is read at its own four keys; the \<open>try\<close> of \<open>renderBlock\<close> has
  nothing to catch, no renderer throws.

  The lemmas count the angle brackets of the output: it has those of the template and none of the body, so
  no text of a paper becomes markup.
\<close>

definition BLOCK_KINDS :: "string list" where
  "BLOCK_KINDS = [''xk-flow'', ''xk-timeline'', ''xk-stack'', ''xk-compare'']"

definition TINTS :: "string list" where
  "TINTS = [''plc'', ''nbplc'', ''lora'', ''accent'', ''money'', ''good'', ''warn'', ''critical'', ''ink'', ''muted'']"

fun ap_word :: "string \<Rightarrow> bool" where
  \<comment> \<open>\<open>ap\b\<close> somewhere in the string\<close>
  "ap_word (a # b # s) \<longleftrightarrow> (a = CHR ''a'' \<and> b = CHR ''p'' \<and> (s = [] \<or> \<not> word_unit (hd s))) \<or> ap_word (b # s)"
| "ap_word _ \<longleftrightarrow> False"

definition any_of :: "string list \<Rightarrow> string \<Rightarrow> bool" where
  "any_of ws s \<longleftrightarrow> list_ex (\<lambda>w. str_includes w s) ws"

definition tintFor :: "string \<Rightarrow> string" where
  "tintFor name =
     (let n = lower name
      in if any_of [''node-satellite'', ''relay''] n then ''nbplc''
         else if any_of [''satellite'', ''lora'', ''sensor'', ''farm''] n then ''lora''
         else if any_of [''node'', ''gateway''] n \<or> ap_word n then ''plc''
         else if any_of [''internet'', ''wan'', ''upstream'', ''cloud'', ''proxy''] n then ''muted''
         else if any_of [''kiosk'', ''escrow'', ''chain'', ''treasury'', ''bank'', ''m-pesa'', ''equitel'', ''mpesa'', ''bridge'', ''settle''] n
              then ''money''
         else if any_of [''receipt'', ''ticket'', ''voucher'', ''signed''] n then ''good''
         else if any_of [''client'', ''phone'', ''user'', ''dongle''] n then ''ink''
         else ''accent'')"

section \<open>The shared line grammar\<close>

definition directive :: "string \<Rightarrow> (bool \<times> string) option" where
  \<comment> \<open>\<open>/^(title|note)\s*:\s*(.*)$/i\<close>: whether it is the title, and the text\<close>
  "directive line =
     (let key = (if starts_with ''title'' (lower line) then Some (True, drop 5 line)
                 else if starts_with ''note'' (lower line) then Some (False, drop 4 line) else None)
      in case key of
           None \<Rightarrow> None
         | Some (t, rest) \<Rightarrow>
             (case dropWhile is_ws rest of
                c # r \<Rightarrow>
                  (let v = dropWhile is_ws r
                   in if c = CHR '':'' \<and> CR \<notin> set v \<and> LF \<notin> set v then Some (t, v) else None)
              | [] \<Rightarrow> None))"

record parsed = p_title :: string  p_notes :: "string list"  p_lines :: "string list"

definition read_line :: "string \<Rightarrow> parsed \<Rightarrow> parsed" where
  "read_line raw p =
     (let line = trim raw
      in if line = [] then p
         else case directive line of
                Some (True, v) \<Rightarrow> p\<lparr>p_title := v\<rparr>
              | Some (False, v) \<Rightarrow> p\<lparr>p_notes := p_notes p @ [v]\<rparr>
              | None \<Rightarrow> p\<lparr>p_lines := p_lines p @ [line]\<rparr>)"

definition readLines :: "string \<Rightarrow> parsed" where
  "readLines body = fold read_line (split_lines body) \<lparr>p_title = [], p_notes = [], p_lines = []\<rparr>"

definition cells :: "string \<Rightarrow> string list" where
  "cells line = map trim (split_on (CHR ''|'') line)"

definition frame :: "string \<Rightarrow> parsed \<Rightarrow> string \<Rightarrow> string" where
  "frame kind p inner =
     (let head = (if p_title p = [] then []
                  else html ''<figcaption class=~xk-dg__title xk-mono~>'' @ escape4 (p_title p) @ ''</figcaption>'');
          foot = (if p_notes p = [] then []
                  else html ''<p class=~xk-dg__note~>'' @ join_with '' '' (map escape4 (p_notes p)) @ ''</p>'')
      in html ''<figure class=~xk-dg xk-dg--'' @ kind @ html ''~ role=~group~>'' @ head
         @ html ''<div class=~xk-dg__body~>'' @ inner @ ''</div>'' @ foot @ ''</figure>'')"

definition ARROW_RIGHT :: string where
  "ARROW_RIGHT = html (''<svg class=~xk-dg__arrow~ viewBox=~0 0 48 16~ aria-hidden=~true~ focusable=~false~>'' @
     ''<path d=~M0 8h38M31 2l7 6-7 6~ fill=~none~ stroke=~currentColor~ stroke-width=~1.6~/></svg>'')"

definition ARROW_LEFT :: string where
  "ARROW_LEFT = html (''<svg class=~xk-dg__arrow~ viewBox=~0 0 48 16~ aria-hidden=~true~ focusable=~false~>'' @
     ''<path d=~M48 8H10M17 2l-7 6 7 6~ fill=~none~ stroke=~currentColor~ stroke-width=~1.6~/></svg>'')"

section \<open>Flow\<close>

record edge = e_from :: string  e_to :: string  e_label :: string

record return_edge = r_from :: "string option"  r_to :: "string option"  r_label :: string

record graph = g_order :: "string list"  g_edges :: "edge list"  g_returns :: "return_edge list"

definition add_node :: "string \<Rightarrow> string list \<Rightarrow> string list" where
  "add_node part order = (if part \<in> set order then order else order @ [part])"

definition parts_of :: "string \<Rightarrow> string \<Rightarrow> string list" where
  "parts_of sep path = filter (\<lambda>p. p \<noteq> []) (map trim (split_str sep path))"

fun chain_edges :: "string \<Rightarrow> string list \<Rightarrow> edge list" where
  \<comment> \<open>the label belongs on the last arrow\<close>
  "chain_edges label (a # b # ps) = \<lparr>e_from = a, e_to = b, e_label = (if ps = [] then label else [])\<rparr> # chain_edges label (b # ps)"
| "chain_edges label _ = []"

definition ends :: "string list \<Rightarrow> string option \<times> string option" where
  \<comment> \<open>\<open>parts[parts.length - 1]\<close> and \<open>parts[0]\<close>, \<^term>\<open>None\<close> for \<open>undefined\<close>\<close>
  "ends parts = (if parts = [] then (None, None) else (Some (last parts), Some (hd parts)))"

definition flow_line :: "string \<Rightarrow> graph \<Rightarrow> graph" where
  "flow_line line g =
     (let pieces = split_on (CHR '':'') line; path = hd pieces; label = trim (join_with '':'' (tl pieces))
      in if str_includes ''<-'' path then
           (let parts = parts_of ''<-'' path
            in g\<lparr>g_order := fold add_node parts (g_order g),
                 g_returns := g_returns g @ [\<lparr>r_from = fst (ends parts), r_to = snd (ends parts), r_label = label\<rparr>]\<rparr>)
         else
           (let parts = parts_of ''->'' path
            in if length parts < 2 then g
               else g\<lparr>g_order := fold add_node parts (g_order g), g_edges := g_edges g @ chain_edges label parts\<rparr>))"

definition read_flow :: "string list \<Rightarrow> graph" where
  "read_flow ls = fold flow_line ls \<lparr>g_order = [], g_edges = [], g_returns = []\<rparr>"

definition labelFor :: "graph \<Rightarrow> string \<Rightarrow> string \<Rightarrow> string" where
  "labelFor g a b =
     (case find (\<lambda>e. e_from e = a \<and> e_to e = b) (g_edges g) of None \<Rightarrow> [] | Some e \<Rightarrow> e_label e)"

definition node_box :: "string \<Rightarrow> string" where
  "node_box name = html ''<span class=~xk-dg__node~ data-tint=~'' @ tintFor name @ html ''~>'' @ escape4 name @ ''</span>''"

definition flow_pair :: "graph \<Rightarrow> string \<Rightarrow> string \<Rightarrow> string" where
  "flow_pair g prev name =
     (let label = labelFor g prev name;
          link = html ''<span class=~xk-dg__link~>'' @ ARROW_RIGHT
            @ (if label = [] then [] else html ''<span class=~xk-dg__link-label xk-mono~>'' @ escape4 label @ ''</span>'') @ ''</span>''
      in html ''<span class=~xk-dg__pair~>'' @ link @ node_box name @ ''</span>'')"

fun flow_chain :: "graph \<Rightarrow> string \<Rightarrow> string list \<Rightarrow> string" where
  \<comment> \<open>the boxes after the first\<close>
  "flow_chain g prev [] = []"
| "flow_chain g prev (name # ns) = flow_pair g prev name @ flow_chain g name ns"

definition shown_name :: "string option \<Rightarrow> string" where
  "shown_name n = (case n of None \<Rightarrow> ''undefined'' | Some s \<Rightarrow> s)"

definition flow_return :: "return_edge \<Rightarrow> string" where
  "flow_return e =
     html ''<div class=~xk-dg__return~>'' @ ARROW_LEFT @ html ''<span class=~xk-dg__return-label xk-mono~>''
     @ escape4 (if r_label e = [] then shown_name (r_from e) @ '' to '' @ shown_name (r_to e) else r_label e) @ ''</span></div>''"

definition flow :: "string \<Rightarrow> string" where
  "flow body =
     (let p = readLines body; g = read_flow (p_lines p)
      in case g_order g of
           [] \<Rightarrow> []
         | n # ns \<Rightarrow>
             frame ''flow'' p (html ''<div class=~xk-dg__chain~>'' @ node_box n @ flow_chain g n ns @ ''</div>''
               @ concat (map flow_return (g_returns g))))"

section \<open>Timeline, stack and compare\<close>

definition step_of :: "string \<Rightarrow> string \<times> string" where
  "step_of line = (let parts = cells line in (hd parts, join_with '' '' (tl parts)))"

definition step_item :: "nat \<Rightarrow> string \<times> string \<Rightarrow> string" where
  "step_item i st =
     html ''<li class=~xk-dg__step~><span class=~xk-dg__step-dot~ aria-hidden=~true~>'' @ nat_str (i + 1) @ ''</span>''
     @ html ''<span class=~xk-dg__step-key xk-mono~>'' @ escape4 (fst st) @ ''</span>''
     @ html ''<span class=~xk-dg__step-text~>'' @ escape4 (snd st) @ ''</span></li>''"

definition timeline_steps :: "parsed \<Rightarrow> (string \<times> string) list" where
  "timeline_steps p = filter (\<lambda>st. fst st \<noteq> []) (map step_of (p_lines p))"

definition timeline :: "string \<Rightarrow> string" where
  "timeline body =
     (let p = readLines body; steps = timeline_steps p
      in if steps = [] then []
         else frame ''timeline'' p (html ''<ol class=~xk-dg__steps~>''
                @ concat (map (\<lambda>(i, st). step_item i st) (zip [0..<length steps] steps)) @ ''</ol>''))"

definition layer_of :: "string \<Rightarrow> string \<times> string \<times> string" where
  \<comment> \<open>name, tint, text\<close>
  "layer_of line =
     (let parts = cells line; name = hd parts
      in if 3 \<le> length parts \<and> lower (parts ! 1) \<in> set TINTS
         then (name, lower (parts ! 1), join_with '' '' (drop 2 parts))
         else (name, tintFor name, join_with '' '' (tl parts)))"

definition layer_item :: "string \<times> string \<times> string \<Rightarrow> string" where
  "layer_item l =
     (case l of (name, tint, text) \<Rightarrow>
        html ''<li class=~xk-dg__layer~ data-tint=~'' @ tint @ html ''~><span class=~xk-dg__layer-rule~ aria-hidden=~true~></span>''
        @ html ''<span class=~xk-dg__layer-name xk-mono~>'' @ escape4 name @ ''</span>''
        @ html ''<span class=~xk-dg__layer-text~>'' @ escape4 text @ ''</span></li>'')"

definition stack_layers :: "parsed \<Rightarrow> (string \<times> string \<times> string) list" where
  "stack_layers p = filter (\<lambda>l. fst l \<noteq> []) (map layer_of (p_lines p))"

definition stack :: "string \<Rightarrow> string" where
  "stack body =
     (let p = readLines body; layers = stack_layers p
      in if layers = [] then []
         else frame ''stack'' p (html ''<ul class=~xk-dg__layers~>'' @ concat (map layer_item layers) @ ''</ul>''))"

definition cmp_row :: "string list \<Rightarrow> string" where
  "cmp_row row =
     html ''<div class=~xk-dg__cmp-row~><span class=~xk-dg__cmp-key~>'' @ escape4 (row ! 0) @ ''</span>''
     @ html ''<span class=~xk-dg__cmp-cell~ data-side=~left~>'' @ escape4 (row ! 1) @ ''</span>''
     @ html ''<span class=~xk-dg__cmp-cell~ data-side=~right~>'' @ escape4 (row ! 2) @ ''</span></div>''"

definition compare_rows :: "parsed \<Rightarrow> string list list" where
  "compare_rows p = filter (\<lambda>r. 3 \<le> length r) (map cells (tl (p_lines p)))"

definition compare_html :: "string \<Rightarrow> string" where
  "compare_html body =
     (let p = readLines body
      in if p_lines p = [] then []
         else
           let head = cells (hd (p_lines p));
               left = hd head;
               right = (if 1 < length head then head ! 1 else ''B'');
               rows = compare_rows p
           in if rows = [] then []
              else frame ''compare'' p
                (html ''<div class=~xk-dg__cmp~>''
                 @ html ''<div class=~xk-dg__cmp-row xk-dg__cmp-row--head~><span class=~xk-dg__cmp-key~></span>''
                 @ html ''<span class=~xk-dg__cmp-head xk-mono~ data-side=~left~>'' @ escape4 left @ ''</span>''
                 @ html ''<span class=~xk-dg__cmp-head xk-mono~ data-side=~right~>'' @ escape4 right @ ''</span></div>''
                 @ concat (map cmp_row rows) @ ''</div>''))"

definition renderBlock :: "string \<Rightarrow> string \<Rightarrow> string" where
  "renderBlock kind body =
     (if kind = ''xk-flow'' then flow body
      else if kind = ''xk-timeline'' then timeline body
      else if kind = ''xk-stack'' then stack body
      else if kind = ''xk-compare'' then compare_html body
      else [])"

section \<open>Counting markup\<close>

definition lt :: "string \<Rightarrow> nat" where
  "lt s = count_list s (CHR ''<'')"

lemma lt_simps [simp]:
  "lt [] = 0" "lt (c # s) = (if c = CHR ''<'' then Suc (lt s) else lt s)" "lt (s @ t) = lt s + lt t"
  by (simp_all add: lt_def count_list_append)

lemma lt_html [simp]: "lt (html s) = lt s"
  by (induction s) (auto simp: html_def QUOT_def)

lemma lt_escape4 [simp]: "lt (escape4 s) = 0"
  by (simp add: lt_def escape4_count)

lemma lt_join: "lt (join_with sep ps) = sum_list (map lt ps) + (length ps - 1) * lt sep"
  by (induction sep ps rule: join_with.induct) auto

lemma lt_concat: "lt (concat ps) = sum_list (map lt ps)"
  by (induction ps) auto

lemma lt_digits [simp]: "lt (nat_str n) = 0"
proof -
  have "CHR ''<'' \<noteq> digit_char d" if "d < 10" for d
  proof
    assume "CHR ''<'' = digit_char d"
    then have "(of_char (CHR ''<'') :: nat) = of_char (digit_char d)" by simp
    then show False using that by (simp add: digit_char_def of_char_of)
  qed
  then have "CHR ''<'' \<notin> set (nat_str n)" using nat_str_digits [of n] by auto
  then show ?thesis by (simp add: lt_def count_list_0_iff)
qed

lemma lt_tintFor [simp]: "lt (tintFor name) = 0"
  by (simp add: tintFor_def Let_def)

lemma lt_tint: "t \<in> set TINTS \<Longrightarrow> lt t = 0"
  by (auto simp: TINTS_def)

lemma frame_lt:
  "lt (frame kind p inner) = lt kind + lt inner + 4 + (if p_title p = [] then 0 else 2) + (if p_notes p = [] then 0 else 2)"
proof -
  have "sum_list (map lt (map escape4 ns)) = 0" for ns by (induction ns) auto
  then have "lt (join_with '' '' (map escape4 ns)) = 0" for ns by (simp add: lt_join)
  then show ?thesis by (simp add: frame_def Let_def)
qed

lemma sum_list_const: "(\<And>x. x \<in> set xs \<Longrightarrow> f x = (c::nat)) \<Longrightarrow> sum_list (map f xs) = c * length xs"
  by (induction xs) auto

lemma step_item_lt: "lt (step_item i st) = 8"
  by (simp add: step_item_def)

lemma layer_item_lt: "lt (layer_item (layer_of line)) = 8"
  by (simp add: layer_item_def layer_of_def Let_def lt_tint)

lemma cmp_row_lt: "lt (cmp_row row) = 8"
  by (simp add: cmp_row_def)

lemma node_box_lt: "lt (node_box n) = 2"
  by (simp add: node_box_def)

lemma arrows_lt [simp]: "lt ARROW_RIGHT = 3" "lt ARROW_LEFT = 3"
  by (simp_all add: ARROW_RIGHT_def ARROW_LEFT_def)

lemma flow_pair_lt: "lt (flow_pair g a b) = 9 + (if labelFor g a b = [] then 0 else 2)"
  by (simp add: flow_pair_def Let_def node_box_lt)

lemma flow_return_lt: "lt (flow_return e) = 7"
  by (simp add: flow_return_def)

section \<open>The graph of a flow\<close>

definition graph_ok :: "graph \<Rightarrow> bool" where
  \<comment> \<open>every node is drawn once, and every edge and every return joins drawn nodes\<close>
  "graph_ok g \<longleftrightarrow> distinct (g_order g)
     \<and> list_all (\<lambda>e. e_from e \<in> set (g_order g) \<and> e_to e \<in> set (g_order g)) (g_edges g)
     \<and> list_all (\<lambda>e. (\<forall>a. r_from e = Some a \<longrightarrow> a \<in> set (g_order g)) \<and> (\<forall>a. r_to e = Some a \<longrightarrow> a \<in> set (g_order g))) (g_returns g)"

lemma fold_add_node:
  "set (fold add_node ps o0) = set o0 \<union> set ps" "distinct o0 \<Longrightarrow> distinct (fold add_node ps o0)"
  by (induction ps arbitrary: o0) (auto simp: add_node_def)

lemma chain_edges_nodes: "e \<in> set (chain_edges label ps) \<Longrightarrow> e_from e \<in> set ps \<and> e_to e \<in> set ps"
  by (induction label ps rule: chain_edges.induct) auto

lemma ends_nodes: "fst (ends ps) = Some a \<Longrightarrow> a \<in> set ps" "snd (ends ps) = Some a \<Longrightarrow> a \<in> set ps"
  by (auto simp: ends_def split: if_splits)

lemma flow_line_ok: "graph_ok g \<Longrightarrow> graph_ok (flow_line line g)"
  by (auto simp: graph_ok_def flow_line_def Let_def fold_add_node list_all_iff dest: chain_edges_nodes ends_nodes)

lemma read_flow_ok: "graph_ok (read_flow ls)"
proof -
  have "graph_ok g \<Longrightarrow> graph_ok (fold flow_line ls g)" for g
    by (induction ls arbitrary: g) (auto simp: flow_line_ok)
  then show ?thesis by (simp add: read_flow_def graph_ok_def)
qed

end
