(* ===== verification/Corpus.thy ===== *)
theory Corpus
  imports TextLines
begin

text \<open>
  \<open>web/src/lib/docs.js\<close>: the index of the documentation, its heading slugs, the order of the documents and the
  search.  The modules that the bundler globs are an argument (folder, path and source of each file), and so
  is \<open>localeCompare\<close>, as the relation \<open>le\<close>.

  The lemmas say when slugs are unique, that neighbours are each other's neighbours, and that another search
  term narrows a search.
\<close>

definition FOLDERS :: "string list" where
  "FOLDERS = [''papers'', ''potential'', ''x-koin-beta'']"

record folder_meta = fm_label :: string  fm_blurb :: string  fm_order :: string

definition FOLDER_META :: "(string \<times> folder_meta) list" where
  "FOLDER_META =
    [(''papers'', \<lparr>fm_label = ''Papers'',
       fm_blurb = ''The whitepaper set, from the concept and the market through the protocol, the hardware and the roadmap.'',
       fm_order = ''Start with 00. It gives the shortest path through the set for an investor, an engineer, an operator, a regulator or a manufacturer.''\<rparr>),
     (''potential'', \<lparr>fm_label = ''Potential'',
       fm_blurb = ''What the same mesh is worth outside a Nairobi flat: farms, estates, market hubs, schools, relief corridors, matatu stages.'',
       fm_order = ''Any order. Each case stands alone, with its own hardware, its own money and its own open questions.''\<rparr>),
     (''x-koin-beta'', \<lparr>fm_label = ''Beta board'',
       fm_blurb = ''One board instead of a kit of modules: the schematic, the outline and what it costs to build.'',
       fm_order = ''Read 00 for the idea, 01 and 02 for the electronics, then 03 and 04 for the factory and the money.''\<rparr>)]"

section \<open>Slugs\<close>

definition drop_suffix :: "string \<Rightarrow> string \<Rightarrow> string" where
  "drop_suffix p s = (if ends_with p s then take (length s - length p) s else s)"

definition toSlug :: "string \<Rightarrow> string" where
  "toSlug path =
     (let tail = (case index_of ''/docs/'' path of None \<Rightarrow> path | Some i \<Rightarrow> drop (i + 6) path)
      in drop_suffix ''.md'' tail)"

definition slug_unit :: "char \<Rightarrow> bool" where
  "slug_unit c \<longleftrightarrow> word_unit c \<or> c = CHR ''-'' \<or> c = CHR '' ''"

fun dash_spaces :: "bool \<Rightarrow> string \<Rightarrow> string" where
  \<comment> \<open>\<open>replace(/\s+/g, '-')\<close>; the flag: the previous character was white space\<close>
  "dash_spaces w [] = []"
| "dash_spaces w (c # s) = (if is_ws c then (if w then [] else ''-'') @ dash_spaces True s else c # dash_spaces False s)"

definition slugifyHeading :: "string \<Rightarrow> string" where
  "slugifyHeading text = dash_spaces False (filter slug_unit (lower (trim text)))"

definition slug_base :: "string \<Rightarrow> string" where
  "slug_base text = (let s = slugifyHeading text in if s = [] then ''section'' else s)"

type_synonym seen = "(string \<times> nat) list"

definition slugger :: "string \<Rightarrow> seen \<Rightarrow> string \<times> seen" where
  \<comment> \<open>one call of the function that \<open>makeSlugger\<close> answers\<close>
  "slugger text seen =
     (let base = slug_base text; count = get_or 0 seen base
      in (if count = 0 then base else base @ ''-'' @ nat_str count, AList.update base (count + 1) seen))"

fun slugs :: "seen \<Rightarrow> string list \<Rightarrow> string list" where
  "slugs seen [] = []"
| "slugs seen (t # ts) = (let (s, seen') = slugger t seen in s # slugs seen' ts)"

section \<open>Headings\<close>

function replace_matches :: "(string \<Rightarrow> (string \<times> string) option) \<Rightarrow> string \<Rightarrow> string" where
  \<comment> \<open>a global regular expression whose match is replaced by its group; a matcher answers the group and the rest\<close>
  "replace_matches m [] = []"
| "replace_matches m (c # s) =
     (case m (c # s) of
        Some (g, r) \<Rightarrow> if length r < length (c # s) then g @ replace_matches m r else c # replace_matches m s
      | None \<Rightarrow> c # replace_matches m s)"
  by pat_completeness auto
termination by (relation "measure (\<lambda>(m, s). length s)") auto

definition delimited :: "string \<Rightarrow> char \<Rightarrow> string \<Rightarrow> string \<Rightarrow> (string \<times> string) option" where
  \<comment> \<open>\<open>open ([^d]*) close\<close>\<close>
  "delimited opening d closing s =
     (if starts_with opening s then
        (let r = drop (length opening) s; g = takeWhile (\<lambda>c. c \<noteq> d) r; q = dropWhile (\<lambda>c. c \<noteq> d) r
         in if starts_with closing q then Some (g, drop (length closing) q) else None)
      else None)"

definition link_match :: "string \<Rightarrow> (string \<times> string) option" where
  \<comment> \<open>\<open>\[([^\]]*)\]\([^)]*\)\<close>\<close>
  "link_match s =
     (case delimited ''['' (CHR '']'') ''](''  s of
        None \<Rightarrow> None
      | Some (g, r) \<Rightarrow>
          (case dropWhile (\<lambda>c. c \<noteq> CHR '')'') r of [] \<Rightarrow> None | _ # q \<Rightarrow> Some (g, q)))"

definition plainText :: "string \<Rightarrow> string" where
  "plainText md =
     trim (replace_matches link_match
       (replace_matches (delimited ''*'' (CHR ''*'') ''*'')
         (replace_matches (delimited ''**'' (CHR ''*'') ''**'')
           (replace_matches (delimited ''`'' (CHR ''`'') ''`'') md))))"

record heading = h_level :: nat  h_text :: string  h_id :: string

record scan_state =
  sc_title :: string
  sc_headings :: "heading list"
  sc_words :: nat
  sc_fenced :: bool
  sc_seen :: seen

definition fence_line :: "string \<Rightarrow> bool" where
  \<comment> \<open>\<open>/^\s*(```|~~~)/\<close>\<close>
  "fence_line line = (let r = dropWhile is_ws line in starts_with ''```'' r \<or> starts_with ''~~~'' r)"

definition heading_line :: "string \<Rightarrow> (nat \<times> string) option" where
  \<comment> \<open>\<open>/^(#{1,3})\s+(.*)$/\<close>: the level and the text\<close>
  "heading_line line =
     (let n = length (takeWhile (\<lambda>c. c = CHR ''#'') line); r = drop n line; t = dropWhile is_ws r
      in if 1 \<le> n \<and> n \<le> 3 \<and> r \<noteq> [] \<and> is_ws (hd r) \<and> CR \<notin> set t \<and> LF \<notin> set t then Some (n, t) else None)"

definition scan_line :: "string \<Rightarrow> scan_state \<Rightarrow> scan_state" where
  "scan_line line st =
     (if fence_line line then st\<lparr>sc_fenced := \<not> sc_fenced st\<rparr>
      else if sc_fenced st then st
      else case heading_line line of
             Some (level, raw) \<Rightarrow>
               (let text = plainText raw
                in if level = 1 then (if sc_title st = [] then st\<lparr>sc_title := text\<rparr> else st)
                   else let (id, seen) = slugger text (sc_seen st)
                        in st\<lparr>sc_headings := sc_headings st @ [\<lparr>h_level = level, h_text = text, h_id = id\<rparr>], sc_seen := seen\<rparr>)
           | None \<Rightarrow> st\<lparr>sc_words := sc_words st + length (ws_words line)\<rparr>)"

definition scan :: "string \<Rightarrow> scan_state" where
  "scan source =
     fold scan_line (split_lines source) \<lparr>sc_title = [], sc_headings = [], sc_words = 0, sc_fenced = False, sc_seen = []\<rparr>"

definition numericLabel :: "string \<Rightarrow> string" where
  "numericLabel name =
     (let ds = takeWhile is_digit name; r = dropWhile is_digit name
      in if ds \<noteq> [] \<and> r \<noteq> [] \<and> (hd r = CHR ''-'' \<or> hd r = CHR ''.'') then ds else [])"

definition stripPrefix :: "string \<Rightarrow> string" where
  "stripPrefix title =
     (let r = dropWhile is_digit title
      in trim (if takeWhile is_digit title \<noteq> [] \<and> take 1 r = ''.'' then dropWhile is_ws (drop 1 r) else title))"

section \<open>The index\<close>

record doc =
  doc_slug :: string
  doc_folder :: string
  doc_stem :: string
  fileName :: string
  sourcePath :: string
  doc_label :: string
  doc_title :: string
  fullTitle :: string
  doc_headings :: "heading list"
  doc_words :: nat
  minutes :: int
  baseUrl :: string
  doc_source :: string

definition or_else :: "string \<Rightarrow> string \<Rightarrow> string" where
  \<comment> \<open>\<open>a || b\<close>\<close>
  "or_else a b = (if a = [] then b else a)"

definition make_doc :: "string \<Rightarrow> string \<times> string \<Rightarrow> doc" where
  "make_doc folder entry =
     (let slug = toSlug (fst entry); segments = split_on (CHR ''/'') slug; stem = last segments; sc = scan (snd entry)
      in \<lparr>doc_slug = slug, doc_folder = folder, doc_stem = stem, fileName = stem @ ''.md'',
          sourcePath = ''docs/'' @ slug @ ''.md'', doc_label = numericLabel stem,
          doc_title = or_else (stripPrefix (sc_title sc)) stem, fullTitle = or_else (sc_title sc) stem,
          doc_headings = sc_headings sc, doc_words = sc_words sc,
          minutes = max 1 (js_round (of_nat (sc_words sc) / 220)),
          baseUrl = ''/docs/'' @ join_with ''/'' (butlast segments) @ ''/'', doc_source = snd entry\<rparr>)"

definition folder_rank :: "string \<Rightarrow> nat" where
  "folder_rank f = length (takeWhile (\<lambda>g. g \<noteq> f) FOLDERS)"

definition doc_before :: "(string \<Rightarrow> string \<Rightarrow> bool) \<Rightarrow> doc \<Rightarrow> doc \<Rightarrow> bool" where
  \<comment> \<open>the comparator answers at most 0\<close>
  "doc_before le a b =
     (if doc_folder a \<noteq> doc_folder b then folder_rank (doc_folder a) \<le> folder_rank (doc_folder b)
      else le (fileName a) (fileName b))"

fun insert_doc :: "(doc \<Rightarrow> doc \<Rightarrow> bool) \<Rightarrow> doc \<Rightarrow> doc list \<Rightarrow> doc list" where
  "insert_doc before d [] = [d]"
| "insert_doc before d (e # es) = (if before d e then d # e # es else e # insert_doc before d es)"

definition sort_docs :: "(doc \<Rightarrow> doc \<Rightarrow> bool) \<Rightarrow> doc list \<Rightarrow> doc list" where
  \<comment> \<open>\<open>Array.prototype.sort\<close> is stable\<close>
  "sort_docs before ds = foldr (insert_doc before) ds []"

definition buildIndex :: "(string \<Rightarrow> string \<Rightarrow> bool) \<Rightarrow> (string \<times> (string \<times> string) list) list \<Rightarrow> doc list" where
  "buildIndex le modules =
     sort_docs (doc_before le)
       (concat (map (\<lambda>f. map (make_doc f) (get_or [] modules f)) FOLDERS))"

definition findDoc :: "doc list \<Rightarrow> string \<Rightarrow> doc option" where
  "findDoc docs slug = find (\<lambda>d. doc_slug d = slug) docs"

definition docsByFolder :: "doc list \<Rightarrow> (string \<times> folder_meta \<times> doc list) list" where
  "docsByFolder docs =
     map (\<lambda>f. (f, (case map_of FOLDER_META f of Some m \<Rightarrow> m | None \<Rightarrow> \<lparr>fm_label = f, fm_blurb = [], fm_order = []\<rparr>),
               filter (\<lambda>d. doc_folder d = f) docs))
       (filter (\<lambda>f. list_ex (\<lambda>d. doc_folder d = f) docs) FOLDERS)"

definition find_index :: "doc list \<Rightarrow> string \<Rightarrow> nat option" where
  "find_index docs slug =
     (let i = length (takeWhile (\<lambda>d. doc_slug d \<noteq> slug) docs) in if i < length docs then Some i else None)"

definition neighbours :: "doc list \<Rightarrow> string \<Rightarrow> doc option \<times> doc option" where
  "neighbours docs slug =
     (case find_index docs slug of
        None \<Rightarrow> (None, None)
      | Some i \<Rightarrow> (if i > 0 then Some (docs ! (i - 1)) else None, if i < length docs - 1 then Some (docs ! (i + 1)) else None))"

record hit = hit_doc :: doc  titleHit :: bool  hit_headings :: "heading list"

definition every_term :: "string list \<Rightarrow> string \<Rightarrow> bool" where
  "every_term terms text \<longleftrightarrow> list_all (\<lambda>w. str_includes w text) terms"

definition search_doc :: "string list \<Rightarrow> doc \<Rightarrow> hit option" where
  "search_doc terms d =
     (let title = lower (doc_label d @ '' '' @ doc_title d);
          hits = filter (\<lambda>h. every_term terms (lower (h_text h))) (doc_headings d);
          th = every_term terms title
      in if \<not> th \<and> hits = [] then None else Some \<lparr>hit_doc = d, titleHit = th, hit_headings = take 5 hits\<rparr>)"

definition search_docs :: "doc list \<Rightarrow> string \<Rightarrow> hit list" where
  "search_docs docs query =
     (let terms = ws_words (lower query) in if terms = [] then [] else List.map_filter (search_doc terms) docs)"

section \<open>Unique slugs\<close>

lemma slugs_count:
  \<comment> \<open>the slug of a heading is its base and the number of earlier headings with the same base\<close>
  "slugs seen ts = map (\<lambda>i. let b = slug_base (ts ! i); k = get_or 0 seen b + count_list (map slug_base (take i ts)) b
     in if k = 0 then b else b @ ''-'' @ nat_str k) [0..<length ts]"
proof (induction ts arbitrary: seen)
  case (Cons t ts)
  let ?b = "slug_base t"
  have s: "slugger t seen = (if get_or 0 seen ?b = 0 then ?b else ?b @ ''-'' @ nat_str (get_or 0 seen ?b),
      AList.update ?b (get_or 0 seen ?b + 1) seen)"
    by (simp add: slugger_def Let_def)
  have u: "[0..<length (t # ts)] = 0 # map Suc [0..<length ts]"
    by (simp only: list.size map_Suc_upt) (simp add: upt_conv_Cons del: upt_Suc)
  show ?case
    unfolding u by (simp add: s Cons.IH Let_def del: upt_Suc)
qed simp

definition bases_apart :: "string list \<Rightarrow> bool" where
  \<comment> \<open>no base is another base followed by a dash and a number\<close>
  "bases_apart ts \<longleftrightarrow> (\<forall>a\<in>set ts. \<forall>b\<in>set ts. \<forall>k. slug_base a \<noteq> slug_base b @ ''-'' @ nat_str k)"

lemma suffix_inject:
  assumes "a @ ''-'' @ nat_str k = b @ ''-'' @ nat_str l"
  shows "a = b \<and> k = l"
proof -
  have dash: "CHR ''-'' \<notin> set (nat_str n)" for n
  proof -
    have "CHR ''-'' \<noteq> digit_char d" if "d < 10" for d
    proof
      assume "CHR ''-'' = digit_char d"
      then have "(of_char (CHR ''-'') :: nat) = of_char (digit_char d)" by simp
      then show False using that by (simp add: digit_char_def of_char_of)
    qed
    then show ?thesis using nat_str_digits [of n] by auto
  qed
  have tw: "takeWhile (\<lambda>c. c \<noteq> CHR ''-'') (rev (x @ ''-'' @ nat_str n)) = rev (nat_str n)" for x n
  proof -
    have "rev (x @ ''-'' @ nat_str n) = rev (nat_str n) @ CHR ''-'' # rev x" by simp
    then show ?thesis using dash [of n] by (simp only:) (subst takeWhile_append2, auto)
  qed
  have "rev (nat_str k) = rev (nat_str l)" using tw [of a k] tw [of b l] assms by metis
  then have "k = l" by (simp add: nat_str_inject)
  with assms show ?thesis by simp
qed

lemma count_take_less:
  assumes "i < j" "j \<le> length xs" "xs ! i = x"
  shows "count_list (take i xs) x < count_list (take j xs) x"
proof -
  have "take j xs = take i xs @ take (j - i) (drop i xs)" using assms(1) by (simp flip: take_add)
  also have "drop i xs = x # drop (Suc i) xs" using assms Cons_nth_drop_Suc [of i xs] by simp
  also have "take (j - i) (x # drop (Suc i) xs) = x # take (j - Suc i) (drop (Suc i) xs)"
    using assms(1) by (subst take_Cons') simp
  finally show ?thesis by (simp add: count_list_append)
qed

lemma slugs_distinct:
  assumes "bases_apart ts"
  shows "distinct (slugs [] ts)"
proof -
  define b where "b i = slug_base (ts ! i)" for i
  define k where "k i = count_list (map slug_base (take i ts)) (b i)" for i
  define f where "f i = (if k i = 0 then b i else b i @ ''-'' @ nat_str (k i))" for i
  have eq: "slugs [] ts = map f [0..<length ts]"
    by (subst slugs_count) (simp add: f_def k_def b_def Let_def get_or_def)
  have "f i \<noteq> f j" if ij: "i < j" "j < length ts" for i j
  proof
    assume e: "f i = f j"
    have mem: "ts ! i \<in> set ts" "ts ! j \<in> set ts" using ij by auto
    have apart: "b i \<noteq> b j @ ''-'' @ nat_str n" "b j \<noteq> b i @ ''-'' @ nat_str n" for n
      using assms mem unfolding bases_apart_def b_def by blast+
    have same: "k i < k j" if "b i = b j"
      using count_take_less [of i j "map slug_base ts" "b i"] ij that by (simp add: k_def b_def take_map)
    show False
    proof (cases "k i = 0"; cases "k j = 0")
      assume "k i = 0" "k j = 0"
      then show False using e same by (simp add: f_def)
    next
      assume "k i = 0" "k j \<noteq> 0"
      then show False using e apart(1) [of "k j"] by (simp add: f_def)
    next
      assume "k i \<noteq> 0" "k j = 0"
      then show False using e apart(2) [of "k i"] by (simp add: f_def)
    next
      assume "k i \<noteq> 0" "k j \<noteq> 0"
      then have "b i @ ''-'' @ nat_str (k i) = b j @ ''-'' @ nat_str (k j)" using e by (simp add: f_def)
      from suffix_inject [OF this] show False using same by simp
    qed
  qed
  then have "inj_on f {0..<length ts}" by (intro linorder_inj_onI) auto
  then show ?thesis by (simp add: eq distinct_map)
qed

lemma slugs_clash: "slugs [] [''a'', ''a-1'', ''a''] = [''a'', ''a-1'', ''a-1'']"
  \<comment> \<open>without the condition two headings can share an anchor\<close>
  by code_simp

definition seen_after :: "seen \<Rightarrow> string list \<Rightarrow> seen" where
  "seen_after seen ts = fold (\<lambda>t s. snd (slugger t s)) ts seen"

lemma slugs_snoc: "slugs seen (ts @ [t]) = slugs seen ts @ [fst (slugger t (seen_after seen ts))]"
  by (induction ts arbitrary: seen) (simp_all add: seen_after_def split_beta)

definition ids_ok :: "scan_state \<Rightarrow> bool" where
  "ids_ok st \<longleftrightarrow> map h_id (sc_headings st) = slugs [] (map h_text (sc_headings st))
     \<and> sc_seen st = seen_after [] (map h_text (sc_headings st))"

lemma scan_line_ids: "ids_ok st \<Longrightarrow> ids_ok (scan_line line st)"
  by (auto simp: ids_ok_def scan_line_def Let_def slugs_snoc seen_after_def split: option.splits prod.splits)

lemma scan_ids: "map h_id (sc_headings (scan source)) = slugs [] (map h_text (sc_headings (scan source)))"
proof -
  have "ids_ok st \<Longrightarrow> ids_ok (fold scan_line ls st)" for ls st
    by (induction ls arbitrary: st) (auto simp: scan_line_ids)
  then have "ids_ok (scan source)" by (simp add: scan_def ids_ok_def seen_after_def)
  then show ?thesis by (simp add: ids_ok_def)
qed

section \<open>Neighbours and search\<close>

lemma takeWhile_index:
  assumes "distinct (map f xs)" "i < length xs"
  shows "takeWhile (\<lambda>x. f x \<noteq> f (xs ! i)) xs = take i xs"
proof (rule takeWhile_eq_take_P_nth)
  fix j assume "j < i" "j < length xs"
  then show "f (xs ! j) \<noteq> f (xs ! i)" using assms by (metis distinct_conv_nth length_map nth_map order_less_irrefl)
qed (use assms(2) in simp)

lemma find_index_nth:
  assumes "distinct (map doc_slug docs)" "i < length docs"
  shows "find_index docs (doc_slug (docs ! i)) = Some i"
  using takeWhile_index [OF assms] assms(2) by (simp add: find_index_def Let_def)

lemma find_index_Some: "find_index docs slug = Some i \<Longrightarrow> i < length docs \<and> doc_slug (docs ! i) = slug"
  using nth_length_takeWhile [of "\<lambda>d. doc_slug d \<noteq> slug" docs] by (auto simp: find_index_def Let_def split: if_splits)

lemma every_term_append: "every_term (ws @ vs) t \<longleftrightarrow> every_term ws t \<and> every_term vs t"
  by (simp add: every_term_def)

lemma search_doc_append:
  "search_doc (ws @ vs) d \<noteq> None \<Longrightarrow> search_doc ws d \<noteq> None"
  by (auto simp: search_doc_def Let_def every_term_append filter_empty_conv split: if_splits)

lemma ws_words_acc_append:
  "ws_words_acc acc (s @ CHR '' '' # t) = ws_words_acc acc s @ ws_words_acc [] t"
  by (induction acc s rule: ws_words_acc.induct) (auto simp: is_ws_def)

lemma ws_words_append: "ws_words (s @ '' '' @ t) = ws_words s @ ws_words t"
  using ws_words_acc_append [of "[]" s t] by (simp add: ws_words_def)

lemma lower_append: "lower (s @ t) = lower s @ lower t"
  by (simp add: lower_def)

lemma lower_space: "lower '' '' = '' ''"
  by (simp add: lower_def lower_char_def is_upper_def)

lemma search_hit: "h \<in> set (search_docs docs q) \<longleftrightarrow>
    ws_words (lower q) \<noteq> [] \<and> (\<exists>d\<in>set docs. search_doc (ws_words (lower q)) d = Some h)"
  by (force simp: search_docs_def Let_def List.map_filter_def)

section \<open>The order of the index\<close>

definition collation :: "(string \<Rightarrow> string \<Rightarrow> bool) \<Rightarrow> bool" where
  \<comment> \<open>\<open>localeCompare\<close> answering at most 0 is a total preorder\<close>
  "collation le \<longleftrightarrow> (\<forall>a b. le a b \<or> le b a) \<and> (\<forall>a b c. le a b \<longrightarrow> le b c \<longrightarrow> le a c)"

lemma collationD: "collation le \<Longrightarrow> le a b \<or> le b a" "\<lbrakk>collation le; le a b; le b c\<rbrakk> \<Longrightarrow> le a c"
  unfolding collation_def by blast+

lemma insert_doc_set: "set (insert_doc before d es) = insert d (set es)" "length (insert_doc before d es) = Suc (length es)"
  by (induction es) auto

lemma folder_rank_inj: "\<lbrakk>f \<in> set FOLDERS; folder_rank f = folder_rank g\<rbrakk> \<Longrightarrow> f = g"
  by (auto simp: folder_rank_def FOLDERS_def split: if_splits)

lemma doc_before_trans:
  assumes "collation le" "doc_before le a b" "doc_before le b c" "\<And>d. d \<in> {a, b, c} \<Longrightarrow> doc_folder d \<in> set FOLDERS"
  shows "doc_before le a c"
proof (cases "doc_folder a = doc_folder c")
  case True
  then show ?thesis
    using assms(2-4) collationD(2) [OF assms(1)] folder_rank_inj [of "doc_folder a" "doc_folder b"]
    by (auto simp: doc_before_def split: if_splits)
next
  case False
  then show ?thesis using assms(2,3) by (auto simp: doc_before_def split: if_splits)
qed

lemma doc_before_total: "collation le \<Longrightarrow> doc_before le a b \<or> doc_before le b a"
  using collationD(1) by (auto simp: doc_before_def)

lemma insert_doc_sorted:
  assumes "collation le" "sorted_wrt (doc_before le) es" "\<And>d. d \<in> insert x (set es) \<Longrightarrow> doc_folder d \<in> set FOLDERS"
  shows "sorted_wrt (doc_before le) (insert_doc (doc_before le) x es)"
  using assms(2,3)
proof (induction es)
  case (Cons e es)
  show ?case
  proof (cases "doc_before le x e")
    case True
    then show ?thesis using Cons.prems by (auto intro: doc_before_trans [OF assms(1) True])
  next
    case False
    then have "doc_before le e x" using doc_before_total [OF assms(1)] by blast
    then show ?thesis using Cons False by (auto simp: insert_doc_set)
  qed
qed simp

lemma sort_docs_sorted:
  assumes "collation le" "\<And>d. d \<in> set ds \<Longrightarrow> doc_folder d \<in> set FOLDERS"
  shows "sorted_wrt (doc_before le) (sort_docs (doc_before le) ds) \<and> set (sort_docs (doc_before le) ds) = set ds
    \<and> length (sort_docs (doc_before le) ds) = length ds"
  using assms(2)
proof (induction ds)
  case (Cons d ds)
  then have ih: "sorted_wrt (doc_before le) (sort_docs (doc_before le) ds)" "set (sort_docs (doc_before le) ds) = set ds"
    "length (sort_docs (doc_before le) ds) = length ds" by auto
  have "sort_docs (doc_before le) (d # ds) = insert_doc (doc_before le) d (sort_docs (doc_before le) ds)"
    by (simp add: sort_docs_def)
  then show ?case using ih Cons.prems insert_doc_sorted [OF assms(1) ih(1), of d] by (auto simp: insert_doc_set)
qed (simp add: sort_docs_def)

lemma made_folders: "d \<in> set (concat (map (\<lambda>f. map (make_doc f) (get_or [] modules f)) FOLDERS)) \<Longrightarrow> doc_folder d \<in> set FOLDERS"
  by (auto simp: make_doc_def Let_def)

lemma find_in_distinct:
  "\<lbrakk>distinct (map doc_slug ds); d \<in> set ds\<rbrakk> \<Longrightarrow> findDoc ds (doc_slug d) = Some d"
  unfolding findDoc_def by (induction ds) auto

end
