(* ===== verification/Reflow.thy ===== *)
theory Reflow
  imports TextLines
begin

text \<open>
  \<open>scripts/reflow-markdown.mjs\<close>: unwrapping hard-wrapped paragraphs of markdown.  The regular expressions are
  predicates on a line, \<open>reflow\<close> is a loop over the remaining lines with the lines written so far.  The walk over
  the files of the repository and the command line are not modelled.

  The lemmas show that the program changes white space and quote markers only, and never adds a line.
\<close>

section \<open>Kinds of lines\<close>

definition indent3 :: "string \<Rightarrow> string option" where
  \<comment> \<open>\<open>^\s{0,3}\<close> in front of a character that is not white space: the line after it\<close>
  "indent3 line = (if length (takeWhile is_ws line) \<le> 3 then Some (dropWhile is_ws line) else None)"

definition FENCE :: "string \<Rightarrow> string option" where
  "FENCE line =
     (let r = dropWhile is_ws line
      in if starts_with ''```'' r then Some ''```'' else if starts_with ''~~~'' r then Some ''~~~'' else None)"

definition HEADING :: "string \<Rightarrow> bool" where
  "HEADING line =
     (case indent3 line of
        None \<Rightarrow> False
      | Some r \<Rightarrow>
          (let n = length (takeWhile (\<lambda>c. c = CHR ''#'') r); q = drop n r
           in 1 \<le> n \<and> n \<le> 6 \<and> (q = [] \<or> is_ws (hd q))))"

definition LIST :: "string \<Rightarrow> bool" where
  "LIST line =
     (let r = dropWhile is_ws line; ds = takeWhile is_digit r;
          after = (if r \<noteq> [] \<and> hd r \<in> set ''-*+'' then tl r
                   else if ds \<noteq> [] \<and> drop (length ds) r \<noteq> [] \<and> hd (drop (length ds) r) \<in> set ''.)''
                   then tl (drop (length ds) r) else [])
      in after \<noteq> [] \<and> is_ws (hd after))"

definition QUOTE :: "string \<Rightarrow> bool" where
  "QUOTE line = (case indent3 line of None \<Rightarrow> False | Some r \<Rightarrow> take 1 r = ''>'')"

definition TABLE :: "string \<Rightarrow> bool" where
  "TABLE line \<longleftrightarrow> take 1 (dropWhile is_ws line) = ''|''"

definition RULE :: "string \<Rightarrow> bool" where
  "RULE line =
     (case indent3 line of
        None \<Rightarrow> False
      | Some r \<Rightarrow>
          r \<noteq> [] \<and> hd r \<in> set ''-*_'' \<and> list_all (\<lambda>c. c = hd r \<or> is_ws c) r \<and> 3 \<le> count_list r (hd r))"

definition HTML :: "string \<Rightarrow> bool" where
  "HTML line =
     (case indent3 line of
        Some (a # b # r) \<Rightarrow> a = CHR ''<'' \<and> (is_upper b \<or> is_lower b \<or> b \<in> set ''!/'')
      | _ \<Rightarrow> False)"

definition INDENTED_CODE :: "string \<Rightarrow> bool" where
  "INDENTED_CODE line \<longleftrightarrow> starts_with ''    '' line \<or> starts_with [CHR 0x09] line"

definition HARD_BREAK :: "string \<Rightarrow> bool" where
  "HARD_BREAK line \<longleftrightarrow> ends_with ''  '' line \<or> ends_with [CHR 0x5C] line"

definition SETEXT :: "string \<Rightarrow> bool" where
  "SETEXT line =
     (case indent3 line of
        None \<Rightarrow> False
      | Some r \<Rightarrow> r \<noteq> [] \<and> hd r \<in> set ''=-'' \<and> list_all is_ws (dropWhile (\<lambda>c. c = hd r) r))"

definition isText :: "string \<Rightarrow> bool" where
  "isText line \<longleftrightarrow> trim line \<noteq> [] \<and> \<not> HEADING line \<and> \<not> LIST line \<and> \<not> QUOTE line \<and> \<not> TABLE line \<and> \<not> RULE line
     \<and> \<not> HTML line \<and> FENCE line = None \<and> \<not> SETEXT line"

section \<open>The loop\<close>

definition rtrim :: "string \<Rightarrow> string" where
  "rtrim s = rev (dropWhile is_ws (rev s))"

definition quote_body :: "string \<Rightarrow> string" where
  \<comment> \<open>\<open>replace(/^\s{0,3}>\s?/, '')\<close> on a line that matches \<open>QUOTE\<close>\<close>
  "quote_body line =
     (case indent3 line of
        None \<Rightarrow> line
      | Some r \<Rightarrow> (let b = drop 1 r in if b \<noteq> [] \<and> is_ws (hd b) then tl b else b))"

fun absorb :: "bool \<Rightarrow> string \<Rightarrow> string list \<Rightarrow> string \<times> string list" where
  \<comment> \<open>the inner loop: the joined line, and the lines after the ones it has taken\<close>
  "absorb quote joined [] = (joined, [])"
| "absorb quote joined (nxt # rest) =
     (if HARD_BREAK joined \<or> trim nxt = [] then (joined, nxt # rest)
      else if quote then
        (if \<not> QUOTE nxt then (joined, nxt # rest)
         else let body = quote_body nxt
              in if \<not> isText body \<or> LIST body then (joined, nxt # rest)
                 else absorb quote (joined @ '' '' @ trim body) rest)
      else if \<not> isText nxt then (joined, nxt # rest)
      else if SETEXT (case rest of [] \<Rightarrow> [] | l # _ \<Rightarrow> l) then (joined, nxt # rest)
      else absorb quote (joined @ '' '' @ trim nxt) rest)"

lemma absorb_length: "length (snd (absorb quote joined rest)) \<le> length rest"
  by (induction quote joined rest rule: absorb.induct) (auto simp: Let_def)

lemma absorb_rest: "absorb quote joined rest = (j, r) \<Longrightarrow> length r \<le> length rest"
  using absorb_length [of quote joined rest] by simp

record mode = inFence :: "string option"  inFront :: bool

function reflow_loop :: "string list \<Rightarrow> mode \<Rightarrow> bool \<Rightarrow> string list \<Rightarrow> string list" where
  \<comment> \<open>the lines written so far, the mode, whether this is the first line, the lines left\<close>
  "reflow_loop out m first [] = out"
| "reflow_loop out m first (line # rest) =
     (if inFront m then
        reflow_loop (out @ [line]) (if \<not> first \<and> line = ''---'' then m\<lparr>inFront := False\<rparr> else m) False rest
      else if inFence m \<noteq> None then
        reflow_loop (out @ [line]) (if FENCE line = inFence m then m\<lparr>inFence := None\<rparr> else m) False rest
      else if FENCE line \<noteq> None then reflow_loop (out @ [line]) (m\<lparr>inFence := FENCE line\<rparr>) False rest
      else
        let prev = (if out = [] then [] else last out)
        in if INDENTED_CODE line \<and> (trim prev = [] \<or> INDENTED_CODE prev) then reflow_loop (out @ [line]) m False rest
           else if isText line \<or> LIST line \<or> QUOTE line then
             (case absorb (QUOTE line) (if HARD_BREAK line then line else rtrim line) rest of
                (joined, rest') \<Rightarrow> reflow_loop (out @ [joined]) m False rest')
           else reflow_loop (out @ [line]) m False rest)"
  by pat_completeness auto
termination
  by (relation "measure (\<lambda>(out, m, first, ls). length ls)")
    (auto simp: less_Suc_eq_le dest: absorb_rest [OF sym])

definition reflow :: "string \<Rightarrow> string" where
  "reflow source =
     (let eol = (if str_includes [CR, LF] source then [CR, LF] else [LF]); ls = split_lines source
      in join_with eol (reflow_loop [] \<lparr>inFence = None, inFront = (hd ls = ''---'')\<rparr> True ls))"

section \<open>What is kept\<close>

definition ink :: "string \<Rightarrow> string" where
  \<comment> \<open>everything but white space and quote markers\<close>
  "ink s = filter (\<lambda>c. \<not> is_ws c \<and> c \<noteq> CHR ''>'') s"

lemma ink_append [simp]: "ink (s @ t) = ink s @ ink t"
  by (simp add: ink_def)

lemma ink_Nil [simp]: "ink [] = []"
  by (simp add: ink_def)

lemma ink_dropWhile: "ink (dropWhile is_ws s) = ink s"
  by (induction s) (auto simp: ink_def)

lemma ink_rev: "ink (rev s) = rev (ink s)"
  by (simp add: ink_def rev_filter)

lemma ink_rtrim: "ink (rtrim s) = ink s"
  by (simp add: rtrim_def ink_rev ink_dropWhile)

lemma ink_trim: "ink (trim s) = ink s"
  by (simp add: trim_def ink_rev ink_dropWhile)

lemma ink_space [simp]: "ink '' '' = []"
  by (simp add: ink_def is_ws_def)

lemma ink_Cons_space [simp]: "ink (CHR '' '' # s) = ink s"
  by (simp add: ink_def is_ws_def)

lemma ink_quote_body: "QUOTE s \<Longrightarrow> ink (quote_body s) = ink s"
proof -
  assume "QUOTE s"
  then obtain r where r: "indent3 s = Some r" "take 1 r = ''>''" by (auto simp: QUOTE_def split: option.splits)
  then obtain t where t: "r = CHR ''>'' # t" by (cases r) auto
  have s: "ink s = ink t" using r(1) ink_dropWhile [of s] by (auto simp: indent3_def t ink_def split: if_splits)
  have "ink t = ink (if t \<noteq> [] \<and> is_ws (hd t) then tl t else t)" by (cases t) (auto simp: ink_def)
  then show ?thesis by (simp add: quote_body_def r(1) t s Let_def)
qed

definition inks :: "string list \<Rightarrow> string" where
  "inks ls = concat (map ink ls)"

lemma inks_simps [simp]: "inks [] = []" "inks (l # ls) = ink l @ inks ls" "inks (ls @ ms) = inks ls @ inks ms"
  by (simp_all add: inks_def)

lemma absorb_inks: "absorb quote joined rest = (j, r) \<Longrightarrow> ink j @ inks r = ink joined @ inks rest"
proof (induction quote joined rest arbitrary: j r rule: absorb.induct)
  case (2 quote joined nxt rest)
  then show ?case
    by (auto simp: Let_def ink_trim ink_quote_body split: if_splits)
qed auto

lemma reflow_loop_inks: "inks (reflow_loop out m first ls) = inks out @ inks ls"
proof (induction out m first ls rule: reflow_loop.induct)
  case (2 out m first line rest)
  obtain j r where a: "absorb (QUOTE line) (if HARD_BREAK line then line else rtrim line) rest = (j, r)" by fastforce
  have k: "ink j @ inks r = ink line @ inks rest"
    using absorb_inks [OF a] by (simp add: ink_rtrim split: if_splits)
  show ?case using 2 a k by (auto simp: Let_def)
qed simp

lemma inks_split_on: "inks (split_on LF s) = ink s"
proof (induction s)
  case (Cons c s)
  obtain p ps where p: "split_on LF s = p # ps" by (metis split_on_nonempty neq_Nil_conv)
  have "\<not> (\<not> is_ws LF \<and> LF \<noteq> CHR ''>'')" by (simp add: LF_def is_ws_def)
  then show ?case using Cons p by (auto simp: ink_def inks_def)
qed simp

lemma inks_strip_cr: "inks (strip_cr ps) = inks ps"
proof (induction ps rule: strip_cr.induct)
  case (3 p q ps)
  have "ink (butlast p) = ink p" if "p \<noteq> []" "last p = CR"
  proof -
    have "ink p = ink (butlast p @ [CR])" using that by (metis append_butlast_last_id)
    then show ?thesis by (simp add: ink_def CR_def is_ws_def)
  qed
  then show ?case using 3 by auto
qed auto

lemma ink_join: "ink sep = [] \<Longrightarrow> ink (join_with sep ps) = inks ps"
  by (induction sep ps rule: join_with.induct) auto

lemma reflow_loop_length: "length (reflow_loop out m first ls) \<le> length out + length ls"
proof (induction out m first ls rule: reflow_loop.induct)
  case (2 out m first line rest)
  obtain j r where a: "absorb (QUOTE line) (if HARD_BREAK line then line else rtrim line) rest = (j, r)" by fastforce
  have le: "n \<le> Suc (length r) \<Longrightarrow> n \<le> Suc (length rest)" "n \<le> Suc (k + length r) \<Longrightarrow> n \<le> Suc (k + length rest)" for n k
    using absorb_rest [OF a] by linarith+
  show ?case using 2 a by (auto simp: Let_def intro: le)
qed simp

section \<open>Lines and line breaks\<close>

definition plain_lines :: "string list \<Rightarrow> bool" where
  "plain_lines ls \<longleftrightarrow> (\<forall>l\<in>set ls. LF \<notin> set l)"

lemma plain_lines_simps [simp]:
  "plain_lines []" "plain_lines (l # ls) \<longleftrightarrow> LF \<notin> set l \<and> plain_lines ls" "plain_lines (ls @ ms) \<longleftrightarrow> plain_lines ls \<and> plain_lines ms"
  by (auto simp: plain_lines_def)

lemma LF_not_space [simp]: "LF \<noteq> CHR '' ''" "CHR '' '' \<noteq> LF"
  by (simp_all add: LF_def)

lemma LF_trim: "LF \<notin> set s \<Longrightarrow> LF \<notin> set (trim s)" "LF \<notin> set s \<Longrightarrow> LF \<notin> set (rtrim s)"
  by (auto simp: trim_def rtrim_def dest!: set_dropWhileD)

lemma LF_quote_body: "LF \<notin> set s \<Longrightarrow> LF \<notin> set (quote_body s)"
  by (auto simp: quote_body_def indent3_def Let_def split: option.splits if_splits
      dest!: list.set_sel(2) [rotated] set_dropWhileD dest: in_set_dropD)

lemma absorb_plain:
  "\<lbrakk>absorb quote joined rest = (j, r); LF \<notin> set joined; plain_lines rest\<rbrakk> \<Longrightarrow> LF \<notin> set j \<and> plain_lines r"
proof (induction quote joined rest arbitrary: j r rule: absorb.induct)
  case (2 quote joined nxt rest)
  then show ?case by (auto simp: Let_def LF_trim LF_quote_body split: if_splits)
qed auto

lemma reflow_loop_plain: "\<lbrakk>plain_lines out; plain_lines ls\<rbrakk> \<Longrightarrow> plain_lines (reflow_loop out m first ls)"
proof (induction out m first ls rule: reflow_loop.induct)
  case (2 out m first line rest)
  obtain j r where a: "absorb (QUOTE line) (if HARD_BREAK line then line else rtrim line) rest = (j, r)" by fastforce
  have "LF \<notin> set j \<and> plain_lines r" using absorb_plain [OF a] "2.prems" by (simp add: LF_trim)
  then show ?case using 2 a by (auto simp: Let_def)
qed simp

lemma split_on_plain: "plain_lines (split_on LF s)"
proof (induction s)
  case (Cons c s)
  obtain p ps where "split_on LF s = p # ps" by (metis split_on_nonempty neq_Nil_conv)
  then show ?case using Cons by auto
qed simp

lemma strip_cr_plain: "plain_lines ps \<Longrightarrow> plain_lines (strip_cr ps)"
  by (induction ps rule: strip_cr.induct) (auto dest: in_set_butlastD)

lemma split_on_length: "length (split_on LF s) = count_list s LF + 1"
proof (induction s)
  case (Cons c s)
  obtain p ps where "split_on LF s = p # ps" by (metis split_on_nonempty neq_Nil_conv)
  then show ?case using Cons by auto
qed simp

lemma count_join: "plain_lines ps \<Longrightarrow> count_list (join_with sep ps) LF = (length ps - 1) * count_list sep LF"
  by (induction sep ps rule: join_with.induct) (auto simp: count_list_append)

lemma fence_verbatim:
  "\<lbrakk>inFence m = Some f; \<not> inFront m; \<forall>l\<in>set ls. FENCE l \<noteq> Some f; FENCE close = Some f\<rbrakk>
    \<Longrightarrow> reflow_loop out m first (ls @ close # rest) = reflow_loop (out @ ls @ [close]) (m\<lparr>inFence := None\<rparr>) False rest"
  by (induction ls arbitrary: out first) auto

lemma hard_break_lost: "reflow (''a'' @ [LF] @ ''b  '' @ [LF] @ ''c'') = ''a b c''"
  \<comment> \<open>the two spaces that end the second line are a hard break, and are dropped with it\<close>
  by code_simp

end
