(* ===== verification/Budget.thy ===== *)
theory Budget
  imports World
begin

text \<open>
  \<open>web/src/lib/money.js\<close> and the computations of \<open>web/src/startup/data.js\<close>: the conversion rates and money labels,
  the budget of a phase with its computed contingency, the totals of groups, tranches and the whole path, and
  the revenue model of one building.  Amounts are exact rationals, \<^term>\<open>None\<close> where a number is not finite;
  the negative zero is not modelled.  The phases and tranches, which are data, are arguments.

  The lemmas show that every printed total is the sum of what is printed under it.
\<close>

section \<open>Money\<close>

definition usd_rate :: rat where "usd_rate = 129"
definition cny_rate :: rat where "cny_rate = 178 / 10"

definition kes :: "rat option \<Rightarrow> int option" where
  "kes v = map_option js_round v"

definition usdToKes :: "rat option \<Rightarrow> int option" where
  "usdToKes v = kes (map_option (\<lambda>x. x * usd_rate) v)"

definition cnyToKes :: "rat option \<Rightarrow> int option" where
  "cnyToKes v = kes (map_option (\<lambda>x. x * cny_rate) v)"

definition fmtKes :: "rat option \<Rightarrow> string" where
  "fmtKes v = (case v of None \<Rightarrow> ''n/a'' | Some x \<Rightarrow> ''KES '' @ locale_num 0 3 (of_int (js_round x)))"

definition fmtUsd :: "rat option \<Rightarrow> nat \<Rightarrow> string" where
  "fmtUsd v decimals = (case v of None \<Rightarrow> ''n/a'' | Some x \<Rightarrow> ''USD '' @ locale_num decimals decimals x)"

definition fmtCny :: "rat option \<Rightarrow> nat \<Rightarrow> string" where
  "fmtCny v decimals = (case v of None \<Rightarrow> ''n/a'' | Some x \<Rightarrow> ''CNY '' @ locale_num decimals decimals x)"

definition fromUsd :: "rat option \<Rightarrow> nat \<Rightarrow> string" where
  "fromUsd v decimals = fmtKes (map_option of_int (usdToKes v)) @ '' ('' @ fmtUsd v decimals @ '')''"

definition fromCny :: "rat option \<Rightarrow> nat \<Rightarrow> string" where
  "fromCny v decimals = fmtKes (map_option of_int (cnyToKes v)) @ '' ('' @ fmtCny v decimals @ '')''"

section \<open>Budgets\<close>

record line =
  l_id :: string
  l_group :: string
  l_label :: string
  l_low :: rat
  l_high :: rat
  l_usd :: "(rat \<times> rat) option"
  confidence :: string
  l_note :: string

record resolved =
  r_id :: string
  r_group :: string
  r_label :: string
  r_low :: "rat option"
  r_high :: "rat option"
  r_confidence :: string
  r_note :: string
  priced :: bool

definition resolveLine :: "line \<Rightarrow> resolved" where
  "resolveLine l =
     (let r = \<lparr>r_id = l_id l, r_group = l_group l, r_label = l_label l, r_low = Some (l_low l), r_high = Some (l_high l),
               r_confidence = confidence l, r_note = l_note l, priced = True\<rparr>
      in if confidence l = ''unpriced'' then r\<lparr>r_low := None, r_high := None, priced := False\<rparr>
         else case l_usd l of
                Some (a, b) \<Rightarrow> r\<lparr>r_low := map_option of_int (usdToKes (Some a)), r_high := map_option of_int (usdToKes (Some b))\<rparr>
              | None \<Rightarrow> r)"

record phase = ph_key :: string  ph_lines :: "line list"

record budget =
  b_lines :: "resolved list"
  b_low :: rat
  b_high :: rat
  unpricedCount :: nat

definition amount :: "rat option \<Rightarrow> rat" where
  "amount v = (case v of None \<Rightarrow> 0 | Some x \<Rightarrow> x)"

definition sum_low :: "resolved list \<Rightarrow> rat" where
  "sum_low ls = sum_list (map (\<lambda>l. amount (r_low l)) ls)"

definition sum_high :: "resolved list \<Rightarrow> rat" where
  "sum_high ls = sum_list (map (\<lambda>l. amount (r_high l)) ls)"

definition CONTINGENCY_PCT :: rat where "CONTINGENCY_PCT = 15 / 100"

definition contingency :: "phase \<Rightarrow> rat \<Rightarrow> rat \<Rightarrow> resolved" where
  "contingency ph low high =
     \<lparr>r_id = ph_key ph @ ''-contingency'', r_group = ''contingency'',
      r_label = ''Contingency at '' @ int_str (js_round (CONTINGENCY_PCT * 100)) @ '' percent of the lines above'',
      r_low = Some (of_int (js_round (low * CONTINGENCY_PCT))), r_high = Some (of_int (js_round (high * CONTINGENCY_PCT))),
      r_confidence = ''derived'', r_note = ''n36'', priced = True\<rparr>"

definition phaseBudget :: "phase \<Rightarrow> budget" where
  "phaseBudget ph =
     (let rs = map resolveLine (ph_lines ph);
          ps = filter priced rs;
          lines = (if sum_high ps > 0 then rs @ [contingency ph (sum_low ps) (sum_high ps)] else rs);
          all_priced = filter priced lines
      in \<lparr>b_lines = lines, b_low = sum_low all_priced, b_high = sum_high all_priced,
          unpricedCount = length (filter (\<lambda>l. \<not> priced l) rs)\<rparr>)"

definition GROUPS :: "(string \<times> string) list" where
  "GROUPS = [(''hardware'', ''Hardware kits and spares''), (''pcb'', ''PCB, tooling and prototype runs''),
     (''certification'', ''Certification and registration''), (''legal'', ''Legal and corporate''),
     (''pilot'', ''Pilot building and field costs''), (''cloud'', ''Cloud, VPS and chain gas''),
     (''people'', ''Salaries and contractor time''), (''contingency'', ''Contingency'')]"

definition group_members :: "resolved list \<Rightarrow> string \<Rightarrow> resolved list" where
  "group_members ls g = filter (\<lambda>l. priced l \<and> r_group l = g) ls"

definition phaseByGroup :: "phase \<Rightarrow> (string \<times> string \<times> rat \<times> rat) list" where
  "phaseByGroup ph =
     (let ls = b_lines (phaseBudget ph)
      in filter (\<lambda>(k, lab, low, high). high > 0)
           (map (\<lambda>(k, lab). (k, lab, sum_low (group_members ls k), sum_high (group_members ls k))) GROUPS))"

definition pricedPhases :: "phase list \<Rightarrow> (phase \<times> budget) list" where
  "pricedPhases phases = filter (\<lambda>(ph, b). b_high b > 0) (map (\<lambda>ph. (ph, phaseBudget ph)) phases)"

record total = t_low :: rat  t_high :: rat  t_unpriced :: nat

definition trancheTotal :: "phase list \<Rightarrow> string list \<Rightarrow> total \<times> phase list" where
  \<comment> \<open>the second argument is \<open>tranche.phases\<close>\<close>
  "trancheTotal phases keys =
     (let ps = filter (\<lambda>ph. ph_key ph \<in> set keys) phases
      in fold (\<lambda>ph (acc, qs). let b = phaseBudget ph in
             (\<lparr>t_low = t_low acc + b_low b, t_high = t_high acc + b_high b, t_unpriced = t_unpriced acc + unpricedCount b\<rparr>, qs @ [ph]))
           ps (\<lparr>t_low = 0, t_high = 0, t_unpriced = 0\<rparr>, []))"

definition wholePathTotal :: "phase list \<Rightarrow> string list list \<Rightarrow> total" where
  \<comment> \<open>the second argument: the phases of each tranche\<close>
  "wholePathTotal phases tranches =
     fold (\<lambda>keys acc. let t = fst (trancheTotal phases keys) in
             \<lparr>t_low = t_low acc + t_low t, t_high = t_high acc + t_high t, t_unpriced = t_unpriced acc + t_unpriced t\<rparr>)
       tranches \<lparr>t_low = 0, t_high = 0, t_unpriced = 0\<rparr>"

section \<open>The revenue of a building\<close>

record revenue =
  tenantsPerBuilding :: rat
  nodesPerBuilding :: rat
  tenantSpendKes :: rat
  capexKes :: rat
  opexKes :: rat
  feePct :: rat
  protocolFixedLow :: rat
  protocolFixedHigh :: rat

definition REVENUE :: revenue where
  "REVENUE = \<lparr>tenantsPerBuilding = 10, nodesPerBuilding = 4, tenantSpendKes = 600, capexKes = 29050, opexKes = 3850,
     feePct = 5 / 100, protocolFixedLow = 60000, protocolFixedHigh = 120000\<rparr>"

definition KES_PER_MB :: rat where "KES_PER_MB = 5 / 100"

record month =
  gross :: rat
  mb :: rat
  treasury_share :: rat
  operator_share :: rat
  operatorNet :: rat
  breakEvenMonth :: "int option"

definition buildingMonth :: "revenue \<Rightarrow> month" where
  "buildingMonth R =
     (let g = tenantsPerBuilding R * tenantSpendKes R; t = g * feePct R; op = g - t; net = op - opexKes R
      in \<lparr>gross = g, mb = g / KES_PER_MB, treasury_share = t, operator_share = op, operatorNet = net,
          breakEvenMonth = (if net > 0 then Some \<lceil>capexKes R / net\<rceil> else None)\<rparr>)"

record scenario = sc_buildings :: rat  sc_nodes :: rat  sc_tenants :: rat  sc_month :: month  sc_capex :: rat

definition scenario_of :: "revenue \<Rightarrow> rat \<Rightarrow> scenario" where
  "scenario_of R n =
     (let one = buildingMonth R
      in \<lparr>sc_buildings = n, sc_nodes = n * nodesPerBuilding R, sc_tenants = n * tenantsPerBuilding R,
          sc_month = \<lparr>gross = gross one * n, mb = mb one * n, treasury_share = treasury_share one * n,
            operator_share = operator_share one * n, operatorNet = operatorNet one * n, breakEvenMonth = breakEvenMonth one\<rparr>,
          sc_capex = capexKes R * n\<rparr>)"

definition scenarios :: "revenue \<Rightarrow> rat list \<Rightarrow> scenario list" where
  "scenarios R counts = map (scenario_of R) counts"

definition protocolBreakEven :: "revenue \<Rightarrow> int \<times> int \<times> rat" where
  "protocolBreakEven R =
     (let t = treasury_share (buildingMonth R) in (\<lceil>protocolFixedLow R / t\<rceil>, \<lceil>protocolFixedHigh R / t\<rceil>, t))"

section \<open>Labels\<close>

definition shortKes :: "rat option \<Rightarrow> string" where
  "shortKes v =
     (case v of
        None \<Rightarrow> ''n/a''
      | Some n \<Rightarrow>
          if \<bar>n\<bar> \<ge> 1000000 then ''KES '' @ to_fixed (if \<bar>n\<bar> \<ge> 10000000 then 0 else 1) (n / 1000000) @ ''M''
          else if \<bar>n\<bar> \<ge> 1000 then ''KES '' @ to_fixed (if \<bar>n\<bar> \<ge> 100000 then 0 else 1) (n / 1000) @ ''k''
          else fmtKes (Some n))"

definition fmtRange :: "rat option \<Rightarrow> rat option \<Rightarrow> bool \<Rightarrow> string" where
  "fmtRange low high short =
     (let f = (if short then shortKes else fmtKes)
      in if low = None \<or> high = None then ''not priced''
         else if low = high then f low else f low @ '' to '' @ f high)"

definition fmtMb :: "rat \<Rightarrow> string" where
  "fmtMb m =
     (if m \<ge> 1000000 then locale_num 0 1 (m / 1000000) @ '' TB''
      else if m \<ge> 1000 then locale_num 0 0 (m / 1000) @ '' GB''
      else locale_num 0 3 m @ '' MB'')"

section \<open>Totals are the sums of their parts\<close>

lemma sum_low_append [simp]: "sum_low (xs @ ys) = sum_low xs + sum_low ys" "sum_low [] = 0" "sum_low (x # xs) = amount (r_low x) + sum_low xs"
  and sum_high_append [simp]: "sum_high (xs @ ys) = sum_high xs + sum_high ys" "sum_high [] = 0" "sum_high (x # xs) = amount (r_high x) + sum_high xs"
  by (simp_all add: sum_low_def sum_high_def)

definition grouped_lines :: "phase \<Rightarrow> bool" where
  \<comment> \<open>every line names a known group and is a range of amounts that are not negative\<close>
  "grouped_lines ph \<longleftrightarrow> list_all (\<lambda>l. l_group l \<in> set (map fst GROUPS) \<and> 0 \<le> l_low l \<and> l_low l \<le> l_high l
     \<and> (\<forall>a b. l_usd l = Some (a, b) \<longrightarrow> 0 \<le> a \<and> a \<le> b)) (ph_lines ph)"

definition line_ok :: "resolved \<Rightarrow> bool" where
  "line_ok r \<longleftrightarrow> r_group r \<in> set (map fst GROUPS) \<and> 0 \<le> amount (r_low r) \<and> amount (r_low r) \<le> amount (r_high r)"

lemma js_round_nonneg: "0 \<le> x \<Longrightarrow> 0 \<le> js_round x"
  using js_round_mono [of 0 x] js_round_of_int [of 0] by simp

lemma resolveLine_ok:
  assumes "l_group l \<in> set (map fst GROUPS)" "0 \<le> l_low l" "l_low l \<le> l_high l"
    and "\<And>a b. l_usd l = Some (a, b) \<Longrightarrow> 0 \<le> a \<and> a \<le> b"
  shows "line_ok (resolveLine l)"
  using assms
  by (auto simp: line_ok_def resolveLine_def Let_def amount_def usdToKes_def kes_def usd_rate_def
      intro!: js_round_nonneg js_round_mono split: option.splits)

lemma sums_ordered: "list_all line_ok ls \<Longrightarrow> 0 \<le> sum_low ls \<and> sum_low ls \<le> sum_high ls"
  by (induction ls) (auto simp: line_ok_def)

lemma budget_lines_ok:
  assumes "grouped_lines ph"
  shows "list_all line_ok (b_lines (phaseBudget ph))"
proof -
  have r: "list_all line_ok (map resolveLine (ph_lines ph))"
    using assms by (auto simp: grouped_lines_def list_all_iff intro: resolveLine_ok)
  then have "list_all line_ok (filter priced (map resolveLine (ph_lines ph)))" by (auto simp: list_all_iff)
  from sums_ordered [OF this] have "line_ok (contingency ph (sum_low (filter priced (map resolveLine (ph_lines ph))))
      (sum_high (filter priced (map resolveLine (ph_lines ph)))))"
    by (auto simp: line_ok_def contingency_def amount_def GROUPS_def CONTINGENCY_PCT_def intro!: js_round_nonneg js_round_mono)
  then show ?thesis using r by (simp add: phaseBudget_def Let_def)
qed

lemma budget_sums:
  "b_low (phaseBudget ph) = sum_low (filter priced (b_lines (phaseBudget ph)))"
  "b_high (phaseBudget ph) = sum_high (filter priced (b_lines (phaseBudget ph)))"
  by (simp_all add: phaseBudget_def Let_def)

lemma group_members_simps [simp]:
  "group_members [] g = []"
  "group_members (l # ls) g = (if priced l \<and> r_group l = g then l # group_members ls g else group_members ls g)"
  by (simp_all add: group_members_def)

lemma group_one:
  fixes f :: "resolved list \<Rightarrow> rat"
  assumes f: "\<And>x xs. f (x # xs) = v x + f xs"
  shows "distinct gs \<Longrightarrow> sum_list (map (\<lambda>g. f (group_members (l # ls) g)) gs)
    = (if priced l \<and> r_group l \<in> set gs then v l else 0) + sum_list (map (\<lambda>g. f (group_members ls g)) gs)"
  by (induction gs) (auto simp: f)

lemma group_none: "sum_list (map (\<lambda>g. f (group_members [] g)) gs) = (0 :: rat)" if "f [] = 0"
  by (induction gs) (simp_all add: that)

lemma group_split:
  assumes "distinct gs" and "list_all (\<lambda>l. r_group l \<in> set gs) ls"
  shows "sum_list (map (\<lambda>g. sum_low (group_members ls g)) gs) = sum_low (filter priced ls)"
    and "sum_list (map (\<lambda>g. sum_high (group_members ls g)) gs) = sum_high (filter priced ls)"
proof -
  show "sum_list (map (\<lambda>g. sum_low (group_members ls g)) gs) = sum_low (filter priced ls)"
    using assms(2)
    by (induction ls) (simp_all del: group_members_simps(2) add: group_none group_one [where v = "\<lambda>l. amount (r_low l)"] assms(1))
  show "sum_list (map (\<lambda>g. sum_high (group_members ls g)) gs) = sum_high (filter priced ls)"
    using assms(2)
    by (induction ls) (simp_all del: group_members_simps(2) add: group_none group_one [where v = "\<lambda>l. amount (r_high l)"] assms(1))
qed

lemma drop_empty_groups:
  assumes "\<And>g. g \<in> set gs \<Longrightarrow> 0 \<le> lo g \<and> lo g \<le> (hi g :: rat)"
  shows "sum_list (map lo (filter (\<lambda>g. hi g > 0) gs)) = sum_list (map lo gs)"
    and "sum_list (map hi (filter (\<lambda>g. hi g > 0) gs)) = sum_list (map hi gs)"
proof -
  have "sum_list (map lo (filter (\<lambda>g. hi g > 0) gs)) = sum_list (map lo gs)
    \<and> sum_list (map hi (filter (\<lambda>g. hi g > 0) gs)) = sum_list (map hi gs)"
    using assms
  proof (induction gs)
    case (Cons g gs)
    have "\<not> hi g > 0 \<Longrightarrow> lo g = 0 \<and> hi g = 0" using Cons.prems [of g] by auto
    then show ?case using Cons by auto
  qed simp
  then show "sum_list (map lo (filter (\<lambda>g. hi g > 0) gs)) = sum_list (map lo gs)"
    "sum_list (map hi (filter (\<lambda>g. hi g > 0) gs)) = sum_list (map hi gs)" by auto
qed

lemma tranche_fold:
  "fold (\<lambda>ph (acc, qs). let b = phaseBudget ph in
       (\<lparr>t_low = t_low acc + b_low b, t_high = t_high acc + b_high b, t_unpriced = t_unpriced acc + unpricedCount b\<rparr>, qs @ [ph])) ps (acc, qs)
   = (\<lparr>t_low = t_low acc + sum_list (map (b_low \<circ> phaseBudget) ps), t_high = t_high acc + sum_list (map (b_high \<circ> phaseBudget) ps),
       t_unpriced = t_unpriced acc + sum_list (map (unpricedCount \<circ> phaseBudget) ps)\<rparr>, qs @ ps)"
  by (induction ps arbitrary: acc qs) (simp_all add: Let_def add.assoc)

lemma tranche_sums:
  "trancheTotal phases keys =
    (let ps = filter (\<lambda>ph. ph_key ph \<in> set keys) phases
     in (\<lparr>t_low = sum_list (map (b_low \<circ> phaseBudget) ps), t_high = sum_list (map (b_high \<circ> phaseBudget) ps),
          t_unpriced = sum_list (map (unpricedCount \<circ> phaseBudget) ps)\<rparr>, ps))"
  by (simp add: trancheTotal_def Let_def tranche_fold [unfolded Let_def])

lemma phaseByGroup_sums:
  assumes "grouped_lines ph"
  shows "sum_list (map (\<lambda>(k, lab, low, high). low) (phaseByGroup ph)) = b_low (phaseBudget ph)"
    and "sum_list (map (\<lambda>(k, lab, low, high). high) (phaseByGroup ph)) = b_high (phaseBudget ph)"
proof -
  let ?ls = "b_lines (phaseBudget ph)"
  note ok = budget_lines_ok [OF assms]
  have known: "list_all (\<lambda>l. r_group l \<in> set (map fst GROUPS)) ?ls"
    using ok by (auto simp: list_all_iff line_ok_def)
  have d: "distinct (map fst GROUPS)" by (simp add: GROUPS_def)
  have m: "0 \<le> sum_low (group_members ?ls g) \<and> sum_low (group_members ?ls g) \<le> sum_high (group_members ?ls g)" for g
    by (rule sums_ordered) (use ok in \<open>auto simp: group_members_def list_all_iff\<close>)
  have e: "phaseByGroup ph = map (\<lambda>(k, lab). (k, lab, sum_low (group_members ?ls k), sum_high (group_members ?ls k)))
      (filter (\<lambda>x. sum_high (group_members ?ls (fst x)) > 0) GROUPS)"
    by (simp add: phaseByGroup_def Let_def filter_map o_def split_beta)
  note drop = drop_empty_groups [of GROUPS "\<lambda>x. sum_low (group_members ?ls (fst x))" "\<lambda>x. sum_high (group_members ?ls (fst x))", OF m]
  show "sum_list (map (\<lambda>(k, lab, low, high). low) (phaseByGroup ph)) = b_low (phaseBudget ph)"
    using drop(1) group_split(1) [OF d known] budget_sums(1) [of ph] by (simp add: e split_beta o_def)
  show "sum_list (map (\<lambda>(k, lab, low, high). high) (phaseByGroup ph)) = b_high (phaseBudget ph)"
    using drop(2) group_split(2) [OF d known] budget_sums(2) [of ph] by (simp add: e split_beta o_def)
qed

lemma budget_range:
  assumes "grouped_lines ph"
  shows "0 \<le> b_low (phaseBudget ph)" "b_low (phaseBudget ph) \<le> b_high (phaseBudget ph)"
proof -
  have "list_all line_ok (filter priced (b_lines (phaseBudget ph)))"
    using budget_lines_ok [OF assms] by (auto simp: list_all_iff)
  from sums_ordered [OF this] show "0 \<le> b_low (phaseBudget ph)" "b_low (phaseBudget ph) \<le> b_high (phaseBudget ph)"
    by (simp_all add: budget_sums)
qed

section \<open>Break-even\<close>

lemma ceiling_first:
  assumes "0 < (n :: rat)"
  shows "c \<le> of_int \<lceil>c / n\<rceil> * n" "of_int (\<lceil>c / n\<rceil> - 1) * n < c"
proof -
  have "c / n \<le> of_int \<lceil>c / n\<rceil>" "of_int (\<lceil>c / n\<rceil> - 1) < c / n" using ceiling_correct [of "c / n"] by simp_all
  then show "c \<le> of_int \<lceil>c / n\<rceil> * n" "of_int (\<lceil>c / n\<rceil> - 1) * n < c"
    using assms by (simp_all only: pos_divide_le_eq pos_less_divide_eq)
qed

lemma break_even:
  "treasury_share (buildingMonth R) + operator_share (buildingMonth R) = gross (buildingMonth R)
   \<and> (case breakEvenMonth (buildingMonth R) of
        None \<Rightarrow> operatorNet (buildingMonth R) \<le> 0
      | Some m \<Rightarrow> 0 < operatorNet (buildingMonth R) \<and> capexKes R \<le> of_int m * operatorNet (buildingMonth R)
          \<and> of_int (m - 1) * operatorNet (buildingMonth R) < capexKes R)"
proof -
  define n where "n = tenantsPerBuilding R * tenantSpendKes R - tenantsPerBuilding R * tenantSpendKes R * feePct R - opexKes R"
  have "operatorNet (buildingMonth R) = n" "breakEvenMonth (buildingMonth R) = (if n > 0 then Some \<lceil>capexKes R / n\<rceil> else None)"
    "treasury_share (buildingMonth R) + operator_share (buildingMonth R) = gross (buildingMonth R)"
    by (simp_all add: buildingMonth_def Let_def n_def)
  then show ?thesis using ceiling_first [of n "capexKes R"] by auto
qed

end
