(* ===== verification/DocGuarantees.thy ===== *)
theory DocGuarantees
  imports Blocks Corpus Reflow Budget
begin

text \<open>
  What the documentation and the printed budgets guarantee: diagrams carry no markup of their own, headings have
  unique anchors, the index is complete and in order, a search narrows, reflowing a paper loses no text, and
  every total of the budget page is the sum of what is printed under it.
\<close>

section \<open>Diagrams\<close>

definition chrome :: "parsed \<Rightarrow> nat" where
  \<comment> \<open>the tags of \<open>frame\<close>\<close>
  "chrome p = 4 + (if p_title p = [] then 0 else 2) + (if p_notes p = [] then 0 else 2)"

definition expected_tags :: "string \<Rightarrow> string \<Rightarrow> nat" where
  \<comment> \<open>the number of tags of a diagram, from its structure alone\<close>
  "expected_tags kind body =
     (let p = readLines body; g = read_flow (p_lines p)
      in if kind = ''xk-flow'' then
           (if g_order g = [] then 0
            else chrome p + 4 + sum_list (map (\<lambda>(a, b). if labelFor g a b = [] then 9 else 11) (zip (g_order g) (tl (g_order g))))
              + 7 * length (g_returns g))
         else if kind = ''xk-timeline'' then
           (if timeline_steps p = [] then 0 else chrome p + 2 + 8 * length (timeline_steps p))
         else if kind = ''xk-stack'' then
           (if stack_layers p = [] then 0 else chrome p + 2 + 8 * length (stack_layers p))
         else if kind = ''xk-compare'' then
           (if p_lines p = [] \<or> compare_rows p = [] then 0 else chrome p + 10 + 8 * length (compare_rows p))
         else 0)"

lemma flow_chain_lt:
  "lt (flow_chain g prev ns) = sum_list (map (\<lambda>(a, b). if labelFor g a b = [] then 9 else 11) (zip (prev # ns) ns))"
  by (induction ns arbitrary: prev) (auto simp: flow_pair_lt)

lemma flow_lt: "lt (flow body) = expected_tags ''xk-flow'' body"
proof -
  have "sum_list (map lt (map flow_return rs)) = 7 * length rs" for rs
    using sum_list_const [of rs "\<lambda>e. lt (flow_return e)" 7] by (simp add: flow_return_lt o_def)
  then show ?thesis
    by (auto simp: flow_def expected_tags_def Let_def frame_lt chrome_def node_box_lt flow_chain_lt lt_concat split: list.split)
qed

lemma timeline_lt: "lt (timeline body) = expected_tags ''xk-timeline'' body"
proof -
  have "sum_list (map (lt \<circ> (\<lambda>(i, st). step_item i st)) ps) = 8 * length ps" for ps
    using sum_list_const [of ps "lt \<circ> (\<lambda>(i, st). step_item i st)" 8] by (auto simp: step_item_lt)
  then show ?thesis by (simp add: timeline_def expected_tags_def Let_def frame_lt chrome_def lt_concat)
qed

lemma stack_lt: "lt (stack body) = expected_tags ''xk-stack'' body"
proof -
  have "sum_list (map (lt \<circ> layer_item) (stack_layers p)) = 8 * length (stack_layers p)" for p
    by (rule sum_list_const) (auto simp: stack_layers_def layer_item_lt)
  then show ?thesis by (simp add: stack_def expected_tags_def Let_def frame_lt chrome_def lt_concat)
qed

lemma compare_lt: "lt (compare_html body) = expected_tags ''xk-compare'' body"
proof -
  have "sum_list (map (lt \<circ> cmp_row) rs) = 8 * length rs" for rs
    using sum_list_const [of rs "lt \<circ> cmp_row" 8] by (simp add: cmp_row_lt)
  then show ?thesis by (simp add: compare_html_def expected_tags_def Let_def frame_lt chrome_def lt_concat)
qed

text \<open>C37. The number of tags in the HTML of a diagram is fixed by its structure (its boxes, arrows, steps, layers or
  rows), whatever text the paper puts into titles, notes, names and labels: no text becomes markup.  The tints,
  the only part of the text that reaches an attribute, are names of theme colours.\<close>

theorem blocks_inert:
  "lt (renderBlock kind body) = expected_tags kind body
    \<and> list_all (\<lambda>l. fst (snd l) \<in> set TINTS) (stack_layers (readLines body)) \<and> tintFor name \<in> set TINTS"
proof -
  have t: "tintFor n \<in> set TINTS" for n by (simp add: tintFor_def TINTS_def Let_def)
  then have l: "layer_of line = (a, c, b) \<Longrightarrow> c \<in> set TINTS" for line a b c
    by (auto simp: layer_of_def Let_def split: if_splits)
  have "lt (renderBlock kind body) = expected_tags kind body"
    by (simp add: renderBlock_def flow_lt timeline_lt stack_lt compare_lt) (simp add: expected_tags_def)
  then show ?thesis using t l by (auto simp: stack_layers_def list_all_iff dest: sym)
qed

section \<open>Anchors\<close>

text \<open>The anchors of the headings of a document are pairwise distinct, when no heading's base is another's followed
  by a dash and a number; repeated headings are told apart.\<close>

theorem anchors_unique:
  assumes "bases_apart (map h_text (sc_headings (scan source)))"
  shows "distinct (map h_id (sc_headings (scan source)))"
  using slugs_distinct [OF assms] by (simp add: scan_ids)

theorem anchors_unique_witness:
  "map h_id (sc_headings (scan (''## Go'' @ [LF] @ ''### Go''))) = [''go'', ''go-1'']
   \<and> distinct (map h_id (sc_headings (scan (''## Go'' @ [LF] @ ''### Go''))))"
proof -
  have s: "map h_text (sc_headings (scan (''## Go'' @ [LF] @ ''### Go''))) = [''Go'', ''Go'']" (is ?a)
    "map h_id (sc_headings (scan (''## Go'' @ [LF] @ ''### Go''))) = [''go'', ''go-1'']" (is ?b)
    by code_simp+
  have "bases_apart [''Go'', ''Go'']" by (simp add: bases_apart_def)
  then show ?thesis using anchors_unique s by simp
qed

section \<open>The index and the search\<close>

text \<open>The index holds exactly one document for every globbed file, ordered by folder and, within a folder, by file
  name, and when no two files share a slug the document of every slug is found; for any \<open>localeCompare\<close> that is a
  total preorder.\<close>

theorem index_complete_sorted:
  assumes "collation le"
  shows "let made = concat (map (\<lambda>f. map (make_doc f) (get_or [] modules f)) FOLDERS); docs = buildIndex le modules
    in sorted_wrt (doc_before le) docs \<and> set docs = set made \<and> length docs = length made
      \<and> (distinct (map doc_slug docs) \<longrightarrow> (\<forall>d\<in>set docs. findDoc docs (doc_slug d) = Some d))"
  using sort_docs_sorted [OF assms, of "concat (map (\<lambda>f. map (make_doc f) (get_or [] modules f)) FOLDERS)"] made_folders
    find_in_distinct [of "buildIndex le modules"]
  unfolding Let_def buildIndex_def [symmetric] by blast

fun name_le :: "string \<Rightarrow> string \<Rightarrow> bool" where
  "name_le (a # s) (b # t) \<longleftrightarrow> (of_char a :: nat) < of_char b \<or> (a = b \<and> name_le s t)"
| "name_le [] _ \<longleftrightarrow> True"
| "name_le _ [] \<longleftrightarrow> False"

lemma name_le_collation: "collation name_le"
proof -
  have "name_le a b \<or> name_le b a" for a b
  proof (induction a b rule: name_le.induct)
    case (1 a s b t)
    have "(of_char a :: nat) < of_char b \<or> (of_char b :: nat) < of_char a \<or> a = b" by (metis linorder_less_linear of_char_eq_iff)
    then show ?case using 1 by auto
  qed auto
  moreover have "name_le a b \<Longrightarrow> name_le b c \<Longrightarrow> name_le a c" for a b c
    by (induction a b arbitrary: c rule: name_le.induct) (case_tac c; auto)+
  ultimately show ?thesis by (auto simp: collation_def)
qed

definition sample_modules :: "(string \<times> (string \<times> string) list) list" where
  "sample_modules = [(''potential'', [(''../docs/potential/farm.md'', ''# Farms'')]),
     (''papers'', [(''../docs/papers/01-market.md'', ''# 1. Market''), (''../docs/papers/00-start.md'', ''# Start'')])]"

theorem index_complete_sorted_witness:
  "map doc_slug (buildIndex name_le sample_modules) = [''papers/00-start'', ''papers/01-market'', ''potential/farm'']
   \<and> sorted_wrt (doc_before name_le) (buildIndex name_le sample_modules)"
proof -
  have "map doc_slug (buildIndex name_le sample_modules) = [''papers/00-start'', ''papers/01-market'', ''potential/farm'']"
    by code_simp
  then show ?thesis using index_complete_sorted [OF name_le_collation, of sample_modules] by (simp add: Let_def)
qed

text \<open>Another word in a query narrows the search: every document found for the longer query is found for the
  shorter one too.\<close>

theorem search_narrows:
  assumes "h \<in> set (search_docs docs (q @ '' '' @ r))" and "ws_words (lower q) \<noteq> []"
  shows "hit_doc h \<in> hit_doc ` set (search_docs docs q)"
proof -
  obtain d where d: "d \<in> set docs" "search_doc (ws_words (lower q) @ ws_words (lower r)) d = Some h"
    using assms(1) unfolding search_hit lower_append lower_space ws_words_append by blast
  then obtain k where k: "search_doc (ws_words (lower q)) d = Some k"
    using search_doc_append [of "ws_words (lower q)" "ws_words (lower r)" d] by auto
  have "hit_doc x = d" if "search_doc ws d = Some x" for ws x
    using that by (auto simp: search_doc_def Let_def split: if_splits)
  then have "hit_doc h = d" "hit_doc k = d" using d(2) k by blast+
  moreover have "k \<in> set (search_docs docs q)" unfolding search_hit using assms(2) d(1) k by blast
  ultimately show ?thesis by (intro image_eqI [of _ _ k]) simp_all
qed

theorem search_narrows_witness:
  "\<exists>h. h \<in> set (search_docs (buildIndex name_le sample_modules) ''MARKET 01'')
     \<and> hit_doc h \<in> hit_doc ` set (search_docs (buildIndex name_le sample_modules) ''MARKET'')"
proof -
  have n: "search_docs (buildIndex name_le sample_modules) (''MARKET'' @ '' '' @ ''01'') \<noteq> []" by code_simp
  then obtain h where "h \<in> set (search_docs (buildIndex name_le sample_modules) (''MARKET'' @ '' '' @ ''01''))"
    by (metis list.set_intros(1) neq_Nil_conv)
  moreover have "ws_words (lower ''MARKET'') \<noteq> []" by code_simp
  ultimately show ?thesis using search_narrows [of h _ "''MARKET''" "''01''"] by auto
qed

section \<open>Reflowed papers\<close>

text \<open>Reflowing a paper loses, adds and moves nothing but white space and quote markers, and never adds a line
  break.\<close>

theorem reflow_keeps_text:
  "ink (reflow source) = ink source \<and> count_list (reflow source) LF \<le> count_list source LF"
proof -
  define ls where "ls = split_lines source"
  define out where "out = reflow_loop [] \<lparr>inFence = None, inFront = (hd ls = ''---'')\<rparr> True ls"
  have r: "reflow source = join_with (if str_includes [CR, LF] source then [CR, LF] else [LF]) out"
    by (simp add: reflow_def Let_def out_def ls_def)
  have ws: "ink [CR, LF] = []" "ink [LF] = []" by (simp_all add: ink_def CR_def LF_def is_ws_def)
  have "ink (reflow source) = inks out" unfolding r by (rule ink_join) (simp add: ws)
  also have "\<dots> = ink source"
    unfolding out_def reflow_loop_inks ls_def split_lines_def by (simp add: inks_strip_cr inks_split_on)
  finally have i: "ink (reflow source) = ink source" .
  have p: "plain_lines out" unfolding out_def ls_def split_lines_def
    by (intro reflow_loop_plain strip_cr_plain split_on_plain) simp
  have "length out \<le> length ls" using reflow_loop_length [of "[]" _ True ls] by (simp add: out_def)
  also have "length ls = count_list source LF + 1" by (simp add: ls_def split_lines_def split_on_length)
  finally have "count_list (reflow source) LF \<le> count_list source LF"
    unfolding r count_join [OF p] by (auto simp: CR_def LF_def)
  with i show ?thesis by blast
qed

section \<open>Budgets\<close>

text \<open>The group subtotals that a phase prints, empty groups left out, add up to the total of the phase, which is a
  range of amounts that are not negative.\<close>

theorem group_subtotals_add_up:
  assumes "grouped_lines ph"
  shows "sum_list (map (\<lambda>(k, lab, low, high). low) (phaseByGroup ph)) = b_low (phaseBudget ph)
    \<and> sum_list (map (\<lambda>(k, lab, low, high). high) (phaseByGroup ph)) = b_high (phaseBudget ph)
    \<and> 0 \<le> b_low (phaseBudget ph) \<and> b_low (phaseBudget ph) \<le> b_high (phaseBudget ph)"
  using phaseByGroup_sums [OF assms] budget_range [OF assms] by blast

definition sample_phase :: phase where
  "sample_phase = \<lparr>ph_key = ''p0'', ph_lines =
     [\<lparr>l_id = ''a'', l_group = ''hardware'', l_label = ''Kit'', l_low = 0, l_high = 0, l_usd = Some (100, 150), confidence = ''quoted'', l_note = ''n1''\<rparr>,
      \<lparr>l_id = ''b'', l_group = ''people'', l_label = ''Time'', l_low = 0, l_high = 0, l_usd = None, confidence = ''unpriced'', l_note = ''n2''\<rparr>,
      \<lparr>l_id = ''c'', l_group = ''legal'', l_label = ''Fees'', l_low = 500, l_high = 700, l_usd = None, confidence = ''quoted'', l_note = ''n3''\<rparr>]\<rparr>"

theorem group_subtotals_add_up_witness:
  "map (\<lambda>(k, lab, low, high). low) (phaseByGroup sample_phase) = [12900, 500, 2010]
   \<and> b_low (phaseBudget sample_phase) = 15410"
proof -
  have g: "grouped_lines sample_phase" by (simp add: grouped_lines_def sample_phase_def GROUPS_def)
  have e: "map (\<lambda>(k, lab, low, high). low) (phaseByGroup sample_phase) = [12900, 500, 2010]" by code_simp
  then have "sum_list (map (\<lambda>(k, lab, low, high). low) (phaseByGroup sample_phase)) = 15410" by simp
  then show ?thesis using group_subtotals_add_up [OF g] e by simp
qed

text \<open>Operator and treasury share a month's takings without remainder, and the month of break-even is the first
  month by which the operator's takings have paid for the building.\<close>

theorem break_even_month_is_first:
  "treasury_share (buildingMonth R) + operator_share (buildingMonth R) = gross (buildingMonth R)
   \<and> (case breakEvenMonth (buildingMonth R) of
        None \<Rightarrow> operatorNet (buildingMonth R) \<le> 0
      | Some m \<Rightarrow> 0 < operatorNet (buildingMonth R) \<and> capexKes R \<le> of_int m * operatorNet (buildingMonth R)
          \<and> of_int (m - 1) * operatorNet (buildingMonth R) < capexKes R)"
  by (rule break_even)

end
