(* ===== verification/Markdown.thy ===== *)
theory Markdown
  imports Corpus Blocks GateUrl
begin

text \<open>
  Documents as trees: the passes of \<open>web/src/docs/render.js\<close> over a parsed page and the helpers of
  \<open>web/src/lib/markdown.js\<close>.

  A node is a text or an element with its \<open>tagName\<close>, attributes and children; comments are left out.  What is not in
  the repository is an argument: \<open>marked.parse\<close>, the HTML parser (\<open>parse\<close>) and serialiser (\<open>outer\<close>), and \<open>other\<close>, the
  path of an address that names a scheme or a host of its own.  A piece of markup that the glossary pass writes is
  modelled by the nodes it spells.  Characters have codes below 256.
\<close>

section \<open>Nodes\<close>

datatype dom = Txt string | El (tagName: string) (attributes: "(string \<times> string) list") (childNodes: "dom list")

definition getAttribute :: "(string \<times> string) list \<Rightarrow> string \<Rightarrow> string option" where
  "getAttribute as k = map_of as k"

definition setAttribute :: "string \<Rightarrow> string \<Rightarrow> (string \<times> string) list \<Rightarrow> (string \<times> string) list" where
  "setAttribute k v as = AList.update k v as"

definition classList :: "(string \<times> string) list \<Rightarrow> string list" where
  "classList as = ws_words (case getAttribute as ''class'' of None \<Rightarrow> [] | Some c \<Rightarrow> c)"

definition class_add :: "string \<Rightarrow> (string \<times> string) list \<Rightarrow> (string \<times> string) list" where
  \<comment> \<open>\<open>classList.add\<close>\<close>
  "class_add c as =
     (let cs = rev (remdups (rev (classList as)))
      in setAttribute ''class'' (join_with '' '' (if c \<in> set cs then cs else cs @ [c])) as)"

fun textContent :: "dom \<Rightarrow> string" and texts_content :: "dom list \<Rightarrow> string" where
  "textContent (Txt s) = s"
| "textContent (El tag as cs) = texts_content cs"
| "texts_content [] = []"
| "texts_content (d # ds) = textContent d @ texts_content ds"

definition ws_split :: "string \<Rightarrow> string list" where
  \<comment> \<open>\<open>split(/\s+/)\<close>: white space at an end leaves an empty piece there\<close>
  "ws_split s =
     (if s = [] then [[]]
      else (if is_ws (hd s) then [[]] else []) @ ws_words s @ (if is_ws (last s) then [[]] else []))"

section \<open>Addresses\<close>

definition letter :: "char \<Rightarrow> bool" where
  "letter c \<longleftrightarrow> is_upper c \<or> is_lower c"

definition scheme_unit :: "char \<Rightarrow> bool" where
  "scheme_unit c \<longleftrightarrow> letter c \<or> is_digit c \<or> c \<in> {CHR ''+'', CHR ''.'', CHR ''-''}"

definition has_scheme :: "string \<Rightarrow> bool" where
  \<comment> \<open>\<open>/^[a-z][a-z0-9+.-]*:/i\<close>\<close>
  "has_scheme s \<longleftrightarrow>
     (case s of [] \<Rightarrow> False | c # r \<Rightarrow> letter c \<and> take 1 (dropWhile scheme_unit r) = '':'')"

definition isAbsolute :: "string \<Rightarrow> bool" where
  "isAbsolute url \<longleftrightarrow>
     starts_with ''/'' url \<or> starts_with ''#'' url \<or> starts_with ''data:'' url \<or> has_scheme url"

definition slash_unit :: "nat \<Rightarrow> bool" where
  "slash_unit c \<longleftrightarrow> c = 47 \<or> c = 92"

definition url_clean :: "string \<Rightarrow> nat list" where
  \<comment> \<open>the URL parser drops controls and spaces at the ends, and tabs and line breaks anywhere\<close>
  "url_clean s = filter (\<lambda>c. c \<notin> {9, 10, 13}) (strip_right (dropWhile (\<lambda>c. c \<le> 32) (u s)))"

definition show_path :: "ustr list \<Rightarrow> string" where
  "show_path segs = map char_of (concat (map (\<lambda>g. 47 # g) segs))"

definition base_path :: "bool \<Rightarrow> string \<Rightarrow> ustr list" where
  "base_path caret base = fst (path_state caret [] [] (tl (u base)))"

definition url_path :: "bool \<Rightarrow> (string \<Rightarrow> string) \<Rightarrow> string \<Rightarrow> string \<Rightarrow> string" where
  \<comment> \<open>\<open>new URL(ref, 'http://local' + base).pathname\<close>, where \<open>base\<close> starts with a slash\<close>
  "url_path caret other base ref =
     (let s = url_clean ref
      in if has_scheme (map char_of s) \<or> length s \<ge> 2 \<and> slash_unit (s ! 0) \<and> slash_unit (s ! 1) then other ref
         else case s of
                [] \<Rightarrow> show_path (base_path caret base)
              | c # r \<Rightarrow>
                  if slash_unit c then show_path (fst (path_state caret [] [] r))
                  else if c = 63 \<or> c = 35 then show_path (base_path caret base)
                  else show_path (fst (path_state caret [] (butlast (base_path caret base)) s)))"

definition resolveRelative :: "bool \<Rightarrow> (string \<Rightarrow> string) \<Rightarrow> string \<Rightarrow> string \<Rightarrow> string" where
  "resolveRelative caret other url base =
     (if url = [] \<or> isAbsolute url then url else url_path caret other base url)"

definition doc_link :: "bool \<Rightarrow> (string \<Rightarrow> string) \<Rightarrow> string \<Rightarrow> string \<Rightarrow> string option" where
  \<comment> \<open>the route a link is rewritten to, if it is\<close>
  "doc_link caret other folder href =
     (if href = [] \<or> \<not> str_includes ''.md'' href \<or> has_scheme href then None
      else
        let pieces = split_on (CHR ''#'') href;
            path = hd pieces;
            hash = (case tl pieces of [] \<Rightarrow> [] | h # _ \<Rightarrow> h)
        in if \<not> ends_with ''.md'' path then None
           else
             let resolved = drop_suffix ''.md'' (url_path caret other (''/docs/'' @ folder @ ''/'') path)
             in if \<not> starts_with ''/docs/'' resolved then None
                else Some (if hash \<noteq> [] then resolved @ ''#'' @ hash else resolved))"

section \<open>From markdown\<close>

definition code_html :: "string \<Rightarrow> string option \<Rightarrow> string" where
  \<comment> \<open>the renderer of a code block\<close>
  "code_html body lang =
     (let info = trim (case lang of None \<Rightarrow> [] | Some l \<Rightarrow> l);
          language = hd (ws_split info)
      in if language = ''mermaid'' then html ''<pre class=~mermaid~>'' @ escape4 body @ ''</pre>'' @ [LF]
         else
           let className = (if language \<noteq> [] then html '' class=~language-'' @ escape4 language @ html ''~'' else []);
               infoAttr = (if info \<noteq> [] then html '' data-info=~'' @ escape4 info @ html ''~'' else [])
           in ''<pre'' @ infoAttr @ ''><code'' @ className @ ''>'' @ escape4 body @ ''</code></pre>'' @ [LF])"

definition hasMermaid :: "string \<Rightarrow> bool" where
  "hasMermaid h \<longleftrightarrow> str_includes (html ''class=~mermaid~'') h"

definition resolve_attrs :: "bool \<Rightarrow> (string \<Rightarrow> string) \<Rightarrow> string \<Rightarrow> (string \<times> string) list \<Rightarrow> (string \<times> string) list" where
  "resolve_attrs caret other base as =
     (let as1 = (case getAttribute as ''src'' of None \<Rightarrow> as
                 | Some s \<Rightarrow> setAttribute ''src'' (resolveRelative caret other s base) as)
      in case getAttribute as1 ''href'' of
           None \<Rightarrow> as1
         | Some h \<Rightarrow> if h \<noteq> [] \<and> \<not> ends_with ''.md'' h
                     then setAttribute ''href'' (resolveRelative caret other h base) as1 else as1)"

fun map_attrs :: "(string \<Rightarrow> (string \<times> string) list \<Rightarrow> (string \<times> string) list) \<Rightarrow> dom \<Rightarrow> dom" where
  "map_attrs f (Txt s) = Txt s"
| "map_attrs f (El tag as cs) = El tag (f tag as) (map (map_attrs f) cs)"

definition renderMarkdown :: "bool \<Rightarrow> (string \<Rightarrow> string) \<Rightarrow> (string \<Rightarrow> string) \<Rightarrow> (string \<Rightarrow> dom list) \<Rightarrow>
    (dom \<Rightarrow> string) \<Rightarrow> string \<Rightarrow> string \<Rightarrow> string" where
  "renderMarkdown caret other marked parse outer source base =
     concat (map (\<lambda>d. outer (map_attrs (\<lambda>tag. resolve_attrs caret other base) d)) (parse (marked source)))"

section \<open>Links, headings, tables\<close>

definition link_attrs :: "bool \<Rightarrow> (string \<Rightarrow> string) \<Rightarrow> string \<Rightarrow> string \<Rightarrow> (string \<times> string) list \<Rightarrow> (string \<times> string) list" where
  "link_attrs caret other folder tag as =
     (if tag = ''A''
      then (case getAttribute as ''href'' of
              None \<Rightarrow> as
            | Some h \<Rightarrow> (case doc_link caret other folder h of
                None \<Rightarrow> as
              | Some r \<Rightarrow> setAttribute ''data-doc-link'' [] (setAttribute ''href'' r as)))
      else as)"

definition rewriteDocLinks :: "bool \<Rightarrow> (string \<Rightarrow> string) \<Rightarrow> string \<Rightarrow> dom list \<Rightarrow> dom list" where
  "rewriteDocLinks caret other folder body = map (map_attrs (link_attrs caret other folder)) body"

definition heading_tag :: "string \<Rightarrow> bool" where
  "heading_tag tag \<longleftrightarrow> tag = ''H2'' \<or> tag = ''H3''"

definition anchor_node :: "string \<Rightarrow> string \<Rightarrow> dom" where
  "anchor_node aid text =
     El ''A'' [(''class'', ''xk-docs__anchor''), (''href'', ''#'' @ aid), (''data-anchor'', aid),
              (''aria-label'', ''Copy a link to '' @ [QUOT] @ text @ [QUOT])] [Txt ''#'']"

fun mark_node :: "seen \<Rightarrow> dom \<Rightarrow> dom \<times> seen \<times> heading list"
  and mark_nodes :: "seen \<Rightarrow> dom list \<Rightarrow> dom list \<times> seen \<times> heading list" where
  "mark_node seen (Txt s) = (Txt s, seen, [])"
| "mark_node seen (El tag as cs) =
     (if heading_tag tag
      then (let text = trim (texts_content cs);
                (aid, seen1) = slugger text seen;
                (cs', seen2, hs) = mark_nodes seen1 cs
            in (El tag (class_add ''xk-docs__h'' (setAttribute ''id'' aid as)) (cs' @ [anchor_node aid text]), seen2,
                \<lparr>h_level = (if tag = ''H2'' then 2 else 3), h_text = text, h_id = aid\<rparr> # hs))
      else (let (cs', seen1, hs) = mark_nodes seen cs in (El tag as cs', seen1, hs)))"
| "mark_nodes seen [] = ([], seen, [])"
| "mark_nodes seen (d # ds) =
     (let (d', seen1, hs) = mark_node seen d;
          (ds', seen2, hs') = mark_nodes seen1 ds
      in (d' # ds', seen2, hs @ hs'))"

definition markHeadings :: "dom list \<Rightarrow> dom list \<times> heading list" where
  "markHeadings body = (let (ds, seen, hs) = mark_nodes [] body in (ds, hs))"

definition table_wrap :: "dom \<Rightarrow> dom" where
  "table_wrap t = El ''DIV'' [(''class'', ''xk-tablewrap xk-docs__tablewrap''), (''tabindex'', ''0''), (''role'', ''region'')] [t]"

fun wrap_node :: "bool \<Rightarrow> dom \<Rightarrow> dom" where
  \<comment> \<open>the flag: the parent is a wrapper already\<close>
  "wrap_node wrapped (Txt s) = Txt s"
| "wrap_node wrapped (El tag as cs) =
     (let e = El tag as (map (wrap_node (''xk-docs__tablewrap'' \<in> set (classList as))) cs)
      in if tag = ''TABLE'' \<and> \<not> wrapped then table_wrap e else e)"

definition wrapTables :: "dom list \<Rightarrow> dom list" where
  "wrapTables body = map (wrap_node False) body"

end
