(* ===== verification/Article.thy ===== *)
theory Article
  imports Markdown
begin

text \<open>
  The rest of \<open>web/src/docs/render.js\<close>: diagrams and animations in place of fenced blocks, the glossary pass, the
  segments of an article; and \<open>glossaryMatches\<close> of \<open>web/src/docs/glossary.js\<close>.  The glossary's entries and the titles of
  the papers are arguments.
\<close>

section \<open>Blocks\<close>

record explainer = ex_title :: string  ex_duration :: int  ex_caption :: string

definition EXPLAINERS :: "(string \<times> explainer) list" where
  \<comment> \<open>the animations, but for their pictures; \<open>ms\<close> turns seconds to milliseconds\<close>
  "EXPLAINERS =
    [(''frame-hop'', \<lparr>ex_title = ''How a byte travels'', ex_duration = 9000,
       ex_caption = ''The frame hops Client, Satellite, Node, internet. The answer comes back the same way, and the Client signs one receipt to the device that served it. The Node only carried it, so the Satellite is the one that gets paid.''\<rparr>),
     (''settlement'', \<lparr>ex_title = ''Twelve receipts, one settlement'', ex_duration = 10000,
       ex_caption = ''Each receipt carries the session total, not the last chunk, so losing eleven of them costs nothing. The twelfth becomes the ticket, and the ticket is all the chain ever sees.''\<rparr>),
     (''degrade'', \<lparr>ex_title = ''The grid goes down'', ex_duration = 9000,
       ex_caption = ''Both power-line links die with the mains. Each takes three failures, sits out two seconds and scores zero, so the radio wins on arithmetic in about 0.8 seconds. Bulk traffic stops. Control, class C and the receipts do not.''\<rparr>),
     (''free-lan-paid-wan'', \<lparr>ex_title = ''Free LAN, paid WAN'', ex_duration = 9000,
       ex_caption = ''Traffic inside the mesh never reaches the meter, because it never uses the backhaul. Only what crosses the gateway is counted, in 10 KB units, against money already deposited.''\<rparr>)]"

definition object_members :: "string list" where
  \<comment> \<open>what a plain object inherits: reading such a name answers something\<close>
  "object_members = [''constructor'', ''hasOwnProperty'', ''isPrototypeOf'', ''propertyIsEnumerable'', ''toLocaleString'',
     ''toString'', ''valueOf'', ''__defineGetter__'', ''__defineSetter__'', ''__lookupGetter__'', ''__lookupSetter__'', ''__proto__'']"

definition findExplainer :: "string \<Rightarrow> bool" where
  \<comment> \<open>whether the registry answers something for a name\<close>
  "findExplainer name \<longleftrightarrow> name \<in> set (map fst EXPLAINERS) \<or> name \<in> set object_members"

definition block_nodes :: "(string \<Rightarrow> dom list) \<Rightarrow> string \<Rightarrow> string \<Rightarrow> dom list option" where
  \<comment> \<open>what replaces a fenced block, if something does\<close>
  "block_nodes parse info body =
     (let words = ws_split info; kind = hd words
      in if kind \<in> set BLOCK_KINDS
         then (let h = renderBlock kind body in if h \<noteq> [] then Some (parse h) else None)
         else if kind = ''xk-anim''
         then (let name = (case tl words of [] \<Rightarrow> [] | n # _ \<Rightarrow> n)
               in if findExplainer name then Some [El ''DIV'' [(''data-xk-anim'', name)] []] else None)
         else None)"

fun block_node :: "(string \<Rightarrow> dom list) \<Rightarrow> dom \<Rightarrow> dom list" where
  "block_node parse (Txt s) = [Txt s]"
| "block_node parse (El tag as cs) =
     (let same = [El tag as (concat (map (block_node parse) cs))]
      in if tag \<noteq> ''PRE'' then same
         else case getAttribute as ''data-info'' of
                None \<Rightarrow> same
              | Some info \<Rightarrow> (case block_nodes parse info (texts_content cs) of None \<Rightarrow> same | Some ns \<Rightarrow> ns))"

lemma inherited_name_taken:
  \<comment> \<open>a name that no animation has is not left as it was written when every object has it\<close>
  "block_nodes parse ''xk-anim toString'' body = Some [El ''DIV'' [(''data-xk-anim'', ''toString'')] []]"
  "block_nodes parse ''xk-anim frame-hops'' body = None"
  by (simp_all add: block_nodes_def findExplainer_def EXPLAINERS_def object_members_def BLOCK_KINDS_def ws_split_def ws_words_def is_ws_def)

definition replaceBlocks :: "(string \<Rightarrow> dom list) \<Rightarrow> dom list \<Rightarrow> dom list" where
  "replaceBlocks parse body = concat (map (block_node parse) body)"

section \<open>The glossary\<close>

record gloss =
  g_term :: string
  g_match :: "string list option"
  g_exact :: bool
  g_definition :: string
  g_paper :: string

type_synonym spelling = "string \<times> gloss"

definition glossaryMatches :: "gloss list \<Rightarrow> spelling list" where
  \<comment> \<open>longest first; the sort is stable\<close>
  "glossaryMatches entries =
     sort_key (\<lambda>(s, e). - int (length s))
       (concat (map (\<lambda>e. map (\<lambda>s. (s, e)) (case g_match e of None \<Rightarrow> [g_term e] | Some ms \<Rightarrow> ms)) entries))"

definition gloss_unit :: "char \<Rightarrow> bool" where
  \<comment> \<open>\<open>[A-Za-z0-9-]\<close>\<close>
  "gloss_unit c \<longleftrightarrow> letter c \<or> is_digit c \<or> c = CHR ''-''"

definition spelled :: "string \<Rightarrow> string \<Rightarrow> bool" where
  \<comment> \<open>the text starts with the spelling, whatever its case, and no word goes on after it\<close>
  "spelled s rest \<longleftrightarrow>
     s \<noteq> [] \<and> length s \<le> length rest \<and> lower (take (length s) rest) = lower s \<and>
     (drop (length s) rest = [] \<or> \<not> gloss_unit (hd (drop (length s) rest)))"

definition match_here :: "spelling list \<Rightarrow> char option \<Rightarrow> string \<Rightarrow> string option" where
  \<comment> \<open>the expression \<open>(?<![A-Za-z0-9-])(...)(?![A-Za-z0-9-])\<close> at one position, after the character \<open>prev\<close>\<close>
  "match_here ms prev rest =
     (if (case prev of None \<Rightarrow> False | Some c \<Rightarrow> gloss_unit c) then None
      else map_option (\<lambda>(s, e). take (length s) rest) (find (\<lambda>(s, e). spelled s rest) ms))"

definition gloss_index :: "spelling list \<Rightarrow> string \<Rightarrow> spelling option" where
  \<comment> \<open>the map from spellings in lower case to the first entry that has it\<close>
  "gloss_index ms found = find (\<lambda>(s, e). lower s = lower found) ms"

definition candidate :: "spelling list \<Rightarrow> string list \<Rightarrow> string \<Rightarrow> gloss option" where
  \<comment> \<open>the entry that an occurrence explains, unless it was explained before or its case is wrong\<close>
  "candidate ms used found =
     (case gloss_index ms found of
        None \<Rightarrow> None
      | Some (s, e) \<Rightarrow> if g_term e \<notin> set used \<and> (\<not> g_exact e \<or> s = found) then Some e else None)"

datatype piece = Plain string | Gloss gloss string

lemma match_here_Some:
  assumes "match_here ms prev rest = Some f"
  obtains s e where "(s, e) \<in> set ms" and "spelled s rest" and "f = take (length s) rest"
proof -
  obtain s e where f: "find (\<lambda>(s, e). spelled s rest) ms = Some (s, e)" "f = take (length s) rest"
    using assms by (auto simp: match_here_def split: if_splits)
  have "(s, e) \<in> set ms \<and> spelled s rest" using f(1) by (auto simp: find_Some_iff) (metis nth_mem)
  with f(2) that show ?thesis by blast
qed

lemma match_here_length: "match_here ms prev rest = Some f \<Longrightarrow> 0 < length f \<and> length f \<le> length rest"
  by (erule match_here_Some) (auto simp: spelled_def)

function scan_text :: "spelling list \<Rightarrow> string list \<Rightarrow> char option \<Rightarrow> string \<Rightarrow> string \<Rightarrow> piece list \<times> string list" where
  \<comment> \<open>the loop over the matches of one text: \<open>pl\<close> is the text since the last piece\<close>
  "scan_text ms used prev pl [] = ([Plain pl], used)"
| "scan_text ms used prev pl (c # s) =
     (case match_here ms prev (c # s) of
        None \<Rightarrow> scan_text ms used (Some c) (pl @ [c]) s
      | Some f \<Rightarrow>
          let rest = drop (length f) (c # s)
          in (case candidate ms used f of
                None \<Rightarrow> scan_text ms used (Some (last f)) (pl @ f) rest
              | Some e \<Rightarrow>
                  let (ps, used') = scan_text ms (used @ [g_term e]) (Some (last f)) [] rest
                  in (Plain pl # Gloss e f # ps, used')))"
  by pat_completeness auto
termination
  by (relation "measure (\<lambda>(ms, used, prev, pl, s). length s)") (auto dest!: match_here_length)

definition escapeAttribute :: "string \<Rightarrow> string" where
  "escapeAttribute s =
     replace_char QUOT ''&quot;'' (replace_char (CHR ''<'') ''&lt;'' (replace_char (CHR ''&'') ''&amp;'' s))"

definition glossHtml :: "gloss \<Rightarrow> string \<Rightarrow> (string \<times> string) list \<Rightarrow> string" where
  "glossHtml e shown titles =
     (let link = (case map_of titles (g_paper e) of
            None \<Rightarrow> []
          | Some paper \<Rightarrow>
              if paper = [] then []
              else html ''<a class=~xk-gloss__link~ href=~/docs/'' @ g_paper e @ html ''~ data-doc-link>explained in ''
                   @ escapeAttribute paper @ ''</a>'')
      in html ''<span class=~xk-gloss~ tabindex=~0~><abbr class=~xk-gloss__term~ title=~'' @ escapeAttribute (g_term e)
         @ '': '' @ escapeAttribute (g_definition e) @ html ''~>'' @ escapeAttribute shown @ ''</abbr>''
         @ html ''<span class=~xk-gloss__pop~ role=~note~><span class=~xk-gloss__head xk-mono~>'' @ escapeAttribute (g_term e)
         @ html ''</span><span class=~xk-gloss__def~>'' @ escapeAttribute (g_definition e) @ ''</span>'' @ link
         @ ''</span></span>'')"

definition piece_html :: "(string \<times> string) list \<Rightarrow> piece \<Rightarrow> string" where
  "piece_html titles p = (case p of Plain s \<Rightarrow> escapeAttribute s | Gloss e shown \<Rightarrow> glossHtml e shown titles)"

definition gloss_node :: "gloss \<Rightarrow> string \<Rightarrow> (string \<times> string) list \<Rightarrow> dom" where
  \<comment> \<open>what \<open>glossHtml\<close> spells\<close>
  "gloss_node e shown titles =
     (let link = (case map_of titles (g_paper e) of
            None \<Rightarrow> []
          | Some paper \<Rightarrow>
              if paper = [] then []
              else [El ''A'' [(''class'', ''xk-gloss__link''), (''href'', ''/docs/'' @ g_paper e), (''data-doc-link'', [])]
                      [Txt (''explained in '' @ paper)]])
      in El ''SPAN'' [(''class'', ''xk-gloss''), (''tabindex'', ''0'')]
           [El ''ABBR'' [(''class'', ''xk-gloss__term''), (''title'', g_term e @ '': '' @ g_definition e)] [Txt shown],
            El ''SPAN'' [(''class'', ''xk-gloss__pop''), (''role'', ''note'')]
              ([El ''SPAN'' [(''class'', ''xk-gloss__head xk-mono'')] [Txt (g_term e)],
                El ''SPAN'' [(''class'', ''xk-gloss__def'')] [Txt (g_definition e)]] @ link)])"

definition show_attr :: "string \<times> string \<Rightarrow> string" where
  \<comment> \<open>an attribute without a value is its name\<close>
  "show_attr a = (if snd a = [] then '' '' @ fst a else '' '' @ fst a @ html ''=~'' @ escapeAttribute (snd a) @ html ''~'')"

fun show_dom :: "dom \<Rightarrow> string" and show_doms :: "dom list \<Rightarrow> string" where
  \<comment> \<open>a tree as markup\<close>
  "show_dom (Txt s) = escapeAttribute s"
| "show_dom (El tag as cs) =
     ''<'' @ lower tag @ concat (map show_attr as) @ ''>'' @ show_doms cs @ ''</'' @ lower tag @ ''>''"
| "show_doms [] = []"
| "show_doms (d # ds) = show_dom d @ show_doms ds"

lemma escapeAttribute_append: "escapeAttribute (s @ t) = escapeAttribute s @ escapeAttribute t"
  by (simp add: escapeAttribute_def replace_char_def)

lemma escapeAttribute_Cons:
  "escapeAttribute [] = []"
  "escapeAttribute (c # s) =
     (if c = CHR ''&'' then ''&amp;'' else if c = CHR ''<'' then ''&lt;'' else if c = QUOT then ''&quot;'' else [c]) @ escapeAttribute s"
  by (simp_all add: escapeAttribute_def replace_char_def QUOT_def)

lemma gloss_node_spelled:
  \<comment> \<open>the path of a paper has no character that needs an escape\<close>
  assumes "escapeAttribute (g_paper e) = g_paper e"
  shows "show_dom (gloss_node e shown titles) = glossHtml e shown titles"
proof -
  have l: "lower ''SPAN'' = ''span''" "lower ''ABBR'' = ''abbr''" "lower ''A'' = ''a''" by code_simp+
  show ?thesis
    by (cases "map_of titles (g_paper e)")
      (simp_all add: gloss_node_def glossHtml_def Let_def show_attr_def l escapeAttribute_append escapeAttribute_Cons assms html_def QUOT_def)
qed

definition piece_nodes :: "(string \<times> string) list \<Rightarrow> piece \<Rightarrow> dom list" where
  "piece_nodes titles p =
     (case p of Plain s \<Rightarrow> if s = [] then [] else [Txt s] | Gloss e shown \<Rightarrow> [gloss_node e shown titles])"

definition GLOSS_SKIP :: "string list" where
  "GLOSS_SKIP = [''CODE'', ''PRE'', ''A'', ''ABBR'', ''H1'', ''H2'', ''H3'', ''H4'', ''H5'', ''H6'', ''SCRIPT'', ''STYLE'', ''SVG'',
     ''FIGCAPTION'', ''BUTTON'']"

definition gloss_skipped :: "string \<Rightarrow> (string \<times> string) list \<Rightarrow> bool" where
  "gloss_skipped tag as \<longleftrightarrow> tag \<in> set GLOSS_SKIP \<or> ''xk-dg'' \<in> set (classList as)"

definition gloss_text :: "spelling list \<Rightarrow> (string \<times> string) list \<Rightarrow> string list \<Rightarrow> string \<Rightarrow> dom list \<times> string list" where
  "gloss_text ms titles used s =
     (if length (trim s) < 2 then ([Txt s], used)
      else let (ps, used') = scan_text ms used None [] s
           in if used' = used then ([Txt s], used) else (concat (map (piece_nodes titles) ps), used'))"

fun gloss_in :: "spelling list \<Rightarrow> (string \<times> string) list \<Rightarrow> string list \<Rightarrow> dom \<Rightarrow> dom list \<times> string list"
  and gloss_all :: "spelling list \<Rightarrow> (string \<times> string) list \<Rightarrow> string list \<Rightarrow> dom list \<Rightarrow> dom list \<times> string list" where
  \<comment> \<open>the text nodes in document order; \<open>used\<close> are the terms explained so far\<close>
  "gloss_in ms titles used (Txt s) = gloss_text ms titles used s"
| "gloss_in ms titles used (El tag as cs) =
     (if gloss_skipped tag as then ([El tag as cs], used)
      else (let (cs', used') = gloss_all ms titles used cs in ([El tag as cs'], used')))"
| "gloss_all ms titles used [] = ([], used)"
| "gloss_all ms titles used (d # ds) =
     (let (d', used1) = gloss_in ms titles used d;
          (ds', used2) = gloss_all ms titles used1 ds
      in (d' @ ds', used2))"

definition annotateGlossary :: "gloss list \<Rightarrow> (string \<times> string) list \<Rightarrow> dom list \<Rightarrow> dom list" where
  "annotateGlossary entries titles body = fst (gloss_all (glossaryMatches entries) titles [] body)"

section \<open>Segments\<close>

datatype segment = Html string | Anim string

definition anim_of :: "dom \<Rightarrow> string option" where
  \<comment> \<open>a name that is not empty\<close>
  "anim_of d = (case d of Txt s \<Rightarrow> None
     | El tag as cs \<Rightarrow> (case getAttribute as ''data-xk-anim'' of None \<Rightarrow> None | Some n \<Rightarrow> if n = [] then None else Some n))"

fun seg_loop :: "(dom \<Rightarrow> string) \<Rightarrow> string \<Rightarrow> dom list \<Rightarrow> segment list" where
  "seg_loop outer h [] = (if h \<noteq> [] then [Html h] else [])"
| "seg_loop outer h (d # ds) =
     (case anim_of d of
        Some n \<Rightarrow> (if h \<noteq> [] then [Html h] else []) @ Anim n # seg_loop outer [] ds
      | None \<Rightarrow> seg_loop outer (h @ outer d) ds)"

definition elements :: "dom list \<Rightarrow> dom list" where
  \<comment> \<open>\<open>body.children\<close>: texts are not among them\<close>
  "elements ds = filter (\<lambda>d. case d of Txt s \<Rightarrow> False | El tag as cs \<Rightarrow> True) ds"

definition toSegments :: "(dom \<Rightarrow> string) \<Rightarrow> dom list \<Rightarrow> segment list" where
  "toSegments outer body = seg_loop outer [] (elements body)"

section \<open>The article\<close>

fun first_h1 :: "dom \<Rightarrow> bool"
  and any_h1 :: "dom list \<Rightarrow> bool" where
  "first_h1 (Txt s) = False"
| "first_h1 (El tag as cs) = (tag = ''H1'' \<or> any_h1 cs)"
| "any_h1 [] = False"
| "any_h1 (d # ds) = (first_h1 d \<or> any_h1 ds)"

fun drop_h1 :: "dom list \<Rightarrow> dom list" where
  \<comment> \<open>the first \<open>h1\<close> goes when it is a child of the body\<close>
  "drop_h1 [] = []"
| "drop_h1 (d # ds) =
     (if first_h1 d then (case d of Txt s \<Rightarrow> d # ds | El tag as cs \<Rightarrow> if tag = ''H1'' then ds else d # ds)
      else d # drop_h1 ds)"

definition renderDoc :: "bool \<Rightarrow> (string \<Rightarrow> string) \<Rightarrow> (string \<Rightarrow> string) \<Rightarrow> (string \<Rightarrow> dom list) \<Rightarrow> (dom \<Rightarrow> string) \<Rightarrow>
    gloss list \<Rightarrow> (string \<times> string) list \<Rightarrow> doc \<Rightarrow> segment list \<times> heading list" where
  "renderDoc caret other marked parse outer entries titles d =
     (let raw = renderMarkdown caret other marked parse outer (doc_source d) (baseUrl d);
          body = rewriteDocLinks caret other (doc_folder d) (drop_h1 (parse raw));
          (marked_body, headings) = markHeadings body;
          done = annotateGlossary entries titles (replaceBlocks parse (wrapTables marked_body))
      in (toSegments outer done, headings))"

end
