(* ===== verification/ArticleGuarantees.thy ===== *)
theory ArticleGuarantees
  imports Article
begin

text \<open>
  The properties of a rendered article: what a reader sees of the glossary, the outline, the links and the segments.
\<close>

section \<open>The glossary\<close>

fun body_text :: "dom \<Rightarrow> string" and body_texts :: "dom list \<Rightarrow> string" where
  \<comment> \<open>the text without the popups\<close>
  "body_text (Txt s) = s"
| "body_text (El tag as cs) = (if getAttribute as ''class'' = Some ''xk-gloss__pop'' then [] else body_texts cs)"
| "body_texts [] = []"
| "body_texts (d # ds) = body_text d @ body_texts ds"

fun explained :: "dom \<Rightarrow> string list" and explained_all :: "dom list \<Rightarrow> string list" where
  \<comment> \<open>the terms at the head of a popup, in document order\<close>
  "explained (Txt s) = []"
| "explained (El tag as cs) =
     (if getAttribute as ''class'' = Some ''xk-gloss__head xk-mono'' then [texts_content cs] else explained_all cs)"
| "explained_all [] = []"
| "explained_all (d # ds) = explained d @ explained_all ds"

lemma body_texts_append [simp]: "body_texts (xs @ ys) = body_texts xs @ body_texts ys"
  by (induction xs) auto

lemma explained_all_append [simp]: "explained_all (xs @ ys) = explained_all xs @ explained_all ys"
  by (induction xs) auto

fun piece_shown :: "piece \<Rightarrow> string" where
  "piece_shown (Plain s) = s"
| "piece_shown (Gloss e f) = f"

fun piece_terms :: "piece \<Rightarrow> string list" where
  "piece_terms (Plain s) = []"
| "piece_terms (Gloss e f) = [g_term e]"

lemma piece_visible: "body_texts (piece_nodes titles p) = piece_shown p"
  by (cases p) (simp_all add: piece_nodes_def gloss_node_def Let_def getAttribute_def)

lemma piece_explained: "explained_all (piece_nodes titles p) = piece_terms p"
  by (cases p) (auto simp: piece_nodes_def gloss_node_def Let_def getAttribute_def split: option.splits)

lemma pieces_visible: "body_texts (concat (map (piece_nodes titles) ps)) = concat (map piece_shown ps)"
  by (induction ps) (simp_all add: piece_visible)

lemma pieces_explained: "explained_all (concat (map (piece_nodes titles) ps)) = concat (map piece_terms ps)"
  by (induction ps) (simp_all add: piece_explained)

lemma candidate_Some:
  assumes "candidate ms used f = Some e"
  shows "g_term e \<notin> set used \<and> (\<exists>s. (s, e) \<in> set ms \<and> lower s = lower f \<and> (g_exact e \<longrightarrow> s = f))"
proof -
  obtain s where f: "gloss_index ms f = Some (s, e)" "g_term e \<notin> set used" "\<not> g_exact e \<or> s = f"
    using assms by (auto simp: candidate_def split: option.splits if_splits)
  have "(s, e) \<in> set ms \<and> lower s = lower f"
    using f(1) by (auto simp: gloss_index_def find_Some_iff) (metis nth_mem)
  with f show ?thesis by blast
qed

lemma match_here_prefix: "match_here ms prev rest = Some f \<Longrightarrow> f @ drop (length f) rest = rest"
  by (erule match_here_Some) (auto simp: spelled_def min_def)

definition glossed_ok :: "spelling list \<Rightarrow> piece \<Rightarrow> bool" where
  \<comment> \<open>what is explained is a spelling of the entry, letter for letter when its case matters\<close>
  "glossed_ok ms p = (case p of Plain s \<Rightarrow> True
     | Gloss e f \<Rightarrow> \<exists>s. (s, e) \<in> set ms \<and> lower s = lower f \<and> (g_exact e \<longrightarrow> s = f))"

lemma scan_text_keeps:
  "scan_text ms used prev pl s = (ps, used') \<Longrightarrow>
   concat (map piece_shown ps) = pl @ s \<and> used' = used @ concat (map piece_terms ps) \<and>
   (distinct used \<longrightarrow> distinct used') \<and> list_all (glossed_ok ms) ps"
proof (induction ms used prev pl s arbitrary: ps used' rule: scan_text.induct)
  case (1 ms used prev pl)
  then show ?case by (auto simp: glossed_ok_def)
next
  case (2 ms used prev pl c s)
  show ?case
  proof (cases "match_here ms prev (c # s)")
    case None
    have "scan_text ms used (Some c) (pl @ [c]) s = (ps, used')" using 2(4) by (simp add: None)
    note ih = 2(1) [OF None this]
    then have "concat (map piece_shown ps) = pl @ c # s" by simp
    with ih show ?thesis by metis
  next
    case (Some f)
    let ?rest = "drop (length f) (c # s)"
    note pre = match_here_prefix [OF Some]
    show ?thesis
    proof (cases "candidate ms used f")
      case None
      have "scan_text ms used (Some (last f)) (pl @ f) ?rest = (ps, used')" using 2(4) by (simp add: Some None)
      note ih = 2(2) [OF Some refl None this]
      have "(pl @ f) @ ?rest = pl @ c # s" using pre by simp
      with ih show ?thesis by metis
    next
      case e: (Some e)
      obtain qs used1 where r: "scan_text ms (used @ [g_term e]) (Some (last f)) [] ?rest = (qs, used1)" by fastforce
      have ih: "concat (map piece_shown qs) = ?rest" "used1 = (used @ [g_term e]) @ concat (map piece_terms qs)"
        "distinct (used @ [g_term e]) \<longrightarrow> distinct used1" "list_all (glossed_ok ms) qs"
        using 2(3) [OF Some refl e r] unfolding append_Nil by blast+
      have ps: "ps = Plain pl # Gloss e f # qs" "used' = used1" using 2(4) by (simp_all add: Some e r)
      have "glossed_ok ms (Plain pl)" "glossed_ok ms (Gloss e f)"
        using candidate_Some [OF e] by (auto simp: glossed_ok_def)
      moreover have "distinct used \<longrightarrow> distinct used'" using ih(3) ps(2) candidate_Some [OF e] by simp
      ultimately show ?thesis using ih(1,2,4) ps pre by simp
    qed
  qed
qed

lemma gloss_text_keeps:
  assumes "gloss_text ms titles used s = (ds, used')"
  shows "body_texts ds = s \<and> used' = used @ explained_all ds \<and> (distinct used \<longrightarrow> distinct used')"
proof -
  obtain ps u where r: "scan_text ms used None [] s = (ps, u)" by fastforce
  show ?thesis
    using assms scan_text_keeps [OF r]
    by (auto simp: gloss_text_def r pieces_visible pieces_explained split: if_splits)
qed

lemma gloss_keeps:
  "\<lbrakk>gloss_in ms titles used d = (ds, used'); explained d = []\<rbrakk> \<Longrightarrow>
   body_texts ds = body_text d \<and> used' = used @ explained_all ds \<and> (distinct used \<longrightarrow> distinct used')"
  "\<lbrakk>gloss_all ms titles used bs = (ds, used'); explained_all bs = []\<rbrakk> \<Longrightarrow>
   body_texts ds = body_texts bs \<and> used' = used @ explained_all ds \<and> (distinct used \<longrightarrow> distinct used')"
proof (induction ms titles used d and ms titles used bs arbitrary: ds used' and ds used' rule: gloss_in_gloss_all.induct)
  case (1 ms titles used s)
  then show ?case using gloss_text_keeps by simp
next
  case (2 ms titles used tag as cs)
  then show ?case by (auto split: if_splits prod.splits)
next
  case (3 ms titles used)
  then show ?case by simp
next
  case (4 ms titles used e es)
  obtain d' u1 ds' u2 where r: "gloss_in ms titles used e = (d', u1)" "gloss_all ms titles u1 es = (ds', u2)" by fastforce
  have eq: "ds = d' @ ds'" "used' = u2" using 4(3) by (simp_all add: r)
  have "body_texts d' = body_text e \<and> u1 = used @ explained_all d' \<and> (distinct used \<longrightarrow> distinct u1)"
    using 4(1) [OF r(1)] 4(4) by (metis append_is_Nil_conv explained_all.simps(2))
  moreover have "body_texts ds' = body_texts es \<and> u2 = u1 @ explained_all ds' \<and> (distinct u1 \<longrightarrow> distinct u2)"
    using 4(2) [OF r(1) [symmetric] refl r(2)] 4(4) by (metis append_is_Nil_conv explained_all.simps(2))
  ultimately show ?case by (simp only: eq) (auto simp del: distinct_append)
qed

text \<open>C38. The glossary pass leaves the text of a page as it was, the popups apart, and explains no term twice.\<close>

theorem glossary_keeps_text:
  assumes "explained_all body = []"
  shows "body_texts (annotateGlossary entries titles body) = body_texts body \<and>
    distinct (explained_all (annotateGlossary entries titles body))"
proof -
  obtain ds u where r: "gloss_all (glossaryMatches entries) titles [] body = (ds, u)" by fastforce
  show ?thesis using gloss_keeps(2) [OF r assms] by (auto simp: annotateGlossary_def r simp del: distinct_append)
qed

definition sample_entries :: "gloss list" where
  "sample_entries = [\<lparr>g_term = ''Receipt'', g_match = Some [''receipt'', ''receipts''], g_exact = False,
     g_definition = ''A signed count.'', g_paper = ''papers/04''\<rparr>]"

definition sample_body :: "dom list" where
  "sample_body = [El ''P'' [] [Txt ''A receipt is signed. Receipts add up.'']]"

theorem glossary_keeps_text_witness:
  "explained_all (annotateGlossary sample_entries [] sample_body) = [''Receipt''] \<and>
   body_texts (annotateGlossary sample_entries [] sample_body) = ''A receipt is signed. Receipts add up.''"
proof -
  have "explained_all sample_body = []" by (simp add: sample_body_def getAttribute_def)
  from glossary_keeps_text [OF this] 
  have "body_texts (annotateGlossary sample_entries [] sample_body) = ''A receipt is signed. Receipts add up.''"
    by (simp add: sample_body_def getAttribute_def)
  moreover have "explained_all (annotateGlossary sample_entries [] sample_body) = [''Receipt'']" by code_simp
  ultimately show ?thesis by simp
qed

section \<open>The outline\<close>

fun outline_texts :: "dom \<Rightarrow> (nat \<times> string) list" and outlines :: "dom list \<Rightarrow> (nat \<times> string) list" where
  \<comment> \<open>level and text of the headings of a page, in document order\<close>
  "outline_texts (Txt s) = []"
| "outline_texts (El tag as cs) =
     (if heading_tag tag then [(if tag = ''H2'' then 2 else 3, trim (texts_content cs))] else []) @ outlines cs"
| "outlines [] = []"
| "outlines (d # ds) = outline_texts d @ outlines ds"

fun page_id :: "dom \<Rightarrow> string option list" and page_ids :: "dom list \<Rightarrow> string option list" where
  \<comment> \<open>the \<open>id\<close> of each heading, in document order\<close>
  "page_id (Txt s) = []"
| "page_id (El tag as cs) = (if heading_tag tag then [getAttribute as ''id''] else []) @ page_ids cs"
| "page_ids [] = []"
| "page_ids (d # ds) = page_id d @ page_ids ds"

lemma page_ids_append [simp]: "page_ids (xs @ ys) = page_ids xs @ page_ids ys"
  by (induction xs) auto

lemma anchor_no_id [simp]: "page_id (anchor_node aid text) = []"
  by (simp add: anchor_node_def heading_tag_def)

lemma id_kept [simp]: "getAttribute (class_add c (setAttribute ''id'' aid as)) ''id'' = Some aid"
  by (simp add: getAttribute_def class_add_def setAttribute_def Let_def update_conv)

lemma slugs_append: "slugs seen (ts @ us) = slugs seen ts @ slugs (seen_after seen ts) us"
  by (induction ts arbitrary: seen) (simp_all add: seen_after_def split_beta)

lemma seen_after_append: "seen_after seen (ts @ us) = seen_after (seen_after seen ts) us"
  by (simp add: seen_after_def)

lemma mark_outline:
  "mark_node seen d = (d', seen', hs) \<Longrightarrow>
   map (\<lambda>h. (h_level h, h_text h)) hs = outline_texts d \<and> map h_id hs = slugs seen (map h_text hs) \<and>
   seen' = seen_after seen (map h_text hs) \<and> page_id d' = map (Some \<circ> h_id) hs"
  "mark_nodes seen ds = (ds', seen', hs) \<Longrightarrow>
   map (\<lambda>h. (h_level h, h_text h)) hs = outlines ds \<and> map h_id hs = slugs seen (map h_text hs) \<and>
   seen' = seen_after seen (map h_text hs) \<and> page_ids ds' = map (Some \<circ> h_id) hs"
proof (induction seen d and seen ds arbitrary: d' seen' hs and ds' seen' hs rule: mark_node_mark_nodes.induct)
  case (2 seen tag as cs)
  show ?case
  proof (cases "heading_tag tag")
    case True
    obtain aid seen1 where s: "slugger (trim (texts_content cs)) seen = (aid, seen1)" by fastforce
    obtain cs' seen2 hs1 where m: "mark_nodes seen1 cs = (cs', seen2, hs1)" by (metis prod_cases3)
    note ih = 2(1) [OF True refl s [symmetric] refl m]
    show ?thesis
      using ih 2(3) True by (auto simp: s m seen_after_def Let_def heading_tag_def)
  next
    case False
    obtain cs' seen1 hs1 where m: "mark_nodes seen cs = (cs', seen1, hs1)" by (metis prod_cases3)
    show ?thesis using 2(2) [OF False m] 2(3) by (auto simp: False m)
  qed
next
  case (4 seen e es)
  obtain e' seen1 hs1 where m: "mark_node seen e = (e', seen1, hs1)" by (metis prod_cases3)
  obtain es' seen2 hs2 where m2: "mark_nodes seen1 es = (es', seen2, hs2)" by (metis prod_cases3)
  have eq: "ds' = e' # es'" "seen' = seen2" "hs = hs1 @ hs2" using 4(3) by (simp_all add: m m2)
  show ?case
    using 4(1) [OF m] 4(2) [OF m [symmetric] refl refl m2]
    by (simp add: eq slugs_append seen_after_append)
qed (simp_all add: seen_after_def)

text \<open>When a page shows the headings that the index scanned from its source, its outline is the one of the index and
  every heading carries the anchor that the index gives for it, so that a search hit lands on its heading.\<close>

theorem outline_matches_index:
  assumes "outlines body = map (\<lambda>h. (h_level h, h_text h)) (doc_headings (make_doc folder (path, source)))"
  shows "map h_id (snd (markHeadings body)) = map h_id (doc_headings (make_doc folder (path, source))) \<and>
    map h_text (snd (markHeadings body)) = map h_text (doc_headings (make_doc folder (path, source))) \<and>
    page_ids (fst (markHeadings body)) = map (Some \<circ> h_id) (doc_headings (make_doc folder (path, source)))"
proof -
  obtain ds seen hs where m: "mark_nodes [] body = (ds, seen, hs)" by (metis prod_cases3)
  define xs where "xs = doc_headings (make_doc folder (path, source))"
  have i: "map h_id xs = slugs [] (map h_text xs)" using scan_ids by (simp add: xs_def make_doc_def Let_def)
  note o = mark_outline(2) [OF m]
  have "map snd (map (\<lambda>h. (h_level h, h_text h)) hs) = map snd (map (\<lambda>h. (h_level h, h_text h)) xs)"
    using o assms by (simp add: xs_def)
  then have t: "map h_text hs = map h_text xs" by (simp add: comp_def)
  then have "map h_id hs = map h_id xs" using o i by simp
  moreover have "page_ids ds = map (Some \<circ> h_id) hs" using o by blast
  then have "page_ids ds = map Some (map h_id hs)" by (simp only: list.map_comp)
  ultimately show ?thesis using t by (simp add: markHeadings_def m xs_def [symmetric])
qed

definition sample_source :: string where
  "sample_source = ''## Tickets'' @ [LF] @ ''text'' @ [LF] @ ''### Price'' @ [LF] @ ''## Tickets''"

definition sample_page :: "dom list" where
  "sample_page = [El ''H2'' [] [Txt ''Tickets''], El ''P'' [] [Txt ''text''], El ''H3'' [] [Txt ''Price''], El ''H2'' [] [Txt ''Tickets'']]"

theorem outline_matches_index_witness:
  "page_ids (fst (markHeadings sample_page)) = [Some ''tickets'', Some ''price'', Some ''tickets-1'']"
proof -
  have h: "doc_headings (make_doc ''papers'' (''../../../docs/papers/04.md'', sample_source)) =
      [\<lparr>h_level = 2, h_text = ''Tickets'', h_id = ''tickets''\<rparr>, \<lparr>h_level = 3, h_text = ''Price'', h_id = ''price''\<rparr>,
       \<lparr>h_level = 2, h_text = ''Tickets'', h_id = ''tickets-1''\<rparr>]" by code_simp
  have "outlines sample_page = [(2, ''Tickets''), (3, ''Price''), (2, ''Tickets'')]" by code_simp
  then show ?thesis
    using outline_matches_index [of sample_page "''papers''" "''../../../docs/papers/04.md''" sample_source] by (simp add: h)
qed

section \<open>Segments\<close>

definition html_of :: "segment \<Rightarrow> string list" where
  "html_of s = (case s of Html h \<Rightarrow> [h] | Anim n \<Rightarrow> [])"

fun runs_ok :: "segment list \<Rightarrow> bool" where
  \<comment> \<open>no run of markup is empty, and none follows another\<close>
  "runs_ok [] = True"
| "runs_ok [s] = (s \<noteq> Html [])"
| "runs_ok (s # t # ss) = (s \<noteq> Html [] \<and> (html_of s = [] \<or> html_of t = []) \<and> runs_ok (t # ss))"

definition spell_segment :: "(string \<Rightarrow> string) \<Rightarrow> segment \<Rightarrow> string" where
  "spell_segment mark s = (case s of Html h \<Rightarrow> h | Anim n \<Rightarrow> mark n)"

lemma seg_loop_spells:
  "concat (map (spell_segment mark) (seg_loop outer h ds)) =
   h @ concat (map (\<lambda>d. case anim_of d of None \<Rightarrow> outer d | Some n \<Rightarrow> mark n) ds)"
  by (induction outer h ds rule: seg_loop.induct) (auto simp: spell_segment_def split: option.splits)

lemma runs_ok_Anim: "runs_ok (Anim n # ss) = runs_ok ss"
  by (cases ss) (auto simp: html_of_def)

lemma seg_loop_runs: "runs_ok (seg_loop outer h ds)"
  by (induction outer h ds rule: seg_loop.induct) (auto simp: runs_ok_Anim html_of_def split: option.splits)

text \<open>Put together again, with any marker for an animation, the segments of an article are its elements in their order;
  no run of markup is empty or follows another.\<close>

theorem segments_partition:
  "concat (map (spell_segment mark) (toSegments outer body)) =
     concat (map (\<lambda>d. case anim_of d of None \<Rightarrow> outer d | Some n \<Rightarrow> mark n) (elements body)) \<and>
   runs_ok (toSegments outer body)"
  by (simp add: toSegments_def seg_loop_spells seg_loop_runs)

section \<open>Cross-references\<close>

definition plain_name :: "string \<Rightarrow> bool" where
  \<comment> \<open>letters, digits, \<open>-\<close>, \<open>_\<close>\<close>
  "plain_name s \<longleftrightarrow> s \<noteq> [] \<and> list_all plain_unit (u s)"

definition fragment :: "string \<Rightarrow> bool" where
  \<comment> \<open>nothing, or a mark and an anchor\<close>
  "fragment f \<longleftrightarrow> f = [] \<or> (\<exists>h. f = CHR ''#'' # h \<and> h \<noteq> [] \<and> CHR ''#'' \<notin> set h)"

lemma u_back [simp]: "map char_of (u s) = s"
  by (simp add: u_def comp_def)

lemma plain_name_chars:
  assumes "plain_name s" "c \<in> set s"
  shows "45 \<le> (of_char c :: nat)" "c \<notin> {CHR ''#'', CHR '':'', CHR ''/'', CHR ''?'', CHR 92, CHR ''.''}"
proof -
  have "plain_unit (of_char c)" using assms by (auto simp: plain_name_def u_def list_all_iff)
  then show "45 \<le> (of_char c :: nat)" "c \<notin> {CHR ''#'', CHR '':'', CHR ''/'', CHR ''?'', CHR 92, CHR ''.''}"
    using plain_unit_range [of "of_char c"] by (auto simp: plain_unit_def dec_digit_def)
qed

lemma split_on_prefix: "d \<notin> set a \<Longrightarrow> split_on d (a @ d # b) = a # split_on d b"
  by (induction a) auto

lemma split_on_single: "d \<notin> set a \<Longrightarrow> split_on d a = [a]"
  by (induction a) auto

lemma index_of_inside: "index_of p (a @ p @ b) \<noteq> None"
proof (induction a)
  case Nil
  show ?case using starts_with_append [of p b] by (cases "p @ b") (simp_all del: starts_with_append)
next
  case (Cons c a)
  then show ?case by (simp del: not_None_eq add: option.map_disc_iff)
qed

lemma hash_no_scheme: "\<not> scheme_unit (CHR ''#'')" "\<not> letter (CHR ''#'')"
  by (simp_all add: scheme_unit_def letter_def is_upper_def is_lower_def is_digit_def)

lemma scheme_colon:
  assumes "has_scheme (a @ f)" "f = [] \<or> hd f = CHR ''#''"
  shows "CHR '':'' \<in> set a"
proof -
  have *: "take 1 (dropWhile scheme_unit (b @ f)) = '':'' \<Longrightarrow> CHR '':'' \<in> set b" for b
    using assms(2) by (induction b) (cases f; auto simp: hash_no_scheme split: if_splits)+
  show ?thesis
  proof (cases a)
    case Nil
    then show ?thesis using assms by (cases f) (auto simp: has_scheme_def hash_no_scheme)
  next
    case (Cons c b)
    then show ?thesis using assms(1) * [of b] by (simp add: has_scheme_def)
  qed
qed

lemma doc_link_md:
  \<comment> \<open>a relative link to a markdown file, as the code reads it\<close>
  assumes "\<forall>c\<in>set path. c \<notin> {CHR ''#'', CHR '':''}" "fragment f"
  shows "doc_link caret other folder (path @ ''.md'' @ f) =
    (let resolved = drop_suffix ''.md'' (url_path caret other (''/docs/'' @ folder @ ''/'') (path @ ''.md''))
     in if starts_with ''/docs/'' resolved then Some (resolved @ f) else None)"
proof -
  let ?p = "path @ ''.md''"
  have h: "CHR ''#'' \<notin> set ?p" and c: "CHR '':'' \<notin> set ?p" using assms(1) by auto
  have s: "\<not> has_scheme (?p @ f)" using scheme_colon [of ?p f] assms(2) c by (auto simp: fragment_def)
  have i: "str_includes ''.md'' (?p @ f)" using index_of_inside [of "''.md''" path f] by (simp add: str_includes_def)
  have e: "ends_with ''.md'' ?p" by (simp add: ends_with_def)
  show ?thesis
  proof (cases "f = []")
    case True
    then show ?thesis using s i e split_on_single [OF h] by (simp add: doc_link_def Let_def)
  next
    case False
    then obtain g where g: "f = CHR ''#'' # g" "g \<noteq> []" "CHR ''#'' \<notin> set g" using assms(2) by (auto simp: fragment_def)
    have "split_on (CHR ''#'') (?p @ f) = [?p, g]"
      using split_on_prefix [OF h, of g] split_on_single [OF g(3)] by (simp add: g(1))
    then show ?thesis using s i e g by (simp add: doc_link_def Let_def)
  qed
qed

definition quiet :: "bool \<Rightarrow> nat \<Rightarrow> bool" where
  \<comment> \<open>a unit that goes into its segment as it is\<close>
  "quiet caret c \<longleftrightarrow> c \<notin> {47, 92, 63, 35} \<and> \<not> path_encoded caret c"

lemma path_state_quiet:
  "list_all (quiet caret) g \<Longrightarrow> path_state caret buf segs (g @ s) = path_state caret (buf @ g) segs s"
  by (induction g arbitrary: buf) (simp_all add: quiet_def encode_point_def)

lemma plain_quiet: "plain_unit c \<Longrightarrow> quiet caret c"
  using plain_unit_range [of c] plain_not_encoded [of c caret] by (auto simp: quiet_def)

lemma dot_quiet: "quiet caret 46"
  by (simp add: quiet_def path_encoded_def c0_encoded_def)

lemma name_quiet: "plain_name s \<Longrightarrow> list_all (quiet caret) (u s)"
  unfolding plain_name_def using list.pred_mono_strong plain_quiet by metis

lemma md_segment:
  \<comment> \<open>the end of a path that names a markdown file\<close>
  assumes "plain_name name"
  shows "path_state caret [] segs (u (name @ ''.md'')) = (segs @ [u (name @ ''.md'')], [])"
proof -
  have q: "list_all (quiet caret) (u (name @ ''.md''))"
    using name_quiet [OF assms] dot_quiet plain_quiet by (simp add: plain_unit_def)
  have "109 \<in> set (map lower_unit (u (name @ ''.md'')))" by (simp add: lower_unit_def)
  moreover have "109 \<notin> set b"
    if "b \<in> {u ''.'', u ''%2e'', u ''..'', u ''.%2e'', u ''%2e.'', u ''%2e%2e''}" for b
    using that by (elim insertE emptyE) simp_all
  ultimately have "\<not> single_dot (u (name @ ''.md''))" "\<not> double_dot (u (name @ ''.md''))"
    unfolding single_dot_def double_dot_def by blast+
  then show ?thesis using path_state_quiet [OF q, of "[]" segs "[]"] by (simp add: path_segment_def del: u_simps)
qed

lemma md_segment_anchor:
  assumes "plain_name name"
  shows "path_state caret [] segs (u (name @ ''.md'') @ 35 # s) = (segs @ [u (name @ ''.md'')], 35 # s)"
proof -
  have q: "list_all (quiet caret) (u (name @ ''.md''))"
    using name_quiet [OF assms] dot_quiet plain_quiet by (simp add: plain_unit_def)
  have "path_state caret [] segs (u (name @ ''.md'') @ 35 # s) = (path_segment False (u (name @ ''.md'')) segs, 35 # s)"
    using path_state_quiet [OF q, of "[]" segs "35 # s"] by simp
  moreover have "path_segment False (u (name @ ''.md'')) segs = segs @ [u (name @ ''.md'')]"
    using md_segment [OF assms, of caret segs] path_state_quiet [OF q, of "[]" segs "[]"] by (simp del: u_simps)
  ultimately show ?thesis by simp
qed

lemma folder_segment:
  assumes "plain_name f"
  shows "path_state caret [] segs (u f @ 47 # s) = path_state caret [] (segs @ [u f]) s"
proof -
  have "\<not> single_dot (u f) \<and> \<not> double_dot (u f)" using assms plain_not_dot by (simp add: plain_name_def)
  then show ?thesis
    using path_state_quiet [OF name_quiet [OF assms], of caret "[]" segs "47 # s"] by (simp add: path_segment_def)
qed

lemma dots_segment: "path_state caret [] segs (46 # 46 # 47 # s) = path_state caret [] (butlast segs) s"
proof -
  have "path_state caret [] segs ([46, 46] @ 47 # s) = path_state caret [46, 46] segs (47 # s)"
    using path_state_quiet [of caret "[46, 46]" "[]" segs "47 # s"] dot_quiet by (simp only: list.pred_inject append_Nil simp_thms)
  also have "\<dots> = path_state caret [] (path_segment True [46, 46] segs) s" by simp
  also have "path_segment True [46, 46] segs = butlast segs" by (simp add: path_segment_def double_dot_def lower_unit_def)
  finally show ?thesis by (simp only: append_Cons append_Nil)
qed

lemma docs_plain: "plain_name ''docs''"
  by (simp add: plain_name_def plain_unit_def)

lemma doc_base:
  assumes "plain_name folder"
  shows "base_path caret (''/docs/'' @ folder @ ''/'') = [u ''docs'', u folder, []]"
proof -
  have "tl (u (''/docs/'' @ folder @ ''/'')) = u ''docs'' @ 47 # u folder @ 47 # []" by simp
  then show ?thesis
    using folder_segment [OF docs_plain] folder_segment [OF assms]
    by (simp only: base_path_def) (simp add: path_segment_def double_dot_def single_dot_def del: u_simps, simp)
qed

definition ref_unit :: "char \<Rightarrow> bool" where
  \<comment> \<open>above the space, and no colon\<close>
  "ref_unit c \<longleftrightarrow> 32 < (of_char c :: nat) \<and> c \<noteq> CHR '':''"

lemma plain_ref: "plain_name s \<Longrightarrow> list_all ref_unit s"
  using plain_name_chars [of s] by (auto simp: ref_unit_def list_all_iff) force

lemma url_clean_ref:
  assumes "list_all ref_unit s"
  shows "url_clean s = u s"
proof -
  have d: "dropWhile (\<lambda>c. c \<le> 32) t = t" if "\<forall>c\<in>set t. 32 < c" for t :: "nat list"
    using that by (cases t) auto
  have a: "\<forall>c\<in>set (u s). 32 < c" using assms by (auto simp: u_def ref_unit_def list_all_iff)
  moreover have "filter (\<lambda>c. c \<notin> {9, 10, 13}) (u s) = u s" using a by (intro filter_True) auto
  ultimately show ?thesis using d [of "u s"] d [of "rev (u s)"] by (simp add: url_clean_def strip_right_def)
qed

lemma url_path_relative:
  assumes "list_all ref_unit (c # s)" "c \<notin> {CHR ''/'', CHR 92, CHR ''?'', CHR ''#''}"
  shows "url_path caret other base (c # s) =
    show_path (fst (path_state caret [] (butlast (base_path caret base)) (u (c # s))))"
proof -
  have n: "\<not> has_scheme (c # s)" using scheme_colon [of "c # s" "[]"] assms(1) by (auto simp: ref_unit_def list_all_iff)
  have "of_char c \<noteq> (of_char d :: nat)" if "d \<in> {CHR ''/'', CHR 92, CHR ''?'', CHR ''#''}" for d
    using assms(2) that by (auto simp: of_char_eq_iff)
  from this [of "CHR ''/''"] this [of "CHR 92"] this [of "CHR ''?''"] this [of "CHR ''#''"]
  have "of_char c \<notin> {47, 92, 63, 35 :: nat}" by simp
  then show ?thesis
    using n url_clean_ref [OF assms(1)] by (simp add: url_path_def slash_unit_def Let_def u_def comp_def)
qed

lemma name_head:
  assumes "plain_name s"
  obtains c r where "s = c # r" "c \<notin> {CHR ''/'', CHR 92, CHR ''?'', CHR ''#''}"
proof (cases s)
  case Nil
  with assms show ?thesis by (simp add: plain_name_def)
next
  case (Cons c r)
  with plain_name_chars(2) [OF assms, of c] that show ?thesis by auto
qed

lemma slash_char: "char_of (47 :: nat) = CHR ''/''"
proof -
  have "(47 :: nat) = of_char (CHR ''/'')" by simp
  then show ?thesis by (simp only: char_of_char)
qed

lemma show_path_texts: "show_path (map u gs) = concat (map (\<lambda>g. ''/'' @ g) gs)"
  by (induction gs) (simp_all add: show_path_def slash_char)

lemma path_same_folder:
  assumes "plain_name folder" "plain_name name"
  shows "url_path caret other (''/docs/'' @ folder @ ''/'') (name @ ''.md'') = ''/docs/'' @ folder @ ''/'' @ name @ ''.md''"
proof -
  obtain c r where c: "name = c # r" "c \<notin> {CHR ''/'', CHR 92, CHR ''?'', CHR ''#''}" by (rule name_head [OF assms(2)])
  have "list_all ref_unit (name @ ''.md'')" using plain_ref [OF assms(2)] by (simp add: ref_unit_def)
  then have "url_path caret other (''/docs/'' @ folder @ ''/'') (name @ ''.md'') =
      show_path (fst (path_state caret [] (butlast (base_path caret (''/docs/'' @ folder @ ''/''))) (u (name @ ''.md''))))"
    using url_path_relative [of c "r @ ''.md''"] c by simp
  also have "\<dots> = show_path [u ''docs'', u folder, u (name @ ''.md'')]"
    using md_segment [OF assms(2)] doc_base [OF assms(1)] by (simp del: u_simps)
  also have "\<dots> = ''/docs/'' @ folder @ ''/'' @ name @ ''.md''"
    using show_path_texts [of "[''docs'', folder, name @ ''.md'']"] by (simp del: u_simps)
  finally show ?thesis .
qed

lemma path_parent:
  assumes "plain_name folder" "list_all ref_unit s"
  shows "url_path caret other (''/docs/'' @ folder @ ''/'') (''../'' @ s) =
    show_path (fst (path_state caret [] [u ''docs''] (u s)))"
proof -
  have r: "list_all ref_unit (''../'' @ s)" using assms(2) by (simp add: ref_unit_def)
  have "u (''../'' @ s) = 46 # 46 # 47 # u s" by simp
  then show ?thesis
    using url_path_relative [of "CHR ''.''" "''./'' @ s"] r dots_segment [of caret "[u ''docs'', u folder]" "u s"] doc_base [OF assms(1)]
    by (simp del: u_simps)
qed

lemma path_sibling:
  assumes "plain_name folder" "plain_name g" "plain_name name"
  shows "url_path caret other (''/docs/'' @ folder @ ''/'') (''../'' @ g @ ''/'' @ name @ ''.md'') =
    ''/docs/'' @ g @ ''/'' @ name @ ''.md''"
proof -
  have r: "list_all ref_unit (g @ ''/'' @ name @ ''.md'')"
    using plain_ref [OF assms(2)] plain_ref [OF assms(3)] by (simp add: ref_unit_def)
  have "u (g @ ''/'' @ name @ ''.md'') = u g @ 47 # u (name @ ''.md'')" by simp
  then have "path_state caret [] [u ''docs''] (u (g @ ''/'' @ name @ ''.md'')) = ([u ''docs'', u g, u (name @ ''.md'')], [])"
    by (simp only: folder_segment [OF assms(2)] md_segment [OF assms(3)]) simp
  then show ?thesis
    using path_parent [OF assms(1) r, of caret other] show_path_texts [of "[''docs'', g, name @ ''.md'']"]
    by (simp only: fst_conv) simp
qed

lemma path_above:
  assumes "plain_name folder" "plain_name name"
  shows "url_path caret other (''/docs/'' @ folder @ ''/'') (''../'' @ name @ ''.md'') = ''/docs/'' @ name @ ''.md''"
proof -
  have r: "list_all ref_unit (name @ ''.md'')" using plain_ref [OF assms(2)] by (simp add: ref_unit_def)
  show ?thesis
    using path_parent [OF assms(1) r, of caret other] show_path_texts [of "[''docs'', name @ ''.md'']"] md_segment [OF assms(2)]
    by (simp only: fst_conv) simp
qed

lemma drop_md: "drop_suffix ''.md'' (s @ ''.md'') = s"
  by (simp add: drop_suffix_def ends_with_def)

lemma plain_no_mark: "plain_name s \<Longrightarrow> c \<in> set s \<Longrightarrow> c \<notin> {CHR ''#'', CHR '':''}"
  using plain_name_chars(2) [of s c] by auto

lemma doc_link_to:
  assumes "\<And>c. c \<in> set path \<Longrightarrow> c \<notin> {CHR ''#'', CHR '':''}" "fragment f"
    "url_path caret other (''/docs/'' @ folder @ ''/'') (path @ ''.md'') = (''/docs/'' @ r) @ ''.md''"
  shows "doc_link caret other folder (path @ ''.md'' @ f) = Some (''/docs/'' @ r @ f)"
proof -
  have "\<forall>c\<in>set path. c \<notin> {CHR ''#'', CHR '':''}" using assms(1) by blast
  note doc_link_md [OF this assms(2), of caret other folder]
  then show ?thesis by (simp only: assms(3) drop_md Let_def) (simp add: starts_with_def)
qed

lemma slug_of_file: "toSlug (''../../../docs/'' @ s @ ''.md'') = s"
  using drop_md [of s] by (simp add: toSlug_def starts_with_def)

text \<open>A relative link to a markdown file that reaches the pass over the links becomes the route of the document it names:
  in the same folder or in a neighbouring one.  A link to a file above the folder is rewritten too, to a route with no
  folder in it.\<close>

theorem cross_references_reach:
  assumes "plain_name folder" "plain_name g" "plain_name name" "fragment f"
  shows "doc_link caret other folder (name @ ''.md'' @ f) =
      Some (''/docs/'' @ toSlug (''../../../docs/'' @ (folder @ ''/'' @ name) @ ''.md'') @ f) \<and>
    doc_link caret other folder (''../'' @ g @ ''/'' @ name @ ''.md'' @ f) =
      Some (''/docs/'' @ toSlug (''../../../docs/'' @ (g @ ''/'' @ name) @ ''.md'') @ f) \<and>
    doc_link caret other folder (''../'' @ name @ ''.md'' @ f) = Some (''/docs/'' @ name @ f)"
proof (intro conjI)
  note marks = plain_no_mark [OF assms(2)] plain_no_mark [OF assms(3)]
  show "doc_link caret other folder (name @ ''.md'' @ f) =
      Some (''/docs/'' @ toSlug (''../../../docs/'' @ (folder @ ''/'' @ name) @ ''.md'') @ f)"
    unfolding slug_of_file unfolding append.assoc
    using doc_link_to [of name f caret other folder "folder @ ''/'' @ name"] assms(4) marks path_same_folder [OF assms(1,3)]
    by simp
  have "doc_link caret other folder ((''../'' @ g @ ''/'' @ name) @ ''.md'' @ f) = Some (''/docs/'' @ (g @ ''/'' @ name) @ f)"
  proof (rule doc_link_to)
    show "c \<notin> {CHR ''#'', CHR '':''}" if "c \<in> set (''../'' @ g @ ''/'' @ name)" for c using that marks by auto
  qed (use assms(4) path_sibling [OF assms(1-3), of caret other] in simp_all)
  then show "doc_link caret other folder (''../'' @ g @ ''/'' @ name @ ''.md'' @ f) =
      Some (''/docs/'' @ toSlug (''../../../docs/'' @ (g @ ''/'' @ name) @ ''.md'') @ f)"
    unfolding slug_of_file unfolding append.assoc .
  have "doc_link caret other folder ((''../'' @ name) @ ''.md'' @ f) = Some (''/docs/'' @ name @ f)"
  proof (rule doc_link_to)
    show "c \<notin> {CHR ''#'', CHR '':''}" if "c \<in> set (''../'' @ name)" for c using that marks by auto
  qed (use assms(4) path_above [OF assms(1,3), of caret other] in simp_all)
  then show "doc_link caret other folder (''../'' @ name @ ''.md'' @ f) = Some (''/docs/'' @ name @ f)"
    unfolding append.assoc .
qed

theorem cross_references_reach_witness:
  "doc_link True (\<lambda>s. s) ''papers'' ''04-settlement-and-economics.md#6-tickets'' = Some ''/docs/papers/04-settlement-and-economics#6-tickets'' \<and>
   doc_link True (\<lambda>s. s) ''papers'' ''../how-it-works.md'' = Some ''/docs/how-it-works''"
proof -
  have p: "plain_name ''papers''" "plain_name ''potential''" "plain_name ''04-settlement-and-economics''" "plain_name ''how-it-works''"
    by (simp_all add: plain_name_def plain_unit_def dec_digit_def)
  have f: "fragment ''#6-tickets''" "fragment []" by (simp_all add: fragment_def)
  show ?thesis
    using cross_references_reach [OF p(1,2,3) f(1), of True "\<lambda>s. s"] cross_references_reach [OF p(1,2,4) f(2), of True "\<lambda>s. s"]
    by (simp only: slug_of_file) simp
qed

text \<open>An anchor of such a link is lost on the way: \<open>renderMarkdown\<close> takes a relative address that does not end in
  \<open>.md\<close> for that of an asset and keeps its path only, before the pass over the links sees it.\<close>

lemma link_anchor_lost:
  assumes "plain_name folder" "plain_name name" "plain_name a"
  shows "resolve_attrs caret other (''/docs/'' @ folder @ ''/'') [(''href'', name @ ''.md#'' @ a)]
    = [(''href'', ''/docs/'' @ folder @ ''/'' @ name @ ''.md'')]"
proof -
  let ?h = "name @ ''.md'' @ CHR ''#'' # a"
  obtain c r where c: "name = c # r" "c \<notin> {CHR ''/'', CHR 92, CHR ''?'', CHR ''#''}" by (rule name_head [OF assms(2)])
  have r: "list_all ref_unit ?h" using plain_ref [OF assms(2)] plain_ref [OF assms(3)] by (simp add: ref_unit_def)
  have "url_path caret other (''/docs/'' @ folder @ ''/'') ?h =
      show_path (fst (path_state caret [] (butlast (base_path caret (''/docs/'' @ folder @ ''/''))) (u ?h)))"
    using url_path_relative [of c "r @ ''.md'' @ CHR ''#'' # a"] r c by simp
  also have "u ?h = u (name @ ''.md'') @ 35 # u a" by simp
  also have "show_path (fst (path_state caret [] (butlast (base_path caret (''/docs/'' @ folder @ ''/''))) \<dots>))
      = show_path [u ''docs'', u folder, u (name @ ''.md'')]"
    by (simp only: md_segment_anchor [OF assms(2)] doc_base [OF assms(1)]) simp
  also have "\<dots> = ''/docs/'' @ folder @ ''/'' @ name @ ''.md''"
    using show_path_texts [of "[''docs'', folder, name @ ''.md'']"] by (simp del: u_simps)
  finally have u: "url_path caret other (''/docs/'' @ folder @ ''/'') ?h = ''/docs/'' @ folder @ ''/'' @ name @ ''.md''" .
  have "\<not> ends_with ''.md'' ?h"
  proof
    assume "ends_with ''.md'' ?h"
    then obtain b where "(name @ ''.md#'') @ a = b @ ''.md''" unfolding ends_with_def by (metis append.assoc append_Cons append_Nil append_take_drop_id)
    then obtain w where "name @ ''.md#'' = b @ w \<and> w @ a = ''.md'' \<or> (name @ ''.md#'') @ w = b \<and> a = w @ ''.md''"
      unfolding append_eq_append_conv2 by blast
    moreover have dot: "CHR ''.'' \<notin> set a" using plain_name_chars(2) [OF assms(3)] by auto
    moreover have "False" if "w @ a = ''.md''" "w = [] \<or> CHR ''#'' \<in> set w"
    proof -
      have "CHR ''#'' \<notin> set (w @ a)" unfolding that(1) by simp
      then have "CHR ''#'' \<notin> set w" by simp
      then show False using that dot by auto
    qed
    moreover have "w = [] \<or> CHR ''#'' \<in> set w" if "name @ ''.md#'' = b @ w"
      using arg_cong [OF that, of last] by (cases "w = []") (auto dest: last_in_set)
    ultimately show False by auto
  qed
  moreover have "\<not> isAbsolute ?h"
  proof -
    have colon: "CHR '':'' \<notin> set ?h" using r by (fastforce simp only: ref_unit_def list_all_iff)
    then have "\<not> has_scheme ?h" using scheme_colon [of ?h "[]"] by (metis append_Nil2)
    moreover have "\<not> starts_with ''data:'' ?h"
    proof
      assume "starts_with ''data:'' ?h"
      then obtain rest where "?h = ''data:'' @ rest" unfolding starts_with_def by (metis append_take_drop_id)
      then have "CHR '':'' \<in> set ?h" by (simp only: set_append) simp
      with colon show False by contradiction
    qed
    moreover have "\<not> starts_with ''/'' ?h" "\<not> starts_with ''#'' ?h" using c by (simp_all add: starts_with_def)
    ultimately show ?thesis unfolding isAbsolute_def by blast
  qed
  ultimately show ?thesis
    using u by (simp add: resolve_attrs_def getAttribute_def setAttribute_def resolveRelative_def)
qed

end
