(* ===== verification/Deck.thy ===== *)
theory Deck
  imports Prelude
begin

text \<open>
  \<open>web/src/decks/slides/index.js\<close> and the computed part of \<open>manifest.js\<close>: the slide deck, the running order of the
  manifest joined to the pictures of the chapter files and refused when the two disagree, and the chapter strip.
  The chapters of the manifest and the chapter files are arguments; a picture is of any type.

  The lemmas show that a deck is built exactly when every scene has its picture and every picture its scene.
\<close>

section \<open>The manifest\<close>

record scene =
  s_id :: string
  s_module :: string
  s_title :: string
  s_duration :: int
  s_caption :: string
  s_terms :: "string list option"

record deck_chapter =
  ch_id :: string
  ch_n :: int
  ch_title :: string
  ch_blurb :: string
  ch_scenes :: "scene list"

record scene_meta =
  sm_id :: string
  sm_module :: string
  sm_title :: string
  sm_duration :: int
  sm_caption :: string
  sm_terms :: "string list option"
  sm_chapter :: string
  sm_chapterTitle :: string

definition scenes_of :: "deck_chapter \<Rightarrow> scene_meta list" where
  "scenes_of chapter =
     map (\<lambda>s. \<lparr>sm_id = s_id s, sm_module = s_module s, sm_title = s_title s, sm_duration = s_duration s,
               sm_caption = s_caption s, sm_terms = s_terms s,
               sm_chapter = ch_id chapter, sm_chapterTitle = ch_title chapter\<rparr>) (ch_scenes chapter)"

definition SCENE_META :: "deck_chapter list \<Rightarrow> scene_meta list" where
  "SCENE_META chapters = concat (map scenes_of chapters)"

definition start_step :: "(string \<times> nat) list \<times> nat \<Rightarrow> deck_chapter \<Rightarrow> (string \<times> nat) list \<times> nat" where
  "start_step acc c =
     (let (starts, index) = acc in (AList.update (ch_id c) index starts, index + length (ch_scenes c)))"

definition CHAPTER_STARTS :: "deck_chapter list \<Rightarrow> (string \<times> nat) list" where
  "CHAPTER_STARTS chapters = fst (foldl start_step ([], 0) chapters)"

definition deckDuration :: "deck_chapter list \<Rightarrow> int" where
  "deckDuration chapters = foldl (\<lambda>s scene. s + sm_duration scene) 0 (SCENE_META chapters)"

section \<open>The join\<close>

record 'p deck_scene =
  sc_meta :: scene_meta
  sc_terms :: "string list"
  sc_picture :: 'p

datatype deck_error = NoModule scene_meta | NoPicture scene_meta | Unclaimed string string

type_synonym 'p modules = "(string \<times> (string \<times> 'p) list) list"

fun build_scenes :: "'p modules \<Rightarrow> (string \<times> string) list \<Rightarrow> scene_meta list \<Rightarrow>
    deck_error + ('p deck_scene list \<times> (string \<times> string) list)" where
  \<comment> \<open>the \<open>map\<close> over the scenes, with the pictures claimed so far; the pair stands for the joined
    string, as the names of modules have no colon\<close>
  "build_scenes modules claimed [] = Inr ([], claimed)"
| "build_scenes modules claimed (meta # ms) =
     (case map_of modules (sm_module meta) of
        None \<Rightarrow> Inl (NoModule meta)
      | Some pics \<Rightarrow>
          (case map_of pics (sm_id meta) of
             None \<Rightarrow> Inl (NoPicture meta)
           | Some picture \<Rightarrow>
               (case build_scenes modules ((sm_module meta, sm_id meta) # claimed) ms of
                  Inl e \<Rightarrow> Inl e
                | Inr (scenes, cl) \<Rightarrow> Inr (\<lparr>sc_meta = meta, sc_terms = (case sm_terms meta of None \<Rightarrow> [] | Some ts \<Rightarrow> ts),
                                                    sc_picture = picture\<rparr> # scenes, cl))))"

definition unclaimed :: "'p modules \<Rightarrow> (string \<times> string) list \<Rightarrow> (string \<times> string) option" where
  \<comment> \<open>the first picture, in the order of the files, that no scene claims\<close>
  "unclaimed modules claimed =
     find (\<lambda>p. p \<notin> set claimed) (concat (map (\<lambda>(name, pics). map (\<lambda>(i, _). (name, i)) pics) modules))"

definition build :: "'p modules \<Rightarrow> deck_chapter list \<Rightarrow> deck_error + 'p deck_scene list" where
  "build modules chapters =
     (case build_scenes modules [] (SCENE_META chapters) of
        Inl e \<Rightarrow> Inl e
      | Inr (scenes, claimed) \<Rightarrow>
          (case unclaimed modules claimed of
             Some (name, i) \<Rightarrow> Inl (Unclaimed name i)
           | None \<Rightarrow> Inr scenes))"

record chapter_row =
  cr_id :: string
  cr_n :: int
  cr_title :: string
  cr_blurb :: string
  cr_start :: nat
  cr_count :: nat

definition CHAPTER_ROWS :: "deck_chapter list \<Rightarrow> chapter_row list" where
  \<comment> \<open>\<open>CHAPTERS\<close> of \<open>index.js\<close>\<close>
  "CHAPTER_ROWS chapters =
     map (\<lambda>c. \<lparr>cr_id = ch_id c, cr_n = ch_n c, cr_title = ch_title c, cr_blurb = ch_blurb c,
               cr_start = get_or 0 (CHAPTER_STARTS chapters) (ch_id c), cr_count = length (ch_scenes c)\<rparr>) chapters"

section \<open>What a build guarantees\<close>

definition picture_of :: "'p modules \<Rightarrow> string \<Rightarrow> string \<Rightarrow> 'p option" where
  "picture_of modules name i = Option.bind (map_of modules name) (\<lambda>pics. map_of pics i)"

definition pictures :: "'p modules \<Rightarrow> (string \<times> string) set" where
  "pictures modules = {(name, i). \<exists>pics. (name, pics) \<in> set modules \<and> i \<in> fst ` set pics}"

definition claim_of :: "scene_meta \<Rightarrow> string \<times> string" where
  "claim_of m = (sm_module m, sm_id m)"

lemma build_scenes_ok:
  "build_scenes modules claimed ms = Inr (scenes, cl) \<Longrightarrow>
   map sc_meta scenes = ms \<and>
   list_all (\<lambda>s. Some (sc_picture s) = picture_of modules (sm_module (sc_meta s)) (sm_id (sc_meta s))) scenes \<and>
   set cl = set claimed \<union> claim_of ` set ms"
  by (induction ms arbitrary: claimed scenes cl)
     (fastforce split: option.splits sum.splits prod.splits simp: picture_of_def claim_of_def)+

lemma build_scenes_error:
  "build_scenes modules claimed ms = Inl e \<Longrightarrow>
   (\<exists>m \<in> set ms. (e = NoModule m \<and> map_of modules (sm_module m) = None) \<or>
                (e = NoPicture m \<and> picture_of modules (sm_module m) (sm_id m) = None))"
  by (induction ms arbitrary: claimed)
     (fastforce split: option.splits sum.splits prod.splits simp: picture_of_def)+

lemma pictures_listed:
  "set (concat (map (\<lambda>(name, pics). map (\<lambda>(i, _). (name, i)) pics) modules)) = pictures modules"
  by (force simp: pictures_def)

lemma unclaimed_None: "unclaimed modules claimed = None \<longleftrightarrow> pictures modules \<subseteq> set claimed"
  unfolding unclaimed_def find_None_iff pictures_listed [symmetric] by blast

lemma unclaimed_Some: "unclaimed modules claimed = Some p \<Longrightarrow> p \<in> pictures modules - set claimed"
  unfolding unclaimed_def find_Some_iff pictures_listed [symmetric] by (metis DiffI nth_mem)

lemma build_joins:
  "case build modules chapters of
     Inr scenes \<Rightarrow> map sc_meta scenes = SCENE_META chapters \<and>
       list_all (\<lambda>s. Some (sc_picture s) = picture_of modules (sm_module (sc_meta s)) (sm_id (sc_meta s))) scenes \<and>
       pictures modules \<subseteq> (\<lambda>m. (sm_module m, sm_id m)) ` set (SCENE_META chapters)
   | Inl (NoModule m) \<Rightarrow> m \<in> set (SCENE_META chapters) \<and> map_of modules (sm_module m) = None
   | Inl (NoPicture m) \<Rightarrow> m \<in> set (SCENE_META chapters) \<and> picture_of modules (sm_module m) (sm_id m) = None
   | Inl (Unclaimed n i) \<Rightarrow> (n, i) \<in> pictures modules - (\<lambda>m. (sm_module m, sm_id m)) ` set (SCENE_META chapters)"
proof (cases "build_scenes modules [] (SCENE_META chapters)")
  case (Inl e)
  then show ?thesis by (auto simp: build_def dest!: build_scenes_error)
next
  case (Inr r)
  obtain scenes cl where r: "build_scenes modules [] (SCENE_META chapters) = Inr (scenes, cl)" using Inr by (cases r) auto
  have cl: "set cl = (\<lambda>m. (sm_module m, sm_id m)) ` set (SCENE_META chapters)"
    using build_scenes_ok [OF r] by (auto simp: claim_of_def)
  show ?thesis
  proof (cases "unclaimed modules cl")
    case None
    then have "pictures modules \<subseteq> set cl" by (simp add: unclaimed_None)
    then show ?thesis using build_scenes_ok [OF r] None by (simp add: build_def r cl)
  next
    case (Some p)
    then have "p \<in> pictures modules - set cl" by (rule unclaimed_Some)
    then show ?thesis using Some by (cases p) (simp add: build_def r cl)
  qed
qed

section \<open>The chapter strip\<close>

lemma starts_index: "snd (foldl start_step acc cs) = snd acc + length (SCENE_META cs)"
  by (induction cs arbitrary: acc) (auto simp: start_step_def SCENE_META_def scenes_of_def split: prod.splits)

lemma starts_other: "i \<notin> ch_id ` set cs \<Longrightarrow> get_or 0 (fst (foldl start_step acc cs)) i = get_or 0 (fst acc) i"
  by (induction cs arbitrary: acc) (auto simp: start_step_def split: prod.splits)

lemma start_of:
  assumes "distinct (map ch_id (pre @ c # post))"
  shows "get_or 0 (CHAPTER_STARTS (pre @ c # post)) (ch_id c) = length (SCENE_META pre)"
proof -
  obtain starts n where f: "foldl start_step ([], 0) pre = (starts, n)" by (cases "foldl start_step ([], 0) pre")
  then have n: "n = length (SCENE_META pre)" using starts_index [of "([], 0)" pre] by simp
  have "ch_id c \<notin> ch_id ` set post" using assms by simp
  then show ?thesis by (simp add: CHAPTER_STARTS_def starts_other f start_step_def n)
qed

lemma chapter_rows_right:
  assumes "distinct (map ch_id chapters)"
  shows "list_all (\<lambda>(c, row). take (cr_count row) (drop (cr_start row) (SCENE_META chapters)) = scenes_of c)
           (zip chapters (CHAPTER_ROWS chapters))"
proof -
  have "take (length (ch_scenes c)) (drop (get_or 0 (CHAPTER_STARTS chapters) (ch_id c)) (SCENE_META chapters)) = scenes_of c"
    if k: "k < length chapters" and c: "c = chapters ! k" for k c
  proof -
    let ?pre = "take k chapters" and ?post = "drop (Suc k) chapters"
    have split: "chapters = ?pre @ c # ?post" using id_take_nth_drop [OF k] by (simp add: c)
    then have "get_or 0 (CHAPTER_STARTS chapters) (ch_id c) = length (SCENE_META ?pre)"
      using start_of [of ?pre c ?post] assms by simp
    moreover have "SCENE_META chapters = SCENE_META ?pre @ scenes_of c @ SCENE_META ?post"
      by (subst split) (simp add: SCENE_META_def)
    moreover have "length (scenes_of c) = length (ch_scenes c)" by (simp add: scenes_of_def)
    ultimately show ?thesis by simp
  qed
  then show ?thesis by (auto simp: list_all_length CHAPTER_ROWS_def)
qed

end
