(* ===== verification/Presenter.thy ===== *)
theory Presenter
  imports Player Deck GateText TextLines
begin

text \<open>
  \<open>web/src/player/ScenePlayer.jsx\<close> and \<open>web/src/routes/Slides.jsx\<close>: the presentation player as a state machine on top
  of the clock, and the page that jumps between chapters by writing the address and mounting the player anew.

  An event is handled on the state of the last render; after it the effects whose dependencies changed run
  (\<open>settle\<close>).  Every event carries the time \<open>now\<close>.  The box of the stage, the browser's answer to a request for full
  screen and the address at mounting are arguments.  Durations are finite, ids are strings of code units.
\<close>

section \<open>State\<close>

record show_scene =
  sn_id :: ustr
  sn_title :: string
  sn_duration :: rat
  sn_caption :: string

datatype end_mode = Hold | Auto

record presentation =
  sh_scenes :: "show_scene list"
  sh_mode :: end_mode
  sh_start :: int
  sh_captions :: bool

record player =
  pl_index :: nat
  pl_captions :: bool
  pl_help :: bool
  pl_speed :: rat
  pl_fullscreen :: bool
  pl_clock :: clock
  pl_timer :: "rat option"
  \<comment> \<open>when the pending advance of the auto mode is due\<close>
  pl_hash :: ustr
  \<comment> \<open>the fragment of the address\<close>
  pl_told :: "nat list"
  \<comment> \<open>the calls of \<open>onSceneChange\<close>, latest first\<close>

definition scene_count :: "presentation \<Rightarrow> nat" where
  "scene_count sh = length (sh_scenes sh)"

definition the_scene :: "presentation \<Rightarrow> player \<Rightarrow> show_scene" where
  "the_scene sh p = sh_scenes sh ! pl_index p"

definition scene_duration :: "presentation \<Rightarrow> player \<Rightarrow> rat option" where
  "scene_duration sh p = Some (sn_duration (the_scene sh p))"

definition scene_ended :: "presentation \<Rightarrow> player \<Rightarrow> bool" where
  "scene_ended sh p = ended (scene_duration sh p) (pl_clock p)"

definition clamp_index :: "presentation \<Rightarrow> int \<Rightarrow> nat" where
  "clamp_index sh i = nat (min (max 0 i) (int (scene_count sh) - 1))"

section \<open>The address\<close>

definition line_end :: "nat \<Rightarrow> bool" where
  \<comment> \<open>what \<open>.\<close> of a regular expression does not match\<close>
  "line_end c \<longleftrightarrow> c \<in> {10, 13, 0x2028, 0x2029}"

definition hash_target :: "ustr \<Rightarrow> ustr option" where
  \<comment> \<open>\<open>/^#\/(.+)$/\<close>\<close>
  "hash_target h =
     (if take 2 h = u ''#/'' \<and> drop 2 h \<noteq> [] \<and> \<not> list_ex line_end (drop 2 h) then Some (drop 2 h) else None)"

definition find_scene :: "show_scene list \<Rightarrow> ustr \<Rightarrow> nat option" where
  "find_scene scenes i =
     (let k = length (takeWhile (\<lambda>s. sn_id s \<noteq> i) scenes) in if k < length scenes then Some k else None)"

definition indexFromHash :: "show_scene list \<Rightarrow> ustr \<Rightarrow> unit + nat option" where
  \<comment> \<open>the left value: \<open>decodeURIComponent\<close> throws\<close>
  "indexFromHash scenes h =
     (case hash_target h of
        None \<Rightarrow> Inr None
      | Some t \<Rightarrow> (case decode_uri t of None \<Rightarrow> Inl () | Some i \<Rightarrow> Inr (find_scene scenes i)))"

section \<open>Moves\<close>

definition go :: "presentation \<Rightarrow> int \<Rightarrow> player \<Rightarrow> player" where
  "go sh i p = p\<lparr>pl_index := clamp_index sh i, pl_clock := replay (pl_clock p)\<rparr>"

definition next_scene :: "presentation \<Rightarrow> player \<Rightarrow> player" where
  "next_scene sh p =
     (if int (pl_index p) < int (scene_count sh) - 1 then go sh (int (pl_index p) + 1) p
      else p\<lparr>pl_clock := seek (scene_duration sh p) (sn_duration (the_scene sh p)) (pl_clock p)\<rparr>)"

definition prev_scene :: "presentation \<Rightarrow> player \<Rightarrow> player" where
  "prev_scene sh p =
     (if pl_index p > 0 then go sh (int (pl_index p) - 1) p else p\<lparr>pl_clock := replay (pl_clock p)\<rparr>)"

definition next_speed :: "rat \<Rightarrow> rat" where
  "next_speed v = (if v = 1 then 3 / 2 else if v = 3 / 2 then 2 else 1)"

record key_event =
  ke_key :: string
  ke_prevented :: bool
  ke_modified :: bool
  \<comment> \<open>meta, control or alt\<close>
  ke_tag :: string
  ke_editable :: bool

definition on_key :: "presentation \<Rightarrow> key_event \<Rightarrow> player \<Rightarrow> player" where
  \<comment> \<open>\<open>F\<close> asks the browser for full screen, which answers with an event\<close>
  "on_key sh e p =
     (if ke_prevented e \<or> ke_modified e then p
      else if ke_tag e \<in> {''INPUT'', ''TEXTAREA'', ''SELECT''} \<or> ke_editable e then p
      else if ke_key e \<in> {''ArrowRight'', ''PageDown'', ''Enter''} then next_scene sh p
      else if ke_key e \<in> {''ArrowLeft'', ''PageUp''} then prev_scene sh p
      else if ke_key e = '' '' then p\<lparr>pl_clock := toggle (scene_duration sh p) (pl_clock p)\<rparr>
      else if ke_key e \<in> {''r'', ''R''} then p\<lparr>pl_clock := replay (pl_clock p)\<rparr>
      else if ke_key e = ''Home'' then go sh 0 p
      else if ke_key e = ''End'' then go sh (int (scene_count sh) - 1) p
      else if ke_key e \<in> {''c'', ''C''} then p\<lparr>pl_captions := \<not> pl_captions p\<rparr>
      else if ke_key e = ''?'' then p\<lparr>pl_help := \<not> pl_help p\<rparr>
      else if ke_key e = ''Escape'' then p\<lparr>pl_help := False\<rparr>
      else p)"

definition on_stage_click :: "presentation \<Rightarrow> bool \<Rightarrow> rat \<Rightarrow> rat \<Rightarrow> rat \<Rightarrow> player \<Rightarrow> player" where
  \<comment> \<open>whether the click fell on something interactive, its position, and the left edge and width of the stage\<close>
  "on_stage_click sh interactive clientX left width p =
     (if interactive then p
      else if (clientX - left) / width < 1 / 3 then prev_scene sh p else next_scene sh p)"

datatype show_event =
    Tick
  | Timeout
  | Key key_event
  | StageClick bool rat rat rat
  | SegmentClick nat
  | PrevButton
  | NextButton
  | ToggleButton
  | ReplayButton
  | HintNext
  | HintReplay
  | Scrub rat
  | SpeedButton
  | CaptionsButton
  | HelpButton
  | HelpClose
  | FullscreenChange bool

definition show_handle :: "presentation \<Rightarrow> rat \<Rightarrow> show_event \<Rightarrow> player \<Rightarrow> player" where
  \<comment> \<open>the handlers; a control that is disabled or not on the page does nothing\<close>
  "show_handle sh now ev p =
     (let clock = pl_clock p; dur = scene_duration sh p; over = scene_ended sh p; last_one = (Suc (pl_index p) = scene_count sh)
      in case ev of
        Tick \<Rightarrow> (if ck_playing clock then p\<lparr>pl_clock := clock_frame dur (pl_speed p) now clock\<rparr> else p)
      | Timeout \<Rightarrow> (case pl_timer p of
            None \<Rightarrow> p
          | Some due \<Rightarrow> if due \<le> now then go sh (int (pl_index p) + 1) (p\<lparr>pl_timer := None\<rparr>) else p)
      | Key e \<Rightarrow> on_key sh e p
      | StageClick interactive clientX left width \<Rightarrow> on_stage_click sh interactive clientX left width p
      | SegmentClick i \<Rightarrow> (if i < scene_count sh then go sh (int i) p else p)
      | PrevButton \<Rightarrow> (if pl_index p = 0 \<and> ck_t clock < 400 then p else prev_scene sh p)
      | NextButton \<Rightarrow> (if last_one \<and> over then p else next_scene sh p)
      | ToggleButton \<Rightarrow> p\<lparr>pl_clock := toggle dur clock\<rparr>
      | ReplayButton \<Rightarrow> p\<lparr>pl_clock := replay clock\<rparr>
      | HintNext \<Rightarrow> (if over \<and> sh_mode sh = Hold \<and> \<not> last_one then next_scene sh p else p)
      | HintReplay \<Rightarrow> (if over \<and> last_one then go sh 0 p else p)
      | Scrub m \<Rightarrow> p\<lparr>pl_clock := seek dur m clock\<rparr>
      | SpeedButton \<Rightarrow> p\<lparr>pl_speed := next_speed (pl_speed p)\<rparr>
      | CaptionsButton \<Rightarrow> p\<lparr>pl_captions := \<not> pl_captions p\<rparr>
      | HelpButton \<Rightarrow> p\<lparr>pl_help := \<not> pl_help p\<rparr>
      | HelpClose \<Rightarrow> (if pl_help p then p\<lparr>pl_help := False\<rparr> else p)
      | FullscreenChange b \<Rightarrow> p\<lparr>pl_fullscreen := b\<rparr>)"

section \<open>Effects\<close>

definition mirror_hash :: "presentation \<Rightarrow> player \<Rightarrow> player" where
  \<comment> \<open>the effect on the index\<close>
  "mirror_hash sh p =
     (let i = sn_id (the_scene sh p);
          p' = (if i \<noteq> [] \<and> pl_hash p \<noteq> u ''#/'' @ i then p\<lparr>pl_hash := u ''#/'' @ i\<rparr> else p)
      in p'\<lparr>pl_told := pl_index p # pl_told p\<rparr>)"

definition auto_timer :: "presentation \<Rightarrow> rat \<Rightarrow> player \<Rightarrow> player" where
  \<comment> \<open>the effect of the auto mode, after its clean-up\<close>
  "auto_timer sh now p =
     p\<lparr>pl_timer := (if sh_mode sh = Auto \<and> scene_ended sh p \<and> int (pl_index p) < int (scene_count sh) - 1
                   then Some (now + 350) else None)\<rparr>"

definition settle :: "presentation \<Rightarrow> rat \<Rightarrow> player \<Rightarrow> player \<Rightarrow> player" where
  \<comment> \<open>the effects whose dependencies differ between two renders: the clock's, the address, the timer\<close>
  "settle sh now p q =
     (let q1 = (if ck_playing (pl_clock q) \<noteq> ck_playing (pl_clock p) \<or> scene_duration sh q \<noteq> scene_duration sh p
                   \<or> ck_generation (pl_clock q) \<noteq> ck_generation (pl_clock p)
                then q\<lparr>pl_clock := clock_effect now (pl_clock q)\<rparr> else q);
          q2 = (if pl_index q \<noteq> pl_index p then mirror_hash sh q1 else q1)
      in if scene_ended sh q \<noteq> scene_ended sh p \<or> pl_index q \<noteq> pl_index p then auto_timer sh now q2 else q2)"

definition show_step :: "presentation \<Rightarrow> rat \<Rightarrow> show_event \<Rightarrow> player \<Rightarrow> player" where
  "show_step sh now ev p = settle sh now p (show_handle sh now ev p)"

definition mount_player :: "presentation \<Rightarrow> rat \<Rightarrow> ustr \<Rightarrow> player option" where
  \<comment> \<open>the first render and all effects; \<open>None\<close> when it throws\<close>
  "mount_player sh now h =
     (case indexFromHash (sh_scenes sh) h of
        Inl _ \<Rightarrow> None
      | Inr found \<Rightarrow>
          if sh_scenes sh = [] then None
          else
            let i = (case found of Some k \<Rightarrow> k | None \<Rightarrow> clamp_index sh (sh_start sh));
                p = \<lparr>pl_index = i, pl_captions = sh_captions sh, pl_help = False, pl_speed = 1, pl_fullscreen = False,
                     pl_clock = init_clock True, pl_timer = None, pl_hash = h, pl_told = []\<rparr>
            in Some (auto_timer sh now (mirror_hash sh (p\<lparr>pl_clock := clock_effect now (pl_clock p)\<rparr>))))"

section \<open>The picture\<close>

definition progress :: "presentation \<Rightarrow> player \<Rightarrow> rat" where
  "progress sh p =
     (let d = sn_duration (the_scene sh p) in if d > 0 then min 1 (ck_t (pl_clock p) / d) else 1)"

definition segment_fill :: "presentation \<Rightarrow> player \<Rightarrow> nat \<Rightarrow> rat" where
  "segment_fill sh p i = (if i < pl_index p then 1 else if i = pl_index p then progress sh p else 0)"

definition segment_class :: "player \<Rightarrow> nat \<Rightarrow> string" where
  "segment_class p i =
     ''xk-player__segment'' @ (if i < pl_index p then '' is-done'' else []) @ (if i = pl_index p then '' is-current'' else [])"

definition player_class :: "player \<Rightarrow> string \<Rightarrow> string" where
  "player_class p className =
     trim (''xk-player'' @ (if pl_fullscreen p then '' is-fullscreen'' else []) @ (if pl_captions p then [] else '' no-captions'')
       @ '' '' @ className)"

definition pad2 :: "nat \<Rightarrow> string" where
  "pad2 n = pad_start 2 (CHR ''0'') (nat_str n)"

definition counter_text :: "presentation \<Rightarrow> player \<Rightarrow> string" where
  "counter_text sh p = pad2 (pl_index p + 1) @ '' / '' @ pad2 (scene_count sh)"

definition caption_shown :: "presentation \<Rightarrow> player \<Rightarrow> string option" where
  "caption_shown sh p =
     (if pl_captions p \<and> sn_caption (the_scene sh p) \<noteq> [] then Some (sn_caption (the_scene sh p)) else None)"

definition paused_shown :: "presentation \<Rightarrow> player \<Rightarrow> bool" where
  "paused_shown sh p \<longleftrightarrow> \<not> ck_playing (pl_clock p) \<and> \<not> scene_ended sh p"

definition fit_scale :: "rat \<Rightarrow> rat \<Rightarrow> rat \<Rightarrow> rat \<Rightarrow> rat" where
  "fit_scale box_width box_height width height = min (box_width / width) (box_height / height)"

section \<open>The page of the founder deck\<close>

record page =
  pg_index :: nat
  pg_mount :: nat
  pg_player :: player

definition startIndex :: "show_scene list \<Rightarrow> ustr \<Rightarrow> unit + nat" where
  "startIndex scenes h =
     (case hash_target h of
        None \<Rightarrow> Inr 0
      | Some t \<Rightarrow> (case decode_uri t of
          None \<Rightarrow> Inl ()
        | Some i \<Rightarrow> Inr (case find_scene scenes i of None \<Rightarrow> 0 | Some k \<Rightarrow> k)))"

definition told_index :: "nat \<Rightarrow> player \<Rightarrow> player \<Rightarrow> nat" where
  \<comment> \<open>\<open>setIndex\<close> through \<open>onSceneChange\<close>, if the player called it\<close>
  "told_index i p q = (if pl_told q = pl_told p then i else hd (pl_told q))"

definition open_page :: "presentation \<Rightarrow> rat \<Rightarrow> ustr \<Rightarrow> page option" where
  "open_page sh now h =
     (case startIndex (sh_scenes sh) h of
        Inl _ \<Rightarrow> None
      | Inr i \<Rightarrow> (case mount_player sh now h of
          None \<Rightarrow> None
        | Some p \<Rightarrow> Some \<lparr>pg_index = (case pl_told p of [] \<Rightarrow> i | k # _ \<Rightarrow> k), pg_mount = 0, pg_player = p\<rparr>))"

datatype page_event = Inside show_event | Jump nat

definition page_step :: "presentation \<Rightarrow> rat \<Rightarrow> page_event \<Rightarrow> page \<Rightarrow> page option" where
  \<comment> \<open>a jump writes the address and mounts a new player, which reads it\<close>
  "page_step sh now ev pg =
     (case ev of
        Inside e \<Rightarrow>
          (let p = show_step sh now e (pg_player pg)
           in Some (pg\<lparr>pg_player := p, pg_index := told_index (pg_index pg) (pg_player pg) p\<rparr>))
      | Jump start \<Rightarrow>
          if scene_count sh \<le> start \<or> sn_id (sh_scenes sh ! start) = [] then Some pg
          else
            let h = u ''#/'' @ sn_id (sh_scenes sh ! start)
            in (case mount_player sh now h of
                  None \<Rightarrow> None
                | Some p \<Rightarrow> Some (pg\<lparr>pg_index := (case pl_told p of [] \<Rightarrow> start | k # _ \<Rightarrow> k), pg_mount := Suc (pg_mount pg),
                                    pg_player := p\<rparr>)))"

definition to_show :: "scene_meta \<Rightarrow> show_scene" where
  "to_show m = \<lparr>sn_id = u (sm_id m), sn_title = sm_title m, sn_duration = of_int (sm_duration m), sn_caption = sm_caption m\<rparr>"

definition page_scene :: "deck_chapter list \<Rightarrow> page \<Rightarrow> scene_meta" where
  "page_scene chapters pg =
     (let ms = SCENE_META chapters in if pg_index pg < length ms then ms ! pg_index pg else ms ! 0)"

definition page_chapter :: "deck_chapter list \<Rightarrow> page \<Rightarrow> chapter_row" where
  \<comment> \<open>the chapter that is marked in the strip\<close>
  "page_chapter chapters pg =
     (case find (\<lambda>c. cr_id c = sm_chapter (page_scene chapters pg)) (CHAPTER_ROWS chapters) of
        None \<Rightarrow> CHAPTER_ROWS chapters ! 0
      | Some c \<Rightarrow> c)"

definition deck_minutes :: "deck_chapter list \<Rightarrow> int" where
  "deck_minutes chapters = js_round (of_int (deckDuration chapters) / 60000)"

record deck_term = dt_term :: string  dt_short :: string  dt_doc :: string

definition termsFor :: "(string \<times> deck_term) list \<Rightarrow> string list option \<Rightarrow> (string \<times> deck_term) list" where
  \<comment> \<open>the words of a scene; one that has no entry is left out\<close>
  "termsFor terms ids =
     (case ids of None \<Rightarrow> [] | Some is_ids \<Rightarrow> List.map_filter (\<lambda>i. map_option (\<lambda>t. (i, t)) (map_of terms i)) is_ids)"

definition drift_of :: "(string \<times> string) list \<Rightarrow> string \<times> deck_term \<Rightarrow> (string \<times> string \<times> string) option" where
  "drift_of byTerm t =
     (case map_of byTerm (lower (dt_term (snd t))) of
        None \<Rightarrow> None
      | Some paper \<Rightarrow> if paper \<noteq> [] \<and> paper \<noteq> dt_doc (snd t) then Some (fst t, dt_doc (snd t), paper) else None)"

fun drift_loop :: "(string \<times> string) list \<Rightarrow> (string \<times> deck_term) list \<Rightarrow> (string \<times> string \<times> string) list" where
  "drift_loop byTerm [] = []"
| "drift_loop byTerm (t # ts) = (case drift_of byTerm t of None \<Rightarrow> drift_loop byTerm ts | Some d \<Rightarrow> d # drift_loop byTerm ts)"

definition glossaryDrift :: "(string \<times> string) list \<Rightarrow> (string \<times> deck_term) list \<Rightarrow> (string \<times> string \<times> string) list" where
  \<comment> \<open>the first list: term and paper of each entry of the site's glossary; a later entry of the same term replaces an
    earlier one\<close>
  "glossaryDrift site terms =
     (if site = [] then [] else drift_loop (rev (map (\<lambda>(term, paper). (lower term, paper)) site)) terms)"

end
