(* ===== verification/PresenterLaws.thy ===== *)
theory PresenterLaws
  imports Presenter
begin

text \<open>
  The presentation player: what every event does to the scene and its clock, the invariant of the reachable states and the
  run of a deck that plays by itself.
\<close>

section \<open>Scenes and clocks\<close>

definition show_ok :: "presentation \<Rightarrow> bool" where
  "show_ok sh \<longleftrightarrow> sh_scenes sh \<noteq> [] \<and> (\<forall>s\<in>set (sh_scenes sh). 0 \<le> sn_duration s)"

lemma clamp_in_range: "show_ok sh \<Longrightarrow> clamp_index sh i < scene_count sh"
  by (cases "sh_scenes sh") (auto simp: clamp_index_def scene_count_def show_ok_def)

lemma clamp_same: "i < scene_count sh \<Longrightarrow> clamp_index sh (int i) = i"
  by (simp add: clamp_index_def)

definition scene_started :: "presentation \<Rightarrow> player \<Rightarrow> player \<Rightarrow> bool" where
  \<comment> \<open>a scene starts, perhaps the same one again\<close>
  "scene_started sh p q \<longleftrightarrow> pl_index q < scene_count sh \<and> pl_clock q = replay (pl_clock p)"

definition stayed :: "presentation \<Rightarrow> rat \<Rightarrow> player \<Rightarrow> player \<Rightarrow> bool" where
  \<comment> \<open>the scene stays, and its clock makes a step of its own, or none\<close>
  "stayed sh now p q \<longleftrightarrow> pl_index q = pl_index p \<and>
     (pl_clock q = pl_clock p \<or> (\<exists>m. pl_clock q = seek (scene_duration sh p) m (pl_clock p))
      \<or> pl_clock q = toggle (scene_duration sh p) (pl_clock p)
      \<or> (ck_playing (pl_clock p) \<and> pl_clock q = clock_frame (scene_duration sh p) (pl_speed p) now (pl_clock p)))"

lemma go_moved: "show_ok sh \<Longrightarrow> scene_started sh p (go sh i p)"
  by (simp add: scene_started_def go_def clamp_in_range)

lemma next_moved: "show_ok sh \<Longrightarrow> scene_started sh p (next_scene sh p) \<or> stayed sh now p (next_scene sh p)"
  using go_moved [of sh p "int (pl_index p) + 1"] by (auto simp: next_scene_def stayed_def)

lemma prev_moved: "show_ok sh \<Longrightarrow> pl_index p < scene_count sh \<Longrightarrow> scene_started sh p (prev_scene sh p)"
  using go_moved [of sh p "int (pl_index p) - 1"] by (auto simp: prev_scene_def scene_started_def)

lemma stayed_same [simp]: "stayed sh now p p" "stayed sh now p (p\<lparr>pl_captions := b\<rparr>)" "stayed sh now p (p\<lparr>pl_help := b\<rparr>)"
  "stayed sh now p (p\<lparr>pl_speed := v\<rparr>)" "stayed sh now p (p\<lparr>pl_fullscreen := b\<rparr>)"
  by (simp_all add: stayed_def)

lemma key_moved:
  "show_ok sh \<Longrightarrow> pl_index p < scene_count sh \<Longrightarrow> scene_started sh p (on_key sh e p) \<or> stayed sh now p (on_key sh e p)"
  using next_moved [of sh p now] prev_moved [of sh p] go_moved [of sh p 0] go_moved [of sh p "int (scene_count sh) - 1"]
  unfolding on_key_def by (auto simp: stayed_def scene_started_def)

lemma handle_moved:
  assumes "show_ok sh" "pl_index p < scene_count sh"
  shows "scene_started sh p (show_handle sh now ev p) \<or> stayed sh now p (show_handle sh now ev p)"
proof (cases ev)
  case Timeout
  have "scene_started sh p (go sh i (p\<lparr>pl_timer := None\<rparr>))" for i using go_moved [OF assms(1), of "p\<lparr>pl_timer := None\<rparr>" i] by (simp add: scene_started_def)
  then show ?thesis by (auto simp: show_handle_def Timeout split: option.splits)
next
  case (Key e)
  then show ?thesis using key_moved [OF assms] by (simp add: show_handle_def)
next
  case (StageClick a b c d)
  then show ?thesis using next_moved [OF assms(1)] prev_moved [OF assms] by (auto simp: show_handle_def on_stage_click_def)
qed (use next_moved [OF assms(1)] prev_moved [OF assms] go_moved [OF assms(1)] assms(2) in
    \<open>auto simp: show_handle_def Let_def stayed_def scene_started_def\<close>)

lemma handle_rest:
  "pl_hash (show_handle sh now ev p) = pl_hash p"
  "pl_told (show_handle sh now ev p) = pl_told p"
  "pl_speed (show_handle sh now ev p) \<in> {pl_speed p, next_speed (pl_speed p)}"
  by (cases ev; auto simp: show_handle_def Let_def on_key_def on_stage_click_def next_scene_def prev_scene_def go_def
    split: option.splits)+

lemma handle_timer:
  "ev \<noteq> Timeout \<Longrightarrow> pl_timer (show_handle sh now ev p) = pl_timer p"
  by (cases ev) (auto simp: show_handle_def Let_def on_key_def on_stage_click_def next_scene_def prev_scene_def go_def)

lemma next_speed_pos: "0 < next_speed v"
  by (simp add: next_speed_def)

section \<open>The invariant\<close>

definition waits :: "presentation \<Rightarrow> player \<Rightarrow> bool" where
  \<comment> \<open>the auto mode is about to go on\<close>
  "waits sh p \<longleftrightarrow> sh_mode sh = Auto \<and> scene_ended sh p \<and> Suc (pl_index p) < scene_count sh"

definition player_ok :: "presentation \<Rightarrow> rat \<Rightarrow> player \<Rightarrow> bool" where
  "player_ok sh now p \<longleftrightarrow>
     pl_index p < scene_count sh \<and> clock_ok (scene_duration sh p) (pl_clock p) \<and> ck_last (pl_clock p) \<le> now \<and> 0 < pl_speed p \<and>
     (pl_timer p \<noteq> None \<longleftrightarrow> waits sh p) \<and> take 1 (pl_told p) = [pl_index p] \<and>
     (sn_id (the_scene sh p) \<noteq> [] \<longrightarrow> pl_hash p = u ''#/'' @ sn_id (the_scene sh p))"

lemma effect_same [simp]: "ck_t (clock_effect now c) = ck_t c" "ck_playing (clock_effect now c) = ck_playing c"
  "ck_generation (clock_effect now c) = ck_generation c"
  by (simp_all add: clock_effect_def)

lemma clock_ok_t: "ck_t c = ck_t c' \<Longrightarrow> clock_ok d c = clock_ok d c'"
  by (simp add: clock_ok_def)

lemma ended_t: "ck_t c = ck_t c' \<Longrightarrow> ended d c = ended d c'"
  by (simp add: ended_def)

lemma scene_of_index: "pl_index p = pl_index q \<Longrightarrow> the_scene sh p = the_scene sh q"
  "pl_index p = pl_index q \<Longrightarrow> scene_duration sh p = scene_duration sh q"
  by (simp_all add: the_scene_def scene_duration_def)

lemma settle_view:
  "pl_index (settle sh now p q) = pl_index q" "ck_t (pl_clock (settle sh now p q)) = ck_t (pl_clock q)"
  "ck_playing (pl_clock (settle sh now p q)) = ck_playing (pl_clock q)" "pl_speed (settle sh now p q) = pl_speed q"
  by (simp_all add: settle_def Let_def mirror_hash_def auto_timer_def)

lemma settle_ended: "scene_ended sh (settle sh now p q) = scene_ended sh q" "waits sh (settle sh now p q) = waits sh q"
proof -
  show e: "scene_ended sh (settle sh now p q) = scene_ended sh q"
    using scene_of_index(2) [of "settle sh now p q" q sh] ended_t [of "pl_clock (settle sh now p q)" "pl_clock q"]
    by (simp add: scene_ended_def settle_view)
  show "waits sh (settle sh now p q) = waits sh q" by (simp add: waits_def e settle_view)
qed

lemma settle_last: "ck_last (pl_clock q) \<le> now \<Longrightarrow> ck_last (pl_clock (settle sh now p q)) \<le> now"
  by (auto simp: settle_def Let_def mirror_hash_def auto_timer_def clock_effect_def)

lemma settle_timer:
  assumes "\<not> (scene_ended sh q \<noteq> scene_ended sh p \<or> pl_index q \<noteq> pl_index p) \<Longrightarrow> pl_timer q \<noteq> None \<longleftrightarrow> waits sh q"
  shows "pl_timer (settle sh now p q) \<noteq> None \<longleftrightarrow> waits sh (settle sh now p q)"
proof -
  have a: "pl_timer (auto_timer sh now r) \<noteq> None \<longleftrightarrow> waits sh r" for r by (auto simp: auto_timer_def waits_def)
  have m: "pl_timer (mirror_hash sh r) = pl_timer r" for r by (simp add: mirror_hash_def Let_def)
  show ?thesis
  proof (cases "scene_ended sh q \<noteq> scene_ended sh p \<or> pl_index q \<noteq> pl_index p")
    case True
    then obtain r where r: "settle sh now p q = auto_timer sh now r" by (auto simp: settle_def Let_def)
    have "waits sh (auto_timer sh now r) = waits sh r"
      by (simp add: waits_def scene_ended_def auto_timer_def scene_duration_def the_scene_def)
    then show ?thesis using a [of r] r by simp
  next
    case False
    then have "pl_timer (settle sh now p q) = pl_timer q" by (auto simp: settle_def Let_def m)
    then show ?thesis using assms False by (simp add: settle_ended(2))
  qed
qed

lemma settle_told:
  assumes "pl_index q = pl_index p \<Longrightarrow> take 1 (pl_told q) = [pl_index q]"
    "pl_index q = pl_index p \<Longrightarrow> sn_id (the_scene sh q) \<noteq> [] \<longrightarrow> pl_hash q = u ''#/'' @ sn_id (the_scene sh q)"
  shows "take 1 (pl_told (settle sh now p q)) = [pl_index q] \<and>
    (sn_id (the_scene sh q) \<noteq> [] \<longrightarrow> pl_hash (settle sh now p q) = u ''#/'' @ sn_id (the_scene sh q))"
proof (cases "pl_index q = pl_index p")
  case True
  then have "pl_told (settle sh now p q) = pl_told q" "pl_hash (settle sh now p q) = pl_hash q"
    by (simp_all add: settle_def Let_def auto_timer_def)
  with assms True show ?thesis by simp
next
  case False
  then show ?thesis by (auto simp: settle_def Let_def auto_timer_def mirror_hash_def the_scene_def)
qed

lemma clock_kept:
  assumes "show_ok sh" "player_ok sh now0 p" "now0 \<le> now" "q = show_handle sh now ev p"
  shows "clock_ok (scene_duration sh q) (pl_clock q) \<and> ck_last (pl_clock q) \<le> now \<and> pl_index q < scene_count sh"
proof -
  have p: "pl_index p < scene_count sh" "clock_ok (scene_duration sh p) (pl_clock p)" "ck_last (pl_clock p) \<le> now" "0 < pl_speed p"
    using assms(2,3) by (auto simp: player_ok_def)
  have pos: "0 \<le> sn_duration (the_scene sh r)" if "pl_index r < scene_count sh" for r
    using assms(1) that by (simp add: show_ok_def the_scene_def scene_count_def)
  note pos0 = pos [OF p(1)]
  from handle_moved [OF assms(1) p(1), of now ev, folded assms(4)] show ?thesis
  proof
    assume "scene_started sh p q"
    then show ?thesis using pos [of q] p(3) by (simp add: scene_started_def replay_def clock_ok_def scene_duration_def)
  next
    assume "stayed sh now p q"
    then have i: "pl_index q = pl_index p" and
      c: "\<exists>cev. pl_clock q = clock_step (scene_duration sh p) (pl_speed p) cev (pl_clock p) \<and> (cev = Frame now \<or> event_time cev = None)
        \<or> pl_clock q = pl_clock p"
      by (auto simp: stayed_def clock_step_def intro: exI [of _ "Seek _"] exI [of _ Toggle] exI [of _ "Frame now"])
    from c obtain cev where "pl_clock q = pl_clock p \<or>
      pl_clock q = clock_step (scene_duration sh p) (pl_speed p) cev (pl_clock p) \<and> (cev = Frame now \<or> event_time cev = None)" by blast
    then show ?thesis
    proof
      assume "pl_clock q = pl_clock p"
      then show ?thesis using i p scene_of_index(2) [OF i] by simp
    next
      assume e: "pl_clock q = clock_step (scene_duration sh p) (pl_speed p) cev (pl_clock p) \<and> (cev = Frame now \<or> event_time cev = None)"
      have "clock_ok (scene_duration sh p) (clock_step (scene_duration sh p) (pl_speed p) cev (pl_clock p))"
        using e p pos0 by (intro clock_step_ok) (auto simp: scene_duration_def)
      moreover have "ck_last (clock_step (scene_duration sh p) (pl_speed p) cev (pl_clock p)) \<le> now"
        using e p(3) by (cases cev) (auto simp: clock_defs Let_def)
      ultimately show ?thesis using e i p(1) scene_of_index(2) [OF i] by simp
    qed
  qed
qed

lemma timer_handled:
  assumes "show_ok sh" "player_ok sh now0 p"
    "\<not> (scene_ended sh (show_handle sh now ev p) \<noteq> scene_ended sh p \<or> pl_index (show_handle sh now ev p) \<noteq> pl_index p)"
  shows "pl_timer (show_handle sh now ev p) \<noteq> None \<longleftrightarrow> waits sh (show_handle sh now ev p)"
proof -
  let ?q = "show_handle sh now ev p"
  have same: "waits sh ?q = waits sh p" using assms(3) by (simp add: waits_def)
  have "pl_timer ?q = pl_timer p"
  proof (cases "ev = Timeout")
    case True
    show ?thesis
    proof (cases "pl_timer p")
      case (Some due)
      then have "Suc (pl_index p) < scene_count sh" using assms(2) by (simp add: player_ok_def waits_def)
      then have "pl_index (go sh (int (pl_index p) + 1) r) = Suc (pl_index p)" for r by (simp add: go_def clamp_index_def)
      then show ?thesis using assms(3) by (auto simp: True Some show_handle_def)
    qed (simp add: True show_handle_def)
  qed (rule handle_timer)
  then show ?thesis using assms(2) same by (simp add: player_ok_def)
qed

lemma step_ok:
  assumes "show_ok sh" "player_ok sh now0 p" "now0 \<le> now"
  shows "player_ok sh now (show_step sh now ev p)"
proof -
  define q where "q = show_handle sh now ev p"
  note c = clock_kept [OF assms q_def]
  have v: "0 < pl_speed q" using handle_rest(3) [of sh now ev p] assms(2) next_speed_pos by (auto simp: q_def player_ok_def)
  have t: "take 1 (pl_told (settle sh now p q)) = [pl_index q] \<and>
    (sn_id (the_scene sh q) \<noteq> [] \<longrightarrow> pl_hash (settle sh now p q) = u ''#/'' @ sn_id (the_scene sh q))"
  proof (rule settle_told)
    assume i: "pl_index q = pl_index p"
    have r: "pl_told q = pl_told p" "pl_hash q = pl_hash p" by (simp_all add: q_def handle_rest)
    show "take 1 (pl_told q) = [pl_index q]" using assms(2) i r by (simp add: player_ok_def)
    show "sn_id (the_scene sh q) \<noteq> [] \<longrightarrow> pl_hash q = u ''#/'' @ sn_id (the_scene sh q)"
      using assms(2) r scene_of_index(1) [OF i] by (simp add: player_ok_def)
  qed
  have m: "pl_timer (settle sh now p q) \<noteq> None \<longleftrightarrow> waits sh (settle sh now p q)"
    using timer_handled [OF assms(1,2), of now ev] unfolding q_def [symmetric] by (rule settle_timer)
  let ?r = "settle sh now p q"
  have i: "pl_index ?r = pl_index q" by (rule settle_view)
  have "clock_ok (scene_duration sh ?r) (pl_clock ?r)"
    using c clock_ok_t [of "pl_clock ?r" "pl_clock q"] scene_of_index(2) [OF i] by (simp add: settle_view)
  then show ?thesis
    using c v t m settle_last [of q now sh p] scene_of_index(1) [OF i]
    by (simp add: player_ok_def show_step_def q_def [symmetric] settle_view)
qed

lemma find_scene_bound: "find_scene scenes i = Some k \<Longrightarrow> k < length scenes \<and> sn_id (scenes ! k) = i"
  using nth_length_takeWhile [of "\<lambda>s. sn_id s \<noteq> i" scenes] by (auto simp: find_scene_def Let_def split: if_splits)

lemma mount_ok:
  assumes "show_ok sh" "mount_player sh now h = Some p"
  shows "player_ok sh now p"
proof -
  obtain found where f: "indexFromHash (sh_scenes sh) h = Inr found" using assms(2) by (auto simp: mount_player_def split: sum.splits)
  define i where "i = (case found of Some k \<Rightarrow> k | None \<Rightarrow> clamp_index sh (sh_start sh))"
  have i: "i < scene_count sh"
    using f find_scene_bound clamp_in_range [OF assms(1)]
    by (auto simp: i_def indexFromHash_def scene_count_def split: option.splits)
  then have d: "0 \<le> sn_duration (sh_scenes sh ! i)" using assms(1) by (simp add: show_ok_def scene_count_def)
  define p0 where "p0 = \<lparr>pl_index = i, pl_captions = sh_captions sh, pl_help = False, pl_speed = 1, pl_fullscreen = False,
    pl_clock = clock_effect now (init_clock True), pl_timer = None, pl_hash = h, pl_told = []\<rparr>"
  have p: "p = auto_timer sh now (mirror_hash sh p0)"
    using assms f by (auto simp: mount_player_def show_ok_def i_def p0_def Let_def split: if_splits)
  define g where "g = (if sn_id (sh_scenes sh ! i) = [] then h else u ''#/'' @ sn_id (sh_scenes sh ! i))"
  have m: "mirror_hash sh p0 = p0\<lparr>pl_hash := g, pl_told := [i]\<rparr>"
    "sn_id (sh_scenes sh ! i) \<noteq> [] \<Longrightarrow> g = u ''#/'' @ sn_id (sh_scenes sh ! i)"
    by (auto simp: mirror_hash_def p0_def the_scene_def Let_def g_def)
  show ?thesis unfolding p m(1) using i d m(2)
    by (auto simp: player_ok_def auto_timer_def waits_def scene_ended_def scene_duration_def the_scene_def clock_ok_def
      p0_def clock_effect_def init_clock_def)
qed

inductive presented :: "presentation \<Rightarrow> rat \<Rightarrow> player \<Rightarrow> bool" for sh where
  mounted: "mount_player sh now h = Some p \<Longrightarrow> presented sh now p"
| stepped: "presented sh now p \<Longrightarrow> now \<le> now' \<Longrightarrow> presented sh now' (show_step sh now' ev p)"

lemma presented_ok: "presented sh now p \<Longrightarrow> show_ok sh \<Longrightarrow> player_ok sh now p"
  by (induction rule: presented.induct) (auto intro: mount_ok step_ok)

section \<open>A deck that plays by itself\<close>

definition tick :: "presentation \<Rightarrow> rat \<Rightarrow> player \<Rightarrow> player" where
  "tick sh now p = show_step sh now Tick p"

lemma settle_self: "settle sh now p p = p"
  by (simp add: settle_def)

lemma tick_idle: "\<not> ck_playing (pl_clock p) \<Longrightarrow> tick sh now p = p"
  by (simp add: tick_def show_step_def show_handle_def Let_def settle_self)

definition on_air :: "presentation \<Rightarrow> nat \<Rightarrow> rat \<Rightarrow> player \<Rightarrow> bool" where
  \<comment> \<open>a scene is running, with the time of its last frame\<close>
  "on_air sh i now p \<longleftrightarrow> pl_index p = i \<and> i < scene_count sh \<and> ck_playing (pl_clock p) \<and> ck_last (pl_clock p) = now
     \<and> 0 \<le> ck_t (pl_clock p) \<and> ck_t (pl_clock p) < sn_duration (sh_scenes sh ! i) \<and> pl_speed p = 1"

definition off_air :: "presentation \<Rightarrow> nat \<Rightarrow> rat \<Rightarrow> player \<Rightarrow> bool" where
  \<comment> \<open>a scene has ended and the advance is due at the latest at the given time\<close>
  "off_air sh i due p \<longleftrightarrow> pl_index p = i \<and> i < scene_count sh \<and> \<not> ck_playing (pl_clock p)
     \<and> ck_t (pl_clock p) = sn_duration (sh_scenes sh ! i) \<and> pl_speed p = 1
     \<and> (Suc i < scene_count sh \<longrightarrow> (\<exists>d \<le> due. pl_timer p = Some d))"

lemma tick_on:
  assumes "on_air sh i now p" "now \<le> now'" "ck_t (pl_clock p) + (now' - now) < sn_duration (sh_scenes sh ! i)"
  shows "tick sh now' p = p\<lparr>pl_clock := (pl_clock p)\<lparr>ck_t := ck_t (pl_clock p) + (now' - now), ck_last := now'\<rparr>\<rparr>
    \<and> on_air sh i now' (tick sh now' p)"
proof -
  have "tick sh now' p = p\<lparr>pl_clock := (pl_clock p)\<lparr>ck_t := ck_t (pl_clock p) + (now' - now), ck_last := now'\<rparr>\<rparr>"
    using assms by (simp add: tick_def show_step_def show_handle_def Let_def on_air_def clock_frame_def at_end_def scene_duration_def
      the_scene_def settle_def scene_ended_def ended_def)
  with assms show ?thesis by (simp add: on_air_def)
qed

lemma tick_end:
  assumes "on_air sh i now p" "now \<le> now'" "sn_duration (sh_scenes sh ! i) \<le> ck_t (pl_clock p) + (now' - now)" "sh_mode sh = Auto"
  shows "off_air sh i (now' + 350) (tick sh now' p) \<and> pl_told (tick sh now' p) = pl_told p"
proof -
  define q where "q = p\<lparr>pl_clock := (pl_clock p)\<lparr>ck_t := sn_duration (sh_scenes sh ! i), ck_last := now', ck_playing := False\<rparr>\<rparr>"
  have h: "show_handle sh now' Tick p = q"
    using assms by (simp add: q_def show_handle_def Let_def on_air_def clock_frame_def at_end_def scene_duration_def the_scene_def)
  have e: "scene_ended sh q" "\<not> scene_ended sh p" "pl_index q = pl_index p"
    using assms(1) by (simp_all add: q_def on_air_def scene_ended_def ended_def at_end_def scene_duration_def the_scene_def)
  have "tick sh now' p = auto_timer sh now' q"
    using e by (simp add: tick_def show_step_def h settle_def Let_def) (simp add: q_def clock_effect_def)
  moreover have "scene_ended sh (auto_timer sh now' q) = scene_ended sh q" "pl_told q = pl_told p"
    by (simp_all add: auto_timer_def scene_ended_def scene_duration_def the_scene_def q_def)
  ultimately show ?thesis
    using assms(1,4) e(1) by (auto simp: off_air_def on_air_def auto_timer_def q_def)
qed

lemma ticks_idle: "off_air sh i due p \<Longrightarrow> fold (tick sh) nows p = p"
  by (induction nows) (simp_all add: tick_idle off_air_def)

lemma ticks_end:
  assumes "sh_mode sh = Auto"
  shows "\<lbrakk>on_air sh i now p; sorted (now # nows); sn_duration (sh_scenes sh ! i) \<le> ck_t (pl_clock p) + (last (now # nows) - now)\<rbrakk>
    \<Longrightarrow> off_air sh i (last (now # nows) + 350) (fold (tick sh) nows p) \<and> pl_told (fold (tick sh) nows p) = pl_told p"
proof (induction nows arbitrary: now p)
  case Nil
  then show ?case by (simp add: on_air_def)
next
  case (Cons now' nows)
  have le: "now \<le> now'" "now' \<le> last (now' # nows)" using Cons.prems(2) by (auto simp: last_in_set)
  show ?case
  proof (cases "ck_t (pl_clock p) + (now' - now) < sn_duration (sh_scenes sh ! i)")
    case True
    have t: "tick sh now' p = p\<lparr>pl_clock := (pl_clock p)\<lparr>ck_t := ck_t (pl_clock p) + (now' - now), ck_last := now'\<rparr>\<rparr>"
      and on: "on_air sh i now' (tick sh now' p)" using tick_on [OF Cons.prems(1) le(1) True] by blast+
    have r: "ck_t (pl_clock (tick sh now' p)) = ck_t (pl_clock p) + (now' - now)" "pl_told (tick sh now' p) = pl_told p"
      by (simp_all add: t)
    have "off_air sh i (last (now' # nows) + 350) (fold (tick sh) nows (tick sh now' p)) \<and>
        pl_told (fold (tick sh) nows (tick sh now' p)) = pl_told (tick sh now' p)"
      using Cons.prems(2,3) r by (intro Cons.IH on) simp_all
    then show ?thesis using r by simp
  next
    case False
    note t = tick_end [OF Cons.prems(1) le(1) _ assms, OF False [unfolded not_less]]
    have "off_air sh i (last (now' # nows) + 350) (tick sh now' p)" using t le(2) by (force simp: off_air_def)
    then show ?thesis using t ticks_idle by simp
  qed
qed

lemma timeout_next:
  assumes "off_air sh i due p" "due \<le> now" "Suc i < scene_count sh" "0 < sn_duration (sh_scenes sh ! Suc i)"
  shows "on_air sh (Suc i) now (show_step sh now Timeout p) \<and> ck_t (pl_clock (show_step sh now Timeout p)) = 0
    \<and> pl_told (show_step sh now Timeout p) = Suc i # pl_told p"
proof -
  obtain d where d: "pl_timer p = Some d" "d \<le> now" using assms by (auto simp: off_air_def)
  have i: "pl_index p = i" "clamp_index sh (int i + 1) = Suc i" "pl_speed p = 1" "\<not> ck_playing (pl_clock p)"
    using assms by (auto simp: off_air_def clamp_index_def)
  define q where "q = p\<lparr>pl_timer := None, pl_index := Suc i, pl_clock := replay (pl_clock p)\<rparr>"
  have h: "show_handle sh now Timeout p = q" using d i by (simp add: show_handle_def Let_def go_def q_def)
  have "show_step sh now Timeout p = settle sh now p q" by (simp add: show_step_def h)
  then show ?thesis
    using assms(3,4) i by (auto simp: settle_def Let_def mirror_hash_def auto_timer_def on_air_def q_def replay_def clock_effect_def)
qed

fun plays_on :: "presentation \<Rightarrow> rat \<Rightarrow> nat \<Rightarrow> (rat list \<times> rat) list \<Rightarrow> bool" where
  \<comment> \<open>for each scene the times of its frames, up to its end at least, and when the timer fires\<close>
  "plays_on sh now i [] \<longleftrightarrow> True"
| "plays_on sh now i ((nows, due) # xs) \<longleftrightarrow>
     sorted (now # nows) \<and> sn_duration (sh_scenes sh ! i) \<le> last (now # nows) - now \<and> last (now # nows) + 350 \<le> due
     \<and> plays_on sh due (Suc i) xs"

fun play_turns :: "presentation \<Rightarrow> (rat list \<times> rat) list \<Rightarrow> player \<Rightarrow> player" where
  "play_turns sh [] p = p"
| "play_turns sh ((nows, due) # xs) p = play_turns sh xs (show_step sh due Timeout (fold (tick sh) nows p))"

lemma turns_reach:
  assumes "sh_mode sh = Auto" "\<forall>s\<in>set (sh_scenes sh). 0 < sn_duration s"
  shows "\<lbrakk>on_air sh i now p; ck_t (pl_clock p) = 0; plays_on sh now i xs; i + length xs < scene_count sh\<rbrakk>
    \<Longrightarrow> (\<exists>t. on_air sh (i + length xs) t (play_turns sh xs p)) \<and>
        pl_told (play_turns sh xs p) = rev [Suc i..<Suc (i + length xs)] @ pl_told p"
proof (induction xs arbitrary: i now p)
  case Nil
  then show ?case by auto
next
  case (Cons x xs)
  obtain nows due where x: "x = (nows, due)" by (cases x)
  let ?p = "fold (tick sh) nows p"
  note e = ticks_end [OF assms(1) Cons.prems(1), of nows]
  have off: "off_air sh i (last (now # nows) + 350) ?p" "pl_told ?p = pl_told p" using e Cons.prems(2,3) by (simp_all add: x)
  have "0 < sn_duration (sh_scenes sh ! Suc i)" using assms(2) Cons.prems(4) by (simp add: scene_count_def)
  note n = timeout_next [OF off(1) _ _ this, of due]
  have on: "on_air sh (Suc i) due (show_step sh due Timeout ?p)" "ck_t (pl_clock (show_step sh due Timeout ?p)) = 0"
    "pl_told (show_step sh due Timeout ?p) = Suc i # pl_told p"
    using n Cons.prems(3,4) off(2) by (simp_all add: x)
  have u: "rev [Suc (Suc i)..<Suc (Suc i + length xs)] @ Suc i # pl_told p = rev [Suc i..<Suc (i + length (x # xs))] @ pl_told p"
    using upt_conv_Cons [of "Suc i" "Suc (i + length (x # xs))"] by (simp del: upt_Suc)
  show ?case
    using Cons.IH [OF on(1,2)] Cons.prems(3,4) on(3) u by (simp add: x del: upt_Suc)
qed

end
