(* ===== verification/PresenterGuarantees.thy ===== *)
theory PresenterGuarantees
  imports PresenterLaws Corpus
begin

text \<open>
  The properties of the presentation player and of the page of the founder deck.
\<close>

section \<open>The player\<close>

text \<open>C32. Whatever is pressed, clicked or awaited, the player shows a scene of its deck at a time of it; the page was told of
  this scene and the address names it; an advance is pending exactly when a deck that plays by itself has come to the
  end of a scene that is not the last; and the bar of the scene is filled between 0 and 1.\<close>

theorem player_stays_in_deck:
  assumes "presented sh now p" "show_ok sh"
  shows "pl_index p < length (sh_scenes sh) \<and>
    0 \<le> ck_t (pl_clock p) \<and> ck_t (pl_clock p) \<le> sn_duration (sh_scenes sh ! pl_index p) \<and>
    take 1 (pl_told p) = [pl_index p] \<and>
    (sn_id (sh_scenes sh ! pl_index p) = [] \<or> pl_hash p = u ''#/'' @ sn_id (sh_scenes sh ! pl_index p)) \<and>
    (pl_timer p = None) = (sh_mode sh = Hold \<or> \<not> scene_ended sh p \<or> Suc (pl_index p) = length (sh_scenes sh)) \<and>
    0 \<le> segment_fill sh p i \<and> segment_fill sh p i \<le> 1"
proof -
  have ok: "player_ok sh now p" by (rule presented_ok [OF assms])
  have m: "sh_mode sh = Hold \<longleftrightarrow> sh_mode sh \<noteq> Auto" by (cases "sh_mode sh") simp_all
  have t: "(pl_timer p = None) = (\<not> waits sh p)" using ok by (auto simp: player_ok_def)
  have "Suc (pl_index p) \<noteq> scene_count sh \<longleftrightarrow> Suc (pl_index p) < scene_count sh" using ok by (auto simp: player_ok_def)
  then show ?thesis
    using ok t unfolding m
    by (auto simp: player_ok_def waits_def clock_ok_def scene_duration_def the_scene_def scene_count_def segment_fill_def progress_def
      Let_def divide_simps)
qed

text \<open>C33. A deck that plays by itself shows every scene in its order: with any frames that reach each scene's end and any timer
  that is not early, the player comes from the scene it was mounted at to the last, scene by scene.\<close>

theorem auto_mode_plays_deck:
  assumes "sh_mode sh = Auto" "\<forall>s\<in>set (sh_scenes sh). 0 < sn_duration s" "mount_player sh now h = Some p"
    "plays_on sh now (pl_index p) xs" "pl_index p + length xs = length (sh_scenes sh) - 1"
  shows "pl_index (play_turns sh xs p) = length (sh_scenes sh) - 1 \<and>
    ck_playing (pl_clock (play_turns sh xs p)) \<and>
    rev (pl_told (play_turns sh xs p)) = [pl_index p..<length (sh_scenes sh)]"
proof -
  have n: "sh_scenes sh \<noteq> []" using assms(3) by (auto simp: mount_player_def split: sum.splits if_splits)
  then have ok: "show_ok sh" using assms(2) by (auto simp: show_ok_def intro: less_imp_le)
  have p: "player_ok sh now p" by (rule mount_ok [OF ok assms(3)])
  have i: "pl_index p < scene_count sh" using p by (simp add: player_ok_def)
  have told: "pl_told p = [pl_index p]" and c: "pl_clock p = clock_effect now (init_clock True)" and s: "pl_speed p = 1"
    using assms(3) by (auto simp: mount_player_def mirror_hash_def auto_timer_def Let_def split: sum.splits if_splits)
  have "on_air sh (pl_index p) now p" "ck_t (pl_clock p) = 0"
    using assms(2) i by (simp_all add: on_air_def c s clock_effect_def init_clock_def scene_count_def)
  note r = turns_reach [OF assms(1,2) this assms(4)]
  have l: "pl_index p + length xs < scene_count sh" using assms(5) n by (simp add: scene_count_def)
  have e: "Suc (pl_index p + length xs) = length (sh_scenes sh)" using assms(5) n by (cases "sh_scenes sh") simp_all
  have "pl_index p # [Suc (pl_index p)..<length (sh_scenes sh)] = [pl_index p..<length (sh_scenes sh)]"
    using i by (simp add: upt_conv_Cons scene_count_def)
  moreover have "pl_told (play_turns sh xs p) = rev [Suc (pl_index p)..<length (sh_scenes sh)] @ [pl_index p]"
    using r [OF l] by (simp only: told e)
  ultimately show ?thesis using r [OF l] assms(5) by (auto simp: on_air_def simp del: upt_Suc)
qed

section \<open>Links to a scene\<close>

definition linkable :: "ustr \<Rightarrow> bool" where
  \<comment> \<open>not empty, no percent sign, no line end\<close>
  "linkable i \<longleftrightarrow> i \<noteq> [] \<and> 37 \<notin> set i \<and> \<not> list_ex line_end i"

lemma decode_no_percent: "37 \<notin> set s \<Longrightarrow> decode_uri s = Some s"
  by (induction s) auto

lemma find_scene_nth:
  assumes "distinct (map sn_id scenes)" "i < length scenes"
  shows "find_scene scenes (sn_id (scenes ! i)) = Some i"
  using takeWhile_index [OF assms] assms(2) by (simp add: find_scene_def Let_def)

lemma hash_scene: "linkable i \<Longrightarrow> hash_target (u ''#/'' @ i) = Some i"
  by (simp add: hash_target_def linkable_def numeral_2_eq_2)

lemma mount_at:
  assumes "show_ok sh" "distinct (map sn_id (sh_scenes sh))" "i < length (sh_scenes sh)" "linkable (sn_id (sh_scenes sh ! i))"
  obtains p where "mount_player sh now (u ''#/'' @ sn_id (sh_scenes sh ! i)) = Some p" "pl_index p = i" "pl_told p = [i]"
proof -
  have f: "indexFromHash (sh_scenes sh) (u ''#/'' @ sn_id (sh_scenes sh ! i)) = Inr (Some i)"
    using assms(4) hash_scene [OF assms(4)] decode_no_percent find_scene_nth [OF assms(2,3)]
    by (simp add: indexFromHash_def linkable_def)
  obtain p where "mount_player sh now (u ''#/'' @ sn_id (sh_scenes sh ! i)) = Some p \<and> pl_index p = i \<and> pl_told p = [i]"
    using assms(1) f by (simp add: mount_player_def show_ok_def mirror_hash_def auto_timer_def Let_def)
  with that show ?thesis by blast
qed

text \<open>C34. The address of a scene opens it: in a deck whose ids differ and need no escape, a player that is mounted with the address
  another player has left shows the scene that player showed, from its start.\<close>

theorem scene_link_reopens:
  assumes "presented sh now p" "show_ok sh" "distinct (map sn_id (sh_scenes sh))" "list_all linkable (map sn_id (sh_scenes sh))"
  shows "\<exists>q. mount_player sh now' (pl_hash p) = Some q \<and> pl_index q = pl_index p \<and> ck_t (pl_clock q) = 0"
proof -
  have ok: "player_ok sh now p" by (rule presented_ok [OF assms(1,2)])
  have i: "pl_index p < length (sh_scenes sh)" using ok by (simp add: player_ok_def scene_count_def)
  then have l: "linkable (sn_id (sh_scenes sh ! pl_index p))" using assms(4) by (simp add: list_all_length)
  then have h: "pl_hash p = u ''#/'' @ sn_id (sh_scenes sh ! pl_index p)"
    using ok by (simp add: player_ok_def the_scene_def linkable_def)
  obtain q where q: "mount_player sh now' (u ''#/'' @ sn_id (sh_scenes sh ! pl_index p)) = Some q" "pl_index q = pl_index p"
    by (rule mount_at [OF assms(2,3) i l])
  moreover have "ck_t (pl_clock q) = 0"
    using q(1) by (auto simp: mount_player_def mirror_hash_def auto_timer_def Let_def clock_effect_def init_clock_def
      split: sum.splits if_splits)
  ultimately show ?thesis unfolding h by blast
qed

section \<open>The page of the founder deck\<close>

inductive paged :: "presentation \<Rightarrow> rat \<Rightarrow> page \<Rightarrow> bool" for sh where
  opened: "open_page sh now h = Some pg \<Longrightarrow> paged sh now pg"
| stepped: "\<lbrakk>paged sh now pg; now \<le> now'; page_step sh now' ev pg = Some pg'\<rbrakk> \<Longrightarrow> paged sh now' pg'"

definition page_ok :: "presentation \<Rightarrow> rat \<Rightarrow> page \<Rightarrow> bool" where
  "page_ok sh now pg \<longleftrightarrow> player_ok sh now (pg_player pg) \<and> pg_index pg = pl_index (pg_player pg)"

lemma told_head: "player_ok sh now p \<Longrightarrow> hd (pl_told p) = pl_index p \<and> pl_told p \<noteq> []"
  by (cases "pl_told p") (auto simp: player_ok_def)

lemma told_index_ok:
  assumes "player_ok sh now p" "player_ok sh now' q" "i = pl_index p"
  shows "told_index i p q = pl_index q"
  using told_head [OF assms(1)] told_head [OF assms(2)] assms(3) by (auto simp: told_index_def)

lemma told_case: "player_ok sh now p \<Longrightarrow> (case pl_told p of [] \<Rightarrow> i | k # _ \<Rightarrow> k) = pl_index p"
  using told_head [of sh now p] by (cases "pl_told p") auto

lemma paged_ok: "paged sh now pg \<Longrightarrow> show_ok sh \<Longrightarrow> page_ok sh now pg"
proof (induction rule: paged.induct)
  case (opened now h pg)
  then obtain i p where "mount_player sh now h = Some p" "pg = \<lparr>pg_index = (case pl_told p of [] \<Rightarrow> i | k # _ \<Rightarrow> k), pg_mount = 0, pg_player = p\<rparr>"
    by (auto simp: open_page_def split: sum.splits option.splits)
  then show ?case using mount_ok [OF opened(2)] told_case [of sh now p i] by (simp add: page_ok_def)
next
  case (stepped now pg now' ev pg')
  have ok: "player_ok sh now (pg_player pg)" "pg_index pg = pl_index (pg_player pg)" using stepped by (simp_all add: page_ok_def)
  show ?case
  proof (cases ev)
    case (Inside e)
    note s = step_ok [OF stepped.prems ok(1) stepped.hyps(2), of e]
    show ?thesis using stepped(3) s told_index_ok [OF ok(1) s ok(2)] by (auto simp: Inside page_step_def page_ok_def Let_def)
  next
    case (Jump start)
    show ?thesis
    proof (cases "scene_count sh \<le> start \<or> sn_id (sh_scenes sh ! start) = []")
      case True
      then show ?thesis using stepped(2,3) ok by (auto simp: Jump page_step_def page_ok_def player_ok_def)
    next
      case False
      then obtain p where "mount_player sh now' (u ''#/'' @ sn_id (sh_scenes sh ! start)) = Some p"
        "pg' = pg\<lparr>pg_index := (case pl_told p of [] \<Rightarrow> start | k # _ \<Rightarrow> k), pg_mount := Suc (pg_mount pg), pg_player := p\<rparr>"
        using stepped(3) by (auto simp: Jump page_step_def Let_def split: option.splits)
      then show ?thesis using mount_ok [OF stepped.prems] told_case [of sh now' p start] by (simp add: page_ok_def)
    qed
  qed
qed

lemma SCENE_META_split: "SCENE_META (pre @ c # post) = SCENE_META pre @ scenes_of c @ SCENE_META post"
  by (simp add: SCENE_META_def)

text \<open>C35. A click on a chapter of the founder deck opens the first scene of that chapter, whatever was shown before, and the
  page marks the chapter.\<close>

theorem chapter_jump_opens:
  assumes "paged sh now pg" "show_ok sh" "sh_scenes sh = map to_show (SCENE_META chapters)"
    "distinct (map sn_id (sh_scenes sh))" "list_all linkable (map sn_id (sh_scenes sh))"
    "distinct (map ch_id chapters)" "k < length chapters" "ch_scenes (chapters ! k) \<noteq> []"
  shows "\<exists>pg'. page_step sh now' (Jump (cr_start (CHAPTER_ROWS chapters ! k))) pg = Some pg' \<and>
    pl_index (pg_player pg') = pg_index pg' \<and>
    page_scene chapters pg' = hd (scenes_of (chapters ! k)) \<and>
    page_chapter chapters pg' = CHAPTER_ROWS chapters ! k"
proof -
  define c where "c = chapters ! k"
  let ?pre = "take k chapters" and ?post = "drop (Suc k) chapters" and ?row = "CHAPTER_ROWS chapters ! k"
  have split: "chapters = ?pre @ c # ?post" using id_take_nth_drop [OF assms(7)] by (simp add: c_def)
  have rw: "?row = \<lparr>cr_id = ch_id c, cr_n = ch_n c, cr_title = ch_title c, cr_blurb = ch_blurb c,
      cr_start = get_or 0 (CHAPTER_STARTS chapters) (ch_id c), cr_count = length (ch_scenes c)\<rparr>"
    using assms(7) by (simp add: CHAPTER_ROWS_def c_def)
  have "get_or 0 (CHAPTER_STARTS chapters) (ch_id c) = length (SCENE_META ?pre)"
    using start_of [of ?pre c ?post] split assms(6) by simp
  then have st: "cr_start ?row = length (SCENE_META ?pre)" by (simp add: rw)
  have ms: "SCENE_META chapters = SCENE_META ?pre @ scenes_of c @ SCENE_META ?post"
    by (subst split) (rule SCENE_META_split)
  have ne: "scenes_of c \<noteq> []" using assms(8) by (simp add: scenes_of_def c_def)
  have i: "cr_start ?row < length (sh_scenes sh)" using ne by (simp add: assms(3) ms st)
  have l: "linkable (sn_id (sh_scenes sh ! cr_start ?row))" using assms(5) i by (simp add: list_all_length)
  obtain p where p: "mount_player sh now' (u ''#/'' @ sn_id (sh_scenes sh ! cr_start ?row)) = Some p" "pl_index p = cr_start ?row"
    "pl_told p = [cr_start ?row]"
    by (rule mount_at [OF assms(2,4) i l])
  define pg' where "pg' = pg\<lparr>pg_index := cr_start ?row, pg_mount := Suc (pg_mount pg), pg_player := p\<rparr>"
  have step: "page_step sh now' (Jump (cr_start ?row)) pg = Some pg'"
    using p i l by (simp add: page_step_def scene_count_def linkable_def pg'_def Let_def del: u_simps)
  have sc: "page_scene chapters pg' = hd (scenes_of c)"
    using ne i by (simp add: page_scene_def pg'_def Let_def assms(3)) (simp add: st ms nth_append hd_conv_nth)
  have ch: "sm_chapter (hd (scenes_of c)) = ch_id c" using assms(8) by (cases "ch_scenes c") (simp_all add: scenes_of_def c_def)
  have d: "distinct (map cr_id (CHAPTER_ROWS chapters))" using assms(6) by (simp add: CHAPTER_ROWS_def comp_def)
  have "find (\<lambda>r. cr_id r = ch_id c) (CHAPTER_ROWS chapters) = Some ?row"
  proof -
    have len: "k < length (CHAPTER_ROWS chapters)" using assms(7) by (simp add: CHAPTER_ROWS_def)
    have "cr_id (CHAPTER_ROWS chapters ! j) \<noteq> ch_id c" if "j < k" for j
      using d len that nth_eq_iff_index_eq [of "map cr_id (CHAPTER_ROWS chapters)" j k] rw by simp
    then show ?thesis using len rw by (auto simp: find_Some_iff)
  qed
  then have "page_chapter chapters pg' = ?row" by (simp add: page_chapter_def sc ch)
  then show ?thesis using step sc p(2) by (auto simp: pg'_def c_def)
qed

end
