(* ===== verification/Manifest.thy ===== *)
theory Manifest
  imports Deck
begin

text \<open>
  The running order of the founder deck, \<open>web/src/decks/slides/manifest.js\<close>: its chapters and scenes as data.
\<close>

definition secs :: "int \<Rightarrow> int" where
  \<comment> \<open>\<open>ms\<close> of whole seconds\<close>
  "secs n = n * 1000"

definition chapter_overview :: deck_chapter where
  "chapter_overview = \<lparr>ch_id = ''overview'', ch_n = 1, ch_title = ''The invention in one picture'',
     ch_blurb = ''What the network is, and the whole of it on one frame.'',
     ch_scenes = [
       \<lparr>s_id = ''opening'', s_module = ''ch01'', s_title = ''Free local mesh, paid transit'', s_duration = secs 9,
        s_caption = ''xKoin is a network for buildings and small towns in Kenya. Anything that stays inside the mesh is free. Anything that goes out to the internet is paid for by the byte, and every byte is signed.'',
        s_terms = Some [''free-lan'', ''xkn'', ''unit'']\<rparr>,
       \<lparr>s_id = ''one-picture'', s_module = ''ch01'', s_title = ''The whole system on one frame'', s_duration = secs 15,
        s_caption = ''A phone joins the nearest relay over Wi-Fi. The bytes cross the building wiring to the gateway and out to the internet. Signed receipts come back the same way, and one settlement closes the session.'',
        s_terms = Some [''client'', ''node-satellite'', ''node'', ''backhaul'', ''receipt'', ''ticket'', ''escrow'']\<rparr>]\<rparr>"

definition chapter_devices :: deck_chapter where
  "chapter_devices = \<lparr>ch_id = ''devices'', ch_n = 2, ch_title = ''Devices and mediums'',
     ch_blurb = ''Five kinds of device over four physical carriers.'',
     ch_scenes = [
       \<lparr>s_id = ''mediums'', s_module = ''ch02'', s_title = ''Three mediums carry the mesh, one attaches the clients'', s_duration = secs 14,
        s_caption = ''The three carriers differ in speed by more than a thousand times. One frame format rides all of them. That is why the header is small and fixed.'',
        s_terms = Some [''medium'', ''homeplug'', ''narrowband-plc'', ''kq130f'', ''lora'', ''sx1262'', ''sf7'', ''wifi'', ''mtu'']\<rparr>,
       \<lparr>s_id = ''device-node'', s_module = ''ch02'', s_title = ''xKoin-Node, the only device that touches the internet'', s_duration = secs 13,
        s_caption = ''The Node ends the internet link, decides what is free and what is paid, checks vouchers offline and builds the tickets. It speaks all four carriers.'',
        s_terms = Some [''node'', ''esp32s3'', ''e22'', ''kq130f'', ''homeplug'', ''backhaul'']\<rparr>,
       \<lparr>s_id = ''device-node-satellite'', s_module = ''ch02'', s_title = ''xKoin-Node-Satellite, the wall-socket relay'', s_duration = secs 12,
        s_caption = ''The relay plugs into a socket on the same wiring, pulls the signal off the copper and gives out Wi-Fi. Whichever device serves you is the device that gets paid.'',
        s_terms = Some [''node-satellite'', ''mains-segment'', ''homeplug'', ''captive-portal'', ''node-operator'']\<rparr>,
       \<lparr>s_id = ''device-satellite'', s_module = ''ch02'', s_title = ''xKoin-Satellite, off grid on solar and one cell'', s_duration = secs 12,
        s_caption = ''The Satellite runs on a small panel and one cell, using radio alone. The design ceiling is forty milliamps on average, and no internet protocol runs on it.'',
        s_terms = Some [''satellite'', ''heltec'', ''sx1262'', ''class-c'', ''lora'']\<rparr>,
       \<lparr>s_id = ''device-client'', s_module = ''ch02'', s_title = ''xKoin-Client: a phone, and a dongle for direct reach'', s_duration = secs 12,
        s_caption = ''The client is a phone holding one seed, or that phone with a radio dongle on a lead. The dongle holds no key. Losing either one costs nothing, because the money was never in them.'',
        s_terms = Some [''client'', ''otg'', ''heltec'', ''ed25519'', ''secp256k1'', ''receipt'']\<rparr>,
       \<lparr>s_id = ''device-ecosystem'', s_module = ''ch02'', s_title = ''LoRa ecosystem devices ride the free plane'', s_duration = secs 11,
        s_caption = ''A farm sensor, a tank gauge and an ordinary Meshtastic handset all reach the mesh without paying, because their traffic never leaves it. With Meshtastic the only claim is that each can find the other.'',
        s_terms = Some [''ra-01sh'', ''esp32c3'', ''meshtastic'', ''free-lan'', ''farms'']\<rparr>]\<rparr>"

definition chapter_protocol :: deck_chapter where
  "chapter_protocol = \<lparr>ch_id = ''protocol'', ch_n = 3, ch_title = ''The protocol, XKP'',
     ch_blurb = ''The frame, the phases, the proof, the money.'',
     ch_scenes = [
       \<lparr>s_id = ''xkp-frame'', s_module = ''ch03'', s_title = ''One frame, byte by byte'', s_duration = secs 15,
        s_caption = ''Twenty-seven bytes of header, then the payload, then a two byte check. The identity field is eight bytes rather than a full key, because a full key would eat half of a narrowband message.'',
        s_terms = Some [''xkp'', ''frame'', ''node-id'', ''ttl'', ''crc16'', ''law8'']\<rparr>,
       \<lparr>s_id = ''xkp-phases'', s_module = ''ch03'', s_title = ''Five phases, and admission works with no network'', s_duration = secs 15,
        s_caption = ''Find, join, transfer, prove, settle. Joining works with no internet at all, because the internet is the thing being sold. A gateway that is cut off must still let in someone who paid five minutes ago.'',
        s_terms = Some [''voucher'', ''kiosk-root-key'', ''ed25519'', ''esp32s3'', ''class-c'', ''settlement'']\<rparr>,
       \<lparr>s_id = ''xkp-receipt'', s_module = ''ch03'', s_title = ''The receipt is 108 bytes because the slowest medium says so'', s_duration = secs 13,
        s_caption = ''Forty-four bytes of fields and a sixty-four byte signature fit one message on the slowest carrier. Proof has to move when nothing else can, or a node that carried the bytes has worked for free.'',
        s_terms = Some [''receipt'', ''ed25519'', ''kq130f'', ''narrowband-plc'', ''law3'']\<rparr>,
       \<lparr>s_id = ''xkp-cumulative'', s_module = ''ch03'', s_title = ''Cumulative counters: lose four receipts, lose nothing'', s_duration = secs 13,
        s_caption = ''A receipt carries the running total, never the increase. Only the newest one matters, an old one is worth nothing, and the node keeps one per client instead of a log.'',
        s_terms = Some [''cumulative'', ''law5'', ''law3'', ''receipt'']\<rparr>,
       \<lparr>s_id = ''xkp-ticket'', s_module = ''ch03'', s_title = ''The ticket: the last receipt, in a form the chain can check'', s_duration = secs 13,
        s_caption = ''The node takes its newest receipt and has the client sign it again in the form the chain reads. One unit is ten kilobytes, the count is a running total, and the field order is fixed.'',
        s_terms = Some [''ticket'', ''eip712'', ''secp256k1'', ''unit'', ''node-operator'']\<rparr>,
       \<lparr>s_id = ''xkp-settlement'', s_module = ''ch03'', s_title = ''Settlement: one call closes a whole session'', s_duration = secs 14,
        s_caption = ''The contract checks the date and the counter, pays only the new part, and never pays more than the balance holds. Ninety-five percent goes to the operator, five to the treasury, and anyone can make the call.'',
        s_terms = Some [''settlement'', ''escrow'', ''treasury'', ''relayer'', ''law6'', ''law7'', ''base'']\<rparr>]\<rparr>"

definition chapter_journeys :: deck_chapter where
  "chapter_journeys = \<lparr>ch_id = ''journeys'', ch_n = 4, ch_title = ''User journeys, end to end'',
     ch_blurb = ''Every party, from first install to shillings in hand.'',
     ch_scenes = [
       \<lparr>s_id = ''journey-operator-setup'', s_module = ''ch04'', s_title = ''Journey: a node admin sets up and funds the float'', s_duration = secs 14,
        s_caption = ''An operator fits the box, points it at an internet link, writes in one address and keeps a little gas. The operator is an address, not a device, because devices get replaced and stolen.'',
        s_terms = Some [''node-operator'', ''node'', ''gateway-api'', ''relayer'', ''bridge'', ''session-credit'']\<rparr>,
       \<lparr>s_id = ''journey-onboarding'', s_module = ''ch04'', s_title = ''Journey: a client onboards with twelve words'', s_duration = secs 13,
        s_caption = ''One seed in the phone gives both keys: one signs tickets, one signs receipts. The balance sits on the chain from the first minute, so writing the words onto a new phone brings everything back.'',
        s_terms = Some [''client'', ''secp256k1'', ''ed25519'', ''xkn'', ''escrow'', ''eip2612'']\<rparr>,
       \<lparr>s_id = ''journey-kiosk'', s_module = ''ch04'', s_title = ''Journey: buying at the kiosk, shillings to a funded meter'', s_duration = secs 14,
        s_caption = ''The payer gets the usual prompt and types a PIN. When the bank confirms, the gateway makes the same value in tokens, signs a voucher and tops up the shared meter. The user pays no gas.'',
        s_terms = Some [''stk-push'', ''daraja'', ''jenga'', ''bridge'', ''voucher'', ''escrow'', ''kes-peg'']\<rparr>,
       \<lparr>s_id = ''journey-free-lan'', s_module = ''ch04'', s_title = ''Journey: browsing the free LAN plane'', s_duration = secs 12,
        s_caption = ''Chat, cached school material, a camera in the corridor, sensor readings. None of it leaves the mesh, so none of it is counted and none of it needs a voucher.'',
        s_terms = Some [''free-lan'', ''class-c'', ''wifi'', ''farms'']\<rparr>,
       \<lparr>s_id = ''journey-paid-wan'', s_module = ''ch04'', s_title = ''Journey: a paid session on the wide area'', s_duration = secs 14,
        s_caption = ''The serving device sets a limit, counts what leaves, takes a signature every so often, and settles at half the limit. What it risks on a dishonest client is measured in bytes, not in trust.'',
        s_terms = Some [''session-credit'', ''receipt'', ''law3'', ''escrow'', ''unit'']\<rparr>,
       \<lparr>s_id = ''journey-earnings'', s_module = ''ch04'', s_title = ''Journey: earnings become shillings'', s_duration = secs 14,
        s_caption = ''Every batch adds to the operator address. The operator claims it, sends it to the bridge, gets shillings on their phone, and the bridge destroys exactly what it paid out.'',
        s_terms = Some [''node-operator'', ''settlement'', ''bridge'', ''msisdn'', ''xkn'']\<rparr>,
       \<lparr>s_id = ''journey-landlord'', s_module = ''ch04'', s_title = ''Journey: a landlord says yes'', s_duration = secs 13,
        s_caption = ''The ask is socket space, a wall, permission and one caretaker with a key. The owner becomes the operator and keeps ninety-five percent. They are not reselling their own line and are not becoming an internet provider.'',
        s_terms = Some [''estates'', ''node-operator'', ''kebs'']\<rparr>,
       \<lparr>s_id = ''journey-farmer'', s_module = ''ch04'', s_title = ''Journey: a farm sensor that never pays'', s_duration = secs 12,
        s_caption = ''A soil probe wakes every fifteen minutes, sends one reading and sleeps. The test is simple: the balance for its address has to be the same before and after twenty readings.'',
        s_terms = Some [''farms'', ''free-lan'', ''ra-01sh'', ''demos'']\<rparr>]\<rparr>"

definition chapter_modes :: deck_chapter where
  "chapter_modes = \<lparr>ch_id = ''modes'', ch_n = 5, ch_title = ''Operating modes'',
     ch_blurb = ''Normal, and every way the ground gives way.'',
     ch_scenes = [
       \<lparr>s_id = ''mode-normal'', s_module = ''ch05'', s_title = ''Normal: the sender scores the mediums and picks one'', s_duration = secs 13,
        s_caption = ''Speed estimate times the chance of arrival, highest wins. Three failures in a row and a carrier is set aside for two seconds. Nothing is configured and nothing is switched by hand.'',
        s_terms = Some [''medium-score'', ''ewma'', ''homeplug'', ''lora'', ''narrowband-plc'']\<rparr>,
       \<lparr>s_id = ''mode-wan-down'', s_module = ''ch05'', s_title = ''Wide area down: the mesh keeps its promises'', s_duration = secs 13,
        s_caption = ''New internet traffic stops, and so does reading the balance. Joining still works, because vouchers are checked offline. Receipts pile up and settle when the link is back.'',
        s_terms = Some [''backhaul'', ''voucher'', ''cumulative'', ''session-credit'', ''free-lan'']\<rparr>,
       \<lparr>s_id = ''mode-segment-cut'', s_module = ''ch05'', s_title = ''Mains segment cut: the radio jumps the transformer'', s_duration = secs 14,
        s_caption = ''A transformer, a phase change or a filter ends the power-line signal, and more transmit power will not change that. A radio hop carries control across, and each side keeps its own bulk traffic local.'',
        s_terms = Some [''mains-segment'', ''plc'', ''lora'', ''class-c'', ''demos'']\<rparr>,
       \<lparr>s_id = ''mode-lora-only'', s_module = ''ch05'', s_title = ''Radio only: what can still be sold at 5.4 kbps'', s_duration = secs 14,
        s_caption = ''Plain transactions need no internet protocol at all. A text page is stripped down in the cloud and arrives in twenty-two seconds, or under one second in the faster radio mode. Airtime rules bind this harder than speed does.'',
        s_terms = Some [''class-a'', ''class-b'', ''class-c'', ''sf7'', ''gfsk'', ''duty-cycle'']\<rparr>,
       \<lparr>s_id = ''mode-outage-recovery'', s_module = ''ch05'', s_title = ''Full outage, and the recovery afterwards'', s_duration = secs 14,
        s_caption = ''The grid drops and both power-line carriers die together. In the simulation the radio carries the first bytes about eight tenths of a second later. When the link returns the waiting batch settles and nothing owed was lost.'',
        s_terms = Some [''last-network'', ''cumulative'', ''settlement'', ''demos'']\<rparr>,
       \<lparr>s_id = ''mode-degrade'', s_module = ''ch05'', s_title = ''Degrade, do not die'', s_duration = secs 11,
        s_caption = ''Every failure gets the same question: what stops, and what is still true afterwards. In every case the money layer is still true, because it never depended on the part that broke.'',
        s_terms = Some [''laws'', ''free-lan'', ''cumulative'']\<rparr>]\<rparr>"

definition chapter_attacks :: deck_chapter where
  "chapter_attacks = \<lparr>ch_id = ''attacks'', ch_n = 6, ch_title = ''Attack vectors and defences'',
     ch_blurb = ''Ten scenarios, and the check that catches each one.'',
     ch_scenes = [
       \<lparr>s_id = ''attack-replay'', s_module = ''ch06'', s_title = ''Replayed receipt'', s_duration = secs 11,
        s_caption = ''An old receipt is sent again to be paid twice. The counter has to move forward and the contract pays only the new part, so the second try is worth nothing and the call fails.'',
        s_terms = Some [''law5'', ''cumulative'', ''ticket'']\<rparr>,
       \<lparr>s_id = ''attack-forged-signature'', s_module = ''ch06'', s_title = ''Forged signature'', s_duration = secs 11,
        s_caption = ''A ticket arrives with a signature the client never made. Working back from it gives a different address, so the ticket does not match its own signer and the whole batch fails.'',
        s_terms = Some [''ed25519'', ''secp256k1'', ''eip712'', ''node-id'']\<rparr>,
       \<lparr>s_id = ''attack-inflated-counter'', s_module = ''ch06'', s_title = ''Inflated byte counter'', s_duration = secs 11,
        s_caption = ''A node claims more bytes than it carried. There is no judgement call and no dispute: the number sits inside what the client signed, so raising it breaks the signature.'',
        s_terms = Some [''law3'', ''receipt'', ''ed25519'']\<rparr>,
       \<lparr>s_id = ''attack-double-spend'', s_module = ''ch06'', s_title = ''Double spend across several nodes'', s_duration = secs 12,
        s_caption = ''One balance is run against several nodes at once. Nothing goes short, because every settlement stops at what is left, and the node-side limit turns the worst case into one cap of bytes.'',
        s_terms = Some [''law6'', ''escrow'', ''session-credit'']\<rparr>,
       \<lparr>s_id = ''attack-rogue-relay'', s_module = ''ch06'', s_title = ''Rogue relay in the path'', s_duration = secs 11,
        s_caption = ''A relay in the middle wants a cut. Payment follows the session, not the route: whoever held the session is owed, and the chain never checks a route at all.'',
        s_terms = Some [''node-operator'', ''relayer'', ''settlement'']\<rparr>,
       \<lparr>s_id = ''attack-key-compromise'', s_module = ''ch06'', s_title = ''Key compromise, bounded by design'', s_duration = secs 14,
        s_caption = ''Each key is worth a stated maximum. A stolen bridge key leaks at most one day of its cap and can destroy nobody else balance. A stolen owner key can be expensive within limits, and can redirect nothing.'',
        s_terms = Some [''bridge'', ''kiosk-root-key'', ''treasury'', ''safe'', ''ownable2step'']\<rparr>,
       \<lparr>s_id = ''attack-frame-flood'', s_module = ''ch06'', s_title = ''Frame flood and corruption'', s_duration = secs 11,
        s_caption = ''Rubbish is pushed at the receiver as fast as the medium allows. The cheap checks run first, so the costly signature check is only spent on frames that could be real.'',
        s_terms = Some [''law8'', ''crc16'', ''frame'']\<rparr>,
       \<lparr>s_id = ''attack-chain-tamper'', s_module = ''ch06'', s_title = ''Tampering with the settled record'', s_duration = secs 12,
        s_caption = ''The settled record is attacked directly. What the contract holds has to equal what it owes after every call, the fee is the exact sum of the tickets, and a fuzz run of 256 cases proves it.'',
        s_terms = Some [''law7'', ''escrow'', ''base'', ''foundry'']\<rparr>,
       \<lparr>s_id = ''attack-mac-spoof'', s_module = ''ch06'', s_title = ''Spoofing another device on the air'', s_duration = secs 11,
        s_caption = ''A frame goes out under someone else name. The name comes from a key rather than a register, and anything carrying value is checked against the full key, so wearing a name buys nothing.'',
        s_terms = Some [''node-id'', ''ed25519'', ''voucher'']\<rparr>,
       \<lparr>s_id = ''attack-sybil'', s_module = ''ch06'', s_title = ''Sybil nodes and beacon spam'', s_duration = secs 11,
        s_caption = ''Names are free, so ten thousand are made and all of them shout at once. Pay is per signed byte and never for being present, so the flood costs the attacker airtime and earns zero.'',
        s_terms = Some [''laws'', ''node-id'', ''free-lan'']\<rparr>]\<rparr>"

definition chapter_economics :: deck_chapter where
  "chapter_economics = \<lparr>ch_id = ''economics'', ch_n = 7, ch_title = ''Economics'',
     ch_blurb = ''The peg, the price, the operator return and the fee.'',
     ch_scenes = [
       \<lparr>s_id = ''econ-peg'', s_module = ''ch07'', s_title = ''The peg is construction, not market making'', s_duration = secs 12,
        s_caption = ''There is no trading pool and no listing. Every token was made against a confirmed payment and is destroyed on the way out, so what exists matches the cash held at the bank.'',
        s_terms = Some [''kes-peg'', ''xkn'', ''bridge'', ''ukes'', ''erc20'']\<rparr>,
       \<lparr>s_id = ''econ-price'', s_module = ''ch07'', s_title = ''The price is a placeholder, and the floor is a formula'', s_duration = secs 14,
        s_caption = ''Five hundred millionths of a shilling per ten kilobytes is a placeholder until it clears measured cost. The floor is cost per megabyte, scaled to the unit, divided by the share the operator keeps, adjusted by how much the cache serves.'',
        s_terms = Some [''price-floor'', ''unit'', ''ukes'', ''backhaul'']\<rparr>,
       \<lparr>s_id = ''econ-roi'', s_module = ''ch07'', s_title = ''Operator return, with every condition attached'', s_duration = secs 14,
        s_caption = ''The model shows a five month payback in a town block and three at a rural post. Both assume a retail rate, a tenant spend and a cost nobody has measured. Until that measurement exists the honest answer is a range with an unknown floor.'',
        s_terms = Some [''node-operator'', ''estates'', ''price-floor'', ''base'']\<rparr>,
       \<lparr>s_id = ''econ-treasury'', s_module = ''ch07'', s_title = ''The treasury pays one address, and anyone can trigger it'', s_duration = secs 13,
        s_caption = ''The claim call sweeps the balance to one address and takes no destination, so a stolen owner key can redirect nothing. Changing that address takes seven public days, and the current holder can stop it.'',
        s_terms = Some [''treasury'', ''safe'', ''msisdn'', ''settlement'']\<rparr>]\<rparr>"

definition chapter_proof :: deck_chapter where
  "chapter_proof = \<lparr>ch_id = ''proof'', ch_n = 8, ch_title = ''The proof matrix'',
     ch_blurb = ''What is already proven, by which command.'',
     ch_scenes = [
       \<lparr>s_id = ''proof-matrix'', s_module = ''ch08'', s_title = ''Six commands anyone can run'', s_duration = secs 15,
        s_caption = ''Contracts, gateway, protocol, six simulation runs, seventy-five firmware checks and one full loop against a real chain. Two of the headline numbers come from simulation, and they say so wherever they appear.'',
        s_terms = Some [''foundry'', ''gateway-api'', ''xkp'', ''demos'']\<rparr>]\<rparr>"

definition chapter_roadmap :: deck_chapter where
  "chapter_roadmap = \<lparr>ch_id = ''roadmap'', ch_n = 9, ch_title = ''Roadmap'',
     ch_blurb = ''Five phases, each with an entry and an exit condition.'',
     ch_scenes = [
       \<lparr>s_id = ''roadmap'', s_module = ''ch09'', s_title = ''Bench, building, gates, board, factory'', s_duration = secs 15,
        s_caption = ''A phase starts because the one before it finished, not because a date arrived. The legal work runs alongside everything else rather than waiting its turn.'',
        s_terms = Some [''demos'', ''estates'', ''cak'', ''kebs'', ''cbk'', ''safe'']\<rparr>]\<rparr>"

definition chapter_closing :: deck_chapter where
  "chapter_closing = \<lparr>ch_id = ''closing'', ch_n = 10, ch_title = ''Closing'',
     ch_blurb = ''What stands between here and a running pilot.'',
     ch_scenes = [
       \<lparr>s_id = ''closing'', s_module = ''ch10'', s_title = ''Three things stand between here and a pilot'', s_duration = secs 12,
        s_caption = ''A parts order that is already listed and priced. One building whose owner will take the box. And one measurement of what the internet link really costs, which every money claim is waiting on.'',
        s_terms = Some [''demos'', ''estates'', ''price-floor'']\<rparr>]\<rparr>"

definition CHAPTERS :: "deck_chapter list" where
  "CHAPTERS = [chapter_overview, chapter_devices, chapter_protocol, chapter_journeys, chapter_modes, chapter_attacks, chapter_economics, chapter_proof, chapter_roadmap, chapter_closing]"

lemmas chapters_data = CHAPTERS_def chapter_overview_def chapter_devices_def chapter_protocol_def chapter_journeys_def chapter_modes_def chapter_attacks_def chapter_economics_def chapter_proof_def chapter_roadmap_def chapter_closing_def

end
