(* ===== verification/DeckTerms.thy ===== *)
theory DeckTerms
  imports Presenter
begin

text \<open>
  The words of the founder deck, \<open>web/src/decks/slides/terms.js\<close>, as data.
\<close>

definition TERMS_1 :: "(string \<times> deck_term) list" where
  "TERMS_1 = [
    (''xkp'', \<lparr>dt_term = ''XKP'', dt_short = ''The xKoin protocol. One frame format for power line, radio and Wi-Fi alike.'', dt_doc = ''papers/03-protocol-xkp''\<rparr>),
    (''frame'', \<lparr>dt_term = ''frame'', dt_short = ''27 bytes of header, a payload, then a 2 byte check.'', dt_doc = ''papers/03-protocol-xkp''\<rparr>),
    (''crc16'', \<lparr>dt_term = ''CRC16-CCITT'', dt_short = ''A cheap check over the whole frame. Damaged frames die here, before any signature is read.'', dt_doc = ''papers/03-protocol-xkp''\<rparr>),
    (''ttl'', \<lparr>dt_term = ''TTL'', dt_short = ''Hops left. Every relay takes one off.'', dt_doc = ''papers/03-protocol-xkp''\<rparr>),
    (''mtu'', \<lparr>dt_term = ''MTU'', dt_short = ''The biggest payload a medium can send in one go.'', dt_doc = ''papers/02-system-architecture''\<rparr>),
    (''node-id'', \<lparr>dt_term = ''node id'', dt_short = ''A short hash of the device public key. There are no accounts to look up.'', dt_doc = ''papers/00-START-HERE''\<rparr>),
    (''medium'', \<lparr>dt_term = ''medium'', dt_short = ''One physical carrier: HomePlug AV, narrowband PLC, LoRa or Wi-Fi.'', dt_doc = ''papers/02-system-architecture''\<rparr>),
    (''medium-score'', \<lparr>dt_term = ''medium score'', dt_short = ''Speed estimate times the chance a frame lands. The sender picks the highest.'', dt_doc = ''papers/02-system-architecture''\<rparr>),
    (''ewma'', \<lparr>dt_term = ''EWMA'', dt_short = ''A running average that leans on recent results.'', dt_doc = ''papers/03-protocol-xkp''\<rparr>),
    (''plc'', \<lparr>dt_term = ''PLC'', dt_short = ''Data sent over the mains wiring already in the walls.'', dt_doc = ''papers/02-system-architecture''\<rparr>),
    (''homeplug'', \<lparr>dt_term = ''HomePlug AV'', dt_short = ''Fast power-line data, modelled at about 10 Mbps. It carries the bulk traffic.'', dt_doc = ''papers/02-system-architecture''\<rparr>),
    (''narrowband-plc'', \<lparr>dt_term = ''narrowband PLC'', dt_short = ''Slow power-line data, about 960 bytes a second. It carries receipts and control.'', dt_doc = ''papers/02-system-architecture''\<rparr>),
    (''kq130f'', \<lparr>dt_term = ''KQ-130F'', dt_short = ''The narrowband power-line modem. 128 bytes per frame.'', dt_doc = ''papers/05-hardware-node''\<rparr>),
    (''lora'', \<lparr>dt_term = ''LoRa'', dt_short = ''Long range radio at 868.1 MHz. It finds other devices, and it survives a blackout.'', dt_doc = ''papers/02-system-architecture''\<rparr>),
    (''sx1262'', \<lparr>dt_term = ''SX1262'', dt_short = ''The radio chip behind every LoRa link here.'', dt_doc = ''papers/07-hardware-satellite''\<rparr>),
    (''sf7'', \<lparr>dt_term = ''SF7'', dt_short = ''The fastest LoRa setting used: about 5.4 kbps, 226 byte payload.'', dt_doc = ''papers/03-protocol-xkp''\<rparr>),
    (''gfsk'', \<lparr>dt_term = ''GFSK'', dt_short = ''The same radio in a faster mode, 150 kbps, for strong links.'', dt_doc = ''papers/03-protocol-xkp''\<rparr>),
    (''duty-cycle'', \<lparr>dt_term = ''duty cycle'', dt_short = ''How much of each hour a transmitter is allowed to talk.'', dt_doc = ''papers/11-regulatory-and-safety''\<rparr>),
    (''wifi'', \<lparr>dt_term = ''Wi-Fi'', dt_short = ''How phones attach. It carries no mesh frames.'', dt_doc = ''papers/02-system-architecture''\<rparr>),
    (''esp32s3'', \<lparr>dt_term = ''ESP32-S3'', dt_short = ''The chip in the Node, the relay and the dongle.'', dt_doc = ''papers/05-hardware-node''\<rparr>),
    (''esp32c3'', \<lparr>dt_term = ''ESP32-C3'', dt_short = ''A smaller chip, used on the sensor nodes.'', dt_doc = ''papers/09-lora-ecosystem-devices''\<rparr>),
    (''heltec'', \<lparr>dt_term = ''Heltec WiFi LoRa 32 V3'', dt_short = ''An off-the-shelf board with chip and radio on it. Used for the Satellite and the dongle.'', dt_doc = ''papers/07-hardware-satellite''\<rparr>),
    (''e22'', \<lparr>dt_term = ''E22-900M22S'', dt_short = ''The LoRa module fitted to the Node.'', dt_doc = ''papers/05-hardware-node''\<rparr>),
    (''ra-01sh'', \<lparr>dt_term = ''Ra-01SH'', dt_short = ''The LoRa module on the farm sensor.'', dt_doc = ''papers/09-lora-ecosystem-devices''\<rparr>),
    (''otg'', \<lparr>dt_term = ''OTG'', dt_short = ''The phone acts as host and powers the dongle from its own battery.'', dt_doc = ''papers/08-hardware-client-and-otg-dongle''\<rparr>),
    (''rssi'', \<lparr>dt_term = ''RSSI'', dt_short = ''How strong a received signal was. An estimate, not a lab measurement.'', dt_doc = ''papers/12-proof-of-concept-plan''\<rparr>),
    (''meshtastic'', \<lparr>dt_term = ''Meshtastic'', dt_short = ''An open LoRa mesh. xKoin devices can find it, and nothing more is claimed.'', dt_doc = ''papers/09-lora-ecosystem-devices''\<rparr>),
    (''free-lan'', \<lparr>dt_term = ''free LAN plane'', dt_short = ''Traffic that never leaves the mesh. It costs nothing and needs no voucher.'', dt_doc = ''papers/00-START-HERE''\<rparr>),
    (''backhaul'', \<lparr>dt_term = ''backhaul'', dt_short = ''The link from the Node to the internet: LTE, fibre or a phone hotspot.'', dt_doc = ''papers/02-system-architecture''\<rparr>)]"

definition TERMS_2 :: "(string \<times> deck_term) list" where
  "TERMS_2 = [
    (''mains-segment'', \<lparr>dt_term = ''mains segment'', dt_short = ''How far a power-line signal reaches before a transformer or a filter stops it.'', dt_doc = ''papers/02-system-architecture''\<rparr>),
    (''captive-portal'', \<lparr>dt_term = ''captive portal'', dt_short = ''The page that opens when you join the Wi-Fi, for buying without the app.'', dt_doc = ''papers/00-START-HERE''\<rparr>),
    (''voucher'', \<lparr>dt_term = ''voucher'', dt_short = ''A signed note saying this address paid. Checked offline. Good for 24 hours.'', dt_doc = ''papers/04-settlement-and-economics''\<rparr>),
    (''receipt'', \<lparr>dt_term = ''receipt'', dt_short = ''A signed running total of bytes used. 108 bytes, so it fits the slowest medium.'', dt_doc = ''papers/03-protocol-xkp''\<rparr>),
    (''cumulative'', \<lparr>dt_term = ''cumulative counter'', dt_short = ''A total that only goes up, so losing one costs nothing.'', dt_doc = ''papers/03-protocol-xkp''\<rparr>),
    (''ticket'', \<lparr>dt_term = ''ticket'', dt_short = ''The last receipt, signed again in the form the chain can check.'', dt_doc = ''papers/04-settlement-and-economics''\<rparr>),
    (''escrow'', \<lparr>dt_term = ''escrow'', dt_short = ''The shared prepaid meter. One balance per address, readable by every node.'', dt_doc = ''papers/04-settlement-and-economics''\<rparr>),
    (''settlement'', \<lparr>dt_term = ''settlement'', dt_short = ''The call that moves money from a balance to an operator and the treasury.'', dt_doc = ''papers/04-settlement-and-economics''\<rparr>),
    (''treasury'', \<lparr>dt_term = ''treasury'', dt_short = ''Takes the fee. It can pay one address and nowhere else.'', dt_doc = ''papers/04-settlement-and-economics''\<rparr>),
    (''bridge'', \<lparr>dt_term = ''bridge'', dt_short = ''The key that makes tokens when cash arrives and destroys its own when cash leaves.'', dt_doc = ''papers/04-settlement-and-economics''\<rparr>),
    (''relayer'', \<lparr>dt_term = ''relayer'', dt_short = ''Whoever sends ticket batches to the chain. It holds no power, so anyone can run one.'', dt_doc = ''papers/04-settlement-and-economics''\<rparr>),
    (''xkn'', \<lparr>dt_term = ''XKN'', dt_short = ''The token. One XKN is one shilling.'', dt_doc = ''papers/04-settlement-and-economics''\<rparr>),
    (''kes-peg'', \<lparr>dt_term = ''KES peg'', dt_short = ''One token is one shilling, because each one was made against a real payment.'', dt_doc = ''papers/04-settlement-and-economics''\<rparr>),
    (''ukes'', \<lparr>dt_term = ''micro-KES'', dt_short = ''A millionth of a shilling. The smallest amount the token can hold.'', dt_doc = ''papers/04-settlement-and-economics''\<rparr>),
    (''unit'', \<lparr>dt_term = ''billing unit'', dt_short = ''10 KB sent to the internet. The price is set per unit.'', dt_doc = ''papers/04-settlement-and-economics''\<rparr>),
    (''kiosk-root-key'', \<lparr>dt_term = ''kiosk root key'', dt_short = ''The key that signs vouchers. Every node carries its public half.'', dt_doc = ''papers/10-security-and-trust''\<rparr>),
    (''node-operator'', \<lparr>dt_term = ''node operator'', dt_short = ''The address paid for serving bytes. An address, not a device.'', dt_doc = ''papers/04-settlement-and-economics''\<rparr>),
    (''ed25519'', \<lparr>dt_term = ''Ed25519'', dt_short = ''The signature used for receipts and vouchers at the edge. Fast to check.'', dt_doc = ''papers/10-security-and-trust''\<rparr>),
    (''secp256k1'', \<lparr>dt_term = ''secp256k1'', dt_short = ''The signature the chain understands. Used for tickets.'', dt_doc = ''papers/10-security-and-trust''\<rparr>),
    (''eip712'', \<lparr>dt_term = ''EIP-712'', dt_short = ''A way of signing a structured record so the chain checks the same digest you did.'', dt_doc = ''papers/04-settlement-and-economics''\<rparr>),
    (''eip2612'', \<lparr>dt_term = ''EIP-2612'', dt_short = ''A signed permission to move tokens, so the user never needs ETH.'', dt_doc = ''papers/04-settlement-and-economics''\<rparr>),
    (''erc20'', \<lparr>dt_term = ''ERC-20'', dt_short = ''The standard token interface every wallet already knows.'', dt_doc = ''papers/04-settlement-and-economics''\<rparr>),
    (''base'', \<lparr>dt_term = ''Base'', dt_short = ''The chain the contracts run on. A settlement costs a fraction of a cent.'', dt_doc = ''papers/04-settlement-and-economics''\<rparr>),
    (''daraja'', \<lparr>dt_term = ''Daraja'', dt_short = ''The Safaricom rail for M-Pesa payments.'', dt_doc = ''papers/04-settlement-and-economics''\<rparr>),
    (''jenga'', \<lparr>dt_term = ''Jenga'', dt_short = ''The Equity and Equitel rail for payments.'', dt_doc = ''papers/04-settlement-and-economics''\<rparr>),
    (''stk-push'', \<lparr>dt_term = ''STK push'', dt_short = ''The prompt on the payer phone asking for their PIN.'', dt_doc = ''papers/04-settlement-and-economics''\<rparr>),
    (''msisdn'', \<lparr>dt_term = ''MSISDN'', dt_short = ''The phone number a payout goes to.'', dt_doc = ''papers/10-security-and-trust''\<rparr>),
    (''law3'', \<lparr>dt_term = ''Law 3'', dt_short = ''Only signed bytes are owed. A node risks two receipt intervals and no more.'', dt_doc = ''papers/10-security-and-trust''\<rparr>),
    (''law5'', \<lparr>dt_term = ''Law 5'', dt_short = ''Replay pays nothing. An old receipt is worth a difference of zero.'', dt_doc = ''papers/10-security-and-trust''\<rparr>)]"

definition TERMS_3 :: "(string \<times> deck_term) list" where
  "TERMS_3 = [
    (''law6'', \<lparr>dt_term = ''Law 6'', dt_short = ''Nobody is owed more than they paid in. Settlement stops at the balance.'', dt_doc = ''papers/10-security-and-trust''\<rparr>),
    (''law7'', \<lparr>dt_term = ''Law 7'', dt_short = ''The ledger cannot go short. What is held equals what is owed, after every call.'', dt_doc = ''papers/10-security-and-trust''\<rparr>),
    (''law8'', \<lparr>dt_term = ''Law 8'', dt_short = ''Corruption dies at the frame, before any signature is read.'', dt_doc = ''papers/10-security-and-trust''\<rparr>),
    (''laws'', \<lparr>dt_term = ''the eight Laws'', dt_short = ''The threat model, written as rules that must always hold. Each one has a test.'', dt_doc = ''papers/10-security-and-trust''\<rparr>),
    (''session-credit'', \<lparr>dt_term = ''session credit limit'', dt_short = ''How far one session may run before the node settles. 20 KES online, 5 offline.'', dt_doc = ''papers/04-settlement-and-economics''\<rparr>),
    (''ownable2step'', \<lparr>dt_term = ''Ownable2Step'', dt_short = ''Ownership moves in two steps, so a wrong address cannot strand a contract.'', dt_doc = ''papers/10-security-and-trust''\<rparr>),
    (''safe'', \<lparr>dt_term = ''Gnosis Safe'', dt_short = ''A 2-of-3 multisig. It must own the contracts before any real money launch.'', dt_doc = ''papers/10-security-and-trust''\<rparr>),
    (''foundry'', \<lparr>dt_term = ''Foundry'', dt_short = ''The contract test tool. 35 tests pass today.'', dt_doc = ''papers/13-roadmap''\<rparr>),
    (''gateway-api'', \<lparr>dt_term = ''gateway-api'', dt_short = ''The service that takes the payment, makes the tokens and signs the voucher.'', dt_doc = ''papers/02-system-architecture''\<rparr>),
    (''cak'', \<lparr>dt_term = ''Communications Authority'', dt_short = ''The Kenyan regulator whose rules bind the 868 MHz radio.'', dt_doc = ''papers/11-regulatory-and-safety''\<rparr>),
    (''kebs'', \<lparr>dt_term = ''KEBS'', dt_short = ''The Kenyan standards body. It gates any device wired to the mains.'', dt_doc = ''papers/11-regulatory-and-safety''\<rparr>),
    (''cbk'', \<lparr>dt_term = ''Central Bank of Kenya'', dt_short = ''It decides what the token counts as in law.'', dt_doc = ''papers/11-regulatory-and-safety''\<rparr>),
    (''class-a'', \<lparr>dt_term = ''class A service'', dt_short = ''A web page stripped down to text in the cloud, then sent over the radio.'', dt_doc = ''papers/03-protocol-xkp''\<rparr>),
    (''class-b'', \<lparr>dt_term = ''class B service'', dt_short = ''The radio switching to its faster mode when the link is strong enough.'', dt_doc = ''papers/03-protocol-xkp''\<rparr>),
    (''class-c'', \<lparr>dt_term = ''class C service'', dt_short = ''Plain frames, no internet protocol: balances, prices, messages.'', dt_doc = ''papers/03-protocol-xkp''\<rparr>),
    (''node'', \<lparr>dt_term = ''xKoin-Node'', dt_short = ''The gateway. The only device that touches the internet.'', dt_doc = ''papers/05-hardware-node''\<rparr>),
    (''node-satellite'', \<lparr>dt_term = ''xKoin-Node-Satellite'', dt_short = ''The wall-socket relay. It admits clients and collects its own receipts.'', dt_doc = ''papers/06-hardware-node-satellite''\<rparr>),
    (''satellite'', \<lparr>dt_term = ''xKoin-Satellite'', dt_short = ''The solar remote. Radio only, and under 40 mA on average by design.'', dt_doc = ''papers/07-hardware-satellite''\<rparr>),
    (''client'', \<lparr>dt_term = ''xKoin-Client'', dt_short = ''Whatever holds the user keys: the phone, or the dongle on its lead.'', dt_doc = ''papers/08-hardware-client-and-otg-dongle''\<rparr>),
    (''demos'', \<lparr>dt_term = ''D1 to D6'', dt_short = ''The six bench tests. Each one names a number it has to beat.'', dt_doc = ''papers/12-proof-of-concept-plan''\<rparr>),
    (''price-floor'', \<lparr>dt_term = ''price floor formula'', dt_short = ''Backhaul cost per MB, scaled to the unit, divided by the share the operator keeps.'', dt_doc = ''papers/04-settlement-and-economics''\<rparr>),
    (''estates'', \<lparr>dt_term = ''apartment estates'', dt_short = ''The pilot case, worked through against a 40 unit block in Ruaka.'', dt_doc = ''potential/02-apartment-estates''\<rparr>),
    (''farms'', \<lparr>dt_term = ''large-scale farm IoT'', dt_short = ''Sensors on the free plane, worked through against a 400 acre farm in Laikipia.'', dt_doc = ''potential/01-large-scale-farm-iot''\<rparr>),
    (''last-network'', \<lparr>dt_term = ''last network standing'', dt_short = ''What the mesh still does when the grid, the fibre and the cell site have all gone.'', dt_doc = ''potential/00-last-network-standing''\<rparr>)]"

definition TERMS :: "(string \<times> deck_term) list" where
  "TERMS = TERMS_1 @ TERMS_2 @ TERMS_3"

lemmas terms_data = TERMS_def TERMS_1_def TERMS_2_def TERMS_3_def

end
