(* ===== verification/GlossaryEntries.thy ===== *)
theory GlossaryEntries
  imports Article
begin

text \<open>
  The glossary of the documentation, \<open>web/src/docs/glossary.js\<close>, as data.
\<close>

definition GLOSSARY_1 :: "gloss list" where
  "GLOSSARY_1 = [
    \<lparr>g_term = ''XKN'', g_match = None, g_exact = True,
     g_definition = ''The token you spend. One XKN is one shilling, and it exists only because a shilling was paid in.'',
     g_paper = ''papers/04-settlement-and-economics''\<rparr>,
    \<lparr>g_term = ''KES'', g_match = None, g_exact = True,
     g_definition = ''The Kenyan shilling. Every price in the set is in shillings.'',
     g_paper = ''papers/01-problem-and-market''\<rparr>,
    \<lparr>g_term = ''KES peg'', g_match = None, g_exact = False,
     g_definition = ''One XKN is always one shilling: each is minted against money paid in and burned on payout.'',
     g_paper = ''papers/04-settlement-and-economics''\<rparr>,
    \<lparr>g_term = ''escrow'', g_match = Some [''xKoinEscrow'', ''escrow''], g_exact = False,
     g_definition = ''The prepaid meter on chain. One balance per user, readable by every node and withdrawable any time.'',
     g_paper = ''papers/04-settlement-and-economics''\<rparr>,
    \<lparr>g_term = ''treasury'', g_match = Some [''xKoinTreasury'', ''treasury''], g_exact = False,
     g_definition = ''The contract that collects the fee, capped at 10 percent on chain, and pays only its named beneficiary.'',
     g_paper = ''papers/04-settlement-and-economics''\<rparr>,
    \<lparr>g_term = ''ticket'', g_match = None, g_exact = False,
     g_definition = ''The last receipt, in the form the chain understands. One ticket closes a whole session.'',
     g_paper = ''papers/04-settlement-and-economics''\<rparr>,
    \<lparr>g_term = ''receipt'', g_match = None, g_exact = False,
     g_definition = ''A signed count of the bytes so far. It is 108 bytes, small enough for the slowest link in the system.'',
     g_paper = ''papers/03-protocol-xkp''\<rparr>,
    \<lparr>g_term = ''voucher'', g_match = None, g_exact = False,
     g_definition = ''A signed note from the kiosk saying this address paid. A node checks it offline, and it lasts 24 hours.'',
     g_paper = ''papers/04-settlement-and-economics''\<rparr>,
    \<lparr>g_term = ''cumulative counter'', g_match = None, g_exact = False,
     g_definition = ''A count that only goes up, so a lost reading costs nothing. The contract pays the difference.'',
     g_paper = ''papers/03-protocol-xkp''\<rparr>,
    \<lparr>g_term = ''state channel'', g_match = None, g_exact = False,
     g_definition = ''One client and one node keep a running tally off chain. Only the closing number reaches the chain.'',
     g_paper = ''papers/04-settlement-and-economics''\<rparr>,
    \<lparr>g_term = ''settlement'', g_match = Some [''settleTicketBatch'', ''settlement''], g_exact = False,
     g_definition = ''The call that moves the money: out of the user deposit, to the operator, minus the fee.'',
     g_paper = ''papers/04-settlement-and-economics''\<rparr>,
    \<lparr>g_term = ''relayer'', g_match = None, g_exact = False,
     g_definition = ''Whoever sends tickets to the chain. It holds no special power, so anyone can run one.'',
     g_paper = ''papers/04-settlement-and-economics''\<rparr>,
    \<lparr>g_term = ''bridge'', g_match = None, g_exact = False,
     g_definition = ''The key that mints XKN once the bank confirms a payment. It can burn only its own balance.'',
     g_paper = ''papers/04-settlement-and-economics''\<rparr>,
    \<lparr>g_term = ''kiosk'', g_match = None, g_exact = False,
     g_definition = ''Where you buy. It takes the mobile money, signs the voucher and pays the gas for you.'',
     g_paper = ''papers/04-settlement-and-economics''\<rparr>,
    \<lparr>g_term = ''kiosk root key'', g_match = None, g_exact = False,
     g_definition = ''The key that signs vouchers. Its public half is built into every node, which is why admission works offline.'',
     g_paper = ''papers/10-security-and-trust''\<rparr>,
    \<lparr>g_term = ''node operator'', g_match = Some [''node operator'', ''nodeAdmin''], g_exact = False,
     g_definition = ''The address that gets paid. It is an address, not a device, so a stolen board earns nothing.'',
     g_paper = ''papers/04-settlement-and-economics''\<rparr>,
    \<lparr>g_term = ''M-Pesa'', g_match = None, g_exact = False,
     g_definition = ''Safaricom mobile money, one of the two ways to pay in.'',
     g_paper = ''papers/04-settlement-and-economics''\<rparr>,
    \<lparr>g_term = ''Equitel'', g_match = None, g_exact = False,
     g_definition = ''Equity Bank mobile money, the other way to pay in.'',
     g_paper = ''papers/04-settlement-and-economics''\<rparr>,
    \<lparr>g_term = ''Safaricom'', g_match = None, g_exact = False,
     g_definition = ''Kenya largest mobile operator. Its data prices are the ones xKoin has to beat.'',
     g_paper = ''papers/01-problem-and-market''\<rparr>,
    \<lparr>g_term = ''gas'', g_match = None, g_exact = False,
     g_definition = ''What the chain charges for a transaction. A two-ticket settlement costs about 191,698 gas on Base.'',
     g_paper = ''papers/04-settlement-and-economics''\<rparr>,
    \<lparr>g_term = ''CapEx'', g_match = None, g_exact = True,
     g_definition = ''The hardware an operator buys before selling a single byte.'',
     g_paper = ''papers/04-settlement-and-economics''\<rparr>,
    \<lparr>g_term = ''VAT'', g_match = None, g_exact = True,
     g_definition = ''Kenyan value added tax, on imported hardware and on the price of service.'',
     g_paper = ''papers/11-regulatory-and-safety''\<rparr>,
    \<lparr>g_term = ''USDT'', g_match = None, g_exact = True,
     g_definition = ''The dollar stablecoin used as the reference when shillings are converted to chain value.'',
     g_paper = ''papers/04-settlement-and-economics''\<rparr>,
    \<lparr>g_term = ''XKP'', g_match = None, g_exact = True,
     g_definition = ''The xKoin protocol: one frame, five phases, and signed receipts that only ever count up.'',
     g_paper = ''papers/03-protocol-xkp''\<rparr>,
    \<lparr>g_term = ''frame'', g_match = None, g_exact = False,
     g_definition = ''The unit the protocol sends. The same 29 bytes of overhead on power line, radio or Wi-Fi.'',
     g_paper = ''papers/03-protocol-xkp''\<rparr>,
    \<lparr>g_term = ''hop'', g_match = None, g_exact = False,
     g_definition = ''One relay of a frame. Each hop drops the TTL by one.'',
     g_paper = ''papers/03-protocol-xkp''\<rparr>]"

definition GLOSSARY_2 :: "gloss list" where
  "GLOSSARY_2 = [
    \<lparr>g_term = ''TTL'', g_match = None, g_exact = True,
     g_definition = ''The hop budget in a frame header. It stops a frame circling the mesh forever.'',
     g_paper = ''papers/03-protocol-xkp''\<rparr>,
    \<lparr>g_term = ''MTU'', g_match = None, g_exact = True,
     g_definition = ''The biggest payload a link carries at once: 1400 B on HomePlug, 226 B on LoRa, 128 B on narrowband.'',
     g_paper = ''papers/03-protocol-xkp''\<rparr>,
    \<lparr>g_term = ''mesh'', g_match = None, g_exact = False,
     g_definition = ''Every node you can reach, whichever link the hops used to get there.'',
     g_paper = ''papers/02-system-architecture''\<rparr>,
    \<lparr>g_term = ''medium'', g_match = None, g_exact = False,
     g_definition = ''One physical carrier: HomePlug AV, narrowband PLC, LoRa or Wi-Fi.'',
     g_paper = ''papers/02-system-architecture''\<rparr>,
    \<lparr>g_term = ''medium score'', g_match = None, g_exact = False,
     g_definition = ''Goodput times one minus loss. The sender uses the highest, never a fixed order.'',
     g_paper = ''papers/03-protocol-xkp''\<rparr>,
    \<lparr>g_term = ''EWMA'', g_match = None, g_exact = True,
     g_definition = ''A rolling average. It is how goodput and loss are tracked for each medium.'',
     g_paper = ''papers/03-protocol-xkp''\<rparr>,
    \<lparr>g_term = ''goodput'', g_match = None, g_exact = False,
     g_definition = ''What actually arrives per second, as against the line rate.'',
     g_paper = ''papers/03-protocol-xkp''\<rparr>,
    \<lparr>g_term = ''quarantine'', g_match = None, g_exact = False,
     g_definition = ''Three failures in a row and a medium sits out two seconds while the next best takes over.'',
     g_paper = ''papers/03-protocol-xkp''\<rparr>,
    \<lparr>g_term = ''free LAN plane'', g_match = Some [''free LAN plane'', ''free LAN''], g_exact = False,
     g_definition = ''Traffic that stays in the mesh. It costs nothing and keeps working with the backhaul down.'',
     g_paper = ''papers/02-system-architecture''\<rparr>,
    \<lparr>g_term = ''WAN'', g_match = None, g_exact = True,
     g_definition = ''Anything past the gateway. It is the only traffic that is ever billed.'',
     g_paper = ''papers/04-settlement-and-economics''\<rparr>,
    \<lparr>g_term = ''LAN'', g_match = None, g_exact = True,
     g_definition = ''The local side, inside the building or the mesh. Free by design.'',
     g_paper = ''papers/02-system-architecture''\<rparr>,
    \<lparr>g_term = ''backhaul'', g_match = None, g_exact = False,
     g_definition = ''The node link to the internet: LTE, fibre or a phone hotspot. It is the thing being sold.'',
     g_paper = ''papers/02-system-architecture''\<rparr>,
    \<lparr>g_term = ''captive portal'', g_match = None, g_exact = False,
     g_definition = ''The node Wi-Fi landing page, for buying without the app.'',
     g_paper = ''papers/02-system-architecture''\<rparr>,
    \<lparr>g_term = ''class A service'', g_match = None, g_exact = False,
     g_definition = ''A web page stripped to about 12 KB of text in the cloud, then sent over the radio.'',
     g_paper = ''papers/03-protocol-xkp''\<rparr>,
    \<lparr>g_term = ''class B service'', g_match = None, g_exact = False,
     g_definition = ''The radio switches between LoRa and GFSK by link quality, for light real internet.'',
     g_paper = ''papers/03-protocol-xkp''\<rparr>,
    \<lparr>g_term = ''class C service'', g_match = Some [''class C service'', ''class C''], g_exact = False,
     g_definition = ''Plain frames, no internet protocol: balances, messages, prices and kiosk work.'',
     g_paper = ''papers/03-protocol-xkp''\<rparr>,
    \<lparr>g_term = ''store-and-forward'', g_match = Some [''store-and-forward'', ''store and forward''], g_exact = False,
     g_definition = ''A device with nothing in reach saves its readings to flash and sends them when a listener finally appears.'',
     g_paper = ''potential/09-field-geology-sensors''\<rparr>,
    \<lparr>g_term = ''Sybil'', g_match = None, g_exact = False,
     g_definition = ''Faking many identities. It earns nothing here, because only a signed byte count pays.'',
     g_paper = ''papers/10-security-and-trust''\<rparr>,
    \<lparr>g_term = ''iptables'', g_match = None, g_exact = False,
     g_definition = ''The Linux packet filter a node uses to keep free local traffic out of the billed path.'',
     g_paper = ''papers/02-system-architecture''\<rparr>,
    \<lparr>g_term = ''PLC'', g_match = None, g_exact = True,
     g_definition = ''Power-line communication: data over the mains wiring already in the walls.'',
     g_paper = ''papers/02-system-architecture''\<rparr>,
    \<lparr>g_term = ''HomePlug AV'', g_match = Some [''HomePlug AV'', ''HomePlug''], g_exact = False,
     g_definition = ''Broadband over the mains, about 10 Mbps. It carries the bulk of the traffic.'',
     g_paper = ''papers/02-system-architecture''\<rparr>,
    \<lparr>g_term = ''narrowband PLC'', g_match = None, g_exact = False,
     g_definition = ''A slow, tough carrier on the mains, about 960 B/s. It carries control and receipts.'',
     g_paper = ''papers/02-system-architecture''\<rparr>,
    \<lparr>g_term = ''KQ-130F'', g_match = None, g_exact = True,
     g_definition = ''The narrowband modem. Its 128-byte frame is why a receipt is 108 bytes.'',
     g_paper = ''papers/05-hardware-node''\<rparr>,
    \<lparr>g_term = ''LoRa'', g_match = None, g_exact = True,
     g_definition = ''Long-range radio at 868 MHz. It finds neighbours, and it survives a power cut.'',
     g_paper = ''papers/02-system-architecture''\<rparr>,
    \<lparr>g_term = ''SX1262'', g_match = None, g_exact = True,
     g_definition = ''The radio chip in every xKoin device. It does both LoRa and GFSK.'',
     g_paper = ''papers/07-hardware-satellite''\<rparr>]"

definition GLOSSARY_3 :: "gloss list" where
  "GLOSSARY_3 = [
    \<lparr>g_term = ''E22-900M22S'', g_match = None, g_exact = True,
     g_definition = ''The module that carries the SX1262 in the field kit, with an amplifier and an aerial socket.'',
     g_paper = ''papers/07-hardware-satellite''\<rparr>,
    \<lparr>g_term = ''GFSK'', g_match = None, g_exact = True,
     g_definition = ''The same radio in a faster mode, 150 kbps, for strong links.'',
     g_paper = ''papers/03-protocol-xkp''\<rparr>,
    \<lparr>g_term = ''SF7'', g_match = None, g_exact = True,
     g_definition = ''The fastest LoRa setting used here, about 5.4 kbps.'',
     g_paper = ''papers/02-system-architecture''\<rparr>,
    \<lparr>g_term = ''SF12'', g_match = None, g_exact = True,
     g_definition = ''The slowest LoRa setting used here: the longest reach, and about 24 times the airtime of SF7 for the same frame.'',
     g_paper = ''potential/09-field-geology-sensors''\<rparr>,
    \<lparr>g_term = ''BW125'', g_match = None, g_exact = True,
     g_definition = ''A 125 kHz LoRa channel, the width the firmware uses.'',
     g_paper = ''papers/02-system-architecture''\<rparr>,
    \<lparr>g_term = ''CR4/5'', g_match = None, g_exact = True,
     g_definition = ''LoRa error correction: one spare symbol for every four sent.'',
     g_paper = ''papers/02-system-architecture''\<rparr>,
    \<lparr>g_term = ''OFDM'', g_match = None, g_exact = True,
     g_definition = ''The modulation HomePlug spreads across the mains band.'',
     g_paper = ''papers/02-system-architecture''\<rparr>,
    \<lparr>g_term = ''duty cycle'', g_match = None, g_exact = False,
     g_definition = ''How much of an hour a radio is allowed to transmit under the spectrum rules.'',
     g_paper = ''papers/11-regulatory-and-safety''\<rparr>,
    \<lparr>g_term = ''mains segment'', g_match = None, g_exact = False,
     g_definition = ''How far a power-line signal reaches before a transformer, a phase change or a filter stops it.'',
     g_paper = ''papers/02-system-architecture''\<rparr>,
    \<lparr>g_term = ''Meshtastic'', g_match = None, g_exact = False,
     g_definition = ''Open LoRa mesh firmware. Its handsets ride the free local plane.'',
     g_paper = ''papers/09-lora-ecosystem-devices''\<rparr>,
    \<lparr>g_term = ''Node'', g_match = Some [''xKoin-Node'', ''Node''], g_exact = True,
     g_definition = ''The gateway. Internet in, mains and radio out, and it counts every byte that leaves.'',
     g_paper = ''papers/05-hardware-node''\<rparr>,
    \<lparr>g_term = ''Node-Satellite'', g_match = Some [''xKoin-Node-Satellite'', ''Node-Satellite''], g_exact = True,
     g_definition = ''A relay in a wall socket. It repeats Wi-Fi, admits clients and collects its own receipts.'',
     g_paper = ''papers/06-hardware-node-satellite''\<rparr>,
    \<lparr>g_term = ''Satellite'', g_match = Some [''xKoin-Satellite'', ''Satellite''], g_exact = True,
     g_definition = ''The solar radio box off grid. It sleeps, serves class C and relays to the nearest Node.'',
     g_paper = ''papers/07-hardware-satellite''\<rparr>,
    \<lparr>g_term = ''Client'', g_match = Some [''xKoin-Client'', ''Client''], g_exact = True,
     g_definition = ''Whatever holds your keys: the phone app, or the dongle.'',
     g_paper = ''papers/08-hardware-client-and-otg-dongle''\<rparr>,
    \<lparr>g_term = ''OTG'', g_match = None, g_exact = True,
     g_definition = ''The USB mode that lets a phone run the dongle that gives it a radio.'',
     g_paper = ''papers/08-hardware-client-and-otg-dongle''\<rparr>,
    \<lparr>g_term = ''ESP32-S3'', g_match = None, g_exact = True,
     g_definition = ''The microcontroller in the Node, the relay and the dongle.'',
     g_paper = ''papers/05-hardware-node''\<rparr>,
    \<lparr>g_term = ''ESP32-C3'', g_match = None, g_exact = True,
     g_definition = ''The smaller, cheaper chip for sensor devices.'',
     g_paper = ''papers/09-lora-ecosystem-devices''\<rparr>,
    \<lparr>g_term = ''ESP-IDF'', g_match = None, g_exact = True,
     g_definition = ''Espressif build system. Every board here is built with it.'',
     g_paper = ''papers/05-hardware-node''\<rparr>,
    \<lparr>g_term = ''MCU'', g_match = None, g_exact = True,
     g_definition = ''The small processor on a board.'',
     g_paper = ''papers/05-hardware-node''\<rparr>,
    \<lparr>g_term = ''PSRAM'', g_match = None, g_exact = True,
     g_definition = ''Extra memory on the ESP32-S3, 8 MB, enough to hold a few dozen sessions.'',
     g_paper = ''papers/05-hardware-node''\<rparr>,
    \<lparr>g_term = ''UART'', g_match = None, g_exact = True,
     g_definition = ''A simple serial line. The narrowband modem hangs off one at 9600 baud.'',
     g_paper = ''papers/05-hardware-node''\<rparr>,
    \<lparr>g_term = ''SPI'', g_match = None, g_exact = True,
     g_definition = ''The fast serial bus the radio and the Ethernet chip share.'',
     g_paper = ''papers/05-hardware-node''\<rparr>,
    \<lparr>g_term = ''I2C'', g_match = None, g_exact = True,
     g_definition = ''The two-wire bus for the display and the sensors.'',
     g_paper = ''papers/05-hardware-node''\<rparr>]"

definition GLOSSARY_4 :: "gloss list" where
  "GLOSSARY_4 = [
    \<lparr>g_term = ''GPIO'', g_match = None, g_exact = True,
     g_definition = ''A pin on the microcontroller. Every board follows one fixed pin map.'',
     g_paper = ''papers/05-hardware-node''\<rparr>,
    \<lparr>g_term = ''LTE'', g_match = None, g_exact = True,
     g_definition = ''Mobile data, one of three ways to give a Node its internet.'',
     g_paper = ''papers/02-system-architecture''\<rparr>,
    \<lparr>g_term = ''SIM7600E'', g_match = None, g_exact = True,
     g_definition = ''The LTE modem in the kit, and the priciest part of a Node.'',
     g_paper = ''papers/05-hardware-node''\<rparr>,
    \<lparr>g_term = ''W5500'', g_match = None, g_exact = True,
     g_definition = ''The chip that gives a Node a wired network socket.'',
     g_paper = ''papers/05-hardware-node''\<rparr>,
    \<lparr>g_term = ''HLK-PM01'', g_match = None, g_exact = True,
     g_definition = ''A sealed module that turns mains into 5 V inside the case.'',
     g_paper = ''papers/05-hardware-node''\<rparr>,
    \<lparr>g_term = ''TP4056'', g_match = None, g_exact = True,
     g_definition = ''The charger between the solar panel and the cell.'',
     g_paper = ''papers/07-hardware-satellite''\<rparr>,
    \<lparr>g_term = ''OLED'', g_match = None, g_exact = True,
     g_definition = ''The small status screen on a Node.'',
     g_paper = ''papers/05-hardware-node''\<rparr>,
    \<lparr>g_term = ''DHT22'', g_match = None, g_exact = True,
     g_definition = ''A temperature and humidity sensor.'',
     g_paper = ''papers/09-lora-ecosystem-devices''\<rparr>,
    \<lparr>g_term = ''AHT20'', g_match = None, g_exact = True,
     g_definition = ''A temperature and humidity sensor on I2C, better behaved than the DHT22.'',
     g_paper = ''papers/09-lora-ecosystem-devices''\<rparr>,
    \<lparr>g_term = ''HC-SR04'', g_match = None, g_exact = True,
     g_definition = ''An ultrasonic range finder, used here to read a water tank.'',
     g_paper = ''papers/09-lora-ecosystem-devices''\<rparr>,
    \<lparr>g_term = ''tiltmeter'', g_match = None, g_exact = False,
     g_definition = ''An instrument that measures very small changes in the slope of the ground, used to watch a hillside or a quarry face.'',
     g_paper = ''potential/09-field-geology-sensors''\<rparr>,
    \<lparr>g_term = ''piezometer'', g_match = None, g_exact = False,
     g_definition = ''An instrument that measures water pressure inside the ground, which is how the stability of a slope or a borehole is judged.'',
     g_paper = ''potential/09-field-geology-sensors''\<rparr>,
    \<lparr>g_term = ''IPEX'', g_match = None, g_exact = True,
     g_definition = ''The tiny aerial socket on a radio module.'',
     g_paper = ''papers/07-hardware-satellite''\<rparr>,
    \<lparr>g_term = ''SMA'', g_match = None, g_exact = True,
     g_definition = ''The screw-on aerial socket on the outside of a case.'',
     g_paper = ''papers/07-hardware-satellite''\<rparr>,
    \<lparr>g_term = ''BOM'', g_match = None, g_exact = True,
     g_definition = ''The parts list: every part, how many, where from and what it costs.'',
     g_paper = ''papers/05-hardware-node''\<rparr>,
    \<lparr>g_term = ''MVP'', g_match = None, g_exact = True,
     g_definition = ''The smallest build that proves the claim: one Node, one relay, one solar box and a phone.'',
     g_paper = ''papers/12-proof-of-concept-plan''\<rparr>,
    \<lparr>g_term = ''PCB'', g_match = None, g_exact = True,
     g_definition = ''A circuit board. The beta folder replaces the kit of modules with one of these.'',
     g_paper = ''x-koin-beta/02-pcb-blueprint''\<rparr>,
    \<lparr>g_term = ''DFM'', g_match = None, g_exact = True,
     g_definition = ''The checks a factory runs on a board before it will quote for it.'',
     g_paper = ''x-koin-beta/02-pcb-blueprint''\<rparr>,
    \<lparr>g_term = ''Ed25519'', g_match = None, g_exact = True,
     g_definition = ''The signature on vouchers and receipts. A check takes under 4.5 ms on the device.'',
     g_paper = ''papers/10-security-and-trust''\<rparr>,
    \<lparr>g_term = ''secp256k1'', g_match = None, g_exact = False,
     g_definition = ''The signature the chain itself can check.'',
     g_paper = ''papers/04-settlement-and-economics''\<rparr>,
    \<lparr>g_term = ''EIP-712'', g_match = None, g_exact = True,
     g_definition = ''The Ethereum way of signing a structured message. The ticket is signed like this.'',
     g_paper = ''papers/04-settlement-and-economics''\<rparr>,
    \<lparr>g_term = ''EIP-2612'', g_match = None, g_exact = True,
     g_definition = ''A signature that funds a deposit, so the user never has to hold ETH.'',
     g_paper = ''papers/04-settlement-and-economics''\<rparr>,
    \<lparr>g_term = ''ERC-20'', g_match = None, g_exact = True,
     g_definition = ''The standard token interface. It is why an ordinary wallet can already hold XKN.'',
     g_paper = ''papers/04-settlement-and-economics''\<rparr>,
    \<lparr>g_term = ''Base L2'', g_match = Some [''Base L2'', ''Base''], g_exact = True,
     g_definition = ''The chain the token, the escrow and the treasury live on.'',
     g_paper = ''papers/04-settlement-and-economics''\<rparr>]"

definition GLOSSARY_5 :: "gloss list" where
  "GLOSSARY_5 = [
    \<lparr>g_term = ''SHA-256'', g_match = None, g_exact = True,
     g_definition = ''The hash that turns a public key into an 8-byte node id. That is Law 1.'',
     g_paper = ''papers/10-security-and-trust''\<rparr>,
    \<lparr>g_term = ''keccak256'', g_match = None, g_exact = False,
     g_definition = ''The Ethereum hash. It keys each channel on the pair of addresses.'',
     g_paper = ''papers/04-settlement-and-economics''\<rparr>,
    \<lparr>g_term = ''CRC16-CCITT'', g_match = Some [''CRC16-CCITT'', ''CRC16''], g_exact = True,
     g_definition = ''A cheap checksum. It throws out corrupt frames before any signature is checked.'',
     g_paper = ''papers/03-protocol-xkp''\<rparr>,
    \<lparr>g_term = ''CA'', g_match = Some [''Communications Authority'', ''CA''], g_exact = True,
     g_definition = ''The Communications Authority of Kenya. It licenses spectrum and approves radios.'',
     g_paper = ''papers/11-regulatory-and-safety''\<rparr>,
    \<lparr>g_term = ''CBK'', g_match = None, g_exact = True,
     g_definition = ''The Central Bank of Kenya. Its rules apply where shillings meet the token.'',
     g_paper = ''papers/11-regulatory-and-safety''\<rparr>,
    \<lparr>g_term = ''KEBS'', g_match = None, g_exact = True,
     g_definition = ''The Kenya Bureau of Standards. It sets the marks imported electronics must carry.'',
     g_paper = ''papers/11-regulatory-and-safety''\<rparr>,
    \<lparr>g_term = ''PVoC'', g_match = None, g_exact = True,
     g_definition = ''The inspection an import has to pass before it reaches Mombasa.'',
     g_paper = ''papers/11-regulatory-and-safety''\<rparr>,
    \<lparr>g_term = ''EPRA'', g_match = None, g_exact = True,
     g_definition = ''The energy regulator. Its rules cover anything wired to mains.'',
     g_paper = ''papers/11-regulatory-and-safety''\<rparr>,
    \<lparr>g_term = ''KPLC'', g_match = None, g_exact = True,
     g_definition = ''Kenya Power. It owns the wiring the bulk traffic rides on.'',
     g_paper = ''papers/11-regulatory-and-safety''\<rparr>,
    \<lparr>g_term = ''ETSI'', g_match = None, g_exact = True,
     g_definition = ''The European standards body. The Kenyan radio limits follow its lead.'',
     g_paper = ''papers/11-regulatory-and-safety''\<rparr>,
    \<lparr>g_term = ''e.r.p.'', g_match = None, g_exact = False,
     g_definition = ''How much power a radio actually puts into the air. The rules cap it at 25 mW in this band.'',
     g_paper = ''papers/11-regulatory-and-safety''\<rparr>,
    \<lparr>g_term = ''LBT'', g_match = None, g_exact = True,
     g_definition = ''Listen before talk: check the channel is clear before transmitting.'',
     g_paper = ''papers/11-regulatory-and-safety''\<rparr>,
    \<lparr>g_term = ''AFA'', g_match = None, g_exact = True,
     g_definition = ''Move to another channel when one is busy. It goes with listen before talk.'',
     g_paper = ''papers/11-regulatory-and-safety''\<rparr>,
    \<lparr>g_term = ''RCD'', g_match = None, g_exact = True,
     g_definition = ''The earth-leakage breaker that has to sit between mains and a person.'',
     g_paper = ''papers/11-regulatory-and-safety''\<rparr>,
    \<lparr>g_term = ''EMI'', g_match = None, g_exact = True,
     g_definition = ''Radio noise. It is why a power-line carrier has a band it must stay inside.'',
     g_paper = ''papers/11-regulatory-and-safety''\<rparr>]"

definition GLOSSARY :: "gloss list" where
  "GLOSSARY = GLOSSARY_1 @ GLOSSARY_2 @ GLOSSARY_3 @ GLOSSARY_4 @ GLOSSARY_5"

lemmas glossary_data = GLOSSARY_def GLOSSARY_1_def GLOSSARY_2_def GLOSSARY_3_def GLOSSARY_4_def GLOSSARY_5_def

end
