(* ===== verification/DeckFacts.thy ===== *)
theory DeckFacts
  imports Manifest DeckTerms GlossaryEntries PresenterGuarantees ArticleGuarantees
    "HOL-Library.Multiset"
begin

text \<open>
  What the data of the founder deck and of the glossary satisfy, and the properties that rest on it.
\<close>

section \<open>The deck\<close>

definition deck_words :: "deck_chapter list \<Rightarrow> string list" where
  \<comment> \<open>the words that the scenes list, in order\<close>
  "deck_words chapters = concat (map (\<lambda>m. case sm_terms m of None \<Rightarrow> [] | Some ts \<Rightarrow> ts) (SCENE_META chapters))"

fun all_in :: "string list \<Rightarrow> string list \<Rightarrow> bool" where
  "all_in [] ys = True"
| "all_in (x # xs) ys = (if x \<in> set ys then all_in xs ys else False)"

lemma all_in_subset: "all_in xs ys \<longleftrightarrow> set xs \<subseteq> set ys"
  by (induction xs) auto

definition plain_char :: "char \<Rightarrow> bool" where
  "plain_char c \<longleftrightarrow> c \<noteq> CHR ''%'' \<and> c \<noteq> CHR 10 \<and> c \<noteq> CHR 13"

lemma plain_linkable:
  assumes "s \<noteq> []" "list_all plain_char s"
  shows "linkable (u s)"
proof -
  have "of_char c \<notin> {37, 10, 13, 0x2028, 0x2029 :: nat}" if "c \<in> set s" for c
  proof -
    have "c \<noteq> CHR ''%''" "c \<noteq> CHR 10" "c \<noteq> CHR 13" using assms(2) that by (auto simp: list_all_iff plain_char_def)
    then have "of_char c \<noteq> (of_char (CHR ''%'') :: nat)" "of_char c \<noteq> (of_char (CHR 10) :: nat)" "of_char c \<noteq> (of_char (CHR 13) :: nat)"
      by (simp_all only: of_char_eq_iff not_False_eq_True)
    moreover have "of_char c < (256 :: nat)" using of_char_mod_256 [of c] by (metis mod_less_divisor zero_less_numeral)
    then have "of_char c \<noteq> (0x2028 :: nat)" "of_char c \<noteq> (0x2029 :: nat)" by linarith+
    ultimately show ?thesis by simp
  qed
  then have "set (u s) \<inter> {37, 10, 13, 0x2028, 0x2029} = {}" unfolding u_def set_map by blast
  moreover have "u s \<noteq> []" using assms(1) by (simp add: u_def)
  ultimately show ?thesis by (auto simp: linkable_def line_end_def list_ex_iff)
qed

lemma deck_ids_distinct: "distinct (map sm_id (SCENE_META CHAPTERS))"
  by code_simp

lemma chapter_ids_distinct: "distinct (map ch_id CHAPTERS)"
  by code_simp

lemma deck_ids_plain: "list_all (\<lambda>s. s \<noteq> [] \<and> list_all plain_char s) (map sm_id (SCENE_META CHAPTERS))"
  by code_simp

lemma deck_durations: "list_all (\<lambda>d. 6000 \<le> d \<and> d \<le> 15000) (map sm_duration (SCENE_META CHAPTERS))"
  by code_simp

lemma deck_words_known: "all_in (deck_words CHAPTERS) (map fst TERMS)"
  by code_simp

lemma drift_loop_append: "drift_loop b (xs @ ys) = drift_loop b xs @ drift_loop b ys"
  by (induction xs) (simp_all split: option.splits)

definition site_papers :: "(string \<times> string) list" where
  "site_papers = rev (map (\<lambda>(term, paper). (lower term, paper)) (map (\<lambda>e. (g_term e, g_paper e)) GLOSSARY))"

lemma drift_in: "t \<in> set ts \<Longrightarrow> drift_of b t = Some d \<Longrightarrow> d \<in> set (drift_loop b ts)"
  by (induction ts) (auto split: option.splits)

lemma mtu_paper: "map_of site_papers ''mtu'' = Some ''papers/03-protocol-xkp''"
  by code_simp

lemma mtu_drift: "(''mtu'', ''papers/02-system-architecture'', ''papers/03-protocol-xkp'')
   \<in> set (glossaryDrift (map (\<lambda>e. (g_term e, g_paper e)) GLOSSARY) TERMS)"
  \<comment> \<open>the deck and the glossary send a reader to different papers\<close>
proof -
  have "(''mtu'', \<lparr>dt_term = ''MTU'', dt_short = ''The biggest payload a medium can send in one go.'', dt_doc = ''papers/02-system-architecture''\<rparr>) \<in> set TERMS"
    by (simp add: terms_data)
  then have "(''mtu'', ''papers/02-system-architecture'', ''papers/03-protocol-xkp'') \<in> set (drift_loop site_papers TERMS)"
  proof (rule drift_in)
    have "lower ''MTU'' = ''mtu''" by code_simp
    then show "drift_of site_papers (''mtu'', \<lparr>dt_term = ''MTU'', dt_short = ''The biggest payload a medium can send in one go.'',
        dt_doc = ''papers/02-system-architecture''\<rparr>) = Some (''mtu'', ''papers/02-system-architecture'', ''papers/03-protocol-xkp'')"
      by (simp add: drift_of_def mtu_paper)
  qed
  moreover have "GLOSSARY \<noteq> []" by (simp add: GLOSSARY_def GLOSSARY_1_def)
  ultimately show ?thesis by (simp add: glossaryDrift_def site_papers_def)
qed

section \<open>The glossary\<close>

definition spellings :: "gloss list \<Rightarrow> string list" where
  "spellings entries = concat (map (\<lambda>e. case g_match e of None \<Rightarrow> [g_term e] | Some xs \<Rightarrow> xs) entries)"

fun apart :: "string list \<Rightarrow> string list \<Rightarrow> bool" where
  "apart [] ys = True"
| "apart (x # xs) ys = (if x \<in> set xs then False else if x \<in> set ys then False else apart xs ys)"

lemma distinct_apart: "distinct (xs @ ys) \<longleftrightarrow> apart xs ys \<and> distinct ys"
  by (induction xs) auto

definition low_1 :: "string list" where
  "low_1 = [''xkn'', ''kes'', ''kes peg'', ''xkoinescrow'', ''escrow'', ''xkointreasury'', ''treasury'', ''ticket'', ''receipt'', ''voucher'', ''cumulative counter'', ''state channel'', ''settleticketbatch'', ''settlement'', ''relayer'', ''bridge'', ''kiosk'', ''kiosk root key'', ''node operator'', ''nodeadmin'', ''m-pesa'', ''equitel'', ''safaricom'', ''gas'', ''capex'', ''vat'', ''usdt'', ''xkp'', ''frame'', ''hop'']"

lemma low_1: "map lower (spellings GLOSSARY_1) = low_1"
  by code_simp

definition low_2 :: "string list" where
  "low_2 = [''ttl'', ''mtu'', ''mesh'', ''medium'', ''medium score'', ''ewma'', ''goodput'', ''quarantine'', ''free lan plane'', ''free lan'', ''wan'', ''lan'', ''backhaul'', ''captive portal'', ''class a service'', ''class b service'', ''class c service'', ''class c'', ''store-and-forward'', ''store and forward'', ''sybil'', ''iptables'', ''plc'', ''homeplug av'', ''homeplug'', ''narrowband plc'', ''kq-130f'', ''lora'', ''sx1262'']"

lemma low_2: "map lower (spellings GLOSSARY_2) = low_2"
  by code_simp

definition low_3 :: "string list" where
  "low_3 = [''e22-900m22s'', ''gfsk'', ''sf7'', ''sf12'', ''bw125'', ''cr4/5'', ''ofdm'', ''duty cycle'', ''mains segment'', ''meshtastic'', ''xkoin-node'', ''node'', ''xkoin-node-satellite'', ''node-satellite'', ''xkoin-satellite'', ''satellite'', ''xkoin-client'', ''client'', ''otg'', ''esp32-s3'', ''esp32-c3'', ''esp-idf'', ''mcu'', ''psram'', ''uart'', ''spi'', ''i2c'']"

lemma low_3: "map lower (spellings GLOSSARY_3) = low_3"
  by code_simp

definition low_4 :: "string list" where
  "low_4 = [''gpio'', ''lte'', ''sim7600e'', ''w5500'', ''hlk-pm01'', ''tp4056'', ''oled'', ''dht22'', ''aht20'', ''hc-sr04'', ''tiltmeter'', ''piezometer'', ''ipex'', ''sma'', ''bom'', ''mvp'', ''pcb'', ''dfm'', ''ed25519'', ''secp256k1'', ''eip-712'', ''eip-2612'', ''erc-20'', ''base l2'', ''base'']"

lemma low_4: "map lower (spellings GLOSSARY_4) = low_4"
  by code_simp

definition low_5 :: "string list" where
  "low_5 = [''sha-256'', ''keccak256'', ''crc16-ccitt'', ''crc16'', ''communications authority'', ''ca'', ''cbk'', ''kebs'', ''pvoc'', ''epra'', ''kplc'', ''etsi'', ''e.r.p.'', ''lbt'', ''afa'', ''rcd'', ''emi'']"

lemma low_5: "map lower (spellings GLOSSARY_5) = low_5"
  by code_simp

lemma apart_1: "apart low_1 (low_2 @ low_3 @ low_4 @ low_5 @ [])"
  by code_simp

lemma apart_2: "apart low_2 (low_3 @ low_4 @ low_5 @ [])"
  by code_simp

lemma apart_3: "apart low_3 (low_4 @ low_5 @ [])"
  by code_simp

lemma apart_4: "apart low_4 (low_5 @ [])"
  by code_simp

lemma apart_5: "apart low_5 ([])"
  by code_simp

lemma spellings_append: "spellings (xs @ ys) = spellings xs @ spellings ys"
  by (simp add: spellings_def)

lemma spellings_distinct: "distinct (map lower (spellings GLOSSARY))"
proof -
  have "distinct (low_1 @ low_2 @ low_3 @ low_4 @ low_5 @ [])"
    by (simp only: distinct_apart apart_1 apart_2 apart_3 apart_4 apart_5) simp
  then show ?thesis by (simp add: GLOSSARY_def spellings_append low_1 low_2 low_3 low_4 low_5)
qed

lemma matches_set: "(s, e) \<in> set (glossaryMatches entries) \<longleftrightarrow> e \<in> set entries \<and> s \<in> set (spellings [e])"
  by (auto simp: glossaryMatches_def spellings_def)

lemma matches_distinct:
  assumes "distinct (map lower (spellings entries))"
  shows "distinct (map (\<lambda>m. lower (fst m)) (glossaryMatches entries))"
proof -
  let ?xs = "concat (map (\<lambda>e. map (\<lambda>s. (s, e)) (case g_match e of None \<Rightarrow> [g_term e] | Some xs \<Rightarrow> xs)) entries)"
  have a: "map (\<lambda>m. lower (fst m)) ?xs = map lower (spellings entries)"
    by (induction entries) (simp_all add: spellings_def comp_def)
  have "mset (map (\<lambda>m. lower (fst m)) (glossaryMatches entries)) = mset (map (\<lambda>m. lower (fst m)) ?xs)"
    by (simp add: glossaryMatches_def)
  from mset_eq_imp_distinct_iff [OF this] show ?thesis using assms by (simp only: a)
qed

lemma find_unique:
  "\<lbrakk>distinct (map k gs); m \<in> set gs; k m = x\<rbrakk> \<Longrightarrow> find (\<lambda>n. k n = x) gs = Some m"
  by (induction gs) force+

lemma matches_sorted: "sorted (map (\<lambda>(s, e). - int (length s)) (glossaryMatches entries))"
  by (simp add: glossaryMatches_def)

lemma find_first_sorted:
  "\<lbrakk>find P gs = Some m; sorted (map k gs); n \<in> set gs; P n\<rbrakk> \<Longrightarrow> k m \<le> (k n :: int)"
  by (induction gs) (auto split: if_splits)

text \<open>C39. Where a term of the glossary occurs, the longest spelling that fits is taken, and the entry that explains it is the one
  that lists this spelling: no spelling of the glossary has two entries, whatever the case.\<close>

theorem longest_spelling_wins:
  assumes "match_here (glossaryMatches GLOSSARY) prev rest = Some f"
  shows "\<exists>s e. e \<in> set GLOSSARY \<and> s \<in> set (spellings [e]) \<and> spelled s rest \<and> f = take (length s) rest \<and>
    gloss_index (glossaryMatches GLOSSARY) f = Some (s, e) \<and>
    (\<forall>s' \<in> set (spellings GLOSSARY). spelled s' rest \<longrightarrow> length s' \<le> length s)"
proof -
  let ?ms = "glossaryMatches GLOSSARY"
  obtain s e where f: "find (\<lambda>m. spelled (fst m) rest) ?ms = Some (s, e)" "f = take (length s) rest"
    using assms by (auto simp: match_here_def case_prod_unfold split: if_splits)
  have m: "(s, e) \<in> set ?ms" "spelled s rest" using f(1) by (auto simp: find_Some_iff) (metis nth_mem fst_conv)+
  have l: "lower s = lower f" using m(2) f(2) by (simp add: spelled_def)
  have i: "gloss_index ?ms f = Some (s, e)"
    using find_unique [OF matches_distinct [OF spellings_distinct] m(1), of "lower f"] l
    by (simp add: gloss_index_def case_prod_unfold)
  have "length s' \<le> length s" if g: "s' \<in> set (spellings GLOSSARY)" "spelled s' rest" for s'
  proof -
    obtain e' where "e' \<in> set GLOSSARY" "s' \<in> set (spellings [e'])" using g(1) by (auto simp: spellings_def)
    then have "(s', e') \<in> set ?ms" by (simp add: matches_set)
    from find_first_sorted [OF f(1) matches_sorted this] g(2) show ?thesis by simp
  qed
  then show ?thesis using m f(2) i by (auto simp: matches_set)
qed

theorem longest_spelling_wins_witness:
  "\<exists>e \<in> set GLOSSARY. gloss_index (glossaryMatches GLOSSARY) ''MTU'' = Some (''MTU'', e)"
proof -
  let ?ms = "glossaryMatches GLOSSARY"
  define e where "e = \<lparr>g_term = ''MTU'', g_match = None, g_exact = True,
     g_definition = ''The biggest payload a link carries at once: 1400 B on HomePlug, 226 B on LoRa, 128 B on narrowband.'',
     g_paper = ''papers/03-protocol-xkp''\<rparr>"
  have "e \<in> set GLOSSARY_2" by (simp add: GLOSSARY_2_def e_def)
  then have e: "e \<in> set GLOSSARY" "g_term e = ''MTU''" "g_match e = None" by (simp_all add: GLOSSARY_def e_def)
  have sp: "spelled ''MTU'' ''MTU''" by (simp add: spelled_def)
  have in_ms: "(''MTU'', e) \<in> set ?ms" using e by (simp add: matches_set spellings_def)
  have "find (\<lambda>(s, e). spelled s ''MTU'') ?ms \<noteq> None" using in_ms sp by (auto simp: find_None_iff)
  then obtain f where f: "match_here ?ms None ''MTU'' = Some f" by (auto simp: match_here_def)
  obtain s d where d: "d \<in> set GLOSSARY" "spelled s ''MTU''" "f = take (length s) ''MTU''" "gloss_index ?ms f = Some (s, d)"
    "\<forall>s' \<in> set (spellings GLOSSARY). spelled s' ''MTU'' \<longrightarrow> length s' \<le> length s"
    using longest_spelling_wins [OF f] by blast
  have "''MTU'' \<in> set (spellings GLOSSARY)" using e by (force simp: spellings_def)
  then have "length s = 3" using d(2,5) sp by (force simp: spelled_def)
  then have m: "f = ''MTU''" using d(3) by simp
  have "gloss_index ?ms ''MTU'' = Some (''MTU'', e)"
    using find_unique [OF matches_distinct [OF spellings_distinct] in_ms refl] by (simp add: gloss_index_def case_prod_unfold)
  then show ?thesis using e(1) by blast
qed

section \<open>The founder deck in the player\<close>

definition founder :: presentation where
  \<comment> \<open>the player of \<open>Slides.jsx\<close>\<close>
  "founder = \<lparr>sh_scenes = map to_show (SCENE_META CHAPTERS), sh_mode = Hold, sh_start = 0, sh_captions = True\<rparr>"

lemma founder_ids: "map sn_id (sh_scenes founder) = map u (map sm_id (SCENE_META CHAPTERS))"
  by (simp add: founder_def to_show_def comp_def)

lemma u_inj: "inj u"
  by (rule injI) (metis u_back)

lemma founder_distinct: "distinct (map sn_id (sh_scenes founder))"
proof -
  have "inj_on u (set (map sm_id (SCENE_META CHAPTERS)))" using u_inj by (rule inj_on_subset) simp
  with deck_ids_distinct show ?thesis unfolding founder_ids by (subst distinct_map) (rule conjI)
qed

lemma founder_linkable: "list_all linkable (map sn_id (sh_scenes founder))"
  unfolding founder_ids using deck_ids_plain by (auto simp: list_all_iff intro: plain_linkable)

lemma founder_ok: "show_ok founder"
proof -
  have "SCENE_META CHAPTERS \<noteq> []" by (simp add: SCENE_META_def scenes_of_def CHAPTERS_def chapter_overview_def)
  then show ?thesis using deck_durations by (auto simp: show_ok_def founder_def list_all_iff to_show_def)
qed

lemma founder_opens: "\<exists>pg. open_page founder now [] = Some pg"
  using founder_ok by (simp add: open_page_def startIndex_def mount_player_def indexFromHash_def hash_target_def show_ok_def Let_def)

text \<open>The witnesses of the player's properties.\<close>

theorem chapter_jump_opens_witness:
  "\<exists>pg pg'. open_page founder 0 [] = Some pg \<and>
    page_step founder 1 (Jump (cr_start (CHAPTER_ROWS CHAPTERS ! 3))) pg = Some pg' \<and>
    page_chapter CHAPTERS pg' = CHAPTER_ROWS CHAPTERS ! 3"
proof -
  obtain pg where pg: "open_page founder 0 [] = Some pg" using founder_opens by blast
  have s: "sh_scenes founder = map to_show (SCENE_META CHAPTERS)" by (simp add: founder_def)
  have k: "3 < length CHAPTERS" "ch_scenes (CHAPTERS ! 3) \<noteq> []" by (simp_all add: chapters_data)
  show ?thesis
    using chapter_jump_opens [OF paged.opened [OF pg] founder_ok s founder_distinct founder_linkable chapter_ids_distinct k, of 1] pg
    by blast
qed

theorem scene_link_reopens_witness:
  "\<exists>p q. mount_player founder 0 (u ''#/closing'') = Some p \<and> mount_player founder 5 (pl_hash p) = Some q \<and> pl_index q = pl_index p"
proof -
  have "hash_target (u ''#/closing'') = Some (u ''closing'')" by (simp add: hash_target_def line_end_def)
  then obtain p where p: "mount_player founder 0 (u ''#/closing'') = Some p"
    using founder_ok decode_no_percent [of "u ''closing''"] by (auto simp: mount_player_def indexFromHash_def show_ok_def Let_def)
  show ?thesis
    using scene_link_reopens [OF presented.mounted [OF p] founder_ok founder_distinct founder_linkable, of 5] p by blast
qed

theorem player_stays_in_deck_witness:
  "\<exists>p. mount_player founder 0 [] = Some p \<and> pl_index (show_step founder 7 NextButton p) < length (sh_scenes founder)"
proof -
  obtain p where p: "mount_player founder 0 [] = Some p"
    using founder_ok by (auto simp: mount_player_def indexFromHash_def hash_target_def show_ok_def Let_def)
  have "presented founder 7 (show_step founder 7 NextButton p)" by (rule presented.stepped [OF presented.mounted [OF p]]) simp
  then show ?thesis using player_stays_in_deck [OF _ founder_ok] p by blast
qed

definition two_scenes :: presentation where
  "two_scenes = \<lparr>sh_scenes = [\<lparr>sn_id = u ''one'', sn_title = [], sn_duration = 40, sn_caption = []\<rparr>,
      \<lparr>sn_id = u ''two'', sn_title = [], sn_duration = 30, sn_caption = []\<rparr>], sh_mode = Auto, sh_start = 0, sh_captions = True\<rparr>"

theorem auto_mode_plays_deck_witness:
  "\<exists>p. mount_player two_scenes 0 [] = Some p \<and> rev (pl_told (play_turns two_scenes [([16, 32, 48], 400)] p)) = [0, 1]"
proof -
  obtain p where p: "mount_player two_scenes 0 [] = Some p" "pl_index p = 0"
    by (auto simp: mount_player_def indexFromHash_def hash_target_def two_scenes_def Let_def clamp_index_def scene_count_def
      mirror_hash_def auto_timer_def)
  have a: "plays_on two_scenes 0 (pl_index p) [([16, 32, 48], 400)]" by (simp add: p(2) two_scenes_def)
  have b: "sh_mode two_scenes = Auto" "\<forall>s\<in>set (sh_scenes two_scenes). 0 < sn_duration s"
    "pl_index p + length [([16, 32, 48 :: rat], 400 :: rat)] = length (sh_scenes two_scenes) - 1"
    by (simp_all add: two_scenes_def p(2))
  have "[pl_index p..<length (sh_scenes two_scenes)] = [0, 1]" by (simp add: two_scenes_def p(2))
  then have "rev (pl_told (play_turns two_scenes [([16, 32, 48], 400)] p)) = [0, 1]"
    using auto_mode_plays_deck [OF b(1,2) p(1) a b(3)] by (simp only: simp_thms)
  with p(1) show ?thesis by blast
qed

end
