(* ===== verification/CostCurve.thy ===== *)
theory CostCurve
  imports Budget
begin

text \<open>
  The cost curves of \<open>web/src/manufacturing/data.js\<close>: what a unit costs as a kit of modules and as a merged board,
  at four volumes and between them.  \<open>Math.log\<close> is the real logarithm, so the values between the tiers are those of
  exact arithmetic.  The search for the crossing of the curves is not modelled: it halves its bracket 80 times, which
  doubles stop following after about 50.
\<close>

section \<open>The table\<close>

definition TAX_MULTIPLIER :: rat where "TAX_MULTIPLIER = 14875 / 10000"

definition VOLUMES :: "rat list" where "VOLUMES = [10, 100, 1000, 10000]"

definition KIT_LINES :: "rat list list" where
  \<comment> \<open>\<open>KIT_PATH.lines\<close>, the values of each\<close>
  "KIT_LINES = [[13165, 11850, 10530, 9880], [3600, 3000, 2700, 2600]]"

definition factoryUsd :: "rat list" where "factoryUsd = [138, 7843 / 100, 5017 / 100, 3405 / 100]"
definition freightUsd :: "rat list" where "freightUsd = [29 / 10, 245 / 100, 193 / 100, 37 / 100]"
definition nreUsd :: "rat list" where "nreUsd = [33250, 33250, 33250, 42250]"

definition whole :: "int option \<Rightarrow> int" where
  \<comment> \<open>a rounded amount; every one of the table is finite\<close>
  "whole v = (case v of None \<Rightarrow> 0 | Some k \<Rightarrow> k)"

definition KIT_UNIT_KES :: "int list" where
  "KIT_UNIT_KES = map (\<lambda>i. whole (Budget.kes (Some (sum_list (map (\<lambda>l. l ! i) KIT_LINES))))) [0..<length VOLUMES]"

definition BOARD_LANDED_KES :: "int list" where
  "BOARD_LANDED_KES =
     map (\<lambda>i. whole (usdToKes (Some ((factoryUsd ! i + freightUsd ! i) * TAX_MULTIPLIER)))) [0..<length VOLUMES]"

definition BOARD_NRE_KES :: "int list" where
  "BOARD_NRE_KES = map (\<lambda>i. whole (usdToKes (Some (nreUsd ! i / VOLUMES ! i)))) [0..<length VOLUMES]"

definition BOARD_UNIT_KES :: "int list" where
  "BOARD_UNIT_KES =
     map (\<lambda>i. whole (Budget.kes (Some (of_int (BOARD_LANDED_KES ! i) + of_int (BOARD_NRE_KES ! i))))) [0..<length VOLUMES]"

section \<open>Between the tiers\<close>

definition logFraction :: "real \<Rightarrow> real \<Rightarrow> real \<Rightarrow> real" where
  "logFraction volume lo hi = ln (volume / lo) / ln (hi / lo)"

fun interpolate_from :: "(real \<times> real) list \<Rightarrow> real \<Rightarrow> real option" where
  \<comment> \<open>the loop over the pairs of neighbouring tiers, each a volume and its value\<close>
  "interpolate_from ((lo, a) # (hi, b) # ps) volume =
     (if volume \<ge> lo \<and> volume \<le> hi then Some (a + (b - a) * logFraction volume lo hi)
      else interpolate_from ((hi, b) # ps) volume)"
| "interpolate_from _ volume = None"

definition interpolate :: "real list \<Rightarrow> real \<Rightarrow> real" where
  "interpolate vals volume =
     (case interpolate_from (zip (map real_of_rat VOLUMES) vals) volume of
        Some y \<Rightarrow> y
      | None \<Rightarrow> if volume < real_of_rat (hd VOLUMES) then hd vals else last vals)"

definition kitCostAt :: "real \<Rightarrow> real" where
  "kitCostAt volume = interpolate (map of_int KIT_UNIT_KES) volume"

definition real_usdToKes :: "real \<Rightarrow> int" where
  \<comment> \<open>\<open>usdToKes\<close> of a real amount\<close>
  "real_usdToKes x = \<lfloor>x * real_of_rat usd_rate + 1 / 2\<rfloor>"

definition boardCostAt :: "real \<Rightarrow> real" where
  "boardCostAt volume =
     (let landed = interpolate (map of_int BOARD_LANDED_KES) volume;
          nreTotal = interpolate (map real_of_rat nreUsd) volume
      in landed + of_int (real_usdToKes nreTotal) / volume)"

section \<open>The figures\<close>

lemma round_usd: "whole (usdToKes (Some x)) = js_round (x * usd_rate)" "whole (Budget.kes (Some x)) = js_round x"
  by (simp_all add: whole_def usdToKes_def Budget.kes_def)

lemma js_round_eq: "js_round x = k \<longleftrightarrow> of_int k \<le> x + 1 / 2 \<and> x + 1 / 2 < of_int k + 1"
  unfolding js_round_def by (rule floor_eq_iff)

lemma KIT_UNIT_KES_values: "KIT_UNIT_KES = [16765, 14850, 13230, 12480]"
  by (simp add: KIT_UNIT_KES_def round_usd VOLUMES_def KIT_LINES_def upt_rec js_round_eq)

lemma BOARD_LANDED_KES_values: "BOARD_LANDED_KES = [27037, 15520, 9997, 6605]"
  by (simp add: BOARD_LANDED_KES_def round_usd VOLUMES_def factoryUsd_def freightUsd_def TAX_MULTIPLIER_def usd_rate_def
      upt_rec js_round_eq)

lemma BOARD_NRE_KES_values: "BOARD_NRE_KES = [428925, 42893, 4289, 545]"
  by (simp add: BOARD_NRE_KES_def round_usd VOLUMES_def nreUsd_def usd_rate_def upt_rec js_round_eq)

lemma BOARD_UNIT_KES_values: "BOARD_UNIT_KES = [455962, 58413, 14286, 7150]"
  by (simp add: BOARD_UNIT_KES_def BOARD_LANDED_KES_values BOARD_NRE_KES_values round_usd VOLUMES_def upt_rec js_round_eq)

lemma logFraction_le1: "0 < lo \<Longrightarrow> lo < hi \<Longrightarrow> lo \<le> v \<Longrightarrow> v \<le> hi \<Longrightarrow> logFraction v lo hi \<le> 1"
  by (simp add: logFraction_def divide_right_mono)

lemma tier_values:
  "interpolate [a, b, c, d] v =
     (if 10 \<le> v \<and> v \<le> 100 then a + (b - a) * logFraction v 10 100
      else if 100 \<le> v \<and> v \<le> 1000 then b + (c - b) * logFraction v 100 1000
      else if 1000 \<le> v \<and> v \<le> 10000 then c + (d - c) * logFraction v 1000 10000
      else if v < 10 then a else d)"
  by (simp add: interpolate_def VOLUMES_def)

lemmas cost_values = kitCostAt_def boardCostAt_def Let_def KIT_UNIT_KES_values BOARD_LANDED_KES_values nreUsd_def
  tier_values

lemma nre_flat: "real_usdToKes 33250 = 4289250" "real_usdToKes 42250 = 5450250"
  by (simp_all add: real_usdToKes_def usd_rate_def floor_eq_iff)

lemma kit_cheaper_below_1000:
  assumes "10 \<le> v" and "v \<le> 1000"
  shows "kitCostAt v < boardCostAt v"
proof (cases "v \<le> 100")
  case True
  have "logFraction v 10 100 \<le> 1"
    by (rule logFraction_le1) (use assms(1) True in simp_all)
  moreover have "0 \<le> 4289250 / v" using assms(1) by simp
  ultimately have "9602 * logFraction v 10 100 < 10272 + 4289250 / v" by linarith
  then show ?thesis using assms(1) True by (simp add: cost_values nre_flat)
next
  case False
  have "logFraction v 100 1000 \<le> 1"
    by (rule logFraction_le1) (use assms False in simp_all)
  moreover have "4289250 / 1000 \<le> 4289250 / v"
    using assms by (intro divide_left_mono) simp_all
  ultimately have "3903 * logFraction v 100 1000 < 670 + 4289250 / v" by linarith
  then show ?thesis using assms False by (simp add: cost_values nre_flat)
qed

lemma board_cheaper_at_10000: "boardCostAt 10000 < kitCostAt 10000"
  by (simp add: cost_values logFraction_def nre_flat)

end
