(* ===== verification/Shopping.thy ===== *)
theory Shopping
  imports World
begin

text \<open>
  \<open>web/src/shop/data.js\<close>: the shopping list compiled from the part files, grouped by device role, and the price of
  the proof-of-concept kit from its checkout lines; and the photo slots of \<open>web/src/landing/parts.js\<close>.  The part
  files, the kit and the checkout are arguments.  A field whose type the code tests is an option, absent when it
  is missing or of another type; \<open>localeCompare\<close> is the argument \<open>le\<close>, a number that is not finite is absent.
  A role is a string or missing, its case folding is that of ASCII, and no pack is of size zero.

  The lemmas show that every part is listed and that the printed figures count and add up what is listed.
\<close>

section \<open>Roles\<close>

definition SHARED :: string where "SHARED = ''shared''"

fun occurs_not_before :: "string \<Rightarrow> string \<Rightarrow> string \<Rightarrow> bool" where
  \<comment> \<open>\<open>/p(?!q)/.test(s)\<close>\<close>
  "occurs_not_before p q [] = (p = [] \<and> q \<noteq> [])"
| "occurs_not_before p q (c # s) =
     ((starts_with p (c # s) \<and> \<not> starts_with q (drop (length p) (c # s))) \<or> occurs_not_before p q s)"

definition word_char :: "char \<Rightarrow> bool" where
  "word_char c \<longleftrightarrow> is_lower c \<or> is_upper c \<or> is_digit c \<or> c = CHR ''_''"

fun whole_word :: "string \<Rightarrow> bool \<Rightarrow> string \<Rightarrow> bool" where
  \<comment> \<open>\<open>/\bp\b/.test(s)\<close> for a \<open>p\<close> of word characters; the flag tells whether a word character precedes\<close>
  "whole_word p before [] = False"
| "whole_word p before (c # s) =
     ((\<not> before \<and> starts_with p (c # s) \<and>
       (case drop (length p) (c # s) of [] \<Rightarrow> True | d # _ \<Rightarrow> \<not> word_char d)) \<or> whole_word p (word_char c) s)"

definition role_match :: "string \<Rightarrow> string \<Rightarrow> bool" where
  "role_match key role =
     (if key = ''node'' then occurs_not_before ''xkoin-node'' ''-satellite'' role
      else if key = ''node-satellite'' then str_includes ''xkoin-node-satellite'' role
      else if key = ''satellite'' then str_includes ''xkoin-satellite'' role
      else if key = ''client'' then str_includes ''xkoin-client'' role
      else if key = ''lora-ecosystem'' then str_includes ''lora ecosystem'' role \<or> str_includes ''farm'' role
      else if key = ''bench'' then whole_word ''bench'' False role
      else False)"

definition ROLES :: "(string \<times> string \<times> string) list" where
  \<comment> \<open>key, title and reason\<close>
  "ROLES =
     [(''node'', ''xKoin-Node'', ''Gateway: backhaul in, mains and radio out, meters every WAN byte.''),
      (''node-satellite'', ''xKoin-Node-Satellite'', ''Mains relay: pulls PLC off the wall, regenerates Wi-Fi, enforces admission.''),
      (''satellite'', ''xKoin-Satellite'', ''Off-grid LoRa remote on solar and a cell.''),
      (''client'', ''xKoin-Client'', ''The phone over Wi-Fi, or the OTG dongle for direct LoRa reach.''),
      (''lora-ecosystem'', ''LoRa ecosystem devices'', ''Third-party style nodes on the free LAN plane.''),
      (''bench'', ''Bench'', ''Test gear: console lead, attenuators, strips.''),
      (''shared'', ''Shared across roles'', ''Boards that belong to whichever device carries them.'')]"

definition rolesOf :: "string option \<Rightarrow> string list" where
  "rolesOf roleText =
     (let role = map lower_char (case roleText of None \<Rightarrow> [] | Some s \<Rightarrow> s);
          keys = filter (\<lambda>k. role_match k role) (map fst ROLES)
      in if keys \<noteq> [] then keys else [SHARED])"

section \<open>Parts\<close>

record candidate =
  cd_url :: "string option"
  cd_verdict :: "string option"
  cd_price_kes :: "rat option"
  cd_images :: "string list"
  cd_title :: "string option"

datatype choice = Unset | LocalBuy | Chosen string
  \<comment> \<open>\<open>chosen\<close> of a part file: missing or of another type, null, or a url\<close>

record raw_part =
  rp_id :: "string option"
  rp_line :: "string option"
  rp_role :: "string option"
  rp_spec :: "string option"
  rp_why :: "string option"
  rp_recorded :: "string option"
  rp_qty :: "rat option"
  rp_chosen :: choice
  rp_candidates :: "candidate list"

fun find_pos :: "('a \<Rightarrow> bool) \<Rightarrow> 'a list \<Rightarrow> nat option" where
  "find_pos P [] = None"
| "find_pos P (x # xs) = (if P x then Some 0 else map_option Suc (find_pos P xs))"

definition by_verdict :: "candidate list \<Rightarrow> nat option" where
  "by_verdict cs = find_pos (\<lambda>c. cd_verdict c = Some ''chosen'') cs"

definition chosenOf :: "raw_part \<Rightarrow> nat option" where
  \<comment> \<open>the position of the candidate, which stands for its identity\<close>
  "chosenOf part =
     (let candidates = rp_candidates part in
      case rp_chosen part of
        LocalBuy \<Rightarrow> None
      | Chosen url \<Rightarrow>
          (case find_pos (\<lambda>c. cd_url c = Some url) candidates of
             Some i \<Rightarrow> Some i
           | None \<Rightarrow> by_verdict candidates)
      | Unset \<Rightarrow> by_verdict candidates)"

record part =
  pt_id :: string
  pt_line :: string
  pt_roleText :: string
  pt_roles :: "string list"
  pt_spec :: string
  pt_why :: string
  pt_recorded :: string
  pt_qty :: rat
  pt_chosen :: "candidate option"
  pt_image :: "string option"
  pt_unitKes :: "rat option"
  pt_lineKes :: "rat option"
  pt_others :: "candidate list"
  pt_local :: bool

definition or_empty :: "string option \<Rightarrow> string" where
  "or_empty s = (case s of None \<Rightarrow> [] | Some t \<Rightarrow> t)"

definition normalise :: "string \<Rightarrow> raw_part \<Rightarrow> part" where
  "normalise modulePath raw =
     (let id = (case rp_id raw of None \<Rightarrow> modulePath | Some i \<Rightarrow> i);
          candidates = rp_candidates raw;
          pos = chosenOf raw;
          chosen = map_option (\<lambda>i. candidates ! i) pos;
          qty = (case rp_qty raw of None \<Rightarrow> 1 | Some q \<Rightarrow> q);
          unit_price = Option.bind chosen cd_price_kes
      in \<lparr>pt_id = id,
          pt_line = (case rp_line raw of None \<Rightarrow> id | Some l \<Rightarrow> l),
          pt_roleText = or_empty (rp_role raw),
          pt_roles = rolesOf (rp_role raw),
          pt_spec = or_empty (rp_spec raw),
          pt_why = or_empty (rp_why raw),
          pt_recorded = or_empty (rp_recorded raw),
          pt_qty = qty,
          pt_chosen = chosen,
          pt_image = Option.bind chosen (\<lambda>c. case cd_images c of [] \<Rightarrow> None | i # _ \<Rightarrow> Some i),
          pt_unitKes = unit_price,
          pt_lineKes = map_option (\<lambda>u. u * qty) unit_price,
          pt_others = map (\<lambda>i. candidates ! i) (filter (\<lambda>i. pos \<noteq> Some i) [0..<length candidates]),
          pt_local = (rp_chosen raw = LocalBuy)\<rparr>)"

fun insert_part :: "(string \<Rightarrow> string \<Rightarrow> bool) \<Rightarrow> part \<Rightarrow> part list \<Rightarrow> part list" where
  \<comment> \<open>one step of a stable sort\<close>
  "insert_part le p [] = [p]"
| "insert_part le p (q # qs) = (if le (pt_line p) (pt_line q) then p # q # qs else q # insert_part le p qs)"

definition PARTS :: "(string \<Rightarrow> string \<Rightarrow> bool) \<Rightarrow> (string \<times> raw_part) list \<Rightarrow> part list" where
  "PARTS le modules = foldr (insert_part le) (map (\<lambda>(path, raw). normalise path raw) modules) []"

section \<open>Groups and header figures\<close>

record group =
  gp_key :: string
  gp_title :: string
  gp_why :: string
  gp_parts :: "part list"
  gp_subtotalKes :: rat

definition price_or_0 :: "rat option \<Rightarrow> rat" where
  "price_or_0 v = (case v of None \<Rightarrow> 0 | Some x \<Rightarrow> x)"

definition groups :: "part list \<Rightarrow> group list" where
  "groups parts =
     map (\<lambda>(key, title, why, ps). \<lparr>gp_key = key, gp_title = title, gp_why = why, gp_parts = ps,
                                   gp_subtotalKes = sum_list (map (\<lambda>p. price_or_0 (pt_lineKes p)) ps)\<rparr>)
       (filter (\<lambda>(_, _, _, ps). ps \<noteq> [])
         (map (\<lambda>(key, title, why). (key, title, why, filter (\<lambda>p. key \<in> set (pt_roles p)) parts)) ROLES))"

record summary =
  sm_lines :: nat
  sm_scouted :: nat
  sm_local :: nat
  sm_pending :: int
  sm_totalKes :: rat
  sm_recorded :: "string option"

definition summary :: "part list \<Rightarrow> summary" where
  "summary parts =
     (let scouted = filter (\<lambda>p. pt_lineKes p \<noteq> None) parts;
          local_parts = filter pt_local parts;
          dates = sort (filter (\<lambda>r. r \<noteq> []) (map pt_recorded parts))
      in \<lparr>sm_lines = length parts,
          sm_scouted = length scouted,
          sm_local = length local_parts,
          sm_pending = int (length parts) - int (length scouted) - int (length local_parts),
          sm_totalKes = sum_list (map (\<lambda>p. price_or_0 (pt_lineKes p)) scouted),
          sm_recorded = (if dates = [] then None else Some (last dates))\<rparr>)"

section \<open>The kit\<close>

record checkout_line =
  co_id :: string
  co_variant :: "string option"
  co_pack :: "rat option"
  co_price_kes :: "rat option"
  co_buy :: "string option"
  co_seller :: "string option"
  co_delivery :: "string option"
  co_shipping :: "string option"
  co_url :: "string option"
  co_note :: "string option"

record kit_entry =
  ke_id :: string
  ke_qty :: rat
  ke_store :: "string option"
  ke_note :: "string option"

record kit_device =
  kd_key :: string
  kd_name :: string
  kd_journey :: string
  kd_owned :: "string list option"
  kd_parts :: "kit_entry list"

record kit_line =
  kl_id :: string
  kl_name :: string
  kl_qty :: rat
  kl_pack :: rat
  kl_variant :: string
  kl_unitKes :: "int option"
  kl_costKes :: "rat option"
  kl_buy :: string
  kl_seller :: string
  kl_arrives :: string
  kl_shipping :: string
  kl_url :: "string option"
  kl_note :: string
  kl_image :: "string option"

record mvp_device =
  md_key :: string
  md_name :: string
  md_journey :: string
  md_owned :: "string list"
  md_lines :: "kit_line list"
  md_aliKes :: rat
  md_localKes :: rat
  md_totalKes :: rat

definition last_with :: "('a \<Rightarrow> string) \<Rightarrow> 'a list \<Rightarrow> string \<Rightarrow> 'a option" where
  \<comment> \<open>\<open>new Map(xs.map((x) => [f(x), x])).get(k)\<close>: the last of equal keys\<close>
  "last_with f xs k = map_of (rev (map (\<lambda>x. (f x, x)) xs)) k"

definition EXTRA_LINES :: "(string \<times> string) list" where
  "EXTRA_LINES = [(''18650-cell'', ''18650 cell'')]"

definition first_of :: "'a option \<Rightarrow> 'a option \<Rightarrow> 'a option" where
  \<comment> \<open>\<open>a ?? b\<close>\<close>
  "first_of a b = (case a of Some _ \<Rightarrow> a | None \<Rightarrow> b)"

definition kit_line_of :: "part list \<Rightarrow> checkout_line list \<Rightarrow> kit_entry \<Rightarrow> kit_line" where
  "kit_line_of parts checkout entry =
     (let line = last_with co_id checkout (ke_id entry);
          part = last_with pt_id parts (ke_id entry);
          pack = (case Option.bind line co_pack of None \<Rightarrow> 1 | Some n \<Rightarrow> n);
          unit_price = map_option (\<lambda>p. js_round (p / pack)) (Option.bind line co_price_kes)
      in \<lparr>kl_id = ke_id entry,
          kl_name = (case part of Some p \<Rightarrow> pt_line p | None \<Rightarrow> get_or (ke_id entry) EXTRA_LINES (ke_id entry)),
          kl_qty = ke_qty entry,
          kl_pack = pack,
          kl_variant = or_empty (Option.bind line co_variant),
          kl_unitKes = unit_price,
          kl_costKes = map_option (\<lambda>u. of_int u * ke_qty entry) unit_price,
          kl_buy = (case Option.bind line co_buy of None \<Rightarrow> ''local'' | Some b \<Rightarrow> b),
          kl_seller = or_empty (first_of (Option.bind line co_seller) (ke_store entry)),
          kl_arrives = or_empty (Option.bind line co_delivery),
          kl_shipping = or_empty (Option.bind line co_shipping),
          kl_url = Option.bind line co_url,
          kl_note = or_empty (first_of (ke_note entry) (Option.bind line co_note)),
          kl_image = Option.bind part pt_image\<rparr>)"

definition bought :: "string \<Rightarrow> kit_line list \<Rightarrow> rat" where
  \<comment> \<open>\<open>sum(buy)\<close>\<close>
  "bought buy lines = sum_list (map (\<lambda>l. price_or_0 (kl_costKes l)) (filter (\<lambda>l. kl_buy l = buy) lines))"

definition mvpDevices :: "part list \<Rightarrow> checkout_line list \<Rightarrow> kit_device list \<Rightarrow> mvp_device list" where
  "mvpDevices parts checkout kit =
     map (\<lambda>device.
       let lines = map (kit_line_of parts checkout) (kd_parts device)
       in \<lparr>md_key = kd_key device, md_name = kd_name device, md_journey = kd_journey device,
           md_owned = (case kd_owned device of None \<Rightarrow> [] | Some xs \<Rightarrow> xs),
           md_lines = lines,
           md_aliKes = bought ''ali'' lines, md_localKes = bought ''local'' lines,
           md_totalKes = bought ''ali'' lines + bought ''local'' lines\<rparr>) kit"

definition decimal_of :: "string \<Rightarrow> rat option" where
  \<comment> \<open>\<open>Number(s)\<close> of a string of digits and points\<close>
  "decimal_of s =
     (let digits = (\<lambda>d. foldl (\<lambda>n c. 10 * n + (of_char c - 48)) (0 :: nat) d)
      in case split_on (CHR ''.'') s of
           [w] \<Rightarrow> Some (of_nat (digits w))
         | [w, f] \<Rightarrow> if w = [] \<and> f = [] then None
                     else Some (of_nat (digits w) + of_nat (digits f) / 10 ^ length f)
         | _ \<Rightarrow> None)"

record kit_summary =
  ks_ali :: rat
  ks_local :: rat
  ks_shipping :: "int option"
  ks_total :: rat

definition mvpSummary :: "part list \<Rightarrow> checkout_line list \<Rightarrow> kit_device list \<Rightarrow> kit_summary" where
  \<comment> \<open>the fields \<open>recorded\<close> and \<open>stageTwo\<close> are copied from the files; a sum with NaN is absent\<close>
  "mvpSummary parts checkout kit =
     (let devices = mvpDevices parts checkout kit;
          ali = sum_list (map md_aliKes devices);
          local_kes = sum_list (map md_localKes devices);
          priced = filter (\<lambda>l. co_buy l = Some ''ali'' \<and> str_includes ''KSh'' (or_empty (co_shipping l))) checkout;
          amounts = map (\<lambda>l. decimal_of (filter (\<lambda>c. is_digit c \<or> c = CHR ''.'') (or_empty (co_shipping l)))) priced
      in \<lparr>ks_ali = ali, ks_local = local_kes,
          ks_shipping = (if None \<in> set amounts then None else Some (js_round (sum_list (map price_or_0 amounts)))),
          ks_total = ali + local_kes\<rparr>)"

definition shop_kes :: "rat option \<Rightarrow> string" where
  "shop_kes v = (case v of None \<Rightarrow> ''n/a'' | Some x \<Rightarrow> ''KSh '' @ locale_num 0 3 (of_int (js_round x)))"

section \<open>Photo slots\<close>

record photo_part =
  pp_line :: string
  pp_roles :: "string list"
  pp_image :: "string option"
  pp_title :: "string option"

definition load_part :: "string \<Rightarrow> raw_part \<Rightarrow> photo_part option" where
  \<comment> \<open>one file that parsed; a missing role skips it.  The candidates are a list and each has a url\<close>
  "load_part path raw =
     map_option (\<lambda>role.
       let cs = rp_candidates raw;
           by_url = (case rp_chosen raw of Chosen url \<Rightarrow> find_pos (\<lambda>c. cd_url c = Some url) cs | _ \<Rightarrow> None);
           pos = first_of (first_of by_url (by_verdict cs)) (if cs = [] then None else Some 0);
           chosen = map_option (\<lambda>i. cs ! i) pos
       in \<lparr>pp_line = (case rp_line raw of Some l \<Rightarrow> l | None \<Rightarrow> case rp_id raw of Some i \<Rightarrow> i | None \<Rightarrow> path),
           pp_roles = map trim (split_on (CHR '','') role),
           pp_image = Option.bind chosen (\<lambda>c. case cd_images c of [] \<Rightarrow> None | i # _ \<Rightarrow> Some i),
           pp_title = (case Option.bind chosen cd_title of
                         Some t \<Rightarrow> if t = [] then rp_line raw else Some t
                       | None \<Rightarrow> rp_line raw)\<rparr>) (rp_role raw)"

definition loadParts :: "(string \<times> raw_part option) list \<Rightarrow> photo_part list" where
  \<comment> \<open>\<^term>\<open>None\<close> for a file that does not parse\<close>
  "loadParts raws =
     concat (map (\<lambda>(path, raw). case Option.bind raw (load_part path) of None \<Rightarrow> [] | Some p \<Rightarrow> [p]) raws)"

definition entryNames :: "string \<Rightarrow> string \<Rightarrow> bool" where
  "entryNames entry device =
     (if \<not> starts_with device entry then False
      else case drop (length device) entry of [] \<Rightarrow> True | c # _ \<Rightarrow> c = CHR '' '')"

definition photoForDevice :: "photo_part list \<Rightarrow> string \<Rightarrow> (string \<times> string \<times> string option) option" where
  \<comment> \<open>source, line and title; an empty image is no image\<close>
  "photoForDevice parts device =
     (case find_pos (\<lambda>p. list_ex (\<lambda>e. entryNames e device) (pp_roles p) \<and> pp_image p \<noteq> None \<and> pp_image p \<noteq> Some []) parts of
        None \<Rightarrow> None
      | Some i \<Rightarrow> Some (the (pp_image (parts ! i)), pp_line (parts ! i), pp_title (parts ! i)))"

section \<open>What is listed\<close>

lemma rolesOf_keys: "rolesOf r \<noteq> [] \<and> set (rolesOf r) \<subseteq> set (map fst ROLES)"
  by (auto simp: rolesOf_def Let_def SHARED_def ROLES_def)

lemma normalise_roles: "pt_roles (normalise path raw) = rolesOf (rp_role raw)"
  by (simp add: normalise_def Let_def)

lemma normalise_local: "pt_local (normalise path raw) \<Longrightarrow> pt_lineKes (normalise path raw) = None"
  by (simp add: normalise_def chosenOf_def Let_def)

lemma insert_part_set: "set (insert_part le p ps) = insert p (set ps)"
  by (induction ps) auto

lemma insert_part_length: "length (insert_part le p ps) = Suc (length ps)"
  by (induction ps) auto

lemma PARTS_set: "set (PARTS le modules) = (\<lambda>(path, raw). normalise path raw) ` set modules"
  unfolding PARTS_def by (induction modules) (auto simp: insert_part_set)

lemma PARTS_length: "length (PARTS le modules) = length modules"
  unfolding PARTS_def by (induction modules) (auto simp: insert_part_length)

lemma group_parts: "(\<Union>g \<in> set (groups ps). set (gp_parts g)) = {p \<in> set ps. set (pt_roles p) \<inter> set (map fst ROLES) \<noteq> {}}"
  unfolding groups_def by (force simp: filter_empty_conv)

lemma pending_count:
  assumes "\<And>p. p \<in> set ps \<Longrightarrow> pt_local p \<Longrightarrow> pt_lineKes p = None"
  shows "sm_pending (summary ps) = int (length (filter (\<lambda>p. pt_lineKes p = None \<and> \<not> pt_local p) ps))"
  using assms by (induction ps) (auto simp: summary_def Let_def)

lemma mvp_total:
  "ks_total (mvpSummary ps co kit) =
     sum_list (map (\<lambda>l. price_or_0 (kl_costKes l))
       (filter (\<lambda>l. kl_buy l \<in> {''ali'', ''local''}) (concat (map md_lines (mvpDevices ps co kit)))))"
proof -
  have bought: "bought ''ali'' ls + bought ''local'' ls =
      sum_list (map (\<lambda>l. price_or_0 (kl_costKes l)) (filter (\<lambda>l. kl_buy l = ''ali'' \<or> kl_buy l = ''local'') ls))" for ls
    by (induction ls) (auto simp: bought_def)
  show ?thesis
    unfolding mvpSummary_def mvpDevices_def Let_def
    by (induction kit) (simp_all add: bought [symmetric])
qed

end
