(* ===== verification/PlanGuarantees.thy ===== *)
theory PlanGuarantees
  imports CostCurve Shopping Deck
begin

text \<open>
  The properties of the plans the site prints: the cheaper path at small and large volumes, the parts list and the kit, the
  slide deck.
\<close>

text \<open>At every volume up to 1,000 units the kit is the cheaper path, and at 10,000 units the board is.\<close>

lemma kit_first_board_later:
  "(\<forall>v. 10 \<le> v \<and> v \<le> 1000 \<longrightarrow> kitCostAt v < boardCostAt v) \<and> boardCostAt 10000 < kitCostAt 10000"
  using kit_cheaper_below_1000 board_cheaper_at_10000 by blast

text \<open>Every part file is on the shopping list, under at least one device role, whatever its role text says; the header's
  pending figure counts exactly the parts that have neither a price nor a note to buy locally; and the kit's
  total is the sum of the costs of the lines listed under its devices, those bought elsewhere apart.\<close>

theorem shopping_list_complete:
  "let ps = PARTS le modules in
     length ps = length modules \<and>
     (\<Union>g \<in> set (groups ps). set (gp_parts g)) = (\<lambda>(path, raw). normalise path raw) ` set modules \<and>
     sm_pending (summary ps) = int (length (filter (\<lambda>p. pt_lineKes p = None \<and> \<not> pt_local p) ps)) \<and>
     ks_total (mvpSummary ps checkout kit) =
       sum_list (map (\<lambda>l. price_or_0 (kl_costKes l))
         (filter (\<lambda>l. kl_buy l \<in> {''ali'', ''local''}) (concat (map md_lines (mvpDevices ps checkout kit)))))"
proof -
  have part: "set (pt_roles p) \<inter> set (map fst ROLES) \<noteq> {} \<and> (pt_local p \<longrightarrow> pt_lineKes p = None)"
    if listed: "p \<in> set (PARTS le modules)" for p
  proof -
    obtain m where "p = (\<lambda>(path, raw). normalise path raw) m" using listed unfolding PARTS_set by blast
    then obtain path raw where p: "p = normalise path raw" by (cases m) simp
    have "set (rolesOf (rp_role raw)) \<inter> set (map fst ROLES) = set (rolesOf (rp_role raw))" using rolesOf_keys by blast
    then show ?thesis using rolesOf_keys [of "rp_role raw"] normalise_local by (simp add: p normalise_roles)
  qed
  have "(\<Union>g \<in> set (groups (PARTS le modules)). set (gp_parts g)) = set (PARTS le modules)"
    using part by (auto simp: group_parts)
  moreover have "sm_pending (summary (PARTS le modules)) =
      int (length (filter (\<lambda>p. pt_lineKes p = None \<and> \<not> pt_local p) (PARTS le modules)))"
    by (rule pending_count) (use part in blast)
  ultimately show ?thesis by (simp add: Let_def PARTS_length PARTS_set mvp_total)
qed

text \<open>C40. A deck that builds has one picture for every scene of its manifest, in the manifest's order, and no picture that no
  scene names; one that does not build names a scene without a picture or a picture without a scene.  The chapter
  strip starts each chapter at its own first scene, and counts its scenes.\<close>

theorem deck_joined:
  "(case build modules chapters of
      Inr scenes \<Rightarrow> map sc_meta scenes = SCENE_META chapters \<and>
        list_all (\<lambda>s. Some (sc_picture s) = picture_of modules (sm_module (sc_meta s)) (sm_id (sc_meta s))) scenes \<and>
        pictures modules \<subseteq> (\<lambda>m. (sm_module m, sm_id m)) ` set (SCENE_META chapters)
    | Inl (NoModule m) \<Rightarrow> m \<in> set (SCENE_META chapters) \<and> map_of modules (sm_module m) = None
    | Inl (NoPicture m) \<Rightarrow> m \<in> set (SCENE_META chapters) \<and> picture_of modules (sm_module m) (sm_id m) = None
    | Inl (Unclaimed n i) \<Rightarrow> (n, i) \<in> pictures modules - (\<lambda>m. (sm_module m, sm_id m)) ` set (SCENE_META chapters)) \<and>
   (distinct (map ch_id chapters) \<longrightarrow> list_all (\<lambda>(c, row).
      take (cr_count row) (drop (cr_start row) (SCENE_META chapters)) = scenes_of c) (zip chapters (CHAPTER_ROWS chapters)))"
  by (intro conjI impI build_joins chapter_rows_right)

lemma deck_joined_witness:
  "let opening = \<lparr>s_id = ''opening'', s_module = ''ch01'', s_title = [], s_duration = 9000, s_caption = [], s_terms = None\<rparr>;
       c1 = \<lparr>ch_id = ''overview'', ch_n = 1, ch_title = [], ch_blurb = [], ch_scenes = [opening]\<rparr>;
       c2 = \<lparr>ch_id = ''money'', ch_n = 2, ch_title = [], ch_blurb = [], ch_scenes = [opening, opening]\<rparr>
   in list_all (\<lambda>(c, row). take (cr_count row) (drop (cr_start row) (SCENE_META [c1, c2])) = scenes_of c)
        (zip [c1, c2] (CHAPTER_ROWS [c1, c2]))"
  unfolding Let_def by (rule deck_joined [THEN conjunct2, THEN mp]) simp

end
