(* ===== verification/Evidence.thy ===== *)
theory Evidence
  imports World "HOL-Library.Multiset"
begin

text \<open>
  \<open>web/src/replay/data.js\<close>: the adapters between the recorded proof files and the replay pages (labels of amounts and
  times, who has which address, which accounts ever held tokens, the transactions the pages refer to, the bytes of
  a simulated scenario), and \<open>routeFor\<close> of \<open>web/src/shell/nav.js\<close>.  The proof files are arguments; numbers are
  exact rationals and case folding is that of ASCII.
\<close>

section \<open>Labels\<close>

definition replay_kes :: "rat \<Rightarrow> string" where
  "replay_kes ukes = locale_num 0 6 (ukes / 1000000) @ '' KES''"

definition num :: "rat \<Rightarrow> string" where
  "num value = locale_num 0 3 value"

definition shortHex :: "string option \<Rightarrow> nat \<Rightarrow> nat \<Rightarrow> string" where
  \<comment> \<open>\<open>slice(-tail)\<close> of a positive \<open>tail\<close>\<close>
  "shortHex value head_len tail_len =
     (let s = (case value of None \<Rightarrow> [] | Some v \<Rightarrow> v)
      in if length s \<le> head_len + tail_len + 2 then s
         else take head_len s @ ''..'' @ drop (length s - tail_len) s)"

definition bytes_label :: "rat \<Rightarrow> string" where
  "bytes_label n =
     (if n \<ge> 1000000 then to_fixed 2 (n / 1000000) @ '' MB''
      else if n \<ge> 1000 then to_fixed 1 (n / 1000) @ '' kB''
      else num n @ '' B'')"

definition rate :: "rat \<Rightarrow> string" where
  "rate n =
     (if n \<ge> 1000000 then to_fixed 2 (n / 1000000) @ '' Mbps''
      else to_fixed 2 (n / 1000) @ '' kbps'')"

definition seconds :: "rat \<Rightarrow> string" where
  "seconds n =
     (if n \<ge> 60
      then let m = \<lfloor>n / 60\<rfloor> in int_str m @ '' min '' @ int_str (js_round (n - of_int m * 60)) @ '' s''
      else to_fixed 2 n @ '' s'')"

text \<open>The seconds are rounded after the minutes are taken off, so the last half second of a minute reads 60.\<close>

lemma seconds_sixty: "seconds (1196 / 10) = ''1 min 60 s''"
proof -
  have m: "\<lfloor>1196 / 10 / 60 :: rat\<rfloor> = 1" by (simp add: floor_eq_iff)
  have s: "js_round (1196 / 10 - of_int 1 * 60 :: rat) = 60" by (simp add: js_round_def floor_eq_iff)
  show ?thesis
    unfolding seconds_def Let_def m s by code_simp
qed

section \<open>Addresses\<close>

definition lower :: "string \<Rightarrow> string" where
  "lower s = map lower_char s"

definition add_role :: "(string \<times> string list) list \<Rightarrow> string \<times> string \<Rightarrow> (string \<times> string list) list" where
  "add_role m entry = (let (role, address) = entry; key = lower address in AList.update key (get_or [] m key @ [role]) m)"

definition ROLE_BY_ADDRESS :: "(string \<times> string) list \<Rightarrow> (string \<times> string) list \<Rightarrow> (string \<times> string list) list" where
  "ROLE_BY_ADDRESS actors contracts = foldl add_role (foldl add_role [] actors) contracts"

definition roleOf :: "(string \<times> string) list \<Rightarrow> (string \<times> string) list \<Rightarrow> string option \<Rightarrow> string" where
  "roleOf actors contracts address =
     join_with '' = '' (get_or [] (ROLE_BY_ADDRESS actors contracts) (lower (case address of None \<Rightarrow> [] | Some a \<Rightarrow> a)))"

record book_row =
  br_kind :: string
  br_roles :: "string list"
  br_address :: string

fun add_to_row :: "string \<Rightarrow> string \<Rightarrow> book_row list \<Rightarrow> book_row list" where
  \<comment> \<open>\<open>rows.find\<close> by address and \<open>roles.push\<close>\<close>
  "add_to_row key role [] = []"
| "add_to_row key role (r # rs) =
     (if lower (br_address r) = key then r\<lparr>br_roles := br_roles r @ [role]\<rparr> # rs else r # add_to_row key role rs)"

definition push_row :: "string \<Rightarrow> book_row list \<Rightarrow> string \<times> string \<Rightarrow> book_row list" where
  \<comment> \<open>an address has been seen when a row carries it\<close>
  "push_row kind rows entry =
     (let (role, address) = entry in
      if lower address \<in> set (map (\<lambda>r. lower (br_address r)) rows)
      then add_to_row (lower address) role rows
      else rows @ [\<lparr>br_kind = kind, br_roles = [role], br_address = address\<rparr>])"

definition ADDRESS_BOOK :: "(string \<times> string) list \<Rightarrow> (string \<times> string) list \<Rightarrow> book_row list" where
  "ADDRESS_BOOK actors contracts = foldl (push_row ''account'') (foldl (push_row ''contract'') [] contracts) actors"

record balance_account =
  ba_name :: string
  ba_alias :: "string list"
  ba_address :: "string option"

fun add_alias :: "string \<Rightarrow> string \<Rightarrow> (string \<times> balance_account) list \<Rightarrow> (string \<times> balance_account) list" where
  "add_alias key name [] = []"
| "add_alias key name ((k, r) # rs) =
     (if k = key then (k, r\<lparr>ba_alias := ba_alias r @ [name]\<rparr>) # rs else (k, r) # add_alias key name rs)"

definition push_account :: "(string \<times> string) list \<Rightarrow> (string \<times> balance_account) list \<Rightarrow> string \<Rightarrow>
    (string \<times> balance_account) list" where
  "push_account addresses rows name =
     (let address = map_of addresses name;
          key = lower (case address of None \<Rightarrow> name | Some a \<Rightarrow> a)
      in if key \<in> set (map fst rows) then add_alias key name rows
         else rows @ [(key, \<lparr>ba_name = name, ba_alias = [], ba_address = address\<rparr>)])"

definition BALANCE_ACCOUNTS :: "(string \<times> string) list \<Rightarrow> (string \<times> string) list \<Rightarrow> (string \<times> rat) list list \<Rightarrow>
    balance_account list" where
  \<comment> \<open>\<open>actors[name] ?? contracts[name]\<close> is a lookup in the actors followed by the contracts;
    there is at least one row of balances\<close>
  "BALANCE_ACCOUNTS actors contracts balances =
     (let names = map fst (hd balances);
          moved = filter (\<lambda>name. list_ex (\<lambda>xkn. get_or 0 xkn name > 0) balances) names
      in map snd (foldl (push_account (actors @ contracts)) [] moved))"

definition MAX_BALANCE :: "(string \<times> rat) list list \<Rightarrow> rat" where
  "MAX_BALANCE balances = foldl (\<lambda>m xkn. foldl max m (map snd xkn)) 0 balances"

section \<open>Transactions and scenarios\<close>

record 'a log_entry =
  lg_event :: string
  lg_args :: 'a

record 'a chain_tx =
  ct_fn :: string
  ct_gas_used :: int
  ct_logs :: "'a log_entry list"

definition tx_of :: "'a chain_tx list \<Rightarrow> string \<Rightarrow> 'a chain_tx option" where
  "tx_of txs fn = find (\<lambda>tx. ct_fn tx = fn) txs"

definition DEPLOY_TXS :: "'a chain_tx list \<Rightarrow> 'a chain_tx list" where
  "DEPLOY_TXS txs = filter (\<lambda>tx. starts_with ''create:'' (ct_fn tx)) txs"

definition GAS_TXS :: "'a chain_tx list \<Rightarrow> 'a chain_tx list" where
  "GAS_TXS txs = filter (\<lambda>tx. ct_fn tx = ''eth transfer'') txs"

definition BATCH_SETTLED :: "'a chain_tx list \<Rightarrow> 'a option" where
  \<comment> \<open>\<^term>\<open>None\<close> where the module throws\<close>
  "BATCH_SETTLED txs =
     Option.bind (tx_of txs ''settleTicketBatch'') (\<lambda>tx.
       map_option lg_args (find (\<lambda>l. lg_event l = ''BatchSettled'') (ct_logs tx)))"

definition TICKET_SETTLED :: "'a chain_tx list \<Rightarrow> 'a list option" where
  "TICKET_SETTLED txs =
     map_option (\<lambda>tx. map lg_args (filter (\<lambda>l. lg_event l = ''TicketSettled'') (ct_logs tx)))
       (tx_of txs ''settleTicketBatch'')"

definition DEPLOY_GAS :: "'a chain_tx list \<Rightarrow> int option" where
  "DEPLOY_GAS txs =
     map_option (\<lambda>b. foldl (\<lambda>s tx. s + ct_gas_used tx) 0 (DEPLOY_TXS txs @ [b])) (tx_of txs ''setBridge'')"

record 'm scenario_data =
  sd_mediums :: "(string \<times> 'm) list"
  sd_bins :: "(string \<times> rat list) list"
  sd_tx_bins :: "(string \<times> rat list) list"

record 'm medium_total =
  mt_medium :: string
  mt_app :: rat
  mt_wire :: rat
  mt_model :: 'm

definition scenarioTotals :: "'m scenario_data \<Rightarrow> 'm medium_total list" where
  "scenarioTotals scenario =
     map (\<lambda>(medium, model).
       \<lparr>mt_medium = medium,
        mt_app = foldl (+) 0 (get_or [] (sd_bins scenario) medium),
        mt_wire = foldl (+) 0 (get_or [] (sd_tx_bins scenario) medium),
        mt_model = model\<rparr>) (sd_mediums scenario)"

section \<open>Routes\<close>

record nav_route =
  rt_path :: string
  rt_label :: string

definition route_hit :: "string \<Rightarrow> string \<Rightarrow> bool" where
  "route_hit pathname path =
     (if path = ''/'' then pathname = ''/'' else pathname = path \<or> starts_with (path @ ''/'') pathname)"

definition better :: "string \<Rightarrow> nav_route option \<Rightarrow> nav_route \<Rightarrow> nav_route option" where
  "better pathname best r =
     (if route_hit pathname (rt_path r) \<and> (case best of None \<Rightarrow> True | Some b \<Rightarrow> length (rt_path b) < length (rt_path r))
      then Some r else best)"

definition routeFor :: "nav_route list \<Rightarrow> string \<Rightarrow> nav_route option" where
  "routeFor nav pathname = foldl (better pathname) None nav"

section \<open>What the adapters keep\<close>

text \<open>Every address has one row and one key, whatever the case it is written in, and no role is lost.\<close>

lemma add_to_row_keys: "map (\<lambda>r. lower (br_address r)) (add_to_row key role rows) = map (\<lambda>r. lower (br_address r)) rows"
  by (induction rows) auto

lemma add_to_row_roles:
  "key \<in> set (map (\<lambda>r. lower (br_address r)) rows) \<Longrightarrow>
   mset (concat (map br_roles (add_to_row key role rows))) = mset (concat (map br_roles rows)) + {#role#}"
  by (induction rows) auto

lemma push_rows_ok:
  "distinct (map (\<lambda>r. lower (br_address r)) rows) \<Longrightarrow>
   distinct (map (\<lambda>r. lower (br_address r)) (foldl (push_row kind) rows es)) \<and>
   mset (concat (map br_roles (foldl (push_row kind) rows es))) = mset (concat (map br_roles rows)) + mset (map fst es)"
proof (induction es arbitrary: rows)
  case (Cons e es)
  obtain role address where e: "e = (role, address)" by (cases e)
  show ?case
  proof (cases "lower address \<in> set (map (\<lambda>r. lower (br_address r)) rows)")
    case True
    with Cons.IH [of "add_to_row (lower address) role rows"] Cons.prems show ?thesis
      by (simp add: e push_row_def add_to_row_keys add_to_row_roles)
  next
    case False
    with Cons.IH [of "rows @ [\<lparr>br_kind = kind, br_roles = [role], br_address = address\<rparr>]"] Cons.prems show ?thesis
      by (simp add: e push_row_def)
  qed
qed simp

lemma address_book_complete:
  "distinct (map (\<lambda>r. lower (br_address r)) (ADDRESS_BOOK actors contracts)) \<and>
   mset (concat (map br_roles (ADDRESS_BOOK actors contracts))) = mset (map fst (contracts @ actors))"
  using push_rows_ok [of "[]" "''contract''" contracts]
    push_rows_ok [of "foldl (push_row ''contract'') [] contracts" "''account''" actors]
  by (simp add: ADDRESS_BOOK_def)

text \<open>\<open>routeFor\<close> answers a matching route with the longest path, and none only when no route matches.\<close>

lemma better_best:
  assumes "foldl (better pathname) best nav = res"
  shows "(case res of
      None \<Rightarrow> best = None \<and> list_all (\<lambda>r. \<not> route_hit pathname (rt_path r)) nav
    | Some b \<Rightarrow> (best = Some b \<or> b \<in> set nav \<and> route_hit pathname (rt_path b)) \<and>
        list_all (\<lambda>r. route_hit pathname (rt_path r) \<longrightarrow> length (rt_path r) \<le> length (rt_path b)) nav \<and>
        (\<forall>c. best = Some c \<longrightarrow> length (rt_path c) \<le> length (rt_path b)))"
  using assms
proof (induction nav arbitrary: best)
  case (Cons r nav)
  from Cons.IH [of "better pathname best r"] Cons.prems show ?case
    by (cases res; cases best; auto simp: better_def split: if_splits)
qed (auto split: option.splits)

lemma routeFor_longest:
  "case routeFor nav pathname of
     None \<Rightarrow> list_all (\<lambda>r. \<not> route_hit pathname (rt_path r)) nav
   | Some b \<Rightarrow> b \<in> set nav \<and> route_hit pathname (rt_path b) \<and>
       list_all (\<lambda>r. route_hit pathname (rt_path r) \<longrightarrow> length (rt_path r) \<le> length (rt_path b)) nav"
  using better_best [of pathname None nav] by (auto simp: routeFor_def split: option.splits)

end
