(* ===== verification/Scrape.thy ===== *)
theory Scrape
  imports World GateToken
begin

text \<open>
  How \<open>scripts/scout/local.mjs\<close> reads a shop's page: the regular expressions of the adapters, \<open>decode\<close>, \<open>kes\<close> and
  \<open>encodeURIComponent\<close>.  A pattern is a list of groups, each capturing or not, of literals, alternatives of literals
  and counted repetitions of a character class, greedy or lazy; the matcher backtracks in the order of JavaScript.

  The lemmas show that the matcher finds a match exactly where the pattern has one, that every capture is of the
  language of its group, that \<open>decode\<close> answers a trimmed line of single spaces, and that \<open>kes\<close> reads back a price
  printed in shillings.
\<close>

section \<open>Patterns\<close>

datatype rx =
    Lit ustr
  | OneOf "ustr list"
  | Rep bool nat "nat option" "nat \<Rightarrow> bool"
      \<comment> \<open>lazy, the least and the greatest number, the class\<close>

type_synonym pattern = "(bool \<times> rx list) list"

fun first_some :: "('a \<Rightarrow> 'b option) \<Rightarrow> 'a list \<Rightarrow> 'b option" where
  "first_some f [] = None"
| "first_some f (x # xs) = (case f x of None \<Rightarrow> first_some f xs | Some y \<Rightarrow> Some y)"

definition rep_counts :: "bool \<Rightarrow> nat \<Rightarrow> nat option \<Rightarrow> (nat \<Rightarrow> bool) \<Rightarrow> ustr \<Rightarrow> nat list" where
  \<comment> \<open>the lengths a repetition tries, in order\<close>
  "rep_counts lazy lo hi P s =
     (let k = length (takeWhile P s);
          top = (case hi of None \<Rightarrow> k | Some h \<Rightarrow> min h k);
          ns = [lo..<Suc top]
      in if lazy then ns else rev ns)"

primrec rx_items :: "rx list \<Rightarrow> (ustr \<Rightarrow> 'a option) \<Rightarrow> ustr \<Rightarrow> 'a option" where
  "rx_items [] k s = k s"
| "rx_items (i # items) k s =
     (case i of
        Lit l \<Rightarrow> if starts_with l s then rx_items items k (drop (length l) s) else None
      | OneOf ls \<Rightarrow> first_some (\<lambda>l. if starts_with l s then rx_items items k (drop (length l) s) else None) ls
      | Rep lazy lo hi P \<Rightarrow> first_some (\<lambda>n. rx_items items k (drop n s)) (rep_counts lazy lo hi P s))"

fun rx_groups :: "pattern \<Rightarrow> ustr \<Rightarrow> (ustr list \<times> ustr) option" where
  \<comment> \<open>the captures of a match at the front, and what follows it\<close>
  "rx_groups [] s = Some ([], s)"
| "rx_groups ((cap, items) # gs) s =
     rx_items items
       (\<lambda>t. map_option (\<lambda>(cs, rest). (if cap then take (length s - length t) s # cs else cs, rest)) (rx_groups gs t)) s"

fun first_match :: "pattern \<Rightarrow> ustr \<Rightarrow> ustr list option" where
  \<comment> \<open>\<open>text.match(re)\<close> without its whole match\<close>
  "first_match re [] = map_option fst (rx_groups re [])"
| "first_match re (c # s) =
     (case rx_groups re (c # s) of Some (cs, _) \<Rightarrow> Some cs | None \<Rightarrow> first_match re s)"

function matchAll :: "pattern \<Rightarrow> ustr \<Rightarrow> ustr list list" where
  \<comment> \<open>\<open>text.matchAll(re)\<close> for a pattern with the flag g that begins with a literal\<close>
  "matchAll re [] = []"
| "matchAll re (c # s) =
     (case rx_groups re (c # s) of
        None \<Rightarrow> matchAll re s
      | Some (cs, rest) \<Rightarrow> cs # matchAll re (if length rest \<le> length s then rest else s))"
  by pat_completeness auto
termination
  by (relation "measure (\<lambda>(re, s). length s)") auto

subsection \<open>The language of a pattern\<close>

fun rx_one :: "rx \<Rightarrow> ustr \<Rightarrow> bool" where
  "rx_one (Lit l) a \<longleftrightarrow> a = l"
| "rx_one (OneOf ls) a \<longleftrightarrow> a \<in> set ls"
| "rx_one (Rep lazy lo hi P) a \<longleftrightarrow>
     lo \<le> length a \<and> (case hi of None \<Rightarrow> True | Some h \<Rightarrow> length a \<le> h) \<and> list_all P a"

fun rx_lang :: "rx list \<Rightarrow> ustr \<Rightarrow> bool" where
  "rx_lang [] c \<longleftrightarrow> c = []"
| "rx_lang (i # items) c \<longleftrightarrow> (\<exists>a b. c = a @ b \<and> rx_one i a \<and> rx_lang items b)"

lemma first_some_conv: "first_some f xs = Some y \<Longrightarrow> \<exists>x \<in> set xs. f x = Some y"
  by (induction xs) (auto split: option.splits)

lemma first_some_none: "first_some f xs = None \<longleftrightarrow> (\<forall>x \<in> set xs. f x = None)"
  by (induction xs) (auto split: option.splits)

lemma starts_with_conv: "starts_with p s \<longleftrightarrow> (\<exists>t. s = p @ t)"
  by (auto simp: starts_with_def) (metis append_take_drop_id)

lemma takeWhile_count: "n \<le> length (takeWhile P s) \<longleftrightarrow> n \<le> length s \<and> list_all P (take n s)"
proof (induction s arbitrary: n)
  case (Cons c s)
  then show ?case by (cases n) auto
qed auto

lemma rep_counts_conv:
  "n \<in> set (rep_counts lazy lo hi P s) \<longleftrightarrow> n \<le> length s \<and> rx_one (Rep lazy lo hi P) (take n s)"
  using takeWhile_count [of n P s]
  by (auto simp: rep_counts_def Let_def min_def split: option.splits)

lemma rx_items_sound:
  "rx_items items k s = Some y \<Longrightarrow> \<exists>c t. s = c @ t \<and> rx_lang items c \<and> k t = Some y"
proof (induction items arbitrary: s)
  case (Cons i items)
  have "\<exists>a b. s = a @ b \<and> rx_one i a \<and> rx_items items k b = Some y"
  proof (cases i)
    case (Lit l)
    with Cons.prems show ?thesis by (auto simp: starts_with_conv split: if_splits)
  next
    case (OneOf ls)
    with Cons.prems obtain l where "l \<in> set ls" "starts_with l s" "rx_items items k (drop (length l) s) = Some y"
      by (auto dest!: first_some_conv split: if_splits)
    with OneOf show ?thesis using starts_with_conv [of l s] by (metis append_eq_conv_conj rx_one.simps(2))
  next
    case (Rep lz lo hi P)
    with Cons.prems obtain n where n: "n \<in> set (rep_counts lz lo hi P s)" "rx_items items k (drop n s) = Some y"
      by (auto dest!: first_some_conv)
    then have "rx_one i (take n s)" using Rep rep_counts_conv by blast
    with n(2) show ?thesis by (metis append_take_drop_id)
  qed
  then obtain a b where ab: "s = a @ b" "rx_one i a" "rx_items items k b = Some y" by blast
  obtain c t where "b = c @ t" "rx_lang items c" "k t = Some y" using Cons.IH [OF ab(3)] by blast
  with ab show ?case by (intro exI [of _ "a @ c"] exI [of _ t]) auto
qed auto

lemma rx_items_complete:
  "rx_lang items c \<Longrightarrow> k t \<noteq> None \<Longrightarrow> rx_items items k (c @ t) \<noteq> None"
proof (induction items arbitrary: c)
  case (Cons i items)
  then obtain a b where ab: "c = a @ b" "rx_one i a" "rx_lang items b" by auto
  have rest: "rx_items items k (b @ t) \<noteq> None" using Cons.IH ab(3) Cons.prems(2) by blast
  show ?case
  proof (cases i)
    case (Lit l)
    with ab rest show ?thesis by simp
  next
    case (OneOf ls)
    with ab rest show ?thesis by (auto simp: first_some_none intro!: bexI [of _ a])
  next
    case (Rep lz lo hi P)
    have "length a \<in> set (rep_counts lz lo hi P (c @ t))" using ab Rep by (simp add: rep_counts_conv)
    with ab rest Rep show ?thesis by (auto simp: first_some_none intro!: bexI [of _ "length a"])
  qed
qed auto

definition fits :: "pattern \<Rightarrow> ustr list \<Rightarrow> bool" where
  \<comment> \<open>one piece of text for each group, of its language\<close>
  "fits gs parts \<longleftrightarrow> list_all2 (\<lambda>g a. rx_lang (snd g) a) gs parts"

fun captures :: "pattern \<Rightarrow> ustr list \<Rightarrow> ustr list" where
  "captures (g # gs) (a # parts) = (if fst g then a # captures gs parts else captures gs parts)"
| "captures gs parts = []"

lemma rx_groups_sound:
  "rx_groups gs s = Some (cs, rest) \<Longrightarrow> \<exists>parts. s = concat parts @ rest \<and> fits gs parts \<and> cs = captures gs parts"
proof (induction gs arbitrary: s cs rest)
  case Nil
  then show ?case by (auto simp: fits_def)
next
  case (Cons g gs)
  obtain cap items where g: "g = (cap, items)" by (cases g)
  let ?k = "\<lambda>t. map_option (\<lambda>(cs, rest). (if cap then take (length s - length t) s # cs else cs, rest)) (rx_groups gs t)"
  have "rx_items items ?k s = Some (cs, rest)" using Cons.prems by (simp add: g)
  from rx_items_sound [OF this] obtain c t where ct: "s = c @ t" "rx_lang items c" "?k t = Some (cs, rest)" by blast
  from ct(3) obtain cs' where cs': "rx_groups gs t = Some (cs', rest)"
      "cs = (if cap then take (length s - length t) s # cs' else cs')"
    by (auto simp only: map_option_eq_Some split_paired_Ex case_prod_conv prod.inject)
  obtain parts where p: "t = concat parts @ rest" "fits gs parts" "cs' = captures gs parts" using Cons.IH [OF cs'(1)] by blast
  have "cs = captures (g # gs) (c # parts)" using cs'(2) p(3) ct(1) by (simp add: g)
  moreover have "fits (g # gs) (c # parts)" using ct(2) p(2) by (simp add: fits_def g)
  moreover have "s = concat (c # parts) @ rest" using ct(1) p(1) by simp
  ultimately show ?case by blast
qed

lemma rx_groups_complete: "fits gs parts \<Longrightarrow> rx_groups gs (concat parts @ rest) \<noteq> None"
proof (induction gs arbitrary: parts)
  case (Cons g gs)
  obtain cap items where g: "g = (cap, items)" by (cases g)
  obtain a ps where p: "parts = a # ps" "rx_lang items a" "fits gs ps"
    using Cons.prems g by (cases parts) (auto simp: fits_def)
  have tl: "rx_groups gs (concat ps @ rest) \<noteq> None" using Cons.IH p(3) by blast
  let ?s = "a @ concat ps @ rest"
  let ?k = "\<lambda>t. map_option (\<lambda>(cs, rest). (if cap then take (length ?s - length t) ?s # cs else cs, rest)) (rx_groups gs t)"
  have "?k (concat ps @ rest) \<noteq> None" using tl by simp
  then have "rx_items items ?k ?s \<noteq> None" by (rule rx_items_complete [OF p(2)])
  moreover have "rx_groups (g # gs) (concat parts @ rest) = rx_items items ?k ?s"
    by (simp only: g p(1) rx_groups.simps concat.simps append_assoc)
  ultimately show ?case by simp
qed (simp add: fits_def)

lemma rx_groups_iff: "rx_groups gs s \<noteq> None \<longleftrightarrow> (\<exists>parts rest. s = concat parts @ rest \<and> fits gs parts)"
  using rx_groups_sound rx_groups_complete by fastforce

lemma matchAll_fits: "cs \<in> set (matchAll re s) \<Longrightarrow> \<exists>parts. fits re parts \<and> cs = captures re parts"
proof (induction re s rule: matchAll.induct)
  case (2 re c s)
  then show ?case by (auto split: option.splits prod.splits dest: rx_groups_sound)
qed simp

lemma first_match_iff: "first_match re s = None \<longleftrightarrow> \<not> (\<exists>before parts rest. s = before @ concat parts @ rest \<and> fits re parts)"
proof (induction re s rule: first_match.induct)
  case (1 re)
  then show ?case using rx_groups_iff [of re "[]"] by auto
next
  case (2 re c s)
  have "(\<exists>before parts rest. c # s = before @ concat parts @ rest \<and> fits re parts) \<longleftrightarrow>
        rx_groups re (c # s) \<noteq> None \<or> (\<exists>before parts rest. s = before @ concat parts @ rest \<and> fits re parts)"
    unfolding rx_groups_iff by (auto simp: Cons_eq_append_conv) metis+
  with 2 show ?case by (auto split: option.splits)
qed

section \<open>Texts\<close>

fun subst_any :: "ustr list \<Rightarrow> ustr \<Rightarrow> ustr \<Rightarrow> ustr" where
  \<comment> \<open>\<open>replace(/p|q/g, r)\<close> for literals that are not empty\<close>
  "subst_any ps r [] = []"
| "subst_any ps r (c # s) =
     (case find (\<lambda>p. starts_with p (c # s)) ps of
        Some p \<Rightarrow> r @ subst_any ps r (drop (length p - 1) s)
      | None \<Rightarrow> c # subst_any ps r s)"

function squeeze :: "ustr \<Rightarrow> ustr" where
  \<comment> \<open>\<open>replace(/\s+/g, ' ')\<close>\<close>
  "squeeze [] = []"
| "squeeze (c # s) = (if u_ws c then 32 # squeeze (dropWhile u_ws s) else c # squeeze s)"
  by pat_completeness auto
termination
  by (relation "measure length") (auto simp: less_Suc_eq_le length_dropWhile_le)

definition decode :: "ustr \<Rightarrow> ustr" where
  "decode s =
     u_trim (squeeze
       (subst_any [u ''&#039;''] (u [CHR 0x27])
         (subst_any [u ''&quot;''] (u [CHR 0x22])
           (subst_any [u ''&#8217;''] (u [CHR 0x27])
             (subst_any [u ''&#8211;''] (u ''-'')
               (subst_any [u ''&#038;'', u ''&#38;''] (u ''&'')
                 (subst_any [u ''&amp;''] (u ''&'') s)))))))"

definition read_kes :: "ustr \<Rightarrow> int option" where
  "read_kes s =
     (let from_digit = dropWhile (\<lambda>c. \<not> dec_digit c) (filter (\<lambda>c. c \<noteq> 44) s);
          ds = takeWhile dec_digit from_digit;
          after = dropWhile dec_digit from_digit;
          fs = (case after of c # r \<Rightarrow> if c = 46 then takeWhile dec_digit r else [] | [] \<Rightarrow> [])
      in if ds = [] then None
         else Some (js_round (of_nat (digits_value 0 (ds @ fs)) / 10 ^ length fs)))"

fun paired :: "ustr \<Rightarrow> bool" where
  \<comment> \<open>no lone surrogate\<close>
  "paired [] = True"
| "paired [c] = (\<not> (0xD800 \<le> c \<and> c \<le> 0xDFFF))"
| "paired (c # d # s) =
     (if 0xD800 \<le> c \<and> c \<le> 0xDBFF \<and> 0xDC00 \<le> d \<and> d \<le> 0xDFFF then paired s
      else \<not> (0xD800 \<le> c \<and> c \<le> 0xDFFF) \<and> paired (d # s))"

definition component_encoded :: "nat \<Rightarrow> bool" where
  "component_encoded c \<longleftrightarrow>
     \<not> (dec_digit c \<or> (65 \<le> c \<and> c \<le> 90) \<or> (97 \<le> c \<and> c \<le> 122) \<or> c \<in> {33, 39, 40, 41, 42, 45, 46, 95, 126})"

definition encode_component :: "ustr \<Rightarrow> ustr option" where
  \<comment> \<open>\<open>encodeURIComponent\<close>, \<^term>\<open>None\<close> where it throws a \<open>URIError\<close>\<close>
  "encode_component s =
     (if paired s then Some (concat (map (encode_point component_encoded) (code_points s))) else None)"

subsection \<open>Decoded texts\<close>

fun spaced :: "ustr \<Rightarrow> bool" where
  \<comment> \<open>white space is single spaces\<close>
  "spaced (c # d # s) \<longleftrightarrow> (u_ws c \<longrightarrow> c = 32 \<and> \<not> u_ws d) \<and> spaced (d # s)"
| "spaced [c] \<longleftrightarrow> (u_ws c \<longrightarrow> c = 32)"
| "spaced [] \<longleftrightarrow> True"

lemma squeeze_Cons: "spaced (squeeze s) \<and> (s \<noteq> [] \<longrightarrow> squeeze s \<noteq> [] \<and> u_ws (hd (squeeze s)) = u_ws (hd s))"
proof (induction s rule: squeeze.induct)
  case (2 c s)
  have ws: "u_ws 32" by (simp add: u_ws_def)
  show ?case
  proof (cases "u_ws c")
    case True
    let ?r = "dropWhile u_ws s"
    show ?thesis
    proof (cases ?r)
      case Nil
      with True ws show ?thesis by (simp only: squeeze.simps spaced.simps) simp
    next
      case (Cons d r)
      then have "\<not> u_ws d" using hd_dropWhile [of u_ws s] by simp
      with 2(1) True ws Cons show ?thesis by (cases "squeeze ?r") (simp_all del: squeeze.simps add: squeeze.simps(2) [of c])
    qed
  next
    case False
    with 2(2) show ?thesis by (cases "squeeze s") auto
  qed
qed simp

lemma spaced_append: "spaced (a @ b) \<Longrightarrow> spaced a \<and> spaced b"
  by (induction a rule: spaced.induct) (auto, (case_tac b; auto)+)

lemma dropWhile_suffix: "\<exists>a. s = a @ dropWhile P s"
  by (metis takeWhile_dropWhile_id)

lemma u_trim_piece: "\<exists>a b. s = a @ u_trim s @ b"
proof -
  obtain a where a: "s = a @ dropWhile u_ws s" using dropWhile_suffix by blast
  obtain b where "rev (dropWhile u_ws s) = b @ dropWhile u_ws (rev (dropWhile u_ws s))" using dropWhile_suffix by blast
  then have "dropWhile u_ws s = u_trim s @ rev b" unfolding u_trim_def by (metis rev_append rev_rev_ident)
  with a show ?thesis by metis
qed

lemma u_trim_ends: "u_trim s \<noteq> [] \<Longrightarrow> \<not> u_ws (hd (u_trim s)) \<and> \<not> u_ws (last (u_trim s))"
proof
  let ?d = "dropWhile u_ws s"
  assume ne: "u_trim s \<noteq> []"
  then have r: "dropWhile u_ws (rev ?d) \<noteq> []" by (simp add: u_trim_def)
  then show "\<not> u_ws (last (u_trim s))" unfolding u_trim_def using hd_dropWhile [OF r] by (simp add: last_rev)
  obtain b where "rev ?d = b @ dropWhile u_ws (rev ?d)" using dropWhile_suffix by blast
  then have d: "?d = u_trim s @ rev b" unfolding u_trim_def by (metis rev_append rev_rev_ident)
  then have "?d \<noteq> []" "hd ?d = hd (u_trim s)" using ne by simp_all
  then show "\<not> u_ws (hd (u_trim s))" using hd_dropWhile [of u_ws s] by simp
qed

lemma decode_line:
  "spaced (decode s) \<and> (decode s \<noteq> [] \<longrightarrow> \<not> u_ws (hd (decode s)) \<and> \<not> u_ws (last (decode s)))"
  unfolding decode_def using u_trim_ends squeeze_Cons u_trim_piece spaced_append by metis

lemma set_subst_any: "set (subst_any ps r s) \<subseteq> set s \<union> set r"
proof (induction ps r s rule: subst_any.induct)
  case (2 ps r c s)
  then show ?case by (auto split: option.splits dest: in_set_dropD)
qed simp

lemma set_squeeze: "set (squeeze s) \<subseteq> insert 32 (set s)"
proof (induction s rule: squeeze.induct)
  case (2 c s)
  then show ?case by (auto dest: set_dropWhileD)
qed simp

lemma set_u_trim: "set (u_trim s) \<subseteq> set s"
  unfolding u_trim_def by (auto dest!: set_dropWhileD)

lemma decode_no_new: "c \<in> set (decode s) \<Longrightarrow> c \<in> set s \<or> c \<in> {32, 34, 38, 39, 45}"
proof -
  let ?a = "subst_any [u ''&amp;''] (u ''&'') s"
  let ?b = "subst_any [u ''&#038;'', u ''&#38;''] (u ''&'') ?a"
  let ?c = "subst_any [u ''&#8211;''] (u ''-'') ?b"
  let ?d = "subst_any [u ''&#8217;''] (u [CHR 0x27]) ?c"
  let ?e = "subst_any [u ''&quot;''] (u [CHR 0x22]) ?d"
  let ?f = "subst_any [u ''&#039;''] (u [CHR 0x27]) ?e"
  assume "c \<in> set (decode s)"
  then have "c = 32 \<or> c \<in> set ?f" unfolding decode_def using set_u_trim set_squeeze by blast
  moreover have "set ?a \<subseteq> set s \<union> {38}" "set ?b \<subseteq> set ?a \<union> {38}" "set ?c \<subseteq> set ?b \<union> {45}"
    "set ?d \<subseteq> set ?c \<union> {39}" "set ?e \<subseteq> set ?d \<union> {34}" "set ?f \<subseteq> set ?e \<union> {39}"
    using set_subst_any [of "[u ''&amp;'']" "u ''&''" s] set_subst_any [of "[u ''&#038;'', u ''&#38;'']" "u ''&''" ?a]
      set_subst_any [of "[u ''&#8211;'']" "u ''-''" ?b] set_subst_any [of "[u ''&#8217;'']" "u [CHR 0x27]" ?c]
      set_subst_any [of "[u ''&quot;'']" "u [CHR 0x22]" ?d] set_subst_any [of "[u ''&#039;'']" "u [CHR 0x27]" ?e]
    by simp_all
  ultimately show ?thesis by blast
qed

subsection \<open>Prices\<close>

lemma filter_group3: "filter (\<lambda>c. c \<noteq> CHR '','') (group3 s) = filter (\<lambda>c. c \<noteq> CHR '','') s"
  by (induction s rule: group3.induct) auto

lemma plain_grouped: "filter (\<lambda>c. c \<noteq> CHR '','') (grouped n) = nat_str n"
proof -
  have "c \<noteq> CHR '',''" if "c \<in> set (nat_str n)" for c
    using that u_nat_str_digits [of n] by (auto simp: u_def list_all_iff dec_digit_def)
  then show ?thesis
    unfolding grouped_def by (simp add: rev_filter [symmetric] filter_group3 filter_id_conv)
qed

lemma u_filter: "filter (\<lambda>c. c \<noteq> 44) (u s) = u (filter (\<lambda>c. c \<noteq> CHR '','') s)"
proof (induction s)
  case (Cons c s)
  have "of_char c = (of_char (CHR '','') :: nat) \<longleftrightarrow> c = CHR '',''" by (rule of_char_eq_iff)
  with Cons show ?case by simp
qed simp

lemma kes_grouped:
  assumes p: "\<And>c. c \<in> set p \<Longrightarrow> \<not> dec_digit c"
    and q: "q = [] \<or> \<not> dec_digit (hd q) \<and> hd q \<noteq> 44 \<and> hd q \<noteq> 46"
  shows "read_kes (p @ u (grouped n) @ q) = Some (int n)"
proof -
  let ?f = "filter (\<lambda>c. c \<noteq> 44)"
  have ds: "?f (u (grouped n)) = u (nat_str n)" by (simp add: u_filter plain_grouped)
  have dig: "dec_digit c" if "c \<in> set (u (nat_str n))" for c
    using that u_nat_str_digits [of n] by (auto simp: list_all_iff)
  have ne: "u (nat_str n) \<noteq> []" by (metis length_0_conv length_u nat_str_nonempty)
  have hd: "?f q = [] \<or> \<not> dec_digit (hd (?f q)) \<and> hd (?f q) \<noteq> 46" using q by (cases q) auto
  have "dropWhile (\<lambda>c. \<not> dec_digit c) (u (nat_str n) @ ?f q) = u (nat_str n) @ ?f q"
    using dig ne by (cases "u (nat_str n)") auto
  moreover have "dropWhile (\<lambda>c. \<not> dec_digit c) (?f p @ u (nat_str n) @ ?f q)
      = dropWhile (\<lambda>c. \<not> dec_digit c) (u (nat_str n) @ ?f q)"
    using p by (intro dropWhile_append2) auto
  moreover have "?f (p @ u (grouped n) @ q) = ?f p @ u (nat_str n) @ ?f q" by (simp add: ds)
  ultimately have start: "dropWhile (\<lambda>c. \<not> dec_digit c) (?f (p @ u (grouped n) @ q)) = u (nat_str n) @ ?f q"
    by simp
  have "takeWhile dec_digit (u (nat_str n) @ ?f q) = u (nat_str n)"
    using dig hd by (cases "?f q") (simp_all add: takeWhile_append2 takeWhile_tail)
  moreover have "dropWhile dec_digit (u (nat_str n) @ ?f q) = ?f q"
    using dig hd by (cases "?f q") (simp_all add: dropWhile_append2)
  moreover have "(case ?f q of c # r \<Rightarrow> if c = 46 then takeWhile dec_digit r else [] | [] \<Rightarrow> []) = []"
    using hd by (cases "?f q") auto
  moreover have "js_round (rat_of_nat n) = int n" using js_round_of_int [of "int n"] by simp
  ultimately show ?thesis unfolding read_kes_def Let_def start using ne by (simp add: digits_value_nat_str)
qed

subsection \<open>Queries\<close>

definition query_unit :: "nat \<Rightarrow> bool" where
  \<comment> \<open>what can stand in a query's value: unreserved characters and the percent sign\<close>
  "query_unit c \<longleftrightarrow> \<not> component_encoded c \<or> c = 37"

definition encode_unit :: "nat \<Rightarrow> ustr" where
  "encode_unit c = (if component_encoded c then pct c else [c])"

lemma hex_up_query: "d < 16 \<Longrightarrow> query_unit (hex_up d)"
  by (auto simp: hex_up_def query_unit_def component_encoded_def dec_digit_def)

lemma encode_unit_query:
  assumes "c < 128" and "x \<in> set (encode_unit c)"
  shows "query_unit x"
proof (cases "component_encoded c")
  case True
  with assms(2) have "x = 37 \<or> x = hex_up (c div 16) \<or> x = hex_up (c mod 16)" by (simp add: encode_unit_def pct_def)
  moreover have "query_unit 37" by (simp add: query_unit_def)
  moreover have "query_unit (hex_up (c div 16))" and "query_unit (hex_up (c mod 16))"
    using assms(1) by (simp_all add: hex_up_query)
  ultimately show ?thesis by blast
next
  case False
  with assms(2) show ?thesis by (simp add: encode_unit_def query_unit_def)
qed

lemma hex_unit_up: "d < 16 \<Longrightarrow> hex_unit (hex_up d) = Some d"
  by (simp add: hex_unit_def hex_up_def)

lemma encode_ascii: "list_all (\<lambda>c. c < 128) s \<Longrightarrow> encode_component s = Some (concat (map encode_unit s))"
proof -
  assume a: "list_all (\<lambda>c. c < 128) s"
  then have "paired s" by (induction s rule: paired.induct) auto
  moreover have "code_points s = s" using a by (induction s rule: code_points.induct) auto
  moreover have "encode_point component_encoded c = encode_unit c" if "c < 128" for c
    using that by (simp add: encode_point_def encode_unit_def utf8_point_def)
  then have "map (encode_point component_encoded) s = map encode_unit s" using a by (simp add: list_all_iff)
  ultimately show ?thesis unfolding encode_component_def by metis
qed

lemma encode_query_units:
  assumes "list_all (\<lambda>c. c < 128) s" and "encode_component s = Some q"
  shows "list_all query_unit q"
proof -
  have q: "q = concat (map encode_unit s)" using assms by (simp add: encode_ascii)
  have "query_unit x" if "x \<in> set q" for x
  proof -
    from that obtain c where "c \<in> set s" "x \<in> set (encode_unit c)" unfolding q by auto
    then show ?thesis using assms(1) encode_unit_query by (auto simp: list_all_iff)
  qed
  then show ?thesis by (simp add: list_all_iff)
qed

lemma decode_encode_ascii:
  assumes "list_all (\<lambda>c. c < 128) s"
  shows "Option.bind (encode_component s) decode_uri = Some s"
proof -
  have "decode_uri (concat (map encode_unit s)) = Some s"
    using assms
  proof (induction s)
    case (Cons c s)
    have c: "c < 128" and IH: "decode_uri (concat (map encode_unit s)) = Some s" using Cons by simp_all
    have "hex_unit (hex_up (c div 16)) = Some (c div 16)" "hex_unit (hex_up (c mod 16)) = Some (c mod 16)"
      using c by (simp_all add: hex_unit_up)
    then have byte: "pct_byte (hex_up (c div 16) # hex_up (c mod 16) # t) = Some (c, t)" for t
      by (simp add: pct_byte_def)
    have plain: "c \<noteq> 37" if "\<not> component_encoded c" using that by (auto simp: component_encoded_def dec_digit_def)
    show ?case
    proof (cases "component_encoded c")
      case True
      then have "encode_unit c = [37, hex_up (c div 16), hex_up (c mod 16)]" by (simp add: encode_unit_def pct_def)
      with c IH byte show ?thesis by simp
    next
      case False
      then have "encode_unit c = [c]" by (simp add: encode_unit_def)
      with plain [OF False] IH show ?thesis by simp
    qed
  qed simp
  then show ?thesis using assms by (simp add: encode_ascii)
qed

end
