(* ===== verification/Stores.thy ===== *)
theory Stores
  imports Scrape TextLines
begin

text \<open>
  The shops of \<open>scripts/scout/local.mjs\<close>: the request with its redirects, the DNS cache, one adapter for each shop
  and \<open>searchStore\<close>.  The network, the messages of errors, the printing of numbers and \<open>toLowerCase\<close> are the fields of
  the record \<open>net\<close>; an error is the kind of failure.  A \<open>Location\<close> header that is no URL, which ends the
  process, is not modelled; a minor unit is an integer.  In a literal a tilde stands for the double quote.
\<close>

section \<open>Requests\<close>

datatype fail = Refused ustr | BadJson ustr | BadUri | BadType

record response =
  rs_status :: int
  rs_location :: "ustr option"
  rs_text :: ustr

record net =
  nt_http :: "ustr \<Rightarrow> string \<Rightarrow> fail + response"
  nt_resolve :: "ustr \<Rightarrow> ustr \<Rightarrow> ustr"
  nt_message :: "fail \<Rightarrow> ustr"
  nt_num :: "rat \<Rightarrow> ustr"
  nt_lower :: "ustr \<Rightarrow> ustr"

definition dns_lookup ::
    "(ustr \<Rightarrow> fail + ustr list) \<Rightarrow> (ustr \<rightharpoonup> ustr) \<Rightarrow> ustr \<Rightarrow> (fail + ustr) \<times> (ustr \<rightharpoonup> ustr)" where
  \<comment> \<open>\<open>lookup\<close>: the address handed to the callback and the cache after; \<open>resolve4\<close> answers at least one address\<close>
  "dns_lookup resolve4 cache name =
     (case cache name of
        Some a \<Rightarrow> (Inr a, cache)
      | None \<Rightarrow>
          (case resolve4 name of
             Inl e \<Rightarrow> (Inl e, cache)
           | Inr found \<Rightarrow> (Inr (hd found), cache(name \<mapsto> hd found))))"

definition redirects :: "response \<Rightarrow> ustr option" where
  "redirects res =
     (if rs_status res \<in> {301, 302, 303, 307, 308} then
        (case rs_location res of Some l \<Rightarrow> if l = [] then None else Some l | None \<Rightarrow> None)
      else None)"

function get_page :: "net \<Rightarrow> ustr \<Rightarrow> string \<Rightarrow> nat \<Rightarrow> fail + ustr" where
  \<comment> \<open>\<open>get\<close>: the text of the page; the status is not looked at\<close>
  "get_page N url accept hops =
     (case nt_http N url accept of
        Inl e \<Rightarrow> Inl e
      | Inr res \<Rightarrow>
          (case redirects res of
             Some l \<Rightarrow> if hops < 5 then get_page N (nt_resolve N l url) accept (hops + 1) else Inr (rs_text res)
           | None \<Rightarrow> Inr (rs_text res)))"
  by pat_completeness auto
termination
  by (relation "measure (\<lambda>(N, url, accept, hops). 5 - hops)") auto

declare get_page.simps [simp del]

section \<open>Values of a JSON document\<close>

definition and_then :: "fail + 'a \<Rightarrow> ('a \<Rightarrow> fail + 'b) \<Rightarrow> fail + 'b" where
  "and_then m f = (case m of Inl e \<Rightarrow> Inl e | Inr x \<Rightarrow> f x)"

lemma and_then_simps [simp]: "and_then (Inl e) f = Inl e" "and_then (Inr x) f = f x"
  by (simp_all add: and_then_def)

lemma and_then_Inr: "and_then m f = Inr y \<longleftrightarrow> (\<exists>x. m = Inr x \<and> f x = Inr y)"
  by (cases m) auto

fun each :: "('a \<Rightarrow> fail + 'b) \<Rightarrow> 'a list \<Rightarrow> fail + 'b list" where
  \<comment> \<open>\<open>map\<close> with a function that may throw\<close>
  "each f [] = Inr []"
| "each f (x # xs) = and_then (f x) (\<lambda>y. and_then (each f xs) (\<lambda>ys. Inr (y # ys)))"

definition parse_json :: "ustr \<Rightarrow> fail + json" where
  "parse_json s = (case json_parse s of None \<Rightarrow> Inl (BadJson s) | Some j \<Rightarrow> Inr j)"

definition member :: "string \<Rightarrow> json \<Rightarrow> json option" where
  \<comment> \<open>the last member of a name counts\<close>
  "member k j = (case j of JObject ms \<Rightarrow> map_of (rev ms) (u k) | _ \<Rightarrow> None)"

definition field :: "string \<Rightarrow> json option \<Rightarrow> fail + json option" where
  \<comment> \<open>\<open>v.k\<close>\<close>
  "field k v = (case v of None \<Rightarrow> Inl BadType | Some JNull \<Rightarrow> Inl BadType | Some j \<Rightarrow> Inr (member k j))"

definition opt_field :: "string \<Rightarrow> json option \<Rightarrow> json option" where
  \<comment> \<open>\<open>v?.k\<close>\<close>
  "opt_field k v = Option.bind v (member k)"

definition as_list :: "json option \<Rightarrow> fail + json list" where
  \<comment> \<open>the receiver of \<open>map\<close>\<close>
  "as_list v = (case v of Some (JArray vs) \<Rightarrow> Inr vs | _ \<Rightarrow> Inl BadType)"

definition list_or_none :: "json option \<Rightarrow> fail + json list" where
  \<comment> \<open>the receiver of \<open>map\<close> in \<open>(v ?? []).map\<close>\<close>
  "list_or_none v = (case v of None \<Rightarrow> Inr [] | Some JNull \<Rightarrow> Inr [] | _ \<Rightarrow> as_list v)"

definition as_string :: "json option \<Rightarrow> fail + ustr" where
  \<comment> \<open>the receiver of a string method\<close>
  "as_string v = (case v of Some (JString s) \<Rightarrow> Inr s | _ \<Rightarrow> Inl BadType)"

fun js_str :: "(rat \<Rightarrow> ustr) \<Rightarrow> json \<Rightarrow> ustr" where
  \<comment> \<open>\<open>String(v)\<close>\<close>
  "js_str num JNull = u ''null''"
| "js_str num (JBool b) = (if b then u ''true'' else u ''false'')"
| "js_str num (JNumber x) = num x"
| "js_str num (JString s) = s"
| "js_str num (JArray vs) = join_with [44] (map (\<lambda>v. if v = JNull then [] else js_str num v) vs)"
| "js_str num (JObject ms) = u ''[object Object]''"

definition opt_str :: "net \<Rightarrow> json option \<Rightarrow> ustr" where
  \<comment> \<open>a value in a template\<close>
  "opt_str N v = (case v of None \<Rightarrow> u ''undefined'' | Some j \<Rightarrow> js_str (nt_num N) j)"

definition or_blank :: "net \<Rightarrow> json option \<Rightarrow> ustr" where
  \<comment> \<open>\<open>String(v ?? '')\<close>\<close>
  "or_blank N v = (case v of None \<Rightarrow> [] | Some j \<Rightarrow> if j = JNull then [] else js_str (nt_num N) j)"

definition js_number :: "net \<Rightarrow> json option \<Rightarrow> rat option" where
  \<comment> \<open>\<open>Number(v)\<close>\<close>
  "js_number N v =
     (case v of
        None \<Rightarrow> None
      | Some JNull \<Rightarrow> Some 0
      | Some (JBool b) \<Rightarrow> Some (if b then 1 else 0)
      | Some (JNumber x) \<Rightarrow> Some x
      | Some j \<Rightarrow> js_Number (js_str (nt_num N) j))"

definition truthy :: "json option \<Rightarrow> bool" where
  "truthy v =
     (case v of
        None \<Rightarrow> False
      | Some JNull \<Rightarrow> False
      | Some (JBool b) \<Rightarrow> b
      | Some (JNumber x) \<Rightarrow> x \<noteq> 0
      | Some (JString s) \<Rightarrow> s \<noteq> []
      | Some _ \<Rightarrow> True)"

section \<open>Hits\<close>

record store_hit =
  ht_title :: ustr
  ht_price_kes :: "int option"
  ht_url :: "json option"
  ht_stock :: json
  ht_category :: "json option"

definition plain_hit :: "ustr \<Rightarrow> int option \<Rightarrow> ustr \<Rightarrow> json \<Rightarrow> store_hit" where
  "plain_hit title price url stock =
     \<lparr>ht_title = title, ht_price_kes = price, ht_url = Some (JString url), ht_stock = stock, ht_category = None\<rparr>"

definition stock_word :: "bool \<Rightarrow> json" where
  "stock_word b = JString (if b then u ''in stock'' else u ''out of stock'')"

definition unit_dot :: "nat \<Rightarrow> bool" where
  \<comment> \<open>\<open>.\<close> in a pattern\<close>
  "unit_dot c \<longleftrightarrow> c \<notin> {10, 13, 0x2028, 0x2029}"

fun cut_tail :: "ustr \<Rightarrow> ustr \<Rightarrow> ustr" where
  \<comment> \<open>\<open>replace(/p.*$/, '')\<close>\<close>
  "cut_tail p [] = []"
| "cut_tail p (c # s) =
     (if starts_with p (c # s) \<and> list_all unit_dot (drop (length p) (c # s)) then [] else c # cut_tail p s)"

function words_of :: "ustr \<Rightarrow> ustr \<Rightarrow> ustr list" where
  \<comment> \<open>\<open>split(/\s+/)\<close>\<close>
  "words_of acc [] = [rev acc]"
| "words_of acc (c # s) = (if u_ws c then rev acc # words_of [] (dropWhile u_ws s) else words_of (c # acc) s)"
  by pat_completeness auto
termination
  by (relation "measure (\<lambda>(acc, s). length s)") (auto simp: less_Suc_eq_le length_dropWhile_le)

definition has_words :: "net \<Rightarrow> ustr \<Rightarrow> ustr \<Rightarrow> bool" where
  "has_words N term name =
     list_all (\<lambda>w. str_includes w (nt_lower N name)) (words_of [] (nt_lower N term))"

section \<open>The adapters\<close>

definition lit :: "string \<Rightarrow> rx" where "lit s = Lit (u (html s))"
definition ws_run :: rx where "ws_run = Rep False 0 None u_ws"
definition but :: "nat \<Rightarrow> rx" where
  \<comment> \<open>\<open>[^c]*\<close>\<close>
  "but c = Rep False 0 None (\<lambda>x. x \<noteq> c)"
definition some_but :: "nat \<Rightarrow> rx" where
  \<comment> \<open>\<open>[^c]+\<close>\<close>
  "some_but c = Rep False 1 None (\<lambda>x. x \<noteq> c)"
definition gap :: "nat option \<Rightarrow> rx" where
  \<comment> \<open>\<open>[\s\S]*?\<close> and \<open>[\s\S]{0,n}?\<close>\<close>
  "gap hi = Rep True 0 hi (\<lambda>_. True)"

definition with_query :: "string \<Rightarrow> string \<Rightarrow> ustr \<Rightarrow> fail + ustr" where
  "with_query front rest term =
     (case encode_component term of None \<Rightarrow> Inl BadUri | Some q \<Rightarrow> Inr (u front @ q @ u rest))"

definition rows :: "pattern \<Rightarrow> (ustr \<Rightarrow> ustr) \<Rightarrow> ustr \<Rightarrow> store_hit list" where
  \<comment> \<open>the hits of a page: captures link, title and price\<close>
  "rows re link text =
     map (\<lambda>m. plain_hit (decode (m ! 1)) (read_kes (m ! 2)) (link (decode (m ! 0))) JNull) (matchAll re text)"

definition pixel_re :: pattern where
  "pixel_re =
     [(False, [lit ''card-title~>'', ws_run, lit ''<a'', but 62, lit ''href=~'']),
      (True, [some_but 34]),
      (False, [lit ''~'', but 62, lit ''>'', ws_run]),
      (True, [Rep True 1 None (\<lambda>x. x \<noteq> 60)]),
      (False, [ws_run, lit ''</a>'', gap (Some 1500), lit ''price--withoutTax price--main~>'']),
      (True, [some_but 60])]"

definition pixel_search :: "net \<Rightarrow> ustr \<Rightarrow> fail + store_hit list" where
  "pixel_search N term =
     and_then (with_query ''https://www.pixelelectric.com/search.php?search_query='' '''' term) (\<lambda>url.
     and_then (get_page N url ''text/html'' 0) (\<lambda>text.
     Inr (rows pixel_re (cut_tail (u ''?searchid='')) text)))"

definition nerokas_re :: pattern where
  "nerokas_re =
     [(False, [lit ''<div class=~name~><a href=~'']),
      (True, [some_but 34]),
      (False, [lit ''~>'']),
      (True, [some_but 60]),
      (False, [lit ''</a>'', gap (Some 2500), lit ''<span class=~price-'', OneOf [u ''normal'', u ''new''], lit ''~>'']),
      (True, [some_but 60])]"

definition nerokas_search :: "net \<Rightarrow> ustr \<Rightarrow> fail + store_hit list" where
  "nerokas_search N term =
     and_then (with_query ''https://store.nerokas.co.ke/index.php?route=product/search&search='' '''' term) (\<lambda>url.
     and_then (get_page N url ''text/html'' 0) (\<lambda>text.
     Inr (rows nerokas_re (cut_tail (u ''?search='')) text)))"

definition ktechnics_row :: "net \<Rightarrow> json \<Rightarrow> fail + store_hit" where
  "ktechnics_row N p =
     and_then (field ''title'' (Some p)) (\<lambda>title.
     and_then (field ''price'' (Some p)) (\<lambda>price.
     and_then (field ''url'' (Some p)) (\<lambda>url.
     and_then (as_string url) (\<lambda>path.
     Inr (plain_hit (decode (or_blank N title)) (read_kes (or_blank N price))
            (u ''https://www.ktechnics.com'' @ cut_tail (u ''?'') path) (stock_word (truthy (member ''available'' p))))))))"

definition ktechnics_search :: "net \<Rightarrow> ustr \<Rightarrow> fail + store_hit list" where
  "ktechnics_search N term =
     and_then (with_query ''https://www.ktechnics.com/search/suggest.json?q=''
                 ''&resources%5Btype%5D=product&resources%5Blimit%5D=10'' term) (\<lambda>url.
     and_then (get_page N url ''application/json'' 0) (\<lambda>text.
     and_then (parse_json text) (\<lambda>j.
     and_then (field ''resources'' (Some j)) (\<lambda>resources.
     and_then (list_or_none (opt_field ''products'' (opt_field ''results'' resources))) (each (ktechnics_row N))))))"

definition ask_row :: "net \<Rightarrow> json \<Rightarrow> fail + store_hit" where
  "ask_row N p =
     and_then (field ''name'' (Some p)) (\<lambda>name.
     and_then (field ''prices'' (Some p)) (\<lambda>prices.
     and_then (field ''price'' prices) (\<lambda>price.
     and_then (field ''currency_minor_unit'' prices) (\<lambda>minor.
     Inr \<lparr>ht_title = decode (or_blank N name),
          ht_price_kes =
            (case (js_number N price, js_number N minor) of
               (Some x, Some m) \<Rightarrow> Some (js_round (x / pow10 \<lfloor>m\<rfloor>))
             | _ \<Rightarrow> None),
          ht_url = member ''permalink'' p,
          ht_stock = stock_word (truthy (member ''is_in_stock'' p)),
          ht_category = None\<rparr>))))"

definition ask_search :: "net \<Rightarrow> ustr \<Rightarrow> fail + store_hit list" where
  "ask_search N term =
     and_then (with_query ''https://askelectronics.co.ke/wp-json/wc/store/v1/products?search='' ''&per_page=20'' term) (\<lambda>url.
     and_then (get_page N url ''application/json'' 0) (\<lambda>text.
     and_then (parse_json text) (\<lambda>j.
     and_then (if j = JNull then Inl BadType else as_list (Some j)) (each (ask_row N)))))"

definition espke_row :: "net \<Rightarrow> json \<Rightarrow> fail + store_hit" where
  "espke_row N p =
     and_then (field ''name'' (Some p)) (\<lambda>name.
     and_then (field ''price'' (Some p)) (\<lambda>price.
     Inr \<lparr>ht_title = decode (or_blank N name),
          ht_price_kes = read_kes (or_blank N price),
          ht_url = Some (JString (u ''https://www.esp-ke.com/product/'' @ opt_str N (member ''id'' p))),
          ht_stock =
            (case js_number N (member ''stock'' p) of
               Some n \<Rightarrow> if 0 < n then JString (opt_str N (member ''stock'' p) @ u '' in stock'') else stock_word False
             | None \<Rightarrow> stock_word False),
          ht_category = member ''category'' p\<rparr>))"

definition espke_catalog :: "net \<Rightarrow> fail + store_hit list" where
  "espke_catalog N =
     and_then (get_page N (u ''https://www.esp-ke.com/api/products'') ''application/json'' 0) (\<lambda>text.
     and_then (parse_json text) (\<lambda>j.
     and_then (field ''products'' (Some j)) (\<lambda>products.
     and_then (list_or_none products) (each (espke_row N)))))"

definition espke_search :: "net \<Rightarrow> ustr \<Rightarrow> store_hit list option \<Rightarrow> (fail + store_hit list) \<times> store_hit list option" where
  \<comment> \<open>the answer and the catalogue kept for later terms\<close>
  "espke_search N term catalog =
     (let pick = filter (\<lambda>p. has_words N term (ht_title p)) in
      case catalog of
        Some ps \<Rightarrow> (Inr (pick ps), catalog)
      | None \<Rightarrow>
          (case espke_catalog N of
             Inl e \<Rightarrow> (Inl e, None)
           | Inr ps \<Rightarrow> (Inr (pick ps), Some ps)))"

definition ardu_re :: pattern where
  "ardu_re =
     [(False, [lit ''<script type=~application/ld+json~'', but 62, lit ''>'']),
      (True, [lit ''{~@context~:~https://schema'', Rep False 1 (Some 1) unit_dot, lit ''org~,~@type~:~ItemList~'', gap None]),
      (False, [lit ''</script>''])]"

definition ardu_named :: "net \<Rightarrow> ustr \<Rightarrow> json option \<Rightarrow> fail + bool" where
  "ardu_named N term p =
     and_then (field ''name'' p) (\<lambda>name. and_then (as_string name) (\<lambda>n. Inr (has_words N term n)))"

definition ardu_row :: "net \<Rightarrow> json option \<Rightarrow> fail + store_hit" where
  "ardu_row N p =
     and_then (field ''name'' p) (\<lambda>name.
     and_then (field ''offers'' p) (\<lambda>offers.
     and_then (field ''url'' p) (\<lambda>url.
     let availability = opt_field ''availability'' offers in
     Inr \<lparr>ht_title = decode (or_blank N name),
          ht_price_kes = read_kes (or_blank N (opt_field ''price'' offers)),
          ht_url = url,
          ht_stock =
            (if str_includes (u ''InStock'') (or_blank N availability) then stock_word True
             else (case availability of None \<Rightarrow> JNull | Some v \<Rightarrow> v)),
          ht_category = None\<rparr>)))"

fun keep_named :: "net \<Rightarrow> ustr \<Rightarrow> json option list \<Rightarrow> fail + json option list" where
  "keep_named N term [] = Inr []"
| "keep_named N term (p # ps) =
     and_then (ardu_named N term p) (\<lambda>b. and_then (keep_named N term ps) (\<lambda>qs. Inr (if b then p # qs else qs)))"

definition ardu_search :: "net \<Rightarrow> ustr \<Rightarrow> fail + store_hit list" where
  "ardu_search N term =
     and_then (with_query ''https://arduinotech.co.ke/shop?q='' '''' term) (\<lambda>url.
     and_then (get_page N url ''text/html'' 0) (\<lambda>text.
     case first_match ardu_re text of
       None \<Rightarrow> Inr []
     | Some m \<Rightarrow>
         and_then (parse_json (m ! 0)) (\<lambda>j.
         and_then (field ''itemListElement'' (Some j)) (\<lambda>elements.
         and_then (list_or_none elements) (\<lambda>es.
         and_then (each (\<lambda>e. field ''item'' (Some e)) es) (\<lambda>items.
         and_then (keep_named N term items) (each (ardu_row N))))))))"

definition jumia_re :: pattern where
  "jumia_re =
     [(False, [lit ''<article'', but 62, lit ''class=~prd'', but 34, lit ''~'', gap None, lit ''<a class=~core~'', but 62,
               lit ''href=~'']),
      (True, [some_but 34]),
      (False, [lit ''~'', gap None, lit ''<h3 class=~name~>'']),
      (True, [some_but 60]),
      (False, [lit ''</h3>'', gap None, lit ''<div class=~prc~>'']),
      (True, [some_but 60])]"

definition jumia_search :: "net \<Rightarrow> ustr \<Rightarrow> fail + store_hit list" where
  "jumia_search N term =
     and_then (with_query ''https://www.jumia.co.ke/catalog/?q='' '''' term) (\<lambda>url.
     and_then (get_page N url ''text/html'' 0) (\<lambda>text.
     Inr (rows jumia_re (\<lambda>path. u ''https://www.jumia.co.ke'' @ path) text)))"

definition STORE_KEYS :: "string list" where
  "STORE_KEYS = [''pixel'', ''nerokas'', ''ktechnics'', ''ask'', ''espke'', ''ardu'', ''jumia'']"

record run =
  rn_store :: ustr
  rn_term :: ustr
  rn_result :: "fail + store_hit list"

definition store_search :: "net \<Rightarrow> ustr \<Rightarrow> ustr \<Rightarrow> store_hit list option \<Rightarrow> (fail + store_hit list) \<times> store_hit list option" where
  \<comment> \<open>\<open>STORES[key].search(term)\<close>, with the catalogue of esp-ke; an unknown key is a \<open>TypeError\<close>\<close>
  "store_search N shop term catalog =
     (if shop = u ''espke'' then espke_search N term catalog
      else
        (if shop = u ''pixel'' then pixel_search N term
         else if shop = u ''nerokas'' then nerokas_search N term
         else if shop = u ''ktechnics'' then ktechnics_search N term
         else if shop = u ''ask'' then ask_search N term
         else if shop = u ''ardu'' then ardu_search N term
         else if shop = u ''jumia'' then jumia_search N term
         else Inl BadType,
         catalog))"

definition searchStore :: "net \<Rightarrow> ustr \<Rightarrow> ustr \<Rightarrow> store_hit list option \<Rightarrow> run \<times> store_hit list option" where
  "searchStore N shop term catalog =
     (let (r, catalog') = store_search N shop term catalog
      in (\<lparr>rn_store = shop, rn_term = term, rn_result = r\<rparr>, catalog'))"

end
