(* ===== verification/Pool.thy ===== *)
theory Pool
  imports Prelude
begin

text \<open>
  \<open>pool\<close> of \<open>scripts/scout/local.mjs\<close>: \<open>width\<close> asynchronous workers that share an index into the list of tasks and
  the array of results.  A worker runs alone from one \<open>await\<close> to the next, so a step of the pool is such a run of
  one of them: the test and increment of the loop, which starts a task, and the arrival of an awaited result.
  Which worker steps next is left open.  A task is the set of the results it may deliver; no task rejects, because
  \<open>searchStore\<close> catches every error.

  The lemmas show that each result is stored at the index of its task whatever the interleaving, that every task
  is started once, that no more than \<open>width\<close> are under way, and that every run comes to an end.
\<close>

section \<open>Workers\<close>

datatype worker = Ready | Awaiting nat | Returned

record 'r pool_state =
  pool_i :: nat
  pool_out :: "'r option list"
  pool_workers :: "worker list"

definition js_put :: "nat \<Rightarrow> 'r \<Rightarrow> 'r option list \<Rightarrow> 'r option list" where
  \<comment> \<open>\<open>out[n] = r\<close>: past the end the array grows, with holes before \<open>n\<close>\<close>
  "js_put n r out =
     (if n < length out then out[n := Some r] else out @ replicate (n - length out) None @ [Some r])"

definition pool_start :: "nat \<Rightarrow> 'r pool_state" where
  "pool_start width = \<lparr>pool_i = 0, pool_out = [], pool_workers = replicate width Ready\<rparr>"

definition pool_take :: "nat \<Rightarrow> nat \<Rightarrow> 'r pool_state \<Rightarrow> 'r pool_state" where
  \<comment> \<open>worker \<open>w\<close> tests the loop condition: it takes the next task or returns\<close>
  "pool_take len w p =
     (let n = pool_i p in
      if n < len then p\<lparr>pool_i := n + 1, pool_workers := (pool_workers p)[w := Awaiting n]\<rparr>
      else p\<lparr>pool_workers := (pool_workers p)[w := Returned]\<rparr>)"

definition pool_store :: "nat \<Rightarrow> nat \<Rightarrow> 'r \<Rightarrow> 'r pool_state \<Rightarrow> 'r pool_state" where
  \<comment> \<open>the result of task \<open>n\<close> arrives at worker \<open>w\<close>\<close>
  "pool_store w n r p = p\<lparr>pool_out := js_put n r (pool_out p), pool_workers := (pool_workers p)[w := Ready]\<rparr>"

inductive pool_step :: "('r \<Rightarrow> bool) list \<Rightarrow> 'r pool_state \<Rightarrow> 'r pool_state \<Rightarrow> bool"
  for tasks :: "('r \<Rightarrow> bool) list" where
  Take: "w < length (pool_workers p) \<Longrightarrow> pool_workers p ! w = Ready \<Longrightarrow>
         pool_step tasks p (pool_take (length tasks) w p)"
| Result: "w < length (pool_workers p) \<Longrightarrow> pool_workers p ! w = Awaiting n \<Longrightarrow> (tasks ! n) r \<Longrightarrow>
         pool_step tasks p (pool_store w n r p)"

definition pool_done :: "'r pool_state \<Rightarrow> bool" where
  \<comment> \<open>\<open>Promise.all\<close> has every worker's return\<close>
  "pool_done p \<longleftrightarrow> list_all (\<lambda>k. k = Returned) (pool_workers p)"

definition pool_returns :: "nat \<Rightarrow> ('r \<Rightarrow> bool) list \<Rightarrow> 'r option list \<Rightarrow> bool" where
  \<comment> \<open>some interleaving of \<open>pool(tasks, width)\<close> ends with this array\<close>
  "pool_returns width tasks out \<longleftrightarrow>
     (\<exists>p. (pool_step tasks)\<^sup>*\<^sup>* (pool_start width) p \<and> pool_done p \<and> pool_out p = out)"

section \<open>The invariant\<close>

definition stored :: "'r pool_state \<Rightarrow> nat \<Rightarrow> bool" where
  "stored p n \<longleftrightarrow> n < length (pool_out p) \<and> pool_out p ! n \<noteq> None"

definition awaited :: "'r pool_state \<Rightarrow> nat \<Rightarrow> nat \<Rightarrow> bool" where
  "awaited p w n \<longleftrightarrow> w < length (pool_workers p) \<and> pool_workers p ! w = Awaiting n"

lemma js_put_simps [simp]:
  "n < length (js_put m r out) \<longleftrightarrow> n < length out \<or> n \<le> m"
  "n < length (js_put m r out) \<Longrightarrow>
     js_put m r out ! n = (if n = m then Some r else if n < length out then out ! n else None)"
  by (auto simp: js_put_def nth_append nth_list_update nth_Cons')

definition covered :: "'r pool_state \<Rightarrow> bool" where
  \<comment> \<open>every task taken is under way or stored\<close>
  "covered p \<longleftrightarrow> (\<forall>n < pool_i p. stored p n \<or> (\<exists>w. awaited p w n))"

definition exclusive :: "'r pool_state \<Rightarrow> bool" where
  \<comment> \<open>a task under way was taken, has no result yet, and one worker waits for it\<close>
  "exclusive p \<longleftrightarrow>
     (\<forall>w n. awaited p w n \<longrightarrow> n < pool_i p \<and> \<not> stored p n \<and> (\<forall>w'. awaited p w' n \<longrightarrow> w' = w))"

definition delivered :: "('r \<Rightarrow> bool) list \<Rightarrow> 'r pool_state \<Rightarrow> bool" where
  \<comment> \<open>what is stored at an index is a result of that task\<close>
  "delivered tasks p \<longleftrightarrow> (\<forall>n r. n < length (pool_out p) \<longrightarrow> pool_out p ! n = Some r \<longrightarrow> (tasks ! n) r)"

definition pool_inv :: "nat \<Rightarrow> ('r \<Rightarrow> bool) list \<Rightarrow> 'r pool_state \<Rightarrow> bool" where
  "pool_inv width tasks p \<longleftrightarrow>
     length (pool_workers p) = width \<and> pool_i p \<le> length tasks \<and> length (pool_out p) \<le> pool_i p \<and>
     (Returned \<in> set (pool_workers p) \<longrightarrow> pool_i p = length tasks) \<and>
     covered p \<and> exclusive p \<and> delivered tasks p"

lemma pool_inv_start: "pool_inv width tasks (pool_start width)"
  by (auto simp: pool_inv_def pool_start_def awaited_def stored_def covered_def exclusive_def delivered_def)

lemma awaited_update [simp]:
  assumes "w < length (pool_workers p)"
  shows "awaited (p\<lparr>pool_workers := (pool_workers p)[w := k]\<rparr>) v n
           \<longleftrightarrow> (if v = w then k = Awaiting n else awaited p v n)"
    and "awaited (p\<lparr>pool_i := i, pool_workers := (pool_workers p)[w := k]\<rparr>) v n
           \<longleftrightarrow> (if v = w then k = Awaiting n else awaited p v n)"
    and "awaited (p\<lparr>pool_out := out, pool_workers := (pool_workers p)[w := k]\<rparr>) v n
           \<longleftrightarrow> (if v = w then k = Awaiting n else awaited p v n)"
  using assms by (auto simp: awaited_def nth_list_update)

lemma stored_update [simp]:
  "stored (p\<lparr>pool_workers := ws\<rparr>) n \<longleftrightarrow> stored p n"
  "stored (p\<lparr>pool_i := i\<rparr>) n \<longleftrightarrow> stored p n"
  "stored (p\<lparr>pool_out := js_put m r (pool_out p)\<rparr>) n \<longleftrightarrow> n = m \<or> stored p n"
  by (auto simp: stored_def split: if_splits)

lemma returned_update: "Returned \<in> set (xs[w := k]) \<Longrightarrow> k \<noteq> Returned \<Longrightarrow> Returned \<in> set xs"
  using set_update_subset_insert [of xs w k] by auto

lemma take_preserves:
  assumes inv: "pool_inv width tasks p" and w: "w < length (pool_workers p)" "pool_workers p ! w = Ready"
  shows "pool_inv width tasks (pool_take (length tasks) w p)"
proof -
  have free: "\<not> awaited p w n" for n using w(2) by (simp add: awaited_def)
  let ?p = "pool_take (length tasks) w p"
  show ?thesis
  proof (cases "pool_i p < length tasks")
    case True
    then have p: "?p = p\<lparr>pool_i := pool_i p + 1, pool_workers := (pool_workers p)[w := Awaiting (pool_i p)]\<rparr>"
      by (simp add: pool_take_def Let_def)
    have fresh: "\<not> stored p (pool_i p)" using inv by (auto simp: pool_inv_def stored_def)
    have "covered ?p"
      unfolding p covered_def
    proof (intro allI impI)
      fix n assume "n < pool_i (p\<lparr>pool_i := pool_i p + 1, pool_workers := (pool_workers p)[w := Awaiting (pool_i p)]\<rparr>)"
      then consider "n = pool_i p" | "n < pool_i p" by fastforce
      then show "stored (p\<lparr>pool_i := pool_i p + 1, pool_workers := (pool_workers p)[w := Awaiting (pool_i p)]\<rparr>) n \<or>
          (\<exists>v. awaited (p\<lparr>pool_i := pool_i p + 1, pool_workers := (pool_workers p)[w := Awaiting (pool_i p)]\<rparr>) v n)"
      proof cases
        case 1 with w(1) show ?thesis by auto
      next
        case 2 with inv have "stored p n \<or> (\<exists>v. awaited p v n)" by (simp add: pool_inv_def covered_def)
        with free w(1) show ?thesis by (metis awaited_update(2) stored_update(1,2))
      qed
    qed
    moreover have "exclusive ?p"
      using inv w(1) fresh unfolding p pool_inv_def exclusive_def by (auto simp: less_Suc_eq)
    ultimately show ?thesis
      using inv True unfolding p pool_inv_def by (auto simp: delivered_def dest!: returned_update)
  next
    case False
    then have p: "?p = p\<lparr>pool_workers := (pool_workers p)[w := Returned]\<rparr>" by (simp add: pool_take_def)
    have "covered ?p"
      using inv w(1) free unfolding p pool_inv_def covered_def by simp metis
    moreover have "exclusive ?p" using inv w(1) unfolding p pool_inv_def exclusive_def by auto
    ultimately show ?thesis using inv False unfolding p pool_inv_def by (auto simp: delivered_def)
  qed
qed

lemma store_preserves:
  assumes inv: "pool_inv width tasks p" and w: "w < length (pool_workers p)" "pool_workers p ! w = Awaiting n"
    and r: "(tasks ! n) r"
  shows "pool_inv width tasks (pool_store w n r p)"
proof -
  have a: "awaited p w n" and a': "awaited p w k \<Longrightarrow> k = n" for k using w by (simp_all add: awaited_def)
  have ex: "exclusive p" using inv by (simp add: pool_inv_def)
  then have n: "n < pool_i p" "\<not> stored p n" "\<And>v. awaited p v n \<Longrightarrow> v = w" using a by (auto simp: exclusive_def)
  let ?p = "pool_store w n r p"
  have "covered ?p"
    unfolding covered_def
  proof (intro allI impI)
    fix m assume "m < pool_i ?p"
    with inv have "stored p m \<or> (\<exists>v. awaited p v m)" by (simp add: pool_inv_def covered_def pool_store_def)
    moreover have "stored ?p n" and "stored p m \<Longrightarrow> stored ?p m" by (simp_all add: pool_store_def)
    moreover have "awaited ?p v m" if "awaited p v m" "v \<noteq> w" for v using that w(1) by (simp add: pool_store_def)
    ultimately show "stored ?p m \<or> (\<exists>v. awaited ?p v m)" using a' by blast
  qed
  moreover have "exclusive ?p"
    using ex w(1) n(3) unfolding exclusive_def pool_store_def by auto
  moreover have "delivered tasks ?p"
    using inv r unfolding pool_inv_def delivered_def pool_store_def by auto
  moreover have "length (js_put n r (pool_out p)) \<le> pool_i p"
    using inv n(1) by (auto simp: pool_inv_def js_put_def)
  ultimately show ?thesis
    using inv unfolding pool_inv_def by (auto simp: pool_store_def dest!: returned_update)
qed

lemma pool_step_inv: "pool_step tasks p q \<Longrightarrow> pool_inv width tasks p \<Longrightarrow> pool_inv width tasks q"
  by (induction rule: pool_step.induct) (auto intro: take_preserves store_preserves)

lemma pool_reachable_inv: "(pool_step tasks)\<^sup>*\<^sup>* (pool_start width) p \<Longrightarrow> pool_inv width tasks p"
  by (induction rule: rtranclp_induct) (auto intro: pool_inv_start pool_step_inv)

section \<open>What a run delivers\<close>

lemma done_returned: "pool_done p \<Longrightarrow> \<not> awaited p w n"
  by (auto simp: pool_done_def awaited_def list_all_length)

lemma pool_returns_aligned:
  assumes "pool_returns width tasks out" and "0 < width"
  shows "\<exists>rs. out = map Some rs \<and> list_all2 (\<lambda>t r. t r) tasks rs"
proof -
  obtain p where p: "(pool_step tasks)\<^sup>*\<^sup>* (pool_start width) p" "pool_done p" "pool_out p = out"
    using assms(1) by (auto simp: pool_returns_def)
  have inv: "pool_inv width tasks p" using p(1) by (rule pool_reachable_inv)
  have ws: "pool_workers p \<noteq> []" using inv assms(2) by (auto simp: pool_inv_def)
  then have "Returned \<in> set (pool_workers p)" using p(2) by (cases "pool_workers p") (auto simp: pool_done_def)
  with inv have i: "pool_i p = length tasks" by (simp add: pool_inv_def)
  have st: "stored p n" if "n < length tasks" for n
    using inv that i done_returned [OF p(2)] by (auto simp: pool_inv_def covered_def)
  have len: "length out = length tasks"
  proof (rule antisym)
    show "length out \<le> length tasks" using inv i p(3) by (simp add: pool_inv_def)
    show "length tasks \<le> length out" using st p(3) by (metis stored_def leI less_irrefl)
  qed
  have out: "out = map Some (map the out)"
    using st len p(3) by (auto simp: list_eq_iff_nth_eq stored_def)
  moreover have "list_all2 (\<lambda>t r. t r) tasks (map the out)"
    using inv st len p(3) by (auto simp: list_all2_conv_all_nth pool_inv_def delivered_def stored_def)
  ultimately show ?thesis by blast
qed

section \<open>Every run ends\<close>

fun steps_due :: "worker \<Rightarrow> nat" where
  "steps_due Ready = 1"
| "steps_due (Awaiting n) = 2"
| "steps_due Returned = 0"

definition pool_left :: "nat \<Rightarrow> 'r pool_state \<Rightarrow> nat" where
  \<comment> \<open>the steps still to come: two for a task not taken, one for a result awaited, one for a return\<close>
  "pool_left len p =
     2 * (len - pool_i p) + sum_list (map steps_due (pool_workers p))"

lemma sum_list_update_nat:
  fixes f :: "'a \<Rightarrow> nat"
  shows "w < length xs \<Longrightarrow> sum_list (map f (xs[w := k])) + f (xs ! w) = sum_list (map f xs) + f k"
  by (induction xs arbitrary: w) (auto split: nat.splits)

lemma pool_step_left:
  assumes "pool_step tasks p q"
  shows "pool_left (length tasks) p = Suc (pool_left (length tasks) q)"
  using assms
proof cases
  case (Take w)
  show ?thesis
    using sum_list_update_nat [OF Take(2), of steps_due "Awaiting (pool_i p)"] sum_list_update_nat [OF Take(2), of steps_due Returned] Take
    by (auto simp: pool_left_def pool_take_def Let_def)
next
  case (Result w n r)
  show ?thesis
    using sum_list_update_nat [OF Result(2), of steps_due Ready] Result by (auto simp: pool_left_def pool_store_def)
qed

lemma pool_left_start: "pool_left len (pool_start width) = 2 * len + width"
  by (simp add: pool_left_def pool_start_def sum_list_replicate)

lemma pool_steps_left: "(pool_step tasks ^^ k) p q \<Longrightarrow> pool_left (length tasks) p = k + pool_left (length tasks) q"
  by (induction k arbitrary: q) (auto dest!: pool_step_left)

lemma pool_done_left:
  assumes "pool_inv width tasks p" and "pool_done p" and "0 < width"
  shows "pool_left (length tasks) p = 0"
proof -
  have ret: "\<And>k. k \<in> set (pool_workers p) \<Longrightarrow> k = Returned" using assms(2) by (auto simp: pool_done_def list_all_iff)
  have "pool_workers p \<noteq> []" using assms(1,3) by (auto simp: pool_inv_def)
  then have "Returned \<in> set (pool_workers p)" using ret by (cases "pool_workers p") auto
  then have "pool_i p = length tasks" using assms(1) by (simp add: pool_inv_def)
  moreover have "steps_due k = 0" if "k \<in> set (pool_workers p)" for k using ret [OF that] by simp
  then have "map steps_due (pool_workers p) = map (\<lambda>k. 0) (pool_workers p)" by simp
  ultimately show ?thesis by (simp add: pool_left_def)
qed

lemma pool_progress:
  assumes inv: "pool_inv width tasks p" and "\<not> pool_done p" and "\<And>t. t \<in> set tasks \<Longrightarrow> \<exists>r. t r"
  shows "\<exists>q. pool_step tasks p q"
proof -
  obtain w where w: "w < length (pool_workers p)" "pool_workers p ! w \<noteq> Returned"
    using assms(2) by (auto simp: pool_done_def list_all_length)
  show ?thesis
  proof (cases "pool_workers p ! w")
    case Ready
    then show ?thesis using w(1) by (blast intro: pool_step.Take)
  next
    case (Awaiting n)
    then have "awaited p w n" using w(1) by (simp add: awaited_def)
    then have "n < length tasks" using inv by (fastforce simp: pool_inv_def exclusive_def)
    then obtain r where "(tasks ! n) r" using assms(3) nth_mem by blast
    with Awaiting w(1) show ?thesis by (blast intro: pool_step.Result)
  next
    case Returned
    with w show ?thesis by simp
  qed
qed

definition in_flight :: "'r pool_state \<Rightarrow> nat" where
  "in_flight p = length (filter (\<lambda>k. case k of Awaiting n \<Rightarrow> True | _ \<Rightarrow> False) (pool_workers p))"

lemma in_flight_bounded: "pool_inv width tasks p \<Longrightarrow> in_flight p \<le> width"
  unfolding pool_inv_def in_flight_def by (metis length_filter_le)

lemma pool_can_finish:
  assumes "(pool_step tasks)\<^sup>*\<^sup>* (pool_start width) p" and "\<And>t. t \<in> set tasks \<Longrightarrow> \<exists>r. t r"
  shows "\<exists>q. (pool_step tasks)\<^sup>*\<^sup>* p q \<and> pool_done q"
  using assms(1)
proof (induction "pool_left (length tasks) p" arbitrary: p rule: less_induct)
  case less
  show ?case
  proof (cases "pool_done p")
    case False
    obtain q where q: "pool_step tasks p q"
      using pool_progress [OF pool_reachable_inv [OF less.prems] False assms(2)] by blast
    then have "pool_left (length tasks) q < pool_left (length tasks) p" by (simp add: pool_step_left)
    moreover have "(pool_step tasks)\<^sup>*\<^sup>* (pool_start width) q" using less.prems q by (rule rtranclp.rtrancl_into_rtrancl)
    ultimately obtain q' where "(pool_step tasks)\<^sup>*\<^sup>* q q'" "pool_done q'" using less.hyps by blast
    with q show ?thesis by (meson converse_rtranclp_into_rtranclp)
  qed blast
qed

end
