(* ===== verification/Scout.thy ===== *)
theory Scout
  imports Stores Pool
begin

text \<open>
  The vendor scout of \<open>scripts/scout/local.mjs\<close>: the terms of each shopping-list line, the searches of a part run
  through the pool, the merge of their answers by shop and link, and the command line.  The clock's day, the listing
  of the part files and the printing of JSON are arguments or left out; \<open>TERMS\<close> is read at its own keys.

  Whether a run failed is asked of its message, so a failure with an empty message is taken for an answer, whose
  missing results end the process: \<^const>\<open>None\<close>.  The lemmas show that, that case apart, the report of a part holds every
  hit of every answer exactly once under its shop and link, with the terms that found it, and a line for every
  failure, whatever the order in which the shops answered.
\<close>

section \<open>Terms\<close>

record part_terms =
  cf_terms :: "string list"
  cf_jumia :: "string list option"

definition TERMS_BY_PART :: "(string \<times> part_terms) list" where
  \<comment> \<open>\<open>TERMS\<close>\<close>
  "TERMS_BY_PART =
    [(''18650-holder'', \<lparr>cf_terms = [''18650 holder'', ''battery holder''], cf_jumia = None\<rparr>),
     (''antenna-868-sma'', \<lparr>cf_terms = [''868 antenna'', ''lora antenna'', ''915 antenna'', ''sma antenna''], cf_jumia = None\<rparr>),
     (''breadboard-jumpers'', \<lparr>cf_terms = [''breadboard 830'', ''breadboard'', ''jumper wires'', ''dupont''], cf_jumia = None\<rparr>),
     (''esp32-c3-supermini'', \<lparr>cf_terms = [''esp32-c3'', ''esp32 c3'', ''supermini''], cf_jumia = None\<rparr>),
     (''esp32-s3-devkitc-n16r8'', \<lparr>cf_terms = [''esp32-s3'', ''esp32 s3'', ''n16r8''], cf_jumia = None\<rparr>),
     (''extension-strips'', \<lparr>cf_terms = [''extension socket'', ''extension cable'', ''4 way extension'', ''power strip''], cf_jumia = Some [''4 way extension cable'', ''extension socket 13a'']\<rparr>),
     (''heltec-lora32-v3-868'', \<lparr>cf_terms = [''heltec'', ''wifi lora 32'', ''lora v3''], cf_jumia = None\<rparr>),
     (''hlk-pm01-5v-psu'', \<lparr>cf_terms = [''hlk-pm01'', ''hlk'', ''hi-link'', ''ac dc 5v'', ''220v to 5v''], cf_jumia = None\<rparr>),
     (''homeplug-av-plain-pair'', \<lparr>cf_terms = [''powerline'', ''homeplug'', ''tl-pa4010''], cf_jumia = Some [''powerline adapter'', ''tp-link powerline'', ''tl-pa4010'', ''homeplug'']\<rparr>),
     (''homeplug-av-wifi-kit'', \<lparr>cf_terms = [''powerline wifi'', ''tl-wpa4220''], cf_jumia = Some [''powerline wifi extender'', ''tl-wpa4220'', ''tl-wpa4220 kit'']\<rparr>),
     (''ipex-sma-pigtail'', \<lparr>cf_terms = [''ipex sma'', ''u.fl'', ''pigtail'', ''ipx sma'', ''ipex''], cf_jumia = None\<rparr>),
     (''kq-130f-plc-module'', \<lparr>cf_terms = [''kq-130f'', ''kq130'', ''kq-330'', ''power line carrier'', ''plc module'', ''powerline module''], cf_jumia = None\<rparr>),
     (''mains-plc-blocking-filter'', \<lparr>cf_terms = [''emi filter'', ''power filter'', ''noise filter'', ''line filter''], cf_jumia = None\<rparr>),
     (''ra-01sh-sx1262'', \<lparr>cf_terms = [''ra-01sh'', ''ra-01'', ''sx1262''], cf_jumia = None\<rparr>),
     (''sma-attenuator-30db'', \<lparr>cf_terms = [''attenuator'', ''30db''], cf_jumia = None\<rparr>),
     (''soil-moisture-capacitive-v2'', \<lparr>cf_terms = [''capacitive soil'', ''soil moisture''], cf_jumia = None\<rparr>),
     (''solar-panel-6v-2w'', \<lparr>cf_terms = [''solar panel 6v'', ''6v solar'', ''solar panel'', ''solar cell''], cf_jumia = None\<rparr>),
     (''sx1262-module-868'', \<lparr>cf_terms = [''sx1262'', ''e22-900m22s'', ''e22-900'', ''core1262'', ''lora module'', ''ebyte''], cf_jumia = None\<rparr>),
     (''temp-humidity-sensor'', \<lparr>cf_terms = [''dht22'', ''am2302'', ''aht20''], cf_jumia = None\<rparr>),
     (''tp4056-solar-charger'', \<lparr>cf_terms = [''tp4056'', ''lithium charger'', ''cn3065''], cf_jumia = None\<rparr>),
     (''usb-c-otg-adapter'', \<lparr>cf_terms = [''otg'', ''type c otg'', ''usb c otg''], cf_jumia = Some [''usb c otg adapter'']\<rparr>),
     (''usb-ttl-ch340'', \<lparr>cf_terms = [''ch340'', ''cp2102'', ''usb ttl'', ''usb to ttl'', ''ft232''], cf_jumia = None\<rparr>)]"

definition terms_for :: "part_terms \<Rightarrow> ustr \<Rightarrow> ustr list" where
  "terms_for cfg shop =
     map u (if shop = u ''jumia'' then (case cf_jumia cfg of None \<Rightarrow> [] | Some ts \<Rightarrow> ts) else cf_terms cfg)"

definition part_tasks :: "part_terms \<Rightarrow> ustr list \<Rightarrow> (ustr \<times> ustr) list" where
  "part_tasks cfg stores = concat (map (\<lambda>shop. map (Pair shop) (terms_for cfg shop)) stores)"

section \<open>The merge of a part's answers\<close>

record found =
  fd_store :: ustr
  fd_hit :: store_hit
  fd_terms :: "ustr list"

definition hit_key :: "net \<Rightarrow> ustr \<Rightarrow> store_hit \<Rightarrow> ustr" where
  "hit_key N shop r = shop @ [32] @ opt_str N (ht_url r)"

definition merge_hit :: "net \<Rightarrow> ustr \<Rightarrow> ustr \<Rightarrow> (ustr \<times> found) list \<Rightarrow> store_hit \<Rightarrow> (ustr \<times> found) list" where
  "merge_hit N shop term byUrl r =
     (let k = hit_key N shop r in
      case map_of byUrl k of
        None \<Rightarrow> byUrl @ [(k, \<lparr>fd_store = shop, fd_hit = r, fd_terms = [term]\<rparr>)]
      | Some f \<Rightarrow> AList.update k (f\<lparr>fd_terms := fd_terms f @ [term]\<rparr>) byUrl)"

definition error_line :: "net \<Rightarrow> run \<Rightarrow> fail \<Rightarrow> ustr" where
  "error_line N r e = rn_store r @ [32, 34] @ rn_term r @ [34, 58, 32] @ nt_message N e"

definition merge_run :: "net \<Rightarrow> run \<Rightarrow> ustr list \<times> (ustr \<times> found) list \<Rightarrow> (ustr list \<times> (ustr \<times> found) list) option" where
  "merge_run N r st =
     (case rn_result r of
        Inl e \<Rightarrow> if nt_message N e \<noteq> [] then Some (fst st @ [error_line N r e], snd st) else None
      | Inr hits \<Rightarrow> Some (fst st, foldl (merge_hit N (rn_store r) (rn_term r)) (snd st) hits))"

fun merge_runs :: "net \<Rightarrow> run list \<Rightarrow> ustr list \<times> (ustr \<times> found) list \<Rightarrow> (ustr list \<times> (ustr \<times> found) list) option" where
  "merge_runs N [] st = Some st"
| "merge_runs N (r # rs) st = (case merge_run N r st of None \<Rightarrow> None | Some st' \<Rightarrow> merge_runs N rs st')"

record scouted =
  sc_id :: ustr
  sc_recorded :: ustr
  sc_errors :: "ustr list"
  sc_results :: "found list"

definition scout_report :: "net \<Rightarrow> ustr \<Rightarrow> ustr \<Rightarrow> run list \<Rightarrow> scouted option" where
  \<comment> \<open>\<open>scoutPart\<close> once its runs have come in\<close>
  "scout_report N today part runs =
     map_option (\<lambda>(errors, byUrl). \<lparr>sc_id = part, sc_recorded = today, sc_errors = errors, sc_results = map snd byUrl\<rparr>)
       (merge_runs N runs ([], []))"

definition search_task :: "net set \<Rightarrow> ustr \<times> ustr \<Rightarrow> run \<Rightarrow> bool" where
  \<comment> \<open>what a search may answer when the network behaves in one of the ways \<open>Ns\<close> and the catalogue is missing or kept
    from an earlier answer\<close>
  "search_task Ns t r \<longleftrightarrow>
     (\<exists>N \<in> Ns. \<exists>catalog. (catalog = None \<or> (\<exists>M \<in> Ns. \<exists>ps. espke_catalog M = Inr ps \<and> catalog = Some ps)) \<and>
        r = fst (searchStore N (fst t) (snd t) catalog))"

definition scoutPart :: "net set \<Rightarrow> net \<Rightarrow> ustr \<Rightarrow> ustr \<Rightarrow> part_terms \<Rightarrow> ustr list \<Rightarrow> scouted option \<Rightarrow> bool" where
  \<comment> \<open>a report that some interleaving of the searches gives\<close>
  "scoutPart Ns N today part cfg stores res \<longleftrightarrow>
     (\<exists>runs. pool_returns 3 (map (search_task Ns) (part_tasks cfg stores)) (map Some runs) \<and>
        res = scout_report N today part runs)"

section \<open>The command line\<close>

definition arg_after :: "ustr list \<Rightarrow> string \<Rightarrow> ustr option" where
  \<comment> \<open>\<open>opt\<close>; an argument past the end is missing too\<close>
  "arg_after args name =
     (let i = length (takeWhile (\<lambda>a. a \<noteq> u name) args) in if i + 1 < length args then Some (args ! (i + 1)) else None)"

definition strip_json :: "ustr \<Rightarrow> ustr" where
  "strip_json f = (if ends_with (u ''.json'') f then take (length f - 5) f else f)"

definition part_ids :: "ustr list \<Rightarrow> ustr list option \<Rightarrow> ustr list" where
  "part_ids files only =
     filter (\<lambda>i. i \<in> set (map (u \<circ> fst) TERMS_BY_PART) \<and> (case only of None \<Rightarrow> True | Some ids \<Rightarrow> i \<in> set ids))
       (map strip_json files)"

definition chosen_stores :: "ustr list \<Rightarrow> ustr list" where
  "chosen_stores args =
     split_on 44 (case arg_after args ''--stores'' of Some s \<Rightarrow> s | None \<Rightarrow> join_with [44] (map u STORE_KEYS))"

definition probe_tasks :: "ustr \<Rightarrow> (ustr \<times> ustr) list" where
  \<comment> \<open>the mode \<open>probe\<close>, run through four workers\<close>
  "probe_tasks term = map (\<lambda>k. (u k, term)) STORE_KEYS"

record scout_out =
  so_all :: "scouted list"
  so_files :: "(ustr \<times> scouted) list"
  so_log :: "ustr list"
  so_crashed :: bool

definition progress_line :: "scouted \<Rightarrow> ustr" where
  "progress_line res =
     sc_id res @ u '': '' @ u (nat_str (length (sc_results res))) @ u '' hits'' @
     (if sc_errors res = [] then [] else u '', '' @ u (nat_str (length (sc_errors res))) @ u '' errors'')"

fun scout_parts :: "ustr option \<Rightarrow> (ustr \<Rightarrow> scouted option) \<Rightarrow> ustr list \<Rightarrow> scout_out \<Rightarrow> scout_out" where
  \<comment> \<open>the loop of the mode \<open>parts\<close>; the file of a part is named by its id in the directory given\<close>
  "scout_parts outDir scout [] acc = acc"
| "scout_parts outDir scout (i # ids) acc =
     (case scout i of
        None \<Rightarrow> acc\<lparr>so_crashed := True\<rparr>
      | Some res \<Rightarrow>
          scout_parts outDir scout ids
            (acc\<lparr>so_all := so_all acc @ [res],
               so_files := (if outDir = None \<or> outDir = Some [] then so_files acc else so_files acc @ [(i @ u ''.json'', res)]),
               so_log := so_log acc @ [progress_line res]\<rparr>))"


section \<open>What the merge keeps\<close>

type_synonym sighting = "ustr \<times> ustr \<times> store_hit"

definition sightings :: "run list \<Rightarrow> sighting list" where
  \<comment> \<open>every hit of every answer, with its shop and term\<close>
  "sightings runs =
     concat (map (\<lambda>r. case rn_result r of Inl e \<Rightarrow> [] | Inr hits \<Rightarrow> map (\<lambda>h. (rn_store r, rn_term r, h)) hits) runs)"

definition key_of :: "net \<Rightarrow> sighting \<Rightarrow> ustr" where
  "key_of N x = (case x of (shop, term, h) \<Rightarrow> hit_key N shop h)"

definition first_occurrences :: "'a list \<Rightarrow> 'a list" where
  "first_occurrences xs = rev (remdups (rev xs))"

definition found_of :: "net \<Rightarrow> sighting list \<Rightarrow> ustr \<Rightarrow> found" where
  \<comment> \<open>the first hit of a key, with the terms of all its hits\<close>
  "found_of N xs k =
     (let ms = filter (\<lambda>x. key_of N x = k) xs
      in \<lparr>fd_store = fst (hd ms), fd_hit = snd (snd (hd ms)), fd_terms = map (fst \<circ> snd) ms\<rparr>)"

definition merged :: "net \<Rightarrow> sighting list \<Rightarrow> (ustr \<times> found) list" where
  "merged N xs = map (\<lambda>k. (k, found_of N xs k)) (first_occurrences (map (key_of N) xs))"

lemma first_occurrences_snoc:
  "first_occurrences (xs @ [x]) = (if x \<in> set xs then first_occurrences xs else first_occurrences xs @ [x])"
  by (simp add: first_occurrences_def)

lemma first_occurrences_props [simp]:
  "set (first_occurrences xs) = set xs" "distinct (first_occurrences xs)"
  by (simp_all add: first_occurrences_def)

lemma update_table:
  "distinct ks \<Longrightarrow> k \<in> set ks \<Longrightarrow>
     AList.update k v (map (\<lambda>j. (j, g j)) ks) = map (\<lambda>j. (j, if j = k then v else g j)) ks"
  by (induction ks) auto

lemma map_of_table: "map_of (map (\<lambda>j. (j, g j)) ks) k = (if k \<in> set ks then Some (g k) else None)"
  by (induction ks) auto

lemma found_of_snoc:
  "found_of N (xs @ [x]) k =
     (if key_of N x \<noteq> k then found_of N xs k
      else if k \<in> set (map (key_of N) xs) then (found_of N xs k)\<lparr>fd_terms := fd_terms (found_of N xs k) @ [fst (snd x)]\<rparr>
      else \<lparr>fd_store = fst x, fd_hit = snd (snd x), fd_terms = [fst (snd x)]\<rparr>)"
proof (cases "key_of N x = k")
  case True
  show ?thesis
  proof (cases "k \<in> set (map (key_of N) xs)")
    case in_xs: True
    then have "filter (\<lambda>x. key_of N x = k) xs \<noteq> []" by (auto simp: filter_empty_conv)
    with True in_xs show ?thesis by (simp add: found_of_def hd_append Let_def)
  next
    case False
    then have "filter (\<lambda>x. key_of N x = k) xs = []" by (auto simp: filter_empty_conv)
    with True False show ?thesis by (simp add: found_of_def)
  qed
qed (simp add: found_of_def)

lemma merged_snoc: "merged N (xs @ [(shop, term, h)]) = merge_hit N shop term (merged N xs) h"
proof -
  let ?k = "hit_key N shop h" and ?ks = "first_occurrences (map (key_of N) xs)"
  have k: "key_of N (shop, term, h) = ?k" by (simp add: key_of_def)
  show ?thesis
  proof (cases "?k \<in> set (map (key_of N) xs)")
    case True
    then have "merge_hit N shop term (merged N xs) h
        = AList.update ?k ((found_of N xs ?k)\<lparr>fd_terms := fd_terms (found_of N xs ?k) @ [term]\<rparr>) (merged N xs)"
      by (simp add: merge_hit_def merged_def map_of_table Let_def)
    also have "\<dots> = merged N (xs @ [(shop, term, h)])"
      unfolding merged_def using True
      by (subst update_table) (auto simp: first_occurrences_snoc k found_of_snoc)
    finally show ?thesis by simp
  next
    case False
    then have "map_of (merged N xs) ?k = None" by (simp add: merged_def map_of_table)
    then have "merge_hit N shop term (merged N xs) h
        = merged N xs @ [(?k, \<lparr>fd_store = shop, fd_hit = h, fd_terms = [term]\<rparr>)]"
      by (simp add: merge_hit_def Let_def)
    moreover have "map (\<lambda>j. (j, found_of N (xs @ [(shop, term, h)]) j)) ?ks = merged N xs"
      using False unfolding merged_def by (auto simp: found_of_snoc k)
    ultimately show ?thesis using False by (simp add: merged_def first_occurrences_snoc k found_of_snoc)
  qed
qed

lemma merge_hits: "foldl (merge_hit N shop term) (merged N xs) hs = merged N (xs @ map (\<lambda>h. (shop, term, h)) hs)"
proof (induction hs arbitrary: xs)
  case (Cons h hs)
  from Cons [of "xs @ [(shop, term, h)]"] show ?case by (simp add: merged_snoc)
qed simp

definition spoken :: "net \<Rightarrow> run list \<Rightarrow> bool" where
  \<comment> \<open>every failure has a message\<close>
  "spoken N runs \<longleftrightarrow> list_all (\<lambda>r. case rn_result r of Inl e \<Rightarrow> nt_message N e \<noteq> [] | Inr _ \<Rightarrow> True) runs"

definition error_lines :: "net \<Rightarrow> run list \<Rightarrow> ustr list" where
  "error_lines N runs = concat (map (\<lambda>r. case rn_result r of Inl e \<Rightarrow> [error_line N r e] | Inr _ \<Rightarrow> []) runs)"

lemma merge_runs_conv:
  "merge_runs N runs (errs, merged N xs) =
     (if spoken N runs then Some (errs @ error_lines N runs, merged N (xs @ sightings runs)) else None)"
proof (induction runs arbitrary: errs xs)
  case (Cons r runs)
  show ?case
  proof (cases "rn_result r")
    case (Inl e)
    with Cons [of "errs @ [error_line N r e]" xs] show ?thesis
      by (simp add: merge_run_def spoken_def error_lines_def sightings_def)
  next
    case (Inr hits)
    with Cons [of errs "xs @ map (\<lambda>h. (rn_store r, rn_term r, h)) hits"] show ?thesis
      by (simp add: merge_run_def merge_hits spoken_def error_lines_def sightings_def)
  qed
qed (simp add: spoken_def error_lines_def sightings_def)

lemma scout_report_conv:
  "scout_report N today part runs =
     (if spoken N runs
      then Some \<lparr>sc_id = part, sc_recorded = today, sc_errors = error_lines N runs, sc_results = map snd (merged N (sightings runs))\<rparr>
      else None)"
  using merge_runs_conv [of N runs "[]" "[]"] by (simp add: scout_report_def merged_def first_occurrences_def)


lemma merged_entry:
  assumes "x \<in> set xs"
  shows "\<exists>f. (key_of N x, f) \<in> set (merged N xs) \<and> fst (snd x) \<in> set (fd_terms f)"
proof (intro exI conjI)
  show "(key_of N x, found_of N xs (key_of N x)) \<in> set (merged N xs)" using assms by (auto simp: merged_def)
  show "fst (snd x) \<in> set (fd_terms (found_of N xs (key_of N x)))" using assms by (auto simp: found_of_def Let_def)
qed

lemma merged_origin:
  assumes "(k, f) \<in> set (merged N xs)"
  shows "(fd_store f, hd (fd_terms f), fd_hit f) \<in> set xs \<and> key_of N (fd_store f, hd (fd_terms f), fd_hit f) = k \<and>
         (\<forall>term \<in> set (fd_terms f). \<exists>x \<in> set xs. key_of N x = k \<and> fst (snd x) = term)"
proof -
  let ?ms = "filter (\<lambda>x. key_of N x = k) xs"
  have k: "k \<in> set (map (key_of N) xs)" and f: "f = found_of N xs k" using assms by (auto simp: merged_def)
  then have ne: "?ms \<noteq> []" by (auto simp: filter_empty_conv)
  then have hd: "hd ?ms \<in> set ?ms" by (rule hd_in_set)
  have "hd (fd_terms f) = fst (snd (hd ?ms))" using ne f by (cases ?ms) (simp_all add: found_of_def Let_def)
  then have "(fd_store f, hd (fd_terms f), fd_hit f) = hd ?ms" using f by (simp add: found_of_def Let_def)
  with hd f show ?thesis by (auto simp: found_of_def Let_def)
qed

lemma merged_distinct: "distinct (map fst (merged N xs))"
  by (simp add: merged_def comp_def)

section \<open>The report of a part\<close>

definition report_of :: "net \<Rightarrow> run list \<Rightarrow> scouted \<Rightarrow> bool" where
  \<comment> \<open>every hit of the answers is listed once under its key, with its term; every failure has its line\<close>
  "report_of N runs res \<longleftrightarrow>
     sc_errors res = error_lines N runs \<and>
     distinct (map (\<lambda>f. hit_key N (fd_store f) (fd_hit f)) (sc_results res)) \<and>
     (\<forall>(shop, term, h) \<in> set (sightings runs).
        \<exists>f \<in> set (sc_results res). hit_key N (fd_store f) (fd_hit f) = hit_key N shop h \<and> term \<in> set (fd_terms f)) \<and>
     (\<forall>f \<in> set (sc_results res). \<forall>term \<in> set (fd_terms f).
        \<exists>(shop, t, h) \<in> set (sightings runs). t = term \<and> hit_key N shop h = hit_key N (fd_store f) (fd_hit f))"

lemma scout_report_complete:
  assumes "scout_report N today part runs = Some res"
  shows "report_of N runs res"
proof -
  let ?m = "merged N (sightings runs)"
  have res: "sc_errors res = error_lines N runs" "sc_results res = map snd ?m"
    using assms by (auto simp: scout_report_conv split: if_splits)
  have key: "hit_key N (fd_store f) (fd_hit f) = k" if "(k, f) \<in> set ?m" for k f
    using merged_origin [OF that] by (simp add: key_of_def)
  have "map (\<lambda>f. hit_key N (fd_store f) (fd_hit f)) (map snd ?m) = map fst ?m" using key by auto
  then have "distinct (map (\<lambda>f. hit_key N (fd_store f) (fd_hit f)) (sc_results res))"
    unfolding res(2) by (simp only: merged_distinct)
  moreover have "\<exists>f \<in> set (sc_results res). hit_key N (fd_store f) (fd_hit f) = hit_key N shop h \<and> term \<in> set (fd_terms f)"
    if "(shop, term, h) \<in> set (sightings runs)" for shop "term" h
  proof -
    note seen = that
    obtain f where f: "(hit_key N shop h, f) \<in> set ?m" "term \<in> set (fd_terms f)"
      using merged_entry [OF seen, of N] by (auto simp: key_of_def)
    then have "f \<in> set (sc_results res)" using res(2) by (auto simp: image_iff intro: rev_bexI)
    with f key [OF f(1)] show ?thesis by blast
  qed
  moreover have "\<exists>(shop, t, h) \<in> set (sightings runs). t = term \<and> hit_key N shop h = hit_key N (fd_store f) (fd_hit f)"
    if "f \<in> set (sc_results res)" "term \<in> set (fd_terms f)" for f "term"
  proof -
    note f = that
    obtain k where k: "(k, f) \<in> set ?m" using f(1) res(2) by auto
    obtain x where "x \<in> set (sightings runs)" "key_of N x = k" "fst (snd x) = term"
      using merged_origin [OF k] f(2) by blast
    with key [OF k] show ?thesis by (cases x) (auto simp: key_of_def)
  qed
  ultimately show ?thesis unfolding report_of_def using res(1) by blast
qed

text \<open>What \<open>scoutPart\<close> asks of the way its searches are run: an array with each task's result at the task's index.\<close>

locale task_runner =
  fixes returns :: "(run \<Rightarrow> bool) list \<Rightarrow> run option list \<Rightarrow> bool"
  assumes aligned: "returns tasks out \<Longrightarrow> \<exists>rs. out = map Some rs \<and> list_all2 (\<lambda>t r. t r) tasks rs"
begin

lemma runs_answer:
  assumes "returns (map (search_task Ns) ts) (map Some runs)"
  shows "list_all2 (search_task Ns) ts runs"
proof -
  obtain rs where rs: "map Some runs = map Some rs" "list_all2 (\<lambda>t r. t r) (map (search_task Ns) ts) rs"
    using aligned [OF assms] by blast
  from rs(1) have "runs = rs" by (simp add: inj_map_eq_map)
  with rs(2) show ?thesis by (simp add: list.rel_map)
qed

lemma runs_named:
  assumes "returns (map (search_task Ns) ts) (map Some runs)"
  shows "map (\<lambda>r. (rn_store r, rn_term r)) runs = ts"
proof -
  have "(rn_store r, rn_term r) = t" if "search_task Ns t r" for t r
    using that by (auto simp: search_task_def searchStore_def split_beta)
  then have "list_all2 (\<lambda>t r. (rn_store r, rn_term r) = t) ts runs"
    using runs_answer [OF assms] by (rule list_all2_mono [rotated])
  then show ?thesis by (induction rule: list_all2_induct) auto
qed

end

interpretation pool3: task_runner "pool_returns 3"
  by unfold_locales (auto dest: pool_returns_aligned)

section \<open>Failures\<close>

lemma silent_failure_ends_scout:
  "nt_message N e = [] \<Longrightarrow> rn_result r = Inl e \<Longrightarrow> r \<in> set runs \<Longrightarrow> scout_report N today part runs = None"
  by (force simp: scout_report_conv spoken_def list_all_iff)

lemma error_page_is_an_answer:
  assumes "nt_http N url accept = Inr res" and "redirects res = None"
  shows "get_page N url accept hops = Inr (rs_text res)"
  using assms by (simp add: get_page.simps [of N url])

lemma catalogue_answers_alike:
  "espke_catalog N = Inr ps \<Longrightarrow> fst (espke_search N term (Some ps)) = fst (espke_search N term None)"
  by (simp add: espke_search_def Let_def)

end
