(* ===== verification/ScoutAli.thy ===== *)
theory ScoutAli
  imports Stores
begin

text \<open>
  The AliExpress scout, \<open>scripts/scout/ali.mjs\<close>: the choice of a browser, the command line, the address of a search and
  the rows read from its result cards.  The browser is an argument: what each channel's launch and each product page
  answers, and for each card its link, its text and its picture; the reading of a product page runs in the browser and is
  not modelled.  A \<open>--max\<close> that reads as an infinity counts as none.

  The lemmas show that a search lists each product once, and what the command line makes of the query: with \<open>--max\<close>
  given all other words, without it all words but the first.
\<close>

section \<open>The command line\<close>

definition CHANNELS :: "string list" where "CHANNELS = [''chrome'', ''msedge'']"

definition launch :: "(string \<Rightarrow> 'b option) \<Rightarrow> string list \<Rightarrow> string + 'b" where
  \<comment> \<open>the first channel that starts\<close>
  "launch start channels =
     (case first_some start channels of Some b \<Rightarrow> Inr b | None \<Rightarrow> Inl ''no Chrome or Edge channel available'')"

definition flag_at :: "ustr list \<Rightarrow> int" where
  \<comment> \<open>\<open>rest.indexOf('--max')\<close>\<close>
  "flag_at rest =
     (let i = length (takeWhile (\<lambda>a. a \<noteq> u ''--max'') rest) in if i < length rest then int i else - 1)"

definition without_flag :: "int \<Rightarrow> ustr list \<Rightarrow> ustr list" where
  \<comment> \<open>\<open>rest.filter((_, i) => i !== maxIdx && i !== maxIdx + 1)\<close>\<close>
  "without_flag k rest = map fst (filter (\<lambda>(a, i). int i \<noteq> k \<and> int i \<noteq> k + 1) (zip rest [0..<length rest]))"

definition ali_query :: "ustr list \<Rightarrow> ustr" where
  "ali_query rest = join_with [32] (without_flag (flag_at rest) rest)"

definition ali_max :: "ustr list \<Rightarrow> int" where
  "ali_max rest =
     (let k = flag_at rest in
      if k < 0 then 20
      else (case (if nat k + 1 < length rest then js_Number (rest ! (nat k + 1)) else None) of
              Some x \<Rightarrow> if 0 \<le> x then \<lfloor>x\<rfloor> else \<lceil>x\<rceil>
            | None \<Rightarrow> 0))"

definition slice_to :: "int \<Rightarrow> 'a list \<Rightarrow> 'a list" where
  \<comment> \<open>\<open>slice(0, n)\<close>\<close>
  "slice_to n xs = (if 0 \<le> n then take (nat n) xs else take (length xs - nat (- n)) xs)"

section \<open>The search\<close>

definition ali_unit :: "nat \<Rightarrow> bool" where
  "ali_unit c \<longleftrightarrow> (97 \<le> c \<and> c \<le> 122) \<or> dec_digit c"

function dashed :: "ustr \<Rightarrow> ustr" where
  \<comment> \<open>\<open>replace(/[^a-z0-9]+/g, '-')\<close>\<close>
  "dashed [] = []"
| "dashed (c # s) = (if ali_unit c then c # dashed s else 45 # dashed (dropWhile (\<lambda>x. \<not> ali_unit x) s))"
  by pat_completeness auto
termination
  by (relation "measure length") (auto simp: less_Suc_eq_le length_dropWhile_le)

definition strip_dashes :: "ustr \<Rightarrow> ustr" where
  \<comment> \<open>\<open>replace(/^-|-$/g, '')\<close>\<close>
  "strip_dashes s =
     (let t = (case s of [] \<Rightarrow> [] | c # r \<Rightarrow> if c = 45 then r else s)
      in if t \<noteq> [] \<and> last t = 45 then butlast t else t)"

definition ali_url :: "net \<Rightarrow> ustr \<Rightarrow> ustr option" where
  \<comment> \<open>\<^term>\<open>None\<close> where \<open>encodeURIComponent\<close> throws\<close>
  "ali_url N query =
     map_option (\<lambda>q. u ''https://www.aliexpress.com/w/wholesale-'' @ strip_dashes (dashed (nt_lower N (u_trim query))) @
                     u ''.html?SearchText='' @ q @ u ''&SortType=total_tranpro_desc'')
       (encode_component (u_trim query))"

record card =
  cr_href :: ustr
  cr_text :: ustr
  cr_alt :: "ustr option"
  cr_src :: "ustr option"

record ali_row =
  ar_id :: ustr
  ar_url :: ustr
  ar_title :: ustr
  ar_price :: "ustr option"
  ar_sold :: "ustr option"
  ar_rating :: "ustr option"
  ar_free_shipping :: bool
  ar_image :: "ustr option"

fun first_of :: "pattern list \<Rightarrow> ustr \<Rightarrow> ustr list option" where
  \<comment> \<open>\<open>match\<close> of alternatives: the leftmost match, of the first alternative there\<close>
  "first_of ps [] = None"
| "first_of ps (c # s) =
     (case first_some (\<lambda>p. rx_groups p (c # s)) ps of Some (cs, _) \<Rightarrow> Some cs | None \<Rightarrow> first_of ps s)"

definition number_unit :: "nat \<Rightarrow> bool" where "number_unit c \<longleftrightarrow> dec_digit c \<or> c = 44"

definition item_re :: pattern where
  "item_re = [(False, [lit ''/item/'']), (True, [Rep False 1 None dec_digit]), (False, [lit ''.html''])]"

definition price_res :: "pattern list" where
  \<comment> \<open>an optional group is the alternative with it before the one without\<close>
  "price_res =
     [[(True, [lit ''KSh'', Rep False 0 (Some 1) u_ws, Rep False 1 None number_unit, lit ''.'', Rep False 1 None dec_digit])],
      [(True, [lit ''KSh'', Rep False 0 (Some 1) u_ws, Rep False 1 None number_unit])],
      [(True, [lit ''US'', Rep False 0 (Some 1) u_ws, lit ''$'', Rep False 0 (Some 1) u_ws,
               Rep False 1 None (\<lambda>c. number_unit c \<or> c = 46)])]]"

definition sold_re :: pattern where
  \<comment> \<open>on the text in lower case\<close>
  "sold_re =
     [(True, [Rep False 1 None number_unit, Rep False 0 (Some 1) (\<lambda>c. c = 43)]), (False, [ws_run, lit ''sold''])]"

definition word_end :: "ustr \<Rightarrow> bool" where
  "word_end s =
     (case s of [] \<Rightarrow> True | c # _ \<Rightarrow> \<not> (dec_digit c \<or> (65 \<le> c \<and> c \<le> 90) \<or> (97 \<le> c \<and> c \<le> 122) \<or> c = 95))"

fun rating_of :: "ustr \<Rightarrow> ustr option" where
  \<comment> \<open>\<open>match(/(\d\.\d)\b/)\<close>\<close>
  "rating_of (a # b # c # s) =
     (if dec_digit a \<and> b = 46 \<and> dec_digit c \<and> word_end s then Some [a, b, c] else rating_of (b # c # s))"
| "rating_of s = None"

definition has_any :: "string list \<Rightarrow> ustr \<Rightarrow> bool" where
  \<comment> \<open>a test of literals with the flag i\<close>
  "has_any ws s = list_ex (\<lambda>w. str_includes (u w) (map lower_unit s)) ws"

definition title_lines :: "ustr \<Rightarrow> ustr list" where
  "title_lines t =
     filter (\<lambda>s. 12 < length s \<and> \<not> has_any [''ksh'', ''sold'', ''report fraud'', ''shipping'', ''welcome deal'', ''choice''] s)
       (map u_trim (split_on 10 t))"

fun longest :: "ustr list \<Rightarrow> ustr" where
  \<comment> \<open>the head after a stable sort by falling length\<close>
  "longest [] = []"
| "longest [s] = s"
| "longest (s # t # ts) = (let r = longest (t # ts) in if length r \<le> length s then s else r)"

definition card_title :: "card \<Rightarrow> ustr" where
  "card_title c =
     (case cr_alt c of Some a \<Rightarrow> if a \<noteq> [] then a else longest (title_lines (cr_text c))
      | None \<Rightarrow> longest (title_lines (cr_text c)))"

definition card_row :: "ustr \<Rightarrow> card \<Rightarrow> ali_row" where
  "card_row i c =
     (let t = cr_text c in
      \<lparr>ar_id = i,
       ar_url = u ''https://www.aliexpress.com/item/'' @ i @ u ''.html'',
       ar_title = u_trim (card_title c),
       ar_price = map_option hd (first_of price_res t),
       ar_sold = map_option hd (first_match sold_re (map lower_unit t)),
       ar_rating = rating_of t,
       ar_free_shipping = has_any [''free shipping''] t,
       ar_image = cr_src c\<rparr>)"

fun card_rows :: "ustr list \<Rightarrow> card list \<Rightarrow> ali_row list" where
  \<comment> \<open>the loop over the cards, with the ids seen\<close>
  "card_rows seen [] = []"
| "card_rows seen (c # cs) =
     (case first_match item_re (cr_href c) of
        Some (i # _) \<Rightarrow> if i \<in> set seen then card_rows seen cs else card_row i c # card_rows (i # seen) cs
      | _ \<Rightarrow> card_rows seen cs)"

record ali_found =
  af_query :: ustr
  af_url :: ustr
  af_count :: nat
  af_results :: "ali_row list"

definition ali_search :: "net \<Rightarrow> card list \<Rightarrow> card list \<Rightarrow> ustr \<Rightarrow> int \<Rightarrow> ali_found option" where
  \<comment> \<open>the cards, and the links to items that stand in when there are none\<close>
  "ali_search N cards links query mx =
     map_option
       (\<lambda>url. let out = card_rows [] (if cards \<noteq> [] then cards else links)
              in \<lparr>af_query = query, af_url = url, af_count = length out, af_results = slice_to mx out\<rparr>)
       (ali_url N query)"

datatype ali_cmd = Usage | AliSearch ustr int | AliItems "ustr list"

definition ali_args :: "ustr list \<Rightarrow> ali_cmd" where
  "ali_args argv =
     (case argv of
        [] \<Rightarrow> Usage
      | cmd # rest \<Rightarrow>
          if cmd = u ''search'' then AliSearch (ali_query rest) (ali_max rest)
          else if cmd = u ''item'' then AliItems rest
          else Usage)"

definition read_items :: "(ustr \<Rightarrow> ustr + 'r) \<Rightarrow> ustr list \<Rightarrow> (ustr \<times> (ustr + 'r)) list" where
  \<comment> \<open>an item that fails leaves its address and message, and the next is read\<close>
  "read_items readItem urls = map (\<lambda>url. (url, readItem url)) urls"

section \<open>What the command line makes of a query\<close>

definition numbered :: "nat \<Rightarrow> 'a list \<Rightarrow> ('a \<times> nat) list" where
  "numbered k xs = zip xs [k..<k + length xs]"

lemma numbered_simps [simp]:
  "numbered k [] = []" "numbered k (x # xs) = (x, k) # numbered (Suc k) xs"
proof -
  have "[k..<Suc (k + length xs)] = k # [Suc k..<Suc (k + length xs)]" by (rule upt_conv_Cons) simp
  then show "numbered k (x # xs) = (x, k) # numbered (Suc k) xs" by (simp add: numbered_def del: upt_Suc)
qed (simp add: numbered_def)

lemma numbered_append: "numbered k (xs @ ys) = numbered k xs @ numbered (k + length xs) ys"
  by (induction xs arbitrary: k) simp_all

lemma numbered_bounds: "(x, i) \<in> set (numbered k xs) \<Longrightarrow> k \<le> i \<and> i < k + length xs"
  unfolding numbered_def by (auto dest!: set_zip_rightD)

lemma map_fst_numbered [simp]: "map fst (numbered k xs) = xs"
  by (simp add: numbered_def)

lemma without_flag_numbered:
  "without_flag k rest = map fst (filter (\<lambda>(a, i). int i \<noteq> k \<and> int i \<noteq> k + 1) (numbered 0 rest))"
  by (simp add: without_flag_def numbered_def)

lemma without_flag_split: "without_flag (int (length front)) (front @ flag # val # rest) = front @ rest"
proof -
  let ?Q = "\<lambda>(a :: ustr, i). int i \<noteq> int (length front) \<and> int i \<noteq> int (length front) + 1"
  have "filter ?Q (numbered 0 front) = numbered 0 front"
    using numbered_bounds [of _ _ 0 front] by (fastforce simp: filter_id_conv)
  moreover have "filter ?Q (numbered (length front + 2) rest) = numbered (length front + 2) rest"
    using numbered_bounds [of _ _ "length front + 2" rest] by (fastforce simp: filter_id_conv)
  ultimately show ?thesis unfolding without_flag_numbered by (simp add: numbered_append)
qed

lemma query_with_max:
  assumes "u ''--max'' \<notin> set front"
  shows "ali_query (front @ u ''--max'' # n # rest) = join_with [32] (front @ rest)"
proof -
  have "takeWhile (\<lambda>a. a \<noteq> u ''--max'') (front @ u ''--max'' # n # rest) = front"
    using assms by (auto simp: takeWhile_append)
  then have "flag_at (front @ u ''--max'' # n # rest) = int (length front)" by (simp add: flag_at_def Let_def del: u_simps)
  then show ?thesis by (simp only: ali_query_def without_flag_split)
qed

lemma query_without_max:
  assumes "u ''--max'' \<notin> set rest"
  shows "ali_query rest = join_with [32] (tl rest)"
proof -
  have tw: "takeWhile (\<lambda>a. a \<noteq> u ''--max'') rest = rest" using assms by (auto simp: takeWhile_eq_all_conv)
  have k: "flag_at rest = - 1" unfolding flag_at_def Let_def tw by simp
  have "without_flag (- 1) rest = tl rest"
  proof (cases rest)
    case (Cons a as)
    have "filter (\<lambda>(b :: ustr, i). int i \<noteq> - 1 \<and> int i \<noteq> - 1 + 1) (numbered (Suc 0) as) = numbered (Suc 0) as"
      using numbered_bounds [of _ _ "Suc 0" as] by (fastforce simp: filter_id_conv)
    with Cons show ?thesis by (simp add: without_flag_numbered)
  qed (simp add: without_flag_def)
  then show ?thesis by (simp add: ali_query_def k)
qed

section \<open>Rows\<close>

lemma card_rows_ids:
  "distinct (map ar_id (card_rows seen cs)) \<and> (\<forall>r \<in> set (card_rows seen cs). ar_id r \<notin> set seen)"
proof (induction seen cs rule: card_rows.induct)
  case (2 seen c cs)
  then show ?case by (auto simp: card_row_def Let_def split: option.split list.split)
qed simp

lemma ar_id_card_row [simp]: "ar_id (card_row i c) = i"
  by (simp add: card_row_def Let_def)

lemma card_rows_cases:
  "card_rows seen (c # cs) = card_rows seen cs \<or> (\<exists>i. card_rows seen (c # cs) = card_row i c # card_rows (i # seen) cs)"
  by (auto split: option.split list.split)

lemma card_rows_all:
  "c \<in> set cs \<Longrightarrow> first_match item_re (cr_href c) = Some (i # is) \<Longrightarrow>
     i \<in> set seen \<or> i \<in> ar_id ` set (card_rows seen cs)"
proof (induction cs arbitrary: seen)
  case (Cons d cs)
  show ?case
  proof (cases "c = d")
    case True
    with Cons.prems(2) show ?thesis by simp
  next
    case False
    with Cons have IH: "i \<in> set s \<or> i \<in> ar_id ` set (card_rows s cs)" for s by simp
    from card_rows_cases [of seen d cs] show ?thesis
    proof (elim disjE exE)
      assume "card_rows seen (d # cs) = card_rows seen cs"
      with IH [of seen] show ?thesis by (simp only:)
    next
      fix j assume "card_rows seen (d # cs) = card_row j d # card_rows (j # seen) cs"
      with IH [of "j # seen"] show ?thesis by (simp only: list.set image_insert ar_id_card_row) blast
    qed
  qed
qed simp

lemma longest_is_longest: "s \<in> set ts \<Longrightarrow> length s \<le> length (longest ts)"
  by (induction ts rule: longest.induct) (auto simp: Let_def)

end
