(* ===== verification/Devices.thy ===== *)
theory Devices
  imports Blueprint
begin

text \<open>
  The devices of \<open>web/src/blueprints/devices.js\<close> as data, and \<open>svgFileName\<close> of \<open>web/src/blueprints/download.js\<close>.  The fields that
  \<open>layout.js\<close> reads are those of \<open>Blueprint\<close>; the records here extend them with the texts of the drawing and the page.
\<close>

section \<open>Records\<close>

record medium = md_name :: string  md_via :: string  md_detail :: string  md_state :: string

record part_box = box +
  pb_label :: string
  pb_sub :: string
  pb_kind :: "string option"
  pb_optional :: bool

record part_net = net +
  pn_label :: string
  pn_note :: "string option"
  pn_optional :: bool

record part_pin = pin_row +
  pp_part :: string
  pp_signal :: string
  pp_bus :: string
  pp_group :: "string option"

record part_boundary = boundary +
  pbd_label :: string

record blueprint =
  bp_key :: string
  bp_group :: string
  bp_kind :: string
  bp_name :: string
  bp_short :: string
  bp_rev :: string
  bp_date :: string
  bp_tagline :: string
  bp_role :: string
  bp_status :: string
  bp_statusNote :: string
  bp_power :: string
  bp_kitKey :: "string option"
  bp_radio :: "(string \<times> string \<times> string) option"
  \<comment> \<open>radio, band and what it offers\<close>
  bp_mediums :: "medium list"
  bp_boxes :: "part_box list"
  bp_nets :: "part_net list"
  bp_boundaries :: "part_boundary list"
  bp_boot :: "string list option"
  bp_flow :: "(string \<times> string list) option"
  bp_animCaption :: "string option"
  bp_pins :: "part_pin list"
  bp_notes :: "string list"
  bp_sources :: "string list"
  bp_claims :: "string list \<times> string list"
  \<comment> \<open>claimed and not claimed\<close>

definition drawing :: "blueprint \<Rightarrow> device" where
  \<comment> \<open>what \<open>layout.js\<close> reads of a device; a pin without a net has the empty one\<close>
  "drawing d =
     \<lparr>d_boxes = map box.truncate (bp_boxes d), d_nets = map net.truncate (bp_nets d), d_pins = map pin_row.truncate (bp_pins d),
      d_boundaries = map boundary.truncate (bp_boundaries d),
      d_flow = (case bp_flow d of None \<Rightarrow> [] | Some (l, path) \<Rightarrow> path), d_flow_label = map_option fst (bp_flow d),
      d_boot = bp_boot d\<rparr>"

section \<open>The devices\<close>

definition node_device :: blueprint where
  "node_device = \<lparr>
     bp_key = ''node'',
     bp_group = ''core'',
     bp_kind = ''sheet'',
     bp_name = ''xKoin-Node'',
     bp_short = ''Node'',
     bp_rev = ''A'',
     bp_date = ''2026-09-14'',
     bp_tagline = ''The gateway. Backhaul in, mains and radio out, every WAN byte metered.'',
     bp_role = ''Terminates the backhaul, classifies every packet as free LAN or paid WAN, verifies the kiosk voucher offline and assembles receipts into tickets.'',
     bp_status = ''partial'',
     bp_statusNote = ''Portable core host-proven; the ESP-IDF glue is written to this pin map and compile-untested.'',
     bp_power = ''HLK-PM01, 230 V to 5 V at 3 W. Worst simultaneous case is about 2.79 W, roughly 7 percent of headroom.'',
     bp_kitKey = Some ''node'',
     bp_radio = None,
     bp_mediums = [\<lparr>md_name = ''Broadband PLC'', md_via = ''stock HomePlug AV adapter'', md_detail = ''bulk plane, about 10 Mbps modelled goodput'', md_state = ''fitted''\<rparr>,
       \<lparr>md_name = ''Narrowband PLC'', md_via = ''KQ-130F'', md_detail = ''120 to 135 kHz, 9600 bd, receipts and control'', md_state = ''fitted''\<rparr>,
       \<lparr>md_name = ''LoRa'', md_via = ''E22-900M22S (SX1262)'', md_detail = ''868.1 MHz survival plane, SPI on the doc 02 pins'', md_state = ''fitted''\<rparr>,
       \<lparr>md_name = ''Wi-Fi'', md_via = ''ESP32-S3 radio'', md_detail = ''captive portal, admission and the purchase flow'', md_state = ''fitted''\<rparr>,
       \<lparr>md_name = ''Ethernet'', md_via = ''W5500'', md_detail = ''deferred: the HomePlug adapter carries bulk, the MCU sits beside it'', md_state = ''deferred''\<rparr>],
     bp_boxes = [\<lparr>box_id = ''backhaul'', bx = 2, by_y = 3, bw = 10, bh = 17 / 5, pb_label = ''Router or hotspot'', pb_sub = ''backhaul, not part of the build'', pb_kind = None, pb_optional = False\<rparr>,
       \<lparr>box_id = ''homeplug'', bx = 2, by_y = 9, bw = 10, bh = 17 / 5, pb_label = ''HomePlug AV adapter'', pb_sub = ''stock, injector half, never opened'', pb_kind = None, pb_optional = False\<rparr>,
       \<lparr>box_id = ''esp'', bx = 17, by_y = 15 / 2, bw = 12, bh = 28 / 5, pb_label = ''ESP32-S3-DevKitC-1'', pb_sub = ''N16R8: admission, metering, receipts'', pb_kind = Some ''mcu'', pb_optional = False\<rparr>,
       \<lparr>box_id = ''hlk'', bx = 17, by_y = 78 / 5, bw = 12, bh = 17 / 5, pb_label = ''HLK-PM01'', pb_sub = ''230 V to 5 V, 3 W ceiling'', pb_kind = None, pb_optional = False\<rparr>,
       \<lparr>box_id = ''ant'', bx = 36, by_y = 9 / 5, bw = 10, bh = 12 / 5, pb_label = ''868 MHz whip'', pb_sub = ''3 dBi SMA, IPEX pigtail'', pb_kind = None, pb_optional = False\<rparr>,
       \<lparr>box_id = ''e22'', bx = 36, by_y = 11 / 2, bw = 10, bh = 17 / 5, pb_label = ''E22-900M22S'', pb_sub = ''SX1262, 868.1 MHz, 22 dBm'', pb_kind = None, pb_optional = False\<rparr>,
       \<lparr>box_id = ''kq'', bx = 36, by_y = 11, bw = 10, bh = 17 / 5, pb_label = ''KQ-130F'', pb_sub = ''120-135 kHz, 9600 bd, isolated'', pb_kind = None, pb_optional = False\<rparr>,
       \<lparr>box_id = ''mains'', bx = 2, by_y = 41 / 2, bw = 44, bh = 12 / 5, pb_label = ''230 V mains segment'', pb_sub = ''type G socket, one segment'', pb_kind = Some ''bus'', pb_optional = False\<rparr>],
     bp_nets = [\<lparr>net_id = ''backhaul-esp'', net_from = ''backhaul'', net_to = ''esp'', net_kind = ''wifi'', fromSide = None, toSide = None, fromT = None, toT = Some (27 / 100), via = None, labelAt = None,
        pn_label = ''Wi-Fi STA'', pn_note = None, pn_optional = False\<rparr>,
       \<lparr>net_id = ''backhaul-homeplug'', net_from = ''backhaul'', net_to = ''homeplug'', net_kind = ''eth'', fromSide = None, toSide = None, fromT = None, toT = None, via = None, labelAt = None,
        pn_label = ''Ethernet'', pn_note = None, pn_optional = False\<rparr>,
       \<lparr>net_id = ''homeplug-mains'', net_from = ''homeplug'', net_to = ''mains'', net_kind = ''plc'', fromSide = Some ''bottom'', toSide = Some ''top'', fromT = None, toT = Some (71 / 625), via = None, labelAt = None,
        pn_label = ''HomePlug AV bulk'', pn_note = Some ''about 10 Mbps'', pn_optional = False\<rparr>,
       \<lparr>net_id = ''esp-e22'', net_from = ''esp'', net_to = ''e22'', net_kind = ''spi'', fromSide = None, toSide = None, fromT = Some (13 / 100), toT = Some (1 / 2), via = Some (65 / 2), labelAt = None,
        pn_label = ''SPI + control'', pn_note = None, pn_optional = False\<rparr>,
       \<lparr>net_id = ''e22-ant'', net_from = ''e22'', net_to = ''ant'', net_kind = ''rf'', fromSide = None, toSide = None, fromT = None, toT = None, via = None, labelAt = None,
        pn_label = ''RF 868.1 MHz'', pn_note = None, pn_optional = False\<rparr>,
       \<lparr>net_id = ''esp-kq'', net_from = ''esp'', net_to = ''kq'', net_kind = ''uart'', fromSide = None, toSide = None, fromT = Some (4 / 5), toT = Some (1 / 2), via = Some (65 / 2), labelAt = None,
        pn_label = ''UART2 9600 bd'', pn_note = None, pn_optional = False\<rparr>,
       \<lparr>net_id = ''kq-mains'', net_from = ''kq'', net_to = ''mains'', net_kind = ''nbplc'', fromSide = Some ''bottom'', toSide = Some ''top'', fromT = None, toT = Some (554 / 625), via = None, labelAt = None,
        pn_label = ''Narrowband PLC'', pn_note = Some ''coupled, isolated'', pn_optional = False\<rparr>,
       \<lparr>net_id = ''hlk-esp'', net_from = ''hlk'', net_to = ''esp'', net_kind = ''power'', fromSide = None, toSide = None, fromT = None, toT = None, via = None, labelAt = None,
        pn_label = ''5 V rail'', pn_note = None, pn_optional = False\<rparr>,
       \<lparr>net_id = ''mains-hlk'', net_from = ''mains'', net_to = ''hlk'', net_kind = ''mains'', fromSide = Some ''top'', toSide = Some ''bottom'', fromT = Some (4773 / 10000), toT = None, via = None, labelAt = None,
        pn_label = ''230 V'', pn_note = None, pn_optional = False\<rparr>],
     bp_boundaries = [\<lparr>b_axis = ''y'', b_at = 403 / 20, b_from = 2, b_to = 46, b_label = (30, 99 / 5), pbd_label = ''Isolation boundary: mains side below''\<rparr>],
     bp_boot = Some [''mains'', ''hlk'', ''esp'', ''e22'', ''ant'', ''kq'', ''homeplug'', ''backhaul''],
     bp_flow = Some (''RECEIPT 108 B'', [''esp-kq'', ''kq-mains'']),
     bp_animCaption = Some ''Power comes up first, then the MCU, then the radios. The traces draw in order and a 108-byte receipt leaves the ESP32-S3 on UART2 and couples onto the mains through the KQ-130F.'',
     bp_pins = [\<lparr>pin = ''GPIO12'', pin_net = ''esp-e22'', provenance = Some ''doc02'', pp_part = ''E22-900M22S (SX1262)'', pp_signal = ''SCK'', pp_bus = ''SPI'', pp_group = None\<rparr>,
       \<lparr>pin = ''GPIO13'', pin_net = ''esp-e22'', provenance = Some ''doc02'', pp_part = ''E22-900M22S (SX1262)'', pp_signal = ''MISO'', pp_bus = ''SPI'', pp_group = None\<rparr>,
       \<lparr>pin = ''GPIO11'', pin_net = ''esp-e22'', provenance = Some ''doc02'', pp_part = ''E22-900M22S (SX1262)'', pp_signal = ''MOSI'', pp_bus = ''SPI'', pp_group = None\<rparr>,
       \<lparr>pin = ''GPIO10'', pin_net = ''esp-e22'', provenance = Some ''doc02'', pp_part = ''E22-900M22S (SX1262)'', pp_signal = ''NSS / CS'', pp_bus = ''SPI'', pp_group = None\<rparr>,
       \<lparr>pin = ''GPIO14'', pin_net = ''esp-e22'', provenance = Some ''doc02'', pp_part = ''E22-900M22S (SX1262)'', pp_signal = ''DIO1 (IRQ)'', pp_bus = ''CTRL'', pp_group = None\<rparr>,
       \<lparr>pin = ''GPIO21'', pin_net = ''esp-e22'', provenance = Some ''doc02'', pp_part = ''E22-900M22S (SX1262)'', pp_signal = ''BUSY'', pp_bus = ''CTRL'', pp_group = None\<rparr>,
       \<lparr>pin = ''GPIO9'', pin_net = ''esp-e22'', provenance = Some ''proposed, set in src/main.c'', pp_part = ''E22-900M22S (SX1262)'', pp_signal = ''RESET'', pp_bus = ''CTRL'', pp_group = None\<rparr>,
       \<lparr>pin = ''3V3'', pin_net = [], provenance = Some ''doc02'', pp_part = ''E22-900M22S (SX1262)'', pp_signal = ''VCC'', pp_bus = ''PWR'', pp_group = None\<rparr>,
       \<lparr>pin = ''GND'', pin_net = [], provenance = Some ''doc02'', pp_part = ''E22-900M22S (SX1262)'', pp_signal = ''GND'', pp_bus = ''GND'', pp_group = None\<rparr>,
       \<lparr>pin = ''GPIO17'', pin_net = ''esp-kq'', provenance = Some ''doc02'', pp_part = ''KQ-130F'', pp_signal = ''RX (ESP TX2)'', pp_bus = ''UART'', pp_group = None\<rparr>,
       \<lparr>pin = ''GPIO18'', pin_net = ''esp-kq'', provenance = Some ''doc02'', pp_part = ''KQ-130F'', pp_signal = ''TX (ESP RX2)'', pp_bus = ''UART'', pp_group = None\<rparr>,
       \<lparr>pin = ''5V'', pin_net = [], provenance = Some ''doc02'', pp_part = ''KQ-130F'', pp_signal = ''VCC, isolated side'', pp_bus = ''PWR'', pp_group = None\<rparr>,
       \<lparr>pin = ''GND'', pin_net = [], provenance = Some ''doc02'', pp_part = ''KQ-130F'', pp_signal = ''GND, isolated side'', pp_bus = ''GND'', pp_group = None\<rparr>,
       \<lparr>pin = ''GPIO39'', pin_net = [], provenance = Some ''signed off 2026-09-15 (moved 2026-09-13)'', pp_part = ''W5500 Ethernet'', pp_signal = ''SCK'', pp_bus = ''SPI'', pp_group = Some ''deferred''\<rparr>,
       \<lparr>pin = ''GPIO41'', pin_net = [], provenance = Some ''signed off 2026-09-15 (moved 2026-09-13)'', pp_part = ''W5500 Ethernet'', pp_signal = ''MISO'', pp_bus = ''SPI'', pp_group = Some ''deferred''\<rparr>,
       \<lparr>pin = ''GPIO40'', pin_net = [], provenance = Some ''signed off 2026-09-15 (moved 2026-09-13)'', pp_part = ''W5500 Ethernet'', pp_signal = ''MOSI'', pp_bus = ''SPI'', pp_group = Some ''deferred''\<rparr>,
       \<lparr>pin = ''GPIO42'', pin_net = [], provenance = Some ''signed off 2026-09-15 (moved 2026-09-13)'', pp_part = ''W5500 Ethernet'', pp_signal = ''CS'', pp_bus = ''SPI'', pp_group = Some ''deferred''\<rparr>,
       \<lparr>pin = ''GPIO2'', pin_net = [], provenance = Some ''signed off 2026-09-15 (moved 2026-09-13)'', pp_part = ''W5500 Ethernet'', pp_signal = ''INT'', pp_bus = ''CTRL'', pp_group = Some ''deferred''\<rparr>,
       \<lparr>pin = ''GPIO15'', pin_net = [], provenance = Some ''signed off 2026-09-15 (moved 2026-09-13)'', pp_part = ''W5500 Ethernet'', pp_signal = ''RST'', pp_bus = ''CTRL'', pp_group = Some ''deferred''\<rparr>,
       \<lparr>pin = ''GPIO4'', pin_net = [], provenance = Some ''proposed'', pp_part = ''SIM7600E LTE'', pp_signal = ''RXD (ESP TX1)'', pp_bus = ''UART'', pp_group = Some ''deferred''\<rparr>,
       \<lparr>pin = ''GPIO5'', pin_net = [], provenance = Some ''proposed'', pp_part = ''SIM7600E LTE'', pp_signal = ''TXD (ESP RX1)'', pp_bus = ''UART'', pp_group = Some ''deferred''\<rparr>,
       \<lparr>pin = ''GPIO6'', pin_net = [], provenance = Some ''proposed'', pp_part = ''SIM7600E LTE'', pp_signal = ''PWRKEY'', pp_bus = ''CTRL'', pp_group = Some ''deferred''\<rparr>],
     bp_notes = [''The MCU sits beside the bulk path, never inside it. Putting the ESP32-S3 in the HomePlug data path over a W5500 would cap the bulk plane at SPI speeds.'',
       ''The W5500 rows follow hardware/pinmap.md, where they were moved on 2026-09-13 because GPIO33 to GPIO37 are the octal PSRAM bus on every R8 module and GPIO38 drives the DevKitC RGB LED; Martin signed the move off on 2026-09-15.'',
       ''SAFETY: the KQ-130F couples to 230 V. Keep the coupling network isolated from the logic side and never bench-test the mains side without an RCD.''],
     bp_sources = [''hardware/pinmap.md, xKoin-Gateway table'',
       ''docs/papers/05-hardware-node.md, sections 2 to 7'',
       ''hardware/velxio/README.md, SX1262 and KQ-130F pin tables'',
       ''hardware/shopping/mvp-kit.json, device node''],
     bp_claims = ([], [])\<rparr>"

definition nodeSatellite :: blueprint where
  "nodeSatellite = \<lparr>
     bp_key = ''node-satellite'',
     bp_group = ''core'',
     bp_kind = ''sheet'',
     bp_name = ''xKoin-Node-Satellite'',
     bp_short = ''Node-Satellite'',
     bp_rev = ''A'',
     bp_date = ''2026-09-14'',
     bp_tagline = ''The mains relay. Pulls the carrier off the wall, regenerates Wi-Fi, admits at the socket.'',
     bp_role = ''Plugs into a socket on the same mains segment, regenerates the bulk plane as 2.4 GHz Wi-Fi, and enforces admission at the socket so the serving device collects its own receipts.'',
     bp_status = ''proposed'',
     bp_statusNote = ''Designed and specified; no unit built. Its firmware is the gateway firmware with the backhaul path unused.'',
     bp_power = ''5 V USB charger at 1 A, or the extender own USB port. The whole unit fits a 5 W charger with about 44 percent of headroom.'',
     bp_kitKey = Some ''node-satellite'',
     bp_radio = None,
     bp_mediums = [\<lparr>md_name = ''Broadband PLC'', md_via = ''stock HomePlug AV Wi-Fi extender'', md_detail = ''sealed appliance, carries the bulk plane and its own 2.4 GHz AP'', md_state = ''fitted''\<rparr>,
       \<lparr>md_name = ''Narrowband PLC'', md_via = ''KQ-130F'', md_detail = ''120 to 135 kHz, 9600 bd, the path receipts take when the broadband carrier is down'', md_state = ''fitted''\<rparr>,
       \<lparr>md_name = ''Wi-Fi'', md_via = ''ESP32-S3 radio'', md_detail = ''the captive portal AP, separate from the extender AP by design'', md_state = ''fitted''\<rparr>,
       \<lparr>md_name = ''LoRa'', md_via = ''E22-900M22S (SX1262)'', md_detail = ''fitted only on the segment B unit for demo D3'', md_state = ''optional''\<rparr>],
     bp_boxes = [\<lparr>box_id = ''phone'', bx = 17, by_y = 5 / 2, bw = 12, bh = 3, pb_label = ''Client phone'', pb_sub = ''companion app, captive portal'', pb_kind = None, pb_optional = False\<rparr>,
       \<lparr>box_id = ''extender'', bx = 2, by_y = 8, bw = 10, bh = 5, pb_label = ''HomePlug AV extender'', pb_sub = ''TL-WPA4220 class, sealed, stock'', pb_kind = None, pb_optional = False\<rparr>,
       \<lparr>box_id = ''esp'', bx = 17, by_y = 17 / 2, bw = 12, bh = 28 / 5, pb_label = ''ESP32-S3-DevKitC-1'', pb_sub = ''N16R8: admission, metering, receipts'', pb_kind = Some ''mcu'', pb_optional = False\<rparr>,
       \<lparr>box_id = ''charger'', bx = 17, by_y = 81 / 5, bw = 12, bh = 3, pb_label = ''5 V USB charger'', pb_sub = ''1 A, or the extender USB port'', pb_kind = None, pb_optional = False\<rparr>,
       \<lparr>box_id = ''ant'', bx = 36, by_y = 9 / 5, bw = 10, bh = 12 / 5, pb_label = ''868 MHz whip'', pb_sub = ''with the E22 only'', pb_kind = None, pb_optional = True\<rparr>,
       \<lparr>box_id = ''e22'', bx = 36, by_y = 11 / 2, bw = 10, bh = 17 / 5, pb_label = ''E22-900M22S'', pb_sub = ''SX1262, demo D3 unit only'', pb_kind = None, pb_optional = True\<rparr>,
       \<lparr>box_id = ''kq'', bx = 36, by_y = 11, bw = 10, bh = 17 / 5, pb_label = ''KQ-130F'', pb_sub = ''120-135 kHz, 9600 bd, isolated'', pb_kind = None, pb_optional = False\<rparr>,
       \<lparr>box_id = ''mains'', bx = 2, by_y = 41 / 2, bw = 44, bh = 12 / 5, pb_label = ''230 V mains segment'', pb_sub = ''the segment the Node injects into'', pb_kind = Some ''bus'', pb_optional = False\<rparr>],
     bp_nets = [\<lparr>net_id = ''mains-extender'', net_from = ''mains'', net_to = ''extender'', net_kind = ''plc'', fromSide = Some ''top'', toSide = Some ''bottom'', fromT = Some (71 / 625), toT = Some (1 / 2), via = None, labelAt = None,
        pn_label = ''HomePlug AV carrier'', pn_note = Some ''off the wiring'', pn_optional = False\<rparr>,
       \<lparr>net_id = ''extender-phone'', net_from = ''extender'', net_to = ''phone'', net_kind = ''wifi'', fromSide = None, toSide = None, fromT = Some (3 / 10), toT = Some (1 / 2), via = None, labelAt = None,
        pn_label = ''Wi-Fi 2.4 GHz'', pn_note = Some ''bulk plane'', pn_optional = False\<rparr>,
       \<lparr>net_id = ''esp-phone'', net_from = ''esp'', net_to = ''phone'', net_kind = ''wifi'', fromSide = None, toSide = None, fromT = None, toT = None, via = None, labelAt = None,
        pn_label = ''Captive portal AP'', pn_note = None, pn_optional = False\<rparr>,
       \<lparr>net_id = ''esp-e22'', net_from = ''esp'', net_to = ''e22'', net_kind = ''spi'', fromSide = None, toSide = None, fromT = Some (13 / 100), toT = Some (1 / 2), via = Some (65 / 2), labelAt = None,
        pn_label = ''SPI + control'', pn_note = None, pn_optional = True\<rparr>,
       \<lparr>net_id = ''e22-ant'', net_from = ''e22'', net_to = ''ant'', net_kind = ''rf'', fromSide = None, toSide = None, fromT = None, toT = None, via = None, labelAt = None,
        pn_label = ''RF 868.1 MHz'', pn_note = None, pn_optional = True\<rparr>,
       \<lparr>net_id = ''esp-kq'', net_from = ''esp'', net_to = ''kq'', net_kind = ''uart'', fromSide = None, toSide = None, fromT = Some (41 / 50), toT = Some (1 / 2), via = Some (65 / 2), labelAt = None,
        pn_label = ''UART2 9600 bd'', pn_note = None, pn_optional = False\<rparr>,
       \<lparr>net_id = ''kq-mains'', net_from = ''kq'', net_to = ''mains'', net_kind = ''nbplc'', fromSide = Some ''bottom'', toSide = Some ''top'', fromT = None, toT = Some (554 / 625), via = None, labelAt = None,
        pn_label = ''Narrowband PLC'', pn_note = Some ''coupled, isolated'', pn_optional = False\<rparr>,
       \<lparr>net_id = ''charger-esp'', net_from = ''charger'', net_to = ''esp'', net_kind = ''power'', fromSide = None, toSide = None, fromT = None, toT = None, via = None, labelAt = None,
        pn_label = ''5 V USB'', pn_note = None, pn_optional = False\<rparr>,
       \<lparr>net_id = ''mains-charger'', net_from = ''mains'', net_to = ''charger'', net_kind = ''mains'', fromSide = Some ''top'', toSide = Some ''bottom'', fromT = Some (4773 / 10000), toT = None, via = None, labelAt = None,
        pn_label = ''230 V'', pn_note = None, pn_optional = False\<rparr>],
     bp_boundaries = [\<lparr>b_axis = ''y'', b_at = 403 / 20, b_from = 2, b_to = 46, b_label = (30, 99 / 5), pbd_label = ''Isolation boundary: mains side below''\<rparr>],
     bp_boot = Some [''mains'', ''charger'', ''esp'', ''kq'', ''e22'', ''ant'', ''extender'', ''phone''],
     bp_flow = Some (''VOUCHER'', [''~esp-phone'', ''esp-kq'', ''kq-mains'']),
     bp_animCaption = Some ''The charger comes up, then the MCU, then the control plane, then the sealed extender and the phone it serves. A voucher arrives at the captive portal AP and its receipt leaves on the narrowband carrier.'',
     bp_pins = [\<lparr>pin = ''GPIO17'', pin_net = ''esp-kq'', provenance = Some ''doc02'', pp_part = ''KQ-130F'', pp_signal = ''RX (ESP TX2)'', pp_bus = ''UART'', pp_group = None\<rparr>,
       \<lparr>pin = ''GPIO18'', pin_net = ''esp-kq'', provenance = Some ''doc02'', pp_part = ''KQ-130F'', pp_signal = ''TX (ESP RX2)'', pp_bus = ''UART'', pp_group = None\<rparr>,
       \<lparr>pin = ''5V'', pin_net = [], provenance = Some ''doc02'', pp_part = ''KQ-130F'', pp_signal = ''VCC, isolated side'', pp_bus = ''PWR'', pp_group = None\<rparr>,
       \<lparr>pin = ''GND'', pin_net = [], provenance = Some ''doc02'', pp_part = ''KQ-130F'', pp_signal = ''GND, isolated side'', pp_bus = ''GND'', pp_group = None\<rparr>,
       \<lparr>pin = ''GPIO12'', pin_net = ''esp-e22'', provenance = Some ''doc02'', pp_part = ''E22-900M22S, optional'', pp_signal = ''SCK'', pp_bus = ''SPI'', pp_group = None\<rparr>,
       \<lparr>pin = ''GPIO13'', pin_net = ''esp-e22'', provenance = Some ''doc02'', pp_part = ''E22-900M22S, optional'', pp_signal = ''MISO'', pp_bus = ''SPI'', pp_group = None\<rparr>,
       \<lparr>pin = ''GPIO11'', pin_net = ''esp-e22'', provenance = Some ''doc02'', pp_part = ''E22-900M22S, optional'', pp_signal = ''MOSI'', pp_bus = ''SPI'', pp_group = None\<rparr>,
       \<lparr>pin = ''GPIO10'', pin_net = ''esp-e22'', provenance = Some ''doc02'', pp_part = ''E22-900M22S, optional'', pp_signal = ''NSS / CS'', pp_bus = ''SPI'', pp_group = None\<rparr>,
       \<lparr>pin = ''GPIO14'', pin_net = ''esp-e22'', provenance = Some ''doc02'', pp_part = ''E22-900M22S, optional'', pp_signal = ''DIO1 (IRQ)'', pp_bus = ''CTRL'', pp_group = None\<rparr>,
       \<lparr>pin = ''GPIO21'', pin_net = ''esp-e22'', provenance = Some ''doc02'', pp_part = ''E22-900M22S, optional'', pp_signal = ''BUSY'', pp_bus = ''CTRL'', pp_group = None\<rparr>,
       \<lparr>pin = ''GPIO9'', pin_net = ''esp-e22'', provenance = Some ''proposed, set in src/main.c'', pp_part = ''E22-900M22S, optional'', pp_signal = ''RESET'', pp_bus = ''CTRL'', pp_group = None\<rparr>,
       \<lparr>pin = ''3V3'', pin_net = [], provenance = Some ''doc02'', pp_part = ''E22-900M22S, optional'', pp_signal = ''VCC'', pp_bus = ''PWR'', pp_group = None\<rparr>,
       \<lparr>pin = ''GND'', pin_net = [], provenance = Some ''doc02'', pp_part = ''E22-900M22S, optional'', pp_signal = ''GND'', pp_bus = ''GND'', pp_group = None\<rparr>],
     bp_notes = [''Two access points in one box is deliberate. The extender AP carries bytes at the rate the power-line modem sustains; the ESP32-S3 AP carries the portal, the purchase and the receipt exchange.'',
       ''There is no W5500 row and no SIM7600E row: this device has no backhaul by definition and is never in the bulk data path.'',
       ''When the E22 is omitted the eight SPI and power lines are simply not populated. The firmware scores the missing medium zero and the sender picks the next best.''],
     bp_sources = [''docs/papers/06-hardware-node-satellite.md, sections 1 to 7'',
       ''hardware/pinmap.md, xKoin-Gateway table (reused unchanged)'',
       ''hardware/shopping/mvp-kit.json, device node-satellite''],
     bp_claims = ([], [])\<rparr>"

definition satellite_device :: blueprint where
  "satellite_device = \<lparr>
     bp_key = ''satellite'',
     bp_group = ''core'',
     bp_kind = ''sheet'',
     bp_name = ''xKoin-Satellite'',
     bp_short = ''Satellite'',
     bp_rev = ''A'',
     bp_date = ''2026-09-14'',
     bp_tagline = ''The off-grid remote. Solar, deep sleep, and the radio plane where the wiring ends.'',
     bp_role = ''Sits where there is no socket: beacons, admits clients against a kiosk-signed voucher verified offline, serves class C traffic and relays receipts to the nearest Node.'',
     bp_status = ''partial'',
     bp_statusNote = ''Board, pin map and power budget settled; the satellite firmware is backlog and no unit has been soaked.'',
     bp_power = ''Solar panel into a TP4056 into an 18650 cell. About 0.54 mA idle on a five-minute beacon schedule against a 40 mA design ceiling.'',
     bp_kitKey = Some ''satellite'',
     bp_radio = None,
     bp_mediums = [\<lparr>md_name = ''LoRa'', md_via = ''SX1262 on the Heltec V3'', md_detail = ''868.1 MHz, class C only, about 5.4 kbps at SF7 under a duty-cycle ceiling'', md_state = ''fitted''\<rparr>,
       \<lparr>md_name = ''Wi-Fi'', md_via = ''ESP32-S3FN8 radio'', md_detail = ''present on the board, off in the power budget'', md_state = ''optional''\<rparr>,
       \<lparr>md_name = ''Broadband PLC'', md_via = ''none'', md_detail = ''no mains connection, so no power-line carrier of any kind'', md_state = ''absent''\<rparr>],
     bp_boxes = [\<lparr>box_id = ''panel'', bx = 2, by_y = 3, bw = 10, bh = 17 / 5, pb_label = ''Solar panel'', pb_sub = ''6 V 2 W bench, 10 W field, never 12 V'', pb_kind = None, pb_optional = False\<rparr>,
       \<lparr>box_id = ''tp4056'', bx = 2, by_y = 9, bw = 10, bh = 17 / 5, pb_label = ''TP4056 with protection'', pb_sub = ''panel-fed configuration only'', pb_kind = None, pb_optional = True\<rparr>,
       \<lparr>box_id = ''cell'', bx = 2, by_y = 31 / 2, bw = 10, bh = 17 / 5, pb_label = ''18650 cell'', pb_sub = ''3400 mAh, bought in Nairobi'', pb_kind = None, pb_optional = False\<rparr>,
       \<lparr>box_id = ''heltec'', bx = 17, by_y = 7, bw = 12, bh = 7, pb_label = ''Heltec WiFi LoRa 32 V3'', pb_sub = ''ESP32-S3FN8, deep sleep between beacon windows'', pb_kind = Some ''mcu'', pb_optional = False\<rparr>,
       \<lparr>box_id = ''ant'', bx = 36, by_y = 9 / 5, bw = 10, bh = 12 / 5, pb_label = ''868 MHz whip'', pb_sub = ''3 dBi, SMA jack on the board'', pb_kind = None, pb_optional = False\<rparr>,
       \<lparr>box_id = ''sx'', bx = 36, by_y = 11 / 2, bw = 10, bh = 17 / 5, pb_label = ''SX1262'', pb_sub = ''on board, DIO2 RF switch, DIO3 TCXO 1.8 V'', pb_kind = None, pb_optional = False\<rparr>,
       \<lparr>box_id = ''oled'', bx = 36, by_y = 11, bw = 10, bh = 17 / 5, pb_label = ''SSD1306 OLED'', pb_sub = ''0.96 in, state on camera'', pb_kind = None, pb_optional = False\<rparr>,
       \<lparr>box_id = ''vbat'', bx = 36, by_y = 16, bw = 10, bh = 3, pb_label = ''VBAT divider'', pb_sub = ''on board, enable active low'', pb_kind = None, pb_optional = False\<rparr>],
     bp_nets = [\<lparr>net_id = ''panel-tp4056'', net_from = ''panel'', net_to = ''tp4056'', net_kind = ''power'', fromSide = None, toSide = None, fromT = None, toT = None, via = None, labelAt = None,
        pn_label = ''6 V in'', pn_note = None, pn_optional = False\<rparr>,
       \<lparr>net_id = ''tp4056-cell'', net_from = ''tp4056'', net_to = ''cell'', net_kind = ''power'', fromSide = None, toSide = None, fromT = None, toT = None, via = None, labelAt = None,
        pn_label = ''BAT, charge and protect'', pn_note = None, pn_optional = False\<rparr>,
       \<lparr>net_id = ''tp4056-heltec'', net_from = ''tp4056'', net_to = ''heltec'', net_kind = ''power'', fromSide = None, toSide = None, fromT = Some (1 / 2), toT = Some (529 / 1000), via = None, labelAt = None,
        pn_label = ''OUT+ to 5 V pin'', pn_note = None, pn_optional = False\<rparr>,
       \<lparr>net_id = ''cell-heltec'', net_from = ''cell'', net_to = ''heltec'', net_kind = ''power'', fromSide = None, toSide = Some ''bottom'', fromT = None, toT = Some (1 / 4), via = None, labelAt = None,
        pn_label = ''JST 1.25, no TP4056'', pn_note = None, pn_optional = True\<rparr>,
       \<lparr>net_id = ''heltec-sx'', net_from = ''heltec'', net_to = ''sx'', net_kind = ''spi'', fromSide = None, toSide = None, fromT = Some (7 / 50), toT = Some (1 / 2), via = Some (65 / 2), labelAt = None,
        pn_label = ''SPI + control'', pn_note = None, pn_optional = False\<rparr>,
       \<lparr>net_id = ''sx-ant'', net_from = ''sx'', net_to = ''ant'', net_kind = ''rf'', fromSide = None, toSide = None, fromT = None, toT = None, via = None, labelAt = None,
        pn_label = ''RF 868.1 MHz'', pn_note = None, pn_optional = False\<rparr>,
       \<lparr>net_id = ''heltec-oled'', net_from = ''heltec'', net_to = ''oled'', net_kind = ''i2c'', fromSide = None, toSide = None, fromT = Some (71 / 100), toT = Some (1 / 2), via = Some (65 / 2), labelAt = None,
        pn_label = ''I2C'', pn_note = None, pn_optional = False\<rparr>,
       \<lparr>net_id = ''heltec-vbat'', net_from = ''heltec'', net_to = ''vbat'', net_kind = ''analog'', fromSide = None, toSide = None, fromT = Some (93 / 100), toT = Some (1 / 2), via = Some (65 / 2), labelAt = None,
        pn_label = ''ADC sense'', pn_note = None, pn_optional = False\<rparr>],
     bp_boundaries = [],
     bp_boot = Some [''panel'', ''tp4056'', ''cell'', ''heltec'', ''sx'', ''ant'', ''oled'', ''vbat''],
     bp_flow = Some (''BEACON'', [''heltec-sx'', ''sx-ant'']),
     bp_animCaption = Some ''The energy path comes up first, panel to charger to cell, then the board, its radio and its display. A BEACON leaves the SX1262 over SPI and goes out at the SMA jack.'',
     bp_pins = [\<lparr>pin = ''GPIO9'', pin_net = ''heltec-sx'', provenance = Some ''fixed by the board'', pp_part = ''SX1262 (on board)'', pp_signal = ''LoRa SCK'', pp_bus = ''SPI'', pp_group = None\<rparr>,
       \<lparr>pin = ''GPIO11'', pin_net = ''heltec-sx'', provenance = Some ''fixed by the board'', pp_part = ''SX1262 (on board)'', pp_signal = ''LoRa MISO'', pp_bus = ''SPI'', pp_group = None\<rparr>,
       \<lparr>pin = ''GPIO10'', pin_net = ''heltec-sx'', provenance = Some ''fixed by the board'', pp_part = ''SX1262 (on board)'', pp_signal = ''LoRa MOSI'', pp_bus = ''SPI'', pp_group = None\<rparr>,
       \<lparr>pin = ''GPIO8'', pin_net = ''heltec-sx'', provenance = Some ''fixed by the board'', pp_part = ''SX1262 (on board)'', pp_signal = ''LoRa NSS / CS'', pp_bus = ''SPI'', pp_group = None\<rparr>,
       \<lparr>pin = ''GPIO12'', pin_net = ''heltec-sx'', provenance = Some ''fixed by the board'', pp_part = ''SX1262 (on board)'', pp_signal = ''LoRa RESET'', pp_bus = ''CTRL'', pp_group = None\<rparr>,
       \<lparr>pin = ''GPIO13'', pin_net = ''heltec-sx'', provenance = Some ''fixed by the board'', pp_part = ''SX1262 (on board)'', pp_signal = ''LoRa BUSY'', pp_bus = ''CTRL'', pp_group = None\<rparr>,
       \<lparr>pin = ''GPIO14'', pin_net = ''heltec-sx'', provenance = Some ''fixed by the board'', pp_part = ''SX1262 (on board)'', pp_signal = ''LoRa DIO1 (IRQ)'', pp_bus = ''CTRL'', pp_group = None\<rparr>,
       \<lparr>pin = ''DIO2'', pin_net = [], provenance = Some ''fixed by the board'', pp_part = ''SX1262 (on board)'', pp_signal = ''RF switch control'', pp_bus = ''RF'', pp_group = None\<rparr>,
       \<lparr>pin = ''DIO3'', pin_net = [], provenance = Some ''fixed by the board'', pp_part = ''SX1262 (on board)'', pp_signal = ''TCXO supply at 1.8 V'', pp_bus = ''PWR'', pp_group = None\<rparr>,
       \<lparr>pin = ''GPIO1'', pin_net = ''heltec-vbat'', provenance = Some ''proposed in pinmap.md, and fixed by the board'', pp_part = ''VBAT divider'', pp_signal = ''VBAT sense, ADC1 CH0'', pp_bus = ''ADC'', pp_group = None\<rparr>,
       \<lparr>pin = ''GPIO37'', pin_net = ''heltec-vbat'', provenance = Some ''fixed by the board'', pp_part = ''VBAT divider'', pp_signal = ''divider enable, active low'', pp_bus = ''CTRL'', pp_group = None\<rparr>,
       \<lparr>pin = ''GPIO17'', pin_net = ''heltec-oled'', provenance = Some ''fixed by the board'', pp_part = ''SSD1306 OLED'', pp_signal = ''SDA'', pp_bus = ''I2C'', pp_group = None\<rparr>,
       \<lparr>pin = ''GPIO18'', pin_net = ''heltec-oled'', provenance = Some ''fixed by the board'', pp_part = ''SSD1306 OLED'', pp_signal = ''SCL'', pp_bus = ''I2C'', pp_group = None\<rparr>,
       \<lparr>pin = ''GPIO21'', pin_net = ''heltec-oled'', provenance = Some ''fixed by the board'', pp_part = ''SSD1306 OLED'', pp_signal = ''reset'', pp_bus = ''CTRL'', pp_group = None\<rparr>,
       \<lparr>pin = ''GPIO36'', pin_net = [], provenance = Some ''fixed by the board'', pp_part = ''Board'', pp_signal = ''Vext peripheral power gate, active low'', pp_bus = ''CTRL'', pp_group = None\<rparr>,
       \<lparr>pin = ''GPIO35'', pin_net = [], provenance = Some ''fixed by the board'', pp_part = ''Board'', pp_signal = ''status LED'', pp_bus = ''CTRL'', pp_group = None\<rparr>,
       \<lparr>pin = ''GPIO0'', pin_net = [], provenance = Some ''fixed by the board'', pp_part = ''Board'', pp_signal = ''user button'', pp_bus = ''CTRL'', pp_group = None\<rparr>,
       \<lparr>pin = ''GPIO41 / 42'', pin_net = [], provenance = Some ''fixed by the board'', pp_part = ''Board'', pp_signal = ''secondary I2C SDA / SCL'', pp_bus = ''I2C'', pp_group = None\<rparr>,
       \<lparr>pin = ''5V-IN'', pin_net = ''panel-tp4056'', provenance = Some ''doc03'', pp_part = ''TP4056 + panel + 18650'', pp_signal = ''solar panel positive'', pp_bus = ''PWR'', pp_group = None\<rparr>,
       \<lparr>pin = ''BAT+'', pin_net = ''tp4056-cell'', provenance = Some ''doc03'', pp_part = ''TP4056 + panel + 18650'', pp_signal = ''18650 positive'', pp_bus = ''PWR'', pp_group = None\<rparr>,
       \<lparr>pin = ''OUT+'', pin_net = ''tp4056-heltec'', provenance = Some ''doc03'', pp_part = ''TP4056 + panel + 18650'', pp_signal = ''to the board 5 V pin'', pp_bus = ''PWR'', pp_group = None\<rparr>,
       \<lparr>pin = ''GND'', pin_net = [], provenance = Some ''doc03'', pp_part = ''TP4056 + panel + 18650'', pp_signal = ''common ground'', pp_bus = ''GND'', pp_group = None\<rparr>],
     bp_notes = [''Six of the seven doc 02 SPI assignments collide with pins the Heltec V3 has already committed. Only DIO1 on GPIO14 comes through unchanged, so the Satellite carries a board-specific map. That edits a locked invariant and needs sign-off.'',
       ''ADC attenuation is 2.5 dB and the voltage multiplier is 4.9 multiplied by 1.045, from the same variant header as the pins.'',
       ''Pick one charge path. OUT+ to the 5 V pin, or the cell straight into the JST header, never both: wiring OUT+ to the battery header puts two charge circuits on one cell.''],
     bp_sources = [''docs/papers/07-hardware-satellite.md, sections 2 to 7'',
       ''hardware/pinmap.md, xKoin-Satellite table (doc03 power rows, GPIO1 proposed)'',
       ''hardware/shopping/mvp-kit.json, device satellite''],
     bp_claims = ([], [])\<rparr>"

definition client_device :: blueprint where
  "client_device = \<lparr>
     bp_key = ''client'',
     bp_group = ''core'',
     bp_kind = ''sheet'',
     bp_name = ''xKoin-Client OTG dongle'',
     bp_short = ''Client dongle'',
     bp_rev = ''A'',
     bp_date = ''2026-09-14'',
     bp_tagline = ''The buyer. A phone that holds the seed, and a radio on a USB lead when no Wi-Fi is in reach.'',
     bp_role = ''Holds the user keys, presents the voucher on admission, signs the cumulative receipts and signs the EIP-712 ticket that settles them. The dongle is the radio when there is no node Wi-Fi.'',
     bp_status = ''proposed'',
     bp_statusNote = ''Proposed on both halves. The app is specified and not built; the dongle has a board, a pin map and a power budget.'',
     bp_power = ''Entirely from the phone over the OTG lead. About 50 mA listening against a 500 mA USB host budget, roughly 2 percent of a 4000 mAh phone an hour.'',
     bp_kitKey = Some ''client'',
     bp_radio = None,
     bp_mediums = [\<lparr>md_name = ''LoRa'', md_via = ''SX1262 on the Heltec V3'', md_detail = ''path B: direct class C reach at 868.1 MHz when no node Wi-Fi is in range'', md_state = ''fitted''\<rparr>,
       \<lparr>md_name = ''Wi-Fi'', md_via = ''the phone radio'', md_detail = ''path A: the phone on a Node or Node-Satellite access point'', md_state = ''fitted''\<rparr>,
       \<lparr>md_name = ''USB'', md_via = ''USB-C OTG adapter and a data lead'', md_detail = ''USB serial recommended for the first build, SoftAP as the fallback'', md_state = ''fitted''\<rparr>],
     bp_boxes = [\<lparr>box_id = ''phone'', bx = 2, by_y = 13 / 2, bw = 11, bh = 6, pb_label = ''Android phone'', pb_sub = ''one seed in the Keystore, signs receipts and tickets'', pb_kind = Some ''mcu'', pb_optional = False\<rparr>,
       \<lparr>box_id = ''otg'', bx = 31 / 2, by_y = 81 / 10, bw = 15 / 2, bh = 14 / 5, pb_label = ''USB-C OTG adapter'', pb_sub = ''ID pin grounded'', pb_kind = None, pb_optional = False\<rparr>,
       \<lparr>box_id = ''lead'', bx = 49 / 2, by_y = 81 / 10, bw = 7, bh = 14 / 5, pb_label = ''USB-A to USB-C lead'', pb_sub = ''data-capable, short'', pb_kind = None, pb_optional = False\<rparr>,
       \<lparr>box_id = ''dongle'', bx = 35, by_y = 13 / 2, bw = 11, bh = 6, pb_label = ''Heltec WiFi LoRa 32 V3'', pb_sub = ''radio and transport, holds no key'', pb_kind = Some ''mcu'', pb_optional = False\<rparr>,
       \<lparr>box_id = ''oled'', bx = 21, by_y = 29 / 2, bw = 11, bh = 3, pb_label = ''SSD1306 OLED'', pb_sub = ''link state and the byte counter'', pb_kind = None, pb_optional = False\<rparr>,
       \<lparr>box_id = ''sx'', bx = 35, by_y = 29 / 2, bw = 11, bh = 3, pb_label = ''SX1262'', pb_sub = ''on board, 868.1 MHz'', pb_kind = None, pb_optional = False\<rparr>,
       \<lparr>box_id = ''mesh'', bx = 2, by_y = 33 / 2, bw = 11, bh = 17 / 5, pb_label = ''Node or Node-Satellite'', pb_sub = ''path A, when its Wi-Fi is in range'', pb_kind = None, pb_optional = False\<rparr>,
       \<lparr>box_id = ''ant'', bx = 35, by_y = 97 / 5, bw = 11, bh = 13 / 5, pb_label = ''868 MHz whip'', pb_sub = ''path B, fit before the radio is keyed'', pb_kind = None, pb_optional = False\<rparr>],
     bp_nets = [\<lparr>net_id = ''phone-otg'', net_from = ''phone'', net_to = ''otg'', net_kind = ''power'', fromSide = None, toSide = None, fromT = Some (1 / 2), toT = Some (1 / 2), via = None, labelAt = None,
        pn_label = ''USB 5 V'', pn_note = None, pn_optional = False\<rparr>,
       \<lparr>net_id = ''otg-lead'', net_from = ''otg'', net_to = ''lead'', net_kind = ''usb'', fromSide = None, toSide = None, fromT = None, toT = None, via = None, labelAt = None,
        pn_label = ''OTG'', pn_note = None, pn_optional = False\<rparr>,
       \<lparr>net_id = ''lead-dongle'', net_from = ''lead'', net_to = ''dongle'', net_kind = ''usb'', fromSide = None, toSide = None, fromT = None, toT = Some (1 / 2), via = None, labelAt = None,
        pn_label = ''USB serial'', pn_note = None, pn_optional = False\<rparr>,
       \<lparr>net_id = ''phone-mesh'', net_from = ''phone'', net_to = ''mesh'', net_kind = ''wifi'', fromSide = None, toSide = None, fromT = None, toT = None, via = None, labelAt = None,
        pn_label = ''Wi-Fi path A'', pn_note = None, pn_optional = False\<rparr>,
       \<lparr>net_id = ''dongle-sx'', net_from = ''dongle'', net_to = ''sx'', net_kind = ''spi'', fromSide = None, toSide = None, fromT = None, toT = None, via = None, labelAt = None,
        pn_label = ''SPI + control'', pn_note = None, pn_optional = False\<rparr>,
       \<lparr>net_id = ''sx-ant'', net_from = ''sx'', net_to = ''ant'', net_kind = ''rf'', fromSide = None, toSide = None, fromT = None, toT = None, via = None, labelAt = None,
        pn_label = ''RF 868.1 MHz'', pn_note = None, pn_optional = False\<rparr>,
       \<lparr>net_id = ''dongle-oled'', net_from = ''dongle'', net_to = ''oled'', net_kind = ''i2c'', fromSide = Some ''left'', toSide = Some ''top'', fromT = Some (83 / 100), toT = Some (1 / 2), via = None, labelAt = None,
        pn_label = ''I2C'', pn_note = None, pn_optional = False\<rparr>],
     bp_boundaries = [],
     bp_boot = Some [''phone'', ''otg'', ''lead'', ''dongle'', ''sx'', ''ant'', ''oled'', ''mesh''],
     bp_flow = Some (''RECEIPT 108 B'', [''phone-otg'', ''otg-lead'', ''lead-dongle'', ''dongle-sx'', ''sx-ant'']),
     bp_animCaption = Some ''The phone powers the chain, then the dongle, its radio and its display. A receipt the phone signed travels the USB path to the dongle and leaves over LoRa. The dongle holds no key at any point.'',
     bp_pins = [\<lparr>pin = ''GPIO9'', pin_net = ''dongle-sx'', provenance = Some ''fixed by the board'', pp_part = ''SX1262 (on board)'', pp_signal = ''LoRa SCK'', pp_bus = ''SPI'', pp_group = None\<rparr>,
       \<lparr>pin = ''GPIO11'', pin_net = ''dongle-sx'', provenance = Some ''fixed by the board'', pp_part = ''SX1262 (on board)'', pp_signal = ''LoRa MISO'', pp_bus = ''SPI'', pp_group = None\<rparr>,
       \<lparr>pin = ''GPIO10'', pin_net = ''dongle-sx'', provenance = Some ''fixed by the board'', pp_part = ''SX1262 (on board)'', pp_signal = ''LoRa MOSI'', pp_bus = ''SPI'', pp_group = None\<rparr>,
       \<lparr>pin = ''GPIO8'', pin_net = ''dongle-sx'', provenance = Some ''fixed by the board'', pp_part = ''SX1262 (on board)'', pp_signal = ''LoRa NSS / CS'', pp_bus = ''SPI'', pp_group = None\<rparr>,
       \<lparr>pin = ''GPIO12'', pin_net = ''dongle-sx'', provenance = Some ''fixed by the board'', pp_part = ''SX1262 (on board)'', pp_signal = ''LoRa RESET'', pp_bus = ''CTRL'', pp_group = None\<rparr>,
       \<lparr>pin = ''GPIO13'', pin_net = ''dongle-sx'', provenance = Some ''fixed by the board'', pp_part = ''SX1262 (on board)'', pp_signal = ''LoRa BUSY'', pp_bus = ''CTRL'', pp_group = None\<rparr>,
       \<lparr>pin = ''GPIO14'', pin_net = ''dongle-sx'', provenance = Some ''fixed by the board'', pp_part = ''SX1262 (on board)'', pp_signal = ''LoRa DIO1 (IRQ)'', pp_bus = ''CTRL'', pp_group = None\<rparr>,
       \<lparr>pin = ''GPIO17'', pin_net = ''dongle-oled'', provenance = Some ''fixed by the board'', pp_part = ''SSD1306 OLED'', pp_signal = ''SDA'', pp_bus = ''I2C'', pp_group = None\<rparr>,
       \<lparr>pin = ''GPIO18'', pin_net = ''dongle-oled'', provenance = Some ''fixed by the board'', pp_part = ''SSD1306 OLED'', pp_signal = ''SCL'', pp_bus = ''I2C'', pp_group = None\<rparr>,
       \<lparr>pin = ''GPIO21'', pin_net = ''dongle-oled'', provenance = Some ''fixed by the board'', pp_part = ''SSD1306 OLED'', pp_signal = ''reset'', pp_bus = ''CTRL'', pp_group = None\<rparr>,
       \<lparr>pin = ''GPIO36'', pin_net = [], provenance = Some ''fixed by the board'', pp_part = ''Board'', pp_signal = ''Vext gate, active low, OLED may stay on'', pp_bus = ''CTRL'', pp_group = None\<rparr>,
       \<lparr>pin = ''GPIO19'', pin_net = ''lead-dongle'', provenance = Some ''ESP32-S3 silicon, verify at bring-up'', pp_part = ''USB'', pp_signal = ''D-'', pp_bus = ''USB'', pp_group = None\<rparr>,
       \<lparr>pin = ''GPIO20'', pin_net = ''lead-dongle'', provenance = Some ''ESP32-S3 silicon, verify at bring-up'', pp_part = ''USB'', pp_signal = ''D+'', pp_bus = ''USB'', pp_group = None\<rparr>,
       \<lparr>pin = ''GPIO1'', pin_net = [], provenance = Some ''fixed by the board'', pp_part = ''VBAT divider'', pp_signal = ''unused on the dongle, there is no cell'', pp_bus = ''ADC'', pp_group = None\<rparr>],
     bp_notes = [''Nothing on the dongle is a proposed assignment. Every pin is fixed by the board or by the silicon, which is the one respect in which it is simpler than every other device in the set.'',
       ''Whether the V3 USB-C connector reaches the native USB peripheral or a USB-to-UART bridge is open, and it decides which Android driver the app needs. A board on a bench answers it.'',
       ''The battery header stays empty. A cell fitted there would charge from the phone.''],
     bp_sources = [''docs/papers/08-hardware-client-and-otg-dongle.md, sections 1 to 8'',
       ''docs/papers/07-hardware-satellite.md, section 5, for the shared board pin map'',
       ''hardware/shopping/mvp-kit.json, device client''],
     bp_claims = ([], [])\<rparr>"

definition farmNode :: blueprint where
  "farmNode = \<lparr>
     bp_key = ''farm-node'',
     bp_group = ''ecosystem'',
     bp_kind = ''sheet'',
     bp_name = ''Farm sensor node'',
     bp_short = ''Farm sensor'',
     bp_rev = ''A'',
     bp_date = ''2026-09-14'',
     bp_tagline = ''A third-party style sensor that pays nothing and makes the mesh denser.'',
     bp_role = ''Sends one TELEMETRY frame per reading on the free LAN plane. No voucher is presented, no receipt is signed, no ticket is assembled.'',
     bp_status = ''proposed'',
     bp_statusNote = ''Required for demo D6. Every pin below is proposed and none has been signed off.'',
     bp_power = ''18650 cell through an HT7333 at 4 uA quiescent, with an optional panel. About 2.43 mAh a day on a fifteen-minute schedule.'',
     bp_kitKey = Some ''farm-node'',
     bp_radio = Some (''Ai-Thinker Ra-01SH, an SX1262, so the existing driver covers it'', ''868.1 MHz, inside the 863 to 930 MHz range the module supports'', ''Free LAN plane: traffic that stays inside the mesh costs zero XKN and needs no voucher.''),
     bp_mediums = [\<lparr>md_name = ''LoRa'', md_via = ''Ra-01SH (SX1262)'', md_detail = ''3.3 V only, IPEX connector, so a pigtail is on the list'', md_state = ''fitted''\<rparr>,
       \<lparr>md_name = ''Analog and one-wire'', md_via = ''capacitive soil probe and a DHT22'', md_detail = ''the readings the TELEMETRY frame carries'', md_state = ''fitted''\<rparr>],
     bp_boxes = [\<lparr>box_id = ''soil'', bx = 2, by_y = 7 / 2, bw = 10, bh = 17 / 5, pb_label = ''Capacitive soil probe'', pb_sub = ''v2.0, capacitive not resistive'', pb_kind = None, pb_optional = False\<rparr>,
       \<lparr>box_id = ''dht'', bx = 2, by_y = 9, bw = 10, bh = 17 / 5, pb_label = ''DHT22 or AHT20'', pb_sub = ''AHT20 is I2C and moves the map'', pb_kind = None, pb_optional = False\<rparr>,
       \<lparr>box_id = ''c3'', bx = 17, by_y = 15 / 2, bw = 12, bh = 28 / 5, pb_label = ''ESP32-C3 SuperMini'', pb_sub = ''22 by 18 mm, remove the power LED first'', pb_kind = Some ''mcu'', pb_optional = False\<rparr>,
       \<lparr>box_id = ''ant'', bx = 36, by_y = 9 / 5, bw = 10, bh = 12 / 5, pb_label = ''868 MHz whip'', pb_sub = ''3 dBi SMA, IPEX pigtail'', pb_kind = None, pb_optional = False\<rparr>,
       \<lparr>box_id = ''radio'', bx = 36, by_y = 11 / 2, bw = 10, bh = 18 / 5, pb_label = ''Ra-01SH (SX1262)'', pb_sub = ''MVP kit substitutes a second E22-900M22S'', pb_kind = None, pb_optional = False\<rparr>,
       \<lparr>box_id = ''ht'', bx = 17, by_y = 16, bw = 12, bh = 3, pb_label = ''HT7333 LDO'', pb_sub = ''4 uA quiescent, bypasses the board regulator'', pb_kind = None, pb_optional = False\<rparr>,
       \<lparr>box_id = ''cell'', bx = 2, by_y = 31 / 2, bw = 10, bh = 3, pb_label = ''18650 cell and TP4056'', pb_sub = ''panel-fed configuration only'', pb_kind = None, pb_optional = False\<rparr>,
       \<lparr>box_id = ''panel'', bx = 2, by_y = 20, bw = 10, bh = 3, pb_label = ''Solar panel 6 V 2 W'', pb_sub = ''a convenience, not a requirement'', pb_kind = None, pb_optional = True\<rparr>],
     bp_nets = [\<lparr>net_id = ''soil-c3'', net_from = ''soil'', net_to = ''c3'', net_kind = ''analog'', fromSide = None, toSide = None, fromT = None, toT = Some (4 / 25), via = None, labelAt = None,
        pn_label = ''ADC1 CH0'', pn_note = None, pn_optional = False\<rparr>,
       \<lparr>net_id = ''dht-c3'', net_from = ''dht'', net_to = ''c3'', net_kind = ''onewire'', fromSide = None, toSide = None, fromT = Some (1 / 2), toT = Some (571 / 1000), via = None, labelAt = None,
        pn_label = ''one-wire'', pn_note = None, pn_optional = False\<rparr>,
       \<lparr>net_id = ''c3-radio'', net_from = ''c3'', net_to = ''radio'', net_kind = ''spi'', fromSide = None, toSide = None, fromT = Some (4 / 25), toT = Some (1 / 2), via = Some (65 / 2), labelAt = None,
        pn_label = ''SPI + control'', pn_note = None, pn_optional = False\<rparr>,
       \<lparr>net_id = ''radio-ant'', net_from = ''radio'', net_to = ''ant'', net_kind = ''rf'', fromSide = None, toSide = None, fromT = None, toT = None, via = None, labelAt = None,
        pn_label = ''RF 868.1 MHz'', pn_note = None, pn_optional = False\<rparr>,
       \<lparr>net_id = ''ht-c3'', net_from = ''ht'', net_to = ''c3'', net_kind = ''power'', fromSide = None, toSide = None, fromT = None, toT = None, via = None, labelAt = None,
        pn_label = ''3V3 pad'', pn_note = None, pn_optional = False\<rparr>,
       \<lparr>net_id = ''cell-ht'', net_from = ''cell'', net_to = ''ht'', net_kind = ''power'', fromSide = None, toSide = None, fromT = Some (1 / 2), toT = Some (333 / 1000), via = None, labelAt = None,
        pn_label = ''cell out'', pn_note = None, pn_optional = False\<rparr>,
       \<lparr>net_id = ''panel-cell'', net_from = ''panel'', net_to = ''cell'', net_kind = ''power'', fromSide = None, toSide = None, fromT = None, toT = None, via = None, labelAt = None,
        pn_label = ''6 V in'', pn_note = None, pn_optional = False\<rparr>],
     bp_boundaries = [],
     bp_boot = Some [''panel'', ''cell'', ''ht'', ''c3'', ''radio'', ''ant'', ''soil'', ''dht''],
     bp_flow = Some (''TELEMETRY'', [''~soil-c3'', ''c3-radio'', ''radio-ant'']),
     bp_animCaption = Some ''The supply comes up, then the board, its radio and its sensors. A soil reading enters on the ADC pin and leaves as one TELEMETRY frame. Nothing on this path touches the payment plane.'',
     bp_pins = [\<lparr>pin = ''GPIO0'', pin_net = ''soil-c3'', provenance = Some ''proposed'', pp_part = ''Capacitive soil probe'', pp_signal = ''analog out, ADC1 CH0'', pp_bus = ''ADC'', pp_group = None\<rparr>,
       \<lparr>pin = ''GPIO1'', pin_net = ''dht-c3'', provenance = Some ''proposed'', pp_part = ''DHT22'', pp_signal = ''data, 10k pull-up to 3V3'', pp_bus = ''one-wire'', pp_group = None\<rparr>,
       \<lparr>pin = ''GPIO2'', pin_net = ''c3-radio'', provenance = Some ''proposed'', pp_part = ''Ra-01SH (SX1262)'', pp_signal = ''NRESET, strapping pin, idles high'', pp_bus = ''CTRL'', pp_group = None\<rparr>,
       \<lparr>pin = ''GPIO3'', pin_net = ''c3-radio'', provenance = Some ''proposed'', pp_part = ''Ra-01SH (SX1262)'', pp_signal = ''DIO1 (IRQ), deep-sleep wake'', pp_bus = ''CTRL'', pp_group = None\<rparr>,
       \<lparr>pin = ''GPIO4'', pin_net = ''c3-radio'', provenance = Some ''proposed'', pp_part = ''Ra-01SH (SX1262)'', pp_signal = ''SCK'', pp_bus = ''SPI'', pp_group = None\<rparr>,
       \<lparr>pin = ''GPIO5'', pin_net = ''c3-radio'', provenance = Some ''proposed'', pp_part = ''Ra-01SH (SX1262)'', pp_signal = ''MISO'', pp_bus = ''SPI'', pp_group = None\<rparr>,
       \<lparr>pin = ''GPIO6'', pin_net = ''c3-radio'', provenance = Some ''proposed'', pp_part = ''Ra-01SH (SX1262)'', pp_signal = ''MOSI'', pp_bus = ''SPI'', pp_group = None\<rparr>,
       \<lparr>pin = ''GPIO7'', pin_net = ''c3-radio'', provenance = Some ''proposed'', pp_part = ''Ra-01SH (SX1262)'', pp_signal = ''NSS / CS'', pp_bus = ''SPI'', pp_group = None\<rparr>,
       \<lparr>pin = ''GPIO10'', pin_net = ''c3-radio'', provenance = Some ''proposed'', pp_part = ''Ra-01SH (SX1262)'', pp_signal = ''BUSY, polled not waited on'', pp_bus = ''CTRL'', pp_group = None\<rparr>,
       \<lparr>pin = ''GPIO8'', pin_net = [], provenance = Some ''board'', pp_part = ''Board'', pp_signal = ''on-board LED, left alone'', pp_bus = ''reserved'', pp_group = None\<rparr>,
       \<lparr>pin = ''GPIO9'', pin_net = [], provenance = Some ''board'', pp_part = ''Board'', pp_signal = ''BOOT button, strapping pin'', pp_bus = ''reserved'', pp_group = None\<rparr>,
       \<lparr>pin = ''GPIO20 / 21'', pin_net = [], provenance = Some ''board'', pp_part = ''Board'', pp_signal = ''UART0 console RX / TX'', pp_bus = ''UART'', pp_group = None\<rparr>,
       \<lparr>pin = ''3V3 pad'', pin_net = ''ht-c3'', provenance = Some ''proposed'', pp_part = ''HT7333 LDO'', pp_signal = ''supply in, bypassing the board regulator'', pp_bus = ''PWR'', pp_group = None\<rparr>],
     bp_notes = [''Every pin on this sheet is proposed. The ESP32-C3 SuperMini is not in hardware/pinmap.md at all, so this is the first allocation for it and it needs sign-off before firmware is written against it.'',
       ''GPIO2 is a strapping pin, so an output that idles high is safe and an input that idles low would not be. Deep-sleep wake on the C3 works only on GPIO0 to GPIO5, which is why DIO1 sits at GPIO3.'',
       ''Remove the power LED before anything else. About 1 mA continuous is ten times the entire sensing budget.'',
       ''Martin chose a second E22-900M22S for the MVP kit on 2026-09-14 because the Ra-01SH ships mid November. Same silicon, same driver, different breakout.''],
     bp_sources = [''docs/papers/09-lora-ecosystem-devices.md, sections 2, 3 and 7'',
       ''hardware/shopping/mvp-kit.json, device farm-node'',
       ''hardware/shopping/parts/esp32-c3-supermini.json, ra-01sh-sx1262.json''],
     bp_claims = ([], [])\<rparr>"

definition tankNode :: blueprint where
  "tankNode = \<lparr>
     bp_key = ''tank-node'',
     bp_group = ''ecosystem'',
     bp_kind = ''sheet'',
     bp_name = ''Water tank level node'',
     bp_short = ''Tank level'',
     bp_rev = ''A'',
     bp_date = ''2026-09-14'',
     bp_tagline = ''The same platform with a different sensor, so the pattern generalises.'',
     bp_role = ''Reports tank level on the free LAN plane in the same TELEMETRY frame as the farm node. Proposed, not built, and not required by any demo in the current matrix.'',
     bp_status = ''proposed'',
     bp_statusNote = ''The platform is unchanged. Only the sensor and the mounting change, and the sensor pins are not allocated anywhere yet.'',
     bp_power = ''The same supply path as the farm node. A tank level changes slowly, so a schedule slower than fifteen minutes makes the budget easier still.'',
     bp_kitKey = None,
     bp_radio = Some (''Ra-01SH, an SX1262, the same radio as the farm node'', ''868.1 MHz'', ''Free LAN plane: the reading reaches a dashboard in the same mesh at zero XKN.''),
     bp_mediums = [\<lparr>md_name = ''LoRa'', md_via = ''Ra-01SH (SX1262)'', md_detail = ''the same SPI allocation as the farm node'', md_state = ''fitted''\<rparr>,
       \<lparr>md_name = ''Sensor'', md_via = ''HC-SR04 ultrasonic, or a submersible pressure transducer'', md_detail = ''HC-SR04 for a first build, pressure transducer if condensation defeats it'', md_state = ''fitted''\<rparr>],
     bp_boxes = [\<lparr>box_id = ''sensor'', bx = 2, by_y = 7 / 2, bw = 10, bh = 18 / 5, pb_label = ''HC-SR04 ultrasonic'', pb_sub = ''in the lid, 5 V, echo pin needs a divider'', pb_kind = None, pb_optional = False\<rparr>,
       \<lparr>box_id = ''alt'', bx = 2, by_y = 9, bw = 10, bh = 18 / 5, pb_label = ''Pressure transducer'', pb_sub = ''alternative: immune to foam and condensation'', pb_kind = None, pb_optional = True\<rparr>,
       \<lparr>box_id = ''c3'', bx = 17, by_y = 15 / 2, bw = 12, bh = 28 / 5, pb_label = ''ESP32-C3 SuperMini'', pb_sub = ''the farm node platform, unchanged'', pb_kind = Some ''mcu'', pb_optional = False\<rparr>,
       \<lparr>box_id = ''ant'', bx = 36, by_y = 9 / 5, bw = 10, bh = 12 / 5, pb_label = ''868 MHz whip'', pb_sub = ''3 dBi SMA, IPEX pigtail'', pb_kind = None, pb_optional = False\<rparr>,
       \<lparr>box_id = ''radio'', bx = 36, by_y = 11 / 2, bw = 10, bh = 18 / 5, pb_label = ''Ra-01SH (SX1262)'', pb_sub = ''same part, same driver'', pb_kind = None, pb_optional = False\<rparr>,
       \<lparr>box_id = ''ht'', bx = 17, by_y = 16, bw = 12, bh = 3, pb_label = ''HT7333 LDO'', pb_sub = ''4 uA quiescent'', pb_kind = None, pb_optional = False\<rparr>,
       \<lparr>box_id = ''cell'', bx = 2, by_y = 31 / 2, bw = 10, bh = 3, pb_label = ''18650 cell and TP4056'', pb_sub = ''the same supply path'', pb_kind = None, pb_optional = False\<rparr>,
       \<lparr>box_id = ''panel'', bx = 2, by_y = 20, bw = 10, bh = 3, pb_label = ''Solar panel 6 V 2 W'', pb_sub = ''optional'', pb_kind = None, pb_optional = True\<rparr>],
     bp_nets = [\<lparr>net_id = ''sensor-c3'', net_from = ''sensor'', net_to = ''c3'', net_kind = ''ctrl'', fromSide = None, toSide = None, fromT = None, toT = Some (4 / 25), via = None, labelAt = None,
        pn_label = ''trigger and echo'', pn_note = Some ''pins not allocated'', pn_optional = False\<rparr>,
       \<lparr>net_id = ''alt-c3'', net_from = ''alt'', net_to = ''c3'', net_kind = ''analog'', fromSide = None, toSide = None, fromT = Some (1 / 2), toT = Some (589 / 1000), via = None, labelAt = None,
        pn_label = ''alternative'', pn_note = Some ''pins not allocated'', pn_optional = True\<rparr>,
       \<lparr>net_id = ''c3-radio'', net_from = ''c3'', net_to = ''radio'', net_kind = ''spi'', fromSide = None, toSide = None, fromT = Some (4 / 25), toT = Some (1 / 2), via = Some (65 / 2), labelAt = None,
        pn_label = ''SPI + control'', pn_note = None, pn_optional = False\<rparr>,
       \<lparr>net_id = ''radio-ant'', net_from = ''radio'', net_to = ''ant'', net_kind = ''rf'', fromSide = None, toSide = None, fromT = None, toT = None, via = None, labelAt = None,
        pn_label = ''RF 868.1 MHz'', pn_note = None, pn_optional = False\<rparr>,
       \<lparr>net_id = ''ht-c3'', net_from = ''ht'', net_to = ''c3'', net_kind = ''power'', fromSide = None, toSide = None, fromT = None, toT = None, via = None, labelAt = None,
        pn_label = ''3V3 pad'', pn_note = None, pn_optional = False\<rparr>,
       \<lparr>net_id = ''cell-ht'', net_from = ''cell'', net_to = ''ht'', net_kind = ''power'', fromSide = None, toSide = None, fromT = Some (1 / 2), toT = Some (333 / 1000), via = None, labelAt = None,
        pn_label = ''cell out'', pn_note = None, pn_optional = False\<rparr>,
       \<lparr>net_id = ''panel-cell'', net_from = ''panel'', net_to = ''cell'', net_kind = ''power'', fromSide = None, toSide = None, fromT = None, toT = None, via = None, labelAt = None,
        pn_label = ''6 V in'', pn_note = None, pn_optional = False\<rparr>],
     bp_boundaries = [],
     bp_boot = Some [''panel'', ''cell'', ''ht'', ''c3'', ''radio'', ''ant'', ''sensor'', ''alt''],
     bp_flow = Some (''TELEMETRY'', [''c3-radio'', ''radio-ant'']),
     bp_animCaption = Some ''Identical to the farm node up to the sensor. The level reading leaves in the same TELEMETRY frame on the same free plane.'',
     bp_pins = [\<lparr>pin = ''not allocated'', pin_net = ''sensor-c3'', provenance = Some ''not allocated in paper 09'', pp_part = ''HC-SR04 ultrasonic'', pp_signal = ''trigger and echo'', pp_bus = ''CTRL'', pp_group = None\<rparr>,
       \<lparr>pin = ''GPIO2'', pin_net = ''c3-radio'', provenance = Some ''proposed, shared with the farm node'', pp_part = ''Ra-01SH (SX1262)'', pp_signal = ''NRESET'', pp_bus = ''CTRL'', pp_group = None\<rparr>,
       \<lparr>pin = ''GPIO3'', pin_net = ''c3-radio'', provenance = Some ''proposed, shared with the farm node'', pp_part = ''Ra-01SH (SX1262)'', pp_signal = ''DIO1 (IRQ)'', pp_bus = ''CTRL'', pp_group = None\<rparr>,
       \<lparr>pin = ''GPIO4'', pin_net = ''c3-radio'', provenance = Some ''proposed, shared with the farm node'', pp_part = ''Ra-01SH (SX1262)'', pp_signal = ''SCK'', pp_bus = ''SPI'', pp_group = None\<rparr>,
       \<lparr>pin = ''GPIO5'', pin_net = ''c3-radio'', provenance = Some ''proposed, shared with the farm node'', pp_part = ''Ra-01SH (SX1262)'', pp_signal = ''MISO'', pp_bus = ''SPI'', pp_group = None\<rparr>,
       \<lparr>pin = ''GPIO6'', pin_net = ''c3-radio'', provenance = Some ''proposed, shared with the farm node'', pp_part = ''Ra-01SH (SX1262)'', pp_signal = ''MOSI'', pp_bus = ''SPI'', pp_group = None\<rparr>,
       \<lparr>pin = ''GPIO7'', pin_net = ''c3-radio'', provenance = Some ''proposed, shared with the farm node'', pp_part = ''Ra-01SH (SX1262)'', pp_signal = ''NSS / CS'', pp_bus = ''SPI'', pp_group = None\<rparr>,
       \<lparr>pin = ''GPIO10'', pin_net = ''c3-radio'', provenance = Some ''proposed, shared with the farm node'', pp_part = ''Ra-01SH (SX1262)'', pp_signal = ''BUSY'', pp_bus = ''CTRL'', pp_group = None\<rparr>,
       \<lparr>pin = ''3V3 pad'', pin_net = ''ht-c3'', provenance = Some ''proposed, shared with the farm node'', pp_part = ''HT7333 LDO'', pp_signal = ''supply in'', pp_bus = ''PWR'', pp_group = None\<rparr>],
     bp_notes = [''Paper 09 allocates no pins for either sensor, so the sensor trace carries no GPIO numbers and the table says so. The SPI and supply rows are the farm node allocation, reused because the platform is unchanged.'',
       ''The reading interval is a guess. A tank level changes slowly enough that a fifteen-minute schedule is probably ten times faster than it has to be.''],
     bp_sources = [''docs/papers/09-lora-ecosystem-devices.md, section 4'',
       ''docs/papers/09-lora-ecosystem-devices.md, section 3.3, for the shared platform rows''],
     bp_claims = ([], [])\<rparr>"

definition meshtastic :: blueprint where
  "meshtastic = \<lparr>
     bp_key = ''meshtastic'',
     bp_group = ''ecosystem'',
     bp_kind = ''card'',
     bp_name = ''Meshtastic handset'',
     bp_short = ''Meshtastic'',
     bp_rev = ''A'',
     bp_date = ''2026-09-14'',
     bp_tagline = ''A stock Heltec V3 on stock firmware, on the bench to demonstrate exactly one property.'',
     bp_role = ''Bought and flashed with unmodified Meshtastic firmware. It exists to show that an xKoin BEACON keeps Meshtastic framing compatibility for discovery, and nothing beyond that.'',
     bp_status = ''proposed'',
     bp_statusNote = ''The discovery claim is specified and undemonstrated. It has not been shown between two physical radios in this repository.'',
     bp_power = ''USB or its own cell. Nothing about this device is built by us.'',
     bp_kitKey = None,
     bp_radio = Some (''SX1262 on a Heltec WiFi LoRa 32 V3 (ESP32-S3FN8, 0.96 in OLED)'', ''868 MHz, listings say 863 to 928 or 868 / 915'', ''Free LAN plane and class C service. A person who already owns Meshtastic hardware can find an xKoin node without owning any xKoin hardware.''),
     bp_mediums = [\<lparr>md_name = ''LoRa'', md_via = ''SX1262 on the Heltec V3'', md_detail = ''stock Meshtastic firmware, same radio parameters as the xKoin device'', md_state = ''fitted''\<rparr>],
     bp_boxes = [],
     bp_nets = [],
     bp_boundaries = [],
     bp_boot = None,
     bp_flow = None,
     bp_animCaption = None,
     bp_pins = [],
     bp_notes = [''Meshtastic carries messages, it has no medium but radio, and it has no economics, so nobody is paid to run a node where one is needed. Those are the three gaps xKoin fills.'',
       ''Stage two of the MVP kit adds a third Heltec V3 flashed with Meshtastic for this story.''],
     bp_sources = [''docs/papers/09-lora-ecosystem-devices.md, section 5'',
       ''hardware/shopping/mvp-kit.json, stage_two''],
     bp_claims = ([''A stock Meshtastic node and an xKoin device on the same radio parameters are visible to each other at the discovery layer.'',
       ''The xKoin BEACON, frame type 0, is framed so a Meshtastic receiver reports it rather than treating it as noise.'',
       ''The practical demonstration is an xKoin Satellite beacon appearing on a Meshtastic handset screen.''], [''No message interoperation. A Meshtastic text message is not an xKoin frame.'',
       ''No routing between the two meshes, in either direction.'',
       ''No access to the payment plane. Frame types 1 through 8 are xKoin frames and a Meshtastic node receiving one drops it.'',
       ''No claim that an xKoin device is a Meshtastic node, can join a channel, or can be administered by a Meshtastic client.'',
       ''No claim about encryption interoperation in either direction.''])\<rparr>"

definition DEVICES :: "blueprint list" where
  "DEVICES = [node_device, nodeSatellite, satellite_device, client_device, farmNode, tankNode, meshtastic]"

definition device_groups :: "(string \<times> string \<times> string) list" where
  \<comment> \<open>\<open>GROUPS\<close>: key, title and note\<close>
  "device_groups =
     [(''core'', ''Core devices'', ''The four archetypes xKoin builds.''),
      (''ecosystem'', ''Ecosystem'', ''Pre-existing LoRa hardware on the free LAN plane.'')]"

definition SHEET_DEVICES :: "blueprint list" where
  "SHEET_DEVICES = filter (\<lambda>d. bp_kind d = ''sheet'') DEVICES"

definition deviceByKey :: "string \<Rightarrow> blueprint" where
  "deviceByKey key = (case find (\<lambda>d. bp_key d = key) DEVICES of Some d \<Rightarrow> d | None \<Rightarrow> DEVICES ! 0)"

definition sheetNumber :: "blueprint \<Rightarrow> nat \<times> nat" where
  \<comment> \<open>an index that is not found is -1, and the sheet 0\<close>
  "sheetNumber d =
     (let i = length (takeWhile (\<lambda>e. bp_key e \<noteq> bp_key d) SHEET_DEVICES)
      in (if i < length SHEET_DEVICES then i + 1 else 0, length SHEET_DEVICES))"

definition svgFileName :: "blueprint \<Rightarrow> string" where
  "svgFileName d = ''xkoin-'' @ bp_key d @ ''-blueprint.svg''"

lemmas devices_data = node_device_def nodeSatellite_def satellite_device_def client_device_def farmNode_def tankNode_def meshtastic_def

end
