(* ===== verification/DeviceFacts.thy ===== *)
theory DeviceFacts
  imports Devices
begin

text \<open>
  The devices' data and \<open>layout.js\<close> together: every device is well formed, so every sheet builds, and every row of a
  pin table with a net is printed at that net's trace.  The data packet of the animation, on the other hand,
  leaves the traces on every sheet, because \<open>buildSheet\<close> drops the first point of every later net of the flow and the
  ports of a module differ.
\<close>

section \<open>Well-formed devices\<close>

definition in_area :: "box \<Rightarrow> bool" where
  \<comment> \<open>the drawing area that the header of \<open>devices.js\<close> names\<close>
  "in_area b \<longleftrightarrow> 2 \<le> bx b \<and> bx b + bw b \<le> 46 \<and> 9 / 5 \<le> by_y b \<and> by_y b + bh b \<le> 23"

fun clear_of :: "box \<Rightarrow> box list \<Rightarrow> bool" where
  "clear_of a [] = True"
| "clear_of a (b # bs) \<longleftrightarrow>
     (bx a + bw a \<le> bx b \<or> bx b + bw b \<le> bx a \<or> by_y a + bh a \<le> by_y b \<or> by_y b + bh b \<le> by_y a) \<and> clear_of a bs"

fun disjoint_boxes :: "box list \<Rightarrow> bool" where
  "disjoint_boxes [] = True"
| "disjoint_boxes (b # bs) \<longleftrightarrow> clear_of b bs \<and> disjoint_boxes bs"

definition nets_joined :: "device \<Rightarrow> bool" where
  "nets_joined dev \<longleftrightarrow>
     list_all (\<lambda>n. net_from n \<in> set (map box_id (d_boxes dev)) \<and> net_to n \<in> set (map box_id (d_boxes dev))) (d_nets dev)"

definition pins_named :: "device \<Rightarrow> bool" where
  "pins_named dev \<longleftrightarrow> list_all (\<lambda>p. pin_net p = [] \<or> pin_net p \<in> set (map net_id (d_nets dev))) (d_pins dev)"

definition boots_all :: "device \<Rightarrow> bool" where
  "boots_all dev \<longleftrightarrow>
     (case d_boot dev of
        None \<Rightarrow> True
      | Some b \<Rightarrow> distinct b \<and> list_all (\<lambda>i. i \<in> set (map box_id (d_boxes dev))) b \<and> length b = length (d_boxes dev))"

definition kinds_known :: "device \<Rightarrow> bool" where
  "kinds_known dev \<longleftrightarrow> list_all (\<lambda>n. net_kind n \<in> set (map fst NET_KINDS)) (d_nets dev)"

definition flow_named :: "device \<Rightarrow> bool" where
  "flow_named dev \<longleftrightarrow>
     list_all (\<lambda>s. (if starts_with ''~'' s then drop 1 s else s) \<in> set (map net_id (d_nets dev))) (d_flow dev)"

definition well_drawn :: "device \<Rightarrow> bool" where
  "well_drawn dev \<longleftrightarrow>
     list_all in_area (d_boxes dev) \<and> disjoint_boxes (d_boxes dev) \<and>
     distinct (map box_id (d_boxes dev)) \<and> distinct (map net_id (d_nets dev)) \<and>
     nets_joined dev \<and> pins_named dev \<and> boots_all dev \<and> kinds_known dev \<and> flow_named dev"

lemma well_drawnI:
  assumes "list_all in_area (d_boxes dev)" "disjoint_boxes (d_boxes dev)" "distinct (map box_id (d_boxes dev))"
    "distinct (map net_id (d_nets dev))" "nets_joined dev" "pins_named dev" "boots_all dev" "kinds_known dev" "flow_named dev"
  shows "well_drawn dev"
  using assms by (simp add: well_drawn_def)

lemma node_well_drawn: "well_drawn (drawing node_device)"
  by (rule well_drawnI; code_simp)
lemma nodeSatellite_well_drawn: "well_drawn (drawing nodeSatellite)"
  by (rule well_drawnI; code_simp)
lemma satellite_well_drawn: "well_drawn (drawing satellite_device)"
  by (rule well_drawnI; code_simp)
lemma client_well_drawn: "well_drawn (drawing client_device)"
  by (rule well_drawnI; code_simp)
lemma farmNode_well_drawn: "well_drawn (drawing farmNode)"
  by (rule well_drawnI; code_simp)
lemma tankNode_well_drawn: "well_drawn (drawing tankNode)"
  by (rule well_drawnI; code_simp)
lemma meshtastic_well_drawn: "well_drawn (drawing meshtastic)"
  by (rule well_drawnI; code_simp)

lemmas all_well_drawn =
  node_well_drawn nodeSatellite_well_drawn satellite_well_drawn client_well_drawn farmNode_well_drawn tankNode_well_drawn
  meshtastic_well_drawn

lemma devices_well_drawn: "d \<in> set DEVICES \<Longrightarrow> well_drawn (drawing d)"
  unfolding DEVICES_def using all_well_drawn by auto

section \<open>Sheets build\<close>

lemma box_named_some: "i \<in> set (map box_id bs) \<Longrightarrow> \<exists>b. box_named bs i = Some b"
  unfolding box_named_def by (auto simp: map_of_eq_None_iff image_image simp flip: not_None_eq)

lemma traces_some:
  assumes "\<forall>n \<in> set ns. net_from n \<in> set (map box_id (d_boxes dev)) \<and> net_to n \<in> set (map box_id (d_boxes dev))"
  shows "\<exists>ts. traces num dev ns = Some ts"
  using assms
proof (induction ns)
  case (Cons n ns)
  obtain a b where "box_named (d_boxes dev) (net_from n) = Some a" "box_named (d_boxes dev) (net_to n) = Some b"
    using Cons.prems box_named_some by (metis list.set_intros(1))
  then have "\<exists>t. trace_of num dev n = Some t" by (simp add: trace_of_def Let_def split: prod.split)
  with Cons show ?case by auto
qed simp

lemma traces_nets: "traces num dev ns = Some ts \<Longrightarrow> map tr_net ts = ns"
  by (induction ns arbitrary: ts) (auto simp: trace_of_def Let_def split: option.splits prod.splits)

lemma traces_pins:
  "traces num dev ns = Some ts \<Longrightarrow> t \<in> set ts \<Longrightarrow> (tr_pins t, tr_proposed t) = pinsOn dev (net_id (tr_net t))"
  by (induction ns arbitrary: ts) (auto simp: trace_of_def Let_def split: option.splits prod.splits)

lemma pinsOn_row:
  assumes "p \<in> set (d_pins dev)"
  shows "gpio_pin (pin p) \<Longrightarrow> drop 4 (pin p) \<in> set (fst (pinsOn dev (pin_net p)))"
    and "str_includes ''proposed'' (map lower_char (case provenance p of None \<Rightarrow> [] | Some s \<Rightarrow> s)) \<Longrightarrow> snd (pinsOn dev (pin_net p))"
  using assms unfolding pinsOn_def Let_def by (auto simp: list_ex_iff)

lemma well_drawn_builds:
  assumes "well_drawn dev"
  shows "\<exists>sh. buildSheet num dev = Some sh \<and> map tr_net (s_nets sh) = d_nets dev \<and>
           (\<forall>p \<in> set (d_pins dev). pin_net p \<noteq> [] \<longrightarrow>
              (\<exists>t \<in> set (s_nets sh). net_id (tr_net t) = pin_net p \<and>
                 (gpio_pin (pin p) \<longrightarrow> drop 4 (pin p) \<in> set (tr_pins t)) \<and>
                 (str_includes ''proposed'' (map lower_char (case provenance p of None \<Rightarrow> [] | Some s \<Rightarrow> s)) \<longrightarrow> tr_proposed t)))"
proof -
  have "\<forall>n \<in> set (d_nets dev). net_from n \<in> set (map box_id (d_boxes dev)) \<and> net_to n \<in> set (map box_id (d_boxes dev))"
    using assms unfolding well_drawn_def nets_joined_def list_all_iff by blast
  from traces_some [OF this] obtain ts where ts: "traces num dev (d_nets dev) = Some ts" by blast
  then obtain sh where sh: "buildSheet num dev = Some sh" "s_nets sh = ts" by (simp add: buildSheet_def)
  have nets: "map tr_net ts = d_nets dev" using ts by (rule traces_nets)
  have "\<exists>t \<in> set ts. net_id (tr_net t) = pin_net p \<and>
          (gpio_pin (pin p) \<longrightarrow> drop 4 (pin p) \<in> set (tr_pins t)) \<and>
          (str_includes ''proposed'' (map lower_char (case provenance p of None \<Rightarrow> [] | Some s \<Rightarrow> s)) \<longrightarrow> tr_proposed t)"
    if p: "p \<in> set (d_pins dev)" "pin_net p \<noteq> []" for p
  proof -
    have "pin_net p \<in> set (map net_id (d_nets dev))"
      using assms p unfolding well_drawn_def pins_named_def list_all_iff by blast
    then obtain t where t: "t \<in> set ts" "net_id (tr_net t) = pin_net p" unfolding nets [symmetric] by auto
    have "tr_pins t = fst (pinsOn dev (pin_net p))" "tr_proposed t = snd (pinsOn dev (pin_net p))"
      using traces_pins [OF ts t(1)] t(2) by (metis fst_conv, metis snd_conv)
    with t pinsOn_row [OF p(1)] show ?thesis by metis
  qed
  with sh nets show ?thesis by blast
qed

text \<open>Every device of the data set draws: its boxes lie apart inside the drawing area, its sheet builds with one trace
  for each net, and every row of its pin table that names a net is printed at that net's trace, with the mark of a
  proposed pin where the row says so.\<close>
theorem every_device_draws:
  assumes "d \<in> set DEVICES"
  shows "well_drawn (drawing d) \<and>
         (\<exists>sh. buildSheet num (drawing d) = Some sh \<and> map tr_net (s_nets sh) = d_nets (drawing d) \<and>
           (\<forall>p \<in> set (d_pins (drawing d)). pin_net p \<noteq> [] \<longrightarrow>
              (\<exists>t \<in> set (s_nets sh). net_id (tr_net t) = pin_net p \<and>
                 (gpio_pin (pin p) \<longrightarrow> drop 4 (pin p) \<in> set (tr_pins t)) \<and>
                 (str_includes ''proposed'' (map lower_char (case provenance p of None \<Rightarrow> [] | Some s \<Rightarrow> s)) \<longrightarrow> tr_proposed t))))"
  using devices_well_drawn [OF assms] well_drawn_builds by blast

theorem every_device_draws_witness:
  "\<exists>sh. buildSheet (\<lambda>_. []) (drawing farmNode) = Some sh \<and> map tr_net (s_nets sh) = d_nets (drawing farmNode)"
  using every_device_draws [of farmNode "\<lambda>_. []"] by (auto simp: DEVICES_def)

section \<open>The packet's way\<close>

definition packet_way :: "blueprint \<Rightarrow> pt list" where
  "packet_way d = (case buildSheet (\<lambda>_. []) (drawing d) of Some sh \<Rightarrow> s_flow sh | None \<Rightarrow> [])"

lemma node_way: "\<not> orthogonal (packet_way node_device)" by code_simp
lemma nodeSatellite_way: "\<not> orthogonal (packet_way nodeSatellite)" by code_simp
lemma satellite_way: "\<not> orthogonal (packet_way satellite_device)" by code_simp
lemma client_way: "\<not> orthogonal (packet_way client_device)" by code_simp
lemma farmNode_way: "\<not> orthogonal (packet_way farmNode)" by code_simp
lemma tankNode_way: "\<not> orthogonal (packet_way tankNode)" by code_simp

lemma device_keys [simp]:
  "bp_key node_device = ''node''" "bp_key nodeSatellite = ''node-satellite''" "bp_key satellite_device = ''satellite''"
  "bp_key client_device = ''client''" "bp_key farmNode = ''farm-node''" "bp_key tankNode = ''tank-node''"
  "bp_key meshtastic = ''meshtastic''"
  by (simp_all add: devices_data)

lemma device_kinds [simp]:
  "bp_kind node_device = ''sheet''" "bp_kind nodeSatellite = ''sheet''" "bp_kind satellite_device = ''sheet''"
  "bp_kind client_device = ''sheet''" "bp_kind farmNode = ''sheet''" "bp_kind tankNode = ''sheet''"
  "bp_kind meshtastic = ''card''"
  by (simp_all add: devices_data)

lemma SHEET_DEVICES_conv:
  "SHEET_DEVICES = [node_device, nodeSatellite, satellite_device, client_device, farmNode, tankNode]"
  by (simp add: SHEET_DEVICES_def DEVICES_def)

lemma packet_leaves_traces: "d \<in> set SHEET_DEVICES \<Longrightarrow> \<not> orthogonal (packet_way d)"
  unfolding SHEET_DEVICES_conv using node_way nodeSatellite_way satellite_way client_way farmNode_way tankNode_way by auto

text \<open>The telemetry of the farm node starts at the radio's module and visits the probe, because its first net is named
  against its direction.\<close>
lemma telemetry_starts_at_module:
  "hd (packet_way farmNode) = (px 17, px (2099 / 250))" "packet_way farmNode ! 3 = (px 12, px (26 / 5))"
  by code_simp+

section \<open>Sheet numbers\<close>

lemma sheets_numbered: "map sheetNumber SHEET_DEVICES = [(1, 6), (2, 6), (3, 6), (4, 6), (5, 6), (6, 6)]"
  unfolding sheetNumber_def SHEET_DEVICES_conv by simp

lemma device_found: "list_all (\<lambda>d. deviceByKey (bp_key d) = d) DEVICES"
  unfolding DEVICES_def deviceByKey_def by simp

end
