(* ===== verification/BudgetData.thy ===== *)
theory BudgetData
  imports Budget
begin

text \<open>
  The data of \<open>web/src/startup/data.js\<close>: the tranches, the phases with their budget lines, the notes, the stated revenue
  assumptions, the risks and the team.  The records extend those of \<open>Budget\<close> with the texts of the page; the range
  of a line that has none is 0, which \<open>resolveLine\<close> does not read.
\<close>

section \<open>Records\<close>

record check_link = ck_label :: string  ck_to :: string  ck_text :: string

record tranche_plan =
  tn_key :: string
  tn_label :: string
  tn_name :: string
  tn_phases :: "string list"
  tn_runway :: "nat \<times> nat"
  tn_unlocks :: string
  tn_milestone :: string
  tn_verify :: "check_link list"

record plan_phase = phase +
  ps_n :: nat
  ps_name :: string
  ps_short :: string
  ps_status :: string
  ps_blockedOn :: "string option"
  ps_paper :: string
  ps_paperNote :: "string option"
  ps_plan :: string
  ps_months :: "(nat \<times> nat) option"
  ps_tranche :: "string option"
  ps_entry :: string
  ps_exit :: string
  ps_backwards :: string
  ps_note :: string

record risk_row = rk_kind :: string  rk_risk :: string  rk_mitigation :: string  rk_doc :: string  rk_docLabel :: string

record hire =
  hi_role :: string
  hi_when :: string
  hi_monthly :: "(rat \<times> rat) option"
  hi_oneOff :: "(rat \<times> rat) option"
  hi_months :: "(nat \<times> nat) option"
  hi_duration :: string
  hi_why :: string
  hi_note :: string

record team_plan =
  tm_founder :: "string \<times> string \<times> string"
  \<comment> \<open>name, role and evidence\<close>
  tm_hires :: "hire list"
  tm_asks :: "(string \<times> string) list"

section \<open>Tranches\<close>

definition TRANCHES :: "tranche_plan list" where
  "TRANCHES =
      [\<lparr>tn_key = ''a'', tn_label = ''Tranche A'', tn_name = ''Bench, gates, app and one building'',
        tn_phases = [''poc-hardware'', ''gates'', ''app'', ''pilot''], tn_runway = (9, 12),
        tn_unlocks = ''Six demos passing on real hardware, a company that exists, counsel answers in writing, an app a tenant can install, and thirty consecutive days of paying tenants in one building.'',
        tn_milestone = (''The pilot'' @ [CHR 0x27] @ ''s exit condition in paper 13 section 4: thirty days with paying tenants and a per-unit price derived from the spec section 8 floor formula rather than the placeholder.''),
        tn_verify = [\<lparr>ck_label = ''Run the proofs'', ck_to = ''/replay'', ck_text = ''The frame trace, the chain settlement and the kiosk journeys, replayed from the recorded runs.''\<rparr>,
          \<lparr>ck_label = ''Price the kit'', ck_to = ''/shop'', ck_text = ''Every part line with the listing it was read on, ship-to Kenya, 2026-09-14.''\<rparr>,
          \<lparr>ck_label = ''Read the plan'', ck_to = ''/docs/papers/13-roadmap'', ck_text = ''Paper 13, the phases with their entry and exit conditions.''\<rparr>]\<rparr>,
       \<lparr>tn_key = ''b'', tn_label = ''Tranche B'', tn_name = ''The compact board'',
        tn_phases = [''pcb''], tn_runway = (6, 9),
        tn_unlocks = ''One printed circuit board with four populations replacing breakout modules with the bare silicon underneath them, passing the same six demos the breadboard passed.'',
        tn_milestone = ''Paper 13 section 6: a schematic, a layout and a manufacturing brief in a state a contract manufacturer can quote against, plus written quotations for the two unpriced silicon lines.'',
        tn_verify = [\<lparr>ck_label = ''See the boards'', ck_to = ''/blueprints'', ck_text = ''Schematics and board outlines as they stand today.''\<rparr>,
          \<lparr>ck_label = ''Read the board paper'', ck_to = ''/docs/x-koin-beta/00-compact-board-concept'', ck_text = ''The four populations, the seven proof points and the cost target.''\<rparr>]\<rparr>,
       \<lparr>tn_key = ''c'', tn_label = ''Tranche C'', tn_name = ''Certification and a first run'',
        tn_phases = [''manufacture''], tn_runway = (8, 12),
        tn_unlocks = ''Device certification, a settled tariff classification, and units landed in Nairobi at a known landed cost.'',
        tn_milestone = ''Paper 13 section 7: units landed at a known cost with the import classification settled rather than assumed.'',
        tn_verify = [\<lparr>ck_label = ''See the factory brief'', ck_to = ''/manufacturing'', ck_text = ''What a contract manufacturer is handed, and what it costs at volume.''\<rparr>,
          \<lparr>ck_label = ''Read the gates'', ck_to = ''/docs/papers/11-regulatory-and-safety'', ck_text = ''Paper 11, the four regulators and the fifteen questions for counsel.''\<rparr>]\<rparr>]"

section \<open>Phases\<close>

definition phase_poc_software :: plan_phase where
  "phase_poc_software =
     \<lparr>ph_key = ''poc-software'',
      ph_lines =
       [\<lparr>l_id = ''sw-time'', l_group = ''people'', l_label = ''Founder time, contracts, gateway, protocol and the portable firmware core'',
          l_low = 0, l_high = 0, l_usd = None, confidence = ''verified'', l_note = ''n1''\<rparr>,
        \<lparr>l_id = ''sw-gas'', l_group = ''cloud'', l_label = ''Chain gas for the test runs'',
          l_low = 0, l_high = 0, l_usd = None, confidence = ''measured'', l_note = ''n2''\<rparr>],
      ps_n = 1, ps_name = ''Proof of concept, software tests (simulated)'', ps_short = ''Software PoC'', ps_status = ''done'',
      ps_blockedOn = None,
      ps_paper = ''Paper 13, section 2'', ps_paperNote = None,
      ps_plan = ''to 2026-09'', ps_months = None, ps_tranche = None,
      ps_entry = ''A protocol specification and a chain to settle on. Nothing to buy.'',
      ps_exit = ''Every claim in the repository has a command that proves it: 35 forge tests including a 256-run solvency fuzz and a stolen-owner-key drill, 9 gateway tests, 11 protocol unit tests, scenarios S1 to S6, 75 firmware host checks, and a full loop on a real chain with a stranger-triggered founder payout.'',
      ps_backwards = ''Nothing. These runs are reproducible from the repository and are the floor everything else stands on.'',
      ps_note = ''Headline measurements out of those runs: a two-ticket settlement batch costs 191,698 gas, the protocol reached 9.768 Mbps against a 10 Mbps HomePlug model, failover to LoRa took about 0.8 seconds, and 0 of 20,000 garbage frames were accepted.''\<rparr>"

definition phase_poc_hardware :: plan_phase where
  "phase_poc_hardware =
     \<lparr>ph_key = ''poc-hardware'',
      ph_lines =
       [\<lparr>l_id = ''hw-kit'', l_group = ''hardware'', l_label = ''Bare minimum kit, six device roles, every medium and basic journey'',
          l_low = 26986, l_high = 26986, l_usd = None, confidence = ''verified'', l_note = ''n3''\<rparr>,
        \<lparr>l_id = ''hw-ship'', l_group = ''hardware'', l_label = ''AliExpress shipping on the single parcel'',
          l_low = 569, l_high = 569, l_usd = None, confidence = ''verified'', l_note = ''n3''\<rparr>,
        \<lparr>l_id = ''hw-import'', l_group = ''hardware'', l_label = ''Import charges on the parcel: duty, VAT, the 2.25 percent declaration fee and the 1.5 percent railway levy'',
          l_low = 3000, l_high = 6500, l_usd = None, confidence = ''estimate'', l_note = ''n4''\<rparr>,
        \<lparr>l_id = ''hw-vat'', l_group = ''hardware'', l_label = ''VAT on the Nairobi HomePlug kit if it is charged'',
          l_low = 0, l_high = 1440, l_usd = None, confidence = ''derived'', l_note = ''n5''\<rparr>,
        \<lparr>l_id = ''hw-spares'', l_group = ''hardware'', l_label = ''Spares of the two parts most likely to fail on a bench, plus one dev board'',
          l_low = 0, l_high = 3913, l_usd = None, confidence = ''derived'', l_note = ''n6''\<rparr>,
        \<lparr>l_id = ''hw-safety'', l_group = ''hardware'', l_label = ''Bench safety: residual current device, fused strip, insulated tools'',
          l_low = 1500, l_high = 4000, l_usd = None, confidence = ''estimate'', l_note = ''n7''\<rparr>,
        \<lparr>l_id = ''hw-stage2'', l_group = ''hardware'', l_label = ''Stage two parts for demo D3, the transformer jump across a blocking filter'',
          l_low = 0, l_high = 8000, l_usd = None, confidence = ''estimate'', l_note = ''n8''\<rparr>,
        \<lparr>l_id = ''hw-bench-time'', l_group = ''people'', l_label = ''Ten working days of founder bench time'',
          l_low = 0, l_high = 0, l_usd = None, confidence = ''verified'', l_note = ''n1''\<rparr>],
      ps_n = 2, ps_name = ''Proof of concept, hardware tests'', ps_short = ''Hardware PoC'', ps_status = ''progress'',
      ps_blockedOn = None,
      ps_paper = ''Paper 13, phase 1'', ps_paperNote = None,
      ps_plan = ''2026 Q4 to 2027 Q1'', ps_months = Some (2, 4), ps_tranche = Some ''a'',
      ps_entry = ''The parts arrive. That is the whole entry condition, and it is why the sourcing work came before the roadmap.'',
      ps_exit = ''All six demos D1 to D6 pass on a bench, recorded on video, and four repository claims are confirmed or corrected against a measurement: the Satellite average current against the 40 mA design ceiling, the SX1262 registers carrying VERIFY tags, KQ-130F behaviour on a real mains segment, and HomePlug goodput on real wiring against the 10 Mbps model.'',
      ps_backwards = ''Demo D5 failing on real wiring is the one that changes the product rather than the schedule, because the bulk plane is what separates this network from a mesh messenger. Demo D2 failing through 60 dB of loss sends the radio front end back for an external amplifier and a low-noise amplifier.'',
      ps_note = ''Ten working days of bench time for one person once the kit lands. Day 1 is the gate: the ESP-IDF glue is written to the documented pin map and has never been compiled on a dev machine.''\<rparr>"

definition phase_pcb :: plan_phase where
  "phase_pcb =
     \<lparr>ph_key = ''pcb'',
      ph_lines =
       [\<lparr>l_id = ''pcb-design'', l_group = ''pcb'', l_label = ''Schematic capture, layout and design for manufacture, one board with four populations'',
          l_low = 300000, l_high = 600000, l_usd = None, confidence = ''unquoted'', l_note = ''n9''\<rparr>,
        \<lparr>l_id = ''pcb-fab'', l_group = ''pcb'', l_label = ''Bare boards and stencil, 30 pieces, four layers with a controlled-impedance radio section'',
          l_low = 60000, l_high = 150000, l_usd = None, confidence = ''unquoted'', l_note = ''n10''\<rparr>,
        \<lparr>l_id = ''pcb-parts'', l_group = ''pcb'', l_label = ''Components for 30 Node and 30 Satellite populations at engineering-run pricing'',
          l_low = 0, l_high = 0, l_usd = Some (4400, 7700), confidence = ''derived'', l_note = ''n11''\<rparr>,
        \<lparr>l_id = ''pcb-assembly'', l_group = ''pcb'', l_label = ''Assembly setup and surface-mount run for 60 populations'',
          l_low = 80000, l_high = 200000, l_usd = None, confidence = ''unquoted'', l_note = ''n10''\<rparr>,
        \<lparr>l_id = ''pcb-spin'', l_group = ''pcb'', l_label = ''One design spin allowance'',
          l_low = 150000, l_high = 400000, l_usd = None, confidence = ''estimate'', l_note = ''n12''\<rparr>,
        \<lparr>l_id = ''pcb-instruments'', l_group = ''hardware'', l_label = ''Bench instruments: logic analyser, bench supply, spectrum analyser access'',
          l_low = 40000, l_high = 120000, l_usd = None, confidence = ''estimate'', l_note = ''n13''\<rparr>,
        \<lparr>l_id = ''pcb-silicon'', l_group = ''pcb'', l_label = ''QCA7005-class HomePlug silicon and the ST7540 narrowband part'',
          l_low = 0, l_high = 0, l_usd = None, confidence = ''unpriced'', l_note = ''n14''\<rparr>],
      ps_n = 3, ps_name = ''Prototyping custom PCB'', ps_short = ''Custom PCB'', ps_status = ''planned'',
      ps_blockedOn = None,
      ps_paper = ''Paper 13, phase 4'', ps_paperNote = None,
      ps_plan = ''2027 Q3 to Q4'', ps_months = Some (4, 7), ps_tranche = Some ''b'',
      ps_entry = ''Phase 2 exit met, and specifically the seven proof points the beta concept paper names as the things a breadboard has to settle before a printed circuit board is committed.'',
      ps_exit = ''A board that passes the same six demos the breadboard passed, with the schematic, the layout and the manufacturing brief in a state a Shenzhen contract manufacturer can quote against.'',
      ps_backwards = ''Two unpriced silicon lines. The QCA7005-class HomePlug part has no open distributor price and is normally sold under a design-in agreement; the ST7540 lists at USD 15.19 at quantity one and is out of stock, at which price the discrete route loses to the KQ-130F module outright.'',
      ps_note = (''Paper 13 prints no figure for this phase on purpose, because an invented number would propagate into every later total. The lines below are this page'' @ [CHR 0x27] @ ''s own estimates, flagged unquoted, so an investor can see the shape of the round. Each one is replaced by a written quotation before it is spent.'')\<rparr>"

definition phase_manufacture :: plan_phase where
  "phase_manufacture =
     \<lparr>ph_key = ''manufacture'',
      ph_lines =
       [\<lparr>l_id = ''mf-firmware'', l_group = ''people'', l_label = ''In-house firmware and protocol resilience, two engineer quarters'',
          l_low = 900000, l_high = 1800000, l_usd = None, confidence = ''unquoted'', l_note = ''n9''\<rparr>,
        \<lparr>l_id = ''mf-cert'', l_group = ''certification'', l_label = ''Certification: KEBS mains device approval and an ILAC-accredited laboratory test report'',
          l_low = 250000, l_high = 900000, l_usd = None, confidence = ''unquoted'', l_note = ''n15''\<rparr>,
        \<lparr>l_id = ''mf-brief'', l_group = ''legal'', l_label = ''Manufacturing brief, tariff classification opinion and a customs agent'',
          l_low = 60000, l_high = 150000, l_usd = None, confidence = ''unquoted'', l_note = ''n16''\<rparr>,
        \<lparr>l_id = ''mf-tooling'', l_group = ''pcb'', l_label = ''Tooling: enclosure mould or a CNC first article'',
          l_low = 150000, l_high = 600000, l_usd = None, confidence = ''unquoted'', l_note = ''n10''\<rparr>,
        \<lparr>l_id = ''mf-run'', l_group = ''hardware'', l_label = ''First run, 200 Nodes and 300 Satellites, ex-works'',
          l_low = 0, l_high = 0, l_usd = Some (17900, 24165), confidence = ''derived'', l_note = ''n17''\<rparr>,
        \<lparr>l_id = ''mf-landing'', l_group = ''hardware'', l_label = ''Freight and Kenyan import charges on the first run'',
          l_low = 0, l_high = 0, l_usd = Some (1790, 6041), confidence = ''estimate'', l_note = ''n18''\<rparr>],
      ps_n = 4, ps_name = ''Manufacturing'', ps_short = ''Manufacturing'', ps_status = ''planned'',
      ps_blockedOn = None,
      ps_paper = ''Paper 13, phase 5'', ps_paperNote = None,
      ps_plan = ''2028 Q1 onward'', ps_months = Some (4, 8), ps_tranche = Some ''c'',
      ps_entry = ''Phase 3 exit met, the device gates in phase 6 cleared, and a written quotation against the manufacturing brief.'',
      ps_exit = ''Units landed in Nairobi at a known landed cost, with the import classification settled rather than assumed.'',
      ps_backwards = ''Kenyan duty classification is open and moves the landed Node cost by about USD 15, because a finished radio transceiver in an enclosure is a different tariff argument from a bare module.'',
      ps_note = ''Local factory or outsourced assembly is a decision for this phase, not before it. Firmware and protocol resilience work is in house and runs through the phase rather than after it.''\<rparr>"

definition phase_pilot :: plan_phase where
  "phase_pilot =
     \<lparr>ph_key = ''pilot'',
      ph_lines =
       [\<lparr>l_id = ''pl-field'', l_group = ''hardware'', l_label = ''Field hardware, one Node and three relays'',
          l_low = 29050, l_high = 29050, l_usd = None, confidence = ''derived'', l_note = ''n19''\<rparr>,
        \<lparr>l_id = ''pl-spare'', l_group = ''hardware'', l_label = ''One spare relay and consumables'',
          l_low = 0, l_high = 15000, l_usd = None, confidence = ''estimate'', l_note = ''n20''\<rparr>,
        \<lparr>l_id = ''pl-opex'', l_group = ''pilot'', l_label = ''Operating cost, backhaul and power, three months'',
          l_low = 11550, l_high = 11550, l_usd = None, confidence = ''derived'', l_note = ''n19''\<rparr>,
        \<lparr>l_id = ''pl-install'', l_group = ''pilot'', l_label = ''Site survey, installation, cabling and enclosures'',
          l_low = 20000, l_high = 60000, l_usd = None, confidence = ''estimate'', l_note = ''n20''\<rparr>,
        \<lparr>l_id = ''pl-incentive'', l_group = ''pilot'', l_label = ''Caretaker stipend and tenant onboarding incentives, thirty days'',
          l_low = 15000, l_high = 45000, l_usd = None, confidence = ''estimate'', l_note = ''n21''\<rparr>,
        \<lparr>l_id = ''pl-measure'', l_group = ''pilot'', l_label = ''Bulk bundles bought at retail so backhaul cost per MB can be measured'',
          l_low = 9000, l_high = 18000, l_usd = None, confidence = ''estimate'', l_note = ''n22''\<rparr>,
        \<lparr>l_id = ''pl-fiat'', l_group = ''pilot'', l_label = ''Mobile money charges on pilot volume'',
          l_low = 3000, l_high = 12000, l_usd = None, confidence = ''estimate'', l_note = ''n23''\<rparr>,
        \<lparr>l_id = ''pl-gas'', l_group = ''cloud'', l_label = ''Chain gas at pilot volume, three months'',
          l_low = 720, l_high = 720, l_usd = None, confidence = ''derived'', l_note = ''n24''\<rparr>,
        \<lparr>l_id = ''pl-vps'', l_group = ''cloud'', l_label = ''gateway-api virtual private server, domain and backups, three months'',
          l_low = 0, l_high = 0, l_usd = Some (36, 90), confidence = ''estimate'', l_note = ''n25''\<rparr>],
      ps_n = 5, ps_name = ''Pilot building'', ps_short = ''Pilot building'', ps_status = ''blocked'',
      ps_blockedOn = Some ''Martin, for a landlord who has said yes, and counsel, for the first written opinion.'',
      ps_paper = ''Paper 13, phase 2'', ps_paperNote = Some ''Paper 13 orders this as its phase 2, ahead of the board, because the price decision it produces gates everything after it.'',
      ps_plan = ''2027 Q2'', ps_months = Some (3, 5), ps_tranche = Some ''a'',
      ps_entry = (''Phase 2 exit met, plus four things that are not engineering: a company that exists, a landlord who has said yes, counsel'' @ [CHR 0x27] @ ''s first written opinion, and the companion app in a state a tenant can install.''),
      ps_exit = ''Thirty consecutive days with paying tenants, and five numbers that did not exist before: measured backhaul cost in KES per MB, the proxy cache hit rate, the real per-node capital and monthly operating cost against the design suite KES 29,050 and KES 3,850, the session credit limit that produced no underpaid operator, and a per-unit price derived from the floor formula rather than the 500 micro-KES placeholder.'',
      ps_backwards = ''A price that cannot clear measured backhaul cost plus the Jenga and Daraja transaction charges. Those fiat charges are tens to hundreds of times the chain gas per operation, and chain gas is not the cost centre anyone expected it to be.'',
      ps_note = ''One building. One Node in the meter room, three relays on the risers, about ten paying tenants. The landlord gives socket space, a mounting point, permission and one caretaker with a key, and in exchange becomes the node operator keeping 95 percent of every settled byte. Thirty days, no setup bill, no lock-in, either side ends it with thirty days notice.''\<rparr>"

definition phase_gates :: plan_phase where
  "phase_gates =
     \<lparr>ph_key = ''gates'',
      ph_lines =
       [\<lparr>l_id = ''gt-counsel'', l_group = ''legal'', l_label = (''Counsel'' @ [CHR 0x27] @ ''s first written opinion against the fifteen numbered questions''),
          l_low = 150000, l_high = 400000, l_usd = None, confidence = ''unquoted'', l_note = ''n26''\<rparr>,
        \<lparr>l_id = ''gt-company'', l_group = ''legal'', l_label = ''Company incorporation, CR12 and director documents for Jenga live onboarding'',
          l_low = 25000, l_high = 60000, l_usd = None, confidence = ''estimate'', l_note = ''n27''\<rparr>,
        \<lparr>l_id = ''gt-accounting'', l_group = ''legal'', l_label = ''Accounting, tax registration and statutory filings, first year'',
          l_low = 30000, l_high = 90000, l_usd = None, confidence = ''estimate'', l_note = ''n28''\<rparr>,
        \<lparr>l_id = ''gt-safe'', l_group = ''cloud'', l_label = ''Mainnet deployment and a 2-of-3 Safe as contract owner'',
          l_low = 10, l_high = 30, l_usd = None, confidence = ''derived'', l_note = ''n29''\<rparr>,
        \<lparr>l_id = ''gt-licence'', l_group = ''certification'', l_label = ''Communications Authority licence category application and first-year fee'',
          l_low = 0, l_high = 0, l_usd = None, confidence = ''unpriced'', l_note = ''n30''\<rparr>,
        \<lparr>l_id = ''gt-kebs'', l_group = ''certification'', l_label = ''KEBS certification of a device that couples to 230 V in customer premises'',
          l_low = 0, l_high = 0, l_usd = None, confidence = ''unpriced'', l_note = ''n31''\<rparr>,
        \<lparr>l_id = ''gt-typeapproval'', l_group = ''certification'', l_label = ''Type-approval exemption evidence: a test report from an ILAC-accredited laboratory'',
          l_low = 0, l_high = 0, l_usd = None, confidence = ''unpriced'', l_note = ''n32''\<rparr>],
      ps_n = 6, ps_name = ''Regulatory and corporate gates'', ps_short = ''Regulatory gates'', ps_status = ''progress'',
      ps_blockedOn = Some ''Counsel, then the Communications Authority, KEBS and the Central Bank of Kenya.'',
      ps_paper = ''Paper 13, phase 3'', ps_paperNote = Some ''Paper 13 calls these gates rather than a phase that waits its turn. Each one blocks a specific later action and the work on it starts now.'',
      ps_plan = ''runs alongside phases 2 to 5'', ps_months = Some (3, 9), ps_tranche = Some ''a'',
      ps_entry = ''None. The standing brief in docs/ops/regulatory-brief.md carries fifteen numbered questions in the form a lawyer can answer. Sending it is the cheapest item on the roadmap and it gates the three most expensive ones.'',
      ps_exit = ''Ten gates answered in writing: 868 MHz short-range-device rules, type-approval exemption evidence, power-line carrier at 120 to 135 kHz, KEBS mains device certification, transit resale licensing, the legal character of XKN, anti-money-laundering and know-your-customer, tax treatment, company and merchant agreements, and a 2-of-3 Safe owning the contracts.'',
      ps_backwards = ''A licence category whose fee or obligations make a community network uneconomic, or a Central Bank answer that needs an authorisation rather than a partner bank holding the float.'',
      ps_note = ''Three of the ten gates carry no number in this repository, because no fee has been published or quoted. They are listed as unpriced rather than guessed, and they are the reason the top of this phase is open-ended.''\<rparr>"

definition phase_app :: plan_phase where
  "phase_app =
     \<lparr>ph_key = ''app'',
      ph_lines =
       [\<lparr>l_id = ''ap-dev'', l_group = ''people'', l_label = ''Android engineer, Kotlin, one quarter'',
          l_low = 600000, l_high = 1200000, l_usd = None, confidence = ''unquoted'', l_note = ''n9''\<rparr>,
        \<lparr>l_id = ''ap-devices'', l_group = ''hardware'', l_label = ''Test fleet, three Android handsets across the range tenants actually carry'',
          l_low = 45000, l_high = 90000, l_usd = None, confidence = ''estimate'', l_note = ''n33''\<rparr>,
        \<lparr>l_id = ''ap-store'', l_group = ''cloud'', l_label = ''Play Store developer account, one off'',
          l_low = 0, l_high = 0, l_usd = Some (25, 25), confidence = ''verified'', l_note = ''n34''\<rparr>,
        \<lparr>l_id = ''ap-review'', l_group = ''certification'', l_label = ''Third-party review of key handling and the restore path before mainnet fiat'',
          l_low = 0, l_high = 250000, l_usd = None, confidence = ''unquoted'', l_note = ''n35''\<rparr>],
      ps_n = 7, ps_name = ''Companion app MVP'', ps_short = ''Companion app'', ps_status = ''planned'',
      ps_blockedOn = None,
      ps_paper = ''Paper 13, phase 2 entry'', ps_paperNote = None,
      ps_plan = ''2027 Q1 to Q2'', ps_months = Some (3, 4), ps_tranche = Some ''a'',
      ps_entry = ''Phase 1 exit met. The scope is already fixed: one seed in the Android Keystore, two derived keys, balance, buy, auto-sign, send, withdraw. Kotlin, Android first.'',
      ps_exit = ''A tenant can install it, buy with M-Pesa or Equitel, browse, and withdraw an unspent deposit. Journeys J2, J3, J5 and J10 demonstrated end to end.'',
      ps_backwards = ''Key handling. The seed is the balance, so a restore path that loses it loses the user money. That makes the security review a gate rather than a nicety.'',
      ps_note = ''Paper 13 section 8 names one developer quarter for this app as one of three unpriced lines that dominate the pilot funding range and make its top nearly four times its bottom. It is the largest single item in the first tranche.''\<rparr>"

definition phase_kiosk :: plan_phase where
  "phase_kiosk =
     \<lparr>ph_key = ''kiosk'',
      ph_lines =
       [],
      ps_n = 8, ps_name = ''Kiosk network'', ps_short = ''Kiosk network'', ps_status = ''blocked'',
      ps_blockedOn = Some ''Martin. xkoinkiosk.com is scoped in the next session.'',
      ps_paper = ''Not yet in the paper set'', ps_paperNote = None,
      ps_plan = ''after the pilot'', ps_months = None, ps_tranche = None,
      ps_entry = ''A scoping session for xkoinkiosk.com. It has not happened, so this phase carries no lines and no figure.'',
      ps_exit = ''Not scoped. Writing an exit condition before the scope exists would be a guess dressed as a plan.'',
      ps_backwards = ''Not scoped.'',
      ps_note = ''The kiosk is the fiat on-ramp that already exists as a gateway-api route. Turning it into a network of retail points is a business question rather than a protocol one, and it is the next thing to be written down.''\<rparr>"

definition phase_scale :: plan_phase where
  "phase_scale =
     \<lparr>ph_key = ''scale'',
      ph_lines =
       [],
      ps_n = 9, ps_name = ''Scale'', ps_short = ''Scale'', ps_status = ''planned'',
      ps_blockedOn = None,
      ps_paper = ''Beyond paper 13'', ps_paperNote = None,
      ps_plan = ''after manufacturing'', ps_months = None, ps_tranche = None,
      ps_entry = ''Manufacturing exit met, units landed at a known cost, and the protocol break-even building count in sight.'',
      ps_exit = ''The treasury 5 percent share covers the cost of running the protocol without a raise. The building count that reaches it is computed on this page from the current price placeholder and moves with the price decision.'',
      ps_backwards = ''The per-unit price. Every building added multiplies the same margin, so a price that does not clear its costs does not get better with scale, it gets worse faster.'',
      ps_note = ''Funded from revenue and from a later round. No lines are priced here, because the inputs that would price them are exactly what the pilot measures.''\<rparr>"

definition PHASES :: "plan_phase list" where
  "PHASES = [phase_poc_software, phase_poc_hardware, phase_pcb, phase_manufacture, phase_pilot, phase_gates, phase_app, phase_kiosk, phase_scale]"

lemmas phases_data = phase_poc_software_def phase_poc_hardware_def phase_pcb_def phase_manufacture_def phase_pilot_def phase_gates_def phase_app_def phase_kiosk_def phase_scale_def

section \<open>Notes\<close>

definition notes_1 :: "(string \<times> string) list" where
  "notes_1 =
      [(''n1'', ''Founder time is not costed in cash anywhere on this page. It is stated so that a reader does not mistake a zero for free work.''),
       (''n2'', ''The test runs settle on a local anvil chain, which costs nothing. Paper 04 section 9 prices the same work at public Base gas of 2026-09-09: 131,391 gas to settle a one-ticket batch, which is 0.24 KES, and 4,518,529 gas to deploy all three contracts plus setBridge, which is 8.25 KES (measured with forge on 2026-09-26 after withdrawWithSig and transferDeposit were added).''),
       (''n3'', ''hardware/shopping/mvp-kit.json and mvp-sourcing.md. Every line was read on its listing on 2026-09-14 with the variant selected and ship-to set to Kenya. The same figures drive /shop, so the two pages cannot disagree. Excludes import charges, which are the next line.''),
       (''n4'', ''Estimate. The AliExpress half of the parcel is about KES 16,500 of declared value; Kenyan charges are duty at a classification that has not been ruled on, VAT, the 2.25 percent import declaration fee and the 1.5 percent railway development levy. Paper 13 section 8 puts the same charges at the top of its range A rather than pricing them, and no customs entry has been filed.''),
       (''n5'', ''Derived: 16 percent of the KES 9,000 TL-WPA4220KIT bought in Nairobi. Whether VAT is charged separately or already in the shelf price was not confirmed on the day, so the low column carries zero.''),
       (''n6'', ''Derived from the verified listing prices: one E22-900M22S at 556, one KQ-130F at 2,608 and one ESP32-S3-DevKitC at 749. Paper 13 section 8 says what the top of range A buys over the bottom is spares of the radio and the narrowband module, which are the two parts most likely to fail on a bench.''),
       (''n7'', ''Estimate. hardware/bom.md lists the bench safety items as non-negotiable for mains work and paper 11 section 6 makes the residual current device a bench rule, but no listing was scouted for any of them.''),
       (''n8'', ''Estimate from the stage_two block in hardware/shopping/mvp-kit.json: a third ESP32-S3, a second SX1262 module, a third KQ-130F, the plain HomePlug pair and the mains blocking filter. Demo D3 is the only demo the bare minimum kit cannot run.''),
       (''n9'', ''Unquoted. The repository holds no rate card, no engagement letter and no offer. The band is a placeholder for scoping the round and is replaced by a written quotation before anything is spent. It reads as roughly KES 200,000 to KES 400,000 a month for a mid-level engineer in Nairobi, which is an assumption, not a market survey.''),
       (''n10'', ''Unquoted. Paper 13 section 6 gives unit costs at 1,000 units and deliberately prints no non-recurring engineering, tooling or certification figure, because none has been quoted. These lines exist so the round has a shape; the manufacturing brief in docs/x-koin-beta/ is the document that turns them into quotations.''),
       (''n11'', ''Derived from paper 13 section 6: the beta concept paper derives USD 50.24 for a Node and USD 23.31 for a Satellite at 1,000 units ex-works China. Thirty of each is USD 2,206 at that pricing; an engineering run of twenty to fifty boards is taken here at two to three and a half times unit pricing, which is the assumption in this line and not a quotation.''),
       (''n12'', ''Estimate. One board spin between first article and a board that passes the six demos is normal rather than pessimistic. The allowance is a fraction of the design and fabrication lines above it.''),
       (''n13'', ''Estimate. A logic analyser and a bench supply are bought; spectrum analyser access is more likely hired or borrowed than bought, which is why the band is wide.''),
       (''n14'', ''Unpriced on purpose. Paper 13 section 6: the QCA7005 has no open distributor price and Qualcomm networking silicon of that class is normally sold under a design-in agreement; the ST7540 is listed at USD 15.19 at quantity one and out of stock, at which price the discrete route loses to the KQ-130F module outright. A written quotation for both is the first procurement action after the hardware proof of concept closes.''),
       (''n15'', ''Unquoted. Paper 11 section 2 records that the Communications Authority 2022 guidelines require a test report from an ILAC-accredited laboratory on request, and paper 13 section 5 lists KEBS certification as a gate on field use of any device that couples to 230 V. No fee for either is published in this repository and neither has been asked for.''),
       (''n16'', ''Unquoted. Paper 13 section 7: Kenyan duty classification is open and moves the landed Node cost by about USD 15, because a finished radio transceiver in an enclosure is a different tariff argument from a bare module. This line buys the opinion that settles it.''),
       (''n17'', ''Derived from paper 13 section 6 cost targets of USD 52 for a Node and USD 25 for a Satellite at 1,000 units, ex-works China, board and enclosure included, before freight and Kenyan import charges. A first run of 200 Nodes and 300 Satellites is USD 17,900 at target pricing; the high column applies a factor of 1.35 because a 500-unit run does not reach 1,000-unit pricing.''),
       (''n18'', ''Estimate at 10 to 25 percent of the ex-works value, the spread being exactly the open tariff classification in paper 13 section 7. At 200 Nodes an unfavourable ruling is about USD 3,000 on its own.'')]"

definition notes_2 :: "(string \<times> string) list" where
  "notes_2 =
      [(''n19'', (''Paper 13 section 8 and paper 01 section 5, quoting the design suite urban model: KES 29,050 of capital cost for one Node and three relays, and KES 3,850 a month of operating cost. Both are conditional on that model'' @ [CHR 0x27] @ ''s component lines, and replacing both with measured figures is one of the five things the pilot exists to produce. Paper 01 section 5 also flags that the field-kit total in hardware/bom.md is on a different basis and needs reconciling before either number is used in a pitch.'')),
       (''n20'', ''Estimate. No installation has been done and no quotation exists. The band covers a walk-up block of the size the design suite models.''),
       (''n21'', ''Estimate. Paper 13 section 4: the landlord gives socket space, a mounting point, permission and one caretaker who holds a key, and pays no setup bill. This line is what that caretaker and the first tenants are worth paying for thirty days.''),
       (''n22'', ''Estimate. The pilot exit requires a measured backhaul cost in KES per MB, which means buying the bulk bundle at retail for three months and metering what it delivers against the proxy cache hit rate.''),
       (''n23'', ''Estimate. Paper 04 section 9: every shilling entering through Jenga carries a Finserve charge and every payout carries another, and the documented sample shows 1 KES on a 2 KES payment. These charges are tens to hundreds of times the chain gas per operation. The exact tariff is not in this repository, so the band is wide.''),
       (''n24'', ''Derived from paper 13 section 8: chain gas is negligible and measured, at about 8 KES a day at pilot volume, which is about KES 720 over three months. Paper 04 section 9 has the per-operation figures behind it.''),
       (''n25'', ''Estimate. gateway-api needs one small virtual private server with a domain and backups. No invoice exists; the band is a modest box at the bottom and a larger one with off-site backups at the top.''),
       (''n26'', (''Unquoted. Paper 13 section 8 lists counsel'' @ [CHR 0x27] @ ''s first written opinion as one of three unpriced lines that dominate the pilot range, and section 9 notes it gates three separate rows while being the cheapest item on the roadmap. docs/ops/regulatory-brief.md holds the fifteen questions; no firm has quoted against them.'')),
       (''n27'', ''Estimate. Paper 13 section 5: Jenga live onboarding needs a certificate of incorporation, a current CR12 and director identity documents, and the company must exist before that step.''),
       (''n28'', ''Estimate. A company that holds customer float files statutory returns from day one. No accountant has quoted.''),
       (''n29'', ''Derived from paper 04 section 9: 4,518,529 gas deploys all three contracts plus setBridge for 8.25 KES on 2026-09-09 Base pricing. A 2-of-3 Safe is a small multiple of one of those deploys. The whole on-chain corporate structure costs less than a matatu fare, which is the point: the expensive parts of this phase are lawyers and regulators, not the chain.''),
       (''n30'', ''Unpriced. Paper 11 section 4: the licence category is not chosen. The candidates are Network Facilities Provider Tier 3, Application Service Provider and the community networks framework the Authority has discussed since 2021, and each carries a different fee, obligations and timeline. Counsel questions 6 and 7 decide it.''),
       (''n31'', ''Unpriced. Paper 11 section 3, counsel question 5, asks whether a device that couples to 230 V mains needs KEBS certification before field use in customer homes, independent of any radio question. Until that is answered there is nothing to price.''),
       (''n32'', ''Unpriced. Paper 11 section 2, counsel question 3, asks whether a test report from the module manufacturer suffices under section 4.1 of the 2022 guidelines, or whether the assembled xKoin device must be tested. The two answers differ by an order of magnitude and the repository will not guess which applies.''),
       (''n33'', ''Estimate. Three handsets across the price range tenants actually carry, because the app has to work on the cheap one.''),
       (''n34'', ''Verified: the Google Play developer registration fee is a one-off USD 25.''),
       (''n35'', ''Unquoted. Paper 10 sets out the key blast radii and the contracts already hold the founder-safety properties, but no third-party review has been commissioned or quoted. The low column is zero because the review is a decision, not a commitment.''),
       (''n36'', ''Contingency is computed at 15 percent of the other priced lines in the same phase, not typed in. It covers the parts of a phase nobody listed, which on a hardware project is most often a part that arrives dead and a week that arrives late.'')]"

definition NOTES :: "(string \<times> string) list" where
  "NOTES = notes_1 @ notes_2"

section \<open>Risks and team\<close>

definition RISKS :: "risk_row list" where
  "RISKS =
      [\<lparr>rk_kind = ''Regulatory'', rk_risk = ''Type approval. The firmware ships at +22 dBm, about 158 mW, roughly six times the 25 mW ceiling for the 868.0 to 868.6 MHz sub-band, and a gateway carrying paid traffic all day cannot live inside a 1 percent duty cycle.'',
        rk_mitigation = ''Both are firmware settings, not hardware limits. Three options are already written down: cap transmit power and keep 868.1 MHz, implement listen-before-talk with adaptive frequency agility, or move bulk traffic to 869.4 to 869.65 MHz where 500 mW and 10 percent apply.'',
        rk_doc = ''/docs/papers/11-regulatory-and-safety'', rk_docLabel = ''Paper 11, section 2''\<rparr>,
       \<lparr>rk_kind = ''Regulatory'', rk_risk = ''Payments licensing. Whether XKN is e-money under the National Payment System Act, a prepaid service credit, or a virtual asset under the Virtual Asset Service Providers Act 2025 is unanswered, and the answer decides whether an authorisation or a partner bank is needed for the float.'',
        rk_mitigation = ''The partner route is the default rather than the fallback: a bank or a mobile money partner holds the float while the question is settled, which is why the on-ramp already runs through Daraja and Jenga rather than a wallet of our own. Counsel questions 8 to 11 are drafted and waiting to be sent.'',
        rk_doc = ''/docs/papers/11-regulatory-and-safety'', rk_docLabel = ''Paper 11, section 5''\<rparr>,
       \<lparr>rk_kind = ''Regulatory'', rk_risk = ''Transit resale. Selling connectivity to third parties may need a licence whose category, fee and obligations are not chosen, and the mobile operator terms may not permit onward resale at all.'',
        rk_mitigation = ''Nothing is offered to a customer before the answer. The pilot is structured so the landlord is the node operator keeping 95 percent, not a reseller of their own bandwidth, because the regulatory position of the two is different and the pitch says so.'',
        rk_doc = ''/docs/papers/11-regulatory-and-safety'', rk_docLabel = ''Paper 11, section 4''\<rparr>,
       \<lparr>rk_kind = ''Technical'', rk_risk = ''Mains power-line carrier on real risers. The 9.768 Mbps figure is against a 10 Mbps HomePlug model in simulation. No xKoin frame has crossed a real mains riser, and demo D5 is where that claim meets a building.'',
        rk_mitigation = ''D5 is the gate rather than a hope, and it runs on a bench before it runs in a building. If it fails the product changes rather than the schedule: the free local plane and the LoRa survival plane still work, and the narrowband receipt plane is independent of the bulk plane by design.'',
        rk_doc = ''/docs/papers/12-proof-of-concept-plan'', rk_docLabel = ''Paper 12, demo D5''\<rparr>,
       \<lparr>rk_kind = ''Technical'', rk_risk = ''LoRa duty cycle. Every pages-per-hour figure in the protocol paper is computed at 1 percent and is unverified for Kenya until counsel confirms which instrument is operative.'',
        rk_mitigation = ''Listen-before-talk with adaptive frequency agility removes the duty-cycle ceiling and the SX1262 is capable of it. Failing that, the bulk traffic moves sub-band. Demo D2 through two 30 dB attenuators is what tells us how much link budget there is to spend on the choice.'',
        rk_doc = ''/docs/papers/11-regulatory-and-safety'', rk_docLabel = ''Paper 11, section 2''\<rparr>,
       \<lparr>rk_kind = ''Market'', rk_risk = (''Landlord adoption. One landlord saying yes is a hard entry condition on the pilot, and a landlord who fears for their wiring or their tenants'' @ [CHR 0x27] @ '' equipment says no.''),
        rk_mitigation = ''The ask is deliberately small: socket space, a mounting point, permission and one caretaker with a key. Thirty days, no setup bill, no lock-in, either side ends it with thirty days notice. The mains coupling is done through certified commodity adapters rather than a custom mains circuit, which is the specific thing a landlord is worried about.'',
        rk_doc = ''/docs/potential/02-apartment-estates'', rk_docLabel = ''Apartment estates''\<rparr>,
       \<lparr>rk_kind = ''Market'', rk_risk = ''The price. At the placeholder of KES 50 per GB the network is barely cheaper than an Airtel daily pack at KES 40 per GB, and five times the KES 10 target the design suite models.'',
        rk_mitigation = ''The pilot exists to replace the placeholder with a price derived from measured backhaul cost and the measured proxy cache hit rate through the floor formula. It is the single most consequential open decision in the project and this page does not pretend it is settled.'',
        rk_doc = ''/docs/papers/04-settlement-and-economics'', rk_docLabel = ''Paper 04, section 10''\<rparr>,
       \<lparr>rk_kind = ''Founder'', rk_risk = ''Key management. One person holds the kiosk root key, the bridge hot key and the contract owner key, and a founder who loses or leaks any of them is a single point of failure.'',
        rk_mitigation = ''The contracts are written so that the founder cannot hurt the users and a thief cannot hurt the founder. Treasury claim takes no destination parameter, so a stolen owner key cannot redirect a single micro-KES. Changing the beneficiary takes a seven-day public timelock the current beneficiary can veto. Bridge burn is self-only and mint is capped per rolling day. A 2-of-3 Safe owns the contracts before any mainnet deployment.'',
        rk_doc = ''/docs/papers/10-security-and-trust'', rk_docLabel = ''Paper 10''\<rparr>]"

definition TEAM :: team_plan where
  "TEAM =
     \<lparr>tm_founder = (''Martin Thuku'', ''Founder. Protocol, contracts, gateway, firmware and hardware sourcing.'', ''Everything in the proof matrix was built and proven by one person: three contracts with 35 forge tests, a gateway with its external calls mocked, a protocol reference with six passing scenarios, a portable firmware core with 75 host checks, and a full loop settled on a real chain.''),
      tm_hires =
       [\<lparr>hi_role = ''Android engineer, Kotlin'', hi_when = ''Tranche A, first hire'', hi_monthly = Some (200000, 400000), hi_oneOff = None, hi_months = Some (3, 3),
          hi_duration = ''3 months'', hi_why = ''The companion app is the largest single item in the first tranche and a hard entry condition on the pilot. Journeys J2, J3, J5 and J10 cannot be demonstrated without it.'', hi_note = ''n9''\<rparr>,
        \<lparr>hi_role = ''Embedded hardware engineer, PCB and RF'', hi_when = ''Tranche B'', hi_monthly = Some (200000, 350000), hi_oneOff = None, hi_months = Some (2, 3),
          hi_duration = ''2 to 3 months'', hi_why = ''Schematic, layout and design for manufacture on one board with four populations, then the bring-up that re-runs the six demos on it.'', hi_note = ''n9''\<rparr>,
        \<lparr>hi_role = ''Field operations and landlord relations'', hi_when = ''Tranche A, during the pilot'', hi_monthly = Some (60000, 120000), hi_oneOff = None, hi_months = Some (4, 4),
          hi_duration = ''4 months, part time'', hi_why = ''One building, one landlord, ten tenants and a caretaker, for thirty consecutive days. This is the role that produces the five numbers the pilot exists for.'', hi_note = ''n9''\<rparr>,
        \<lparr>hi_role = ''Counsel, fixed fee'', hi_when = ''Tranche A, immediately'', hi_monthly = None, hi_oneOff = Some (150000, 400000), hi_months = None,
          hi_duration = ''one opinion'', hi_why = ''The fifteen numbered questions in the standing brief. The cheapest item on the roadmap and it gates the three most expensive ones.'', hi_note = ''n26''\<rparr>],
      tm_asks =
       [(''A pilot building'', ''A walk-up block of roughly 12 to 40 flats in Roysambu, Kasarani, Westlands or Ruaka, with mains wiring to every unit, a meter room, and at least one existing fibre or fixed line the node can buy backhaul from. The landlord becomes the node operator and keeps 95 percent of every settled byte.''),
        (''A hardware lab bench'', ''Bench space with a residual current device on the mains strip, and access to a logic analyser and a spectrum analyser. Ten working days of it, not a permanent lease. This removes a line from the budget and a week from the schedule.''),
        (''An introduction to a payments partner'', ''A bank or a mobile money partner who can hold the customer float and answer the Central Bank question alongside us rather than after us. This is the gate between a working protocol and mainnet fiat at scale.'')]\<rparr>"

section \<open>Revenue assumptions\<close>

definition REVENUE_ASSUMPTIONS :: "(rat \<Rightarrow> string) \<Rightarrow> rat \<Rightarrow> (string \<times> string \<times> string) list" where
  \<comment> \<open>label, value and basis; \<open>num\<close> prints a number as a template does, \<open>price\<close> is \<open>PRICE_UKES_PER_UNIT\<close>\<close>
  "REVENUE_ASSUMPTIONS num price =
     [(''Price'',
       num price @ '' micro-KES per 10 KB unit, which is '' @ num KES_PER_MB @ '' KES per MB or '' @
         fmtKes (Some (KES_PER_MB * 1000)) @ '' per GB'',
       ''The placeholder in paper 04 section 10, deferred until it clears measured backhaul cost through the spec section 8 floor formula. Every figure in the table below is conditional on it.''),
      (''Paying tenants per building'', num (tenantsPerBuilding REVENUE),
       ''The design suite urban model in paper 13 section 4: one Node in the meter room, three relays on the risers, about ten paying tenants.''),
      (''Tenant spend'', fmtKes (Some (tenantSpendKes REVENUE)) @ '' a month'',
       ''Deliberately conservative. Paper 01 section 2 records a Safaricom Tunukiwa daily pass at KES 20 for 250 MB, so KES 600 a month is what a daily-pass buyer already spends. The design suite assumes KES 1,000, which this page does not use.''),
      (''Operator share'', num (of_int (js_round ((1 - feePct REVENUE) * 100))) @ '' percent of every settled byte'',
       ''A contract constant with the fee hard-capped at 10 percent on chain, proven by test_revert_feeAboveCeiling.''),
      (''Operator capital and running cost'',
       fmtKes (Some (capexKes REVENUE)) @ '' once, '' @ fmtKes (Some (opexKes REVENUE)) @ '' a month'',
       (''The design suite urban model quoted in paper 13 section 8 and paper 01 section 5, conditional on that model'' @ [CHR 0x27] @ ''s component lines.''))]"

end
