(* ===== verification/StartupPages.thy ===== *)
theory StartupPages
  imports BudgetData Player
begin

text \<open>
  The components of \<open>web/src/startup/\<close> that compute: the phase bars and the rows of the budget table, the phase rail,
  the hires, the revenue table and the animated map of a hundred buildings.  A row of a table is the list of the texts
  of its cells; the markup around them is not modelled.  The generator that orders the map multiplies beyond
  the integers of binary64, whose rounding is written out.
\<close>

section \<open>Markers\<close>

definition TAG_LABEL :: "(string \<times> string) list" where
  "TAG_LABEL =
     [(''verified'', ''verified''), (''measured'', ''measured''), (''derived'', ''derived''), (''estimate'', ''estimate''),
      (''unquoted'', ''unquoted''), (''unpriced'', ''not priced'')]"

definition TAG_TITLE :: "(string \<times> string) list" where
  "TAG_TITLE =
     [(''verified'', ''Read on a listing or a published price sheet.''),
      (''measured'', ''Produced by a run in this repository.''),
      (''derived'', ''Arithmetic on a verified or measured figure.''),
      (''estimate'', ''This page'' @ [CHR 0x27] @ ''s own number, with its basis in the footnote.''),
      (''unquoted'', ''An estimate standing in for a quotation nobody has asked for yet.''),
      (''unpriced'', ''The repository deliberately prints no number here.'')]"

definition tag_text :: "string \<Rightarrow> string \<times> string option" where
  \<comment> \<open>\<open>Tag\<close>: the text and the title\<close>
  "tag_text kind = (get_or kind TAG_LABEL kind, map_of TAG_TITLE kind)"

fun drop_first :: "char \<Rightarrow> string \<Rightarrow> string" where
  \<comment> \<open>\<open>replace\<close> of a one-character string\<close>
  "drop_first c [] = []"
| "drop_first c (x # xs) = (if x = c then xs else x # drop_first c xs)"

definition fn_mark :: "string \<Rightarrow> (string \<times> string) option" where
  \<comment> \<open>\<open>Fn\<close>: the target of the link and its text\<close>
  "fn_mark i = (if i = [] then None else Some (''#su-'' @ i, ''['' @ drop_first (CHR ''n'') i @ '']''))"

definition status_text :: "string \<Rightarrow> string" where
  "status_text s = (if s = ''progress'' then ''in progress'' else s)"

section \<open>The bars\<close>

definition mid :: "rat \<Rightarrow> rat \<Rightarrow> rat" where "mid low high = (low + high) / 2"

record bar_seg = sg_key :: string  sg_left :: rat  sg_width :: rat

fun bar_segs :: "rat \<Rightarrow> rat \<Rightarrow> (string \<times> string \<times> rat \<times> rat) list \<Rightarrow> bar_seg list" where
  \<comment> \<open>the rectangles of the groups; the argument after the total is where the next one starts\<close>
  "bar_segs tot x [] = []"
| "bar_segs tot x ((k, lab, low, high) # gs) =
     (let width = mid low high / tot * 100
      in \<lparr>sg_key = k, sg_left = x, sg_width = max width 0\<rparr> # bar_segs tot (x + width) gs)"

definition phase_segs :: "phase \<Rightarrow> bar_seg list" where
  "phase_segs ph =
     (let b = phaseBudget ph in bar_segs (mid (b_low b) (b_high b)) 0 (phaseByGroup ph))"

definition hairline :: "phase \<Rightarrow> rat \<Rightarrow> rat" where
  \<comment> \<open>the width of the second bar\<close>
  "hairline ph largest = (let b = phaseBudget ph in max (mid (b_low b) (b_high b) / largest * 100) (4 / 10))"

definition bar_head :: "plan_phase \<Rightarrow> rat \<Rightarrow> string \<times> string" where
  "bar_head ph largest =
     (let b = phaseBudget (phase.truncate ph)
      in (nat_str (ps_n ph) @ ''. '' @ ps_short ph,
          fmtRange (Some (b_low b)) (Some (b_high b)) False @ '' | '' @
          int_str (js_round (mid (b_low b) (b_high b) / largest * 100)) @ '' percent of the largest phase''))"

definition bar_label :: "plan_phase \<Rightarrow> string" where
  "bar_label ph =
     ps_short ph @ '': '' @
     join_with '', '' (map (\<lambda>(k, lab, low, high). lab @ '' '' @ shortKes (Some (mid low high))) (phaseByGroup (phase.truncate ph)))"

definition largest_mid :: "phase list \<Rightarrow> rat" where
  \<comment> \<open>\<open>Math.max\<close> of the midpoints; at least one phase is priced\<close>
  "largest_mid phases = (case map (\<lambda>(ph, b). mid (b_low b) (b_high b)) (pricedPhases phases) of [] \<Rightarrow> 0 | m # rest \<Rightarrow> fold max rest m)"

section \<open>The table\<close>

definition group_label :: "string \<Rightarrow> string" where
  "group_label k = get_or k GROUPS k"

definition usd_basis :: "phase \<Rightarrow> resolved \<Rightarrow> string" where
  \<comment> \<open>the dollars of the line, read from the line the row resolves\<close>
  "usd_basis ph r =
     (case Option.bind (find (\<lambda>l. l_id l = r_id r) (ph_lines ph)) l_usd of
        None \<Rightarrow> []
      | Some (a, b) \<Rightarrow> if a = b then fmtUsd (Some a) 0 else fmtUsd (Some a) 0 @ '' to '' @ fmtUsd (Some b) 0)"

definition line_row :: "phase \<Rightarrow> resolved \<Rightarrow> string list" where
  "line_row ph r =
     [r_label r, group_label (r_group r), fst (tag_text (r_confidence r)), usd_basis ph r,
      if priced r then fmtKes (r_low r) else ''n/a'', if priced r then fmtKes (r_high r) else ''n/a'']"

definition unpriced_note :: "string \<Rightarrow> nat \<Rightarrow> string" where
  "unpriced_note sep n =
     (if n > 0 then sep @ nat_str n @ '' '' @ (if n = 1 then ''line'' else ''lines'') @ '' not priced'' else [])"

definition phase_rows :: "plan_phase \<Rightarrow> string list list" where
  \<comment> \<open>\<open>FragmentRows\<close>: the banner, the lines and the subtotal\<close>
  "phase_rows ph =
     (let p = phase.truncate ph; b = phaseBudget p
      in [[''Phase '' @ nat_str (ps_n ph) @ ''. '' @ ps_name ph @ '' | '' @ ps_plan ph]] @
         map (line_row p) (b_lines b) @
         [[''Phase '' @ nat_str (ps_n ph) @ '' total'' @ unpriced_note '', with '' (unpricedCount b),
           fmtKes (Some (b_low b)), fmtKes (Some (b_high b))]])"

definition budget_rows :: "plan_phase list \<Rightarrow> tranche_plan list \<Rightarrow> string list list" where
  "budget_rows phases tranches =
     (let whole = wholePathTotal (map phase.truncate phases) (map tn_phases tranches)
      in concat (map phase_rows (filter (\<lambda>ph. b_high (phaseBudget (phase.truncate ph)) > 0) phases)) @
         [[''All phases, the whole path to a first production run'',
           nat_str (t_unpriced whole) @ '' further lines carry no figure and are listed above.'',
           fmtKes (Some (t_low whole)), fmtKes (Some (t_high whole))]])"

section \<open>The phase rail\<close>

definition duration_text :: "plan_phase \<Rightarrow> string" where
  \<comment> \<open>\<open>duration\<close>\<close>
  "duration_text ph =
     (case ps_months ph of
        None \<Rightarrow> if ps_status ph = ''done'' then ''complete'' else ''not scoped''
      | Some (a, b) \<Rightarrow> nat_str a @ '' to '' @ nat_str b @ '' months'')"

definition open_phase :: "plan_phase list \<Rightarrow> string \<Rightarrow> plan_phase" where
  "open_phase phases k = (case find (\<lambda>p. ph_key p = k) phases of Some p \<Rightarrow> p | None \<Rightarrow> phases ! 0)"

definition rail_open :: string where "rail_open = ''poc-hardware''"
  \<comment> \<open>the initial state; a click sets it to the key of its phase\<close>

definition rail_ticks :: "plan_phase list \<Rightarrow> string \<Rightarrow> (bool \<times> string list) list" where
  "rail_ticks phases opened =
     map (\<lambda>row. let b = phaseBudget (phase.truncate row)
          in (ph_key row = opened,
              [''Phase '' @ nat_str (ps_n row), ps_short row, status_text (ps_status row), ps_plan row,
               if b_high b > 0 then fmtRange (Some (b_low b)) (Some (b_high b)) True else ''no priced lines''])) phases"

definition panel_head :: "plan_phase \<Rightarrow> string list" where
  "panel_head ph =
     (let b = phaseBudget (phase.truncate ph)
      in [''Phase '' @ nat_str (ps_n ph) @ ''. '' @ ps_name ph,
          ps_paper ph @ '' | '' @ ps_plan ph @ '' | '' @ duration_text ph @ '' | '' @
          (if b_high b > 0 then fmtRange (Some (b_low b)) (Some (b_high b)) False else ''no priced lines'') @
          unpriced_note '' | '' (unpricedCount b)])"

section \<open>Tranches and hires\<close>

definition tranche_rows :: "plan_phase list \<Rightarrow> tranche_plan \<Rightarrow> string list list" where
  \<comment> \<open>a key without a phase, which throws, is left out\<close>
  "tranche_rows phases tn =
     (let tot = fst (trancheTotal (map phase.truncate phases) (tn_phases tn))
      in concat (map (\<lambda>k. case find (\<lambda>p. ph_key p = k) phases of
             None \<Rightarrow> []
           | Some ph \<Rightarrow>
               (let b = phaseBudget (phase.truncate ph)
                in [[nat_str (ps_n ph) @ ''. '' @ ps_name ph, status_text (ps_status ph), ps_plan ph,
                     fmtRange (Some (b_low b)) (Some (b_low b)) False, fmtRange (Some (b_high b)) (Some (b_high b)) False]]))
           (tn_phases tn)) @
         [[tn_label tn @ '' total, '' @ nat_str (fst (tn_runway tn)) @ '' to '' @ nat_str (snd (tn_runway tn)) @
             '' months of runway'' @ unpriced_note '', with '' (t_unpriced tot),
           fmtRange (Some (t_low tot)) (Some (t_low tot)) False, fmtRange (Some (t_high tot)) (Some (t_high tot)) False]])"

definition hire_range :: "hire \<Rightarrow> (rat \<times> rat) option" where
  \<comment> \<open>the amounts of \<open>total\<close>; a hire has a one-off price or a monthly one with its months\<close>
  "hire_range h =
     (case hi_oneOff h of
        Some r \<Rightarrow> Some r
      | None \<Rightarrow>
          (case (hi_monthly h, hi_months h) of
             (Some (a, b), Some (m, n)) \<Rightarrow> Some (a * of_nat m, b * of_nat n)
           | _ \<Rightarrow> None))"

definition hire_total :: "hire \<Rightarrow> string" where
  "hire_total h = (case hire_range h of Some (a, b) \<Rightarrow> fmtRange (Some a) (Some b) False | None \<Rightarrow> fmtRange None None False)"

definition hire_cost :: "hire \<Rightarrow> string" where
  \<comment> \<open>\<open>cost\<close>\<close>
  "hire_cost h =
     (case hi_oneOff h of
        Some (a, b) \<Rightarrow> fmtRange (Some a) (Some b) False @ '', one off''
      | None \<Rightarrow>
          (case hi_monthly h of
             Some (a, b) \<Rightarrow> fmtRange (Some a) (Some b) False @ '' a month''
           | None \<Rightarrow> fmtRange None None False @ '' a month''))"

section \<open>Revenue\<close>

definition scenario_row :: "(rat \<Rightarrow> string) \<Rightarrow> scenario \<Rightarrow> string list" where
  "scenario_row num s =
     (let m = sc_month s
      in [num (sc_buildings s), locale_num 0 3 (sc_nodes s), locale_num 0 3 (sc_tenants s), fmtMb (mb m), fmtKes (Some (gross m)),
          fmtKes (Some (operator_share m)), fmtKes (Some (treasury_share m)), fmtKes (Some (operatorNet m)),
          case breakEvenMonth m of None \<Rightarrow> ''never'' | Some k \<Rightarrow> if k = 0 then ''never'' else ''month '' @ int_str k])"

definition revenue_rows :: "(rat \<Rightarrow> string) \<Rightarrow> string list list" where
  "revenue_rows num = map (scenario_row num) (scenarios REVENUE [1, 10, 100])"

section \<open>The map\<close>

definition MAP_COUNT :: nat where "MAP_COUNT = 100"
definition MAP_GAP :: rat where "MAP_GAP = 76"
definition MAP_START :: rat where "MAP_START = of_int (ms (12 / 10))"
definition MAP_DURATION :: rat where "MAP_DURATION = of_int (ms 11)"

function ulp_of :: "int \<Rightarrow> int" where
  \<comment> \<open>the spacing of the binary64 numbers around an integer that is not negative\<close>
  "ulp_of n = (if n < 9007199254740992 then 1 else 2 * ulp_of (n div 2))"
  by pat_completeness auto
termination
  by (relation "measure nat") auto

declare ulp_of.simps [simp del]

definition round64 :: "int \<Rightarrow> int" where
  \<comment> \<open>the nearest binary64 number, the even one on a tie\<close>
  "round64 n =
     (let e = ulp_of n; q = n div e; r = n mod e
      in (if 2 * r < e \<or> (2 * r = e \<and> even q) then q else q + 1) * e)"

definition next_seed :: "int \<Rightarrow> int" where
  "next_seed seed = round64 (round64 (seed * 1103515245) + 12345) mod 2147483648"

fun shuffle :: "nat \<Rightarrow> nat \<Rightarrow> int \<Rightarrow> nat list \<Rightarrow> nat list \<Rightarrow> nat list" where
  \<comment> \<open>the rounds left, the step, the seed, the pool and the ranks; the pool outlasts the rounds\<close>
  "shuffle 0 step seed pool rank = rank"
| "shuffle (Suc k) step seed pool rank =
     (let s = next_seed seed; pick = nat (s mod int (length pool))
      in shuffle k (step + 1) s (take pick pool @ drop (Suc pick) pool) (rank[pool ! pick := step]))"

definition MAP_ORDER :: "nat list" where
  "MAP_ORDER = shuffle MAP_COUNT 0 20260914 [0..<MAP_COUNT] (replicate MAP_COUNT 0)"

definition building_at :: "nat \<Rightarrow> rat \<Rightarrow> (rat \<times> rat) \<times> bool" where
  \<comment> \<open>where building \<open>index\<close> is drawn at progress \<open>p\<close>, and whether it is lit\<close>
  "building_at index p =
     ((40 + of_nat (index mod 10) * 66, 150 + of_nat (index div 10) * 48 + lerp 6 0 p), p > 1 / 1000)"

definition building_progress :: "nat \<Rightarrow> rat \<Rightarrow> rat" where
  "building_progress index t = stage t (MAP_START + of_nat (MAP_ORDER ! index) * MAP_GAP) 420 outCubic"

definition money_text :: "rat \<Rightarrow> string" where "money_text v = ''KES '' @ locale_num 0 3 (of_int (js_round v))"
definition count_text :: "rat \<Rightarrow> string" where "count_text v = locale_num 0 3 (of_int (js_round v))"

definition lit_buildings :: "rat \<Rightarrow> int" where
  "lit_buildings t = shown t MAP_START MAP_GAP (int MAP_COUNT)"

definition map_stats :: "rat \<Rightarrow> (string \<times> string) list" where
  \<comment> \<open>the value and the note of each counter\<close>
  "map_stats t =
     (let one = buildingMonth REVENUE; l = of_int (lit_buildings t) :: rat
      in [(int_str (lit_buildings t), count_text (l * 4) @ '' nodes, '' @ count_text (l * 10) @ '' paying tenants''),
          (fmtMb (l * mb one), ''at 0.05 KES per MB, the placeholder price''),
          (money_text (l * gross one), money_text (l * operator_share one) @ '' to node operators''),
          (money_text (l * treasury_share one), ''what the protocol keeps'')])"

end
