(* ===== verification/KitData.thy ===== *)
theory KitData
  imports Shopping
begin

text \<open>
  The two data files that \<open>web/src/shop/data.js\<close> imports for the kit: \<open>hardware/shopping/mvp-kit.json\<close>, the parts of each
  device, and \<open>hardware/shopping/mvp-checkout.json\<close>, the verified listings.  Fields that the code does not read are
  left out.
\<close>

definition CHECKOUT :: "checkout_line list" where
  "CHECKOUT =
      [\<lparr>co_id = ''heltec-lora32-v3-868'', co_variant = Some ''868MHz V3'', co_pack = Some 2, co_price_kes = Some 5122, co_buy = Some ''ali'',
        co_seller = Some ''IoT Hub Store (Trader)'', co_delivery = Some ''Sep 21 - 25'', co_shipping = Some ''Free shipping'',
        co_url = Some ''https://www.aliexpress.com/item/1005008177147021.html'',
        co_note = None\<rparr>,
       \<lparr>co_id = ''esp32-s3-devkitc-n16r8'', co_variant = Some ''N16R8 weld'', co_pack = None, co_price_kes = Some 749, co_buy = Some ''ali'',
        co_seller = Some ''MT Technology Co., Ltd.'', co_delivery = Some ''Sep 21 - 25'', co_shipping = Some ''Free shipping'',
        co_url = Some ''https://www.aliexpress.com/item/1005006737960797.html'',
        co_note = Some ''title says ESP32-S3-DevKitC-1; weld means headers soldered. The previously chosen 572 listing was a different board family, its 572 variant is an expansion adapter.''\<rparr>,
       \<lparr>co_id = ''sx1262-module-868'', co_variant = Some ''single, no variants'', co_pack = None, co_price_kes = Some 556, co_buy = Some ''ali'',
        co_seller = Some ''XHCIOT Wholesale Store'', co_delivery = Some ''Sep 21 - 25'', co_shipping = Some ''Free shipping'',
        co_url = Some ''https://www.aliexpress.com/item/1005007265763652.html'',
        co_note = Some ''E22-900M22S covers 850 to 930 MHz; the title says 915MHz. One for the Node, one for the farm node (Martin chose it over the Ra-01SH, whose listings all ship mid November).''\<rparr>,
       \<lparr>co_id = ''ipex-sma-pigtail'', co_variant = Some ''IPX to SMA-K, 15CM'', co_pack = Some 5, co_price_kes = Some 389, co_buy = Some ''ali'',
        co_seller = Some ''STX Store'', co_delivery = Some ''Sep 21 - 25'', co_shipping = Some ''Free shipping'',
        co_url = Some ''https://www.aliexpress.com/item/1005009812335103.html'',
        co_note = Some ''SMA-K is the SMA female jack; one for the Node, one for the farm node, three spare''\<rparr>,
       \<lparr>co_id = ''antenna-868-sma'', co_variant = Some ''11CM male'', co_pack = Some 2, co_price_kes = Some 347, co_buy = Some ''ali'',
        co_seller = Some ''STX Store'', co_delivery = Some ''Sep 21 - 27'', co_shipping = Some ''Free shipping'',
        co_url = Some ''https://www.aliexpress.com/item/1005007354656390.html'',
        co_note = Some (''3 dBi SMA male straight; the previously chosen 22 listing'' @ [CHR 0x27] @ ''s 22 variant is a GSM spring antenna and its whips ship Nov 14'')\<rparr>,
       \<lparr>co_id = ''kq-130f-plc-module'', co_variant = Some ''single, no variants'', co_pack = None, co_price_kes = Some 2608, co_buy = Some ''ali'',
        co_seller = Some ''ShenZhen TILICHIP (4.9, 500+ sold)'', co_delivery = Some ''Sep 22 - 30'', co_shipping = Some ''KSh 569.00'',
        co_url = Some ''https://www.aliexpress.com/item/1005012362472528.html'',
        co_note = Some ''KQ-130F+ zero-crossing revision, title exact. The 1,029 listing (HESUI) charges 1,419 shipping and photographs a KQ-330; the 3,119 listing charges 406 and shares that mixed title; a 5-pack at 7,410 plus 637 lands at 1,609 each if stage two is bought now.''\<rparr>,
       \<lparr>co_id = ''solar-panel-6v-2w'', co_variant = Some ''55mm (6V 2W 0.35A)'', co_pack = None, co_price_kes = Some 136, co_buy = Some ''ali'',
        co_seller = Some ''DD Best Store'', co_delivery = Some ''Sep 21 - 26'', co_shipping = Some ''Free shipping'',
        co_url = Some ''https://www.aliexpress.com/item/1005008240068477.html'',
        co_note = None\<rparr>,
       \<lparr>co_id = ''usb-c-otg-adapter'', co_variant = Some ''White 1pcs'', co_pack = None, co_price_kes = Some 136, co_buy = Some ''ali'',
        co_seller = Some ''not shown on page'', co_delivery = Some ''Sep 21 - 25'', co_shipping = Some ''Free shipping'',
        co_url = Some ''https://www.aliexpress.com/item/1005007791455111.html'',
        co_note = None\<rparr>,
       \<lparr>co_id = ''esp32-c3-supermini'', co_variant = Some ''C3 Super mini'', co_pack = None, co_price_kes = Some 284, co_buy = Some ''ali'',
        co_seller = Some ''TENSTAR Store'', co_delivery = Some ''Sep 21 - 25'', co_shipping = Some ''Free shipping'',
        co_url = Some ''https://www.aliexpress.com/item/1005006406538478.html'',
        co_note = Some ''not the PLUS variant at 368''\<rparr>,
       \<lparr>co_id = ''soil-moisture-capacitive-v2'', co_variant = Some ''1 PCS'', co_pack = None, co_price_kes = Some 136, co_buy = Some ''ali'',
        co_seller = Some ''not shown on page'', co_delivery = Some ''Sep 21 - 27'', co_shipping = Some ''Free shipping'',
        co_url = Some ''https://www.aliexpress.com/item/1005008145000162.html'',
        co_note = None\<rparr>,
       \<lparr>co_id = ''sma-attenuator-30db'', co_variant = Some ''30DB'', co_pack = None, co_price_kes = Some 521, co_buy = Some ''ali'',
        co_seller = Some ''China Tool&Life Professional Store'', co_delivery = Some ''Sep 21 - 25'', co_shipping = Some ''Free shipping'',
        co_url = Some ''https://www.aliexpress.com/item/1005007082918637.html'',
        co_note = Some ''2 W, DC to 8 GHz, SMA male to female. The 268 listing charges 117 shipping and ships Nov 14.''\<rparr>,
       \<lparr>co_id = ''homeplug-av-wifi-kit'', co_variant = Some ''TL-WPA4220KIT, UK plug'', co_pack = None, co_price_kes = Some 9000, co_buy = Some ''local'',
        co_seller = Some ''Brightsource Kenya, Salama House, Wabera Street, +254 714 247 812'', co_delivery = Some ''same day'', co_shipping = Some ''same-day Nairobi dispatch'',
        co_url = Some ''https://www.brighttech.co.ke/product/tp-link-tl-wpa4220kit-av500-powerline-300-m-wi-fi-extender-wi-fi/'',
        co_note = Some ''price shown Exc. Tax; budget 10,440 if 16 percent VAT is added at checkout. Kit is one TL-WPA4220 plus one TL-PA4010, Kenya warranty. No AliExpress listing matches the spec (AV500 generic kits, EU plug).''\<rparr>,
       \<lparr>co_id = ''tp4056-solar-charger'', co_variant = Some ''Type-C with protection'', co_pack = None, co_price_kes = Some 130, co_buy = Some ''local'',
        co_seller = Some ''K-Technics'', co_delivery = Some ''same day'', co_shipping = Some ''in stock'',
        co_url = Some ''https://www.ktechnics.com/products/tp4056-1a-lithium-battery-charger-type-c-with-protection'',
        co_note = Some ''AliExpress exact match is 71 with free shipping but ships Nov 19''\<rparr>,
       \<lparr>co_id = ''18650-holder'', co_variant = Some ''1 cell, 15 cm leads'', co_pack = None, co_price_kes = Some 70, co_buy = Some ''local'',
        co_seller = Some ''K-Technics'', co_delivery = Some ''same day'', co_shipping = Some ''in stock'',
        co_url = Some ''https://www.ktechnics.com/products/1-cell-18650-battery-holder-with-pre-attached-wire-leads'',
        co_note = Some ''AliExpress is 10 plus 52 shipping, Nov 14''\<rparr>,
       \<lparr>co_id = ''breadboard-jumpers'', co_variant = Some ''MB-102 830 point at ASK (200) plus three 40 pc jumper packs at K-Technics (450)'', co_pack = None, co_price_kes = Some 650, co_buy = Some ''local'',
        co_seller = Some ''ASK Electronics and K-Technics'', co_delivery = Some ''same day'', co_shipping = Some ''in stock'',
        co_url = Some ''https://askelectronics.co.ke/product/breadboard-830-point-pcb-board-mb-102-mb102/'',
        co_note = Some ''AliExpress bundle is 312 but ships Nov 22''\<rparr>,
       \<lparr>co_id = ''temp-humidity-sensor'', co_variant = Some ''AHT20 I2C module'', co_pack = None, co_price_kes = Some 350, co_buy = Some ''local'',
        co_seller = Some ''ASK Electronics'', co_delivery = Some ''same day'', co_shipping = Some ''in stock'',
        co_url = Some ''https://askelectronics.co.ke/product/aht20-i2c-temperature-and-humidity-sensor-module-high-precision-humidity-sensor-probe-dht11-aht10-upgraded-version-for-arduino/'',
        co_note = Some ''AliExpress AHT20 plus BMP280 is 111 plus 74 shipping, Nov 14''\<rparr>,
       \<lparr>co_id = ''usb-ttl-ch340'', co_variant = Some ''CP2102 6 pin, 3.3 V and 5 V power'', co_pack = None, co_price_kes = Some 400, co_buy = Some ''local'',
        co_seller = Some ''ASK Electronics'', co_delivery = Some ''same day'', co_shipping = Some ''stock not stated on page'',
        co_url = Some ''https://askelectronics.co.ke/product/cp2102-usb-2-0-to-ttl-uart-module-6pin-serial-converter-stc-replace-ft232-adapter-module-3-3v-5v-power/'',
        co_note = Some ''AliExpress CH340 with 3.3/5 V switch is 81 plus 19 shipping, Nov 14''\<rparr>,
       \<lparr>co_id = ''18650-cell'', co_variant = Some ''INR 18650 2600 mAh'', co_pack = None, co_price_kes = Some 400, co_buy = Some ''local'',
        co_seller = Some ''Nerokas'', co_delivery = Some ''same day'', co_shipping = Some ''listing price, stock not checked'',
        co_url = Some ''https://store.nerokas.co.ke/SKU-3968'',
        co_note = Some ''cells do not ship by air; esp-ke sells an unbranded new cell at 280''\<rparr>,
       \<lparr>co_id = ''extension-strips'', co_variant = Some ''4 way UK 13 A strip'', co_pack = None, co_price_kes = Some 800, co_buy = Some ''local'',
        co_seller = Some ''any supermarket'', co_delivery = Some ''same day'', co_shipping = Some ''supermarket'',
        co_url = None,
        co_note = Some ''budget figure, no listing checked; Jumia blocked the search''\<rparr>]"

definition KIT_DEVICES :: "kit_device list" where
  "KIT_DEVICES =
      [\<lparr>kd_key = ''node'', kd_name = ''xKoin-Node'',
        kd_journey = ''Backhaul in, meters every WAN byte, injects the bulk plane onto the mains, carries the narrowband receipt plane and the LoRa survival plane. Demos D1, D2, D4, D5, D6.'',
        kd_owned = Some [''USB 5 V phone charger for the board and the KQ-130F'', ''the home router or a phone hotspot as backhaul''],
        kd_parts =
         [\<lparr>ke_id = ''esp32-s3-devkitc-n16r8'', ke_qty = 1, ke_store = None, ke_note = None\<rparr>,
          \<lparr>ke_id = ''sx1262-module-868'', ke_qty = 1, ke_store = None, ke_note = None\<rparr>,
          \<lparr>ke_id = ''ipex-sma-pigtail'', ke_qty = 1, ke_store = None, ke_note = None\<rparr>,
          \<lparr>ke_id = ''antenna-868-sma'', ke_qty = 1, ke_store = None, ke_note = None\<rparr>,
          \<lparr>ke_id = ''kq-130f-plc-module'', ke_qty = 1, ke_store = None, ke_note = None\<rparr>,
          \<lparr>ke_id = ''homeplug-av-wifi-kit'', ke_qty = 1, ke_store = Some ''brightsource'', ke_note = Some (''TL-WPA4220KIT: the TL-PA4010 half sits at the Node as injector, the TL-WPA4220 half is the Node-Satellite'' @ [CHR 0x27] @ ''s Wi-Fi extractor'')\<rparr>]\<rparr>,
       \<lparr>kd_key = ''node-satellite'', kd_name = ''xKoin-Node-Satellite'',
        kd_journey = ''Wall-socket relay on the same mains segment: pulls the bulk plane off the mains, regenerates Wi-Fi for the phone, enforces admission through the captive portal. Demos D1, D4, D5.'',
        kd_owned = Some [''USB 5 V phone charger'', (''the TL-WPA4220 half of the Node'' @ [CHR 0x27] @ ''s kit'')],
        kd_parts =
         [\<lparr>ke_id = ''esp32-s3-devkitc-n16r8'', ke_qty = 1, ke_store = None, ke_note = None\<rparr>,
          \<lparr>ke_id = ''kq-130f-plc-module'', ke_qty = 1, ke_store = None, ke_note = None\<rparr>]\<rparr>,
       \<lparr>kd_key = ''satellite'', kd_name = ''xKoin-Satellite'',
        kd_journey = ''Off-grid LoRa remote on solar and a cell, deep sleep, class C service through 60 dB of simulated distance. Demos D2, D6.'',
        kd_owned = Some [],
        kd_parts =
         [\<lparr>ke_id = ''heltec-lora32-v3-868'', ke_qty = 1, ke_store = None, ke_note = None\<rparr>,
          \<lparr>ke_id = ''tp4056-solar-charger'', ke_qty = 1, ke_store = Some ''ktechnics'', ke_note = None\<rparr>,
          \<lparr>ke_id = ''18650-holder'', ke_qty = 1, ke_store = Some ''ktechnics'', ke_note = None\<rparr>,
          \<lparr>ke_id = ''18650-cell'', ke_qty = 1, ke_store = Some ''nerokas'', ke_note = Some ''cells do not ship; INR 2600 mAh listing, or esp-ke at 280''\<rparr>,
          \<lparr>ke_id = ''solar-panel-6v-2w'', ke_qty = 1, ke_store = None, ke_note = None\<rparr>]\<rparr>,
       \<lparr>kd_key = ''client'', kd_name = ''xKoin-Client OTG dongle'',
        kd_journey = (''A phone with no Wi-Fi in reach plugs the dongle in and chats, checks balance and redeems a voucher over LoRa. The Wi-Fi client journey needs no parts: it is the phone on the Node-Satellite'' @ [CHR 0x27] @ ''s Wi-Fi.''),
        kd_owned = Some [(''Martin'' @ [CHR 0x27] @ ''s phone'')],
        kd_parts =
         [\<lparr>ke_id = ''heltec-lora32-v3-868'', ke_qty = 1, ke_store = None, ke_note = None\<rparr>,
          \<lparr>ke_id = ''usb-c-otg-adapter'', ke_qty = 1, ke_store = None, ke_note = None\<rparr>]\<rparr>,
       \<lparr>kd_key = ''farm-node'', kd_name = ''LoRa ecosystem farm node'',
        kd_journey = ''A third-party style sensor node rides the free LAN plane: soil moisture and temperature land on the Node dashboard with zero XKN spent. Demo D6.'',
        kd_owned = Some [],
        kd_parts =
         [\<lparr>ke_id = ''esp32-c3-supermini'', ke_qty = 1, ke_store = None, ke_note = None\<rparr>,
          \<lparr>ke_id = ''sx1262-module-868'', ke_qty = 1, ke_store = None, ke_note = Some ''Martin 2026-09-14: second E22-900M22S instead of the Ra-01SH, which ships mid November''\<rparr>,
          \<lparr>ke_id = ''ipex-sma-pigtail'', ke_qty = 1, ke_store = None, ke_note = Some ''one of the Node pack''\<rparr>,
          \<lparr>ke_id = ''antenna-868-sma'', ke_qty = 1, ke_store = None, ke_note = Some ''one of the Node pack''\<rparr>,
          \<lparr>ke_id = ''soil-moisture-capacitive-v2'', ke_qty = 1, ke_store = None, ke_note = None\<rparr>,
          \<lparr>ke_id = ''temp-humidity-sensor'', ke_qty = 1, ke_store = Some ''ask'', ke_note = None\<rparr>]\<rparr>,
       \<lparr>kd_key = ''bench'', kd_name = ''Bench'',
        kd_journey = ''What every demo shares: the simulated distance for D2, one mains strip for D1, the console lead and the breadboard.'',
        kd_owned = Some [''USB-C data cables'', ''plug-in RCD if the KQ-130F goes on mains''],
        kd_parts =
         [\<lparr>ke_id = ''sma-attenuator-30db'', ke_qty = 2, ke_store = None, ke_note = None\<rparr>,
          \<lparr>ke_id = ''breadboard-jumpers'', ke_qty = 1, ke_store = Some ''ask+ktechnics'', ke_note = None\<rparr>,
          \<lparr>ke_id = ''usb-ttl-ch340'', ke_qty = 1, ke_store = Some ''ask'', ke_note = None\<rparr>,
          \<lparr>ke_id = ''extension-strips'', ke_qty = 1, ke_store = Some ''supermarket'', ke_note = Some ''4 way UK strip; price is a budget figure, not a checked listing''\<rparr>]\<rparr>]"

end
