(* ===== verification/StartupFacts.thy ===== *)
theory StartupFacts
  imports StartupPages KitData "HOL-Library.Multiset"
begin

text \<open>
  The data of the startup page against the code that reads it and against the rest of the program: the budget's
  references resolve, the stacked bar of a phase is filled, the animated map lights as many buildings as its counter
  says, and the typed price of the kit is the one the shop computes.
\<close>

section \<open>The budget's data\<close>

definition phase_sound :: "plan_phase \<Rightarrow> bool" where
  \<comment> \<open>the lines are in known groups with ordered ranges, their notes and kinds exist, a line without a figure says so\<close>
  "phase_sound ph \<longleftrightarrow>
     list_all (\<lambda>l. l_group l \<in> set (map fst GROUPS) \<and> 0 \<le> l_low l \<and> l_low l \<le> l_high l \<and>
        (case l_usd l of None \<Rightarrow> True | Some (a, b) \<Rightarrow> 0 \<le> a \<and> a \<le> b) \<and>
        l_note l \<in> set (map fst NOTES) \<and> confidence l \<in> set (map fst TAG_LABEL)) (ph_lines ph)"

lemma phase_sound_grouped: "phase_sound ph \<Longrightarrow> grouped_lines (phase.truncate ph)"
  unfolding phase_sound_def grouped_lines_def list_all_iff by (auto simp: phase.defs split: option.splits)

lemma phases_sound:
  "phase_sound phase_poc_software" "phase_sound phase_poc_hardware" "phase_sound phase_pcb" "phase_sound phase_manufacture"
  "phase_sound phase_pilot" "phase_sound phase_gates" "phase_sound phase_app" "phase_sound phase_kiosk" "phase_sound phase_scale"
  by code_simp+

definition tranche_of :: "string \<Rightarrow> string option" where
  \<comment> \<open>the tranche that lists a phase\<close>
  "tranche_of k = map_option tn_key (find (\<lambda>tn. k \<in> set (tn_phases tn)) TRANCHES)"

lemma line_ids: "distinct (concat (map (\<lambda>ph. map l_id (ph_lines ph)) PHASES))"
  by code_simp

lemma phase_table:
  "map ph_key PHASES =
     [''poc-software'', ''poc-hardware'', ''pcb'', ''manufacture'', ''pilot'', ''gates'', ''app'', ''kiosk'', ''scale'']"
  "map ps_n PHASES = [1, 2, 3, 4, 5, 6, 7, 8, 9]"
  "map (\<lambda>ph. tranche_of (ph_key ph)) PHASES = map ps_tranche PHASES"
  "map (\<lambda>tn. (tn_key tn, list_all (\<lambda>k. k \<in> set (map ph_key PHASES)) (tn_phases tn))) TRANCHES =
     [(''a'', True), (''b'', True), (''c'', True)]"
  "distinct (map fst NOTES)"
  by code_simp+

section \<open>Typed figures and computed ones\<close>

definition budget_line :: "string \<Rightarrow> line option" where
  "budget_line i = find (\<lambda>l. l_id l = i) (concat (map ph_lines PHASES))"

definition typed_range :: "string \<Rightarrow> (rat \<times> rat) option" where
  "typed_range i = map_option (\<lambda>l. (l_low l, l_high l)) (budget_line i)"

lemma summary_total:
  "ks_total (mvpSummary parts checkout kit) =
     sum_list (map (\<lambda>d. bought ''ali'' (map (kit_line_of parts checkout) (kd_parts d))) kit) +
     sum_list (map (\<lambda>d. bought ''local'' (map (kit_line_of parts checkout) (kd_parts d))) kit)"
  unfolding mvpSummary_def mvpDevices_def Let_def by (simp add: comp_def)

definition listing :: "checkout_line list \<Rightarrow> (string \<times> string option \<times> rat option \<times> rat option) list" where
  "listing checkout = map (\<lambda>l. (co_id l, co_buy l, co_pack l, co_price_kes l)) checkout"

definition entry_cost :: "(string \<times> string option \<times> rat option \<times> rat option) list \<Rightarrow> string \<times> rat \<Rightarrow> string \<times> rat" where
  \<comment> \<open>what an entry is bought as, and what it adds to the sum\<close>
  "entry_cost table e =
     (case map_of (rev table) (fst e) of
        None \<Rightarrow> (''local'', 0)
      | Some (buy, pack, price) \<Rightarrow>
          (case buy of None \<Rightarrow> ''local'' | Some b \<Rightarrow> b,
           case price of None \<Rightarrow> 0 | Some p \<Rightarrow> of_int (js_round (p / (case pack of None \<Rightarrow> 1 | Some n \<Rightarrow> n))) * snd e))"

fun cost_sum :: "string \<Rightarrow> (string \<times> rat) list \<Rightarrow> rat" where
  "cost_sum b [] = 0"
| "cost_sum b (x # xs) = (if fst x = b then snd x else 0) + cost_sum b xs"

lemma last_with_field: "map_option f (last_with g xs k) = map_of (rev (map (\<lambda>x. (g x, f x)) xs)) k"
proof -
  have "map_of (map (\<lambda>x. (g x, f x)) ys) k = map_option f (map_of (map (\<lambda>x. (g x, x)) ys) k)" for ys
    by (induction ys) auto
  then show ?thesis unfolding last_with_def rev_map by simp
qed

lemma entry_cost_kit:
  "entry_cost (listing checkout) (ke_id e, ke_qty e) =
     (kl_buy (kit_line_of parts checkout e), price_or_0 (kl_costKes (kit_line_of parts checkout e)))"
proof -
  have "map_of (rev (listing checkout)) (ke_id e) =
      map_option (\<lambda>l. (co_buy l, co_pack l, co_price_kes l)) (last_with co_id checkout (ke_id e))"
    unfolding listing_def last_with_field ..
  then show ?thesis
    by (cases "last_with co_id checkout (ke_id e)")
      (auto simp: entry_cost_def kit_line_of_def Let_def price_or_0_def split: option.splits)
qed

lemma bought_cost_sum:
  "bought b (map (kit_line_of parts checkout) es) =
     cost_sum b (map (\<lambda>e. entry_cost (listing checkout) (ke_id e, ke_qty e)) es)"
  by (induction es) (simp_all add: bought_def entry_cost_kit [of checkout _ parts])

definition entries_of :: "kit_device \<Rightarrow> (string \<times> rat) list" where
  "entries_of d = map (\<lambda>e. (ke_id e, ke_qty e)) (kd_parts d)"

lemma summary_table:
  "ks_total (mvpSummary parts checkout kit) =
     sum_list (map (\<lambda>es. cost_sum ''ali'' (map (entry_cost (listing checkout)) es) +
                         cost_sum ''local'' (map (entry_cost (listing checkout)) es)) (map entries_of kit))"
  unfolding summary_total by (induction kit) (simp_all add: bought_cost_sum entries_of_def comp_def)

lemma checkout_table: "listing CHECKOUT =
     [(''heltec-lora32-v3-868'', Some ''ali'', Some 2, Some 5122),
      (''esp32-s3-devkitc-n16r8'', Some ''ali'', None, Some 749),
      (''sx1262-module-868'', Some ''ali'', None, Some 556),
      (''ipex-sma-pigtail'', Some ''ali'', Some 5, Some 389),
      (''antenna-868-sma'', Some ''ali'', Some 2, Some 347),
      (''kq-130f-plc-module'', Some ''ali'', None, Some 2608),
      (''solar-panel-6v-2w'', Some ''ali'', None, Some 136),
      (''usb-c-otg-adapter'', Some ''ali'', None, Some 136),
      (''esp32-c3-supermini'', Some ''ali'', None, Some 284),
      (''soil-moisture-capacitive-v2'', Some ''ali'', None, Some 136),
      (''sma-attenuator-30db'', Some ''ali'', None, Some 521),
      (''homeplug-av-wifi-kit'', Some ''local'', None, Some 9000),
      (''tp4056-solar-charger'', Some ''local'', None, Some 130),
      (''18650-holder'', Some ''local'', None, Some 70),
      (''breadboard-jumpers'', Some ''local'', None, Some 650),
      (''temp-humidity-sensor'', Some ''local'', None, Some 350),
      (''usb-ttl-ch340'', Some ''local'', None, Some 400),
      (''18650-cell'', Some ''local'', None, Some 400),
      (''extension-strips'', Some ''local'', None, Some 800)]"
  by (simp add: listing_def CHECKOUT_def)

lemma kit_table: "map entries_of KIT_DEVICES =
     [[(''esp32-s3-devkitc-n16r8'', 1), (''sx1262-module-868'', 1), (''ipex-sma-pigtail'', 1), (''antenna-868-sma'', 1), (''kq-130f-plc-module'', 1), (''homeplug-av-wifi-kit'', 1)],
      [(''esp32-s3-devkitc-n16r8'', 1), (''kq-130f-plc-module'', 1)],
      [(''heltec-lora32-v3-868'', 1), (''tp4056-solar-charger'', 1), (''18650-holder'', 1), (''18650-cell'', 1), (''solar-panel-6v-2w'', 1)],
      [(''heltec-lora32-v3-868'', 1), (''usb-c-otg-adapter'', 1)],
      [(''esp32-c3-supermini'', 1), (''sx1262-module-868'', 1), (''ipex-sma-pigtail'', 1), (''antenna-868-sma'', 1), (''soil-moisture-capacitive-v2'', 1), (''temp-humidity-sensor'', 1)],
      [(''sma-attenuator-30db'', 2), (''breadboard-jumpers'', 1), (''usb-ttl-ch340'', 1), (''extension-strips'', 1)]]"
  by (simp add: entries_of_def KIT_DEVICES_def)

lemma kit_total: "ks_total (mvpSummary parts CHECKOUT KIT_DEVICES) = 26986"
  unfolding summary_table checkout_table kit_table by code_simp

definition shipping_of :: "checkout_line list \<Rightarrow> (string option \<times> string) list" where
  "shipping_of checkout = map (\<lambda>l. (co_buy l, or_empty (co_shipping l))) checkout"

lemma shipping_table:
  "ks_shipping (mvpSummary parts checkout kit) =
     (let amounts = map (\<lambda>s. decimal_of (filter (\<lambda>c. is_digit c \<or> c = CHR ''.'') (snd s)))
          (filter (\<lambda>s. fst s = Some ''ali'' \<and> str_includes ''KSh'' (snd s)) (shipping_of checkout))
      in if None \<in> set amounts then None else Some (js_round (sum_list (map price_or_0 amounts))))"
  unfolding mvpSummary_def Let_def shipping_of_def by (simp add: filter_map comp_def)

lemma kit_shipping: "ks_shipping (mvpSummary parts CHECKOUT KIT_DEVICES) = Some 569"
proof -
  have t: "shipping_of CHECKOUT =
     [(Some ''ali'', ''Free shipping''),
      (Some ''ali'', ''Free shipping''),
      (Some ''ali'', ''Free shipping''),
      (Some ''ali'', ''Free shipping''),
      (Some ''ali'', ''Free shipping''),
      (Some ''ali'', ''KSh 569.00''),
      (Some ''ali'', ''Free shipping''),
      (Some ''ali'', ''Free shipping''),
      (Some ''ali'', ''Free shipping''),
      (Some ''ali'', ''Free shipping''),
      (Some ''ali'', ''Free shipping''),
      (Some ''local'', ''same-day Nairobi dispatch''),
      (Some ''local'', ''in stock''),
      (Some ''local'', ''in stock''),
      (Some ''local'', ''in stock''),
      (Some ''local'', ''in stock''),
      (Some ''local'', ''stock not stated on page''),
      (Some ''local'', ''listing price, stock not checked''),
      (Some ''local'', ''supermarket'')]"
    by (simp add: shipping_of_def CHECKOUT_def or_empty_def)
  show ?thesis unfolding shipping_table t by code_simp
qed

lemma typed_kit: "typed_range ''hw-kit'' = Some (26986, 26986)" "typed_range ''hw-ship'' = Some (569, 569)"
  by code_simp+

lemma typed_pilot: "typed_range ''pl-field'' = Some (29050, 29050)" "typed_range ''pl-opex'' = Some (11550, 11550)"
  by code_simp+

text \<open>The hires are shown with what they are "in the budget as"; two of them are a line of that range, two are not.\<close>

definition in_budget :: "hire \<Rightarrow> bool" where
  "in_budget h \<longleftrightarrow> list_ex (\<lambda>l. hire_range h = Some (l_low l, l_high l)) (concat (map ph_lines PHASES))"

lemma hires_in_budget: "map in_budget (tm_hires TEAM) = [True, False, False, True]"
  by code_simp

section \<open>The bars\<close>

definition group_mid :: "string \<times> string \<times> rat \<times> rat \<Rightarrow> rat" where
  "group_mid g = (case g of (k, lab, low, high) \<Rightarrow> mid low high)"

fun fills :: "rat \<Rightarrow> bar_seg list \<Rightarrow> rat \<Rightarrow> bool" where
  \<comment> \<open>the rectangles follow one another from the first number to the last\<close>
  "fills x [] y \<longleftrightarrow> x = y"
| "fills x (g # gs) y \<longleftrightarrow> sg_left g = x \<and> 0 < sg_width g \<and> fills (x + sg_width g) gs y"

lemma bar_segs_fill:
  "0 < tot \<Longrightarrow> \<forall>g \<in> set gs. 0 < group_mid g \<Longrightarrow> fills x (bar_segs tot x gs) (x + sum_list (map group_mid gs) / tot * 100)"
proof (induction gs arbitrary: x)
  case (Cons g gs)
  obtain k lab low high where g: "g = (k, lab, low, high)" by (cases g)
  have pos: "0 < mid low high / tot * 100" using Cons.prems g by (simp add: group_mid_def)
  have "fills (x + mid low high / tot * 100) (bar_segs tot (x + mid low high / tot * 100) gs)
          (x + mid low high / tot * 100 + sum_list (map group_mid gs) / tot * 100)"
    using Cons by simp
  moreover have "x + mid low high / tot * 100 + sum_list (map group_mid gs) / tot * 100
      = x + sum_list (map group_mid (g # gs)) / tot * 100"
    by (simp add: g group_mid_def add_divide_distrib distrib_right)
  ultimately have rest: "fills (x + mid low high / tot * 100) (bar_segs tot (x + mid low high / tot * 100) gs)
      (x + sum_list (map group_mid (g # gs)) / tot * 100)" by (simp only:)
  have m: "max (mid low high / tot * 100) 0 = mid low high / tot * 100" using pos by (rule max.absorb1 [OF less_imp_le])
  show ?case
    using rest pos unfolding g bar_segs.simps(2) Let_def fills.simps(2) bar_seg.simps m by blast
qed simp

lemma group_mid_sum:
  "sum_list (map group_mid gs) =
     mid (sum_list (map (\<lambda>(k, lab, low, high). low) gs)) (sum_list (map (\<lambda>(k, lab, low, high). high) gs))"
  by (induction gs) (auto simp: group_mid_def mid_def add_divide_distrib)

lemma phase_segs_fill:
  assumes "grouped_lines ph" and "0 < b_high (phaseBudget ph)"
  shows "fills 0 (phase_segs ph) 100"
proof -
  let ?b = "phaseBudget ph" and ?gs = "phaseByGroup ph"
  have tot: "0 < mid (b_low ?b) (b_high ?b)" using assms(2) budget_range(1) [OF assms(1)] by (simp add: mid_def)
  have "0 < group_mid g" if g: "g \<in> set ?gs" for g
  proof -
    obtain k lab low high where eq: "g = (k, lab, low, high)" by (cases g)
    have ok: "list_all line_ok (b_lines ?b)" using assms(1) by (rule budget_lines_ok)
    have "0 \<le> sum_low (group_members (b_lines ?b) k)"
      by (rule sums_ordered [THEN conjunct1]) (use ok in \<open>auto simp: group_members_def list_all_iff\<close>)
    with g eq have "0 \<le> low" "0 < high" by (auto simp: phaseByGroup_def Let_def)
    then show ?thesis by (simp add: eq group_mid_def mid_def)
  qed
  then have "fills 0 (phase_segs ph) (0 + sum_list (map group_mid ?gs) / mid (b_low ?b) (b_high ?b) * 100)"
    unfolding phase_segs_def Let_def by (intro bar_segs_fill tot) blast
  moreover have "sum_list (map group_mid ?gs) = mid (b_low ?b) (b_high ?b)"
    unfolding group_mid_sum phaseByGroup_sums [OF assms(1)] by simp
  ultimately show ?thesis using tot by simp
qed

section \<open>The map\<close>

lemma shuffle_length: "length (shuffle k i s pool rank) = length rank"
  by (induction k arbitrary: i s pool rank) (simp_all add: Let_def)

lemma shuffle_other:
  "j \<notin> set pool \<Longrightarrow> distinct pool \<Longrightarrow> length pool = k \<Longrightarrow> shuffle k i s pool rank ! j = rank ! j"
proof (induction k arbitrary: i s pool rank)
  case (Suc k)
  let ?s = "next_seed s" and ?p = "nat (next_seed s mod int (length pool))"
  have p: "?p < length pool" using Suc.prems(3) by (simp add: nat_less_iff)
  have "j \<notin> set (take ?p pool @ drop (Suc ?p) pool)" using Suc.prems(1) by (auto dest: in_set_takeD in_set_dropD)
  moreover have "distinct (take ?p pool @ drop (Suc ?p) pool)"
    using Suc.prems(2) p by (metis distinct_append id_take_nth_drop distinct.simps(2) Un_iff disjoint_insert(1) list.simps(15) set_append)
  moreover have "length (take ?p pool @ drop (Suc ?p) pool) = k" using p Suc.prems(3) by simp
  moreover have "j \<noteq> pool ! ?p" using Suc.prems(1) p nth_mem by blast
  ultimately show ?case using Suc.IH by (simp add: Let_def)
qed simp

lemma shuffle_ranks:
  "distinct pool \<Longrightarrow> length pool = k \<Longrightarrow> \<forall>j \<in> set pool. j < length rank \<Longrightarrow>
     mset (map ((!) (shuffle k i s pool rank)) pool) = mset [i..<i + k]"
proof (induction k arbitrary: i s pool rank)
  case (Suc k)
  let ?p = "nat (next_seed s mod int (length pool))"
  let ?rest = "take ?p pool @ drop (Suc ?p) pool" and ?j = "pool ! ?p"
  let ?r = "shuffle k (i + 1) (next_seed s) ?rest (rank[?j := i])"
  have p: "?p < length pool" using Suc.prems(2) by (simp add: nat_less_iff)
  have split: "pool = take ?p pool @ ?j # drop (Suc ?p) pool" using p by (rule id_take_nth_drop)
  have d: "distinct ?rest" and j: "?j \<notin> set ?rest"
    using Suc.prems(1) by (subst (asm) split, simp)+
  have len: "length ?rest = k" using p Suc.prems(2) by simp
  have bound: "\<forall>x \<in> set ?rest. x < length (rank[?j := i])" using Suc.prems(3) by (auto dest: in_set_takeD in_set_dropD)
  have "?j < length rank" using Suc.prems(3) p by (simp add: nth_mem)
  then have "?r ! ?j = i" using shuffle_other [OF j d len] by simp
  moreover have "mset (map ((!) ?r) ?rest) = mset [i + 1..<i + 1 + k]" by (rule Suc.IH [OF d len bound])
  moreover have "mset (map ((!) ?r) pool) = mset (map ((!) ?r) ?rest) + {#?r ! ?j#}"
    by (subst split) (simp del: append_take_drop_id)
  moreover have "[i..<i + Suc k] = i # [i + 1..<i + 1 + k]" by (simp add: upt_conv_Cons del: upt_Suc)
  ultimately show ?case by (simp add: Let_def)
qed simp

lemma MAP_ORDER_ranks: "length MAP_ORDER = MAP_COUNT" "mset MAP_ORDER = mset [0..<MAP_COUNT]"
proof -
  show len: "length MAP_ORDER = MAP_COUNT" by (simp add: MAP_ORDER_def shuffle_length)
  have "mset (map ((!) MAP_ORDER) [0..<MAP_COUNT]) = mset [0..<0 + MAP_COUNT]"
    unfolding MAP_ORDER_def by (rule shuffle_ranks) simp_all
  then show "mset MAP_ORDER = mset [0..<MAP_COUNT]" using len map_nth [of MAP_ORDER] by (simp only: add_0)
qed

lemma MAP_ORDER_bij: "bij_betw ((!) MAP_ORDER) {..<MAP_COUNT} {..<MAP_COUNT}"
proof -
  have d: "distinct MAP_ORDER" using mset_eq_imp_distinct_iff [OF MAP_ORDER_ranks(2)] by (simp only: distinct_upt)
  have s: "set MAP_ORDER = {..<MAP_COUNT}"
    using mset_eq_setD [OF MAP_ORDER_ranks(2)] by (simp only: set_upt atLeast0LessThan)
  have "bij_betw ((!) MAP_ORDER) {..<length MAP_ORDER} (set MAP_ORDER)" by (rule bij_betw_nth [OF d refl refl])
  then show ?thesis by (simp only: s MAP_ORDER_ranks(1))
qed

lemma shown_card:
  assumes "0 < gap"
  shows "int (card {r. r < n \<and> start + of_nat r * gap \<le> t}) = shown t start gap (int n)"
proof (cases "t < start")
  case True
  have "t < start + of_nat r * gap" for r :: nat
  proof -
    have "0 \<le> of_nat r * gap" using assms by simp
    with True show ?thesis by linarith
  qed
  then have "{r. r < n \<and> start + of_nat r * gap \<le> t} = {}" by (auto simp: not_le)
  with True show ?thesis by (simp add: shown_def)
next
  case False
  let ?f = "\<lfloor>(t - start) / gap\<rfloor>"
  have f: "0 \<le> ?f" using False assms by simp
  have "start + of_nat r * gap \<le> t \<longleftrightarrow> int r < ?f + 1" for r :: nat
  proof -
    have "start + of_nat r * gap \<le> t \<longleftrightarrow> of_int (int r) \<le> (t - start) / gap" using assms by (simp add: pos_le_divide_eq algebra_simps)
    also have "\<dots> \<longleftrightarrow> int r \<le> ?f" by (simp add: le_floor_iff)
    finally show ?thesis by linarith
  qed
  then have "{r. r < n \<and> start + of_nat r * gap \<le> t} = {r. r < n \<and> int r < ?f + 1}" by blast
  also have "\<dots> = {..<min n (nat (?f + 1))}" by (auto simp: zless_nat_eq_int_zless)
  finally have "card {r. r < n \<and> start + of_nat r * gap \<le> t} = min n (nat (?f + 1))" by simp
  moreover have "int (min n (nat y)) = min (int n) y" if "0 \<le> y" for y using that by (simp add: min_def le_nat_iff)
  from this [of "?f + 1"] f have "int (min n (nat (?f + 1))) = min (int n) (?f + 1)" by linarith
  ultimately show ?thesis using False by (simp only: shown_def if_False)
qed

definition joined :: "rat \<Rightarrow> nat set" where
  \<comment> \<open>the buildings whose turn has come\<close>
  "joined t = {i. i < MAP_COUNT \<and> MAP_START + of_nat (MAP_ORDER ! i) * MAP_GAP \<le> t}"

lemma card_joined: "int (card (joined t)) = lit_buildings t"
proof -
  let ?R = "{r. r < MAP_COUNT \<and> MAP_START + of_nat r * MAP_GAP \<le> t}"
  have "bij_betw ((!) MAP_ORDER) (joined t) ?R"
  proof (rule bij_betw_subset [OF MAP_ORDER_bij])
    show "joined t \<subseteq> {..<MAP_COUNT}" by (auto simp: joined_def)
    show "(!) MAP_ORDER ` joined t = ?R"
    proof
      show "(!) MAP_ORDER ` joined t \<subseteq> ?R" using MAP_ORDER_bij by (auto simp: joined_def bij_betw_def)
      show "?R \<subseteq> (!) MAP_ORDER ` joined t"
      proof
        fix r assume r: "r \<in> ?R"
        then have "r \<in> (!) MAP_ORDER ` {..<MAP_COUNT}" using bij_betw_imp_surj_on [OF MAP_ORDER_bij] by simp
        then obtain i where "i < MAP_COUNT" "MAP_ORDER ! i = r" by blast
        with r show "r \<in> (!) MAP_ORDER ` joined t" by (auto simp: joined_def)
      qed
    qed
  qed
  then have "card (joined t) = card ?R" by (rule bij_betw_same_card)
  then show ?thesis using shown_card [of MAP_GAP MAP_COUNT MAP_START t] by (simp add: lit_buildings_def MAP_GAP_def)
qed

lemma building_progress_joined:
  assumes "i < MAP_COUNT"
  shows "0 < building_progress i t \<Longrightarrow> i \<in> joined t"
    and "i \<in> joined (t - 1) \<Longrightarrow> 1 / 1000 < building_progress i t"
proof -
  let ?s = "MAP_START + of_nat (MAP_ORDER ! i) * MAP_GAP"
  have bp: "building_progress i t = outCubic (clamp01 ((t - ?s) / 420))" by (simp add: building_progress_def stage_def)
  show "i \<in> joined t" if "0 < building_progress i t"
  proof (rule ccontr)
    assume "i \<notin> joined t"
    then have "t < ?s" using assms by (simp add: joined_def)
    then have "clamp01 ((t - ?s) / 420) = 0" by (simp add: clamp01_def divide_less_0_iff)
    with that bp show False by (simp add: outCubic_def)
  qed
  show "1 / 1000 < building_progress i t" if "i \<in> joined (t - 1)"
  proof -
    have "1 \<le> t - ?s" using that by (simp add: joined_def)
    then have "1 / 420 \<le> (t - ?s) / 420" by (simp add: divide_right_mono)
    then have "clamp01 (1 / 420) \<le> clamp01 ((t - ?s) / 420)" by (rule clamp01_mono)
    then have "outCubic (1 / 420) \<le> building_progress i t"
      using easing_okD(3) [OF easing_outCubic, of "1 / 420" "clamp01 ((t - ?s) / 420)"] bp by (simp add: clamp01_def)
    moreover have "1 / 1000 < outCubic (1 / 420)" by (simp add: outCubic_def power3_eq_cube)
    ultimately show ?thesis by simp
  qed
qed

section \<open>Properties\<close>

text \<open>The budget's data is sound: line ids are unique, every line stands in a known group with an ordered range, its
  note and its kind exist, each phase is listed by the tranche it names; so the bar of every phase with a figure is
  filled from 0 to 100 by its groups in order, and the typed prices of the kit, its shipping and the pilot's field
  costs are those the shop and the revenue model compute.\<close>
theorem startup_figures_agree:
  shows "(\<forall>ph \<in> set PHASES. phase_sound ph \<and> tranche_of (ph_key ph) = ps_tranche ph \<and>
            (0 < b_high (phaseBudget (phase.truncate ph)) \<longrightarrow> fills 0 (phase_segs (phase.truncate ph)) 100)) \<and>
         distinct (concat (map (\<lambda>ph. map l_id (ph_lines ph)) PHASES)) \<and>
         (let kit = mvpSummary parts CHECKOUT KIT_DEVICES
          in typed_range ''hw-kit'' = Some (ks_total kit, ks_total kit) \<and>
             (case ks_shipping kit of None \<Rightarrow> False | Some s \<Rightarrow> typed_range ''hw-ship'' = Some (of_int s, of_int s))) \<and>
         typed_range ''pl-field'' = Some (capexKes REVENUE, capexKes REVENUE) \<and>
         typed_range ''pl-opex'' = Some (3 * opexKes REVENUE, 3 * opexKes REVENUE)"
proof -
  have sound: "phase_sound ph" if "ph \<in> set PHASES" for ph
    using that phases_sound unfolding PHASES_def by auto
  have tranche: "tranche_of (ph_key ph) = ps_tranche ph" if "ph \<in> set PHASES" for ph
    using phase_table(3) that by (metis map_eq_conv)
  have "fills 0 (phase_segs (phase.truncate ph)) 100"
    if "ph \<in> set PHASES" "0 < b_high (phaseBudget (phase.truncate ph))" for ph
    using phase_segs_fill [OF phase_sound_grouped [OF sound [OF that(1)]] that(2)] .
  moreover have "typed_range ''pl-field'' = Some (capexKes REVENUE, capexKes REVENUE)"
    "typed_range ''pl-opex'' = Some (3 * opexKes REVENUE, 3 * opexKes REVENUE)"
    by (simp_all add: typed_pilot REVENUE_def)
  ultimately show ?thesis
    using sound tranche line_ids kit_total [of parts] kit_shipping [of parts] typed_kit by (simp add: Let_def)
qed

theorem startup_figures_agree_witness:
  "fills 0 (phase_segs (phase.truncate phase_pilot)) 100"
proof -
  have "0 < b_high (phaseBudget (phase.truncate phase_pilot))" by code_simp
  moreover have "phase_pilot \<in> set PHASES" by (simp add: PHASES_def)
  ultimately show ?thesis using conjunct1 [OF startup_figures_agree [of "[]"]] by blast
qed

text \<open>The map lights as many buildings as its counter says: the order is a permutation of the hundred, so the number
  of buildings whose turn has come is the counter at every time; a building drawn lit has had its turn, and one
  whose turn came a millisecond ago is drawn lit.\<close>
theorem map_matches_counter:
  "int (card (joined t)) = lit_buildings t \<and> joined t \<subseteq> {..<MAP_COUNT} \<and> mset MAP_ORDER = mset [0..<MAP_COUNT] \<and>
   {i. i < MAP_COUNT \<and> snd (building_at i (building_progress i t))} \<subseteq> joined t \<and>
   joined (t - 1) \<subseteq> {i. i < MAP_COUNT \<and> snd (building_at i (building_progress i t))}"
proof -
  have "i \<in> joined t" if "i < MAP_COUNT" "snd (building_at i (building_progress i t))" for i
  proof -
    have "0 < building_progress i t" using that(2) by (simp add: building_at_def)
    then show ?thesis by (rule building_progress_joined(1) [OF that(1)])
  qed
  moreover have "i < MAP_COUNT \<and> snd (building_at i (building_progress i t))" if "i \<in> joined (t - 1)" for i
  proof -
    have i: "i < MAP_COUNT" using that by (simp add: joined_def)
    then show ?thesis using building_progress_joined(2) [OF i that] by (simp add: building_at_def)
  qed
  moreover have "joined t \<subseteq> {..<MAP_COUNT}" by (auto simp: joined_def)
  ultimately show ?thesis by (intro conjI card_joined MAP_ORDER_ranks(2)) blast+
qed

section \<open>A comment\<close>

text \<open>The first run is more than a hundred times the bench, at the midpoints that the bars are drawn with.\<close>
lemma run_against_bench:
  "100 * mid (b_low (phaseBudget (phase.truncate phase_poc_hardware))) (b_high (phaseBudget (phase.truncate phase_poc_hardware)))
     < mid (b_low (phaseBudget (phase.truncate phase_manufacture))) (b_high (phaseBudget (phase.truncate phase_manufacture)))"
  by code_simp

end
