(* ===== verification/Playground.thy ===== *)
theory Playground
  imports Drills Display Chain
begin

text \<open>
  The playground, \<open>web/src/demo/ui/\<close>: the state of \<open>Playground.jsx\<close> (the worlds one can go back to, the result of each
  step, the open step, the forms), its handlers and those of \<open>Stage.jsx\<close> and \<open>Console.jsx\<close>, and what the panels print.

  An event is a click, a key or a tick of the browse timer.  An event on an element that is not drawn changes nothing.
  The flag beside the state after an event is false when its handler throws or does not return: what it had set is kept.
  After each event the effects of the browse box run (\<open>browse_effect\<close>).  The numbers the flow counter has reached are the
  argument \<open>ns\<close>, one for each flow or step the handler starts.
\<close>

section \<open>The steps as the screen shows them\<close>

datatype pick =
    PickPrice "rat list" | PickFee "rat list" | PickWho "actor list" | PickAmount "rat list" | PickFail | PickMb "rat list"
  | PickOffline | PickMode "bool list" | PickBy "actor list" | PickFrom "bool list" | PickOld

record pg_form = form +
  fo_mb :: rat
  fo_offline :: bool

definition blank_form :: pg_form where
  \<comment> \<open>the fields a step does not use\<close>
  "blank_form = \<lparr>fo_price = 0, fo_fee = 0, fo_who = Amina, fo_amount = 0, fo_fail = False, fo_claimOnly = False,
     fo_by = Mallory, fo_fromMeter = False, fo_old = False, fo_mb = 0, fo_offline = False\<rparr>"

record step_row =
  sr_id :: step_id
  sr_lane :: string
  sr_short :: string
  sr_title :: string
  sr_what :: string
  sr_in :: "string list"
  sr_does :: string
  sr_by :: string
  sr_out :: "string list"
  sr_kiosk :: bool
  sr_form :: pg_form
  sr_fields :: "(pick \<times> string) list"

definition CLIENTS :: "actor list" where "CLIENTS = [Amina, Baraka]"

definition STEPS :: "step_row list" where
  "STEPS =
   [\<lparr>sr_id = SSetup, sr_lane = ''setup'', sr_short = ''Set up'', sr_title = ''Set up the rules'',
     sr_what = ''Put the three rulebooks on the chain and let the kiosk create xKoin, up to a daily limit.'',
     sr_in = [''Owner key''], sr_does = ''Deploy contracts, approve kiosk'', sr_by = ''Owner'',
     sr_out = [''Token'', ''Meter'', ''Fee box'', ''Kiosk limit''], sr_kiosk = False,
     sr_form = blank_form\<lparr>fo_price := 5 / 100, fo_fee := 5\<rparr>,
     sr_fields = [(PickPrice [1 / 100, 5 / 100, 1 / 10, 1 / 2], ''KES per MB''), (PickFee [1, 5, 10], ''Fee %'')]\<rparr>,
    \<lparr>sr_id = STopup, sr_lane = ''in'', sr_short = ''Top up'', sr_title = ''Top up'',
     sr_what = ''Pay with M-Pesa. The kiosk creates the same amount of xKoin in your wallet.'',
     sr_in = [''M-Pesa KES''], sr_does = ''Confirm payment, create xKoin'', sr_by = ''Kiosk'',
     sr_out = [''Wallet +'', ''Voucher''], sr_kiosk = True,
     sr_form = blank_form\<lparr>fo_amount := 100\<rparr>,
     sr_fields = [(PickWho CLIENTS, ''Who''), (PickAmount [20, 100, 500], ''KES''), (PickFail, ''Payment cancelled'')]\<rparr>,
    \<lparr>sr_id = SFill, sr_lane = ''in'', sr_short = ''Fill meter'', sr_title = ''Fill the data meter'',
     sr_what = ''Move xKoin from wallet to meter. Any node can now serve you. You pay no gas.'',
     sr_in = [''Wallet'', ''Phone signature''], sr_does = ''Lock into meter'', sr_by = ''Kiosk submits'',
     sr_out = [''Meter +''], sr_kiosk = True,
     sr_form = blank_form\<lparr>fo_amount := 50\<rparr>,
     sr_fields = [(PickWho CLIENTS, ''Who''), (PickAmount [10, 50, 100], ''KES'')]\<rparr>,
    \<lparr>sr_id = SBrowse, sr_lane = ''use'', sr_short = ''Browse'', sr_title = ''Browse'',
     sr_what = ''Use data. Every 1 MB your phone signs a receipt. Nothing touches the chain yet.'',
     sr_in = [''Meter credit''], sr_does = ''Serve data, collect receipts'', sr_by = ''Node'',
     sr_out = [''Signed receipts'', ''Amount owed''], sr_kiosk = False,
     sr_form = blank_form\<lparr>fo_mb := 12\<rparr>,
     sr_fields = [(PickWho CLIENTS, ''Who''), (PickMb [1, 12, 50, 200], ''MB''), (PickOffline, ''Internet down'')]\<rparr>,
    \<lparr>sr_id = SSettle, sr_lane = ''use'', sr_short = ''Pay node'', sr_title = ''Pay the node'',
     sr_what = ''Only the newest receipt is sent. It pays the whole bill in one chain action.'',
     sr_in = [''Newest receipt''], sr_does = ''Check signature, move money'', sr_by = ''Relayer'',
     sr_out = [''Node earned +'', ''Fee box +'', ''Meter -''], sr_kiosk = False, sr_form = blank_form, sr_fields = []\<rparr>,
    \<lparr>sr_id = SNodeOut, sr_lane = ''use'', sr_short = ''Node paid'', sr_title = ''Node takes its money'',
     sr_what = ''The node moves its earnings to its wallet, then to M-Pesa if it wants.'',
     sr_in = [''Node earned''], sr_does = ''Claim, then cash out'', sr_by = ''Node'', sr_out = [''Node M-Pesa +''],
     sr_kiosk = False, sr_form = blank_form, sr_fields = [(PickMode [True, False], ''Do'')]\<rparr>,
    \<lparr>sr_id = SFee, sr_lane = ''use'', sr_short = ''Founder fee'', sr_title = ''Founder fee'',
     sr_what = ''Anyone can press this. The fee can only ever go to the founder.'',
     sr_in = [''Fee box''], sr_does = ''Sweep to founder'', sr_by = ''Anyone'', sr_out = [''Founder wallet +''],
     sr_kiosk = False, sr_form = blank_form, sr_fields = [(PickBy [Relayer, Mallory, Founder], ''Pressed by'')]\<rparr>,
    \<lparr>sr_id = SSend, sr_lane = ''move'', sr_short = ''Send'', sr_title = ''Send'',
     sr_what = ''Wallet to wallet, or meter to meter. The sender pays no gas either way.'',
     sr_in = [''Sender signature''], sr_does = ''Move xKoin'', sr_by = ''Kiosk submits'', sr_out = [''Receiver +''],
     sr_kiosk = True, sr_form = blank_form\<lparr>fo_amount := 10\<rparr>,
     sr_fields = [(PickWho CLIENTS, ''From''), (PickFrom [False, True], ''Take from''), (PickAmount [5, 10, 20], ''KES'')]\<rparr>,
    \<lparr>sr_id = SUnlock, sr_lane = ''move'', sr_short = ''Unlock'', sr_title = ''Unlock the meter'',
     sr_what = ''Move xKoin from meter back to wallet. Your phone signs; the kiosk pays the gas.'',
     sr_in = [''Meter'', ''Phone signature''], sr_does = ''Unlock to wallet'', sr_by = ''Kiosk submits'',
     sr_out = [''Wallet +'', ''Meter -''], sr_kiosk = True,
     sr_form = blank_form\<lparr>fo_amount := 10\<rparr>,
     sr_fields = [(PickWho CLIENTS, ''Who''), (PickAmount [5, 10, 20], ''KES''), (PickOld, ''Old way (phone pays gas)'')]\<rparr>,
    \<lparr>sr_id = SCashOut, sr_lane = ''out'', sr_short = ''Cash out'', sr_title = ''Cash out'',
     sr_what = ''Wallet to M-Pesa. The xKoin is destroyed only after M-Pesa confirms the payout.'',
     sr_in = [''Wallet''], sr_does = ''Pay M-Pesa, then destroy xKoin'', sr_by = ''Kiosk'',
     sr_out = [''M-Pesa +'', ''xKoin supply -''], sr_kiosk = True,
     sr_form = blank_form\<lparr>fo_amount := 20\<rparr>,
     sr_fields = [(PickWho CLIENTS, ''Who''), (PickAmount [10, 20, 50], ''KES''), (PickFail, ''M-Pesa payout fails'')]\<rparr>,
    \<lparr>sr_id = SWhatIf, sr_lane = ''safety'', sr_short = ''What if'', sr_title = ''What if something goes wrong?'',
     sr_what = ''Pick a problem. Watch what the rules do about it.'',
     sr_in = [''A problem''], sr_does = ''Rules react'', sr_by = ''Contracts'', sr_out = [''Blocked or bounded''],
     sr_kiosk = False, sr_form = blank_form, sr_fields = []\<rparr>]"

definition LANES :: "(string \<times> string) list" where
  "LANES = [(''setup'', ''Set up''), (''in'', ''Money in''), (''use'', ''Use and pay''), (''move'', ''Move''),
     (''out'', ''Money out''), (''safety'', ''Safety'')]"

definition WORDS :: "(string \<times> string \<times> string) list" where
  "WORDS =
     [(''xKoin'', ''XKN token'', ''Digital shillings. 1 xKoin = 1 KES.''),
      (''Wallet'', ''token balance'', ''xKoin you can send or cash out any time.''),
      (''Meter'', ''escrow deposit'', ''xKoin set aside for data. Nodes serve you against it.''),
      (''Receipt'', ''EIP-712 ticket'', ''Your phone signs \"I have used this much so far\". Only the newest counts.''),
      (''Node'', ''gateway node admin'', ''The box that carries your data. Paid per 10 KB.''),
      (''Kiosk'', ''bridge and relayer'', ''Takes M-Pesa, creates xKoin, and pays chain fees for you.''),
      (''Fee box'', ''treasury'', ''5% of every payment. Only the founder can receive it.''),
      (''Gas'', ''ETH network fee'', ''What the chain charges per action. Fractions of a shilling.''),
      (''Signature'', ''secp256k1 / Ed25519'', ''Proof only your phone could have made. Cannot be faked or reused.''),
      (''Backed'', ''fiat peg'', ''Every xKoin in existence has a real shilling behind it.'')]"

fun drill_words :: "drill \<Rightarrow> string \<times> string" where
  \<comment> \<open>\<open>DRILL_WORDS\<close>: the question on the button and the answer\<close>
  "drill_words LostTickets = (''Node loses receipts'', ''Only the newest matters. Nothing lost.'')"
| "drill_words Replay = (''Someone reuses an old receipt'', ''Rejected. It can be paid once.'')"
| "drill_words Forged = (''Node fakes a bigger receipt'', ''Rejected. Only the phone can sign.'')"
| "drill_words Expired = (''Node waits too long to get paid'', ''Receipt expired. Node loses it. Settle on time.'')"
| "drill_words Drain = (''User empties meter mid-use'', ''Node gets what is left. Loss capped small.'')"
| "drill_words Redirect = (''Kiosk tries to steal an unlock'', ''Rejected. Destination is signed.'')"
| "drill_words LostPhone = (''Phone lost'', ''Restore from seed words. All money back.'')"
| "drill_words RogueBridge = (''Kiosk key stolen'', ''Thief limited to one day'' @ apos @ ''s cap. Users untouched.'')"
| "drill_words StolenOwner = (''Owner key stolen'', ''Fees capped, price capped, founder can veto.'')"
| "drill_words FrontRunPermit = (''Someone races your deposit'', ''Deposit still goes through.'')"
| "drill_words PayoutFails = (''M-Pesa payout fails'', ''Coins wait safely. Retry pays.'')"
| "drill_words Offline = (''Internet is down'', ''Node trusts the kiosk voucher, up to 5 KES.'')"

fun step_head :: "step_id \<Rightarrow> pg_form \<Rightarrow> string option" where
  \<comment> \<open>\<open>step.head?.(form)\<close>: the balance whose change says best what the step did\<close>
  "step_head STopup f = Some (actor_key (fo_who f) @ ''.wallet'')"
| "step_head SFill f = Some (actor_key (fo_who f) @ ''.escrow'')"
| "step_head SSettle f = Some ''node.earnings''"
| "step_head SNodeOut f = Some (if fo_claimOnly f then ''node.wallet'' else ''node.mpesa'')"
| "step_head SFee f = Some ''founder.wallet''"
| "step_head SSend f = Some (actor_key (other (fo_who f)) @ ''.'' @ (if fo_fromMeter f then ''escrow'' else ''wallet''))"
| "step_head SUnlock f = Some (actor_key (fo_who f) @ ''.wallet'')"
| "step_head SCashOut f = Some (actor_key (fo_who f) @ ''.mpesa'')"
| "step_head _ f = None"

fun choose_option :: "pick \<Rightarrow> nat \<Rightarrow> pg_form \<Rightarrow> pg_form option" where
  \<comment> \<open>the form after the \<open>i\<close>-th button of a field; a yes-or-no field is one button\<close>
  "choose_option (PickPrice xs) i f = (if i < length xs then Some (f\<lparr>fo_price := xs ! i\<rparr>) else None)"
| "choose_option (PickFee xs) i f = (if i < length xs then Some (f\<lparr>fo_fee := xs ! i\<rparr>) else None)"
| "choose_option (PickWho xs) i f = (if i < length xs then Some (f\<lparr>fo_who := xs ! i\<rparr>) else None)"
| "choose_option (PickAmount xs) i f = (if i < length xs then Some (f\<lparr>fo_amount := xs ! i\<rparr>) else None)"
| "choose_option PickFail i f = (if i = 0 then Some (f\<lparr>fo_fail := \<not> fo_fail f\<rparr>) else None)"
| "choose_option (PickMb xs) i f = (if i < length xs then Some (f\<lparr>fo_mb := xs ! i\<rparr>) else None)"
| "choose_option PickOffline i f = (if i = 0 then Some (f\<lparr>fo_offline := \<not> fo_offline f\<rparr>) else None)"
| "choose_option (PickMode xs) i f = (if i < length xs then Some (f\<lparr>fo_claimOnly := xs ! i\<rparr>) else None)"
| "choose_option (PickBy xs) i f = (if i < length xs then Some (f\<lparr>fo_by := xs ! i\<rparr>) else None)"
| "choose_option (PickFrom xs) i f = (if i < length xs then Some (f\<lparr>fo_fromMeter := xs ! i\<rparr>) else None)"
| "choose_option PickOld i f = (if i = 0 then Some (f\<lparr>fo_old := \<not> fo_old f\<rparr>) else None)"

definition fresh_forms :: "step_id \<Rightarrow> pg_form" where
  "fresh_forms s = (case find (\<lambda>r. sr_id r = s) STEPS of Some r \<Rightarrow> sr_form r | None \<Rightarrow> blank_form)"

section \<open>Results and history\<close>

definition diffMap :: "world \<Rightarrow> world \<Rightarrow> (string \<times> rat) list" where
  \<comment> \<open>both worlds list the same balances in the same order\<close>
  "diffMap before after =
     map (\<lambda>((k, a), (_, b)). (k, b - a)) (filter (\<lambda>((_, a), (_, b)). a \<noteq> b) (zip (metrics before) (metrics after)))"

definition all_changes :: "entry list \<Rightarrow> (string \<times> rat) list" where
  "all_changes entries =
     foldl (\<lambda>out e. foldl (\<lambda>out d. AList.update (df_key d) (get_or 0 out (df_key d) + df_delta d) out) out (en_diffs e))
       [] entries"

definition headline :: "entry list \<Rightarrow> bool \<Rightarrow> string option \<Rightarrow> string" where
  \<comment> \<open>the one number that says best what a step did\<close>
  "headline entries ok key =
     (if \<not> ok then ''blocked''
      else
        let keys = all_changes entries;
            named = (case key of None \<Rightarrow> None | Some k \<Rightarrow> if get_or 0 keys k \<noteq> 0 then Some k else None);
            pick = (case named of
                Some k \<Rightarrow> Some k
              | None \<Rightarrow> map_option fst (find (\<lambda>(k, v). \<not> ends_with ''.eth'' k \<and> 0 < v) keys))
        in case pick of
             Some k \<Rightarrow> kesStr (get_or 0 keys k) True
           | None \<Rightarrow>
               let signed = length (filter (\<lambda>e. en_fn e = ''signTicket'') entries)
               in if signed = 0 then ''ok'' else nat_str signed @ '' receipts'')"

record run_result =
  ru_world :: "world option"
  ru_ok :: bool
  ru_entries :: "entry list"
  ru_verdict :: "string option"

definition of_flow :: "flow_result \<Rightarrow> run_result" where
  "of_flow r = \<lparr>ru_world = Some (fr_world r), ru_ok = fr_ok r, ru_entries = fr_entries r, ru_verdict = None\<rparr>"

record step_result =
  rs_ok :: bool
  rs_entries :: "entry list"
  rs_verdict :: "string option"
  rs_headline :: string
  rs_label :: "string option"

record hist =
  hi_worlds :: "world list"
  hi_changed :: "(string \<times> rat) list"
  hi_last :: "entry list"

definition push_world :: "world \<Rightarrow> entry list \<Rightarrow> hist \<Rightarrow> hist" where
  \<comment> \<open>\<open>commit\<close>: the last 80 worlds are kept, and the new one\<close>
  "push_world w entries h =
     \<lparr>hi_worlds = drop (length (hi_worlds h) - 80) (hi_worlds h) @ [w],
      hi_changed = diffMap (last (hi_worlds h)) w, hi_last = entries\<rparr>"

definition swap_world :: "world \<Rightarrow> hist \<Rightarrow> hist" where
  \<comment> \<open>\<open>replace\<close>: a frame of the data session takes the place of the one before it\<close>
  "swap_world next_w h =
     (let prev = last (hi_worlds h); fresh = drop (length (w_ledger prev)) (w_ledger next_w)
      in \<lparr>hi_worlds = butlast (hi_worlds h) @ [next_w], hi_changed = diffMap prev next_w,
          hi_last = (if fresh \<noteq> [] then fresh else hi_last h)\<rparr>)"

definition undo_world :: "hist \<Rightarrow> hist" where
  "undo_world h =
     (if 1 < length (hi_worlds h) then \<lparr>hi_worlds = butlast (hi_worlds h), hi_changed = [], hi_last = []\<rparr> else h)"

definition first_hist :: "params \<Rightarrow> hist" where
  "first_hist p = \<lparr>hi_worlds = [createWorld p], hi_changed = [], hi_last = []\<rparr>"

section \<open>The page\<close>

datatype panel = PMap | PMoney | PScript | PLab | PLog | PDevTools

datatype overlay = OCosts | OTools | OHelp

datatype lab_tab = LabTrace | LabBytes | LabChain

record browse =
  bw_playing :: bool
  bw_seen :: "bool option"

record playground =
  pg_hist :: hist
  pg_results :: "step_id \<Rightarrow> step_result option"
  pg_active :: nat
  pg_forms :: "step_id \<Rightarrow> pg_form"
  pg_panels :: "panel \<Rightarrow> bool"
  pg_overlay :: "overlay option"
  pg_lab :: lab_tab
  pg_browse :: "browse option"

definition first_playground :: "bool \<Rightarrow> playground" where
  \<comment> \<open>the argument: a screen too narrow for side panels\<close>
  "first_playground narrow =
     \<lparr>pg_hist = first_hist DEFAULT_PARAMS, pg_results = (\<lambda>_. None), pg_active = 0, pg_forms = fresh_forms,
      pg_panels = (\<lambda>p. p = PMap \<or> p = PMoney \<and> \<not> narrow), pg_overlay = None, pg_lab = LabTrace, pg_browse = None\<rparr>"

definition this_world :: "playground \<Rightarrow> world" where
  "this_world st = last (hi_worlds (pg_hist st))"

definition open_step :: "playground \<Rightarrow> step_id" where
  "open_step st = sr_id (STEPS ! pg_active st)"

definition commit :: "run_result \<Rightarrow> step_id option \<Rightarrow> string option \<Rightarrow> bool \<Rightarrow> playground \<Rightarrow> playground" where
  \<comment> \<open>the last two arguments: \<open>opts.label\<close> and \<open>opts.record\<close>\<close>
  "commit r sid label record_only st =
     (let key = Option.bind sid (\<lambda>s. step_head s (pg_forms st s));
          result = \<lparr>rs_ok = ru_ok r, rs_entries = ru_entries r, rs_verdict = ru_verdict r,
            rs_headline = headline (ru_entries r) (ru_ok r) key,
            rs_label = map_option (\<lambda>l. l @ '': '' @ (if ru_ok r then ''handled'' else ''see result'')) label\<rparr>;
          st1 = (case sid of None \<Rightarrow> st | Some s \<Rightarrow> st\<lparr>pg_results := (pg_results st)(s := Some result)\<rparr>)
      in case ru_world r of
           None \<Rightarrow> st1
         | Some w \<Rightarrow> if record_only then st1 else st1\<lparr>pg_hist := push_world w (ru_entries r) (pg_hist st)\<rparr>)"

definition replace_world :: "world \<Rightarrow> playground \<Rightarrow> playground" where
  "replace_world w st = st\<lparr>pg_hist := swap_world w (pg_hist st)\<rparr>"

definition reset_with :: "params \<Rightarrow> playground \<Rightarrow> playground" where
  "reset_with p st =
     st\<lparr>pg_hist := first_hist p, pg_results := (\<lambda>_. None), pg_active := 0, pg_forms := fresh_forms\<rparr>"

section \<open>Play all\<close>

partial_function (option) serve_all :: "host \<Rightarrow> world \<Rightarrow> entry list \<Rightarrow> (world \<times> entry list) option" where
  \<comment> \<open>the loop \<open>while (!w.session.done)\<close> of \<open>runDefault\<close>, a million bytes at a time\<close>
  "serve_all H w entries =
     (case w_session w of
        None \<Rightarrow> None
      | Some s \<Rightarrow>
          if se_done s then Some (w, entries)
          else Option.bind (serve H w 1000000) (\<lambda>r. serve_all H (fst r) (entries @ snd r)))"

definition target_bytes :: "pg_form \<Rightarrow> int" where
  "target_bytes f = js_round (fo_mb f * 1000000)"

definition run_default :: "host \<Rightarrow> nat \<Rightarrow> world \<Rightarrow> step_id \<Rightarrow> pg_form \<Rightarrow> run_result option" where
  "run_default H n w s f =
     (if s = SBrowse then
        Option.bind (openSession H n w (fo_who f) Node (target_bytes f) (fo_offline f)) (\<lambda>ses.
          if \<not> fr_ok ses then Some (of_flow ses)
          else map_option (\<lambda>(w', es). \<lparr>ru_world = Some (closeSession w'), ru_ok = list_all en_ok es, ru_entries = es,
                 ru_verdict = None\<rparr>) (serve_all H (fr_world ses) (fr_entries ses)))
      else map_option of_flow (step_run H n s w (form.truncate f)))"

fun play_from :: "host \<Rightarrow> (nat \<Rightarrow> nat) \<Rightarrow> nat list \<Rightarrow> world \<Rightarrow> nat \<Rightarrow> playground \<Rightarrow> (playground \<times> nat) \<times> bool" where
  \<comment> \<open>the loop of \<open>playAll\<close> over the steps that are left; \<open>at\<close> is the last one that ran\<close>
  "play_from H ns [] w at_step st = ((st, at_step), True)"
| "play_from H ns (i # is) w at_step st =
     (let s = sr_id (STEPS ! i) in
      if s = SWhatIf then ((st, at_step), True)
      else if step_ready H s w \<noteq> None then play_from H ns is w at_step st
      else
        case run_default H (ns i) w s (pg_forms st s) of
          None \<Rightarrow> ((st, at_step), False)
        | Some r \<Rightarrow>
            let st1 = commit r (Some s) None False st
            in if ru_ok r then play_from H ns is (this_world st1) i st1 else ((st1, i), True))"

definition play_all :: "host \<Rightarrow> (nat \<Rightarrow> nat) \<Rightarrow> playground \<Rightarrow> playground \<times> bool" where
  "play_all H ns st =
     (let w = (if w_session (this_world st) \<noteq> None then closeSession (this_world st) else this_world st);
          ((st1, at_step), fin) = play_from H ns [pg_active st..<length STEPS] w (pg_active st) st
      in (if fin then st1\<lparr>pg_active := min (at_step + 1) (length STEPS - 1)\<rparr> else st1, fin))"

section \<open>The browse box\<close>

definition done_flag :: "world \<Rightarrow> bool option" where
  \<comment> \<open>\<open>s?.done\<close>\<close>
  "done_flag w = map_option se_done (w_session w)"

definition on_finish :: "session \<Rightarrow> playground \<Rightarrow> playground" where
  \<comment> \<open>the session's entries become the result of the step; no world is added\<close>
  "on_finish s st =
     commit \<lparr>ru_world = None, ru_ok = True,
             ru_entries = filter (\<lambda>e. en_flow e = Some (se_flow s)) (w_ledger (this_world st)), ru_verdict = None\<rparr>
       (Some SBrowse) None True st"

definition finish_done :: "playground \<Rightarrow> playground" where
  "finish_done st =
     (case w_session (this_world st) of Some s \<Rightarrow> if se_done s then on_finish s st else st | None \<Rightarrow> st)"

definition browse_effect :: "playground \<Rightarrow> playground" where
  \<comment> \<open>the box is drawn while its step is open; its effect runs when it appears and when \<open>s?.done\<close> changes\<close>
  "browse_effect st =
     (if open_step st \<noteq> SBrowse then st\<lparr>pg_browse := None\<rparr>
      else
        let d = done_flag (this_world st)
        in case pg_browse st of
             None \<Rightarrow> finish_done (st\<lparr>pg_browse := Some \<lparr>bw_playing = False, bw_seen = d\<rparr>\<rparr>)
           | Some b \<Rightarrow> if bw_seen b = d then st else finish_done (st\<lparr>pg_browse := Some (b\<lparr>bw_seen := d\<rparr>)\<rparr>))"

definition set_playing :: "bool \<Rightarrow> playground \<Rightarrow> playground" where
  "set_playing p st = st\<lparr>pg_browse := map_option (\<lambda>b. b\<lparr>bw_playing := p\<rparr>) (pg_browse st)\<rparr>"

definition is_playing :: "playground \<Rightarrow> bool" where
  "is_playing st \<longleftrightarrow> (case pg_browse st of Some b \<Rightarrow> bw_playing b | None \<Rightarrow> False)"

definition serve_frame :: "host \<Rightarrow> int \<Rightarrow> playground \<Rightarrow> playground \<times> bool" where
  "serve_frame H chunk st =
     (case serve H (this_world st) chunk of Some (w, _) \<Rightarrow> (replace_world w st, True) | None \<Rightarrow> (st, False))"

section \<open>Calling a function by hand\<close>

datatype prim =
    PSetBridge actor actor bool rat
  | PMint actor actor rat string
  | PBurn actor rat string
  | PApprove actor holder rat
  | PTransfer actor actor rat
  | PTransferFrom actor actor actor rat
  | PPermit actor actor holder rat
  | PDeposit actor rat
  | PDepositWithPermit actor actor rat
  | PWithdraw actor rat
  | PSettle actor
  | PClaimEarnings actor actor rat
  | PSetPrice actor int
  | PClaim actor
  | PSetFee actor int
  | PQueue actor actor
  | PActivate actor
  | PCancel actor
  | PTransferOwnership actor contract actor
  | PAcceptOwnership actor contract
  | PSignTicket actor actor int
  | PIssueVoucher actor rat
  | PVerifyVoucher actor
  | PStkPush actor rat
  | PB2c actor rat
  | PFundGas actor rat
  | PWarp int
  | PLoseDevice actor
  | PRestore actor

definition PRIMS :: "(string \<times> prim) list" where
  \<comment> \<open>every function of the console with the values its form starts with, the caller first\<close>
  "PRIMS =
     [(''xKoinToken'', PSetBridge Owner Kiosk True 50000), (''xKoinToken'', PMint Kiosk Amina 10 ''ws_CO_manual''),
      (''xKoinToken'', PBurn Kiosk 1 ''B2C_manual''), (''xKoinToken'', PApprove Node EscrowAcc 10),
      (''xKoinToken'', PTransfer Node Amina 1), (''xKoinToken'', PTransferFrom Kiosk Amina Baraka 1),
      (''xKoinToken'', PPermit Kiosk Amina (Wallet Kiosk) 5),
      (''xKoinEscrow'', PDeposit Node 1), (''xKoinEscrow'', PDepositWithPermit Kiosk Amina 5),
      (''xKoinEscrow'', PWithdraw Amina 1), (''xKoinEscrow'', PSettle Relayer),
      (''xKoinEscrow'', PClaimEarnings Node Node (1 / 2)), (''xKoinEscrow'', PSetPrice Owner 600),
      (''xKoinTreasury'', PClaim Mallory), (''xKoinTreasury'', PSetFee Owner 300), (''xKoinTreasury'', PQueue Owner Mallory),
      (''xKoinTreasury'', PActivate Mallory), (''xKoinTreasury'', PCancel Founder),
      (''Ownable2Step (all three)'', PTransferOwnership Owner EscrowC Founder),
      (''Ownable2Step (all three)'', PAcceptOwnership Founder EscrowC),
      (''Off chain'', PSignTicket Amina Node 100), (''Off chain'', PIssueVoucher Amina 20),
      (''Off chain'', PVerifyVoucher Amina), (''Off chain'', PStkPush Amina 10), (''Off chain'', PB2c Amina 10),
      (''Off chain'', PFundGas Amina 5000), (''Off chain'', PWarp 25), (''Off chain'', PLoseDevice Amina),
      (''Off chain'', PRestore Amina)]"

fun prim_steps :: "host \<Rightarrow> prim \<Rightarrow> flow_step list" where
  "prim_steps H (PSetBridge c b al cap) = [\<lambda>w _. setBridge H w c b al (kes cap) None]"
| "prim_steps H (PMint c to v r) = [\<lambda>w _. bridgeMint H w c to (kes v) r None None]"
| "prim_steps H (PBurn c v r) = [\<lambda>w _. bridgeBurn H w c (kes v) r None None]"
| "prim_steps H (PApprove c s v) = [\<lambda>w _. approve H w c s (kes v) None]"
| "prim_steps H (PTransfer c to v) = [\<lambda>w _. transfer H w c to (kes v) None None]"
| "prim_steps H (PTransferFrom c ow to v) = [\<lambda>w _. transferFrom H w c ow to (kes v) None None]"
| "prim_steps H (PPermit c ow s v) =
     [\<lambda>w _. signPermit H w ow s (kes v) None None, \<lambda>w p. permit H w c (res_permit p) None None]"
| "prim_steps H (PDeposit c v) = [\<lambda>w _. deposit H w c (kes v) None None]"
| "prim_steps H (PDepositWithPermit c cl v) =
     [\<lambda>w _. signPermit H w cl EscrowAcc (kes v) None None,
      \<lambda>w p. depositWithPermit H w c cl (kes v) (res_permit p) None None]"
| "prim_steps H (PWithdraw c v) = [\<lambda>w _. withdrawDeposit H w c (kes v) None None]"
| "prim_steps H (PSettle c) = [\<lambda>w _. settleTicketBatch H w c (map pt_ticket (pendingTickets H w None)) None None]"
| "prim_steps H (PClaimEarnings c to v) = [\<lambda>w _. claimEarnings H w c to (kes v) None None]"
| "prim_steps H (PSetPrice c p) = [\<lambda>w _. setPricePerUnit H w c p None]"
| "prim_steps H (PClaim c) = [\<lambda>w _. claim H w c None None]"
| "prim_steps H (PSetFee c v) = [\<lambda>w _. setFeeBps H w c v None]"
| "prim_steps H (PQueue c n) = [\<lambda>w _. queueBeneficiary H w c n None]"
| "prim_steps H (PActivate c) = [\<lambda>w _. activateBeneficiary H w c None]"
| "prim_steps H (PCancel c) = [\<lambda>w _. cancelBeneficiaryChange H w c None]"
| "prim_steps H (PTransferOwnership c k n) = [\<lambda>w _. transferOwnership H w c k n None]"
| "prim_steps H (PAcceptOwnership c k) = [\<lambda>w _. acceptOwnership H w c k None]"
| "prim_steps H (PSignTicket c nd units) = [\<lambda>w _. signTicket H w Amina nd units None None (Some c)]"
| "prim_steps H (PIssueVoucher to v) = [\<lambda>w _. issueVoucher H w to (kes v) ''manual'' None]"
| "prim_steps H (PVerifyVoucher who) = [\<lambda>w _. nodeVerify H w who None]"
| "prim_steps H (PStkPush c v) = [\<lambda>w _. stkPush H w c (kes v) None False]"
| "prim_steps H (PB2c to v) = [\<lambda>w _. b2cPayout H w to (kes v) None False]"
| "prim_steps H (PFundGas to g) = [\<lambda>w _. fundGas H w to g None]"
| "prim_steps H (PWarp hours) = [\<lambda>w _. warp H w (hours * 3600) None]"
| "prim_steps H (PLoseDevice c) = [\<lambda>w _. loseDevice H w c None]"
| "prim_steps H (PRestore c) = [\<lambda>w _. restoreFromSeed H w c None]"

definition prim_run :: "host \<Rightarrow> world \<Rightarrow> prim \<Rightarrow> run_result option" where
  "prim_run H w p = map_option of_flow (runSteps w (prim_steps H p))"

datatype param_input =
    GasPriceGwei rat | EthUsd rat | UsdKes rat | L1FeePct rat
  | ReceiptBytes int | OnlineCapKes rat | OfflineCapKes rat | EpochSeconds int

fun set_param :: "param_input \<Rightarrow> params \<Rightarrow> params" where
  \<comment> \<open>the market and protocol inputs of the costs panel; an input that is emptied gives 0\<close>
  "set_param (GasPriceGwei v) p = p\<lparr>p_gasPriceGwei := v\<rparr>"
| "set_param (EthUsd v) p = p\<lparr>p_ethUsd := v\<rparr>"
| "set_param (UsdKes v) p = p\<lparr>p_usdKes := v\<rparr>"
| "set_param (L1FeePct v) p = p\<lparr>p_l1FeePct := v\<rparr>"
| "set_param (ReceiptBytes v) p = p\<lparr>p_receiptBytes := v\<rparr>"
| "set_param (OnlineCapKes v) p = p\<lparr>p_onlineCapKes := v\<rparr>"
| "set_param (OfflineCapKes v) p = p\<lparr>p_offlineCapKes := v\<rparr>"
| "set_param (EpochSeconds v) p = p\<lparr>p_epochSeconds := v\<rparr>"

section \<open>Events\<close>

datatype pg_event =
    RunStep | RetryPayout | StartBrowsing | PlayPause | Tick | OneMore | SkipToEnd | EndSession | DrillButton drill
  | PlayAll | Undo | Reset | ResetWith int int rat | Choose nat nat | TogglePanel panel | PickOverlay overlay
  | CloseOverlay | RightKey | LeftKey | EscapeKey | PickStep nat | BackButton | NextButton | SetParam param_input
  | Primitive prim | PickLab lab_tab | Trace bool

definition not_ready :: "host \<Rightarrow> playground \<Rightarrow> string option" where
  \<comment> \<open>why the open step cannot run\<close>
  "not_ready H st =
     (case step_ready H (open_step st) (this_world st) of
        Some r \<Rightarrow> Some r
      | None \<Rightarrow> if \<not> w_deployed (this_world st) \<and> open_step st \<noteq> SSetup then Some ''Set up the rules first (step 1).'' else None)"

definition payout_failed :: "playground \<Rightarrow> bool" where
  "payout_failed st \<longleftrightarrow> open_step st = SCashOut \<and>
     (case pg_results st SCashOut of
        None \<Rightarrow> False
      | Some r \<Rightarrow> \<not> rs_ok r \<and> list_ex (\<lambda>e. en_fn e = ''M-Pesa B2C payout'' \<and> \<not> en_ok e) (rs_entries r))"

definition commit_flow :: "flow_result option \<Rightarrow> step_id \<Rightarrow> playground \<Rightarrow> playground \<times> bool" where
  "commit_flow r s st =
     (case r of None \<Rightarrow> (st, False) | Some r \<Rightarrow> (commit (of_flow r) (Some s) None False st, True))"

definition run_open_step :: "host \<Rightarrow> nat \<Rightarrow> playground \<Rightarrow> playground \<times> bool" where
  "run_open_step H n st =
     (let s = open_step st in
      if s = SBrowse \<or> s = SWhatIf \<or> not_ready H st \<noteq> None then (st, True)
      else commit_flow (step_run H n s (this_world st) (form.truncate (pg_forms st s))) s st)"

definition run_retry :: "host \<Rightarrow> nat \<Rightarrow> playground \<Rightarrow> playground \<times> bool" where
  "run_retry H n st =
     (if payout_failed st then commit_flow (step_retry H n (this_world st) (form.truncate (pg_forms st SCashOut))) SCashOut st
      else (st, True))"

definition start_browsing :: "host \<Rightarrow> nat \<Rightarrow> playground \<Rightarrow> playground \<times> bool" where
  "start_browsing H n st =
     (let w = this_world st; f = pg_forms st SBrowse in
      if open_step st \<noteq> SBrowse \<or> w_session w \<noteq> None \<or> \<not> w_deployed w then (st, True)
      else
        case openSession H n w (fo_who f) Node (target_bytes f) (fo_offline f) of
          None \<Rightarrow> (st, False)
        | Some r \<Rightarrow>
            let st1 = commit (of_flow r) (Some SBrowse) None False st
            in (if fr_ok r then set_playing True st1 else st1, True))"

definition live_session :: "playground \<Rightarrow> session option" where
  \<comment> \<open>the session whose buttons are drawn\<close>
  "live_session st = (if open_step st = SBrowse then w_session (this_world st) else None)"

definition browse_button :: "host \<Rightarrow> pg_event \<Rightarrow> session \<Rightarrow> playground \<Rightarrow> playground \<times> bool" where
  "browse_button H e s st =
     (if e = PlayPause \<and> \<not> se_done s then (set_playing (\<not> is_playing st) st, True)
      else if e = OneMore \<and> \<not> se_done s then serve_frame H (p_receiptBytes (w_params (this_world st))) st
      else if e = SkipToEnd \<and> \<not> se_done s then serve_frame H (se_targetBytes s) (set_playing False st)
      else if e = EndSession then
        (let st1 = set_playing False st; st2 = (if \<not> se_done s then on_finish s st1 else st1)
         in (replace_world (closeSession (this_world st)) st2, True))
      else (st, True))"

definition browse_tick :: "host \<Rightarrow> playground \<Rightarrow> playground \<times> bool" where
  \<comment> \<open>every 80 milliseconds while the session plays\<close>
  "browse_tick H st =
     (if \<not> is_playing st then (st, True)
      else
        case w_session (this_world st) of
          None \<Rightarrow> (set_playing False st, True)
        | Some s \<Rightarrow> if se_done s then (set_playing False st, True) else serve_frame H 250000 st)"

definition press_drill :: "host \<Rightarrow> (nat \<Rightarrow> nat) \<Rightarrow> drill \<Rightarrow> playground \<Rightarrow> playground \<times> bool" where
  "press_drill H ns d st =
     (if open_step st \<noteq> SWhatIf then (st, True)
      else
        case ensureReady H (ns 0) (this_world st) of
          None \<Rightarrow> (st, False)
        | Some prep \<Rightarrow>
            if \<not> fr_ok prep then (commit (of_flow prep) (Some SWhatIf) None False st, True)
            else
              case run_drill H (ns 1) d (fr_world prep) of
                None \<Rightarrow> (st, False)
              | Some r \<Rightarrow>
                  let (ask, answer) = drill_words d
                  in (commit \<lparr>ru_world = Some (dr_world r), ru_ok = dr_ok r, ru_entries = fr_entries prep @ dr_entries r,
                              ru_verdict = Some (ask @ '': '' @ answer)\<rparr> (Some SWhatIf) (Some ask) False st, True))"

definition press_choice :: "nat \<Rightarrow> nat \<Rightarrow> playground \<Rightarrow> playground" where
  "press_choice k i st =
     (let row = STEPS ! pg_active st; s = sr_id row in
      if k < length (sr_fields row) then
        (case choose_option (fst (sr_fields row ! k)) i (pg_forms st s) of
           Some f \<Rightarrow> st\<lparr>pg_forms := (pg_forms st)(s := f)\<rparr>
         | None \<Rightarrow> st)
      else st)"

definition pg_prim :: "host \<Rightarrow> prim \<Rightarrow> playground \<Rightarrow> playground \<times> bool" where
  "pg_prim H p st =
     (if pg_overlay st \<noteq> Some OTools then (st, True)
      else case prim_run H (this_world st) p of None \<Rightarrow> (st, False) | Some r \<Rightarrow> (commit r None None False st, True))"

fun pg_handle :: "host \<Rightarrow> (nat \<Rightarrow> nat) \<Rightarrow> pg_event \<Rightarrow> playground \<Rightarrow> playground \<times> bool" where
  "pg_handle H ns RunStep st = run_open_step H (ns 0) st"
| "pg_handle H ns RetryPayout st = run_retry H (ns 0) st"
| "pg_handle H ns StartBrowsing st = start_browsing H (ns 0) st"
| "pg_handle H ns Tick st = browse_tick H st"
| "pg_handle H ns (DrillButton d) st = press_drill H ns d st"
| "pg_handle H ns PlayAll st = play_all H ns st"
| "pg_handle H ns Undo st = (st\<lparr>pg_hist := undo_world (pg_hist st)\<rparr>, True)"
| "pg_handle H ns Reset st = (reset_with DEFAULT_PARAMS st, True)"
| "pg_handle H ns (ResetWith price fee cap) st =
     ((if pg_overlay st = Some OCosts
       then reset_with (DEFAULT_PARAMS\<lparr>p_pricePerUnit := price, p_feeBps := fee, p_mintCapKes := cap\<rparr>) st else st), True)"
| "pg_handle H ns (Choose k i) st = (press_choice k i st, True)"
| "pg_handle H ns (TogglePanel p) st = (st\<lparr>pg_panels := (pg_panels st)(p := \<not> pg_panels st p)\<rparr>, True)"
| "pg_handle H ns (PickOverlay o1) st = (st\<lparr>pg_overlay := (if pg_overlay st = Some o1 then None else Some o1)\<rparr>, True)"
| "pg_handle H ns CloseOverlay st = (st\<lparr>pg_overlay := None\<rparr>, True)"
| "pg_handle H ns RightKey st = (st\<lparr>pg_active := min (length STEPS - 1) (pg_active st + 1)\<rparr>, True)"
| "pg_handle H ns LeftKey st = (st\<lparr>pg_active := pg_active st - 1\<rparr>, True)"
| "pg_handle H ns EscapeKey st = (st\<lparr>pg_overlay := None\<rparr>, True)"
| "pg_handle H ns (PickStep i) st = ((if i < length STEPS then st\<lparr>pg_active := i\<rparr> else st), True)"
| "pg_handle H ns BackButton st = ((if pg_active st = 0 then st else st\<lparr>pg_active := pg_active st - 1\<rparr>), True)"
| "pg_handle H ns NextButton st =
     ((if pg_active st = length STEPS - 1 then st else st\<lparr>pg_active := pg_active st + 1\<rparr>), True)"
| "pg_handle H ns (SetParam v) st =
     ((if pg_overlay st = Some OCosts
       then (let w = this_world st in replace_world (w\<lparr>w_params := set_param v (w_params w)\<rparr>) st) else st), True)"
| "pg_handle H ns (Primitive p) st = pg_prim H p st"
| "pg_handle H ns (PickLab l) st = ((if pg_panels st PLab then st\<lparr>pg_lab := l\<rparr> else st), True)"
| "pg_handle H ns (Trace b) st = (st\<lparr>pg_panels := (pg_panels st)(PDevTools := b)\<rparr>, True)"
| "pg_handle H ns e st = (case live_session st of None \<Rightarrow> (st, True) | Some s \<Rightarrow> browse_button H e s st)"

definition pg_step :: "host \<Rightarrow> (nat \<Rightarrow> nat) \<Rightarrow> pg_event \<Rightarrow> playground \<Rightarrow> playground" where
  "pg_step H ns e st = browse_effect (fst (pg_handle H ns e st))"

section \<open>What the panels print\<close>

definition node_state :: "playground \<Rightarrow> nat \<Rightarrow> string" where
  \<comment> \<open>\<open>FlowMap\<close>: the state of the \<open>i\<close>-th step on the map\<close>
  "node_state st i =
     (let s = sr_id (STEPS ! i) in
      if i = pg_active st then ''active''
      else if (case pg_results st s of Some r \<Rightarrow> \<not> rs_ok r | None \<Rightarrow> False) then ''fail''
      else if step_done s (this_world st) then ''done'' else ''todo'')"

definition map_lanes :: "(string \<times> nat list) list" where
  \<comment> \<open>the lanes of the map with the numbers of their steps\<close>
  "map_lanes = map (\<lambda>(lane, lab). (lab, filter (\<lambda>i. sr_lane (STEPS ! i) = lane) [0..<length STEPS])) LANES"

definition folded_text :: "step_result option \<Rightarrow> string" where
  \<comment> \<open>what a folded step says on the right\<close>
  "folded_text r =
     (case r of
        None \<Rightarrow> ''''
      | Some r \<Rightarrow>
          if rs_ok r then (case rs_label r of Some l \<Rightarrow> l | None \<Rightarrow> rs_headline r)
          else ''stopped: '' @ (case find (\<lambda>e. \<not> en_ok e) (rs_entries r) of Some e \<Rightarrow> plainError e | None \<Rightarrow> ''''))"

definition box_changes :: "step_result \<Rightarrow> (string \<times> rat) list" where
  \<comment> \<open>the six largest net changes\<close>
  "box_changes r = take 6 (sort_key (\<lambda>(_, v). - \<bar>v\<bar>) (netChanges (rs_entries r)))"

definition box_out :: "step_row \<Rightarrow> step_result option \<Rightarrow> string list" where
  "box_out row r =
     (let changes = (case r of Some r \<Rightarrow> box_changes r | None \<Rightarrow> [])
      in if changes \<noteq> [] then map (\<lambda>(k, v). plainKey k @ '' '' @ kesStr v True) changes else sr_out row)"

definition outcome_line :: "step_result \<Rightarrow> string" where
  "outcome_line r =
     (case rs_verdict r of
        Some v \<Rightarrow> (if rs_ok r then ''Handled.'' else ''Not as expected.'') @ '' '' @ v
      | None \<Rightarrow>
          if rs_ok r then ''Done. ''
          else ''Stopped: '' @ (case find (\<lambda>e. \<not> en_ok e) (rs_entries r) of Some e \<Rightarrow> plainError e | None \<Rightarrow> '''') @ ''. '')"

definition payer_name :: "actor option \<Rightarrow> string" where
  "payer_name p =
     replace_first '' admin'' (replace_first '' (bridge)'' (case p of Some a \<Rightarrow> nameOf (actor_key a) | None \<Rightarrow> ''null''))"

definition outcome_meta :: "step_result \<Rightarrow> string list" where
  "outcome_meta r =
     (let chainSteps = length (filter (\<lambda>e. en_layer e = LChain \<and> \<not> en_rejected e) (rs_entries r));
          signed = length (filter (\<lambda>e. en_layer e = LWallet \<and> en_ok e) (rs_entries r))
      in (if 0 < signed then [nat_str signed @ '' signature'' @ (if 1 < signed then ''s'' else '''') @ '' on the phone''] else []) @
         [nat_str chainSteps @ '' chain action'' @ (if chainSteps = 1 then '''' else ''s'')] @
         map (\<lambda>(p, v). ''gas '' @ kesSmall v @ '' KES paid by '' @ payer_name p) (gasByPayer (rs_entries r)))"

definition relay_advice :: "host \<Rightarrow> world \<Rightarrow> string option" where
  "relay_advice H w =
     (let pending = pendingTickets H w None in
      if pending = [] then None
      else
        let q = batchQuote H w pending
        in Some (''Fee earned '' @ kesSmall (qu_feeKes q) @ '' KES vs gas '' @ kesSmall (qu_gasKes q) @ '' KES. '' @
             (if qu_go q then ''Worth sending now.'' else ''A real relayer would wait and batch more. Run anyway to see it.'')))"

definition bar_pct :: "rat \<Rightarrow> rat \<Rightarrow> rat" where
  "bar_pct a b = (if b > 0 then min 100 (a / b * 100) else 0)"

record meters =
  mt_served :: rat
  mt_credit :: rat
  mt_served_text :: string
  mt_credit_text :: string
  mt_owed :: int

definition browse_meters :: "world \<Rightarrow> session \<Rightarrow> meters" where
  \<comment> \<open>the two bars of a session, their labels and the amount owed\<close>
  "browse_meters w s =
     (let used = se_limit s - sessionCredit w
      in \<lparr>mt_served = bar_pct (of_int (se_bytes s)) (of_int (se_targetBytes s)),
          mt_credit = bar_pct (of_int used) (of_int (se_limit s)),
          mt_served_text = to_fixed 1 (of_int (se_bytes s) / 1000000) @ '' / '' @ to_fixed 0 (of_int (se_targetBytes s) / 1000000) @ '' MB'',
          mt_credit_text = ''credit '' @ kesStr (of_int used) False @ '' / '' @ kesStr (of_int (se_limit s)) False @ '' KES'',
          mt_owed = ceil_div (se_bytes s) (p_unitBytes (w_params w)) * es_pricePerUnit (w_escrow w)\<rparr>)"

definition chain_entries :: "entry list \<Rightarrow> entry list" where
  "chain_entries es = filter (\<lambda>e. en_layer e = LChain \<and> \<not> en_rejected e) es"

definition gas_meter :: "world \<Rightarrow> string" where
  \<comment> \<open>the line in the head of the page\<close>
  "gas_meter w =
     (let tx = chain_entries (w_ledger w)
      in nat_str (length tx) @ '' tx, '' @ gasStr (of_int (sum_list (map en_gas tx))) @ '' gas, '' @
         kesSmall (sum_list (map en_kes tx)) @ '' KES'')"

definition lab_trace :: "hist \<Rightarrow> entry list" where
  "lab_trace h = drop (length (hi_last h) - 12) (hi_last h)"

datatype log_filter = AllRows | ChainRows | OffChainRows | FailedRows

definition log_rows :: "log_filter \<Rightarrow> entry list \<Rightarrow> entry list" where
  "log_rows f ledger =
     filter (\<lambda>e. case f of AllRows \<Rightarrow> True | ChainRows \<Rightarrow> en_layer e = LChain
                 | FailedRows \<Rightarrow> \<not> en_ok e | OffChainRows \<Rightarrow> en_layer e \<noteq> LChain) ledger"

definition log_shown :: "log_filter \<Rightarrow> nat \<Rightarrow> entry list \<Rightarrow> entry list \<times> nat" where
  \<comment> \<open>the newest rows first, and how many the button would still show\<close>
  "log_shown f limit ledger =
     (let rows = log_rows f ledger in (rev (drop (length rows - limit) rows), length rows - limit))"

definition more_rows :: "nat \<Rightarrow> nat" where
  "more_rows limit = limit + 60"

definition row_status :: "entry \<Rightarrow> string" where
  "row_status e = (if en_rejected e then ''not sent'' else if en_ok e then ''ok'' else ''revert'')"

subsection \<open>Money\<close>

definition MAIN_PEOPLE :: "actor list" where
  "MAIN_PEOPLE = [Amina, Baraka, Node, Kiosk, Founder]"

definition MORE_PEOPLE :: "actor list" where
  "MORE_PEOPLE = [Relayer, Owner, Mallory]"

definition MONEY_COLS :: "(string \<times> string \<times> (world \<Rightarrow> actor \<Rightarrow> int)) list" where
  "MONEY_COLS =
     [(''mpesa'', ''M-Pesa'', \<lambda>w k. fi_mpesa (w_fiat w) k), (''wallet'', ''Wallet'', \<lambda>w k. tk_bal (w_token w) (Wallet k)),
      (''escrow'', ''Meter'', deposit_of), (''earnings'', ''Earned'', earning_of)]"

definition change_text :: "(string \<times> rat) list \<Rightarrow> string \<Rightarrow> string option" where
  "change_text changed k = (case map_of changed k of Some d \<Rightarrow> if d \<noteq> 0 then Some (kesStr d True) else None | None \<Rightarrow> None)"

record money_row =
  mr_name :: string
  mr_lost :: bool
  mr_cells :: "(string \<times> string option) list"
  mr_gas :: string

definition gas_value :: "world \<Rightarrow> actor \<Rightarrow> rat" where
  "gas_value w who = w_eth w who * (1 / 10 ^ 9) * p_ethUsd (w_params w) * p_usdKes (w_params w)"

definition money_row_of :: "world \<Rightarrow> (string \<times> rat) list \<Rightarrow> actor \<Rightarrow> money_row" where
  "money_row_of w changed who =
     \<lparr>mr_name = foldl (\<lambda>s p. replace_first p s) (nameOf (actor_key who)) ['' (bridge)'', '' admin'', '' cold key'', '' multisig''],
      mr_lost = (w_devices w who = Some False),
      mr_cells = map (\<lambda>(k, _, get). (kesStr (of_int (get w who)) False, change_text changed (actor_key who @ ''.'' @ k))) MONEY_COLS,
      mr_gas = (if w_eth w who = 0 then ''0'' else kesSmall (gas_value w who))\<rparr>"

definition money_rows :: "world \<Rightarrow> (string \<times> rat) list \<Rightarrow> bool \<Rightarrow> money_row list" where
  "money_rows w changed more_people =
     map (money_row_of w changed) (if more_people then MAIN_PEOPLE @ MORE_PEOPLE else MAIN_PEOPLE)"

definition system_rows :: "world \<Rightarrow> (string \<times> rat) list \<Rightarrow> (string \<times> string \<times> string option) list" where
  "system_rows w changed =
     map (\<lambda>(lab, v, k). (lab, kesStr (of_int v) False, change_text changed k))
       [(''xKoin in existence'', tk_supply (w_token w), ''token.supply''), (''Kiosk M-Pesa'', fi_float (w_fiat w), ''kiosk.float''),
        (''Meter pool'', tk_bal (w_token w) EscrowAcc, ''escrow.balance''), (''Fee box'', tk_bal (w_token w) TreasuryAcc, ''treasury.balance'')]"

definition HEALTH :: "(string \<times> string) list" where
  "HEALTH = [(''peg'', ''Backed''), (''solvency'', ''Solvent''), (''conservation'', ''Balanced'')]"

definition health :: "world \<Rightarrow> (string \<times> bool) list" where
  "health w = map (\<lambda>i. (get_or '''' HEALTH (iv_id i), iv_ok i)) (invariants w)"

subsection \<open>Costs\<close>

record costs =
  co_economy :: economy
  co_price :: int
  co_kesPerGas :: rat
  co_perSettlePct :: rat

definition costs_of :: "host \<Rightarrow> world \<Rightarrow> rat \<Rightarrow> costs" where
  \<comment> \<open>before the contracts are deployed the panel prices from the inputs\<close>
  "costs_of H w mbytes =
     (let p = w_params w;
          priced = (if w_deployed w then w
                    else w\<lparr>w_escrow := (w_escrow w)\<lparr>es_pricePerUnit := p_pricePerUnit p\<rparr>,
                           w_treasury := (w_treasury w)\<lparr>tr_feeBps := p_feeBps p\<rparr>\<rparr>);
          e = economics H priced mbytes
      in \<lparr>co_economy = e,
          co_price = (if w_deployed w then es_pricePerUnit (w_escrow w) else p_pricePerUnit p),
          co_kesPerGas = p_gasPriceGwei p * (1 / 10 ^ 9) * p_ethUsd p * p_usdKes p * (1 + p_l1FeePct p / 100),
          co_perSettlePct = (if ec_gross e > 0 then ec_oneTicketKes e / (of_int (ec_gross e) / of_int UKES) * 100 else 0)\<rparr>)"

section \<open>The chain panel\<close>

fun args_amount :: "args \<Rightarrow> int option" where
  \<comment> \<open>\<open>args.amount ?? args.value\<close> of a call that seals a block\<close>
  "args_amount (ABridgeMint to v r) = Some v"
| "args_amount (ABridgeBurn v r) = Some v"
| "args_amount (AApprove s v) = Some v"
| "args_amount (ATransfer to v) = Some v"
| "args_amount (ATransferFrom ow to v) = Some v"
| "args_amount (APermit ow s v d sig) = Some v"
| "args_amount (ADeposit v) = Some v"
| "args_amount (ADepositWithPermit cl v d sig) = Some v"
| "args_amount (AWithdrawDeposit v) = Some v"
| "args_amount (AWithdrawWithSig cl to v d sig) = Some v"
| "args_amount (ATransferDeposit fr to v d sig) = Some v"
| "args_amount (AClaimEarnings to v) = Some v"
| "args_amount _ = None"

datatype forge_stage = Clean | Edited | FixedOne | FixedAll

record chain_panel =
  cp_pick :: nat
  cp_forged :: "block list option"
  cp_stage :: forge_stage

definition fresh_panel :: "block list \<Rightarrow> chain_panel" where
  \<comment> \<open>also what the effect sets when the honest chain changes its length\<close>
  "fresh_panel honest = \<lparr>cp_pick = length honest - 1, cp_forged = None, cp_stage = Clean\<rparr>"

datatype chain_event = EditBlock | FixItsHash | FixAllAfter | RestoreCopy | PickBlock nat

definition block_amount :: "world \<Rightarrow> nat \<Rightarrow> int option" where
  "block_amount w i =
     (case find (\<lambda>e. en_id e = bk_entryId (w_blocks w ! i)) (w_ledger w) of
        Some e \<Rightarrow> args_amount (en_args e) | None \<Rightarrow> None)"

definition edit_amounts :: "int option \<Rightarrow> int \<times> int" where
  \<comment> \<open>\<open>amount ?? 0\<close> and \<open>amount ? amount * 1000 : 1\<close>\<close>
  "edit_amounts a = (case a of Some v \<Rightarrow> (v, if v \<noteq> 0 then v * 1000 else 1) | None \<Rightarrow> (0, 1))"

fun chain_step :: "host \<Rightarrow> world \<Rightarrow> chain_event \<Rightarrow> chain_panel \<Rightarrow> chain_panel" where
  "chain_step H w EditBlock cp =
     (let i = min (cp_pick cp) (length (w_blocks w) - 1); (a, b) = edit_amounts (block_amount w i)
      in if cp_stage cp \<noteq> Clean then cp
         else case tamper (w_blocks w) i a b of Some bs \<Rightarrow> cp\<lparr>cp_forged := Some bs, cp_stage := Edited\<rparr> | None \<Rightarrow> cp)"
| "chain_step H w FixItsHash cp =
     (if cp_stage cp \<noteq> Edited then cp
      else case Option.bind (cp_forged cp) (\<lambda>bs. rehash H bs (min (cp_pick cp) (length (w_blocks w) - 1)) True) of
             Some bs \<Rightarrow> cp\<lparr>cp_forged := Some bs, cp_stage := FixedOne\<rparr> | None \<Rightarrow> cp)"
| "chain_step H w FixAllAfter cp =
     (if cp_stage cp \<noteq> FixedOne then cp
      else case Option.bind (cp_forged cp) (\<lambda>bs. rehash H bs (min (cp_pick cp) (length (w_blocks w) - 1)) False) of
             Some bs \<Rightarrow> cp\<lparr>cp_forged := Some bs, cp_stage := FixedAll\<rparr> | None \<Rightarrow> cp)"
| "chain_step H w RestoreCopy cp = cp\<lparr>cp_forged := None, cp_stage := Clean\<rparr>"
| "chain_step H w (PickBlock k) cp = (if k < length (w_blocks w) then cp\<lparr>cp_pick := k\<rparr> else cp)"

definition shown_copy :: "world \<Rightarrow> chain_panel \<Rightarrow> block list" where
  "shown_copy w cp = (case cp_forged cp of Some bs \<Rightarrow> bs | None \<Rightarrow> w_blocks w)"

definition COPIES :: "string list" where
  "COPIES = [''Node A'', ''Node B'', ''Node C'', ''Node D'', ''Node E'']"

definition copy_good :: "host \<Rightarrow> block list \<Rightarrow> block list \<Rightarrow> nat \<Rightarrow> bool" where
  \<comment> \<open>Node C, at place 2, holds the copy someone edits\<close>
  "copy_good H honest copy k \<longleftrightarrow>
     (if k = 2 then list_all ck_ok (verify H copy) \<and> bk_hash (last copy) = bk_hash (last honest) else True)"

definition copies_agree :: "host \<Rightarrow> block list \<Rightarrow> block list \<Rightarrow> nat" where
  "copies_agree H honest copy = length (filter (copy_good H honest copy) [0..<length COPIES])"

definition calldata_words :: "string \<Rightarrow> string \<times> string list" where
  \<comment> \<open>\<open>words\<close>: the selector and the 32-byte words\<close>
  "calldata_words input =
     (if length input \<le> 10 then (input, [])
      else let body = drop 10 input
           in (take 10 input, map (\<lambda>i. take 64 (drop (64 * i) body)) [0..<(length body + 63) div 64]))"

end
