(* ===== verification/PlaygroundLaws.thy ===== *)
theory PlaygroundLaws
  imports Playground EngineGuarantees Guarantees
begin

text \<open>
  The playground: every world it keeps is sound, whatever is clicked.

  What the flows, drills and buttons keep of a world is proved once, in the locale \<open>kept_world\<close>, for any statement that
  calls keep: its interpretations are \<open>sound\<close> and \<open>sound\<close> with a positive receipt interval.  \<open>pg_reachable\<close> is the relation of
  the states the visitor can bring the page to.
\<close>

section \<open>What calls keep, flows keep\<close>

definition sane :: "body \<Rightarrow> bool" where
  "sane body \<longleftrightarrow>
     (\<forall>x c x'. fst (body x c) = Inr x' \<longrightarrow>
        w_blocks x' = w_blocks x \<and> (eth_ok x \<longrightarrow> eth_ok x') \<and> (inv x \<longrightarrow> inv x') \<and> w_params x' = w_params x)"

lemma saneI:
  "quiet body \<Longrightarrow> (\<And>x c x'. inv x \<Longrightarrow> fst (body x c) = Inr x' \<Longrightarrow> inv x') \<Longrightarrow>
   (\<And>x c x'. fst (body x c) = Inr x' \<Longrightarrow> w_params x' = w_params x) \<Longrightarrow> sane body"
  unfolding sane_def quiet_def eth_ok_def by blast

lemma off_view_params: "off_view x = off_view y \<Longrightarrow> w_params x = w_params y"
  by (simp add: off_view_def)

named_theorems sane_bodies \<open>the bodies of the calls\<close>

lemmas body_invs = setBridge_inv approve_inv permit_inv bridgeMint_inv bridgeBurn_inv transfer_inv transferFrom_inv
  doDeposit_inv depositWithPermit_inv withdrawDeposit_inv withdrawWithSig_inv transferDeposit_inv settle_inv
  claimEarnings_inv setPricePerUnit_inv claim_inv setFeeBps_inv queueBeneficiary_inv activateBeneficiary_inv
  cancelBeneficiaryChange_inv transferOwnership_inv acceptOwnership_inv create_token_inv create_escrow_inv create_treasury_inv
  signTicket_inv signPermit_inv signAuth_inv stkPush_inv b2cPayout_inv issueVoucher_inv nodeVerify_inv

lemma sane_token [sane_bodies]:
  "sane (setBridge_body H f b al cap)" "sane (approve_body H f s v)" "sane (applyPermit H p)"
  "0 \<le> v \<Longrightarrow> sane (bridgeMint_body H f to v r)" "0 \<le> v \<Longrightarrow> sane (bridgeBurn_body H f v r)"
  "0 \<le> v \<Longrightarrow> sane (transfer_body H f to v)" "0 \<le> v \<Longrightarrow> sane (transferFrom_body H f ow to v)"
  by (rule saneI; (rule quiet_bodies | (rule off_view_params; auto simp: body_simps; auto simp: off_view_def)
        | blast intro: body_invs))+

lemma sane_escrow [sane_bodies]:
  "sane (doDeposit H cl v)" "sane (depositWithPermit_body H cl v p)" "sane (withdrawDeposit_body H f v)"
  "sane (withdrawWithSig_body H a d)" "sane (transferDeposit_body H a d)" "sane (settleTicketBatch_body H f ts)"
  "sane (claimEarnings_body H f to v)" "sane (setPricePerUnit_body H f pr)"
  by (rule saneI; (rule quiet_bodies | (rule off_view_params; auto simp: doDeposit_commits depositWithPermit_commits
        withdrawDeposit_commits withdrawWithSig_commits transferDeposit_commits claimEarnings_commits setPricePerUnit_commits
        settle_body_frames) | blast intro: body_invs))+

lemma sane_treasury [sane_bodies]:
  "sane (claim_body H f)" "0 \<le> fee \<Longrightarrow> sane (setFeeBps_body f fee)" "sane (queueBeneficiary_body H f n)"
  "sane (activateBeneficiary_body H)" "sane (cancelBeneficiaryChange_body H f)" "sane (transferOwnership_body H f k n)"
  "sane (acceptOwnership_body H f k)" "sane create_token_body" "sane (create_escrow_body p)"
  "0 \<le> p_feeBps p \<Longrightarrow> p_feeBps p \<le> 1000 \<Longrightarrow> sane (create_treasury_body p)"
  by (rule saneI; (rule quiet_bodies | (rule off_view_params; auto simp: body_simps split: option.splits; auto simp: off_view_def esc_upd_def)
        | blast intro: body_invs))+

lemma sane_off [sane_bodies]:
  "sane (signTicket_body H cl nd u s)" "sane (signPermit_body H ow sp v)" "sane (signAuth_body H k ow to v)"
  "0 \<le> v \<Longrightarrow> sane (stkPush_body cl v fail)" "0 \<le> v \<Longrightarrow> sane (b2cPayout_body to v fail)" "sane (issueVoucher_body H to v r)"
  "sane (nodeVerify_body H who)"
  by (rule saneI; (rule quiet_bodies | (auto simp: body_simps; fail) | blast intro: body_invs))+

lemma sane_plain [sane_bodies]:
  "sane (\<lambda>x c. commits (x\<lparr>w_devices := (w_devices x)(who \<mapsto> b)\<rparr>) (h x c))"
  "sane (\<lambda>x c. commits (x\<lparr>w_t := w_t x + s\<rparr>) c)"
  "0 \<le> g \<Longrightarrow> sane (fundGas_body to g)"
  by (auto simp: sane_def eth_ok_def fundGas_commits Let_def)

lemma kes_nonneg [simp]: "0 \<le> v \<Longrightarrow> 0 \<le> kes v"
  by (simp add: kes_def js_round_def UKES_def)

section \<open>Flows and drills\<close>

fun prim_ok :: "prim \<Rightarrow> bool" where
  \<comment> \<open>the amounts a contract would take: its integers are unsigned\<close>
  "prim_ok (PMint c to v r) \<longleftrightarrow> 0 \<le> v"
| "prim_ok (PBurn c v r) \<longleftrightarrow> 0 \<le> v"
| "prim_ok (PTransfer c to v) \<longleftrightarrow> 0 \<le> v"
| "prim_ok (PTransferFrom c ow to v) \<longleftrightarrow> 0 \<le> v"
| "prim_ok (PSetFee c v) \<longleftrightarrow> 0 \<le> v"
| "prim_ok (PStkPush c v) \<longleftrightarrow> 0 \<le> v"
| "prim_ok (PB2c to v) \<longleftrightarrow> 0 \<le> v"
| "prim_ok (PFundGas to v) \<longleftrightarrow> 0 \<le> v"
| "prim_ok _ \<longleftrightarrow> True"

locale kept_world =
  fixes H :: host and P :: "world \<Rightarrow> bool"
  assumes call_keeps: "P w \<Longrightarrow> sane body \<Longrightarrow> P (o_world (call H w sp body))"
    and knows_inv: "P w \<Longrightarrow> inv w"
    and session_keeps: "P w \<Longrightarrow> P (w\<lparr>w_session := s\<rparr>)"
    and time_keeps: "P w \<Longrightarrow> P (w\<lparr>w_t := t\<rparr>)"
    and tickets_keep: "P w \<Longrightarrow> P (w\<lparr>w_tickets := ts\<rparr>)"
    and params_keep: "P w \<Longrightarrow> 0 \<le> p_feeBps q \<Longrightarrow> p_feeBps q \<le> 1000 \<Longrightarrow>
      p_receiptBytes q = p_receiptBytes (w_params w) \<Longrightarrow> P (w\<lparr>w_params := q\<rparr>)"
begin

lemma token_keeps:
  "P w \<Longrightarrow> P (o_world (setBridge H w f b al cap fl))"
  "P w \<Longrightarrow> 0 \<le> v \<Longrightarrow> P (o_world (bridgeMint H w f to v r fl ti))"
  "P w \<Longrightarrow> 0 \<le> v \<Longrightarrow> P (o_world (bridgeBurn H w f v r fl ti))"
  "P w \<Longrightarrow> P (o_world (approve H w f s v fl))"
  "P w \<Longrightarrow> 0 \<le> v \<Longrightarrow> P (o_world (transfer H w f to v fl ti))"
  "P w \<Longrightarrow> 0 \<le> v \<Longrightarrow> P (o_world (transferFrom H w f ow to v fl ti))"
  "P w \<Longrightarrow> P (o_world (permit H w f p fl ti))"
  by (simp_all only: token_call_defs call_keeps sane_bodies)

lemma escrow_keeps:
  "P w \<Longrightarrow> P (o_world (deposit H w f v fl ti))"
  "P w \<Longrightarrow> P (o_world (depositWithPermit H w f cl v p fl ti))"
  "P w \<Longrightarrow> P (o_world (withdrawDeposit H w f v fl ti))"
  "P w \<Longrightarrow> P (o_world (withdrawWithSig H w f a d fl ti))"
  "P w \<Longrightarrow> P (o_world (transferDeposit H w f a d fl ti))"
  "P w \<Longrightarrow> P (o_world (settleTicketBatch H w f ts fl ti))"
  "P w \<Longrightarrow> P (o_world (claimEarnings H w f to v fl ti))"
  "P w \<Longrightarrow> P (o_world (setPricePerUnit H w f pr fl))"
  by (simp_all only: escrow_call_defs call_keeps sane_bodies)

lemma treasury_keeps:
  "P w \<Longrightarrow> P (o_world (claim H w f fl ti))"
  "P w \<Longrightarrow> 0 \<le> fee \<Longrightarrow> P (o_world (setFeeBps H w f fee fl))"
  "P w \<Longrightarrow> P (o_world (queueBeneficiary H w f n fl))"
  "P w \<Longrightarrow> P (o_world (activateBeneficiary H w f fl))"
  "P w \<Longrightarrow> P (o_world (cancelBeneficiaryChange H w f fl))"
  "P w \<Longrightarrow> P (o_world (transferOwnership H w f k n fl))"
  "P w \<Longrightarrow> P (o_world (acceptOwnership H w f k fl))"
  by (simp_all only: treasury_call_defs call_keeps sane_bodies)

lemma off_keeps:
  "P w \<Longrightarrow> P (o_world (signTicket H w cl nd u fl ti s))"
  "P w \<Longrightarrow> P (o_world (signPermit H w ow sp v fl ti))"
  "P w \<Longrightarrow> P (o_world (signAuth H w k ow to v fl ti))"
  "P w \<Longrightarrow> 0 \<le> v \<Longrightarrow> P (o_world (stkPush H w cl v fl fail))"
  "P w \<Longrightarrow> 0 \<le> v \<Longrightarrow> P (o_world (b2cPayout H w to v fl fail))"
  "P w \<Longrightarrow> P (o_world (issueVoucher H w to v r fl))"
  "P w \<Longrightarrow> P (o_world (nodeVerify H w who fl))"
  "P w \<Longrightarrow> 0 \<le> g \<Longrightarrow> P (o_world (fundGas H w to g fl))"
  "P w \<Longrightarrow> P (o_world (warp H w sec fl))"
  "P w \<Longrightarrow> P (o_world (loseDevice H w who fl))"
  "P w \<Longrightarrow> P (o_world (restoreFromSeed H w who fl))"
  by (simp_all only: off_call_defs call_keeps sane_bodies)

lemmas calls_keep = token_keeps escrow_keeps treasury_keeps off_keeps

lemma deploy_keeps: "P w \<Longrightarrow> P (deploy H w flow)"
  using knows_inv [of w]
  by (simp add: deploy_def create_call_def Let_def call_keeps sane_bodies inv_def)

definition keeps_step :: "flow_step \<Rightarrow> bool" where
  "keeps_step s \<longleftrightarrow> (\<forall>x p. P x \<longrightarrow> P (o_world (s x p)))"

lemma run_loop_keeps:
  "\<lbrakk>run_loop w prev es steps = Some r; P w; list_all keeps_step steps\<rbrakk> \<Longrightarrow> P (fr_world r)"
proof (induction steps arbitrary: w prev es)
  case (Cons s steps)
  have "P (o_world (s w prev))" using Cons.prems(2,3) by (simp add: keeps_step_def)
  then show ?case
    using Cons.prems(1,3) Cons.IH [of "o_world (s w prev)"] by (auto simp: Let_def split: option.splits if_splits)
qed auto

lemma runs_keep: "\<lbrakk>runSteps w steps = Some r; P w; list_all keeps_step steps\<rbrakk> \<Longrightarrow> P (fr_world r)"
  unfolding runSteps_def by (rule run_loop_keeps)

lemma setup_keeps: "setupNetwork H n w = Some r \<Longrightarrow> P w \<Longrightarrow> P (fr_world r)"
  unfolding setupNetwork_def Let_def
  by (auto dest!: runs_keep simp: keeps_step_def calls_keep deploy_keeps split: if_splits)

lemma money_flows_keep:
  "buy H n w cl v fail = Some r \<Longrightarrow> P w \<Longrightarrow> 0 \<le> v \<Longrightarrow> P (fr_world r)"
  "cashOut H n w cl v fail = Some r \<Longrightarrow> P w \<Longrightarrow> 0 \<le> v \<Longrightarrow> P (fr_world r)"
  "retryPayout H n w cl v = Some r \<Longrightarrow> P w \<Longrightarrow> 0 \<le> v \<Longrightarrow> P (fr_world r)"
  "send H n w a b v = Some r \<Longrightarrow> P w \<Longrightarrow> 0 \<le> v \<Longrightarrow> P (fr_world r)"
  unfolding buy_def cashOut_def retryPayout_def send_def Let_def
  by (erule (1) runs_keep; simp add: keeps_step_def calls_keep)+

lemma nodeCashOut_keeps: "nodeCashOut H n w = Some r \<Longrightarrow> P w \<Longrightarrow> P (fr_world r)"
  unfolding nodeCashOut_def Let_def
  using knows_inv [of w] by (erule_tac runs_keep) (simp_all add: keeps_step_def calls_keep inv_def nonneg_def)

lemma plain_flows_keep:
  "depositGasless H n w cl v = Some r \<Longrightarrow> P w \<Longrightarrow> P (fr_world r)"
  "withdraw H n w cl v = Some r \<Longrightarrow> P w \<Longrightarrow> P (fr_world r)"
  "withdrawGasless H n w cl v to = Some r \<Longrightarrow> P w \<Longrightarrow> P (fr_world r)"
  "sendEscrow H n w a b v = Some r \<Longrightarrow> P w \<Longrightarrow> P (fr_world r)"
  "relayBatch H n w nd only = Some r \<Longrightarrow> P w \<Longrightarrow> P (fr_world r)"
  "nodeClaim H n w = Some r \<Longrightarrow> P w \<Longrightarrow> P (fr_world r)"
  "sweepFees H n w a = Some r \<Longrightarrow> P w \<Longrightarrow> P (fr_world r)"
  unfolding depositGasless_def withdraw_def withdrawGasless_def sendEscrow_def relayBatch_def nodeClaim_def sweepFees_def Let_def
  by (erule (1) runs_keep; simp add: keeps_step_def calls_keep)+

lemma node_out_keeps: "run_node_out H n w only = Some r \<Longrightarrow> P w \<Longrightarrow> P (fr_world r)"
  by (auto simp: run_node_out_def Let_def ready_result_def split: if_splits bind_splits
      dest: nodeCashOut_keeps plain_flows_keep(6))

lemma open_keeps: "openSession H n w cl nd tg off = Some r \<Longrightarrow> P w \<Longrightarrow> P (fr_world r)"
  by (auto simp: openSession_def Let_def keeps_step_def calls_keep session_keeps split: if_splits dest!: runs_keep)

lemma with_session_keeps: "P w \<Longrightarrow> P (with_session f w)"
  by (simp add: with_session_def session_keeps)

lemma sign_loop_keeps: "P w \<Longrightarrow> P (fst (fst (sign_loop H s bs w es)))"
proof (induction bs arbitrary: w es)
  case (Cons b bs)
  have "P (o_world (sign_receipt H s b w))" using Cons.prems by (simp add: sign_receipt_def calls_keep Let_def)
  then show ?case using Cons.IH by (simp add: Let_def with_session_keeps)
qed simp

lemma serve_keeps:
  assumes "serve H w chunk = Some (w', es)" and "P w"
  shows "P w'"
proof (cases "w_session w")
  case (Some s)
  show ?thesis
  proof (cases "se_done s")
    case False
    let ?n = "next_bytes w s chunk"
    let ?w1 = "(with_session (\<lambda>s. s\<lparr>se_bytes := ?n\<rparr>) w)\<lparr>w_t := w_t w + max 1 (js_round (of_int (?n - se_bytes s) / 250000))\<rparr>"
    obtain bounds where "receipt_bounds s (p_receiptBytes (w_params w)) ?n
        (se_targetBytes s \<le> ?n \<or> ?n < min (se_bytes s + chunk) (se_targetBytes s)) = Some bounds"
      using assms(1) Some False by (auto simp: serve_def Let_def)
    moreover obtain w2 es2 fl where l: "sign_loop H s bounds ?w1 [] = ((w2, es2), fl)" by (metis surj_pair)
    moreover have "P w2"
      using sign_loop_keeps [of ?w1 s bounds "[]"] assms(2) unfolding l fst_conv by (simp add: time_keeps with_session_keeps)
    ultimately show ?thesis
      using assms(1) Some False by (cases fl) (auto simp: serve_def Let_def with_session_keeps split: if_splits)
  qed (use assms Some in \<open>simp add: serve_def\<close>)
qed (use assms in \<open>simp add: serve_def\<close>)

lemma sign_n_keeps: "P w \<Longrightarrow> P (fst (sign_n_loop H is base step flow w))"
  by (induction "is" arbitrary: w) (auto simp: Let_def calls_keep split: prod.splits, metis calls_keep fst_conv)

lemma signN_keeps: "signN H w n step flow = (w', ts, es) \<Longrightarrow> P w \<Longrightarrow> P w'"
  using sign_n_keeps [of w "[1..<Suc n]" "sign_base w" step flow] by (simp add: signN_def)

lemma settle_ticket_keeps: "P w \<Longrightarrow> P (o_world (settle_ticket H w f t fl ti))"
  by (simp add: settle_ticket_def calls_keep thrown_def split: option.split)

lemma take_flow_keeps:
  assumes "take_flow r k acc = Some res" and "\<And>x. r = Some x \<Longrightarrow> P (fr_world x)"
    and k: "\<And>x y. P (fr_world x) \<Longrightarrow> k x = Some y \<Longrightarrow> P (fr_world y)"
  shows "P (fr_world res)"
proof -
  obtain x where x: "r = Some x" using assms(1) by (cases r) (simp_all add: take_flow_def)
  let ?acc = "ready_result (fr_world x) (fr_ok x) (fr_entries acc @ fr_entries x)"
  have p: "P (fr_world ?acc)" using assms(2) [OF x] by (simp add: ready_result_def)
  have "(if fr_ok x then k ?acc else Some ?acc) = Some res" using assms(1) x by (simp add: take_flow_def Let_def)
  then show ?thesis using p k [OF p] by (auto split: if_splits)
qed

lemma fill_keeps:
  assumes "P (fr_world acc)"
    and "(if short then take_flow (buy H n w Amina (kes 100) False) (\<lambda>a. take_flow (depositGasless H m (fr_world a) Amina v) Some a) acc
          else take_flow (depositGasless H m (fr_world acc) Amina v) Some acc) = Some res"
    and "P w"
  shows "P (fr_world res)"
proof -
  have last: "P (fr_world y)" if "take_flow (depositGasless H m (fr_world a) Amina v) Some a = Some y" "P (fr_world a)" for a y
    by (rule take_flow_keeps [OF that(1)]) (use plain_flows_keep(1) that(2) in auto)
  show ?thesis
  proof (cases short)
    case True
    then have "take_flow (buy H n w Amina (kes 100) False) (\<lambda>a. take_flow (depositGasless H m (fr_world a) Amina v) Some a) acc = Some res"
      using assms(2) by simp
    then show ?thesis
      by (rule take_flow_keeps) (use money_flows_keep(1) assms(3) last in \<open>auto simp: UKES_def\<close>)
  next
    case False
    then show ?thesis using assms(2) last [of acc res] assms(1) by simp
  qed
qed

lemma ready_keeps:
  assumes "ensureReady H n w = Some r" and "P w"
  shows "P (fr_world r)"
proof -
  let ?fresh = "\<not> w_deployed w \<or> \<not> kiosk_listed w"
  let ?n = "if ?fresh then Suc n else n"
  define fill where "fill = (\<lambda>acc. let w = fr_world acc in
            if deposit_of w Amina < kes 20
            then let needs_buy = tk_bal (w_token w) (Wallet Amina) < kes 50;
                     n2 = (if needs_buy then Suc ?n else ?n);
                     last = (\<lambda>a. take_flow (depositGasless H n2 (fr_world a) Amina (kes 50)) Some a)
                 in if needs_buy then take_flow (buy H ?n w Amina (kes 100) False) last acc else last acc
            else Some acc)"
  have filled: "P (fr_world y)" if "fill x = Some y" "P (fr_world x)" for x y
  proof (cases "deposit_of (fr_world x) Amina < kes 20")
    case True
    show ?thesis by (rule fill_keeps [OF that(2) that(1) [unfolded fill_def Let_def if_P [OF True]] that(2)])
  qed (use that in \<open>simp add: fill_def\<close>)
  have "ensureReady H n w = (if ?fresh then take_flow (setupNetwork H n w) fill (ready_result w True []) else fill (ready_result w True []))"
    unfolding ensureReady_def Let_def fill_def by simp
  then have "(if ?fresh then take_flow (setupNetwork H n w) fill (ready_result w True []) else fill (ready_result w True [])) = Some r"
    using assms(1) by simp
  then show ?thesis
    using filled [of "ready_result w True []" r] take_flow_keeps [of "setupNetwork H n w" fill "ready_result w True []" r]
      setup_keeps [of n w] assms(2) filled
    by (simp add: ready_result_def split: if_splits)
qed

lemma run_all_keeps: "P w \<Longrightarrow> \<forall>s \<in> set ss. \<forall>x. P x \<longrightarrow> P (o_world (s x)) \<Longrightarrow> P (fst (run_all ss w es))"
  by (induction ss arbitrary: w es) (auto simp: Let_def)

lemma filter_tickets_keeps: "P w \<Longrightarrow> P (filter_tickets Q w)"
  by (simp add: filter_tickets_def tickets_keep)

lemma stolen_keeps: "drill_stolen_owner H n w = Some r \<Longrightarrow> P w \<Longrightarrow> P (dr_world r)"
  using run_all_keeps [of w "stolen_owner_steps H (newFlow ''Drill: stolen owner key'' n)" "[]"]
  by (auto simp: drill_stolen_owner_def Let_def drill_result_def stolen_owner_steps_def calls_keep split: prod.splits)

lemma rogue_keeps:
  assumes "drill_rogue_bridge H n w = Some r" and "P w"
    and "\<And>i. tk_bridges (w_token w) Kiosk = Some i \<Longrightarrow> 0 \<le> mint_room w i"
  shows "P (dr_world r)"
  using assms by (auto simp: drill_rogue_bridge_def Let_def drill_result_def keeps_step_def calls_keep UKES_def
      split: bind_splits option.splits dest!: runs_keep)

lemma signed_drills_keep:
  "drill_lost_tickets H n w = Some r \<Longrightarrow> P w \<Longrightarrow> P (dr_world r)"
  "drill_replay H n w = Some r \<Longrightarrow> P w \<Longrightarrow> P (dr_world r)"
  "drill_forged H n w = Some r \<Longrightarrow> P w \<Longrightarrow> P (dr_world r)"
  "drill_expired H n w = Some r \<Longrightarrow> P w \<Longrightarrow> P (dr_world r)"
  unfolding drill_lost_tickets_def drill_replay_def drill_forged_def drill_expired_def Let_def
  by (auto simp: drill_result_def keeps_step_def settle_ticket_keeps calls_keep filter_tickets_keeps
      split: prod.splits bind_splits dest!: runs_keep signN_keeps)

lemma drain_keeps: "drill_drain H n w = Some r \<Longrightarrow> P w \<Longrightarrow> P (dr_world r)"
  unfolding drill_drain_def Let_def
  by (auto simp: drill_result_def keeps_step_def settle_ticket_keeps split: prod.splits bind_splits option.splits
      dest!: runs_keep signN_keeps dest: plain_flows_keep(3))

lemma other_drills_keep:
  "drill_redirect H n w = Some r \<Longrightarrow> P w \<Longrightarrow> P (dr_world r)"
  "drill_lost_phone H n w = Some r \<Longrightarrow> P w \<Longrightarrow> P (dr_world r)"
  "drill_front_run_permit H n w = Some r \<Longrightarrow> P w \<Longrightarrow> P (dr_world r)"
  unfolding drill_redirect_def drill_lost_phone_def drill_front_run_permit_def Let_def
  by (auto simp: drill_result_def keeps_step_def calls_keep split: bind_splits option.splits dest!: runs_keep)

lemma payout_keeps: "drill_payout_fails H n w = Some r \<Longrightarrow> P w \<Longrightarrow> P (dr_world r)"
  unfolding drill_payout_fails_def Let_def
  by (auto simp: drill_result_def ready_result_def UKES_def split: bind_splits if_splits dest!: money_flows_keep)

lemma offline_keeps: "drill_offline H n w = Some r \<Longrightarrow> P w \<Longrightarrow> P (dr_world r)"
  unfolding drill_offline_def Let_def
  by (auto simp: drill_result_def ready_result_def UKES_def split: bind_splits if_splits
      dest!: money_flows_keep open_keeps dest: serve_keeps)

lemma drill_keeps:
  assumes "run_drill H n d w = Some r" and "P w"
    and "d = RogueBridge \<Longrightarrow> \<forall>i. tk_bridges (w_token w) Kiosk = Some i \<longrightarrow> 0 \<le> mint_room w i"
  shows "P (dr_world r)"
  using assms
  by (cases d) (auto dest: signed_drills_keep drain_keeps other_drills_keep payout_keeps offline_keeps stolen_keeps rogue_keeps)

lemma step_keeps:
  assumes "step_run H n s w f = Some r" and "P w" and "0 \<le> fo_amount f" "0 \<le> fo_fee f" "fo_fee f \<le> 10"
  shows "P (fr_world r)"
proof (cases s)
  case SSetup
  have p: "0 \<le> p_feeBps (setup_params f (w_params w))" "p_feeBps (setup_params f (w_params w)) \<le> 1000"
    "p_receiptBytes (setup_params f (w_params w)) = p_receiptBytes (w_params w)"
    using assms(4,5) by (auto simp: setup_params_def js_round_def floor_le_iff)
  show ?thesis using assms(1) SSetup setup_keeps params_keep [OF assms(2) p] by simp
qed (use assms money_flows_keep plain_flows_keep node_out_keeps in \<open>auto split: if_splits\<close>)

lemma retry_keeps: "step_retry H n w f = Some r \<Longrightarrow> P w \<Longrightarrow> 0 \<le> fo_amount f \<Longrightarrow> P (fr_world r)"
  by (simp add: step_retry_def money_flows_keep)

lemma prim_keeps: "prim_run H w p = Some r \<Longrightarrow> P w \<Longrightarrow> prim_ok p \<Longrightarrow> \<forall>w'. ru_world r = Some w' \<longrightarrow> P w'"
  by (cases p) (auto simp: prim_run_def of_flow_def keeps_step_def calls_keep dest!: runs_keep)

lemma serve_all_keeps: "serve_all H w es = Some r \<Longrightarrow> P w \<Longrightarrow> P (fst r)"
proof -
  have "serve_all H' w es = Some r \<Longrightarrow> H' = H \<longrightarrow> P w \<longrightarrow> P (fst r)" for H' w es r
    by (erule serve_all.raw_induct [rotated])
       (auto split: option.splits if_splits bind_splits dest: serve_keeps)
  then show "serve_all H w es = Some r \<Longrightarrow> P w \<Longrightarrow> P (fst r)" by blast
qed

lemma default_keeps:
  assumes "run_default H n w s f = Some r" and "P w" and "0 \<le> fo_amount f" "0 \<le> fo_fee f" "fo_fee f \<le> 10" and "ru_world r = Some w'"
  shows "P w'"
proof (cases "s = SBrowse")
  case True
  then obtain ses where ses: "openSession H n w (fo_who f) Node (target_bytes f) (fo_offline f) = Some ses"
    and r: "(if \<not> fr_ok ses then Some (of_flow ses)
          else map_option (\<lambda>(w', es). \<lparr>ru_world = Some (closeSession w'), ru_ok = list_all en_ok es, ru_entries = es,
                 ru_verdict = None\<rparr>) (serve_all H (fr_world ses) (fr_entries ses))) = Some r"
    using assms(1) by (auto simp: run_default_def split: bind_splits)
  have "P (fr_world ses)" by (rule open_keeps [OF ses assms(2)])
  then show ?thesis
    using r assms(6) by (auto simp: of_flow_def closeSession_def session_keeps split: if_splits prod.splits dest!: serve_all_keeps)
next
  case False
  then obtain fr where fr: "step_run H n s w (form.truncate f) = Some fr" "r = of_flow fr"
    using assms(1) by (auto simp: run_default_def)
  have "P (fr_world fr)" by (rule step_keeps [OF fr(1) assms(2)]) (use assms(3-5) in \<open>simp_all add: form.defs\<close>)
  then show ?thesis using assms(6) by (simp add: fr(2) of_flow_def)
qed

end

definition sound :: "host \<Rightarrow> world \<Rightarrow> bool" where
  \<comment> \<open>the invariant, a chain that verifies, no gas account overdrawn\<close>
  "sound H w \<longleftrightarrow> inv w \<and> chain_ok H (w_blocks w) \<and> eth_ok w"

lemma sane_chain:
  assumes "chain_ok H (w_blocks w)" and "sane body"
  shows "chain_ok H (w_blocks (o_world (call H w sp body)))"
  using assms by (cases rule: call_finish_cases [of H w sp body]) (auto dest!: finish_chain simp: sane_def)

lemma sane_eth:
  assumes "eth_ok w" and "sane body"
  shows "eth_ok (o_world (call H w sp body))"
  using assms by (cases rule: call_finish_cases [of H w sp body]) (auto dest!: finish_Some(4) simp: sane_def eth_ok_def)

lemma sane_inv: "inv w \<Longrightarrow> sane body \<Longrightarrow> inv (o_world (call H w sp body))"
  by (rule invp.call_preserves) (auto simp: sane_def)

interpretation parV: core_view w_params
  by unfold_locales (simp add: core_eq_iff)

lemma sane_params: "sane body \<Longrightarrow> w_params (o_world (call H w sp body)) = w_params w"
  by (rule parV.call_view) (auto simp: sane_def)

lemma inv_params: "inv w \<Longrightarrow> 0 \<le> p_feeBps q \<Longrightarrow> p_feeBps q \<le> 1000 \<Longrightarrow> inv (w\<lparr>w_params := q\<rparr>)"
  by (simp add: inv_unfold held_total_def deposits_total_def earnings_total_def)

lemma eth_edits [simp]:
  "eth_ok (w\<lparr>w_session := s\<rparr>) = eth_ok w" "eth_ok (w\<lparr>w_t := t\<rparr>) = eth_ok w" "eth_ok (w\<lparr>w_tickets := ts\<rparr>) = eth_ok w"
  "eth_ok (w\<lparr>w_params := q\<rparr>) = eth_ok w"
  by (simp_all add: eth_ok_def)

interpretation soundW: kept_world H "sound H" for H
  by unfold_locales (auto simp: sound_def sane_chain sane_eth sane_inv inv_params)

interpretation servedW: kept_world H "\<lambda>w. sound H w \<and> 0 < p_receiptBytes (w_params w)" for H
  by unfold_locales (auto simp: sound_def sane_chain sane_eth sane_inv inv_params sane_params)

section \<open>Every world of the playground\<close>

definition form_ok :: "pg_form \<Rightarrow> bool" where
  "form_ok f \<longleftrightarrow> 0 \<le> fo_amount f \<and> 0 \<le> fo_fee f \<and> fo_fee f \<le> 10"

definition pg_sound :: "host \<Rightarrow> playground \<Rightarrow> bool" where
  "pg_sound H st \<longleftrightarrow>
     hi_worlds (pg_hist st) \<noteq> [] \<and> length (hi_worlds (pg_hist st)) \<le> 81 \<and> pg_active st < length STEPS \<and>
     (\<forall>w \<in> set (hi_worlds (pg_hist st)). sound H w) \<and> (\<forall>s. form_ok (pg_forms st s))"

definition sane_event :: "host \<Rightarrow> (nat \<Rightarrow> nat) \<Rightarrow> pg_event \<Rightarrow> playground \<Rightarrow> bool" where
  \<comment> \<open>numbers a contract would take, and a stolen kiosk key whose cap was not lowered below what it minted\<close>
  "sane_event H ns e st \<longleftrightarrow>
     (case e of
        ResetWith price fee cap \<Rightarrow> 0 \<le> fee \<and> fee \<le> 1000
      | Primitive p \<Rightarrow> prim_ok p
      | DrillButton RogueBridge \<Rightarrow>
          (case ensureReady H (ns 0) (this_world st) of
             None \<Rightarrow> True
           | Some prep \<Rightarrow> \<forall>i. tk_bridges (w_token (fr_world prep)) Kiosk = Some i \<longrightarrow> 0 \<le> mint_room (fr_world prep) i)
      | _ \<Rightarrow> True)"

lemma fresh_forms_ok: "form_ok (fresh_forms s)"
  by (cases s) (simp_all add: fresh_forms_def STEPS_def blank_form_def form_ok_def)

lemma createWorld_sound: "0 \<le> p_feeBps p \<Longrightarrow> p_feeBps p \<le> 1000 \<Longrightarrow> sound H (createWorld p)"
  by (simp add: sound_def createWorld_inv chain_ok_def verify_def eth_ok_def) (simp add: createWorld_def verify_def)

lemma steps_length: "length STEPS = 11"
  by (simp add: STEPS_def)

lemma this_sound: "pg_sound H st \<Longrightarrow> sound H (this_world st)"
  by (simp add: pg_sound_def this_world_def)

lemma push_sound:
  "pg_sound H st \<Longrightarrow> sound H w \<Longrightarrow> pg_sound H (st\<lparr>pg_hist := push_world w es (pg_hist st)\<rparr>)"
  by (auto simp: pg_sound_def push_world_def dest: in_set_dropD)

lemma replace_sound: "pg_sound H st \<Longrightarrow> sound H w \<Longrightarrow> pg_sound H (replace_world w st)"
  by (auto simp: pg_sound_def replace_world_def swap_world_def Let_def dest: in_set_butlastD)

lemma commit_sound:
  "pg_sound H st \<Longrightarrow> (\<And>w. ru_world r = Some w \<Longrightarrow> sound H w) \<Longrightarrow> pg_sound H (commit r sid lab rec st)"
  unfolding commit_def Let_def
  by (cases sid; cases "ru_world r") (auto simp: pg_sound_def push_world_def dest: in_set_dropD)

lemma undo_sound: "pg_sound H st \<Longrightarrow> pg_sound H (st\<lparr>pg_hist := undo_world (pg_hist st)\<rparr>)"
  by (auto simp: pg_sound_def undo_world_def butlast_conv_take dest: in_set_takeD)

lemma reset_sound: "0 \<le> p_feeBps p \<Longrightarrow> p_feeBps p \<le> 1000 \<Longrightarrow> pg_sound H (reset_with p st)"
  by (simp add: pg_sound_def reset_with_def first_hist_def createWorld_sound fresh_forms_ok STEPS_def)

lemma soft_edits [simp]:
  "pg_sound H (st\<lparr>pg_browse := b\<rparr>) = pg_sound H st" "pg_sound H (st\<lparr>pg_panels := ps\<rparr>) = pg_sound H st"
  "pg_sound H (st\<lparr>pg_overlay := ov\<rparr>) = pg_sound H st" "pg_sound H (st\<lparr>pg_lab := lb\<rparr>) = pg_sound H st"
  "pg_sound H (set_playing p st) = pg_sound H st"
  by (simp_all add: pg_sound_def set_playing_def)

lemma active_sound: "pg_sound H st \<Longrightarrow> i < length STEPS \<Longrightarrow> pg_sound H (st\<lparr>pg_active := i\<rparr>)"
  by (simp add: pg_sound_def)

fun pick_ok :: "pick \<Rightarrow> bool" where
  "pick_ok (PickAmount xs) \<longleftrightarrow> list_all (\<lambda>v. 0 \<le> v) xs"
| "pick_ok (PickFee xs) \<longleftrightarrow> list_all (\<lambda>v. 0 \<le> v \<and> v \<le> 10) xs"
| "pick_ok _ \<longleftrightarrow> True"

lemma choose_ok: "choose_option p i f = Some g \<Longrightarrow> pick_ok p \<Longrightarrow> form_ok f \<Longrightarrow> form_ok g"
  by (cases p) (auto simp: form_ok_def list_all_length split: if_splits)

lemma steps_picks: "list_all (\<lambda>row. list_all (\<lambda>p. pick_ok (fst p)) (sr_fields row)) STEPS"
  by (simp add: STEPS_def)

lemma choice_sound:
  assumes "pg_sound H st"
  shows "pg_sound H (press_choice k i st)"
proof -
  let ?row = "STEPS ! pg_active st"
  have p: "pick_ok (fst (sr_fields ?row ! k))" if "k < length (sr_fields ?row)"
    using steps_picks assms that by (simp add: list_all_length pg_sound_def)
  show ?thesis
    using assms choose_ok [OF _ p, of i "pg_forms st (sr_id ?row)"]
    by (auto simp: press_choice_def Let_def pg_sound_def split: option.split)
qed

lemma forms_sound: "pg_sound H st \<Longrightarrow> 0 \<le> fo_amount (pg_forms st s) \<and> 0 \<le> fo_fee (pg_forms st s) \<and> fo_fee (pg_forms st s) \<le> 10"
  by (simp add: pg_sound_def form_ok_def)

lemma play_from_sound:
  "play_from H ns is w at_step st = ((st', a'), fin) \<Longrightarrow> pg_sound H st \<Longrightarrow> sound H w \<Longrightarrow> pg_sound H st'"
proof (induction "is" arbitrary: w at_step st)
  case (Cons i "is")
  let ?s = "sr_id (STEPS ! i)"
  show ?case
  proof (cases "?s = SWhatIf \<or> step_ready H ?s w \<noteq> None \<or> run_default H (ns i) w ?s (pg_forms st ?s) = None")
    case True
    then show ?thesis using Cons.prems Cons.IH by (auto simp: Let_def split: if_splits)
  next
    case False
    then obtain r where r: "run_default H (ns i) w ?s (pg_forms st ?s) = Some r" by blast
    have k: "sound H w'" if "ru_world r = Some w'" for w'
      by (rule soundW.default_keeps [OF r Cons.prems(3)]) (use forms_sound [OF Cons.prems(2)] that in auto)
    have c: "pg_sound H (commit r (Some ?s) None False st)" by (rule commit_sound [OF Cons.prems(2) k])
    show ?thesis
    proof (cases "ru_ok r")
      case True
      then show ?thesis
        using Cons.prems(1) False r Cons.IH [OF _ c this_sound [OF c]] by (simp add: Let_def)
    qed (use Cons.prems(1) False r c in \<open>auto simp: Let_def\<close>)
  qed
qed simp

lemma play_all_sound: "pg_sound H st \<Longrightarrow> pg_sound H (fst (play_all H ns st))"
proof -
  assume s: "pg_sound H st"
  let ?w = "if w_session (this_world st) \<noteq> None then closeSession (this_world st) else this_world st"
  obtain st1 a fin where p: "play_from H ns [pg_active st..<length STEPS] ?w (pg_active st) st = ((st1, a), fin)" by (metis surj_pair)
  have "sound H ?w" using this_sound [OF s] soundW.session_keeps by (simp add: closeSession_def)
  then have "pg_sound H st1" by (rule play_from_sound [OF p s])
  then show ?thesis using p by (auto simp: play_all_def Let_def active_sound steps_length)
qed

lemma finish_sound: "pg_sound H st \<Longrightarrow> pg_sound H (on_finish s st)"
  unfolding on_finish_def by (erule commit_sound) simp

lemma browse_effect_sound: "pg_sound H st \<Longrightarrow> pg_sound H (browse_effect st)"
  by (auto simp: browse_effect_def finish_done_def Let_def finish_sound split: option.split)

lemma serve_frame_sound:
  assumes "pg_sound H st" and "sound H (this_world st0)"
  shows "pg_sound H st0 \<Longrightarrow> pg_sound H (fst (serve_frame H chunk st0))"
  using soundW.serve_keeps [OF _ assms(2), of chunk]
  by (auto simp: serve_frame_def replace_sound split: option.split prod.split)

lemma frame_sound: "pg_sound H st \<Longrightarrow> pg_sound H (fst (serve_frame H chunk st))"
  using serve_frame_sound [of H st st] this_sound by blast

lemma commit_flow_sound:
  "pg_sound H st \<Longrightarrow> (\<And>x. r = Some x \<Longrightarrow> sound H (fr_world x)) \<Longrightarrow> pg_sound H (fst (commit_flow r s st))"
  by (auto simp: commit_flow_def of_flow_def intro: commit_sound split: option.split)

lemma run_open_sound: "pg_sound H st \<Longrightarrow> pg_sound H (fst (run_open_step H n st))"
  unfolding run_open_step_def Let_def
  using soundW.step_keeps [OF _ this_sound] forms_sound [of H st "open_step st"]
  by (auto intro!: commit_flow_sound simp: form.defs)

lemma run_retry_sound: "pg_sound H st \<Longrightarrow> pg_sound H (fst (run_retry H n st))"
  unfolding run_retry_def
  using soundW.retry_keeps [OF _ this_sound] forms_sound [of H st SCashOut]
  by (auto intro!: commit_flow_sound simp: form.defs)

lemma start_sound: "pg_sound H st \<Longrightarrow> pg_sound H (fst (start_browsing H n st))"
  unfolding start_browsing_def Let_def
  using soundW.open_keeps [OF _ this_sound]
  by (auto simp: of_flow_def intro!: commit_sound split: option.split)

lemma button_sound:
  assumes "pg_sound H st"
  shows "pg_sound H (fst (browse_button H e s st))"
proof -
  have c: "sound H (closeSession (this_world st))"
    using this_sound [OF assms] by (simp add: closeSession_def soundW.session_keeps)
  show ?thesis
    unfolding browse_button_def Let_def
    using assms by (auto simp: frame_sound replace_sound [OF _ c] finish_sound)
qed

lemma tick_sound: "pg_sound H st \<Longrightarrow> pg_sound H (fst (browse_tick H st))"
  by (auto simp: browse_tick_def frame_sound split: option.split)

lemma drill_sound:
  assumes "pg_sound H st" and "sane_event H ns (DrillButton d) st"
  shows "pg_sound H (fst (press_drill H ns d st))"
proof (cases "open_step st \<noteq> SWhatIf \<or> ensureReady H (ns 0) (this_world st) = None")
  case False
  then obtain prep where prep: "ensureReady H (ns 0) (this_world st) = Some prep" by blast
  have p: "sound H (fr_world prep)" by (rule soundW.ready_keeps [OF prep this_sound [OF assms(1)]])
  have "sound H (dr_world r)" if "run_drill H (ns 1) d (fr_world prep) = Some r" for r
    by (rule soundW.drill_keeps [OF that p]) (use assms(2) prep in \<open>simp add: sane_event_def\<close>)
  then show ?thesis
    using assms(1) p False prep
    by (auto simp: press_drill_def of_flow_def intro!: commit_sound split: option.split prod.split)
qed (use assms(1) in \<open>auto simp: press_drill_def\<close>)

lemma prim_sound:
  assumes "pg_sound H st" and "prim_ok p"
  shows "pg_sound H (fst (pg_prim H p st))"
  using assms soundW.prim_keeps [OF _ this_sound [OF assms(1)] assms(2)]
  by (auto simp: pg_prim_def intro!: commit_sound split: option.split)

lemma set_param_fee [simp]: "p_feeBps (set_param v p) = p_feeBps p"
  by (cases v) simp_all

lemma params_sound: "sound H w \<Longrightarrow> sound H (w\<lparr>w_params := set_param v (w_params w)\<rparr>)"
  using inv_params [of w "set_param v (w_params w)"] by (simp add: sound_def) (simp add: inv_def)

lemma set_params_sound:
  "pg_sound H st \<Longrightarrow> pg_sound H (replace_world ((this_world st)\<lparr>w_params := set_param v (w_params (this_world st))\<rparr>) st)"
  by (rule replace_sound) (auto intro: params_sound this_sound)

lemma active_bound: "pg_sound H st \<Longrightarrow> pg_active st < 11"
  by (simp add: pg_sound_def steps_length)

lemma handle_sound:
  assumes "pg_sound H st" and "sane_event H ns e st"
  shows "pg_sound H (fst (pg_handle H ns e st))"
  using assms active_bound [OF assms(1)]
  by (cases e)
     (auto simp: run_open_sound run_retry_sound start_sound tick_sound drill_sound play_all_sound undo_sound reset_sound
        choice_sound prim_sound set_params_sound button_sound Let_def steps_length active_sound DEFAULT_PARAMS_def
        sane_event_def split: option.split)

inductive pg_reachable :: "host \<Rightarrow> playground \<Rightarrow> bool" for H where
  pg_start: "pg_reachable H (first_playground narrow)"
| pg_event: "pg_reachable H st \<Longrightarrow> sane_event H ns e st \<Longrightarrow> pg_reachable H (pg_step H ns e st)"

lemma reachable_pg_sound: "pg_reachable H st \<Longrightarrow> pg_sound H st"
proof (induction rule: pg_reachable.induct)
  case (pg_start narrow)
  show ?case
    by (simp add: pg_sound_def first_playground_def first_hist_def createWorld_sound DEFAULT_PARAMS_def fresh_forms_ok STEPS_def)
next
  case (pg_event st ns e)
  then show ?case by (simp add: pg_step_def browse_effect_sound handle_sound)
qed

end
