(* ===== verification/PlaygroundGuarantees.thy ===== *)
theory PlaygroundGuarantees
  imports PlaygroundLaws
begin

text \<open>
  The playground: every handler comes to its end (flows, drills, the functions of the console, the instant browse of \<open>Play
  all\<close>, unless the receipt interval was emptied); \<open>Play all\<close> can be undone; an edited copy of the chain is outvoted.
\<close>

section \<open>Every handler returns\<close>

definition answering :: "host \<Rightarrow> bool" where
  \<comment> \<open>hashes of 32 bytes, signatures of 65\<close>
  "answering H \<longleftrightarrow> (\<forall>x. length (h_keccak H x) = 32) \<and> (\<forall>d s. length (h_sign H d s) = 65)"

lemma call_entry: "answering H \<Longrightarrow> encodable (sc_args sp) \<Longrightarrow> o_entry (call H w sp body) \<noteq> None"
  using call_answers_entry [of H sp w body] by (auto simp: answering_def)

lemma token_entries:
  assumes "answering H"
  shows "o_entry (setBridge H w f b al cap fl) \<noteq> None" "o_entry (bridgeMint H w f to v r fl ti) \<noteq> None"
    "o_entry (bridgeBurn H w f v r fl ti) \<noteq> None" "o_entry (approve H w f s v fl) \<noteq> None"
    "o_entry (transfer H w f to v fl ti) \<noteq> None" "o_entry (transferFrom H w f ow to v fl ti) \<noteq> None"
    "sig_splits (pm_signature p) \<Longrightarrow> o_entry (permit H w f p fl ti) \<noteq> None"
  using assms unfolding token_call_defs by (rule call_entry; simp add: chain_spec_def)+

lemma escrow_entries:
  assumes "answering H"
  shows "o_entry (deposit H w f v fl ti) \<noteq> None"
    "sig_splits (pm_signature p) \<Longrightarrow> o_entry (depositWithPermit H w f cl v p fl ti) \<noteq> None"
    "o_entry (withdrawDeposit H w f v fl ti) \<noteq> None" "o_entry (withdrawWithSig H w f a (Some d) fl ti) \<noteq> None"
    "o_entry (transferDeposit H w f a (Some d) fl ti) \<noteq> None" "o_entry (settleTicketBatch H w f ts fl ti) \<noteq> None"
    "o_entry (claimEarnings H w f to v fl ti) \<noteq> None" "o_entry (setPricePerUnit H w f pr fl) \<noteq> None"
  using assms unfolding escrow_call_defs by (rule call_entry; simp add: chain_spec_def)+

lemma treasury_entries:
  assumes "answering H"
  shows "o_entry (claim H w f fl ti) \<noteq> None" "o_entry (setFeeBps H w f fee fl) \<noteq> None"
    "o_entry (queueBeneficiary H w f n fl) \<noteq> None" "o_entry (activateBeneficiary H w f fl) \<noteq> None"
    "o_entry (cancelBeneficiaryChange H w f fl) \<noteq> None" "o_entry (transferOwnership H w f k n fl) \<noteq> None"
    "o_entry (acceptOwnership H w f k fl) \<noteq> None"
  using assms unfolding treasury_call_defs by (rule call_entry; simp add: chain_spec_def)+

lemma off_entries:
  assumes "answering H"
  shows "o_entry (signTicket H w cl nd u fl ti s) \<noteq> None" "o_entry (signPermit H w ow sp v fl ti) \<noteq> None"
    "o_entry (signAuth H w k ow to v fl ti) \<noteq> None" "o_entry (stkPush H w cl v fl fail) \<noteq> None"
    "o_entry (b2cPayout H w to v fl fail) \<noteq> None" "o_entry (issueVoucher H w to v r fl) \<noteq> None"
    "o_entry (nodeVerify H w who fl) \<noteq> None" "o_entry (fundGas H w to g fl) \<noteq> None" "o_entry (warp H w sec fl) \<noteq> None"
    "o_entry (loseDevice H w who fl) \<noteq> None" "o_entry (restoreFromSeed H w who fl) \<noteq> None"
  using assms unfolding off_call_defs Let_def by (rule call_entry; simp add: off_spec_def chain_spec_def)+

lemmas entries = token_entries escrow_entries treasury_entries off_entries


definition answers :: "flow_step \<Rightarrow> bool" where
  "answers s \<longleftrightarrow> (\<forall>x p. o_entry (s x p) \<noteq> None)"

lemma loop_answers: "list_all answers steps \<Longrightarrow> \<exists>r. run_loop w prev es steps = Some r"
proof (induction steps arbitrary: w prev es)
  case (Cons s steps)
  obtain e where "o_entry (s w prev) = Some e" using Cons.prems by (auto simp: answers_def)
  then show ?case using Cons.prems Cons.IH [of "o_world (s w prev)" "o_result (s w prev)" "es @ [e]"] by (simp add: Let_def)
qed simp

lemma steps_all_answer: "list_all answers steps \<Longrightarrow> \<exists>r. runSteps w steps = Some r"
  by (simp add: runSteps_def loop_answers)

lemma runs_signed:
  \<comment> \<open>a signature and the call that uses it\<close>
  assumes "answers sg" and "\<And>x p y. o_ok (sg x p) \<Longrightarrow> o_entry (use y (o_result (sg x p))) \<noteq> None" and "list_all answers steps"
  shows "\<exists>r. runSteps w (sg # use # steps) = Some r"
proof -
  obtain e where e: "o_entry (sg w RNone) = Some e" using assms(1) by (auto simp: answers_def)
  have "\<exists>r. run_loop x (o_result (sg w RNone)) es (use # steps) = Some r" if "en_ok e" for x es
  proof -
    have "o_entry (use x (o_result (sg w RNone))) \<noteq> None" by (rule assms(2)) (use e that in \<open>simp add: o_ok_def\<close>)
    then show ?thesis using loop_answers [OF assms(3)] by (auto simp: Let_def)
  qed
  then show ?thesis using e by (auto simp: runSteps_def Let_def)
qed

lemma sig_long: "answering H \<Longrightarrow> sig_splits (sig_signature (signDigest H d s))"
  by (simp add: answering_def sig_splits_def signDigest_bytes)

lemma permit_signed:
  assumes "answering H" and "o_ok (signPermit H x ow s v fl ti)"
  shows "\<exists>p. o_result (signPermit H x ow s v fl ti) = RPermit p \<and> sig_splits (pm_signature p)"
proof -
  obtain w' c where b: "signPermit_body H ow s v (start_world (off_spec ''signPermit'' LWallet ow (ASignPermit s v) fl (or_title ti ''Sign permit'')) x) ctx0
      = (Inr w', c)" and r: "o_result (signPermit H x ow s v fl ti) = cx_result c"
    using assms(2) unfolding signPermit_def by (rule call_commit)
  have d: "device_ok x ow" using b by (auto simp: signPermit_body_def reverts_def split: if_splits)
  then have "o_result (signPermit H x ow s v fl ti) = RPermit (next_permit H x ow s v)"
    using signPermit_result [OF d, of H s v ctx0] b r by simp
  then show ?thesis using sig_long [OF assms(1)] by (simp add: next_permit_def Let_def)
qed

lemma permit_used:
  "answering H \<Longrightarrow> o_ok (signPermit H x ow s v fl ti) \<Longrightarrow>
   o_entry (permit H y f (res_permit (o_result (signPermit H x ow s v fl ti))) fl2 ti2) \<noteq> None"
  "answering H \<Longrightarrow> o_ok (signPermit H x ow s v fl ti) \<Longrightarrow>
   o_entry (depositWithPermit H y f cl a (res_permit (o_result (signPermit H x ow s v fl ti))) fl2 ti2) \<noteq> None"
  using permit_signed [of H x ow s v fl ti] entries by fastforce+

lemma setup_returns: "answering H \<Longrightarrow> \<exists>r. setupNetwork H n w = Some r"
  using steps_all_answer [of "[\<lambda>x _. setBridge H x Owner Kiosk True (kes (p_mintCapKes (w_params x))) (newFlow ''Deploy and configure'' n)]"]
  by (auto simp: setupNetwork_def Let_def answers_def entries)

lemma plain_flows_return:
  assumes "answering H"
  shows "\<exists>r. buy H n w cl v fail = Some r" "\<exists>r. retryPayout H n w cl v = Some r" "\<exists>r. nodeCashOut H n w = Some r"
    "\<exists>r. withdraw H n w cl v = Some r" "\<exists>r. relayBatch H n w nd only = Some r" "\<exists>r. nodeClaim H n w = Some r"
    "\<exists>r. sweepFees H n w a = Some r" "\<exists>r. withdrawGasless H n w cl v to = Some r" "\<exists>r. sendEscrow H n w cl to v = Some r"
  unfolding buy_def retryPayout_def nodeCashOut_def withdraw_def relayBatch_def nodeClaim_def sweepFees_def
    withdrawGasless_def sendEscrow_def Let_def
  by (rule steps_all_answer; simp add: answers_def entries assms)+

lemma permit_flows_return:
  assumes "answering H"
  shows "\<exists>r. depositGasless H n w cl v = Some r" "\<exists>r. send H n w a b v = Some r" "\<exists>r. cashOut H n w cl v fail = Some r"
  unfolding depositGasless_def send_def cashOut_def Let_def
  by (rule runs_signed; (erule permit_used [OF assms])?; simp add: answers_def entries assms)+

lemma node_out_returns: "answering H \<Longrightarrow> \<exists>r. run_node_out H n w only = Some r"
  using plain_flows_return(6) [of H n w] plain_flows_return(3) [of H]
  by (fastforce simp: run_node_out_def Let_def)

lemma step_returns:
  assumes "answering H" and "s \<noteq> SBrowse" and "s \<noteq> SWhatIf"
  shows "\<exists>r. step_run H n s w f = Some r"
  using assms setup_returns plain_flows_return permit_flows_return node_out_returns by (cases s) simp_all

lemma retry_returns: "answering H \<Longrightarrow> \<exists>r. step_retry H n w f = Some r"
  by (simp add: step_retry_def plain_flows_return)

lemma open_returns: "answering H \<Longrightarrow> \<exists>r. openSession H n w cl nd tg off = Some r"
  using steps_all_answer [of "if off then [\<lambda>w _. nodeVerify H w cl (newFlow ((if off then ''Offline'' else ''Online'') @ '' session'') n)] else []" w]
  by (auto simp: openSession_def Let_def answers_def entries)

lemma prim_returns:
  assumes "answering H"
  shows "\<exists>r. prim_run H w p = Some r"
proof -
  have "\<exists>r. runSteps w (prim_steps H p) = Some r"
  proof (cases p)
    case (PPermit c ow s v)
    show ?thesis unfolding PPermit prim_steps.simps
      by (rule runs_signed; (erule permit_used [OF assms])?; simp add: answers_def entries assms)
  next
    case (PDepositWithPermit c cl v)
    show ?thesis unfolding PDepositWithPermit prim_steps.simps
      by (rule runs_signed; (erule permit_used [OF assms])?; simp add: answers_def entries assms)
  qed (simp_all only: prim_steps.simps, (rule steps_all_answer, simp add: answers_def entries assms)+)
  then show ?thesis by (auto simp: prim_run_def)
qed

subsection \<open>An instant browse\<close>

lemma serve_all_returns:
  assumes "w_session w = Some s" and "0 < p_receiptBytes (w_params w)"
  shows "\<exists>w' es'. serve_all H w es = Some (w', es') \<and> session_over w'"
  using assms
proof (induction "nat (se_targetBytes s - se_bytes s)" arbitrary: w s es rule: less_induct)
  case less
  show ?case
  proof (cases "se_done s")
    case True
    then show ?thesis using less.prems(1) by (subst serve_all.simps) (simp add: session_over_def)
  next
    case False
    obtain w' es1 s' where r: "serve H w 1000000 = Some (w', es1)" and s': "w_session w' = Some s'"
      and b: "se_bytes s' = next_bytes w s 1000000" and t: "se_targetBytes s' = se_targetBytes s"
      and q: "p_receiptBytes (w_params w') = p_receiptBytes (w_params w)"
      and n: "se_done s' \<or> next_bytes w s 1000000 = se_bytes s + 1000000 \<and> next_bytes w s 1000000 < se_targetBytes s"
      using serve_result [OF less.prems(1) False less.prems(2), of H 1000000] by (elim exE conjE) (rule that; assumption)
    have p: "0 < p_receiptBytes (w_params w')" using q less.prems(2) by simp
    have d: "se_done s' \<or> se_bytes s' = se_bytes s + 1000000 \<and> se_bytes s' < se_targetBytes s" using n b by simp
    have "\<exists>w2 es2. serve_all H w' (es @ es1) = Some (w2, es2) \<and> session_over w2"
    proof (cases "se_done s'")
      case True
      then show ?thesis using s' by (subst serve_all.simps) (simp add: session_over_def)
    next
      case False
      then have "nat (se_targetBytes s' - se_bytes s') < nat (se_targetBytes s - se_bytes s)" using d t by linarith
      from less.hyps [OF this s' p] show ?thesis .
    qed
    then show ?thesis using r less.prems(1) False by (subst serve_all.simps) simp
  qed
qed

lemma zero_step_loops: "b \<le> n \<Longrightarrow> bound_loop b 0 n = None"
proof (rule ccontr)
  assume "b \<le> n" "bound_loop b 0 n \<noteq> None"
  then obtain bs where bs: "bound_loop b 0 n = Some bs" by blast
  have "bound_loop b 0 n = Option.bind (bound_loop b 0 n) (\<lambda>xs. Some (b # xs))"
    by (subst bound_loop.simps) (simp add: \<open>b \<le> n\<close>)
  then have "b # bs = bs" unfolding bs by simp
  then show False by simp
qed

lemma emptied_interval_hangs:
  \<comment> \<open>with the receipt interval at 0, serving does not return, as soon as there is anything to sign for\<close>
  assumes "w_session w = Some s" and "\<not> se_done s" and "p_receiptBytes (w_params w) = 0" and "se_lastReceiptBytes s \<le> next_bytes w s chunk"
  shows "serve H w chunk = None"
  using assms zero_step_loops [OF assms(4)] by (simp add: serve_def Let_def receipt_bounds_def)

lemma emptied_interval_hangs_page:
  assumes "w_session (this_world st) = Some s" and "\<not> se_done s" and "se_lastReceiptBytes s \<le> next_bytes (this_world st) s (se_targetBytes s)"
    and "pg_overlay st = Some OCosts" and "open_step st = SBrowse"
  shows "\<not> snd (pg_handle H ns SkipToEnd (fst (pg_handle H ns (SetParam (ReceiptBytes 0)) st)))"
proof -
  let ?w = "(this_world st)\<lparr>w_params := set_param (ReceiptBytes 0) (w_params (this_world st))\<rparr>"
  have "serve H ?w (se_targetBytes s) = None"
    by (rule emptied_interval_hangs [of _ s]) (use assms(1-3) in \<open>simp_all add: next_bytes_def max_bytes_def\<close>)
  then show ?thesis
    using assms by (simp add: Let_def live_session_def browse_button_def serve_frame_def replace_world_def swap_world_def
        this_world_def open_step_def set_playing_def)
qed

lemma default_returns:
  assumes "answering H" and "0 < p_receiptBytes (w_params w)" and "sound H w" and "s \<noteq> SWhatIf"
  shows "\<exists>r. run_default H n w s f = Some r"
proof (cases "s = SBrowse")
  case True
  obtain ses where ses: "openSession H n w (fo_who f) Node (target_bytes f) (fo_offline f) = Some ses"
    using open_returns [OF assms(1)] by blast
  have p: "0 < p_receiptBytes (w_params (fr_world ses))"
    using servedW.open_keeps [OF ses] assms(2,3) by blast
  have "\<exists>s. w_session (fr_world ses) = Some s" if "fr_ok ses"
    using ses that by (auto simp: openSession_def Let_def)
  then show ?thesis
    using True ses serve_all_returns [OF _ p, of _ H "fr_entries ses"] by (fastforce simp: run_default_def)
next
  case False
  then show ?thesis using step_returns [OF assms(1) False assms(4)] by (simp add: run_default_def)
qed

subsection \<open>Drills\<close>

lemma some_intros:
  "\<exists>a. x = Some a \<Longrightarrow> (\<And>a. \<exists>b. f a = Some b) \<Longrightarrow> \<exists>b. Option.bind x f = Some b"
  "\<exists>a. x = Some a \<Longrightarrow> \<exists>b. map_option g x = Some b"
  "\<exists>b. x = Some b \<Longrightarrow> \<exists>b. y = Some b \<Longrightarrow> \<exists>b. (if c then x else y) = Some b"
  "\<exists>b. Some z = Some b"
  by auto

lemma ticket_call:
  assumes "device_ok w s"
  shows "o_result (signTicket H w cl nd u fl ti (Some s)) = RTicket (next_ticket H w cl nd u s)"
    and "w_devices (o_world (signTicket H w cl nd u fl ti (Some s))) = w_devices w"
    and "w_devices (o_world (signTicket H w s nd u fl ti None)) = w_devices w"
    and "o_result (signTicket H w s nd u fl ti None) = RTicket (next_ticket H w s nd u s)"
proof -
  have *: "o_result (signTicket H w cl nd u fl ti sg) = RTicket (next_ticket H w cl nd u s) \<and>
      w_devices (o_world (signTicket H w cl nd u fl ti sg)) = w_devices w" if sg: "(case sg of None \<Rightarrow> cl | Some a \<Rightarrow> a) = s" for sg cl
  proof -
    obtain w' c where b: "signTicket_body H cl nd u s w ctx0 = (Inr w', c)"
      using assms by (cases "signTicket_body H cl nd u s w ctx0") (auto simp: signTicket_body_def Let_def commits_def)
    have d: "w_devices w' = w_devices w"
      using b assms by (auto simp: signTicket_body_def Let_def commits_def)
    note call_off [of "off_spec ''signTicket'' LWallet s (ASignTicket nd u) fl (or_title ti ''Sign ticket'')"
        "signTicket_body H cl nd u s" w w' c H, simplified, OF b]
    then show ?thesis using signTicket_result [OF assms, of H cl nd u ctx0] b d sg
      by (simp add: signTicket_def core_eq_iff Let_def)
  qed
  show "o_result (signTicket H w cl nd u fl ti (Some s)) = RTicket (next_ticket H w cl nd u s)"
    "w_devices (o_world (signTicket H w cl nd u fl ti (Some s))) = w_devices w"
    "w_devices (o_world (signTicket H w s nd u fl ti None)) = w_devices w"
    "o_result (signTicket H w s nd u fl ti None) = RTicket (next_ticket H w s nd u s)"
    using * by auto
qed

lemma sign_n_tickets:
  "device_ok w Amina \<Longrightarrow> sign_n_loop H is base step fl w = (w', ts, es) \<Longrightarrow> length ts = length is \<and> None \<notin> set ts"
proof (induction "is" arbitrary: w w' ts es)
  case (Cons i "is")
  let ?r = "signTicket H w Amina Node (base + int i * step) fl
      (Some (''Amina signs ticket at '' @ int_str (base + int i * step) @ '' units'')) None"
  have d: "device_ok (o_world ?r) Amina" using Cons.prems(1) by (simp add: device_ok_def ticket_call(3) [OF Cons.prems(1)])
  obtain w2 ts2 es2 where l: "sign_n_loop H is base step fl (o_world ?r) = (w2, ts2, es2)" by (metis prod_cases3)
  show ?case
    using Cons.prems(2) Cons.IH [OF d l] l ticket_call(4) [OF Cons.prems(1)] by (auto simp: Let_def)
qed simp

lemma signN_tickets:
  assumes "device_ok w Amina" and "signN H w n step fl = (w', ts, es)" and "k < n"
  shows "\<exists>t. ts ! k = Some t" "\<exists>t. last ts = Some t"
proof -
  have t: "length ts = n" "None \<notin> set ts" using sign_n_tickets [OF assms(1) assms(2) [unfolded signN_def]] by auto
  show "\<exists>t. ts ! k = Some t" using t assms(3) by (metis not_None_eq nth_mem)
  have "ts \<noteq> []" using t(1) assms(3) by auto
  then show "\<exists>t. last ts = Some t" using t(2) by (metis last_in_set not_None_eq)
qed

lemma settle_ticket_answers: "answering H \<Longrightarrow> o_entry (settle_ticket H w f (Some t) fl ti) \<noteq> None"
  by (simp only: settle_ticket_def option.case entries not_False_eq_True)

definition can_drill :: "world \<Rightarrow> bool" where
  \<comment> \<open>the phones of the client and the node are there, the kiosk is listed\<close>
  "can_drill w \<longleftrightarrow> device_ok w Amina \<and> device_ok w Node \<and> tk_bridges (w_token w) Kiosk \<noteq> None"

lemma signed_drills_return:
  assumes a: "answering H" and "can_drill w"
  shows "\<exists>r. drill_lost_tickets H n w = Some r" "\<exists>r. drill_replay H n w = Some r" "\<exists>r. drill_forged H n w = Some r"
    "\<exists>r. drill_expired H n w = Some r" "\<exists>r. drill_drain H n w = Some r"
proof -
  have d: "device_ok w Amina" "device_ok w Node" using assms(2) by (simp_all add: can_drill_def)
  have s: "\<exists>r. runSteps x [\<lambda>x _. settle_ticket H x f (Some t) fl ti] = Some r" for x f t fl ti
    by (rule steps_all_answer) (simp add: answers_def settle_ticket_answers [OF a])
  have ws: "\<exists>r. runSteps x [\<lambda>x _. warp H x (g x) fl, \<lambda>x _. settle_ticket H x f (Some t) fl ti] = Some r" for x f t fl ti g
    by (rule steps_all_answer) (simp add: answers_def settle_ticket_answers [OF a] entries a)
  show "\<exists>r. drill_lost_tickets H n w = Some r"
  proof -
    obtain w' ts es where N: "signN H w 4 100 (newFlow ''Drill: lost tickets'' n) = (w', ts, es)" by (metis prod_cases3)
    obtain t where "last ts = Some t" using signN_tickets(2) [OF d(1) N, of 0] by auto
    then show ?thesis using s by (simp add: drill_lost_tickets_def Let_def N)
  qed
  show "\<exists>r. drill_replay H n w = Some r"
  proof -
    obtain w' ts es where N: "signN H w 2 100 (newFlow ''Drill: replay'' n) = (w', ts, es)" by (metis prod_cases3)
    obtain t t' where t: "ts ! 1 = Some t" "ts ! 0 = Some t'" using signN_tickets(1) [OF d(1) N] by fastforce
    obtain r1 where r1: "runSteps w' [\<lambda>x _. settle_ticket H x Relayer (Some t) (newFlow ''Drill: replay'' n) ''Settle ticket 2''] = Some r1"
      using s by blast
    show ?thesis using t s by (simp add: drill_replay_def Let_def N r1 t [simplified])
  qed
  show "\<exists>r. drill_forged H n w = Some r"
    using s ticket_call(1) [OF d(2)] by (simp add: drill_forged_def Let_def)
  show "\<exists>r. drill_expired H n w = Some r"
  proof -
    obtain w' ts es where N: "signN H w 1 200 (newFlow ''Drill: expiry'' n) = (w', ts, es)" by (metis prod_cases3)
    obtain t where "ts ! 0 = Some t" using signN_tickets(1) [OF d(1) N, of 0] by auto
    then show ?thesis using ws by (simp add: drill_expired_def Let_def N [simplified])
  qed
  show "\<exists>r. drill_drain H n w = Some r"
  proof -
    obtain w' ts es where N: "signN H w 1 2000 (newFlow ''Drill: drain'' n) = (w', ts, es)" by (metis prod_cases3)
    obtain t where t: "ts ! 0 = Some t" using signN_tickets(1) [OF d(1) N, of 0] by auto
    obtain out where o: "withdrawGasless H (Suc n) w' Amina (deposit_of w' Amina - min (kes (4 / 10)) (deposit_of w' Amina)) Amina = Some out"
      using plain_flows_return(8) [OF a] by blast
    show ?thesis unfolding drill_drain_def Let_def N prod.case t option.case o Option.bind.simps using s by simp
  qed
qed

lemma auth_drill_returns:
  assumes a: "answering H" and "can_drill w"
  shows "\<exists>r. drill_redirect H n w = Some r" "\<exists>r. drill_front_run_permit H n w = Some r" "\<exists>r. drill_lost_phone H n w = Some r"
    "\<exists>r. drill_rogue_bridge H n w = Some r" "\<exists>r. drill_payout_fails H n w = Some r" "\<exists>r. drill_stolen_owner H n w = Some r"
proof -
  have d: "device_ok w Amina" using assms(2) by (simp add: can_drill_def)
  have one: "\<exists>r. runSteps x [s] = Some r" if "answers s" for x s by (rule steps_all_answer) (simp add: that)
  have two: "\<exists>r. runSteps x [s, t] = Some r" if "answers s" "answers t" for x s t by (rule steps_all_answer) (simp add: that)
  show "\<exists>r. drill_redirect H n w = Some r"
  proof -
    have "\<exists>r. runSteps x [\<lambda>w _. withdrawWithSig H w f au (Some to) fl ti] = Some r" for x f au to fl ti
      by (rule one) (simp add: answers_def entries a)
    then show ?thesis using signAuth_call(3) [OF d] by (simp add: drill_redirect_def Let_def)
  qed
  show "\<exists>r. drill_front_run_permit H n w = Some r"
  proof -
    let ?s = "signPermit H w Amina EscrowAcc (kes 5) (newFlow ''Drill: permit front-run'' n) (Some ''Amina signs a 5 KES permit'')"
    have "o_ok ?s"
      using d by (auto simp: signPermit_def call_ok_iff signPermit_body_def Let_def commits_def)
    then obtain p where p: "o_result ?s = RPermit p" "sig_splits (pm_signature p)" using permit_signed [OF a] by blast
    have "\<exists>r. runSteps x [\<lambda>w _. permit H w f p fl ti, \<lambda>w _. depositWithPermit H w f2 cl v p fl2 ti2] = Some r" for x f fl ti f2 cl v fl2 ti2
      by (rule two) (simp_all add: answers_def entries a p)
    then show ?thesis using p unfolding drill_front_run_permit_def Let_def by simp
  qed
  show "\<exists>r. drill_lost_phone H n w = Some r"
  proof -
    have "\<exists>r. runSteps x [\<lambda>w _. loseDevice H w Amina fl, \<lambda>w _. signTicket H w Amina Node u fl2 ti sg] = Some r" for x fl u fl2 ti sg
      by (rule two) (simp_all add: answers_def entries a)
    moreover have "\<exists>r. runSteps x [\<lambda>w _. restoreFromSeed H w Amina fl] = Some r" for x fl
      by (rule one) (simp add: answers_def entries a)
    ultimately show ?thesis unfolding drill_lost_phone_def Let_def by (intro some_intros)
  qed
  show "\<exists>r. drill_rogue_bridge H n w = Some r"
  proof -
    have "\<exists>r. runSteps x [\<lambda>w _. bridgeMint H w f to v rf fl ti] = Some r" for x f to v rf fl ti
      by (rule one) (simp add: answers_def entries a)
    moreover have "\<exists>r. runSteps x [\<lambda>w _. setBridge H w f to al v fl] = Some r" for x f to al v fl
      by (rule one) (simp add: answers_def entries a)
    moreover obtain i where "tk_bridges (w_token w) Kiosk = Some i" using assms(2) by (auto simp: can_drill_def)
    ultimately show ?thesis unfolding drill_rogue_bridge_def Let_def by (simp only: option.case) (intro some_intros; blast)
  qed
  show "\<exists>r. drill_payout_fails H n w = Some r"
    unfolding drill_payout_fails_def Let_def
    by (intro some_intros plain_flows_return(1,2) [OF a] permit_flows_return(3) [OF a])
  show "\<exists>r. drill_stolen_owner H n w = Some r"
    by (simp add: drill_stolen_owner_def split: prod.split)
qed

lemma offline_returns:
  assumes a: "answering H" and p: "sound H w" "0 < p_receiptBytes (w_params w)"
  shows "\<exists>r. drill_offline H n w = Some r"
proof -
  let ?none = "\<not> list_ex (\<lambda>v. vo_who v = Amina) (w_vouchers w)"
  obtain b where b: "(if ?none then buy H n w Amina (kes 20) False else Some (ready_result w True [])) = Some b"
    using some_intros(3) [OF plain_flows_return(1) [OF a] some_intros(4)] by blast
  have pb: "sound H (fr_world b) \<and> 0 < p_receiptBytes (w_params (fr_world b))"
    using b p servedW.money_flows_keep(1) [of H n w Amina "kes 20" False b]
    by (auto simp: ready_result_def UKES_def split: if_splits)
  obtain ses where ses: "openSession H (if ?none then Suc n else n) (fr_world b) Amina Node 200000000 True = Some ses"
    using open_returns [OF a] by blast
  have "0 < p_receiptBytes (w_params (fr_world ses))" using servedW.open_keeps [OF ses pb] by blast
  then obtain r where "serve H (fr_world ses) 200000000 = Some r" using serve_total by blast
  then show ?thesis using b ses by (simp add: drill_offline_def Let_def)
qed

lemma drill_returns:
  "answering H \<Longrightarrow> can_drill w \<Longrightarrow> sound H w \<Longrightarrow> 0 < p_receiptBytes (w_params w) \<Longrightarrow> \<exists>r. run_drill H n d w = Some r"
  using signed_drills_return auth_drill_returns offline_returns by (cases d) simp_all

lemma ready_returns:
  assumes a: "answering H"
  shows "\<exists>r. ensureReady H n w = Some r"
proof -
  have t: "\<exists>y. take_flow r k acc = Some y" if "\<exists>x. r = Some x" "\<And>x. \<exists>y. k x = Some y" for r k acc
    using that by (auto simp: take_flow_def Let_def)
  show ?thesis
    unfolding ensureReady_def Let_def
    by (auto intro!: t setup_returns [OF a] plain_flows_return(1) [OF a] permit_flows_return(1) [OF a])
qed


subsection \<open>Handlers\<close>

lemma commit_world: "ru_world r = Some w \<Longrightarrow> this_world (commit r sid lab False st) = w"
  by (cases sid) (simp_all add: commit_def Let_def this_world_def push_world_def)

lemma default_world: "run_default H n w s f = Some r \<Longrightarrow> \<exists>w'. ru_world r = Some w'"
  by (auto simp: run_default_def of_flow_def split: if_splits bind_splits prod.splits)

lemma play_from_returns:
  assumes a: "answering H" and "pg_sound H st" and "sound H w" and "0 < p_receiptBytes (w_params w)"
  shows "snd (play_from H ns is w at_step st)"
  using assms(2-)
proof (induction "is" arbitrary: w at_step st)
  case (Cons i "is")
  let ?s = "sr_id (STEPS ! i)"
  show ?case
  proof (cases "?s = SWhatIf \<or> step_ready H ?s w \<noteq> None")
    case True
    then show ?thesis using Cons by (auto simp: Let_def)
  next
    case False
    obtain r where r: "run_default H (ns i) w ?s (pg_forms st ?s) = Some r"
      using default_returns [OF a Cons.prems(3,2), of ?s "ns i" "pg_forms st ?s"] False by blast
    obtain w' where w': "ru_world r = Some w'" using default_world [OF r] by blast
    have k: "sound H w' \<and> 0 < p_receiptBytes (w_params w')"
      by (rule servedW.default_keeps [OF r]) (use forms_sound [OF Cons.prems(1)] Cons.prems(2,3) w' in auto)
    have c: "pg_sound H (commit r (Some ?s) None False st)" by (rule commit_sound [OF Cons.prems(1)]) (use k w' in auto)
    show ?thesis
      using False r Cons.IH [OF c, of "this_world (commit r (Some ?s) None False st)"] k commit_world [OF w']
      by (simp add: Let_def)
  qed
qed simp

lemma play_all_returns:
  assumes "answering H" and "pg_sound H st" and "0 < p_receiptBytes (w_params (this_world st))"
  shows "snd (play_all H ns st)"
proof -
  let ?w = "if w_session (this_world st) \<noteq> None then closeSession (this_world st) else this_world st"
  have "sound H ?w" using this_sound [OF assms(2)] soundW.session_keeps by (simp add: closeSession_def)
  moreover have "0 < p_receiptBytes (w_params ?w)" using assms(3) by (simp add: closeSession_def)
  ultimately have "snd (play_from H ns [pg_active st..<length STEPS] ?w (pg_active st) st)"
    by (rule play_from_returns [OF assms(1,2)])
  then show ?thesis by (auto simp: play_all_def Let_def split: prod.splits)
qed

lemma frame_returns: "0 < p_receiptBytes (w_params (this_world st)) \<Longrightarrow> snd (serve_frame H c st)"
  using serve_total [of "this_world st" H c] by (auto simp: serve_frame_def split: option.split)

lemma playing_world [simp]: "this_world (set_playing p st) = this_world st"
  by (simp add: set_playing_def this_world_def)

lemma button_returns: "0 < p_receiptBytes (w_params (this_world st)) \<Longrightarrow> snd (browse_button H e s st)"
  by (simp add: browse_button_def Let_def frame_returns)

lemma tick_returns: "0 < p_receiptBytes (w_params (this_world st)) \<Longrightarrow> snd (browse_tick H st)"
  by (simp add: browse_tick_def frame_returns split: option.split)

lemma run_returns: "answering H \<Longrightarrow> snd (run_open_step H n st)"
  using step_returns [of H "open_step st" n "this_world st" "form.truncate (pg_forms st (open_step st))"]
  by (auto simp: run_open_step_def Let_def commit_flow_def)

lemma run_retry_returns: "answering H \<Longrightarrow> snd (run_retry H n st)"
  using retry_returns [of H n "this_world st" "form.truncate (pg_forms st SCashOut)"]
  by (auto simp: run_retry_def commit_flow_def)

lemma start_returns: "answering H \<Longrightarrow> snd (start_browsing H n st)"
  using open_returns [of H n "this_world st" "fo_who (pg_forms st SBrowse)" Node "target_bytes (pg_forms st SBrowse)"
      "fo_offline (pg_forms st SBrowse)"]
  by (auto simp: start_browsing_def Let_def)

lemma page_prim_returns: "answering H \<Longrightarrow> snd (pg_prim H p st)"
  using prim_returns [of H "this_world st" p] by (auto simp: pg_prim_def)

definition drill_possible :: "host \<Rightarrow> (nat \<Rightarrow> nat) \<Rightarrow> pg_event \<Rightarrow> playground \<Rightarrow> bool" where
  \<comment> \<open>what a drill needs of the world it starts from, after \<open>ensureReady\<close>\<close>
  "drill_possible H ns e st \<longleftrightarrow>
     (case e of
        DrillButton d \<Rightarrow>
          (case ensureReady H (ns 0) (this_world st) of
             Some prep \<Rightarrow> fr_ok prep \<longrightarrow> can_drill (fr_world prep)
           | None \<Rightarrow> True)
      | _ \<Rightarrow> True)"

lemma drill_button_returns:
  assumes a: "answering H" and "pg_sound H st" and "0 < p_receiptBytes (w_params (this_world st))"
    and "drill_possible H ns (DrillButton d) st"
  shows "snd (press_drill H ns d st)"
proof -
  obtain prep where prep: "ensureReady H (ns 0) (this_world st) = Some prep" using ready_returns [OF a] by blast
  have k: "sound H (fr_world prep) \<and> 0 < p_receiptBytes (w_params (fr_world prep))"
    using servedW.ready_keeps [OF prep] this_sound [OF assms(2)] assms(3) by blast
  show ?thesis
  proof (cases "fr_ok prep")
    case True
    then obtain r where "run_drill H (ns 1) d (fr_world prep) = Some r"
      using drill_returns [OF a _ conjunct1 [OF k] conjunct2 [OF k]] assms(4) prep by (fastforce simp: drill_possible_def)
    then show ?thesis using prep True by (simp add: press_drill_def split: prod.split)
  qed (use prep in \<open>simp add: press_drill_def\<close>)
qed

lemma handle_returns:
  assumes "answering H" and "pg_sound H st" and "0 < p_receiptBytes (w_params (this_world st))" and "drill_possible H ns e st"
  shows "snd (pg_handle H ns e st)"
  using assms drill_button_returns [OF assms(1-3)] play_all_returns [OF assms(1-3)] run_returns [OF assms(1)]
    run_retry_returns [OF assms(1)] start_returns [OF assms(1)] page_prim_returns [OF assms(1)]
    button_returns [OF assms(3)] tick_returns [OF assms(3)]
  by (cases e) (auto split: option.split)

lemma lost_phone_throws:
  \<comment> \<open>after a lost phone, a drill that has the client sign reads a field of \<open>undefined\<close>\<close>
  assumes "\<not> device_ok w Amina"
  shows "run_drill H n Redirect w = None"
  using assms
  by (simp add: drill_redirect_def Let_def signAuth_def call_def start_world_def off_spec_def signAuth_body_def reverts_def
      finish_def ctx0_def)

subsection \<open>Play all can be undone\<close>

lemma commit_pushes:
  "ru_world r = Some w \<Longrightarrow> hi_worlds (pg_hist (commit r sid lab False st)) =
     drop (length (hi_worlds (pg_hist st)) - 80) (hi_worlds (pg_hist st)) @ [w]"
  by (cases sid) (simp_all add: commit_def Let_def push_world_def)

lemma play_from_appends:
  "play_from H ns is w at_step st = ((st', a'), fin) \<Longrightarrow> length (hi_worlds (pg_hist st)) + length is \<le> 81 \<Longrightarrow>
   \<exists>ws. hi_worlds (pg_hist st') = hi_worlds (pg_hist st) @ ws \<and> length ws \<le> length is"
proof (induction "is" arbitrary: w at_step st)
  case (Cons i "is")
  let ?s = "sr_id (STEPS ! i)"
  show ?case
  proof (cases "?s = SWhatIf \<or> step_ready H ?s w \<noteq> None \<or> run_default H (ns i) w ?s (pg_forms st ?s) = None")
    case True
    consider "st' = st" | "play_from H ns is w at_step st = ((st', a'), fin)"
      using True Cons.prems(1) by (auto simp: Let_def split: if_splits)
    then show ?thesis
    proof cases
      case 2
      then obtain ws where "hi_worlds (pg_hist st') = hi_worlds (pg_hist st) @ ws" "length ws \<le> length is"
        using Cons.IH [OF 2] Cons.prems(2) by auto
      then show ?thesis by auto
    qed simp
  next
    case False
    then obtain r where r: "run_default H (ns i) w ?s (pg_forms st ?s) = Some r" by blast
    obtain w' where w': "ru_world r = Some w'" using default_world [OF r] by blast
    let ?st = "commit r (Some ?s) None False st"
    have h: "hi_worlds (pg_hist ?st) = hi_worlds (pg_hist st) @ [w']"
      using commit_pushes [OF w'] Cons.prems(2) by simp
    show ?thesis
    proof (cases "ru_ok r")
      case True
      then have "play_from H ns is (this_world ?st) i ?st = ((st', a'), fin)"
        using Cons.prems(1) False r by (simp add: Let_def)
      from Cons.IH [OF this] obtain ws where "hi_worlds (pg_hist st') = hi_worlds (pg_hist ?st) @ ws" "length ws \<le> length is"
        using Cons.prems(2) h by auto
      then show ?thesis using h by (intro exI [of _ "w' # ws"]) simp
    qed (use Cons.prems(1) False r h in \<open>auto simp: Let_def\<close>)
  qed
qed simp

lemma undo_worlds: "n < length (hi_worlds h) \<Longrightarrow> hi_worlds ((undo_world ^^ n) h) = take (length (hi_worlds h) - n) (hi_worlds h)"
  by (induction n) (auto simp: undo_world_def butlast_take)

section \<open>The chain panel\<close>

definition tx_bytes :: "tx \<Rightarrow> bytes" where
  \<comment> \<open>what the hash of a transaction covers\<close>
  "tx_bytes t = concat_bytes [hexToBytes (tx_from t), hexToBytes (if starts_with ''0x'' (tx_to t) then tx_to t else ZERO20),
     uintWord (tx_nonce t), hexToBytes (tx_input t)]"

definition contents :: "block list \<Rightarrow> bytes list" where
  "contents bs = map (\<lambda>b. tx_bytes (bk_tx b)) bs"

definition hashed :: "block list \<Rightarrow> bytes set" where
  \<comment> \<open>everything a chain applies the hash to\<close>
  "hashed bs = set (contents bs) \<union> headerPreimage ` set bs"

lemma txHashOf_bytes: "txHashOf H t = bytesToHex (h_keccak H (tx_bytes t))"
  by (simp add: txHashOf_def tx_bytes_def Let_def)

definition same_block :: "block \<Rightarrow> block \<Rightarrow> bool" where
  "same_block b c \<longleftrightarrow> tx_bytes (bk_tx b) = tx_bytes (bk_tx c) \<and> bk_txHash b = bk_txHash c \<and> bk_parentHash b = bk_parentHash c \<and>
     bk_number b = bk_number c \<and> bk_timestamp b = bk_timestamp c \<and> bk_stateRoot b = bk_stateRoot c \<and> bk_hash b = bk_hash c"

abbreviation same_chain :: "block list \<Rightarrow> block list \<Rightarrow> bool" where
  "same_chain \<equiv> list_all2 same_block"

lemma same_block_checks: "same_block b c \<Longrightarrow> check_block H p b = check_block H p c"
  by (simp add: same_block_def check_block_def txHashOf_bytes blockHashOf_def headerPreimage_def)

lemma same_chain_refl: "same_chain bs bs"
  by (simp add: list_all2_same same_block_def)

lemma same_chain_links: "same_chain bs cs \<Longrightarrow> links H p bs = links H p cs"
proof (induction bs cs arbitrary: p rule: list_all2_induct)
  case (Cons b bs c cs)
  have "bk_hash b = bk_hash c" using Cons.hyps(1) by (simp add: same_block_def)
  then show ?case using same_block_checks [OF Cons.hyps(1), of H p] Cons.IH [of "bk_hash c"] by simp
qed simp

lemma rehash_block_contents [simp]: "tx_bytes (bk_tx (rehash_block H p b)) = tx_bytes (bk_tx b)"
  by (cases p) (simp_all add: rehash_block_def Let_def tx_bytes_def)

lemma rehash_block_same:
  assumes "same_block b c" and "ck_ok (check_block H q c)" and "p = None \<or> p = Some q"
  shows "same_block (rehash_block H p b) c"
  using assms
  by (auto simp: rehash_block_def Let_def same_block_def check_block_def txHashOf_bytes blockHashOf_def headerPreimage_def tx_bytes_def)

lemma rehash_from_same: "same_chain bs cs \<Longrightarrow> links H p cs \<Longrightarrow> same_chain (rehash_from H p bs) cs"
proof (induction bs cs arbitrary: p rule: list_all2_induct)
  case (Cons b bs c cs)
  have s: "same_block (rehash_block H (Some p) b) c" by (rule rehash_block_same [of _ _ H p]) (use Cons in simp_all)
  then have "bk_hash (rehash_block H (Some p) b) = bk_hash c" by (simp add: same_block_def)
  then show ?case using s Cons.IH [of "bk_hash c"] Cons.prems by (simp add: Let_def)
qed simp

lemma contents_rehash_from [simp]: "contents (rehash_from H p bs) = contents bs"
  by (induction bs arbitrary: p) (simp_all add: contents_def Let_def)

lemma rehash_contents: "rehash H bs i o1 = Some bs' \<Longrightarrow> contents bs' = contents bs"
proof -
  assume r: "rehash H bs i o1 = Some bs'"
  show ?thesis
  proof (cases "i < length bs")
    case True
    have "contents bs = contents (take i bs @ bs ! i # drop (Suc i) bs)" using id_take_nth_drop [OF True] by simp
    moreover have "contents bs' = contents (take i bs) @ tx_bytes (bk_tx (bs ! i)) # contents (drop (Suc i) bs)"
      using r True contents_rehash_from by (auto simp: rehash_def Let_def contents_def)
    ultimately show ?thesis by (simp add: contents_def)
  qed (use r in \<open>auto simp: rehash_def split: if_splits\<close>)
qed

lemma rehash_same:
  assumes "rehash H bs i o1 = Some bs'" and s: "same_chain bs cs" and "links H ZERO32 cs"
  shows "same_chain bs' cs"
proof (cases "i < length bs")
  case True
  have l: "length cs = length bs" using s by (simp add: list_all2_lengthD)
  have split: "cs = take i cs @ cs ! i # drop (Suc i) cs" using id_take_nth_drop [of i cs] True l by simp
  have k: "ck_ok (check_block H (hash_after ZERO32 (take i cs)) (cs ! i))" "links H (bk_hash (cs ! i)) (drop (Suc i) cs)"
    using assms(3) by (subst (asm) split, simp add: links_append)+
  have b: "same_block (rehash_block H None (bs ! i)) (cs ! i)"
    by (rule rehash_block_same [OF _ k(1)]) (use s True in \<open>simp_all add: list_all2_nthD\<close>)
  have tl: "same_chain (drop (Suc i) bs) (drop (Suc i) cs)" by (rule list_all2_dropI [OF s])
  have "bk_hash (rehash_block H None (bs ! i)) = bk_hash (cs ! i)" using b by (simp add: same_block_def)
  then have "same_chain (take i bs @ rehash_block H None (bs ! i) #
      (if o1 then drop (Suc i) bs else rehash_from H (bk_hash (rehash_block H None (bs ! i))) (drop (Suc i) bs)))
      (take i cs @ cs ! i # drop (Suc i) cs)"
    using b tl rehash_from_same [OF tl k(2)] list_all2_takeI [OF s] by (intro list_all2_appendI) auto
  then show ?thesis using assms(1) True split by (simp add: rehash_def Let_def)
qed (use assms in \<open>auto simp: rehash_def split: if_splits\<close>)

inductive panel_reachable :: "host \<Rightarrow> world \<Rightarrow> chain_panel \<Rightarrow> bool" for H w where
  panel_start: "panel_reachable H w (fresh_panel (w_blocks w))"
| panel_event: "panel_reachable H w cp \<Longrightarrow> panel_reachable H w (chain_step H w e cp)"

definition panel_inv :: "world \<Rightarrow> chain_panel \<Rightarrow> bool" where
  "panel_inv w cp \<longleftrightarrow>
     length (shown_copy w cp) = length (w_blocks w) \<and>
     (contents (shown_copy w cp) = contents (w_blocks w) \<longrightarrow> same_chain (shown_copy w cp) (w_blocks w)) \<and>
     (cp_stage cp = Clean \<longrightarrow> cp_forged cp = None)"

lemma contents_length: "contents bs = contents cs \<Longrightarrow> length bs = length cs"
  by (metis contents_def length_map)

lemma tamper_same:
  assumes "tamper bs i a b = Some bs1"
  shows "length bs1 = length bs" "contents bs1 = contents bs \<Longrightarrow> same_chain bs1 bs"
proof -
  define t where "t = (bs ! i)\<lparr>bk_tx := (bk_tx (bs ! i))\<lparr>tx_input := tampered_input (tx_input (bk_tx (bs ! i))) a b\<rparr>\<rparr>"
  have i: "i < length bs" and bs1: "bs1 = bs[i := t]" using assms by (auto simp: tamper_def Let_def t_def split: if_splits)
  show "length bs1 = length bs" by (simp add: bs1)
  assume c: "contents bs1 = contents bs"
  have "contents bs1 ! i = tx_bytes (bk_tx t)" "contents bs ! i = tx_bytes (bk_tx (bs ! i))"
    using i by (simp_all add: contents_def bs1)
  then have "same_block t (bs ! i)" using c by (simp add: same_block_def t_def)
  then have "same_block (bs[i := t] ! j) (bs ! j)" if "j < length bs" for j
    using that i by (cases "j = i") (simp_all add: same_block_def)
  then show "same_chain bs1 bs" by (simp add: list_all2_conv_all_nth bs1)
qed

lemma rehash_keeps_panel:
  assumes "panel_inv w cp" and "chain_ok H (w_blocks w)" and "cp_forged cp = Some bs" and "rehash H bs i o1 = Some bs'"
  shows "panel_inv w (cp\<lparr>cp_forged := Some bs', cp_stage := s\<rparr>) \<or> s = Clean"
proof -
  note c = rehash_contents [OF assms(4)]
  have "same_chain bs' (w_blocks w)" if "contents bs' = contents (w_blocks w)"
    using rehash_same [OF assms(4)] assms(1-3) that c by (simp add: panel_inv_def shown_copy_def chain_ok_links)
  then show ?thesis
    using assms(1,3) contents_length [OF c] by (simp add: panel_inv_def shown_copy_def)
qed

lemma repaired_panel:
  assumes "panel_inv w cp" and "chain_ok H (w_blocks w)" and "s \<noteq> Clean"
  shows "panel_inv w (case Option.bind (cp_forged cp) (\<lambda>bs. rehash H bs i o1) of
      Some bs \<Rightarrow> cp\<lparr>cp_forged := Some bs, cp_stage := s\<rparr> | None \<Rightarrow> cp)"
proof (cases "Option.bind (cp_forged cp) (\<lambda>bs. rehash H bs i o1)")
  case (Some bs')
  then obtain bs where "cp_forged cp = Some bs" "rehash H bs i o1 = Some bs'" by (cases "cp_forged cp") auto
  then show ?thesis using rehash_keeps_panel [OF assms(1,2), of bs i o1 bs' s] assms(3) Some by simp
qed (use assms(1) in simp)

lemma panel_step:
  assumes i: "panel_inv w cp" and c: "chain_ok H (w_blocks w)"
  shows "panel_inv w (chain_step H w e cp)"
proof (cases e)
  case EditBlock
  let ?i = "min (cp_pick cp) (length (w_blocks w) - 1)"
  obtain a b where ab: "edit_amounts (block_amount w ?i) = (a, b)" by (metis surj_pair)
  have "panel_inv w (cp\<lparr>cp_forged := Some bs, cp_stage := Edited\<rparr>)" if "tamper (w_blocks w) ?i a b = Some bs" for bs
    using tamper_same [OF that] by (simp add: panel_inv_def shown_copy_def)
  then show ?thesis using i by (auto simp: EditBlock Let_def ab [simplified] split: option.split)
next
  case (PickBlock k)
  then show ?thesis using i by (simp add: panel_inv_def shown_copy_def)
qed (use i repaired_panel [OF i c] in \<open>simp_all add: panel_inv_def shown_copy_def same_chain_refl\<close>)

lemma panel_reachable_inv: "panel_reachable H w cp \<Longrightarrow> chain_ok H (w_blocks w) \<Longrightarrow> panel_inv w cp"
  by (induction rule: panel_reachable.induct) (simp_all add: panel_step, simp add: panel_inv_def shown_copy_def fresh_panel_def same_chain_refl)

lemma length_ZERO32: "length (hexToBytes ZERO32) = 32"
  by code_simp

lemma header_inject:
  assumes k: "\<And>x. length (h_keccak H x) = 32"
    and "ck_ok (check_block H (hash_after ZERO32 bs) b)" and "ck_ok (check_block H (hash_after ZERO32 cs) c)"
    and "links H ZERO32 bs" and "links H ZERO32 cs" and "length bs = length cs" and "headerPreimage b = headerPreimage c"
  shows "hash_after ZERO32 bs = hash_after ZERO32 cs" "bk_txHash b = bk_txHash c"
proof -
  have h: "hash_after ZERO32 xs = ZERO32 \<and> xs = [] \<or> (\<exists>x. hash_after ZERO32 xs = bytesToHex (h_keccak H x))" if "links H ZERO32 xs" for xs
    proof (cases xs rule: rev_cases)
    case (snoc ys y)
    have "blockHashOf H y = bk_hash y" using that by (simp add: snoc links_append check_block_def Let_def)
    then have "bk_hash y = bytesToHex (h_keccak H (headerPreimage y))" by (simp add: blockHashOf_def)
    then show ?thesis by (auto simp: snoc hash_after_def)
  qed (simp add: hash_after_def)
  have l: "length (hexToBytes (hash_after ZERO32 xs)) = 32" if "links H ZERO32 xs" for xs
    using h [OF that] k length_ZERO32 by auto
  have t: "\<exists>x. bk_txHash d = bytesToHex (h_keccak H x)" if "ck_ok (check_block H p d)" for p d
    using that by (auto simp: check_block_def Let_def txHashOf_bytes) metis
  obtain x y where xy: "bk_txHash b = bytesToHex (h_keccak H x)" "bk_txHash c = bytesToHex (h_keccak H y)" using t assms(2,3) by blast
  have p: "bk_parentHash b = hash_after ZERO32 bs" "bk_parentHash c = hash_after ZERO32 cs"
    using assms(2,3) by (simp_all add: check_block_def Let_def)
  have e: "hexToBytes (hash_after ZERO32 bs) = hexToBytes (hash_after ZERO32 cs) \<and> h_keccak H x = h_keccak H y"
    using assms(7) l [OF assms(4)] l [OF assms(5)] k
    by (simp add: headerPreimage_def concat_bytes_def p xy)
  show "bk_txHash b = bk_txHash c" using e xy by simp
  show "hash_after ZERO32 bs = hash_after ZERO32 cs"
    using h [OF assms(4)] h [OF assms(5)] e assms(6) by (auto simp: hash_after_def)
qed

lemma heads_decide:
  assumes k: "\<And>x. length (h_keccak H x) = 32"
  shows "links H ZERO32 bs \<Longrightarrow> links H ZERO32 cs \<Longrightarrow> length bs = length cs \<Longrightarrow> hash_after ZERO32 bs = hash_after ZERO32 cs \<Longrightarrow>
    inj_on (h_keccak H) (hashed bs \<union> hashed cs) \<Longrightarrow> contents bs = contents cs"
proof (induction bs arbitrary: cs rule: rev_induct)
  case (snoc b bs)
  obtain c cs' where cs: "cs = cs' @ [c]" using snoc.prems(3) by (cases cs rule: rev_cases) auto
  have l: "links H ZERO32 bs" "links H ZERO32 cs'" "length bs = length cs'"
    and ok: "ck_ok (check_block H (hash_after ZERO32 bs) b)" "ck_ok (check_block H (hash_after ZERO32 cs') c)"
    using snoc.prems(1-3) by (simp_all add: cs links_append)
  have "h_keccak H (headerPreimage b) = h_keccak H (headerPreimage c)"
    using snoc.prems(4) ok by (simp add: cs hash_after_def check_block_def Let_def blockHashOf_def) (metis bytesToHex_inject)
  then have "headerPreimage b = headerPreimage c"
    by (rule inj_onD [OF snoc.prems(5)]) (simp_all add: hashed_def cs)
  note hd = header_inject [OF k ok l this]
  have "h_keccak H (tx_bytes (bk_tx b)) = h_keccak H (tx_bytes (bk_tx c))"
    using hd(2) ok by (simp add: check_block_def Let_def txHashOf_bytes) (metis bytesToHex_inject)
  then have "tx_bytes (bk_tx b) = tx_bytes (bk_tx c)"
    by (rule inj_onD [OF snoc.prems(5)]) (simp_all add: hashed_def contents_def cs)
  moreover have "contents bs = contents cs'"
    by (rule snoc.IH [OF l hd(1)], rule inj_on_subset [OF snoc.prems(5)]) (auto simp: hashed_def contents_def cs)
  ultimately show ?case by (simp add: contents_def cs)
qed (auto simp: contents_def)

lemma copies_count: "copies_agree H honest copy = (if copy_good H honest copy 2 then 5 else 4)"
  by (simp add: copies_agree_def COPIES_def upt_rec copy_good_def)

lemma panel_verdict:
  assumes k: "\<And>x. length (h_keccak H x) = 32" and c: "chain_ok H (w_blocks w)" and p: "panel_inv w cp"
    and inj: "inj_on (h_keccak H) (hashed (shown_copy w cp) \<union> hashed (w_blocks w))"
  shows "copy_good H (w_blocks w) (shown_copy w cp) 2 \<longleftrightarrow> contents (shown_copy w cp) = contents (w_blocks w)"
proof
  let ?copy = "shown_copy w cp" and ?honest = "w_blocks w"
  assume g: "copy_good H ?honest ?copy 2"
  have len: "length ?copy = length ?honest" using p by (simp add: panel_inv_def)
  have l: "links H ZERO32 ?copy" "links H ZERO32 ?honest"
    using g c by (simp_all add: copy_good_def chain_ok_links [symmetric] chain_ok_def)
  have "hash_after ZERO32 ?copy = hash_after ZERO32 ?honest"
    using g len by (auto simp: copy_good_def hash_after_def)
  then show "contents ?copy = contents ?honest" by (rule heads_decide [OF k l len _ inj])
next
  let ?copy = "shown_copy w cp" and ?honest = "w_blocks w"
  assume "contents ?copy = contents ?honest"
  then have s: "same_chain ?copy ?honest" using p by (simp add: panel_inv_def)
  have "links H ZERO32 ?copy" using same_chain_links [OF s, of H ZERO32] c by (simp add: chain_ok_links)
  then have "list_all ck_ok (verify H ?copy)" by (simp add: chain_ok_links [symmetric] chain_ok_def)
  moreover have "bk_hash (last ?copy) = bk_hash (last ?honest)"
  proof (cases "?honest = []")
    case False
    then have "?copy \<noteq> []" using list_all2_lengthD [OF s] by auto
    then have "same_block (last ?copy) (last ?honest)"
      using list_all2_nthD [OF s, of "length ?copy - 1"] False list_all2_lengthD [OF s] by (simp add: last_conv_nth)
    then show ?thesis by (simp add: same_block_def)
  qed (use list_all2_lengthD [OF s] in simp)
  ultimately show "copy_good H ?honest ?copy 2" by (simp add: copy_good_def)
qed

lemma fix_hits_selected_block:
  \<comment> \<open>the button that says it repairs the edited block repairs the selected one\<close>
  assumes "cp_stage cp = Edited" and "cp_forged cp = Some bs" and "length bs = length (w_blocks w)"
    and "i < length bs" and "j < length bs" and "i \<noteq> j"
  shows "\<exists>bs'. cp_forged (chain_step H w FixItsHash (chain_step H w (PickBlock j) cp)) = Some bs' \<and> bs' ! i = bs ! i \<and>
    cp_stage (chain_step H w FixItsHash (chain_step H w (PickBlock j) cp)) = FixedOne"
  using assms by (auto simp: rehash_def Let_def nth_append nth_Cons' min_def)

section \<open>A forged copy, for the witness\<close>

definition mix :: "bytes \<Rightarrow> bytes" where
  \<comment> \<open>of a header, the last bytes of parent, number and transaction hash; of a transaction, its last byte\<close>
  "mix bs = replicate 28 0 @ (if length bs = 160 then [1, bs ! 31, bs ! 63, bs ! 127] else [0, 0, 0, last bs])"

definition mix_host :: host where
  "mix_host = sample_host\<lparr>h_keccak := mix\<rparr>"

definition mix_blocks :: "block list" where
  "mix_blocks =
     (let a = rehash_block mix_host None first_block
      in [a, rehash_block mix_host (Some (bk_hash a)) (first_block\<lparr>bk_number := 2\<rparr>)])"

definition forged_blocks :: "block list" where
  "forged_blocks = the (rehash mix_host (the (rehash mix_host (the (tamper mix_blocks 0 0 1)) 0 True)) 0 False)"

definition mix_world :: world where
  "mix_world = sample_world\<lparr>w_blocks := mix_blocks\<rparr>"

lemma mix_parent: "bk_parentHash first_block = ZERO32"
  by (simp add: first_block_def rehash_block_def Let_def)

lemma mix_chain_ok: "chain_ok mix_host mix_blocks"
  by (simp add: chain_ok_links mix_blocks_def Let_def rehash_block_ok mix_parent)


lemma mix_contents: "contents mix_blocks = [tx_bytes (bk_tx first_block), tx_bytes (bk_tx first_block)]"
  by (simp add: contents_def mix_blocks_def Let_def)

lemma forged_contents: "contents forged_blocks =
  [tx_bytes ((bk_tx first_block)\<lparr>tx_input := tampered_input (tx_input (bk_tx first_block)) 0 1\<rparr>), tx_bytes (bk_tx first_block)]"
  by (simp add: contents_def forged_blocks_def mix_blocks_def Let_def tamper_def rehash_def rehash_block_def tx_bytes_def)

lemma mix_txs:
  "mix (tx_bytes (bk_tx first_block)) = replicate 31 0 @ [5]"
  "mix (tx_bytes ((bk_tx first_block)\<lparr>tx_input := tampered_input (tx_input (bk_tx first_block)) 0 1\<rparr>)) = replicate 31 0 @ [0xfa]"
  by code_simp+

lemma mix_words: "length (hexToBytes ZERO32) = 32" "hexToBytes ZERO32 ! 31 = 0" "uintWord 1 ! 31 = 1" "uintWord 2 ! 31 = 2"
  by code_simp+

lemma mix_header:
  "length p = 32 \<Longrightarrow> length x = 32 \<Longrightarrow> length s = 32 \<Longrightarrow>
   mix (concat_bytes [p, uintWord n, uintWord t, x, s]) = replicate 28 0 @ [1, p ! 31, uintWord n ! 31, x ! 31]"
  by (simp add: mix_def concat_bytes_def nth_append)

lemma mix_length: "length (mix x) = 32" "h_keccak mix_host = mix"
  by (simp_all add: mix_def mix_host_def)

lemma first_block_fields: "bk_number first_block = 1" "bk_stateRoot first_block = ZERO32" "bk_parentHash first_block = ZERO32"
  by (simp_all add: first_block_def rehash_block_def Let_def)

lemma mixed_header:
  "mix (headerPreimage (rehash_block mix_host p b)) = replicate 28 0 @
     [1, hexToBytes (case p of None \<Rightarrow> bk_parentHash b | Some q \<Rightarrow> q) ! 31, uintWord (bk_number b) ! 31, mix (tx_bytes (bk_tx b)) ! 31]"
  if "length (hexToBytes (case p of None \<Rightarrow> bk_parentHash b | Some q \<Rightarrow> q)) = 32" "bk_stateRoot b = ZERO32"
  using that mix_header [OF that(1), of "mix (tx_bytes (bk_tx b))" "hexToBytes ZERO32" "bk_number b" "bk_timestamp b"]
  by (cases p) (simp_all add: headerPreimage_def rehash_block_def Let_def txHashOf_bytes mix_length mix_words(1))

lemma rehashed_fields:
  "bk_hash (rehash_block mix_host p b) = bytesToHex (mix (headerPreimage (rehash_block mix_host p b)))"
  "bk_parentHash (rehash_block mix_host None b) = bk_parentHash b" "bk_number (rehash_block mix_host p b) = bk_number b"
  "bk_stateRoot (rehash_block mix_host p b) = bk_stateRoot b"
  by (cases p; simp add: rehash_block_def Let_def blockHashOf_def headerPreimage_def mix_length)+

lemma rehashed_tx:
  "tx_input (bk_tx (rehash_block H p b)) = tx_input (bk_tx b)"
  "tx_bytes ((bk_tx (rehash_block H p b))\<lparr>tx_input := v\<rparr>) = tx_bytes ((bk_tx b)\<lparr>tx_input := v\<rparr>)"
  by (cases p; simp add: rehash_block_def Let_def tx_bytes_def)+

lemma mix_headers:
  "map mix (map headerPreimage mix_blocks) = [replicate 28 0 @ [1, 0, 1, 5], replicate 28 0 @ [1, 5, 2, 5]]"
  by (simp add: mix_blocks_def Let_def mixed_header rehashed_fields first_block_fields mix_words mix_txs mix_length nth_append)

lemma forged_headers:
  "map mix (map headerPreimage forged_blocks) = [replicate 28 0 @ [1, 0, 1, 0xfa], replicate 28 0 @ [1, 0xfa, 2, 5]]"
  by (simp add: forged_blocks_def tamper_def rehash_def rehashed_tx mix_blocks_def Let_def mixed_header rehashed_fields first_block_fields mix_words mix_txs mix_length nth_append)

lemma mix_apart: "inj_on (h_keccak mix_host) (hashed forged_blocks \<union> hashed mix_blocks)"
proof -
  obtain a b where ab: "mix_blocks = [a, b]" using mix_headers by (auto simp: map_eq_Cons_conv)
  obtain c d where cd: "forged_blocks = [c, d]" using forged_headers by (auto simp: map_eq_Cons_conv)
  define h1 h2 k1 k2 where "h1 = headerPreimage a" and "h2 = headerPreimage b" and "k1 = headerPreimage c" and "k2 = headerPreimage d"
  then have h: "map headerPreimage mix_blocks = [h1, h2]" "map headerPreimage forged_blocks = [k1, k2]" by (simp_all add: ab cd)
  let ?c = "tx_bytes (bk_tx first_block)"
  let ?d = "tx_bytes ((bk_tx first_block)\<lparr>tx_input := tampered_input (tx_input (bk_tx first_block)) 0 1\<rparr>)"
  have "hashed forged_blocks \<union> hashed mix_blocks = {?d, ?c, k1, k2, h1, h2}"
    unfolding hashed_def set_map [symmetric] h mix_contents forged_contents by auto
  moreover have "mix h1 = replicate 28 0 @ [1, 0, 1, 5]" "mix h2 = replicate 28 0 @ [1, 5, 2, 5]"
    "mix k1 = replicate 28 0 @ [1, 0, 1, 0xfa]" "mix k2 = replicate 28 0 @ [1, 0xfa, 2, 5]"
    using mix_headers forged_headers unfolding h by simp_all
  moreover have "replicate 31 0 = replicate 28 (0::byte) @ [0, 0, 0]" by (simp add: numeral_eq_Suc)
  ultimately show ?thesis using mix_txs by (auto simp: mix_length)
qed

lemma mix_differ: "contents forged_blocks \<noteq> contents mix_blocks"
proof
  assume "contents forged_blocks = contents mix_blocks"
  then have "map mix (contents forged_blocks) = map mix (contents mix_blocks)" by simp
  then show False by (simp add: mix_contents forged_contents mix_txs)
qed

lemma rogue_drill_burns:
  \<comment> \<open>with a cap lowered below what was minted, the drill's mint has a negative amount, and the contract takes it\<close>
  assumes "tk_bridges (w_token w) Kiosk = Some i" and "br_allowed i" and "mint_room w i < 0"
  shows "\<exists>x'. fst (bridgeMint_body H Kiosk Mallory (mint_room w i) r w c) = Inr x' \<and>
    tk_supply (w_token x') < tk_supply (w_token w) \<and> tk_bal (w_token x') (Wallet Mallory) < tk_bal (w_token w) (Wallet Mallory)"
proof -
  have "listed_bridge w Kiosk i" using assms(1,2) by (simp add: listed_bridge_def)
  moreover have "br_minted (open_window (w_t w) i) + mint_room w i \<le> br_cap i"
    by (simp add: mint_room_def open_window_def)
  ultimately show ?thesis using assms(3) by (auto simp: bridgeMint_commits)
qed

section \<open>The properties\<close>

lemma this_kept: "pg_sound H st \<Longrightarrow> this_world st \<in> set (hi_worlds (pg_hist st))"
  by (simp add: pg_sound_def this_world_def)




lemma sample_answering: "answering sample_host"
  using sample_ecdsa_ok sample_keccak by (simp add: answering_def ecdsa_ok_def)

lemma first_interval: "0 < p_receiptBytes (w_params (this_world (first_playground narrow)))"
  by (simp add: this_world_def first_playground_def first_hist_def createWorld_def DEFAULT_PARAMS_def)



text \<open>\<open>Play all\<close> ends and can be taken back one action at a time: with at most 70 worlds kept, at most eleven times \<open>Undo\<close>
  after it leave exactly the worlds that were kept before.\<close>
theorem play_all_undoable:
  assumes "answering H" and "pg_reachable H st" and "0 < p_receiptBytes (w_params (this_world st))"
    and "length (hi_worlds (pg_hist st)) \<le> 70"
  shows "snd (play_all H ns st) \<and>
    (\<exists>n \<le> 11. hi_worlds ((undo_world ^^ n) (pg_hist (fst (play_all H ns st)))) = hi_worlds (pg_hist st))"
proof -
  note s = reachable_pg_sound [OF assms(2)]
  let ?w = "if w_session (this_world st) \<noteq> None then closeSession (this_world st) else this_world st"
  obtain st1 a fin where p: "play_from H ns [pg_active st..<length STEPS] ?w (pg_active st) st = ((st1, a), fin)" by (metis surj_pair)
  have "length (hi_worlds (pg_hist st)) + length [pg_active st..<length STEPS] \<le> 81" using assms(4) steps_length by simp
  from play_from_appends [OF p this] obtain ws
    where ws: "hi_worlds (pg_hist st1) = hi_worlds (pg_hist st) @ ws" "length ws \<le> length STEPS - pg_active st" by auto
  have h: "pg_hist (fst (play_all H ns st)) = pg_hist st1" using p by (simp add: play_all_def Let_def)
  have ne: "hi_worlds (pg_hist st) \<noteq> []" using s by (simp add: pg_sound_def)
  have "hi_worlds ((undo_world ^^ length ws) (pg_hist st1)) = hi_worlds (pg_hist st)"
    using undo_worlds [of "length ws" "pg_hist st1"] ne ws(1) by simp
  moreover have "length ws \<le> 11" using ws(2) by (simp add: steps_length)
  ultimately show ?thesis using play_all_returns [OF assms(1) s assms(3)] h by auto
qed

lemma play_all_undoable_witness:
  "\<exists>n \<le> 11. hi_worlds ((undo_world ^^ n) (pg_hist (fst (play_all sample_host (\<lambda>_. 1) (first_playground True)))))
     = [createWorld DEFAULT_PARAMS]"
  using play_all_undoable [OF sample_answering pg_start first_interval, of True "\<lambda>_. 1"]
  by (simp add: first_playground_def first_hist_def)

text \<open>C22. In the chain panel, whatever is edited, repaired, restored and selected, and in whatever order: the copy of Node C is
  counted among the copies that are valid and agree exactly if every one of its blocks carries the transaction the honest chain
  has there, unless two of the hashed messages collide.  A rebuilt copy that passes its own check is outvoted by the head.\<close>
theorem edited_copy_outvoted:
  assumes "\<And>x. length (h_keccak H x) = 32" and "list_all ck_ok (verify H (w_blocks w))" and "panel_reachable H w cp"
    and "inj_on (h_keccak H) (hashed (shown_copy w cp) \<union> hashed (w_blocks w))"
  shows "copies_agree H (w_blocks w) (shown_copy w cp) = (if contents (shown_copy w cp) = contents (w_blocks w) then 5 else 4)"
proof -
  have c: "chain_ok H (w_blocks w)" using assms(2) by (simp add: chain_ok_def)
  show ?thesis
    using panel_verdict [OF assms(1) c panel_reachable_inv [OF assms(3) c] assms(4)] by (simp add: copies_count)
qed

lemma edited_copy_outvoted_witness:
  "let cp = chain_step mix_host mix_world FixAllAfter (chain_step mix_host mix_world FixItsHash
       (chain_step mix_host mix_world EditBlock (chain_step mix_host mix_world (PickBlock 0) (fresh_panel mix_blocks))))
   in copies_agree mix_host mix_blocks (shown_copy mix_world cp) = 4"
proof -
  define cp where "cp = chain_step mix_host mix_world FixAllAfter (chain_step mix_host mix_world FixItsHash
       (chain_step mix_host mix_world EditBlock (chain_step mix_host mix_world (PickBlock 0) (fresh_panel mix_blocks))))"
  have w: "w_blocks mix_world = mix_blocks" "w_ledger mix_world = []"
    by (simp_all add: mix_world_def sample_world_def createWorld_def)
  have len: "length mix_blocks = 2" "mix_blocks \<noteq> []" by (simp_all add: mix_blocks_def Let_def)
  have r: "panel_reachable mix_host mix_world cp"
    unfolding cp_def w(1) [symmetric] by (intro panel_event panel_start)
  have s: "shown_copy mix_world cp = forged_blocks"
    by (simp add: cp_def fresh_panel_def w len block_amount_def edit_amounts_def tamper_def rehash_def Let_def shown_copy_def
        forged_blocks_def)
  have "copies_agree mix_host (w_blocks mix_world) (shown_copy mix_world cp) = 4"
  proof (subst edited_copy_outvoted [OF _ _ r])
    show "inj_on (h_keccak mix_host) (hashed (shown_copy mix_world cp) \<union> hashed (w_blocks mix_world))"
      unfolding s w(1) by (rule mix_apart)
    show "list_all ck_ok (verify mix_host (w_blocks mix_world))" using mix_chain_ok by (simp add: w chain_ok_def)
  qed (simp_all add: s w mix_differ mix_length)
  then show ?thesis unfolding Let_def cp_def [symmetric] w .
qed

end
