(* ===== verification/Spec2Isabelle.thy ===== *)
theory Spec2Isabelle
  imports Guarantees SettlementGuarantees EngineGuarantees Ledger JourneyGuarantees GateGuarantees GateSafety
    PlayerGuarantees DocGuarantees ArticleGuarantees PresenterGuarantees DeckFacts PlanGuarantees Evidence
    ScoutGuarantees ScoutAli DeviceFacts StartupFacts PlaygroundGuarantees
begin

text \<open>
  \<^bold>\<open>A model of the xKoin repository.\<close>

  xKoin sells metered internet access: a wallet buys tokens at a kiosk (a bridge mints them), deposits them in an
  escrow, and pays a node for the data it receives with signed, cumulative tickets, which the node settles in
  batches; the treasury takes a fee.  The repository holds the Solidity contracts, and, in JavaScript, a web
  site that carries a port of these contracts to the browser (the demo), an animation player, blueprints of the
  hardware, a budget page and the project's documentation, and a password gate in front of it.  The model
  covers the JavaScript that computes; it is a shallow embedding, each function of the source being a
  definition of the same name where the name is free.

  \<^bold>\<open>The parts and how they interact\<close>

  \<^enum> The demo, \<open>web/src/demo/\<close>.  Every contract function runs through \<open>call\<close> of \<open>engine.js\<close>: it copies the world,
    moves the clock and the block number on, runs the body, rolls back when the body reverts or the caller
    cannot pay the gas, and writes a ledger entry and, on chain, a sealed block.  \<open>flows.js\<close> composes calls to
    journeys and drills, \<open>steps.js\<close> offers them as the steps of the playground, \<open>narrative.js\<close> and \<open>chain.js\<close>
    read the ledger and the blocks.
  \<^enum> The gate, \<open>docker/gate/server.mjs\<close>: an HTTP server that a reverse proxy asks (\<open>/auth\<close>) whether a
    visitor has a session, and that hands out signed session cookies for a password.
  \<^enum> The player and the sheets, \<open>web/src/player/\<close> and \<open>web/src/blueprints/layout.js\<close>: a clock driven by
    animation frames, and the picture a sheet shows at a time of that clock.
  \<^enum> The documentation, \<open>web/src/docs/blocks.js\<close>, \<open>web/src/lib/docs.js\<close>, \<open>scripts/reflow-markdown.mjs\<close>, and the
    budget, \<open>web/src/lib/money.js\<close> and \<open>web/src/startup/\<close>.
  \<^enum> The price scouts, \<open>scripts/scout/\<close>: command line programs that search shops for the parts of the kit, several at a
    time, and write a report for each part.

  \<^bold>\<open>The theories\<close>

  Shared:
  \<^item> \<open>Prelude\<close>: strings, decimal printing, \<open>Math.round\<close> and lists as JavaScript has them, and the collections
    \<open>body_simps\<close>, \<open>frame_simps\<close> and \<open>fn_simps\<close>.

  The demo:
  \<^item> \<open>Crypto\<close> (\<open>crypto.js\<close>): hex, 32-byte words, EIP-712 digests, compact signatures, vouchers.
  \<^item> \<open>Abi\<close> (\<open>abi.js\<close>): types, \<open>encodeStatic\<close>, \<open>encodeDynamic\<close>, calldata.  \<open>Gas\<close> (\<open>gas.js\<close>): gas per call and its cost.
  \<^item> \<open>World\<close> (\<open>engine.js\<close>): the actors, the \<open>world\<close> record with the three contracts, entries and blocks.
  \<^item> \<open>Engine\<close> (\<open>engine.js\<close>): \<open>call\<close>, \<open>finish\<close>, \<open>charge\<close>, \<open>seal_block\<close>.  A body is a function from a world and a
    context to an error or a world; a revert and a rejection are values of the sum.
  \<^item> \<open>Token\<close>, \<open>Escrow\<close>, \<open>Treasury\<close>: the bodies and calls of the three contracts and of their \<open>ownable\<close>.  A function \<open>f\<close> of the source is
    the body \<open>f_body\<close> (guards in the code's order) and the call \<open>f\<close> that runs it.
  \<^item> \<open>Offchain\<close>: the signers of tickets, permits, authorisations and vouchers, and \<open>warp\<close>.
  \<^item> \<open>Narrative\<close> (\<open>narrative.js\<close>), \<open>Chain\<close> (\<open>chain.js\<close>), \<open>Flows\<close> and \<open>Drills\<close> (\<open>flows.js\<close>, \<open>steps.js\<close>).
  \<^item> \<open>Invariants\<close>: every call as a constructor of one type, run by \<open>exec\<close>; \<open>reachable\<close> worlds; the invariant \<open>inv\<close>
    (token conservation, solvency, nonnegative balances) kept by every call.
  \<^item> \<open>Frames\<close>, \<open>Books\<close>, \<open>Calldata\<close>: what a call cannot touch; the ledger, blocks and gas accounts that the wrapper
    alone writes; the arguments of every call can be encoded.
  \<^item> \<open>Settlement\<close>, \<open>Authority\<close>, \<open>Timelocks\<close>: channels and amounts of a batch, signatures, statements about the
    clock that waiting cannot break, the mint window of a bridge.
  \<^item> \<open>Display\<close> (\<open>ui/format.js\<close>) and \<open>Ledger\<close>: what the playground prints under a step, and the ledger as an account of
    the world, with its properties.
  \<^item> \<open>Exits\<close>: an address is read back from its checksummed text; what a signed authorisation binds.
  \<^item> \<open>Journeys\<close>, \<open>Attacks\<close>: what whole flows do to supply, float and balances (the locale \<open>flow_view\<close>), the
    drills of an attacker.
  \<^item> \<open>Playground\<close> (\<open>steps.js\<close>, \<open>ui/*.jsx\<close>): the page as a state machine.  An event (a click, a key, a tick of the browse
    timer) runs a handler (\<open>pg_handle\<close>) and the effects of the browse box; the worlds one can go back to, the results, the
    open step and the forms are its state.  The chain panel is a machine of its own (\<open>chain_step\<close>).
    \<open>PlaygroundLaws\<close>: what flows, drills and buttons keep (the locale \<open>kept_world\<close>).  \<open>PlaygroundGuarantees\<close>: the handlers
    return, and the properties.
  \<^item> \<open>Samples\<close>: concrete hosts and worlds for the witnesses.
  \<^item> \<open>Guarantees\<close>, \<open>SettlementGuarantees\<close>, \<open>EngineGuarantees\<close>, \<open>ExitGuarantees\<close>, \<open>JourneyGuarantees\<close>: the properties.

  The gate:
  \<^item> \<open>GateText\<close>, \<open>GateUrl\<close>: strings as lists of UTF-16 code units, UTF-8, base64url, percent encoding, the part of the URL
    standard that \<open>safeNext\<close> relies on.
  \<^item> \<open>GateToken\<close>: configuration, passwords, \<open>sign\<close>, \<open>verify\<close>, \<open>readCookie\<close>.  \<open>GateSession\<close>: what they guarantee.
  \<^item> \<open>Gate\<close>: body reader, failure table, page, handlers and router.  A \<open>POST\<close> is two steps, \<open>post_begin\<close> (before
    the body is awaited) and \<open>post_body\<close> (after), so that other requests may come between; \<open>served\<close> is the
    relation of reachable server states.
  \<^item> \<open>GateLaws\<close>: the failure table as an implementation of a log of failures.  \<open>GateGuarantees\<close>, \<open>GateSafety\<close>:
    the properties.

  The site:
  \<^item> \<open>Player\<close>, \<open>Blueprint\<close>, \<open>PlayerGuarantees\<close>: clock and easings, routing and the animated sheet.
  \<^item> \<open>TextLines\<close>, \<open>Blocks\<close>, \<open>Corpus\<close>, \<open>Reflow\<close>, \<open>Budget\<close>, \<open>DocGuarantees\<close>: the four diagrams, the index and its
    search, the paper reflow, money labels and budget.
  \<^item> \<open>Markdown\<close> (\<open>lib/markdown.js\<close>), \<open>Article\<close> (\<open>docs/render.js\<close>, \<open>docs/glossary.js\<close>), \<open>ArticleGuarantees\<close>: the passes over
    the tree of a page, from the parsed markdown to the segments of an article.
  \<^item> \<open>Presenter\<close> (\<open>player/ScenePlayer.jsx\<close>, \<open>routes/Slides.jsx\<close>), \<open>PresenterLaws\<close>, \<open>PresenterGuarantees\<close>: the presentation player and
    the page around it as state machines over the clock.
  \<^item> \<open>Manifest\<close>, \<open>DeckTerms\<close> (\<open>decks/slides/\<close>), \<open>GlossaryEntries\<close> (\<open>docs/glossary.js\<close>), \<open>DeckFacts\<close>: the data of the founder deck
    and the glossary, and what they satisfy.
  \<^item> \<open>CostCurve\<close> (\<open>manufacturing/data.js\<close>), \<open>Shopping\<close> (\<open>shop/data.js\<close>, \<open>landing/parts.js\<close>), \<open>Deck\<close> (\<open>decks/slides/\<close>),
    \<open>PlanGuarantees\<close>: the cheaper of two cost curves, the parts list and the kit, the slide deck.
  \<^item> \<open>Devices\<close> (\<open>blueprints/devices.js\<close>), \<open>DeviceFacts\<close>: the drawings as data, and the sheets they build.
  \<^item> \<open>BudgetData\<close> (\<open>startup/data.js\<close>), \<open>KitData\<close> (the kit and the checkout under \<open>hardware/shopping/\<close>), \<open>StartupPages\<close>
    (\<open>startup/*.jsx\<close>: the bars, the rail, the tables and the map of a hundred buildings), \<open>StartupFacts\<close>.
  \<^item> \<open>Evidence\<close> (\<open>replay/data.js\<close>, \<open>shell/nav.js\<close>): labels, the address book and the route of a path.

  The price scouts:
  \<^item> \<open>Pool\<close> (\<open>pool\<close> of \<open>local.mjs\<close>): the workers as a step relation, each of which takes the next task of a shared
    counter or stores the result of the one it waits for.
  \<^item> \<open>Scrape\<close>: the regular expressions of the shops as a matcher, entities, prices and query strings.  \<open>Stores\<close>: \<open>get\<close> with
    its redirects, the seven shops, \<open>searchStore\<close>.  \<open>Scout\<close>: \<open>scoutPart\<close>, the merge into a report and the command line; the
    locale \<open>task_runner\<close> says what a report needs of the pool.  \<open>ScoutAli\<close> (\<open>ali.mjs\<close>): its arguments and the cards of a
    search page.  \<open>ScoutGuarantees\<close>: the properties.

  \<^bold>\<open>What the properties show\<close>

  \<^item> In every reachable world of the demo the supply is the sum of the balances and the escrow covers every deposit
    and earning; a failed call changes nothing but the clock and the books; gas never overdraws an account; the
    chain of blocks checks, and every call answers with an entry.
  \<^item> The ledger accounts for every balance and all gas, and what is printed under a step is what it changed.
  \<^item> A freshly signed ticket settles for what it owes or the whole deposit; it pays once, whatever is called in
    between; the amounts of a batch add up; only a client who signed pays.
  \<^item> A gasless exit goes where its client signed it to go, whoever relays it, and an authorisation is used once.
  \<^item> A step of the playground that completes keeps the peg of supply and float; a bridge mints at most the rest
    of its open window and its cap for each day begun; the drills of forgery, expiry, redirection and replay are refused.
  \<^item> The beneficiary changes a week after it was queued and not before, the price once a day and in its band, an owner
    only when a nominated account accepts.  A tampered block is found until the chain is rehashed.  A data session ends within its credit.
  \<^item> Every world the playground keeps is sound, whatever is clicked, in any order; its handlers return, given a positive
    interval of receipts; what Play all does can be undone; an edited copy of the chain is outvoted.
  \<^item> The gate lets in exactly the sessions opened with a configured password until they expire, and none that is
    signed otherwise; its limiter counts the recent failures of an address, exactly, but bounds only guesses that
    come one after the other; it redirects on its own origin only, sets a cookie only for the
    password just posted, and shows no markup of the request.
  \<^item> The clock stays within the animation and plays it to its end; traces are orthogonal and join the ports they
    name; the animated packet is on its wire; the picture is empty at the start and complete at the end.
  \<^item> A diagram's tags do not depend on its texts; anchors are unique; the index is complete and sorted; a
    longer query finds fewer documents; a reflow keeps the text.
  \<^item> A rendered article keeps its text, explains a term once, carries the anchors of the index where marked finds the
    headings the index finds, links documents by their routes, and falls into segments in document order.
  \<^item> The presentation player never leaves its deck, plays it to the end by itself, and reopens a scene from its address; a
    chapter opens at its first scene.  The glossary takes the longest spelling, and no spelling has two entries.
  \<^item> The kit is cheaper up to 1,000 units and the board at 10,000; the parts list and the kit total are complete; a deck has
    one picture for each scene.
  \<^item> The pool ends with a result for every task, in order; a scouting report lists every hit once with the terms that
    found it and a line for every failure.
  \<^item> Every device draws, with every pin at its trace.  The budget's tables, bars and typed totals agree with each other
    and with the shop, and the map lights as many buildings as its counter says.

  \<^bold>\<open>Interfaces\<close>

  \<open>core_predicate\<close> (a predicate of the contracts is kept by a call that keeps it on its body), \<open>invariant_ops\<close>,
  \<open>core_view\<close> (a view that calls leave alone), \<open>flow_view\<close> (what the steps of a flow do to a view), \<open>kept_world\<close> (what calls keep, flows and drills keep), \<open>call_invariant\<close> (a statement about the books), \<open>timed\<close> (a statement
  about a view and the clock), \<open>failure_table\<close> and \<open>task_runner\<close> are locales, each interpreted on the operations of the model.

  \<^bold>\<open>Parameters\<close>

  Code that is not in the repository is an argument: Keccak, secp256k1 and ed25519 of the noble packages (record
  \<open>host\<close>), \<open>marked.parse\<close>, the browser's HTML parser and serialiser, SHA-256 and HMAC of Node (\<open>node_crypto\<close>), \<open>String(x)\<close> of a fraction, \<open>localeCompare\<close>, the
  files a bundler's glob finds, and for the scouts the answers of the network, the URL class and case folding (record \<open>net\<close>).  What is assumed of them is named: \<open>ecdsa_ok\<close>, the length of a hash, \<open>hash_ok\<close>,
  and that two messages collide neither under Keccak (\<open>keccak_apart\<close>) nor under a key's signatures (\<open>sig_apart\<close>).

  \<^bold>\<open>Numbers, loops and time\<close>

  A bigint is an \<open>int\<close>.  A number that is an amount of time, money or gas is an \<open>int\<close> or a \<open>rat\<close>, and a \<open>real\<close> where
  logarithms are taken: the rounding of doubles is not modelled, nor the search for the crossing of the cost curves, which
  depends on it; a division by a price of zero, \<open>Infinity\<close> in JavaScript, is 0 in \<open>max_bytes\<close>.  Loops are recursions with their termination proved; the only loop that may not end,
  the receipts of a session with a step of zero, is \<open>bound_loop\<close> by \<open>partial_function\<close>, and it is proved to return for a
  positive step, and with it \<open>serve_all\<close>, the loop of an instant browse.  No definition uses fuel.  The clock of the demo is part of its world; the gate's clock, a player's frame times
  and a request's arrival are arguments of the steps.

  \<^bold>\<open>Not modelled\<close>

  React pages and components but those named above, the pictures of the scenes, and the data of the replay (journeys, threats) and
  of the manufacturing page: display without state of its own.  Of \<open>lib/markdown.js\<close>, the drawing of mermaid blocks.
  The scripts that drive a browser or walk directories, and the part of \<open>ali.mjs\<close> that a browser page runs, are input and
  output.  Of modelled files: wall-clock stamps of an entry, socket set-up and signal handlers of the gate, what
  the playground prints to the console of the browser, the directory walk of the reflow script.  The Solidity, Python and C parts of the repository are in
  other languages; the demo engine is the port of the contracts and stands for them here.
\<close>

end
